(* ===== verification/Kyro_Prelude.thy ===== *)
theory Kyro_Prelude
  imports Complex_Main "HOL-Library.Sublist"
begin

text \<open>
  Shared vocabulary of the development: JSON values as the Python code sees them, the few
  built-in conversions the code applies to them, relational tables as lists of rows with the
  statements the repositories issue, and the lemmas on them every component uses.

  Times are integers (microseconds on one clock); an SQL timestamp that may be NULL is an
  \<open>option\<close>. A table is the list of its rows in insertion order.
\<close>

named_theorems table_simps "rewrite rules for table statements"
named_theorems step_defs "definitions unfolded when a single step is analysed"

type_synonym time = int

section \<open>JSON values\<close>

datatype json =
    JNull
  | JBool bool
  | JInt int
  | JFloat rat
  | JStr string
  | JArr "json list"
  | JObj "(string \<times> json) list"

type_synonym jobj = "(string \<times> json) list"

text \<open>\<open>d.get(key)\<close>: a missing key and a key holding \<open>None\<close> are told apart by the option.\<close>

definition jget :: "jobj \<Rightarrow> string \<Rightarrow> json option" where
  "jget d k = map_of d k"

definition second_micros :: int where
  "second_micros = 1000000"

definition seconds :: "int \<Rightarrow> time" where
  "seconds n = n * second_micros"

lemma seconds_mono [simp]: "seconds a \<le> seconds b \<longleftrightarrow> a \<le> b"
  by (simp add: seconds_def second_micros_def)

lemma seconds_nonneg [simp]: "0 \<le> seconds a \<longleftrightarrow> 0 \<le> a"
  by (simp add: seconds_def second_micros_def)

section \<open>Python conversions\<close>

definition is_space :: "char \<Rightarrow> bool" where
  "is_space c = (let n = (of_char c :: nat) in (9 \<le> n \<and> n \<le> 13) \<or> (28 \<le> n \<and> n \<le> 32))"

definition py_strip :: "string \<Rightarrow> string" where
  "py_strip s = rev (dropWhile is_space (rev (dropWhile is_space s)))"

definition is_digit :: "char \<Rightarrow> bool" where
  "is_digit c = (let n = (of_char c :: nat) in 48 \<le> n \<and> n \<le> 57)"

definition digit_value :: "char \<Rightarrow> int" where
  "digit_value c = int (of_char c) - 48"

text \<open>
  The digits of an integer literal: single underscores are allowed between digits, nothing
  else is, and the literal may not end in one.
\<close>

fun digits_value :: "string \<Rightarrow> int \<Rightarrow> bool \<Rightarrow> int option" where
  "digits_value [] acc after_digit = (if after_digit then Some acc else None)"
| "digits_value (c # cs) acc after_digit =
     (if is_digit c then digits_value cs (10 * acc + digit_value c) True
      else if c = CHR ''_'' \<and> after_digit then digits_value cs acc False
      else None)"

definition parse_int :: "string \<Rightarrow> int option" where
  "parse_int s =
     (case py_strip s of
        [] \<Rightarrow> None
      | c # cs \<Rightarrow>
          if c = CHR ''-'' then map_option uminus (digits_value cs 0 False)
          else if c = CHR ''+'' then digits_value cs 0 False
          else digits_value (c # cs) 0 False)"

text \<open>
  \<open>int(x)\<close>: \<open>None\<close> is the TypeError or ValueError it raises. Floats truncate towards zero.
\<close>

definition py_int :: "json \<Rightarrow> int option" where
  "py_int v =
     (case v of
        JInt n \<Rightarrow> Some n
      | JBool b \<Rightarrow> Some (if b then 1 else 0)
      | JFloat q \<Rightarrow> Some (if 0 \<le> q then \<lfloor>q\<rfloor> else \<lceil>q\<rceil>)
      | JStr s \<Rightarrow> parse_int s
      | _ \<Rightarrow> None)"

text \<open>Decimal text of an integer.\<close>

fun nat_digits :: "nat \<Rightarrow> string" where
  "nat_digits n = (if n < 10 then [char_of (48 + n)]
                   else nat_digits (n div 10) @ [char_of (48 + n mod 10)])"

declare nat_digits.simps [simp del]

definition int_text :: "int \<Rightarrow> string" where
  "int_text n = (if n < 0 then CHR ''-'' # nat_digits (nat (- n)) else nat_digits (nat n))"

text \<open>
  \<open>str(x)\<close>; \<open>render\<close> is the text Python gives floats, lists and dictionaries.
\<close>

definition py_str :: "(json \<Rightarrow> string) \<Rightarrow> json \<Rightarrow> string" where
  "py_str render v =
     (case v of
        JStr s \<Rightarrow> s
      | JNull \<Rightarrow> ''None''
      | JBool b \<Rightarrow> (if b then ''True'' else ''False'')
      | JInt n \<Rightarrow> int_text n
      | _ \<Rightarrow> render v)"

text \<open>Truth value: \<open>x or y\<close> takes \<open>y\<close> when \<open>x\<close> is missing, null, zero or empty.\<close>

definition py_truthy :: "json \<Rightarrow> bool" where
  "py_truthy v =
     (case v of
        JNull \<Rightarrow> False
      | JBool b \<Rightarrow> b
      | JInt n \<Rightarrow> n \<noteq> 0
      | JFloat q \<Rightarrow> q \<noteq> 0
      | JStr s \<Rightarrow> s \<noteq> []
      | JArr xs \<Rightarrow> xs \<noteq> []
      | JObj d \<Rightarrow> d \<noteq> [])"

definition ascii_lower :: "string \<Rightarrow> string" where
  "ascii_lower s = map (\<lambda>c. let n = (of_char c :: nat) in
     if 65 \<le> n \<and> n \<le> 90 then char_of (n + 32) else c) s"

text \<open>\<^verbatim>\<open>value or default\<close> on strings.\<close>

definition or_default :: "string \<Rightarrow> string \<Rightarrow> string" where
  "or_default v dflt = (if v = [] then dflt else v)"

text \<open>\<^verbatim>\<open>text.replace(old, new)\<close> for a non-empty \<open>old\<close>.\<close>

function py_replace :: "string \<Rightarrow> string \<Rightarrow> string \<Rightarrow> string" where
  "py_replace old new [] = []"
| "py_replace old new (c # cs) =
     (if old \<noteq> [] \<and> prefix old (c # cs) then new @ py_replace old new (drop (length old) (c # cs))
      else c # py_replace old new cs)"
  by pat_completeness auto

termination
proof (relation "measure (\<lambda>(_, _, s). length s)")
  show "((old, new, drop (length old) (c # cs)), old, new, c # cs) \<in> measure (\<lambda>(_, _, s). length s)"
    if "old \<noteq> [] \<and> prefix old (c # cs)" for old new c cs
    using that by (cases old) auto
qed auto

section \<open>Tables\<close>

text \<open>\<open>UPDATE t SET f WHERE p\<close>.\<close>

definition update_where :: "('r \<Rightarrow> bool) \<Rightarrow> ('r \<Rightarrow> 'r) \<Rightarrow> 'r list \<Rightarrow> 'r list" where
  "update_where p f t = map (\<lambda>r. if p r then f r else r) t"

text \<open>\<open>DELETE FROM t WHERE p\<close>.\<close>

definition delete_where :: "('r \<Rightarrow> bool) \<Rightarrow> 'r list \<Rightarrow> 'r list" where
  "delete_where p t = filter (\<lambda>r. \<not> p r) t"

text \<open>\<open>INSERT ... ON CONFLICT (key) DO NOTHING\<close>.\<close>

definition insert_new :: "('r \<Rightarrow> 'k) \<Rightarrow> 'r \<Rightarrow> 'r list \<Rightarrow> 'r list" where
  "insert_new key r t = (if key r \<in> set (map key t) then t else t @ [r])"

text \<open>\<open>SELECT count(*) FROM t WHERE p\<close>.\<close>

definition count_where :: "('r \<Rightarrow> bool) \<Rightarrow> 'r list \<Rightarrow> nat" where
  "count_where p t = length (filter p t)"

text \<open>\<open>col < x\<close> and \<open>col >= x\<close> on a nullable column: NULL compares as unknown.\<close>

definition sql_less :: "time option \<Rightarrow> time \<Rightarrow> bool" where
  "sql_less c x = (case c of None \<Rightarrow> False | Some t \<Rightarrow> t < x)"

definition sql_ge :: "time option \<Rightarrow> time \<Rightarrow> bool" where
  "sql_ge c x = (case c of None \<Rightarrow> False | Some t \<Rightarrow> x \<le> t)"

definition unique_key :: "('r \<Rightarrow> 'k) \<Rightarrow> 'r list \<Rightarrow> bool" where
  "unique_key key t = distinct (map key t)"

subsection \<open>Lemmas on tables\<close>

lemma length_update_where [simp]: "length (update_where p f t) = length t"
  by (simp add: update_where_def)

lemma update_where_Nil [simp]: "update_where p f [] = []"
  by (simp add: update_where_def)

lemma set_update_where [table_simps]:
  "set (update_where p f t) = (\<lambda>r. if p r then f r else r) ` set t"
  by (simp add: update_where_def)

lemma in_update_where:
  "r \<in> set (update_where p f t) \<Longrightarrow> \<exists>x \<in> set t. r = (if p x then f x else x)"
  by (auto simp: update_where_def)

lemma update_where_cong_key:
  "(\<And>r. key (f r) = key r) \<Longrightarrow> map key (update_where p f t) = map key t"
  by (auto simp: update_where_def)

lemma update_where_none: "(\<And>r. r \<in> set t \<Longrightarrow> \<not> p r) \<Longrightarrow> update_where p f t = t"
  by (auto simp: update_where_def intro: map_idI)

lemma unique_key_update_where:
  "unique_key key t \<Longrightarrow> (\<And>r. key (f r) = key r) \<Longrightarrow> unique_key key (update_where p f t)"
  by (simp add: unique_key_def update_where_cong_key)

lemma unique_key_insert_new: "unique_key key t \<Longrightarrow> unique_key key (insert_new key r t)"
  by (auto simp: unique_key_def insert_new_def)

lemma unique_key_delete_where: "unique_key key t \<Longrightarrow> unique_key key (delete_where p t)"
  by (auto simp: unique_key_def delete_where_def distinct_map intro: inj_on_subset)

lemma unique_keyD: "unique_key key t \<Longrightarrow> r \<in> set t \<Longrightarrow> r' \<in> set t \<Longrightarrow> key r = key r' \<Longrightarrow> r = r'"
  by (auto simp: unique_key_def distinct_map dest: inj_onD)

lemma set_insert_new [table_simps]:
  "set (insert_new key r t) = (if key r \<in> key ` set t then set t else insert r (set t))"
  by (simp add: insert_new_def)

lemma set_delete_where [table_simps]: "set (delete_where p t) = {r \<in> set t. \<not> p r}"
  by (auto simp: delete_where_def)

lemma find_in_set: "find p t = Some r \<Longrightarrow> r \<in> set t \<and> p r"
  by (metis find_Some_iff nth_mem)

lemma find_update_where_other:
  "(\<And>r. r \<in> set t \<Longrightarrow> q r \<Longrightarrow> \<not> p r) \<Longrightarrow> (\<And>r. r \<in> set t \<Longrightarrow> p r \<Longrightarrow> \<not> q (f r)) \<Longrightarrow>
   find q (update_where p f t) = find q t"
  by (induction t) (auto simp: update_where_def)

lemma find_None_all: "find p t = None \<longleftrightarrow> (\<forall>r \<in> set t. \<not> p r)"
  by (auto simp: find_None_iff)

lemma sql_less_simps [simp]: "sql_less None x = False" "sql_less (Some t) x = (t < x)"
  by (simp_all add: sql_less_def)

lemma sql_ge_simps [simp]: "sql_ge None x = False" "sql_ge (Some t) x = (x \<le> t)"
  by (simp_all add: sql_ge_def)

lemma sql_less_ge: "sql_less c x \<Longrightarrow> \<not> sql_ge c x"
  by (cases c) auto

lemma count_where_Nil [simp]: "count_where p [] = 0"
  by (simp add: count_where_def)

lemma count_where_append [simp]: "count_where p (t @ u) = count_where p t + count_where p u"
  by (simp add: count_where_def)

lemma count_where_single [simp]: "count_where p [r] = (if p r then 1 else 0)"
  by (simp add: count_where_def)

subsection \<open>Row lookup by key\<close>

text \<open>\<open>SELECT * FROM t WHERE key = k\<close>, first row.\<close>

definition lookup :: "('r \<Rightarrow> 'k) \<Rightarrow> 'k \<Rightarrow> 'r list \<Rightarrow> 'r option" where
  "lookup key k t = find (\<lambda>r. key r = k) t"

lemma lookup_Nil [simp]: "lookup key k [] = None"
  by (simp add: lookup_def)

lemma lookup_Some_in: "lookup key k t = Some r \<Longrightarrow> r \<in> set t \<and> key r = k"
  unfolding lookup_def by (drule find_in_set) simp

lemma lookup_None_iff: "lookup key k t = None \<longleftrightarrow> k \<notin> key ` set t"
  by (auto simp: lookup_def find_None_iff)

lemma lookup_update_where:
  "(\<And>r. key (f r) = key r) \<Longrightarrow>
   lookup key k (update_where p f t) = map_option (\<lambda>r. if p r then f r else r) (lookup key k t)"
  by (induction t) (auto simp: lookup_def update_where_def)

lemma lookup_append:
  "lookup key k (t @ u) = (case lookup key k t of Some r \<Rightarrow> Some r | None \<Rightarrow> lookup key k u)"
  by (induction t) (auto simp: lookup_def)

lemma lookup_insert_new:
  "lookup key k (insert_new key r t) =
     (case lookup key k t of Some x \<Rightarrow> Some x | None \<Rightarrow> if key r = k then Some r else None)"
proof (cases "key r \<in> key ` set t")
  case True
  then have "lookup key (key r) t \<noteq> None" by (simp add: lookup_None_iff)
  with True show ?thesis by (auto simp: insert_new_def split: option.splits)
next
  case False
  then show ?thesis
    by (auto simp: insert_new_def lookup_append split: option.splits) (auto simp: lookup_def)
qed

lemma lookup_insert_new_eq [table_simps]:
  "lookup key k (insert_new key r t) =
     (if key r = k \<and> lookup key k t = None then Some r else lookup key k t)"
  by (auto simp: lookup_insert_new split: option.splits)

lemma lookup_unique_in: "unique_key key t \<Longrightarrow> r \<in> set t \<Longrightarrow> lookup key (key r) t = Some r"
proof (cases "lookup key (key r) t")
  case None
  assume "r \<in> set t"
  with None show ?thesis by (auto simp: lookup_None_iff)
next
  case (Some x)
  assume "unique_key key t" "r \<in> set t"
  with lookup_Some_in [OF Some] have "x = r" by (auto intro: unique_keyD)
  with Some show ?thesis by simp
qed

lemma find_key_and:
  "unique_key key t \<Longrightarrow>
   find (\<lambda>r. key r = k \<and> q r) t =
     (case lookup key k t of Some r \<Rightarrow> if q r then Some r else None | None \<Rightarrow> None)"
proof (induction t)
  case (Cons a t)
  then have "unique_key key t" by (simp add: unique_key_def)
  with Cons.IH have IH: "find (\<lambda>r. key r = k \<and> q r) t =
     (case lookup key k t of Some r \<Rightarrow> if q r then Some r else None | None \<Rightarrow> None)" by simp
  show ?case
  proof (cases "key a = k")
    case True
    with Cons.prems have "lookup key k t = None"
      by (auto simp: unique_key_def lookup_None_iff)
    with IH True show ?thesis by (simp add: lookup_def)
  next
    case False
    with IH show ?thesis by (simp add: lookup_def)
  qed
qed simp

lemma unique_key_append_new:
  "unique_key key t \<Longrightarrow> lookup key (key r) t = None \<Longrightarrow> unique_key key (t @ [r])"
  by (auto simp: unique_key_def lookup_None_iff)

lemma keys_update_where: "(\<And>r. key (f r) = key r) \<Longrightarrow> key ` set (update_where p f t) = key ` set t"
  using update_where_cong_key [of key f p t] by (metis set_map)

text \<open>With a unique key, a statement on the row of one key depends on that row alone.\<close>

lemma update_where_at:
  "unique_key key t \<Longrightarrow> r \<in> set t \<Longrightarrow> f r = g r \<Longrightarrow>
   update_where (\<lambda>x. key x = key r) f t = update_where (\<lambda>x. key x = key r) g t"
  by (auto simp: update_where_def intro!: map_cong dest: unique_keyD)

lemma update_where_key_only:
  "unique_key key t \<Longrightarrow> r \<in> set t \<Longrightarrow> q r \<Longrightarrow>
   update_where (\<lambda>x. key x = key r \<and> q x) f t = update_where (\<lambda>x. key x = key r) f t"
  by (auto simp: update_where_def intro!: map_cong dest: unique_keyD)

lemma delete_where_key_only:
  "unique_key key t \<Longrightarrow> r \<in> set t \<Longrightarrow> q r \<Longrightarrow>
   delete_where (\<lambda>x. key x = key r \<and> q x) t = delete_where (\<lambda>x. key x = key r) t"
  by (auto simp: delete_where_def intro!: filter_cong dest: unique_keyD)

lemma update_where_twice:
  "(\<And>r. key (f r) = key r) \<Longrightarrow>
   update_where (\<lambda>x. key x = k) g (update_where (\<lambda>x. key x = k) f t) =
   update_where (\<lambda>x. key x = k) (\<lambda>x. g (f x)) t"
  by (auto simp: update_where_def)

lemma delete_after_update:
  "(\<And>r. key (f r) = key r) \<Longrightarrow>
   delete_where (\<lambda>x. key x = k) (update_where (\<lambda>x. key x = k) f t) = delete_where (\<lambda>x. key x = k) t"
  by (induction t) (simp_all add: delete_where_def update_where_def)

lemma count_where_key:
  "unique_key key t \<Longrightarrow> r \<in> set t \<Longrightarrow> q r \<Longrightarrow> count_where (\<lambda>x. key x = key r \<and> q x) t = 1"
proof (induction t)
  case (Cons a t)
  show ?case
  proof (cases "key a = key r")
    case True
    with Cons.prems have "a = r" by (auto intro: unique_keyD)
    moreover have "filter (\<lambda>x. key x = key r \<and> q x) t = []"
      using Cons.prems True by (auto simp: filter_empty_conv unique_key_def image_iff)
    ultimately show ?thesis using Cons.prems by (simp add: count_where_def)
  next
    case False
    with Cons show ?thesis by (auto simp: count_where_def unique_key_def)
  qed
qed simp

text \<open>Summing over a table: what one update or deletion changes.\<close>

lemma sum_update_key:
  fixes w :: "'r \<Rightarrow> nat"
  shows "unique_key key t \<Longrightarrow> r \<in> set t \<Longrightarrow>
   sum_list (map w (update_where (\<lambda>x. key x = key r) f t)) + w r = sum_list (map w t) + w (f r)"
proof (induction t)
  case (Cons a t)
  show ?case
  proof (cases "key a = key r")
    case True
    with Cons.prems have "a = r" by (auto intro: unique_keyD)
    moreover have "update_where (\<lambda>x. key x = key r) f t = t"
      using Cons.prems True by (intro update_where_none) (auto simp: unique_key_def image_iff)
    ultimately show ?thesis by (simp add: update_where_def)
  next
    case False
    with Cons have "sum_list (map w (update_where (\<lambda>x. key x = key r) f t)) + w r = sum_list (map w t) + w (f r)"
      by (auto simp: unique_key_def)
    with False show ?thesis by (simp add: update_where_def)
  qed
qed simp

lemma sum_delete_key:
  fixes w :: "'r \<Rightarrow> nat"
  shows "unique_key key t \<Longrightarrow> r \<in> set t \<Longrightarrow>
   sum_list (map w (delete_where (\<lambda>x. key x = key r) t)) + w r = sum_list (map w t)"
proof (induction t)
  case (Cons a t)
  show ?case
  proof (cases "key a = key r")
    case True
    with Cons.prems have "a = r" by (auto intro: unique_keyD)
    moreover have "delete_where (\<lambda>x. key x = key r) t = t"
      using Cons.prems True by (auto simp: delete_where_def filter_id_conv unique_key_def image_iff)
    ultimately show ?thesis by (simp add: delete_where_def)
  next
    case False
    with Cons have "sum_list (map w (delete_where (\<lambda>x. key x = key r) t)) + w r = sum_list (map w t)"
      by (auto simp: unique_key_def)
    with False show ?thesis by (simp add: delete_where_def)
  qed
qed simp

subsection \<open>Statements seen through a key\<close>

text \<open>An update restricted to the rows of one key changes at most that entry of the lookup.\<close>

lemma lookup_update_key:
  assumes "\<And>r. p r \<Longrightarrow> key r = k" and "\<And>r. key (f r) = key r"
  shows "lookup key j (update_where p f t) =
    (if j = k then map_option (\<lambda>r. if p r then f r else r) (lookup key k t) else lookup key j t)"
proof (cases "j = k")
  case False
  have "map_option (\<lambda>r. if p r then f r else r) (lookup key j t) = lookup key j t"
  proof (cases "lookup key j t")
    case (Some r)
    with lookup_Some_in [OF Some] False assms(1) [of r] show ?thesis by auto
  qed simp
  with False show ?thesis by (simp add: lookup_update_where assms(2))
qed (simp add: lookup_update_where assms(2))

lemma in_set_lookup: "unique_key key t \<Longrightarrow> r \<in> set t \<longleftrightarrow> lookup key (key r) t = Some r"
  by (auto intro: lookup_unique_in dest: lookup_Some_in)

lemma find_lookup:
  assumes "unique_key key t" and "\<And>r. p r \<Longrightarrow> key r = k" and "find p t = Some r"
  shows "lookup key k t = Some r \<and> p r"
  using assms(2) [of r] find_in_set [OF assms(3)] lookup_unique_in [OF assms(1), of r] by auto

section \<open>Systems of steps\<close>

text \<open>
  A component run by its operations: states reached from an initial one, and an invariant
  every operation keeps.
\<close>

definition reachable_from :: "('s \<Rightarrow> bool) \<Rightarrow> ('s \<Rightarrow> 's \<Rightarrow> bool) \<Rightarrow> 's \<Rightarrow> bool" where
  "reachable_from init step s \<longleftrightarrow> (\<exists>s0. init s0 \<and> step\<^sup>*\<^sup>* s0 s)"

locale invariant_system =
  fixes init :: "'s \<Rightarrow> bool" and step :: "'s \<Rightarrow> 's \<Rightarrow> bool" and inv :: "'s \<Rightarrow> bool"
  assumes init_inv: "init s \<Longrightarrow> inv s"
    and step_inv: "inv s \<Longrightarrow> step s s' \<Longrightarrow> inv s'"
begin

lemma steps_inv: "step\<^sup>*\<^sup>* s s' \<Longrightarrow> inv s \<Longrightarrow> inv s'"
  by (induction rule: rtranclp_induct) (auto intro: step_inv)

lemma reachable_inv: "reachable_from init step s \<Longrightarrow> inv s"
  unfolding reachable_from_def using steps_inv init_inv by blast

lemma steps_stable:
  assumes "\<And>s s'. inv s \<Longrightarrow> step s s' \<Longrightarrow> Q s \<Longrightarrow> Q s'" and "step\<^sup>*\<^sup>* s s'" and "inv s" and "Q s"
  shows "Q s'"
proof -
  from assms(2,3,4) have "inv s' \<and> Q s'"
    by (induction rule: rtranclp_induct) (auto intro: assms(1) step_inv)
  then show ?thesis by blast
qed

end

end
