(* ===== verification/Storage_Schema.thy ===== *)
theory Storage_Schema
  imports Kyro_Prelude
begin

text \<open>
  The rows of the tables the modelled repositories read and write, and the database state
  that holds them. Sources: \<^verbatim>\<open>src/src/packages/storage/schema.py\<close> (event tables),
  \<^verbatim>\<open>src/src/domains/command/models.py\<close> (command tables) and
  \<^verbatim>\<open>src/src/packages/contracts/event_bus/interfaces.py\<close> (the envelope).
  A nullable column is an \<open>option\<close>, a TIMESTAMP a \<open>time\<close>, a JSONB column a \<open>jobj\<close>.
\<close>

section \<open>Vocabulary\<close>

datatype command_status =
    Queued | Leased | Running | CancelRequested | Cancelling | Completed | Failed | Cancelled

fun status_name :: "command_status \<Rightarrow> string" where
  "status_name Queued = ''queued''"
| "status_name Leased = ''leased''"
| "status_name Running = ''running''"
| "status_name CancelRequested = ''cancel_requested''"
| "status_name Cancelling = ''cancelling''"
| "status_name Completed = ''completed''"
| "status_name Failed = ''failed''"
| "status_name Cancelled = ''cancelled''"

text \<open>An attempt row carries a command status or the janitor's \<open>expired\<close>.\<close>

datatype attempt_status = At command_status | Expired

datatype operation_kind = Progress | LogLine | KCompleted | KFailed | KCancelled

text \<open>The Python exceptions the repositories raise, each aborting its transaction.\<close>

datatype db_error =
    ValueError string
  | KeyError string
  | IntegrityError string
  | CommandControlNotFound string
  | CommandControlConflict string
  | DuplicateCommandControl string
  | AgentCommandCapacityExceeded string

section \<open>Event envelope and event tables\<close>

record envelope =
  env_event_id :: string
  env_subject :: string
  env_source :: string
  env_correlation_id :: string
  env_causation_id :: "string option"
  env_created_at :: time
  env_payload :: jobj
  env_schema_version :: int
  env_workspace_id :: "string option"

record event_row =
  ev_event_id :: string
  ev_subject :: string
  ev_source :: string
  ev_correlation_id :: string
  ev_causation_id :: "string option"
  ev_payload :: jobj
  ev_schema_version :: int
  ev_created_at :: time

datatype processing_status = Processing | Processed | Retrying | DeadLettered

record processing_row =
  ep_event_id :: string
  ep_consumer :: string
  ep_subject :: string
  ep_correlation_id :: string
  ep_status :: processing_status
  ep_attempts :: nat
  ep_duration_ms :: "int option"
  ep_last_error :: "string option"
  ep_updated_at :: time

record outbox_row =
  ob_id :: nat
  ob_event_id :: string
  ob_subject :: string
  ob_source :: string
  ob_correlation_id :: string
  ob_causation_id :: "string option"
  ob_workspace_id :: "string option"
  ob_occurred_at :: time
  ob_payload :: jobj
  ob_schema_version :: int
  ob_lease_id :: "string option"
  ob_leased_until :: "time option"
  ob_sent_at :: "time option"

datatype dead_letter_status = DlOpen | DlReplayed | DlArchived

record dead_letter_row =
  dl_id :: nat
  dl_original_event_id :: string
  dl_original_subject :: string
  dl_consumer :: string
  dl_correlation_id :: string
  dl_attempts :: nat
  dl_error :: string
  dl_payload :: jobj
  dl_status :: dead_letter_status
  dl_replayed_at :: "time option"
  dl_replay_event_id :: "string option"
  dl_created_at :: time

section \<open>Command tables\<close>

text \<open>
  The command plan a worker queues (\<^verbatim>\<open>Plan.to_body()\<close>), with the keys the repository
  reads; the whole plan is stored in the command's payload column. A key that may be absent
  is an \<open>option\<close>.
\<close>

record plan =
  pl_command_id :: string
  pl_workspace_id :: "string option"
  pl_cluster_id :: string
  pl_action :: string
  pl_priority :: "int option"
  pl_namespace :: "string option"
  pl_diff :: "jobj option"
  pl_payload :: "jobj option"
  pl_retry_policy :: "json option"
  pl_direct_execution :: "bool option"

record command_row =
  ac_command_id :: string
  ac_workspace_id :: string
  ac_correlation_id :: string
  ac_cluster_id :: string
  ac_action :: string
  ac_priority :: int
  ac_payload :: plan
  ac_status :: command_status
  ac_lease_id :: "string option"
  ac_agent_id :: "string option"
  ac_leased_until :: "time option"
  ac_started_at :: "time option"
  ac_completed_at :: "time option"
  ac_result :: jobj
  ac_confirmation_event_id :: "string option"
  ac_impact_identity :: string
  ac_direct_execution :: bool
  ac_attempt_count :: nat
  ac_active_attempt_id :: "string option"
  ac_cancel_requested_at :: "time option"
  ac_cancel_requested_by :: "string option"
  ac_cancel_reason :: "string option"
  ac_cancel_accepted_at :: "time option"
  ac_cancel_generation :: nat
  ac_terminal_event_id :: "string option"
  ac_created_at :: time
  ac_updated_at :: time

record attempt_row =
  at_attempt_id :: string
  at_command_id :: string
  at_workspace_id :: string
  at_cluster_id :: string
  at_attempt_no :: nat
  at_status :: attempt_status
  at_available_at :: time
  at_lease_id :: "string option"
  at_agent_id :: "string option"
  at_leased_until :: "time option"
  at_started_at :: "time option"
  at_completed_at :: "time option"
  at_result :: jobj
  at_updated_at :: time

datatype control_action = Cancel | Retry

record control_row =
  cc_control_id :: string
  cc_workspace_id :: string
  cc_command_id :: string
  cc_action :: control_action
  cc_idempotency_key :: string
  cc_requested_by :: string
  cc_reason :: "string option"
  cc_outcome :: string
  cc_event_id :: string
  cc_audit_event_id :: string
  cc_attempt_id :: "string option"
  cc_details :: jobj
  cc_updated_at :: time

record cursor_row =
  cur_workspace_id :: string
  cur_command_id :: string
  cur_last_sequence :: nat
  cur_terminal_sequence :: "nat option"
  cur_updated_at :: time

record op_event_row =
  oe_workspace_id :: string
  oe_command_id :: string
  oe_sequence :: nat
  oe_cluster_id :: string
  oe_kind :: operation_kind
  oe_payload :: jobj
  oe_occurred_at :: time

section \<open>The database\<close>

text \<open>
  \<open>db_notices\<close> collects the \<open>pg_notify\<close> payloads of the transaction; the two counters are
  the sequences behind the autoincrement keys.
\<close>

record db =
  db_events :: "event_row list"
  db_processing :: "processing_row list"
  db_outbox :: "outbox_row list"
  db_outbox_seq :: nat
  db_dead_letters :: "dead_letter_row list"
  db_dead_letter_seq :: nat
  db_commands :: "command_row list"
  db_attempts :: "attempt_row list"
  db_controls :: "control_row list"
  db_cursors :: "cursor_row list"
  db_op_events :: "op_event_row list"
  db_notices :: "(string \<times> string) list"

definition empty_db :: db where
  "empty_db = \<lparr>db_events = [], db_processing = [], db_outbox = [], db_outbox_seq = 0,
     db_dead_letters = [], db_dead_letter_seq = 0, db_commands = [], db_attempts = [],
     db_controls = [], db_cursors = [], db_op_events = [], db_notices = []\<rparr>"

text \<open>Primary keys and unique constraints of the tables.\<close>

definition cursor_key :: "cursor_row \<Rightarrow> string \<times> string" where
  "cursor_key r = (cur_workspace_id r, cur_command_id r)"

definition op_event_key :: "op_event_row \<Rightarrow> string \<times> string \<times> nat" where
  "op_event_key r = (oe_workspace_id r, oe_command_id r, oe_sequence r)"

definition processing_key :: "processing_row \<Rightarrow> string \<times> string" where
  "processing_key r = (ep_event_id r, ep_consumer r)"

definition control_key :: "control_row \<Rightarrow> string \<times> string \<times> control_action \<times> string" where
  "control_key r = (cc_workspace_id r, cc_command_id r, cc_action r, cc_idempotency_key r)"

definition db_keys_ok :: "db \<Rightarrow> bool" where
  "db_keys_ok s \<longleftrightarrow>
     unique_key ev_event_id (db_events s) \<and> unique_key processing_key (db_processing s) \<and>
     unique_key ob_event_id (db_outbox s) \<and> unique_key ac_command_id (db_commands s) \<and>
     unique_key at_attempt_id (db_attempts s) \<and> unique_key control_key (db_controls s) \<and>
     unique_key cursor_key (db_cursors s) \<and> unique_key op_event_key (db_op_events s)"

lemma db_keys_ok_empty [simp]: "db_keys_ok empty_db"
  by (simp add: db_keys_ok_def empty_db_def unique_key_def)

end
