(* ===== verification/Command_Lifecycle.thy ===== *)
theory Command_Lifecycle
  imports Storage_Schema
begin

text \<open>
  The command state machine of \<^verbatim>\<open>src/src/domains/command/lifecycle.py\<close>: the terminal and
  active statuses, the allowed transitions, and the stream event a status fact becomes.
\<close>

definition TERMINAL_COMMAND_STATUSES :: "command_status list" where
  "TERMINAL_COMMAND_STATUSES = [Completed, Failed, Cancelled]"

definition ACTIVE_COMMAND_STATUSES :: "command_status list" where
  "ACTIVE_COMMAND_STATUSES = [Queued, Leased, Running, CancelRequested, Cancelling]"

fun ALLOWED_TRANSITIONS :: "command_status \<Rightarrow> command_status list" where
  "ALLOWED_TRANSITIONS Queued = [Leased, Cancelled, Failed]"
| "ALLOWED_TRANSITIONS Leased = [Queued, Running, CancelRequested, Cancelled, Failed]"
| "ALLOWED_TRANSITIONS Running = [CancelRequested, Completed, Failed]"
| "ALLOWED_TRANSITIONS CancelRequested = [Cancelling, Cancelled, Completed, Failed]"
| "ALLOWED_TRANSITIONS Cancelling = [Cancelled, Completed, Failed]"
| "ALLOWED_TRANSITIONS Failed = [Queued]"
| "ALLOWED_TRANSITIONS Completed = []"
| "ALLOWED_TRANSITIONS Cancelled = []"

definition command_status_is_terminal :: "command_status \<Rightarrow> bool" where
  "command_status_is_terminal s = (s \<in> set TERMINAL_COMMAND_STATUSES)"

definition command_status_is_active :: "command_status \<Rightarrow> bool" where
  "command_status_is_active s = (s \<in> set ACTIVE_COMMAND_STATUSES)"

definition command_transition_allowed :: "command_status \<Rightarrow> command_status \<Rightarrow> bool" where
  "command_transition_allowed current target =
     (current = target \<or> target \<in> set (ALLOWED_TRANSITIONS current))"

definition command_terminal_event_kind ::
    "command_status \<Rightarrow> bool \<Rightarrow> db_error + operation_kind" where
  "command_terminal_event_kind status final =
     (if \<not> final then Inr Progress
      else if status = Completed then Inr KCompleted
      else if status = Cancelled then Inr KCancelled
      else if status = Failed then Inr KFailed
      else Inl (ValueError ''non-terminal command status cannot close operation stream''))"

text \<open>The kinds that close an operation stream.\<close>

definition terminal_kind :: "operation_kind \<Rightarrow> bool" where
  "terminal_kind k = (k \<in> {KCompleted, KFailed, KCancelled})"

lemmas lifecycle_simps = command_transition_allowed_def command_status_is_terminal_def
  command_status_is_active_def TERMINAL_COMMAND_STATUSES_def ACTIVE_COMMAND_STATUSES_def

lemma terminal_xor_active: "command_status_is_terminal s \<longleftrightarrow> \<not> command_status_is_active s"
  by (cases s) (simp_all add: lifecycle_simps)

lemma transition_refl [simp]: "command_transition_allowed s s"
  by (simp add: command_transition_allowed_def)

lemma terminal_kind_simps [simp]:
  "terminal_kind KCompleted" "terminal_kind KFailed" "terminal_kind KCancelled"
  "\<not> terminal_kind Progress" "\<not> terminal_kind LogLine"
  by (simp_all add: terminal_kind_def)

text \<open>Completed and cancelled commands are final; a failed one can only be queued again.\<close>

lemma terminal_successors:
  "command_status_is_terminal s \<Longrightarrow> command_transition_allowed s t \<Longrightarrow> t \<noteq> s \<Longrightarrow>
   s = Failed \<and> t = Queued"
  by (cases s) (auto simp: lifecycle_simps)

lemma terminal_event_kind_cases:
  "command_terminal_event_kind s final = Inr k \<Longrightarrow>
   (terminal_kind k \<longleftrightarrow> final) \<and> (final \<longrightarrow> command_status_is_terminal s)"
  by (auto simp: command_terminal_event_kind_def lifecycle_simps split: if_splits)

end
