(* ===== verification/Operation_Stream.thy ===== *)
theory Operation_Stream
  imports Command_Lifecycle
begin

text \<open>
  The durable operation stream of a command
  (\<^verbatim>\<open>src/src/domains/command/repository.py\<close>): a cursor row per workspace and command hands
  out sequence numbers and is closed by a terminal event, so that a browser can replay an
  ordered suffix and never sees a second terminal message.
\<close>

section \<open>Operations\<close>

text \<open>
  \<open>cluster\<close> is \<open>str(payload.get("cluster_id", ""))\<close>. The insert of the event row has no
  conflict clause, so an existing sequence number is an IntegrityError.
\<close>

definition new_cursor :: "time \<Rightarrow> string \<Rightarrow> string \<Rightarrow> cursor_row" where
  "new_cursor now workspace_id command_id =
     \<lparr>cur_workspace_id = workspace_id, cur_command_id = command_id,
      cur_last_sequence = 0, cur_terminal_sequence = None, cur_updated_at = now\<rparr>"

definition open_cursor :: "string \<Rightarrow> string \<Rightarrow> cursor_row \<Rightarrow> bool" where
  "open_cursor workspace_id command_id c =
     (cursor_key c = (workspace_id, command_id) \<and> cur_terminal_sequence c = None)"

definition advance_cursor :: "time \<Rightarrow> operation_kind \<Rightarrow> cursor_row \<Rightarrow> cursor_row" where
  "advance_cursor now kind c =
     c\<lparr>cur_last_sequence := Suc (cur_last_sequence c),
       cur_terminal_sequence :=
         (if terminal_kind kind then Some (Suc (cur_last_sequence c)) else cur_terminal_sequence c),
       cur_updated_at := now\<rparr>"

definition append_command_operation_event_in_transaction ::
    "time \<Rightarrow> string \<Rightarrow> string \<Rightarrow> operation_kind \<Rightarrow> string \<Rightarrow> jobj \<Rightarrow> db \<Rightarrow>
     db_error + db \<times> op_event_row option" where
  "append_command_operation_event_in_transaction now workspace_id command_id kind cluster payload s =
     (let cluster_id = py_strip cluster in
      if workspace_id = [] \<or> command_id = [] \<or> cluster_id = []
      then Inl (ValueError ''operation events require workspace, command, and cluster identity'')
      else
        let cursors = insert_new cursor_key (new_cursor now workspace_id command_id) (db_cursors s);
            s' = s\<lparr>db_cursors := update_where (open_cursor workspace_id command_id)
                                  (advance_cursor now kind) cursors\<rparr>
        in case find (open_cursor workspace_id command_id) cursors of
             None \<Rightarrow> Inr (s', None)
           | Some c \<Rightarrow>
               let row = \<lparr>oe_workspace_id = workspace_id, oe_command_id = command_id,
                          oe_sequence = Suc (cur_last_sequence c), oe_cluster_id = cluster_id,
                          oe_kind = kind, oe_payload = payload, oe_occurred_at = now\<rparr>
               in if op_event_key row \<in> set (map op_event_key (db_op_events s))
                  then Inl (IntegrityError ''command_operation_events_pkey'')
                  else Inr (s'\<lparr>db_op_events := db_op_events s @ [row]\<rparr>, Some row))"

text \<open>The synchronous companion issues the same three statements.\<close>

definition stage_command_operation_event_in_transaction ::
    "time \<Rightarrow> string \<Rightarrow> string \<Rightarrow> operation_kind \<Rightarrow> string \<Rightarrow> jobj \<Rightarrow> db \<Rightarrow>
     db_error + db \<times> op_event_row option" where
  "stage_command_operation_event_in_transaction =
     append_command_operation_event_in_transaction"

definition append_command_operation_event ::
    "time \<Rightarrow> string \<Rightarrow> string \<Rightarrow> operation_kind \<Rightarrow> string \<Rightarrow> jobj \<Rightarrow> db \<Rightarrow>
     db_error + db \<times> op_event_row option" where
  "append_command_operation_event now workspace_id command_id kind cluster payload s =
     (let normalized_workspace = py_strip workspace_id;
          normalized_command = py_strip command_id;
          cluster_id = py_strip cluster
      in if normalized_workspace = [] \<or> normalized_command = [] \<or> cluster_id = []
         then Inl (ValueError ''operation events require workspace, command, and cluster identity'')
         else append_command_operation_event_in_transaction now normalized_workspace
                normalized_command kind cluster payload s)"

text \<open>
  The caller's payload is spread after the cluster identity, so a \<open>cluster_id\<close> of its own
  wins over the argument.
\<close>

definition stage_integration_operation_event ::
    "time \<Rightarrow> string \<Rightarrow> string \<Rightarrow> string \<Rightarrow> string option \<Rightarrow> jobj \<Rightarrow> operation_kind \<Rightarrow> db \<Rightarrow>
     db_error + db \<times> op_event_row option" where
  "stage_integration_operation_event now workspace_id operation_id cluster_id payload_cluster
     payload kind s =
     (let cluster = (case payload_cluster of None \<Rightarrow> cluster_id | Some c \<Rightarrow> c);
          spread = (case payload_cluster of
                      None \<Rightarrow> (''cluster_id'', JStr cluster_id) # payload
                    | Some c \<Rightarrow> payload)
      in stage_command_operation_event_in_transaction now workspace_id operation_id kind
           cluster spread s)"

text \<open>Replay of a bounded suffix for the browser.\<close>

definition list_command_operation_events ::
    "string \<Rightarrow> string \<Rightarrow> int \<Rightarrow> int \<Rightarrow> db \<Rightarrow> db_error + op_event_row list" where
  "list_command_operation_events workspace_id command_id after_sequence lmt s =
     (if after_sequence < 0
      then Inl (ValueError ''operation event cursor must be non-negative'')
      else Inr (take (nat (max 1 (min lmt 1000)))
                 (sort_key oe_sequence
                    (filter (\<lambda>e. oe_workspace_id e = workspace_id \<and> oe_command_id e = command_id \<and>
                                 after_sequence < int (oe_sequence e))
                       (db_op_events s)))))"

text \<open>Stream authority for a reconnecting browser: cursor positions and latest cluster.\<close>

definition get_command_operation_event_context ::
    "string \<Rightarrow> string \<Rightarrow> db \<Rightarrow> (nat \<times> nat option \<times> string option) option" where
  "get_command_operation_event_context workspace_id command_id s =
     (case find (\<lambda>c. cur_workspace_id c = workspace_id \<and> cur_command_id c = command_id)
             (db_cursors s) of
        None \<Rightarrow> None
      | Some c \<Rightarrow>
          let rows = sort_key (\<lambda>e. - int (oe_sequence e))
                       (filter (\<lambda>e. oe_workspace_id e = workspace_id \<and> oe_command_id e = command_id)
                          (db_op_events s))
          in Some (cur_last_sequence c, cur_terminal_sequence c,
                   (case rows of [] \<Rightarrow> None | e # _ \<Rightarrow> Some (oe_cluster_id e))))"

section \<open>Invariant\<close>

definition op_stream :: "db \<Rightarrow> string \<Rightarrow> string \<Rightarrow> op_event_row list" where
  "op_stream s ws cmd =
     filter (\<lambda>e. oe_workspace_id e = ws \<and> oe_command_id e = cmd) (db_op_events s)"

definition cursor_at :: "db \<Rightarrow> string \<Rightarrow> string \<Rightarrow> nat \<times> nat option" where
  "cursor_at s ws cmd =
     (case lookup cursor_key (ws, cmd) (db_cursors s) of
        None \<Rightarrow> (0, None)
      | Some c \<Rightarrow> (cur_last_sequence c, cur_terminal_sequence c))"

text \<open>
  A stream agrees with its cursor: the sequence numbers are 1, 2, 3, ... without a gap, and
  a terminal event is there exactly when the cursor is closed, at the end.
\<close>

definition stream_ok :: "op_event_row list \<Rightarrow> nat \<times> nat option \<Rightarrow> bool" where
  "stream_ok es c \<longleftrightarrow>
     map oe_sequence es = [1..<Suc (fst c)] \<and>
     (case snd c of
        None \<Rightarrow> (\<forall>e \<in> set es. \<not> terminal_kind (oe_kind e))
      | Some n \<Rightarrow> n = fst c \<and> es \<noteq> [] \<and> terminal_kind (oe_kind (last es)) \<and>
                  (\<forall>e \<in> set (butlast es). \<not> terminal_kind (oe_kind e)))"

definition op_streams_ok :: "db \<Rightarrow> bool" where
  "op_streams_ok s \<longleftrightarrow>
     unique_key cursor_key (db_cursors s) \<and>
     (\<forall>ws cmd. stream_ok (op_stream s ws cmd) (cursor_at s ws cmd))"

lemma op_streams_ok_empty: "op_streams_ok empty_db"
  by (simp add: op_streams_ok_def empty_db_def unique_key_def op_stream_def cursor_at_def
      stream_ok_def)

lemma op_streams_ok_cong:
  "db_cursors s' = db_cursors s \<Longrightarrow> db_op_events s' = db_op_events s \<Longrightarrow>
   op_streams_ok s' \<longleftrightarrow> op_streams_ok s"
  by (simp add: op_streams_ok_def op_stream_def cursor_at_def)

lemma stream_ok_snoc:
  "stream_ok es (n, None) \<Longrightarrow> oe_sequence e = Suc n \<Longrightarrow>
   stream_ok (es @ [e]) (Suc n, if terminal_kind (oe_kind e) then Some (Suc n) else None)"
  by (auto simp: stream_ok_def)

text \<open>The next sequence number is never taken, so the insert cannot conflict.\<close>

lemma stream_ok_fresh: "stream_ok es (n, t) \<Longrightarrow> e \<in> set es \<Longrightarrow> oe_sequence e \<noteq> Suc n"
proof -
  assume "stream_ok es (n, t)" and e: "e \<in> set es"
  then have "map oe_sequence es = [1..<Suc n]" by (simp add: stream_ok_def)
  with e have "oe_sequence e \<in> set [1..<Suc n]" by (metis image_eqI set_map)
  then show ?thesis by auto
qed


section \<open>What one append does\<close>

text \<open>Everything outside the two stream tables is left alone.\<close>

lemma append_frame:
  assumes "append_command_operation_event_in_transaction now ws cmd k cl p s = Inr (s', r)"
  shows "s' = s\<lparr>db_cursors := db_cursors s', db_op_events := db_op_events s'\<rparr>"
  using assms
  by (auto simp: append_command_operation_event_in_transaction_def Let_def
      split: if_splits option.splits)

lemma advance_cursor_key [simp]: "cursor_key (advance_cursor now k c) = cursor_key c"
  by (simp add: cursor_key_def advance_cursor_def)

lemma lookup_advance [simp]:
  "lookup cursor_key q (update_where p (advance_cursor now k) t) =
   map_option (\<lambda>c. if p c then advance_cursor now k c else c) (lookup cursor_key q t)"
  by (rule lookup_update_where) simp

lemma new_cursor_key [simp]: "cursor_key (new_cursor now ws cmd) = (ws, cmd)"
  by (simp add: cursor_key_def new_cursor_def)

lemma append_unique_cursors:
  assumes "append_command_operation_event_in_transaction now ws cmd k cl p s = Inr (s', r)"
    and "unique_key cursor_key (db_cursors s)"
  shows "unique_key cursor_key (db_cursors s')"
  using assms
  by (auto simp: append_command_operation_event_in_transaction_def Let_def
      intro!: unique_key_update_where unique_key_insert_new split: if_splits option.splits)

text \<open>The cursor the statement finds, seen through \<open>cursor_at\<close>.\<close>

lemma find_open_cursor:
  assumes "unique_key cursor_key (db_cursors s)"
  shows "(case find (open_cursor ws cmd)
                 (insert_new cursor_key (new_cursor now ws cmd) (db_cursors s)) of
            None \<Rightarrow> snd (cursor_at s ws cmd) \<noteq> None
          | Some c \<Rightarrow> snd (cursor_at s ws cmd) = None \<and>
                      cur_last_sequence c = fst (cursor_at s ws cmd))"
proof -
  have u: "unique_key cursor_key (insert_new cursor_key (new_cursor now ws cmd) (db_cursors s))"
    by (rule unique_key_insert_new [OF assms])
  show ?thesis
    unfolding open_cursor_def find_key_and [OF u]
    by (auto simp: lookup_insert_new_eq cursor_at_def new_cursor_def cursor_key_def
        split: option.splits)
qed

lemma cursor_at_update:
  "cursor_at (s\<lparr>db_cursors := update_where (open_cursor ws cmd) (advance_cursor now k)
       (insert_new cursor_key (new_cursor now ws cmd) (db_cursors s)), db_op_events := es\<rparr>) ws' cmd' =
   (if ws' = ws \<and> cmd' = cmd \<and> snd (cursor_at s ws cmd) = None
    then (Suc (fst (cursor_at s ws cmd)),
          if terminal_kind k then Some (Suc (fst (cursor_at s ws cmd))) else None)
    else cursor_at s ws' cmd')"
proof (cases "lookup cursor_key (ws', cmd') (db_cursors s)")
  case None
  then show ?thesis
    by (auto simp: cursor_at_def lookup_insert_new_eq open_cursor_def
        advance_cursor_def new_cursor_def cursor_key_def)
next
  case (Some c)
  with lookup_Some_in [OF Some] show ?thesis
    by (auto simp: cursor_at_def lookup_insert_new_eq open_cursor_def
        advance_cursor_def)
qed

lemma cursor_at_cong [simp]: "cursor_at (s\<lparr>db_op_events := es\<rparr>) = cursor_at s"
  by (simp add: cursor_at_def fun_eq_iff)

text \<open>A closed stream takes no further event, an open one takes exactly the next number.\<close>

lemma append_closed:
  assumes step: "append_command_operation_event_in_transaction now ws cmd k cl p s = Inr (s', r)"
    and uniq: "unique_key cursor_key (db_cursors s)"
    and closed: "snd (cursor_at s ws cmd) \<noteq> None"
  shows "r = None" "db_op_events s' = db_op_events s" "cursor_at s' ws' cmd' = cursor_at s ws' cmd'"
proof -
  have none: "find (open_cursor ws cmd)
      (insert_new cursor_key (new_cursor now ws cmd) (db_cursors s)) = None"
    using find_open_cursor [OF uniq, of ws cmd now] closed by (auto split: option.splits)
  from step have "s' = s\<lparr>db_cursors := update_where (open_cursor ws cmd) (advance_cursor now k)
      (insert_new cursor_key (new_cursor now ws cmd) (db_cursors s)),
      db_op_events := db_op_events s\<rparr>" and r: "r = None"
    by (auto simp: append_command_operation_event_in_transaction_def Let_def none split: if_splits)
  with closed cursor_at_update [where s = s and es = "db_op_events s" and k = k and now = now
      and ws = ws and cmd = cmd and ws' = ws' and cmd' = cmd']
  show "db_op_events s' = db_op_events s" "cursor_at s' ws' cmd' = cursor_at s ws' cmd'" by auto
  show "r = None" by (rule r)
qed

lemma append_open:
  assumes step: "append_command_operation_event_in_transaction now ws cmd k cl p s = Inr (s', r)"
    and uniq: "unique_key cursor_key (db_cursors s)"
    and opn: "snd (cursor_at s ws cmd) = None"
  shows "\<exists>row. r = Some row \<and> db_op_events s' = db_op_events s @ [row] \<and>
    oe_workspace_id row = ws \<and> oe_command_id row = cmd \<and> oe_kind row = k \<and> oe_payload row = p \<and>
    oe_sequence row = Suc (fst (cursor_at s ws cmd)) \<and>
    (\<forall>ws' cmd'. cursor_at s' ws' cmd' =
       (if ws' = ws \<and> cmd' = cmd
        then (Suc (fst (cursor_at s ws cmd)),
              if terminal_kind k then Some (Suc (fst (cursor_at s ws cmd))) else None)
        else cursor_at s ws' cmd'))"
proof -
  obtain c where fnd: "find (open_cursor ws cmd)
      (insert_new cursor_key (new_cursor now ws cmd) (db_cursors s)) = Some c"
    and c: "cur_last_sequence c = fst (cursor_at s ws cmd)"
    using find_open_cursor [OF uniq, of ws cmd now] opn by (auto split: option.splits)
  let ?row = "\<lparr>oe_workspace_id = ws, oe_command_id = cmd,
    oe_sequence = Suc (fst (cursor_at s ws cmd)), oe_cluster_id = py_strip cl,
    oe_kind = k, oe_payload = p, oe_occurred_at = now\<rparr>"
  have s': "r = Some ?row" "s' = s\<lparr>db_cursors := update_where (open_cursor ws cmd)
      (advance_cursor now k) (insert_new cursor_key (new_cursor now ws cmd) (db_cursors s)),
      db_op_events := db_op_events s @ [?row]\<rparr>"
    using step
    by (simp_all add: append_command_operation_event_in_transaction_def Let_def fnd c
        split: if_splits)
  have "cursor_at s' ws' cmd' =
     (if ws' = ws \<and> cmd' = cmd
      then (Suc (fst (cursor_at s ws cmd)),
            if terminal_kind k then Some (Suc (fst (cursor_at s ws cmd))) else None)
      else cursor_at s ws' cmd')" for ws' cmd'
    unfolding s'(2) using opn by (simp only: cursor_at_update) auto
  with s' show ?thesis by (intro exI [of _ ?row]) simp
qed

section \<open>The stream as an append-only log\<close>

text \<open>
  The contract towards the operations that write the stream: a log of kinds per key that
  takes an entry unless a terminal one is already there.
\<close>

definition log_closed :: "operation_kind list \<Rightarrow> bool" where
  "log_closed ks = list_ex terminal_kind ks"

definition log_append :: "operation_kind list \<Rightarrow> operation_kind \<Rightarrow> operation_kind list" where
  "log_append ks k = (if log_closed ks then ks else ks @ [k])"

fun run_log ::
    "('x \<Rightarrow> 'q \<Rightarrow> operation_kind \<Rightarrow> 's \<Rightarrow> 's option) \<Rightarrow> ('x \<times> 'q \<times> operation_kind) list \<Rightarrow>
     's \<Rightarrow> 's option" where
  "run_log stage [] s = Some s"
| "run_log stage ((x, q, k) # steps) s =
     (case stage x q k s of None \<Rightarrow> None | Some s' \<Rightarrow> run_log stage steps s')"

definition entries :: "'q \<Rightarrow> ('x \<times> 'q \<times> operation_kind) list \<Rightarrow> operation_kind list" where
  "entries q steps = map (snd \<circ> snd) (filter (\<lambda>e. fst (snd e) = q) steps)"

text \<open>The entries up to and including the first terminal one.\<close>

fun until_terminal :: "operation_kind list \<Rightarrow> operation_kind list" where
  "until_terminal [] = []"
| "until_terminal (k # ks) = (if terminal_kind k then [k] else k # until_terminal ks)"

lemma log_closed_append [simp]: "log_closed (ks @ js) \<longleftrightarrow> log_closed ks \<or> log_closed js"
  by (auto simp: log_closed_def)

lemma log_closed_simps [simp]:
  "\<not> log_closed []" "log_closed (k # ks) \<longleftrightarrow> terminal_kind k \<or> log_closed ks"
  by (simp_all add: log_closed_def)

lemma foldl_log_append_closed: "log_closed ks \<Longrightarrow> foldl log_append ks js = ks"
  by (induction js) (simp_all add: log_append_def)

lemma foldl_log_append:
  "\<not> log_closed ks \<Longrightarrow> foldl log_append ks js = ks @ until_terminal js"
proof (induction js arbitrary: ks)
  case (Cons j js)
  show ?case
  proof (cases "terminal_kind j")
    case True
    with Cons.prems have "log_append ks j = ks @ [j]" by (simp add: log_append_def)
    with True show ?thesis by (simp add: foldl_log_append_closed)
  next
    case False
    with Cons.prems have "log_append ks j = ks @ [j]" by (simp add: log_append_def)
    with False Cons.prems Cons.IH [of "ks @ [j]"] show ?thesis by simp
  qed
qed simp

locale operation_log =
  fixes stage :: "'x \<Rightarrow> 'q \<Rightarrow> operation_kind \<Rightarrow> 's \<Rightarrow> 's option"
    and kinds :: "'s \<Rightarrow> 'q \<Rightarrow> operation_kind list"
    and valid :: "'s \<Rightarrow> bool"
  assumes stage_valid: "valid s \<Longrightarrow> stage x q k s = Some s' \<Longrightarrow> valid s'"
    and stage_kinds: "valid s \<Longrightarrow> stage x q k s = Some s' \<Longrightarrow>
      kinds s' q' = (if q' = q then log_append (kinds s q) k else kinds s q')"
begin

lemma run_valid: "valid s \<Longrightarrow> run_log stage steps s = Some s' \<Longrightarrow> valid s'"
proof (induction steps arbitrary: s)
  case (Cons x steps)
  then show ?case
    by (cases x) (auto split: option.splits intro: Cons.IH stage_valid)
qed simp

lemma run_kinds:
  "valid s \<Longrightarrow> run_log stage steps s = Some s' \<Longrightarrow>
   kinds s' q = foldl log_append (kinds s q) (entries q steps)"
proof (induction steps arbitrary: s)
  case Nil
  then show ?case by (simp add: entries_def)
next
  case (Cons x steps)
  obtain u p k where x: "x = (u, p, k)" by (cases x)
  with Cons.prems obtain t where t: "stage u p k s = Some t" "run_log stage steps t = Some s'"
    by (auto split: option.splits)
  from stage_valid [OF Cons.prems(1) t(1)] t(2)
  have "kinds s' q = foldl log_append (kinds t q) (entries q steps)" by (rule Cons.IH)
  with stage_kinds [OF Cons.prems(1) t(1), of q] x show ?case by (auto simp: entries_def)
qed

lemma run_kinds_open:
  "valid s \<Longrightarrow> run_log stage steps s = Some s' \<Longrightarrow> kinds s q = [] \<Longrightarrow>
   kinds s' q = until_terminal (entries q steps)"
  using foldl_log_append [of "[]"] by (simp add: run_kinds)

lemma closed_forever:
  "valid s \<Longrightarrow> run_log stage steps s = Some s' \<Longrightarrow> log_closed (kinds s q) \<Longrightarrow> kinds s' q = kinds s q"
  by (simp add: run_kinds foldl_log_append_closed)

end

section \<open>The tables implement the log\<close>

definition op_kinds :: "db \<Rightarrow> string \<times> string \<Rightarrow> operation_kind list" where
  "op_kinds s q = map oe_kind (op_stream s (fst q) (snd q))"

definition stream_open :: "db \<Rightarrow> string \<Rightarrow> string \<Rightarrow> bool" where
  "stream_open s ws cmd = (snd (cursor_at s ws cmd) = None)"

definition stage_kind ::
    "time \<times> string \<times> jobj \<Rightarrow> string \<times> string \<Rightarrow> operation_kind \<Rightarrow> db \<Rightarrow> db option" where
  "stage_kind x q k s =
     (case append_command_operation_event_in_transaction (fst x) (fst q) (snd q) k
             (fst (snd x)) (snd (snd x)) s of
        Inl e \<Rightarrow> None | Inr (s', r) \<Rightarrow> Some s')"

lemma op_streams_okD:
  "op_streams_ok s \<Longrightarrow> unique_key cursor_key (db_cursors s)"
  "op_streams_ok s \<Longrightarrow> stream_ok (op_stream s ws cmd) (cursor_at s ws cmd)"
  by (simp_all add: op_streams_ok_def)

lemma stream_ok_closed_iff: "stream_ok es c \<Longrightarrow> log_closed (map oe_kind es) \<longleftrightarrow> snd c \<noteq> None"
proof -
  assume ok: "stream_ok es c"
  show ?thesis
  proof (cases "snd c")
    case None
    with ok show ?thesis by (auto simp: stream_ok_def log_closed_def list_ex_iff)
  next
    case (Some n)
    with ok have "last es \<in> set es" "terminal_kind (oe_kind (last es))"
      by (auto simp: stream_ok_def)
    with Some show ?thesis by (auto simp: log_closed_def list_ex_iff)
  qed
qed

lemma append_op_streams_ok:
  assumes step: "append_command_operation_event_in_transaction now ws cmd k cl p s = Inr (s', r)"
    and ok: "op_streams_ok s"
  shows "op_streams_ok s'"
proof -
  note u = op_streams_okD(1) [OF ok]
  have "stream_ok (op_stream s' w c) (cursor_at s' w c)" for w c
  proof (cases "snd (cursor_at s ws cmd) = None")
    case False
    with append_closed [OF step u False] op_streams_okD(2) [OF ok, of w c]
    show ?thesis by (simp add: op_stream_def)
  next
    case True
    obtain row where row: "db_op_events s' = db_op_events s @ [row]"
      "oe_workspace_id row = ws" "oe_command_id row = cmd" "oe_kind row = k"
      "oe_sequence row = Suc (fst (cursor_at s ws cmd))"
      "\<forall>w c. cursor_at s' w c = (if w = ws \<and> c = cmd
        then (Suc (fst (cursor_at s ws cmd)),
              if terminal_kind k then Some (Suc (fst (cursor_at s ws cmd))) else None)
        else cursor_at s w c)"
      using append_open [OF step u True] by blast
    show ?thesis
    proof (cases "w = ws \<and> c = cmd")
      case False
      with row op_streams_okD(2) [OF ok, of w c] show ?thesis by (auto simp: op_stream_def)
    next
      case here: True
      have "stream_ok (op_stream s ws cmd) (fst (cursor_at s ws cmd), None)"
        using op_streams_okD(2) [OF ok, of ws cmd] True by (metis prod.collapse)
      from stream_ok_snoc [OF this row(5)] row here show ?thesis by (simp add: op_stream_def)
    qed
  qed
  with append_unique_cursors [OF step u] show ?thesis by (simp add: op_streams_ok_def)
qed

lemma append_kinds:
  assumes step: "append_command_operation_event_in_transaction now ws cmd k cl p s = Inr (s', r)"
    and ok: "op_streams_ok s"
  shows "op_kinds s' q = (if q = (ws, cmd) then log_append (op_kinds s q) k else op_kinds s q)"
proof (cases "snd (cursor_at s ws cmd) = None")
  case False
  then have "log_closed (op_kinds s (ws, cmd))"
    using stream_ok_closed_iff [OF op_streams_okD(2) [OF ok]] by (simp add: op_kinds_def)
  with append_closed [OF step op_streams_okD(1) [OF ok] False]
  show ?thesis by (auto simp: op_kinds_def op_stream_def log_append_def)
next
  case True
  then have "\<not> log_closed (op_kinds s (ws, cmd))"
    using stream_ok_closed_iff [OF op_streams_okD(2) [OF ok]] by (simp add: op_kinds_def)
  moreover obtain row where "db_op_events s' = db_op_events s @ [row]"
    "oe_workspace_id row = ws" "oe_command_id row = cmd" "oe_kind row = k"
    using append_open [OF step op_streams_okD(1) [OF ok] True] by blast
  ultimately show ?thesis
    by (cases q) (auto simp: op_kinds_def op_stream_def log_append_def)
qed

interpretation olog: operation_log stage_kind op_kinds op_streams_ok
  by unfold_locales
     (auto simp: stage_kind_def append_kinds intro: append_op_streams_ok
      split: sum.splits prod.splits)


lemma op_kinds_empty: "op_kinds empty_db q = []"
  by (simp add: op_kinds_def op_stream_def empty_db_def)

lemma op_stream_sequences:
  "op_streams_ok s \<Longrightarrow> map oe_sequence (op_stream s ws cmd) = [1..<Suc (length (op_stream s ws cmd))]"
proof -
  assume "op_streams_ok s"
  then have "map oe_sequence (op_stream s ws cmd) = [1..<Suc (fst (cursor_at s ws cmd))]"
    using op_streams_okD(2) [of s ws cmd] by (simp add: stream_ok_def)
  moreover from this have "length (op_stream s ws cmd) = fst (cursor_at s ws cmd)"
    by (metis diff_Suc_1 length_map length_upt One_nat_def)
  ultimately show ?thesis by simp
qed

text \<open>
  Whatever sequence of stream appends the transactions issue, starting
  from an empty database, every command's stream holds exactly its own entries up to and
  including the first terminal one (a later terminal or progress event is never added), and
  is numbered 1, 2, 3, ... without a gap.
\<close>

theorem operation_stream_run:
  assumes "run_log stage_kind steps empty_db = Some s"
  shows "op_kinds s (ws, cmd) = until_terminal (entries (ws, cmd) steps) \<and>
    map oe_sequence (op_stream s ws cmd) = [1..<Suc (length (op_stream s ws cmd))]"
  using olog.run_kinds_open [OF op_streams_ok_empty assms]
    op_stream_sequences [OF olog.run_valid [OF op_streams_ok_empty assms]]
  by (simp_all add: op_kinds_empty)

definition demo_steps :: "((time \<times> string \<times> jobj) \<times> (string \<times> string) \<times> operation_kind) list" where
  "demo_steps = [((1, ''c1'', []), (''w'', ''a''), Progress), ((2, ''c1'', []), (''w'', ''b''), Progress),
     ((3, ''c1'', []), (''w'', ''a''), KFailed), ((4, ''c1'', []), (''w'', ''a''), KCompleted)]"

lemma demo_steps_run: "\<exists>s. run_log stage_kind demo_steps empty_db = Some s"
proof -
  have "run_log stage_kind demo_steps empty_db \<noteq> None" by code_simp
  then show ?thesis by auto
qed

theorem operation_stream_run_witness:
  "\<exists>s. run_log stage_kind demo_steps empty_db = Some s \<and>
       op_kinds s (''w'', ''a'') = [Progress, KFailed]"
proof -
  obtain s where s: "run_log stage_kind demo_steps empty_db = Some s"
    using demo_steps_run by blast
  have "until_terminal (entries (''w'', ''a'') demo_steps) = [Progress, KFailed]" by code_simp
  with operation_stream_run [OF s, of "''w''" "''a''"] s show ?thesis by auto
qed

section \<open>Replay\<close>

lemma filter_drop_upt:
  assumes "map f xs = [Suc m..<Suc (m + length xs)]"
  shows "filter (\<lambda>x. n < f x) xs = drop (n - m) xs"
  using assms
proof (induction xs arbitrary: m)
  case (Cons x xs)
  then have x: "f x = Suc m" and rest: "map f xs = [Suc (Suc m)..<Suc (Suc m + length xs)]"
    by (simp_all add: upt_rec [of "Suc m"] del: upt_Suc split: if_splits)
  have IH: "filter (\<lambda>x. n < f x) xs = drop (n - Suc m) xs" by (rule Cons.IH [OF rest])
  show ?case
  proof (cases "n < Suc m")
    case True
    with x IH show ?thesis by simp
  next
    case False
    then have "n - m = Suc (n - Suc m)" by simp
    with x IH False show ?thesis by simp
  qed
qed simp

lemma op_stream_sorted:
  assumes "op_streams_ok s"
  shows "sorted (map oe_sequence (drop n (op_stream s ws cmd)))"
proof -
  have "sorted (map oe_sequence (op_stream s ws cmd))"
    unfolding op_stream_sequences [OF assms] by (rule sorted_upt)
  then show ?thesis by (simp add: drop_map [symmetric] sorted_wrt_drop)
qed

lemma replay_page:
  assumes ok: "op_streams_ok s"
  shows "list_command_operation_events ws cmd (int n) lmt s =
    Inr (take (nat (max 1 (min lmt 1000))) (drop n (op_stream s ws cmd)))"
proof -
  let ?es = "op_stream s ws cmd"
  have "map oe_sequence ?es = [Suc 0..<Suc (0 + length ?es)]"
    using op_stream_sequences [OF ok, of ws cmd] by simp
  from filter_drop_upt [OF this, of n]
  have "filter (\<lambda>e. oe_workspace_id e = ws \<and> oe_command_id e = cmd \<and> int n < int (oe_sequence e))
      (db_op_events s) = drop n ?es"
    by (simp add: op_stream_def conj_ac flip: filter_filter)
  then show ?thesis
    using sort_key_id_if_sorted [OF op_stream_sorted [OF ok, of n ws cmd]]
    by (simp add: list_command_operation_events_def)
qed

text \<open>
  Reading a stream from cursor \<open>n\<close> with a limit returns exactly the next
  events of that stream, in order and without a gap: at most \<open>limit\<close> of them, clipped to the
  range 1 to 1000. A browser that resumes from the last sequence number it saw misses nothing.
\<close>

theorem list_command_operation_events_suffix:
  assumes "run_log stage_kind steps empty_db = Some s"
  shows "list_command_operation_events ws cmd (int n) lmt s =
    Inr (take (nat (max 1 (min lmt 1000))) (drop n (op_stream s ws cmd)))"
  by (rule replay_page [OF olog.run_valid [OF op_streams_ok_empty assms]])

theorem list_command_operation_events_suffix_witness:
  "\<exists>s. run_log stage_kind demo_steps empty_db = Some s \<and>
       list_command_operation_events ''w'' ''a'' 1 10 s = Inr (take 10 (drop 1 (op_stream s ''w'' ''a'')))"
proof -
  obtain s where s: "run_log stage_kind demo_steps empty_db = Some s"
    using demo_steps_run by blast
  then show ?thesis
    using list_command_operation_events_suffix [OF s, of "''w''" "''a''" 1 10] by auto
qed

end
