(* ===== verification/Command_Catalog.thy ===== *)
theory Command_Catalog
  imports Kyro_Prelude
begin

text \<open>
  The command catalogue of \<^verbatim>\<open>src/src/domains/command/actions.py\<close>: the specification of an
  action and the registry that the control and completion paths consult. The registry is a
  dictionary; Python keeps its insertion order, so it is an association list here.
\<close>

record action_spec =
  sp_action :: string
  sp_recovery_aliases :: "string list"
  sp_allowed_namespaces :: "string list"
  sp_requires_approval :: bool
  sp_requires_approval_outside_sandbox :: bool
  sp_supports_cancel :: bool
  sp_supports_manual_retry :: bool
  sp_max_attempts :: int
  sp_retry_delay_seconds :: int
  sp_enforce_control_namespace :: bool
  sp_read_only :: bool
  sp_required_agent_capability :: string

type_synonym catalog = "(string \<times> action_spec) list"

datatype catalog_error =
    RetryPolicyInvalid
  | CapabilityRequired
  | RetryNeedsTwoAttempts
  | DuplicateAction string

definition matches_recovery_action :: "action_spec \<Rightarrow> string \<Rightarrow> bool" where
  "matches_recovery_action sp v = (v = sp_action sp \<or> v \<in> set (sp_recovery_aliases sp))"

definition allows_namespace :: "action_spec \<Rightarrow> string \<Rightarrow> bool" where
  "allows_namespace sp ns = (sp_allowed_namespaces sp = [] \<or> ns \<in> set (sp_allowed_namespaces sp))"

text \<open>\<open>is_sandbox\<close> is \<^verbatim>\<open>is_sandbox_environment\<close> of the environment configuration.\<close>

definition requires_approval_for :: "(string \<Rightarrow> bool) \<Rightarrow> action_spec \<Rightarrow> string \<Rightarrow> bool" where
  "requires_approval_for is_sandbox sp ns =
     (sp_requires_approval sp \<or> (sp_requires_approval_outside_sandbox sp \<and> \<not> is_sandbox ns))"

text \<open>
  \<^verbatim>\<open>CommandCatalog.action\<close> with its decorator applied: the three guards on the
  arguments, then the duplicate check; assigning an existing key keeps its place.
\<close>

definition catalog_action :: "action_spec \<Rightarrow> catalog \<Rightarrow> catalog_error + catalog" where
  "catalog_action sp cat =
     (if sp_max_attempts sp < 1 \<or> sp_retry_delay_seconds sp < 0 then Inl RetryPolicyInvalid
      else if py_strip (sp_required_agent_capability sp) = [] then Inl CapabilityRequired
      else if sp_supports_manual_retry sp \<and> sp_max_attempts sp < 2 then Inl RetryNeedsTwoAttempts
      else case map_of cat (sp_action sp) of
             None \<Rightarrow> Inr (cat @ [(sp_action sp, sp)])
           | Some existing \<Rightarrow>
               if existing \<noteq> sp then Inl (DuplicateAction (sp_action sp)) else Inr cat)"

definition catalog_actions :: "catalog \<Rightarrow> action_spec list" where
  "catalog_actions cat = map snd cat"

definition allowed_actions :: "catalog \<Rightarrow> string list" where
  "allowed_actions cat = map sp_action (catalog_actions cat)"

definition spec_for :: "catalog \<Rightarrow> string \<Rightarrow> action_spec option" where
  "spec_for cat action = find (\<lambda>sp. sp_action sp = action) (catalog_actions cat)"

definition action_for_recovery :: "catalog \<Rightarrow> string \<Rightarrow> string option" where
  "action_for_recovery cat v =
     map_option sp_action (find (\<lambda>sp. matches_recovery_action sp v) (catalog_actions cat))"

fun register_all :: "action_spec list \<Rightarrow> catalog \<Rightarrow> catalog_error + catalog" where
  "register_all [] cat = Inr cat"
| "register_all (sp # sps) cat =
     (case catalog_action sp cat of Inl e \<Rightarrow> Inl e | Inr cat' \<Rightarrow> register_all sps cat')"

section \<open>Invariant of the registry\<close>

definition spec_ok :: "action_spec \<Rightarrow> bool" where
  "spec_ok sp \<longleftrightarrow> 1 \<le> sp_max_attempts sp \<and> 0 \<le> sp_retry_delay_seconds sp \<and>
     py_strip (sp_required_agent_capability sp) \<noteq> [] \<and>
     (sp_supports_manual_retry sp \<longrightarrow> 2 \<le> sp_max_attempts sp)"

definition catalog_ok :: "catalog \<Rightarrow> bool" where
  "catalog_ok cat \<longleftrightarrow> distinct (map fst cat) \<and>
     (\<forall>(k, sp) \<in> set cat. k = sp_action sp \<and> spec_ok sp)"

lemma catalog_action_ok:
  "catalog_ok cat \<Longrightarrow> catalog_action sp cat = Inr cat' \<Longrightarrow> catalog_ok cat'"
  by (auto simp: catalog_action_def catalog_ok_def spec_ok_def map_of_eq_None_iff
      split: if_splits option.splits)

lemma register_all_ok: "catalog_ok cat \<Longrightarrow> register_all sps cat = Inr cat' \<Longrightarrow> catalog_ok cat'"
  by (induction sps arbitrary: cat) (auto split: sum.splits intro: catalog_action_ok)

lemma spec_for_map_of:
  "catalog_ok cat \<Longrightarrow> spec_for cat a = map_of cat a"
proof (induction cat)
  case (Cons x cat)
  then have "catalog_ok cat" by (simp add: catalog_ok_def)
  with Cons show ?case by (cases x) (auto simp: spec_for_def catalog_actions_def catalog_ok_def)
qed (simp add: spec_for_def catalog_actions_def)

lemma catalog_action_lookup:
  "catalog_ok cat \<Longrightarrow> catalog_action sp cat = Inr cat' \<Longrightarrow>
   map_of cat' = (map_of cat)(sp_action sp \<mapsto> sp)"
  by (auto simp: catalog_action_def map_add_def fun_eq_iff split: if_splits option.splits)

lemma catalog_action_keeps:
  "catalog_action sp cat = Inr cat' \<Longrightarrow> map_of cat a = Some x \<Longrightarrow> map_of cat' a = Some x"
  by (auto simp: catalog_action_def map_add_def split: if_splits option.splits)

lemma register_all_keeps:
  "register_all sps cat = Inr cat' \<Longrightarrow> map_of cat a = Some x \<Longrightarrow> map_of cat' a = Some x"
  by (induction sps arbitrary: cat) (auto split: sum.splits dest: catalog_action_keeps)

lemma register_all_finds:
  "register_all sps cat = Inr cat' \<Longrightarrow> catalog_ok cat \<Longrightarrow> sp \<in> set sps \<Longrightarrow>
   map_of cat' (sp_action sp) = Some sp"
proof (induction sps arbitrary: cat)
  case (Cons x sps)
  then obtain c where c: "catalog_action x cat = Inr c" "register_all sps c = Inr cat'"
    by (auto split: sum.splits)
  with Cons.prems have ok: "catalog_ok c" by (blast intro: catalog_action_ok)
  show ?case
  proof (cases "sp = x")
    case True
    with catalog_action_lookup [OF Cons.prems(2) c(1)] register_all_keeps [OF c(2)]
    show ?thesis by simp
  next
    case False
    with Cons.prems c ok show ?thesis by (auto intro: Cons.IH)
  qed
qed simp

text \<open>
  When every built-in declaration is accepted, looking an action up returns
  exactly the declaration made for it, whatever else was registered, and that declaration
  satisfies the guards: positive attempts, a capability, and at least two attempts wherever
  manual retry is offered.
\<close>

theorem registered_spec_found:
  assumes "register_all sps [] = Inr cat" and "sp \<in> set sps"
  shows "spec_for cat (sp_action sp) = Some sp \<and> spec_ok sp"
proof -
  have ok: "catalog_ok cat" using register_all_ok [OF _ assms(1)] by (simp add: catalog_ok_def)
  have found: "map_of cat (sp_action sp) = Some sp"
    using register_all_finds [OF assms(1) _ assms(2)] by (simp add: catalog_ok_def)
  with ok have "spec_ok sp" by (auto simp: catalog_ok_def dest: map_of_SomeD)
  with found ok show ?thesis by (simp add: spec_for_map_of)
qed

definition demo_scale_spec :: action_spec where
  "demo_scale_spec = \<lparr>sp_action = ''scale'', sp_recovery_aliases = [''scale_out''],
     sp_allowed_namespaces = [], sp_requires_approval = True,
     sp_requires_approval_outside_sandbox = False, sp_supports_cancel = True,
     sp_supports_manual_retry = True, sp_max_attempts = 3, sp_retry_delay_seconds = 5,
     sp_enforce_control_namespace = True, sp_read_only = False,
     sp_required_agent_capability = ''command_receiver''\<rparr>"

definition demo_query_spec :: action_spec where
  "demo_query_spec = demo_scale_spec\<lparr>sp_action := ''query'', sp_recovery_aliases := [],
     sp_supports_manual_retry := False, sp_max_attempts := 1, sp_read_only := True\<rparr>"

theorem registered_spec_found_witness:
  "\<exists>cat. register_all [demo_scale_spec, demo_query_spec, demo_scale_spec] [] = Inr cat \<and>
         spec_for cat ''query'' = Some demo_query_spec"
proof -
  have "isl (register_all [demo_scale_spec, demo_query_spec, demo_scale_spec] []) = False"
    by code_simp
  then obtain cat where
    cat: "register_all [demo_scale_spec, demo_query_spec, demo_scale_spec] [] = Inr cat"
    by (cases "register_all [demo_scale_spec, demo_query_spec, demo_scale_spec] []") auto
  have "demo_query_spec \<in> set [demo_scale_spec, demo_query_spec, demo_scale_spec]" by simp
  from registered_spec_found [OF cat this] cat show ?thesis by (simp add: demo_query_spec_def)
qed

end
