(* ===== verification/Command_Queue.thy ===== *)
theory Command_Queue
  imports Operation_Stream Command_Catalog
begin

text \<open>
  Accepting, queueing and reading agent commands
  (\<^verbatim>\<open>src/src/domains/command/repository.py\<close>). A logical command row is created in the
  receipt transaction or by the worker, its first attempt exactly once; a policy rejection
  closes it before any agent runs.

  \<open>now\<close> is the transaction's \<open>now()\<close>; identifiers the code draws from \<open>uuid4\<close> are
  arguments. The environment bundles what the repository takes from elsewhere.
\<close>

text \<open>
  \<open>ce_render\<close>: Python's text of floats and containers; \<open>ce_sql_text\<close>: PostgreSQL's text of a
  JSON value that is not a string; \<open>ce_timestamp\<close>: its timestamp parser (\<open>None\<close>: invalid);
  \<open>ce_impact\<close>: the SHA-256 impact fingerprint of cluster, action, namespace, diff and payload.
\<close>

record command_env =
  ce_catalog :: catalog
  ce_render :: "json \<Rightarrow> string"
  ce_sql_text :: "json \<Rightarrow> string"
  ce_timestamp :: "string \<Rightarrow> time option"
  ce_impact :: "string \<Rightarrow> string \<Rightarrow> string \<Rightarrow> jobj \<Rightarrow> jobj \<Rightarrow> string"

definition DEFAULT_WORKSPACE_ID :: string where
  "DEFAULT_WORKSPACE_ID = ''default''"

definition COMMAND_PRIORITY_HIGH :: int where
  "COMMAND_PRIORITY_HIGH = 100"

definition RCA_TEST_SCENARIO_INJECT_ACTION :: string where
  "RCA_TEST_SCENARIO_INJECT_ACTION = ''rca.test.inject''"

definition RCA_TEST_SCENARIO_CLEANUP_ACTION :: string where
  "RCA_TEST_SCENARIO_CLEANUP_ACTION = ''rca.test.cleanup''"

definition plan_workspace :: "plan \<Rightarrow> string" where
  "plan_workspace p = (case pl_workspace_id p of None \<Rightarrow> DEFAULT_WORKSPACE_ID | Some w \<Rightarrow> w)"

definition plan_payload_body :: "plan \<Rightarrow> jobj" where
  "plan_payload_body p = (case pl_payload p of None \<Rightarrow> [] | Some d \<Rightarrow> d)"

definition plan_namespace :: "command_env \<Rightarrow> plan \<Rightarrow> string" where
  "plan_namespace env p =
     (case pl_namespace p of
        Some (c # cs) \<Rightarrow> c # cs
      | _ \<Rightarrow> (case jget (plan_payload_body p) ''namespace'' of
                None \<Rightarrow> []
              | Some v \<Rightarrow> if py_truthy v then py_str (ce_render env) v else []))"

definition plan_priority :: "plan \<Rightarrow> int" where
  "plan_priority p = (case pl_priority p of
     None \<Rightarrow> COMMAND_PRIORITY_HIGH | Some n \<Rightarrow> if n = 0 then COMMAND_PRIORITY_HIGH else n)"

definition agent_command_values ::
    "command_env \<Rightarrow> time \<Rightarrow> string \<Rightarrow> plan \<Rightarrow> command_status \<Rightarrow> string option \<Rightarrow> command_row" where
  "agent_command_values env now correlation_id p status confirmation_event_id =
     \<lparr>ac_command_id = pl_command_id p,
      ac_workspace_id = plan_workspace p,
      ac_correlation_id = correlation_id,
      ac_cluster_id = pl_cluster_id p,
      ac_action = pl_action p,
      ac_priority = plan_priority p,
      ac_payload = p,
      ac_status = status,
      ac_lease_id = None,
      ac_agent_id = None,
      ac_leased_until = None,
      ac_started_at = None,
      ac_completed_at = None,
      ac_result = [],
      ac_confirmation_event_id = confirmation_event_id,
      ac_impact_identity =
        ce_impact env (pl_cluster_id p) (pl_action p) (plan_namespace env p)
          (case pl_diff p of None \<Rightarrow> [] | Some d \<Rightarrow> d) (plan_payload_body p),
      ac_direct_execution = (case pl_direct_execution p of None \<Rightarrow> False | Some b \<Rightarrow> b),
      ac_attempt_count = 0,
      ac_active_attempt_id = None,
      ac_cancel_requested_at = None,
      ac_cancel_requested_by = None,
      ac_cancel_reason = None,
      ac_cancel_accepted_at = None,
      ac_cancel_generation = 0,
      ac_terminal_event_id = None,
      ac_created_at = now,
      ac_updated_at = now\<rparr>"

text \<open>\<open>INSERT ... ON CONFLICT (command_id) DO NOTHING RETURNING command_id\<close>.\<close>

definition agent_command_insert ::
    "command_env \<Rightarrow> time \<Rightarrow> string \<Rightarrow> plan \<Rightarrow> command_status \<Rightarrow> string option \<Rightarrow> db \<Rightarrow> db \<times> bool" where
  "agent_command_insert env now correlation_id p status confirmation_event_id s =
     (if pl_command_id p \<in> set (map ac_command_id (db_commands s)) then (s, False)
      else (s\<lparr>db_commands := db_commands s @
                [agent_command_values env now correlation_id p status confirmation_event_id]\<rparr>, True))"

text \<open>
  The worker's upsert: a new row already carries its first attempt; an existing row is
  projected only while it is queued and has no attempt.
\<close>

definition unprojected :: "command_row \<Rightarrow> bool" where
  "unprojected c = (ac_status c = Queued \<and> ac_active_attempt_id c = None \<and> ac_attempt_count c = 0)"

definition agent_command_queue_upsert ::
    "command_env \<Rightarrow> time \<Rightarrow> string \<Rightarrow> plan \<Rightarrow> command_status \<Rightarrow> string \<Rightarrow> db \<Rightarrow> db \<times> bool" where
  "agent_command_queue_upsert env now correlation_id p status attempt_id s =
     (case lookup ac_command_id (pl_command_id p) (db_commands s) of
        None \<Rightarrow>
          (s\<lparr>db_commands := db_commands s @
               [(agent_command_values env now correlation_id p status None)
                  \<lparr>ac_attempt_count := 1, ac_active_attempt_id := Some attempt_id\<rparr>]\<rparr>, True)
      | Some c \<Rightarrow>
          if unprojected c
          then (s\<lparr>db_commands :=
                    update_where (\<lambda>r. ac_command_id r = pl_command_id p)
                      (\<lambda>r. r\<lparr>ac_attempt_count := 1, ac_active_attempt_id := Some attempt_id,
                            ac_updated_at := now\<rparr>) (db_commands s)\<rparr>, True)
          else (s, False))"

text \<open>
  An existing attempt identifier is a no-op; a clash on (command, attempt number) is not
  covered by the conflict clause and raises.
\<close>

definition agent_command_attempt_insert ::
    "time \<Rightarrow> string \<Rightarrow> string \<Rightarrow> string \<Rightarrow> string \<Rightarrow> nat \<Rightarrow> time option \<Rightarrow> db \<Rightarrow> db_error + db" where
  "agent_command_attempt_insert now attempt_id command_id workspace_id cluster_id attempt_no
     available_at s =
     (let row = \<lparr>at_attempt_id = attempt_id, at_command_id = command_id,
                at_workspace_id = workspace_id, at_cluster_id = cluster_id,
                at_attempt_no = attempt_no, at_status = At Queued,
                at_available_at = (case available_at of None \<Rightarrow> now | Some t \<Rightarrow> t),
                at_lease_id = None, at_agent_id = None, at_leased_until = None,
                at_started_at = None, at_completed_at = None, at_result = [],
                at_updated_at = now\<rparr>
      in if attempt_id \<in> set (map at_attempt_id (db_attempts s)) then Inr s
         else if (command_id, attempt_no) \<in>
                   set (map (\<lambda>a. (at_command_id a, at_attempt_no a)) (db_attempts s))
         then Inl (IntegrityError ''uq_agent_command_attempt_number'')
         else Inr (s\<lparr>db_attempts := db_attempts s @ [row]\<rparr>))"

definition notify_agent_command :: "string \<Rightarrow> string \<Rightarrow> db \<Rightarrow> db" where
  "notify_agent_command workspace_id cluster_id s =
     s\<lparr>db_notices := db_notices s @ [(workspace_id, cluster_id)]\<rparr>"

definition active_for :: "string \<Rightarrow> string \<Rightarrow> string \<Rightarrow> command_row \<Rightarrow> bool" where
  "active_for workspace_id cluster_id action c =
     (ac_workspace_id c = workspace_id \<and> ac_cluster_id c = cluster_id \<and> ac_action c = action \<and>
      ac_status c \<in> set [Queued, Leased, Running, CancelRequested, Cancelling])"

definition count_active_agent_commands :: "string \<Rightarrow> string \<Rightarrow> string \<Rightarrow> db \<Rightarrow> nat" where
  "count_active_agent_commands workspace_id cluster_id action s =
     count_where (active_for workspace_id cluster_id action) (db_commands s)"

text \<open>
  The receipt transaction. The advisory lock makes the count and the insert one atomic
  statement, which is what the state-passing form expresses.
\<close>

definition stage_logical_command_acceptance_in_transaction ::
    "command_env \<Rightarrow> time \<Rightarrow> string \<Rightarrow> plan \<Rightarrow> string \<Rightarrow> command_status \<Rightarrow> int option \<Rightarrow> db \<Rightarrow>
     db_error + db \<times> bool" where
  "stage_logical_command_acceptance_in_transaction env now correlation_id p confirmation_event_id
     status max_active_per_action s =
     (let insert = Inr (agent_command_insert env now correlation_id p status
                          (Some confirmation_event_id) s)
      in case max_active_per_action of
           None \<Rightarrow> insert
         | Some cap \<Rightarrow>
             if cap < 1 then Inl (ValueError ''command capacity must be positive'')
             else if cap \<le> int (count_active_agent_commands (plan_workspace p) (pl_cluster_id p)
                                  (pl_action p) s)
             then Inl (AgentCommandCapacityExceeded (pl_action p))
             else insert)"

definition queue_agent_command ::
    "command_env \<Rightarrow> time \<Rightarrow> string \<Rightarrow> string \<Rightarrow> plan \<Rightarrow> command_status \<Rightarrow> db \<Rightarrow>
     db_error + db \<times> bool" where
  "queue_agent_command env now attempt_id correlation_id p status s =
     (if pl_action p = RCA_TEST_SCENARIO_INJECT_ACTION
      then Inl (ValueError ''RCA test inject commands require the atomic reservation guard'')
      else let (s1, inserted) = agent_command_queue_upsert env now correlation_id p status attempt_id s
           in if \<not> inserted then Inr (s, False)
              else case agent_command_attempt_insert now attempt_id (pl_command_id p)
                          (plan_workspace p) (pl_cluster_id p) 1 None s1 of
                     Inl e \<Rightarrow> Inl e
                   | Inr s2 \<Rightarrow>
                       Inr (notify_agent_command (plan_workspace p) (pl_cluster_id p) s2, True))"

section \<open>The reservation guard of test injections\<close>

text \<open>\<open>payload -> 'payload' ->> key\<close>: absent and null are NULL.\<close>

definition payload_text :: "command_env \<Rightarrow> command_row \<Rightarrow> string \<Rightarrow> string option" where
  "payload_text env c k =
     (case jget (plan_payload_body (ac_payload c)) k of
        None \<Rightarrow> None
      | Some JNull \<Rightarrow> None
      | Some (JStr t) \<Rightarrow> Some t
      | Some v \<Rightarrow> Some (ce_sql_text env v))"

definition cleanup_finished :: "command_env \<Rightarrow> db \<Rightarrow> command_row \<Rightarrow> bool" where
  "cleanup_finished env s c =
     list_ex (\<lambda>d. ac_workspace_id d = ac_workspace_id c \<and> ac_cluster_id d = ac_cluster_id c \<and>
                  ac_action d = RCA_TEST_SCENARIO_CLEANUP_ACTION \<and> ac_status d = Completed \<and>
                  payload_text env d ''run_id'' \<noteq> None \<and>
                  payload_text env d ''run_id'' = payload_text env c ''run_id'')
       (db_commands s)"

text \<open>The rows for the same fixture, before their expiry is looked at.\<close>

definition same_fixture ::
    "command_env \<Rightarrow> string \<Rightarrow> string \<Rightarrow> string \<Rightarrow> string \<Rightarrow> string \<Rightarrow> db \<Rightarrow> command_row \<Rightarrow> bool" where
  "same_fixture env workspace_id cluster_id resource_kind namespace resource_name s c =
     (ac_workspace_id c = workspace_id \<and> ac_cluster_id c = cluster_id \<and>
      ac_action c = RCA_TEST_SCENARIO_INJECT_ACTION \<and>
      ascii_lower (case payload_text env c ''resource_kind'' of None \<Rightarrow> ''Deployment'' | Some k \<Rightarrow> k)
        = ascii_lower (py_strip resource_kind) \<and>
      payload_text env c ''namespace'' = Some namespace \<and>
      payload_text env c ''resource_name'' = Some resource_name \<and>
      \<not> cleanup_finished env s c)"

definition expiry_of :: "command_env \<Rightarrow> command_row \<Rightarrow> db_error + time option" where
  "expiry_of env c =
     (case payload_text env c ''expires_at'' of
        None \<Rightarrow> Inr None
      | Some t \<Rightarrow> (case ce_timestamp env t of
                    None \<Rightarrow> Inl (ValueError ''invalid input syntax for type timestamp'')
                  | Some e \<Rightarrow> Inr (Some e)))"

definition queue_rca_test_command_if_available ::
    "command_env \<Rightarrow> time \<Rightarrow> string \<Rightarrow> string \<Rightarrow> plan \<Rightarrow> command_status \<Rightarrow>
     string \<Rightarrow> string \<Rightarrow> string \<Rightarrow> int \<Rightarrow> int \<Rightarrow> db \<Rightarrow> db_error + db \<times> bool" where
  "queue_rca_test_command_if_available env now attempt_id correlation_id p status
     resource_kind namespace resource_name max_concurrent_runs ttl_seconds s =
     (if pl_action p \<noteq> RCA_TEST_SCENARIO_INJECT_ACTION
      then Inl (ValueError ''atomic RCA test reservation accepts inject commands only'')
      else if max_concurrent_runs < 1 \<or> ttl_seconds < 1
      then Inl (ValueError ''RCA test concurrency and TTL must be positive'')
      else
        let rows = filter (same_fixture env (plan_workspace p) (pl_cluster_id p) resource_kind
                             namespace resource_name s) (db_commands s)
        in if list_ex (\<lambda>c. isl (expiry_of env c)) rows
           then Inl (ValueError ''invalid input syntax for type timestamp'')
           else if max_concurrent_runs \<le>
                     int (count_where (\<lambda>c. case expiry_of env c of
                            Inr (Some e) \<Rightarrow> now < e | _ \<Rightarrow> False) rows)
           then Inr (s, False)
           else let (s1, inserted) =
                      agent_command_queue_upsert env now correlation_id p status attempt_id s
                in if \<not> inserted then Inr (s, False)
                   else case agent_command_attempt_insert now attempt_id (pl_command_id p)
                               (plan_workspace p) (pl_cluster_id p) 1 None s1 of
                          Inl e \<Rightarrow> Inl e
                        | Inr s2 \<Rightarrow>
                            Inr (notify_agent_command (plan_workspace p) (pl_cluster_id p) s2, True))"

section \<open>Rejection before execution\<close>

definition result_object :: "command_status \<Rightarrow> string \<Rightarrow> jobj" where
  "result_object status message =
     [(''status'', JStr (status_name status)), (''applied'', JBool False),
      (''message'', JStr message)]"

definition fail_logical_command_and_stage_event ::
    "time \<Rightarrow> string \<Rightarrow> string \<Rightarrow> string \<Rightarrow> string \<Rightarrow> db \<Rightarrow>
     db_error + db \<times> op_event_row option" where
  "fail_logical_command_and_stage_event now workspace_id command_id cluster_id reason s =
     (let result = result_object Failed reason @ [(''retryable'', JBool False)];
          p = (\<lambda>c. ac_workspace_id c = workspace_id \<and> ac_command_id c = command_id \<and>
                   ac_cluster_id c = cluster_id \<and> ac_status c = Queued)
      in case find p (db_commands s) of
           None \<Rightarrow> Inr (s, None)
         | Some row \<Rightarrow>
             append_command_operation_event_in_transaction now workspace_id command_id KFailed
               cluster_id
               [(''cluster_id'', JStr cluster_id), (''status'', JStr (status_name Failed)),
                (''correlation_id'', JStr (ac_correlation_id row)), (''result'', JObj result)]
               (s\<lparr>db_commands := update_where p
                    (\<lambda>c. c\<lparr>ac_status := Failed, ac_result := result,
                          ac_completed_at := Some now, ac_updated_at := now\<rparr>) (db_commands s)\<rparr>))"

section \<open>The receipt stage\<close>

text \<open>
  The stage of \<^verbatim>\<open>accept_command_with_receipt_stage\<close>
  (\<^verbatim>\<open>src/src/domains/command/router.py\<close>): the logical row and the browser's receipt in
  one transaction. \<open>requested\<close> is the command of the request, \<open>build\<close> is \<open>build_plan\<close> on it.
\<close>

record command_request =
  cr_workspace_id :: string
  cr_cluster_id :: string
  cr_action :: string

definition accept_command_stage ::
    "command_env \<Rightarrow> time \<Rightarrow> string \<Rightarrow> string \<Rightarrow> command_request \<Rightarrow> plan \<Rightarrow> int option \<Rightarrow> db \<Rightarrow>
     db_error + db \<times> op_event_row option" where
  "accept_command_stage env now correlation_id accepted_event_id requested p
     max_active_per_action s =
     (case stage_logical_command_acceptance_in_transaction env now correlation_id p
             accepted_event_id Queued max_active_per_action s of
        Inl e \<Rightarrow> Inl e
      | Inr (s1, inserted) \<Rightarrow>
          stage_command_operation_event_in_transaction now (cr_workspace_id requested)
            (pl_command_id p) Progress (cr_cluster_id requested)
            [(''cluster_id'', JStr (cr_cluster_id requested)),
             (''status'', JStr (status_name Queued)),
             (''action'', JStr (cr_action requested)),
             (''correlation_id'', JStr correlation_id)] s1)"

section \<open>Reads\<close>

definition get_agent_command :: "string \<Rightarrow> string \<Rightarrow> db \<Rightarrow> command_row option" where
  "get_agent_command command_id workspace_id s =
     find (\<lambda>c. ac_command_id c = command_id \<and> ac_workspace_id c = workspace_id) (db_commands s)"

text \<open>
  Newest first; \<open>string_key\<close> orders identifiers as the database collation does.
\<close>

definition list_agent_commands_by_correlation ::
    "(string \<Rightarrow> int) \<Rightarrow> string \<Rightarrow> string \<Rightarrow> int \<Rightarrow> db \<Rightarrow> command_row list" where
  "list_agent_commands_by_correlation string_key workspace_id correlation_id lmt s =
     take (nat (max 1 (min lmt 20)))
       (sort_key (\<lambda>c. - ac_created_at c)
          (sort_key (\<lambda>c. - string_key (ac_command_id c))
             (filter (\<lambda>c. ac_workspace_id c = workspace_id \<and> ac_correlation_id c = correlation_id)
                (db_commands s))))"

definition command_status_count :: "command_status \<Rightarrow> db \<Rightarrow> nat" where
  "command_status_count status s = count_where (\<lambda>c. ac_status c = status) (db_commands s)"

definition oldest_command_age :: "time \<Rightarrow> command_status \<Rightarrow> db \<Rightarrow> time" where
  "oldest_command_age now status s =
     (case filter (\<lambda>c. ac_status c = status) (db_commands s) of
        [] \<Rightarrow> 0
      | c # cs \<Rightarrow> now - fold (\<lambda>d t. min (ac_created_at d) t) cs (ac_created_at c))"

end
