(* ===== verification/Command_Control.thy ===== *)
theory Command_Control
  imports Command_Queue
begin

text \<open>
  Operator controls on a command: cancel and manual retry
  (\<^verbatim>\<open>stage_command_control_in_transaction\<close> of
  \<^verbatim>\<open>src/src/domains/command/repository.py\<close>). One transaction checks the idempotency key,
  changes the command and its attempt, appends the stream event and records the control.
\<close>

text \<open>
  \<open>_command_retry_policy\<close>: attempts and delay declared in the plan; anything that is not a
  dictionary of integers counts as one attempt without delay.
\<close>

definition command_retry_policy :: "plan \<Rightarrow> int \<times> int" where
  "command_retry_policy p =
     (case pl_retry_policy p of
        Some (JObj policy) \<Rightarrow>
          (case (py_int (case jget policy ''max_attempts'' of None \<Rightarrow> JInt 1 | Some v \<Rightarrow> v),
                 py_int (case jget policy ''retry_delay_seconds'' of None \<Rightarrow> JInt 0 | Some v \<Rightarrow> v)) of
             (Some m, Some d) \<Rightarrow> (max 1 m, max 0 d)
           | _ \<Rightarrow> (1, 0))
      | _ \<Rightarrow> (1, 0))"

definition current_control_row ::
    "string \<Rightarrow> string \<Rightarrow> control_action \<Rightarrow> string \<Rightarrow> db \<Rightarrow> control_row option" where
  "current_control_row workspace_id command_id action idempotency_key s =
     find (\<lambda>r. control_key r = (workspace_id, command_id, action, idempotency_key)) (db_controls s)"

record staged_control =
  sc_control_id :: string
  sc_command_id :: string
  sc_action :: control_action
  sc_correlation_id :: string
  sc_status :: command_status
  sc_attempt_id :: "string option"
  sc_operation_event :: "op_event_row option"

text \<open>What a branch of the control leaves behind for the record that closes the transaction.\<close>

record control_effect =
  ce_status :: command_status
  ce_attempt_id :: "string option"
  ce_operation_event :: "op_event_row option"
  ce_outcome :: string
  ce_details :: jobj

definition retryable_result :: "jobj \<Rightarrow> bool" where
  "retryable_result r = (jget r ''retryable'' = Some (JBool True))"

section \<open>Cancel\<close>

text \<open>A queued or leased command ends at once, with its attempt.\<close>

definition cancel_before_start ::
    "time \<Rightarrow> string \<Rightarrow> command_row \<Rightarrow> string \<Rightarrow> string option \<Rightarrow> string \<Rightarrow> db \<Rightarrow>
     db_error + db \<times> control_effect" where
  "cancel_before_start now control_id row requested_by reason event_id s =
     (let ws = ac_workspace_id row; cmd = ac_command_id row; status = ac_status row;
          message = (case reason of
                       Some (c # cs) \<Rightarrow> c # cs
                     | _ \<Rightarrow> ''command cancelled before execution started'');
          result = result_object Cancelled message;
          s1 = s\<lparr>db_commands := update_where
                 (\<lambda>c. ac_workspace_id c = ws \<and> ac_command_id c = cmd \<and> ac_status c = status)
                 (\<lambda>c. c\<lparr>ac_status := Cancelled, ac_result := result, ac_completed_at := Some now,
                       ac_cancel_requested_at := Some now,
                       ac_cancel_requested_by := Some requested_by,
                       ac_cancel_reason := reason, ac_terminal_event_id := Some event_id,
                       ac_updated_at := now\<rparr>) (db_commands s)\<rparr>;
          s2 = (case ac_active_attempt_id row of
                  None \<Rightarrow> s1
                | Some aid \<Rightarrow> s1\<lparr>db_attempts := update_where
                    (\<lambda>a. at_attempt_id a = aid \<and> at_workspace_id a = ws \<and>
                         at_status a \<in> set [At Queued, At Leased])
                    (\<lambda>a. a\<lparr>at_status := At Cancelled, at_result := result,
                          at_completed_at := Some now, at_updated_at := now\<rparr>) (db_attempts s1)\<rparr>)
      in case stage_command_operation_event_in_transaction now ws cmd KCancelled
                (ac_cluster_id row)
                [(''cluster_id'', JStr (ac_cluster_id row)),
                 (''status'', JStr (status_name Cancelled)),
                 (''correlation_id'', JStr (ac_correlation_id row)),
                 (''control_id'', JStr control_id), (''result'', JObj result)] s2 of
           Inl e \<Rightarrow> Inl e
         | Inr (s3, ev) \<Rightarrow>
             Inr (s3, \<lparr>ce_status = Cancelled, ce_attempt_id = ac_active_attempt_id row,
                       ce_operation_event = ev, ce_outcome = ''accepted'',
                       ce_details = [(''status_before'', JStr (status_name status)),
                                     (''correlation_id'', JStr (ac_correlation_id row))]\<rparr>))"

text \<open>A running command is only asked to stop; the generation tells requests apart.\<close>

definition request_cancel ::
    "time \<Rightarrow> string \<Rightarrow> command_row \<Rightarrow> string \<Rightarrow> string option \<Rightarrow> db \<Rightarrow>
     db_error + db \<times> control_effect" where
  "request_cancel now control_id row requested_by reason s =
     (let ws = ac_workspace_id row; cmd = ac_command_id row;
          generation = Suc (ac_cancel_generation row);
          s1 = s\<lparr>db_commands := update_where
                 (\<lambda>c. ac_workspace_id c = ws \<and> ac_command_id c = cmd \<and> ac_status c = Running)
                 (\<lambda>c. c\<lparr>ac_status := CancelRequested, ac_cancel_requested_at := Some now,
                       ac_cancel_requested_by := Some requested_by, ac_cancel_reason := reason,
                       ac_cancel_generation := generation, ac_updated_at := now\<rparr>)
                 (db_commands s)\<rparr>
      in case stage_command_operation_event_in_transaction now ws cmd Progress
                (ac_cluster_id row)
                [(''cluster_id'', JStr (ac_cluster_id row)),
                 (''status'', JStr (status_name CancelRequested)),
                 (''correlation_id'', JStr (ac_correlation_id row)),
                 (''control_id'', JStr control_id),
                 (''cancel_generation'', JInt (int generation))] s1 of
           Inl e \<Rightarrow> Inl e
         | Inr (s2, ev) \<Rightarrow>
             Inr (s2, \<lparr>ce_status = CancelRequested, ce_attempt_id = ac_active_attempt_id row,
                       ce_operation_event = ev, ce_outcome = ''accepted'',
                       ce_details = [(''status_before'', JStr (status_name (ac_status row))),
                                     (''correlation_id'', JStr (ac_correlation_id row)),
                                     (''cancel_generation'', JInt (int generation))]\<rparr>))"

definition cancel_command ::
    "command_env \<Rightarrow> time \<Rightarrow> string \<Rightarrow> command_row \<Rightarrow> string \<Rightarrow> string option \<Rightarrow> string \<Rightarrow> db \<Rightarrow>
     db_error + db \<times> control_effect" where
  "cancel_command env now control_id row requested_by reason event_id s =
     (if (case spec_for (ce_catalog env) (ac_action row) of
            None \<Rightarrow> True | Some sp \<Rightarrow> \<not> sp_supports_cancel sp)
      then Inl (CommandControlConflict ''command action does not support cancellation'')
      else if ac_status row \<in> set [Completed, Failed, Cancelled]
      then Inl (CommandControlConflict ''terminal command cannot be cancelled'')
      else if ac_status row \<in> set [CancelRequested, Cancelling]
      then Inr (s, \<lparr>ce_status = ac_status row, ce_attempt_id = ac_active_attempt_id row,
                    ce_operation_event = None, ce_outcome = ''already_requested'',
                    ce_details = [(''status_before'', JStr (status_name (ac_status row))),
                                  (''correlation_id'', JStr (ac_correlation_id row)),
                                  (''cancel_generation'', JInt (int (ac_cancel_generation row)))]\<rparr>)
      else if ac_status row \<in> set [Queued, Leased]
      then cancel_before_start now control_id row requested_by reason event_id s
      else request_cancel now control_id row requested_by reason s)"

section \<open>Manual retry\<close>

text \<open>The guards, in the order the code raises them; \<open>None\<close> lets the retry through.\<close>

definition retry_refusal :: "command_env \<Rightarrow> command_row \<Rightarrow> db_error option" where
  "retry_refusal env row =
     (let (max_attempts, delay) = command_retry_policy (ac_payload row) in
      if ac_status row \<noteq> Failed
      then Some (CommandControlConflict ''only a failed command may be retried'')
      else if (case spec_for (ce_catalog env) (ac_action row) of
                 None \<Rightarrow> True | Some sp \<Rightarrow> \<not> sp_supports_manual_retry sp) \<or> max_attempts < 2
      then Some (CommandControlConflict ''command action retry policy does not allow manual retry'')
      else if max_attempts \<le> int (ac_attempt_count row)
      then Some (CommandControlConflict ''command retry budget is exhausted'')
      else if \<not> retryable_result (ac_result row)
      then Some (CommandControlConflict ''failed command is not declared retryable'')
      else None)"

definition requeue_row :: "time \<Rightarrow> nat \<Rightarrow> string \<Rightarrow> command_row \<Rightarrow> command_row" where
  "requeue_row now attempt_no attempt_id c =
     c\<lparr>ac_status := Queued, ac_attempt_count := attempt_no,
       ac_active_attempt_id := Some attempt_id, ac_lease_id := None, ac_agent_id := None,
       ac_leased_until := None, ac_started_at := None, ac_completed_at := None, ac_result := [],
       ac_cancel_requested_at := None, ac_cancel_requested_by := None, ac_cancel_reason := None,
       ac_cancel_accepted_at := None, ac_terminal_event_id := None, ac_updated_at := now\<rparr>"

definition retry_command ::
    "command_env \<Rightarrow> time \<Rightarrow> string \<Rightarrow> string \<Rightarrow> command_row \<Rightarrow> db \<Rightarrow>
     db_error + db \<times> control_effect" where
  "retry_command env now control_id attempt_id row s =
     (case retry_refusal env row of
        Some e \<Rightarrow> Inl e
      | None \<Rightarrow>
          let ws = ac_workspace_id row; cmd = ac_command_id row;
              (max_attempts, delay) = command_retry_policy (ac_payload row);
              next_no = Suc (ac_attempt_count row)
          in case agent_command_attempt_insert now attempt_id cmd ws (ac_cluster_id row) next_no
                    (Some (now + seconds delay)) s of
               Inl e \<Rightarrow> Inl e
             | Inr s1 \<Rightarrow>
                 let s2 = s1\<lparr>db_commands := update_where
                            (\<lambda>c. ac_workspace_id c = ws \<and> ac_command_id c = cmd \<and>
                                 ac_status c = Failed)
                            (requeue_row now next_no attempt_id) (db_commands s1)\<rparr>;
                     s3 = notify_agent_command ws (ac_cluster_id row) s2
                 in case stage_command_operation_event_in_transaction now ws cmd Progress
                           (ac_cluster_id row)
                           [(''cluster_id'', JStr (ac_cluster_id row)),
                            (''status'', JStr (status_name Queued)),
                            (''correlation_id'', JStr (ac_correlation_id row)),
                            (''control_id'', JStr control_id), (''attempt_id'', JStr attempt_id),
                            (''attempt_no'', JInt (int next_no)),
                            (''available_after_seconds'', JInt delay)] s3 of
                      Inl e \<Rightarrow> Inl e
                    | Inr (s4, ev) \<Rightarrow>
                        Inr (s4, \<lparr>ce_status = Queued, ce_attempt_id = Some attempt_id,
                                  ce_operation_event = ev, ce_outcome = ''accepted'',
                                  ce_details = [(''status_before'', JStr (status_name (ac_status row))),
                                    (''correlation_id'', JStr (ac_correlation_id row)),
                                    (''attempt_no'', JInt (int next_no)),
                                    (''retry_delay_seconds'', JInt delay),
                                    (''max_attempts'', JInt max_attempts)]\<rparr>))"

section \<open>The control transaction\<close>

definition parse_control_action :: "string \<Rightarrow> control_action option" where
  "parse_control_action a =
     (if a = ''cancel'' then Some Cancel else if a = ''retry'' then Some Retry else None)"

definition stage_command_control_in_transaction ::
    "command_env \<Rightarrow> time \<Rightarrow> string \<Rightarrow> string \<Rightarrow> string \<Rightarrow> string \<Rightarrow> string \<Rightarrow> string \<Rightarrow> string \<Rightarrow>
     string option \<Rightarrow> string \<Rightarrow> string \<Rightarrow> db \<Rightarrow> db_error + db \<times> staged_control" where
  "stage_command_control_in_transaction env now control_id attempt_id workspace_id command_id
     action idempotency_key requested_by reason event_id audit_event_id s =
     (case parse_control_action action of
        None \<Rightarrow> Inl (ValueError ''unsupported command control action'')
      | Some act \<Rightarrow>
          (case find (\<lambda>c. ac_workspace_id c = workspace_id \<and> ac_command_id c = command_id)
                  (db_commands s) of
             None \<Rightarrow> Inl (CommandControlNotFound ''command not found'')
           | Some row \<Rightarrow>
               if current_control_row workspace_id command_id act idempotency_key s \<noteq> None
               then Inl (DuplicateCommandControl idempotency_key)
               else
                 case (case act of
                         Cancel \<Rightarrow> cancel_command env now control_id row requested_by reason event_id s
                       | Retry \<Rightarrow> retry_command env now control_id attempt_id row s) of
                   Inl e \<Rightarrow> Inl e
                 | Inr (s1, eff) \<Rightarrow>
                     Inr (s1\<lparr>db_controls := insert_new control_key
                              \<lparr>cc_control_id = control_id, cc_workspace_id = workspace_id,
                               cc_command_id = command_id, cc_action = act,
                               cc_idempotency_key = idempotency_key,
                               cc_requested_by = requested_by, cc_reason = reason,
                               cc_outcome = ce_outcome eff, cc_event_id = event_id,
                               cc_audit_event_id = audit_event_id,
                               cc_attempt_id = ce_attempt_id eff,
                               cc_details = ce_details eff @
                                 [(''status_after'', JStr (status_name (ce_status eff)))],
                               cc_updated_at = now\<rparr> (db_controls s1)\<rparr>,
                          \<lparr>sc_control_id = control_id, sc_command_id = command_id,
                           sc_action = act, sc_correlation_id = ac_correlation_id row,
                           sc_status = ce_status eff, sc_attempt_id = ce_attempt_id eff,
                           sc_operation_event = ce_operation_event eff\<rparr>)))"

end
