(* ===== verification/Event_Envelope.thy ===== *)
theory Event_Envelope
  imports Storage_Schema
begin

text \<open>
  Making and storing event envelopes: \<^verbatim>\<open>src/src/packages/events/envelope.py\<close>,
  \<^verbatim>\<open>src/src/packages/events/context.py\<close>, and the inserts into the event ledger and the
  outbox of \<^verbatim>\<open>src/src/packages/storage/repositories\<close>. Both inserts ignore a known event
  identifier, which is what makes redelivery and repeated sweeps harmless.
\<close>

definition ENVELOPE_SCHEMA_VERSION :: int where
  "ENVELOPE_SCHEMA_VERSION = 1"

definition normalized_workspace_id :: "string option \<Rightarrow> string option" where
  "normalized_workspace_id v =
     (case v of None \<Rightarrow> None | Some w \<Rightarrow> if py_strip w = [] then None else Some (py_strip w))"

text \<open>
  \<^verbatim>\<open>event(...)\<close>: \<open>event_id\<close> is the fresh uuid, \<open>current_ws\<close> the context variable.
  Correlation falls back to a non-empty text of the payload and then to the event itself.
\<close>

definition make_event ::
    "string \<Rightarrow> time \<Rightarrow> string option \<Rightarrow> string \<Rightarrow> string \<Rightarrow> jobj \<Rightarrow> string option \<Rightarrow> string option \<Rightarrow>
     string option \<Rightarrow> envelope" where
  "make_event event_id now current_ws subject source payload correlation_id causation_id workspace_id =
     \<lparr>env_event_id = event_id, env_subject = subject, env_source = source,
      env_correlation_id =
        (case correlation_id of
           Some (c # cs) \<Rightarrow> c # cs
         | _ \<Rightarrow> (case jget payload ''correlation_id'' of
                   Some (JStr (c # cs)) \<Rightarrow> c # cs
                 | _ \<Rightarrow> event_id)),
      env_causation_id = causation_id, env_created_at = now, env_payload = payload,
      env_schema_version = ENVELOPE_SCHEMA_VERSION,
      env_workspace_id =
        (case normalized_workspace_id workspace_id of
           Some w \<Rightarrow> Some w
         | None \<Rightarrow> normalized_workspace_id current_ws)\<rparr>"

definition event_row_of :: "time \<Rightarrow> envelope \<Rightarrow> event_row" where
  "event_row_of now e =
     \<lparr>ev_event_id = env_event_id e, ev_subject = env_subject e, ev_source = env_source e,
      ev_correlation_id = env_correlation_id e, ev_causation_id = env_causation_id e,
      ev_payload = env_payload e, ev_schema_version = env_schema_version e, ev_created_at = now\<rparr>"

definition outbox_row_of :: "nat \<Rightarrow> envelope \<Rightarrow> outbox_row" where
  "outbox_row_of n e =
     \<lparr>ob_id = n, ob_event_id = env_event_id e, ob_subject = env_subject e,
      ob_source = env_source e, ob_correlation_id = env_correlation_id e,
      ob_causation_id = env_causation_id e, ob_workspace_id = env_workspace_id e,
      ob_occurred_at = env_created_at e, ob_payload = env_payload e,
      ob_schema_version = env_schema_version e, ob_lease_id = None, ob_leased_until = None,
      ob_sent_at = None\<rparr>"

definition record_event :: "time \<Rightarrow> envelope \<Rightarrow> db \<Rightarrow> db" where
  "record_event now e s =
     s\<lparr>db_events := insert_new ev_event_id (event_row_of now e) (db_events s)\<rparr>"

text \<open>The key sequence advances even where the row is dropped on conflict.\<close>

definition stage_outbox_event :: "envelope \<Rightarrow> db \<Rightarrow> db" where
  "stage_outbox_event e s =
     s\<lparr>db_outbox := insert_new ob_event_id (outbox_row_of (Suc (db_outbox_seq s)) e) (db_outbox s),
       db_outbox_seq := Suc (db_outbox_seq s)\<rparr>"

definition stage_events :: "envelope list \<Rightarrow> db \<Rightarrow> db" where
  "stage_events es s = fold stage_outbox_event es s"

section \<open>Frame and content lemmas\<close>

lemma record_event_frame [simp]:
  "db_outbox (record_event now e s) = db_outbox s"
  "db_outbox_seq (record_event now e s) = db_outbox_seq s"
  "db_processing (record_event now e s) = db_processing s"
  "db_dead_letters (record_event now e s) = db_dead_letters s"
  "db_commands (record_event now e s) = db_commands s"
  "db_attempts (record_event now e s) = db_attempts s"
  "db_cursors (record_event now e s) = db_cursors s"
  "db_op_events (record_event now e s) = db_op_events s"
  "db_controls (record_event now e s) = db_controls s"
  by (simp_all add: record_event_def)

lemma stage_outbox_event_frame [simp]:
  "db_events (stage_outbox_event e s) = db_events s"
  "db_processing (stage_outbox_event e s) = db_processing s"
  "db_dead_letters (stage_outbox_event e s) = db_dead_letters s"
  "db_commands (stage_outbox_event e s) = db_commands s"
  "db_attempts (stage_outbox_event e s) = db_attempts s"
  "db_cursors (stage_outbox_event e s) = db_cursors s"
  "db_op_events (stage_outbox_event e s) = db_op_events s"
  "db_controls (stage_outbox_event e s) = db_controls s"
  by (simp_all add: stage_outbox_event_def)

lemma stage_events_simps [simp]:
  "stage_events [] s = s"
  "stage_events (e # es) s = stage_events es (stage_outbox_event e s)"
  by (simp_all add: stage_events_def)

lemma stage_events_frame [simp]:
  "db_events (stage_events es s) = db_events s"
  "db_processing (stage_events es s) = db_processing s"
  "db_dead_letters (stage_events es s) = db_dead_letters s"
  "db_commands (stage_events es s) = db_commands s"
  by (induction es arbitrary: s) simp_all

lemma outbox_row_of_id [simp]: "ob_event_id (outbox_row_of n e) = env_event_id e"
  by (simp add: outbox_row_of_def)

lemma stage_outbox_event_keeps: "r \<in> set (db_outbox s) \<Longrightarrow> r \<in> set (db_outbox (stage_outbox_event e s))"
  by (simp add: stage_outbox_event_def table_simps)

lemma stage_events_keeps: "r \<in> set (db_outbox s) \<Longrightarrow> r \<in> set (db_outbox (stage_events es s))"
  by (induction es arbitrary: s) (simp_all add: stage_outbox_event_keeps)

text \<open>Staged events are in the outbox afterwards, waiting to be sent unless already known.\<close>

lemma stage_outbox_event_present:
  "env_event_id e \<in> ob_event_id ` set (db_outbox (stage_outbox_event e s))"
  by (auto simp: stage_outbox_event_def table_simps)

lemma stage_events_present:
  "e \<in> set es \<Longrightarrow> env_event_id e \<in> ob_event_id ` set (db_outbox (stage_events es s))"
proof (induction es arbitrary: s)
  case (Cons a es)
  show ?case
  proof (cases "e = a")
    case True
    with stage_outbox_event_present [of a s] show ?thesis
      by (auto dest: stage_events_keeps [of _ _ es])
  next
    case False
    with Cons show ?thesis by simp
  qed
qed simp

lemma stage_outbox_unique:
  "unique_key ob_event_id (db_outbox s) \<Longrightarrow> unique_key ob_event_id (db_outbox (stage_outbox_event e s))"
  by (simp add: stage_outbox_event_def unique_key_insert_new)

lemma stage_events_unique:
  "unique_key ob_event_id (db_outbox s) \<Longrightarrow> unique_key ob_event_id (db_outbox (stage_events es s))"
  by (induction es arbitrary: s) (simp_all add: stage_outbox_unique)

end
