(* ===== verification/Command_Lease.thy ===== *)
theory Command_Lease
  imports Command_Control Event_Envelope
begin

text \<open>
  The agent side of a command (\<^verbatim>\<open>AgentCommandRepository\<close> of
  \<^verbatim>\<open>src/src/domains/command/repository.py\<close>): lease, start, heartbeat with reverse cancel
  control, completion with its workflow event staged in the same transaction.
\<close>

section \<open>Lease\<close>

definition leasable :: "time \<Rightarrow> command_row \<Rightarrow> attempt_row \<Rightarrow> bool" where
  "leasable now c a =
     ((ac_status c = Queued \<and> at_status a = At Queued) \<or>
      (ac_status c = Leased \<and> at_status a = At Leased \<and> sql_less (at_leased_until a) now))"

text \<open>
  Commands joined with their active attempt, in lease order. \<open>locked\<close> are the commands a
  concurrent transaction holds (SKIP LOCKED). Equal priority and creation time keep table
  order, which is one of the orders the database may choose.
\<close>

definition lease_candidates ::
    "time \<Rightarrow> string \<Rightarrow> string \<Rightarrow> (string \<Rightarrow> bool) \<Rightarrow> db \<Rightarrow> (command_row \<times> attempt_row) list" where
  "lease_candidates now workspace_id cluster_id locked s =
     sort_key (\<lambda>(c, a). - ac_priority c)
       (sort_key (\<lambda>(c, a). ac_created_at c)
          (filter (\<lambda>(c, a). ac_active_attempt_id c = Some (at_attempt_id a) \<and>
                     ac_workspace_id c = workspace_id \<and> ac_cluster_id c = cluster_id \<and>
                     at_workspace_id a = workspace_id \<and> at_cluster_id a = cluster_id \<and>
                     at_available_at a \<le> now \<and> leasable now c a \<and> \<not> locked (ac_command_id c))
             (List.product (db_commands s) (db_attempts s))))"

definition lease_row :: "time \<Rightarrow> string \<Rightarrow> string \<Rightarrow> time \<Rightarrow> command_row \<Rightarrow> command_row" where
  "lease_row now lease_id agent_id leased_until c =
     c\<lparr>ac_status := Leased, ac_lease_id := Some lease_id, ac_agent_id := Some agent_id,
       ac_leased_until := Some leased_until, ac_updated_at := now\<rparr>"

definition lease_attempt :: "time \<Rightarrow> string \<Rightarrow> string \<Rightarrow> time \<Rightarrow> attempt_row \<Rightarrow> attempt_row" where
  "lease_attempt now lease_id agent_id leased_until a =
     a\<lparr>at_status := At Leased, at_lease_id := Some lease_id, at_agent_id := Some agent_id,
       at_leased_until := Some leased_until, at_updated_at := now\<rparr>"

definition lease_agent_command ::
    "time \<Rightarrow> string \<Rightarrow> string \<Rightarrow> string \<Rightarrow> string \<Rightarrow> int \<Rightarrow> (string \<Rightarrow> bool) \<Rightarrow> db \<Rightarrow>
     db_error + db \<times> (command_row \<times> op_event_row option) option" where
  "lease_agent_command now lease_id cluster_id workspace_id agent_id lease_seconds locked s =
     (let leased_until = now + seconds lease_seconds in
      case lease_candidates now workspace_id cluster_id locked s of
        [] \<Rightarrow> Inr (s, None)
      | (sel, att) # _ \<Rightarrow>
          let attempt_id = at_attempt_id att;
              target = (\<lambda>c. ac_command_id c = ac_command_id sel \<and> ac_workspace_id c = workspace_id \<and>
                            ac_active_attempt_id c = Some attempt_id \<and>
                            ac_status c \<in> set [Queued, Leased])
          in case find target (db_commands s) of
               None \<Rightarrow> Inr (s, None)
             | Some c \<Rightarrow>
                 let leased = lease_row now lease_id agent_id leased_until c;
                     s1 = s\<lparr>db_commands := update_where target
                              (lease_row now lease_id agent_id leased_until) (db_commands s),
                            db_attempts := update_where
                              (\<lambda>a. at_attempt_id a = attempt_id \<and> at_workspace_id a = workspace_id \<and>
                                   at_status a \<in> set [At Queued, At Leased])
                              (lease_attempt now lease_id agent_id leased_until) (db_attempts s)\<rparr>
                 in case append_command_operation_event_in_transaction now workspace_id
                           (ac_command_id leased) Progress cluster_id
                           [(''cluster_id'', JStr cluster_id),
                            (''status'', JStr (status_name Leased)),
                            (''action'', JStr (ac_action leased)),
                            (''correlation_id'', JStr (ac_correlation_id leased)),
                            (''attempt_id'', JStr attempt_id)] s1 of
                      Inl e \<Rightarrow> Inl e
                    | Inr (s2, ev) \<Rightarrow> Inr (s2, Some (leased, ev)))"

section \<open>Start\<close>

text \<open>The row a lease holder may act on: \<open>statuses\<close> and the still valid lease.\<close>

definition held_by ::
    "time \<Rightarrow> string \<Rightarrow> string \<Rightarrow> string \<Rightarrow> string \<Rightarrow> string \<Rightarrow> command_status list \<Rightarrow>
     command_row \<Rightarrow> bool" where
  "held_by now command_id workspace_id cluster_id lease_id agent_id statuses c =
     (ac_command_id c = command_id \<and> ac_workspace_id c = workspace_id \<and>
      ac_cluster_id c = cluster_id \<and> ac_lease_id c = Some lease_id \<and>
      ac_agent_id c = Some agent_id \<and> ac_status c \<in> set statuses \<and>
      sql_ge (ac_leased_until c) now)"

definition attempt_matches :: "string option \<Rightarrow> command_row \<Rightarrow> bool" where
  "attempt_matches attempt_id c =
     (case attempt_id of None \<Rightarrow> True | Some a \<Rightarrow> ac_active_attempt_id c = Some a)"

definition start_agent_command ::
    "time \<Rightarrow> string \<Rightarrow> string \<Rightarrow> string \<Rightarrow> string \<Rightarrow> string \<Rightarrow> int \<Rightarrow> string option \<Rightarrow> db \<Rightarrow>
     db_error + db \<times> (string \<times> op_event_row option) option" where
  "start_agent_command now command_id workspace_id cluster_id lease_id agent_id lease_seconds
     attempt_id s =
     (let leased_until = now + seconds lease_seconds;
          p = (\<lambda>c. held_by now command_id workspace_id cluster_id lease_id agent_id [Leased] c \<and>
                   attempt_matches attempt_id c)
      in case find p (db_commands s) of
           None \<Rightarrow> Inr (s, None)
         | Some c \<Rightarrow>
             let s1 = s\<lparr>db_commands := update_where p
                        (\<lambda>r. r\<lparr>ac_status := Running, ac_leased_until := Some leased_until,
                              ac_started_at := Some now, ac_updated_at := now\<rparr>) (db_commands s)\<rparr>;
                 s2 = (case ac_active_attempt_id c of
                         Some (x # xs) \<Rightarrow>
                           s1\<lparr>db_attempts := update_where
                             (\<lambda>a. at_attempt_id a = x # xs \<and> at_workspace_id a = workspace_id \<and>
                                  at_lease_id a = Some lease_id \<and> at_agent_id a = Some agent_id \<and>
                                  at_status a = At Leased)
                             (\<lambda>a. a\<lparr>at_status := At Running, at_started_at := Some now,
                                   at_leased_until := Some leased_until, at_updated_at := now\<rparr>)
                             (db_attempts s1)\<rparr>
                       | _ \<Rightarrow> s1)
             in case append_command_operation_event_in_transaction now workspace_id command_id
                       Progress cluster_id
                       [(''cluster_id'', JStr cluster_id), (''status'', JStr (status_name Running)),
                        (''correlation_id'', JStr (ac_correlation_id c)),
                        (''attempt_id'', (case ac_active_attempt_id c of
                                            Some (x # xs) \<Rightarrow> JStr (x # xs) | _ \<Rightarrow> JNull))] s2 of
                  Inl e \<Rightarrow> Inl e
                | Inr (s3, ev) \<Rightarrow> Inr (s3, Some (ac_correlation_id c, ev)))"

section \<open>Heartbeat\<close>

record heartbeat_reply =
  hb_correlation_id :: string
  hb_cancel_requested :: bool
  hb_cancel_generation :: "nat option"
  hb_operation_event :: "op_event_row option"

definition acknowledges_cancel :: "command_row \<Rightarrow> int option \<Rightarrow> bool" where
  "acknowledges_cancel c observed =
     (ac_status c = CancelRequested \<and>
      (case observed of None \<Rightarrow> False | Some g \<Rightarrow> int (ac_cancel_generation c) \<le> g))"

text \<open>
  A command without an active attempt matches neither update (\<open>str(None or "")\<close> is the empty
  text, compared with a NULL column), but the reply and the event are produced all the same.
\<close>

definition heartbeat_agent_command ::
    "time \<Rightarrow> string \<Rightarrow> string \<Rightarrow> string \<Rightarrow> string \<Rightarrow> string \<Rightarrow> int \<Rightarrow> string option \<Rightarrow>
     int option \<Rightarrow> db \<Rightarrow> db_error + db \<times> heartbeat_reply option" where
  "heartbeat_agent_command now command_id workspace_id cluster_id lease_id agent_id lease_seconds
     attempt_id observed_cancel_generation s =
     (let leased_until = now + seconds lease_seconds in
      case find (held_by now command_id workspace_id cluster_id lease_id agent_id
                   [Leased, Running, CancelRequested, Cancelling]) (db_commands s) of
        None \<Rightarrow> Inr (s, None)
      | Some c \<Rightarrow>
          let active = (case ac_active_attempt_id c of None \<Rightarrow> [] | Some a \<Rightarrow> a) in
          if (case attempt_id of None \<Rightarrow> False | Some a \<Rightarrow> a \<noteq> active) then Inr (s, None)
          else
            let acknowledged = acknowledges_cancel c observed_cancel_generation;
                next_status = (if acknowledged then Cancelling else ac_status c);
                s1 = s\<lparr>db_commands := update_where
                         (\<lambda>r. ac_command_id r = command_id \<and> ac_workspace_id r = workspace_id \<and>
                              ac_lease_id r = Some lease_id \<and> ac_agent_id r = Some agent_id \<and>
                              ac_active_attempt_id r = Some active)
                         (\<lambda>r. r\<lparr>ac_status := next_status, ac_leased_until := Some leased_until,
                               ac_cancel_accepted_at :=
                                 (if acknowledged then Some now else ac_cancel_accepted_at r),
                               ac_updated_at := now\<rparr>) (db_commands s)\<rparr>;
                s2 = (if active = [] then s1
                      else s1\<lparr>db_attempts := update_where
                        (\<lambda>a. at_attempt_id a = active \<and> at_workspace_id a = workspace_id \<and>
                             at_lease_id a = Some lease_id \<and> at_agent_id a = Some agent_id \<and>
                             at_status a \<in> set [At Leased, At Running])
                        (\<lambda>a. a\<lparr>at_leased_until := Some leased_until, at_updated_at := now\<rparr>)
                        (db_attempts s1)\<rparr>);
                reply = (\<lambda>ev. \<lparr>hb_correlation_id = ac_correlation_id c,
                               hb_cancel_requested = (next_status \<in> set [CancelRequested, Cancelling]),
                               hb_cancel_generation =
                                 (if ac_cancel_generation c = 0 then None
                                  else Some (ac_cancel_generation c)),
                               hb_operation_event = ev\<rparr>)
            in if \<not> acknowledged then Inr (s2, Some (reply None))
               else case append_command_operation_event_in_transaction now workspace_id command_id
                           Progress cluster_id
                           [(''cluster_id'', JStr cluster_id),
                            (''status'', JStr (status_name Cancelling)),
                            (''correlation_id'', JStr (ac_correlation_id c)),
                            (''cancel_generation'', JInt (int (ac_cancel_generation c)))] s2 of
                      Inl e \<Rightarrow> Inl e
                    | Inr (s3, ev) \<Rightarrow> Inr (s3, Some (reply ev)))"

section \<open>Completion\<close>

definition status_of_result :: "json \<Rightarrow> command_status option" where
  "status_of_result v =
     (case v of
        JStr t \<Rightarrow> find (\<lambda>st. status_name st = t)
                   [Queued, Leased, Running, CancelRequested, Cancelling, Completed, Failed, Cancelled]
      | _ \<Rightarrow> None)"

definition final_failure :: "command_env \<Rightarrow> command_row \<Rightarrow> jobj \<Rightarrow> bool" where
  "final_failure env c result =
     (\<not> (retryable_result result \<and>
         (case spec_for (ce_catalog env) (pl_action (ac_payload c)) of
            None \<Rightarrow> False | Some sp \<Rightarrow> sp_supports_manual_retry sp) \<and>
         int (ac_attempt_count c) < fst (command_retry_policy (ac_payload c))))"

definition completed_event ::
    "time \<Rightarrow> string \<Rightarrow> string \<Rightarrow> string \<Rightarrow> string \<Rightarrow> string \<Rightarrow> jobj \<Rightarrow> envelope" where
  "completed_event now event_id source correlation_id workspace_id command_id result =
     make_event event_id now None ''command.completed'' source
       [(''command_id'', JStr command_id), (''result'', JObj result)]
       (Some correlation_id) None (Some workspace_id)"

text \<open>Ledger and outbox rows of the workflow event, in the caller's transaction.\<close>

definition stage_completed :: "time \<Rightarrow> envelope \<Rightarrow> db \<Rightarrow> db" where
  "stage_completed now e s = stage_outbox_event e (record_event now e s)"

definition finish_row :: "time \<Rightarrow> command_status \<Rightarrow> jobj \<Rightarrow> command_row \<Rightarrow> command_row" where
  "finish_row now st result c =
     c\<lparr>ac_status := st, ac_result := result, ac_completed_at := Some now, ac_updated_at := now\<rparr>"

definition finish_attempt :: "time \<Rightarrow> attempt_status \<Rightarrow> jobj \<Rightarrow> attempt_row \<Rightarrow> attempt_row" where
  "finish_attempt now st result a =
     a\<lparr>at_status := st, at_result := result, at_completed_at := Some now, at_updated_at := now\<rparr>"

definition complete_agent_command_and_stage_event ::
    "command_env \<Rightarrow> time \<Rightarrow> string \<Rightarrow> string \<Rightarrow> string \<Rightarrow> string \<Rightarrow> jobj \<Rightarrow> string \<Rightarrow> string \<Rightarrow>
     string \<Rightarrow> string option \<Rightarrow> db \<Rightarrow>
     db_error + db \<times> (envelope \<times> op_event_row option) option" where
  "complete_agent_command_and_stage_event env now event_id command_id workspace_id cluster_id
     result lease_id agent_id source attempt_id s =
     (case jget result ''status'' of
        None \<Rightarrow> Inl (KeyError ''status'')
      | Some v \<Rightarrow>
          let p = (\<lambda>c. held_by now command_id workspace_id cluster_id lease_id agent_id
                         [Running, CancelRequested, Cancelling] c \<and> attempt_matches attempt_id c)
          in case find p (db_commands s) of
               None \<Rightarrow> Inr (s, None)
             | Some c \<Rightarrow>
                 (case status_of_result v of
                    None \<Rightarrow> Inl (ValueError ''non-terminal command status cannot close operation stream'')
                  | Some st \<Rightarrow>
                      let s1 = s\<lparr>db_commands := update_where p
                                 (finish_row now st result) (db_commands s)\<rparr>;
                          s2 = (case ac_active_attempt_id c of
                                  Some (x # xs) \<Rightarrow>
                                    s1\<lparr>db_attempts := update_where
                                      (\<lambda>a. at_attempt_id a = x # xs \<and> at_workspace_id a = workspace_id \<and>
                                           at_lease_id a = Some lease_id \<and>
                                           at_agent_id a = Some agent_id \<and>
                                           at_status a \<in> set [At Running, At Leased])
                                      (finish_attempt now (At st) result) (db_attempts s1)\<rparr>
                                | _ \<Rightarrow> s1)
                      in case command_terminal_event_kind st (st \<noteq> Failed \<or> final_failure env c result) of
                           Inl e \<Rightarrow> Inl e
                         | Inr kind \<Rightarrow>
                             (case append_command_operation_event_in_transaction now workspace_id
                                     command_id kind cluster_id
                                     [(''cluster_id'', JStr cluster_id),
                                      (''status'', JStr (status_name st)),
                                      (''correlation_id'', JStr (ac_correlation_id c)),
                                      (''result'', JObj result),
                                      (''attempt_id'', (case ac_active_attempt_id c of
                                         Some (x # xs) \<Rightarrow> JStr (x # xs) | _ \<Rightarrow> JNull)),
                                      (''terminal'', JBool (kind \<noteq> Progress))] s2 of
                                Inl e \<Rightarrow> Inl e
                              | Inr (s3, ev) \<Rightarrow>
                                  let done = completed_event now event_id source
                                               (ac_correlation_id c) workspace_id command_id result;
                                      s4 = (if kind = Progress then s3
                                            else s3\<lparr>db_commands := update_where
                                              (\<lambda>r. ac_command_id r = command_id \<and>
                                                   ac_workspace_id r = workspace_id)
                                              (\<lambda>r. r\<lparr>ac_terminal_event_id := Some (env_event_id done)\<rparr>)
                                              (db_commands s3)\<rparr>)
                                  in Inr (stage_completed now done s4, Some (done, ev)))))"

end
