(* ===== verification/Command_Expiry.thy ===== *)
theory Command_Expiry
  imports Command_Lease
begin

text \<open>
  The janitor's sweep (\<^verbatim>\<open>fail_expired_agent_commands\<close> of
  \<^verbatim>\<open>src/src/domains/command/repository.py\<close>): commands nobody picked up, leases nobody
  completed and cancellations nobody confirmed are closed in one transaction, each with its
  attempt, its terminal stream event and its workflow event in ledger and outbox.
\<close>

definition EXPIRED_COMMAND_GRACE_SECONDS :: int where
  "EXPIRED_COMMAND_GRACE_SECONDS = 300"

definition QUEUED_COMMAND_TTL_SECONDS :: int where
  "QUEUED_COMMAND_TTL_SECONDS = 1800"

definition EXPIRED_COMMAND_FAILURE_MESSAGE :: string where
  "EXPIRED_COMMAND_FAILURE_MESSAGE = ''command lease expired; no agent completed the command''"

definition QUEUED_COMMAND_FAILURE_MESSAGE :: string where
  "QUEUED_COMMAND_FAILURE_MESSAGE =
     ''command queue expired; no connected agent accepted the command''"

definition CANCELLING_COMMAND_FAILURE_MESSAGE :: string where
  "CANCELLING_COMMAND_FAILURE_MESSAGE =
     ''command lease expired during cancellation; agent did not confirm''"

definition command_expired :: "time \<Rightarrow> int \<Rightarrow> int \<Rightarrow> command_row \<Rightarrow> bool" where
  "command_expired now grace_seconds queue_ttl_seconds c =
     (ac_status c = Queued \<and> ac_created_at c < now - seconds queue_ttl_seconds \<or>
      ac_status c \<in> set [Leased, Running] \<and> sql_less (ac_leased_until c) (now - seconds grace_seconds) \<or>
      ac_status c \<in> set [CancelRequested, Cancelling] \<and>
        (case ac_leased_until c of None \<Rightarrow> ac_updated_at c | Some t \<Rightarrow> t)
          < now - seconds grace_seconds)"

definition expiry_status :: "command_status \<Rightarrow> command_status" where
  "expiry_status st = (if st \<in> set [CancelRequested, Cancelling] then Cancelled else Failed)"

definition expiry_message :: "command_status \<Rightarrow> string" where
  "expiry_message st =
     (if st = Queued then QUEUED_COMMAND_FAILURE_MESSAGE
      else if st \<in> set [CancelRequested, Cancelling] then CANCELLING_COMMAND_FAILURE_MESSAGE
      else EXPIRED_COMMAND_FAILURE_MESSAGE)"

definition expire_command_row :: "time \<Rightarrow> command_row \<Rightarrow> command_row" where
  "expire_command_row now c =
     c\<lparr>ac_status := expiry_status (ac_status c),
       ac_result := result_object (expiry_status (ac_status c)) (expiry_message (ac_status c)),
       ac_completed_at := Some now, ac_updated_at := now\<rparr>"

text \<open>
  The deterministic event identifier: \<open>uuid5\<close> of the command and its attempt count, so that a
  repeated sweep cannot stage a second event.
\<close>

definition expiry_event_id :: "(string \<Rightarrow> string) \<Rightarrow> command_row \<Rightarrow> string" where
  "expiry_event_id uuid5 row =
     uuid5 (''command-expired:'' @ ac_command_id row @ '':'' @ int_text (int (ac_attempt_count row)))"

text \<open>What the loop does for one returned (already updated) row.\<close>

definition close_expired_row ::
    "(string \<Rightarrow> string) \<Rightarrow> time \<Rightarrow> string \<Rightarrow> command_row \<Rightarrow> db \<Rightarrow> db_error + db" where
  "close_expired_row uuid5 now source row s =
     (let s1 = (case ac_active_attempt_id row of
                  Some (x # xs) \<Rightarrow>
                    s\<lparr>db_attempts := update_where
                      (\<lambda>a. at_attempt_id a = x # xs \<and> at_workspace_id a = ac_workspace_id row \<and>
                           at_status a \<in> set [At Queued, At Leased, At Running])
                      (\<lambda>a. a\<lparr>at_status := Expired, at_result := ac_result row,
                            at_completed_at := Some now, at_updated_at := now\<rparr>) (db_attempts s)\<rparr>
                | _ \<Rightarrow> s)
      in case stage_command_operation_event_in_transaction now (ac_workspace_id row)
                (ac_command_id row) (if ac_status row = Cancelled then KCancelled else KFailed)
                (ac_cluster_id row)
                [(''cluster_id'', JStr (ac_cluster_id row)),
                 (''status'', JStr (status_name (ac_status row))),
                 (''correlation_id'', JStr (ac_correlation_id row)),
                 (''result'', JObj (ac_result row))] s1 of
           Inl e \<Rightarrow> Inl e
         | Inr (s2, ev) \<Rightarrow>
             let done = completed_event now (expiry_event_id uuid5 row) source
                          (ac_correlation_id row) (ac_workspace_id row) (ac_command_id row)
                          (ac_result row);
                 s3 = s2\<lparr>db_commands := update_where
                        (\<lambda>c. ac_command_id c = ac_command_id row \<and>
                             ac_workspace_id c = ac_workspace_id row)
                        (\<lambda>c. c\<lparr>ac_terminal_event_id := Some (env_event_id done)\<rparr>)
                        (db_commands s2)\<rparr>
             in Inr (stage_completed now done s3))"

fun close_expired_rows ::
    "(string \<Rightarrow> string) \<Rightarrow> time \<Rightarrow> string \<Rightarrow> command_row list \<Rightarrow> db \<Rightarrow> db_error + db" where
  "close_expired_rows uuid5 now source [] s = Inr s"
| "close_expired_rows uuid5 now source (row # rows) s =
     (case close_expired_row uuid5 now source row s of
        Inl e \<Rightarrow> Inl e
      | Inr s' \<Rightarrow> close_expired_rows uuid5 now source rows s')"

definition fail_expired_agent_commands ::
    "(string \<Rightarrow> string) \<Rightarrow> time \<Rightarrow> int \<Rightarrow> int \<Rightarrow> string \<Rightarrow> db \<Rightarrow> db_error + db \<times> command_row list" where
  "fail_expired_agent_commands uuid5 now grace_seconds queue_ttl_seconds source s =
     (if grace_seconds < 1 \<or> queue_ttl_seconds < 1
      then Inl (ValueError ''command expiry durations must be positive'')
      else
        let hit = command_expired now grace_seconds queue_ttl_seconds;
            rows = map (expire_command_row now) (filter hit (db_commands s));
            s1 = s\<lparr>db_commands := update_where hit (expire_command_row now) (db_commands s)\<rparr>
        in case close_expired_rows uuid5 now source rows s1 of
             Inl e \<Rightarrow> Inl e
           | Inr s2 \<Rightarrow> Inr (s2, rows))"

text \<open>
  The janitor (\<^verbatim>\<open>emit_expired_command_completions\<close> of
  \<^verbatim>\<open>src/src/services/command/command-janitor/app.py\<close>): an exception leaves the rows for the
  next sweep and counts as none.
\<close>

definition emit_expired_command_completions ::
    "(string \<Rightarrow> string) \<Rightarrow> time \<Rightarrow> int \<Rightarrow> string \<Rightarrow> db \<Rightarrow> db \<times> nat" where
  "emit_expired_command_completions uuid5 now queue_ttl_seconds service_name s =
     (case fail_expired_agent_commands uuid5 now EXPIRED_COMMAND_GRACE_SECONDS queue_ttl_seconds
             service_name s of
        Inl e \<Rightarrow> (s, 0)
      | Inr (s', rows) \<Rightarrow> (s', length rows))"

end
