(* ===== verification/Command_Invariant.thy ===== *)
theory Command_Invariant
  imports Command_Expiry
begin

text \<open>
  The operations of the command domain as one step relation over the database, the
  invariant that ties a command to its attempts and to its stream, and its preservation by
  every operation. The properties of the command domain are read off this invariant.
\<close>

section \<open>Commands, attempts and streams by key\<close>

definition cmds :: "db \<Rightarrow> string \<Rightarrow> command_row option" where
  "cmds s k = lookup ac_command_id k (db_commands s)"

definition atts :: "db \<Rightarrow> string \<Rightarrow> attempt_row option" where
  "atts s i = lookup at_attempt_id i (db_attempts s)"

definition active_attempt :: "db \<Rightarrow> command_row \<Rightarrow> attempt_row option" where
  "active_attempt s c = Option.bind (ac_active_attempt_id c) (atts s)"

text \<open>
  The active attempt exists, belongs to the command and carries its latest number; only a
  command that was never projected has none.
\<close>

definition attempt_link :: "command_row \<Rightarrow> attempt_row option \<Rightarrow> bool" where
  "attempt_link c ao =
     (case ac_active_attempt_id c of
        None \<Rightarrow> ac_attempt_count c = 0
      | Some i \<Rightarrow> i \<noteq> [] \<and> 1 \<le> ac_attempt_count c \<and>
          (case ao of
             None \<Rightarrow> False
           | Some a \<Rightarrow> at_command_id a = ac_command_id c \<and> at_attempt_no a = ac_attempt_count c \<and>
                       at_workspace_id a = ac_workspace_id c \<and> at_cluster_id a = ac_cluster_id c))"

definition linked :: "db \<Rightarrow> bool" where
  "linked s \<longleftrightarrow>
     unique_key ac_command_id (db_commands s) \<and> unique_key at_attempt_id (db_attempts s) \<and>
     op_streams_ok s \<and>
     (\<forall>k c. cmds s k = Some c \<longrightarrow> attempt_link c (active_attempt s c)) \<and>
     (\<forall>i a. atts s i = Some a \<longrightarrow>
        (\<exists>c. cmds s (at_command_id a) = Some c \<and> 1 \<le> at_attempt_no a \<and>
             at_attempt_no a \<le> ac_attempt_count c)) \<and>
     (\<forall>ws k. \<not> stream_open s ws k \<longrightarrow> (\<exists>c. cmds s k = Some c \<and> ac_workspace_id c = ws))"

text \<open>A predicate on each command, its active attempt and whether its stream is open.\<close>

definition rows_ok :: "(command_row \<Rightarrow> attempt_row option \<Rightarrow> bool \<Rightarrow> bool) \<Rightarrow> db \<Rightarrow> bool" where
  "rows_ok R s \<longleftrightarrow>
     (\<forall>k c. cmds s k = Some c \<longrightarrow>
        R c (active_attempt s c) (stream_open s (ac_workspace_id c) k))"

text \<open>
  What the attempt of a command says, per status of the command. An attempt of a closed
  command is never leased or running, so no agent holds it.
\<close>

fun attempt_agrees :: "command_row \<Rightarrow> attempt_row \<Rightarrow> bool" where
  "attempt_agrees c a =
     (case ac_status c of
        Queued \<Rightarrow> at_status a = At Queued
      | Leased \<Rightarrow> at_status a = At Leased \<and> at_lease_id a = ac_lease_id c \<and>
                 at_agent_id a = ac_agent_id c \<and> at_leased_until a = ac_leased_until c \<and>
                 ac_lease_id c \<noteq> None
      | Completed \<Rightarrow> at_status a = At Completed
      | Failed \<Rightarrow> at_status a \<notin> {At Leased, At Running}
      | Cancelled \<Rightarrow> at_status a \<notin> {At Leased, At Running}
      | _ \<Rightarrow> at_status a = At Running \<and> at_lease_id a = ac_lease_id c \<and>
             at_agent_id a = ac_agent_id c \<and> at_leased_until a = ac_leased_until c \<and>
             ac_lease_id c \<noteq> None)"

definition consistent :: "command_env \<Rightarrow> command_row \<Rightarrow> attempt_row option \<Rightarrow> bool \<Rightarrow> bool" where
  "consistent env c ao opn \<longleftrightarrow>
     ac_action c = pl_action (ac_payload c) \<and>
     (opn \<longleftrightarrow> command_status_is_active (ac_status c) \<or> retry_refusal env c = None) \<and>
     int (ac_attempt_count c) \<le> fst (command_retry_policy (ac_payload c)) \<and>
     (case ao of
        None \<Rightarrow> ac_status c \<in> {Queued, Failed, Cancelled}
      | Some a \<Rightarrow> attempt_agrees c a)"

definition command_inv :: "command_env \<Rightarrow> db \<Rightarrow> bool" where
  "command_inv env s \<longleftrightarrow> linked s \<and> rows_ok (consistent env) s"

lemma command_inv_empty: "command_inv env empty_db"
  by (simp add: command_inv_def linked_def rows_ok_def cmds_def atts_def empty_db_def
      unique_key_def stream_open_def cursor_at_def op_streams_ok_def op_stream_def stream_ok_def)

section \<open>Changing one command\<close>

lemma rewire:
  assumes L: "linked s" and R: "rows_ok R s"
    and other: "\<And>d a opn. ac_command_id d \<noteq> k \<Longrightarrow> R d a opn \<Longrightarrow> R' d a opn"
    and keys: "unique_key ac_command_id (db_commands s')" "unique_key at_attempt_id (db_attempts s')"
    and streams: "op_streams_ok s'"
    and c': "cmds s' k = Some c'" "\<And>j. j \<noteq> k \<Longrightarrow> cmds s' j = cmds s j"
    and old: "\<And>c. cmds s k = Some c \<Longrightarrow>
      ac_workspace_id c' = ac_workspace_id c \<and> ac_attempt_count c \<le> ac_attempt_count c'"
    and atts': "\<And>i. Some i \<noteq> ac_active_attempt_id c' \<Longrightarrow> atts s' i = atts s i"
    and own: "\<And>i a. Some i = ac_active_attempt_id c' \<Longrightarrow> atts s i = Some a \<Longrightarrow> at_command_id a = k"
    and link: "attempt_link c' (active_attempt s' c')"
    and opn: "\<And>w j. (w, j) \<noteq> (ac_workspace_id c', k) \<Longrightarrow> stream_open s' w j = stream_open s w j"
    and here: "R' c' (active_attempt s' c') (stream_open s' (ac_workspace_id c') k)"
  shows "linked s' \<and> rows_ok R' s'"
proof -
  have k: "ac_command_id c' = k" using lookup_Some_in [OF c'(1) [unfolded cmds_def]] by simp
  have same: "active_attempt s' d = active_attempt s d" if d: "cmds s j = Some d" "j \<noteq> k" for j d
  proof (cases "ac_active_attempt_id d")
    case (Some i)
    from L d(1) have "attempt_link d (active_attempt s d)" by (auto simp: linked_def)
    with Some obtain a where a: "atts s i = Some a" "at_command_id a = ac_command_id d"
      by (auto simp: attempt_link_def active_attempt_def split: option.splits)
    have "ac_command_id d = j" using lookup_Some_in [OF d(1) [unfolded cmds_def]] by simp
    with a own [of i a] d(2) have "Some i \<noteq> ac_active_attempt_id c'" by auto
    with atts' Some show ?thesis by (simp add: active_attempt_def)
  qed (simp add: active_attempt_def)
  have links: "\<forall>j d. cmds s' j = Some d \<longrightarrow> attempt_link d (active_attempt s' d)"
  proof (intro allI impI)
    fix j d assume "cmds s' j = Some d"
    with link c' same [of j d] L show "attempt_link d (active_attempt s' d)"
      by (cases "j = k") (auto simp: linked_def)
  qed
  have owners: "\<exists>c. cmds s' (at_command_id a) = Some c \<and> 1 \<le> at_attempt_no a \<and>
      at_attempt_no a \<le> ac_attempt_count c" if a: "atts s' i = Some a" for i a
  proof (cases "Some i = ac_active_attempt_id c'")
    case True
    with link a c'(1) k show ?thesis
      by (auto simp: attempt_link_def active_attempt_def split: option.splits)
  next
    case False
    with a atts' have "atts s i = Some a" by simp
    with L obtain c where c: "cmds s (at_command_id a) = Some c" "1 \<le> at_attempt_no a"
      "at_attempt_no a \<le> ac_attempt_count c" unfolding linked_def by blast
    show ?thesis
    proof (cases "at_command_id a = k")
      case True
      with c old [of c] c'(1) show ?thesis by auto
    next
      case False
      with c c'(2) show ?thesis by auto
    qed
  qed
  have closed: "\<exists>c. cmds s' j = Some c \<and> ac_workspace_id c = w" if "\<not> stream_open s' w j" for w j
  proof (cases "(w, j) = (ac_workspace_id c', k)")
    case False
    with opn that have "\<not> stream_open s w j" by blast
    with L obtain c where "cmds s j = Some c" "ac_workspace_id c = w"
      unfolding linked_def by blast
    with False old [of c] c' show ?thesis by (cases "j = k") auto
  qed (use c' in auto)
  have rows: "rows_ok R' s'"
    unfolding rows_ok_def
  proof (intro allI impI)
    fix j d assume d: "cmds s' j = Some d"
    show "R' d (active_attempt s' d) (stream_open s' (ac_workspace_id d) j)"
    proof (cases "j = k")
      case True
      with d c' here show ?thesis by simp
    next
      case False
      with d c' have "cmds s j = Some d" by simp
      moreover have "ac_command_id d = j" using lookup_Some_in [OF d [unfolded cmds_def]] by simp
      ultimately show ?thesis
        using R False same [of j d] opn [of "ac_workspace_id d" j] other [of d]
        by (auto simp: rows_ok_def)
    qed
  qed
  show ?thesis using keys streams links owners closed rows by (auto simp: linked_def)
qed

text \<open>An update statement that leaves identities alone, seen through the keys.\<close>

definition same_command :: "command_row \<Rightarrow> command_row \<Rightarrow> bool" where
  "same_command c' c \<longleftrightarrow>
     ac_command_id c' = ac_command_id c \<and> ac_workspace_id c' = ac_workspace_id c \<and>
     ac_cluster_id c' = ac_cluster_id c \<and> ac_active_attempt_id c' = ac_active_attempt_id c \<and>
     ac_attempt_count c' = ac_attempt_count c"

definition same_attempt :: "attempt_row \<Rightarrow> attempt_row \<Rightarrow> bool" where
  "same_attempt a' a \<longleftrightarrow>
     at_attempt_id a' = at_attempt_id a \<and> at_command_id a' = at_command_id a \<and>
     at_attempt_no a' = at_attempt_no a \<and> at_workspace_id a' = at_workspace_id a \<and>
     at_cluster_id a' = at_cluster_id a"

lemma linkedD:
  assumes "linked s"
  shows "unique_key ac_command_id (db_commands s)" "unique_key at_attempt_id (db_attempts s)"
    "op_streams_ok s"
    "cmds s k = Some c \<Longrightarrow> attempt_link c (active_attempt s c)"
    "atts s i = Some a \<Longrightarrow> \<exists>c. cmds s (at_command_id a) = Some c \<and> 1 \<le> at_attempt_no a \<and>
       at_attempt_no a \<le> ac_attempt_count c"
    "\<not> stream_open s ws k \<Longrightarrow> \<exists>c. cmds s k = Some c \<and> ac_workspace_id c = ws"
  using assms unfolding linked_def by blast+

lemma stream_open_append:
  assumes step: "append_command_operation_event_in_transaction now ws cmd k cl p s = Inr (s', r)"
    and ok: "op_streams_ok s"
  shows "stream_open s' w j =
    (if (w, j) = (ws, cmd) then stream_open s ws cmd \<and> \<not> terminal_kind k else stream_open s w j)"
proof (cases "snd (cursor_at s ws cmd) = None")
  case False
  with append_closed [OF step op_streams_okD(1) [OF ok] False] show ?thesis
    by (auto simp: stream_open_def)
next
  case True
  then obtain row where "\<forall>w c. cursor_at s' w c = (if w = ws \<and> c = cmd
        then (Suc (fst (cursor_at s ws cmd)),
              if terminal_kind k then Some (Suc (fst (cursor_at s ws cmd))) else None)
        else cursor_at s w c)"
    using append_open [OF step op_streams_okD(1) [OF ok] True] by blast
  with True show ?thesis by (simp add: stream_open_def)
qed

lemma append_tables:
  assumes "append_command_operation_event_in_transaction now ws cmd k cl p s = Inr (s', r)"
  shows "db_commands s' = db_commands s" "db_attempts s' = db_attempts s"
    "db_events s' = db_events s" "db_outbox s' = db_outbox s" "db_controls s' = db_controls s"
    "db_processing s' = db_processing s" "db_outbox_seq s' = db_outbox_seq s"
    "db_notices s' = db_notices s"
  by (subst append_frame [OF assms], simp)+

lemma stream_open_cong:
  "db_cursors s' = db_cursors s \<Longrightarrow> stream_open s' w j = stream_open s w j"
  by (simp add: stream_open_def cursor_at_def)

lemma stream_open_tables [simp]:
  "stream_open (s\<lparr>db_commands := x\<rparr>) = stream_open s"
  "stream_open (s\<lparr>db_attempts := y\<rparr>) = stream_open s"
  "stream_open (s\<lparr>db_controls := z\<rparr>) = stream_open s"
  "stream_open (s\<lparr>db_notices := n\<rparr>) = stream_open s"
  by (simp_all add: stream_open_def cursor_at_def fun_eq_iff)

lemma op_streams_ok_tables [simp]:
  "op_streams_ok (s\<lparr>db_commands := x\<rparr>) = op_streams_ok s"
  "op_streams_ok (s\<lparr>db_attempts := y\<rparr>) = op_streams_ok s"
  "op_streams_ok (s\<lparr>db_controls := z\<rparr>) = op_streams_ok s"
  "op_streams_ok (s\<lparr>db_notices := n\<rparr>) = op_streams_ok s"
  by (simp_all add: op_streams_ok_def op_stream_def cursor_at_def)

text \<open>
  One command is updated with its active attempt; \<open>s2\<close> may close or extend its stream.
\<close>

lemma touch:
  assumes L: "linked s" and R: "rows_ok R s"
    and other: "\<And>d a opn. ac_command_id d \<noteq> ac_command_id c \<Longrightarrow> R d a opn \<Longrightarrow> R' d a opn"
    and c: "cmds s k = Some c"
    and commands: "db_commands s' = update_where p f (db_commands s)" "p c"
      "\<And>r. p r \<Longrightarrow> ac_command_id r = k" "\<And>r. same_command (f r) r"
    and attempts: "db_attempts s' = update_where q g (db_attempts s)"
      "\<And>a. q a \<Longrightarrow> Some (at_attempt_id a) = ac_active_attempt_id c" "\<And>a. same_attempt (g a) a"
    and streams: "op_streams_ok s'"
      "\<And>w j. (w, j) \<noteq> (ac_workspace_id c, k) \<Longrightarrow> stream_open s' w j = stream_open s w j"
    and here: "R' (f c) (map_option (\<lambda>a. if q a then g a else a) (active_attempt s c))
      (stream_open s' (ac_workspace_id c) k)"
  shows "linked s' \<and> rows_ok R' s'"
proof -
  have same: "ac_command_id (f r) = ac_command_id r" "ac_workspace_id (f r) = ac_workspace_id r"
    "ac_cluster_id (f r) = ac_cluster_id r" "ac_active_attempt_id (f r) = ac_active_attempt_id r"
    "ac_attempt_count (f r) = ac_attempt_count r" for r
    using commands(4) [of r] by (simp_all add: same_command_def)
  have same': "at_attempt_id (g a) = at_attempt_id a" "at_command_id (g a) = at_command_id a"
    "at_attempt_no (g a) = at_attempt_no a" "at_workspace_id (g a) = at_workspace_id a"
    "at_cluster_id (g a) = at_cluster_id a" for a
    using attempts(3) [of a] by (simp_all add: same_attempt_def)
  have k: "ac_command_id c = k" using lookup_Some_in [OF c [unfolded cmds_def]] by simp
  have cm: "cmds s' j = (if j = k then Some (f c) else cmds s j)" for j
    using lookup_update_key [of p ac_command_id k f, OF commands(3) same(1)] c commands(1,2)
    by (simp add: cmds_def)
  have at: "atts s' i = (if Some i = ac_active_attempt_id c
      then map_option (\<lambda>a. if q a then g a else a) (atts s i) else atts s i)" for i
  proof (cases "ac_active_attempt_id c")
    case None
    with attempts(2) have "q a = False" for a by auto
    then show ?thesis using None attempts(1) by (simp add: atts_def update_where_def)
  next
    case (Some j)
    with attempts(2) have "q a \<Longrightarrow> at_attempt_id a = j" for a by auto
    from lookup_update_key [of q at_attempt_id j g, OF this same'(1)] Some attempts(1)
    show ?thesis by (simp add: atts_def)
  qed
  have act: "active_attempt s' (f c) = map_option (\<lambda>a. if q a then g a else a) (active_attempt s c)"
    by (cases "ac_active_attempt_id c") (simp_all add: active_attempt_def same at)
  have link: "attempt_link c (active_attempt s c)" by (rule linkedD(4) [OF L c])
  show ?thesis
  proof (rule rewire [OF L R, where k = k and c' = "f c"])
    show "attempt_link (f c) (active_attempt s' (f c))"
      using link unfolding act by (auto simp: attempt_link_def same same' split: option.splits)
    show "at_command_id a = k" if "Some i = ac_active_attempt_id (f c)" "atts s i = Some a" for i a
      using link that k
      by (auto simp: same attempt_link_def active_attempt_def split: option.splits)
    show "unique_key ac_command_id (db_commands s')"
      unfolding commands(1) by (rule unique_key_update_where [OF linkedD(1) [OF L] same(1)])
    show "unique_key at_attempt_id (db_attempts s')"
      unfolding attempts(1) by (rule unique_key_update_where [OF linkedD(2) [OF L] same'(1)])
    show "R' (f c) (active_attempt s' (f c)) (stream_open s' (ac_workspace_id (f c)) k)"
      using here by (simp add: act same)
  qed (use other k streams cm at c in \<open>auto simp: same\<close>)
qed

text \<open>The same with the append that the transactions issue on the command's stream.\<close>

lemma touch_append:
  assumes L: "linked s" and R: "rows_ok R s"
    and other: "\<And>d a opn. ac_command_id d \<noteq> ac_command_id c \<Longrightarrow> R d a opn \<Longrightarrow> R' d a opn"
    and c: "cmds s k = Some c" and ws: "ac_workspace_id c = ws"
    and app: "append_command_operation_event_in_transaction now ws k kind cl pl s1 = Inr (s', r)"
    and frame: "db_cursors s1 = db_cursors s" "db_op_events s1 = db_op_events s"
    and commands: "db_commands s1 = update_where p f (db_commands s)" "p c"
      "\<And>r. p r \<Longrightarrow> ac_command_id r = k" "\<And>r. same_command (f r) r"
    and attempts: "db_attempts s1 = update_where q g (db_attempts s)"
      "\<And>a. q a \<Longrightarrow> Some (at_attempt_id a) = ac_active_attempt_id c" "\<And>a. same_attempt (g a) a"
    and here: "R' (f c) (map_option (\<lambda>a. if q a then g a else a) (active_attempt s c))
      (stream_open s ws k \<and> \<not> terminal_kind kind)"
  shows "linked s' \<and> rows_ok R' s'"
proof -
  have ok: "op_streams_ok s1" using linkedD(3) [OF L] op_streams_ok_cong [OF frame] by simp
  note opn = stream_open_append [OF app ok]
  show ?thesis
  proof (rule touch [where s = s and R = R and R' = R' and c = c and k = k and p = p and f = f
        and q = q and g = g])
    show "db_commands s' = update_where p f (db_commands s)"
      using append_tables(1) [OF app] commands(1) by simp
    show "db_attempts s' = update_where q g (db_attempts s)"
      using append_tables(2) [OF app] attempts(1) by simp
    show "op_streams_ok s'" by (rule append_op_streams_ok [OF app ok])
    show "stream_open s' w j = stream_open s w j" if "(w, j) \<noteq> (ac_workspace_id c, k)" for w j
      using that ws by (auto simp: opn stream_open_cong [OF frame(1)])
    show "R' (f c) (map_option (\<lambda>a. if q a then g a else a) (active_attempt s c))
        (stream_open s' (ac_workspace_id c) k)"
      using here ws by (simp add: opn stream_open_cong [OF frame(1)])
  qed (fact L R other c commands attempts)+
qed

text \<open>A command cannot be projected and leave the attempt table untouched.\<close>

lemma update_where_False [simp]: "update_where (\<lambda>_. False) f t = t"
  by (simp add: update_where_def)

lemma find_command:
  assumes "linked s" and "find p (db_commands s) = Some c" and "\<And>r. p r \<Longrightarrow> ac_command_id r = k"
  shows "cmds s k = Some c \<and> p c"
  using find_lookup [OF linkedD(1) [OF assms(1)], of p k c] assms(2,3) by (simp add: cmds_def)

section \<open>Every operation preserves the invariant\<close>

lemma command_invD:
  assumes "command_inv env s" and "cmds s k = Some c"
  shows "linked s" "rows_ok (consistent env) s" "attempt_link c (active_attempt s c)"
    "consistent env c (active_attempt s c) (stream_open s (ac_workspace_id c) k)"
  using assms linkedD(4) by (auto simp: command_inv_def rows_ok_def)

text \<open>A retry needs a failed command whose result is marked retryable.\<close>

lemma retry_refusal_status: "ac_status c \<noteq> Failed \<Longrightarrow> retry_refusal env c \<noteq> None"
  by (simp add: retry_refusal_def split: prod.splits)

lemma retry_refusal_result: "\<not> retryable_result (ac_result c) \<Longrightarrow> retry_refusal env c \<noteq> None"
  by (auto simp: retry_refusal_def split: prod.splits)

lemma result_object_final [simp]:
  "\<not> retryable_result (result_object st m)"
  "\<not> retryable_result (result_object st m @ [(''retryable'', JBool False)])"
  by (simp_all add: retryable_result_def result_object_def jget_def)

lemmas active_simps = command_status_is_active_def ACTIVE_COMMAND_STATUSES_def

definition same_plan :: "command_row \<Rightarrow> command_row \<Rightarrow> bool" where
  "same_plan c' c \<longleftrightarrow> ac_action c' = ac_action c \<and> ac_payload c' = ac_payload c \<and>
     ac_attempt_count c' = ac_attempt_count c"

text \<open>An active command stays active, or is closed for good together with its stream.\<close>

lemma consistent_activeI:
  assumes "consistent env c ao opn" and "command_status_is_active (ac_status c)" and "same_plan c' c"
    and "command_status_is_active (ac_status c')"
    and "\<And>a. ao' = Some a \<Longrightarrow> attempt_agrees c' a"
    and "ao' = None \<Longrightarrow> ac_status c' \<in> {Queued, Failed, Cancelled}"
  shows "consistent env c' ao' opn"
  using assms unfolding consistent_def same_plan_def by (cases ao') simp_all

lemma consistent_closedI:
  assumes "consistent env c ao opn" and "same_plan c' c"
    and "\<not> command_status_is_active (ac_status c')" and "retry_refusal env c' \<noteq> None"
    and "\<And>a. ao' = Some a \<Longrightarrow> attempt_agrees c' a"
    and "ao' = None \<Longrightarrow> ac_status c' \<in> {Queued, Failed, Cancelled}"
  shows "consistent env c' ao' False"
  using assms unfolding consistent_def same_plan_def by (cases ao') simp_all

lemma fail_logical_inv:
  assumes inv: "command_inv env s"
    and step: "fail_logical_command_and_stage_event now ws cmd cl reason s = Inr (s', r)"
  shows "command_inv env s'"
proof -
  let ?p = "\<lambda>c. ac_workspace_id c = ws \<and> ac_command_id c = cmd \<and> ac_cluster_id c = cl \<and>
    ac_status c = Queued"
  let ?result = "result_object Failed reason @ [(''retryable'', JBool False)]"
  let ?f = "\<lambda>c. c\<lparr>ac_status := Failed, ac_result := ?result, ac_completed_at := Some now,
    ac_updated_at := now\<rparr>"
  have L: "linked s" using inv by (simp add: command_inv_def)
  show ?thesis
  proof (cases "find ?p (db_commands s)")
    case None
    with step inv show ?thesis
      by (simp add: fail_logical_command_and_stage_event_def Let_def)
  next
    case (Some c)
    from find_command [OF L Some] have c: "cmds s cmd = Some c" "?p c" by auto
    from Some step obtain pl where app:
      "append_command_operation_event_in_transaction now ws cmd KFailed cl pl
         (s\<lparr>db_commands := update_where ?p ?f (db_commands s)\<rparr>) = Inr (s', r)"
      by (simp add: fail_logical_command_and_stage_event_def Let_def)
    note D = command_invD [OF inv c(1)]
    have here: "consistent env (?f c) (active_attempt s c) False"
      using D(4) c(2) retry_refusal_result [of "?f c" env]
      by (auto simp: consistent_def active_simps split: option.splits)
    show ?thesis
      unfolding command_inv_def
      by (rule touch_append [where p = ?p and f = ?f and g = "\<lambda>a. a" and q = "\<lambda>_. False",
            OF D(1,2) _ c(1) _ app])
        (use here c(2) in \<open>auto simp: same_command_def same_attempt_def option.map_ident\<close>)
  qed
qed

text \<open>Where the active attempt stands when the command is active.\<close>

lemma agreeD:
  assumes inv: "command_inv env s" and c: "cmds s k = Some c"
  shows "ac_active_attempt_id c = None \<Longrightarrow> ac_status c \<in> {Queued, Failed, Cancelled} \<and>
      active_attempt s c = None"
    "ac_active_attempt_id c = Some i \<Longrightarrow> i \<noteq> [] \<and> (\<exists>a. active_attempt s c = Some a \<and>
      at_attempt_id a = i \<and> at_workspace_id a = ac_workspace_id c \<and> attempt_agrees c a)"
proof -
  note D = command_invD [OF inv c]
  {
    assume "ac_active_attempt_id c = None"
    with D(4) show "ac_status c \<in> {Queued, Failed, Cancelled} \<and> active_attempt s c = None"
      by (auto simp: active_attempt_def consistent_def)
  next
    assume i: "ac_active_attempt_id c = Some i"
    with D(3) obtain a where a: "i \<noteq> []" "active_attempt s c = Some a"
      "at_workspace_id a = ac_workspace_id c"
      by (auto simp: attempt_link_def split: option.splits)
    moreover have "at_attempt_id a = i"
      using a(2) i by (auto simp: active_attempt_def atts_def dest: lookup_Some_in)
    moreover have "attempt_agrees c a" using D(4) a(2) by (simp add: consistent_def)
    ultimately show "i \<noteq> [] \<and> (\<exists>a. active_attempt s c = Some a \<and> at_attempt_id a = i \<and>
      at_workspace_id a = ac_workspace_id c \<and> attempt_agrees c a)" by blast
  }
qed

lemma cancel_before_start_inv:
  assumes inv: "command_inv env s" and c: "cmds s k = Some c" and k: "ac_command_id c = k"
    and status: "ac_status c \<in> {Queued, Leased}"
    and step: "cancel_before_start now ctl c by_user reason ev s = Inr (s', eff)"
  shows "command_inv env s'"
proof -
  define result where "result = result_object Cancelled (case reason of
    Some (c # cs) \<Rightarrow> c # cs | _ \<Rightarrow> ''command cancelled before execution started'')"
  let ?p = "\<lambda>r. ac_workspace_id r = ac_workspace_id c \<and> ac_command_id r = ac_command_id c \<and>
    ac_status r = ac_status c"
  let ?f = "\<lambda>c. c\<lparr>ac_status := Cancelled, ac_result := result, ac_completed_at := Some now,
    ac_cancel_requested_at := Some now, ac_cancel_requested_by := Some by_user,
    ac_cancel_reason := reason, ac_terminal_event_id := Some ev, ac_updated_at := now\<rparr>"
  let ?q = "\<lambda>a. Some (at_attempt_id a) = ac_active_attempt_id c \<and>
    at_workspace_id a = ac_workspace_id c \<and> at_status a \<in> set [At Queued, At Leased]"
  let ?g = "\<lambda>a. a\<lparr>at_status := At Cancelled, at_result := result, at_completed_at := Some now,
    at_updated_at := now\<rparr>"
  let ?s1 = "s\<lparr>db_commands := update_where ?p ?f (db_commands s),
    db_attempts := update_where ?q ?g (db_attempts s)\<rparr>"
  obtain pl r where app: "append_command_operation_event_in_transaction now (ac_workspace_id c) k
      KCancelled (ac_cluster_id c) pl ?s1 = Inr (s', r)"
  proof (cases "ac_active_attempt_id c")
    case None
    then have "?s1 = s\<lparr>db_commands := update_where ?p ?f (db_commands s)\<rparr>" by simp
    with step None that k show ?thesis
      by (auto simp: cancel_before_start_def Let_def result_def
          stage_command_operation_event_in_transaction_def split: sum.splits)
  next
    case (Some i)
    with step that k show ?thesis
      by (auto simp: cancel_before_start_def Let_def result_def
          stage_command_operation_event_in_transaction_def split: sum.splits)
  qed
  note D = command_invD [OF inv c]
  have "retry_refusal env (?f c) \<noteq> None" by (rule retry_refusal_status) simp
  then have here: "consistent env (?f c)
      (map_option (\<lambda>a. if ?q a then ?g a else a) (active_attempt s c)) False"
    using D(4) status agreeD [OF inv c]
    by (cases "ac_active_attempt_id c") (auto simp: consistent_def active_simps)
  show ?thesis
    unfolding command_inv_def
    by (rule touch_append [where p = ?p and f = ?f and g = ?g and q = ?q, OF D(1,2) _ c(1) _ app])
      (use here k in \<open>auto simp: same_command_def same_attempt_def\<close>)
qed

lemma request_cancel_inv:
  assumes inv: "command_inv env s" and c: "cmds s k = Some c" and k: "ac_command_id c = k"
    and status: "ac_status c = Running"
    and step: "request_cancel now ctl c by_user reason s = Inr (s', eff)"
  shows "command_inv env s'"
proof -
  let ?p = "\<lambda>r. ac_workspace_id r = ac_workspace_id c \<and> ac_command_id r = ac_command_id c \<and>
    ac_status r = Running"
  let ?f = "\<lambda>r. r\<lparr>ac_status := CancelRequested, ac_cancel_requested_at := Some now,
    ac_cancel_requested_by := Some by_user, ac_cancel_reason := reason,
    ac_cancel_generation := Suc (ac_cancel_generation c), ac_updated_at := now\<rparr>"
  obtain pl r where app: "append_command_operation_event_in_transaction now (ac_workspace_id c) k
      Progress (ac_cluster_id c) pl (s\<lparr>db_commands := update_where ?p ?f (db_commands s)\<rparr>) = Inr (s', r)"
    using step k by (auto simp: request_cancel_def Let_def
        stage_command_operation_event_in_transaction_def split: sum.splits)
  note D = command_invD [OF inv c]
  have here: "consistent env (?f c) (active_attempt s c) (stream_open s (ac_workspace_id c) k)"
    using D(4) status by (auto simp: consistent_def active_simps split: option.splits)
  show ?thesis
    unfolding command_inv_def
    by (rule touch_append [where p = ?p and f = ?f and g = "\<lambda>a. a" and q = "\<lambda>_. False",
          OF D(1,2) _ c(1) _ app])
      (use here k status in \<open>auto simp: same_command_def same_attempt_def option.map_ident\<close>)
qed

lemma start_inv:
  assumes inv: "command_inv env s"
    and step: "start_agent_command now cmd ws cl lease agent secs aid s = Inr (s', r)"
  shows "command_inv env s'"
proof -
  let ?p = "\<lambda>c. held_by now cmd ws cl lease agent [Leased] c \<and> attempt_matches aid c"
  let ?f = "\<lambda>r. r\<lparr>ac_status := Running, ac_leased_until := Some (now + seconds secs),
    ac_started_at := Some now, ac_updated_at := now\<rparr>"
  have L: "linked s" using inv by (simp add: command_inv_def)
  show ?thesis
  proof (cases "find ?p (db_commands s)")
    case None
    with step inv show ?thesis by (simp add: start_agent_command_def Let_def)
  next
    case (Some c)
    from find_command [OF L Some, of cmd] have c: "cmds s cmd = Some c" "?p c"
      by (auto simp: held_by_def)
    from c(2) have st: "ac_status c = Leased" "ac_workspace_id c = ws" "ac_lease_id c = Some lease"
      "ac_agent_id c = Some agent" by (simp_all add: held_by_def)
    note D = command_invD [OF inv c(1)]
    obtain i a where i: "ac_active_attempt_id c = Some i" "i \<noteq> []" "active_attempt s c = Some a"
      "at_attempt_id a = i" "at_workspace_id a = ws" "attempt_agrees c a"
      using agreeD [OF inv c(1)] st(1,2) by (cases "ac_active_attempt_id c") auto
    let ?q = "\<lambda>a. at_attempt_id a = i \<and> at_workspace_id a = ws \<and> at_lease_id a = Some lease \<and>
      at_agent_id a = Some agent \<and> at_status a = At Leased"
    let ?g = "\<lambda>a. a\<lparr>at_status := At Running, at_started_at := Some now,
      at_leased_until := Some (now + seconds secs), at_updated_at := now\<rparr>"
    obtain x xs where xs: "i = x # xs" using i(2) by (cases i) auto
    obtain pl ev where app: "append_command_operation_event_in_transaction now ws cmd Progress cl pl
        (s\<lparr>db_commands := update_where ?p ?f (db_commands s),
           db_attempts := update_where ?q ?g (db_attempts s)\<rparr>) = Inr (s', ev)"
      using step Some i(1) xs by (auto simp: start_agent_command_def Let_def split: sum.splits)
    have here: "consistent env (?f c) (map_option (\<lambda>a. if ?q a then ?g a else a) (active_attempt s c))
        (stream_open s ws cmd)"
      using D(4) st i by (auto simp: consistent_def active_simps)
    show ?thesis
      unfolding command_inv_def
      by (rule touch_append [where p = ?p and f = ?f and g = ?g and q = ?q, OF D(1,2) _ c(1) _ app])
        (use here st i(1) c(2) in \<open>auto simp: same_command_def same_attempt_def held_by_def\<close>)
  qed
qed

lemma heartbeat_inv:
  assumes inv: "command_inv env s"
    and step: "heartbeat_agent_command now cmd ws cl lease agent secs aid seen s = Inr (s', r)"
  shows "command_inv env s'"
proof -
  let ?p0 = "held_by now cmd ws cl lease agent [Leased, Running, CancelRequested, Cancelling]"
  have L: "linked s" using inv by (simp add: command_inv_def)
  show ?thesis
  proof (cases "find ?p0 (db_commands s)")
    case None
    with step inv show ?thesis by (simp add: heartbeat_agent_command_def Let_def)
  next
    case (Some c)
    from find_command [OF L Some, of cmd] have c: "cmds s cmd = Some c" "?p0 c"
      by (auto simp: held_by_def)
    from c(2) have st: "ac_workspace_id c = ws" "ac_lease_id c = Some lease" "ac_command_id c = cmd"
      "ac_agent_id c = Some agent" "ac_status c \<in> {Leased, Running, CancelRequested, Cancelling}"
      by (auto simp add: held_by_def)
    note D = command_invD [OF inv c(1)]
    obtain i a where i: "ac_active_attempt_id c = Some i" "i \<noteq> []" "active_attempt s c = Some a"
      "at_attempt_id a = i" "at_workspace_id a = ws" "attempt_agrees c a"
      using agreeD [OF inv c(1)] st by (cases "ac_active_attempt_id c") auto
    define ack where "ack = acknowledges_cancel c seen"
    have ack: "ack \<Longrightarrow> ac_status c = CancelRequested" by (simp add: ack_def acknowledges_cancel_def)
    let ?p = "\<lambda>r. ac_command_id r = cmd \<and> ac_workspace_id r = ws \<and> ac_lease_id r = Some lease \<and>
      ac_agent_id r = Some agent \<and> ac_active_attempt_id r = Some i"
    let ?f = "\<lambda>r. r\<lparr>ac_status := (if ack then Cancelling else ac_status c),
      ac_leased_until := Some (now + seconds secs),
      ac_cancel_accepted_at := (if ack then Some now else ac_cancel_accepted_at r), ac_updated_at := now\<rparr>"
    let ?q = "\<lambda>a. at_attempt_id a = i \<and> at_workspace_id a = ws \<and> at_lease_id a = Some lease \<and>
      at_agent_id a = Some agent \<and> at_status a \<in> set [At Leased, At Running]"
    let ?g = "\<lambda>a. a\<lparr>at_leased_until := Some (now + seconds secs), at_updated_at := now\<rparr>"
    let ?s1 = "s\<lparr>db_commands := update_where ?p ?f (db_commands s),
      db_attempts := update_where ?q ?g (db_attempts s)\<rparr>"
    have cases: "s' = s \<or> (\<not> ack \<and> s' = ?s1) \<or>
      (\<exists>pl ev. append_command_operation_event_in_transaction now ws cmd Progress cl pl ?s1 = Inr (s', ev))"
      using step Some i(1,2)
      by (auto simp: heartbeat_agent_command_def Let_def ack_def split: if_splits sum.splits)
    have here: "consistent env (?f c) (map_option (\<lambda>a. if ?q a then ?g a else a) (active_attempt s c))
        (stream_open s ws cmd)"
    proof (rule consistent_activeI)
      show "consistent env c (active_attempt s c) (stream_open s ws cmd)" using D(4) st(1) by simp
      have q: "?q a"
        using i(4-6) st by (cases "ac_status c") auto
      then show "attempt_agrees (?f c) b"
        if "map_option (\<lambda>a. if ?q a then ?g a else a) (active_attempt s c) = Some b" for b
        using that i(3,6) st(5) ack by (cases "ac_status c") auto
      show "command_status_is_active (ac_status c)" using st(5) by (auto simp: active_simps)
      show "command_status_is_active (ac_status (?f c))" using st(5) by (auto simp: active_simps)
      show "same_plan (?f c) c" by (simp add: same_plan_def)
    qed (use i(3) in simp)
    from cases show ?thesis
    proof (elim disjE exE conjE)
      assume "s' = s" with inv show ?thesis by simp
    next
      assume s': "s' = ?s1"
      show ?thesis
        unfolding command_inv_def s'
        by (rule touch [where p = ?p and f = ?f and g = ?g and q = ?q, OF D(1,2) _ c(1)])
          (use here st(1-4) i(1) in \<open>auto simp: same_command_def same_attempt_def linkedD(3) [OF L]\<close>)
    next
      fix pl ev
      assume app: "append_command_operation_event_in_transaction now ws cmd Progress cl pl ?s1 = Inr (s', ev)"
      show ?thesis
        unfolding command_inv_def
        by (rule touch_append [where p = ?p and f = ?f and g = ?g and q = ?q, OF D(1,2) _ c(1) _ app])
          (use here st(1-4) i(1) in \<open>auto simp: same_command_def same_attempt_def\<close>)
    qed
  qed
qed

lemma lease_candidates_in:
  assumes "(sel, att) \<in> set (lease_candidates now ws cl locked s)"
  shows "sel \<in> set (db_commands s)" "att \<in> set (db_attempts s)"
    "ac_active_attempt_id sel = Some (at_attempt_id att)" "ac_workspace_id sel = ws"
    "ac_cluster_id sel = cl" "at_workspace_id att = ws" "at_cluster_id att = cl"
    "at_available_at att \<le> now" "leasable now sel att" "\<not> locked (ac_command_id sel)"
  using assms by (auto simp: lease_candidates_def)

text \<open>What a successful lease did, in terms of the command it took.\<close>

lemma lease_cases:
  assumes L: "linked s"
    and step: "lease_agent_command now lease cl ws agent secs locked s = Inr (s', r)"
  shows "(s' = s \<and> r = None) \<or>
    (\<exists>c a ev pl. cmds s (ac_command_id c) = Some c \<and> active_attempt s c = Some a \<and>
       (c, a) = hd (lease_candidates now ws cl locked s) \<and>
       (c, a) \<in> set (lease_candidates now ws cl locked s) \<and>
       r = Some (lease_row now lease agent (now + seconds secs) c, ev) \<and>
       append_command_operation_event_in_transaction now ws (ac_command_id c) Progress cl pl
         (s\<lparr>db_commands := update_where
               (\<lambda>d. ac_command_id d = ac_command_id c \<and> ac_workspace_id d = ws \<and>
                    ac_active_attempt_id d = Some (at_attempt_id a) \<and> ac_status d \<in> set [Queued, Leased])
               (lease_row now lease agent (now + seconds secs)) (db_commands s),
             db_attempts := update_where
               (\<lambda>d. at_attempt_id d = at_attempt_id a \<and> at_workspace_id d = ws \<and>
                    at_status d \<in> set [At Queued, At Leased])
               (lease_attempt now lease agent (now + seconds secs)) (db_attempts s)\<rparr>) = Inr (s', ev))"
proof (cases "lease_candidates now ws cl locked s")
  case Nil
  with step show ?thesis by (simp add: lease_agent_command_def)
next
  case (Cons x xs)
  obtain sel att where x: "x = (sel, att)" by (cases x)
  with Cons have mem: "(sel, att) \<in> set (lease_candidates now ws cl locked s)" by simp
  note C = lease_candidates_in [OF mem]
  let ?p = "\<lambda>d. ac_command_id d = ac_command_id sel \<and> ac_workspace_id d = ws \<and>
    ac_active_attempt_id d = Some (at_attempt_id att) \<and> ac_status d \<in> set [Queued, Leased]"
  show ?thesis
  proof (cases "find ?p (db_commands s)")
    case None
    with step Cons x show ?thesis by (simp add: lease_agent_command_def Let_def)
  next
    case (Some c)
    from find_command [OF L Some, of "ac_command_id sel"]
    have c: "cmds s (ac_command_id sel) = Some c" by blast
    moreover have "cmds s (ac_command_id sel) = Some sel"
      unfolding cmds_def by (rule lookup_unique_in [OF linkedD(1) [OF L] C(1)])
    ultimately have sel: "c = sel" by simp
    have "atts s (at_attempt_id att) = Some att"
      unfolding atts_def by (rule lookup_unique_in [OF linkedD(2) [OF L] C(2)])
    with C(3) have att: "active_attempt s sel = Some att" by (simp add: active_attempt_def)
    from step Cons x Some sel obtain pl ev where
      "append_command_operation_event_in_transaction now ws (ac_command_id sel) Progress cl pl
         (s\<lparr>db_commands := update_where ?p (lease_row now lease agent (now + seconds secs)) (db_commands s),
             db_attempts := update_where
               (\<lambda>d. at_attempt_id d = at_attempt_id att \<and> at_workspace_id d = ws \<and>
                    at_status d \<in> set [At Queued, At Leased])
               (lease_attempt now lease agent (now + seconds secs)) (db_attempts s)\<rparr>) = Inr (s', ev)"
      and "r = Some (lease_row now lease agent (now + seconds secs) sel, ev)"
      by (auto simp: lease_agent_command_def Let_def lease_row_def split: sum.splits)
    with c sel att mem Cons x show ?thesis by auto
  qed
qed

lemma lease_inv:
  assumes inv: "command_inv env s"
    and step: "lease_agent_command now lease cl ws agent secs locked s = Inr (s', r)"
  shows "command_inv env s'"
proof -
  have L: "linked s" using inv by (simp add: command_inv_def)
  from lease_cases [OF L step] show ?thesis
  proof (elim disjE exE conjE)
    fix c :: command_row and a :: attempt_row and ev pl
    let ?k = "ac_command_id c"
    let ?p = "\<lambda>d. ac_command_id d = ac_command_id c \<and> ac_workspace_id d = ws \<and>
      ac_active_attempt_id d = Some (at_attempt_id a) \<and> ac_status d \<in> set [Queued, Leased]"
    let ?f = "lease_row now lease agent (now + seconds secs)"
    let ?q = "\<lambda>d. at_attempt_id d = at_attempt_id a \<and> at_workspace_id d = ws \<and>
      at_status d \<in> set [At Queued, At Leased]"
    let ?g = "lease_attempt now lease agent (now + seconds secs)"
    assume c: "cmds s ?k = Some c" and a: "active_attempt s c = Some a"
      and mem: "(c, a) \<in> set (lease_candidates now ws cl locked s)"
      and app: "append_command_operation_event_in_transaction now ws ?k Progress cl pl
        (s\<lparr>db_commands := update_where ?p ?f (db_commands s),
           db_attempts := update_where ?q ?g (db_attempts s)\<rparr>) = Inr (s', ev)"
    note C = lease_candidates_in [OF mem]
    from C(9) have st: "ac_status c \<in> {Queued, Leased}" "at_status a \<in> {At Queued, At Leased}"
      by (auto simp: leasable_def)
    note D = command_invD [OF inv c]
    have q: "?q a" using C st by auto
    have here: "consistent env (?f c) (map_option (\<lambda>a. if ?q a then ?g a else a) (active_attempt s c))
        (stream_open s ws ?k)"
    proof (rule consistent_activeI)
      show "consistent env c (active_attempt s c) (stream_open s ws ?k)" using D(4) C(4) by simp
    qed (use st q a in \<open>auto simp: active_simps same_plan_def lease_row_def lease_attempt_def\<close>)
    show ?thesis
      unfolding command_inv_def
      by (rule touch_append [where p = ?p and f = ?f and g = ?g and q = ?q, OF D(1,2) _ c _ app])
        (use here st C in \<open>auto simp: same_command_def same_attempt_def lease_row_def lease_attempt_def\<close>)
  qed (use inv in simp)
qed

text \<open>Tables the invariant does not read, and the terminal event identifier.\<close>

lemma linked_cong:
  assumes "db_commands s' = db_commands s" "db_attempts s' = db_attempts s"
    "db_cursors s' = db_cursors s" "db_op_events s' = db_op_events s"
  shows "linked s' = linked s" "rows_ok R s' = rows_ok R s" "cmds s' = cmds s" "atts s' = atts s"
    "stream_open s' = stream_open s"
proof -
  have c: "cmds s' = cmds s" "atts s' = atts s" "stream_open s' = stream_open s"
    using assms by (simp_all add: cmds_def atts_def fun_eq_iff stream_open_def cursor_at_def)
  moreover have "active_attempt s' = active_attempt s" by (simp add: active_attempt_def c fun_eq_iff)
  ultimately show "linked s' = linked s" "rows_ok R s' = rows_ok R s" "cmds s' = cmds s"
    "atts s' = atts s" "stream_open s' = stream_open s"
    using assms by (simp_all add: linked_def rows_ok_def op_streams_ok_cong [OF assms(3,4)])
qed

lemma linked_stage_completed [simp]:
  "linked (stage_completed now e s) = linked s"
  "rows_ok R (stage_completed now e s) = rows_ok R s"
  "cmds (stage_completed now e s) = cmds s"
  "atts (stage_completed now e s) = atts s"
  "stream_open (stage_completed now e s) = stream_open s"
  by (rule linked_cong; simp add: stage_completed_def)+

lemma set_terminal_event:
  assumes L: "linked s" and R: "rows_ok R s"
    and ign: "\<And>c a o'. R (c\<lparr>ac_terminal_event_id := x\<rparr>) a o' = R c a o'"
    and s': "s' = s\<lparr>db_commands := update_where (\<lambda>r. ac_command_id r = k \<and> ac_workspace_id r = ws)
      (\<lambda>r. r\<lparr>ac_terminal_event_id := x\<rparr>) (db_commands s)\<rparr>"
  shows "linked s' \<and> rows_ok R s'"
proof -
  let ?p = "\<lambda>r. ac_command_id r = k \<and> ac_workspace_id r = ws"
  let ?f = "\<lambda>r. r\<lparr>ac_terminal_event_id := x\<rparr>"
  show ?thesis
  proof (cases "\<exists>c \<in> set (db_commands s). ?p c")
    case False
    then have "update_where ?p ?f (db_commands s) = db_commands s" by (intro update_where_none) auto
    with s' L R show ?thesis by simp
  next
    case True
    then obtain c where c: "c \<in> set (db_commands s)" "?p c" by blast
    then have cm: "cmds s k = Some c"
      unfolding cmds_def using lookup_unique_in [OF linkedD(1) [OF L] c(1)] by simp
    have here: "R (?f c) (active_attempt s c) (stream_open s ws k)"
      using R cm c(2) by (auto simp: rows_ok_def ign)
    show ?thesis
      by (rule touch [where p = ?p and f = ?f and g = "\<lambda>a. a" and q = "\<lambda>_. False", OF L R _ cm])
        (use here c(2) linkedD(3) [OF L] s' in
          \<open>auto simp: same_command_def same_attempt_def option.map_ident\<close>)
  qed
qed

lemma retry_refusal_terminal_event [simp]:
  "retry_refusal env (c\<lparr>ac_terminal_event_id := x\<rparr>) = retry_refusal env c"
  by (cases "command_retry_policy (ac_payload c)") (simp add: retry_refusal_def)

lemma consistent_terminal_event [simp]:
  "consistent env (c\<lparr>ac_terminal_event_id := x\<rparr>) a opn = consistent env c a opn"
  by (cases a; cases "ac_status c") (simp_all add: consistent_def)

lemma attempt_matches_None [simp]: "attempt_matches None c"
  by (simp add: attempt_matches_def)

lemma status_of_result_cases:
  "command_terminal_event_kind st (st \<noteq> Failed \<or> b) = Inr kind \<Longrightarrow>
   st \<in> {Completed, Failed, Cancelled} \<and> (terminal_kind kind \<longleftrightarrow> st \<noteq> Failed \<or> b)"
  by (cases st; cases b) (auto simp: command_terminal_event_kind_def)

text \<open>What a successful completion did, in terms of the command it closed.\<close>

definition holder ::
    "time \<Rightarrow> string \<Rightarrow> string \<Rightarrow> string \<Rightarrow> string \<Rightarrow> string \<Rightarrow> string option \<Rightarrow> command_row \<Rightarrow> bool" where
  "holder now cmd ws cl lease agent aid c \<longleftrightarrow>
     held_by now cmd ws cl lease agent [Running, CancelRequested, Cancelling] c \<and> attempt_matches aid c"

definition held_attempt :: "string \<Rightarrow> string \<Rightarrow> string \<Rightarrow> string \<Rightarrow> attempt_row \<Rightarrow> bool" where
  "held_attempt i ws lease agent a \<longleftrightarrow>
     at_attempt_id a = i \<and> at_workspace_id a = ws \<and> at_lease_id a = Some lease \<and>
     at_agent_id a = Some agent \<and> at_status a \<in> set [At Running, At Leased]"

definition completion_of ::
    "command_env \<Rightarrow> time \<Rightarrow> string \<Rightarrow> string \<Rightarrow> string \<Rightarrow> jobj \<Rightarrow> string \<Rightarrow> string \<Rightarrow> string \<Rightarrow>
     string option \<Rightarrow> string \<Rightarrow> db \<Rightarrow> db \<Rightarrow> (envelope \<times> op_event_row option) option \<Rightarrow>
     command_row \<Rightarrow> string \<Rightarrow> command_status \<Rightarrow> operation_kind \<Rightarrow> bool" where
  "completion_of env now cmd ws cl result lease agent src aid eid s s' r c i st kind \<longleftrightarrow>
     cmds s cmd = Some c \<and> holder now cmd ws cl lease agent aid c \<and>
     ac_active_attempt_id c = Some i \<and> i \<noteq> [] \<and>
     Option.bind (jget result ''status'') status_of_result = Some st \<and>
     command_terminal_event_kind st (st \<noteq> Failed \<or> final_failure env c result) = Inr kind \<and>
     (\<exists>pl s3 op. append_command_operation_event_in_transaction now ws cmd kind cl pl
         (s\<lparr>db_commands := update_where (holder now cmd ws cl lease agent aid)
              (finish_row now st result) (db_commands s),
            db_attempts := update_where (held_attempt i ws lease agent)
              (finish_attempt now (At st) result) (db_attempts s)\<rparr>) = Inr (s3, op) \<and>
       r = Some (completed_event now eid src (ac_correlation_id c) ws cmd result, op) \<and>
       s' = stage_completed now (completed_event now eid src (ac_correlation_id c) ws cmd result)
         (if kind = Progress then s3
          else s3\<lparr>db_commands := update_where (\<lambda>r. ac_command_id r = cmd \<and> ac_workspace_id r = ws)
                 (\<lambda>r. r\<lparr>ac_terminal_event_id := Some
                    (env_event_id (completed_event now eid src (ac_correlation_id c) ws cmd result))\<rparr>)
                 (db_commands s3)\<rparr>))"

lemma complete_cases:
  assumes inv: "command_inv env s"
    and step: "complete_agent_command_and_stage_event env now eid cmd ws cl result lease agent src aid s
      = Inr (s', r)"
  shows "(s' = s \<and> r = None) \<or>
    (\<exists>c i st kind. completion_of env now cmd ws cl result lease agent src aid eid s s' r c i st kind)"
proof -
  let ?p = "holder now cmd ws cl lease agent aid"
  have L: "linked s" using inv by (simp add: command_inv_def)
  note unf = complete_agent_command_and_stage_event_def holder_def [abs_def] Let_def
  obtain v where v: "jget result ''status'' = Some v"
    using step
    by (cases "jget result ''status''") (auto simp: complete_agent_command_and_stage_event_def)
  show ?thesis
  proof (cases "find ?p (db_commands s)")
    case None
    with step v show ?thesis by (simp add: unf)
  next
    case (Some c)
    from find_command [OF L Some, of cmd] have c: "cmds s cmd = Some c" "?p c"
      by (auto simp: holder_def held_by_def)
    then have "ac_status c \<in> {Running, CancelRequested, Cancelling}"
      by (auto simp: holder_def held_by_def)
    then obtain i where i: "ac_active_attempt_id c = Some i" "i \<noteq> []"
      using agreeD [OF inv c(1)] by (cases "ac_active_attempt_id c") auto
    obtain x xs where xs: "i = x # xs" using i(2) by (cases i) auto
    have found: "find (\<lambda>c. held_by now cmd ws cl lease agent [Running, CancelRequested, Cancelling] c \<and>
        attempt_matches aid c) (db_commands s) = Some c"
      using Some by (simp add: holder_def [abs_def])
    obtain st where st: "status_of_result v = Some st"
      using step v found by (cases "status_of_result v") (auto simp: unf)
    obtain kind where kind: "command_terminal_event_kind st (st \<noteq> Failed \<or> final_failure env c result) = Inr kind"
      using step v found st
      by (cases "command_terminal_event_kind st (st \<noteq> Failed \<or> final_failure env c result)")
        (auto simp: unf)
    define pl where "pl = [(''cluster_id'', JStr cl), (''status'', JStr (status_name st)),
      (''correlation_id'', JStr (ac_correlation_id c)), (''result'', JObj result),
      (''attempt_id'', JStr i), (''terminal'', JBool (kind \<noteq> Progress))]"
    define s2 where "s2 = s\<lparr>db_commands := update_where ?p (finish_row now st result) (db_commands s),
      db_attempts := update_where (held_attempt i ws lease agent) (finish_attempt now (At st) result)
        (db_attempts s)\<rparr>"
    have eq: "complete_agent_command_and_stage_event env now eid cmd ws cl result lease agent src aid s =
      (case append_command_operation_event_in_transaction now ws cmd kind cl pl s2 of
         Inl e \<Rightarrow> Inl e
       | Inr (s3, ev) \<Rightarrow>
           let done = completed_event now eid src (ac_correlation_id c) ws cmd result;
               s4 = (if kind = Progress then s3
                     else s3\<lparr>db_commands := update_where
                       (\<lambda>r. ac_command_id r = cmd \<and> ac_workspace_id r = ws)
                       (\<lambda>r. r\<lparr>ac_terminal_event_id := Some (env_event_id done)\<rparr>) (db_commands s3)\<rparr>)
           in Inr (stage_completed now done s4, Some (done, ev)))"
      using v found st kind i xs
      by (simp add: complete_agent_command_and_stage_event_def Let_def holder_def [abs_def]
          held_attempt_def [abs_def] s2_def pl_def)
    obtain s3 op where app: "append_command_operation_event_in_transaction now ws cmd kind cl pl s2 =
        Inr (s3, op)"
      using step unfolding eq by (auto split: sum.splits)
    have "completion_of env now cmd ws cl result lease agent src aid eid s s' r c i st kind"
      unfolding completion_of_def
      using step v st kind c i app unfolding eq s2_def
      by (auto simp: Let_def intro!: exI [of _ pl])
    then show ?thesis by blast
  qed
qed

lemma final_failure_refusal:
  assumes "consistent env c a opn" and "1 \<le> ac_attempt_count c"
  shows "final_failure env c result \<longleftrightarrow> retry_refusal env (finish_row now Failed result c) \<noteq> None"
proof -
  have "ac_action c = pl_action (ac_payload c)" using assms(1) by (simp add: consistent_def)
  with assms(2) show ?thesis
    by (cases "command_retry_policy (ac_payload c)")
      (auto simp: final_failure_def retry_refusal_def finish_row_def split: option.splits)
qed

lemma complete_inv:
  assumes inv: "command_inv env s"
    and step: "complete_agent_command_and_stage_event env now eid cmd ws cl result lease agent src aid s
      = Inr (s', r)"
  shows "command_inv env s'"
  using complete_cases [OF inv step]
proof (elim disjE exE)
  fix c i st kind
  assume C: "completion_of env now cmd ws cl result lease agent src aid eid s s' r c i st kind"
  let ?p = "holder now cmd ws cl lease agent aid"
  let ?f = "finish_row now st result"
  let ?q = "held_attempt i ws lease agent"
  let ?g = "finish_attempt now (At st) result"
  from C have c: "cmds s cmd = Some c" "?p c" and i: "ac_active_attempt_id c = Some i" "i \<noteq> []"
    and kind: "command_terminal_event_kind st (st \<noteq> Failed \<or> final_failure env c result) = Inr kind"
    by (auto simp: completion_of_def)
  from C obtain pl s3 op where app: "append_command_operation_event_in_transaction now ws cmd kind cl pl
      (s\<lparr>db_commands := update_where ?p ?f (db_commands s),
         db_attempts := update_where ?q ?g (db_attempts s)\<rparr>) = Inr (s3, op)"
    and s': "s' = stage_completed now (completed_event now eid src (ac_correlation_id c) ws cmd result)
       (if kind = Progress then s3
        else s3\<lparr>db_commands := update_where (\<lambda>r. ac_command_id r = cmd \<and> ac_workspace_id r = ws)
               (\<lambda>r. r\<lparr>ac_terminal_event_id := Some
                  (env_event_id (completed_event now eid src (ac_correlation_id c) ws cmd result))\<rparr>)
               (db_commands s3)\<rparr>)"
    unfolding completion_of_def by blast
  note D = command_invD [OF inv c(1)]
  have st: "ac_status c \<in> {Running, CancelRequested, Cancelling}" "ac_workspace_id c = ws"
    "ac_lease_id c = Some lease" "ac_agent_id c = Some agent"
    using c(2) by (auto simp: holder_def held_by_def)
  obtain a where a: "active_attempt s c = Some a" "at_attempt_id a = i" "at_workspace_id a = ws"
    "attempt_agrees c a"
    using agreeD(2) [OF inv c(1) i(1)] st(2) by auto
  have q: "?q a"
    using a st by (cases "ac_status c") (auto simp: held_attempt_def)
  have opn: "stream_open s ws cmd" using D(4) st(1,2) by (auto simp: consistent_def active_simps)
  note K = status_of_result_cases [OF kind]
  have count: "1 \<le> ac_attempt_count c" using D(3) i(1) by (simp add: attempt_link_def)
  have here: "consistent env (?f c) (map_option (\<lambda>a. if ?q a then ?g a else a) (active_attempt s c))
      (stream_open s ws cmd \<and> \<not> terminal_kind kind)"
  proof (cases "st = Failed")
    case True
    with D(4) K opn q a final_failure_refusal [OF D(4) count, of result now] show ?thesis
      by (auto simp: consistent_def active_simps finish_row_def finish_attempt_def)
  next
    case False
    with retry_refusal_status [of "?f c" env] D(4) K opn q a show ?thesis
      by (auto simp: consistent_def active_simps finish_row_def finish_attempt_def)
  qed
  have "linked s3 \<and> rows_ok (consistent env) s3"
  proof (rule touch_append [where p = ?p and f = ?f and g = ?g and q = ?q, OF D(1,2) _ c(1) st(2) app])
    show "ac_command_id r = cmd" if "?p r" for r using that by (simp add: holder_def held_by_def)
    show "Some (at_attempt_id b) = ac_active_attempt_id c" if "?q b" for b
      using that i by (simp add: held_attempt_def)
  qed (use here c(2) in \<open>simp_all add: same_command_def same_attempt_def finish_row_def
        finish_attempt_def\<close>)
  then have s3: "linked s3" "rows_ok (consistent env) s3" by simp_all
  let ?done = "completed_event now eid src (ac_correlation_id c) ws cmd result"
  let ?s4 = "s3\<lparr>db_commands := update_where (\<lambda>r. ac_command_id r = cmd \<and> ac_workspace_id r = ws)
    (\<lambda>r. r\<lparr>ac_terminal_event_id := Some (env_event_id ?done)\<rparr>) (db_commands s3)\<rparr>"
  have "linked ?s4 \<and> rows_ok (consistent env) ?s4"
    by (rule set_terminal_event [OF s3 _ refl]) simp
  with s3 have "linked (if kind = Progress then s3 else ?s4) \<and>
      rows_ok (consistent env) (if kind = Progress then s3 else ?s4)" by simp
  then have "command_inv env (if kind = Progress then s3 else ?s4)" by (simp add: command_inv_def)
  then show ?thesis by (simp add: s' command_inv_def)
qed (use inv in simp)

text \<open>Identifiers drawn from \<open>uuid4\<close> are not in the table yet.\<close>

definition fresh_attempt :: "string \<Rightarrow> db \<Rightarrow> bool" where
  "fresh_attempt i s \<longleftrightarrow> i \<noteq> [] \<and> i \<notin> at_attempt_id ` set (db_attempts s)"

definition new_attempt :: "time \<Rightarrow> string \<Rightarrow> command_row \<Rightarrow> nat \<Rightarrow> time \<Rightarrow> attempt_row" where
  "new_attempt now i c n available_at =
     \<lparr>at_attempt_id = i, at_command_id = ac_command_id c, at_workspace_id = ac_workspace_id c,
      at_cluster_id = ac_cluster_id c, at_attempt_no = n, at_status = At Queued,
      at_available_at = available_at, at_lease_id = None, at_agent_id = None,
      at_leased_until = None, at_started_at = None, at_completed_at = None, at_result = [],
      at_updated_at = now\<rparr>"

lemma attempt_insert_fresh:
  assumes "agent_command_attempt_insert now i (ac_command_id c) (ac_workspace_id c) (ac_cluster_id c) n av s
      = Inr s'" and "fresh_attempt i s"
  shows "s' = s\<lparr>db_attempts := db_attempts s @
    [new_attempt now i c n (case av of None \<Rightarrow> now | Some t \<Rightarrow> t)]\<rparr>"
  using assms by (auto simp: agent_command_attempt_insert_def new_attempt_def fresh_attempt_def
      split: if_splits)

text \<open>The attempt numbers in use are at most the command's count, so the next is free.\<close>

lemma attempt_insert_succeeds:
  assumes L: "linked s" and fresh: "fresh_attempt i s"
    and count: "\<And>c. cmds s k = Some c \<Longrightarrow> ac_attempt_count c < n"
  shows "\<exists>s'. agent_command_attempt_insert now i k ws cl n av s = Inr s'"
proof -
  have "at_command_id a \<noteq> k \<or> at_attempt_no a \<noteq> n" if a: "a \<in> set (db_attempts s)" for a
  proof -
    have "atts s (at_attempt_id a) = Some a"
      unfolding atts_def by (rule lookup_unique_in [OF linkedD(2) [OF L] a])
    from linkedD(5) [OF L this] obtain c where
      "cmds s (at_command_id a) = Some c" "at_attempt_no a \<le> ac_attempt_count c" by blast
    with count show ?thesis by fastforce
  qed
  with fresh show ?thesis
    by (fastforce simp: agent_command_attempt_insert_def fresh_attempt_def)
qed

text \<open>A command gets a new active attempt: the projection of a new command, or a retry.\<close>

lemma project:
  assumes L: "linked s" and R: "rows_ok R s"
    and c': "cmds s' (ac_command_id c') = Some c'"
      "\<And>j. j \<noteq> ac_command_id c' \<Longrightarrow> cmds s' j = cmds s j"
    and uniq: "unique_key ac_command_id (db_commands s')"
    and old: "\<And>c. cmds s (ac_command_id c') = Some c \<Longrightarrow> ac_workspace_id c' = ac_workspace_id c \<and>
      ac_attempt_count c < ac_attempt_count c'"
    and active: "ac_active_attempt_id c' = Some i" "1 \<le> ac_attempt_count c'" "fresh_attempt i s"
    and attempts: "db_attempts s' = db_attempts s @ [new_attempt now i c' (ac_attempt_count c') av]"
    and streams: "op_streams_ok s'"
      "\<And>w j. (w, j) \<noteq> (ac_workspace_id c', ac_command_id c') \<Longrightarrow> stream_open s' w j = stream_open s w j"
    and here: "R c' (Some (new_attempt now i c' (ac_attempt_count c') av))
      (stream_open s' (ac_workspace_id c') (ac_command_id c'))"
  shows "linked s' \<and> rows_ok R s'"
proof -
  let ?a = "new_attempt now i c' (ac_attempt_count c') av"
  have free: "lookup at_attempt_id i (db_attempts s) = None"
    using active(3) by (auto simp: fresh_attempt_def lookup_None_iff)
  have at: "atts s' j = (if j = i then Some ?a else atts s j)" for j
    using free attempts
    by (auto simp: atts_def lookup_append new_attempt_def split: option.splits)
       (simp_all add: lookup_def)
  have act: "active_attempt s' c' = Some ?a" by (simp add: active_attempt_def active at)
  show ?thesis
  proof (rule rewire [OF L R, where k = "ac_command_id c'" and c' = c'])
    show "unique_key at_attempt_id (db_attempts s')"
      unfolding attempts using linkedD(2) [OF L] free
      by (intro unique_key_append_new) (simp_all add: new_attempt_def)
    show "attempt_link c' (active_attempt s' c')"
      using active by (simp add: act attempt_link_def fresh_attempt_def new_attempt_def)
    show "at_command_id a = ac_command_id c'"
      if "Some j = ac_active_attempt_id c'" "atts s j = Some a" for j a
      using that active(1) free by (simp add: atts_def)
    show "R c' (active_attempt s' c') (stream_open s' (ac_workspace_id c') (ac_command_id c'))"
      using here by (simp add: act)
  qed (use c' uniq old streams at active in \<open>auto dest: less_imp_le\<close>)
qed

lemma lookup_snoc:
  "lookup key k (t @ [r]) =
     (case lookup key k t of Some x \<Rightarrow> Some x | None \<Rightarrow> if key r = k then Some r else None)"
  by (simp add: lookup_append split: option.split) (simp add: lookup_def)

lemma retry_refusal_NoneD:
  assumes "retry_refusal env c = None"
  shows "ac_status c = Failed" "int (ac_attempt_count c) < fst (command_retry_policy (ac_payload c))"
    "retryable_result (ac_result c)"
  using assms by (auto simp: retry_refusal_def split: if_splits prod.splits)

lemma retry_inv:
  assumes inv: "command_inv env s" and c: "cmds s k = Some c"
    and fresh: "fresh_attempt i s"
    and step: "retry_command env now ctl i c s = Inr (s', eff)"
  shows "command_inv env s'"
proof -
  have k: "ac_command_id c = k" using lookup_Some_in [OF c [unfolded cmds_def]] by simp
  obtain m d where md: "command_retry_policy (ac_payload c) = (m, d)" by fastforce
  have ref: "retry_refusal env c = None"
    using step by (auto simp: retry_command_def split: option.splits)
  note N = retry_refusal_NoneD [OF ref]
  note D = command_invD [OF inv c]
  let ?n = "Suc (ac_attempt_count c)"
  let ?p = "\<lambda>r. ac_workspace_id r = ac_workspace_id c \<and> ac_command_id r = ac_command_id c \<and>
    ac_status r = Failed"
  let ?c' = "requeue_row now ?n i c"
  have same: "ac_command_id (requeue_row now ?n i r) = ac_command_id r" for r
    by (simp add: requeue_row_def)
  obtain s1 where s1: "agent_command_attempt_insert now i (ac_command_id c) (ac_workspace_id c)
      (ac_cluster_id c) ?n (Some (now + seconds d)) s = Inr s1"
    using step ref md by (auto simp: retry_command_def Let_def split: sum.splits)
  note ins = attempt_insert_fresh [OF s1 fresh]
  define s3 where "s3 = notify_agent_command (ac_workspace_id c) (ac_cluster_id c)
    (s1\<lparr>db_commands := update_where ?p (requeue_row now ?n i) (db_commands s1)\<rparr>)"
  obtain pl ev where app: "append_command_operation_event_in_transaction now (ac_workspace_id c) k
      Progress (ac_cluster_id c) pl s3 = Inr (s', ev)"
    using step ref md s1 k
    by (auto simp: s3_def retry_command_def Let_def stage_command_operation_event_in_transaction_def
        split: sum.splits)
  have ok: "op_streams_ok s3"
    using linkedD(3) [OF D(1)] by (simp add: s3_def ins notify_agent_command_def)
  have opn3: "stream_open s3 = stream_open s" by (simp add: s3_def ins notify_agent_command_def)
  note opn = stream_open_append [OF app ok]
  have cm: "cmds s' j = (if j = k then Some ?c' else cmds s j)" for j
    using lookup_update_key [of ?p ac_command_id k "requeue_row now ?n i" j "db_commands s", OF _ same]
      k c N(1) append_tables(1) [OF app]
    by (simp add: cmds_def s3_def ins notify_agent_command_def)
  have "linked s' \<and> rows_ok (consistent env) s'"
  proof (rule project [OF D(1,2), where c' = ?c' and i = i and now = now])
    show "unique_key ac_command_id (db_commands s')"
      using unique_key_update_where [OF linkedD(1) [OF D(1)], of "requeue_row now ?n i"]
        append_tables(1) [OF app] by (simp add: s3_def ins notify_agent_command_def same)
    show "db_attempts s' = db_attempts s @ [new_attempt now i ?c' (ac_attempt_count ?c') (now + seconds d)]"
      using append_tables(2) [OF app]
      by (simp add: s3_def ins notify_agent_command_def requeue_row_def new_attempt_def)
    show "op_streams_ok s'" by (rule append_op_streams_ok [OF app ok])
    show "consistent env ?c' (Some (new_attempt now i ?c' (ac_attempt_count ?c') (now + seconds d)))
        (stream_open s' (ac_workspace_id ?c') (ac_command_id ?c'))"
      using D(4) N ref k
      by (simp add: consistent_def active_simps requeue_row_def new_attempt_def opn opn3)
  qed (use cm k c fresh in \<open>auto simp: opn opn3 requeue_row_def\<close>)
  then show ?thesis by (simp add: command_inv_def)
qed

text \<open>What the first projection does, for both queue operations.\<close>

lemma upsert_cases:
  assumes L: "linked s"
    and step: "agent_command_queue_upsert env now corr p st i s = (s1, True)"
  shows "\<exists>c'. cmds s1 (pl_command_id p) = Some c' \<and> (\<forall>j. j \<noteq> pl_command_id p \<longrightarrow> cmds s1 j = cmds s j) \<and>
    unique_key ac_command_id (db_commands s1) \<and> s1 = s\<lparr>db_commands := db_commands s1\<rparr> \<and>
    ac_command_id c' = pl_command_id p \<and> ac_attempt_count c' = 1 \<and> ac_active_attempt_id c' = Some i \<and>
    (case cmds s (pl_command_id p) of
       None \<Rightarrow> c' = (agent_command_values env now corr p st None)
                 \<lparr>ac_attempt_count := 1, ac_active_attempt_id := Some i\<rparr>
     | Some c \<Rightarrow> unprojected c \<and>
         c' = c\<lparr>ac_attempt_count := 1, ac_active_attempt_id := Some i, ac_updated_at := now\<rparr>)"
proof (cases "cmds s (pl_command_id p)")
  case None
  then have n: "lookup ac_command_id (pl_command_id p) (db_commands s) = None" by (simp add: cmds_def)
  let ?c = "(agent_command_values env now corr p st None)
    \<lparr>ac_attempt_count := 1, ac_active_attempt_id := Some i\<rparr>"
  have id: "ac_command_id (agent_command_values env now corr p st None) = pl_command_id p" by (simp add: agent_command_values_def)
  from step n have s1: "s1 = s\<lparr>db_commands := db_commands s @ [?c]\<rparr>"
    by (simp add: agent_command_queue_upsert_def)
  have "unique_key ac_command_id (db_commands s @ [?c])"
    by (rule unique_key_append_new [OF linkedD(1) [OF L]]) (simp add: n id)
  with None n id show ?thesis
    by (intro exI [of _ ?c])
      (auto simp: s1 cmds_def lookup_snoc split: option.splits)
next
  case (Some c)
  then have n: "lookup ac_command_id (pl_command_id p) (db_commands s) = Some c" by (simp add: cmds_def)
  let ?f = "\<lambda>r. r\<lparr>ac_attempt_count := 1, ac_active_attempt_id := Some i, ac_updated_at := now\<rparr>"
  let ?p = "\<lambda>r. ac_command_id r = pl_command_id p"
  from step n have s1: "s1 = s\<lparr>db_commands := update_where ?p ?f (db_commands s)\<rparr>" and u: "unprojected c"
    by (auto simp: agent_command_queue_upsert_def split: if_splits)
  have "unique_key ac_command_id (update_where ?p ?f (db_commands s))"
    by (rule unique_key_update_where [OF linkedD(1) [OF L]]) simp
  with Some n u lookup_Some_in [OF n] show ?thesis
    by (intro exI [of _ "?f c"]) (simp add: s1 cmds_def lookup_update_key)
qed

lemma queue_projection_inv:
  assumes inv: "command_inv env s" and fresh: "fresh_attempt i s"
    and up: "agent_command_queue_upsert env now corr p Queued i s = (s1, True)"
    and ins: "agent_command_attempt_insert now i (pl_command_id p) (plan_workspace p) (pl_cluster_id p) 1
      None s1 = Inr s2"
    and match: "\<And>c. cmds s (pl_command_id p) = Some c \<Longrightarrow>
      ac_workspace_id c = plan_workspace p \<and> ac_cluster_id c = pl_cluster_id p"
  shows "command_inv env (notify_agent_command ws cl s2)"
proof -
  have L: "linked s" and R: "rows_ok (consistent env) s" using inv by (simp_all add: command_inv_def)
  from upsert_cases [OF L up] obtain c' where c': "cmds s1 (pl_command_id p) = Some c'"
    "\<And>j. j \<noteq> pl_command_id p \<Longrightarrow> cmds s1 j = cmds s j" "unique_key ac_command_id (db_commands s1)"
    "s1 = s\<lparr>db_commands := db_commands s1\<rparr>" "ac_command_id c' = pl_command_id p"
    "ac_attempt_count c' = 1" "ac_active_attempt_id c' = Some i"
    and old: "case cmds s (pl_command_id p) of
       None \<Rightarrow> c' = (agent_command_values env now corr p Queued None)
                 \<lparr>ac_attempt_count := 1, ac_active_attempt_id := Some i\<rparr>
     | Some c \<Rightarrow> unprojected c \<and>
         c' = c\<lparr>ac_attempt_count := 1, ac_active_attempt_id := Some i, ac_updated_at := now\<rparr>"
    by blast
  have atts1: "db_attempts s1 = db_attempts s" "stream_open s1 = stream_open s"
    "op_streams_ok s1 = op_streams_ok s"
    by (subst c'(4), simp)+
  have ws: "ac_workspace_id c' = plan_workspace p" "ac_cluster_id c' = pl_cluster_id p"
    using old match by (auto simp: agent_command_values_def split: option.splits)
  have fresh1: "fresh_attempt i s1" using fresh by (simp add: fresh_attempt_def atts1)
  have ins': "agent_command_attempt_insert now i (ac_command_id c') (ac_workspace_id c')
      (ac_cluster_id c') 1 None s1 = Inr s2" using ins ws c'(5) by simp
  note s2 = attempt_insert_fresh [OF ins' fresh1]
  let ?t = "notify_agent_command ws cl s2"
  have pol: "1 \<le> fst (command_retry_policy q)" for q
    by (auto simp: command_retry_policy_def split: option.splits json.splits prod.splits)
  have opn: "cmds s (pl_command_id p) = None \<Longrightarrow> stream_open s (plan_workspace p) (pl_command_id p)"
    using linkedD(6) [OF L] by fastforce
  have here: "consistent env c' (Some (new_attempt now i c' 1 now))
      (stream_open s (plan_workspace p) (pl_command_id p))"
  proof (cases "cmds s (pl_command_id p)")
    case None
    with old opn pol show ?thesis
      by (simp add: consistent_def active_simps agent_command_values_def new_attempt_def)
  next
    case (Some c)
    with old have u: "unprojected c"
      "c' = c\<lparr>ac_attempt_count := 1, ac_active_attempt_id := Some i, ac_updated_at := now\<rparr>" by simp_all
    from command_invD(4) [OF inv Some] match [OF Some] u pol show ?thesis
      by (simp add: consistent_def active_simps unprojected_def new_attempt_def)
  qed
  have "linked ?t \<and> rows_ok (consistent env) ?t"
  proof (rule project [OF L R, where c' = c' and i = i and now = now and av = now])
    show "cmds ?t (ac_command_id c') = Some c'"
      using c'(1,5) by (simp add: cmds_def s2 notify_agent_command_def)
    show "cmds ?t j = cmds s j" if "j \<noteq> ac_command_id c'" for j
      using c'(2) [of j] c'(5) that by (simp add: cmds_def s2 notify_agent_command_def)
    show "unique_key ac_command_id (db_commands ?t)"
      using c'(3) by (simp add: s2 notify_agent_command_def)
    show "ac_workspace_id c' = ac_workspace_id c \<and> ac_attempt_count c < ac_attempt_count c'"
      if "cmds s (ac_command_id c') = Some c" for c
      using old that c'(5) by (simp add: unprojected_def)
    show "db_attempts ?t = db_attempts s @ [new_attempt now i c' (ac_attempt_count c') now]"
      by (simp add: s2 notify_agent_command_def atts1 c'(6))
    show "op_streams_ok ?t"
      using linkedD(3) [OF L] by (simp add: s2 notify_agent_command_def atts1)
    show "stream_open ?t w j = stream_open s w j" for w j
      by (simp add: s2 notify_agent_command_def atts1)
    show "consistent env c' (Some (new_attempt now i c' (ac_attempt_count c') now))
        (stream_open ?t (ac_workspace_id c') (ac_command_id c'))"
      using here ws c'(5,6) by (simp add: s2 notify_agent_command_def atts1)
  qed (use fresh c'(6,7) in auto)
  then show ?thesis by (simp add: command_inv_def)
qed

text \<open>The plan a worker queues is the one the row was accepted with.\<close>

definition plan_matches :: "plan \<Rightarrow> db \<Rightarrow> bool" where
  "plan_matches p s \<longleftrightarrow>
     (case cmds s (pl_command_id p) of
        None \<Rightarrow> True
      | Some c \<Rightarrow> ac_workspace_id c = plan_workspace p \<and> ac_cluster_id c = pl_cluster_id p)"

lemma plan_matchesD:
  "plan_matches p s \<Longrightarrow> cmds s (pl_command_id p) = Some c \<Longrightarrow>
   ac_workspace_id c = plan_workspace p \<and> ac_cluster_id c = pl_cluster_id p"
  by (simp add: plan_matches_def)

lemma queue_inv:
  assumes inv: "command_inv env s" and fresh: "fresh_attempt i s" and match: "plan_matches p s"
    and step: "queue_agent_command env now i corr p Queued s = Inr (s', b)"
  shows "command_inv env s'"
proof (cases "agent_command_queue_upsert env now corr p Queued i s")
  case (Pair s1 ins)
  show ?thesis
  proof (cases ins)
    case False
    with Pair step inv show ?thesis by (auto simp: queue_agent_command_def split: if_splits)
  next
    case True
    with Pair step obtain s2 where
      "agent_command_attempt_insert now i (pl_command_id p) (plan_workspace p) (pl_cluster_id p) 1 None s1
        = Inr s2" "s' = notify_agent_command (plan_workspace p) (pl_cluster_id p) s2"
      by (auto simp: queue_agent_command_def split: if_splits sum.splits)
    with queue_projection_inv [OF inv fresh _ _ plan_matchesD [OF match]] Pair True show ?thesis
      by simp
  qed
qed

lemma queue_rca_inv:
  assumes inv: "command_inv env s" and fresh: "fresh_attempt i s" and match: "plan_matches p s"
    and step: "queue_rca_test_command_if_available env now i corr p Queued kind ns name mx ttl s = Inr (s', b)"
  shows "command_inv env s'"
proof (cases "agent_command_queue_upsert env now corr p Queued i s")
  case (Pair s1 ins)
  show ?thesis
  proof (cases "s' = s")
    case False
    with Pair step have ins: "ins" and "\<exists>s2.
      agent_command_attempt_insert now i (pl_command_id p) (plan_workspace p) (pl_cluster_id p) 1 None s1
        = Inr s2 \<and> s' = notify_agent_command (plan_workspace p) (pl_cluster_id p) s2"
      by (auto simp: queue_rca_test_command_if_available_def Let_def split: if_splits sum.splits)
    with queue_projection_inv [OF inv fresh _ _ plan_matchesD [OF match]] Pair show ?thesis
      by auto
  qed (use inv in simp)
qed

lemma progress_append_inv:
  assumes inv: "command_inv env s"
    and app: "append_command_operation_event_in_transaction now ws cmd Progress cl pl s = Inr (s', r)"
  shows "command_inv env s'"
proof -
  have L: "linked s" and R: "rows_ok (consistent env) s" using inv by (simp_all add: command_inv_def)
  note opn = stream_open_append [OF app linkedD(3) [OF L]]
  have o: "stream_open s' = stream_open s" by (auto simp: opn fun_eq_iff)
  have t: "cmds s' = cmds s" "atts s' = atts s"
    using append_tables(1,2) [OF app] by (simp_all add: cmds_def atts_def fun_eq_iff)
  then have "active_attempt s' = active_attempt s" by (intro ext) (simp add: active_attempt_def)
  with L R t o append_op_streams_ok [OF app linkedD(3) [OF L]] append_tables(1,2) [OF app]
  show ?thesis by (simp add: command_inv_def linked_def rows_ok_def)
qed

lemma acceptance_inv:
  assumes inv: "command_inv env s"
    and step: "stage_logical_command_acceptance_in_transaction env now corr p ev Queued cap s = Inr (s', b)"
  shows "command_inv env s'"
proof (cases "s' = s")
  case False
  let ?c = "agent_command_values env now corr p Queued (Some ev)"
  have L: "linked s" and R: "rows_ok (consistent env) s" using inv by (simp_all add: command_inv_def)
  have id: "ac_command_id ?c = pl_command_id p" "ac_active_attempt_id ?c = None"
    "ac_attempt_count ?c = 0" by (simp_all add: agent_command_values_def)
  from False step have s': "s' = s\<lparr>db_commands := db_commands s @ [?c]\<rparr>"
    and "pl_command_id p \<notin> ac_command_id ` set (db_commands s)"
    by (auto simp: stage_logical_command_acceptance_in_transaction_def agent_command_insert_def Let_def
        split: if_splits option.splits)
  then have n: "lookup ac_command_id (pl_command_id p) (db_commands s) = None"
    by (simp add: lookup_None_iff)
  have pol: "1 \<le> fst (command_retry_policy q)" for q
    by (auto simp: command_retry_policy_def split: option.splits json.splits prod.splits)
  have cm: "cmds s' j = (if j = pl_command_id p then Some ?c else cmds s j)" for j
    using n id by (auto simp: s' cmds_def lookup_snoc split: option.splits)
  have at: "atts s' = atts s" by (simp add: s' atts_def fun_eq_iff)
  have opn: "stream_open s (ac_workspace_id ?c) (pl_command_id p)"
    using linkedD(6) [OF L] n by (fastforce simp: cmds_def)
  have "linked s' \<and> rows_ok (consistent env) s'"
  proof (rule rewire [OF L R, where k = "pl_command_id p" and c' = ?c])
    show "unique_key ac_command_id (db_commands s')"
      using unique_key_append_new [OF linkedD(1) [OF L], of ?c] n id by (simp add: s')
    show "unique_key at_attempt_id (db_attempts s')" using linkedD(2) [OF L] by (simp add: s')
    show "op_streams_ok s'" using linkedD(3) [OF L] by (simp add: s')
    show "consistent env ?c (active_attempt s' ?c) (stream_open s' (ac_workspace_id ?c) (pl_command_id p))"
      using opn pol [of p]
      by (simp add: s' active_attempt_def id consistent_def active_simps)
         (simp add: agent_command_values_def order_trans [OF zero_le_one pol])
    show "attempt_link ?c (active_attempt s' ?c)" by (simp add: attempt_link_def id)
    show "stream_open s' w j = stream_open s w j" for w j by (simp add: s')
  qed (use n in \<open>simp_all add: cm at id cmds_def [of s]\<close>)
  then show ?thesis by (simp add: command_inv_def)
qed (use inv in simp)

lemma accept_stage_inv:
  assumes inv: "command_inv env s"
    and step: "accept_command_stage env now corr ev req p cap s = Inr (s', r)"
  shows "command_inv env s'"
proof -
  from step obtain s1 b where
    a: "stage_logical_command_acceptance_in_transaction env now corr p ev Queued cap s = Inr (s1, b)"
    by (auto simp: accept_command_stage_def split: sum.splits)
  with step have "\<exists>pl. append_command_operation_event_in_transaction now (cr_workspace_id req)
      (pl_command_id p) Progress (cr_cluster_id req) pl s1 = Inr (s', r)"
    by (auto simp: accept_command_stage_def stage_command_operation_event_in_transaction_def)
  with progress_append_inv [OF acceptance_inv [OF inv a]] show ?thesis by blast
qed

lemma control_row_of:
  assumes "linked s"
    and "find (\<lambda>c. ac_workspace_id c = ws \<and> ac_command_id c = cmd) (db_commands s) = Some c"
  shows "cmds s cmd = Some c" "ac_command_id c = cmd" "ac_workspace_id c = ws"
  using find_command [OF assms(1,2), of cmd] by auto

lemma control_inv:
  assumes inv: "command_inv env s" and fresh: "fresh_attempt i s"
    and step: "stage_command_control_in_transaction env now ctl i ws cmd act key by_user reason ev aud s
      = Inr (s', r)"
  shows "command_inv env s'"
proof -
  have L: "linked s" using inv by (simp add: command_inv_def)
  from step obtain a c s1 eff where c:
    "find (\<lambda>c. ac_workspace_id c = ws \<and> ac_command_id c = cmd) (db_commands s) = Some c"
    and eff: "(case a of Cancel \<Rightarrow> cancel_command env now ctl c by_user reason ev s
      | Retry \<Rightarrow> retry_command env now ctl i c s) = Inr (s1, eff)"
    and s': "s' = s1\<lparr>db_controls := db_controls s'\<rparr>"
    by (auto simp: stage_command_control_in_transaction_def split: option.splits if_splits sum.splits)
  note C = control_row_of [OF L c]
  have "command_inv env s1"
  proof (cases a)
    case Retry
    with eff have "retry_command env now ctl i c s = Inr (s1, eff)" by simp
    from retry_inv [OF inv C(1) fresh this] show ?thesis .
  next
    case Cancel
    with eff consider "s1 = s"
      | "ac_status c \<in> {Queued, Leased}" "cancel_before_start now ctl c by_user reason ev s = Inr (s1, eff)"
      | "ac_status c = Running" "request_cancel now ctl c by_user reason s = Inr (s1, eff)"
      by (cases "ac_status c") (auto simp: cancel_command_def split: if_splits)
    then show ?thesis
    proof cases
      case 1
      with inv show ?thesis by simp
    next
      case 2
      from cancel_before_start_inv [OF inv C(1,2) this] show ?thesis .
    next
      case 3
      from request_cancel_inv [OF inv C(1,2) this] show ?thesis .
    qed
  qed
  moreover have "linked s' = linked s1" "rows_ok (consistent env) s' = rows_ok (consistent env) s1"
    by (subst s', rule linked_cong; simp)+
  ultimately show ?thesis by (simp add: command_inv_def)
qed

subsection \<open>The expiry sweep\<close>

text \<open>Between the update of all expired rows and the closing of each one.\<close>

definition closing :: "command_env \<Rightarrow> time \<Rightarrow> command_row \<Rightarrow> attempt_row option \<Rightarrow> bool \<Rightarrow> bool" where
  "closing env now c a opn \<longleftrightarrow>
     (\<exists>c0. c = expire_command_row now c0 \<and> command_status_is_active (ac_status c0) \<and>
           consistent env c0 a opn)"

definition mixed ::
    "command_env \<Rightarrow> time \<Rightarrow> string set \<Rightarrow> command_row \<Rightarrow> attempt_row option \<Rightarrow> bool \<Rightarrow> bool" where
  "mixed env now X c a opn \<longleftrightarrow>
     (if ac_command_id c \<in> X then closing env now c a opn else consistent env c a opn)"

lemma expired_active: "command_expired now g q c \<Longrightarrow> command_status_is_active (ac_status c)"
  by (auto simp: command_expired_def active_simps)

lemma expire_row_same:
  "ac_command_id (expire_command_row now c) = ac_command_id c"
  "ac_workspace_id (expire_command_row now c) = ac_workspace_id c"
  "ac_cluster_id (expire_command_row now c) = ac_cluster_id c"
  "ac_active_attempt_id (expire_command_row now c) = ac_active_attempt_id c"
  "ac_attempt_count (expire_command_row now c) = ac_attempt_count c"
  by (simp_all add: expire_command_row_def)

lemma closing_result:
  assumes "closing env now c a opn"
  shows "ac_status c \<in> {Failed, Cancelled}" "retry_refusal env c \<noteq> None" "opn"
proof -
  from assms obtain c0 where c0: "c = expire_command_row now c0"
    "command_status_is_active (ac_status c0)" "consistent env c0 a opn"
    by (auto simp: closing_def)
  then show "ac_status c \<in> {Failed, Cancelled}"
    by (auto simp: expire_command_row_def expiry_status_def)
  show "retry_refusal env c \<noteq> None"
    by (rule retry_refusal_result) (simp add: c0(1) expire_command_row_def)
  show opn using c0(2,3) by (simp add: consistent_def)
qed

lemma mixed_terminal_event:
  "mixed env now X (c\<lparr>ac_terminal_event_id := x\<rparr>) a opn = mixed env now X c a opn"
proof -
  have "closing env now (c\<lparr>ac_terminal_event_id := x\<rparr>) a opn = closing env now c a opn"
  proof
    assume "closing env now c a opn"
    then obtain c0 where "c = expire_command_row now c0" "command_status_is_active (ac_status c0)"
      "consistent env c0 a opn" by (auto simp: closing_def)
    then show "closing env now (c\<lparr>ac_terminal_event_id := x\<rparr>) a opn"
      unfolding closing_def
      by (intro exI [of _ "c0\<lparr>ac_terminal_event_id := x\<rparr>"]) (simp add: expire_command_row_def)
  next
    assume "closing env now (c\<lparr>ac_terminal_event_id := x\<rparr>) a opn"
    then obtain c0 where c0: "c\<lparr>ac_terminal_event_id := x\<rparr> = expire_command_row now c0"
      "command_status_is_active (ac_status c0)" "consistent env c0 a opn" by (auto simp: closing_def)
    have "c = (c\<lparr>ac_terminal_event_id := x\<rparr>)\<lparr>ac_terminal_event_id := ac_terminal_event_id c\<rparr>" by simp
    also have "\<dots> = expire_command_row now (c0\<lparr>ac_terminal_event_id := ac_terminal_event_id c\<rparr>)"
      unfolding c0(1) by (simp add: expire_command_row_def)
    finally show "closing env now c a opn"
      unfolding closing_def using c0(2,3)
      by (intro exI [of _ "c0\<lparr>ac_terminal_event_id := ac_terminal_event_id c\<rparr>"]) simp
  qed
  then show ?thesis by (simp add: mixed_def)
qed

lemma expire_rows_mixed:
  assumes inv: "command_inv env s"
    and s1: "s1 = s\<lparr>db_commands := update_where (command_expired now g q) (expire_command_row now)
      (db_commands s)\<rparr>"
    and X: "X = ac_command_id ` set (filter (command_expired now g q) (db_commands s))"
  shows "linked s1 \<and> rows_ok (mixed env now X) s1"
proof -
  let ?hit = "command_expired now g q"
  have L: "linked s" and R: "rows_ok (consistent env) s" using inv by (simp_all add: command_inv_def)
  have cm: "cmds s1 k = map_option (\<lambda>r. if ?hit r then expire_command_row now r else r) (cmds s k)" for k
    by (simp add: s1 cmds_def lookup_update_where expire_row_same)
  have at: "atts s1 = atts s" by (intro ext) (simp add: s1 atts_def)
  have act: "active_attempt s1 (if ?hit c then expire_command_row now c else c) = active_attempt s c" for c
    by (simp add: active_attempt_def at expire_row_same)
  have inX: "ac_command_id c \<in> X \<longleftrightarrow> ?hit c" if c: "cmds s k = Some c" for c k
  proof
    assume "ac_command_id c \<in> X"
    then obtain d where d: "d \<in> set (db_commands s)" "?hit d" "ac_command_id d = ac_command_id c"
      by (auto simp: X)
    with lookup_Some_in [OF c [unfolded cmds_def]] unique_keyD [OF linkedD(1) [OF L], of d c]
    show "?hit c" by simp
  qed (use lookup_Some_in [OF c [unfolded cmds_def]] in \<open>auto simp: X\<close>)
  have "linked s1"
    unfolding linked_def
  proof (intro conjI allI impI)
    show "unique_key ac_command_id (db_commands s1)"
      using unique_key_update_where [OF linkedD(1) [OF L], of "expire_command_row now" ?hit]
      by (simp add: s1 expire_row_same)
    show "unique_key at_attempt_id (db_attempts s1)" using linkedD(2) [OF L] by (simp add: s1)
    show "op_streams_ok s1" using linkedD(3) [OF L] by (simp add: s1)
    show "attempt_link c (active_attempt s1 c)" if "cmds s1 k = Some c" for k c
    proof -
      from that obtain c0 where "cmds s k = Some c0"
        "c = (if ?hit c0 then expire_command_row now c0 else c0)" by (auto simp: cm)
      then have "attempt_link c0 (active_attempt s1 c)" "ac_active_attempt_id c = ac_active_attempt_id c0"
        "ac_attempt_count c = ac_attempt_count c0" "ac_command_id c = ac_command_id c0"
        "ac_workspace_id c = ac_workspace_id c0" "ac_cluster_id c = ac_cluster_id c0"
        using linkedD(4) [OF L] act [of c0] by (simp_all add: expire_row_same)
      then show ?thesis
        by (cases "ac_active_attempt_id c0"; cases "active_attempt s1 c") (simp_all add: attempt_link_def)
    qed
    show "\<exists>c. cmds s1 (at_command_id a) = Some c \<and> 1 \<le> at_attempt_no a \<and>
        at_attempt_no a \<le> ac_attempt_count c" if "atts s1 i = Some a" for i a
    proof -
      from that have "atts s i = Some a" by (simp add: at)
      from linkedD(5) [OF L this] obtain c where "cmds s (at_command_id a) = Some c"
        "1 \<le> at_attempt_no a" "at_attempt_no a \<le> ac_attempt_count c" by blast
      then show ?thesis
        by (intro exI [of _ "if ?hit c then expire_command_row now c else c"])
          (simp add: cm expire_row_same)
    qed
    show "\<exists>c. cmds s1 k = Some c \<and> ac_workspace_id c = ws" if "\<not> stream_open s1 ws k" for ws k
    proof -
      from that have "\<not> stream_open s ws k" by (simp add: s1)
      from linkedD(6) [OF L this] obtain c where "cmds s k = Some c" "ac_workspace_id c = ws" by blast
      then show ?thesis
        by (intro exI [of _ "if ?hit c then expire_command_row now c else c"])
          (simp add: cm expire_row_same)
    qed
  qed
  moreover have "rows_ok (mixed env now X) s1"
    unfolding rows_ok_def
  proof (intro allI impI)
    fix k c assume "cmds s1 k = Some c"
    then obtain c0 where c0: "cmds s k = Some c0"
      "c = (if ?hit c0 then expire_command_row now c0 else c0)" by (auto simp: cm)
    have "consistent env c0 (active_attempt s c0) (stream_open s (ac_workspace_id c0) k)"
      using R c0(1) by (simp add: rows_ok_def)
    moreover have "stream_open s1 = stream_open s" by (simp add: s1)
    ultimately show "mixed env now X c (active_attempt s1 c) (stream_open s1 (ac_workspace_id c) k)"
      using inX [OF c0(1)] act [of c0] c0(2) expired_active [of now g q c0]
      by (auto simp: mixed_def closing_def expire_row_same)
  qed
  ultimately show ?thesis by blast
qed

lemma close_row_step:
  assumes L: "linked s" and R: "rows_ok (mixed env now X) s"
    and row: "cmds s (ac_command_id row) = Some row" "ac_command_id row \<in> X"
    and step: "close_expired_row uuid5 now src row s = Inr s'"
  shows "linked s' \<and> rows_ok (mixed env now (X - {ac_command_id row})) s' \<and>
    (\<forall>j. j \<noteq> ac_command_id row \<longrightarrow> cmds s' j = cmds s j)"
proof -
  let ?k = "ac_command_id row" and ?ws = "ac_workspace_id row"
  let ?kind = "if ac_status row = Cancelled then KCancelled else KFailed"
  let ?X = "X - {?k}"
  have M: "closing env now row (active_attempt s row) (stream_open s ?ws ?k)"
    using R row by (auto simp: rows_ok_def mixed_def)
  then obtain c0 where c0: "row = expire_command_row now c0"
    "command_status_is_active (ac_status c0)"
    "consistent env c0 (active_attempt s row) (stream_open s ?ws ?k)" by (auto simp: closing_def)
  note cl = closing_result [OF M]
  have link: "attempt_link row (active_attempt s row)" by (rule linkedD(4) [OF L row(1)])
  let ?q = "\<lambda>a. Some (at_attempt_id a) = ac_active_attempt_id row \<and> at_workspace_id a = ?ws \<and>
    at_status a \<in> set [At Queued, At Leased, At Running]"
  let ?g = "\<lambda>a. a\<lparr>at_status := Expired, at_result := ac_result row, at_completed_at := Some now,
    at_updated_at := now\<rparr>"
  define s1 where "s1 = s\<lparr>db_attempts := update_where ?q ?g (db_attempts s)\<rparr>"
  let ?done = "completed_event now (expiry_event_id uuid5 row) src (ac_correlation_id row) ?ws ?k
    (ac_result row)"
  have eq: "(case ac_active_attempt_id row of
      Some (x # xs) \<Rightarrow> s\<lparr>db_attempts := update_where (\<lambda>a. at_attempt_id a = x # xs \<and>
         at_workspace_id a = ?ws \<and> at_status a \<in> set [At Queued, At Leased, At Running]) ?g (db_attempts s)\<rparr>
    | _ \<Rightarrow> s) = s1"
  proof (cases "ac_active_attempt_id row")
    case None
    then show ?thesis by (simp add: s1_def)
  next
    case (Some i)
    with link have "i \<noteq> []" by (simp add: attempt_link_def)
    with Some show ?thesis by (cases i) (simp_all add: s1_def)
  qed
  obtain pl s2 ev where app: "append_command_operation_event_in_transaction now ?ws ?k ?kind
      (ac_cluster_id row) pl s1 = Inr (s2, ev)"
    and s': "s' = stage_completed now ?done (s2\<lparr>db_commands := update_where
      (\<lambda>c. ac_command_id c = ?k \<and> ac_workspace_id c = ?ws)
      (\<lambda>c. c\<lparr>ac_terminal_event_id := Some (env_event_id ?done)\<rparr>) (db_commands s2)\<rparr>)"
    using step unfolding close_expired_row_def eq
    by (auto simp: Let_def stage_command_operation_event_in_transaction_def split: sum.splits)
  have here: "mixed env now ?X row (map_option (\<lambda>a. if ?q a then ?g a else a) (active_attempt s row)) False"
  proof -
    have "consistent env row (map_option (\<lambda>a. if ?q a then ?g a else a) (active_attempt s row)) False"
    proof (rule consistent_closedI [OF c0(3)])
      show "same_plan row c0" by (simp add: c0(1) same_plan_def expire_command_row_def)
      show "\<not> command_status_is_active (ac_status row)" using cl(1) by (auto simp: active_simps)
      fix a assume "map_option (\<lambda>a. if ?q a then ?g a else a) (active_attempt s row) = Some a"
      then obtain a0 where a0: "active_attempt s row = Some a0" "a = (if ?q a0 then ?g a0 else a0)" by auto
      have i: "Some (at_attempt_id a0) = ac_active_attempt_id row" "at_workspace_id a0 = ?ws"
        using a0(1) link lookup_Some_in
        by (cases "ac_active_attempt_id row"; fastforce simp: active_attempt_def atts_def attempt_link_def)+
      have "attempt_agrees c0 a0" using c0(3) a0(1) by (simp add: consistent_def)
      with c0(2) have "at_status a0 \<in> {At Queued, At Leased, At Running}"
        by (cases "ac_status c0") (auto simp: active_simps)
      with i a0(2) have "a = ?g a0" by auto
      with cl(1) show "attempt_agrees row a" by auto
    qed (use cl in auto)
    then show ?thesis by (simp add: mixed_def)
  qed
  have s2: "linked s2 \<and> rows_ok (mixed env now ?X) s2"
  proof (rule touch_append [where p = "\<lambda>r. ac_command_id r = ?k" and f = "\<lambda>r. r" and g = ?g and q = ?q,
        OF L R _ row(1) refl app])
    show "mixed env now ?X d a opn" if "ac_command_id d \<noteq> ?k" "mixed env now X d a opn" for d a opn
      using that by (simp add: mixed_def)
  qed (use here in \<open>simp_all add: s1_def same_command_def same_attempt_def update_where_def split: if_splits\<close>)
  have "linked s' \<and> rows_ok (mixed env now ?X) s'"
    unfolding s' linked_stage_completed
    using set_terminal_event [of s2 "mixed env now ?X", OF _ _ mixed_terminal_event refl] s2 by blast
  moreover have "cmds s' j = cmds s j" if "j \<noteq> ?k" for j
    using lookup_update_key [of "\<lambda>c. ac_command_id c = ?k \<and> ac_workspace_id c = ?ws" ac_command_id ?k
        "\<lambda>c. c\<lparr>ac_terminal_event_id := Some (env_event_id ?done)\<rparr>" j "db_commands s2"] that
      append_tables(1) [OF app]
    unfolding s' linked_stage_completed by (simp add: cmds_def s1_def)
  ultimately show ?thesis by blast
qed

lemma close_rows_inv:
  assumes "linked s" and "rows_ok (mixed env now (ac_command_id ` set rows)) s"
    and "distinct (map ac_command_id rows)"
    and "\<And>row. row \<in> set rows \<Longrightarrow> cmds s (ac_command_id row) = Some row"
    and "close_expired_rows uuid5 now src rows s = Inr s'"
  shows "command_inv env s'"
  using assms
proof (induction rows arbitrary: s)
  case Nil
  then have "rows_ok (consistent env) s" by (simp add: rows_ok_def mixed_def)
  with Nil show ?case by (simp add: command_inv_def)
next
  case (Cons row rows)
  obtain t where t: "close_expired_row uuid5 now src row s = Inr t"
    "close_expired_rows uuid5 now src rows t = Inr s'"
    using Cons.prems(5) by (auto split: sum.splits)
  let ?X = "ac_command_id ` set (row # rows)"
  have "linked t \<and> rows_ok (mixed env now (?X - {ac_command_id row})) t \<and>
      (\<forall>j. j \<noteq> ac_command_id row \<longrightarrow> cmds t j = cmds s j)"
    by (rule close_row_step [OF Cons.prems(1,2) _ _ t(1)]) (simp_all add: Cons.prems(4))
  moreover have "?X - {ac_command_id row} = ac_command_id ` set rows"
    using Cons.prems(3) by auto
  ultimately show ?case
  proof (intro Cons.IH [OF _ _ _ _ t(2)])
    show "cmds t (ac_command_id r) = Some r" if "r \<in> set rows" for r
    proof -
      have "ac_command_id r \<noteq> ac_command_id row" using Cons.prems(3) that by (auto simp: rev_image_eqI)
      then show ?thesis
        using \<open>linked t \<and> _\<close> Cons.prems(4) [of r] that by simp
    qed
  qed (use Cons.prems(3) in auto)
qed

lemma expiry_inv:
  assumes inv: "command_inv env s"
    and step: "fail_expired_agent_commands uuid5 now g q src s = Inr (s', rows)"
  shows "command_inv env s'"
proof -
  let ?hit = "command_expired now g q"
  let ?s1 = "s\<lparr>db_commands := update_where ?hit (expire_command_row now) (db_commands s)\<rparr>"
  have L: "linked s" using inv by (simp add: command_inv_def)
  from step have rows: "rows = map (expire_command_row now) (filter ?hit (db_commands s))"
    and close: "close_expired_rows uuid5 now src rows ?s1 = Inr s'"
    by (auto simp: fail_expired_agent_commands_def Let_def split: if_splits sum.splits)
  have ids: "map ac_command_id rows = map ac_command_id (filter ?hit (db_commands s))"
    by (simp add: rows expire_row_same)
  then have "ac_command_id ` set rows = ac_command_id ` set (filter ?hit (db_commands s))"
    by (metis set_map)
  with expire_rows_mixed [OF inv refl refl, of now g q]
  have "linked ?s1" "rows_ok (mixed env now (ac_command_id ` set rows)) ?s1" by simp_all
  moreover have "distinct (map ac_command_id rows)"
    using linkedD(1) [OF L] unfolding ids by (simp add: unique_key_def distinct_map_filter)
  moreover have "cmds ?s1 (ac_command_id row) = Some row" if "row \<in> set rows" for row
  proof -
    from that obtain c where c: "c \<in> set (db_commands s)" "?hit c" "row = expire_command_row now c"
      by (auto simp: rows)
    with lookup_unique_in [OF linkedD(1) [OF L] c(1)] show ?thesis
      by (simp add: cmds_def lookup_update_where expire_row_same)
  qed
  ultimately show ?thesis using close by (rule close_rows_inv)
qed

end
