(* ===== verification/Command_Properties.thy ===== *)
theory Command_Properties
  imports Command_Invariant
begin

text \<open>
  The command domain as a step relation (every operation of \<^verbatim>\<open>AgentCommandRepository\<close> and
  of the control and receipt transactions, with arbitrary arguments) and the properties of
  all its reachable states.
\<close>

section \<open>Steps\<close>

inductive command_step :: "command_env \<Rightarrow> db \<Rightarrow> db \<Rightarrow> bool" for env where
  accept: "accept_command_stage env now corr ev req p cap s = Inr (s', r) \<Longrightarrow> command_step env s s'"
| queue: "fresh_attempt i s \<Longrightarrow> plan_matches p s \<Longrightarrow>
    queue_agent_command env now i corr p Queued s = Inr (s', b) \<Longrightarrow> command_step env s s'"
| queue_rca: "fresh_attempt i s \<Longrightarrow> plan_matches p s \<Longrightarrow>
    queue_rca_test_command_if_available env now i corr p Queued kind ns name mx ttl s = Inr (s', b) \<Longrightarrow>
    command_step env s s'"
| reject: "fail_logical_command_and_stage_event now ws cmd cl reason s = Inr (s', ev) \<Longrightarrow>
    command_step env s s'"
| control: "fresh_attempt i s \<Longrightarrow>
    stage_command_control_in_transaction env now ctl i ws cmd act key by_user reason ev aud s = Inr (s', sc) \<Longrightarrow>
    command_step env s s'"
| lease: "lease_agent_command now lease_id cl ws agent secs locked s = Inr (s', l) \<Longrightarrow> command_step env s s'"
| start: "start_agent_command now cmd ws cl lease_id agent secs aid s = Inr (s', st) \<Longrightarrow> command_step env s s'"
| heartbeat: "heartbeat_agent_command now cmd ws cl lease_id agent secs aid seen s = Inr (s', hb) \<Longrightarrow>
    command_step env s s'"
| complete: "complete_agent_command_and_stage_event env now eid cmd ws cl result lease_id agent src aid s
      = Inr (s', c) \<Longrightarrow> command_step env s s'"
| expire: "fail_expired_agent_commands uuid5 now g q src s = Inr (s', rows) \<Longrightarrow> command_step env s s'"

inductive_cases command_stepE: "command_step env s s'"

lemma command_step_inv: "command_inv env s \<Longrightarrow> command_step env s s' \<Longrightarrow> command_inv env s'"
  by (erule command_step.cases)
    (auto intro: accept_stage_inv queue_inv queue_rca_inv fail_logical_inv control_inv lease_inv
      start_inv heartbeat_inv complete_inv expiry_inv)

interpretation commands: invariant_system "\<lambda>s. s = empty_db" "command_step env" "command_inv env" for env
  by unfold_locales (auto simp: command_inv_empty intro: command_step_inv)

definition commands_reachable :: "command_env \<Rightarrow> db \<Rightarrow> bool" where
  "commands_reachable env s \<longleftrightarrow> reachable_from (\<lambda>s. s = empty_db) (command_step env) s"

lemma commands_reachable_inv: "commands_reachable env s \<Longrightarrow> command_inv env s"
  unfolding commands_reachable_def by (rule commands.reachable_inv)

lemma commands_reachable_step:
  "commands_reachable env s \<Longrightarrow> command_step env s s' \<Longrightarrow> commands_reachable env s'"
  unfolding commands_reachable_def reachable_from_def by (meson rtranclp.rtrancl_into_rtrancl)

lemma commands_reachable_empty: "commands_reachable env empty_db"
  by (auto simp: commands_reachable_def reachable_from_def)

lemma cmds_in_set: "linked s \<Longrightarrow> c \<in> set (db_commands s) \<longleftrightarrow> cmds s (ac_command_id c) = Some c"
  using in_set_lookup [OF linkedD(1)] by (simp add: cmds_def)

section \<open>A concrete run\<close>

text \<open>
  One command accepted, queued, leased, started, failed with a retryable result, retried and
  leased again; used to instantiate the properties.
\<close>

definition demo_env :: command_env where
  "demo_env = \<lparr>ce_catalog = [(''scale'', demo_scale_spec)], ce_render = (\<lambda>_. []),
     ce_sql_text = (\<lambda>_. []), ce_timestamp = (\<lambda>_. None), ce_impact = (\<lambda>_ _ _ _ _. ''i'')\<rparr>"

definition demo_plan :: plan where
  "demo_plan = \<lparr>pl_command_id = ''c'', pl_workspace_id = Some ''w'', pl_cluster_id = ''k'',
     pl_action = ''scale'', pl_priority = None, pl_namespace = None, pl_diff = None,
     pl_payload = None,
     pl_retry_policy = Some (JObj [(''max_attempts'', JInt 3), (''retry_delay_seconds'', JInt 5)]),
     pl_direct_execution = None\<rparr>"

definition demo_request :: command_request where
  "demo_request = \<lparr>cr_workspace_id = ''w'', cr_cluster_id = ''k'', cr_action = ''scale''\<rparr>"

definition demo_failure :: jobj where
  "demo_failure = [(''status'', JStr ''failed''), (''retryable'', JBool True)]"

definition state_after :: "db \<Rightarrow> db_error + db \<times> 'a \<Rightarrow> db" where
  "state_after s r = (case r of Inl _ \<Rightarrow> s | Inr (s', _) \<Rightarrow> s')"

definition demo_accept :: "db \<Rightarrow> db_error + db \<times> op_event_row option" where
  "demo_accept = accept_command_stage demo_env 0 ''r'' ''e0'' demo_request demo_plan (Some 2)"

definition demo_queue :: "db \<Rightarrow> db_error + db \<times> bool" where
  "demo_queue = queue_agent_command demo_env 1 ''a1'' ''r'' demo_plan Queued"

definition demo_lease :: "time \<Rightarrow> string \<Rightarrow> db \<Rightarrow>
    db_error + db \<times> (command_row \<times> op_event_row option) option" where
  "demo_lease now l = lease_agent_command now l ''k'' ''w'' ''g'' 60 (\<lambda>_. False)"

definition demo_start :: "time \<Rightarrow> string \<Rightarrow> db \<Rightarrow> db_error + db \<times> (string \<times> op_event_row option) option" where
  "demo_start now l = start_agent_command now ''c'' ''w'' ''k'' l ''g'' 60 None"

definition demo_fail :: "time \<Rightarrow> string \<Rightarrow> db \<Rightarrow> db_error + db \<times> (envelope \<times> op_event_row option) option" where
  "demo_fail now l = complete_agent_command_and_stage_event demo_env now ''e1'' ''c'' ''w'' ''k''
     demo_failure l ''g'' ''agent'' None"

definition demo_retry :: "time \<Rightarrow> db \<Rightarrow> db_error + db \<times> staged_control" where
  "demo_retry now = stage_command_control_in_transaction demo_env now ''x1'' ''a2'' ''w'' ''c'' ''retry''
     ''key1'' ''user'' None ''ev'' ''audit''"

definition demo_cancel :: "time \<Rightarrow> db \<Rightarrow> db_error + db \<times> staged_control" where
  "demo_cancel now = stage_command_control_in_transaction demo_env now ''x2'' ''a3'' ''w'' ''c'' ''cancel''
     ''key2'' ''user'' None ''ev2'' ''audit''"

definition "demo_accepted = state_after empty_db (demo_accept empty_db)"
definition "demo_queued = state_after demo_accepted (demo_queue demo_accepted)"
definition "demo_leased = state_after demo_queued (demo_lease 2 ''l1'' demo_queued)"
definition "demo_started = state_after demo_leased (demo_start 3 ''l1'' demo_leased)"
definition "demo_failed = state_after demo_started (demo_fail 4 ''l1'' demo_started)"
definition "demo_retried = state_after demo_failed (demo_retry 5 demo_failed)"

lemma state_after_ok: "\<not> isl r \<Longrightarrow> \<exists>x. r = Inr (state_after s r, x)"
  by (cases r) (auto simp: state_after_def)

lemma demo_run:
  "\<not> isl (demo_accept empty_db)" "\<not> isl (demo_queue demo_accepted)"
  "\<not> isl (demo_lease 2 ''l1'' demo_queued)" "\<not> isl (demo_start 3 ''l1'' demo_leased)"
  "\<not> isl (demo_fail 4 ''l1'' demo_started)" "\<not> isl (demo_retry 5 demo_failed)"
  by code_simp+

lemma demo_side_conditions:
  "fresh_attempt ''a1'' demo_accepted" "plan_matches demo_plan demo_accepted"
  "fresh_attempt ''a2'' demo_failed" "fresh_attempt ''a3'' demo_started"
  by code_simp+

lemma demo_reachable:
  "commands_reachable demo_env demo_accepted" "commands_reachable demo_env demo_queued"
  "commands_reachable demo_env demo_leased" "commands_reachable demo_env demo_started"
  "commands_reachable demo_env demo_failed" "commands_reachable demo_env demo_retried"
proof -
  have "command_step demo_env empty_db demo_accepted"
    using state_after_ok [OF demo_run(1), of empty_db, folded demo_accepted_def]
    unfolding demo_accept_def by (blast intro: command_step.accept)
  with commands_reachable_empty show 1: "commands_reachable demo_env demo_accepted"
    by (rule commands_reachable_step)
  have "command_step demo_env demo_accepted demo_queued"
    using state_after_ok [OF demo_run(2), of demo_accepted, folded demo_queued_def] demo_side_conditions(1,2)
    unfolding demo_queue_def by (blast intro: command_step.queue)
  with 1 show 2: "commands_reachable demo_env demo_queued" by (rule commands_reachable_step)
  have "command_step demo_env demo_queued demo_leased"
    using state_after_ok [OF demo_run(3), of demo_queued, folded demo_leased_def]
    unfolding demo_lease_def by (blast intro: command_step.lease)
  with 2 show 3: "commands_reachable demo_env demo_leased" by (rule commands_reachable_step)
  have "command_step demo_env demo_leased demo_started"
    using state_after_ok [OF demo_run(4), of demo_leased, folded demo_started_def]
    unfolding demo_start_def by (blast intro: command_step.start)
  with 3 show 4: "commands_reachable demo_env demo_started" by (rule commands_reachable_step)
  have "command_step demo_env demo_started demo_failed"
    using state_after_ok [OF demo_run(5), of demo_started, folded demo_failed_def]
    unfolding demo_fail_def by (blast intro: command_step.complete)
  with 4 show 5: "commands_reachable demo_env demo_failed" by (rule commands_reachable_step)
  have "command_step demo_env demo_failed demo_retried"
    using state_after_ok [OF demo_run(6), of demo_failed, folded demo_retried_def] demo_side_conditions(3)
    unfolding demo_retry_def by (blast intro: command_step.control)
  with 5 show "commands_reachable demo_env demo_retried" by (rule commands_reachable_step)
qed

section \<open>Properties\<close>

text \<open>
  Claim C3. In every state the operations can reach, each command agrees with its
  attempts: it never has more attempts than its plan's retry policy allows; once projected,
  its active attempt exists, carries the latest attempt number, and has the status, lease
  and agent the command says (a closed command never has a leased or running attempt); a
  command without an attempt is queued, rejected or cancelled.
\<close>

theorem command_attempt_consistency:
  assumes "commands_reachable env s" and "c \<in> set (db_commands s)"
  shows "int (ac_attempt_count c) \<le> fst (command_retry_policy (ac_payload c)) \<and>
    (case ac_active_attempt_id c of
       None \<Rightarrow> ac_attempt_count c = 0 \<and> ac_status c \<in> {Queued, Failed, Cancelled}
     | Some i \<Rightarrow> \<exists>a \<in> set (db_attempts s). at_attempt_id a = i \<and> at_command_id a = ac_command_id c \<and>
         at_attempt_no a = ac_attempt_count c \<and> attempt_agrees c a)"
proof -
  note inv = commands_reachable_inv [OF assms(1)]
  have L: "linked s" using inv by (simp add: command_inv_def)
  with assms(2) have c: "cmds s (ac_command_id c) = Some c" by (simp add: cmds_in_set)
  note D = command_invD [OF inv c]
  show ?thesis
  proof (cases "ac_active_attempt_id c")
    case None
    with D(3,4) agreeD(1) [OF inv c] show ?thesis by (simp add: attempt_link_def consistent_def)
  next
    case (Some i)
    with agreeD(2) [OF inv c] obtain a where a: "active_attempt s c = Some a" "at_attempt_id a = i"
      "attempt_agrees c a" by blast
    then have "a \<in> set (db_attempts s)"
      using Some lookup_Some_in by (fastforce simp: active_attempt_def atts_def)
    with Some a D(3,4) show ?thesis
      by (auto simp: attempt_link_def consistent_def simp del: attempt_agrees.simps)
  qed
qed

theorem command_attempt_consistency_witness:
  "\<exists>a \<in> set (db_attempts demo_retried). at_attempt_id a = ''a2'' \<and> at_attempt_no a = 2 \<and>
     at_status a = At Queued"
proof -
  have "length (db_commands demo_retried) = 1" "ac_active_attempt_id (hd (db_commands demo_retried)) = Some ''a2''"
    "ac_attempt_count (hd (db_commands demo_retried)) = 2" "ac_status (hd (db_commands demo_retried)) = Queued"
    by code_simp+
  then obtain c where c: "c \<in> set (db_commands demo_retried)" "ac_active_attempt_id c = Some ''a2''"
    "ac_attempt_count c = 2" "ac_status c = Queued"
    by (cases "db_commands demo_retried") auto
  from command_attempt_consistency [OF demo_reachable(6) c(1)] c(2-4) show ?thesis by auto
qed

end
