(* ===== verification/Command_Evolution.thy ===== *)
theory Command_Evolution
  imports Command_Properties
begin

text \<open>
  How a single operation may change a command: its identity and plan never change, its
  status moves along the transitions of \<^verbatim>\<open>lifecycle.py\<close> (with the one exception the
  repository allows), and its attempt count grows only when it is queued again.
\<close>

definition status_move :: "command_status \<Rightarrow> command_status \<Rightarrow> bool" where
  "status_move st st' \<longleftrightarrow> command_transition_allowed st st' \<or> (st = Running \<and> st' = Cancelled)"

definition evolves :: "command_row \<Rightarrow> command_row \<Rightarrow> bool" where
  "evolves c c' \<longleftrightarrow>
     ac_command_id c' = ac_command_id c \<and> ac_workspace_id c' = ac_workspace_id c \<and>
     ac_cluster_id c' = ac_cluster_id c \<and> ac_action c' = ac_action c \<and>
     ac_payload c' = ac_payload c \<and> ac_correlation_id c' = ac_correlation_id c \<and>
     ac_created_at c' = ac_created_at c \<and>
     status_move (ac_status c) (ac_status c') \<and>
     (ac_attempt_count c' = ac_attempt_count c \<or>
      ac_attempt_count c' = Suc (ac_attempt_count c) \<and> ac_status c' = Queued)"

definition commands_evolve :: "db \<Rightarrow> db \<Rightarrow> bool" where
  "commands_evolve s s' \<longleftrightarrow>
     (\<forall>k c. cmds s k = Some c \<longrightarrow> (\<exists>c'. cmds s' k = Some c' \<and> evolves c c'))"

lemma status_move_refl [simp]: "status_move st st"
  by (simp add: status_move_def)

lemma evolves_refl [simp]: "evolves c c"
  by (simp add: evolves_def)

lemma commands_evolve_refl [simp]: "commands_evolve s s"
  by (auto simp: commands_evolve_def)

lemma commands_evolve_cong:
  "db_commands s' = db_commands t' \<Longrightarrow> commands_evolve s t' \<Longrightarrow> commands_evolve s s'"
  by (simp add: commands_evolve_def cmds_def)

lemma commands_evolve_update:
  assumes u: "unique_key ac_command_id (db_commands s)"
    and t: "db_commands s' = update_where p f (db_commands s)"
    and f: "\<And>c. c \<in> set (db_commands s) \<Longrightarrow> p c \<Longrightarrow> evolves c (f c)"
    and id: "\<And>c. ac_command_id (f c) = ac_command_id c"
  shows "commands_evolve s s'"
  unfolding commands_evolve_def
proof (intro allI impI)
  fix k c assume c: "cmds s k = Some c"
  then have "c \<in> set (db_commands s)" by (auto simp: cmds_def dest: lookup_Some_in)
  with f [of c] have "evolves c (if p c then f c else c)" by simp
  moreover have "cmds s' k = Some (if p c then f c else c)"
    using c by (simp add: cmds_def t lookup_update_where id)
  ultimately show "\<exists>c'. cmds s' k = Some c' \<and> evolves c c'" by blast
qed

text \<open>Writing the terminal event identifier afterwards changes nothing of this.\<close>

lemma commands_evolve_terminal_event:
  assumes e: "commands_evolve s t"
    and t: "db_commands s' = update_where p (\<lambda>r. r\<lparr>ac_terminal_event_id := x\<rparr>) (db_commands t)"
  shows "commands_evolve s s'"
  unfolding commands_evolve_def
proof (intro allI impI)
  fix k c assume "cmds s k = Some c"
  with e obtain c' where c': "cmds t k = Some c'" "evolves c c'" by (auto simp: commands_evolve_def)
  let ?d = "if p c' then c'\<lparr>ac_terminal_event_id := x\<rparr> else c'"
  have "cmds s' k = Some ?d" using c'(1) by (simp add: cmds_def t lookup_update_where)
  moreover have "evolves c ?d" using c'(2) by (simp add: evolves_def)
  ultimately show "\<exists>c'. cmds s' k = Some c' \<and> evolves c c'" by blast
qed

lemma same_commandD: "unique_key ac_command_id (db_commands s) \<Longrightarrow> cmds s k = Some c \<Longrightarrow>
    d \<in> set (db_commands s) \<Longrightarrow> ac_command_id d = k \<Longrightarrow> d = c"
  by (auto simp: cmds_def in_set_lookup)

lemmas move_simps = evolves_def status_move_def lifecycle_simps

section \<open>Each operation\<close>

lemma reject_evolves:
  assumes "linked s" and "fail_logical_command_and_stage_event now ws cmd cl reason s = Inr (s', r)"
  shows "commands_evolve s s'"
proof -
  let ?p = "\<lambda>c. ac_workspace_id c = ws \<and> ac_command_id c = cmd \<and> ac_cluster_id c = cl \<and>
    ac_status c = Queued"
  show ?thesis
  proof (cases "find ?p (db_commands s)")
    case None
    with assms(2) show ?thesis by (simp add: fail_logical_command_and_stage_event_def Let_def)
  next
    case (Some c)
    with assms(2) show ?thesis
      by (auto simp: fail_logical_command_and_stage_event_def Let_def move_simps
          dest!: append_tables(1) intro!: commands_evolve_update [OF linkedD(1) [OF assms(1)]])
  qed
qed

lemma lease_evolves:
  assumes L: "linked s" and step: "lease_agent_command now l cl ws agent secs locked s = Inr (s', r)"
  shows "commands_evolve s s'"
  using lease_cases [OF L step]
  by (elim disjE exE conjE)
    (auto dest!: append_tables(1) intro!: commands_evolve_update [OF linkedD(1) [OF L]]
      simp: lease_row_def move_simps)

lemma start_evolves:
  assumes L: "linked s" and step: "start_agent_command now cmd ws cl l agent secs aid s = Inr (s', r)"
  shows "commands_evolve s s'"
proof (cases "find (\<lambda>c. held_by now cmd ws cl l agent [Leased] c \<and> attempt_matches aid c) (db_commands s)")
  case None
  with step show ?thesis by (simp add: start_agent_command_def Let_def)
next
  case (Some c)
  have "db_commands s' = update_where
      (\<lambda>c. held_by now cmd ws cl l agent [Leased] c \<and> attempt_matches aid c)
      (\<lambda>r. r\<lparr>ac_status := Running, ac_leased_until := Some (now + seconds secs),
            ac_started_at := Some now, ac_updated_at := now\<rparr>) (db_commands s)"
    using step Some
    by (auto simp: start_agent_command_def Let_def dest!: append_tables(1)
        split: sum.splits option.splits list.splits)
  then show ?thesis
    by (rule commands_evolve_update [OF linkedD(1) [OF L]]) (auto simp: held_by_def move_simps)
qed

lemma heartbeat_evolves:
  assumes L: "linked s"
    and step: "heartbeat_agent_command now cmd ws cl l agent secs aid seen s = Inr (s', r)"
  shows "commands_evolve s s'"
proof (cases "find (held_by now cmd ws cl l agent [Leased, Running, CancelRequested, Cancelling])
    (db_commands s)")
  case None
  with step show ?thesis by (simp add: heartbeat_agent_command_def Let_def)
next
  case (Some c)
  from find_command [OF L Some, of cmd] have c: "cmds s cmd = Some c" by (auto simp: held_by_def)
  let ?active = "case ac_active_attempt_id c of None \<Rightarrow> [] | Some a \<Rightarrow> a"
  let ?ack = "acknowledges_cancel c seen"
  let ?p = "\<lambda>r. ac_command_id r = cmd \<and> ac_workspace_id r = ws \<and> ac_lease_id r = Some l \<and>
    ac_agent_id r = Some agent \<and> ac_active_attempt_id r = Some ?active"
  let ?f = "\<lambda>r. r\<lparr>ac_status := (if ?ack then Cancelling else ac_status c),
      ac_leased_until := Some (now + seconds secs),
      ac_cancel_accepted_at := (if ?ack then Some now else ac_cancel_accepted_at r), ac_updated_at := now\<rparr>"
  have "s' = s \<or> db_commands s' = update_where ?p ?f (db_commands s)"
    using step Some
    by (auto simp: heartbeat_agent_command_def Let_def dest!: append_tables(1) split: if_splits sum.splits)
  moreover have "evolves d (?f d)" if "d \<in> set (db_commands s)" "?p d" for d
  proof -
    have "d = c" using same_commandD [OF linkedD(1) [OF L] c that(1)] that(2) by blast
    then show ?thesis by (auto simp: acknowledges_cancel_def move_simps)
  qed
  ultimately show ?thesis
    using commands_evolve_update [OF linkedD(1) [OF L], of s' ?p ?f] by auto
qed

lemma complete_evolves:
  assumes inv: "command_inv env s"
    and step: "complete_agent_command_and_stage_event env now eid cmd ws cl result l agent src aid s
      = Inr (s', r)"
  shows "commands_evolve s s'"
  using complete_cases [OF inv step]
proof (elim disjE exE)
  fix c i st kind
  assume C: "completion_of env now cmd ws cl result l agent src aid eid s s' r c i st kind"
  have L: "linked s" using inv by (simp add: command_inv_def)
  have st: "st \<in> {Completed, Failed, Cancelled}"
    using C status_of_result_cases [of st "final_failure env c result" kind]
    unfolding completion_of_def by blast
  from C obtain pl s3 op where app: "append_command_operation_event_in_transaction now ws cmd kind cl pl
      (s\<lparr>db_commands := update_where (holder now cmd ws cl l agent aid)
            (finish_row now st result) (db_commands s),
         db_attempts := update_where (held_attempt i ws l agent)
            (finish_attempt now (At st) result) (db_attempts s)\<rparr>) = Inr (s3, op)"
    and s'_eq: "s' = stage_completed now (completed_event now eid src (ac_correlation_id c) ws cmd result)
       (if kind = Progress then s3
        else s3\<lparr>db_commands := update_where (\<lambda>r. ac_command_id r = cmd \<and> ac_workspace_id r = ws)
               (\<lambda>r. r\<lparr>ac_terminal_event_id := Some
                  (env_event_id (completed_event now eid src (ac_correlation_id c) ws cmd result))\<rparr>)
               (db_commands s3)\<rparr>)"
    unfolding completion_of_def by blast
  from s'_eq have s': "db_commands s' = db_commands s3 \<or> (\<exists>p x. db_commands s' =
      update_where p (\<lambda>r. r\<lparr>ac_terminal_event_id := x\<rparr>) (db_commands s3))"
    by (cases "kind = Progress") (simp_all add: stage_completed_def, blast)
  from append_tables(1) [OF app] have "db_commands s3 = update_where
      (holder now cmd ws cl l agent aid) (finish_row now st result) (db_commands s)" by simp
  then have "commands_evolve s s3"
    by (rule commands_evolve_update [OF linkedD(1) [OF L]])
      (use st in \<open>auto simp: holder_def held_by_def finish_row_def move_simps\<close>)
  with s' show ?thesis
    by (auto intro: commands_evolve_terminal_event commands_evolve_cong)
qed simp

lemma expire_row_evolves:
  "command_expired now g q c \<Longrightarrow> evolves c (expire_command_row now c)"
  by (cases "ac_status c") (auto simp: expire_command_row_def expiry_status_def command_expired_def move_simps)

lemma close_row_evolves:
  assumes "close_expired_row uuid5 now src row t = Inr s'" and "commands_evolve s t"
  shows "commands_evolve s s'"
proof -
  from assms(1) obtain p x where
    "db_commands s' = update_where p (\<lambda>r. r\<lparr>ac_terminal_event_id := x\<rparr>) (db_commands t)"
    by (fastforce simp: close_expired_row_def Let_def stage_completed_def
        stage_command_operation_event_in_transaction_def
        dest!: append_tables(1) split: sum.splits option.splits list.splits)
  then show ?thesis by (rule commands_evolve_terminal_event [OF assms(2)])
qed

lemma close_rows_evolve:
  "close_expired_rows uuid5 now src rows t = Inr s' \<Longrightarrow> commands_evolve s t \<Longrightarrow> commands_evolve s s'"
  by (induction rows arbitrary: t) (auto split: sum.splits dest: close_row_evolves)

lemma expire_evolves:
  assumes L: "linked s" and step: "fail_expired_agent_commands uuid5 now g q src s = Inr (s', rows)"
  shows "commands_evolve s s'"
proof -
  let ?s1 = "s\<lparr>db_commands := update_where (command_expired now g q) (expire_command_row now) (db_commands s)\<rparr>"
  from step have "close_expired_rows uuid5 now src rows ?s1 = Inr s'"
    by (auto simp: fail_expired_agent_commands_def Let_def split: if_splits sum.splits)
  moreover have "commands_evolve s ?s1"
    by (rule commands_evolve_update [OF linkedD(1) [OF L], of _ "command_expired now g q" "expire_command_row now"])
      (simp_all add: expire_row_evolves expire_row_same)
  ultimately show ?thesis by (rule close_rows_evolve)
qed

lemma projection_evolves:
  assumes L: "linked s" and up: "agent_command_queue_upsert env now corr p st i s = (s1, True)"
    and s': "db_commands s' = db_commands s1"
  shows "commands_evolve s s'"
  unfolding commands_evolve_def
proof (intro allI impI)
  fix k c assume c: "cmds s k = Some c"
  from upsert_cases [OF L up] obtain c' where c': "cmds s1 (pl_command_id p) = Some c'"
    "\<forall>j. j \<noteq> pl_command_id p \<longrightarrow> cmds s1 j = cmds s j"
    "case cmds s (pl_command_id p) of
       None \<Rightarrow> c' = (agent_command_values env now corr p st None)
                 \<lparr>ac_attempt_count := 1, ac_active_attempt_id := Some i\<rparr>
     | Some c \<Rightarrow> unprojected c \<and>
         c' = c\<lparr>ac_attempt_count := 1, ac_active_attempt_id := Some i, ac_updated_at := now\<rparr>" by blast
  have "\<exists>c'. cmds s1 k = Some c' \<and> evolves c c'"
    using c c' by (cases "k = pl_command_id p") (auto simp: evolves_def unprojected_def)
  then show "\<exists>c'. cmds s' k = Some c' \<and> evolves c c'" by (simp add: cmds_def s')
qed

lemma attempt_insert_commands:
  "agent_command_attempt_insert now i k ws cl n av s = Inr s' \<Longrightarrow> db_commands s' = db_commands s"
  by (auto simp: agent_command_attempt_insert_def Let_def split: if_splits)

lemma queue_evolves:
  assumes L: "linked s" and step: "queue_agent_command env now i corr p st s = Inr (s', b)"
  shows "commands_evolve s s'"
proof (cases "agent_command_queue_upsert env now corr p st i s")
  case (Pair s1 ins)
  with step have "s' = s \<or> (ins \<and> db_commands s' = db_commands s1)"
    by (auto simp: queue_agent_command_def notify_agent_command_def
        dest!: attempt_insert_commands split: if_splits sum.splits)
  with Pair projection_evolves [OF L] show ?thesis by auto
qed

lemma queue_rca_evolves:
  assumes L: "linked s"
    and step: "queue_rca_test_command_if_available env now i corr p st kind ns name mx ttl s = Inr (s', b)"
  shows "commands_evolve s s'"
proof (cases "agent_command_queue_upsert env now corr p st i s")
  case (Pair s1 ins)
  with step have "s' = s \<or> (ins \<and> db_commands s' = db_commands s1)"
    by (auto simp: queue_rca_test_command_if_available_def Let_def notify_agent_command_def
        dest!: attempt_insert_commands split: if_splits sum.splits)
  with Pair projection_evolves [OF L] show ?thesis by auto
qed

lemma accept_evolves:
  assumes "accept_command_stage env now corr ev req p cap s = Inr (s', r)"
  shows "commands_evolve s s'"
proof -
  from assms obtain s1 b where
    a: "stage_logical_command_acceptance_in_transaction env now corr p ev Queued cap s = Inr (s1, b)"
    and "db_commands s' = db_commands s1"
    by (auto simp: accept_command_stage_def stage_command_operation_event_in_transaction_def
        dest!: append_tables(1) split: sum.splits)
  moreover from a have "s1 = s \<or> (\<exists>d. pl_command_id p \<notin> ac_command_id ` set (db_commands s) \<and>
      db_commands s1 = db_commands s @ [d])"
    by (auto simp: stage_logical_command_acceptance_in_transaction_def agent_command_insert_def Let_def
        split: if_splits option.splits)
  ultimately show ?thesis
    by (auto simp: commands_evolve_def cmds_def lookup_append)
qed

lemma cancel_before_start_evolves:
  assumes L: "linked s" and st: "ac_status c \<in> {Queued, Leased}"
    and step: "cancel_before_start now ctl c by_user reason ev s = Inr (s', eff)"
  shows "commands_evolve s s'"
proof -
  obtain m where "db_commands s' = update_where
      (\<lambda>r. ac_workspace_id r = ac_workspace_id c \<and> ac_command_id r = ac_command_id c \<and>
           ac_status r = ac_status c)
      (\<lambda>r. r\<lparr>ac_status := Cancelled, ac_result := m, ac_completed_at := Some now,
            ac_cancel_requested_at := Some now, ac_cancel_requested_by := Some by_user,
            ac_cancel_reason := reason, ac_terminal_event_id := Some ev, ac_updated_at := now\<rparr>)
      (db_commands s)"
    using step
    by (auto simp: cancel_before_start_def Let_def stage_command_operation_event_in_transaction_def
        dest!: append_tables(1) split: sum.splits option.splits)
  then show ?thesis
    by (rule commands_evolve_update [OF linkedD(1) [OF L]]) (use st in \<open>auto simp: move_simps\<close>)
qed

lemma request_cancel_evolves:
  assumes L: "linked s" and step: "request_cancel now ctl c by_user reason s = Inr (s', eff)"
  shows "commands_evolve s s'"
  using step
  by (auto simp: request_cancel_def Let_def stage_command_operation_event_in_transaction_def move_simps
      dest!: append_tables(1) intro!: commands_evolve_update [OF linkedD(1) [OF L]] split: sum.splits)

lemma retry_evolves:
  assumes L: "linked s" and c: "cmds s k = Some c"
    and step: "retry_command env now ctl i c s = Inr (s', eff)"
  shows "commands_evolve s s'"
proof -
  have k: "ac_command_id c = k" using c lookup_Some_in by (fastforce simp: cmds_def)
  let ?p = "\<lambda>d. ac_workspace_id d = ac_workspace_id c \<and> ac_command_id d = ac_command_id c \<and>
    ac_status d = Failed"
  let ?f = "requeue_row now (Suc (ac_attempt_count c)) i"
  have "db_commands s' = update_where ?p ?f (db_commands s)"
    using step
    by (auto simp: retry_command_def Let_def stage_command_operation_event_in_transaction_def
        notify_agent_command_def dest!: append_tables(1) attempt_insert_commands
        split: sum.splits option.splits prod.splits)
  moreover have "evolves d (?f d)" if "d \<in> set (db_commands s)" "?p d" for d
  proof -
    have "d = c" using same_commandD [OF linkedD(1) [OF L] c that(1)] that(2) k by simp
    with that(2) show ?thesis by (simp add: requeue_row_def move_simps)
  qed
  ultimately show ?thesis
    using commands_evolve_update [OF linkedD(1) [OF L], of s' ?p ?f] by (simp add: requeue_row_def)
qed

lemma control_evolves:
  assumes L: "linked s"
    and step: "stage_command_control_in_transaction env now ctl i ws cmd act key by_user reason ev aud s
      = Inr (s', r)"
  shows "commands_evolve s s'"
proof -
  from step obtain a c s1 eff where c:
    "find (\<lambda>c. ac_workspace_id c = ws \<and> ac_command_id c = cmd) (db_commands s) = Some c"
    and eff: "(case a of Cancel \<Rightarrow> cancel_command env now ctl c by_user reason ev s
      | Retry \<Rightarrow> retry_command env now ctl i c s) = Inr (s1, eff)"
    and s': "db_commands s' = db_commands s1"
    by (auto simp: stage_command_control_in_transaction_def split: option.splits if_splits sum.splits)
  note C = control_row_of [OF L c]
  have "commands_evolve s s1"
  proof (cases a)
    case Retry
    with eff retry_evolves [OF L C(1)] show ?thesis by auto
  next
    case Cancel
    with eff have "s1 = s \<or> (ac_status c \<in> {Queued, Leased} \<and>
        cancel_before_start now ctl c by_user reason ev s = Inr (s1, eff)) \<or>
        request_cancel now ctl c by_user reason s = Inr (s1, eff)"
      by (cases "ac_status c") (auto simp: cancel_command_def split: if_splits)
    then show ?thesis
      by (elim disjE conjE) (auto intro: cancel_before_start_evolves [OF L] request_cancel_evolves [OF L])
  qed
  with s' show ?thesis by (auto intro: commands_evolve_cong)
qed

lemma command_step_evolves:
  assumes "command_inv env s" and "command_step env s s'"
  shows "commands_evolve s s'"
proof -
  have L: "linked s" using assms(1) by (simp add: command_inv_def)
  from assms(2) show ?thesis
    by (cases rule: command_step.cases)
      (blast intro: accept_evolves queue_evolves [OF L] queue_rca_evolves [OF L] reject_evolves [OF L]
        control_evolves [OF L] lease_evolves [OF L] start_evolves [OF L] heartbeat_evolves [OF L]
        complete_evolves [OF assms(1)] expire_evolves [OF L])+
qed

section \<open>Properties\<close>



text \<open>
  A completed or cancelled command keeps its status through every later
  sequence of operations: no lease, control, completion or sweep reopens it.
\<close>

theorem closed_command_stays_closed:
  assumes "commands_reachable env s" and "(command_step env)\<^sup>*\<^sup>* s s'"
    and "c \<in> set (db_commands s)" and "ac_status c \<in> {Completed, Cancelled}"
  shows "\<exists>c' \<in> set (db_commands s'). ac_command_id c' = ac_command_id c \<and> ac_status c' = ac_status c"
proof -
  let ?Q = "\<lambda>t. \<exists>c'. cmds t (ac_command_id c) = Some c' \<and> ac_status c' = ac_status c"
  note inv = commands_reachable_inv [OF assms(1)]
  have "?Q s" using inv assms(3) cmds_in_set by (auto simp: command_inv_def)
  have "?Q s'"
  proof (rule commands.steps_stable [where Q = ?Q, OF _ assms(2) inv \<open>?Q s\<close>])
    fix t t' assume t: "command_inv env t" "command_step env t t'" "?Q t"
    then obtain d d' where "ac_status d = ac_status c" "cmds t' (ac_command_id c) = Some d'" "evolves d d'"
      using command_step_evolves [OF t(1,2)] unfolding commands_evolve_def by blast
    with assms(4) show "?Q t'" by (auto simp: move_simps)
  qed
  then show ?thesis using lookup_Some_in by (fastforce simp: cmds_def)
qed

definition demo_done :: db where
  "demo_done = state_after demo_queued (demo_cancel 2 demo_queued)"

lemma demo_done_step: "command_step demo_env demo_queued demo_done"
proof -
  have "\<not> isl (demo_cancel 2 demo_queued)" by code_simp
  from state_after_ok [OF this, of demo_queued, folded demo_done_def]
  have "\<exists>x. demo_cancel 2 demo_queued = Inr (demo_done, x)" .
  moreover have "fresh_attempt ''a3'' demo_queued" by code_simp
  ultimately show ?thesis unfolding demo_cancel_def by (blast intro: command_step.control)
qed

theorem closed_command_stays_closed_witness:
  "\<exists>c' \<in> set (db_commands demo_done). ac_command_id c' = ''c'' \<and> ac_status c' = Cancelled"
proof -
  have "length (db_commands demo_done) = 1" "ac_command_id (hd (db_commands demo_done)) = ''c''"
    "ac_status (hd (db_commands demo_done)) = Cancelled" by code_simp+
  then obtain c where "c \<in> set (db_commands demo_done)" "ac_command_id c = ''c''" "ac_status c = Cancelled"
    by (cases "db_commands demo_done") auto
  with closed_command_stays_closed [OF commands_reachable_step [OF demo_reachable(2) demo_done_step]
      rtranclp.rtrancl_refl, of c]
  show ?thesis by simp
qed

end
