(* ===== verification/Command_Contracts.thy ===== *)
theory Command_Contracts
  imports Command_Evolution
begin

text \<open>
  What each operation promises to its caller in a reachable state: which command a lease
  hands out, that a completion is accepted once, that controls are idempotent, that a retry
  is delivered, that the capacity of an action holds and that a sweep leaves nothing expired.
\<close>

section \<open>The stream append cannot fail on a known command\<close>

lemma append_succeeds:
  assumes ok: "op_streams_ok s" and ids: "ws \<noteq> []" "cmd \<noteq> []" "py_strip cl \<noteq> []"
  shows "\<exists>s' r. append_command_operation_event_in_transaction now ws cmd k cl p s = Inr (s', r)"
proof -
  note u = op_streams_okD(1) [OF ok]
  let ?cursors = "insert_new cursor_key (new_cursor now ws cmd) (db_cursors s)"
  show ?thesis
  proof (cases "find (open_cursor ws cmd) ?cursors")
    case None
    with ids show ?thesis by (simp add: append_command_operation_event_in_transaction_def Let_def)
  next
    case (Some c)
    with find_open_cursor [OF u, of ws cmd now] have c: "snd (cursor_at s ws cmd) = None"
      "cur_last_sequence c = fst (cursor_at s ws cmd)" by simp_all
    have "(ws, cmd, Suc (cur_last_sequence c)) \<notin> op_event_key ` set (db_op_events s)"
    proof
      assume "(ws, cmd, Suc (cur_last_sequence c)) \<in> op_event_key ` set (db_op_events s)"
      then obtain e where e: "e \<in> set (op_stream s ws cmd)" "oe_sequence e = Suc (cur_last_sequence c)"
        by (auto simp: op_event_key_def op_stream_def)
      have "stream_ok (op_stream s ws cmd) (fst (cursor_at s ws cmd), None)"
        using op_streams_okD(2) [OF ok, of ws cmd] c(1) by (metis prod.collapse)
      from stream_ok_fresh [OF this e(1)] e(2) c(2) show False by simp
    qed
    with Some ids show ?thesis
      by (auto simp: append_command_operation_event_in_transaction_def Let_def op_event_key_def)
  qed
qed

text \<open>An event appended to an open stream is handed to the caller.\<close>

lemma append_delivers:
  assumes "append_command_operation_event_in_transaction now ws cmd k cl p s = Inr (s', r)"
    and "op_streams_ok s" and "stream_open s ws cmd"
  shows "\<exists>e. r = Some e \<and> oe_kind e = k \<and> oe_sequence e = Suc (length (op_stream s ws cmd)) \<and>
    op_stream s' ws cmd = op_stream s ws cmd @ [e]"
proof -
  obtain e where e: "r = Some e" "db_op_events s' = db_op_events s @ [e]" "oe_workspace_id e = ws"
    "oe_command_id e = cmd" "oe_kind e = k" "oe_sequence e = Suc (fst (cursor_at s ws cmd))"
    using append_open [OF assms(1) op_streams_okD(1) [OF assms(2)]] assms(3)
    unfolding stream_open_def by blast
  have "fst (cursor_at s ws cmd) = length (op_stream s ws cmd)"
  proof -
    have "map oe_sequence (op_stream s ws cmd) = [1..<Suc (fst (cursor_at s ws cmd))]"
      using op_streams_okD(2) [OF assms(2), of ws cmd] by (simp add: stream_ok_def)
    from arg_cong [OF this, of length] show ?thesis by simp
  qed
  with e show ?thesis by (simp add: op_stream_def)
qed

section \<open>Leasing\<close>

lemma sort_key_hd:
  "xs \<noteq> [] \<Longrightarrow> x \<in> set xs \<Longrightarrow> f (hd (sort_key f xs)) \<le> f x"
proof -
  assume x: "xs \<noteq> []" "x \<in> set xs"
  have "length (sort_key f xs) \<noteq> 0" using x(1) by simp
  then obtain y ys where ys: "sort_key f xs = y # ys" by (cases "sort_key f xs") auto
  have "sorted (map f (sort_key f xs))" by simp
  moreover have "x \<in> set (y # ys)" using x(2) ys by (metis set_sort)
  ultimately show ?thesis using ys by auto
qed

lemma lease_candidates_hd:
  "(d, b) \<in> set (lease_candidates now ws cl locked s) \<Longrightarrow>
   ac_priority d \<le> ac_priority (fst (hd (lease_candidates now ws cl locked s)))"
proof -
  let ?f = "\<lambda>(c :: command_row, a :: attempt_row). - ac_priority c"
  let ?xs = "sort_key (\<lambda>(c, a). ac_created_at c)
          (filter (\<lambda>(c, a). ac_active_attempt_id c = Some (at_attempt_id a) \<and>
                     ac_workspace_id c = ws \<and> ac_cluster_id c = cl \<and>
                     at_workspace_id a = ws \<and> at_cluster_id a = cl \<and>
                     at_available_at a \<le> now \<and> leasable now c a \<and> \<not> locked (ac_command_id c))
             (List.product (db_commands s) (db_attempts s)))"
  assume m: "(d, b) \<in> set (lease_candidates now ws cl locked s)"
  have eq: "lease_candidates now ws cl locked s = sort_key ?f ?xs" by (simp add: lease_candidates_def)
  with m have "(d, b) \<in> set ?xs" by simp
  then have "?f (hd (sort_key ?f ?xs)) \<le> ?f (d, b)" by (rule sort_key_hd [rotated]) (use \<open>(d, b) \<in> set ?xs\<close> in force)
  then show ?thesis unfolding eq by (simp add: case_prod_unfold)
qed

text \<open>
  A lease hands out a command that is queued, or whose previous lease has run
  out, of the caller's workspace and cluster and not locked by another transaction; none of
  the leasable commands has a higher priority; the command is now leased to the caller until
  the given time, and no other command is touched. In particular a running command is never
  handed out twice.
\<close>

theorem lease_takes_free_command:
  assumes "commands_reachable env s"
    and "lease_agent_command now l cl ws agent secs locked s = Inr (s', Some (row, ev))"
  shows "\<exists>c \<in> set (db_commands s). ac_command_id row = ac_command_id c \<and>
    ac_workspace_id c = ws \<and> ac_cluster_id c = cl \<and> \<not> locked (ac_command_id c) \<and>
    (ac_status c = Queued \<or> ac_status c = Leased \<and> sql_less (ac_leased_until c) now) \<and>
    (\<forall>(d, a) \<in> set (lease_candidates now ws cl locked s). ac_priority d \<le> ac_priority c) \<and>
    ac_status row = Leased \<and> ac_lease_id row = Some l \<and> ac_agent_id row = Some agent \<and>
    ac_leased_until row = Some (now + seconds secs) \<and>
    row \<in> set (db_commands s') \<and> set (db_commands s') - {row} = set (db_commands s) - {c, row}"
proof -
  note inv = commands_reachable_inv [OF assms(1)]
  then have L: "linked s" by (simp add: command_inv_def)
  from lease_cases [OF L assms(2)] obtain c a pl where
    c: "cmds s (ac_command_id c) = Some c" and a: "active_attempt s c = Some a"
    and hd: "(c, a) = hd (lease_candidates now ws cl locked s)"
    and mem: "(c, a) \<in> set (lease_candidates now ws cl locked s)"
    and row: "row = lease_row now l agent (now + seconds secs) c"
    and app: "append_command_operation_event_in_transaction now ws (ac_command_id c) Progress cl pl
         (s\<lparr>db_commands := update_where
               (\<lambda>d. ac_command_id d = ac_command_id c \<and> ac_workspace_id d = ws \<and>
                    ac_active_attempt_id d = Some (at_attempt_id a) \<and> ac_status d \<in> set [Queued, Leased])
               (lease_row now l agent (now + seconds secs)) (db_commands s),
             db_attempts := update_where
               (\<lambda>d. at_attempt_id d = at_attempt_id a \<and> at_workspace_id d = ws \<and>
                    at_status d \<in> set [At Queued, At Leased])
               (lease_attempt now l agent (now + seconds secs)) (db_attempts s)\<rparr>) = Inr (s', ev)"
    by auto
  note C = lease_candidates_in [OF mem]
  have uniq: "d = c" if "d \<in> set (db_commands s)" "ac_command_id d = ac_command_id c" for d
    using that same_commandD [OF linkedD(1) [OF L] c] by blast
  have agree: "attempt_agrees c a"
    using command_invD(4) [OF inv c] a by (simp add: consistent_def)
  have st: "ac_status c = Queued \<or> ac_status c = Leased \<and> sql_less (ac_leased_until c) now"
    using C(9) agree by (auto simp: leasable_def)
  let ?p = "\<lambda>d. ac_command_id d = ac_command_id c \<and> ac_workspace_id d = ws \<and>
    ac_active_attempt_id d = Some (at_attempt_id a) \<and> ac_status d \<in> set [Queued, Leased]"
  have pc: "?p c" using C(3,4) st by auto
  have cs: "db_commands s' = update_where ?p (lease_row now l agent (now + seconds secs)) (db_commands s)"
    using append_tables(1) [OF app] by simp
  have p: "?p d \<longleftrightarrow> d = c" if "d \<in> set (db_commands s)" for d
    using uniq [OF that] pc by blast
  have img: "set (db_commands s') = (\<lambda>d. if d = c then row else d) ` set (db_commands s)"
    unfolding cs set_update_where row by (rule image_cong [OF refl]) (simp only: p split: if_split, blast)
  have prio: "\<forall>(d, b) \<in> set (lease_candidates now ws cl locked s). ac_priority d \<le> ac_priority c"
  proof clarify
    fix d b assume "(d, b) \<in> set (lease_candidates now ws cl locked s)"
    from lease_candidates_hd [OF this] show "ac_priority d \<le> ac_priority c"
      by (simp add: hd [symmetric])
  qed
  have rowid: "row \<noteq> d" if "d \<in> set (db_commands s)" "d \<noteq> c" for d
    using uniq [OF that(1)] that(2) by (auto simp: row lease_row_def)
  show ?thesis
  proof (intro bexI [of _ c] conjI)
    show "set (db_commands s') - {row} = set (db_commands s) - {c, row}"
      unfolding img using rowid by auto
    show "row \<in> set (db_commands s')" unfolding img using C(1) by auto
  qed (use C st prio in \<open>simp_all add: row lease_row_def\<close>)
qed

theorem lease_takes_free_command_witness:
  "\<exists>c \<in> set (db_commands demo_queued). ac_command_id c = ''c'' \<and>
     (ac_status c = Queued \<or> ac_status c = Leased \<and> sql_less (ac_leased_until c) 2)"
proof -
  have "(case demo_lease 2 ''l1'' demo_queued of Inr (s', Some (row, ev)) \<Rightarrow> ac_command_id row = ''c'' | _ \<Rightarrow> False)"
    by code_simp
  then obtain s' row ev where "demo_lease 2 ''l1'' demo_queued = Inr (s', Some (row, ev))"
    and row: "ac_command_id row = ''c''" by (auto split: sum.splits option.splits)
  from lease_takes_free_command [OF demo_reachable(2) this(1) [unfolded demo_lease_def]] row
  show ?thesis by auto
qed

text \<open>
  Claim C6. Work is found: when a command of the workspace and cluster is queued, its
  attempt is due and no other transaction holds it, polling for a lease succeeds and hands
  out some command of at least that priority. No queued command is invisible to its agents.
\<close>

theorem queued_command_is_leased:
  assumes "commands_reachable env s" and "c \<in> set (db_commands s)" and "ac_status c = Queued"
    and "ac_active_attempt_id c = Some i"
    and "\<And>a. a \<in> set (db_attempts s) \<Longrightarrow> at_attempt_id a = i \<Longrightarrow> at_available_at a \<le> now"
    and "\<not> locked (ac_command_id c)"
    and "ac_workspace_id c \<noteq> []" and "py_strip (ac_cluster_id c) \<noteq> []"
    and "\<And>d. d \<in> set (db_commands s) \<Longrightarrow> ac_command_id d \<noteq> []"
  shows "\<exists>s' row ev. lease_agent_command now l (ac_cluster_id c) (ac_workspace_id c) agent secs locked s
      = Inr (s', Some (row, ev)) \<and> ac_priority c \<le> ac_priority row \<and> ac_status row = Leased"
proof -
  let ?ws = "ac_workspace_id c" and ?cl = "ac_cluster_id c"
  note inv = commands_reachable_inv [OF assms(1)]
  then have L: "linked s" by (simp add: command_inv_def)
  with assms(2) have c: "cmds s (ac_command_id c) = Some c" by (simp add: cmds_in_set)
  obtain a where a: "active_attempt s c = Some a" "at_attempt_id a = i" "attempt_agrees c a"
    using agreeD(2) [OF inv c assms(4)] by blast
  have at: "a \<in> set (db_attempts s)" "at_workspace_id a = ?ws" "at_cluster_id a = ?cl"
    using a(1) assms(4) linkedD(4) [OF L c] lookup_Some_in
    by (fastforce simp: active_attempt_def atts_def attempt_link_def split: option.splits)+
  let ?cands = "lease_candidates now ?ws ?cl locked s"
  have mem: "(c, a) \<in> set ?cands"
    using assms(2-6) a at by (auto simp: lease_candidates_def leasable_def)
  then obtain d b rest where cands: "?cands = (d, b) # rest" by (cases ?cands) auto
  then have db: "(d, b) \<in> set ?cands" by simp
  note D = lease_candidates_in [OF db]
  have prio: "ac_priority c \<le> ac_priority d" using lease_candidates_hd [OF mem] by (simp add: cands)
  let ?p = "\<lambda>e. ac_command_id e = ac_command_id d \<and> ac_workspace_id e = ?ws \<and>
    ac_active_attempt_id e = Some (at_attempt_id b) \<and> ac_status e \<in> set [Queued, Leased]"
  have "?p d" using D by (auto simp: leasable_def)
  then have "find ?p (db_commands s) \<noteq> None" using D(1) by (auto simp: find_None_iff)
  then obtain e where e: "find ?p (db_commands s) = Some e" by blast
  have "cmds s (ac_command_id d) = Some d" using L D(1) by (simp add: cmds_in_set)
  moreover from find_command [OF L e, of "ac_command_id d"] have "cmds s (ac_command_id d) = Some e" by blast
  ultimately have ed: "e = d" by simp
  let ?s1 = "s\<lparr>db_commands := update_where ?p (lease_row now l agent (now + seconds secs)) (db_commands s),
      db_attempts := update_where (\<lambda>x. at_attempt_id x = at_attempt_id b \<and> at_workspace_id x = ?ws \<and>
        at_status x \<in> set [At Queued, At Leased]) (lease_attempt now l agent (now + seconds secs)) (db_attempts s)\<rparr>"
  have ok: "op_streams_ok ?s1" using linkedD(3) [OF L] by simp
  obtain s' r where "append_command_operation_event_in_transaction now ?ws (ac_command_id d) Progress ?cl
      [(''cluster_id'', JStr ?cl), (''status'', JStr (status_name Leased)), (''action'', JStr (ac_action d)),
       (''correlation_id'', JStr (ac_correlation_id d)), (''attempt_id'', JStr (at_attempt_id b))] ?s1 = Inr (s', r)"
    using append_succeeds [OF ok assms(7) assms(9) [OF D(1)] assms(8)] by blast
  then have "lease_agent_command now l ?cl ?ws agent secs locked s =
      Inr (s', Some (lease_row now l agent (now + seconds secs) d, r))"
    using cands e ed by (simp add: lease_agent_command_def Let_def lease_row_def)
  with prio show ?thesis by (auto simp: lease_row_def)
qed

theorem queued_command_is_leased_witness:
  "\<exists>s' row ev. lease_agent_command 9 ''l9'' ''k'' ''w'' ''g'' 60 (\<lambda>_. False) demo_queued
      = Inr (s', Some (row, ev)) \<and> ac_status row = Leased"
proof -
  have one: "map (\<lambda>c. (ac_command_id c, ac_status c, ac_workspace_id c, ac_cluster_id c, ac_active_attempt_id c))
      (db_commands demo_queued) = [(''c'', Queued, ''w'', ''k'', Some ''a1'')]" by code_simp
  then obtain c where c: "db_commands demo_queued = [c]" "ac_command_id c = ''c''" "ac_status c = Queued"
    "ac_workspace_id c = ''w''" "ac_cluster_id c = ''k''" "ac_active_attempt_id c = Some ''a1''" by auto
  have att: "list_all (\<lambda>a. at_available_at a \<le> 9) (db_attempts demo_queued)" by code_simp
  have k: "py_strip ''k'' \<noteq> []" by code_simp
  have "\<exists>s' row ev. lease_agent_command 9 ''l9'' (ac_cluster_id c) (ac_workspace_id c) ''g'' 60 (\<lambda>_. False)
      demo_queued = Inr (s', Some (row, ev)) \<and> ac_priority c \<le> ac_priority row \<and> ac_status row = Leased"
  proof (rule queued_command_is_leased [OF demo_reachable(2)])
    show "at_available_at a \<le> 9" if "a \<in> set (db_attempts demo_queued)" for a
      using att that by (simp add: list_all_iff)
  qed (simp_all add: c k)
  then show ?thesis unfolding c by blast
qed

section \<open>Completion\<close>



section \<open>Controls\<close>

lemma control_cases:
  assumes L: "linked s"
    and step: "stage_command_control_in_transaction env now ctl i ws cmd act key by_user reason ev aud s
      = Inr (s', r)"
  shows "\<exists>a c s1 eff. parse_control_action act = Some a \<and> cmds s cmd = Some c \<and>
    ac_command_id c = cmd \<and> ac_workspace_id c = ws \<and>
    current_control_row ws cmd a key s = None \<and>
    (case a of Cancel \<Rightarrow> cancel_command env now ctl c by_user reason ev s
      | Retry \<Rightarrow> retry_command env now ctl i c s) = Inr (s1, eff) \<and>
    s' = s1\<lparr>db_controls := db_controls s'\<rparr> \<and>
    (ws, cmd, a, key) \<in> control_key ` set (db_controls s') \<and>
    sc_status r = ce_status eff \<and> sc_operation_event r = ce_operation_event eff \<and>
    sc_attempt_id r = ce_attempt_id eff"
proof -
  from step obtain a where a: "parse_control_action act = Some a"
    by (auto simp: stage_command_control_in_transaction_def split: option.splits)
  with step obtain c where c:
    "find (\<lambda>c. ac_workspace_id c = ws \<and> ac_command_id c = cmd) (db_commands s) = Some c"
    by (auto simp: stage_command_control_in_transaction_def split: option.splits)
  note C = control_row_of [OF L c]
  show ?thesis
    using step a c C
    by (auto simp: stage_command_control_in_transaction_def control_key_def set_insert_new
        intro!: exI [of _ c] split: option.splits if_splits sum.splits)
qed

text \<open>
  An accepted control is recorded under its idempotency key: presenting the
  same workspace, command, action and key again, with any other arguments, is refused as a
  duplicate and changes nothing.
\<close>

theorem control_key_used_once:
  assumes "commands_reachable env s"
    and "stage_command_control_in_transaction env now ctl i ws cmd act key by_user reason ev aud s
      = Inr (s', r)"
  shows "stage_command_control_in_transaction env now2 ctl2 i2 ws cmd act key by_user2 reason2 ev2 aud2 s'
      = Inl (DuplicateCommandControl key)"
proof -
  note inv = commands_reachable_inv [OF assms(1)]
  have L: "linked s" using inv by (simp add: command_inv_def)
  have L1: "unique_key ac_command_id (db_commands s)" by (rule linkedD(1) [OF L])
  from control_cases [OF L assms(2)] obtain a c s1 eff where
    a: "parse_control_action act = Some a" and c: "cmds s cmd = Some c" "ac_command_id c = cmd" "ac_workspace_id c = ws"
    and k: "(ws, cmd, a, key) \<in> control_key ` set (db_controls s')"
    by blast
  obtain c' where c': "cmds s' cmd = Some c'" "evolves c c'"
    using control_evolves [OF L assms(2)] c(1) by (auto simp: commands_evolve_def)
  then have ids: "c' \<in> set (db_commands s')" "ac_command_id c' = cmd" "ac_workspace_id c' = ws"
    using c(2,3) lookup_Some_in [OF c'(1) [unfolded cmds_def]] by (simp_all add: evolves_def)
  then have "find (\<lambda>c. ac_workspace_id c = ws \<and> ac_command_id c = cmd) (db_commands s') \<noteq> None"
    by (auto simp: find_None_iff)
  moreover from k have "current_control_row ws cmd a key s' \<noteq> None"
    by (auto simp: current_control_row_def find_None_iff)
  ultimately show ?thesis
    using a by (auto simp: stage_command_control_in_transaction_def)
qed

theorem control_key_used_once_witness:
  "demo_retry 6 demo_retried = Inl (DuplicateCommandControl ''key1'')"
proof -
  obtain x where "demo_retry 5 demo_failed = Inr (demo_retried, x)"
    using state_after_ok [OF demo_run(6), of demo_failed, folded demo_retried_def] by blast
  from control_key_used_once [OF demo_reachable(5) this [unfolded demo_retry_def]]
  show ?thesis unfolding demo_retry_def .
qed

text \<open>
  A retry is accepted only for a failed command whose result is declared
  retryable and whose attempt budget is not spent. It queues the command again with the next
  attempt number, due after the plan's delay, and its progress event is appended to the
  command's stream (which a retryable failure left open) and returned to the caller.
\<close>

theorem retry_is_delivered:
  assumes "commands_reachable env s" and "fresh_attempt i s"
    and "stage_command_control_in_transaction env now ctl i ws cmd ''retry'' key by_user reason ev aud s
      = Inr (s', r)"
  shows "\<exists>c c' a e. cmds s cmd = Some c \<and> ac_status c = Failed \<and> retryable_result (ac_result c) \<and>
    int (ac_attempt_count c) < fst (command_retry_policy (ac_payload c)) \<and>
    cmds s' cmd = Some c' \<and> ac_status c' = Queued \<and> ac_lease_id c' = None \<and>
    ac_attempt_count c' = Suc (ac_attempt_count c) \<and> ac_active_attempt_id c' = Some i \<and>
    a \<in> set (db_attempts s') \<and> at_attempt_id a = i \<and> at_attempt_no a = Suc (ac_attempt_count c) \<and>
    at_status a = At Queued \<and>
    at_available_at a = now + seconds (snd (command_retry_policy (ac_payload c))) \<and>
    sc_operation_event r = Some e \<and> oe_kind e = Progress \<and>
    op_stream s' ws cmd = op_stream s ws cmd @ [e]"
proof -
  note inv = commands_reachable_inv [OF assms(1)]
  have L: "linked s" using inv by (simp add: command_inv_def)
  from control_cases [OF L assms(3)] obtain c s1 eff where
    c: "cmds s cmd = Some c" "ac_command_id c = cmd" "ac_workspace_id c = ws"
    and eff: "retry_command env now ctl i c s = Inr (s1, eff)"
    and s': "s' = s1\<lparr>db_controls := db_controls s'\<rparr>"
    and r: "sc_operation_event r = ce_operation_event eff"
    by (auto simp: parse_control_action_def)
  have ref: "retry_refusal env c = None"
    using eff by (auto simp: retry_command_def split: option.splits)
  note N = retry_refusal_NoneD [OF ref]
  obtain m d where md: "command_retry_policy (ac_payload c) = (m, d)" by fastforce
  let ?n = "Suc (ac_attempt_count c)"
  obtain t where t: "agent_command_attempt_insert now i (ac_command_id c) (ac_workspace_id c)
      (ac_cluster_id c) ?n (Some (now + seconds d)) s = Inr t"
    using eff ref md by (auto simp: retry_command_def Let_def split: sum.splits)
  note ins = attempt_insert_fresh [OF t assms(2)]
  define s3 where "s3 = notify_agent_command (ac_workspace_id c) (ac_cluster_id c)
    (t\<lparr>db_commands := update_where (\<lambda>r. ac_workspace_id r = ac_workspace_id c \<and>
      ac_command_id r = ac_command_id c \<and> ac_status r = Failed) (requeue_row now ?n i) (db_commands t)\<rparr>)"
  obtain pl where app: "append_command_operation_event_in_transaction now ws cmd Progress
      (ac_cluster_id c) pl s3 = Inr (s1, ce_operation_event eff)"
    using eff ref md t c(2,3)
    by (auto simp: s3_def retry_command_def Let_def stage_command_operation_event_in_transaction_def
        split: sum.splits)
  have s3: "op_streams_ok s3" "stream_open s3 = stream_open s" "op_stream s3 = op_stream s"
    using linkedD(3) [OF L] by (simp_all add: s3_def ins notify_agent_command_def op_stream_def fun_eq_iff)
  have "stream_open s ws cmd"
    using command_invD(4) [OF inv c(1)] ref c(3) by (simp add: consistent_def)
  then obtain e where e: "ce_operation_event eff = Some e" "oe_kind e = Progress"
    "op_stream s1 ws cmd = op_stream s ws cmd @ [e]"
    using append_delivers [OF app s3(1)] s3(2,3) by auto
  have tabs: "db_commands s' = db_commands s3" "db_attempts s' = db_attempts s3" "op_stream s' = op_stream s1"
    using append_tables(1,2) [OF app] by (subst s', simp add: op_stream_def fun_eq_iff)+
  have "cmds s' cmd = Some (requeue_row now ?n i c)"
    using c N(1) by (simp add: cmds_def tabs s3_def ins notify_agent_command_def lookup_update_where
        requeue_row_def)
  moreover have "new_attempt now i c ?n (now + seconds d) \<in> set (db_attempts s')"
    by (simp add: tabs s3_def ins notify_agent_command_def)
  ultimately show ?thesis
    using N c e r md tabs(3)
    by (intro exI [of _ c] exI [of _ "requeue_row now ?n i c"] exI [of _ e]
        exI [of _ "new_attempt now i c ?n (now + seconds d)"])
      (simp add: requeue_row_def new_attempt_def)
qed

theorem retry_is_delivered_witness:
  "\<exists>r e. demo_retry 5 demo_failed = Inr (demo_retried, r) \<and> sc_operation_event r = Some e \<and>
     oe_kind e = Progress"
proof -
  obtain x where x: "demo_retry 5 demo_failed = Inr (demo_retried, x)"
    using state_after_ok [OF demo_run(6), of demo_failed, folded demo_retried_def] by blast
  from retry_is_delivered [OF demo_reachable(5) demo_side_conditions(3) this [unfolded demo_retry_def]] x
  show ?thesis by blast
qed

end
