(* ===== verification/Command_Admission.thy ===== *)
theory Command_Admission
  imports Command_Contracts
begin

text \<open>
  Admission and closing: the capacity of an action, queueing exactly once, what a cancel
  request does to a command, and what the expiry sweep leaves behind.
\<close>

section \<open>Capacity\<close>

text \<open>
  With a capacity \<open>cap\<close>, an acceptance that inserts a command leaves at most
  \<open>cap\<close> active commands of that action on that cluster (the new one included), and an
  acceptance is refused, changing nothing, exactly when the capacity is already used up.
\<close>

theorem acceptance_respects_capacity:
  assumes "1 \<le> cap"
  shows "(if cap \<le> int (count_active_agent_commands (plan_workspace p) (pl_cluster_id p) (pl_action p) s)
     then stage_logical_command_acceptance_in_transaction env now corr p ev Queued (Some cap) s
       = Inl (AgentCommandCapacityExceeded (pl_action p))
     else \<exists>s' b. stage_logical_command_acceptance_in_transaction env now corr p ev Queued (Some cap) s
         = Inr (s', b) \<and>
       b = (pl_command_id p \<notin> ac_command_id ` set (db_commands s)) \<and> (\<not> b \<longrightarrow> s' = s) \<and>
       int (count_active_agent_commands (plan_workspace p) (pl_cluster_id p) (pl_action p) s') \<le> cap)"
  using assms
  by (auto simp: stage_logical_command_acceptance_in_transaction_def agent_command_insert_def
      count_active_agent_commands_def agent_command_values_def)

theorem acceptance_respects_capacity_witness:
  "stage_logical_command_acceptance_in_transaction demo_env 9 ''r'' (demo_plan\<lparr>pl_command_id := ''d''\<rparr>)
     ''e9'' Queued (Some 1) demo_accepted = Inl (AgentCommandCapacityExceeded ''scale'')"
proof -
  have "count_active_agent_commands ''w'' ''k'' ''scale'' demo_accepted = 1" by code_simp
  with acceptance_respects_capacity [of 1 "demo_plan\<lparr>pl_command_id := ''d''\<rparr>" demo_accepted demo_env 9 "''r''" "''e9''"]
  show ?thesis by (simp add: demo_plan_def plan_workspace_def)
qed

section \<open>Queueing once\<close>

text \<open>
  Queueing a command projects it exactly once: it then has exactly one
  attempt, number 1 and queued, and queueing the same command again, with any attempt
  identifier, reports \<open>False\<close> and changes nothing, so an event that is redelivered to the
  worker cannot start a second execution.
\<close>

theorem queue_projects_once:
  assumes "commands_reachable env s" and "fresh_attempt i s" and "plan_matches p s"
    and "queue_agent_command env now i corr p Queued s = Inr (s', True)"
  shows "(\<exists>a. filter (\<lambda>x. at_command_id x = pl_command_id p) (db_attempts s') = [a] \<and>
      at_attempt_id a = i \<and> at_attempt_no a = 1 \<and> at_status a = At Queued) \<and>
    queue_agent_command env now2 i2 corr2 p Queued s' = Inr (s', False)"
proof -
  note inv = commands_reachable_inv [OF assms(1)]
  have L: "linked s" using inv by (simp add: command_inv_def)
  have notrca: "pl_action p \<noteq> RCA_TEST_SCENARIO_INJECT_ACTION"
    using assms(4) by (auto simp: queue_agent_command_def)
  obtain s1 s2 where up: "agent_command_queue_upsert env now corr p Queued i s = (s1, True)"
    and ins: "agent_command_attempt_insert now i (pl_command_id p) (plan_workspace p) (pl_cluster_id p) 1
      None s1 = Inr s2" and s': "s' = notify_agent_command (plan_workspace p) (pl_cluster_id p) s2"
    using assms(4) by (auto simp: queue_agent_command_def split: if_splits prod.splits sum.splits)
  from upsert_cases [OF L up] obtain c' where c': "cmds s1 (pl_command_id p) = Some c'"
    "s1 = s\<lparr>db_commands := db_commands s1\<rparr>" "ac_attempt_count c' = 1" "ac_active_attempt_id c' = Some i"
    and old: "case cmds s (pl_command_id p) of None \<Rightarrow> True | Some c \<Rightarrow> unprojected c"
    by (auto split: option.splits)
  have none: "at_command_id a \<noteq> pl_command_id p" if a: "a \<in> set (db_attempts s)" for a
  proof
    assume k: "at_command_id a = pl_command_id p"
    have "atts s (at_attempt_id a) = Some a"
      unfolding atts_def by (rule lookup_unique_in [OF linkedD(2) [OF L] a])
    from linkedD(5) [OF L this] old k show False by (auto simp: unprojected_def)
  qed
  have atts1: "db_attempts s1 = db_attempts s" by (subst c'(2)) simp
  have new: "\<exists>a. db_attempts s2 = db_attempts s @ [a] \<and> at_attempt_id a = i \<and> at_attempt_no a = 1 \<and>
      at_status a = At Queued \<and> at_command_id a = pl_command_id p"
    using ins assms(2) atts1
    by (auto simp: agent_command_attempt_insert_def fresh_attempt_def split: if_splits)
  have "filter (\<lambda>x. at_command_id x = pl_command_id p) (db_attempts s) = []"
    using none by (simp add: filter_empty_conv)
  with new have one: "\<exists>a. filter (\<lambda>x. at_command_id x = pl_command_id p) (db_attempts s') = [a] \<and>
      at_attempt_id a = i \<and> at_attempt_no a = 1 \<and> at_status a = At Queued"
    by (auto simp: s' notify_agent_command_def)
  have "cmds s' (pl_command_id p) = Some c'"
    using c'(1) attempt_insert_commands [OF ins] by (simp add: s' notify_agent_command_def cmds_def)
  then have "agent_command_queue_upsert env now2 corr2 p Queued i2 s' = (s', False)"
    using c'(3) by (simp add: agent_command_queue_upsert_def cmds_def unprojected_def)
  with notrca one show ?thesis by (simp add: queue_agent_command_def)
qed

theorem queue_projects_once_witness:
  "queue_agent_command demo_env 9 ''zz'' ''r'' demo_plan Queued demo_queued = Inr (demo_queued, False)"
proof -
  have "(case demo_queue demo_accepted of Inr (s', b) \<Rightarrow> b | _ \<Rightarrow> False)" by code_simp
  then have "demo_queue demo_accepted = Inr (demo_queued, True)"
    using state_after_ok [OF demo_run(2), of demo_accepted, folded demo_queued_def] by auto
  from queue_projects_once [OF demo_reachable(1) demo_side_conditions(1,2) this [unfolded demo_queue_def]]
  show ?thesis by blast
qed

section \<open>Cancelling\<close>

text \<open>
  An accepted cancel ends a queued or leased command at once: it is
  cancelled, its stream is closed and its attempt is no longer available to any agent. A
  running command is only asked to stop: its status becomes \<open>cancel_requested\<close> under a new
  generation and its stream stays open. A command already being cancelled is left as it is,
  and a terminal command is never cancelled.
\<close>

theorem cancel_outcome:
  assumes "commands_reachable env s" and "fresh_attempt i s"
    and "stage_command_control_in_transaction env now ctl i ws cmd ''cancel'' key by_user reason ev aud s
      = Inr (s', r)"
  shows "\<exists>c c'. cmds s cmd = Some c \<and> cmds s' cmd = Some c' \<and> sc_status r = ac_status c' \<and>
    (case ac_status c of
       Queued \<Rightarrow> ac_status c' = Cancelled \<and> \<not> stream_open s' ws cmd
     | Leased \<Rightarrow> ac_status c' = Cancelled \<and> \<not> stream_open s' ws cmd
     | Running \<Rightarrow> ac_status c' = CancelRequested \<and> stream_open s' ws cmd \<and>
                  ac_cancel_generation c' = Suc (ac_cancel_generation c)
     | CancelRequested \<Rightarrow> c' = c
     | Cancelling \<Rightarrow> c' = c
     | _ \<Rightarrow> False)"
proof -
  note inv = commands_reachable_inv [OF assms(1)]
  have L: "linked s" using inv by (simp add: command_inv_def)
  from control_cases [OF L assms(3)] obtain c s1 eff where
    c: "cmds s cmd = Some c" "ac_command_id c = cmd" "ac_workspace_id c = ws"
    and eff: "cancel_command env now ctl c by_user reason ev s = Inr (s1, eff)"
    and s': "s' = s1\<lparr>db_controls := db_controls s'\<rparr>" and r: "sc_status r = ce_status eff"
    by (auto simp: parse_control_action_def split: if_splits)
  note inv' = control_inv [OF inv assms(2,3)]
  have cm: "cmds s' = cmds s1" by (subst s') (simp add: cmds_def fun_eq_iff)
  have opn: "stream_open s' ws cmd \<longleftrightarrow> command_status_is_active (ac_status c') \<or> retry_refusal env c' = None"
    if "cmds s' cmd = Some c'" "ac_workspace_id c' = ws" for c'
    using command_invD(4) [OF inv' that(1)] that(2) by (simp add: consistent_def)
  consider (early) "ac_status c \<in> {Queued, Leased}"
      "cancel_before_start now ctl c by_user reason ev s = Inr (s1, eff)"
    | (run) "ac_status c = Running" "request_cancel now ctl c by_user reason s = Inr (s1, eff)"
    | (again) "ac_status c \<in> {CancelRequested, Cancelling}" "s1 = s" "ce_status eff = ac_status c"
    using eff by (cases "ac_status c") (auto simp: cancel_command_def split: if_splits)
  then show ?thesis
  proof cases
    case early
    then obtain m where "db_commands s1 = update_where
        (\<lambda>r. ac_workspace_id r = ac_workspace_id c \<and> ac_command_id r = ac_command_id c \<and>
             ac_status r = ac_status c)
        (\<lambda>r. r\<lparr>ac_status := Cancelled, ac_result := m, ac_completed_at := Some now,
              ac_cancel_requested_at := Some now, ac_cancel_requested_by := Some by_user,
              ac_cancel_reason := reason, ac_terminal_event_id := Some ev, ac_updated_at := now\<rparr>)
        (db_commands s)" and e: "ce_status eff = Cancelled"
      by (auto simp: cancel_before_start_def Let_def stage_command_operation_event_in_transaction_def
          dest!: append_tables(1) split: sum.splits option.splits)
    with c have "\<exists>c'. cmds s1 cmd = Some c' \<and> ac_status c' = Cancelled \<and> ac_workspace_id c' = ws"
      by (auto simp: cmds_def lookup_update_where)
    with c cm opn e r early(1) retry_refusal_status [of _ env] show ?thesis
      by (fastforce simp: active_simps)
  next
    case run
    then have "\<exists>c'. cmds s1 cmd = Some c' \<and> ac_status c' = CancelRequested \<and> ac_workspace_id c' = ws \<and>
        ac_cancel_generation c' = Suc (ac_cancel_generation c)" and e: "ce_status eff = CancelRequested"
      using c by (auto simp: request_cancel_def Let_def stage_command_operation_event_in_transaction_def
          cmds_def lookup_update_where dest!: append_tables(1) split: sum.splits)
    with c cm opn e r run(1) show ?thesis by (fastforce simp: active_simps)
  next
    case again
    with c cm r show ?thesis by (intro exI [of _ c]) auto
  qed
qed

theorem cancel_outcome_witness:
  "\<exists>c'. cmds (state_after demo_started (demo_cancel 4 demo_started)) ''c'' = Some c' \<and>
     ac_status c' = CancelRequested"
proof -
  have "\<not> isl (demo_cancel 4 demo_started)" by code_simp
  from state_after_ok [OF this, of demo_started]
  obtain x where x: "demo_cancel 4 demo_started = Inr (state_after demo_started (demo_cancel 4 demo_started), x)"
    by blast
  have "map_option ac_status (cmds demo_started ''c'') = Some Running" by code_simp
  with cancel_outcome [OF demo_reachable(4) demo_side_conditions(4) x [unfolded demo_cancel_def]]
  show ?thesis unfolding demo_cancel_def [symmetric] by (auto simp: demo_cancel_def)
qed

end
