(* ===== verification/Command_Sweep.thy ===== *)
theory Command_Sweep
  imports Command_Contracts
begin

text \<open>
  What the janitor's sweep leaves behind: nothing expired, live leases untouched, and for
  every closed command a closed stream and its workflow event in ledger and outbox.
\<close>

definition staged_in :: "string \<Rightarrow> db \<Rightarrow> bool" where
  "staged_in eid s \<longleftrightarrow> eid \<in> ev_event_id ` set (db_events s) \<and> eid \<in> ob_event_id ` set (db_outbox s)"

lemma staged_in_completed: "staged_in (env_event_id e) (stage_completed now e s)"
  using stage_outbox_event_present [of e "record_event now e s"]
  by (simp add: staged_in_def stage_completed_def)
     (simp add: record_event_def table_simps event_row_of_def image_iff)

lemma staged_in_keeps: "staged_in i s \<Longrightarrow> staged_in i (stage_completed now e s)"
  using stage_outbox_event_keeps [of _ "record_event now e s" e]
  by (auto simp: staged_in_def stage_completed_def record_event_def table_simps)

definition closed_row :: "(string \<Rightarrow> string) \<Rightarrow> command_row \<Rightarrow> command_row" where
  "closed_row uuid5 row = row\<lparr>ac_terminal_event_id := Some (expiry_event_id uuid5 row)\<rparr>"

lemma close_row_effects:
  assumes step: "close_expired_row uuid5 now src row s = Inr s'"
    and row: "cmds s (ac_command_id row) = Some row"
  shows "cmds s' = (cmds s)(ac_command_id row := Some (closed_row uuid5 row)) \<and>
    staged_in (expiry_event_id uuid5 row) s' \<and> (\<forall>i. staged_in i s \<longrightarrow> staged_in i s')"
proof -
  let ?done = "completed_event now (expiry_event_id uuid5 row) src (ac_correlation_id row)
    (ac_workspace_id row) (ac_command_id row) (ac_result row)"
  have id: "env_event_id ?done = expiry_event_id uuid5 row"
    by (simp add: completed_event_def make_event_def)
  obtain s1 s2 ev k pl where app: "append_command_operation_event_in_transaction now (ac_workspace_id row)
      (ac_command_id row) k (ac_cluster_id row) pl s1 = Inr (s2, ev)"
    and s1: "db_commands s1 = db_commands s" "db_events s1 = db_events s" "db_outbox s1 = db_outbox s"
    and s': "s' = stage_completed now ?done (s2\<lparr>db_commands := update_where
      (\<lambda>c. ac_command_id c = ac_command_id row \<and> ac_workspace_id c = ac_workspace_id row)
      (\<lambda>c. c\<lparr>ac_terminal_event_id := Some (env_event_id ?done)\<rparr>) (db_commands s2)\<rparr>)"
    using step
    by (auto simp: close_expired_row_def Let_def stage_command_operation_event_in_transaction_def
        split: sum.splits option.splits list.splits)
  note T = append_tables [OF app]
  have "cmds s' j = ((cmds s)(ac_command_id row := Some (closed_row uuid5 row))) j" for j
    using lookup_update_key [of "\<lambda>c. ac_command_id c = ac_command_id row \<and> ac_workspace_id c = ac_workspace_id row"
        ac_command_id "ac_command_id row" "\<lambda>c. c\<lparr>ac_terminal_event_id := Some (env_event_id ?done)\<rparr>" j
        "db_commands s2"] row T(1) s1(1)
    unfolding s' linked_stage_completed by (simp add: cmds_def id closed_row_def)
  moreover have "staged_in (expiry_event_id uuid5 row) s'"
    unfolding s' using staged_in_completed [of ?done] by (simp add: id)
  moreover have "staged_in i s'" if "staged_in i s" for i
    unfolding s' using that T(3,4) s1(2,3) by (intro staged_in_keeps) (simp add: staged_in_def)
  ultimately show ?thesis by auto
qed

lemma close_rows_effects:
  assumes "close_expired_rows uuid5 now src rows s = Inr s'" and "distinct (map ac_command_id rows)"
    and "\<And>row. row \<in> set rows \<Longrightarrow> cmds s (ac_command_id row) = Some row"
  shows "(\<forall>row \<in> set rows. cmds s' (ac_command_id row) = Some (closed_row uuid5 row) \<and>
      staged_in (expiry_event_id uuid5 row) s') \<and>
    (\<forall>k. k \<notin> ac_command_id ` set rows \<longrightarrow> cmds s' k = cmds s k) \<and>
    (\<forall>i. staged_in i s \<longrightarrow> staged_in i s')"
  using assms
proof (induction rows arbitrary: s)
  case (Cons row rows)
  obtain t where t: "close_expired_row uuid5 now src row s = Inr t"
    "close_expired_rows uuid5 now src rows t = Inr s'"
    using Cons.prems(1) by (auto split: sum.splits)
  note E = close_row_effects [OF t(1) Cons.prems(3) [OF list.set_intros(1)]]
  have ne: "ac_command_id r \<noteq> ac_command_id row" if "r \<in> set rows" for r
    using Cons.prems(2) that by (auto simp: rev_image_eqI)
  have cmt: "cmds t (ac_command_id r) = Some r" if "r \<in> set rows" for r
    using E ne [OF that] Cons.prems(3) [of r] that by simp
  have dist: "distinct (map ac_command_id rows)" using Cons.prems(2) by simp
  note IH = Cons.IH [OF t(2) dist cmt]
  have "ac_command_id row \<notin> ac_command_id ` set rows" using Cons.prems(2) by simp
  with IH E show ?case by (intro conjI ballI allI impI; (elim set_ConsD [elim_format] disjE)?) auto
qed simp

text \<open>
  After a sweep no command is expired any more: every expired command is
  closed (failed, or cancelled if it was being cancelled) with its stream closed and its
  \<open>command.completed\<close> event staged in ledger and outbox under the identifier recorded on the
  row, which depends only on the command and its attempt; every other command, in particular
  every live lease, is untouched.
\<close>

theorem sweep_closes_expired:
  assumes "commands_reachable env s"
    and "fail_expired_agent_commands uuid5 now g q src s = Inr (s', rows)"
  shows "(\<forall>c \<in> set (db_commands s'). \<not> command_expired now g q c) \<and>
    (\<forall>c \<in> set (db_commands s).
       if command_expired now g q c
       then \<exists>c' \<in> set (db_commands s'). ac_command_id c' = ac_command_id c \<and>
         ac_status c' = (if ac_status c \<in> {CancelRequested, Cancelling} then Cancelled else Failed) \<and>
         \<not> stream_open s' (ac_workspace_id c') (ac_command_id c') \<and>
         ac_terminal_event_id c' = Some (expiry_event_id uuid5 c) \<and>
         staged_in (expiry_event_id uuid5 c) s'
       else c \<in> set (db_commands s'))"
proof -
  let ?hit = "command_expired now g q"
  let ?s1 = "s\<lparr>db_commands := update_where ?hit (expire_command_row now) (db_commands s)\<rparr>"
  note inv = commands_reachable_inv [OF assms(1)]
  have L: "linked s" using inv by (simp add: command_inv_def)
  note inv' = expiry_inv [OF inv assms(2)]
  then have L': "linked s'" by (simp add: command_inv_def)
  from assms(2) have rows: "rows = map (expire_command_row now) (filter ?hit (db_commands s))"
    and close: "close_expired_rows uuid5 now src rows ?s1 = Inr s'"
    by (auto simp: fail_expired_agent_commands_def Let_def split: if_splits sum.splits)
  have dist: "distinct (map ac_command_id rows)"
    using linkedD(1) [OF L] by (simp add: rows unique_key_def distinct_map_filter expire_row_same comp_def)
  have cm1: "cmds ?s1 k = map_option (\<lambda>r. if ?hit r then expire_command_row now r else r) (cmds s k)" for k
    by (simp add: cmds_def lookup_update_where expire_row_same)
  have here: "cmds ?s1 (ac_command_id row) = Some row" if "row \<in> set rows" for row
  proof -
    from that obtain c where c: "c \<in> set (db_commands s)" "?hit c" "row = expire_command_row now c"
      by (auto simp: rows)
    then have "cmds s (ac_command_id c) = Some c" using L by (simp add: cmds_in_set)
    with c show ?thesis by (simp add: cm1 expire_row_same)
  qed
  note E = close_rows_effects [OF close dist here]
  have after: "cmds s' (ac_command_id c) = Some (if ?hit c then closed_row uuid5 (expire_command_row now c) else c)"
    if c: "c \<in> set (db_commands s)" for c
  proof (cases "?hit c")
    case True
    with c have "expire_command_row now c \<in> set rows" by (simp add: rows)
    with E True show ?thesis by (force simp: expire_row_same)
  next
    case False
    have "ac_command_id c \<notin> ac_command_id ` set rows"
    proof
      assume "ac_command_id c \<in> ac_command_id ` set rows"
      then obtain d where "d \<in> set (db_commands s)" "?hit d" "ac_command_id d = ac_command_id c"
        by (auto simp: rows expire_row_same)
      with unique_keyD [OF linkedD(1) [OF L]] c False show False by blast
    qed
    with E have "cmds s' (ac_command_id c) = cmds ?s1 (ac_command_id c)" by blast
    with False c L show ?thesis by (simp add: cm1 cmds_in_set)
  qed
  have none: "\<not> ?hit c'" if c': "c' \<in> set (db_commands s')" for c'
  proof -
    have k: "cmds s' (ac_command_id c') = Some c'" using L' c' by (simp add: cmds_in_set)
    have "\<exists>c \<in> set (db_commands s). ac_command_id c = ac_command_id c'"
    proof (rule ccontr)
      assume no: "\<not> ?thesis"
      then have "cmds s (ac_command_id c') = None" by (force simp: cmds_def lookup_None_iff)
      then have "cmds ?s1 (ac_command_id c') = None" by (simp add: cm1)
      moreover have "ac_command_id c' \<notin> ac_command_id ` set rows" using no by (auto simp: rows expire_row_same)
      ultimately show False using E k by simp
    qed
    then obtain c where c: "c \<in> set (db_commands s)" "ac_command_id c = ac_command_id c'" by blast
    from after [OF c(1)] k [folded c(2)]
    have "Some c' = Some (if ?hit c then closed_row uuid5 (expire_command_row now c) else c)"
      by (rule trans [OF sym, rotated])
    then have c'_eq: "c' = (if ?hit c then closed_row uuid5 (expire_command_row now c) else c)"
      by (rule option.inject [THEN iffD1])
    show ?thesis
    proof (cases "?hit c")
      case True
      then have "ac_status c' \<in> {Failed, Cancelled}"
        using c'_eq by (simp add: closed_row_def expire_command_row_def expiry_status_def)
      then show ?thesis by (auto simp: command_expired_def)
    qed (use c'_eq in simp)
  qed
  have each: "if ?hit c
       then \<exists>c' \<in> set (db_commands s'). ac_command_id c' = ac_command_id c \<and>
         ac_status c' = (if ac_status c \<in> {CancelRequested, Cancelling} then Cancelled else Failed) \<and>
         \<not> stream_open s' (ac_workspace_id c') (ac_command_id c') \<and>
         ac_terminal_event_id c' = Some (expiry_event_id uuid5 c) \<and>
         staged_in (expiry_event_id uuid5 c) s'
       else c \<in> set (db_commands s')" if c: "c \<in> set (db_commands s)" for c
  proof (cases "?hit c")
    case True
    let ?c' = "closed_row uuid5 (expire_command_row now c)"
    have k: "cmds s' (ac_command_id c) = Some ?c'" using after [OF c] True by simp
    have ids: "ac_command_id ?c' = ac_command_id c"
      "expiry_event_id uuid5 (expire_command_row now c) = expiry_event_id uuid5 c"
      by (simp_all add: closed_row_def expire_row_same expiry_event_id_def)
    have fin: "\<not> retryable_result (ac_result ?c')" "\<not> command_status_is_active (ac_status ?c')"
      by (auto simp: closed_row_def expire_command_row_def expiry_status_def active_simps)
    have "\<not> stream_open s' (ac_workspace_id ?c') (ac_command_id c)"
      using command_invD(4) [OF inv' k] fin retry_refusal_result [OF fin(1), of env]
      by (simp add: consistent_def)
    moreover have "?c' \<in> set (db_commands s')" using L' k ids by (simp add: cmds_in_set)
    moreover have "staged_in (expiry_event_id uuid5 c) s'"
      using E c True ids(2) by (force simp: rows)
    moreover have "ac_status ?c' = (if ac_status c \<in> {CancelRequested, Cancelling} then Cancelled else Failed)"
      "ac_terminal_event_id ?c' = Some (expiry_event_id uuid5 c)"
      using ids(2) by (simp_all add: closed_row_def expire_command_row_def expiry_status_def)
    ultimately show ?thesis
      using True ids(1) by (simp only: if_True) (intro bexI [of _ ?c'] conjI; simp only: not_False_eq_True)
  next
    case False
    with after [OF c] L' show ?thesis by (simp add: cmds_in_set)
  qed
  from none each show ?thesis by blast
qed

definition demo_sweep :: "db \<Rightarrow> db_error + db \<times> command_row list" where
  "demo_sweep = fail_expired_agent_commands (\<lambda>n. n) (seconds 9999) 300 1800 ''janitor''"

theorem sweep_closes_expired_witness:
  "\<exists>s' rows. demo_sweep demo_started = Inr (s', rows) \<and>
     (\<exists>c' \<in> set (db_commands s'). ac_command_id c' = ''c'' \<and> ac_status c' = Failed)"
proof -
  have "\<not> isl (demo_sweep demo_started)" by code_simp
  then obtain s' rows where r: "demo_sweep demo_started = Inr (s', rows)"
    by (cases "demo_sweep demo_started") auto
  have one: "map (\<lambda>c. (ac_command_id c, ac_status c, command_expired (seconds 9999) 300 1800 c))
      (db_commands demo_started) = [(''c'', Running, True)]" by code_simp
  then obtain c where c: "c \<in> set (db_commands demo_started)" "ac_command_id c = ''c''"
    "ac_status c = Running" "command_expired (seconds 9999) 300 1800 c" by auto
  from sweep_closes_expired [OF demo_reachable(4) r [unfolded demo_sweep_def]] c
  have "\<exists>c' \<in> set (db_commands s'). ac_command_id c' = ''c'' \<and> ac_status c' = Failed" by fastforce
  with r show ?thesis by blast
qed

end
