(* ===== verification/Event_Ledger.thy ===== *)
theory Event_Ledger
  imports Event_Envelope
begin

text \<open>
  The processing ledger of \<^verbatim>\<open>src/src/packages/storage/repositories/event.py\<close>,
  \<^verbatim>\<open>src/src/packages/runtime/ledger.py\<close> and
  \<^verbatim>\<open>src/src/packages/contracts/event_bus/processing.py\<close>: one row per event and consumer
  tells whether somebody is working on it, how often it was tried and whether it is closed.
\<close>

definition PROCESSING_STALE_SECONDS :: int where
  "PROCESSING_STALE_SECONDS = 90"

definition ERROR_MESSAGE_LIMIT :: nat where
  "ERROR_MESSAGE_LIMIT = 2000"

definition TERMINAL_STATUSES :: "processing_status list" where
  "TERMINAL_STATUSES = [Processed, DeadLettered]"

text \<open>The status a caller sees: a stored one, or a signal derived from it.\<close>

datatype record_status = Stored processing_status | ClaimBlocked | UnknownStatus

record processing_record =
  pr_status :: record_status
  pr_attempts :: nat

definition compact_error :: "string \<Rightarrow> string" where
  "compact_error e = take ERROR_MESSAGE_LIMIT e"

section \<open>Claim\<close>

definition new_processing :: "time \<Rightarrow> envelope \<Rightarrow> string \<Rightarrow> processing_row" where
  "new_processing now e consumer =
     \<lparr>ep_event_id = env_event_id e, ep_consumer = consumer, ep_subject = env_subject e,
      ep_correlation_id = env_correlation_id e, ep_status = Processing, ep_attempts = 1,
      ep_duration_ms = None, ep_last_error = None, ep_updated_at = now\<rparr>"

text \<open>The condition of the upsert: not closed, and not a fresh claim of somebody else.\<close>

definition reclaimable :: "time \<Rightarrow> int \<Rightarrow> processing_row \<Rightarrow> bool" where
  "reclaimable now stale r =
     (ep_status r \<notin> set TERMINAL_STATUSES \<and>
      (ep_status r \<noteq> Processing \<or> ep_updated_at r < now - seconds stale))"

definition reclaim :: "time \<Rightarrow> processing_row \<Rightarrow> processing_row" where
  "reclaim now r =
     r\<lparr>ep_attempts := Suc (ep_attempts r), ep_status := Processing, ep_last_error := None,
       ep_updated_at := now\<rparr>"

definition get_event_processing :: "envelope \<Rightarrow> string \<Rightarrow> db \<Rightarrow> processing_row option" where
  "get_event_processing e consumer s =
     lookup processing_key (env_event_id e, consumer) (db_processing s)"

definition claim_event_processing ::
    "time \<Rightarrow> int \<Rightarrow> envelope \<Rightarrow> string \<Rightarrow> db \<Rightarrow> db \<times> processing_row option" where
  "claim_event_processing now stale e consumer s =
     (case get_event_processing e consumer s of
        None \<Rightarrow> (s\<lparr>db_processing := db_processing s @ [new_processing now e consumer]\<rparr>,
                 Some (new_processing now e consumer))
      | Some r \<Rightarrow>
          if reclaimable now stale r
          then (s\<lparr>db_processing := update_where
                   (\<lambda>x. processing_key x = (env_event_id e, consumer)) (reclaim now) (db_processing s)\<rparr>,
                Some (reclaim now r))
          else (s, None))"

text \<open>
  The second read sees the row that refused the claim (same transaction), so \<open>UnknownStatus\<close>
  would need a row deleted in between.
\<close>

definition begin_event_processing ::
    "time \<Rightarrow> int \<Rightarrow> envelope \<Rightarrow> string \<Rightarrow> db \<Rightarrow> db \<times> processing_record" where
  "begin_event_processing now stale e consumer s =
     (case claim_event_processing now stale e consumer s of
        (s', Some r) \<Rightarrow> (s', \<lparr>pr_status = Stored (ep_status r), pr_attempts = ep_attempts r\<rparr>)
      | (s', None) \<Rightarrow>
          (s', (case get_event_processing e consumer s' of
                  None \<Rightarrow> \<lparr>pr_status = UnknownStatus, pr_attempts = 0\<rparr>
                | Some r \<Rightarrow>
                    \<lparr>pr_status = (if ep_status r = Processing then ClaimBlocked else Stored (ep_status r)),
                     pr_attempts = ep_attempts r\<rparr>)))"

section \<open>Finish and fail\<close>

definition finish_event_processing ::
    "time \<Rightarrow> envelope \<Rightarrow> string \<Rightarrow> int option \<Rightarrow> db \<Rightarrow> db" where
  "finish_event_processing now e consumer duration s =
     s\<lparr>db_processing := update_where (\<lambda>r. processing_key r = (env_event_id e, consumer))
         (\<lambda>r. r\<lparr>ep_status := Processed, ep_last_error := None, ep_updated_at := now,
               ep_duration_ms := (case duration of None \<Rightarrow> ep_duration_ms r | Some d \<Rightarrow> Some (max 0 d))\<rparr>)
         (db_processing s)\<rparr>"

definition fail_event_processing ::
    "time \<Rightarrow> envelope \<Rightarrow> string \<Rightarrow> string \<Rightarrow> processing_status \<Rightarrow> int option \<Rightarrow> db \<Rightarrow> db" where
  "fail_event_processing now e consumer error status duration s =
     s\<lparr>db_processing := update_where (\<lambda>r. processing_key r = (env_event_id e, consumer))
         (\<lambda>r. r\<lparr>ep_status := status, ep_last_error := Some (compact_error error), ep_updated_at := now,
               ep_duration_ms := (case duration of None \<Rightarrow> ep_duration_ms r | Some d \<Rightarrow> Some (max 0 d))\<rparr>)
         (db_processing s)\<rparr>"

text \<open>The \<open>Ledger\<close> facade of the worker.\<close>

definition ledger_begin :: "time \<Rightarrow> int \<Rightarrow> string \<Rightarrow> envelope \<Rightarrow> db \<Rightarrow> db \<times> processing_record" where
  "ledger_begin now stale consumer e s =
     begin_event_processing now stale e consumer (record_event now e s)"

definition ledger_finish :: "time \<Rightarrow> string \<Rightarrow> envelope \<Rightarrow> int option \<Rightarrow> db \<Rightarrow> db" where
  "ledger_finish now consumer e duration s = finish_event_processing now e consumer duration s"

definition ledger_retry :: "time \<Rightarrow> string \<Rightarrow> envelope \<Rightarrow> string \<Rightarrow> int option \<Rightarrow> db \<Rightarrow> db" where
  "ledger_retry now consumer e error duration s =
     fail_event_processing now e consumer error Retrying duration s"

definition ledger_dead_letter :: "time \<Rightarrow> string \<Rightarrow> envelope \<Rightarrow> string \<Rightarrow> int option \<Rightarrow> db \<Rightarrow> db" where
  "ledger_dead_letter now consumer e error duration s =
     fail_event_processing now e consumer error DeadLettered duration s"

section \<open>Reports and retention\<close>

definition event_processing_status_counts :: "processing_status \<Rightarrow> db \<Rightarrow> nat" where
  "event_processing_status_counts status s = count_where (\<lambda>r. ep_status r = status) (db_processing s)"

definition event_processing_duration_max_ms :: "string \<Rightarrow> db \<Rightarrow> int option" where
  "event_processing_duration_max_ms consumer s =
     (case List.map_filter ep_duration_ms (filter (\<lambda>r. ep_consumer r = consumer) (db_processing s)) of
        [] \<Rightarrow> None
      | d # ds \<Rightarrow> Some (fold max ds d))"

text \<open>\<open>string_key\<close> orders identifiers as the database collation does.\<close>

definition delete_events_older_than :: "(string \<Rightarrow> int) \<Rightarrow> time \<Rightarrow> int \<Rightarrow> db \<Rightarrow> db \<times> nat" where
  "delete_events_older_than string_key cutoff lmt s =
     (let expired = take (nat lmt)
            (sort_key ev_created_at
               (sort_key (\<lambda>r. string_key (ev_event_id r))
                  (filter (\<lambda>r. ev_created_at r < cutoff) (db_events s))));
          ids = map ev_event_id expired
      in (s\<lparr>db_events := delete_where (\<lambda>r. ev_event_id r \<in> set ids) (db_events s)\<rparr>,
          count_where (\<lambda>r. ev_event_id r \<in> set ids) (db_events s)))"

section \<open>The ledger by key\<close>

definition ledger :: "db \<Rightarrow> string \<Rightarrow> string \<Rightarrow> processing_row option" where
  "ledger s consumer i = lookup processing_key (i, consumer) (db_processing s)"

lemma get_event_processing_ledger: "get_event_processing e consumer s = ledger s consumer (env_event_id e)"
  by (simp add: get_event_processing_def ledger_def)

lemma processing_key_eq: "processing_key r = (i, c) \<longleftrightarrow> ep_event_id r = i \<and> ep_consumer r = c"
  by (simp add: processing_key_def)

lemma ledger_update:
  assumes "\<And>r. processing_key (f r) = processing_key r"
  shows "ledger (s\<lparr>db_processing := update_where (\<lambda>r. processing_key r = (i, c)) f (db_processing s)\<rparr>) c' j =
    (if j = i \<and> c' = c then map_option f (ledger s c i) else ledger s c' j)"
  using lookup_update_key [of "\<lambda>r. processing_key r = (i, c)" processing_key "(i, c)" f "(j, c')" "db_processing s"]
    assms lookup_Some_in [of processing_key "(i, c)" "db_processing s"]
  by (cases "ledger s c i") (auto simp: ledger_def)

lemma ledger_append:
  "ledger s c' i = None \<Longrightarrow> processing_key r = (i, c') \<Longrightarrow>
   ledger (s\<lparr>db_processing := db_processing s @ [r]\<rparr>) c j =
     (if j = i \<and> c = c' then Some r else ledger s c j)"
  by (auto simp: ledger_def lookup_append split: option.splits) (auto simp: lookup_def)

lemma ledger_record_event [simp]: "ledger (record_event now e s) c i = ledger s c i"
  by (simp add: ledger_def)

lemma ledger_stage [simp]: "ledger (stage_events es s) c i = ledger s c i"
  by (simp add: ledger_def)

lemma new_processing_fields [simp]:
  "ep_status (new_processing now e c) = Processing" "ep_attempts (new_processing now e c) = 1"
  "ep_updated_at (new_processing now e c) = now" "processing_key (new_processing now e c) = (env_event_id e, c)"
  by (simp_all add: new_processing_def processing_key_def)

lemma reclaim_fields [simp]:
  "ep_status (reclaim now r) = Processing" "ep_attempts (reclaim now r) = Suc (ep_attempts r)"
  "ep_updated_at (reclaim now r) = now" "processing_key (reclaim now r) = processing_key r"
  by (simp_all add: reclaim_def processing_key_def)

text \<open>What a claim does to the ledger: it either takes the row or leaves everything.\<close>

lemma begin_cases:
  assumes "ledger_begin now stale consumer e s = (s', r)"
  shows "(pr_status r = Stored Processing \<and>
     (\<exists>row. ledger s' consumer (env_event_id e) = Some row \<and> ep_status row = Processing \<and>
        ep_updated_at row = now \<and> ep_attempts row = pr_attempts r \<and>
        (case ledger s consumer (env_event_id e) of
           None \<Rightarrow> pr_attempts r = 1
         | Some old \<Rightarrow> reclaimable now stale old \<and> pr_attempts r = Suc (ep_attempts old))) \<and>
     (\<forall>c i. (c, i) \<noteq> (consumer, env_event_id e) \<longrightarrow> ledger s' c i = ledger s c i)) \<or>
   (s' = record_event now e s \<and>
    (\<exists>old. ledger s consumer (env_event_id e) = Some old \<and> \<not> reclaimable now stale old \<and>
       pr_attempts r = ep_attempts old \<and>
       pr_status r = (if ep_status old = Processing then ClaimBlocked else Stored (ep_status old))))"
proof (cases "ledger s consumer (env_event_id e)")
  case None
  then have "ledger (record_event now e s) consumer (env_event_id e) = None" by simp
  note app = ledger_append [OF this, of "new_processing now e consumer"]
  from None assms have s': "s' = (record_event now e s)\<lparr>db_processing :=
      db_processing (record_event now e s) @ [new_processing now e consumer]\<rparr>"
    and r: "r = \<lparr>pr_status = Stored Processing, pr_attempts = 1\<rparr>"
    by (simp_all add: ledger_begin_def begin_event_processing_def claim_event_processing_def
        get_event_processing_ledger)
  show ?thesis
    using None by (intro disjI1 conjI exI [of _ "new_processing now e consumer"]) (auto simp: s' r app simp del: record_event_frame)
next
  case (Some old)
  show ?thesis
  proof (cases "reclaimable now stale old")
    case False
    with Some assms show ?thesis
      by (auto simp: ledger_begin_def begin_event_processing_def claim_event_processing_def
          get_event_processing_ledger)
  next
    case True
    with Some assms have s': "s' = (record_event now e s)\<lparr>db_processing := update_where
        (\<lambda>x. processing_key x = (env_event_id e, consumer)) (reclaim now) (db_processing (record_event now e s))\<rparr>"
      and r: "r = \<lparr>pr_status = Stored Processing, pr_attempts = Suc (ep_attempts old)\<rparr>"
      by (simp_all add: ledger_begin_def begin_event_processing_def claim_event_processing_def
          get_event_processing_ledger)
    show ?thesis
      using Some True
      by (intro disjI1 conjI exI [of _ "reclaim now old"])
        (auto simp: s' r ledger_update simp del: record_event_frame)
  qed
qed

text \<open>A closed event is never claimed again, whatever the time.\<close>

lemma closed_not_reclaimable: "ep_status r \<in> set TERMINAL_STATUSES \<Longrightarrow> \<not> reclaimable now stale r"
  by (simp add: reclaimable_def)

lemma fresh_not_reclaimable:
  "ep_status r = Processing \<Longrightarrow> now \<le> ep_updated_at r + seconds stale \<Longrightarrow> \<not> reclaimable now stale r"
  by (simp add: reclaimable_def)

lemma ledger_finish_at:
  "ledger (ledger_finish now c e d s) c' j =
   (if j = env_event_id e \<and> c' = c
    then map_option (\<lambda>r. r\<lparr>ep_status := Processed, ep_last_error := None, ep_updated_at := now,
      ep_duration_ms := (case d of None \<Rightarrow> ep_duration_ms r | Some d \<Rightarrow> Some (max 0 d))\<rparr>) (ledger s c j)
    else ledger s c' j)"
  unfolding ledger_finish_def finish_event_processing_def
  by (subst ledger_update) (auto simp: processing_key_def)

lemma ledger_fail_at:
  "ledger (fail_event_processing now e c err st d s) c' j =
   (if j = env_event_id e \<and> c' = c
    then map_option (\<lambda>r. r\<lparr>ep_status := st, ep_last_error := Some (compact_error err), ep_updated_at := now,
      ep_duration_ms := (case d of None \<Rightarrow> ep_duration_ms r | Some d \<Rightarrow> Some (max 0 d))\<rparr>) (ledger s c j)
    else ledger s c' j)"
  unfolding fail_event_processing_def
  by (subst ledger_update) (auto simp: processing_key_def)

end
