(* ===== verification/Dead_Letters.thy ===== *)
theory Dead_Letters
  imports Event_Ledger
begin

text \<open>
  The dead letter store of \<^verbatim>\<open>src/src/packages/storage/repositories/dead_letter.py\<close> and the
  operator's replay of \<^verbatim>\<open>src/src/services/gateway/api-gateway/gateway.py\<close>: an event that
  cannot be processed is kept as an open row, and is published again at most once.
\<close>

definition RAW_DEAD_LETTER_SUBJECT :: string where
  "RAW_DEAD_LETTER_SUBJECT = ''__decode_failed__''"

definition insert_dead_letter ::
    "time \<Rightarrow> string \<Rightarrow> string \<Rightarrow> string \<Rightarrow> string \<Rightarrow> nat \<Rightarrow> string \<Rightarrow> jobj \<Rightarrow> db \<Rightarrow> db \<times> dead_letter_row" where
  "insert_dead_letter now event_id subject consumer correlation_id attempts error payload s =
     (let row = \<lparr>dl_id = Suc (db_dead_letter_seq s), dl_original_event_id = event_id,
                dl_original_subject = subject, dl_consumer = consumer,
                dl_correlation_id = correlation_id, dl_attempts = attempts, dl_error = error,
                dl_payload = payload, dl_status = DlOpen, dl_replayed_at = None,
                dl_replay_event_id = None, dl_created_at = now\<rparr>
      in (s\<lparr>db_dead_letters := db_dead_letters s @ [row],
            db_dead_letter_seq := Suc (db_dead_letter_seq s)\<rparr>, row))"

definition record_dead_letter ::
    "time \<Rightarrow> envelope \<Rightarrow> string \<Rightarrow> string \<Rightarrow> nat \<Rightarrow> db \<Rightarrow> db \<times> dead_letter_row" where
  "record_dead_letter now e consumer error attempts s =
     insert_dead_letter now (env_event_id e) (env_subject e) consumer (env_correlation_id e)
       attempts (compact_error error) (env_payload e) s"

text \<open>\<open>decoded\<close> is the message's text with undecodable bytes replaced, \<open>fresh\<close> the uuid.\<close>

definition record_raw_dead_letter ::
    "time \<Rightarrow> string \<Rightarrow> string \<Rightarrow> string \<Rightarrow> string \<Rightarrow> db \<Rightarrow> db \<times> dead_letter_row" where
  "record_raw_dead_letter now fresh decoded consumer error s =
     (let original_event_id = ''decode-failure:'' @ fresh
      in insert_dead_letter now original_event_id RAW_DEAD_LETTER_SUBJECT consumer original_event_id 1
           (compact_error error) [(''raw'', JStr decoded)] s)"

definition list_dead_letters :: "int \<Rightarrow> db \<Rightarrow> dead_letter_row list" where
  "list_dead_letters lmt s = take (nat lmt) (sort_key (\<lambda>r. - dl_created_at r) (db_dead_letters s))"

definition get_dead_letter :: "nat \<Rightarrow> db \<Rightarrow> dead_letter_row option" where
  "get_dead_letter i s = lookup dl_id i (db_dead_letters s)"

text \<open>One atomic update: only the first request finds the row open.\<close>

definition mark_dead_letter_replayed :: "time \<Rightarrow> nat \<Rightarrow> string \<Rightarrow> db \<Rightarrow> db \<times> bool" where
  "mark_dead_letter_replayed now i replay_event_id s =
     (let p = (\<lambda>r. dl_id r = i \<and> dl_status r = DlOpen) in
      (s\<lparr>db_dead_letters := update_where p
            (\<lambda>r. r\<lparr>dl_status := DlReplayed, dl_replayed_at := Some now,
                  dl_replay_event_id := Some replay_event_id\<rparr>) (db_dead_letters s)\<rparr>,
       list_ex p (db_dead_letters s)))"

definition open_dead_letter_count :: "db \<Rightarrow> nat" where
  "open_dead_letter_count s = count_where (\<lambda>r. dl_status r = DlOpen) (db_dead_letters s)"

section \<open>Replay\<close>

text \<open>
  \<open>ApiEventGateway.accept\<close> without actor on an outbox-capable store: ledger and outbox row in
  one transaction.
\<close>

definition accept_event ::
    "string \<Rightarrow> time \<Rightarrow> string option \<Rightarrow> string \<Rightarrow> string \<Rightarrow> jobj \<Rightarrow> string option \<Rightarrow> string option \<Rightarrow>
     db \<Rightarrow> db \<times> envelope" where
  "accept_event event_id now current_ws source subject payload correlation_id causation_id s =
     (let e = make_event event_id now current_ws subject source payload correlation_id causation_id None
      in (stage_events [e] (record_event now e s), e))"

datatype replay_error = DeadLetterNotFound | DeadLetterNotOpen

text \<open>
  The endpoint reads the dead letter in \<open>seen\<close>, then stages and marks in one transaction on
  the current state \<open>s\<close>; a lost race rolls the staging back.
\<close>

definition replay_dead_letter ::
    "string \<Rightarrow> time \<Rightarrow> string option \<Rightarrow> string \<Rightarrow> nat \<Rightarrow> db \<Rightarrow> db \<Rightarrow> replay_error + db \<times> envelope" where
  "replay_dead_letter event_id now current_ws source i seen s =
     (case get_dead_letter i seen of
        None \<Rightarrow> Inl DeadLetterNotFound
      | Some d \<Rightarrow>
          if dl_status d \<noteq> DlOpen then Inl DeadLetterNotOpen
          else
            let (s1, e) = accept_event event_id now current_ws source (dl_original_subject d)
                            (dl_payload d) (Some (dl_correlation_id d)) (Some (dl_original_event_id d)) s;
                (s2, marked) = mark_dead_letter_replayed now i (env_event_id e) s1
            in if marked then Inr (s2, e) else Inl DeadLetterNotOpen)"

section \<open>Lemmas\<close>

definition dead_letters_ok :: "db \<Rightarrow> bool" where
  "dead_letters_ok s \<longleftrightarrow> unique_key dl_id (db_dead_letters s) \<and>
     (\<forall>r \<in> set (db_dead_letters s). dl_id r \<le> db_dead_letter_seq s)"

lemma dead_letters_ok_empty: "dead_letters_ok empty_db"
  by (simp add: dead_letters_ok_def empty_db_def unique_key_def)

lemma insert_dead_letter_ok:
  "dead_letters_ok s \<Longrightarrow> insert_dead_letter now e sub c corr n err p s = (s', r) \<Longrightarrow> dead_letters_ok s'"
  by (fastforce simp: insert_dead_letter_def dead_letters_ok_def unique_key_def Let_def)

lemma insert_dead_letter_frame:
  assumes "insert_dead_letter now e sub c corr n err p s = (s', r)"
  shows "db_dead_letters s' = db_dead_letters s @ [r]" "db_processing s' = db_processing s"
    "db_outbox s' = db_outbox s" "db_events s' = db_events s" "dl_original_event_id r = e"
    "dl_consumer r = c" "dl_status r = DlOpen" "dl_payload r = p" "dl_original_subject r = sub"
  using assms by (auto simp: insert_dead_letter_def Let_def)

lemma mark_replayed_ok:
  "dead_letters_ok s \<Longrightarrow> mark_dead_letter_replayed now i e s = (s', b) \<Longrightarrow> dead_letters_ok s'"
  by (auto simp: mark_dead_letter_replayed_def dead_letters_ok_def table_simps Let_def
      intro!: unique_key_update_where)

lemma mark_replayed_closed:
  assumes "mark_dead_letter_replayed now i e s = (s', b)"
  shows "\<not> list_ex (\<lambda>r. dl_id r = i \<and> dl_status r = DlOpen) (db_dead_letters s')"
proof -
  have "dl_id r \<noteq> i \<or> dl_status r \<noteq> DlOpen" if "r \<in> set (db_dead_letters s')" for r
  proof -
    let ?p = "\<lambda>r. dl_id r = i \<and> dl_status r = DlOpen"
    let ?f = "\<lambda>r. r\<lparr>dl_status := DlReplayed, dl_replayed_at := Some now, dl_replay_event_id := Some e\<rparr>"
    have "db_dead_letters s' = update_where ?p ?f (db_dead_letters s)"
      using assms by (auto simp: mark_dead_letter_replayed_def Let_def)
    with that obtain x where "r = (if ?p x then ?f x else x)"
      using in_update_where [of r ?p ?f "db_dead_letters s"] by metis
    then show ?thesis by (cases "?p x") simp_all
  qed
  then show ?thesis by (auto simp: list_ex_iff)
qed

text \<open>
  A dead letter is published again at most once. When a replay succeeds, a new
  event with the original subject and payload and caused by the original event is in the
  outbox; any other replay of the same dead letter, even one that read the row while it was
  still open, fails and leaves no event behind.
\<close>

theorem replay_happens_once:
  assumes "replay_dead_letter eid now ws src i seen s = Inr (s', e)"
  shows "eid \<in> ob_event_id ` set (db_outbox s') \<and> env_event_id e = eid \<and>
    (\<exists>d. get_dead_letter i seen = Some d \<and> dl_status d = DlOpen \<and>
       env_subject e = dl_original_subject d \<and> env_payload e = dl_payload d \<and>
       env_causation_id e = Some (dl_original_event_id d)) \<and>
    (\<exists>err. replay_dead_letter eid2 now2 ws2 src2 i seen2 s' = Inl err)"
proof -
  from assms obtain d where d: "get_dead_letter i seen = Some d" "dl_status d = DlOpen"
    by (auto simp: replay_dead_letter_def split: option.splits if_splits)
  define e0 where "e0 = make_event eid now ws (dl_original_subject d) src (dl_payload d)
    (Some (dl_correlation_id d)) (Some (dl_original_event_id d)) None"
  define s1 where "s1 = stage_events [e0] (record_event now e0 s)"
  obtain s2 b where m: "mark_dead_letter_replayed now i (env_event_id e0) s1 = (s2, b)" by fastforce
  with assms d have s': "s' = s2" "e = e0" "b"
    by (auto simp: replay_dead_letter_def accept_event_def Let_def e0_def s1_def split: if_splits)
  have "db_outbox s2 = db_outbox s1" using m by (auto simp: mark_dead_letter_replayed_def Let_def)
  moreover have "env_event_id e0 \<in> ob_event_id ` set (db_outbox s1)"
    unfolding s1_def by (rule stage_events_present) simp
  ultimately have staged: "eid \<in> ob_event_id ` set (db_outbox s')"
    by (simp add: s' e0_def make_event_def)
  have none: "\<not> list_ex (\<lambda>r. dl_id r = i \<and> dl_status r = DlOpen) (db_dead_letters s')"
    using mark_replayed_closed [OF m] s' by simp
  have "\<exists>err. replay_dead_letter eid2 now2 ws2 src2 i seen2 s' = Inl err"
    using none
    by (auto simp: replay_dead_letter_def accept_event_def mark_dead_letter_replayed_def Let_def
        split: option.splits)
  with staged d show ?thesis by (auto simp: s' e0_def make_event_def)
qed

definition demo_event :: envelope where
  "demo_event = make_event ''e1'' 0 (Some ''w'') ''git.changed'' ''gw'' [] None None None"

definition demo_dead :: db where
  "demo_dead = fst (record_dead_letter 1 demo_event ''worker'' ''boom'' 3 empty_db)"

theorem replay_happens_once_witness:
  "\<exists>s' e. replay_dead_letter ''e2'' 2 None ''gw'' 1 demo_dead demo_dead = Inr (s', e) \<and>
     (\<exists>err. replay_dead_letter ''e3'' 2 None ''gw'' 1 demo_dead s' = Inl err)"
proof -
  have "\<not> isl (replay_dead_letter ''e2'' 2 None ''gw'' 1 demo_dead demo_dead)" by code_simp
  then obtain s' e where r: "replay_dead_letter ''e2'' 2 None ''gw'' 1 demo_dead demo_dead = Inr (s', e)"
    by (cases "replay_dead_letter ''e2'' 2 None ''gw'' 1 demo_dead demo_dead") auto
  from replay_happens_once [OF r, of "''e3''" 2 None "''gw''" demo_dead] r show ?thesis by blast
qed

end
