(* ===== verification/Event_Outbox.thy ===== *)
theory Event_Outbox
  imports Dead_Letters
begin

text \<open>
  The transactional outbox of \<^verbatim>\<open>src/src/packages/storage/repositories/outbox.py\<close>: rows
  staged with the business transaction are leased by a relay, marked when they were
  published, or moved to the dead letters.
\<close>

definition DEFAULT_OUTBOX_LEASE_SECONDS :: int where
  "DEFAULT_OUTBOX_LEASE_SECONDS = 60"

definition ob_available :: "time \<Rightarrow> outbox_row \<Rightarrow> bool" where
  "ob_available now r = (ob_lease_id r = None \<or> sql_less (ob_leased_until r) now)"

text \<open>\<open>EventEnvelope.from_mapping\<close> on the returned columns.\<close>

definition envelope_of_row :: "outbox_row \<Rightarrow> envelope" where
  "envelope_of_row r =
     \<lparr>env_event_id = ob_event_id r, env_subject = ob_subject r, env_source = ob_source r,
      env_correlation_id = ob_correlation_id r, env_causation_id = ob_causation_id r,
      env_created_at = ob_occurred_at r, env_payload = ob_payload r,
      env_schema_version = ob_schema_version r, env_workspace_id = ob_workspace_id r\<rparr>"

definition claimable_outbox :: "time \<Rightarrow> int \<Rightarrow> string option \<Rightarrow> (nat \<Rightarrow> bool) \<Rightarrow> db \<Rightarrow> outbox_row list" where
  "claimable_outbox now lmt source locked s =
     take (nat lmt) (sort_key ob_id
       (filter (\<lambda>r. ob_sent_at r = None \<and> ob_available now r \<and>
                    (case source of None \<Rightarrow> True | Some x \<Rightarrow> ob_source r = x) \<and> \<not> locked (ob_id r))
          (db_outbox s)))"

text \<open>
  \<open>locked\<close>: rows another transaction holds (SKIP LOCKED). The returned rows come in table
  order; PostgreSQL promises no order for them.
\<close>

definition unsent_events ::
    "time \<Rightarrow> string \<Rightarrow> int \<Rightarrow> string option \<Rightarrow> (nat \<Rightarrow> bool) \<Rightarrow> db \<Rightarrow> db \<times> envelope list" where
  "unsent_events now lease_id lmt source locked s =
     (let ids = map ob_id (claimable_outbox now lmt source locked s);
          p = (\<lambda>r. ob_id r \<in> set ids)
      in (s\<lparr>db_outbox := update_where p
              (\<lambda>r. r\<lparr>ob_lease_id := Some lease_id,
                    ob_leased_until := Some (now + seconds DEFAULT_OUTBOX_LEASE_SECONDS)\<rparr>) (db_outbox s)\<rparr>,
          map envelope_of_row (filter p (db_outbox s))))"

definition set_sent :: "time \<Rightarrow> outbox_row \<Rightarrow> outbox_row" where
  "set_sent now r = r\<lparr>ob_sent_at := Some now, ob_lease_id := None, ob_leased_until := None\<rparr>"

definition mark_events_sent :: "time \<Rightarrow> string list \<Rightarrow> db \<Rightarrow> db" where
  "mark_events_sent now event_ids s =
     s\<lparr>db_outbox := update_where (\<lambda>r. ob_event_id r \<in> set event_ids) (set_sent now) (db_outbox s)\<rparr>"

fun dead_letter_all :: "time \<Rightarrow> string \<Rightarrow> string \<Rightarrow> envelope list \<Rightarrow> db \<Rightarrow> db" where
  "dead_letter_all now consumer error [] s = s"
| "dead_letter_all now consumer error (e # es) s =
     dead_letter_all now consumer error es
       (fst (insert_dead_letter now (env_event_id e) (env_subject e) consumer (env_correlation_id e) 1
               error (env_payload e) s))"

definition mark_events_dead_lettered ::
    "time \<Rightarrow> envelope list \<Rightarrow> string \<Rightarrow> string \<Rightarrow> db \<Rightarrow> db" where
  "mark_events_dead_lettered now events consumer error s =
     (if events = [] then s
      else mark_events_sent now (map env_event_id events)
             (dead_letter_all now consumer (compact_error error) events s))"

definition outbox_pending_count :: "db \<Rightarrow> nat" where
  "outbox_pending_count s = count_where (\<lambda>r. ob_sent_at r = None) (db_outbox s)"

definition outbox_oldest_age :: "time \<Rightarrow> db \<Rightarrow> time" where
  "outbox_oldest_age now s =
     (case filter (\<lambda>r. ob_sent_at r = None) (db_outbox s) of
        [] \<Rightarrow> 0
      | r # rs \<Rightarrow> now - fold (\<lambda>x t. min (ob_occurred_at x) t) rs (ob_occurred_at r))"

definition delete_sent_outbox_older_than :: "time \<Rightarrow> int \<Rightarrow> db \<Rightarrow> db \<times> nat" where
  "delete_sent_outbox_older_than cutoff lmt s =
     (let ids = map ob_id (take (nat lmt) (sort_key ob_id
                  (filter (\<lambda>r. sql_less (ob_sent_at r) cutoff) (db_outbox s))))
      in (s\<lparr>db_outbox := delete_where (\<lambda>r. ob_id r \<in> set ids) (db_outbox s)\<rparr>,
          count_where (\<lambda>r. ob_id r \<in> set ids) (db_outbox s)))"

definition stale_unsent :: "time \<Rightarrow> time \<Rightarrow> int \<Rightarrow> db \<Rightarrow> outbox_row list" where
  "stale_unsent now cutoff lmt s =
     take (nat lmt) (sort_key ob_id
       (filter (\<lambda>r. ob_sent_at r = None \<and> ob_occurred_at r < cutoff \<and> ob_available now r) (db_outbox s)))"

definition dead_letter_unsent_outbox_older_than :: "time \<Rightarrow> time \<Rightarrow> int \<Rightarrow> db \<Rightarrow> db \<times> nat" where
  "dead_letter_unsent_outbox_older_than now cutoff lmt s =
     (let rows = stale_unsent now cutoff lmt s in
      if rows = [] then (s, 0)
      else let s1 = dead_letter_all now ''outbox-relay:retention''
                      ''unsent outbox exceeded retention window'' (map envelope_of_row rows) s
           in (s1\<lparr>db_outbox := update_where (\<lambda>r. ob_id r \<in> set (map ob_id rows)) (set_sent now)
                    (db_outbox s1)\<rparr>, length rows))"

section \<open>Lemmas\<close>

lemma envelope_of_outbox_row [simp]: "envelope_of_row (outbox_row_of n e) = e"
  by (simp add: envelope_of_row_def outbox_row_of_def)

lemma envelope_of_row_id [simp]: "env_event_id (envelope_of_row r) = ob_event_id r"
  by (simp add: envelope_of_row_def)

definition outbox_ok :: "db \<Rightarrow> bool" where
  "outbox_ok s \<longleftrightarrow> unique_key ob_id (db_outbox s) \<and> unique_key ob_event_id (db_outbox s) \<and>
     (\<forall>r \<in> set (db_outbox s). ob_id r \<le> db_outbox_seq s)"

lemma outbox_ok_empty: "outbox_ok empty_db"
  by (simp add: outbox_ok_def empty_db_def unique_key_def)

lemma stage_outbox_ok: "outbox_ok s \<Longrightarrow> outbox_ok (stage_outbox_event e s)"
proof -
  assume ok: "outbox_ok s"
  let ?r = "outbox_row_of (Suc (db_outbox_seq s)) e"
  have "ob_id ?r \<notin> ob_id ` set (db_outbox s)"
    using ok by (auto simp: outbox_ok_def outbox_row_of_def)
  with ok show ?thesis
    by (auto simp: outbox_ok_def stage_outbox_event_def insert_new_def unique_key_def
        outbox_row_of_def le_Suc_eq)
qed

lemma stage_events_ok: "outbox_ok s \<Longrightarrow> outbox_ok (stage_events es s)"
  by (induction es arbitrary: s) (simp_all add: stage_outbox_ok)

lemma outbox_ok_update:
  assumes "outbox_ok s" and "\<And>r. ob_id (f r) = ob_id r" and "\<And>r. ob_event_id (f r) = ob_event_id r"
  shows "outbox_ok (s\<lparr>db_outbox := update_where p f (db_outbox s)\<rparr>)"
  using assms by (auto simp: outbox_ok_def table_simps intro!: unique_key_update_where)

lemma dead_letter_all_frame:
  "db_outbox (dead_letter_all now c err es s) = db_outbox s"
  "db_outbox_seq (dead_letter_all now c err es s) = db_outbox_seq s"
  "db_processing (dead_letter_all now c err es s) = db_processing s"
  "db_events (dead_letter_all now c err es s) = db_events s"
  by (induction es arbitrary: s) (simp_all add: insert_dead_letter_def Let_def)

lemma dead_letter_all_keeps:
  "d \<in> set (db_dead_letters s) \<Longrightarrow> d \<in> set (db_dead_letters (dead_letter_all now c err es s))"
  by (induction es arbitrary: s) (simp_all add: insert_dead_letter_def Let_def)

lemma dead_letter_all_present:
  "e \<in> set es \<Longrightarrow> \<exists>d \<in> set (db_dead_letters (dead_letter_all now c err es s)).
     dl_original_event_id d = env_event_id e \<and> dl_payload d = env_payload e \<and>
     dl_original_subject d = env_subject e \<and> dl_consumer d = c \<and> dl_status d = DlOpen"
proof (induction es arbitrary: s)
  case (Cons x es)
  show ?case
  proof (cases "e = x")
    case True
    obtain t d where t: "insert_dead_letter now (env_event_id x) (env_subject x) c (env_correlation_id x) 1
        err (env_payload x) s = (t, d)" by fastforce
    note F = insert_dead_letter_frame [OF t]
    from F(1) have "d \<in> set (db_dead_letters (dead_letter_all now c err es t))"
      by (intro dead_letter_all_keeps) simp
    with F True t show ?thesis by force
  next
    case False
    with Cons show ?thesis by simp
  qed
qed simp

text \<open>What a batch contains: unsent rows nobody holds a live lease on.\<close>

lemma claimable_props:
  "r \<in> set (claimable_outbox now lmt source locked s) \<Longrightarrow>
   r \<in> set (db_outbox s) \<and> ob_sent_at r = None \<and> ob_available now r \<and> \<not> locked (ob_id r) \<and>
   (source = None \<or> source = Some (ob_source r))"
  unfolding claimable_outbox_def
  by (drule in_set_takeD) (auto split: option.splits)

lemma unsent_batch:
  assumes "outbox_ok s" and "unsent_events now l lmt source locked s = (s', es)"
  shows "outbox_ok s'" "distinct (map env_event_id es)"
    "\<And>e. e \<in> set es \<Longrightarrow> \<exists>r \<in> set (db_outbox s). e = envelope_of_row r \<and> ob_sent_at r = None \<and>
       ob_available now r \<and> \<not> locked (ob_id r)"
    "s' = s\<lparr>db_outbox := db_outbox s'\<rparr>"
proof -
  let ?p = "\<lambda>r. ob_id r \<in> set (map ob_id (claimable_outbox now lmt source locked s))"
  from assms(2) have es: "es = map envelope_of_row (filter ?p (db_outbox s))"
    and s': "s' = s\<lparr>db_outbox := update_where ?p
              (\<lambda>r. r\<lparr>ob_lease_id := Some l,
                    ob_leased_until := Some (now + seconds DEFAULT_OUTBOX_LEASE_SECONDS)\<rparr>) (db_outbox s)\<rparr>"
    by (auto simp: unsent_events_def Let_def)
  show "outbox_ok s'" unfolding s' by (rule outbox_ok_update [OF assms(1)]) simp_all
  show "distinct (map env_event_id es)"
    using assms(1) by (simp add: es comp_def outbox_ok_def unique_key_def distinct_map_filter)
  show "\<exists>r \<in> set (db_outbox s). e = envelope_of_row r \<and> ob_sent_at r = None \<and>
       ob_available now r \<and> \<not> locked (ob_id r)" if e: "e \<in> set es" for e
  proof -
    from e obtain r where r: "e = envelope_of_row r" "r \<in> set (db_outbox s)" "?p r" by (auto simp: es)
    then obtain x where x: "x \<in> set (claimable_outbox now lmt source locked s)" "ob_id x = ob_id r" by auto
    with claimable_props [OF x(1)] assms(1) r(2) have "x = r"
      by (auto simp: outbox_ok_def intro: unique_keyD)
    with claimable_props [OF x(1)] r show ?thesis by blast
  qed
  show "s' = s\<lparr>db_outbox := db_outbox s'\<rparr>" by (simp add: s')
qed

text \<open>
  Two relays never hold the same event: while the lease of one batch lasts, a
  second claim on the resulting state returns only other events, for every source filter,
  batch size and pattern of locked rows.
\<close>

theorem relays_claim_disjoint_batches:
  assumes "outbox_ok s"
    and "unsent_events now l lmt source locked s = (s', es)"
    and "unsent_events now2 l2 lmt2 source2 locked2 s' = (s'', es2)"
    and "now2 \<le> now + seconds DEFAULT_OUTBOX_LEASE_SECONDS"
  shows "env_event_id ` set es \<inter> env_event_id ` set es2 = {}"
proof (rule ccontr)
  let ?p = "\<lambda>r. ob_id r \<in> set (map ob_id (claimable_outbox now lmt source locked s))"
  let ?f = "\<lambda>r. r\<lparr>ob_lease_id := Some l, ob_leased_until := Some (now + seconds DEFAULT_OUTBOX_LEASE_SECONDS)\<rparr>"
  from assms(2) have es: "es = map envelope_of_row (filter ?p (db_outbox s))"
    and s': "s' = s\<lparr>db_outbox := update_where ?p ?f (db_outbox s)\<rparr>"
    by (auto simp: unsent_events_def Let_def)
  assume "\<not> ?thesis"
  then obtain e e2 where e: "e \<in> set es" "e2 \<in> set es2" "env_event_id e = env_event_id e2" by blast
  from e(1) obtain r where r: "r \<in> set (db_outbox s)" "?p r" "env_event_id e = ob_event_id r"
    by (auto simp: es)
  have "outbox_ok s'" by (rule unsent_batch(1) [OF assms(1,2)])
  from unsent_batch(3) [OF this assms(3) e(2)] obtain r2 where
    r2: "r2 \<in> set (db_outbox s')" "env_event_id e2 = ob_event_id r2" "ob_available now2 r2" by auto
  have "?f r \<in> set (db_outbox s')" using r(1,2) by (auto simp: s' table_simps)
  with r2 r(3) e(3) \<open>outbox_ok s'\<close> have "r2 = ?f r"
    by (auto simp: outbox_ok_def intro: unique_keyD)
  with r2(3) assms(4) show False by (simp add: ob_available_def)
qed

definition demo_outbox :: db where
  "demo_outbox = stage_events [demo_event, demo_event\<lparr>env_event_id := ''e2''\<rparr>] empty_db"

lemma demo_outbox_ok: "outbox_ok demo_outbox"
  unfolding demo_outbox_def by (rule stage_events_ok [OF outbox_ok_empty])

theorem relays_claim_disjoint_batches_witness:
  "\<exists>s' es s'' es2. unsent_events 0 ''l1'' 1 None (\<lambda>_. False) demo_outbox = (s', es) \<and>
     unsent_events 1 ''l2'' 10 None (\<lambda>_. False) s' = (s'', es2) \<and>
     env_event_id ` set es \<inter> env_event_id ` set es2 = {}"
proof -
  obtain s' es where 1: "unsent_events 0 ''l1'' 1 None (\<lambda>_. False) demo_outbox = (s', es)" by fastforce
  obtain s'' es2 where 2: "unsent_events 1 ''l2'' 10 None (\<lambda>_. False) s' = (s'', es2)" by fastforce
  have "1 \<le> 0 + seconds DEFAULT_OUTBOX_LEASE_SECONDS" by code_simp
  from relays_claim_disjoint_batches [OF demo_outbox_ok 1 2 this] 1 2 show ?thesis by blast
qed

end
