(* ===== verification/Event_Relay.thy ===== *)
theory Event_Relay
  imports Event_Outbox
begin

text \<open>
  The outbox relay of \<^verbatim>\<open>src/src/packages/runtime/relay.py\<close>. The broker is a parameter:
  publishing an envelope is accepted, refused for good (the payload is too large) or fails
  (an error or a timeout), and the failure ends the batch.
\<close>

datatype publish_outcome = Accepted | NonRetryable string | Failure string

definition relay_consumer_name :: "string option \<Rightarrow> string" where
  "relay_consumer_name source =
     ''outbox-relay:'' @ (case source of None \<Rightarrow> ''all'' | Some s \<Rightarrow> if s = [] then ''all'' else s)"

text \<open>The loop: the identifiers published so far, and the exception that ends it.\<close>

fun relay_batch ::
    "time \<Rightarrow> string \<Rightarrow> (envelope \<Rightarrow> publish_outcome) \<Rightarrow> envelope list \<Rightarrow> string list \<Rightarrow> db \<Rightarrow>
     db \<times> string list \<times> string option" where
  "relay_batch now consumer publish [] published s = (s, published, None)"
| "relay_batch now consumer publish (e # es) published s =
     (case publish e of
        Accepted \<Rightarrow> relay_batch now consumer publish es (published @ [env_event_id e]) s
      | NonRetryable err \<Rightarrow>
          relay_batch now consumer publish es published
            (mark_events_dead_lettered now [e] consumer err s)
      | Failure err \<Rightarrow> (s, published, Some err))"

text \<open>\<open>finally\<close>: what was published is marked even when the loop raised.\<close>

definition relay_run_once ::
    "time \<Rightarrow> string \<Rightarrow> int \<Rightarrow> string option \<Rightarrow> (nat \<Rightarrow> bool) \<Rightarrow> (envelope \<Rightarrow> publish_outcome) \<Rightarrow> db \<Rightarrow>
     db \<times> (string + nat)" where
  "relay_run_once now lease_id batch source locked publish s =
     (let (s1, rows) = unsent_events now lease_id batch source locked s;
          (s2, published, raised) =
            relay_batch now (relay_consumer_name source) publish rows [] s1;
          s3 = (if published \<noteq> [] then mark_events_sent now published s2 else s2)
      in (s3, case raised of None \<Rightarrow> Inr (length published) | Some err \<Rightarrow> Inl err))"

section \<open>What a batch does\<close>

text \<open>Rows keep their place and content; only lease and sent columns change.\<close>

definition same_rows :: "db \<Rightarrow> db \<Rightarrow> bool" where
  "same_rows s s' \<longleftrightarrow> map envelope_of_row (db_outbox s') = map envelope_of_row (db_outbox s) \<and>
     map ob_id (db_outbox s') = map ob_id (db_outbox s)"

lemma same_rows_refl [simp]: "same_rows s s"
  by (simp add: same_rows_def)

lemma same_rows_trans: "same_rows s t \<Longrightarrow> same_rows t u \<Longrightarrow> same_rows s u"
  by (simp add: same_rows_def)

lemma same_rows_update:
  assumes "\<And>r. envelope_of_row (f r) = envelope_of_row r" "\<And>r. ob_id (f r) = ob_id r"
    and "db_outbox s' = update_where p f (db_outbox s)"
  shows "same_rows s s'"
  by (simp add: same_rows_def assms(3) update_where_cong_key [of envelope_of_row] update_where_cong_key [of ob_id]
      assms(1,2))

lemma set_sent_same [simp]: "envelope_of_row (set_sent now r) = envelope_of_row r" "ob_id (set_sent now r) = ob_id r"
  "ob_event_id (set_sent now r) = ob_event_id r" "ob_sent_at (set_sent now r) = Some now"
  by (simp_all add: set_sent_def envelope_of_row_def)

lemma same_rows_sent: "same_rows s (mark_events_sent now ids s)"
  by (rule same_rows_update [of "set_sent now"]) (simp_all add: mark_events_sent_def)

lemma mark_dead_lettered_outbox:
  "db_outbox (mark_events_dead_lettered now [e] c err s) =
   update_where (\<lambda>r. ob_event_id r \<in> set [env_event_id e]) (set_sent now) (db_outbox s)"
  by (simp add: mark_events_dead_lettered_def mark_events_sent_def insert_dead_letter_def Let_def)

lemma same_rows_dead_lettered: "same_rows s (mark_events_dead_lettered now [e] c err s)"
  by (rule same_rows_update [of "set_sent now"]) (simp_all add: mark_dead_lettered_outbox)

text \<open>Which events a batch settled, and how.\<close>

fun settled :: "(envelope \<Rightarrow> publish_outcome) \<Rightarrow> envelope list \<Rightarrow> envelope list" where
  "settled publish [] = []"
| "settled publish (e # es) =
     (case publish e of Failure err \<Rightarrow> [] | _ \<Rightarrow> e # settled publish es)"

definition refused :: "(envelope \<Rightarrow> publish_outcome) \<Rightarrow> envelope \<Rightarrow> bool" where
  "refused publish e \<longleftrightarrow> (case publish e of NonRetryable _ \<Rightarrow> True | _ \<Rightarrow> False)"

lemma relay_batch_effects:
  assumes "relay_batch now c publish es pub s = (s', pub', r)"
  shows "pub' = pub @ map env_event_id (filter (\<lambda>e. publish e = Accepted) (settled publish es)) \<and>
    same_rows s s' \<and>
    db_outbox s' = update_where
      (\<lambda>x. ob_event_id x \<in> env_event_id ` set (filter (refused publish) (settled publish es)))
      (set_sent now) (db_outbox s) \<and>
    (\<forall>e \<in> set (settled publish es). refused publish e \<longrightarrow>
       (\<exists>d \<in> set (db_dead_letters s'). dl_original_event_id d = env_event_id e \<and> dl_payload d = env_payload e)) \<and>
    set (db_dead_letters s) \<subseteq> set (db_dead_letters s')"
  using assms
proof (induction es arbitrary: pub s)
  case Nil
  then show ?case by (auto simp: update_where_none)
next
  case (Cons e es)
  show ?case
  proof (cases "publish e")
    case Accepted
    with Cons.prems have "relay_batch now c publish es (pub @ [env_event_id e]) s = (s', pub', r)" by simp
    from Cons.IH [OF this] Accepted show ?thesis by (simp add: refused_def)
  next
    case (Failure err)
    with Cons.prems show ?thesis by (auto simp: update_where_none)
  next
    case (NonRetryable err)
    let ?t = "mark_events_dead_lettered now [e] c err s"
    from NonRetryable Cons.prems have "relay_batch now c publish es pub ?t = (s', pub', r)" by simp
    note IH = Cons.IH [OF this]
    have t: "db_outbox ?t = update_where (\<lambda>r. ob_event_id r = env_event_id e) (set_sent now) (db_outbox s)"
      by (simp add: mark_dead_lettered_outbox)
    obtain d where d: "d \<in> set (db_dead_letters ?t)" "dl_original_event_id d = env_event_id e"
      "dl_payload d = env_payload e"
      by (fastforce simp: mark_events_dead_lettered_def mark_events_sent_def insert_dead_letter_def Let_def)
    have sub: "set (db_dead_letters s) \<subseteq> set (db_dead_letters ?t)"
      by (auto simp: mark_events_dead_lettered_def mark_events_sent_def insert_dead_letter_def Let_def)
    have "db_outbox s' = update_where
        (\<lambda>x. ob_event_id x \<in> env_event_id ` set (filter (refused publish) (settled publish (e # es))))
        (set_sent now) (db_outbox s)"
      using IH NonRetryable
      by (auto simp: t update_where_def refused_def set_sent_def)
    with IH d sub NonRetryable same_rows_trans [OF same_rows_dead_lettered] show ?thesis
      by (auto simp: refused_def)
  qed
qed

lemma settled_subset: "set (settled publish es) \<subseteq> set es"
  by (induction es) (auto split: publish_outcome.splits)

lemma relay_batch_complete:
  "relay_batch now c publish es pub s = (s', pub', None) \<Longrightarrow> settled publish es = es"
  by (induction es arbitrary: pub s) (auto split: publish_outcome.splits)

lemma set_sent_twice:
  "update_where (\<lambda>x. ob_event_id x \<in> A) (set_sent now) (update_where (\<lambda>x. ob_event_id x \<in> B) (set_sent now) t) =
   update_where (\<lambda>x. ob_event_id x \<in> A \<union> B) (set_sent now) t"
  by (auto simp: update_where_def set_sent_def)

text \<open>The whole round, in terms of the batch it claimed.\<close>

lemma relay_run_effects:
  assumes ok: "outbox_ok s"
    and claim: "unsent_events now l batch source locked s = (s1, es)"
    and run: "relay_run_once now l batch source locked publish s = (s', r)"
  shows "same_rows s s' \<and>
    (\<forall>x \<in> set (db_outbox s').
       (ob_event_id x \<in> env_event_id ` set (settled publish es) \<longrightarrow> ob_sent_at x = Some now) \<and>
       (ob_event_id x \<notin> env_event_id ` set (settled publish es) \<longrightarrow> x \<in> set (db_outbox s1))) \<and>
    (\<forall>e \<in> set (settled publish es). refused publish e \<longrightarrow>
       (\<exists>d \<in> set (db_dead_letters s'). dl_original_event_id d = env_event_id e \<and> dl_payload d = env_payload e)) \<and>
    (\<forall>n. r = Inr n \<longrightarrow> settled publish es = es \<and> n = length (filter (\<lambda>e. publish e = Accepted) es))"
proof -
  obtain s2 pub ra where b: "relay_batch now (relay_consumer_name source) publish es [] s1 = (s2, pub, ra)"
    by (metis prod_cases3)
  note E = relay_batch_effects [OF b]
  let ?acc = "filter (\<lambda>e. publish e = Accepted) (settled publish es)"
  have s'_eq: "s' = (if pub \<noteq> [] then mark_events_sent now pub s2 else s2)"
    and r: "r = (case ra of None \<Rightarrow> Inr (length pub) | Some err \<Rightarrow> Inl err)"
    using run claim b by (auto simp: relay_run_once_def Let_def)
  have dl: "db_dead_letters s' = db_dead_letters s2" by (simp add: s'_eq mark_events_sent_def)
  have "db_outbox s' = update_where (\<lambda>x. ob_event_id x \<in> set pub) (set_sent now) (db_outbox s2)"
    by (simp add: s'_eq mark_events_sent_def update_where_none)
  moreover have "set pub = env_event_id ` set ?acc" using E by auto
  ultimately have s': "db_outbox s' = update_where (\<lambda>x. ob_event_id x \<in> env_event_id ` set ?acc)
      (set_sent now) (db_outbox s2)" by simp
  have "same_rows s s1"
    using claim by (auto simp: unsent_events_def Let_def envelope_of_row_def
        intro!: same_rows_update [where f = "\<lambda>r. r\<lparr>ob_lease_id := Some l,
          ob_leased_until := Some (now + seconds DEFAULT_OUTBOX_LEASE_SECONDS)\<rparr>"])
  moreover have "same_rows s2 s'"
    by (rule same_rows_update [OF _ _ s']) simp_all
  ultimately have same: "same_rows s s'" using E same_rows_trans by blast
  have case_split: "e \<in> set (settled publish es) \<Longrightarrow> publish e = Accepted \<or> refused publish e" for e
    by (induction es) (auto simp: refused_def split: publish_outcome.splits if_splits)
  have out: "db_outbox s' = update_where (\<lambda>x. ob_event_id x \<in> env_event_id ` set (settled publish es))
      (set_sent now) (db_outbox s1)"
  proof -
    have "env_event_id ` set ?acc \<union> env_event_id ` set (filter (refused publish) (settled publish es)) =
        env_event_id ` set (settled publish es)" using case_split by auto
    with E show ?thesis by (simp only: s' set_sent_twice)
  qed
  have rows: "(ob_event_id x \<in> env_event_id ` set (settled publish es) \<longrightarrow> ob_sent_at x = Some now) \<and>
       (ob_event_id x \<notin> env_event_id ` set (settled publish es) \<longrightarrow> x \<in> set (db_outbox s1))"
    if "x \<in> set (db_outbox s')" for x
    using that unfolding out set_update_where by auto
  have count: "ra = None \<Longrightarrow> settled publish es = es"
    using b relay_batch_complete by blast
  have "\<forall>n. r = Inr n \<longrightarrow> settled publish es = es \<and> n = length (filter (\<lambda>e. publish e = Accepted) es)"
    using r count E by (auto split: option.splits)
  with same rows E show ?thesis by (auto simp: dl)
qed

section \<open>Properties\<close>

text \<open>
  Claim C9. A relay round never loses an event: every outbox row is still there with the
  same content, and a row it marks as sent was accepted by the broker or is now among the
  dead letters with its payload. When no publication fails, every event of the claimed batch
  is settled and the reported number is the number the broker accepted.
\<close>

theorem relay_marks_only_delivered:
  assumes "outbox_ok s" and "relay_run_once now l batch source locked publish s = (s', r)"
  shows "map envelope_of_row (db_outbox s') = map envelope_of_row (db_outbox s) \<and>
    (\<forall>x' \<in> set (db_outbox s'). ob_sent_at x' = None \<or>
       (\<exists>x \<in> set (db_outbox s). ob_id x = ob_id x' \<and> ob_sent_at x \<noteq> None) \<or>
       publish (envelope_of_row x') = Accepted \<or>
       (\<exists>d \<in> set (db_dead_letters s'). dl_original_event_id d = ob_event_id x' \<and> dl_payload d = ob_payload x')) \<and>
    ((\<forall>x \<in> set (db_outbox s). \<forall>err. publish (envelope_of_row x) \<noteq> Failure err) \<longrightarrow>
     (\<exists>es s1. unsent_events now l batch source locked s = (s1, es) \<and>
        r = Inr (length (filter (\<lambda>e. publish e = Accepted) es)) \<and>
        (\<forall>x' \<in> set (db_outbox s'). ob_event_id x' \<in> env_event_id ` set es \<longrightarrow> ob_sent_at x' \<noteq> None)))"
proof -
  obtain s1 es where claim: "unsent_events now l batch source locked s = (s1, es)" by fastforce
  note E = relay_run_effects [OF assms(1) claim assms(2)]
  note B = unsent_batch [OF assms(1) claim]
  have same: "map envelope_of_row (db_outbox s') = map envelope_of_row (db_outbox s)"
    using E by (simp add: same_rows_def)
  have uniq: "unique_key ob_event_id (db_outbox s')"
  proof -
    have "map (env_event_id \<circ> envelope_of_row) (db_outbox s') = map (env_event_id \<circ> envelope_of_row) (db_outbox s)"
      using same by (metis map_map)
    then show ?thesis using assms(1) by (simp add: outbox_ok_def unique_key_def comp_def)
  qed
  have kept: "\<exists>x \<in> set (db_outbox s). ob_id x = ob_id y \<and> ob_sent_at x = ob_sent_at y"
    if "y \<in> set (db_outbox s1)" for y
  proof -
    let ?p = "\<lambda>r. ob_id r \<in> set (map ob_id (claimable_outbox now batch source locked s))"
    let ?f = "\<lambda>r. r\<lparr>ob_lease_id := Some l,
      ob_leased_until := Some (now + seconds DEFAULT_OUTBOX_LEASE_SECONDS)\<rparr>"
    have "db_outbox s1 = update_where ?p ?f (db_outbox s)"
      using claim by (auto simp: unsent_events_def Let_def)
    with that obtain x where x: "x \<in> set (db_outbox s)" "y = (if ?p x then ?f x else x)"
      using in_update_where [of y ?p ?f "db_outbox s"] by metis
    then have "ob_id x = ob_id y \<and> ob_sent_at x = ob_sent_at y" by (cases "?p x") simp_all
    with x(1) show ?thesis by blast
  qed
  have each: "ob_sent_at x' = None \<or>
       (\<exists>x \<in> set (db_outbox s). ob_id x = ob_id x' \<and> ob_sent_at x \<noteq> None) \<or>
       publish (envelope_of_row x') = Accepted \<or>
       (\<exists>d \<in> set (db_dead_letters s'). dl_original_event_id d = ob_event_id x' \<and> dl_payload d = ob_payload x')"
    if x': "x' \<in> set (db_outbox s')" for x'
  proof (cases "ob_event_id x' \<in> env_event_id ` set (settled publish es)")
    case False
    with E x' have "x' \<in> set (db_outbox s1)" by blast
    from kept [OF this] show ?thesis by metis
  next
    case True
    then obtain e where e: "e \<in> set (settled publish es)" "ob_event_id x' = env_event_id e" by auto
    then have "e \<in> set es" using settled_subset by blast
    from B(3) [OF this] obtain y where y: "y \<in> set (db_outbox s)" "e = envelope_of_row y" by blast
    have "envelope_of_row y \<in> set (map envelope_of_row (db_outbox s'))"
      unfolding same using y(1) by simp
    then obtain y' where y': "y' \<in> set (db_outbox s')" "envelope_of_row y' = e" using y(2) by auto
    have "ob_event_id y' = ob_event_id x'" using y'(2) e(2) by (metis envelope_of_row_id)
    with y'(1) x' uniq have "y' = x'" by (blast intro: unique_keyD)
    with y'(2) have env: "e = envelope_of_row x'" by simp
    show ?thesis
    proof (cases "refused publish e")
      case True
      with E e(1) env show ?thesis by (fastforce simp: envelope_of_row_def)
    next
      case False
      have "publish e = Accepted \<or> refused publish e"
        using e(1) by (induction es) (auto simp: refused_def split: publish_outcome.splits if_splits)
      with False env show ?thesis by simp
    qed
  qed
  have finished: "\<exists>es s1. unsent_events now l batch source locked s = (s1, es) \<and>
        r = Inr (length (filter (\<lambda>e. publish e = Accepted) es)) \<and>
        (\<forall>x' \<in> set (db_outbox s'). ob_event_id x' \<in> env_event_id ` set es \<longrightarrow> ob_sent_at x' \<noteq> None)"
    if nofail: "\<forall>x \<in> set (db_outbox s). \<forall>err. publish (envelope_of_row x) \<noteq> Failure err"
  proof -
    have ok: "publish e \<noteq> Failure err" if "e \<in> set es" for e err
      using B(3) [OF that] nofail by auto
    have all: "settled publish es = es"
      using ok by (induction es) (auto split: publish_outcome.splits)
    have "\<exists>n. r = Inr n"
    proof -
      have "\<And>pub t. \<exists>t' pub'. relay_batch now (relay_consumer_name source) publish es pub t = (t', pub', None)"
        using ok by (induction es) (auto split: publish_outcome.splits)
      then obtain t' pub' where "relay_batch now (relay_consumer_name source) publish es [] s1 = (t', pub', None)"
        by blast
      with assms(2) claim show ?thesis by (auto simp: relay_run_once_def Let_def)
    qed
    with E all have "r = Inr (length (filter (\<lambda>e. publish e = Accepted) es))" by auto
    with claim E all show ?thesis by auto
  qed
  from same each finished show ?thesis by blast
qed

theorem relay_marks_only_delivered_witness:
  "\<exists>s' r. relay_run_once 0 ''l'' 10 None (\<lambda>_. False) (\<lambda>e. Accepted) demo_outbox = (s', r) \<and> r = Inr 2"
proof -
  obtain s' r where run: "relay_run_once 0 ''l'' 10 None (\<lambda>_. False) (\<lambda>e. Accepted) demo_outbox = (s', r)"
    by fastforce
  have "length (snd (unsent_events 0 ''l'' 10 None (\<lambda>_. False) demo_outbox)) = 2" by code_simp
  with relay_marks_only_delivered [OF demo_outbox_ok run] run show ?thesis by auto
qed

end
