(* ===== verification/Event_Worker.thy ===== *)
theory Event_Worker
  imports Event_Relay
begin

text \<open>
  The event worker of \<^verbatim>\<open>src/src/packages/runtime/worker.py\<close> and the dead letter sink of
  \<^verbatim>\<open>src/src/packages/events/bus.py\<close>. A handler is a parameter: it turns the business state
  into a new one with the events to emit next, or raises (a timeout is one of the ways).
  Claim, work and failure are separate transactions, so several instances of a service
  interleave; the step relation at the end runs them against one database and clock.
\<close>

record retry_policy =
  rp_max_attempts :: int
  rp_retry_delay :: int
  rp_handler_timeout :: int
  rp_dead_letter_timeout :: int

definition default_retry_policy :: retry_policy where
  "default_retry_policy = \<lparr>rp_max_attempts = 3, rp_retry_delay = 2, rp_handler_timeout = 30,
     rp_dead_letter_timeout = 10\<rparr>"

definition ack_wait_default :: int where
  "ack_wait_default = 60"

definition validate_event_timing_contract :: "int \<Rightarrow> int \<Rightarrow> int \<Rightarrow> string + unit" where
  "validate_event_timing_contract handler_timeout ack_wait stale =
     (if handler_timeout < ack_wait \<and> ack_wait < stale then Inr ()
      else Inl ''unsafe event timing contract'')"

definition durable_name :: "string \<Rightarrow> string option \<Rightarrow> string" where
  "durable_name service_name name =
     (case name of None \<Rightarrow> service_name | Some n \<Rightarrow> service_name @ ''-'' @ n)"

text \<open>The slug of a subject: dots become dashes, the wildcards words.\<close>

definition subject_slug :: "string \<Rightarrow> string" where
  "subject_slug subject = concat (map (\<lambda>c. if c = CHR ''.'' then ''-''
     else if c = CHR ''>'' then ''all'' else if c = CHR ''*'' then ''any'' else [c]) subject)"

definition durable_for :: "string \<Rightarrow> string option \<Rightarrow> string list \<Rightarrow> string \<Rightarrow> string" where
  "durable_for service_name name subjects subject =
     (if length subjects \<le> 1 then durable_name service_name name
      else durable_name service_name name @ ''-'' @ subject_slug subject)"

datatype settlement = Ack | Nak int

section \<open>The dead letter sink\<close>

definition dead_letter_body :: "dead_letter_row \<Rightarrow> (time \<Rightarrow> string) \<Rightarrow> jobj" where
  "dead_letter_body d fmt =
     [(''dead_letter_id'', JInt (int (dl_id d))),
      (''original_event_id'', JStr (dl_original_event_id d)),
      (''original_subject'', JStr (dl_original_subject d)),
      (''consumer'', JStr (dl_consumer d)), (''attempts'', JInt (int (dl_attempts d))),
      (''error'', JStr (dl_error d)), (''created_at'', JStr (fmt (dl_created_at d))),
      (''status'', JStr ''open''), (''correlation_id'', JStr (dl_correlation_id d))]"

text \<open>
  \<open>emitted\<close>: whether the broker took the notification (and how \<open>fmt\<close> writes the time). The
  dead letter row is committed before, so it stays when the notification fails.
\<close>

definition capture_dead_letter ::
    "time \<Rightarrow> string \<Rightarrow> (time \<Rightarrow> string) \<Rightarrow> bool \<Rightarrow> string \<Rightarrow> envelope \<Rightarrow> string \<Rightarrow> string \<Rightarrow> nat \<Rightarrow> db \<Rightarrow>
     db \<times> bool" where
  "capture_dead_letter now fresh fmt emitted source e consumer error attempts s =
     (let (s1, d) = record_dead_letter now e consumer error attempts s in
      if emitted
      then (record_event now
              (make_event fresh now (normalized_workspace_id (env_workspace_id e))
                 ''dead_letter.created'' source (dead_letter_body d fmt)
                 (Some (env_correlation_id e)) (Some (env_event_id e)) None) s1, True)
      else (s1, False))"

definition capture_raw_dead_letter ::
    "time \<Rightarrow> string \<Rightarrow> string \<Rightarrow> (time \<Rightarrow> string) \<Rightarrow> bool \<Rightarrow> string \<Rightarrow> string \<Rightarrow> string \<Rightarrow> string \<Rightarrow> db \<Rightarrow>
     db \<times> bool" where
  "capture_raw_dead_letter now fresh fresh_event fmt emitted source decoded consumer error s =
     (let (s1, d) = record_raw_dead_letter now fresh decoded consumer error s in
      if emitted
      then (record_event now
              (make_event fresh_event now None ''dead_letter.created'' source
                 (dead_letter_body d fmt @ [(''payload'', JObj (dl_payload d))])
                 (Some (dl_correlation_id d)) (Some (dl_original_event_id d)) None) s1, True)
      else (s1, False))"

section \<open>Processing one message\<close>

type_synonym 'b handler = "envelope \<Rightarrow> 'b \<Rightarrow> string + 'b \<times> envelope list"

text \<open>The transaction of a successful handler: next events and the closed ledger row.\<close>

definition commit_work ::
    "time \<Rightarrow> string \<Rightarrow> envelope \<Rightarrow> int \<Rightarrow> envelope list \<Rightarrow> db \<Rightarrow> db" where
  "commit_work now consumer e duration outs s =
     ledger_finish now consumer e (Some duration) (stage_events outs s)"

text \<open>\<open>fail\<close>: retry, or capture in the dead letters first and close the row afterwards.\<close>

definition fail_message ::
    "retry_policy \<Rightarrow> time \<Rightarrow> time \<Rightarrow> string \<Rightarrow> (time \<Rightarrow> string) \<Rightarrow> bool \<Rightarrow> string \<Rightarrow> envelope \<Rightarrow> string \<Rightarrow>
     nat \<Rightarrow> int \<Rightarrow> db \<Rightarrow> db \<times> settlement" where
  "fail_message policy now now_captured fresh fmt emitted consumer e error attempts duration s =
     (if rp_max_attempts policy \<le> int attempts
      then case capture_dead_letter now_captured fresh fmt emitted consumer e consumer error attempts s of
             (s1, True) \<Rightarrow> (ledger_dead_letter now_captured consumer e error (Some duration) s1, Ack)
           | (s1, False) \<Rightarrow> (ledger_retry now_captured consumer e error (Some duration) s1,
                            Nak (rp_retry_delay policy))
      else (ledger_retry now consumer e error (Some duration) s, Nak (rp_retry_delay policy)))"

definition process_event ::
    "retry_policy \<Rightarrow> int \<Rightarrow> time \<Rightarrow> time \<Rightarrow> time \<Rightarrow> string \<Rightarrow> (time \<Rightarrow> string) \<Rightarrow> bool \<Rightarrow> string \<Rightarrow>
     'b handler \<Rightarrow> int \<Rightarrow> envelope \<Rightarrow> db \<times> 'b \<Rightarrow> (db \<times> 'b) \<times> settlement" where
  "process_event policy stale now now_done now_captured fresh fmt emitted consumer handler duration e st =
     (let (s1, r) = ledger_begin now stale consumer e (fst st) in
      case pr_status r of
        Stored Processed \<Rightarrow> ((s1, snd st), Ack)
      | Stored DeadLettered \<Rightarrow> ((s1, snd st), Ack)
      | Stored Processing \<Rightarrow>
          (case handler e (snd st) of
             Inr (b, outs) \<Rightarrow> ((commit_work now_done consumer e duration outs s1, b), Ack)
           | Inl error \<Rightarrow>
               (let (s2, settle) = fail_message policy now_done now_captured fresh fmt emitted consumer e
                                     error (pr_attempts r) duration s1
                in ((s2, snd st), settle)))
      | _ \<Rightarrow> ((s1, snd st), Nak (rp_retry_delay policy)))"

text \<open>The message as the broker delivers it: undecodable ones are captured raw.\<close>

definition process_message ::
    "retry_policy \<Rightarrow> int \<Rightarrow> time \<Rightarrow> time \<Rightarrow> time \<Rightarrow> string \<Rightarrow> string \<Rightarrow> (time \<Rightarrow> string) \<Rightarrow> bool \<Rightarrow> string \<Rightarrow>
     'b handler \<Rightarrow> int \<Rightarrow> (string \<Rightarrow> string + envelope) \<Rightarrow> string \<Rightarrow> db \<times> 'b \<Rightarrow> (db \<times> 'b) \<times> settlement" where
  "process_message policy stale now now_done now_captured fresh fresh_event fmt emitted consumer handler
     duration decode raw st =
     (case decode raw of
        Inl error \<Rightarrow>
          (case capture_raw_dead_letter now fresh fresh_event fmt emitted consumer raw consumer error (fst st) of
             (s1, True) \<Rightarrow> ((s1, snd st), Ack)
           | (s1, False) \<Rightarrow> ((s1, snd st), Nak (rp_retry_delay policy)))
      | Inr e \<Rightarrow> process_event policy stale now now_done now_captured fresh fmt emitted consumer handler
                   duration e st)"

section \<open>Instances of one service running side by side\<close>

datatype worker_state =
    Idle
  | Handling envelope nat time
  | Capturing envelope nat time string

record 'b system =
  sy_now :: time
  sy_db :: db
  sy_business :: 'b
  sy_worker :: "nat \<Rightarrow> worker_state"
  sy_committed :: "envelope list"
  sy_acked :: "string list"

text \<open>
  \<open>sy_committed\<close> lists the events whose handler's transaction committed, in order, and
  \<open>sy_acked\<close> those the broker was told to forget; both only record. A handler runs at most
  its timeout, a capture at most its own (\<open>asyncio.wait_for\<close>). Any instance may be handed any
  event at any time (the broker redelivers), may crash, and everything else in the database
  may change, except this consumer's ledger rows and that dead letters disappear.
\<close>

inductive worker_step ::
    "retry_policy \<Rightarrow> int \<Rightarrow> string \<Rightarrow> 'b handler \<Rightarrow> 'b system \<Rightarrow> 'b system \<Rightarrow> bool"
  for policy stale consumer handler where
  tick: "0 \<le> d \<Longrightarrow> worker_step policy stale consumer handler y (y\<lparr>sy_now := sy_now y + d\<rparr>)"
| claimed: "sy_worker y w = Idle \<Longrightarrow> ledger_begin (sy_now y) stale consumer e (sy_db y) = (s, r) \<Longrightarrow>
    pr_status r = Stored Processing \<Longrightarrow>
    worker_step policy stale consumer handler y
      (y\<lparr>sy_db := s, sy_worker := (sy_worker y)(w := Handling e (pr_attempts r) (sy_now y))\<rparr>)"
| skipped: "sy_worker y w = Idle \<Longrightarrow> ledger_begin (sy_now y) stale consumer e (sy_db y) = (s, r) \<Longrightarrow>
    pr_status r \<in> {Stored Processed, Stored DeadLettered} \<Longrightarrow>
    worker_step policy stale consumer handler y
      (y\<lparr>sy_db := s, sy_acked := env_event_id e # sy_acked y\<rparr>)"
| deferred: "sy_worker y w = Idle \<Longrightarrow> ledger_begin (sy_now y) stale consumer e (sy_db y) = (s, r) \<Longrightarrow>
    pr_status r \<notin> {Stored Processing, Stored Processed, Stored DeadLettered} \<Longrightarrow>
    worker_step policy stale consumer handler y (y\<lparr>sy_db := s\<rparr>)"
| committed: "sy_worker y w = Handling e n t \<Longrightarrow> sy_now y \<le> t + seconds (rp_handler_timeout policy) \<Longrightarrow>
    handler e (sy_business y) = Inr (b, outs) \<Longrightarrow>
    worker_step policy stale consumer handler y
      (y\<lparr>sy_db := commit_work (sy_now y) consumer e d outs (sy_db y), sy_business := b,
         sy_worker := (sy_worker y)(w := Idle), sy_committed := sy_committed y @ [e],
         sy_acked := env_event_id e # sy_acked y\<rparr>)"
| retried: "sy_worker y w = Handling e n t \<Longrightarrow> sy_now y \<le> t + seconds (rp_handler_timeout policy) \<Longrightarrow>
    int n < rp_max_attempts policy \<Longrightarrow>
    worker_step policy stale consumer handler y
      (y\<lparr>sy_db := ledger_retry (sy_now y) consumer e err d (sy_db y),
         sy_worker := (sy_worker y)(w := Idle)\<rparr>)"
| exhausted: "sy_worker y w = Handling e n t \<Longrightarrow> sy_now y \<le> t + seconds (rp_handler_timeout policy) \<Longrightarrow>
    rp_max_attempts policy \<le> int n \<Longrightarrow>
    worker_step policy stale consumer handler y
      (y\<lparr>sy_worker := (sy_worker y)(w := Capturing e n t err)\<rparr>)"
| captured: "sy_worker y w = Capturing e n t err \<Longrightarrow>
    sy_now y \<le> t + seconds (rp_handler_timeout policy + rp_dead_letter_timeout policy) \<Longrightarrow>
    capture_dead_letter (sy_now y) fresh fmt True consumer e consumer err n (sy_db y) = (s, True) \<Longrightarrow>
    worker_step policy stale consumer handler y
      (y\<lparr>sy_db := ledger_dead_letter (sy_now y) consumer e err d s,
         sy_worker := (sy_worker y)(w := Idle), sy_acked := env_event_id e # sy_acked y\<rparr>)"
| uncaptured: "sy_worker y w = Capturing e n t err \<Longrightarrow>
    sy_now y \<le> t + seconds (rp_handler_timeout policy + rp_dead_letter_timeout policy) \<Longrightarrow>
    s = sy_db y \<or> capture_dead_letter (sy_now y) fresh fmt False consumer e consumer err n (sy_db y) = (s, False) \<Longrightarrow>
    worker_step policy stale consumer handler y
      (y\<lparr>sy_db := ledger_retry (sy_now y) consumer e err d s, sy_worker := (sy_worker y)(w := Idle)\<rparr>)"
| crashed: "worker_step policy stale consumer handler y (y\<lparr>sy_worker := (sy_worker y)(w := Idle)\<rparr>)"
| elsewhere: "(\<And>i. ledger s consumer i = ledger (sy_db y) consumer i) \<Longrightarrow>
    (\<And>d. d \<in> set (db_dead_letters (sy_db y)) \<Longrightarrow> \<exists>d' \<in> set (db_dead_letters s).
       dl_original_event_id d' = dl_original_event_id d \<and> dl_consumer d' = dl_consumer d) \<Longrightarrow>
    worker_step policy stale consumer handler y (y\<lparr>sy_db := s\<rparr>)"

inductive_cases worker_stepE: "worker_step policy stale consumer handler y y'"

definition system_start :: "string \<Rightarrow> 'b \<Rightarrow> 'b system \<Rightarrow> bool" where
  "system_start consumer b0 y \<longleftrightarrow>
     (\<forall>i. ledger (sy_db y) consumer i = None) \<and> sy_business y = b0 \<and>
     (\<forall>w. sy_worker y w = Idle) \<and> sy_committed y = [] \<and> sy_acked y = []"

section \<open>Invariant\<close>

fun holds :: "worker_state \<Rightarrow> (string \<times> time) option" where
  "holds Idle = None"
| "holds (Handling e n t) = Some (env_event_id e, t)"
| "holds (Capturing e n t err) = Some (env_event_id e, t)"

definition live :: "int \<Rightarrow> time \<Rightarrow> time \<Rightarrow> bool" where
  "live stale now t \<longleftrightarrow> t \<le> now \<and> now \<le> t + seconds stale"

fun run_handlers :: "'b handler \<Rightarrow> envelope list \<Rightarrow> 'b \<Rightarrow> 'b option" where
  "run_handlers handler [] b = Some b"
| "run_handlers handler (e # es) b =
     (case handler e b of Inl err \<Rightarrow> None | Inr (b', outs) \<Rightarrow> run_handlers handler es b')"

definition row_open :: "db \<Rightarrow> string \<Rightarrow> string \<Rightarrow> time \<Rightarrow> bool" where
  "row_open s consumer i t \<longleftrightarrow>
     (\<exists>r. ledger s consumer i = Some r \<and> ep_status r = Processing \<and> ep_updated_at r = t)"

definition closed_as :: "db \<Rightarrow> string \<Rightarrow> string \<Rightarrow> processing_status \<Rightarrow> bool" where
  "closed_as s consumer i st \<longleftrightarrow> (\<exists>r. ledger s consumer i = Some r \<and> ep_status r = st)"

definition dead_letter_for :: "db \<Rightarrow> string \<Rightarrow> string \<Rightarrow> bool" where
  "dead_letter_for s consumer i \<longleftrightarrow>
     (\<exists>d \<in> set (db_dead_letters s). dl_original_event_id d = i \<and> dl_consumer d = consumer)"

definition worker_inv :: "int \<Rightarrow> string \<Rightarrow> 'b handler \<Rightarrow> 'b \<Rightarrow> 'b system \<Rightarrow> bool" where
  "worker_inv stale consumer handler b0 y \<longleftrightarrow>
     (\<forall>w i t. holds (sy_worker y w) = Some (i, t) \<longrightarrow>
        t \<le> sy_now y \<and> (live stale (sy_now y) t \<longrightarrow> row_open (sy_db y) consumer i t)) \<and>
     (\<forall>w w' i t t'. w \<noteq> w' \<longrightarrow> holds (sy_worker y w) = Some (i, t) \<longrightarrow>
        holds (sy_worker y w') = Some (i, t') \<longrightarrow>
        \<not> (live stale (sy_now y) t \<and> live stale (sy_now y) t')) \<and>
     (\<forall>e \<in> set (sy_committed y). closed_as (sy_db y) consumer (env_event_id e) Processed) \<and>
     distinct (map env_event_id (sy_committed y)) \<and>
     run_handlers handler (sy_committed y) b0 = Some (sy_business y) \<and>
     (\<forall>i. closed_as (sy_db y) consumer i Processed \<longrightarrow> i \<in> env_event_id ` set (sy_committed y)) \<and>
     (\<forall>i. closed_as (sy_db y) consumer i DeadLettered \<longrightarrow> dead_letter_for (sy_db y) consumer i) \<and>
     (\<forall>i \<in> set (sy_acked y). i \<in> env_event_id ` set (sy_committed y) \<or> dead_letter_for (sy_db y) consumer i)"

lemma worker_invD:
  assumes "worker_inv stale consumer handler b0 y"
  shows "holds (sy_worker y w) = Some (i, t) \<Longrightarrow> t \<le> sy_now y"
    "holds (sy_worker y w) = Some (i, t) \<Longrightarrow> live stale (sy_now y) t \<Longrightarrow> row_open (sy_db y) consumer i t"
    "w \<noteq> w' \<Longrightarrow> holds (sy_worker y w) = Some (i, t) \<Longrightarrow> holds (sy_worker y w') = Some (i, t') \<Longrightarrow>
       live stale (sy_now y) t \<Longrightarrow> live stale (sy_now y) t' \<Longrightarrow> False"
    "e \<in> set (sy_committed y) \<Longrightarrow> closed_as (sy_db y) consumer (env_event_id e) Processed"
    "distinct (map env_event_id (sy_committed y))"
    "run_handlers handler (sy_committed y) b0 = Some (sy_business y)"
    "closed_as (sy_db y) consumer i Processed \<Longrightarrow> i \<in> env_event_id ` set (sy_committed y)"
    "closed_as (sy_db y) consumer i DeadLettered \<Longrightarrow> dead_letter_for (sy_db y) consumer i"
    "i \<in> set (sy_acked y) \<Longrightarrow> i \<in> env_event_id ` set (sy_committed y) \<or> dead_letter_for (sy_db y) consumer i"
  using assms unfolding worker_inv_def by blast+

lemma run_handlers_snoc:
  "run_handlers handler es b0 = Some b \<Longrightarrow> handler e b = Inr (b', outs) \<Longrightarrow>
   run_handlers handler (es @ [e]) b0 = Some b'"
  by (induction es arbitrary: b0) (auto split: sum.splits)

lemma worker_inv_start:
  "system_start consumer b0 y \<Longrightarrow> worker_inv stale consumer handler b0 y"
  by (simp add: system_start_def worker_inv_def closed_as_def)

text \<open>
  The general step of an instance that holds a live claim on event \<open>i\<close>: it may rewrite the
  row of \<open>i\<close> as long as it lets go of it.
\<close>

lemma release_inv:
  assumes inv: "worker_inv stale consumer handler b0 y"
    and w: "holds (sy_worker y w) = Some (i, t)" and live: "live stale (sy_now y) t"
    and others: "\<And>j. j \<noteq> i \<Longrightarrow> ledger s consumer j = ledger (sy_db y) consumer j"
    and dead: "\<And>j. dead_letter_for (sy_db y) consumer j \<Longrightarrow> dead_letter_for s consumer j"
    and row: "closed_as s consumer i Retrying \<and> c = [] \<and> a = [] \<and> b = sy_business y \<or>
      closed_as s consumer i DeadLettered \<and> dead_letter_for s consumer i \<and> c = [] \<and> a = [i] \<and> b = sy_business y \<or>
      closed_as s consumer i Processed \<and> (\<exists>e outs. c = [e] \<and> env_event_id e = i \<and> a = [i] \<and>
        handler e (sy_business y) = Inr (b, outs))"
  shows "worker_inv stale consumer handler b0 (y\<lparr>sy_db := s, sy_business := b,
    sy_worker := (sy_worker y)(w := Idle), sy_committed := sy_committed y @ c, sy_acked := a @ sy_acked y\<rparr>)"
proof -
  note I = worker_invD [OF inv]
  have open_i: "row_open (sy_db y) consumer i t" by (rule I(2) [OF w live])
  then have fresh: "i \<notin> env_event_id ` set (sy_committed y)"
    using I(4) by (fastforce simp: row_open_def closed_as_def)
  have closed: "closed_as s consumer j st = closed_as (sy_db y) consumer j st" if "j \<noteq> i" for j st
    using others [OF that] by (simp add: closed_as_def)
  have ropen: "row_open s consumer j u = row_open (sy_db y) consumer j u" if "j \<noteq> i" for j u
    using others [OF that] by (simp add: row_open_def)
  have gone: "\<not> live stale (sy_now y) u" if "w' \<noteq> w" "holds (sy_worker y w') = Some (i, u)" for w' u
    using I(3) [OF that(1) that(2) w _ live] by blast
  have unique: "closed_as s consumer i st \<Longrightarrow> closed_as s consumer i st' \<Longrightarrow> st = st'" for st st'
    by (auto simp: closed_as_def)
  let ?y = "y\<lparr>sy_db := s, sy_business := b, sy_worker := (sy_worker y)(w := Idle),
    sy_committed := sy_committed y @ c, sy_acked := a @ sy_acked y\<rparr>"
  have 1: "t' \<le> sy_now ?y \<and> (live stale (sy_now ?y) t' \<longrightarrow> row_open (sy_db ?y) consumer j t')"
    if "holds (sy_worker ?y w') = Some (j, t')" for w' j t'
  proof -
    from that have w': "w' \<noteq> w" "holds (sy_worker y w') = Some (j, t')" by (auto split: if_splits)
    show ?thesis
    proof (cases "j = i")
      case True
      with gone [OF w'(1)] w'(2) I(1) [OF w'(2)] show ?thesis by simp
    next
      case False
      with I(1) [OF w'(2)] I(2) [OF w'(2)] ropen show ?thesis by simp
    qed
  qed
  have 2: "\<not> (live stale (sy_now ?y) u \<and> live stale (sy_now ?y) u')"
    if "w1 \<noteq> w2" "holds (sy_worker ?y w1) = Some (j, u)" "holds (sy_worker ?y w2) = Some (j, u')" for w1 w2 j u u'
    using that I(3) [OF that(1), of j u u'] by (auto split: if_splits)
  have 3: "closed_as s consumer (env_event_id e) Processed" if "e \<in> set (sy_committed y @ c)" for e
  proof (cases "e \<in> set (sy_committed y)")
    case True
    with fresh have "env_event_id e \<noteq> i" by auto
    with I(4) [OF True] closed show ?thesis by simp
  next
    case False
    with that row show ?thesis by auto
  qed
  have 4: "distinct (map env_event_id (sy_committed y @ c))"
    using I(5) fresh row by (auto simp: rev_image_eqI)
  have 5: "run_handlers handler (sy_committed y @ c) b0 = Some b"
    using row I(6) run_handlers_snoc [OF I(6)] by auto
  have 6: "j \<in> env_event_id ` set (sy_committed y @ c)" if "closed_as s consumer j Processed" for j
  proof (cases "j = i")
    case True
    with that row unique [of Processed] show ?thesis by auto
  next
    case False
    with that closed I(7) [of j] show ?thesis by (simp add: image_Un)
  qed
  have 7: "dead_letter_for s consumer j" if "closed_as s consumer j DeadLettered" for j
  proof (cases "j = i")
    case True
    with that row unique [of DeadLettered] show ?thesis by auto
  next
    case False
    with that closed I(8) dead show ?thesis by auto
  qed
  have 8: "j \<in> env_event_id ` set (sy_committed y @ c) \<or> dead_letter_for s consumer j"
    if "j \<in> set (a @ sy_acked y)" for j
    using that row I(9) [of j] dead by auto
  show ?thesis
    unfolding worker_inv_def
    using 1 2 3 4 5 6 7 8 by (intro conjI allI ballI impI; simp del: fun_upd_apply)
qed

text \<open>Changes outside this consumer's rows.\<close>

lemma closed_as_cong: "(\<And>i. ledger s c i = ledger s' c i) \<Longrightarrow> closed_as s c i st = closed_as s' c i st"
  by (simp add: closed_as_def)

lemma worker_inv_ledger_cong:
  assumes inv: "worker_inv stale consumer handler b0 y"
    and led: "\<And>i. ledger s consumer i = ledger (sy_db y) consumer i"
    and dead: "\<And>j. dead_letter_for (sy_db y) consumer j \<Longrightarrow> dead_letter_for s consumer j"
  shows "worker_inv stale consumer handler b0 (y\<lparr>sy_db := s\<rparr>)"
  using inv dead unfolding worker_inv_def
  by (auto simp: row_open_def closed_as_def led)

text \<open>An instance takes a claim: nobody else can hold a live one.\<close>

lemma claim_inv:
  assumes inv: "worker_inv stale consumer handler b0 y"
    and w: "sy_worker y w = Idle"
    and step: "ledger_begin (sy_now y) stale consumer e (sy_db y) = (s, r)"
    and st: "pr_status r = Stored Processing"
  shows "worker_inv stale consumer handler b0
    (y\<lparr>sy_db := s, sy_worker := (sy_worker y)(w := Handling e n (sy_now y))\<rparr>)"
proof -
  note I = worker_invD [OF inv]
  let ?i = "env_event_id e"
  have B: "(\<exists>row. ledger s consumer ?i = Some row \<and> ep_status row = Processing \<and>
        ep_updated_at row = sy_now y) \<and>
     (case ledger (sy_db y) consumer ?i of None \<Rightarrow> True | Some old \<Rightarrow> reclaimable (sy_now y) stale old) \<and>
     (\<forall>j. j \<noteq> ?i \<longrightarrow> ledger s consumer j = ledger (sy_db y) consumer j)"
    using begin_cases [OF step] st
    by (auto split: option.splits if_splits) 
  have gone: "\<not> live stale (sy_now y) t" if "holds (sy_worker y w') = Some (?i, t)" for w' t
  proof
    assume live: "live stale (sy_now y) t"
    from I(2) [OF that this] B live show False
      by (auto simp: row_open_def reclaimable_def live_def)
  qed
  have dl: "db_dead_letters s = db_dead_letters (sy_db y)"
    using step by (auto simp: ledger_begin_def begin_event_processing_def claim_event_processing_def
        record_event_def split: prod.splits option.splits if_splits)
  have ropen: "row_open s consumer j t = row_open (sy_db y) consumer j t" if "j \<noteq> ?i" for j t
    using B that by (simp add: row_open_def)
  have closed: "closed_as s consumer j x \<longleftrightarrow> closed_as (sy_db y) consumer j x"
    if "x \<in> {Processed, DeadLettered}" for j x
  proof (cases "j = ?i")
    case True
    have "\<not> closed_as s consumer ?i x" using B that by (auto simp: closed_as_def)
    moreover have "\<not> closed_as (sy_db y) consumer ?i x"
      using B that by (auto simp: closed_as_def reclaimable_def TERMINAL_STATUSES_def)
    ultimately show ?thesis using True by simp
  qed (use B in \<open>simp add: closed_as_def\<close>)
  let ?y = "y\<lparr>sy_db := s, sy_worker := (sy_worker y)(w := Handling e n (sy_now y))\<rparr>"
  have 1: "t \<le> sy_now ?y \<and> (live stale (sy_now ?y) t \<longrightarrow> row_open (sy_db ?y) consumer j t)"
    if h: "holds (sy_worker ?y w') = Some (j, t)" for w' j t
  proof (cases "w' = w")
    case True
    with h B show ?thesis by (auto simp: row_open_def)
  next
    case False
    with h have h': "holds (sy_worker y w') = Some (j, t)" by simp
    show ?thesis
    proof (cases "j = ?i")
      case True
      with gone h' I(1) [OF h'] show ?thesis by simp
    next
      case False
      with I(1) [OF h'] I(2) [OF h'] ropen show ?thesis by simp
    qed
  qed
  have 2: "\<not> (live stale (sy_now ?y) t \<and> live stale (sy_now ?y) t')"
    if "w1 \<noteq> w2" "holds (sy_worker ?y w1) = Some (j, t)" "holds (sy_worker ?y w2) = Some (j, t')" for w1 w2 j t t'
  proof (cases "w1 = w \<or> w2 = w")
    case True
    with that gone show ?thesis by (auto split: if_splits)
  next
    case False
    with that I(3) [OF that(1), of j t t'] show ?thesis by auto
  qed
  have d: "dead_letter_for s consumer j = dead_letter_for (sy_db y) consumer j" for j
    by (simp add: dead_letter_for_def dl)
  show ?thesis
    unfolding worker_inv_def
    using 1 2 I(4-9) closed d by (intro conjI allI ballI impI; simp del: fun_upd_apply)
qed

lemma dead_letter_capture:
  assumes "capture_dead_letter now fresh fmt em src e consumer err n s = (s', b)"
  shows "\<And>j. dead_letter_for s c j \<Longrightarrow> dead_letter_for s' c j"
    "dead_letter_for s' consumer (env_event_id e)" "\<And>j. ledger s' c j = ledger s c j"
proof -
  obtain t d where t: "record_dead_letter now e consumer err n s = (t, d)" by fastforce
  then have I: "insert_dead_letter now (env_event_id e) (env_subject e) consumer (env_correlation_id e) n
      (compact_error err) (env_payload e) s = (t, d)" by (simp add: record_dead_letter_def)
  note F = insert_dead_letter_frame [OF I]
  have s': "db_dead_letters s' = db_dead_letters t" "db_processing s' = db_processing t"
    using assms t by (auto simp: capture_dead_letter_def split: if_splits)
  show "dead_letter_for s c j \<Longrightarrow> dead_letter_for s' c j" for j
    using F(1) s'(1) by (auto simp: dead_letter_for_def)
  show "dead_letter_for s' consumer (env_event_id e)"
    using F(1,5,6) s'(1) by (auto simp: dead_letter_for_def)
  show "ledger s' c j = ledger s c j" for j
    using F(2) s'(2) by (simp add: ledger_def)
qed

lemma row_open_fail:
  assumes "row_open s consumer (env_event_id e) t"
  shows "closed_as (fail_event_processing now e consumer err st d s) consumer (env_event_id e) st"
  using assms by (auto simp: row_open_def closed_as_def ledger_fail_at)

lemma row_open_finish:
  assumes "row_open s consumer (env_event_id e) t"
  shows "closed_as (commit_work now consumer e d outs s) consumer (env_event_id e) Processed"
  using assms by (auto simp: row_open_def closed_as_def commit_work_def ledger_finish_at)

lemma dead_letters_fail [simp]:
  "dead_letter_for (fail_event_processing now e consumer err st d s) c j = dead_letter_for s c j"
  by (simp add: dead_letter_for_def fail_event_processing_def)

lemma stage_events_dead [simp]: "db_dead_letters (stage_events es s) = db_dead_letters s"
  by (induction es arbitrary: s) simp_all

lemma dead_letters_commit [simp]:
  "dead_letter_for (commit_work now consumer e d outs s) c j = dead_letter_for s c j"
  by (simp add: dead_letter_for_def commit_work_def ledger_finish_def finish_event_processing_def)

lemma ledger_commit_other:
  "j \<noteq> env_event_id e \<Longrightarrow> ledger (commit_work now consumer e d outs s) c j = ledger s c j"
  by (simp add: commit_work_def ledger_finish_at)

text \<open>
  The timers in order: an instance acts on its claim only while no other may take it. This
  asks for the capture's timeout as well as the handler's.
\<close>

definition timers_safe :: "retry_policy \<Rightarrow> int \<Rightarrow> bool" where
  "timers_safe policy stale \<longleftrightarrow> 0 \<le> rp_dead_letter_timeout policy \<and>
     rp_handler_timeout policy + rp_dead_letter_timeout policy \<le> stale"

lemma live_handler:
  "timers_safe policy stale \<Longrightarrow> t \<le> now \<Longrightarrow> now \<le> t + seconds (rp_handler_timeout policy) \<Longrightarrow> live stale now t"
  using seconds_mono [of "rp_handler_timeout policy" stale]
  by (auto simp: timers_safe_def live_def simp del: seconds_mono)

lemma live_capture:
  "timers_safe policy stale \<Longrightarrow> t \<le> now \<Longrightarrow>
   now \<le> t + seconds (rp_handler_timeout policy + rp_dead_letter_timeout policy) \<Longrightarrow> live stale now t"
  using seconds_mono [of "rp_handler_timeout policy + rp_dead_letter_timeout policy" stale]
  by (auto simp: timers_safe_def live_def simp del: seconds_mono)

lemma worker_inv_step:
  assumes inv: "worker_inv stale consumer handler b0 y" and timers: "timers_safe policy stale"
    and step: "worker_step policy stale consumer handler y y'"
  shows "worker_inv stale consumer handler b0 y'"
  using step
proof (cases rule: worker_step.cases)
  case (tick d)
  then show ?thesis
    using inv unfolding worker_inv_def tick(1)
    by (auto simp: live_def) (smt (verit))+
next
  case (claimed w e s r)
  then show ?thesis using claim_inv [OF inv] by simp
next
  case (skipped w e s r)
  from begin_cases [OF skipped(3)] skipped(4) obtain old where
    s: "s = record_event (sy_now y) e (sy_db y)" and old: "ledger (sy_db y) consumer (env_event_id e) = Some old"
      "pr_status r = (if ep_status old = Processing then ClaimBlocked else Stored (ep_status old))" by auto
  have "worker_inv stale consumer handler b0 (y\<lparr>sy_db := s\<rparr>)"
    by (rule worker_inv_ledger_cong [OF inv]) (simp_all add: s dead_letter_for_def)
  moreover have "env_event_id e \<in> env_event_id ` set (sy_committed y) \<or>
      dead_letter_for s consumer (env_event_id e)"
    using old skipped(4) worker_invD(7,8) [OF inv, of "env_event_id e"]
    by (auto simp: closed_as_def s dead_letter_for_def split: if_splits)
  ultimately show ?thesis
    unfolding skipped(1) worker_inv_def by simp
next
  case (deferred w e s r)
  from begin_cases [OF deferred(3)] deferred(4) have s: "s = record_event (sy_now y) e (sy_db y)" by auto
  show ?thesis
    unfolding deferred(1)
    by (rule worker_inv_ledger_cong [OF inv]) (simp_all add: s dead_letter_for_def)
next
  case (committed w e n t b outs d)
  from committed(2) have h: "holds (sy_worker y w) = Some (env_event_id e, t)" by simp
  note live = live_handler [OF timers worker_invD(1) [OF inv h] committed(3)]
  have "worker_inv stale consumer handler b0 (y\<lparr>sy_db := commit_work (sy_now y) consumer e d outs (sy_db y),
      sy_business := b, sy_worker := (sy_worker y)(w := Idle), sy_committed := sy_committed y @ [e],
      sy_acked := [env_event_id e] @ sy_acked y\<rparr>)"
    by (rule release_inv [OF inv h live])
      (use committed(4) row_open_finish [OF worker_invD(2) [OF inv h live]] in
        \<open>auto simp: ledger_commit_other\<close>)
  then show ?thesis by (simp add: committed(1))
next
  case (retried w e n t err d)
  from retried(2) have h: "holds (sy_worker y w) = Some (env_event_id e, t)" by simp
  note live = live_handler [OF timers worker_invD(1) [OF inv h] retried(3)]
  have "worker_inv stale consumer handler b0 (y\<lparr>sy_db := ledger_retry (sy_now y) consumer e err d (sy_db y),
      sy_business := sy_business y, sy_worker := (sy_worker y)(w := Idle), sy_committed := sy_committed y @ [],
      sy_acked := [] @ sy_acked y\<rparr>)"
    by (rule release_inv [OF inv h live])
      (use row_open_fail [OF worker_invD(2) [OF inv h live]] in \<open>auto simp: ledger_retry_def ledger_fail_at\<close>)
  then show ?thesis by (simp add: retried(1))
next
  case (exhausted w e n t err)
  then have "holds \<circ> ((sy_worker y)(w := Capturing e n t err)) = holds \<circ> sy_worker y" by auto
  then have "holds (((sy_worker y)(w := Capturing e n t err)) v) = holds (sy_worker y v)" for v
    by (metis comp_apply)
  with inv show ?thesis unfolding exhausted(1) worker_inv_def by (simp del: fun_upd_apply)
next
  case (captured w e n t err fresh fmt s d)
  from captured(2) have h: "holds (sy_worker y w) = Some (env_event_id e, t)" by simp
  note live = live_capture [OF timers worker_invD(1) [OF inv h] captured(3)]
  note K = dead_letter_capture [OF captured(4)]
  have "row_open s consumer (env_event_id e) t"
    using worker_invD(2) [OF inv h live] K(3) by (simp add: row_open_def)
  note row = row_open_fail [OF this, of "sy_now y" err DeadLettered d]
  have "worker_inv stale consumer handler b0 (y\<lparr>sy_db := ledger_dead_letter (sy_now y) consumer e err d s,
      sy_business := sy_business y, sy_worker := (sy_worker y)(w := Idle), sy_committed := sy_committed y @ [],
      sy_acked := [env_event_id e] @ sy_acked y\<rparr>)"
    by (rule release_inv [OF inv h live])
      (use row K in \<open>auto simp: ledger_dead_letter_def ledger_fail_at\<close>)
  then show ?thesis by (simp add: captured(1))
next
  case (uncaptured w e n t err s fresh fmt d)
  from uncaptured(2) have h: "holds (sy_worker y w) = Some (env_event_id e, t)" by simp
  note live = live_capture [OF timers worker_invD(1) [OF inv h] uncaptured(3)]
  have K: "dead_letter_for (sy_db y) consumer j \<Longrightarrow> dead_letter_for s consumer j"
    "ledger s consumer j = ledger (sy_db y) consumer j" for j
    using uncaptured(4) dead_letter_capture(1,3) [of "sy_now y" fresh fmt False consumer e consumer err n "sy_db y" s False]
    by auto
  have "row_open s consumer (env_event_id e) t"
    using worker_invD(2) [OF inv h live] K(2) by (simp add: row_open_def)
  note row = row_open_fail [OF this, of "sy_now y" err Retrying d]
  have "worker_inv stale consumer handler b0 (y\<lparr>sy_db := ledger_retry (sy_now y) consumer e err d s,
      sy_business := sy_business y, sy_worker := (sy_worker y)(w := Idle), sy_committed := sy_committed y @ [],
      sy_acked := [] @ sy_acked y\<rparr>)"
    by (rule release_inv [OF inv h live])
      (use row K in \<open>auto simp: ledger_retry_def ledger_fail_at\<close>)
  then show ?thesis by (simp add: uncaptured(1))
next
  case (crashed w)
  have sub: "holds (((sy_worker y)(w := Idle)) v) = Some x \<Longrightarrow> holds (sy_worker y v) = Some x" for v x
    by (auto split: if_splits)
  show ?thesis
    using inv unfolding crashed(1) worker_inv_def
    by (auto simp del: fun_upd_apply dest!: sub)
next
  case (elsewhere s)
  show ?thesis
    unfolding elsewhere(1)
    by (rule worker_inv_ledger_cong [OF inv elsewhere(2)]) (use elsewhere(3) in \<open>fastforce simp: dead_letter_for_def\<close>)
qed

section \<open>Properties\<close>

lemma worker_system:
  assumes "timers_safe policy stale"
  shows "invariant_system (system_start consumer b0) (worker_step policy stale consumer handler)
    (worker_inv stale consumer handler b0)"
  by unfold_locales (auto intro: worker_inv_start worker_inv_step assms)

lemma default_timers_safe: "timers_safe default_retry_policy PROCESSING_STALE_SECONDS"
  by (simp add: timers_safe_def default_retry_policy_def PROCESSING_STALE_SECONDS_def)

interpretation default_worker:
  invariant_system "system_start consumer b0"
    "worker_step default_retry_policy PROCESSING_STALE_SECONDS consumer handler"
    "worker_inv PROCESSING_STALE_SECONDS consumer handler b0" for consumer b0 handler
  by (rule worker_system [OF default_timers_safe])


text \<open>
  Claim C2. No event is lost: when the broker has been told to forget an event, its
  handler has committed or the event is among the dead letters of this consumer.
\<close>

theorem acked_events_are_settled:
  assumes "timers_safe policy stale"
    and "reachable_from (system_start consumer b0) (worker_step policy stale consumer handler) y"
    and "i \<in> set (sy_acked y)"
  shows "i \<in> env_event_id ` set (sy_committed y) \<or>
    (\<exists>d \<in> set (db_dead_letters (sy_db y)). dl_original_event_id d = i \<and> dl_consumer d = consumer)"
  using worker_invD(9) [OF invariant_system.reachable_inv [OF worker_system [OF assms(1)] assms(2)] assms(3)]
  by (simp add: dead_letter_for_def)

subsection \<open>A concrete run, and the gap in the start-up check\<close>

definition count_handler :: "nat handler" where
  "count_handler e n = Inr (Suc n, [])"

definition demo_system :: "nat system" where
  "demo_system = \<lparr>sy_now = 0, sy_db = empty_db, sy_business = 0, sy_worker = (\<lambda>_. Idle),
     sy_committed = [], sy_acked = []\<rparr>"

lemma demo_system_start: "system_start consumer 0 demo_system"
  by (simp add: system_start_def demo_system_def ledger_def empty_db_def)

definition after_claim :: "int \<Rightarrow> string \<Rightarrow> nat \<Rightarrow> envelope \<Rightarrow> 'b system \<Rightarrow> 'b system" where
  "after_claim stale consumer w e y =
     (let (s, r) = ledger_begin (sy_now y) stale consumer e (sy_db y)
      in y\<lparr>sy_db := s, sy_worker := (sy_worker y)(w := Handling e (pr_attempts r) (sy_now y))\<rparr>)"

definition after_commit :: "string \<Rightarrow> nat \<Rightarrow> envelope \<Rightarrow> nat system \<Rightarrow> nat system" where
  "after_commit consumer w e y =
     y\<lparr>sy_db := commit_work (sy_now y) consumer e 0 [] (sy_db y), sy_business := Suc (sy_business y),
       sy_worker := (sy_worker y)(w := Idle), sy_committed := sy_committed y @ [e],
       sy_acked := env_event_id e # sy_acked y\<rparr>"

lemma after_claim_step:
  assumes "sy_worker y w = Idle"
    and "pr_status (snd (ledger_begin (sy_now y) stale consumer e (sy_db y))) = Stored Processing"
  shows "worker_step policy stale consumer handler y (after_claim stale consumer w e y)"
proof (cases "ledger_begin (sy_now y) stale consumer e (sy_db y)")
  case (Pair s r)
  with assms worker_step.claimed [OF assms(1) Pair] show ?thesis by (simp add: after_claim_def)
qed

lemma after_commit_step:
  assumes "sy_worker y w = Handling e n t" and "sy_now y \<le> t + seconds (rp_handler_timeout policy)"
  shows "worker_step policy stale consumer count_handler y (after_commit consumer w e y)"
  unfolding after_commit_def
  by (rule worker_step.committed [OF assms]) (simp add: count_handler_def)

definition demo_claimed :: "nat system" where
  "demo_claimed = after_claim 90 ''svc'' 0 demo_event demo_system"

definition demo_committed :: "nat system" where
  "demo_committed = after_commit ''svc'' 0 demo_event demo_claimed"

lemma demo_claim_status:
  "pr_status (snd (ledger_begin (sy_now demo_system) 90 ''svc'' demo_event (sy_db demo_system))) = Stored Processing"
  by code_simp

lemma demo_claimed_worker: "sy_worker demo_claimed 0 = Handling demo_event 1 0" "sy_now demo_claimed = 0"
proof -
  have "pr_attempts (snd (ledger_begin (sy_now demo_system) 90 ''svc'' demo_event (sy_db demo_system))) = 1"
    by code_simp
  then show "sy_worker demo_claimed 0 = Handling demo_event 1 0" "sy_now demo_claimed = 0"
    by (simp_all add: demo_claimed_def after_claim_def demo_system_def case_prod_beta Let_def)
qed

lemma demo_committed_reachable:
  "reachable_from (system_start ''svc'' 0)
     (worker_step default_retry_policy PROCESSING_STALE_SECONDS ''svc'' count_handler) demo_committed"
proof -
  let ?step = "worker_step default_retry_policy PROCESSING_STALE_SECONDS ''svc'' count_handler"
  have "?step demo_system demo_claimed"
    unfolding demo_claimed_def PROCESSING_STALE_SECONDS_def
    by (rule after_claim_step [OF _ demo_claim_status]) (simp add: demo_system_def)
  moreover have "?step demo_claimed demo_committed"
    unfolding demo_committed_def
    by (rule after_commit_step [OF demo_claimed_worker(1)])
      (simp add: demo_claimed_worker(2) default_retry_policy_def seconds_def second_micros_def)
  ultimately have "?step\<^sup>*\<^sup>* demo_system demo_committed" by simp
  then show ?thesis unfolding reachable_from_def using demo_system_start by blast
qed


theorem acked_events_are_settled_witness:
  "''e1'' \<in> env_event_id ` set (sy_committed demo_committed) \<or>
   (\<exists>d \<in> set (db_dead_letters (sy_db demo_committed)). dl_original_event_id d = ''e1'' \<and> dl_consumer d = ''svc'')"
proof -
  have "''e1'' \<in> set (sy_acked demo_committed)"
    by (simp add: demo_committed_def after_commit_def demo_event_def make_event_def)
  from acked_events_are_settled [OF default_timers_safe demo_committed_reachable this] show ?thesis .
qed

text \<open>
  The start-up check asks only for handler timeout < ack wait < staleness. A run it accepts:
  the handler of the last attempt uses its whole timeout, the capture then waits for its own;
  meanwhile the claim has become stale, a second instance takes it over and commits, and the
  late \<open>retry\<close> of the first reopens the closed row, so the handler commits again.
\<close>

definition gap_policy :: retry_policy where
  "gap_policy = \<lparr>rp_max_attempts = 1, rp_retry_delay = 2, rp_handler_timeout = 85,
     rp_dead_letter_timeout = 10\<rparr>"

definition wait_for_seconds :: "int \<Rightarrow> 'b system \<Rightarrow> 'b system" where
  "wait_for_seconds n y = y\<lparr>sy_now := sy_now y + seconds n\<rparr>"

definition gap_takeover :: "nat system" where
  "gap_takeover = after_commit ''svc'' 1 demo_event (after_claim 90 ''svc'' 1 demo_event
     (wait_for_seconds 6 ((wait_for_seconds 85 demo_claimed)
       \<lparr>sy_worker := (sy_worker (wait_for_seconds 85 demo_claimed))(0 := Capturing demo_event 1 0 ''boom'')\<rparr>)))"

definition gap_reopened :: "nat system" where
  "gap_reopened = (let y = wait_for_seconds 4 gap_takeover in
     y\<lparr>sy_db := ledger_retry (sy_now y) ''svc'' demo_event ''boom'' None (sy_db y),
       sy_worker := (sy_worker y)(0 := Idle)\<rparr>)"

definition gap_end :: "nat system" where
  "gap_end = after_commit ''svc'' 1 demo_event (after_claim 90 ''svc'' 1 demo_event gap_reopened)"

lemma wait_step: "0 \<le> n \<Longrightarrow> worker_step policy stale consumer handler y (wait_for_seconds n y)"
  unfolding wait_for_seconds_def by (rule worker_step.tick) simp

lemma after_simps [simp]:
  "sy_now (after_claim stale c w e y) = sy_now y"
  "sy_now (after_commit c w e y') = sy_now y'"
  "sy_now (wait_for_seconds n y) = sy_now y + seconds n"
  "sy_worker (wait_for_seconds n y) = sy_worker y"
  "sy_worker (after_commit c w e y') = (sy_worker y')(w := Idle)"
  "sy_worker (after_claim stale c w e y) = (sy_worker y)(w := Handling e
     (pr_attempts (snd (ledger_begin (sy_now y) stale c e (sy_db y)))) (sy_now y))"
  "sy_committed (after_claim stale c w e y) = sy_committed y"
  "sy_committed (after_commit c w e y') = sy_committed y' @ [e]"
  "sy_committed (wait_for_seconds n y) = sy_committed y"
  by (simp_all add: after_claim_def after_commit_def wait_for_seconds_def case_prod_beta Let_def)

lemma gap_claims:
  "pr_status (snd (ledger_begin (sy_now (wait_for_seconds 6 (wait_for_seconds 85 demo_claimed))) 90 ''svc'' demo_event
     (sy_db demo_claimed))) = Stored Processing"
  "pr_status (snd (ledger_begin (sy_now gap_reopened) 90 ''svc'' demo_event (sy_db gap_reopened))) = Stored Processing"
  by code_simp+

lemma claim_commit_step:
  "0 \<le> rp_handler_timeout policy \<Longrightarrow>
   worker_step policy stale c count_handler (after_claim stale c w e y) (after_commit c w e (after_claim stale c w e y))"
  by (rule after_commit_step [where n = "pr_attempts (snd (ledger_begin (sy_now y) stale c e (sy_db y)))"
        and t = "sy_now y"]) simp_all

lemma gap_run:
  "(worker_step gap_policy 90 ''svc'' count_handler)\<^sup>*\<^sup>* demo_system gap_end"
proof -
  let ?step = "worker_step gap_policy 90 ''svc'' count_handler"
  let ?late = "wait_for_seconds 85 demo_claimed"
  let ?capturing = "?late\<lparr>sy_worker := (sy_worker ?late)(0 := Capturing demo_event 1 0 ''boom'')\<rparr>"
  let ?taken = "after_claim 90 ''svc'' 1 demo_event (wait_for_seconds 6 ?capturing)"
  have w0: "sy_worker demo_claimed 0 = Handling demo_event 1 0" "sy_now demo_claimed = 0"
    "sy_worker demo_claimed (Suc 0) = Idle"
    using demo_claimed_worker by (simp_all add: demo_claimed_def demo_system_def)
  have 1: "?step demo_system demo_claimed"
    unfolding demo_claimed_def by (rule after_claim_step [OF _ demo_claim_status]) (simp add: demo_system_def)
  have 2: "?step demo_claimed ?late" by (rule wait_step) simp
  have 3: "?step ?late ?capturing"
    by (rule worker_step.exhausted [where t = 0]) (simp_all add: w0 gap_policy_def)
  have 4: "?step ?capturing (wait_for_seconds 6 ?capturing)" by (rule wait_step) simp
  have 5: "?step (wait_for_seconds 6 ?capturing) ?taken"
    by (rule after_claim_step) (use gap_claims(1) in \<open>simp_all add: w0 wait_for_seconds_def\<close>)
  have 6: "?step ?taken gap_takeover"
    unfolding gap_takeover_def by (rule claim_commit_step) (simp add: gap_policy_def)
  have 7: "?step gap_takeover (wait_for_seconds 4 gap_takeover)" by (rule wait_step) simp
  have 8: "?step (wait_for_seconds 4 gap_takeover) gap_reopened"
    unfolding gap_reopened_def Let_def
    by (rule worker_step.uncaptured [where t = 0 and n = 1])
      (simp_all add: gap_takeover_def w0 gap_policy_def seconds_def second_micros_def)
  have 9: "?step gap_reopened (after_claim 90 ''svc'' 1 demo_event gap_reopened)"
    by (rule after_claim_step [OF _ gap_claims(2)]) (simp add: gap_reopened_def gap_takeover_def Let_def)
  have 10: "?step (after_claim 90 ''svc'' 1 demo_event gap_reopened) gap_end"
    unfolding gap_end_def by (rule claim_commit_step) (simp add: gap_policy_def)
  note c = converse_rtranclp_into_rtranclp [of ?step]
  show ?thesis
    by (rule c [OF 1 c [OF 2 c [OF 3 c [OF 4 c [OF 5 c [OF 6 c [OF 7 c [OF 8 c [OF 9
      r_into_rtranclp [of ?step, OF 10]]]]]]]]]])
qed

text \<open>
  The start-up check of the event timers does not by itself give exactly-once
  processing: with a handler timeout of 85, an ack wait of 88 and a staleness of 90 seconds
  it accepts, and with a capture timeout of 10 seconds there is a run in which the handler of
  one event commits twice. (The default timers are safe.)
\<close>

theorem timing_contract_gap:
  "validate_event_timing_contract (rp_handler_timeout gap_policy) 88 90 = Inr () \<and>
   (\<exists>y :: nat system. reachable_from (system_start ''svc'' 0) (worker_step gap_policy 90 ''svc'' count_handler) y \<and>
      \<not> distinct (map env_event_id (sy_committed y)))"
proof -
  have "sy_committed gap_end = [demo_event, demo_event]"
    by (simp add: gap_end_def gap_reopened_def gap_takeover_def demo_claimed_def demo_system_def Let_def)
  moreover have "reachable_from (system_start ''svc'' 0) (worker_step gap_policy 90 ''svc'' count_handler) gap_end"
    unfolding reachable_from_def using gap_run demo_system_start by blast
  ultimately show ?thesis
    by (auto simp: validate_event_timing_contract_def gap_policy_def intro!: exI [of _ gap_end])
qed

section \<open>One call of the processor is a run of these steps\<close>

lemma wait_until:
  assumes "sy_now y \<le> t"
  shows "worker_step policy stale consumer handler y (y\<lparr>sy_now := t\<rparr>)"
  using worker_step.tick [of "t - sy_now y" policy stale consumer handler y] assms by simp

text \<open>
  Claim C10. \<open>EventProcessor.process\<close> on a decoded message is one run of the step
  relation: from a state where an instance is idle, the database and business state it leaves
  are reached by steps of that instance, for a handler and a capture that end within their
  timeouts; when it acknowledges the message the event is settled. So the exactly-once and
  no-loss properties hold for the processor as it is written.
\<close>

theorem process_event_is_a_run:
  assumes idle: "sy_worker y w = Idle"
    and times: "sy_now y \<le> t1" "t1 \<le> sy_now y + seconds (rp_handler_timeout policy)" "t1 \<le> t2"
      "t2 \<le> sy_now y + seconds (rp_handler_timeout policy + rp_dead_letter_timeout policy)"
    and run: "process_event policy stale (sy_now y) t1 t2 fresh fmt emitted consumer handler d e
      (sy_db y, sy_business y) = ((s, b), settle)"
  shows "\<exists>y'. (worker_step policy stale consumer handler)\<^sup>*\<^sup>* y y' \<and> sy_db y' = s \<and> sy_business y' = b \<and>
    (settle = Ack \<longrightarrow> env_event_id e \<in> set (sy_acked y'))"
proof -
  let ?step = "worker_step policy stale consumer handler"
  have goal: ?thesis if "?step\<^sup>*\<^sup>* y z" "sy_db z = s" "sy_business z = b"
    "settle = Ack \<Longrightarrow> env_event_id e \<in> set (sy_acked z)" for z
    using that by blast
  obtain s1 r where L: "ledger_begin (sy_now y) stale consumer e (sy_db y) = (s1, r)" by fastforce
  consider (old) "pr_status r \<in> {Stored Processed, Stored DeadLettered}"
    | (mine) "pr_status r = Stored Processing"
    | (other) "pr_status r \<notin> {Stored Processing, Stored Processed, Stored DeadLettered}" by blast
  then show ?thesis
  proof cases
    case old
    with run L have "s = s1" "b = sy_business y" by (auto simp: process_event_def)
    with worker_step.skipped [OF idle L old] show ?thesis
      by (intro exI [of _ "y\<lparr>sy_db := s1, sy_acked := env_event_id e # sy_acked y\<rparr>"]) auto
  next
    case other
    with run L have "s = s1" "b = sy_business y" "settle \<noteq> Ack"
      by (auto simp: process_event_def split: record_status.splits processing_status.splits)
    with worker_step.deferred [OF idle L other] show ?thesis
      by (intro exI [of _ "y\<lparr>sy_db := s1\<rparr>"]) auto
  next
    case mine
    let ?y1 = "y\<lparr>sy_db := s1, sy_worker := (sy_worker y)(w := Handling e (pr_attempts r) (sy_now y))\<rparr>"
    let ?y2 = "?y1\<lparr>sy_now := t1\<rparr>"
    have steps: "?step y ?y1" "?step ?y1 ?y2"
      by (rule worker_step.claimed [OF idle L mine]) (rule wait_until, simp add: times)
    then have pre: "?step\<^sup>*\<^sup>* y ?y2" by simp
    have w2: "sy_worker ?y2 w = Handling e (pr_attempts r) (sy_now y)" by simp
    have late: "sy_now ?y2 \<le> sy_now y + seconds (rp_handler_timeout policy)" using times by simp
    show ?thesis
    proof (cases "handler e (sy_business y)")
      case (Inr res)
      obtain b' outs where res: "res = (b', outs)" by fastforce
      from run L mine Inr res have sb: "s = commit_work t1 consumer e d outs s1" "b = b'" "settle = Ack"
        by (auto simp: process_event_def)
      have "?step ?y2 (?y2\<lparr>sy_db := commit_work (sy_now ?y2) consumer e d outs (sy_db ?y2), sy_business := b',
          sy_worker := (sy_worker ?y2)(w := Idle), sy_committed := sy_committed ?y2 @ [e],
          sy_acked := env_event_id e # sy_acked ?y2\<rparr>)"
        by (rule worker_step.committed [OF w2 late]) (use Inr res in simp)
      from goal [OF rtranclp.rtrancl_into_rtrancl [of ?step, OF pre this]] sb show ?thesis by simp
    next
      case (Inl err)
      show ?thesis
      proof (cases "rp_max_attempts policy \<le> int (pr_attempts r)")
        case False
        from run L mine Inl False have sb: "s = ledger_retry t1 consumer e err (Some d) s1" "b = sy_business y"
          "settle \<noteq> Ack" by (auto simp: process_event_def fail_message_def)
        have "?step ?y2 (?y2\<lparr>sy_db := ledger_retry (sy_now ?y2) consumer e err (Some d) (sy_db ?y2),
            sy_worker := (sy_worker ?y2)(w := Idle)\<rparr>)"
          by (rule worker_step.retried [OF w2 late]) (use False in simp)
        from goal [OF rtranclp.rtrancl_into_rtrancl [of ?step, OF pre this]] sb show ?thesis by simp
      next
        case True
        let ?y3 = "?y2\<lparr>sy_worker := (sy_worker ?y2)(w := Capturing e (pr_attempts r) (sy_now y) err)\<rparr>"
        let ?y4 = "?y3\<lparr>sy_now := t2\<rparr>"
        have "?step ?y2 ?y3" by (rule worker_step.exhausted [OF w2 late True])
        moreover have "?step ?y3 ?y4" by (rule wait_until) (simp add: times)
        ultimately have pre4: "?step\<^sup>*\<^sup>* y ?y4"
          using pre by (meson rtranclp.rtrancl_into_rtrancl)
        have w4: "sy_worker ?y4 w = Capturing e (pr_attempts r) (sy_now y) err" by simp
        have late4: "sy_now ?y4 \<le> sy_now y + seconds (rp_handler_timeout policy + rp_dead_letter_timeout policy)"
          using times by simp
        obtain s2 ok where cap: "capture_dead_letter t2 fresh fmt emitted consumer e consumer err (pr_attempts r) s1
            = (s2, ok)" by fastforce
        have em: "ok = emitted" using cap by (auto simp: capture_dead_letter_def split: if_splits prod.splits)
        show ?thesis
        proof (cases emitted)
          case yes: True
          from run L mine Inl True cap em yes have sb: "s = ledger_dead_letter t2 consumer e err (Some d) s2"
            "b = sy_business y" "settle = Ack" by (auto simp: process_event_def fail_message_def)
          have "?step ?y4 (?y4\<lparr>sy_db := ledger_dead_letter (sy_now ?y4) consumer e err (Some d) s2,
              sy_worker := (sy_worker ?y4)(w := Idle), sy_acked := env_event_id e # sy_acked ?y4\<rparr>)"
            by (rule worker_step.captured [OF w4 late4, of fresh fmt]) (use cap em yes in simp)
          from goal [OF rtranclp.rtrancl_into_rtrancl [of ?step, OF pre4 this]] sb show ?thesis by simp
        next
          case no: False
          from run L mine Inl True cap em no have sb: "s = ledger_retry t2 consumer e err (Some d) s2"
            "b = sy_business y" "settle \<noteq> Ack" by (auto simp: process_event_def fail_message_def)
          have "?step ?y4 (?y4\<lparr>sy_db := ledger_retry (sy_now ?y4) consumer e err (Some d) s2,
              sy_worker := (sy_worker ?y4)(w := Idle)\<rparr>)"
            by (rule worker_step.uncaptured [OF w4 late4, of s2 fresh fmt]) (use cap em no in simp)
          from goal [OF rtranclp.rtrancl_into_rtrancl [of ?step, OF pre4 this]] sb show ?thesis by simp
        qed
      qed
    qed
  qed
qed

theorem process_event_is_a_run_witness:
  "\<exists>s b y'. fst (process_event default_retry_policy 90 0 1 1 ''f'' (\<lambda>_. []) True ''svc'' count_handler 5 demo_event
       (empty_db, 0)) = (s, b) \<and>
     (worker_step default_retry_policy 90 ''svc'' count_handler)\<^sup>*\<^sup>* demo_system y' \<and> sy_business y' = b"
proof -
  obtain s b settle where r: "process_event default_retry_policy 90 0 1 1 ''f'' (\<lambda>_. []) True ''svc'' count_handler 5
      demo_event (empty_db, 0) = ((s, b), settle)" by (metis prod.exhaust)
  have "process_event default_retry_policy 90 (sy_now demo_system) 1 1 ''f'' (\<lambda>_. []) True ''svc'' count_handler 5
      demo_event (sy_db demo_system, sy_business demo_system) = ((s, b), settle)"
    using r by (simp add: demo_system_def)
  from process_event_is_a_run [OF _ _ _ _ _ this, of 0] r
  have "\<exists>y'. (worker_step default_retry_policy 90 ''svc'' count_handler)\<^sup>*\<^sup>* demo_system y' \<and> sy_business y' = b"
    by (auto simp: demo_system_def default_retry_policy_def seconds_def second_micros_def)
  with r show ?thesis by auto
qed

end
