(* ===== verification/Operation_Broker.thy ===== *)
theory Operation_Broker
  imports Operation_Stream
begin

text \<open>
  The live fan-out of operation events, \<^verbatim>\<open>src/src/packages/runtime/operation_events.py\<close>: one
  bounded queue per browser subscription, an in-memory broker, the durable one that stores
  before it fans out, and the Redis one that also tells the other replicas. A queue that is
  full is emptied and closed with an overflow mark, so that order is never broken silently.
\<close>

section \<open>Events and queues\<close>

record operation_event =
  opv_command_id :: string
  opv_sequence :: nat
  opv_kind :: operation_kind
  opv_payload :: jobj
  opv_occurred_at :: time

definition operation_event_of :: "op_event_row \<Rightarrow> operation_event" where
  "operation_event_of r =
     \<lparr>opv_command_id = oe_command_id r, opv_sequence = oe_sequence r, opv_kind = oe_kind r,
      opv_payload = oe_payload r, opv_occurred_at = oe_occurred_at r\<rparr>"

lemma operation_event_of_simps [simp]:
  "opv_sequence (operation_event_of r) = oe_sequence r"
  "opv_kind (operation_event_of r) = oe_kind r"
  by (simp_all add: operation_event_of_def)

datatype subscription_item = Live operation_event | StreamOverflow

definition OPERATION_EVENT_QUEUE_MAX :: nat where
  "OPERATION_EVENT_QUEUE_MAX = 64"

definition offer :: "operation_event \<Rightarrow> subscription_item list \<Rightarrow> subscription_item list" where
  "offer e q =
     (if length q < OPERATION_EVENT_QUEUE_MAX then q @ [Live e] else [StreamOverflow])"

text \<open>\<^verbatim>\<open>OperationEventSubscription.next\<close>; \<open>None\<close>: it waits.\<close>

definition subscription_next ::
    "subscription_item list \<Rightarrow> (subscription_item \<times> subscription_item list) option" where
  "subscription_next q = (case q of [] \<Rightarrow> None | x # q' \<Rightarrow> Some (x, q'))"

section \<open>The brokers\<close>

type_synonym stream_key = "string \<times> string"

record broker =
  br_sequences :: "stream_key \<Rightarrow> nat"
  br_terminal :: "stream_key list"
  br_subscriptions :: "(nat \<times> stream_key \<times> subscription_item list) list"
  br_next_id :: nat

definition new_broker :: broker where
  "new_broker = \<lparr>br_sequences = \<lambda>_. 0, br_terminal = [], br_subscriptions = [], br_next_id = 0\<rparr>"

definition subscription_key :: "string \<Rightarrow> string \<Rightarrow> stream_key" where
  "subscription_key workspace_id command_id = (py_strip workspace_id, py_strip command_id)"

definition broker_subscribe :: "string \<Rightarrow> string \<Rightarrow> broker \<Rightarrow> broker \<times> nat" where
  "broker_subscribe command_id workspace_id b =
     (b\<lparr>br_subscriptions := br_subscriptions b @
          [(br_next_id b, subscription_key workspace_id command_id, [])],
        br_next_id := Suc (br_next_id b)\<rparr>, br_next_id b)"

definition broker_unsubscribe :: "nat \<Rightarrow> broker \<Rightarrow> broker" where
  "broker_unsubscribe i b =
     b\<lparr>br_subscriptions := filter (\<lambda>(j, k, q). j \<noteq> i) (br_subscriptions b)\<rparr>"

definition broker_close :: "broker \<Rightarrow> broker" where
  "broker_close b = b\<lparr>br_subscriptions := []\<rparr>"

definition broker_deliver :: "operation_event \<Rightarrow> string \<Rightarrow> broker \<Rightarrow> broker" where
  "broker_deliver e workspace_id b =
     b\<lparr>br_subscriptions := map (\<lambda>(i, k, q).
          (i, k, if k = subscription_key workspace_id (opv_command_id e) then offer e q else q))
        (br_subscriptions b)\<rparr>"

text \<open>The in-memory broker numbers the events itself.\<close>

definition memory_publish ::
    "time \<Rightarrow> string \<Rightarrow> operation_kind \<Rightarrow> jobj \<Rightarrow> string \<Rightarrow> broker \<Rightarrow> broker \<times> operation_event option" where
  "memory_publish now command_id kind payload workspace_id b =
     (let key = subscription_key workspace_id command_id;
          n = Suc (br_sequences b key);
          e = \<lparr>opv_command_id = command_id, opv_sequence = n, opv_kind = kind,
               opv_payload = payload, opv_occurred_at = now\<rparr>
      in if key \<in> set (br_terminal b) then (b, None)
         else (broker_deliver e workspace_id
                 (b\<lparr>br_sequences := (br_sequences b)(key := n),
                    br_terminal := (if terminal_kind kind then key # br_terminal b else br_terminal b)\<rparr>),
               Some e))"

text \<open>
  The durable broker appends to the stream table first. \<open>cluster\<close> is the text of the
  payload's \<open>cluster_id\<close>; an exception of the store leaves the broker alone.
\<close>

definition durable_publish ::
    "time \<Rightarrow> string \<Rightarrow> operation_kind \<Rightarrow> string \<Rightarrow> jobj \<Rightarrow> string \<Rightarrow> db \<times> broker \<Rightarrow>
     db_error + (db \<times> broker) \<times> operation_event option" where
  "durable_publish now command_id kind cluster payload workspace_id st =
     (case append_command_operation_event now workspace_id command_id kind cluster payload (fst st) of
        Inl e \<Rightarrow> Inl e
      | Inr (s, None) \<Rightarrow> Inr ((s, snd st), None)
      | Inr (s, Some row) \<Rightarrow>
          Inr ((s, broker_deliver (operation_event_of row) workspace_id (snd st)),
               Some (operation_event_of row)))"

text \<open>
  The Redis broker of one replica: \<open>rb_connected\<close> says whether it has a client, \<open>rb_sent\<close>
  what it has published for the other replicas, \<open>rb_reconnect\<close> whether a reconnection is
  pending. \<open>published\<close> is the outcome of the client's publish call.
\<close>

record redis_broker =
  rb_local :: broker
  rb_connected :: bool
  rb_closed :: bool
  rb_reconnect :: bool
  rb_sent :: "(string \<times> operation_event) list"

definition schedule_reconnect :: "redis_broker \<Rightarrow> redis_broker" where
  "schedule_reconnect r =
     (if rb_closed r \<or> rb_connected r \<or> rb_reconnect r then r else r\<lparr>rb_reconnect := True\<rparr>)"

definition redis_connect :: "bool \<Rightarrow> redis_broker \<Rightarrow> redis_broker" where
  "redis_connect reachable r =
     (if rb_connected r then r
      else if rb_closed r then r
      else if reachable then r\<lparr>rb_connected := True\<rparr>
      else schedule_reconnect r)"

definition redis_announce :: "bool \<Rightarrow> operation_event \<Rightarrow> string \<Rightarrow> redis_broker \<Rightarrow> redis_broker" where
  "redis_announce published e workspace_id r =
     (let r1 = r\<lparr>rb_local := broker_deliver e workspace_id (rb_local r)\<rparr> in
      if \<not> rb_connected r1 then schedule_reconnect r1
      else if published then r1\<lparr>rb_sent := rb_sent r1 @ [(workspace_id, e)]\<rparr>
      else schedule_reconnect (r1\<lparr>rb_connected := False\<rparr>))"

definition redis_publish ::
    "time \<Rightarrow> string \<Rightarrow> operation_kind \<Rightarrow> string \<Rightarrow> jobj \<Rightarrow> string \<Rightarrow> bool \<Rightarrow> db \<times> redis_broker \<Rightarrow>
     db_error + (db \<times> redis_broker) \<times> operation_event option" where
  "redis_publish now command_id kind cluster payload workspace_id published st =
     (case append_command_operation_event now workspace_id command_id kind cluster payload (fst st) of
        Inl e \<Rightarrow> Inl e
      | Inr (s, None) \<Rightarrow> Inr ((s, snd st), None)
      | Inr (s, Some row) \<Rightarrow>
          Inr ((s, redis_announce published (operation_event_of row) workspace_id (snd st)),
               Some (operation_event_of row)))"

text \<open>One message of the listener; \<open>None\<close>: not a message, or not a valid envelope.\<close>

definition redis_listen :: "(string \<times> operation_event) option \<Rightarrow> redis_broker \<Rightarrow> redis_broker" where
  "redis_listen parsed r =
     (case parsed of
        None \<Rightarrow> r
      | Some (workspace_id, e) \<Rightarrow> r\<lparr>rb_local := broker_deliver e workspace_id (rb_local r)\<rparr>)"

section \<open>What a subscriber sees\<close>

definition broker_ok :: "broker \<Rightarrow> bool" where
  "broker_ok b \<longleftrightarrow> (\<forall>x \<in> set (br_subscriptions b). fst x < br_next_id b)"

definition queue_of :: "nat \<Rightarrow> broker \<Rightarrow> subscription_item list option" where
  "queue_of i b = map_option snd (map_of (br_subscriptions b) i)"

text \<open>What happens to a subscription: events are delivered, browsers read.\<close>

datatype broker_op = Deliver operation_event string | Read nat

definition broker_read :: "nat \<Rightarrow> broker \<Rightarrow> broker \<times> subscription_item list" where
  "broker_read i b =
     (case queue_of i b of
        Some (x # q) \<Rightarrow>
          (b\<lparr>br_subscriptions := map (\<lambda>(j, k, r). (j, k, if j = i then tl r else r)) (br_subscriptions b)\<rparr>, [x])
      | _ \<Rightarrow> (b, []))"

text \<open>The items that subscription \<open>i\<close> has read, in order.\<close>

fun broker_run :: "nat \<Rightarrow> broker_op list \<Rightarrow> broker \<Rightarrow> broker \<times> subscription_item list" where
  "broker_run i [] b = (b, [])"
| "broker_run i (Deliver e ws # ops) b = broker_run i ops (broker_deliver e ws b)"
| "broker_run i (Read j # ops) b =
     (let (b1, xs) = broker_read j b; (b2, ys) = broker_run i ops b1
      in (b2, if j = i then xs @ ys else ys))"

definition delivered_to :: "stream_key \<Rightarrow> broker_op list \<Rightarrow> operation_event list" where
  "delivered_to k ops =
     concat (map (\<lambda>x. case x of
        Deliver e ws \<Rightarrow> if subscription_key ws (opv_command_id e) = k then [e] else []
      | Read j \<Rightarrow> []) ops)"

text \<open>Either all of \<open>es\<close> in order, or a prefix of it up to an overflow mark.\<close>

definition in_order :: "operation_event list \<Rightarrow> subscription_item list \<Rightarrow> bool" where
  "in_order es xs \<longleftrightarrow>
     xs = map Live es \<or> (\<exists>n rest. xs = map Live (take n es) @ StreamOverflow # rest)"

lemma overflow_is_not_live [simp]: "xs @ StreamOverflow # ys \<noteq> map Live es"
proof
  assume "xs @ StreamOverflow # ys = map Live es"
  then have "StreamOverflow \<in> set (map Live es)" by (metis in_set_conv_decomp)
  then show False by auto
qed

lemma in_order_more:
  assumes "in_order es xs" and "xs \<noteq> map Live es"
  shows "in_order (es @ es') (xs @ ys)"
proof -
  obtain n rest where "xs = map Live (take n es) @ StreamOverflow # rest"
    using assms by (auto simp: in_order_def)
  then have "xs @ ys = map Live (take (min n (length es)) (es @ es')) @ StreamOverflow # (rest @ ys)"
    by (simp add: min_def)
  then show ?thesis unfolding in_order_def by blast
qed

lemma in_order_snoc: "in_order es xs \<Longrightarrow> in_order (es @ [e]) (xs @ [Live e])"
  using in_order_more [of es xs "[e]" "[Live e]"]
  by (cases "xs = map Live es") (simp_all add: in_order_def [of "es @ [e]" "map Live es @ [Live e]"])

text \<open>An overflow may drop any part of what is still queued.\<close>

lemma in_order_overflow:
  assumes "in_order es (xs @ q)"
  shows "in_order (es @ es') (xs @ [StreamOverflow])"
proof -
  have prefix: "\<exists>n. xs = map Live (take n (es @ es'))" if "xs @ q' = map Live (take m es)" for q' m
  proof -
    define n where "n = min (min (length xs) m) (length es)"
    have "xs = take (length xs) (map Live (take m es))" using that by (metis append_eq_conv_conj)
    also have "\<dots> = map Live (take (min (length xs) m) es)" by (simp add: take_map)
    also have "take (min (length xs) m) es = take n es" by (simp add: n_def min_def)
    also have "\<dots> = take n (es @ es')" by (simp add: n_def)
    finally show ?thesis by blast
  qed
  from assms consider "xs @ q = map Live (take (length es) es)"
    | n rest where "xs @ q = map Live (take n es) @ StreamOverflow # rest"
    by (auto simp: in_order_def)
  then show ?thesis
  proof cases
    case 1
    with prefix [of q "length es"] show ?thesis unfolding in_order_def by blast
  next
    case 2
    then consider u where "xs @ u = map Live (take n es)"
      | u where "xs = map Live (take n es) @ StreamOverflow # u"
      by (fastforce simp: append_eq_append_conv2 append_eq_Cons_conv)
    then show ?thesis
    proof cases
      case 1
      with prefix [of u n] show ?thesis unfolding in_order_def by blast
    next
      case 2
      then have "in_order es xs" "xs \<noteq> map Live es" by (auto simp: in_order_def)
      then show ?thesis by (rule in_order_more)
    qed
  qed
qed

lemma in_order_offer: "in_order es (xs @ q) \<Longrightarrow> in_order (es @ [e]) (xs @ offer e q)"
  using in_order_snoc [of es "xs @ q" e] in_order_overflow [of es xs q "[e]"] by (simp add: offer_def)

text \<open>How the two operations change a subscription.\<close>

lemma map_of_map_snd:
  "map_of (map (\<lambda>(i, k, q). (i, k, g i k q)) xs) i = map_option (\<lambda>(k, q). (k, g i k q)) (map_of xs i)"
  by (induction xs) auto

lemma map_of_deliver:
  "map_of (br_subscriptions (broker_deliver e ws b)) i =
   map_option (\<lambda>(k, q). (k, if k = subscription_key ws (opv_command_id e) then offer e q else q))
     (map_of (br_subscriptions b) i)"
  by (simp add: broker_deliver_def map_of_map_snd)

lemma map_of_read:
  assumes "map_of (br_subscriptions b) i = Some (k, q)" and "broker_read j b = (b', xs)"
  shows "\<exists>q'. map_of (br_subscriptions b') i = Some (k, q') \<and> (if j = i then xs @ q' = q else q' = q)"
proof (cases "\<exists>x r. queue_of j b = Some (x # r)")
  case False
  with assms show ?thesis
    by (auto simp: broker_read_def queue_of_def split: option.splits list.splits)
next
  case True
  then obtain x r where x: "queue_of j b = Some (x # r)" by blast
  with assms have b': "br_subscriptions b' = map (\<lambda>(l, k, r). (l, k, if l = j then tl r else r)) (br_subscriptions b)"
    and xs: "xs = [x]" by (auto simp: broker_read_def)
  have "map_of (br_subscriptions b') i = Some (k, if i = j then tl q else q)"
    by (simp add: b' map_of_map_snd assms(1))
  with x xs assms(1) show ?thesis by (auto simp: queue_of_def)
qed

lemma run_in_order:
  "broker_run i ops b = (b', ys) \<Longrightarrow> map_of (br_subscriptions b) i = Some (k, q) \<Longrightarrow> in_order es (xs @ q) \<Longrightarrow>
   \<exists>q'. map_of (br_subscriptions b') i = Some (k, q') \<and> in_order (es @ delivered_to k ops) (xs @ ys @ q')"
proof (induction i ops b arbitrary: ys q es xs rule: broker_run.induct)
  case (1 i b)
  then show ?case by (simp add: delivered_to_def)
next
  case (2 i e ws ops b)
  let ?q = "if k = subscription_key ws (opv_command_id e) then offer e q else q"
  let ?es = "if k = subscription_key ws (opv_command_id e) then es @ [e] else es"
  have "map_of (br_subscriptions (broker_deliver e ws b)) i = Some (k, ?q)"
    using 2(3) by (simp add: map_of_deliver)
  moreover have "in_order ?es (xs @ ?q)" using 2(4) in_order_offer by simp
  ultimately have "\<exists>q'. map_of (br_subscriptions b') i = Some (k, q') \<and>
      in_order (?es @ delivered_to k ops) (xs @ ys @ q')"
    using 2(1) 2(2) by (metis broker_run.simps(2))
  then show ?case by (auto simp: delivered_to_def split: if_splits)
next
  case (3 i j ops b)
  obtain b1 x where r: "broker_read j b = (b1, x)" by fastforce
  obtain b2 zs where z: "broker_run i ops b1 = (b2, zs)" by fastforce
  from 3(2) r z have y: "b' = b2" "ys = (if j = i then x @ zs else zs)" by auto
  obtain q' where q': "map_of (br_subscriptions b1) i = Some (k, q')" "if j = i then x @ q' = q else q' = q"
    using map_of_read [OF 3(3) r] by blast
  have "in_order es ((if j = i then xs @ x else xs) @ q')" using 3(4) q'(2) by (auto split: if_splits)
  from 3(1) [OF refl r [symmetric] z [folded y(1)] q'(1) this] y show ?case
    by (auto simp: delivered_to_def split: if_splits)
qed

text \<open>
  A live subscription never loses or reorders events silently: however
  deliveries and reads are interleaved after it subscribed, what it has read followed by what
  is queued for it is exactly the events delivered on its command since then, in order, or an
  initial part of them followed by the overflow mark that tells the browser to reconnect.
\<close>

theorem subscription_keeps_order:
  assumes "broker_ok b" and "broker_subscribe command_id workspace_id b = (b1, i)"
    and "broker_run i ops b1 = (b2, ys)"
  shows "\<exists>q. queue_of i b2 = Some q \<and>
    (let es = delivered_to (subscription_key workspace_id command_id) ops in
     ys @ q = map Live es \<or> (\<exists>n rest. ys @ q = map Live (take n es) @ StreamOverflow # rest))"
proof -
  have "map_of (br_subscriptions b) i = None"
    using assms(1,2) by (force simp: broker_ok_def broker_subscribe_def map_of_eq_None_iff)
  then have "map_of (br_subscriptions b1) i = Some (subscription_key workspace_id command_id, [])"
    using assms(2) by (auto simp: broker_subscribe_def map_add_def)
  then obtain q where "map_of (br_subscriptions b2) i = Some (subscription_key workspace_id command_id, q)"
    "in_order (delivered_to (subscription_key workspace_id command_id) ops) (ys @ q)"
    using run_in_order [OF assms(3), of "subscription_key workspace_id command_id" "[]" "[]" "[]"]
    by (auto simp: in_order_def [of "[]" "[]"])
  then show ?thesis unfolding in_order_def Let_def queue_of_def by (intro exI [of _ q]) simp
qed

definition demo_live :: "nat \<Rightarrow> operation_event" where
  "demo_live n = \<lparr>opv_command_id = ''a'', opv_sequence = n, opv_kind = Progress, opv_payload = [],
     opv_occurred_at = 0\<rparr>"

theorem subscription_keeps_order_witness:
  "\<exists>b2 ys. broker_run 0 [Deliver (demo_live 1) ''w'', Deliver (demo_live 2) ''w'', Read 0]
      (fst (broker_subscribe ''a'' ''w'' new_broker)) = (b2, ys) \<and> ys = [Live (demo_live 1)] \<and>
    queue_of 0 b2 = Some [Live (demo_live 2)]"
proof -
  let ?ops = "[Deliver (demo_live 1) ''w'', Deliver (demo_live 2) ''w'', Read 0]"
  let ?b = "fst (broker_subscribe ''a'' ''w'' new_broker)"
  obtain b2 ys where r: "broker_run 0 ?ops ?b = (b2, ys)" by fastforce
  have ok: "broker_ok new_broker" by (simp add: broker_ok_def new_broker_def)
  have s: "broker_subscribe ''a'' ''w'' new_broker = (?b, 0)"
    by (simp add: broker_subscribe_def new_broker_def)
  have y: "snd (broker_run 0 ?ops ?b) = [Live (demo_live 1)]" by code_simp
  have d: "delivered_to (subscription_key ''w'' ''a'') ?ops = [demo_live 1, demo_live 2]" by code_simp
  have n: "queue_of 0 (fst (broker_run 0 ?ops ?b)) = Some [Live (demo_live 2)]" by code_simp
  from subscription_keeps_order [OF ok s r] y n r show ?thesis by (simp add: d)
qed

end
