(* ===== verification/Browser_Stream.thy ===== *)
theory Browser_Stream
  imports Operation_Broker Command_Queue
begin

text \<open>
  The server-sent event stream of one command, \<^verbatim>\<open>command_events\<close> of
  \<^verbatim>\<open>src/src/domains/command/router.py\<close>: the browser resumes from the last sequence number it
  saw, durable events are replayed page by page, and live notifications, which may be lost,
  repeated or reordered, only speed things up. Every event has to reach the browser once and
  in order, whatever the notifications do and however often it reconnects.
\<close>

section \<open>Opening the stream\<close>

datatype http_error = HttpError int string

definition UNPROCESSABLE_CODE :: int where
  "UNPROCESSABLE_CODE = 422"

definition NOT_FOUND_CODE :: int where
  "NOT_FOUND_CODE = 404"

definition operation_event_cursor :: "nat option \<Rightarrow> string option \<Rightarrow> http_error + nat" where
  "operation_event_cursor after last_event_id =
     (case last_event_id of
        None \<Rightarrow> Inr (case after of None \<Rightarrow> 0 | Some a \<Rightarrow> a)
      | Some t \<Rightarrow>
          if py_strip t = [] then Inr (case after of None \<Rightarrow> 0 | Some a \<Rightarrow> a)
          else case parse_int t of
                 None \<Rightarrow> Inl (HttpError UNPROCESSABLE_CODE ''invalid Last-Event-ID'')
               | Some n \<Rightarrow>
                   if n < 0 then Inl (HttpError UNPROCESSABLE_CODE ''invalid Last-Event-ID'')
                   else if after \<noteq> None \<and> after \<noteq> Some (nat n)
                   then Inl (HttpError UNPROCESSABLE_CODE ''conflicting operation event cursor'')
                   else Inr (nat n))"

definition snapshot_kind :: "command_status \<Rightarrow> operation_kind" where
  "snapshot_kind status =
     (if status = Completed then KCompleted else if status = Failed then KFailed
      else if status = Cancelled then KCancelled else Progress)"

definition command_snapshot_event :: "time \<Rightarrow> command_row \<Rightarrow> operation_event" where
  "command_snapshot_event now row =
     \<lparr>opv_command_id = ac_command_id row, opv_sequence = 1, opv_kind = snapshot_kind (ac_status row),
      opv_payload = [(''status'', JStr (status_name (ac_status row))),
                     (''cluster_id'', JStr (ac_cluster_id row)), (''action'', JStr (ac_action row)),
                     (''correlation_id'', JStr (ac_correlation_id row)),
                     (''result'', JObj (ac_result row))],
      opv_occurred_at = now\<rparr>"

definition DEFAULT_REPLAY_LIMIT :: int where
  "DEFAULT_REPLAY_LIMIT = 500"

definition replay :: "string \<Rightarrow> string \<Rightarrow> db \<Rightarrow> nat \<Rightarrow> operation_event list" where
  "replay workspace_id command_id s starting_after =
     (case list_command_operation_events workspace_id command_id (int starting_after)
             DEFAULT_REPLAY_LIMIT s of
        Inl e \<Rightarrow> [] | Inr rows \<Rightarrow> map operation_event_of rows)"

definition payload_cluster :: "command_env \<Rightarrow> jobj \<Rightarrow> string" where
  "payload_cluster env payload =
     (case jget payload ''cluster_id'' of
        None \<Rightarrow> []
      | Some v \<Rightarrow> if py_truthy v then py_str (ce_render env) v else [])"

text \<open>
  The events sent first. \<open>refuse\<close> is \<^verbatim>\<open>require_cluster_read_access\<close> of the session: the error
  it raises for a cluster, if any. A command older than the stream table is shown as one
  snapshot of its row.
\<close>

definition initial_events ::
    "command_env \<Rightarrow> (string \<Rightarrow> http_error option) \<Rightarrow> time \<Rightarrow> string \<Rightarrow> string \<Rightarrow> nat \<Rightarrow> db \<Rightarrow>
     http_error + operation_event list" where
  "initial_events env refuse now workspace_id command_id cursor s =
     (let initial = replay workspace_id command_id s cursor;
          checked = (\<lambda>cluster es. case refuse cluster of Some e \<Rightarrow> Inl e | None \<Rightarrow> Inr es);
          missing = Inl (HttpError 500 ''operation event missing cluster identity'')
      in case initial of
           e # _ \<Rightarrow>
             if payload_cluster env (opv_payload e) = [] then missing
             else checked (payload_cluster env (opv_payload e)) initial
         | [] \<Rightarrow>
             (case get_command_operation_event_context workspace_id command_id s of
                Some (last_sequence, _, cluster) \<Rightarrow>
                  (case cluster of
                     Some (c # cs) \<Rightarrow>
                       if last_sequence < cursor
                       then Inl (HttpError UNPROCESSABLE_CODE
                              ''operation event cursor is ahead of durable history'')
                       else checked (c # cs) initial
                   | _ \<Rightarrow> missing)
              | None \<Rightarrow>
                  (case get_agent_command command_id workspace_id s of
                     None \<Rightarrow> Inl (HttpError NOT_FOUND_CODE ''command not found'')
                   | Some row \<Rightarrow> checked (ac_cluster_id row) [command_snapshot_event now row])))"

section \<open>The generator\<close>

datatype frame = EventFrame operation_event | KeepAlive

datatype stream_phase = Opening | Streaming | Ended | Broken string

record browser =
  bw_delivered :: nat
  bw_frames :: "frame list"
  bw_phase :: stream_phase

text \<open>
  \<^verbatim>\<open>emit\<close>: the events it yields, the new \<^verbatim>\<open>delivered\<close>, and whether it raised. It skips what was
  delivered and returns after a terminal event.
\<close>

fun emit_events :: "nat \<Rightarrow> operation_event list \<Rightarrow> operation_event list \<times> nat \<times> bool" where
  "emit_events d [] = ([], d, False)"
| "emit_events d (e # es) =
     (if opv_sequence e \<le> d then emit_events d es
      else if d \<noteq> 0 \<and> opv_sequence e \<noteq> d + 1 then ([], d, True)
      else if terminal_kind (opv_kind e) then ([e], opv_sequence e, False)
      else (let (ys, d', bad) = emit_events (opv_sequence e) es in (e # ys, d', bad)))"

definition terminal_last :: "operation_event list \<Rightarrow> bool" where
  "terminal_last es = (es \<noteq> [] \<and> terminal_kind (opv_kind (last es)))"

definition send_events :: "operation_event list \<Rightarrow> browser \<Rightarrow> browser \<times> bool" where
  "send_events es w =
     (let (ys, d, bad) = emit_events (bw_delivered w) es;
          w' = w\<lparr>bw_delivered := d, bw_frames := bw_frames w @ map EventFrame ys\<rparr>
      in (if bad then w'\<lparr>bw_phase := Broken ''durable operation events are not contiguous''\<rparr> else w', bad))"

definition begin_stream :: "operation_event list \<Rightarrow> browser \<Rightarrow> browser" where
  "begin_stream initial w =
     (let (w', bad) = send_events initial w in
      if bad then w'
      else w'\<lparr>bw_phase := (if terminal_last initial then Ended else Streaming)\<rparr>)"

text \<open>No notification within the poll interval: replay, and close or keep the line alive.\<close>

definition poll_timeout :: "(nat \<Rightarrow> operation_event list) \<Rightarrow> browser \<Rightarrow> browser" where
  "poll_timeout rpl w =
     (let replayed = rpl (bw_delivered w);
          (w', bad) = send_events replayed w
      in if bad then w'
         else if terminal_last replayed then w'\<lparr>bw_phase := Ended\<rparr>
         else w'\<lparr>bw_frames := bw_frames w' @ [KeepAlive]\<rparr>)"

definition send_live :: "operation_event \<Rightarrow> browser \<Rightarrow> browser" where
  "send_live live w =
     (if opv_sequence live \<noteq> bw_delivered w + 1
      then w\<lparr>bw_phase := Broken ''durable operation event replay did not close sequence gap''\<rparr>
      else w\<lparr>bw_delivered := opv_sequence live, bw_frames := bw_frames w @ [EventFrame live],
             bw_phase := (if terminal_kind (opv_kind live) then Ended else bw_phase w)\<rparr>)"

definition live_event ::
    "(nat \<Rightarrow> operation_event list) \<Rightarrow> operation_event \<Rightarrow> browser \<Rightarrow> browser" where
  "live_event rpl live w =
     (if opv_sequence live \<le> bw_delivered w then w
      else if opv_sequence live = bw_delivered w + 1 then send_live live w
      else (let (w', bad) = send_events (rpl (bw_delivered w)) w in
            if bad then w'
            else if opv_sequence live \<le> bw_delivered w' then w'
            else send_live live w'))"

section \<open>A browser session\<close>

text \<open>
  The database with the stream, the live queue of the current connection, and the frames the
  browser has received over all its connections; \<open>c0\<close> is the cursor it started with.
  Anyone may append to any stream, and any committed event of this one may be announced to
  the queue at any time, repeatedly or not at all. When the connection goes, the tail of the
  frames may be lost; the browser reconnects after the last identifier it received.
\<close>

record session =
  ss_db :: db
  ss_queue :: "subscription_item list"
  ss_browser :: browser

fun events_of :: "frame list \<Rightarrow> operation_event list" where
  "events_of [] = []"
| "events_of (EventFrame e # fs) = e # events_of fs"
| "events_of (KeepAlive # fs) = events_of fs"

definition last_event_id :: "nat \<Rightarrow> frame list \<Rightarrow> nat" where
  "last_event_id c0 fs = (if events_of fs = [] then c0 else opv_sequence (last (events_of fs)))"

inductive session_step ::
    "command_env \<Rightarrow> (string \<Rightarrow> http_error option) \<Rightarrow> string \<Rightarrow> string \<Rightarrow> nat \<Rightarrow> session \<Rightarrow> session \<Rightarrow> bool"
  for env refuse ws cmd c0 where
  appended: "append_command_operation_event_in_transaction now w c k cl p (ss_db y) = Inr (s', r) \<Longrightarrow>
    session_step env refuse ws cmd c0 y (y\<lparr>ss_db := s'\<rparr>)"
| elsewhere: "db_op_events s' = db_op_events (ss_db y) \<Longrightarrow> db_cursors s' = db_cursors (ss_db y) \<Longrightarrow>
    session_step env refuse ws cmd c0 y (y\<lparr>ss_db := s'\<rparr>)"
| announced: "e \<in> set (op_stream (ss_db y) ws cmd) \<Longrightarrow>
    session_step env refuse ws cmd c0 y (y\<lparr>ss_queue := offer (operation_event_of e) (ss_queue y)\<rparr>)"
| opened: "bw_phase (ss_browser y) = Opening \<Longrightarrow>
    initial_events env refuse now ws cmd (bw_delivered (ss_browser y)) (ss_db y) = Inr es \<Longrightarrow>
    session_step env refuse ws cmd c0 y (y\<lparr>ss_browser := begin_stream es (ss_browser y)\<rparr>)"
| polled: "bw_phase (ss_browser y) = Streaming \<Longrightarrow>
    session_step env refuse ws cmd c0 y
      (y\<lparr>ss_browser := poll_timeout (replay ws cmd (ss_db y)) (ss_browser y)\<rparr>)"
| received: "bw_phase (ss_browser y) = Streaming \<Longrightarrow>
    subscription_next (ss_queue y) = Some (Live e, q) \<Longrightarrow>
    session_step env refuse ws cmd c0 y
      (y\<lparr>ss_queue := q, ss_browser := live_event (replay ws cmd (ss_db y)) e (ss_browser y)\<rparr>)"
| overflowed: "bw_phase (ss_browser y) = Streaming \<Longrightarrow>
    subscription_next (ss_queue y) = Some (StreamOverflow, q) \<Longrightarrow>
    session_step env refuse ws cmd c0 y
      (y\<lparr>ss_queue := q, ss_browser := (ss_browser y)\<lparr>bw_phase := Broken ''operation event stream overflow''\<rparr>\<rparr>)"
| reconnected: "session_step env refuse ws cmd c0 y
      (y\<lparr>ss_queue := [], ss_browser :=
         \<lparr>bw_delivered = last_event_id c0 (take n (bw_frames (ss_browser y))),
          bw_frames = take n (bw_frames (ss_browser y)), bw_phase = Opening\<rparr>\<rparr>)"

inductive_cases session_stepE: "session_step env refuse ws cmd c0 y y'"

text \<open>The session begins once the command has its receipt event, with a cursor in range.\<close>

definition session_start :: "string \<Rightarrow> string \<Rightarrow> nat \<Rightarrow> session \<Rightarrow> bool" where
  "session_start ws cmd c0 y \<longleftrightarrow>
     op_streams_ok (ss_db y) \<and> op_stream (ss_db y) ws cmd \<noteq> [] \<and>
     c0 \<le> length (op_stream (ss_db y) ws cmd) \<and> ss_queue y = [] \<and>
     ss_browser y = \<lparr>bw_delivered = c0, bw_frames = [], bw_phase = Opening\<rparr>"

section \<open>Numbered streams\<close>

definition stream_events :: "db \<Rightarrow> string \<Rightarrow> string \<Rightarrow> operation_event list" where
  "stream_events s ws cmd = map operation_event_of (op_stream s ws cmd)"

definition numbered :: "operation_event list \<Rightarrow> bool" where
  "numbered es \<longleftrightarrow>
     (\<forall>i < length es. opv_sequence (es ! i) = Suc i \<and>
        (Suc i < length es \<longrightarrow> \<not> terminal_kind (opv_kind (es ! i))))"

lemma stream_events_numbered:
  assumes "op_streams_ok s"
  shows "numbered (stream_events s ws cmd)"
proof -
  let ?es = "op_stream s ws cmd"
  have ok: "stream_ok ?es (cursor_at s ws cmd)" by (rule op_streams_okD(2) [OF assms])
  have seq: "oe_sequence (?es ! i) = Suc i" if "i < length ?es" for i
  proof -
    have "map oe_sequence ?es ! i = [1..<Suc (length ?es)] ! i" by (simp only: op_stream_sequences [OF assms])
    with that show ?thesis by (simp del: upt_Suc)
  qed
  moreover have "\<not> terminal_kind (oe_kind (?es ! i))" if "Suc i < length ?es" for i
  proof (cases "snd (cursor_at s ws cmd)")
    case None
    with ok that show ?thesis by (simp add: stream_ok_def)
  next
    case (Some n)
    from that have "?es ! i \<in> set (butlast ?es)"
      by (metis Suc_lessE diff_Suc_1 length_butlast less_Suc_eq nth_butlast nth_mem Suc_less_eq)
    with ok Some show ?thesis by (simp add: stream_ok_def)
  qed
  ultimately show ?thesis by (simp add: numbered_def stream_events_def)
qed

lemma replay_eq:
  "op_streams_ok s \<Longrightarrow> replay ws cmd s n = take 500 (drop n (stream_events s ws cmd))"
  by (simp add: replay_def replay_page DEFAULT_REPLAY_LIMIT_def stream_events_def take_map drop_map)

lemma emit_numbered:
  "numbered es \<Longrightarrow> emit_events d (take m (drop d es)) = (take m (drop d es), d + length (take m (drop d es)), False)"
proof (induction m arbitrary: d)
  case (Suc m)
  show ?case
  proof (cases "d < length es")
    case False
    then show ?thesis by simp
  next
    case True
    then have d: "drop d es = es ! d # drop (Suc d) es" by (simp add: Cons_nth_drop_Suc)
    have n: "opv_sequence (es ! d) = Suc d" using Suc.prems True by (simp add: numbered_def)
    show ?thesis
    proof (cases "terminal_kind (opv_kind (es ! d))")
      case False
      with n Suc.IH [OF Suc.prems, of "Suc d"] show ?thesis by (simp add: d)
    next
      case t: True
      with Suc.prems True have "Suc d = length es" by (metis Suc_lessI numbered_def)
      with n t show ?thesis by (simp add: d)
    qed
  qed
qed simp

lemma numbered_at:
  assumes "numbered es" and "e \<in> set es"
  shows "0 < opv_sequence e" "opv_sequence e \<le> length es" "es ! (opv_sequence e - 1) = e"
proof -
  obtain i where "i < length es" "e = es ! i" using assms(2) by (metis in_set_conv_nth)
  with assms(1) show "0 < opv_sequence e" "opv_sequence e \<le> length es" "es ! (opv_sequence e - 1) = e"
    by (auto simp: numbered_def)
qed

lemma numbered_terminal:
  "numbered es \<Longrightarrow> e \<in> set es \<Longrightarrow> terminal_kind (opv_kind e) \<Longrightarrow> opv_sequence e = length es \<and> terminal_last es"
proof -
  assume es: "numbered es" "e \<in> set es" "terminal_kind (opv_kind e)"
  let ?i = "opv_sequence e - 1"
  note at = numbered_at [OF es(1,2)]
  have "\<not> Suc ?i < length es" using es at by (metis (no_types, lifting) Suc_lessD numbered_def)
  then have l: "opv_sequence e = length es" using at by simp
  moreover have "last es = e" using at l es(2) by (metis last_conv_nth length_pos_if_in_set length_greater_0_conv)
  ultimately show ?thesis using es by (auto simp: terminal_last_def)
qed

lemma events_of_append [simp]: "events_of (fs @ gs) = events_of fs @ events_of gs"
  by (induction fs rule: events_of.induct) simp_all

lemma events_of_map [simp]: "events_of (map EventFrame es) = es"
  by (induction es) simp_all

lemma events_of_take: "\<exists>m. events_of (take n fs) = take m (events_of fs)"
proof -
  have "events_of fs = events_of (take n fs) @ events_of (drop n fs)"
    by (simp flip: events_of_append)
  then have "events_of (take n fs) = take (length (events_of (take n fs))) (events_of fs)" by simp
  then show ?thesis by blast
qed

section \<open>What one connection does\<close>

text \<open>The browser has exactly the events after \<open>c0\<close> up to what is recorded as delivered.\<close>

definition browser_ok :: "operation_event list \<Rightarrow> nat \<Rightarrow> browser \<Rightarrow> bool" where
  "browser_ok es c0 w \<longleftrightarrow>
     c0 \<le> bw_delivered w \<and> bw_delivered w \<le> length es \<and>
     events_of (bw_frames w) = take (bw_delivered w - c0) (drop c0 es) \<and>
     (bw_phase w = Ended \<longrightarrow> bw_delivered w = length es \<and> terminal_last es)"

lemma take_then:
  "c0 \<le> d \<Longrightarrow> take (d - c0) (drop c0 es) @ take m (drop d es) = take (d + m - c0) (drop c0 es)"
  using take_add [of "d - c0" m "drop c0 es"] by simp

lemma send_page:
  assumes "numbered es" and "browser_ok es c0 w" and "bw_phase w \<noteq> Ended"
  shows "\<exists>w'. send_events (take m (drop (bw_delivered w) es)) w = (w', False) \<and> browser_ok es c0 w' \<and>
    bw_phase w' = bw_phase w \<and> bw_delivered w' = min (length es) (bw_delivered w + m) \<and>
    events_of (bw_frames w') = events_of (bw_frames w) @ take m (drop (bw_delivered w) es)"
proof -
  let ?d = "bw_delivered w" and ?ys = "take m (drop (bw_delivered w) es)"
  have b: "c0 \<le> ?d" "?d \<le> length es" "events_of (bw_frames w) = take (?d - c0) (drop c0 es)"
    using assms(2) by (simp_all add: browser_ok_def)
  have len: "?d + length ?ys = min (length es) (?d + m)" using b(2) by simp
  have "events_of (bw_frames w) @ ?ys = take (min (length es) (?d + m) - c0) (drop c0 es)"
    using take_then [OF b(1), of es m] b(3) by (simp add: min_def)
  with b len assms(3) show ?thesis
    by (simp add: send_events_def emit_numbered [OF assms(1)] browser_ok_def)
qed

lemma terminal_last_page:
  assumes "numbered es" and "d \<le> length es" and "terminal_last (take m (drop d es))"
  shows "min (length es) (d + m) = length es \<and> terminal_last es"
proof -
  let ?ys = "take m (drop d es)"
  have "min (length es) (d + m) = d + length ?ys" using assms(2) by simp
  have "last ?ys \<in> set ?ys" using assms(3) by (simp add: terminal_last_def)
  then have "last ?ys \<in> set es" by (metis in_set_dropD in_set_takeD)
  moreover have "last ?ys = es ! (d + length ?ys - 1)"
    using assms(2,3) by (auto simp: terminal_last_def last_conv_nth nth_append)
  ultimately show ?thesis
    using numbered_terminal [OF assms(1), of "last ?ys"] assms
    by (auto simp: terminal_last_def numbered_def)
qed

lemma begin_stream_ok:
  assumes "numbered es" and "browser_ok es c0 w" and "bw_phase w \<noteq> Ended"
  shows "browser_ok es c0 (begin_stream (take m (drop (bw_delivered w) es)) w)"
proof -
  let ?ys = "take m (drop (bw_delivered w) es)"
  obtain w' where w': "send_events ?ys w = (w', False)" "browser_ok es c0 w'"
    "bw_delivered w' = min (length es) (bw_delivered w + m)"
    using send_page [OF assms] by blast
  have "terminal_last ?ys \<Longrightarrow> bw_delivered w' = length es \<and> terminal_last es"
    using terminal_last_page [OF assms(1), of "bw_delivered w" m] assms(2) w'(3) by (simp add: browser_ok_def)
  with w' show ?thesis by (auto simp: begin_stream_def browser_ok_def)
qed

lemma poll_timeout_ok:
  assumes "numbered es" and "browser_ok es c0 w" and "bw_phase w = Streaming"
    and rpl: "rpl (bw_delivered w) = take m (drop (bw_delivered w) es)"
  shows "browser_ok es c0 (poll_timeout rpl w) \<and> bw_phase (poll_timeout rpl w) \<in> {Streaming, Ended} \<and>
    bw_delivered (poll_timeout rpl w) = min (length es) (bw_delivered w + m)"
proof -
  let ?ys = "take m (drop (bw_delivered w) es)"
  obtain w' where w': "send_events ?ys w = (w', False)" "browser_ok es c0 w'" "bw_phase w' = Streaming"
    "bw_delivered w' = min (length es) (bw_delivered w + m)"
    using send_page [OF assms(1,2)] assms(3) by fastforce
  have "terminal_last ?ys \<Longrightarrow> bw_delivered w' = length es \<and> terminal_last es"
    using terminal_last_page [OF assms(1), of "bw_delivered w" m] assms(2) w'(4) by (simp add: browser_ok_def)
  with w' show ?thesis by (auto simp: poll_timeout_def rpl browser_ok_def)
qed

lemma send_live_ok:
  assumes "numbered es" and "browser_ok es c0 w" and "bw_phase w \<noteq> Ended" and "e \<in> set es"
    and "bw_delivered w < opv_sequence e"
  shows "browser_ok es c0 (send_live e w)"
proof (cases "opv_sequence e = bw_delivered w + 1")
  case False
  with assms(2) show ?thesis by (simp add: send_live_def browser_ok_def)
next
  case True
  let ?d = "bw_delivered w"
  note at = numbered_at [OF assms(1,4)]
  have b: "c0 \<le> ?d" "events_of (bw_frames w) = take (?d - c0) (drop c0 es)"
    using assms(2) by (simp_all add: browser_ok_def)
  have "?d < length es" "es ! ?d = e" using True at by simp_all
  then have "take 1 (drop ?d es) = [e]" by (simp add: take_Suc_conv_app_nth take_Suc hd_drop_conv_nth)
  with take_then [OF b(1), of es 1] b have "events_of (bw_frames w) @ [e] = take (?d + 1 - c0) (drop c0 es)"
    by simp
  with True b at assms(3) numbered_terminal [OF assms(1,4)] show ?thesis
    by (auto simp: send_live_def browser_ok_def)
qed

lemma live_event_ok:
  assumes "numbered es" and "browser_ok es c0 w" and "bw_phase w \<noteq> Ended" and "e \<in> set es"
    and rpl: "rpl (bw_delivered w) = take m (drop (bw_delivered w) es)"
  shows "browser_ok es c0 (live_event rpl e w)"
proof -
  obtain w' where w': "send_events (take m (drop (bw_delivered w) es)) w = (w', False)" "browser_ok es c0 w'"
    "bw_phase w' = bw_phase w"
    using send_page [OF assms(1-3)] by blast
  show ?thesis
    using assms(2,3) w' send_live_ok [OF assms(1,2,3,4)] send_live_ok [OF assms(1) w'(2) _ assms(4)]
    by (simp add: live_event_def rpl)
qed

text \<open>The stream only grows, and not at all once it is closed.\<close>

lemma browser_ok_grows:
  assumes "browser_ok es c0 w" and "xs \<noteq> [] \<longrightarrow> \<not> terminal_last es"
  shows "browser_ok (es @ xs) c0 w"
proof (cases "xs = []")
  case False
  with assms show ?thesis by (auto simp: browser_ok_def)
qed (use assms in simp)

lemma append_stream_events:
  assumes ok: "op_streams_ok s"
    and step: "append_command_operation_event_in_transaction now w c k cl p s = Inr (s', r)"
  shows "\<exists>xs. stream_events s' ws cmd = stream_events s ws cmd @ xs \<and>
    (xs \<noteq> [] \<longrightarrow> \<not> terminal_last (stream_events s ws cmd))"
proof (cases "snd (cursor_at s w c) = None")
  case False
  from append_closed(2) [OF step op_streams_okD(1) [OF ok] False] show ?thesis
    by (simp add: stream_events_def op_stream_def)
next
  case True
  obtain row where row: "db_op_events s' = db_op_events s @ [row]" "oe_workspace_id row = w" "oe_command_id row = c"
    using append_open [OF step op_streams_okD(1) [OF ok] True] by blast
  show ?thesis
  proof (cases "w = ws \<and> c = cmd")
    case False
    with row show ?thesis by (auto simp: stream_events_def op_stream_def)
  next
    case here: True
    then have "stream_ok (op_stream s ws cmd) (fst (cursor_at s ws cmd), None)"
      using op_streams_okD(2) [OF ok, of ws cmd] True by (metis prod.collapse)
    then have "\<not> terminal_last (stream_events s ws cmd)"
      by (auto simp: stream_ok_def terminal_last_def stream_events_def last_map)
    with here row show ?thesis by (auto simp: stream_events_def op_stream_def)
  qed
qed

section \<open>The session invariant\<close>

definition session_inv :: "string \<Rightarrow> string \<Rightarrow> nat \<Rightarrow> session \<Rightarrow> bool" where
  "session_inv ws cmd c0 y \<longleftrightarrow>
     op_streams_ok (ss_db y) \<and> stream_events (ss_db y) ws cmd \<noteq> [] \<and>
     (\<forall>e. Live e \<in> set (ss_queue y) \<longrightarrow> e \<in> set (stream_events (ss_db y) ws cmd)) \<and>
     browser_ok (stream_events (ss_db y) ws cmd) c0 (ss_browser y)"

lemma session_invD:
  assumes "session_inv ws cmd c0 y"
  shows "op_streams_ok (ss_db y)" "stream_events (ss_db y) ws cmd \<noteq> []"
    "Live e \<in> set (ss_queue y) \<Longrightarrow> e \<in> set (stream_events (ss_db y) ws cmd)"
    "browser_ok (stream_events (ss_db y) ws cmd) c0 (ss_browser y)"
  using assms by (simp_all add: session_inv_def)

text \<open>A command with a stream is opened from it, never from the snapshot.\<close>

lemma initial_events_page:
  assumes ok: "op_streams_ok s" and ne: "stream_events s ws cmd \<noteq> []"
    and init: "initial_events env refuse now ws cmd n s = Inr es"
  shows "es = take 500 (drop n (stream_events s ws cmd))"
proof -
  have "cursor_at s ws cmd \<noteq> (0, None)"
    using op_streams_okD(2) [OF ok, of ws cmd] ne by (auto simp: stream_ok_def stream_events_def)
  then obtain c where "lookup cursor_key (ws, cmd) (db_cursors s) = Some c"
    by (auto simp: cursor_at_def split: option.splits)
  then have "find (\<lambda>c. cur_workspace_id c = ws \<and> cur_command_id c = cmd) (db_cursors s) \<noteq> None"
    by (auto simp: find_None_iff cursor_key_def dest!: lookup_Some_in)
  with init show ?thesis
    by (auto simp: initial_events_def get_command_operation_event_context_def Let_def replay_eq [OF ok]
        split: list.splits option.splits if_splits)
qed

lemma session_inv_step:
  assumes inv: "session_inv ws cmd c0 y" and step: "session_step env refuse ws cmd c0 y y'"
  shows "session_inv ws cmd c0 y'"
proof -
  let ?es = "stream_events (ss_db y) ws cmd" and ?w = "ss_browser y"
  note I = session_invD [OF inv]
  note num = stream_events_numbered [OF I(1), of ws cmd]
  from step show ?thesis
  proof cases
    case (appended now w c k cl p s' r)
    obtain xs where xs: "stream_events s' ws cmd = ?es @ xs" "xs \<noteq> [] \<longrightarrow> \<not> terminal_last ?es"
      using append_stream_events [OF I(1) appended(2)] by blast
    from append_op_streams_ok [OF appended(2) I(1)] xs browser_ok_grows [OF I(4) xs(2)] I(2,3) appended(1)
    show ?thesis by (auto simp: session_inv_def)
  next
    case (elsewhere s')
    then have "stream_events s' ws cmd = ?es" "op_streams_ok s'"
      using I(1) op_streams_ok_cong [of s' "ss_db y"] by (simp_all add: stream_events_def op_stream_def)
    with elsewhere(1) inv show ?thesis by (simp add: session_inv_def)
  next
    case (announced e)
    then have "operation_event_of e \<in> set ?es" by (simp add: stream_events_def)
    with announced(1) inv show ?thesis by (auto simp: session_inv_def offer_def)
  next
    case (opened now es)
    from initial_events_page [OF I(1,2) opened(3)] opened(1,2) I begin_stream_ok [OF num I(4), of 500]
    show ?thesis by (simp add: session_inv_def)
  next
    case polled
    with I poll_timeout_ok [OF num I(4) polled(2), of "replay ws cmd (ss_db y)" 500] show ?thesis
      by (simp add: session_inv_def replay_eq)
  next
    case (received e q)
    then have q: "ss_queue y = Live e # q" by (simp add: subscription_next_def split: list.splits)
    then have "e \<in> set ?es" using I(3) by simp
    with received q I live_event_ok [OF num I(4) _ this, of "replay ws cmd (ss_db y)" 500] show ?thesis
      by (simp add: session_inv_def replay_eq)
  next
    case (overflowed q)
    then have q: "ss_queue y = StreamOverflow # q" by (simp add: subscription_next_def split: list.splits)
    with overflowed(1) inv show ?thesis by (simp add: session_inv_def browser_ok_def)
  next
    case (reconnected n)
    obtain m where m: "events_of (take n (bw_frames ?w)) = take m (events_of (bw_frames ?w))"
      using events_of_take by blast
    let ?k = "min m (bw_delivered ?w - c0)"
    have b: "c0 \<le> bw_delivered ?w" "bw_delivered ?w \<le> length ?es"
      "events_of (bw_frames ?w) = take (bw_delivered ?w - c0) (drop c0 ?es)"
      using I(4) by (simp_all add: browser_ok_def)
    then have ev: "events_of (take n (bw_frames ?w)) = take ?k (drop c0 ?es)"
      by (simp add: m min.commute)
    have k: "?k \<le> length (drop c0 ?es)" using b by simp
    have "last_event_id c0 (take n (bw_frames ?w)) = c0 + ?k"
    proof (cases "?k = 0")
      case True
      with ev show ?thesis by (simp add: last_event_id_def)
    next
      case False
      with k have "last (take ?k (drop c0 ?es)) = ?es ! (c0 + ?k - 1)"
        by (subst last_conv_nth) (auto simp: min_def)
      with False k num ev show ?thesis
        by (auto simp: last_event_id_def numbered_def)
    qed
    with reconnected ev k b I show ?thesis
      by (simp add: session_inv_def browser_ok_def)
  qed
qed

interpretation stream_session: invariant_system "session_start ws cmd c0" "session_step env refuse ws cmd c0"
    "session_inv ws cmd c0" for ws cmd c0 env refuse
proof unfold_locales
  show "session_start ws cmd c0 s \<Longrightarrow> session_inv ws cmd c0 s" for s
    by (simp add: session_start_def session_inv_def browser_ok_def stream_events_def)
qed (rule session_inv_step)

text \<open>
  Claim C11. The browser sees the stream exactly: whatever is committed, announced, lost,
  repeated or reordered, and however often the connection breaks and resumes, the events the
  browser has received after its starting cursor are exactly the next events of the command's
  stream, each once and in order. The server ends the stream only when the browser has all of
  it, up to the terminal event.
\<close>

theorem browser_sees_stream:
  assumes "reachable_from (session_start ws cmd c0) (session_step env refuse ws cmd c0) y"
  shows "\<exists>n. events_of (bw_frames (ss_browser y)) =
      map operation_event_of (take n (drop c0 (op_stream (ss_db y) ws cmd))) \<and>
    bw_delivered (ss_browser y) = c0 + n \<and> c0 + n \<le> length (op_stream (ss_db y) ws cmd) \<and>
    (bw_phase (ss_browser y) = Ended \<longrightarrow>
       c0 + n = length (op_stream (ss_db y) ws cmd) \<and>
       terminal_kind (oe_kind (last (op_stream (ss_db y) ws cmd))))"
proof -
  have "browser_ok (stream_events (ss_db y) ws cmd) c0 (ss_browser y)"
    by (rule session_invD(4) [OF stream_session.reachable_inv [OF assms]])
  then show ?thesis
    by (intro exI [of _ "bw_delivered (ss_browser y) - c0"])
       (auto simp: browser_ok_def stream_events_def terminal_last_def take_map drop_map last_map)
qed

text \<open>
  Lost notifications only cost time: in every state of a streaming session the
  next poll interval without a notification delivers all missing events, up to 500 of them, and
  never breaks the connection.
\<close>

theorem poll_catches_up:
  assumes "reachable_from (session_start ws cmd c0) (session_step env refuse ws cmd c0) y"
    and "bw_phase (ss_browser y) = Streaming"
  shows "\<exists>w. session_step env refuse ws cmd c0 y (y\<lparr>ss_browser := w\<rparr>) \<and> bw_phase w \<in> {Streaming, Ended} \<and>
    events_of (bw_frames w) = map operation_event_of
      (take (bw_delivered (ss_browser y) + 500 - c0) (drop c0 (op_stream (ss_db y) ws cmd)))"
proof -
  let ?es = "stream_events (ss_db y) ws cmd" and ?w = "ss_browser y"
  let ?w' = "poll_timeout (replay ws cmd (ss_db y)) ?w"
  note I = session_invD [OF stream_session.reachable_inv [OF assms(1)]]
  have "browser_ok ?es c0 ?w' \<and> bw_phase ?w' \<in> {Streaming, Ended} \<and>
      bw_delivered ?w' = min (length ?es) (bw_delivered ?w + 500)"
    using poll_timeout_ok [OF stream_events_numbered [OF I(1)] I(4) assms(2)] replay_eq [OF I(1)] by blast
  then have "bw_phase ?w' \<in> {Streaming, Ended}"
    "events_of (bw_frames ?w') = take (bw_delivered ?w + 500 - c0) (drop c0 ?es)"
    by (auto simp: browser_ok_def min_def)
  then show ?thesis
    using session_step.polled [OF assms(2), of env refuse ws cmd c0]
    by (intro exI [of _ ?w']) (simp add: stream_events_def take_map drop_map)
qed

text \<open>A session in which two notifications are lost before the command completes.\<close>

definition demo_append :: "operation_kind \<Rightarrow> db \<Rightarrow> db" where
  "demo_append k s =
     (case append_command_operation_event_in_transaction 0 ''w'' ''a'' k ''c''
             [(''cluster_id'', JStr ''c'')] s of Inl e \<Rightarrow> s | Inr (s', r) \<Rightarrow> s')"

definition demo_stream :: "operation_kind list \<Rightarrow> db" where
  "demo_stream ks = fold demo_append ks empty_db"

lemma demo_append_run:
  "\<not> isl (append_command_operation_event_in_transaction 0 ''w'' ''a'' k ''c'' [(''cluster_id'', JStr ''c'')] s) \<Longrightarrow>
   \<exists>r. append_command_operation_event_in_transaction 0 ''w'' ''a'' k ''c'' [(''cluster_id'', JStr ''c'')] s =
     Inr (demo_append k s, r)"
  by (auto simp: demo_append_def split: sum.splits prod.splits)

lemma demo_append_ok: "op_streams_ok s \<Longrightarrow> op_streams_ok (demo_append k s)"
  by (auto simp: demo_append_def append_op_streams_ok split: sum.splits prod.splits)

lemma demo_stream_ok: "op_streams_ok (demo_stream ks)"
proof -
  have "op_streams_ok (fold demo_append ks s)" if "op_streams_ok s" for s
    using that by (induction ks arbitrary: s) (simp_all add: demo_append_ok)
  then show ?thesis by (simp add: demo_stream_def op_streams_ok_empty)
qed

definition demo_stream_env :: command_env where
  "demo_stream_env = \<lparr>ce_catalog = [], ce_render = \<lambda>_. [], ce_sql_text = \<lambda>_. [],
     ce_timestamp = \<lambda>_. None, ce_impact = \<lambda>_ _ _ _ _. []\<rparr>"

definition demo_session :: session where
  "demo_session = \<lparr>ss_db = demo_stream [Progress], ss_queue = [],
     ss_browser = \<lparr>bw_delivered = 0, bw_frames = [], bw_phase = Opening\<rparr>\<rparr>"

definition demo_opened :: session where
  "demo_opened = demo_session\<lparr>ss_browser := begin_stream (replay ''w'' ''a'' (demo_stream [Progress]) 0)
     (ss_browser demo_session)\<rparr>"

definition demo_completed :: session where
  "demo_completed = demo_opened\<lparr>ss_db := demo_stream [Progress, Progress, KCompleted]\<rparr>"

definition demo_third :: operation_event where
  "demo_third = stream_events (demo_stream [Progress, Progress, KCompleted]) ''w'' ''a'' ! 2"

definition demo_stuck :: session where
  "demo_stuck = demo_completed\<lparr>ss_browser :=
     live_event (replay ''w'' ''a'' (ss_db demo_completed)) demo_third (ss_browser demo_completed)\<rparr>"

lemma demo_session_start: "session_start ''w'' ''a'' 0 demo_session"
proof -
  have "op_stream (demo_stream [Progress]) ''w'' ''a'' \<noteq> []" by code_simp
  then show ?thesis by (simp add: session_start_def demo_session_def demo_stream_ok)
qed

lemma demo_opened_step: "session_step demo_stream_env (\<lambda>_. None) ''w'' ''a'' 0 demo_session demo_opened"
proof -
  have "initial_events demo_stream_env (\<lambda>_. None) 0 ''w'' ''a'' 0 (demo_stream [Progress]) =
      Inr (replay ''w'' ''a'' (demo_stream [Progress]) 0)" by code_simp
  then have "session_step demo_stream_env (\<lambda>_. None) ''w'' ''a'' 0 demo_session
      (demo_session\<lparr>ss_browser := begin_stream (replay ''w'' ''a'' (demo_stream [Progress]) 0) (ss_browser demo_session)\<rparr>)"
    by (intro session_step.opened [where now = 0]) (simp_all add: demo_session_def)
  then show ?thesis by (simp add: demo_opened_def)
qed

lemma demo_opened_reachable:
  "reachable_from (session_start ''w'' ''a'' 0) (session_step demo_stream_env (\<lambda>_. None) ''w'' ''a'' 0) demo_opened"
  unfolding reachable_from_def using demo_session_start demo_opened_step by blast

theorem browser_sees_stream_witness:
  "reachable_from (session_start ''w'' ''a'' 0) (session_step demo_stream_env (\<lambda>_. None) ''w'' ''a'' 0) demo_opened \<and>
   (\<exists>n. events_of (bw_frames (ss_browser demo_opened)) =
      map operation_event_of (take n (op_stream (ss_db demo_opened) ''w'' ''a'')))"
  using browser_sees_stream [OF demo_opened_reachable] demo_opened_reachable by auto

theorem poll_catches_up_witness:
  "bw_phase (ss_browser demo_opened) = Streaming \<and>
   (\<exists>w. session_step demo_stream_env (\<lambda>_. None) ''w'' ''a'' 0 demo_opened (demo_opened\<lparr>ss_browser := w\<rparr>) \<and>
      bw_phase w \<in> {Streaming, Ended})"
proof -
  have p: "bw_phase (ss_browser demo_opened) = Streaming" by code_simp
  with poll_catches_up [OF demo_opened_reachable p] show ?thesis by blast
qed

lemma demo_stuck_reachable:
  "reachable_from (session_start ''w'' ''a'' 0) (session_step demo_stream_env (\<lambda>_. None) ''w'' ''a'' 0) demo_stuck"
proof -
  let ?step = "session_step demo_stream_env (\<lambda>_. None) ''w'' ''a'' 0"
  have "\<not> isl (append_command_operation_event_in_transaction 0 ''w'' ''a'' Progress ''c'' [(''cluster_id'', JStr ''c'')]
      (demo_stream [Progress]))" by code_simp
  from demo_append_run [OF this] obtain r where
    r: "append_command_operation_event_in_transaction 0 ''w'' ''a'' Progress ''c'' [(''cluster_id'', JStr ''c'')]
      (demo_stream [Progress]) = Inr (demo_stream [Progress, Progress], r)" by (auto simp: demo_stream_def)
  have "\<not> isl (append_command_operation_event_in_transaction 0 ''w'' ''a'' KCompleted ''c'' [(''cluster_id'', JStr ''c'')]
      (demo_stream [Progress, Progress]))" by code_simp
  from demo_append_run [OF this] obtain r' where
    r': "append_command_operation_event_in_transaction 0 ''w'' ''a'' KCompleted ''c'' [(''cluster_id'', JStr ''c'')]
      (demo_stream [Progress, Progress]) = Inr (demo_stream [Progress, Progress, KCompleted], r')"
    by (auto simp: demo_stream_def)
  have db: "ss_db demo_opened = demo_stream [Progress]" "ss_queue demo_opened = []"
    by (simp_all add: demo_opened_def demo_session_def)
  have 1: "?step demo_opened (demo_opened\<lparr>ss_db := demo_stream [Progress, Progress]\<rparr>)"
    by (rule session_step.appended [where y = demo_opened, unfolded db, OF r])
  have 2: "?step (demo_opened\<lparr>ss_db := demo_stream [Progress, Progress]\<rparr>) demo_completed"
    using session_step.appended [where y = "demo_opened\<lparr>ss_db := demo_stream [Progress, Progress]\<rparr>"] r'
    by (simp add: demo_completed_def)
  have q: "ss_queue demo_completed = []" by (simp add: demo_completed_def db)
  have "2 < length (op_stream (ss_db demo_completed) ''w'' ''a'')" by code_simp
  then have e: "op_stream (ss_db demo_completed) ''w'' ''a'' ! 2 \<in> set (op_stream (ss_db demo_completed) ''w'' ''a'')"
    "demo_third = operation_event_of (op_stream (ss_db demo_completed) ''w'' ''a'' ! 2)"
    by (rule nth_mem) (use \<open>2 < _\<close> in \<open>simp add: demo_third_def stream_events_def demo_completed_def\<close>)
  have 3: "?step demo_completed (demo_completed\<lparr>ss_queue := [Live demo_third]\<rparr>)"
    using session_step.announced [OF e(1), where env = demo_stream_env and refuse = "\<lambda>_. None" and ?c0.0 = 0]
    by (simp add: q e(2) offer_def OPERATION_EVENT_QUEUE_MAX_def)
  have same: "demo_completed\<lparr>ss_queue := [], ss_browser := b\<rparr> = demo_completed\<lparr>ss_browser := b\<rparr>" for b
    using q by (cases demo_completed) simp
  have ph: "bw_phase (ss_browser demo_completed) = Streaming" by code_simp
  have "?step (demo_completed\<lparr>ss_queue := [Live demo_third]\<rparr>)
      (demo_completed\<lparr>ss_queue := [Live demo_third], ss_queue := [], ss_browser :=
         live_event (replay ''w'' ''a'' (ss_db demo_completed)) demo_third (ss_browser demo_completed)\<rparr>)"
    using session_step.received [where y = "demo_completed\<lparr>ss_queue := [Live demo_third]\<rparr>" and e = demo_third
        and q = "[]" and env = demo_stream_env and refuse = "\<lambda>_. None" and ?c0.0 = 0 and ws = "''w''" and cmd = "''a''"]
      ph by (simp add: subscription_next_def)
  then have 4: "?step (demo_completed\<lparr>ss_queue := [Live demo_third]\<rparr>) demo_stuck"
    using same by (simp add: demo_stuck_def)
  have "?step\<^sup>*\<^sup>* demo_session demo_stuck"
    by (rule converse_rtranclp_into_rtranclp [of ?step, OF demo_opened_step],
        rule converse_rtranclp_into_rtranclp [of ?step, OF 1],
        rule converse_rtranclp_into_rtranclp [of ?step, OF 2],
        rule converse_rtranclp_into_rtranclp [of ?step, OF 3],
        rule r_into_rtranclp [of ?step, OF 4])
  then show ?thesis unfolding reachable_from_def using demo_session_start by blast
qed

text \<open>Once everything is delivered while streaming, polls and notifications change nothing.\<close>

lemma complete_stream_idle:
  assumes "session_inv ws cmd c0 y" and "bw_delivered (ss_browser y) = length (op_stream (ss_db y) ws cmd)"
  shows "poll_timeout (replay ws cmd (ss_db y)) (ss_browser y) =
      (ss_browser y)\<lparr>bw_frames := bw_frames (ss_browser y) @ [KeepAlive]\<rparr>"
    and "e \<in> set (op_stream (ss_db y) ws cmd) \<Longrightarrow>
      live_event (replay ws cmd (ss_db y)) (operation_event_of e) (ss_browser y) = ss_browser y"
proof -
  note I = session_invD [OF assms(1)]
  have "replay ws cmd (ss_db y) (bw_delivered (ss_browser y)) = []"
    by (simp add: replay_eq [OF I(1)] stream_events_def assms(2))
  then show "poll_timeout (replay ws cmd (ss_db y)) (ss_browser y) =
      (ss_browser y)\<lparr>bw_frames := bw_frames (ss_browser y) @ [KeepAlive]\<rparr>"
    by (simp add: poll_timeout_def send_events_def terminal_last_def)
  show "live_event (replay ws cmd (ss_db y)) (operation_event_of e) (ss_browser y) = ss_browser y"
    if "e \<in> set (op_stream (ss_db y) ws cmd)"
    using numbered_at(2) [OF stream_events_numbered [OF I(1)], of "operation_event_of e" ws cmd] that assms(2)
    by (simp add: live_event_def stream_events_def)
qed

text \<open>
  The server does not always close a finished stream: when the notification of
  the terminal event finds a gap, the repair delivers the terminal event but the loop goes on.
  There is a run of a session in which the browser has received the completion, the connection
  is still streaming, every further notification is ignored and every poll only adds a
  keep-alive.
\<close>

theorem completed_stream_can_stay_open:
  "\<exists>y. reachable_from (session_start ''w'' ''a'' 0) (session_step demo_stream_env (\<lambda>_. None) ''w'' ''a'' 0) y \<and>
     bw_phase (ss_browser y) = Streaming \<and>
     opv_kind (last (events_of (bw_frames (ss_browser y)))) = KCompleted \<and>
     poll_timeout (replay ''w'' ''a'' (ss_db y)) (ss_browser y) =
       (ss_browser y)\<lparr>bw_frames := bw_frames (ss_browser y) @ [KeepAlive]\<rparr> \<and>
     list_all (\<lambda>e. live_event (replay ''w'' ''a'' (ss_db y)) (operation_event_of e) (ss_browser y) = ss_browser y)
       (op_stream (ss_db y) ''w'' ''a'')"
proof -
  have s: "bw_phase (ss_browser demo_stuck) = Streaming"
    "opv_kind (last (events_of (bw_frames (ss_browser demo_stuck)))) = KCompleted"
    "bw_delivered (ss_browser demo_stuck) = length (op_stream (ss_db demo_stuck) ''w'' ''a'')"
    by code_simp+
  note idle = complete_stream_idle [OF stream_session.reachable_inv [OF demo_stuck_reachable] s(3)]
  from idle s demo_stuck_reachable show ?thesis by (intro exI [of _ demo_stuck]) (simp add: list_all_iff)
qed

end
