(* ===== verification/Agent_Outbox.thy ===== *)
theory Agent_Outbox
  imports Kyro_Prelude
begin

text \<open>
  The durable result outbox of the cluster agent,
  \<^verbatim>\<open>src/src/services/target/cluster-agent/commands/outbox.py\<close>, and the flush step of
  \<^verbatim>\<open>src/src/services/target/cluster-agent/agent.py\<close> that sends its rows to the management
  plane. A result survives a lost connection and a restart; it is given up only after the
  configured number of refused attempts, and then kept as abandoned. The result of an agent
  uninstall is finalised (the agent removes itself) only after the acknowledgement is stored.
  A result is JSON text in the table and comes back as the object it was made from.
\<close>

datatype result_status = ResultPending | ResultAcked | ResultAbandoned

record result_row =
  rr_command_id :: string
  rr_attempt_id :: string
  rr_workspace_id :: string
  rr_lease_id :: string
  rr_agent_id :: string
  rr_status :: result_status
  rr_result :: jobj
  rr_attempt_count :: nat
  rr_last_error :: "string option"
  rr_created_at :: time
  rr_updated_at :: time

definition rr_key :: "result_row \<Rightarrow> string \<times> string" where
  "rr_key r = (rr_command_id r, rr_attempt_id r)"

text \<open>\<^verbatim>\<open>attempt_id or f"legacy:{command_id}"\<close>.\<close>

definition normalized_attempt_id :: "string option \<Rightarrow> string \<Rightarrow> string" where
  "normalized_attempt_id attempt_id command_id =
     (case attempt_id of Some (c # cs) \<Rightarrow> c # cs | _ \<Rightarrow> ''legacy:'' @ command_id)"

section \<open>Operations of the table\<close>

definition enqueue_result ::
    "string \<Rightarrow> string \<Rightarrow> string \<Rightarrow> string \<Rightarrow> jobj \<Rightarrow> string option \<Rightarrow> time \<Rightarrow> result_row list \<Rightarrow>
     result_row list" where
  "enqueue_result command_id workspace_id lease_id agent_id result attempt_id now t =
     (let aid = normalized_attempt_id attempt_id command_id;
          row = \<lparr>rr_command_id = command_id, rr_attempt_id = aid, rr_workspace_id = workspace_id,
                 rr_lease_id = lease_id, rr_agent_id = agent_id, rr_status = ResultPending,
                 rr_result = result, rr_attempt_count = 0, rr_last_error = None,
                 rr_created_at = now, rr_updated_at = now\<rparr>
      in if (command_id, aid) \<in> set (map rr_key t)
         then update_where (\<lambda>r. rr_key r = (command_id, aid))
                (\<lambda>r. r\<lparr>rr_workspace_id := workspace_id, rr_lease_id := lease_id,
                      rr_agent_id := agent_id, rr_status := ResultPending, rr_result := result,
                      rr_updated_at := now\<rparr>) t
         else t @ [row])"

text \<open>\<open>ORDER BY k LIMIT 1\<close>; equal keys keep table order.\<close>

definition first_by :: "(result_row \<Rightarrow> time) \<Rightarrow> result_status \<Rightarrow> result_row list \<Rightarrow> result_row option" where
  "first_by k st t =
     (case sort_key k (filter (\<lambda>r. rr_status r = st) t) of [] \<Rightarrow> None | r # _ \<Rightarrow> Some r)"

definition next_result :: "result_row list \<Rightarrow> result_row option" where
  "next_result t = first_by rr_created_at ResultPending t"

definition next_finalization :: "result_row list \<Rightarrow> result_row option" where
  "next_finalization t = first_by rr_updated_at ResultAcked t"

text \<open>\<open>None\<close> is the RuntimeError when no pending row was changed.\<close>

definition mark_acknowledged_for_finalization ::
    "string \<Rightarrow> string option \<Rightarrow> time \<Rightarrow> result_row list \<Rightarrow> result_row list option" where
  "mark_acknowledged_for_finalization command_id attempt_id now t =
     (let p = (\<lambda>r. rr_key r = (command_id, normalized_attempt_id attempt_id command_id) \<and>
                   rr_status r = ResultPending)
      in if count_where p t \<noteq> 1 then None
         else Some (update_where p (\<lambda>r. r\<lparr>rr_status := ResultAcked, rr_last_error := None,
                                         rr_updated_at := now\<rparr>) t))"

definition mark_finalized :: "string \<Rightarrow> string option \<Rightarrow> result_row list \<Rightarrow> result_row list" where
  "mark_finalized command_id attempt_id t =
     delete_where (\<lambda>r. rr_key r = (command_id, normalized_attempt_id attempt_id command_id) \<and>
       rr_status r = ResultAcked) t"

definition mark_sent :: "string \<Rightarrow> string option \<Rightarrow> result_row list \<Rightarrow> result_row list" where
  "mark_sent command_id attempt_id t =
     delete_where (\<lambda>r. rr_key r = (command_id, normalized_attempt_id attempt_id command_id)) t"

text \<open>The second update has no condition on the status, as in the code.\<close>

definition record_failure ::
    "string \<Rightarrow> string \<Rightarrow> int \<Rightarrow> string option \<Rightarrow> time \<Rightarrow> result_row list \<Rightarrow> result_row list \<times> bool" where
  "record_failure command_id error max_attempts attempt_id now t =
     (let key = (command_id, normalized_attempt_id attempt_id command_id);
          t1 = update_where (\<lambda>r. rr_key r = key \<and> rr_status r = ResultPending)
                 (\<lambda>r. r\<lparr>rr_attempt_count := Suc (rr_attempt_count r), rr_last_error := Some error,
                       rr_updated_at := now\<rparr>) t;
          attempt_count = (case lookup rr_key key t1 of None \<Rightarrow> 0 | Some r \<Rightarrow> int (rr_attempt_count r))
      in if max 1 max_attempts \<le> attempt_count
         then (update_where (\<lambda>r. rr_key r = key)
                 (\<lambda>r. r\<lparr>rr_status := ResultAbandoned, rr_updated_at := now\<rparr>) t1, True)
         else (t1, False))"

definition status_count :: "result_status \<Rightarrow> result_row list \<Rightarrow> nat" where
  "status_count st t = count_where (\<lambda>r. rr_status r = st) t"

section \<open>Flushing\<close>

text \<open>\<open>refs\<close>: the resources an uninstall removes (\<^verbatim>\<open>UNINSTALL_CLEANUP_RESOURCE_REFS\<close>).\<close>

definition is_agent_uninstall_cleanup_result :: "json list \<Rightarrow> jobj \<Rightarrow> bool" where
  "is_agent_uninstall_cleanup_result refs result =
     (jget result ''status'' = Some (JStr ''completed'') \<and>
      jget result ''cleanup_completed'' = Some (JBool True) \<and>
      jget result ''cleanup_resources'' = Some (JArr refs) \<and>
      jget result ''residual_resources'' = Some (JArr []))"

text \<open>The server's answer to a completion; a refusal may carry an HTTP status.\<close>

datatype reply = Acknowledged | Refused string "int option"

definition should_finalize_uninstall_after_lost_ack ::
    "json list \<Rightarrow> result_row \<Rightarrow> int option \<Rightarrow> bool" where
  "should_finalize_uninstall_after_lost_ack refs r code =
     (0 < rr_attempt_count r \<and> is_agent_uninstall_cleanup_result refs (rr_result r) \<and>
      code \<in> {Some 401, Some 404})"

text \<open>\<open>cleaned\<close>: whether the agent's self-removal succeeded.\<close>

definition retry_agent_uninstall_finalization ::
    "bool \<Rightarrow> result_row \<Rightarrow> result_row list \<Rightarrow> result_row list \<times> bool" where
  "retry_agent_uninstall_finalization cleaned r t =
     (if cleaned then (mark_finalized (rr_command_id r) (Some (rr_attempt_id r)) t, True) else (t, False))"

definition fail_flush :: "string \<Rightarrow> int \<Rightarrow> result_row \<Rightarrow> time \<Rightarrow> result_row list \<Rightarrow> result_row list \<times> bool" where
  "fail_flush error max_attempts r now t =
     (fst (record_failure (rr_command_id r) error max_attempts (Some (rr_attempt_id r)) now t), False)"

text \<open>
  \<open>Inl\<close> is an exception that leaves the flush: only where the lost-acknowledgement rule finds
  no pending row.
\<close>

definition flush_command_results_once ::
    "json list \<Rightarrow> int \<Rightarrow> time \<Rightarrow> (result_row \<Rightarrow> reply) \<Rightarrow> bool \<Rightarrow> result_row list \<Rightarrow>
     string + result_row list \<times> bool" where
  "flush_command_results_once refs max_attempts now reply_to cleaned t =
     (case next_finalization t of
        Some r \<Rightarrow> Inr (retry_agent_uninstall_finalization cleaned r t)
      | None \<Rightarrow>
          (case next_result t of
             None \<Rightarrow> Inr (t, False)
           | Some r \<Rightarrow>
               (case reply_to r of
                  Acknowledged \<Rightarrow>
                    if is_agent_uninstall_cleanup_result refs (rr_result r)
                    then (case mark_acknowledged_for_finalization (rr_command_id r) (Some (rr_attempt_id r)) now t of
                            Some t1 \<Rightarrow> Inr (retry_agent_uninstall_finalization cleaned r t1)
                          | None \<Rightarrow> Inr (fail_flush ''command result cannot enter finalization state''
                                          max_attempts r now t))
                    else Inr (mark_sent (rr_command_id r) (Some (rr_attempt_id r)) t, True)
                | Refused error code \<Rightarrow>
                    if should_finalize_uninstall_after_lost_ack refs r code
                    then (case mark_acknowledged_for_finalization (rr_command_id r) (Some (rr_attempt_id r)) now t of
                            Some t1 \<Rightarrow> Inr (retry_agent_uninstall_finalization cleaned r t1)
                          | None \<Rightarrow> Inl ''command result cannot enter finalization state'')
                    else Inr (fail_flush error max_attempts r now t))))"

section \<open>What a flush does\<close>

definition outbox_table_ok :: "result_row list \<Rightarrow> bool" where
  "outbox_table_ok t \<longleftrightarrow> unique_key rr_key t \<and> (\<forall>r \<in> set t. rr_attempt_id r \<noteq> [])"

lemma normalized_attempt_nonempty [simp]: "normalized_attempt_id a c \<noteq> []"
  by (simp add: normalized_attempt_id_def split: option.splits list.splits)

lemma normalized_attempt_Some [simp]: "a \<noteq> [] \<Longrightarrow> normalized_attempt_id (Some a) c = a"
  by (simp add: normalized_attempt_id_def split: list.splits)

lemma first_by_in: "first_by k st t = Some r \<Longrightarrow> r \<in> set t \<and> rr_status r = st"
proof -
  assume "first_by k st t = Some r"
  then obtain rs where "sort_key k (filter (\<lambda>r. rr_status r = st) t) = r # rs"
    by (auto simp: first_by_def split: list.splits)
  then have "r \<in> set (sort_key k (filter (\<lambda>r. rr_status r = st) t))" by simp
  then show ?thesis by simp
qed

lemma first_by_None: "first_by k st t = None \<longleftrightarrow> (\<forall>r \<in> set t. rr_status r \<noteq> st)"
proof -
  let ?xs = "filter (\<lambda>r. rr_status r = st) t"
  have "sort_key k ?xs = [] \<longleftrightarrow> ?xs = []" by (metis set_empty set_sort)
  then have "first_by k st t = None \<longleftrightarrow> ?xs = []"
    by (cases "sort_key k ?xs") (simp_all add: first_by_def)
  then show ?thesis by (simp add: filter_empty_conv)
qed

lemma outbox_table_okD:
  "outbox_table_ok t \<Longrightarrow> unique_key rr_key t"
  "outbox_table_ok t \<Longrightarrow> r \<in> set t \<Longrightarrow> rr_attempt_id r \<noteq> []"
  by (simp_all add: outbox_table_ok_def)

lemma enqueue_ok: "outbox_table_ok t \<Longrightarrow> outbox_table_ok (enqueue_result c ws l ag res a now t)"
  by (auto simp: outbox_table_ok_def enqueue_result_def Let_def rr_key_def unique_key_append_new
      lookup_None_iff table_simps intro!: unique_key_update_where)

definition acknowledged :: "json list \<Rightarrow> (result_row \<Rightarrow> reply) \<Rightarrow> result_row \<Rightarrow> bool" where
  "acknowledged refs reply_to r =
     (case reply_to r of
        Acknowledged \<Rightarrow> True
      | Refused error code \<Rightarrow> should_finalize_uninstall_after_lost_ack refs r code)"

definition failed_row :: "int \<Rightarrow> string \<Rightarrow> time \<Rightarrow> result_row \<Rightarrow> result_row" where
  "failed_row max_attempts error now r =
     r\<lparr>rr_attempt_count := Suc (rr_attempt_count r), rr_last_error := Some error, rr_updated_at := now,
       rr_status := (if max 1 max_attempts \<le> int (Suc (rr_attempt_count r)) then ResultAbandoned
                     else rr_status r)\<rparr>"

definition acked_row :: "time \<Rightarrow> result_row \<Rightarrow> result_row" where
  "acked_row now r = r\<lparr>rr_status := ResultAcked, rr_last_error := None, rr_updated_at := now\<rparr>"

lemma row_simps [simp]:
  "rr_key (failed_row m e now r) = rr_key r" "rr_key (acked_row now r) = rr_key r"
  "rr_attempt_id (failed_row m e now r) = rr_attempt_id r" "rr_attempt_id (acked_row now r) = rr_attempt_id r"
  "rr_command_id (acked_row now r) = rr_command_id r" "rr_result (failed_row m e now r) = rr_result r" "rr_status (acked_row now r) = ResultAcked"
  by (simp_all add: failed_row_def acked_row_def rr_key_def)

lemma mark_acknowledged_eq:
  assumes "outbox_table_ok t" and "r \<in> set t" and "rr_status r = ResultPending"
  shows "mark_acknowledged_for_finalization (rr_command_id r) (Some (rr_attempt_id r)) now t =
    Some (update_where (\<lambda>x. rr_key x = rr_key r) (acked_row now) t)"
proof -
  note ok = outbox_table_okD [OF assms(1)]
  have k: "(rr_command_id r, normalized_attempt_id (Some (rr_attempt_id r)) (rr_command_id r)) = rr_key r"
    using ok(2) [OF assms(2)] by (simp add: rr_key_def)
  have "update_where (\<lambda>x. rr_key x = rr_key r \<and> rr_status x = ResultPending) (acked_row now) t =
      update_where (\<lambda>x. rr_key x = rr_key r) (acked_row now) t"
    by (rule update_where_key_only [where q = "\<lambda>x. rr_status x = ResultPending", OF ok(1) assms(2,3)])
  with count_where_key [OF ok(1) assms(2), of "\<lambda>x. rr_status x = ResultPending"] assms(3) show ?thesis
    by (simp add: mark_acknowledged_for_finalization_def k Let_def acked_row_def [abs_def])
qed

lemma delete_status_key:
  assumes "outbox_table_ok t" and "r \<in> set t" and "rr_status r = ResultAcked"
  shows "mark_finalized (rr_command_id r) (Some (rr_attempt_id r)) t = delete_where (\<lambda>x. rr_key x = rr_key r) t"
proof -
  note ok = outbox_table_okD [OF assms(1)]
  have k: "(rr_command_id r, normalized_attempt_id (Some (rr_attempt_id r)) (rr_command_id r)) = rr_key r"
    using ok(2) [OF assms(2)] by (simp add: rr_key_def)
  then show ?thesis
    by (simp add: mark_finalized_def delete_where_key_only [OF ok(1) assms(2), of "\<lambda>x. rr_status x = ResultAcked"] assms(3))
qed

lemma update_ok:
  "outbox_table_ok t \<Longrightarrow> (\<And>x. rr_key (f x) = rr_key x) \<Longrightarrow> outbox_table_ok (update_where p f t)"
proof -
  assume a: "outbox_table_ok t" "\<And>x. rr_key (f x) = rr_key x"
  have "rr_attempt_id (f x) = rr_attempt_id x" for x using a(2) [of x] by (simp add: rr_key_def)
  with a show ?thesis
    by (auto simp: outbox_table_ok_def unique_key_update_where set_update_where)
qed

lemma delete_ok: "outbox_table_ok t \<Longrightarrow> outbox_table_ok (delete_where p t)"
  by (auto simp: outbox_table_ok_def unique_key_delete_where table_simps)

lemma finalize_acked:
  assumes "outbox_table_ok t" and "r \<in> set t"
  shows "mark_finalized (rr_command_id r) (Some (rr_attempt_id r))
      (update_where (\<lambda>x. rr_key x = rr_key r) (acked_row now) t) = delete_where (\<lambda>x. rr_key x = rr_key r) t"
proof -
  let ?t = "update_where (\<lambda>x. rr_key x = rr_key r) (acked_row now) t"
  have "acked_row now r \<in> set ?t" using assms(2) by (auto simp: set_update_where)
  from delete_status_key [OF update_ok [OF assms(1)] this] show ?thesis
    by (simp add: delete_after_update)
qed

lemma fail_flush_eq:
  assumes "outbox_table_ok t" and "r \<in> set t" and "rr_status r = ResultPending"
  shows "fail_flush e m r now t = (update_where (\<lambda>x. rr_key x = rr_key r) (failed_row m e now) t, False)"
proof -
  note ok = outbox_table_okD [OF assms(1)]
  let ?f = "\<lambda>r. r\<lparr>rr_attempt_count := Suc (rr_attempt_count r), rr_last_error := Some e, rr_updated_at := now\<rparr>"
  have k: "(rr_command_id r, normalized_attempt_id (Some (rr_attempt_id r)) (rr_command_id r)) = rr_key r"
    using ok(2) [OF assms(2)] by (simp add: rr_key_def)
  have fk: "rr_key (?f x) = rr_key x" for x by (simp add: rr_key_def)
  let ?key = "\<lambda>x. rr_key x = rr_key r"
  let ?t1 = "update_where (\<lambda>x. rr_key x = rr_key r \<and> rr_status x = ResultPending) ?f t"
  have t1: "?t1 = update_where ?key ?f t" by (rule update_where_key_only [where q = "\<lambda>x. rr_status x = ResultPending", OF ok(1) assms(2,3)])
  have look: "lookup rr_key (rr_key r) (update_where ?key ?f t) = Some (?f r)"
    by (simp add: lookup_update_where [where key = rr_key and f = ?f, OF fk] lookup_unique_in [OF ok(1) assms(2)])
  have abandon: "update_where ?key (\<lambda>r. r\<lparr>rr_status := ResultAbandoned, rr_updated_at := now\<rparr>) (update_where ?key ?f t) =
      update_where ?key (failed_row m e now) t" if "max 1 m \<le> int (Suc (rr_attempt_count r))"
    unfolding update_where_twice [where key = rr_key and f = ?f, OF fk]
    by (rule update_where_at [OF ok(1) assms(2)]) (use that in \<open>simp add: failed_row_def\<close>)
  have again: "update_where ?key ?f t = update_where ?key (failed_row m e now) t"
    if "\<not> max 1 m \<le> int (Suc (rr_attempt_count r))"
    by (rule update_where_at [OF ok(1) assms(2)]) (use that in \<open>simp add: failed_row_def\<close>)
  show ?thesis
    using look abandon again by (simp add: fail_flush_def record_failure_def k t1 Let_def)
qed

text \<open>The ways a flush goes; it never raises.\<close>

lemma flush_cases:
  assumes ok: "outbox_table_ok t"
  obtains (idle) b where "flush_command_results_once refs m now reply_to cleaned t = Inr (t, b)"
      "\<forall>r \<in> set t. rr_status r \<noteq> ResultAcked" "\<forall>r \<in> set t. rr_status r \<noteq> ResultPending"
  | (stuck) b r where "flush_command_results_once refs m now reply_to cleaned t = Inr (t, b)"
      "r \<in> set t" "rr_status r = ResultAcked" "\<not> cleaned"
  | (final) b r where "flush_command_results_once refs m now reply_to cleaned t =
        Inr (delete_where (\<lambda>x. rr_key x = rr_key r) t, b)" "r \<in> set t" "rr_status r = ResultAcked"
  | (sent) b r where "flush_command_results_once refs m now reply_to cleaned t =
        Inr (delete_where (\<lambda>x. rr_key x = rr_key r) t, b)" "next_finalization t = None"
      "next_result t = Some r" "acknowledged refs reply_to r"
  | (acked) b r where "flush_command_results_once refs m now reply_to cleaned t =
        Inr (update_where (\<lambda>x. rr_key x = rr_key r) (acked_row now) t, b)" "next_finalization t = None"
      "next_result t = Some r" "acknowledged refs reply_to r"
      "is_agent_uninstall_cleanup_result refs (rr_result r)"
  | (failed) b r e where "flush_command_results_once refs m now reply_to cleaned t =
        Inr (update_where (\<lambda>x. rr_key x = rr_key r) (failed_row m e now) t, b)" "next_finalization t = None"
      "next_result t = Some r" "\<not> acknowledged refs reply_to r"
proof (cases "next_finalization t")
  case (Some r)
  then have r: "r \<in> set t" "rr_status r = ResultAcked"
    using first_by_in by (auto simp: next_finalization_def)
  show thesis
  proof (cases cleaned)
    case True
    with Some have "flush_command_results_once refs m now reply_to cleaned t =
        Inr (delete_where (\<lambda>x. rr_key x = rr_key r) t, True)"
      by (simp add: flush_command_results_once_def retry_agent_uninstall_finalization_def delete_status_key [OF ok r])
    then show thesis by (rule final [OF _ r])
  next
    case False
    with Some have "flush_command_results_once refs m now reply_to cleaned t = Inr (t, False)"
      by (simp add: flush_command_results_once_def retry_agent_uninstall_finalization_def)
    then show thesis by (rule stuck [OF _ r False])
  qed
next
  case fin: None
  show thesis
  proof (cases "next_result t")
    case None
    with fin have "flush_command_results_once refs m now reply_to cleaned t = Inr (t, False)"
      by (simp add: flush_command_results_once_def)
    then show thesis
      by (rule idle) (use fin None in \<open>simp_all add: next_result_def next_finalization_def first_by_None\<close>)
  next
    case (Some r)
    then have r: "r \<in> set t" "rr_status r = ResultPending"
      using first_by_in by (auto simp: next_result_def)
    have del: "mark_sent (rr_command_id r) (Some (rr_attempt_id r)) t = delete_where (\<lambda>x. rr_key x = rr_key r) t"
      using outbox_table_okD(2) [OF ok r(1)] by (simp add: mark_sent_def rr_key_def)
    note step = flush_command_results_once_def acknowledged_def retry_agent_uninstall_finalization_def
    note rows = mark_acknowledged_eq [OF ok r, of now] finalize_acked [OF ok r(1), of now] del fail_flush_eq [OF ok r]
    show thesis
    proof (cases "acknowledged refs reply_to r")
      case True
      show thesis
      proof (cases "is_agent_uninstall_cleanup_result refs (rr_result r) \<and> \<not> cleaned")
        case u: True
        with True fin Some have "flush_command_results_once refs m now reply_to cleaned t =
            Inr (update_where (\<lambda>x. rr_key x = rr_key r) (acked_row now) t, False)"
          by (simp add: step rows split: reply.splits)
        then show thesis by (rule acked [OF _ fin Some True]) (use u in simp)
      next
        case u: False
        with True fin Some have "flush_command_results_once refs m now reply_to cleaned t =
            Inr (delete_where (\<lambda>x. rr_key x = rr_key r) t, True)"
          by (auto simp: step rows should_finalize_uninstall_after_lost_ack_def split: reply.splits)
        then show thesis by (rule sent [OF _ fin Some True])
      qed
    next
      case False
      then obtain e code where "reply_to r = Refused e code"
        "\<not> should_finalize_uninstall_after_lost_ack refs r code"
        by (auto simp: acknowledged_def split: reply.splits)
      with fin Some have "flush_command_results_once refs m now reply_to cleaned t =
          Inr (update_where (\<lambda>x. rr_key x = rr_key r) (failed_row m e now) t, False)"
        by (simp add: step rows)
      then show thesis by (rule failed [OF _ fin Some False])
    qed
  qed
qed

section \<open>Runs of the outbox\<close>

text \<open>
  The two tasks that use the table, as a sequence: results of executed commands come in and
  flushes go out. The second component lists the keys the server has acknowledged, by an
  answer or by the lost-acknowledgement rule.
\<close>

datatype outbox_op =
    Enqueue string string string string jobj "string option" time
  | Flush time "result_row \<Rightarrow> reply" bool

definition flush_acknowledged ::
    "json list \<Rightarrow> (result_row \<Rightarrow> reply) \<Rightarrow> result_row list \<Rightarrow> (string \<times> string) list" where
  "flush_acknowledged refs reply_to t =
     (case next_finalization t of
        Some r \<Rightarrow> []
      | None \<Rightarrow> (case next_result t of
                  None \<Rightarrow> [] | Some r \<Rightarrow> if acknowledged refs reply_to r then [rr_key r] else []))"

definition flush_table ::
    "json list \<Rightarrow> int \<Rightarrow> time \<Rightarrow> (result_row \<Rightarrow> reply) \<Rightarrow> bool \<Rightarrow> result_row list \<Rightarrow> result_row list" where
  "flush_table refs m now reply_to cleaned t =
     (case flush_command_results_once refs m now reply_to cleaned t of Inl e \<Rightarrow> t | Inr (t', b) \<Rightarrow> t')"

fun run_outbox ::
    "json list \<Rightarrow> int \<Rightarrow> outbox_op list \<Rightarrow> result_row list \<times> (string \<times> string) list \<Rightarrow>
     result_row list \<times> (string \<times> string) list" where
  "run_outbox refs m [] st = st"
| "run_outbox refs m (Enqueue c ws l ag res a now # ops) st =
     run_outbox refs m ops (enqueue_result c ws l ag res a now (fst st), snd st)"
| "run_outbox refs m (Flush now reply_to cleaned # ops) st =
     run_outbox refs m ops
       (flush_table refs m now reply_to cleaned (fst st),
        snd st @ flush_acknowledged refs reply_to (fst st))"

definition enqueued :: "outbox_op list \<Rightarrow> (string \<times> string) list" where
  "enqueued ops = concat (map (\<lambda>x. case x of
     Enqueue c ws l ag res a now \<Rightarrow> [(c, normalized_attempt_id a c)] | Flush now reply_to cleaned \<Rightarrow> []) ops)"

text \<open>Every key ever enqueued is in the table or acknowledged; a row awaiting removal is acknowledged.\<close>

definition outbox_inv :: "(string \<times> string) set \<Rightarrow> result_row list \<times> (string \<times> string) list \<Rightarrow> bool" where
  "outbox_inv ks st \<longleftrightarrow>
     outbox_table_ok (fst st) \<and> ks \<subseteq> rr_key ` set (fst st) \<union> set (snd st) \<and>
     (\<forall>r \<in> set (fst st). rr_status r = ResultAcked \<longrightarrow> rr_key r \<in> set (snd st))"

lemma outbox_invI:
  "outbox_table_ok t \<Longrightarrow> ks \<subseteq> rr_key ` set t \<union> set acks \<Longrightarrow>
   (\<And>r. r \<in> set t \<Longrightarrow> rr_status r = ResultAcked \<Longrightarrow> rr_key r \<in> set acks) \<Longrightarrow> outbox_inv ks (t, acks)"
  by (simp add: outbox_inv_def)

lemma outbox_invD:
  assumes "outbox_inv ks (t, acks)"
  shows "outbox_table_ok t" "ks \<subseteq> rr_key ` set t \<union> set acks"
    "r \<in> set t \<Longrightarrow> rr_status r = ResultAcked \<Longrightarrow> rr_key r \<in> set acks"
  using assms by (simp_all add: outbox_inv_def)

lemma cover_mono: "ks \<subseteq> A \<union> C \<Longrightarrow> A \<subseteq> insert k B \<Longrightarrow> k \<in> D \<Longrightarrow> C \<subseteq> D \<Longrightarrow> ks \<subseteq> B \<union> D"
  by blast

lemma outbox_inv_delete:
  assumes "outbox_inv ks (t, acks)" and "rr_key r \<in> set acks'" and "set acks \<subseteq> set acks'"
  shows "outbox_inv ks (delete_where (\<lambda>x. rr_key x = rr_key r) t, acks')"
proof (rule outbox_invI)
  note I = outbox_invD [OF assms(1)]
  show "outbox_table_ok (delete_where (\<lambda>x. rr_key x = rr_key r) t)" by (rule delete_ok [OF I(1)])
  have "rr_key ` set t \<subseteq> insert (rr_key r) (rr_key ` set (delete_where (\<lambda>x. rr_key x = rr_key r) t))"
    by (auto simp: set_delete_where)
  from cover_mono [OF I(2) this assms(2,3)]
  show "ks \<subseteq> rr_key ` set (delete_where (\<lambda>x. rr_key x = rr_key r) t) \<union> set acks'" .
  show "rr_key x \<in> set acks'" if "x \<in> set (delete_where (\<lambda>x. rr_key x = rr_key r) t)" "rr_status x = ResultAcked" for x
    using that I(3) [of x] assms(3) by (auto simp: set_delete_where)
qed

lemma outbox_inv_update:
  assumes "outbox_inv ks (t, acks)" and keep: "\<And>x. rr_key (f x) = rr_key x" and "set acks \<subseteq> set acks'"
    and fin: "\<And>x. rr_status (f x) = ResultAcked \<Longrightarrow> rr_status x = ResultAcked \<or> k \<in> set acks'"
  shows "outbox_inv ks (update_where (\<lambda>x. rr_key x = k) f t, acks')"
proof (rule outbox_invI)
  note I = outbox_invD [OF assms(1)]
  show "outbox_table_ok (update_where (\<lambda>x. rr_key x = k) f t)" by (rule update_ok [OF I(1) keep])
  show "ks \<subseteq> rr_key ` set (update_where (\<lambda>x. rr_key x = k) f t) \<union> set acks'"
    unfolding keys_update_where [where key = rr_key and f = f, OF keep]
    by (rule subset_trans [OF I(2) Un_mono [OF subset_refl assms(3)]])
  show "rr_key x \<in> set acks'" if x: "x \<in> set (update_where (\<lambda>x. rr_key x = k) f t)" "rr_status x = ResultAcked" for x
  proof -
    obtain y where y: "y \<in> set t" "x = (if rr_key y = k then f y else y)"
      using in_update_where [OF x(1)] by blast
    with x(2) fin [of y] I(3) [OF y(1)] keep [of y] assms(3) show ?thesis by (auto split: if_splits)
  qed
qed

lemma flush_inv:
  assumes inv: "outbox_inv ks (t, acks)"
  shows "outbox_inv ks (flush_table refs m now reply_to cleaned t, acks @ flush_acknowledged refs reply_to t)"
proof -
  let ?acks = "acks @ flush_acknowledged refs reply_to t" and ?t' = "flush_table refs m now reply_to cleaned t"
  note I = outbox_invD [OF inv]
  have told: "rr_key r \<in> set ?acks"
    if "next_finalization t = None" "next_result t = Some r" "acknowledged refs reply_to r" for r
    using that by (simp add: flush_acknowledged_def)
  have same: "outbox_inv ks (?t', ?acks)" if "?t' = t"
    unfolding that using I by (intro outbox_invI) auto
  show ?thesis
  proof (rule flush_cases [OF I(1), of refs m now reply_to cleaned])
    fix b r
    assume f: "flush_command_results_once refs m now reply_to cleaned t =
        Inr (delete_where (\<lambda>x. rr_key x = rr_key r) t, b)" and r: "r \<in> set t" "rr_status r = ResultAcked"
    have "?t' = delete_where (\<lambda>x. rr_key x = rr_key r) t" by (simp add: flush_table_def f)
    then show ?thesis using outbox_inv_delete [OF inv, of r ?acks] I(3) [OF r] by simp
  next
    fix b r
    assume f: "flush_command_results_once refs m now reply_to cleaned t =
        Inr (delete_where (\<lambda>x. rr_key x = rr_key r) t, b)" and r: "next_finalization t = None"
      "next_result t = Some r" "acknowledged refs reply_to r"
    have "?t' = delete_where (\<lambda>x. rr_key x = rr_key r) t" by (simp add: flush_table_def f)
    then show ?thesis using outbox_inv_delete [OF inv, of r ?acks] told [OF r] by simp
  next
    fix b r
    assume f: "flush_command_results_once refs m now reply_to cleaned t =
        Inr (update_where (\<lambda>x. rr_key x = rr_key r) (acked_row now) t, b)" and r: "next_finalization t = None"
      "next_result t = Some r" "acknowledged refs reply_to r"
    have "?t' = update_where (\<lambda>x. rr_key x = rr_key r) (acked_row now) t" by (simp add: flush_table_def f)
    then show ?thesis using outbox_inv_update [OF inv, of "acked_row now" ?acks "rr_key r"] told [OF r] by simp
  next
    fix b r e
    assume f: "flush_command_results_once refs m now reply_to cleaned t =
        Inr (update_where (\<lambda>x. rr_key x = rr_key r) (failed_row m e now) t, b)"
    have "?t' = update_where (\<lambda>x. rr_key x = rr_key r) (failed_row m e now) t" by (simp add: flush_table_def f)
    moreover have "rr_status (failed_row m e now x) = ResultAcked \<Longrightarrow> rr_status x = ResultAcked" for x
      by (simp add: failed_row_def split: if_splits)
    ultimately show ?thesis using outbox_inv_update [OF inv, of "failed_row m e now" ?acks "rr_key r"] by simp
  qed (use same in \<open>simp_all add: flush_table_def\<close>)
qed

lemma enqueue_inv:
  assumes "outbox_inv ks (t, acks)"
  shows "outbox_inv (insert (c, normalized_attempt_id a c) ks) (enqueue_result c ws l ag res a now t, acks)"
proof -
  let ?k = "(c, normalized_attempt_id a c)"
  let ?f = "\<lambda>r. r\<lparr>rr_workspace_id := ws, rr_lease_id := l, rr_agent_id := ag, rr_status := ResultPending,
    rr_result := res, rr_updated_at := now\<rparr>"
  have ok: "outbox_table_ok (enqueue_result c ws l ag res a now t)"
    using assms enqueue_ok by (simp add: outbox_inv_def)
  have ks: "ks \<subseteq> rr_key ` set t \<union> set acks" and ack: "\<And>r. r \<in> set t \<Longrightarrow> rr_status r = ResultAcked \<Longrightarrow> rr_key r \<in> set acks"
    using assms by (auto simp: outbox_inv_def)
  show ?thesis
  proof (cases "?k \<in> rr_key ` set t")
    case True
    then have e: "enqueue_result c ws l ag res a now t = update_where (\<lambda>r. rr_key r = ?k) ?f t"
      by (simp add: enqueue_result_def Let_def)
    have "rr_key ` set (update_where (\<lambda>r. rr_key r = ?k) ?f t) = rr_key ` set t"
      by (rule keys_update_where) (simp add: rr_key_def)
    with ok ks ack True show ?thesis
      unfolding outbox_inv_def e by (auto simp: set_update_where split: if_splits)
  next
    case False
    then obtain row where e: "enqueue_result c ws l ag res a now t = t @ [row]"
      and row: "rr_key row = ?k" "rr_status row = ResultPending"
      by (simp add: enqueue_result_def Let_def rr_key_def)
    from ok ks ack row show ?thesis unfolding outbox_inv_def e by auto
  qed
qed

lemma run_outbox_inv:
  "outbox_inv ks st \<Longrightarrow> outbox_inv (ks \<union> set (enqueued ops)) (run_outbox refs m ops st)"
proof (induction refs m ops st arbitrary: ks rule: run_outbox.induct)
  case (2 refs m c ws l ag res a now ops st)
  from enqueue_inv [of ks "fst st" "snd st"] 2(2)
  have "outbox_inv (insert (c, normalized_attempt_id a c) ks) (enqueue_result c ws l ag res a now (fst st), snd st)"
    by simp
  from 2(1) [OF this] show ?case by (simp add: enqueued_def insert_commute)
next
  case (3 refs m now reply_to cleaned ops st)
  from flush_inv [of ks "fst st" "snd st"] 3(2) 3(1) show ?case by (simp add: enqueued_def)
qed (simp add: enqueued_def)

text \<open>Rows given up have used up their attempts.\<close>

definition spent :: "int \<Rightarrow> result_row \<Rightarrow> bool" where
  "spent m r \<longleftrightarrow> (rr_status r = ResultAbandoned \<longrightarrow> max 1 m \<le> int (rr_attempt_count r))"

lemma flush_spent:
  assumes "outbox_table_ok t" and "\<forall>r \<in> set t. spent m r"
  shows "\<forall>r \<in> set (flush_table refs m now reply_to cleaned t). spent m r"
proof -
  have "spent m x \<Longrightarrow> spent m (failed_row m e now x)" "spent m (acked_row now x)" for x e
    by (auto simp: spent_def failed_row_def acked_row_def)
  then show ?thesis
    using assms(2)
    by (cases rule: flush_cases [OF assms(1), of refs m now reply_to cleaned])
       (auto simp: flush_table_def set_delete_where dest!: in_update_where)
qed

lemma run_spent:
  "outbox_inv ks st \<Longrightarrow> \<forall>r \<in> set (fst st). spent m r \<Longrightarrow> \<forall>r \<in> set (fst (run_outbox refs m ops st)). spent m r"
proof (induction refs m ops st arbitrary: ks rule: run_outbox.induct)
  case (2 refs m c ws l ag res a now ops st)
  have "\<forall>r \<in> set (enqueue_result c ws l ag res a now (fst st)). spent m r"
    using 2(3) by (auto simp: enqueue_result_def Let_def spent_def dest!: in_update_where split: if_splits)
  with 2(1) [of "insert (c, normalized_attempt_id a c) ks"] enqueue_inv [of ks "fst st" "snd st"] 2(2)
  show ?case by simp
next
  case (3 refs m now reply_to cleaned ops st)
  have "outbox_table_ok (fst st)" using 3(2) by (simp add: outbox_inv_def)
  with 3(1) [of ks] flush_inv [of ks "fst st" "snd st"] 3(2) flush_spent 3(3) show ?case by simp
qed simp

text \<open>
  Claim C12. The agent never loses a result silently: after any sequence of finished
  commands and flushes, with any answers of the server, every result ever enqueued is still in
  the outbox or was acknowledged; an agent awaiting its own removal has had its uninstall result
  acknowledged; and a result is marked abandoned only after the configured number of attempts.
\<close>

theorem results_are_not_lost:
  assumes "run_outbox refs m ops ([], []) = (t, acks)"
  shows "set (enqueued ops) \<subseteq> rr_key ` set t \<union> set acks \<and>
    (\<forall>r \<in> set t. (rr_status r = ResultAcked \<longrightarrow> rr_key r \<in> set acks) \<and>
       (rr_status r = ResultAbandoned \<longrightarrow> max 1 m \<le> int (rr_attempt_count r)))"
proof -
  have inv: "outbox_inv {} ([], [])" by (simp add: outbox_inv_def outbox_table_ok_def unique_key_def)
  show ?thesis
    using run_outbox_inv [OF inv, of ops refs m] run_spent [OF inv, of m refs ops] assms
    by (auto simp: outbox_inv_def spent_def)
qed

definition demo_results :: "outbox_op list" where
  "demo_results = [Enqueue ''c1'' ''w'' ''l'' ''a'' [] (Some ''t1'') 1, Enqueue ''c2'' ''w'' ''l'' ''a'' [] (Some ''t2'') 2,
     Flush 3 (\<lambda>_. Acknowledged) True, Flush 4 (\<lambda>_. Refused ''down'' None) True]"

theorem results_are_not_lost_witness:
  "\<exists>t acks. run_outbox [] 5 demo_results ([], []) = (t, acks) \<and>
     {(''c1'', ''t1''), (''c2'', ''t2'')} \<subseteq> rr_key ` set t \<union> set acks"
proof -
  obtain t acks where r: "run_outbox [] 5 demo_results ([], []) = (t, acks)" by fastforce
  have "enqueued demo_results = [(''c1'', ''t1''), (''c2'', ''t2'')]" by code_simp
  with results_are_not_lost [OF r] r show ?thesis by auto
qed

section \<open>The outbox drains\<close>

definition sends_left :: "int \<Rightarrow> result_row \<Rightarrow> nat" where
  "sends_left m r =
     (if rr_status r = ResultPending then nat (max 1 (max 1 m - int (rr_attempt_count r))) else 0)"

definition send_budget :: "int \<Rightarrow> result_row list \<Rightarrow> nat" where
  "send_budget m t = sum_list (map (sends_left m) t)"

fun flush_all ::
    "json list \<Rightarrow> int \<Rightarrow> (time \<times> (result_row \<Rightarrow> reply) \<times> bool) list \<Rightarrow> result_row list \<Rightarrow>
     string + result_row list" where
  "flush_all refs m [] t = Inr t"
| "flush_all refs m ((now, reply_to, cleaned) # fs) t =
     (case flush_command_results_once refs m now reply_to cleaned t of
        Inl e \<Rightarrow> Inl e | Inr (t', b) \<Rightarrow> flush_all refs m fs t')"

definition plain_results :: "json list \<Rightarrow> result_row list \<Rightarrow> bool" where
  "plain_results refs t \<longleftrightarrow> outbox_table_ok t \<and>
     (\<forall>r \<in> set t. rr_status r \<noteq> ResultAcked \<and> \<not> is_agent_uninstall_cleanup_result refs (rr_result r))"

lemma budget_zero: "send_budget m t = 0 \<longleftrightarrow> status_count ResultPending t = 0"
proof -
  have "sends_left m r = 0 \<longleftrightarrow> rr_status r \<noteq> ResultPending" for r by (simp add: sends_left_def)
  then show ?thesis
    by (simp add: send_budget_def status_count_def count_where_def filter_empty_conv)
qed

lemma sends_left_failed: "rr_status r = ResultPending \<Longrightarrow> sends_left m (failed_row m e now r) < sends_left m r"
  by (auto simp: sends_left_def failed_row_def)

lemma flush_decreases:
  assumes plain: "plain_results refs t"
  shows "\<exists>t' b. flush_command_results_once refs m now reply_to cleaned t = Inr (t', b) \<and> plain_results refs t' \<and>
    send_budget m t' \<le> send_budget m t - 1 \<and> rr_key ` set t' \<subseteq> rr_key ` set t"
proof -
  have ok: "outbox_table_ok t" and row: "\<And>r. r \<in> set t \<Longrightarrow> rr_status r \<noteq> ResultAcked"
    "\<And>r. r \<in> set t \<Longrightarrow> \<not> is_agent_uninstall_cleanup_result refs (rr_result r)"
    using plain by (auto simp: plain_results_def)
  have picked: "r \<in> set t \<and> rr_status r = ResultPending" if "next_result t = Some r" for r
    using that first_by_in by (simp add: next_result_def)
  show ?thesis
  proof (cases rule: flush_cases [OF ok, of refs m now reply_to cleaned, case_names idle stuck final sent acked failed])
    case (idle b)
    then have "send_budget m t = 0" by (simp add: budget_zero status_count_def count_where_def filter_empty_conv)
    with idle(1) plain show ?thesis by simp
  next
    case (sent b r)
    note p = picked [OF sent(3)]
    have "0 < sends_left m r" using p by (simp add: sends_left_def)
    with sum_delete_key [OF outbox_table_okD(1) [OF ok], of r "sends_left m"] p
    have "send_budget m (delete_where (\<lambda>x. rr_key x = rr_key r) t) < send_budget m t"
      by (simp add: send_budget_def)
    moreover have "plain_results refs (delete_where (\<lambda>x. rr_key x = rr_key r) t)"
      using row delete_ok [OF ok] by (simp add: plain_results_def set_delete_where)
    moreover have "rr_key ` set (delete_where (\<lambda>x. rr_key x = rr_key r) t) \<subseteq> rr_key ` set t"
      by (auto simp: set_delete_where)
    ultimately show ?thesis using sent(1) by auto
  next
    case (failed b r e)
    note p = picked [OF failed(3)]
    let ?t = "update_where (\<lambda>x. rr_key x = rr_key r) (failed_row m e now) t"
    have "send_budget m ?t < send_budget m t"
      using sum_update_key [OF outbox_table_okD(1) [OF ok], of r "sends_left m" "failed_row m e now"] p
        sends_left_failed [of r m e now] by (simp add: send_budget_def)
    moreover have "plain_results refs ?t"
    proof -
      have "rr_status x \<noteq> ResultAcked \<and> \<not> is_agent_uninstall_cleanup_result refs (rr_result x)" if "x \<in> set ?t" for x
        using in_update_where [OF that] row by (auto simp: failed_row_def split: if_splits)
      with update_ok [OF ok, of "failed_row m e now"] show ?thesis by (simp add: plain_results_def)
    qed
    moreover have "rr_key ` set ?t = rr_key ` set t" by (rule keys_update_where) simp
    ultimately show ?thesis using failed(1) by auto
  qed (use row picked in auto)
qed


definition demo_table :: "result_row list" where
  "demo_table = enqueue_result ''c2'' ''w'' ''l'' ''a'' [] (Some ''t2'') 2
     (enqueue_result ''c1'' ''w'' ''l'' ''a'' [] (Some ''t1'') 1 [])"


end
