(* ===== verification/Event_Body.thy ===== *)
theory Event_Body
  imports Kyro_Prelude "HOL-Library.List_Lexorder" "HOL-Library.Char_ord"
begin

text \<open>
  Event bodies: \<^verbatim>\<open>src/src/packages/contracts/event_bus/bodies/base.py\<close>. A body class is its
  list of dataclass fields with their type hints; \<open>decode\<close> follows \<^verbatim>\<open>_decode_value\<close> on the hint,
  \<open>from_body\<close> and \<open>to_body\<close> are the two methods of \<^verbatim>\<open>EventBody\<close>. Wire values are JSON, values in
  the program may also be bodies. Construction hooks of single classes (\<^verbatim>\<open>__post_init__\<close>) are not
  part of the model.
\<close>

section \<open>Type hints and body classes\<close>

text \<open>
  \<open>TOther\<close> is a hint no branch of the decoder mentions (\<open>float\<close>, an enumeration): the value is
  passed on unchanged, as for \<open>Any\<close>. \<open>TUnion\<close> lists the options in the order of the hint.
\<close>

datatype ftype =
    TAny
  | TNone
  | TStr
  | TInt
  | TBool
  | TOther
  | TDict
  | TList ftype
  | TUnion "ftype list"
  | TBody bclass
and bclass = BClass (class_name: string) (class_fields: "bfield list")
and bfield = BField (item_name: string) (payload_name: "string option") (hint: ftype) (default: fdefault)
and fdefault = Required | Default json

text \<open>\<^verbatim>\<open>item.metadata.get("payload_name", item.name)\<close>.\<close>

definition wire_key :: "bfield \<Rightarrow> string" where
  "wire_key f = (case payload_name f of None \<Rightarrow> item_name f | Some k \<Rightarrow> k)"

text \<open>Values of the program; an object holds its attributes in the order of its class.\<close>

datatype pyval =
    PNull
  | PBool bool
  | PInt int
  | PFloat rat
  | PStr string
  | PList "pyval list"
  | PDict "(string \<times> pyval) list"
  | PBody bclass "pyval list"

primrec of_json :: "json \<Rightarrow> pyval" where
  "of_json JNull = PNull"
| "of_json (JBool b) = PBool b"
| "of_json (JInt n) = PInt n"
| "of_json (JFloat q) = PFloat q"
| "of_json (JStr t) = PStr t"
| "of_json (JArr xs) = PList (map of_json xs)"
| "of_json (JObj d) = PDict (map (map_prod id of_json) d)"

section \<open>Encoding\<close>

text \<open>\<^verbatim>\<open>_to_body_value\<close>, with \<^verbatim>\<open>to_body\<close> in the branch of a body.\<close>

primrec to_body_value :: "pyval \<Rightarrow> json" where
  "to_body_value PNull = JNull"
| "to_body_value (PBool b) = JBool b"
| "to_body_value (PInt n) = JInt n"
| "to_body_value (PFloat q) = JFloat q"
| "to_body_value (PStr t) = JStr t"
| "to_body_value (PList xs) = JArr (map to_body_value xs)"
| "to_body_value (PDict d) = JObj (map (map_prod id to_body_value) d)"
| "to_body_value (PBody c vs) = JObj (zip (map wire_key (class_fields c)) (map to_body_value vs))"

definition to_body :: "bclass \<Rightarrow> pyval list \<Rightarrow> jobj" where
  "to_body c vs = zip (map wire_key (class_fields c)) (map to_body_value vs)"

section \<open>Decoding\<close>

datatype body_error =
    PayloadMustBeObject string
  | UnexpectedFields string "string list"
  | MissingField string string
  | InvalidUnion string string
  | MustBeObject string string
  | MustBeList string string
  | MustBeBool string string
  | MustBeInt string string
  | MustBeStr string string

text \<open>The strict check: keys of the payload no field of the class carries, sorted.\<close>

definition extra_keys :: "bfield list \<Rightarrow> jobj \<Rightarrow> string list" where
  "extra_keys fs raw = sort (remdups (filter (\<lambda>k. k \<notin> set (map wire_key fs)) (map fst raw)))"

text \<open>
  \<open>decode_union\<close> is the loop over the options (the \<open>None\<close> type is skipped, the first option
  that decodes wins), \<open>decode_items\<close> the comprehension over a list, \<open>decode_fields\<close> the loop of
  \<^verbatim>\<open>from_body\<close> over the dataclass fields. \<open>owner\<close> and \<open>key\<close> only reach the error messages.
\<close>

function (sequential) decode :: "bool \<Rightarrow> string \<Rightarrow> string \<Rightarrow> ftype \<Rightarrow> json \<Rightarrow> body_error + pyval"
  and decode_union :: "bool \<Rightarrow> string \<Rightarrow> string \<Rightarrow> ftype list \<Rightarrow> json \<Rightarrow> body_error + pyval"
  and decode_items :: "bool \<Rightarrow> string \<Rightarrow> string \<Rightarrow> ftype \<Rightarrow> json list \<Rightarrow> body_error + pyval list"
  and decode_fields :: "bool \<Rightarrow> string \<Rightarrow> bfield list \<Rightarrow> jobj \<Rightarrow> body_error + pyval list" where
  "decode strict owner key (TUnion options) v =
     (if v = JNull \<and> TNone \<in> set options then Inr PNull
      else decode_union strict owner key options v)"
| "decode strict owner key (TBody (BClass name fs)) v =
     (case v of
        JObj raw \<Rightarrow>
          (if strict \<and> extra_keys fs raw \<noteq> [] then Inl (UnexpectedFields name (extra_keys fs raw))
           else case decode_fields strict name fs raw of
                  Inl e \<Rightarrow> Inl e
                | Inr vs \<Rightarrow> Inr (PBody (BClass name fs) vs))
      | _ \<Rightarrow> Inl (MustBeObject owner key))"
| "decode strict owner key (TList t) v =
     (case v of
        JArr xs \<Rightarrow>
          (case decode_items strict owner (key @ ''[]'') t xs of
             Inl e \<Rightarrow> Inl e
           | Inr vs \<Rightarrow> Inr (PList vs))
      | _ \<Rightarrow> Inl (MustBeList owner key))"
| "decode strict owner key TDict v =
     (case v of JObj d \<Rightarrow> Inr (of_json v) | _ \<Rightarrow> Inl (MustBeObject owner key))"
| "decode strict owner key TBool v =
     (case v of JBool b \<Rightarrow> Inr (PBool b) | _ \<Rightarrow> Inl (MustBeBool owner key))"
| "decode strict owner key TInt v =
     (case v of JInt n \<Rightarrow> Inr (PInt n) | _ \<Rightarrow> Inl (MustBeInt owner key))"
| "decode strict owner key TStr v =
     (case v of JStr t \<Rightarrow> Inr (PStr t) | _ \<Rightarrow> Inl (MustBeStr owner key))"
| "decode strict owner key t v = Inr (of_json v)"
| "decode_union strict owner key [] v = Inl (InvalidUnion owner key)"
| "decode_union strict owner key (t # ts) v =
     (if t = TNone then decode_union strict owner key ts v
      else case decode strict owner key t v of
             Inr r \<Rightarrow> Inr r
           | Inl _ \<Rightarrow> decode_union strict owner key ts v)"
| "decode_items strict owner key t [] = Inr []"
| "decode_items strict owner key t (x # xs) =
     (case decode strict owner key t x of
        Inl e \<Rightarrow> Inl e
      | Inr v \<Rightarrow> (case decode_items strict owner key t xs of
                   Inl e \<Rightarrow> Inl e
                 | Inr vs \<Rightarrow> Inr (v # vs)))"
| "decode_fields strict owner [] raw = Inr []"
| "decode_fields strict owner (BField name pn t d # fs) raw =
     (case (case jget raw (wire_key (BField name pn t d)) of
              None \<Rightarrow> (case d of
                        Default j \<Rightarrow> Inr (of_json j)
                      | Required \<Rightarrow> Inl (MissingField owner (wire_key (BField name pn t d))))
            | Some v \<Rightarrow> decode strict owner (wire_key (BField name pn t d)) t v) of
        Inl e \<Rightarrow> Inl e
      | Inr v \<Rightarrow> (case decode_fields strict owner fs raw of
                   Inl e \<Rightarrow> Inl e
                 | Inr vs \<Rightarrow> Inr (v # vs)))"
  by pat_completeness auto

text \<open>
  Every recursive call is on a smaller type hint, except the walk along a list of values.
\<close>

termination
  by (relation "measures
       [\<lambda>a. case a of
             Inl (Inl (_, _, _, t, _)) \<Rightarrow> size t
           | Inl (Inr (_, _, _, ts, _)) \<Rightarrow> size_list size ts
           | Inr (Inl (_, _, _, t, _)) \<Rightarrow> size t
           | Inr (Inr (_, _, fs, _)) \<Rightarrow> size_list size fs,
        \<lambda>a. case a of Inr (Inl (_, _, _, _, xs)) \<Rightarrow> Suc (length xs) | _ \<Rightarrow> 0]") auto

text \<open>\<^verbatim>\<open>from_body\<close> of a class.\<close>

definition from_body :: "bool \<Rightarrow> bclass \<Rightarrow> json \<Rightarrow> body_error + pyval" where
  "from_body strict c raw =
     (case raw of
        JObj d \<Rightarrow> decode strict (class_name c) '''' (TBody c) raw
      | _ \<Rightarrow> Inl (PayloadMustBeObject (class_name c)))"

section \<open>Types of decoded values\<close>

text \<open>A value that came off the wire as it is.\<close>

definition plain :: "pyval \<Rightarrow> bool" where
  "plain v = (of_json (to_body_value v) = v)"

lemma to_body_of_json [simp]: "to_body_value (of_json j) = j"
  by (induction j) (auto simp: comp_def map_idI prod.map_comp intro!: map_idI)

lemma plain_of_json [simp]: "plain (of_json j)"
  by (simp add: plain_def)

lemma plain_containers [simp]:
  "plain (PDict (map (map_prod id of_json) d))" "plain (PList (map of_json xs))"
  using plain_of_json [of "JObj d"] plain_of_json [of "JArr xs"] by simp_all

fun has_type :: "ftype \<Rightarrow> pyval \<Rightarrow> bool"
  and has_option :: "ftype list \<Rightarrow> pyval \<Rightarrow> bool"
  and has_items :: "ftype \<Rightarrow> pyval list \<Rightarrow> bool"
  and has_fields :: "bfield list \<Rightarrow> pyval list \<Rightarrow> bool" where
  "has_type (TUnion ts) v = ((v = PNull \<and> TNone \<in> set ts) \<or> has_option ts v)"
| "has_type (TBody (BClass n fs)) v =
     (case v of PBody c vs \<Rightarrow> c = BClass n fs \<and> has_fields fs vs | _ \<Rightarrow> False)"
| "has_type (TList t) v = (case v of PList xs \<Rightarrow> has_items t xs | _ \<Rightarrow> False)"
| "has_type TDict v = (case v of PDict d \<Rightarrow> plain v | _ \<Rightarrow> False)"
| "has_type TBool v = (case v of PBool b \<Rightarrow> True | _ \<Rightarrow> False)"
| "has_type TInt v = (case v of PInt n \<Rightarrow> True | _ \<Rightarrow> False)"
| "has_type TStr v = (case v of PStr t \<Rightarrow> True | _ \<Rightarrow> False)"
| "has_type t v = plain v"
| "has_option [] v = False"
| "has_option (t # ts) v = ((t \<noteq> TNone \<and> has_type t v) \<or> has_option ts v)"
| "has_items t [] = True"
| "has_items t (x # xs) = (has_type t x \<and> has_items t xs)"
| "has_fields [] [] = True"
| "has_fields (BField name pn t d # fs) (v # vs) = (has_type t v \<and> has_fields fs vs)"
| "has_fields _ _ = False"

text \<open>
  What the catalogue's classes have in common: a union is a hint or \<open>None\<close>, wire keys are
  distinct, and a default has the type of its field.
\<close>

fun hint_ok :: "ftype \<Rightarrow> bool" and fields_ok :: "bfield list \<Rightarrow> bool" where
  "hint_ok (TUnion [t, TNone]) = (t \<noteq> TNone \<and> hint_ok t)"
| "hint_ok (TUnion ts) = False"
| "hint_ok (TList t) = hint_ok t"
| "hint_ok (TBody (BClass n fs)) = (distinct (map wire_key fs) \<and> fields_ok fs)"
| "hint_ok t = True"
| "fields_ok [] = True"
| "fields_ok (BField name pn t d # fs) =
     (hint_ok t \<and> (case d of Required \<Rightarrow> True | Default j \<Rightarrow> has_type t (of_json j)) \<and> fields_ok fs)"

lemma hint_ok_union: "hint_ok (TUnion ts) \<longleftrightarrow> (\<exists>t. ts = [t, TNone] \<and> t \<noteq> TNone \<and> hint_ok t)"
  by (cases "TUnion ts" rule: hint_ok.cases) auto

fun_cases decode_okE: "decode s k key t j = Inr v"

lemma decode_typed:
  "decode strict owner key t j = Inr v \<Longrightarrow> hint_ok t \<Longrightarrow> has_type t v"
  "decode_union strict owner key ts j = Inr v \<Longrightarrow> list_all hint_ok ts \<Longrightarrow> has_option ts v"
  "decode_items strict owner key t xs = Inr vs \<Longrightarrow> hint_ok t \<Longrightarrow> has_items t vs"
  "decode_fields strict owner fs raw = Inr vs \<Longrightarrow> fields_ok fs \<Longrightarrow> has_fields fs vs"
proof (induction strict owner key t j and strict owner key ts j and strict owner key t xs
    and strict owner fs raw arbitrary: v and v and vs and vs
    rule: decode_decode_union_decode_items_decode_fields.induct)
  case (1 strict owner key options v)
  then show ?case by (auto simp: hint_ok_union split: if_splits)
qed (auto split: json.splits sum.splits option.splits if_splits fdefault.splits)


section \<open>Round trip\<close>

lemma to_body_null [simp]: "to_body_value v = JNull \<longleftrightarrow> v = PNull"
  by (cases v) auto

lemma wire_keys_known [simp]: "extra_keys fs (zip (map wire_key fs) js) = []"
proof -
  have "filter (\<lambda>k. k \<notin> set (map wire_key fs)) (map fst (zip (map wire_key fs) js)) = []"
    by (auto simp: filter_empty_conv map_fst_zip_take dest!: in_set_takeD)
  then show ?thesis by (simp only: extra_keys_def) simp
qed

lemma has_fields_length: "has_fields fs vs \<Longrightarrow> length fs = length vs"
proof (induction fs arbitrary: vs)
  case Nil
  then show ?case by (cases vs) auto
next
  case (Cons f fs)
  then show ?case by (cases f; cases vs) auto
qed

lemma has_type_bodyE:
  assumes "has_type (TBody c) v"
  obtains vs where "v = PBody c vs"
  using assms by (cases c) (auto split: pyval.splits)

lemma plain_inverse: "plain v \<Longrightarrow> of_json (to_body_value v) = v"
  by (simp add: plain_def)

lemma plain_PDict: "plain (PDict d) \<Longrightarrow> map (map_prod id of_json \<circ> map_prod id to_body_value) d = d"
  by (simp add: plain_def)

text \<open>The payload of an object answers every wire key of its class with the attribute.\<close>

definition answers :: "jobj \<Rightarrow> bfield list \<Rightarrow> pyval list \<Rightarrow> bool" where
  "answers raw fs vs = list_all2 (\<lambda>f v. jget raw (wire_key f) = Some (to_body_value v)) fs vs"

lemma answers_Cons [simp]:
  "answers raw (f # fs) (v # vs) \<longleftrightarrow> jget raw (wire_key f) = Some (to_body_value v) \<and> answers raw fs vs"
  by (simp add: answers_def)

lemma answers_own:
  assumes "distinct (map wire_key fs)" and "length fs = length vs"
  shows "answers (zip (map wire_key fs) (map to_body_value vs)) fs vs"
proof -
  let ?raw = "zip (map wire_key fs) (map to_body_value vs)"
  have "jget ?raw (wire_key (fs ! i)) = Some (to_body_value (vs ! i))" if i: "i < length vs" for i
  proof -
    have "(wire_key (fs ! i), to_body_value (vs ! i)) \<in> set ?raw"
      using i assms(2) nth_mem [of i ?raw] by simp
    with assms show ?thesis by (simp add: jget_def)
  qed
  with assms(2) show ?thesis by (simp add: answers_def list_all2_conv_all_nth)
qed

lemma decode_encoded:
  "has_type t v \<Longrightarrow> hint_ok t \<Longrightarrow> decode strict owner key t (to_body_value v) = Inr v"
  "has_option ts v \<Longrightarrow> ts = [t0, TNone] \<Longrightarrow> hint_ok t0 \<Longrightarrow>
     decode strict owner key t0 (to_body_value v) = Inr v"
  "has_items t vs \<Longrightarrow> hint_ok t \<Longrightarrow> decode_items strict owner key t (map to_body_value vs) = Inr vs"
  "has_fields fs vs \<Longrightarrow> fields_ok fs \<Longrightarrow> answers raw fs vs \<Longrightarrow> decode_fields strict owner fs raw = Inr vs"
proof (induction t v and ts v and t vs and fs vs arbitrary: owner key and t0 owner key and owner key and owner raw
    rule: has_type_has_option_has_items_has_fields.induct)
  case (2 n fs v)
  then obtain vs where v: "v = PBody (BClass n fs) vs" "has_fields fs vs" by (auto split: pyval.splits)
  with 2 show ?case by (auto simp: answers_own has_fields_length)
qed (auto simp: hint_ok_union plain_inverse plain_PDict split: pyval.splits)

lemma decode_object:
  assumes "has_type (TBody c) v" and "hint_ok (TBody c)"
  shows "from_body strict c (to_body_value v) = Inr v"
proof -
  obtain vs where v: "v = PBody c vs" using assms(1) by (rule has_type_bodyE)
  with decode_encoded(1) [OF assms, of strict "class_name c" "[]"] show ?thesis
    by (simp add: from_body_def)
qed

lemma decode_encoded_body:
  assumes "has_type (TBody c) (PBody c vs)" and "hint_ok (TBody c)"
  shows "from_body strict c (JObj (to_body c vs)) = Inr (PBody c vs)"
  using decode_object [OF assms, of strict] by (simp add: to_body_def)

text \<open>
  What a publisher and a subscriber rely on when they share a payload: values the publisher
  may send are read back. The contract is provided for each class that crosses the wire.
\<close>

locale payload_codec =
  fixes enc :: "'v \<Rightarrow> json" and dec :: "json \<Rightarrow> 'e + 'v" and sendable :: "'v \<Rightarrow> bool"
  assumes dec_enc: "sendable v \<Longrightarrow> dec (enc v) = Inr v"
begin

lemma enc_inj: "sendable v \<Longrightarrow> sendable w \<Longrightarrow> enc v = enc w \<Longrightarrow> v = w"
  using dec_enc by (metis sum.inject(2))

lemma refused_not_sendable: "dec (enc v) = Inl e \<Longrightarrow> \<not> sendable v"
  using dec_enc by fastforce

lemma read_all: "list_all sendable vs \<Longrightarrow> map (dec \<circ> enc) vs = map Inr vs"
  by (induction vs) (simp_all add: dec_enc)

end

text \<open>
  Claim C40. An object that has the types its class declares comes back unchanged from
  its own payload, strictly and leniently read: no attribute is lost, reordered or retyped,
  in nested bodies and lists too, whether the fields are named or renamed on the wire.
\<close>

theorem body_round_trip:
  assumes "has_type (TBody c) (PBody c vs)" and "hint_ok (TBody c)"
  shows "from_body strict c (JObj (to_body c vs)) = Inr (PBody c vs)"
  using assms by (rule decode_encoded_body)

section \<open>Reading newer payloads\<close>

text \<open>The payload without the fields the reader's classes do not know, at every level.\<close>

fun prune :: "ftype \<Rightarrow> json \<Rightarrow> json" and prune_fields :: "bfield list \<Rightarrow> jobj \<Rightarrow> jobj" where
  "prune (TUnion [t, TNone]) v = (if v = JNull then JNull else prune t v)"
| "prune (TList t) (JArr xs) = JArr (map (prune t) xs)"
| "prune (TBody (BClass n fs)) (JObj d) = JObj (prune_fields fs d)"
| "prune t v = v"
| "prune_fields [] d = []"
| "prune_fields (BField name pn t df # fs) d =
     (case jget d (wire_key (BField name pn t df)) of
        None \<Rightarrow> prune_fields fs d
      | Some v \<Rightarrow> (wire_key (BField name pn t df), prune t v) # prune_fields fs d)"

lemma prune_fields_keys: "fst ` set (prune_fields fs d) \<subseteq> set (map wire_key fs)"
proof (induction fs)
  case (Cons f fs)
  then show ?case by (cases f) (auto split: option.splits)
qed simp

lemma prune_fields_lookup:
  "distinct (map wire_key fs) \<Longrightarrow> f \<in> set fs \<Longrightarrow>
   jget (prune_fields fs d) (wire_key f) = map_option (prune (hint f)) (jget d (wire_key f))"
proof (induction fs)
  case (Cons g fs)
  have notin: "wire_key g \<notin> fst ` set (prune_fields fs d)"
    using Cons.prems(1) prune_fields_keys [of fs d] by auto
  then have none: "jget (prune_fields fs d) (wire_key g) = None"
    by (simp add: jget_def map_of_eq_None_iff)
  obtain name pn t df where g: "g = BField name pn t df" by (cases g)
  show ?case
  proof (cases "f = g")
    case True
    with none g show ?thesis by (auto simp: jget_def split: option.splits)
  next
    case False
    with Cons.prems have "wire_key f \<noteq> wire_key g" by (auto simp: image_iff)
    with False Cons.prems Cons.IH g show ?thesis
      by (auto simp: jget_def split: option.splits)
  qed
qed simp

lemma prune_extra_keys [simp]: "extra_keys fs (prune_fields fs d) = []"
proof -
  have "filter (\<lambda>k. k \<notin> set (map wire_key fs)) (map fst (prune_fields fs d)) = []"
    using prune_fields_keys [of fs d] by (auto simp: filter_empty_conv)
  then show ?thesis by (simp only: extra_keys_def) simp
qed

lemma prune_null [simp]: "prune t v = JNull \<longleftrightarrow> v = JNull"
  by (induction t v rule: prune_prune_fields.induct(1) [where Q = "\<lambda>_ _. True"]) auto

lemma decode_pruned:
  "s = False \<Longrightarrow> hint_ok t \<Longrightarrow> decode True owner key t (prune t v) = decode s owner key t v"
  "s = False \<Longrightarrow> ts = [t0, TNone] \<Longrightarrow> hint_ok t0 \<Longrightarrow> t0 \<noteq> TNone \<Longrightarrow>
     decode True owner key t0 (prune t0 v) = decode s owner key t0 v"
  "s = False \<Longrightarrow> hint_ok t \<Longrightarrow>
     decode_items True owner key t (map (prune t) xs) = decode_items s owner key t xs"
  "s = False \<Longrightarrow> fields_ok fs \<Longrightarrow>
     (\<forall>f \<in> set fs. jget raw' (wire_key f) = map_option (prune (hint f)) (jget raw (wire_key f))) \<Longrightarrow>
     decode_fields True owner fs raw' = decode_fields s owner fs raw"
proof (induction s owner key t v and s owner key ts v and s owner key t xs and s owner fs raw
    arbitrary: and t0 and and raw' rule: decode_decode_union_decode_items_decode_fields.induct)
  case (1 strict owner key options v)
  then show ?case by (auto simp: hint_ok_union split: sum.splits)
next
  case (2 strict owner key name fs v)
  then show ?case by (auto simp: prune_fields_lookup split: json.splits)
next
  case (3 strict owner key t v)
  then show ?case by (auto split: json.splits)
qed (auto split: json.splits option.splits fdefault.splits sum.splits)

text \<open>
  Reading a payload leniently is reading it strictly after dropping the
  fields the classes do not know, at every level and with the same errors otherwise: a newer
  producer's additional fields can change neither what an older consumer reads nor whether
  it accepts the event. \<open>strict\<close> only adds the refusal of unknown fields.
\<close>

theorem lenient_is_strict_on_known_fields:
  assumes "hint_ok (TBody c)"
  shows "from_body False c raw = from_body True c (prune (TBody c) raw)"
proof (cases c)
  case (BClass n fs)
  with decode_pruned(1) [OF refl assms, of n "[]" raw] show ?thesis
    by (cases raw) (simp_all add: from_body_def)
qed

end
