(* ===== verification/Command_Bodies.thy ===== *)
theory Command_Bodies
  imports Event_Body
begin

text \<open>
  The bodies of the command events (\<^verbatim>\<open>src/src/domains/command/events.py\<close>) and the \<^verbatim>\<open>Diff\<close> they
  carry (\<^verbatim>\<open>src/src/domains/gitops/events.py\<close>): each dataclass with its fields, hints and
  defaults, in the order of the source. \<^verbatim>\<open>JsonObject\<close> is a dictionary; the risk level is an
  enumeration of strings.
\<close>

definition diff_class :: bclass where
  "diff_class = BClass ''Diff''
    [BField ''resource'' None TStr Required,
     BField ''namespace'' None TStr Required,
     BField ''desired_image'' None TStr Required,
     BField ''actual_image'' None TStr Required,
     BField ''risk'' None TOther Required,
     BField ''workspace_id'' None TStr (Default (JStr ''default'')),
     BField ''repository_id'' None TStr (Default (JStr [])),
     BField ''watch_target_id'' None TStr (Default (JStr [])),
     BField ''binding_id'' None TStr (Default (JStr [])),
     BField ''application_id'' None TStr (Default (JStr [])),
     BField ''workflow_run_id'' None TStr (Default (JStr [])),
     BField ''environment'' None TStr (Default (JStr ''sandbox'')),
     BField ''cluster_id'' None TStr (Default (JStr ''default-target-cluster'')),
     BField ''manifest_path'' None TStr (Default (JStr ''deploy.yaml'')),
     BField ''resource_class'' None TStr (Default (JStr ''application'')),
     BField ''desired_manifest'' None TDict (Default (JObj [])),
     BField ''status'' None TStr (Default (JStr ''legacy_image_diff'')),
     BField ''has_changes'' None TBool (Default (JBool True)),
     BField ''changes'' None (TList TDict) (Default (JArr [])),
     BField ''basis'' None TDict (Default (JObj []))]"

definition command_requested_body :: bclass where
  "command_requested_body = BClass ''CommandRequestedBody''
    [BField ''cluster_id'' None TStr Required,
     BField ''action'' None TStr Required,
     BField ''namespace'' None TStr Required,
     BField ''reason'' None TStr Required,
     BField ''diff'' None (TBody diff_class) Required,
     BField ''command_id'' None (TUnion [TStr, TNone]) (Default JNull),
     BField ''workspace_id'' None TStr (Default (JStr ''default'')),
     BField ''application_id'' None TStr (Default (JStr [])),
     BField ''workflow_run_id'' None TStr (Default (JStr [])),
     BField ''binding_id'' None TStr (Default (JStr [])),
     BField ''environment'' None TStr (Default (JStr ''sandbox'')),
     BField ''priority'' None TInt (Default (JInt 100)),
     BField ''requested_by'' None (TUnion [TStr, TNone]) (Default JNull),
     BField ''actor'' None (TUnion [TDict, TNone]) (Default JNull),
     BField ''approval_ref'' None (TUnion [TStr, TNone]) (Default JNull),
     BField ''policy_decision_ref'' None (TUnion [TStr, TNone]) (Default JNull),
     BField ''approval_decided_by'' None (TUnion [TStr, TNone]) (Default JNull),
     BField ''approval_expires_at'' None (TUnion [TStr, TNone]) (Default JNull),
     BField ''direct_execution'' None TBool (Default (JBool False)),
     BField ''direct_execution_confirmed'' None TBool (Default (JBool False)),
     BField ''payload'' None TDict (Default (JObj []))]"

definition lease_metadata_class :: bclass where
  "lease_metadata_class = BClass ''LeaseMetadata''
    [BField ''lease_seconds'' None TInt Required,
     BField ''heartbeat_interval_seconds'' None TInt Required]"

definition retry_policy_class :: bclass where
  "retry_policy_class = BClass ''RetryPolicy''
    [BField ''max_attempts'' None TInt Required,
     BField ''retry_delay_seconds'' None TInt Required]"

definition routing_constraint_class :: bclass where
  "routing_constraint_class = BClass ''RoutingConstraint''
    [BField ''channel'' None TStr Required,
     BField ''cluster_id'' None TStr Required,
     BField ''workspace_id'' None TStr Required,
     BField ''required_capability'' None TStr Required]"

definition plan_class :: bclass where
  "plan_class = BClass ''Plan''
    [BField ''command_id'' None TStr Required,
     BField ''idempotency_key'' None TStr Required,
     BField ''cluster_id'' None TStr Required,
     BField ''action'' None TStr Required,
     BField ''namespace'' None TStr Required,
     BField ''diff'' None TDict Required,
     BField ''payload'' None TDict Required,
     BField ''steps'' None (TList TStr) Required,
     BField ''lease'' None (TBody lease_metadata_class) Required,
     BField ''retry_policy'' None (TBody retry_policy_class) Required,
     BField ''routing_constraint'' None (TBody routing_constraint_class) Required,
     BField ''workspace_id'' None TStr (Default (JStr ''default'')),
     BField ''application_id'' None TStr (Default (JStr [])),
     BField ''workflow_run_id'' None TStr (Default (JStr [])),
     BField ''binding_id'' None TStr (Default (JStr [])),
     BField ''environment'' None TStr (Default (JStr ''sandbox'')),
     BField ''priority'' None TInt (Default (JInt 100)),
     BField ''approval_ref'' None (TUnion [TStr, TNone]) (Default JNull),
     BField ''policy_decision_ref'' None (TUnion [TStr, TNone]) (Default JNull),
     BField ''approval_decided_by'' None (TUnion [TStr, TNone]) (Default JNull),
     BField ''approval_expires_at'' None (TUnion [TStr, TNone]) (Default JNull),
     BField ''direct_execution'' None TBool (Default (JBool False)),
     BField ''direct_execution_confirmed'' None TBool (Default (JBool False))]"

definition route_class :: bclass where
  "route_class = BClass ''Route''
    [BField ''channel'' None TStr Required,
     BField ''cluster_id'' None TStr Required]"

definition command_dispatched_body :: bclass where
  "command_dispatched_body = BClass ''CommandDispatchedBody''
    [BField ''plan'' None (TBody plan_class) Required,
     BField ''route'' None (TBody route_class) Required]"

definition command_queued_for_agent_body :: bclass where
  "command_queued_for_agent_body = BClass ''CommandQueuedForAgentBody''
    [BField ''command_id'' None TStr Required,
     BField ''cluster_id'' None TStr Required,
     BField ''workspace_id'' None TStr (Default (JStr ''default'')),
     BField ''application_id'' None TStr (Default (JStr [])),
     BField ''workflow_run_id'' None TStr (Default (JStr [])),
     BField ''binding_id'' None TStr (Default (JStr [])),
     BField ''environment'' None TStr (Default (JStr ''sandbox'')),
     BField ''priority'' None TInt (Default (JInt 100)),
     BField ''approval_ref'' None (TUnion [TStr, TNone]) (Default JNull),
     BField ''policy_decision_ref'' None (TUnion [TStr, TNone]) (Default JNull),
     BField ''approval_decided_by'' None (TUnion [TStr, TNone]) (Default JNull),
     BField ''approval_expires_at'' None (TUnion [TStr, TNone]) (Default JNull),
     BField ''direct_execution'' None TBool (Default (JBool False)),
     BField ''direct_execution_confirmed'' None TBool (Default (JBool False))]"

definition command_rejected_body :: bclass where
  "command_rejected_body = BClass ''CommandRejectedBody''
    [BField ''reason'' None TStr Required,
     BField ''requested'' None TDict Required,
     BField ''reason_code'' None (TUnion [TStr, TNone]) (Default JNull)]"

definition command_cancel_requested_body :: bclass where
  "command_cancel_requested_body = BClass ''CommandCancelRequestedBody''
    [BField ''command_id'' None TStr Required,
     BField ''workspace_id'' None TStr Required,
     BField ''reason'' None (TUnion [TStr, TNone]) (Default JNull),
     BField ''requested_by'' None (TUnion [TStr, TNone]) (Default JNull),
     BField ''actor'' None (TUnion [TDict, TNone]) (Default JNull)]"

definition command_retry_requested_body :: bclass where
  "command_retry_requested_body = BClass ''CommandRetryRequestedBody''
    [BField ''command_id'' None TStr Required,
     BField ''workspace_id'' None TStr Required,
     BField ''reason'' None (TUnion [TStr, TNone]) (Default JNull),
     BField ''requested_by'' None (TUnion [TStr, TNone]) (Default JNull),
     BField ''actor'' None (TUnion [TDict, TNone]) (Default JNull)]"

definition command_completed_body :: bclass where
  "command_completed_body = BClass ''CommandCompletedBody''
    [BField ''command_id'' None TStr Required,
     BField ''result'' None TDict Required]"

end
