(* ===== verification/Event_Catalog.thy ===== *)
theory Event_Catalog
  imports Command_Bodies "HOL-Library.AList"
begin

text \<open>
  The event catalogue: the body class of every event of the system, as the \<^verbatim>\<open>@event\<close>
  declarations of \<^verbatim>\<open>src/src/domains/*/events.py\<close> and
  \<^verbatim>\<open>src/src/packages/contracts/event_bus/bodies/platform.py\<close> give them, and the registry
  (\<^verbatim>\<open>src/src/packages/contracts/event_bus/registry.py\<close>) they are entered into.
\<close>

section \<open>\<^verbatim>\<open>src/src/domains/ai/events.py\<close>\<close>

definition ai_message_received_body :: bclass where
  "ai_message_received_body = BClass ''AiMessageReceivedBody''
    [BField ''conversation_id'' None TStr Required,
     BField ''message_id'' None TStr Required,
     BField ''content'' None TStr Required,
     BField ''agent'' None TStr Required,
     BField ''user_id'' None TStr Required,
     BField ''workspace_id'' None TStr (Default (JStr ''default'')),
     BField ''context'' None (TUnion [TDict, TNone]) (Default JNull)]"

definition ai_message_responded_body :: bclass where
  "ai_message_responded_body = BClass ''AiMessageRespondedBody''
    [BField ''conversation_id'' None TStr Required,
     BField ''request_message_id'' None TStr Required,
     BField ''response_message_id'' None TStr Required,
     BField ''content'' None TStr Required,
     BField ''agent'' None TStr Required,
     BField ''workspace_id'' None TStr (Default (JStr ''default'')),
     BField ''metadata'' None (TUnion [TDict, TNone]) (Default JNull)]"

definition ai_message_failed_body :: bclass where
  "ai_message_failed_body = BClass ''AiMessageFailedBody''
    [BField ''conversation_id'' None TStr Required,
     BField ''request_message_id'' None TStr Required,
     BField ''reason'' None TStr Required,
     BField ''agent'' None TStr Required,
     BField ''workspace_id'' None TStr (Default (JStr ''default'')),
     BField ''metadata'' None (TUnion [TDict, TNone]) (Default JNull)]"

section \<open>\<^verbatim>\<open>src/src/domains/alert/events.py\<close>\<close>

definition alert_requested_body :: bclass where
  "alert_requested_body = BClass ''AlertRequestedBody''
    [BField ''cluster_id'' None TStr Required,
     BField ''namespace'' None TStr Required,
     BField ''severity'' None TStr Required,
     BField ''message'' None TStr Required,
     BField ''reason'' None TStr Required,
     BField ''next_command'' None (TUnion [(TBody command_requested_body), TNone]) (Default JNull),
     BField ''workspace_id'' None TStr (Default (JStr ''default'')),
     BField ''application_id'' None TStr (Default (JStr [])),
     BField ''workflow_run_id'' None TStr (Default (JStr [])),
     BField ''binding_id'' None TStr (Default (JStr [])),
     BField ''environment'' None TStr (Default (JStr ''sandbox'')),
     BField ''channel_ids'' None (TUnion [(TList TStr), TNone]) (Default JNull)]"

definition alert_dispatched_body :: bclass where
  "alert_dispatched_body = BClass ''AlertDispatchedBody''
    [BField ''cluster_id'' None TStr Required,
     BField ''namespace'' None TStr Required,
     BField ''severity'' None TStr Required,
     BField ''channel'' None TStr Required,
     BField ''mode'' None TStr Required,
     BField ''workspace_id'' None TStr (Default (JStr ''default'')),
     BField ''application_id'' None TStr (Default (JStr [])),
     BField ''workflow_run_id'' None TStr (Default (JStr [])),
     BField ''binding_id'' None TStr (Default (JStr [])),
     BField ''environment'' None TStr (Default (JStr ''sandbox''))]"

definition alert_rejected_body :: bclass where
  "alert_rejected_body = BClass ''AlertRejectedBody''
    [BField ''reason'' None TStr Required,
     BField ''requested'' None TDict Required]"

section \<open>\<^verbatim>\<open>src/src/domains/checks/events.py\<close>\<close>

definition checks_settings_updated_body :: bclass where
  "checks_settings_updated_body = BClass ''ChecksSettingsUpdatedBody''
    [BField ''workspace_id'' None TStr Required,
     BField ''user_id'' None TStr Required,
     BField ''policy'' None TDict Required,
     BField ''expected_revision'' None TInt Required]"

section \<open>\<^verbatim>\<open>src/src/domains/gitops/events.py\<close>\<close>

definition manifest_class :: bclass where
  "manifest_class = BClass ''Manifest''
    [BField ''app'' None TStr Required,
     BField ''image'' None TStr Required,
     BField ''replicas'' None TInt Required,
     BField ''namespace'' None TStr Required,
     BField ''manifest_path'' None TStr (Default (JStr ''deploy.yaml''))]"

definition rendered_metadata_class :: bclass where
  "rendered_metadata_class = BClass ''RenderedMetadata''
    [BField ''name'' None TStr Required,
     BField ''namespace'' None TStr Required]"

definition rendered_spec_class :: bclass where
  "rendered_spec_class = BClass ''RenderedSpec''
    [BField ''replicas'' None TInt (Default (JInt 0)),
     BField ''image'' None TStr (Default (JStr []))]"

definition rendered_manifest_class :: bclass where
  "rendered_manifest_class = BClass ''RenderedManifest''
    [BField ''api_version'' (Some ''apiVersion'') TStr Required,
     BField ''kind'' None TStr Required,
     BField ''metadata'' None (TBody rendered_metadata_class) Required,
     BField ''spec'' None (TBody rendered_spec_class) Required,
     BField ''resource_class'' None TStr (Default (JStr ''application'')),
     BField ''manifest'' None TDict (Default (JObj [])),
     BField ''declared_fields'' None (TList TStr) (Default (JArr [])),
     BField ''managed_fields'' None (TList TStr) (Default (JArr [])),
     BField ''ignored_fields'' None (TList TStr) (Default (JArr [])),
     BField ''last_approved_snapshot'' None TDict (Default (JObj [])),
     BField ''artifact_digest'' None TStr (Default (JStr []))]"

definition git_webhook_received_body :: bclass where
  "git_webhook_received_body = BClass ''GitWebhookReceivedBody''
    [BField ''commit_sha'' None TStr Required,
     BField ''image'' None TStr Required,
     BField ''replicas'' None TInt Required,
     BField ''correlation_id'' None TStr (Default (JStr [])),
     BField ''workspace_id'' None TStr (Default (JStr ''default'')),
     BField ''repository_id'' None TStr (Default (JStr [])),
     BField ''repo_ref'' None TStr (Default (JStr [])),
     BField ''branch'' None TStr (Default (JStr ''main'')),
     BField ''watch_target_id'' None TStr (Default (JStr [])),
     BField ''binding_id'' None TStr (Default (JStr [])),
     BField ''application_id'' None TStr (Default (JStr [])),
     BField ''workflow_run_id'' None TStr (Default (JStr [])),
     BField ''environment'' None TStr (Default (JStr ''sandbox'')),
     BField ''cluster_id'' None TStr (Default (JStr ''default-target-cluster'')),
     BField ''manifest_path'' None TStr (Default (JStr ''deploy.yaml'')),
     BField ''source_type'' None TStr (Default (JStr [])),
     BField ''force'' None TBool (Default (JBool False))]"

definition git_changed_body :: bclass where
  "git_changed_body = BClass ''GitChangedBody''
    [BField ''commit_sha'' None TStr Required,
     BField ''image'' None TStr Required,
     BField ''replicas'' None TInt Required,
     BField ''workspace_id'' None TStr (Default (JStr ''default'')),
     BField ''repository_id'' None TStr (Default (JStr [])),
     BField ''repo_ref'' None TStr (Default (JStr [])),
     BField ''branch'' None TStr (Default (JStr ''main'')),
     BField ''watch_target_id'' None TStr (Default (JStr [])),
     BField ''binding_id'' None TStr (Default (JStr [])),
     BField ''application_id'' None TStr (Default (JStr [])),
     BField ''workflow_run_id'' None TStr (Default (JStr [])),
     BField ''environment'' None TStr (Default (JStr ''sandbox'')),
     BField ''cluster_id'' None TStr (Default (JStr ''default-target-cluster'')),
     BField ''manifest_path'' None TStr (Default (JStr ''deploy.yaml'')),
     BField ''source_type'' None TStr (Default (JStr []))]"

definition manifest_rendered_body :: bclass where
  "manifest_rendered_body = BClass ''ManifestRenderedBody''
    [BField ''rendered_manifest'' None (TBody rendered_manifest_class) Required,
     BField ''workspace_id'' None TStr (Default (JStr ''default'')),
     BField ''repository_id'' None TStr (Default (JStr [])),
     BField ''watch_target_id'' None TStr (Default (JStr [])),
     BField ''binding_id'' None TStr (Default (JStr [])),
     BField ''application_id'' None TStr (Default (JStr [])),
     BField ''workflow_run_id'' None TStr (Default (JStr [])),
     BField ''environment'' None TStr (Default (JStr ''sandbox'')),
     BField ''cluster_id'' None TStr (Default (JStr ''default-target-cluster'')),
     BField ''commit_sha'' None TStr (Default (JStr [])),
     BField ''manifest_path'' None TStr (Default (JStr ''deploy.yaml'')),
     BField ''repo_ref'' None TStr (Default (JStr [])),
     BField ''branch'' None TStr (Default (JStr ''main''))]"

definition manifest_invalid_body :: bclass where
  "manifest_invalid_body = BClass ''ManifestInvalidBody''
    [BField ''workspace_id'' None TStr Required,
     BField ''repository_id'' None TStr Required,
     BField ''watch_target_id'' None TStr Required,
     BField ''binding_id'' None TStr Required,
     BField ''commit_sha'' None TStr Required,
     BField ''manifest_path'' None TStr Required,
     BField ''reason'' None TStr Required,
     BField ''application_id'' None TStr (Default (JStr [])),
     BField ''workflow_run_id'' None TStr (Default (JStr [])),
     BField ''environment'' None TStr (Default (JStr ''sandbox'')),
     BField ''cluster_id'' None TStr (Default (JStr ''default-target-cluster''))]"

definition desired_desired_diff_detected_body :: bclass where
  "desired_desired_diff_detected_body = BClass ''DesiredDesiredDiffDetectedBody''
    [BField ''diff'' None (TBody diff_class) Required]"

definition git_ops_change_context_detected_body :: bclass where
  "git_ops_change_context_detected_body = BClass ''GitOpsChangeContextDetectedBody''
    [BField ''metadata'' None TDict Required,
     BField ''workspace_id'' None TStr (Default (JStr ''default'')),
     BField ''repository_id'' None TStr (Default (JStr [])),
     BField ''watch_target_id'' None TStr (Default (JStr [])),
     BField ''binding_id'' None TStr (Default (JStr [])),
     BField ''application_id'' None TStr (Default (JStr [])),
     BField ''workflow_run_id'' None TStr (Default (JStr [])),
     BField ''environment'' None TStr (Default (JStr ''sandbox'')),
     BField ''cluster_id'' None TStr (Default (JStr ''default-target-cluster'')),
     BField ''commit_sha'' None TStr (Default (JStr [])),
     BField ''manifest_path'' None TStr (Default (JStr ''deploy.yaml'')),
     BField ''repo_ref'' None TStr (Default (JStr [])),
     BField ''branch'' None TStr (Default (JStr ''main'')),
     BField ''resource'' None TStr (Default (JStr []))]"

definition diff_analyzed_body :: bclass where
  "diff_analyzed_body = BClass ''DiffAnalyzedBody''
    [BField ''diff'' None (TBody diff_class) Required,
     BField ''safe'' None TBool Required,
     BField ''risk'' None TStr Required,
     BField ''reason'' None TStr Required]"

definition workflow_created_body :: bclass where
  "workflow_created_body = BClass ''WorkflowCreatedBody''
    [BField ''workspace_id'' None TStr (Default (JStr ''default'')),
     BField ''application_id'' None TStr (Default (JStr [])),
     BField ''workflow_run_id'' None TStr (Default (JStr [])),
     BField ''repository_id'' None TStr (Default (JStr [])),
     BField ''watch_target_id'' None TStr (Default (JStr [])),
     BField ''binding_id'' None TStr (Default (JStr [])),
     BField ''environment'' None TStr (Default (JStr ''sandbox'')),
     BField ''cluster_id'' None TStr (Default (JStr ''default-target-cluster'')),
     BField ''commit_sha'' None TStr (Default (JStr [])),
     BField ''manifest_path'' None TStr (Default (JStr ''deploy.yaml''))]"

definition workflow_run_started_body :: bclass where
  "workflow_run_started_body = BClass ''WorkflowRunStartedBody''
    [BField ''workflow_run_id'' None TStr Required,
     BField ''application_id'' None TStr Required,
     BField ''workspace_id'' None TStr (Default (JStr ''default'')),
     BField ''repository_id'' None TStr (Default (JStr [])),
     BField ''watch_target_id'' None TStr (Default (JStr [])),
     BField ''binding_id'' None TStr (Default (JStr [])),
     BField ''environment'' None TStr (Default (JStr ''sandbox'')),
     BField ''cluster_id'' None TStr (Default (JStr ''default-target-cluster'')),
     BField ''commit_sha'' None TStr (Default (JStr [])),
     BField ''manifest_path'' None TStr (Default (JStr ''deploy.yaml'')),
     BField ''status'' None TStr (Default (JStr ''started'')),
     BField ''current_step'' None TStr (Default (JStr ''git''))]"

definition workflow_step_recorded_body :: bclass where
  "workflow_step_recorded_body = BClass ''WorkflowStepRecordedBody''
    [BField ''workflow_run_id'' None TStr Required,
     BField ''application_id'' None TStr Required,
     BField ''step'' None TStr Required,
     BField ''status'' None TStr Required,
     BField ''workspace_id'' None TStr (Default (JStr ''default'')),
     BField ''binding_id'' None TStr (Default (JStr [])),
     BField ''environment'' None TStr (Default (JStr ''sandbox'')),
     BField ''message'' None (TUnion [TStr, TNone]) (Default JNull),
     BField ''details'' None TDict (Default (JObj []))]"

definition approval_requested_body :: bclass where
  "approval_requested_body = BClass ''ApprovalRequestedBody''
    [BField ''approval_id'' None TStr Required,
     BField ''workflow_run_id'' None TStr Required,
     BField ''application_id'' None TStr Required,
     BField ''reason'' None TStr Required,
     BField ''workspace_id'' None TStr (Default (JStr ''default'')),
     BField ''binding_id'' None TStr (Default (JStr [])),
     BField ''environment'' None TStr (Default (JStr ''sandbox'')),
     BField ''requested_role'' None TStr (Default (JStr ''release_operator'')),
     BField ''details'' None TDict (Default (JObj []))]"

definition approval_granted_body :: bclass where
  "approval_granted_body = BClass ''ApprovalGrantedBody''
    [BField ''approval_id'' None TStr Required,
     BField ''workflow_run_id'' None TStr Required,
     BField ''application_id'' None TStr Required,
     BField ''workspace_id'' None TStr (Default (JStr ''default'')),
     BField ''binding_id'' None TStr (Default (JStr [])),
     BField ''environment'' None TStr (Default (JStr ''sandbox'')),
     BField ''decided_by'' None (TUnion [TStr, TNone]) (Default JNull),
     BField ''decision'' None TStr (Default (JStr ''granted'')),
     BField ''details'' None TDict (Default (JObj []))]"

definition approval_rejected_body :: bclass where
  "approval_rejected_body = BClass ''ApprovalRejectedBody''
    [BField ''approval_id'' None TStr Required,
     BField ''workflow_run_id'' None TStr Required,
     BField ''application_id'' None TStr Required,
     BField ''reason'' None TStr Required,
     BField ''workspace_id'' None TStr (Default (JStr ''default'')),
     BField ''binding_id'' None TStr (Default (JStr [])),
     BField ''environment'' None TStr (Default (JStr ''sandbox'')),
     BField ''decided_by'' None (TUnion [TStr, TNone]) (Default JNull),
     BField ''details'' None TDict (Default (JObj []))]"

definition workflow_run_completed_body :: bclass where
  "workflow_run_completed_body = BClass ''WorkflowRunCompletedBody''
    [BField ''workflow_run_id'' None TStr Required,
     BField ''application_id'' None TStr Required,
     BField ''workspace_id'' None TStr (Default (JStr ''default'')),
     BField ''binding_id'' None TStr (Default (JStr [])),
     BField ''environment'' None TStr (Default (JStr ''sandbox'')),
     BField ''summary'' None TStr (Default (JStr ''workflow succeeded'')),
     BField ''details'' None TDict (Default (JObj []))]"

definition workflow_run_failed_body :: bclass where
  "workflow_run_failed_body = BClass ''WorkflowRunFailedBody''
    [BField ''workflow_run_id'' None TStr Required,
     BField ''application_id'' None TStr Required,
     BField ''reason'' None TStr Required,
     BField ''workspace_id'' None TStr (Default (JStr ''default'')),
     BField ''binding_id'' None TStr (Default (JStr [])),
     BField ''environment'' None TStr (Default (JStr ''sandbox'')),
     BField ''details'' None TDict (Default (JObj []))]"

section \<open>\<^verbatim>\<open>src/src/domains/helm/events.py\<close>\<close>

definition helm_chart_source_deleted_body :: bclass where
  "helm_chart_source_deleted_body = BClass ''HelmChartSourceDeletedBody''
    [BField ''workspace_id'' None TStr Required,
     BField ''source_id'' None TStr Required,
     BField ''provider'' None TStr Required,
     BField ''name'' None TStr Required,
     BField ''reference'' None TStr Required]"

definition helm_chart_source_refreshed_body :: bclass where
  "helm_chart_source_refreshed_body = BClass ''HelmChartSourceRefreshedBody''
    [BField ''workspace_id'' None TStr Required,
     BField ''source_id'' None TStr Required,
     BField ''name'' None TStr Required,
     BField ''chart_count'' None TInt Required,
     BField ''observed_at'' None TStr Required]"

section \<open>\<^verbatim>\<open>src/src/domains/integrations/events.py\<close>\<close>

definition prometheus_integration_configured_body :: bclass where
  "prometheus_integration_configured_body = BClass ''PrometheusIntegrationConfiguredBody''
    [BField ''workspace_id'' None TStr Required,
     BField ''cluster_id'' None TStr Required,
     BField ''revision'' None TStr Required,
     BField ''operation_id'' None TStr Required,
     BField ''address'' None TStr Required,
     BField ''submitted_header_keys'' None (TList TStr) (Default (JArr [])),
     BField ''preserve_stored_headers'' None TBool (Default (JBool False))]"

section \<open>\<^verbatim>\<open>src/src/domains/inventory/events.py\<close>\<close>

definition inventory_snapshot_recorded_body :: bclass where
  "inventory_snapshot_recorded_body = BClass ''InventorySnapshotRecordedBody''
    [BField ''cluster_id'' None TStr Required,
     BField ''snapshot_id'' None TStr Required,
     BField ''agent_id'' None TStr Required,
     BField ''resource_count'' None TInt Required,
     BField ''resource_types'' None (TList TStr) (Default (JArr [])),
     BField ''workspace_id'' None TStr (Default (JStr ''default''))]"

section \<open>\<^verbatim>\<open>src/src/domains/mail/events.py\<close>\<close>

definition email_verification_requested_body :: bclass where
  "email_verification_requested_body = BClass ''EmailVerificationRequestedBody''
    [BField ''email'' None TStr Required,
     BField ''verification_url'' None TStr Required,
     BField ''expires_in_seconds'' None TInt Required]"

definition email_verification_sent_body :: bclass where
  "email_verification_sent_body = BClass ''EmailVerificationSentBody''
    [BField ''email'' None TStr Required,
     BField ''mode'' None TStr Required]"

definition email_verification_failed_body :: bclass where
  "email_verification_failed_body = BClass ''EmailVerificationFailedBody''
    [BField ''email'' None TStr Required,
     BField ''reason'' None TStr Required,
     BField ''reason_code'' None TStr Required,
     BField ''mode'' None TStr Required]"

section \<open>\<^verbatim>\<open>src/src/domains/rca/events.py\<close>\<close>

definition cluster_evidence_received_body :: bclass where
  "cluster_evidence_received_body = BClass ''ClusterEvidenceReceivedBody''
    [BField ''cluster_id'' None TStr Required,
     BField ''kubernetes'' None TDict Required,
     BField ''metrics'' None TDict Required,
     BField ''logs'' None (TList TDict) Required,
     BField ''traces'' None TDict Required,
     BField ''workspace_id'' None TStr (Default (JStr ''default'')),
     BField ''agent_id'' None (TUnion [TStr, TNone]) (Default JNull),
     BField ''source_id'' None (TUnion [TStr, TNone]) (Default JNull),
     BField ''window_start'' None (TUnion [TStr, TNone]) (Default JNull),
     BField ''evidence_key'' None (TUnion [TStr, TNone]) (Default JNull),
     BField ''workflow_run_id'' None (TUnion [TStr, TNone]) (Default JNull),
     BField ''release_context'' None TDict (Default (JObj [])),
     BField ''collection_status'' None TDict (Default (JObj [])),
     BField ''metadata'' None TDict (Default (JObj [])),
     BField ''correlation_id'' None (TUnion [TStr, TNone]) (Default JNull),
     BField ''kind'' None (TUnion [TStr, TNone]) (Default JNull),
     BField ''payload_size'' None (TUnion [TInt, TNone]) (Default JNull),
     BField ''summary'' None TDict (Default (JObj []))]"

definition evidence_class :: bclass where
  "evidence_class = BClass ''Evidence''
    [BField ''cluster_id'' None TStr Required,
     BField ''kubernetes'' None TDict Required,
     BField ''metrics'' None TDict Required,
     BField ''logs'' None (TList TDict) Required,
     BField ''traces'' None TDict Required,
     BField ''object_ref'' None TStr Required,
     BField ''metadata'' None TDict (Default (JObj [])),
     BField ''workspace_id'' None TStr (Default (JStr ''default''))]"

definition incident_record_class :: bclass where
  "incident_record_class = BClass ''IncidentRecord''
    [BField ''incident_id'' None TStr Required,
     BField ''cluster_id'' None TStr Required,
     BField ''resource_kind'' None TStr Required,
     BField ''resource_name'' None TStr Required,
     BField ''namespace'' None (TUnion [TStr, TNone]) Required,
     BField ''symptom'' None TStr Required,
     BField ''severity'' None TStr Required,
     BField ''first_seen_at'' None (TUnion [TStr, TNone]) Required,
     BField ''summary'' None TStr Required,
     BField ''category'' None (TUnion [TStr, TNone]) (Default JNull),
     BField ''workspace_id'' None TStr (Default (JStr ''default'')),
     BField ''secondary_symptoms'' None (TList TStr) (Default (JArr []))]"

definition incident_detected_body :: bclass where
  "incident_detected_body = BClass ''IncidentDetectedBody''
    [BField ''cluster_id'' None TStr Required,
     BField ''detected'' None TBool Required,
     BField ''reason'' None TStr Required,
     BField ''workspace_id'' None TStr (Default (JStr ''default'')),
     BField ''severity'' None (TUnion [TStr, TNone]) (Default JNull),
     BField ''affected'' None (TUnion [(TList TDict), TNone]) (Default JNull),
     BField ''evidence'' None (TUnion [(TBody evidence_class), TNone]) (Default JNull),
     BField ''incident'' None (TUnion [(TBody incident_record_class), TNone]) (Default JNull)]"

definition evidence_built_body :: bclass where
  "evidence_built_body = BClass ''EvidenceBuiltBody''
    [BField ''evidence'' None (TBody evidence_class) Required,
     BField ''correlation_id'' None (TUnion [TStr, TNone]) (Default JNull),
     BField ''kind'' None (TUnion [TStr, TNone]) (Default JNull),
     BField ''payload_size'' None (TUnion [TInt, TNone]) (Default JNull),
     BField ''summary'' None TDict (Default (JObj []))]"

definition evidence_reference_class :: bclass where
  "evidence_reference_class = BClass ''EvidenceReference''
    [BField ''evidence_ref'' None TStr Required,
     BField ''source'' None TStr Required,
     BField ''name'' None TStr Required,
     BField ''check_id'' None TStr Required,
     BField ''summary'' None TStr Required,
     BField ''query'' None (TUnion [TStr, TNone]) (Default JNull)]"

definition evidence_item_class :: bclass where
  "evidence_item_class = BClass ''EvidenceItem''
    [BField ''source'' None TStr Required,
     BField ''name'' None TStr Required,
     BField ''value'' None TDict Required,
     BField ''summary'' None TStr Required,
     BField ''evidence_ref'' None TStr (Default (JStr [])),
     BField ''check_id'' None TStr (Default (JStr [])),
     BField ''query'' None (TUnion [TStr, TNone]) (Default JNull)]"

definition missing_evidence_check_class :: bclass where
  "missing_evidence_check_class = BClass ''MissingEvidenceCheck''
    [BField ''check_id'' None TStr Required,
     BField ''source'' None TStr Required,
     BField ''status'' None TStr Required,
     BField ''reason'' None TStr Required]"

definition evidence_bundle_class :: bclass where
  "evidence_bundle_class = BClass ''EvidenceBundle''
    [BField ''incident_id'' None TStr Required,
     BField ''items'' None (TList (TBody evidence_item_class)) Required,
     BField ''missing_evidence'' None (TList TStr) Required,
     BField ''complete'' None TBool Required,
     BField ''missing_evidence_checks'' None (TList (TBody missing_evidence_check_class)) (Default (JArr []))]"

definition evidence_bundle_built_body :: bclass where
  "evidence_bundle_built_body = BClass ''EvidenceBundleBuiltBody''
    [BField ''evidence'' None (TBody evidence_class) Required,
     BField ''incident'' None (TBody incident_record_class) Required,
     BField ''evidence_bundle'' None (TBody evidence_bundle_class) Required]"

definition cause_candidate_class :: bclass where
  "cause_candidate_class = BClass ''CauseCandidate''
    [BField ''candidate_id'' None TStr Required,
     BField ''title'' None TStr Required,
     BField ''description'' None TStr Required,
     BField ''expected_evidence'' None (TList TStr) Required,
     BField ''checks'' None (TList TStr) Required,
     BField ''signals'' None (TList TDict) (Default (JArr [])),
     BField ''source'' None TStr (Default (JStr ''rule''))]"

definition cause_evaluation_class :: bclass where
  "cause_evaluation_class = BClass ''CauseEvaluation''
    [BField ''candidate_id'' None TStr Required,
     BField ''score'' None TOther Required,
     BField ''checks'' None (TList TStr) Required,
     BField ''supporting_evidence'' None (TList TStr) Required,
     BField ''missing_evidence'' None (TList TStr) Required,
     BField ''reason'' None TStr Required,
     BField ''supporting_evidence_refs'' None (TList (TBody evidence_reference_class)) (Default (JArr [])),
     BField ''missing_evidence_checks'' None (TList (TBody missing_evidence_check_class)) (Default (JArr [])),
     BField ''matched_signal_count'' None TInt (Default (JInt 0)),
     BField ''required_signal_count'' None TInt (Default (JInt 0))]"

definition rca_report_detail_class :: bclass where
  "rca_report_detail_class = BClass ''RcaReportDetail''
    [BField ''root_cause'' None TStr Required,
     BField ''confidence'' None TOther Required,
     BField ''selected_candidate_id'' None TStr Required,
     BField ''supporting_evidence'' None (TList TStr) Required,
     BField ''missing_evidence'' None (TList TStr) Required,
     BField ''reason'' None TStr Required,
     BField ''missing_evidence_checks'' None (TList (TBody missing_evidence_check_class)) (Default (JArr [])),
     BField ''supporting_evidence_refs'' None (TList (TBody evidence_reference_class)) (Default (JArr []))]"

definition rca_rule_missing_class :: bclass where
  "rca_rule_missing_class = BClass ''RcaRuleMissing''
    [BField ''incident_id'' None TStr Required,
     BField ''symptom'' None TStr Required,
     BField ''evidence_ref'' None TStr Required,
     BField ''missing_evidence'' None (TList TStr) Required,
     BField ''message'' None TStr Required,
     BField ''workspace_id'' None TStr (Default (JStr ''default''))]"

definition rca_rule_missing_body :: bclass where
  "rca_rule_missing_body = BClass ''RcaRuleMissingBody''
    [BField ''rule_missing'' None (TBody rca_rule_missing_class) Required,
     BField ''incident'' None (TBody incident_record_class) Required]"

definition rca_backlog_item_created_body :: bclass where
  "rca_backlog_item_created_body = BClass ''RcaBacklogItemCreatedBody''
    [BField ''backlog_id'' None TStr Required,
     BField ''title'' None TStr Required,
     BField ''reason'' None TStr Required,
     BField ''evidence_ref'' None TStr Required,
     BField ''incident_id'' None TStr Required,
     BField ''symptom'' None TStr Required,
     BField ''missing_evidence'' None (TList TStr) Required,
     BField ''status'' None TStr Required,
     BField ''payload'' None TDict Required,
     BField ''workspace_id'' None TStr (Default (JStr ''default''))]"

definition rca_ai_fallback_requested_body :: bclass where
  "rca_ai_fallback_requested_body = BClass ''RcaAiFallbackRequestedBody''
    [BField ''reason'' None TStr Required,
     BField ''evidence_ref'' None TStr Required,
     BField ''incident'' None (TBody incident_record_class) Required,
     BField ''evidence_bundle'' None (TBody evidence_bundle_class) Required,
     BField ''missing_evidence'' None (TList TStr) Required,
     BField ''workspace_id'' None TStr (Default (JStr ''default'')),
     BField ''evidence'' None (TUnion [(TBody evidence_class), TNone]) (Default JNull)]"

definition rca_candidates_planned_body :: bclass where
  "rca_candidates_planned_body = BClass ''RcaCandidatesPlannedBody''
    [BField ''candidate_count'' None TInt Required,
     BField ''evidence_ref'' None TStr Required,
     BField ''candidates'' None (TList (TBody cause_candidate_class)) Required,
     BField ''workspace_id'' None TStr (Default (JStr ''default'')),
     BField ''evidence'' None (TUnion [(TBody evidence_class), TNone]) (Default JNull),
     BField ''incident'' None (TUnion [(TBody incident_record_class), TNone]) (Default JNull),
     BField ''evidence_bundle'' None (TUnion [(TBody evidence_bundle_class), TNone]) (Default JNull),
     BField ''rule_missing'' None (TUnion [(TBody rca_rule_missing_class), TNone]) (Default JNull)]"

definition rca_candidates_evaluated_body :: bclass where
  "rca_candidates_evaluated_body = BClass ''RcaCandidatesEvaluatedBody''
    [BField ''candidate_count'' None TInt Required,
     BField ''evidence_ref'' None TStr Required,
     BField ''candidates'' None (TList (TBody cause_candidate_class)) Required,
     BField ''evaluations'' None (TList (TBody cause_evaluation_class)) Required,
     BField ''workspace_id'' None TStr (Default (JStr ''default'')),
     BField ''evidence'' None (TUnion [(TBody evidence_class), TNone]) (Default JNull),
     BField ''incident'' None (TUnion [(TBody incident_record_class), TNone]) (Default JNull),
     BField ''evidence_bundle'' None (TUnion [(TBody evidence_bundle_class), TNone]) (Default JNull),
     BField ''rule_missing'' None (TUnion [(TBody rca_rule_missing_class), TNone]) (Default JNull)]"

definition rca_analysis_blocked_body :: bclass where
  "rca_analysis_blocked_body = BClass ''RcaAnalysisBlockedBody''
    [BField ''reason_code'' None TStr Required,
     BField ''reason'' None TStr Required,
     BField ''evidence_ref'' None TStr Required,
     BField ''rca_detail'' None (TBody rca_report_detail_class) Required,
     BField ''workspace_id'' None TStr (Default (JStr ''default'')),
     BField ''evidence'' None (TUnion [(TBody evidence_class), TNone]) (Default JNull),
     BField ''incident'' None (TUnion [(TBody incident_record_class), TNone]) (Default JNull),
     BField ''evidence_bundle'' None (TUnion [(TBody evidence_bundle_class), TNone]) (Default JNull),
     BField ''candidates'' None (TList (TBody cause_candidate_class)) (Default (JArr [])),
     BField ''evaluations'' None (TList (TBody cause_evaluation_class)) (Default (JArr [])),
     BField ''rule_missing'' None (TUnion [(TBody rca_rule_missing_class), TNone]) (Default JNull),
     BField ''missing_evidence'' None (TList TStr) (Default (JArr [])),
     BField ''next_actions'' None (TList TDict) (Default (JArr [])),
     BField ''diagnostics'' None TDict (Default (JObj [])),
     BField ''severity'' None TStr (Default (JStr ''warning''))]"

definition rca_followup_required_body :: bclass where
  "rca_followup_required_body = BClass ''RcaFollowupRequiredBody''
    [BField ''reason_code'' None TStr Required,
     BField ''summary'' None TStr Required,
     BField ''evidence_ref'' None TStr Required,
     BField ''workspace_id'' None TStr (Default (JStr ''default'')),
     BField ''severity'' None TStr (Default (JStr ''warning'')),
     BField ''incident'' None (TUnion [(TBody incident_record_class), TNone]) (Default JNull),
     BField ''missing_evidence'' None (TList TStr) (Default (JArr [])),
     BField ''next_actions'' None (TList TDict) (Default (JArr [])),
     BField ''diagnostics'' None TDict (Default (JObj []))]"

definition rca_completed_body :: bclass where
  "rca_completed_body = BClass ''RcaCompletedBody''
    [BField ''root_cause'' None TStr Required,
     BField ''action'' None TStr Required,
     BField ''evidence_ref'' None TStr Required,
     BField ''workspace_id'' None TStr (Default (JStr ''default'')),
     BField ''evidence'' None (TUnion [(TBody evidence_class), TNone]) (Default JNull),
     BField ''incident'' None (TUnion [(TBody incident_record_class), TNone]) (Default JNull),
     BField ''evidence_bundle'' None (TUnion [(TBody evidence_bundle_class), TNone]) (Default JNull),
     BField ''candidates'' None (TUnion [(TList (TBody cause_candidate_class)), TNone]) (Default JNull),
     BField ''evaluations'' None (TUnion [(TList (TBody cause_evaluation_class)), TNone]) (Default JNull),
     BField ''rca_detail'' None (TUnion [(TBody rca_report_detail_class), TNone]) (Default JNull),
     BField ''rule_missing'' None (TUnion [(TBody rca_rule_missing_class), TNone]) (Default JNull)]"

definition rca_action_required_body :: bclass where
  "rca_action_required_body = BClass ''RcaActionRequiredBody''
    [BField ''reason'' None TStr Required,
     BField ''evidence_ref'' None TStr Required,
     BField ''workspace_id'' None TStr (Default (JStr ''default'')),
     BField ''reason_code'' None TStr (Default (JStr ''action_required'')),
     BField ''severity'' None TStr (Default (JStr ''warning'')),
     BField ''missing_evidence'' None (TList TStr) (Default (JArr [])),
     BField ''next_actions'' None (TList TDict) (Default (JArr [])),
     BField ''diagnostics'' None TDict (Default (JObj []))]"

definition healing_action_draft_class :: bclass where
  "healing_action_draft_class = BClass ''HealingActionDraft''
    [BField ''action_type'' None TStr Required,
     BField ''namespace'' None TStr Required,
     BField ''resource_kind'' None TStr Required,
     BField ''resource_name'' None TStr Required,
     BField ''reason'' None TStr Required,
     BField ''risk_level'' None TStr Required,
     BField ''dry_run'' None TBool Required,
     BField ''source_evidence'' None (TList TStr) Required,
     BField ''params'' None TDict Required]"

definition recovery_action_candidate_class :: bclass where
  "recovery_action_candidate_class = BClass ''RecoveryActionCandidate''
    [BField ''action_id'' None TStr Required,
     BField ''title'' None TStr Required,
     BField ''description'' None TStr Required,
     BField ''draft'' None (TBody healing_action_draft_class) Required,
     BField ''route'' None TStr Required,
     BField ''rank'' None TInt Required,
     BField ''score'' None TOther Required,
     BField ''risk_level'' None TStr Required,
     BField ''blast_radius'' None TStr Required,
     BField ''approval_required'' None TBool Required,
     BField ''prerequisites'' None (TList TStr) Required,
     BField ''validation_checks'' None (TList TStr) Required,
     BField ''rollback_plan'' None TStr Required,
     BField ''evidence_refs'' None (TList TStr) Required,
     BField ''recommendation_reason'' None TStr (Default (JStr [])),
     BField ''expected_outcome'' None TStr (Default (JStr [])),
     BField ''risk_explanation'' None TStr (Default (JStr [])),
     BField ''rollback_reason'' None TStr (Default (JStr [])),
     BField ''executable'' None TBool (Default (JBool True)),
     BField ''blocked_reason_code'' None (TUnion [TStr, TNone]) (Default JNull),
     BField ''blocked_reason'' None (TUnion [TStr, TNone]) (Default JNull)]"

definition recovery_plan_class :: bclass where
  "recovery_plan_class = BClass ''RecoveryPlan''
    [BField ''plan_id'' None TStr Required,
     BField ''incident_id'' None TStr Required,
     BField ''evidence_ref'' None TStr Required,
     BField ''summary'' None TStr Required,
     BField ''target'' None TDict Required,
     BField ''recommended_action_id'' None TStr Required,
     BField ''execution_route'' None TStr Required,
     BField ''selection_required'' None TBool Required,
     BField ''candidates'' None (TList (TBody recovery_action_candidate_class)) Required,
     BField ''lifecycle'' None TDict (Default (JObj []))]"

definition recovery_planned_body :: bclass where
  "recovery_planned_body = BClass ''RecoveryPlannedBody''
    [BField ''draft'' None (TBody healing_action_draft_class) Required,
     BField ''plan'' None (TUnion [(TBody recovery_plan_class), TNone]) (Default JNull),
     BField ''workspace_id'' None TStr (Default (JStr ''default''))]"

definition recovery_selection_requested_body :: bclass where
  "recovery_selection_requested_body = BClass ''RecoverySelectionRequestedBody''
    [BField ''plan'' None (TBody recovery_plan_class) Required,
     BField ''reason'' None TStr Required,
     BField ''workspace_id'' None TStr (Default (JStr ''default''))]"

definition recovery_action_selected_body :: bclass where
  "recovery_action_selected_body = BClass ''RecoveryActionSelectedBody''
    [BField ''plan'' None (TBody recovery_plan_class) Required,
     BField ''selected'' None (TBody recovery_action_candidate_class) Required,
     BField ''selected_by'' None TStr Required,
     BField ''auto_selected'' None TBool Required,
     BField ''reason'' None TStr Required,
     BField ''workspace_id'' None TStr (Default (JStr ''default''))]"

definition recovery_pr_tracked_body :: bclass where
  "recovery_pr_tracked_body = BClass ''RecoveryPrTrackedBody''
    [BField ''plan_id'' None TStr Required,
     BField ''incident_id'' None TStr Required,
     BField ''pr_url'' None TStr Required,
     BField ''repository_id'' None TStr Required,
     BField ''repo_ref'' None TStr Required,
     BField ''binding_id'' None TStr Required,
     BField ''application_id'' None TStr Required,
     BField ''base_branch'' None TStr Required,
     BField ''workspace_id'' None TStr (Default (JStr ''default''))]"

definition recovery_pr_merged_body :: bclass where
  "recovery_pr_merged_body = BClass ''RecoveryPrMergedBody''
    [BField ''plan_id'' None TStr Required,
     BField ''incident_id'' None TStr Required,
     BField ''pr_url'' None TStr Required,
     BField ''merge_commit_sha'' None TStr Required,
     BField ''repository_id'' None TStr Required,
     BField ''repo_ref'' None TStr Required,
     BField ''binding_id'' None TStr Required,
     BField ''application_id'' None TStr Required,
     BField ''workflow_run_id'' None TStr Required,
     BField ''cluster_id'' None TStr Required,
     BField ''workspace_id'' None TStr (Default (JStr ''default''))]"

definition recovery_verification_started_body :: bclass where
  "recovery_verification_started_body = BClass ''RecoveryVerificationStartedBody''
    [BField ''plan_id'' None TStr Required,
     BField ''incident_id'' None TStr Required,
     BField ''workflow_run_id'' None TStr Required,
     BField ''started_at'' None TStr Required,
     BField ''deadline_at'' None TStr Required,
     BField ''expected'' None TDict Required,
     BField ''before'' None TDict Required,
     BField ''workspace_id'' None TStr (Default (JStr ''default''))]"

definition recovery_verification_updated_body :: bclass where
  "recovery_verification_updated_body = BClass ''RecoveryVerificationUpdatedBody''
    [BField ''plan_id'' None TStr Required,
     BField ''incident_id'' None TStr Required,
     BField ''status'' None TStr Required,
     BField ''reason_code'' None TStr Required,
     BField ''reason'' None TStr Required,
     BField ''evidence_ref'' None TStr Required,
     BField ''before'' None TDict Required,
     BField ''after'' None TDict Required,
     BField ''workspace_id'' None TStr (Default (JStr ''default''))]"

definition recovery_verification_failed_body :: bclass where
  "recovery_verification_failed_body = BClass ''RecoveryVerificationFailedBody''
    [BField ''plan_id'' None TStr Required,
     BField ''incident_id'' None TStr Required,
     BField ''reason_code'' None TStr Required,
     BField ''reason'' None TStr Required,
     BField ''evidence_ref'' None TStr Required,
     BField ''before'' None TDict (Default (JObj [])),
     BField ''after'' None TDict (Default (JObj [])),
     BField ''workspace_id'' None TStr (Default (JStr ''default''))]"

definition recovery_retry_requested_body :: bclass where
  "recovery_retry_requested_body = BClass ''RecoveryRetryRequestedBody''
    [BField ''plan_id'' None TStr Required,
     BField ''incident_id'' None TStr Required,
     BField ''action_id'' None TStr Required,
     BField ''retry_stage'' None TStr Required,
     BField ''attempt'' None TInt Required,
     BField ''requested_by'' None TStr Required,
     BField ''reason'' None TStr Required,
     BField ''workflow_run_id'' None (TUnion [TStr, TNone]) (Default JNull),
     BField ''workspace_id'' None TStr (Default (JStr ''default''))]"

definition incident_resolved_body :: bclass where
  "incident_resolved_body = BClass ''IncidentResolvedBody''
    [BField ''incident_id'' None TStr Required,
     BField ''cluster_id'' None TStr Required,
     BField ''reason'' None TStr Required,
     BField ''evidence_ref'' None TStr Required,
     BField ''recovery_plan_id'' None TStr Required,
     BField ''before'' None TDict Required,
     BField ''after'' None TDict Required,
     BField ''workspace_id'' None TStr (Default (JStr ''default''))]"

definition safe_pr_patch_prepared_body :: bclass where
  "safe_pr_patch_prepared_body = BClass ''SafePrPatchPreparedBody''
    [BField ''title'' None TStr Required,
     BField ''body'' None TStr Required,
     BField ''patch'' None TDict Required,
     BField ''provider'' None TStr Required,
     BField ''request'' None TDict (Default (JObj [])),
     BField ''workspace_id'' None TStr (Default (JStr ''default'')),
     BField ''repository_id'' None TStr (Default (JStr [])),
     BField ''binding_id'' None TStr (Default (JStr [])),
     BField ''application_id'' None TStr (Default (JStr [])),
     BField ''workflow_run_id'' None TStr (Default (JStr [])),
     BField ''environment'' None TStr (Default (JStr ''sandbox'')),
     BField ''manifest_path'' None TStr (Default (JStr ''deploy.yaml'')),
     BField ''pr_kind'' None TStr (Default (JStr ''safe_pr_patch'')),
     BField ''approval_ref'' None (TUnion [TStr, TNone]) (Default JNull),
     BField ''policy_decision_ref'' None (TUnion [TStr, TNone]) (Default JNull),
     BField ''next_alert'' None (TUnion [TDict, TNone]) (Default JNull)]"

definition diff_explained_body :: bclass where
  "diff_explained_body = BClass ''DiffExplainedBody''
    [BField ''summary'' None TStr Required,
     BField ''risk'' None TStr Required,
     BField ''details'' None TDict Required,
     BField ''workspace_id'' None TStr (Default (JStr ''default'')),
     BField ''ready_for_creation'' None TBool (Default (JBool False)),
     BField ''reason'' None TStr (Default (JStr []))]"

definition rollout_diagnosed_body :: bclass where
  "rollout_diagnosed_body = BClass ''RolloutDiagnosedBody''
    [BField ''diagnosis'' None TStr Required,
     BField ''next_action'' None TStr Required,
     BField ''details'' None TDict Required,
     BField ''workspace_id'' None TStr (Default (JStr ''default''))]"

definition approval_recommended_body :: bclass where
  "approval_recommended_body = BClass ''ApprovalRecommendedBody''
    [BField ''recommendation'' None TStr Required,
     BField ''reason'' None TStr Required,
     BField ''details'' None TDict Required,
     BField ''workspace_id'' None TStr (Default (JStr ''default''))]"

section \<open>\<^verbatim>\<open>src/src/domains/scm/events.py\<close>\<close>

definition safe_pr_file_patch_class :: bclass where
  "safe_pr_file_patch_class = BClass ''SafePrFilePatch''
    [BField ''path'' None TStr Required,
     BField ''content'' None TStr Required,
     BField ''description'' None TStr (Default (JStr []))]"

definition safe_pr_requested_body :: bclass where
  "safe_pr_requested_body = BClass ''SafePrRequestedBody''
    [BField ''title'' None TStr Required,
     BField ''body'' None TStr Required,
     BField ''provider'' None TStr Required,
     BField ''patches'' None (TList (TBody safe_pr_file_patch_class)) (Default (JArr [])),
     BField ''pr_kind'' None TStr (Default (JStr ''safe_pr_patch'')),
     BField ''workspace_id'' None TStr (Default (JStr ''default'')),
     BField ''repository_id'' None TStr (Default (JStr [])),
     BField ''binding_id'' None TStr (Default (JStr [])),
     BField ''application_id'' None TStr (Default (JStr [])),
     BField ''workflow_run_id'' None TStr (Default (JStr [])),
     BField ''environment'' None TStr (Default (JStr ''sandbox'')),
     BField ''manifest_path'' None TStr (Default (JStr ''deploy.yaml'')),
     BField ''repo_ref'' None TStr (Default (JStr [])),
     BField ''base_branch'' None TStr (Default (JStr [])),
     BField ''commit_sha'' None TStr (Default (JStr [])),
     BField ''cluster_id'' None TStr (Default (JStr [])),
     BField ''target_namespace'' None TStr (Default (JStr [])),
     BField ''target_resource'' None TStr (Default (JStr [])),
     BField ''target_authority'' None TStr (Default (JStr [])),
     BField ''patch_sha256'' None TStr (Default (JStr [])),
     BField ''approval_ref'' None (TUnion [TStr, TNone]) (Default JNull),
     BField ''policy_decision_ref'' None (TUnion [TStr, TNone]) (Default JNull),
     BField ''next_alert'' None (TUnion [(TBody alert_requested_body), TNone]) (Default JNull),
     BField ''delivery'' None (TUnion [TStr, TNone]) (Default JNull)]"

definition safe_pr_created_body :: bclass where
  "safe_pr_created_body = BClass ''SafePrCreatedBody''
    [BField ''pr_url'' None TStr Required,
     BField ''provider'' None TStr Required,
     BField ''mode'' None TStr Required,
     BField ''workspace_id'' None TStr (Default (JStr ''default'')),
     BField ''repository_id'' None TStr (Default (JStr [])),
     BField ''binding_id'' None TStr (Default (JStr [])),
     BField ''application_id'' None TStr (Default (JStr [])),
     BField ''workflow_run_id'' None TStr (Default (JStr [])),
     BField ''environment'' None TStr (Default (JStr ''sandbox'')),
     BField ''manifest_path'' None TStr (Default (JStr ''deploy.yaml'')),
     BField ''repo_ref'' None TStr (Default (JStr [])),
     BField ''base_branch'' None TStr (Default (JStr [])),
     BField ''commit_sha'' None TStr (Default (JStr [])),
     BField ''patch_sha256'' None TStr (Default (JStr [])),
     BField ''pr_number'' None (TUnion [TInt, TNone]) (Default JNull),
     BField ''pr_node_id'' None TStr (Default (JStr [])),
     BField ''head_ref'' None TStr (Default (JStr [])),
     BField ''head_sha'' None TStr (Default (JStr []))]"

definition safe_pr_ready_for_creation_body :: bclass where
  "safe_pr_ready_for_creation_body = BClass ''SafePrReadyForCreationBody''
    [BField ''request'' None (TBody safe_pr_requested_body) Required,
     BField ''summary'' None TStr Required,
     BField ''risk'' None TStr Required,
     BField ''details'' None TDict (Default (JObj [])),
     BField ''workspace_id'' None TStr (Default (JStr ''default''))]"

definition safe_pr_failed_body :: bclass where
  "safe_pr_failed_body = BClass ''SafePrFailedBody''
    [BField ''provider'' None TStr Required,
     BField ''title'' None TStr Required,
     BField ''reason'' None TStr Required,
     BField ''workspace_id'' None TStr (Default (JStr ''default'')),
     BField ''repository_id'' None TStr (Default (JStr [])),
     BField ''binding_id'' None TStr (Default (JStr [])),
     BField ''application_id'' None TStr (Default (JStr [])),
     BField ''workflow_run_id'' None TStr (Default (JStr [])),
     BField ''environment'' None TStr (Default (JStr ''sandbox'')),
     BField ''manifest_path'' None TStr (Default (JStr ''deploy.yaml'')),
     BField ''repo_ref'' None TStr (Default (JStr [])),
     BField ''base_branch'' None TStr (Default (JStr [])),
     BField ''commit_sha'' None TStr (Default (JStr [])),
     BField ''patch_sha256'' None TStr (Default (JStr [])),
     BField ''reason_code'' None TStr (Default (JStr ''safe_pr_failed'')),
     BField ''stage'' None TStr (Default (JStr ''scm'')),
     BField ''details'' None TDict (Default (JObj []))]"

section \<open>\<^verbatim>\<open>src/src/domains/shell_state/events.py\<close>\<close>

definition namespace_scope_updated_body :: bclass where
  "namespace_scope_updated_body = BClass ''NamespaceScopeUpdatedBody''
    [BField ''workspace_id'' None TStr Required,
     BField ''user_id'' None TStr Required,
     BField ''cluster_id'' None TStr Required,
     BField ''namespaces'' None (TList TStr) Required,
     BField ''expected_revision'' None TInt Required]"

definition ui_preferences_updated_body :: bclass where
  "ui_preferences_updated_body = BClass ''UiPreferencesUpdatedBody''
    [BField ''workspace_id'' None TStr Required,
     BField ''user_id'' None TStr Required,
     BField ''preferences'' None TDict Required,
     BField ''expected_revision'' None TInt Required]"

section \<open>\<^verbatim>\<open>src/src/domains/target/events.py\<close>\<close>

definition agent_connected_body :: bclass where
  "agent_connected_body = BClass ''AgentConnectedBody''
    [BField ''cluster_id'' None TStr Required,
     BField ''agent_id'' None TStr Required,
     BField ''capabilities'' None (TList TStr) (Default (JArr [])),
     BField ''workspace_id'' None TStr (Default (JStr ''default''))]"

definition target_desired_component_class :: bclass where
  "target_desired_component_class = BClass ''TargetDesiredComponent''
    [BField ''component'' None TStr Required,
     BField ''namespace'' None TStr Required,
     BField ''version'' None TStr Required,
     BField ''spec'' None TDict (Default (JObj []))]"

definition target_drift_class :: bclass where
  "target_drift_class = BClass ''TargetDrift''
    [BField ''component'' None TStr Required,
     BField ''reason'' None TStr Required,
     BField ''desired'' None TDict Required,
     BField ''actual'' None (TUnion [TDict, TNone]) (Default JNull)]"

definition cluster_desired_state_changed_body :: bclass where
  "cluster_desired_state_changed_body = BClass ''ClusterDesiredStateChangedBody''
    [BField ''cluster_id'' None TStr Required,
     BField ''desired_state_version'' None TStr Required,
     BField ''components'' None (TList (TBody target_desired_component_class)) Required,
     BField ''reason'' None TStr Required,
     BField ''workspace_id'' None TStr (Default (JStr ''default'')),
     BField ''requested_by'' None (TUnion [TStr, TNone]) (Default JNull)]"

definition cluster_reconcile_requested_body :: bclass where
  "cluster_reconcile_requested_body = BClass ''ClusterReconcileRequestedBody''
    [BField ''cluster_id'' None TStr Required,
     BField ''desired_state_version'' None TStr Required,
     BField ''reason'' None TStr Required,
     BField ''workspace_id'' None TStr (Default (JStr ''default'')),
     BField ''requested_by'' None (TUnion [TStr, TNone]) (Default JNull),
     BField ''actual_state'' None (TUnion [TDict, TNone]) (Default JNull)]"

definition cluster_reconcile_started_body :: bclass where
  "cluster_reconcile_started_body = BClass ''ClusterReconcileStartedBody''
    [BField ''cluster_id'' None TStr Required,
     BField ''desired_state_version'' None TStr Required,
     BField ''component_count'' None TInt Required,
     BField ''workspace_id'' None TStr (Default (JStr ''default''))]"

definition cluster_drift_detected_body :: bclass where
  "cluster_drift_detected_body = BClass ''ClusterDriftDetectedBody''
    [BField ''cluster_id'' None TStr Required,
     BField ''desired_state_version'' None TStr Required,
     BField ''drifts'' None (TList (TBody target_drift_class)) Required,
     BField ''workspace_id'' None TStr (Default (JStr ''default''))]"

definition cluster_reconcile_completed_body :: bclass where
  "cluster_reconcile_completed_body = BClass ''ClusterReconcileCompletedBody''
    [BField ''cluster_id'' None TStr Required,
     BField ''desired_state_version'' None TStr Required,
     BField ''status'' None TStr Required,
     BField ''drifted'' None TBool Required,
     BField ''applied'' None TBool Required,
     BField ''message'' None TStr Required,
     BField ''drifts'' None (TList (TBody target_drift_class)) (Default (JArr [])),
     BField ''workspace_id'' None TStr (Default (JStr ''default''))]"

definition cluster_reconcile_failed_body :: bclass where
  "cluster_reconcile_failed_body = BClass ''ClusterReconcileFailedBody''
    [BField ''cluster_id'' None TStr Required,
     BField ''desired_state_version'' None TStr Required,
     BField ''error_type'' None TStr Required,
     BField ''message'' None TStr Required,
     BField ''status'' None TStr (Default (JStr ''failed'')),
     BField ''workspace_id'' None TStr (Default (JStr ''default''))]"

definition evidence_job_updated_body :: bclass where
  "evidence_job_updated_body = BClass ''EvidenceJobUpdatedBody''
    [BField ''provider_key'' None TStr Required,
     BField ''status'' None TStr Required,
     BField ''evidence_key'' None TStr Required,
     BField ''workspace_id'' None TStr (Default (JStr ''default'')),
     BField ''cluster_id'' None TStr (Default (JStr [])),
     BField ''application_id'' None TStr (Default (JStr [])),
     BField ''evidence_emitted'' None TBool (Default (JBool False)),
     BField ''source_id'' None (TUnion [TStr, TNone]) (Default JNull),
     BField ''window_start'' None (TUnion [TStr, TNone]) (Default JNull),
     BField ''workflow_run_id'' None TStr (Default (JStr [])),
     BField ''correlation_id'' None (TUnion [TStr, TNone]) (Default JNull),
     BField ''release_context'' None TDict (Default (JObj [])),
     BField ''collection_status'' None TDict (Default (JObj []))]"

definition evidence_jobs_queued_body :: bclass where
  "evidence_jobs_queued_body = BClass ''EvidenceJobsQueuedBody''
    [BField ''workspace_id'' None TStr Required,
     BField ''cluster_id'' None TStr Required,
     BField ''evidence_key'' None TStr Required,
     BField ''source_id'' None TStr Required,
     BField ''window_start'' None TStr Required,
     BField ''provider_keys'' None (TList TStr) Required,
     BField ''queued'' None TInt Required,
     BField ''job_ids'' None (TList TStr) Required,
     BField ''workflow_run_id'' None (TUnion [TStr, TNone]) (Default JNull),
     BField ''release_context'' None TDict (Default (JObj []))]"

section \<open>\<^verbatim>\<open>src/src/packages/contracts/event_bus/bodies/platform.py\<close>\<close>

definition dead_letter_created_body :: bclass where
  "dead_letter_created_body = BClass ''DeadLetterCreatedBody''
    [BField ''dead_letter_id'' None TInt Required,
     BField ''original_event_id'' None TStr Required,
     BField ''original_subject'' None TStr Required,
     BField ''consumer'' None TStr Required,
     BField ''attempts'' None TInt Required,
     BField ''error'' None TStr Required,
     BField ''created_at'' None TStr Required,
     BField ''status'' None TStr Required,
     BField ''correlation_id'' None TStr Required,
     BField ''payload'' None (TUnion [TDict, TNone]) (Default JNull)]"

definition pipeline_contract_failed_body :: bclass where
  "pipeline_contract_failed_body = BClass ''PipelineContractFailedBody''
    [BField ''contract'' None TStr Required,
     BField ''reason'' None TStr Required,
     BField ''consumer'' None TStr Required,
     BField ''payload'' None TDict Required,
     BField ''workspace_id'' None TStr Required,
     BField ''evidence_ref'' None (TUnion [TStr, TNone]) (Default JNull),
     BField ''severity'' None TStr (Default (JStr ''warning'')),
     BField ''diagnostics'' None TDict (Default (JObj []))]"

section \<open>The catalogue\<close>

text \<open>The members of \<^verbatim>\<open>EventSubject\<close>, which are the wire strings.\<close>

definition event_subjects :: "string list" where
  "event_subjects =
    [''git.webhook.received'',
     ''git.changed'',
     ''manifest.rendered'',
     ''manifest.invalid'',
     ''desired.diff.detected'',
     ''gitops.change_context.detected'',
     ''diff.analyzed'',
     ''agent.connected'',
     ''cluster.evidence.received'',
     ''cluster.inventory.snapshot.recorded'',
     ''cluster.desired_state.changed'',
     ''cluster.reconcile.requested'',
     ''cluster.reconcile.started'',
     ''cluster.drift.detected'',
     ''cluster.reconcile.completed'',
     ''cluster.reconcile.failed'',
     ''evidence.job.updated'',
     ''evidence.jobs.queued'',
     ''command.requested'',
     ''command.rejected'',
     ''command.dispatched'',
     ''command.queued_for_agent'',
     ''command.cancel.requested'',
     ''command.retry.requested'',
     ''command.completed'',
     ''incident.detected'',
     ''evidence.built'',
     ''evidence.bundle.built'',
     ''rca.candidates.planned'',
     ''rca.candidates.evaluated'',
     ''rca.completed'',
     ''rca.analysis_blocked'',
     ''rca.followup.required'',
     ''rca.rule_missing'',
     ''rca.backlog.created'',
     ''rca.ai_fallback.requested'',
     ''recovery.planned'',
     ''recovery.selection_requested'',
     ''recovery.action_selected'',
     ''recovery.pr.tracked'',
     ''recovery.pr.merged'',
     ''recovery.verification.started'',
     ''recovery.verification.updated'',
     ''recovery.verification.failed'',
     ''recovery.retry.requested'',
     ''incident.resolved'',
     ''safe_pr.patch_prepared'',
     ''diff.explained'',
     ''safe_pr.ready_for_creation'',
     ''rollout.diagnosed'',
     ''approval.recommended'',
     ''rca.action_required'',
     ''alert.requested'',
     ''alert.dispatched'',
     ''alert.rejected'',
     ''mail.email_verification.requested'',
     ''mail.email_verification.sent'',
     ''mail.email_verification.failed'',
     ''safe_pr.requested'',
     ''safe_pr.created'',
     ''safe_pr.failed'',
     ''ai.message.received'',
     ''ai.message.responded'',
     ''ai.message.failed'',
     ''namespace.scope.updated'',
     ''ui.preferences.updated'',
     ''checks.settings.updated'',
     ''integration.prometheus.configured'',
     ''helm.chart_source.deleted'',
     ''helm.chart_source.refreshed'',
     ''workflow.created'',
     ''workflow.run.started'',
     ''workflow.step.recorded'',
     ''workflow.run.completed'',
     ''workflow.run.failed'',
     ''approval.requested'',
     ''approval.granted'',
     ''approval.rejected'',
     ''dead_letter.created'',
     ''pipeline.contract_failed'']"

text \<open>The \<^verbatim>\<open>@event\<close> declarations, listed in the order of their subjects.\<close>

definition event_catalogue :: "(string \<times> bclass) list" where
  "event_catalogue =
    [(''git.webhook.received'', git_webhook_received_body),
     (''git.changed'', git_changed_body),
     (''manifest.rendered'', manifest_rendered_body),
     (''manifest.invalid'', manifest_invalid_body),
     (''desired.diff.detected'', desired_desired_diff_detected_body),
     (''gitops.change_context.detected'', git_ops_change_context_detected_body),
     (''diff.analyzed'', diff_analyzed_body),
     (''agent.connected'', agent_connected_body),
     (''cluster.evidence.received'', cluster_evidence_received_body),
     (''cluster.inventory.snapshot.recorded'', inventory_snapshot_recorded_body),
     (''cluster.desired_state.changed'', cluster_desired_state_changed_body),
     (''cluster.reconcile.requested'', cluster_reconcile_requested_body),
     (''cluster.reconcile.started'', cluster_reconcile_started_body),
     (''cluster.drift.detected'', cluster_drift_detected_body),
     (''cluster.reconcile.completed'', cluster_reconcile_completed_body),
     (''cluster.reconcile.failed'', cluster_reconcile_failed_body),
     (''evidence.job.updated'', evidence_job_updated_body),
     (''evidence.jobs.queued'', evidence_jobs_queued_body),
     (''command.requested'', command_requested_body),
     (''command.rejected'', command_rejected_body),
     (''command.dispatched'', command_dispatched_body),
     (''command.queued_for_agent'', command_queued_for_agent_body),
     (''command.cancel.requested'', command_cancel_requested_body),
     (''command.retry.requested'', command_retry_requested_body),
     (''command.completed'', command_completed_body),
     (''incident.detected'', incident_detected_body),
     (''evidence.built'', evidence_built_body),
     (''evidence.bundle.built'', evidence_bundle_built_body),
     (''rca.candidates.planned'', rca_candidates_planned_body),
     (''rca.candidates.evaluated'', rca_candidates_evaluated_body),
     (''rca.completed'', rca_completed_body),
     (''rca.analysis_blocked'', rca_analysis_blocked_body),
     (''rca.followup.required'', rca_followup_required_body),
     (''rca.rule_missing'', rca_rule_missing_body),
     (''rca.backlog.created'', rca_backlog_item_created_body),
     (''rca.ai_fallback.requested'', rca_ai_fallback_requested_body),
     (''recovery.planned'', recovery_planned_body),
     (''recovery.selection_requested'', recovery_selection_requested_body),
     (''recovery.action_selected'', recovery_action_selected_body),
     (''recovery.pr.tracked'', recovery_pr_tracked_body),
     (''recovery.pr.merged'', recovery_pr_merged_body),
     (''recovery.verification.started'', recovery_verification_started_body),
     (''recovery.verification.updated'', recovery_verification_updated_body),
     (''recovery.verification.failed'', recovery_verification_failed_body),
     (''recovery.retry.requested'', recovery_retry_requested_body),
     (''incident.resolved'', incident_resolved_body),
     (''safe_pr.patch_prepared'', safe_pr_patch_prepared_body),
     (''diff.explained'', diff_explained_body),
     (''safe_pr.ready_for_creation'', safe_pr_ready_for_creation_body),
     (''rollout.diagnosed'', rollout_diagnosed_body),
     (''approval.recommended'', approval_recommended_body),
     (''rca.action_required'', rca_action_required_body),
     (''alert.requested'', alert_requested_body),
     (''alert.dispatched'', alert_dispatched_body),
     (''alert.rejected'', alert_rejected_body),
     (''mail.email_verification.requested'', email_verification_requested_body),
     (''mail.email_verification.sent'', email_verification_sent_body),
     (''mail.email_verification.failed'', email_verification_failed_body),
     (''safe_pr.requested'', safe_pr_requested_body),
     (''safe_pr.created'', safe_pr_created_body),
     (''safe_pr.failed'', safe_pr_failed_body),
     (''ai.message.received'', ai_message_received_body),
     (''ai.message.responded'', ai_message_responded_body),
     (''ai.message.failed'', ai_message_failed_body),
     (''namespace.scope.updated'', namespace_scope_updated_body),
     (''ui.preferences.updated'', ui_preferences_updated_body),
     (''checks.settings.updated'', checks_settings_updated_body),
     (''integration.prometheus.configured'', prometheus_integration_configured_body),
     (''helm.chart_source.deleted'', helm_chart_source_deleted_body),
     (''helm.chart_source.refreshed'', helm_chart_source_refreshed_body),
     (''workflow.created'', workflow_created_body),
     (''workflow.run.started'', workflow_run_started_body),
     (''workflow.step.recorded'', workflow_step_recorded_body),
     (''workflow.run.completed'', workflow_run_completed_body),
     (''workflow.run.failed'', workflow_run_failed_body),
     (''approval.requested'', approval_requested_body),
     (''approval.granted'', approval_granted_body),
     (''approval.rejected'', approval_rejected_body),
     (''dead_letter.created'', dead_letter_created_body),
     (''pipeline.contract_failed'', pipeline_contract_failed_body)]"

section \<open>The registry\<close>

text \<open>
  \<^verbatim>\<open>EventRegistry\<close>: the dictionary of body types and the two lists of handler bindings it
  keeps for its listing. Assigning an existing key of a dictionary keeps its place.
\<close>

record event_registry =
  er_defs :: "(string \<times> bclass) list"
  er_handlers :: "(string \<times> (string \<times> string) list) list"
  er_raw_handlers :: "(string \<times> string) list"

definition empty_registry :: event_registry where
  "empty_registry = \<lparr>er_defs = [], er_handlers = [], er_raw_handlers = []\<rparr>"

definition registry_define :: "string \<Rightarrow> bclass \<Rightarrow> event_registry \<Rightarrow> event_registry" where
  "registry_define subject body_type r =
     r\<lparr>er_defs := AList.update subject body_type (er_defs r)\<rparr>"

definition note_handler :: "string \<Rightarrow> string \<Rightarrow> string \<Rightarrow> event_registry \<Rightarrow> event_registry" where
  "note_handler service subject handler r =
     (let handlers = (case map_of (er_handlers r) subject of None \<Rightarrow> [] | Some hs \<Rightarrow> hs)
      in r\<lparr>er_handlers := AList.update subject
             (if (service, handler) \<in> set handlers then handlers else handlers @ [(service, handler)])
             (er_handlers r)\<rparr>)"

definition note_raw_handler :: "string \<Rightarrow> string \<Rightarrow> event_registry \<Rightarrow> event_registry" where
  "note_raw_handler service handler r =
     (if (service, handler) \<in> set (er_raw_handlers r) then r
      else r\<lparr>er_raw_handlers := er_raw_handlers r @ [(service, handler)]\<rparr>)"

text \<open>The registry after the modules of the catalogue are imported, in whatever order.\<close>

definition define_all :: "(string \<times> bclass) list \<Rightarrow> event_registry" where
  "define_all ds = fold (\<lambda>(subject, c). registry_define subject c) ds empty_registry"

lemma define_fold:
  "map_of (er_defs (fold (\<lambda>(subject, c). registry_define subject c) ds r)) s =
     (case map_of (rev ds) s of None \<Rightarrow> map_of (er_defs r) s | Some c \<Rightarrow> Some c)"
  by (induction ds arbitrary: r) (auto simp: registry_define_def update_conv' map_add_def split: option.splits)

lemma define_all_lookup: "map_of (er_defs (define_all ds)) s = map_of (rev ds) s"
  by (simp add: define_all_def define_fold empty_registry_def split: option.split)

lemma catalogue_subjects: "map fst event_catalogue = event_subjects"
  by (simp only: event_catalogue_def event_subjects_def list.map fst_conv)

lemma subjects_distinct: "distinct event_subjects"
  by code_simp

lemma catalogue_classes: "list_all (\<lambda>(subject, c). hint_ok (TBody c)) event_catalogue"
  by code_simp

text \<open>
  In whatever order the modules declare their events, the registry ends up
  with exactly one body class for every subject of the system and no declaration has
  replaced another; and every one of these classes is one the decoding properties apply to:
  distinct wire keys, unions that are a type or nothing, and defaults of the declared type.
\<close>

theorem every_subject_has_its_class:
  assumes "distinct ds" and "set ds = set event_catalogue"
  shows "(map_of (er_defs (define_all ds)) subject \<noteq> None) = (subject \<in> set event_subjects) \<and>
    (case map_of (er_defs (define_all ds)) subject of
       None \<Rightarrow> True
     | Some c \<Rightarrow> (subject, c) \<in> set event_catalogue \<and> hint_ok (TBody c))"
proof -
  have keys: "fst ` set ds = set event_subjects" using assms(2) by (simp flip: catalogue_subjects)
  have "(map_of (rev ds) subject = None) = (subject \<notin> set event_subjects)"
    using keys by (simp add: map_of_eq_None_iff)
  moreover have "(subject, c) \<in> set event_catalogue" if "map_of (rev ds) subject = Some c" for c
    using map_of_SomeD [OF that] assms(2) by simp
  ultimately show ?thesis
    using catalogue_classes by (auto simp: define_all_lookup list_all_iff split: option.splits)
qed

theorem every_subject_has_its_class_witness:
  "map_of (er_defs (define_all (rev event_catalogue))) ''git.unknown'' = None \<and>
   map_of (er_defs (define_all (rev event_catalogue))) ''command.requested'' \<noteq> None"
proof -
  have d: "distinct (rev event_catalogue)"
    using subjects_distinct by (simp add: distinct_map flip: catalogue_subjects)
  have "''git.unknown'' \<notin> set event_subjects" "''command.requested'' \<in> set event_subjects" by code_simp+
  with every_subject_has_its_class [OF d, of "''git.unknown''"]
    every_subject_has_its_class [OF d, of "''command.requested''"] show ?thesis by auto
qed

section \<open>Witnesses of the decoding properties\<close>

definition demo_plan_request :: jobj where
  "demo_plan_request =
     [(''cluster_id'', JStr ''k''), (''action'', JStr ''scale''), (''namespace'', JStr ''sandbox''),
      (''reason'', JStr ''r''), (''added_later'', JInt 7), (''priority'', JInt 100),
      (''diff'', JObj [(''resource'', JStr ''d''), (''namespace'', JStr ''sandbox''),
         (''desired_image'', JStr ''i''), (''actual_image'', JStr ''j''), (''risk'', JStr ''sandbox-only''),
         (''changes'', JArr [JObj []]), (''also_later'', JNull)]),
      (''actor'', JNull), (''requested_by'', JStr ''u'')]"

definition demo_requested :: pyval where
  "demo_requested =
     (case from_body False command_requested_body (JObj demo_plan_request) of Inl _ \<Rightarrow> PNull | Inr v \<Rightarrow> v)"

lemma demo_requested: "from_body False command_requested_body (JObj demo_plan_request) = Inr demo_requested"
proof -
  have "\<not> isl (from_body False command_requested_body (JObj demo_plan_request))" by code_simp
  then show ?thesis by (auto simp: demo_requested_def isl_def split: sum.splits)
qed

lemma command_requested_hint: "hint_ok (TBody command_requested_body)"
  by code_simp

interpretation requested: payload_codec to_body_value "from_body False command_requested_body"
    "has_type (TBody command_requested_body)"
  by unfold_locales (rule decode_object [OF _ command_requested_hint])


theorem body_round_trip_witness:
  "\<exists>vs. demo_requested = PBody command_requested_body vs \<and>
     from_body True command_requested_body (JObj (to_body command_requested_body vs)) = Inr demo_requested"
proof -
  have t: "has_type (TBody command_requested_body) demo_requested" by code_simp
  then obtain vs where vs: "demo_requested = PBody command_requested_body vs" by (rule has_type_bodyE)
  from body_round_trip [OF t [unfolded vs] command_requested_hint, of True] vs show ?thesis by (intro exI [of _ vs]) simp
qed

theorem lenient_is_strict_on_known_fields_witness:
  "from_body True command_requested_body (JObj demo_plan_request) =
     Inl (UnexpectedFields ''CommandRequestedBody'' [''added_later'']) \<and>
   from_body True command_requested_body (prune (TBody command_requested_body) (JObj demo_plan_request)) =
     Inr demo_requested"
proof -
  have "isl (from_body True command_requested_body (JObj demo_plan_request)) \<and>
      projl (from_body True command_requested_body (JObj demo_plan_request)) =
      UnexpectedFields ''CommandRequestedBody'' [''added_later'']" by code_simp
  then have "from_body True command_requested_body (JObj demo_plan_request) =
      Inl (UnexpectedFields ''CommandRequestedBody'' [''added_later''])"
    by (metis sum.collapse(1))
  with lenient_is_strict_on_known_fields [OF command_requested_hint, of "JObj demo_plan_request"] demo_requested
  show ?thesis by simp
qed

end
