(* ===== verification/Git_Webhook.thy ===== *)
theory Git_Webhook
  imports Event_Catalog "HOL-Library.Sublist"
begin

text \<open>
  The GitHub webhook entry of \<^verbatim>\<open>src/src/domains/gitops/router.py\<close>: from the payload GitHub sends
  to the \<^verbatim>\<open>git.webhook.received\<close> bodies the gateway publishes. \<open>render\<close> is Python's text of floats
  and containers; \<open>validate\<close> is the pydantic model \<^verbatim>\<open>GitHubWebhookRequest\<close> (\<open>None\<close>: a validation
  error); poll targets are the rows the repository returns.
\<close>

text \<open>\<^verbatim>\<open>str(d.get(k) or default)\<close>.\<close>

definition text_or :: "(json \<Rightarrow> string) \<Rightarrow> jobj \<Rightarrow> string \<Rightarrow> string \<Rightarrow> string" where
  "text_or render d k dflt =
     (case jget d k of
        None \<Rightarrow> dflt
      | Some v \<Rightarrow> if py_truthy v then py_str render v else dflt)"

section \<open>What changed\<close>

definition github_repo_ref :: "(json \<Rightarrow> string) \<Rightarrow> jobj \<Rightarrow> string" where
  "github_repo_ref render payload =
     (case jget payload ''repository'' of
        Some (JObj repository) \<Rightarrow> py_strip (text_or render repository ''full_name'' [])
      | _ \<Rightarrow> [])"

definition heads :: string where
  "heads = ''refs/heads/''"

definition github_branch_from_ref :: "string \<Rightarrow> string" where
  "github_branch_from_ref ref = (if prefix heads ref then drop (length heads) ref else ref)"

definition github_push_commit :: "(json \<Rightarrow> string) \<Rightarrow> jobj \<Rightarrow> (string \<times> string) option" where
  "github_push_commit render payload =
     (let ref = text_or render payload ''ref'' [];
          commit_sha = text_or render payload ''after'' []
      in if \<not> prefix heads ref \<or> commit_sha = [] \<or> set commit_sha = {CHR ''0''} then None
         else Some (github_branch_from_ref ref, commit_sha))"

definition github_merged_pr_commit :: "(json \<Rightarrow> string) \<Rightarrow> jobj \<Rightarrow> (string \<times> string) option" where
  "github_merged_pr_commit render payload =
     (if text_or render payload ''action'' [] \<noteq> ''closed'' then None
      else case jget payload ''pull_request'' of
             Some (JObj pull_request) \<Rightarrow>
               (if jget pull_request ''merged'' \<noteq> Some (JBool True) then None
                else let branch = (case jget pull_request ''base'' of
                                     Some (JObj base) \<Rightarrow> text_or render base ''ref'' []
                                   | _ \<Rightarrow> []);
                         commit_sha = text_or render pull_request ''merge_commit_sha'' []
                     in if branch = [] \<or> commit_sha = [] then None else Some (branch, commit_sha))
           | _ \<Rightarrow> None)"

definition github_raw_change ::
    "(json \<Rightarrow> string) \<Rightarrow> jobj \<Rightarrow> string \<Rightarrow> (string \<times> string \<times> string) option" where
  "github_raw_change render payload event_name =
     (let repo_ref = github_repo_ref render payload
      in if repo_ref = [] then None
         else case (if event_name = ''pull_request'' then github_merged_pr_commit render payload
                    else github_push_commit render payload) of
                None \<Rightarrow> None
              | Some (branch, commit_sha) \<Rightarrow> Some (repo_ref, branch, commit_sha))"

section \<open>Which targets\<close>

definition active_github_poll_targets :: "(json \<Rightarrow> string) \<Rightarrow> jobj list \<Rightarrow> jobj list" where
  "active_github_poll_targets render rows =
     filter (\<lambda>t. py_strip (text_or render t ''workspace_id'' []) \<noteq> [] \<and>
                 py_strip (text_or render t ''repo_ref'' []) \<noteq> [] \<and>
                 py_strip (text_or render t ''branch'' []) \<noteq> []) rows"

record webhook_request =
  wr_correlation_id :: "string option"
  wr_commit_sha :: string
  wr_image :: string
  wr_replicas :: int
  wr_workspace_id :: string
  wr_repository_id :: string
  wr_repo_ref :: string
  wr_branch :: string
  wr_watch_target_id :: string
  wr_binding_id :: string
  wr_application_id :: string
  wr_workflow_run_id :: string
  wr_environment :: string
  wr_cluster_id :: string
  wr_manifest_path :: string
  wr_source_type :: string
  wr_force :: bool

definition poll_target_matches :: "(json \<Rightarrow> string) \<Rightarrow> jobj \<Rightarrow> webhook_request \<Rightarrow> bool" where
  "poll_target_matches render target r =
     (text_or render target ''workspace_id'' [] = wr_workspace_id r \<and>
      text_or render target ''repository_id'' [] = wr_repository_id r \<and>
      ascii_lower (text_or render target ''repo_ref'' []) = ascii_lower (wr_repo_ref r) \<and>
      text_or render target ''branch'' [] = wr_branch r \<and>
      text_or render target ''watch_target_id'' [] = wr_watch_target_id r \<and>
      text_or render target ''binding_id'' [] = wr_binding_id r \<and>
      text_or render target ''application_id'' [] = wr_application_id r \<and>
      text_or render target ''environment'' [] = wr_environment r \<and>
      text_or render target ''cluster_id'' [] = wr_cluster_id r \<and>
      text_or render target ''manifest_path'' [] = wr_manifest_path r \<and>
      text_or render target ''source_type'' [] = wr_source_type r)"

section \<open>The bodies\<close>

definition optional_text :: "string option \<Rightarrow> pyval" where
  "optional_text v = (case v of None \<Rightarrow> PNull | Some t \<Rightarrow> PStr t)"

text \<open>The attributes of the body built for a target, in the order of its class.\<close>

definition body_for_poll_target ::
    "(json \<Rightarrow> string) \<Rightarrow> jobj \<Rightarrow> string \<Rightarrow> string \<Rightarrow> string option \<Rightarrow> int \<Rightarrow> bool \<Rightarrow> pyval list" where
  "body_for_poll_target render target commit_sha img correlation_id replicas force =
     [PStr commit_sha, PStr img, PInt replicas, optional_text correlation_id,
      PStr (text_or render target ''workspace_id'' ''default''),
      PStr (text_or render target ''repository_id'' []),
      PStr (text_or render target ''repo_ref'' []),
      PStr (text_or render target ''branch'' ''main''),
      PStr (text_or render target ''watch_target_id'' []),
      PStr (text_or render target ''binding_id'' []),
      PStr (text_or render target ''application_id'' []),
      PStr [],
      PStr (text_or render target ''environment'' ''sandbox''),
      PStr (text_or render target ''cluster_id'' ''default-target-cluster''),
      PStr (text_or render target ''manifest_path'' ''deploy.yaml''),
      PStr (text_or render target ''source_type'' []),
      PBool force]"

definition DEFAULT_WEBHOOK_REPLICAS :: int where
  "DEFAULT_WEBHOOK_REPLICAS = 2"

datatype webhook_error = ServiceUnavailable string

text \<open>
  A payload in the product's own format is matched field by field and keeps its correlation
  id; anything else is read as a GitHub event and needs the configured image (the empty
  string when the setting is missing).
\<close>

definition build_git_webhook_bodies ::
    "(json \<Rightarrow> string) \<Rightarrow> (jobj \<Rightarrow> webhook_request option) \<Rightarrow> string \<Rightarrow> jobj list \<Rightarrow> jobj \<Rightarrow> string \<Rightarrow>
     webhook_error + pyval list list" where
  "build_git_webhook_bodies render validate img rows payload event_name =
     (let targets = active_github_poll_targets render rows
      in case validate payload of
           Some r \<Rightarrow>
             Inr (map (\<lambda>t. body_for_poll_target render t (wr_commit_sha r) (wr_image r)
                             (wr_correlation_id r) (wr_replicas r) (wr_force r))
                   (filter (\<lambda>t. poll_target_matches render t r) targets))
         | None \<Rightarrow>
             (case github_raw_change render payload event_name of
                None \<Rightarrow> Inr []
              | Some (repo_ref, branch, commit_sha) \<Rightarrow>
                  if img = [] then Inl (ServiceUnavailable ''gitops webhook image not configured'')
                  else Inr (map (\<lambda>t. body_for_poll_target render t commit_sha img None
                                       DEFAULT_WEBHOOK_REPLICAS False)
                             (filter (\<lambda>t. ascii_lower (text_or render t ''repo_ref'' []) = ascii_lower repo_ref \<and>
                                          text_or render t ''branch'' [] = branch) targets))))"

section \<open>What the subscribers can read\<close>

text \<open>The published payload of a body, as a subscriber decodes it.\<close>

definition received :: "pyval list \<Rightarrow> body_error + pyval" where
  "received vs = from_body False git_webhook_received_body (JObj (to_body git_webhook_received_body vs))"

lemma git_webhook_hint: "hint_ok (TBody git_webhook_received_body)"
  by code_simp

interpretation webhook: payload_codec to_body_value "from_body False git_webhook_received_body"
    "has_type (TBody git_webhook_received_body)"
  by unfold_locales (rule decode_object [OF _ git_webhook_hint])

lemma received_object: "received vs = from_body False git_webhook_received_body
    (to_body_value (PBody git_webhook_received_body vs))"
  by (simp add: received_def to_body_def)

lemma received_with_correlation:
  "received (body_for_poll_target render t commit_sha img (Some c) n force) =
   Inr (PBody git_webhook_received_body (body_for_poll_target render t commit_sha img (Some c) n force))"
  unfolding received_object
  by (rule webhook.dec_enc)
     (simp add: git_webhook_received_body_def body_for_poll_target_def optional_text_def)

lemma received_without_correlation:
  "received (body_for_poll_target render t commit_sha img None n force) =
   Inl (MustBeStr ''GitWebhookReceivedBody'' ''correlation_id'')"
  by (simp add: received_def from_body_def to_body_def git_webhook_received_body_def wire_key_def
      body_for_poll_target_def optional_text_def jget_def)

text \<open>
  Claim C20. The class of \<^verbatim>\<open>git.webhook.received\<close> declares \<^verbatim>\<open>correlation_id\<close> twice, and the
  second declaration (a plain string) replaces the first (a string or nothing). So a body
  built without a correlation id is refused by every subscriber with a type error, and every
  body built from a push or a merged pull request that GitHub sends is built that way; only
  requests in the product's own format that name a correlation id are read, and those come
  back exactly as they were built.
\<close>

theorem github_push_events_are_unreadable:
  "(case build_git_webhook_bodies render (\<lambda>_. None) img rows payload event_name of
      Inl e \<Rightarrow> img = []
    | Inr bodies \<Rightarrow> list_all (\<lambda>b. received b =
        Inl (MustBeStr ''GitWebhookReceivedBody'' ''correlation_id'')) bodies) \<and>
   (case build_git_webhook_bodies render (\<lambda>_. Some r) img rows payload event_name of
      Inl e \<Rightarrow> False
    | Inr bodies \<Rightarrow> list_all (\<lambda>b. received b =
        (case wr_correlation_id r of
           None \<Rightarrow> Inl (MustBeStr ''GitWebhookReceivedBody'' ''correlation_id'')
         | Some c \<Rightarrow> Inr (PBody git_webhook_received_body b))) bodies)"
  by (auto simp: build_git_webhook_bodies_def list_all_iff received_without_correlation
      received_with_correlation split: option.splits)

end
