(* ===== verification/Timeline_Coverage.thy ===== *)
theory Timeline_Coverage
  imports Kyro_Prelude "HOL-Library.Multiset" "HOL-Library.List_Lexorder" "HOL-Library.Char_ord"
    "HOL-Library.Product_Lexorder" "HOL-Library.AList"
begin

text \<open>
  Gaps in the capture of Kubernetes Events: \<^verbatim>\<open>src/src/domains/timeline/coverage.py\<close> with the
  capture proof it reads (\<^verbatim>\<open>src/src/domains/inventory/kubernetes_events.py\<close>). The projection
  exists twice in the code, once for a list of snapshots and once for an ordered database
  cursor; both are modelled and shown to agree. Times are microseconds since the epoch.
\<close>

section \<open>Data\<close>

text \<open>
  \<^verbatim>\<open>ClusterScope\<close>, \<^verbatim>\<open>TimelineCoverage\<close> and \<^verbatim>\<open>TimelineWindow\<close>. A read scope carries the scopes of
  the reader and the clusters whose Events they may see.
\<close>

record cluster_scope =
  sc_workspace_id :: string
  sc_cluster_id :: string
  sc_namespaces :: "string list"
  sc_freshness :: string

record timeline_coverage =
  tc_scope :: cluster_scope
  tc_source :: string
  tc_from_ms :: int
  tc_to_ms :: int
  tc_reason :: string

record timeline_window =
  tw_from_ms :: int
  tw_to_ms :: int

record read_scope =
  rs_scopes :: "cluster_scope list"
  rs_event_cluster_ids :: "string list"

text \<open>
  What the code takes from Python: the text of floats and containers (\<open>str\<close>), the parser of
  ISO timestamps with the instant it reads (naive times as UTC), and \<open>int(t.timestamp() * 1000)\<close>,
  which goes through floating point.
\<close>

record clock_text =
  ct_str :: "json \<Rightarrow> string"
  ct_fromisoformat :: "string \<Rightarrow> time option"
  ct_milliseconds :: "time \<Rightarrow> int"

text \<open>The errors of a projection; a refused \<^verbatim>\<open>TimelineCoverage\<close> is a validation error.\<close>

datatype coverage_error = LimitExceeded | Unordered | InvalidCoverage

definition new_timeline_coverage :: "cluster_scope \<Rightarrow> int \<Rightarrow> int \<Rightarrow> coverage_error + timeline_coverage" where
  "new_timeline_coverage scope f t =
     (if f < 0 \<or> t \<le> 0 \<or> t \<le> f then Inl InvalidCoverage
      else Inr \<lparr>tc_scope = scope, tc_source = ''kubernetes_event'', tc_from_ms = f, tc_to_ms = t,
                 tc_reason = ''collection_gap''\<rparr>)"

section \<open>The capture proof of a snapshot\<close>

definition normalized_text :: "clock_text \<Rightarrow> json option \<Rightarrow> string" where
  "normalized_text ct v = (case v of None \<Rightarrow> [] | Some JNull \<Rightarrow> [] | Some w \<Rightarrow> py_strip (py_str (ct_str ct) w))"

definition positive_int :: "json option \<Rightarrow> int option" where
  "positive_int v =
     (case v of
        Some (JInt n) \<Rightarrow> if 1 \<le> n then Some n else None
      | Some (JStr s) \<Rightarrow> (case parse_int s of None \<Rightarrow> None | Some n \<Rightarrow> if 1 \<le> n then Some n else None)
      | _ \<Rightarrow> None)"

definition exact_nonnegative_int :: "json option \<Rightarrow> int option" where
  "exact_nonnegative_int v =
     (case v of Some (JInt n) \<Rightarrow> if 0 \<le> n then Some n else None | _ \<Rightarrow> None)"

definition parse_timestamp :: "clock_text \<Rightarrow> json option \<Rightarrow> time option" where
  "parse_timestamp ct v =
     (case v of
        Some (JStr s) \<Rightarrow>
          if py_strip s = [] then None else ct_fromisoformat ct (py_replace ''Z'' ''+00:00'' s)
      | _ \<Rightarrow> None)"

record event_capture =
  cap_complete :: bool
  cap_truncated :: bool
  cap_reason :: string
  cap_observed_at :: "time option"
  cap_max_age_seconds :: "int option"
  cap_coverage :: jobj

definition no_capture :: event_capture where
  "no_capture = \<lparr>cap_complete = False, cap_truncated = False, cap_reason = [], cap_observed_at = None,
     cap_max_age_seconds = None, cap_coverage = []\<rparr>"

definition object_or_empty :: "json option \<Rightarrow> jobj" where
  "object_or_empty v = (case v of Some (JObj d) \<Rightarrow> d | _ \<Rightarrow> [])"

definition capture_from_snapshot_summary :: "clock_text \<Rightarrow> jobj \<Rightarrow> event_capture" where
  "capture_from_snapshot_summary ct summary =
     (case jget summary ''kubernetes_event_capture'' of
        Some (JObj capture) \<Rightarrow>
          (case (jget capture ''complete'', jget capture ''truncated'') of
             (Some (JBool whole), Some (JBool shortened)) \<Rightarrow>
               (let freshness = object_or_empty (jget capture ''freshness'') in
                \<lparr>cap_complete = whole, cap_truncated = shortened,
                 cap_reason = normalized_text ct (jget capture ''reason''),
                 cap_observed_at = parse_timestamp ct (jget freshness ''observed_at''),
                 cap_max_age_seconds = positive_int (jget freshness ''max_age_seconds''),
                 cap_coverage = object_or_empty (jget capture ''coverage'')\<rparr>)
           | _ \<Rightarrow> no_capture)
      | _ \<Rightarrow> no_capture)"

definition authoritative :: "event_capture \<Rightarrow> bool" where
  "authoritative c \<longleftrightarrow>
     cap_complete c \<and> \<not> cap_truncated c \<and> cap_reason c = ''complete'' \<and> cap_observed_at c \<noteq> None \<and>
     (case cap_max_age_seconds c of None \<Rightarrow> False | Some n \<Rightarrow> 0 < n) \<and>
     jget (cap_coverage c) ''scope'' = Some (JStr ''all_namespaces'') \<and>
     jget (cap_coverage c) ''pagination'' = Some (JStr ''continue'') \<and>
     (case jget (cap_coverage c) ''gap'' of None \<Rightarrow> True | Some g \<Rightarrow> \<not> py_truthy g)"

definition is_explicit_gap :: "clock_text \<Rightarrow> event_capture \<Rightarrow> bool" where
  "is_explicit_gap ct c \<longleftrightarrow>
     (let gap = normalized_text ct (jget (cap_coverage c) ''gap'') in
      \<not> cap_complete c \<and> gap \<noteq> [] \<and> cap_reason c = gap \<and>
      jget (cap_coverage c) ''scope'' = Some (JStr ''all_namespaces'') \<and>
      jget (cap_coverage c) ''pagination'' = Some (JStr ''continue''))"

definition is_proven_recovery :: "clock_text \<Rightarrow> event_capture \<Rightarrow> bool" where
  "is_proven_recovery ct c \<longleftrightarrow>
     authoritative c \<and> positive_int (jget (cap_coverage c) ''page_count'') \<noteq> None \<and>
     exact_nonnegative_int (jget (cap_coverage c) ''event_count'') \<noteq> None \<and>
     normalized_text ct (jget (cap_coverage c) ''resource_version'') \<noteq> []"

section \<open>Observations of the clusters a reader may see\<close>

datatype capture_state = Gap | Recovery

record capture_observation =
  ob_cluster_id :: string
  ob_observed_at :: time
  ob_state :: capture_state

definition scope_key :: "cluster_scope \<Rightarrow> string \<times> string \<times> string list" where
  "scope_key s = (sc_workspace_id s, sc_cluster_id s, sc_namespaces s)"

text \<open>\<^verbatim>\<open>_authorized_scopes_by_cluster\<close>: the dictionary as the function of its lookups.\<close>

definition authorized_scopes :: "read_scope \<Rightarrow> string \<Rightarrow> cluster_scope list option" where
  "authorized_scopes rs c =
     (let own = filter (\<lambda>s. sc_cluster_id s = c \<and> c \<in> set (rs_event_cluster_ids rs)) (rs_scopes rs) in
      if own = [] then None else Some (sort_key scope_key own))"

definition snapshot_observation ::
    "clock_text \<Rightarrow> read_scope \<Rightarrow> timeline_window \<Rightarrow> jobj \<Rightarrow> capture_observation option" where
  "snapshot_observation ct rs w snapshot =
     (let cluster = normalized_text ct (jget snapshot ''cluster_id'') in
      if normalized_text ct (jget snapshot ''status'') = ''ignored_stale'' then None
      else if authorized_scopes rs cluster = None then None
      else case jget snapshot ''summary'' of
        Some (JObj summary) \<Rightarrow>
          (case jget summary ''summary'' of
             Some (JObj source_summary) \<Rightarrow>
               (let capture = capture_from_snapshot_summary ct source_summary in
                case cap_observed_at capture of
                  None \<Rightarrow> None
                | Some seen \<Rightarrow>
                    if ct_milliseconds ct seen \<ge> tw_to_ms w then None
                    else if is_explicit_gap ct capture
                    then Some \<lparr>ob_cluster_id = cluster, ob_observed_at = seen, ob_state = Gap\<rparr>
                    else if is_proven_recovery ct capture
                    then Some \<lparr>ob_cluster_id = cluster, ob_observed_at = seen, ob_state = Recovery\<rparr>
                    else None)
           | _ \<Rightarrow> None)
      | _ \<Rightarrow> None)"

definition intersects_window :: "int \<Rightarrow> int \<Rightarrow> timeline_window \<Rightarrow> bool" where
  "intersects_window f t w \<longleftrightarrow> f < tw_to_ms w \<and> tw_from_ms w < t"

section \<open>The two projections\<close>

text \<open>\<^verbatim>\<open>_append_coverage_intervals\<close>: one interval per scope, refused past the limit.\<close>

fun append_coverage_intervals ::
    "int option \<Rightarrow> int \<Rightarrow> int \<Rightarrow> cluster_scope list \<Rightarrow> timeline_coverage list
      \<Rightarrow> coverage_error + timeline_coverage list" where
  "append_coverage_intervals limit f t [] projected = Inr projected"
| "append_coverage_intervals limit f t (s # ss) projected =
     (if (case limit of None \<Rightarrow> False | Some m \<Rightarrow> int (length projected) \<ge> m) then Inl LimitExceeded
      else case new_timeline_coverage s f t of
        Inl e \<Rightarrow> Inl e
      | Inr c \<Rightarrow> append_coverage_intervals limit f t ss (projected @ [c]))"

definition scopes_of :: "read_scope \<Rightarrow> string \<Rightarrow> cluster_scope list" where
  "scopes_of rs c = (case authorized_scopes rs c of None \<Rightarrow> [] | Some ss \<Rightarrow> ss)"

text \<open>The part the two loops share: a gap seen at \<open>a\<close> is closed by a recovery seen at \<open>b\<close>.\<close>

definition close_gap ::
    "clock_text \<Rightarrow> read_scope \<Rightarrow> timeline_window \<Rightarrow> int option \<Rightarrow> string \<Rightarrow> time \<Rightarrow> time
      \<Rightarrow> timeline_coverage list \<Rightarrow> coverage_error + timeline_coverage list" where
  "close_gap ct rs w limit c a b projected =
     (let f = ct_milliseconds ct a; t = ct_milliseconds ct b in
      if intersects_window f t w then append_coverage_intervals limit f t (scopes_of rs c) projected
      else Inr projected)"

text \<open>The loop over the sorted observations of one cluster.\<close>

fun project_cluster ::
    "clock_text \<Rightarrow> read_scope \<Rightarrow> timeline_window \<Rightarrow> int option \<Rightarrow> string \<Rightarrow> time option
      \<Rightarrow> capture_observation list \<Rightarrow> timeline_coverage list
      \<Rightarrow> coverage_error + timeline_coverage list" where
  "project_cluster ct rs w limit c opened [] projected = Inr projected"
| "project_cluster ct rs w limit c opened (ob # obs) projected =
     (if ob_state ob = Gap
      then project_cluster ct rs w limit c
             (Some (case opened of None \<Rightarrow> ob_observed_at ob | Some a \<Rightarrow> a)) obs projected
      else case opened of
        None \<Rightarrow> project_cluster ct rs w limit c None obs projected
      | Some a \<Rightarrow>
          if ob_observed_at ob \<le> a then project_cluster ct rs w limit c opened obs projected
          else case close_gap ct rs w limit c a (ob_observed_at ob) projected of
            Inl e \<Rightarrow> Inl e
          | Inr projected' \<Rightarrow> project_cluster ct rs w limit c None obs projected')"

text \<open>\<^verbatim>\<open>observations_by_cluster\<close>: a dictionary of lists in the order of first sight.\<close>

fun group_observation ::
    "capture_observation \<Rightarrow> (string \<times> capture_observation list) list
      \<Rightarrow> (string \<times> capture_observation list) list" where
  "group_observation ob [] = [(ob_cluster_id ob, [ob])]"
| "group_observation ob ((c, obs) # rest) =
     (if c = ob_cluster_id ob then (c, obs @ [ob]) # rest else (c, obs) # group_observation ob rest)"

definition observations_by_cluster ::
    "capture_observation list \<Rightarrow> (string \<times> capture_observation list) list" where
  "observations_by_cluster obs = fold group_observation obs []"

fun project_clusters ::
    "clock_text \<Rightarrow> read_scope \<Rightarrow> timeline_window \<Rightarrow> int option
      \<Rightarrow> (string \<times> capture_observation list) list \<Rightarrow> timeline_coverage list
      \<Rightarrow> coverage_error + timeline_coverage list" where
  "project_clusters ct rs w limit [] projected = Inr projected"
| "project_clusters ct rs w limit ((c, obs) # groups) projected =
     (case project_cluster ct rs w limit c None (sort_key ob_observed_at obs) projected of
        Inl e \<Rightarrow> Inl e
      | Inr projected' \<Rightarrow> project_clusters ct rs w limit groups projected')"

text \<open>The loop over an ordered cursor: one open gap and one last instant per cluster.\<close>

fun project_ordered ::
    "clock_text \<Rightarrow> read_scope \<Rightarrow> timeline_window \<Rightarrow> int option \<Rightarrow> (string \<rightharpoonup> time) \<Rightarrow> (string \<rightharpoonup> time)
      \<Rightarrow> capture_observation list \<Rightarrow> timeline_coverage list
      \<Rightarrow> coverage_error + timeline_coverage list" where
  "project_ordered ct rs w limit opened latest [] projected = Inr projected"
| "project_ordered ct rs w limit opened latest (ob # obs) projected =
     (let c = ob_cluster_id ob; seen = ob_observed_at ob; latest' = latest(c \<mapsto> seen) in
      if (case latest c of None \<Rightarrow> False | Some p \<Rightarrow> seen < p) then Inl Unordered
      else if ob_state ob = Gap
      then project_ordered ct rs w limit
             (case opened c of None \<Rightarrow> opened(c \<mapsto> seen) | Some _ \<Rightarrow> opened) latest' obs projected
      else case opened c of
        None \<Rightarrow> project_ordered ct rs w limit opened latest' obs projected
      | Some a \<Rightarrow>
          if seen \<le> a then project_ordered ct rs w limit opened latest' obs projected
          else case close_gap ct rs w limit c a seen projected of
            Inl e \<Rightarrow> Inl e
          | Inr projected' \<Rightarrow> project_ordered ct rs w limit (opened(c := None)) latest' obs projected')"

definition coverage_sort_key ::
    "timeline_coverage \<Rightarrow> int \<times> int \<times> (string \<times> string \<times> string list) \<times> string \<times> string" where
  "coverage_sort_key i = (tc_from_ms i, tc_to_ms i, scope_key (tc_scope i), tc_source i, tc_reason i)"

definition project_coverage ::
    "clock_text \<Rightarrow> read_scope \<Rightarrow> timeline_window \<Rightarrow> int option \<Rightarrow> bool \<Rightarrow> jobj list
      \<Rightarrow> coverage_error + timeline_coverage list" where
  "project_coverage ct rs w limit snapshots_ordered snapshots =
     (let obs = List.map_filter (snapshot_observation ct rs w) snapshots in
      map_sum id (sort_key coverage_sort_key)
        (if snapshots_ordered then project_ordered ct rs w limit Map.empty Map.empty obs []
         else project_clusters ct rs w limit (observations_by_cluster obs) []))"

section \<open>The intervals behind a projection\<close>

text \<open>
  Both loops find a list of closed gaps and append their intervals. \<open>gaps_closed\<close> and
  \<open>gaps_closed_ordered\<close> are the lists, \<open>gap_intervals\<close> what one closed gap contributes.
\<close>

fun gaps_closed :: "time option \<Rightarrow> capture_observation list \<Rightarrow> (time \<times> time) list" where
  "gaps_closed opened [] = []"
| "gaps_closed opened (ob # obs) =
     (if ob_state ob = Gap
      then gaps_closed (Some (case opened of None \<Rightarrow> ob_observed_at ob | Some a \<Rightarrow> a)) obs
      else case opened of
        None \<Rightarrow> gaps_closed None obs
      | Some a \<Rightarrow> if ob_observed_at ob \<le> a then gaps_closed opened obs
                  else (a, ob_observed_at ob) # gaps_closed None obs)"

fun gaps_closed_ordered ::
    "(string \<rightharpoonup> time) \<Rightarrow> capture_observation list \<Rightarrow> (string \<times> time \<times> time) list" where
  "gaps_closed_ordered opened [] = []"
| "gaps_closed_ordered opened (ob # obs) =
     (let c = ob_cluster_id ob; seen = ob_observed_at ob in
      if ob_state ob = Gap
      then gaps_closed_ordered (case opened c of None \<Rightarrow> opened(c \<mapsto> seen) | Some _ \<Rightarrow> opened) obs
      else case opened c of
        None \<Rightarrow> gaps_closed_ordered opened obs
      | Some a \<Rightarrow> if seen \<le> a then gaps_closed_ordered opened obs
                  else (c, a, seen) # gaps_closed_ordered (opened(c := None)) obs)"

definition interval :: "cluster_scope \<Rightarrow> int \<Rightarrow> int \<Rightarrow> timeline_coverage" where
  "interval s f t = \<lparr>tc_scope = s, tc_source = ''kubernetes_event'', tc_from_ms = f, tc_to_ms = t,
     tc_reason = ''collection_gap''\<rparr>"

definition gap_intervals ::
    "clock_text \<Rightarrow> read_scope \<Rightarrow> timeline_window \<Rightarrow> string \<times> time \<times> time \<Rightarrow> timeline_coverage list" where
  "gap_intervals ct rs w g =
     (case g of (c, a, b) \<Rightarrow>
        let f = ct_milliseconds ct a; t = ct_milliseconds ct b in
        if intersects_window f t w then map (\<lambda>s. interval s f t) (scopes_of rs c) else [])"

definition valid_coverage :: "timeline_coverage \<Rightarrow> bool" where
  "valid_coverage i \<longleftrightarrow> 0 \<le> tc_from_ms i \<and> 0 < tc_to_ms i \<and> tc_from_ms i < tc_to_ms i"

definition fits :: "int option \<Rightarrow> nat \<Rightarrow> timeline_coverage list \<Rightarrow> bool" where
  "fits limit n cs \<longleftrightarrow>
     list_all valid_coverage cs \<and> (cs = [] \<or> (case limit of None \<Rightarrow> True | Some m \<Rightarrow> int (n + length cs) \<le> m))"

text \<open>Appending a list of closed gaps.\<close>

fun append_gaps ::
    "clock_text \<Rightarrow> read_scope \<Rightarrow> timeline_window \<Rightarrow> int option \<Rightarrow> (string \<times> time \<times> time) list
      \<Rightarrow> timeline_coverage list \<Rightarrow> coverage_error + timeline_coverage list" where
  "append_gaps ct rs w limit [] projected = Inr projected"
| "append_gaps ct rs w limit ((c, a, b) # gs) projected =
     (case close_gap ct rs w limit c a b projected of
        Inl e \<Rightarrow> Inl e
      | Inr projected' \<Rightarrow> append_gaps ct rs w limit gs projected')"

lemma fits_Nil [simp]: "fits limit n []"
  by (simp add: fits_def)

lemma fits_append:
  "fits limit n (xs @ ys) \<longleftrightarrow> fits limit n xs \<and> fits limit (n + length xs) ys"
  by (auto simp: fits_def add.assoc split: option.splits)

lemma timeline_coverage_eq:
  "new_timeline_coverage s f t = (if valid_coverage (interval s f t) then Inr (interval s f t) else Inl InvalidCoverage)"
  by (auto simp: new_timeline_coverage_def valid_coverage_def interval_def)

lemma append_coverage_intervals_eq:
  "append_coverage_intervals limit f t ss projected = Inr out \<longleftrightarrow>
     fits limit (length projected) (map (\<lambda>s. interval s f t) ss) \<and>
     out = projected @ map (\<lambda>s. interval s f t) ss"
proof (induction ss arbitrary: projected)
  case (Cons s ss)
  have "fits limit (length projected) [interval s f t] \<longleftrightarrow>
      valid_coverage (interval s f t) \<and>
      \<not> (case limit of None \<Rightarrow> False | Some m \<Rightarrow> int (length projected) \<ge> m)"
    by (auto simp: fits_def split: option.splits)
  with Cons fits_append [of limit "length projected" "[interval s f t]"] show ?case
    by (auto simp: timeline_coverage_eq)
qed auto

lemma close_gap_eq:
  "close_gap ct rs w limit c a b projected = Inr out \<longleftrightarrow>
     fits limit (length projected) (gap_intervals ct rs w (c, a, b)) \<and>
     out = projected @ gap_intervals ct rs w (c, a, b)"
  by (auto simp: close_gap_def gap_intervals_def Let_def append_coverage_intervals_eq)

lemma case_sum_Inr_iff:
  "(case x of Inl e \<Rightarrow> Inl e | Inr y \<Rightarrow> f y) = Inr z \<longleftrightarrow> (\<exists>y. x = Inr y \<and> f y = Inr z)"
  by (cases x) auto

lemma append_gaps_eq:
  "append_gaps ct rs w limit gs projected = Inr out \<longleftrightarrow>
     fits limit (length projected) (concat (map (gap_intervals ct rs w) gs)) \<and>
     out = projected @ concat (map (gap_intervals ct rs w) gs)"
  by (induction gs arbitrary: projected) (auto simp: case_sum_Inr_iff close_gap_eq fits_append)

lemma append_gaps_append:
  "append_gaps ct rs w limit (gs @ hs) projected =
     (case append_gaps ct rs w limit gs projected of
        Inl e \<Rightarrow> Inl e | Inr out \<Rightarrow> append_gaps ct rs w limit hs out)"
  by (induction gs arbitrary: projected) (auto split: sum.splits)

lemma project_cluster_gaps:
  "project_cluster ct rs w limit c opened obs projected =
     append_gaps ct rs w limit (map (Pair c) (gaps_closed opened obs)) projected"
  by (induction obs arbitrary: opened projected) (auto split: option.splits sum.splits)

definition group_gaps :: "string \<times> capture_observation list \<Rightarrow> (string \<times> time \<times> time) list" where
  "group_gaps g = map (Pair (fst g)) (gaps_closed None (sort_key ob_observed_at (snd g)))"

lemma project_clusters_gaps:
  "project_clusters ct rs w limit groups projected =
     append_gaps ct rs w limit (concat (map group_gaps groups)) projected"
  by (induction groups arbitrary: projected)
    (auto simp: group_gaps_def project_cluster_gaps append_gaps_append split: sum.splits)

text \<open>The order the cursor must have: within a cluster the instants do not decrease.\<close>

fun in_order :: "(string \<rightharpoonup> time) \<Rightarrow> capture_observation list \<Rightarrow> bool" where
  "in_order latest [] = True"
| "in_order latest (ob # obs) =
     ((case latest (ob_cluster_id ob) of None \<Rightarrow> True | Some p \<Rightarrow> p \<le> ob_observed_at ob) \<and>
      in_order (latest(ob_cluster_id ob \<mapsto> ob_observed_at ob)) obs)"

lemma project_ordered_gaps:
  "project_ordered ct rs w limit opened latest obs projected = Inr out \<longleftrightarrow>
     in_order latest obs \<and>
     append_gaps ct rs w limit (gaps_closed_ordered opened obs) projected = Inr out"
  by (induction obs arbitrary: opened latest projected)
    (auto simp: Let_def split: option.splits sum.splits)

section \<open>The two loops close the same gaps\<close>

text \<open>Lists that agree class by class are sorted to the same list by a key that tells the classes apart.\<close>

lemma mset_by_class:
  assumes "\<And>k. filter (\<lambda>x. g x = k) xs = filter (\<lambda>x. g x = k) ys"
  shows "mset xs = mset ys"
proof (rule multiset_eqI)
  fix x
  have "count (mset zs) x = count (mset (filter (\<lambda>y. g y = g x) zs)) x" for zs
    by simp
  then show "count (mset xs) x = count (mset ys) x"
    using assms by metis
qed

lemma sort_key_by_class:
  assumes cls: "\<And>k. filter (\<lambda>x. g x = k) xs = filter (\<lambda>x. g x = k) ys"
    and key: "\<And>x y. f x = f y \<Longrightarrow> g x = g y"
  shows "sort_key f xs = sort_key f ys"
proof (rule properties_for_sort_key)
  show "mset (sort_key f ys) = mset xs"
    using mset_by_class [of g, OF cls] by simp
  fix k
  have own: "(\<lambda>x. f k = f x) = (\<lambda>x. f x = f k)"
    by auto
  have cut: "filter (\<lambda>x. f x = f k) (filter (\<lambda>x. g x = g k) zs) = filter (\<lambda>x. f x = f k) zs" for zs
    unfolding filter_filter by (rule filter_cong) (auto dest: key)
  have "filter (\<lambda>x. f x = f k) (sort_key f ys) = filter (\<lambda>x. f x = f k) ys"
    by (rule sort_key_stable)
  also have "\<dots> = filter (\<lambda>x. f x = f k) (filter (\<lambda>x. g x = g k) ys)"
    by (rule cut [symmetric])
  also have "\<dots> = filter (\<lambda>x. f x = f k) xs"
    by (simp only: cls [symmetric] cut)
  finally show "filter (\<lambda>x. f k = f x) (sort_key f ys) = filter (\<lambda>x. f k = f x) xs"
    by (simp only: own)
qed simp

lemma gaps_closed_ordered_cluster:
  "filter (\<lambda>g. fst g = c) (gaps_closed_ordered opened obs) =
     map (Pair c) (gaps_closed (opened c) (filter (\<lambda>ob. ob_cluster_id ob = c) obs))"
  by (induction obs arbitrary: opened) (auto simp: Let_def split: option.splits)

lemma keys_group_observation:
  "map fst (group_observation ob g) =
     map fst g @ (if ob_cluster_id ob \<in> fst ` set g then [] else [ob_cluster_id ob])"
  by (induction ob g rule: group_observation.induct) auto

lemma map_of_group_observation:
  "map_of (group_observation ob g) k =
     (if k = ob_cluster_id ob then Some ((case map_of g k of None \<Rightarrow> [] | Some obs \<Rightarrow> obs) @ [ob])
      else map_of g k)"
  by (induction ob g rule: group_observation.induct) auto

lemma distinct_observations_by_cluster: "distinct (map fst (observations_by_cluster obs))"
  by (induction obs rule: rev_induct) (auto simp: observations_by_cluster_def keys_group_observation)

lemma map_of_observations_by_cluster:
  "map_of (observations_by_cluster obs) c =
     (let own = filter (\<lambda>ob. ob_cluster_id ob = c) obs in if own = [] then None else Some own)"
  by (induction obs rule: rev_induct)
    (auto simp: observations_by_cluster_def map_of_group_observation Let_def)

lemma group_gaps_of_cluster:
  "distinct (map fst gs) \<Longrightarrow>
   filter (\<lambda>g. fst g = c) (concat (map group_gaps gs)) =
     (case map_of gs c of None \<Rightarrow> [] | Some obs \<Rightarrow> group_gaps (c, obs))"
proof (induction gs)
  case (Cons g gs)
  have own: "filter (\<lambda>x. fst x = c) (group_gaps g) = (if fst g = c then group_gaps g else [])"
    by (auto simp: group_gaps_def filter_empty_conv)
  show ?case
  proof (cases "fst g = c")
    case True
    then have "map_of gs c = None"
      using Cons.prems by (auto simp: map_of_eq_None_iff)
    with Cons own True show ?thesis by (cases g) auto
  next
    case False
    with Cons own show ?thesis by (cases g) auto
  qed
qed simp

lemma grouped_gaps_of_cluster:
  "filter (\<lambda>g. fst g = c) (concat (map group_gaps (observations_by_cluster obs))) =
     map (Pair c) (gaps_closed None (sort_key ob_observed_at (filter (\<lambda>ob. ob_cluster_id ob = c) obs)))"
  by (auto simp: group_gaps_of_cluster distinct_observations_by_cluster map_of_observations_by_cluster
      group_gaps_def Let_def)

definition sorted_since :: "time option \<Rightarrow> time list \<Rightarrow> bool" where
  "sorted_since p ts \<longleftrightarrow> sorted ((case p of None \<Rightarrow> [] | Some t \<Rightarrow> [t]) @ ts)"

lemma sorted_since_Cons:
  "sorted_since p (t # ts) \<longleftrightarrow> (case p of None \<Rightarrow> True | Some u \<Rightarrow> u \<le> t) \<and> sorted_since (Some t) ts"
  by (auto simp: sorted_since_def split: option.splits)

lemma in_order_sorted:
  "in_order latest obs \<longleftrightarrow>
     (\<forall>c. sorted_since (latest c) (map ob_observed_at (filter (\<lambda>ob. ob_cluster_id ob = c) obs)))"
proof (induction obs arbitrary: latest)
  case (Cons ob obs)
  have "sorted_since (latest c) (map ob_observed_at (filter (\<lambda>ob. ob_cluster_id ob = c) (ob # obs))) \<longleftrightarrow>
      (c = ob_cluster_id ob \<longrightarrow> (case latest c of None \<Rightarrow> True | Some p \<Rightarrow> p \<le> ob_observed_at ob)) \<and>
      sorted_since ((latest(ob_cluster_id ob \<mapsto> ob_observed_at ob)) c)
        (map ob_observed_at (filter (\<lambda>ob. ob_cluster_id ob = c) obs))" for c
    by (cases "c = ob_cluster_id ob") (auto simp: sorted_since_Cons)
  then show ?case
    unfolding in_order.simps Cons by metis
qed (auto simp: sorted_since_def split: option.splits)

lemma scopes_of_cluster: "s \<in> set (scopes_of rs c) \<Longrightarrow> sc_cluster_id s = c"
  by (auto simp: scopes_of_def authorized_scopes_def Let_def split: if_splits)

lemma gap_intervals_cluster:
  "i \<in> set (gap_intervals ct rs w g) \<Longrightarrow> sc_cluster_id (tc_scope i) = fst g"
  by (auto simp: gap_intervals_def interval_def Let_def scopes_of_cluster split: if_splits prod.splits)

lemma filter_gap_intervals:
  "filter (\<lambda>i. sc_cluster_id (tc_scope i) = c) (concat (map (gap_intervals ct rs w) gs)) =
     concat (map (gap_intervals ct rs w) (filter (\<lambda>g. fst g = c) gs))"
proof (induction gs)
  case (Cons g gs)
  have "filter (\<lambda>i. sc_cluster_id (tc_scope i) = c) (gap_intervals ct rs w g) =
      (if fst g = c then gap_intervals ct rs w g else [])"
    using gap_intervals_cluster [of _ ct rs w g] by (auto simp: filter_id_conv filter_empty_conv)
  with Cons show ?case by simp
qed simp

text \<open>Whether a list of intervals is accepted depends only on which intervals it holds.\<close>

lemma fits_mset:
  assumes "mset xs = mset ys"
  shows "fits limit n xs \<longleftrightarrow> fits limit n ys"
proof -
  have "set xs = set ys" and len: "length xs = length ys"
    using assms by (auto dest: mset_eq_setD mset_eq_length)
  moreover have "xs = [] \<longleftrightarrow> ys = []"
    using len by (metis length_0_conv)
  ultimately show ?thesis by (cases limit) (simp_all add: fits_def list_all_iff)
qed

section \<open>What a coverage read returns\<close>

definition observed :: "clock_text \<Rightarrow> read_scope \<Rightarrow> timeline_window \<Rightarrow> jobj list \<Rightarrow> capture_observation list" where
  "observed ct rs w snapshots = List.map_filter (snapshot_observation ct rs w) snapshots"

definition all_gaps :: "capture_observation list \<Rightarrow> (string \<times> time \<times> time) list" where
  "all_gaps obs = concat (map group_gaps (observations_by_cluster obs))"

lemma project_coverage_batch:
  "project_coverage ct rs w limit False snapshots = Inr cs \<longleftrightarrow>
     (let is = concat (map (gap_intervals ct rs w) (all_gaps (observed ct rs w snapshots))) in
      fits limit 0 is \<and> cs = sort_key coverage_sort_key is)"
proof -
  have inr: "map_sum id f r = Inr y \<longleftrightarrow> (\<exists>x. r = Inr x \<and> f x = y)" for f r and y :: "timeline_coverage list"
    by (cases r) auto
  show ?thesis
    by (auto simp: project_coverage_def inr project_clusters_gaps append_gaps_eq all_gaps_def observed_def Let_def)
qed

lemma same_class_intervals:
  assumes "in_order Map.empty obs"
  shows "filter (\<lambda>i. sc_cluster_id (tc_scope i) = c) (concat (map (gap_intervals ct rs w) (gaps_closed_ordered Map.empty obs)))
       = filter (\<lambda>i. sc_cluster_id (tc_scope i) = c) (concat (map (gap_intervals ct rs w) (all_gaps obs)))"
proof -
  have "sorted (map ob_observed_at (filter (\<lambda>ob. ob_cluster_id ob = c) obs))"
    using assms by (auto simp: in_order_sorted sorted_since_def)
  then show ?thesis
    by (simp add: filter_gap_intervals gaps_closed_ordered_cluster all_gaps_def grouped_gaps_of_cluster
        sort_key_id_if_sorted)
qed

lemma streamed_coverage_is_batch:
  "project_coverage ct rs w limit True snapshots = Inr cs \<longleftrightarrow>
     in_order Map.empty (observed ct rs w snapshots) \<and>
     project_coverage ct rs w limit False snapshots = Inr cs"
proof -
  let ?obs = "observed ct rs w snapshots"
  let ?ordered = "concat (map (gap_intervals ct rs w) (gaps_closed_ordered Map.empty ?obs))"
  let ?batch = "concat (map (gap_intervals ct rs w) (all_gaps ?obs))"
  have "project_coverage ct rs w limit True snapshots = Inr cs \<longleftrightarrow>
      in_order Map.empty ?obs \<and> fits limit 0 ?ordered \<and> cs = sort_key coverage_sort_key ?ordered"
  proof -
    have inr: "map_sum id f r = Inr y \<longleftrightarrow> (\<exists>x. r = Inr x \<and> f x = y)" for f r and y :: "timeline_coverage list"
      by (cases r) auto
    show ?thesis
      by (auto simp: project_coverage_def inr project_ordered_gaps append_gaps_eq observed_def Let_def)
  qed
  moreover have "fits limit 0 ?ordered \<longleftrightarrow> fits limit 0 ?batch"
    and "sort_key coverage_sort_key ?ordered = sort_key coverage_sort_key ?batch"
    if "in_order Map.empty ?obs"
  proof -
    note same = same_class_intervals [OF that, of _ ct rs w]
    show "fits limit 0 ?ordered \<longleftrightarrow> fits limit 0 ?batch"
      by (rule fits_mset) (rule mset_by_class [OF same])
    show "sort_key coverage_sort_key ?ordered = sort_key coverage_sort_key ?batch"
      by (rule sort_key_by_class [OF same]) (simp add: coverage_sort_key_def scope_key_def)
  qed
  ultimately show ?thesis
    by (auto simp: project_coverage_batch Let_def)
qed

text \<open>
  The projection that streams an ordered cursor, with one open gap per cluster
  in memory, and the projection that groups and sorts all snapshots are the same function:
  the streaming one succeeds exactly when the snapshots of each cluster come in the order of
  their capture times and the other one succeeds, and it returns the same list, whatever the
  order in which the clusters interleave, the window, the limit and the scopes.
\<close>

theorem streamed_coverage_is_batch_coverage:
  "project_coverage ct rs w limit True snapshots = Inr cs \<longleftrightarrow>
     in_order Map.empty (observed ct rs w snapshots) \<and>
     project_coverage ct rs w limit False snapshots = Inr cs"
  by (rule streamed_coverage_is_batch)

text \<open>
  A closed gap in terms of what was observed: a failed capture at \<open>a\<close>, a proven recovery at
  \<open>b\<close>, no recovery in between, and no earlier failure still waiting for its recovery at \<open>a\<close>.
\<close>

definition closed_gap :: "capture_observation list \<Rightarrow> string \<Rightarrow> time \<Rightarrow> time \<Rightarrow> bool" where
  "closed_gap obs c a b \<longleftrightarrow>
     (let gaps = [ob_observed_at ob. ob \<leftarrow> obs, ob_cluster_id ob = c, ob_state ob = Gap];
          recoveries = [ob_observed_at ob. ob \<leftarrow> obs, ob_cluster_id ob = c, ob_state ob = Recovery] in
      a \<in> set gaps \<and> b \<in> set recoveries \<and> a < b \<and>
      \<not> (\<exists>r \<in> set recoveries. a < r \<and> r < b) \<and>
      (\<forall>g \<in> set gaps. g < a \<longrightarrow> (\<exists>r \<in> set recoveries. g < r \<and> r < a)))"

definition no_ties :: "capture_observation list \<Rightarrow> bool" where
  "no_ties obs \<longleftrightarrow>
     (\<forall>x \<in> set obs. \<forall>y \<in> set obs.
        ob_cluster_id x = ob_cluster_id y \<and> ob_observed_at x = ob_observed_at y \<longrightarrow> ob_state x = ob_state y)"

text \<open>The same for the observations of one cluster, as a set of gaps and a set of recoveries.\<close>

definition closes :: "time set \<Rightarrow> time set \<Rightarrow> time \<Rightarrow> time \<Rightarrow> bool" where
  "closes G R a b \<longleftrightarrow> a \<in> G \<and> b \<in> R \<and> a < b \<and> (\<forall>r \<in> R. \<not> (a < r \<and> r < b)) \<and>
     (\<forall>g \<in> G. g < a \<longrightarrow> (\<exists>r \<in> R. g < r \<and> r < a))"

definition times :: "capture_state \<Rightarrow> capture_observation list \<Rightarrow> time set" where
  "times st obs = ob_observed_at ` {ob \<in> set obs. ob_state ob = st}"

lemma times_Cons [simp]:
  "times st (ob # obs) = (if ob_state ob = st then insert (ob_observed_at ob) (times st obs) else times st obs)"
  by (auto simp: times_def)

lemma times_Nil [simp]: "times st [] = {}"
  by (simp add: times_def)

lemma times_after: "sorted (map ob_observed_at (ob # obs)) \<Longrightarrow> x \<in> times st obs \<Longrightarrow> ob_observed_at ob \<le> x"
  by (auto simp: times_def)

lemma closes_skip_recovery:
  assumes "\<forall>g \<in> G. r < g"
  shows "closes G (insert r R) a b \<longleftrightarrow> closes G R a b"
proof (cases "a \<in> G \<and> a < b")
  case True
  have before: "g < r \<longleftrightarrow> False" if "g \<in> G" for g
    using assms that by force
  have "r < a" and "r \<noteq> b"
    using assms True by force+
  then show ?thesis
    by (simp add: closes_def before cong: ball_cong_simp)
qed (auto simp: closes_def)

lemma closes_skip_gap:
  assumes "g \<le> g'" "\<forall>r \<in> R. g' < r"
  shows "closes (insert g (insert g' G)) R a b \<longleftrightarrow> closes (insert g G) R a b"
proof
  assume l: "closes (insert g (insert g' G)) R a b"
  have "g < a \<Longrightarrow> \<exists>r \<in> R. r < a"
    using l by (auto simp: closes_def)
  then have "\<not> (g < a \<and> a = g')"
    using assms(2) by force
  moreover have "g \<le> a" if "a = g'"
    using that assms(1) by simp
  ultimately have "a \<in> insert g G"
    using l by (auto simp: closes_def)
  with l show "closes (insert g G) R a b" by (simp add: closes_def)
next
  assume r: "closes (insert g G) R a b"
  have "\<exists>r \<in> R. g' < r \<and> r < a" if "g' < a"
  proof -
    have "\<exists>r \<in> R. g < r \<and> r < a"
      using r that assms(1) by (simp add: closes_def)
    with assms(2) show ?thesis by blast
  qed
  with r show "closes (insert g (insert g' G)) R a b" by (simp add: closes_def) blast
qed

lemma closes_first:
  assumes "g < r" "\<forall>r' \<in> R. r \<le> r'" "\<forall>g' \<in> G. r < g'"
  shows "closes (insert g G) (insert r R) a b \<longleftrightarrow> (a, b) = (g, r) \<or> closes G R a b"
proof (cases "a = g")
  case True
  have no: "\<not> r' < r" if "r' \<in> R" for r'
    using assms(2) that by (meson not_less)
  have "g \<notin> G" and first: "\<not> (\<exists>g' \<in> G. g' < g)"
    using assms(1,3) by force+
  have "closes (insert g G) (insert r R) g b \<longleftrightarrow> b = r"
  proof
    assume l: "closes (insert g G) (insert r R) g b"
    then have "\<not> r < b" and "b \<in> insert r R"
      using assms(1) by (simp_all add: closes_def)
    then show "b = r"
      using assms(2) by force
  next
    assume "b = r"
    with assms(1) no first show "closes (insert g G) (insert r R) g b"
      by (auto simp: closes_def)
  qed
  with True \<open>g \<notin> G\<close> show ?thesis by (auto simp: closes_def)
next
  case False
  show ?thesis
  proof (cases "a \<in> G \<and> a < b")
    case True
    then have "r < a" and "g < a" and "r \<noteq> b"
      using assms(1,3) by force+
    moreover have before: "x < r \<longleftrightarrow> False" if "x \<in> G" for x
      using assms(3) that by force
    ultimately show ?thesis
      using False assms(1) by (simp add: closes_def before cong: ball_cong_simp)
  qed (use False in \<open>auto simp: closes_def\<close>)
qed

lemma gaps_closed_open [simp]:
  "gaps_closed (Some a) (ob # obs) =
     (if ob_state ob = Gap \<or> ob_observed_at ob \<le> a then gaps_closed (Some a) obs
      else (a, ob_observed_at ob) # gaps_closed None obs)"
  by simp

lemma gaps_closed_characterised:
  "sorted (map ob_observed_at obs) \<Longrightarrow> times Gap obs \<inter> times Recovery obs = {} \<Longrightarrow>
     set (gaps_closed None obs) = {(a, b). closes (times Gap obs) (times Recovery obs) a b} \<and>
     (\<forall>g. (\<forall>x \<in> set obs. g \<le> ob_observed_at x) \<longrightarrow> g \<notin> times Recovery obs \<longrightarrow>
       set (gaps_closed (Some g) obs) = {(a, b). closes (insert g (times Gap obs)) (times Recovery obs) a b})"
proof (induction obs)
  case Nil
  show ?case by (auto simp: closes_def)
next
  case (Cons ob obs)
  let ?G = "times Gap obs" and ?R = "times Recovery obs" and ?t = "ob_observed_at ob"
  have later: "?t \<le> x" if "x \<in> ?G \<union> ?R" for x
    using that Cons.prems(1) by (auto simp: times_def)
  have IH: "set (gaps_closed None obs) = {(a, b). closes ?G ?R a b}"
    "(\<forall>x \<in> set obs. g \<le> ob_observed_at x) \<Longrightarrow> g \<notin> ?R \<Longrightarrow>
       set (gaps_closed (Some g) obs) = {(a, b). closes (insert g ?G) ?R a b}" for g
    using Cons by (auto split: if_splits)
  show ?case
  proof (cases "ob_state ob")
    case Gap
    with Cons.prems later have after: "\<forall>r \<in> ?R. ?t < r"
      by (force simp: order.order_iff_strict)
    have "set (gaps_closed (Some g) obs) = {(a, b). closes (insert g (insert ?t ?G)) ?R a b}"
      if "g \<le> ?t" "\<forall>x \<in> set obs. g \<le> ob_observed_at x" "g \<notin> ?R" for g
      using IH(2) [OF that(2,3)] closes_skip_gap [OF that(1) after] by simp
    moreover have "set (gaps_closed (Some ?t) obs) = {(a, b). closes (insert ?t ?G) ?R a b}"
      using Cons.prems after by (intro IH(2)) auto
    ultimately show ?thesis
      using Gap by auto
  next
    case Recovery
    with Cons.prems later have after: "\<forall>g \<in> ?G. ?t < g"
      by (force simp: order.order_iff_strict)
    have "set (gaps_closed None obs) = {(a, b). closes ?G (insert ?t ?R) a b}"
      using IH(1) closes_skip_recovery [OF after] by simp
    moreover have "set (gaps_closed (Some g) (ob # obs)) = {(a, b). closes (insert g ?G) (insert ?t ?R) a b}"
      if "g < ?t" for g
      using that Recovery IH(1) closes_first [OF that _ after] later by auto
    ultimately show ?thesis
      using Recovery by (auto simp del: gaps_closed_open simp: order.order_iff_strict)
  qed
qed

lemma times_of_cluster:
  "times st (filter (\<lambda>ob. ob_cluster_id ob = c) obs) =
     set [ob_observed_at ob. ob \<leftarrow> obs, ob_cluster_id ob = c, ob_state ob = st]"
  by (auto simp: times_def)

lemma times_sort_key [simp]: "times st (sort_key f obs) = times st obs"
  by (simp add: times_def)

lemma closed_gap_closes:
  "closed_gap obs c a b \<longleftrightarrow>
     closes (times Gap (filter (\<lambda>ob. ob_cluster_id ob = c) obs))
       (times Recovery (filter (\<lambda>ob. ob_cluster_id ob = c) obs)) a b"
  by (simp add: closed_gap_def closes_def times_of_cluster Let_def del: set_concat set_map)

lemma all_gaps_characterised:
  assumes "no_ties obs"
  shows "(c, a, b) \<in> set (all_gaps obs) \<longleftrightarrow> closed_gap obs c a b"
proof -
  let ?own = "filter (\<lambda>ob. ob_cluster_id ob = c) obs"
  have "times Gap ?own \<inter> times Recovery ?own = {}"
    using assms by (fastforce simp: no_ties_def times_def)
  then have "set (gaps_closed None (sort_key ob_observed_at ?own)) = {(a, b). closed_gap obs c a b}"
    using gaps_closed_characterised [of "sort_key ob_observed_at ?own"] by (simp add: closed_gap_closes)
  moreover have "(c, a, b) \<in> set (all_gaps obs) \<longleftrightarrow>
      (c, a, b) \<in> set (filter (\<lambda>g. fst g = c) (all_gaps obs))"
    by simp
  ultimately show ?thesis
    unfolding all_gaps_def grouped_gaps_of_cluster by auto
qed

lemma set_scopes_of:
  "set (scopes_of rs c) = {s \<in> set (rs_scopes rs). sc_cluster_id s = c \<and> c \<in> set (rs_event_cluster_ids rs)}"
  by (auto simp: scopes_of_def authorized_scopes_def Let_def filter_empty_conv)

lemma in_gap_intervals:
  "i \<in> set (gap_intervals ct rs w (c, a, b)) \<longleftrightarrow>
     c = sc_cluster_id (tc_scope i) \<and> tc_scope i \<in> set (rs_scopes rs) \<and>
     sc_cluster_id (tc_scope i) \<in> set (rs_event_cluster_ids rs) \<and>
     intersects_window (ct_milliseconds ct a) (ct_milliseconds ct b) w \<and>
     i = interval (tc_scope i) (ct_milliseconds ct a) (ct_milliseconds ct b)"
  by (auto simp: gap_intervals_def interval_def set_scopes_of Let_def)

lemma in_all_intervals:
  assumes "no_ties obs"
  shows "i \<in> set (concat (map (gap_intervals ct rs w) (all_gaps obs))) \<longleftrightarrow>
     (\<exists>a b. closed_gap obs (sc_cluster_id (tc_scope i)) a b \<and>
        tc_scope i \<in> set (rs_scopes rs) \<and> sc_cluster_id (tc_scope i) \<in> set (rs_event_cluster_ids rs) \<and>
        intersects_window (ct_milliseconds ct a) (ct_milliseconds ct b) w \<and>
        i = interval (tc_scope i) (ct_milliseconds ct a) (ct_milliseconds ct b))"
proof -
  have "i \<in> set (concat (map (gap_intervals ct rs w) (all_gaps obs))) \<longleftrightarrow>
      (\<exists>c a b. (c, a, b) \<in> set (all_gaps obs) \<and> i \<in> set (gap_intervals ct rs w (c, a, b)))"
    by force
  also have "\<dots> \<longleftrightarrow> (\<exists>c a b. closed_gap obs c a b \<and> i \<in> set (gap_intervals ct rs w (c, a, b)))"
    by (simp add: all_gaps_characterised [OF assms])
  finally show ?thesis
    by (simp only: in_gap_intervals) blast
qed

text \<open>
  What a successful coverage read returns, when no capture of a cluster is both
  failed and recovered at one instant: an interval is in the answer exactly when its scope is
  one the reader may see and its bounds are a failed capture and the first proven recovery after
  it, with no earlier failure pending, overlapping the window. Nothing is clipped and no open
  gap is reported. The answer is sorted and within the limit.
\<close>

theorem coverage_is_the_closed_gaps:
  assumes "project_coverage ct rs w limit ordered snapshots = Inr cs"
    and "no_ties (observed ct rs w snapshots)"
  shows "i \<in> set cs \<longleftrightarrow>
      (\<exists>a b. closed_gap (observed ct rs w snapshots) (sc_cluster_id (tc_scope i)) a b \<and>
        tc_scope i \<in> set (rs_scopes rs) \<and> sc_cluster_id (tc_scope i) \<in> set (rs_event_cluster_ids rs) \<and>
        intersects_window (ct_milliseconds ct a) (ct_milliseconds ct b) w \<and>
        i = interval (tc_scope i) (ct_milliseconds ct a) (ct_milliseconds ct b))"
    and "sorted (map coverage_sort_key cs)"
    and "cs = [] \<or> (case limit of None \<Rightarrow> True | Some m \<Rightarrow> int (length cs) \<le> m)"
proof -
  let ?is = "concat (map (gap_intervals ct rs w) (all_gaps (observed ct rs w snapshots)))"
  have "project_coverage ct rs w limit False snapshots = Inr cs"
    using assms(1) by (cases ordered) (simp_all add: streamed_coverage_is_batch)
  then have fit: "fits limit 0 ?is" and cs: "cs = sort_key coverage_sort_key ?is"
    by (simp_all add: project_coverage_batch Let_def)
  have "set cs = set ?is"
    unfolding cs by (rule set_sort)
  then show "i \<in> set cs \<longleftrightarrow>
      (\<exists>a b. closed_gap (observed ct rs w snapshots) (sc_cluster_id (tc_scope i)) a b \<and>
        tc_scope i \<in> set (rs_scopes rs) \<and> sc_cluster_id (tc_scope i) \<in> set (rs_event_cluster_ids rs) \<and>
        intersects_window (ct_milliseconds ct a) (ct_milliseconds ct b) w \<and>
        i = interval (tc_scope i) (ct_milliseconds ct a) (ct_milliseconds ct b))"
    by (simp only: in_all_intervals [OF assms(2)])
  show "sorted (map coverage_sort_key cs)"
    unfolding cs by (rule sorted_sort_key)
  show "cs = [] \<or> (case limit of None \<Rightarrow> True | Some m \<Rightarrow> int (length cs) \<le> m)"
    using fit by (cases limit) (auto simp: fits_def cs simp flip: length_0_conv)
qed

text \<open>
  A failed capture followed by its recovery within the same millisecond makes
  every coverage read of a window containing it fail: the loop guards the instants in
  microseconds, the interval is built from milliseconds and refuses an empty width, so one such
  pair hides all other gaps of all clusters, in both projections.
\<close>

theorem short_gap_fails_the_read:
  assumes "closed_gap (observed ct rs w snapshots) c a b" "no_ties (observed ct rs w snapshots)"
    and "ct_milliseconds ct a = ct_milliseconds ct b"
    and "tw_from_ms w < ct_milliseconds ct a" "ct_milliseconds ct a < tw_to_ms w"
    and "scopes_of rs c \<noteq> []"
  shows "\<exists>e. project_coverage ct rs w limit ordered snapshots = Inl e"
proof (rule ccontr)
  assume "\<nexists>e. project_coverage ct rs w limit ordered snapshots = Inl e"
  then obtain cs where "project_coverage ct rs w limit ordered snapshots = Inr cs"
    by (cases "project_coverage ct rs w limit ordered snapshots") auto
  then have "project_coverage ct rs w limit False snapshots = Inr cs"
    by (cases ordered) (simp_all add: streamed_coverage_is_batch)
  then have fit: "fits limit 0 (concat (map (gap_intervals ct rs w) (all_gaps (observed ct rs w snapshots))))"
    by (simp add: project_coverage_batch Let_def)
  obtain s where "s \<in> set (scopes_of rs c)"
    using assms(6) by (cases "scopes_of rs c") auto
  then have "interval s (ct_milliseconds ct a) (ct_milliseconds ct b) \<in> set (gap_intervals ct rs w (c, a, b))"
    using assms(3-5) by (simp add: gap_intervals_def intersects_window_def Let_def)
  moreover have "(c, a, b) \<in> set (all_gaps (observed ct rs w snapshots))"
    using assms(1,2) by (simp add: all_gaps_characterised)
  ultimately have "valid_coverage (interval s (ct_milliseconds ct a) (ct_milliseconds ct b))"
    using fit by (auto simp: fits_def list_all_iff)
  then show False
    using assms(3) by (simp add: valid_coverage_def interval_def)
qed

section \<open>A cluster that fails and recovers\<close>

definition demo_clock :: clock_text where
  "demo_clock = \<lparr>ct_str = (\<lambda>_. []),
     ct_fromisoformat = (\<lambda>s. if s = ''t1'' then Some 1000000 else if s = ''t2'' then Some 1000400
                             else if s = ''t3'' then Some 4000000 else None),
     ct_milliseconds = (\<lambda>t. t div 1000)\<rparr>"

definition demo_scopes :: read_scope where
  "demo_scopes = \<lparr>rs_scopes = [\<lparr>sc_workspace_id = ''w'', sc_cluster_id = ''c'', sc_namespaces = [], sc_freshness = ''live''\<rparr>],
     rs_event_cluster_ids = [''c'']\<rparr>"

definition demo_window :: timeline_window where
  "demo_window = \<lparr>tw_from_ms = 500, tw_to_ms = 9000\<rparr>"

definition demo_snapshot :: "bool \<Rightarrow> string \<Rightarrow> jobj" where
  "demo_snapshot good seen =
     [(''cluster_id'', JStr ''c''), (''status'', JStr ''ok''),
      (''summary'', JObj [(''summary'', JObj [(''kubernetes_event_capture'', JObj
        [(''complete'', JBool good), (''truncated'', JBool False),
         (''reason'', JStr (if good then ''complete'' else ''denied'')),
         (''freshness'', JObj [(''observed_at'', JStr seen), (''max_age_seconds'', JInt 60)]),
         (''coverage'', JObj
           [(''scope'', JStr ''all_namespaces''), (''pagination'', JStr ''continue''),
            (''gap'', if good then JNull else JStr ''denied''),
            (''page_count'', JInt 1), (''event_count'', JInt 0), (''resource_version'', JStr ''7'')])])])])]"

definition demo_observations :: "string \<Rightarrow> capture_observation list" where
  "demo_observations t = observed demo_clock demo_scopes demo_window [demo_snapshot False ''t1'', demo_snapshot True t]"

lemma demo_long_gap:
  "project_coverage demo_clock demo_scopes demo_window (Some 256) True
     [demo_snapshot False ''t1'', demo_snapshot True ''t3''] =
     Inr [interval \<lparr>sc_workspace_id = ''w'', sc_cluster_id = ''c'', sc_namespaces = [], sc_freshness = ''live''\<rparr> 1000 4000]"
  by code_simp

theorem coverage_is_the_closed_gaps_witness:
  "\<exists>a b. closed_gap (demo_observations ''t3'') ''c'' a b \<and>
     ct_milliseconds demo_clock a = 1000 \<and> ct_milliseconds demo_clock b = 4000"
proof -
  have "no_ties (observed demo_clock demo_scopes demo_window [demo_snapshot False ''t1'', demo_snapshot True ''t3''])"
    by code_simp
  from coverage_is_the_closed_gaps(1) [OF demo_long_gap this,
      of "interval \<lparr>sc_workspace_id = ''w'', sc_cluster_id = ''c'', sc_namespaces = [], sc_freshness = ''live''\<rparr> 1000 4000"]
  show ?thesis
    unfolding demo_observations_def by (auto simp: interval_def)
qed

theorem short_gap_fails_the_read_witness:
  "\<exists>e. project_coverage demo_clock demo_scopes demo_window (Some 256) True
     [demo_snapshot False ''t1'', demo_snapshot True ''t2''] = Inl e"
proof (rule short_gap_fails_the_read)
  have "closed_gap (demo_observations ''t2'') ''c'' 1000000 1000400" "no_ties (demo_observations ''t2'')"
    by code_simp+
  then show "closed_gap (observed demo_clock demo_scopes demo_window [demo_snapshot False ''t1'', demo_snapshot True ''t2'']) ''c'' 1000000 1000400"
    and "no_ties (observed demo_clock demo_scopes demo_window [demo_snapshot False ''t1'', demo_snapshot True ''t2''])"
    unfolding demo_observations_def by auto
  show "ct_milliseconds demo_clock 1000000 = ct_milliseconds demo_clock 1000400"
    "tw_from_ms demo_window < ct_milliseconds demo_clock 1000000"
    "ct_milliseconds demo_clock 1000000 < tw_to_ms demo_window"
    "scopes_of demo_scopes ''c'' \<noteq> []"
    by code_simp+
qed

section \<open>What a stream of coverage delivers\<close>

definition coverage_key :: "timeline_coverage \<Rightarrow> (string \<times> string \<times> string list) \<times> string \<times> int \<times> int \<times> string" where
  "coverage_key i = (scope_key (tc_scope i), tc_source i, tc_from_ms i, tc_to_ms i, tc_reason i)"

text \<open>\<^verbatim>\<open>{key(item): item for item in items}.values()\<close>: the first place of a key, its last value.\<close>

definition dict_values :: "('a \<Rightarrow> 'k) \<Rightarrow> 'a list \<Rightarrow> 'a list" where
  "dict_values key items = map snd (fold (\<lambda>i. AList.update (key i) i) items [])"

definition authorized_kubernetes_event_coverage ::
    "read_scope \<Rightarrow> timeline_window \<Rightarrow> timeline_coverage list \<Rightarrow> timeline_coverage list" where
  "authorized_kubernetes_event_coverage rs w coverage =
     (let allowed = concat (map (\<lambda>s. map scope_key (scopes_of rs (sc_cluster_id s))) (rs_scopes rs)) in
      sort_key coverage_sort_key (dict_values coverage_key
        (filter (\<lambda>i. tc_source i = ''kubernetes_event'' \<and> tc_reason i = ''collection_gap'' \<and>
                     scope_key (tc_scope i) \<in> set allowed \<and>
                     intersects_window (tc_from_ms i) (tc_to_ms i) w) coverage)))"

definition coverage_additions :: "timeline_coverage list \<Rightarrow> timeline_coverage list \<Rightarrow> timeline_coverage list" where
  "coverage_additions previous current =
     sort_key coverage_sort_key (dict_values coverage_key
       (filter (\<lambda>i. coverage_key i \<notin> set (map coverage_key previous)) current))"

text \<open>The coverage part of the stream's loop: what is delivered so far, and the frames sent.\<close>

fun coverage_frames :: "timeline_coverage list \<Rightarrow> timeline_coverage list list \<Rightarrow> timeline_coverage list list" where
  "coverage_frames delivered [] = []"
| "coverage_frames delivered (read # reads) =
     (let delta = coverage_additions delivered read in
      if delta = [] then coverage_frames delivered reads
      else delta # coverage_frames (delivered @ delta) reads)"

lemma dict_fold_keys:
  "distinct (map fst d) \<Longrightarrow> (\<And>k v. (k, v) \<in> set d \<Longrightarrow> key v = k) \<Longrightarrow>
   distinct (map fst (fold (\<lambda>i. AList.update (key i) i) items d)) \<and>
   fst ` set (fold (\<lambda>i. AList.update (key i) i) items d) = fst ` set d \<union> key ` set items \<and>
   (\<forall>(k, v) \<in> set (fold (\<lambda>i. AList.update (key i) i) items d). key v = k)"
proof (induction items arbitrary: d)
  case (Cons i items)
  have "distinct (map fst (AList.update (key i) i d))"
    using Cons.prems(1) by (rule distinct_update)
  moreover have "key v = k" if "(k, v) \<in> set (AList.update (key i) i d)" for k v
  proof -
    have "map_of (AList.update (key i) i d) k = Some v"
      using that \<open>distinct (map fst (AList.update (key i) i d))\<close> by (rule_tac map_of_is_SomeI)
    then show ?thesis
      using Cons.prems(2) by (auto simp: update_conv split: if_splits dest: map_of_SomeD)
  qed
  moreover have "fst ` set (AList.update (key i) i d) = insert (key i) (fst ` set d)"
    by (simp add: dom_update flip: dom_map_of_conv_image_fst) (simp add: update_conv' dom_map_of_conv_image_fst)
  ultimately show ?case
    using Cons.IH [of "AList.update (key i) i d"] by auto
qed auto

lemma dict_values_keys:
  "distinct (map key (dict_values key items))" "key ` set (dict_values key items) = key ` set items"
proof -
  let ?d = "fold (\<lambda>i. AList.update (key i) i) items []"
  have d: "distinct (map fst ?d)" "fst ` set ?d = key ` set items" "\<And>k v. (k, v) \<in> set ?d \<Longrightarrow> key v = k"
    using dict_fold_keys [of "[]" key items] by auto
  have own: "map (key \<circ> snd) ?d = map fst ?d"
    using d(3) by auto
  have "map key (dict_values key items) = map (key \<circ> snd) ?d"
    by (simp add: dict_values_def)
  then have keys: "map key (dict_values key items) = map fst ?d"
    by (simp only: own)
  show "distinct (map key (dict_values key items))"
    unfolding keys by (rule d(1))
  have "key ` set (dict_values key items) = set (map fst ?d)"
    unfolding keys [symmetric] by (rule set_map [symmetric])
  then show "key ` set (dict_values key items) = key ` set items"
    by (simp only: set_map d(2))
qed

lemma image_filter_key: "f ` {x \<in> A. f x \<notin> B} = f ` A - B"
  by auto

lemma coverage_additions_keys:
  "distinct (map coverage_key (coverage_additions previous current))"
  "coverage_key ` set (coverage_additions previous current) = coverage_key ` set current - coverage_key ` set previous"
proof -
  let ?d = "dict_values coverage_key
    (filter (\<lambda>i. coverage_key i \<notin> set (map coverage_key previous)) current)"
  have "mset (map coverage_key (sort_key coverage_sort_key ?d)) = mset (map coverage_key ?d)"
    by simp
  then show "distinct (map coverage_key (coverage_additions previous current))"
    using dict_values_keys(1) [of coverage_key] mset_eq_imp_distinct_iff
    unfolding coverage_additions_def by blast
  show "coverage_key ` set (coverage_additions previous current) = coverage_key ` set current - coverage_key ` set previous"
    unfolding coverage_additions_def set_sort dict_values_keys(2) set_filter set_map image_filter_key ..
qed

text \<open>
  A coverage stream sends every interval it reads exactly once: no key occurs
  twice in its frames or repeats the initial answer, and every key of every read was in the
  initial answer or is in a frame, although a later read may no longer contain it.
\<close>

theorem coverage_is_delivered_once:
  "distinct (map coverage_key (concat (coverage_frames delivered reads)))"
  "coverage_key ` set (concat (coverage_frames delivered reads)) =
     (\<Union>r \<in> set reads. coverage_key ` set r) - coverage_key ` set delivered"
proof (induction reads arbitrary: delivered)
  case (Cons r reads)
  define K where "K = (\<lambda>is. coverage_key ` set is)"
  have K_append: "K (xs @ ys) = K xs \<union> K ys" for xs ys
    by (auto simp: K_def)
  have delta: "K (coverage_additions d r) = K r - K d" for d
    by (simp add: K_def coverage_additions_keys(2))
  have IH: "K (concat (coverage_frames d reads)) = (\<Union>r \<in> set reads. K r) - K d" for d
    using Cons(2) [of d] by (simp only: K_def)
  {
    case 1
    have "K (coverage_additions delivered r) \<inter> K (concat (coverage_frames (delivered @ coverage_additions delivered r) reads)) = {}"
      unfolding IH K_append by blast
    then have "distinct (map coverage_key (coverage_additions delivered r @ concat (coverage_frames (delivered @ coverage_additions delivered r) reads)))"
      unfolding K_def map_append distinct_append set_map
      using Cons(1) coverage_additions_keys(1) by blast
    then show ?case
      using Cons(1) [of delivered] by (cases "coverage_additions delivered r = []") (simp_all add: Let_def)
  next
    case 2
    have "K (concat (coverage_frames delivered (r # reads))) = (\<Union>r \<in> set (r # reads). K r) - K delivered"
    proof (cases "coverage_additions delivered r = []")
      case True
      then have "K r \<subseteq> K delivered" using delta [of delivered] by (auto simp: K_def)
      with True IH [of delivered] show ?thesis by (simp add: Let_def) blast
    next
      case False
      then show ?thesis
        by (simp add: Let_def K_append IH delta) blast
    qed
    then show ?case by (simp only: K_def)
  }
qed simp_all

end
