(* ===== verification/Coverage_Query.thy ===== *)
theory Coverage_Query
  imports Timeline_Coverage
begin

text \<open>
  The read behind a coverage projection: the rows of the inventory snapshots and the statement
  of \<^verbatim>\<open>snapshot_timeline_coverage\<close> (\<^verbatim>\<open>src/src/domains/inventory/repository.py\<close>). The statement
  does not read the history of a cluster: before the window it keeps one row, the first failed
  capture after the latest proven recovery. It is shown to give the same coverage as the whole
  history. The conditions it states on JSONB columns are modelled beside the Python ones.
\<close>

section \<open>Rows\<close>

record snapshot_row =
  sr_snapshot_id :: string
  sr_workspace_id :: string
  sr_cluster_id :: string
  sr_status :: string
  sr_collected_at :: time
  sr_event_capture_observed_at :: "time option"
  sr_event_capture :: "json option"
  sr_created_at :: time

text \<open>\<^verbatim>\<open>_event_capture_projection\<close>: what is stored of a capture; \<open>isof\<close> is \<^verbatim>\<open>isoformat\<close>.\<close>

definition event_capture_projection :: "(time \<Rightarrow> string) \<Rightarrow> event_capture \<Rightarrow> json option" where
  "event_capture_projection isof c =
     (case cap_observed_at c of
        None \<Rightarrow> None
      | Some t \<Rightarrow> Some (JObj
          [(''complete'', JBool (cap_complete c)),
           (''truncated'', JBool (cap_truncated c)),
           (''reason'', JStr (cap_reason c)),
           (''freshness'', JObj
             [(''observed_at'', JStr (isof t)),
              (''max_age_seconds'', case cap_max_age_seconds c of None \<Rightarrow> JNull | Some n \<Rightarrow> JInt n)]),
           (''coverage'', JObj (cap_coverage c))]))"

text \<open>\<^verbatim>\<open>_timeline_coverage_snapshot_rows\<close>, for one row of a read that is not cancelled.\<close>

definition snapshot_of_row :: "snapshot_row \<Rightarrow> jobj" where
  "snapshot_of_row r =
     [(''cluster_id'', JStr (sr_cluster_id r)), (''status'', JStr (sr_status r)),
      (''summary'', JObj [(''summary'', JObj
        [(''kubernetes_event_capture'', case sr_event_capture r of None \<Rightarrow> JNull | Some e \<Rightarrow> e)])])]"

section \<open>Conditions on JSONB columns\<close>

text \<open>\<open>column[key]\<close>, \<open>astext\<close>, \<open>jsonb_typeof\<close> and \<open>btrim\<close>; NULL is \<open>None\<close>.\<close>

definition jsonb_get :: "json option \<Rightarrow> string \<Rightarrow> json option" where
  "jsonb_get v k = (case v of Some (JObj d) \<Rightarrow> jget d k | _ \<Rightarrow> None)"

definition astext :: "(json \<Rightarrow> string) \<Rightarrow> json option \<Rightarrow> string option" where
  "astext pg v =
     (case v of
        None \<Rightarrow> None
      | Some JNull \<Rightarrow> None
      | Some (JStr s) \<Rightarrow> Some s
      | Some (JBool b) \<Rightarrow> Some (if b then ''true'' else ''false'')
      | Some (JInt n) \<Rightarrow> Some (int_text n)
      | Some w \<Rightarrow> Some (pg w))"

definition jsonb_is_boolean :: "json option \<Rightarrow> bool" where
  "jsonb_is_boolean v = (case v of Some (JBool _) \<Rightarrow> True | _ \<Rightarrow> False)"

definition jsonb_is_number :: "json option \<Rightarrow> bool" where
  "jsonb_is_number v = (case v of Some (JInt _) \<Rightarrow> True | Some (JFloat _) \<Rightarrow> True | _ \<Rightarrow> False)"

definition is_blank :: "char \<Rightarrow> bool" where
  "is_blank c \<longleftrightarrow> c = CHR '' ''"

definition btrim :: "string option \<Rightarrow> string option" where
  "btrim v = map_option
     (\<lambda>s. rev (dropWhile is_blank (rev (dropWhile is_blank s)))) v"

definition not_blank :: "string option \<Rightarrow> bool" where
  "not_blank v = (case v of None \<Rightarrow> False | Some s \<Rightarrow> s \<noteq> [])"

text \<open>The regular expressions \<^verbatim>\<open>^[1-9][0-9]*$\<close> and \<^verbatim>\<open>^(0|[1-9][0-9]*)$\<close>.\<close>

definition matches_positive :: "string option \<Rightarrow> bool" where
  "matches_positive v =
     (case v of Some (c # cs) \<Rightarrow> is_digit c \<and> c \<noteq> CHR ''0'' \<and> list_all is_digit cs | _ \<Rightarrow> False)"

definition matches_nonnegative :: "string option \<Rightarrow> bool" where
  "matches_nonnegative v \<longleftrightarrow> v = Some ''0'' \<or> matches_positive v"

definition capture_gap_clause :: "(json \<Rightarrow> string) \<Rightarrow> json option \<Rightarrow> bool" where
  "capture_gap_clause pg e \<longleftrightarrow>
     (let coverage = jsonb_get e ''coverage'';
          gap = btrim (astext pg (jsonb_get coverage ''gap''));
          reason = btrim (astext pg (jsonb_get e ''reason''));
          observed_at = btrim (astext pg (jsonb_get (jsonb_get e ''freshness'') ''observed_at'')) in
      jsonb_is_boolean (jsonb_get e ''complete'') \<and>
      astext pg (jsonb_get e ''complete'') = Some ''false'' \<and>
      jsonb_is_boolean (jsonb_get e ''truncated'') \<and>
      not_blank observed_at \<and> not_blank gap \<and> reason = gap \<and>
      astext pg (jsonb_get coverage ''scope'') = Some ''all_namespaces'' \<and>
      astext pg (jsonb_get coverage ''pagination'') = Some ''continue'')"

definition capture_recovery_clause :: "(json \<Rightarrow> string) \<Rightarrow> json option \<Rightarrow> bool" where
  "capture_recovery_clause pg e \<longleftrightarrow>
     (let coverage = jsonb_get e ''coverage'';
          freshness = jsonb_get e ''freshness'' in
      jsonb_is_boolean (jsonb_get e ''complete'') \<and>
      astext pg (jsonb_get e ''complete'') = Some ''true'' \<and>
      jsonb_is_boolean (jsonb_get e ''truncated'') \<and>
      astext pg (jsonb_get e ''truncated'') = Some ''false'' \<and>
      btrim (astext pg (jsonb_get e ''reason'')) = Some ''complete'' \<and>
      not_blank (btrim (astext pg (jsonb_get freshness ''observed_at''))) \<and>
      matches_positive (astext pg (jsonb_get freshness ''max_age_seconds'')) \<and>
      astext pg (jsonb_get coverage ''scope'') = Some ''all_namespaces'' \<and>
      astext pg (jsonb_get coverage ''pagination'') = Some ''continue'' \<and>
      (astext pg (jsonb_get coverage ''gap'') = None \<or> astext pg (jsonb_get coverage ''gap'') = Some []) \<and>
      matches_positive (astext pg (jsonb_get coverage ''page_count'')) \<and>
      jsonb_is_number (jsonb_get coverage ''event_count'') \<and>
      matches_nonnegative (astext pg (jsonb_get coverage ''event_count'')) \<and>
      not_blank (btrim (astext pg (jsonb_get coverage ''resource_version''))))"

section \<open>The statement\<close>

definition timeline_coverage_snapshot_clause :: "snapshot_row \<Rightarrow> bool" where
  "timeline_coverage_snapshot_clause r \<longleftrightarrow> sr_status r \<noteq> ''ignored_stale'' \<and> sr_event_capture r \<noteq> None"

definition seen_at :: "snapshot_row \<Rightarrow> time" where
  "seen_at r = (case sr_event_capture_observed_at r of None \<Rightarrow> 0 | Some t \<Rightarrow> t)"

text \<open>The row comparison of the statement.\<close>

definition row_key :: "snapshot_row \<Rightarrow> time \<times> time \<times> time \<times> string" where
  "row_key r = (seen_at r, sr_collected_at r, sr_created_at r, sr_snapshot_id r)"

text \<open>\<^verbatim>\<open>datetime.fromtimestamp(ms / 1_000)\<close> rounds to microseconds.\<close>

definition from_ms :: "int \<Rightarrow> time" where
  "from_ms m = m * 1000"

definition rows_before :: "string \<Rightarrow> timeline_window \<Rightarrow> string \<Rightarrow> snapshot_row list \<Rightarrow> snapshot_row list" where
  "rows_before ws w c table =
     filter (\<lambda>r. sr_workspace_id r = ws \<and> sr_cluster_id r = c \<and> timeline_coverage_snapshot_clause r \<and>
                 sql_less (sr_event_capture_observed_at r) (from_ms (tw_from_ms w))) table"

definition latest_recovery ::
    "(json \<Rightarrow> string) \<Rightarrow> string \<Rightarrow> timeline_window \<Rightarrow> string \<Rightarrow> snapshot_row list \<Rightarrow> snapshot_row option" where
  "latest_recovery pg ws w c table =
     (case rev (sort_key row_key
        (filter (\<lambda>r. capture_recovery_clause pg (sr_event_capture r)) (rows_before ws w c table))) of
        [] \<Rightarrow> None
      | r # _ \<Rightarrow> Some r)"

definition after_latest_recovery :: "snapshot_row option \<Rightarrow> snapshot_row \<Rightarrow> bool" where
  "after_latest_recovery latest r = (case latest of None \<Rightarrow> True | Some l \<Rightarrow> row_key l < row_key r)"

definition opening_gap ::
    "(json \<Rightarrow> string) \<Rightarrow> string \<Rightarrow> timeline_window \<Rightarrow> string \<Rightarrow> snapshot_row list \<Rightarrow> snapshot_row list" where
  "opening_gap pg ws w c table =
     take 1 (sort_key row_key
       (filter (\<lambda>r. capture_gap_clause pg (sr_event_capture r) \<and>
                    after_latest_recovery (latest_recovery pg ws w c table) r)
          (rows_before ws w c table)))"

definition window_rows ::
    "string \<Rightarrow> timeline_window \<Rightarrow> string list \<Rightarrow> snapshot_row list \<Rightarrow> snapshot_row list" where
  "window_rows ws w clusters table =
     filter (\<lambda>r. sr_workspace_id r = ws \<and> sr_cluster_id r \<in> set clusters \<and>
                 timeline_coverage_snapshot_clause r \<and>
                 sql_ge (sr_event_capture_observed_at r) (from_ms (tw_from_ms w)) \<and>
                 sql_less (sr_event_capture_observed_at r) (from_ms (tw_to_ms w))) table"

definition timeline_coverage_statement ::
    "(json \<Rightarrow> string) \<Rightarrow> string \<Rightarrow> timeline_window \<Rightarrow> string list \<Rightarrow> snapshot_row list \<Rightarrow> snapshot_row list" where
  "timeline_coverage_statement pg ws w clusters table =
     sort_key (\<lambda>r. (sr_cluster_id r, row_key r))
       (concat (map (\<lambda>c. opening_gap pg ws w c table) clusters) @ window_rows ws w clusters table)"

definition coverage_clusters :: "read_scope \<Rightarrow> string list" where
  "coverage_clusters rs = sort (remdups (filter (\<lambda>c. c \<noteq> []) (map py_strip (rs_event_cluster_ids rs))))"

definition TIMELINE_COVERAGE_RESPONSE_LIMIT :: int where
  "TIMELINE_COVERAGE_RESPONSE_LIMIT = 256"

definition snapshot_timeline_coverage ::
    "clock_text \<Rightarrow> (json \<Rightarrow> string) \<Rightarrow> read_scope \<Rightarrow> string \<Rightarrow> timeline_window \<Rightarrow> snapshot_row list
      \<Rightarrow> coverage_error + timeline_coverage list" where
  "snapshot_timeline_coverage ct pg rs workspace_id w table =
     (let clusters = coverage_clusters rs; ws = py_strip workspace_id in
      if clusters = [] \<or> ws = [] then Inr []
      else project_coverage ct rs w (Some TIMELINE_COVERAGE_RESPONSE_LIMIT) True
             (map snapshot_of_row (timeline_coverage_statement pg ws w clusters table)))"

section \<open>The two classifications of a stored capture agree\<close>

text \<open>
  A row as the writer leaves it: the capture is a projection that reads back as itself, the
  column holds its time, and its coverage proof is in the form collectors send, with counts as
  integers and texts without surrounding white space.
\<close>

definition plain_text :: "json option \<Rightarrow> bool" where
  "plain_text v = (case v of None \<Rightarrow> True | Some JNull \<Rightarrow> True | Some (JStr s) \<Rightarrow> py_strip s = s | _ \<Rightarrow> False)"

definition plain_count :: "json option \<Rightarrow> bool" where
  "plain_count v = (case v of None \<Rightarrow> True | Some JNull \<Rightarrow> True | Some (JInt _) \<Rightarrow> True | _ \<Rightarrow> False)"

definition row_capture :: "clock_text \<Rightarrow> snapshot_row \<Rightarrow> event_capture" where
  "row_capture ct r =
     capture_from_snapshot_summary ct
       [(''kubernetes_event_capture'', case sr_event_capture r of None \<Rightarrow> JNull | Some e \<Rightarrow> e)]"

definition stored_row :: "clock_text \<Rightarrow> (time \<Rightarrow> string) \<Rightarrow> snapshot_row \<Rightarrow> bool" where
  "stored_row ct isof r \<longleftrightarrow>
     (let c = row_capture ct r; d = cap_coverage c in
      sr_event_capture r = event_capture_projection isof c \<and>
      sr_event_capture_observed_at r = cap_observed_at c \<and>
      py_strip (sr_cluster_id r) = sr_cluster_id r \<and> py_strip (sr_status r) = sr_status r \<and>
      plain_text (jget d ''scope'') \<and> plain_text (jget d ''pagination'') \<and>
      plain_text (jget d ''gap'') \<and> plain_text (jget d ''resource_version'') \<and>
      plain_count (jget d ''page_count'') \<and> plain_count (jget d ''event_count''))"

lemma dropWhile_stronger: "(\<And>x. P x \<Longrightarrow> Q x) \<Longrightarrow> dropWhile Q xs = xs \<Longrightarrow> dropWhile P xs = xs"
  using length_dropWhile_le [of Q "tl xs"] by (cases xs) (auto split: if_splits)

lemma is_space_blank: "is_blank c \<Longrightarrow> is_space c"
  by (simp add: is_blank_def is_space_def)

lemma btrim_stripped:
  assumes "py_strip s = s"
  shows "btrim (Some s) = Some s"
proof -
  have len: "length (dropWhile is_space (rev (dropWhile is_space s))) = length s"
    using assms by (metis length_rev py_strip_def)
  moreover have "length (dropWhile is_space (rev (dropWhile is_space s))) \<le> length (dropWhile is_space s)"
    using length_dropWhile_le [of is_space "rev (dropWhile is_space s)"] by simp
  ultimately have "length (dropWhile is_space s) = length s"
    using length_dropWhile_le [of is_space s] by simp
  then have front: "dropWhile is_space s = s"
    by (metis append_same_eq append_eq_append_conv takeWhile_dropWhile_id append_Nil)
  then have rear: "dropWhile is_space (rev s) = rev s"
    using assms by (metis py_strip_def rev_rev_ident)
  show ?thesis
    using dropWhile_stronger [OF is_space_blank front] dropWhile_stronger [OF is_space_blank rear]
    by (simp add: btrim_def)
qed

lemma dropWhile_all_gone: "\<forall>c \<in> set (dropWhile P s). P c \<Longrightarrow> dropWhile P s = []"
  by (cases "dropWhile P s") (auto simp: dropWhile_eq_Cons_conv)

lemma btrim_not_blank:
  assumes "py_strip s \<noteq> []"
  shows "not_blank (btrim (Some s))"
proof (rule ccontr)
  assume "\<not> not_blank (btrim (Some s))"
  then have "dropWhile is_blank (rev (dropWhile is_blank s)) = []"
    by (simp add: not_blank_def btrim_def)
  then have "\<forall>c \<in> set (dropWhile is_blank s). is_blank c"
    by (simp add: dropWhile_eq_Nil_conv)
  then have "dropWhile is_blank s = []"
    by (rule dropWhile_all_gone)
  then have "\<forall>c \<in> set s. is_space c"
    by (auto simp: dropWhile_eq_Nil_conv is_space_blank)
  then have "dropWhile is_space s = []"
    by (simp add: dropWhile_eq_Nil_conv)
  with assms show False by (simp add: py_strip_def)
qed

lemma is_digit_char_of: "n < 10 \<Longrightarrow> is_digit (char_of (48 + n :: nat))"
  by (auto simp: is_digit_def Let_def)

lemma digit_not_zero: "0 < n \<Longrightarrow> n < 10 \<Longrightarrow> char_of (48 + n :: nat) \<noteq> CHR ''0''"
proof
  assume n: "0 < n" "n < 10" and "char_of (48 + n) = CHR ''0''"
  then have "(of_char (char_of (48 + n :: nat)) :: nat) = of_char (CHR ''0'')"
    by (simp only:)
  with n show False by simp
qed

lemma char_of_zero_digit [simp]: "char_of (48 :: nat) = CHR ''0''"
  by code_simp

lemma nat_digits_shape:
  "n > 0 \<Longrightarrow> (\<exists>c cs. nat_digits n = c # cs \<and> is_digit c \<and> c \<noteq> CHR ''0'' \<and> list_all is_digit cs)"
proof (induction n rule: nat_digits.induct)
  case (1 n)
  show ?case
  proof (cases "n < 10")
    case True
    with 1(2) show ?thesis
      by (simp add: nat_digits.simps [of n] is_digit_char_of digit_not_zero)
  next
    case False
    then have "0 < n div 10" by (simp add: div_greater_zero_iff)
    with False obtain c cs where "nat_digits (n div 10) = c # cs" "is_digit c" "c \<noteq> CHR ''0''" "list_all is_digit cs"
      using 1(1) by auto
    with False show ?thesis
      by (simp add: nat_digits.simps [of n] is_digit_char_of)
  qed
qed

lemma minus_not_digit [simp]: "\<not> is_digit (CHR ''-'')"
  by (simp add: is_digit_def)

lemma matches_positive_int [simp]: "matches_positive (Some (int_text n)) \<longleftrightarrow> 1 \<le> n"
proof -
  consider "n < 0" | "n = 0" | "0 < n" by linarith
  then show ?thesis
  proof cases
    case 1
    then show ?thesis by (simp add: int_text_def matches_positive_def)
  next
    case 2
    then show ?thesis by (simp add: int_text_def nat_digits.simps matches_positive_def)
  next
    case 3
    with nat_digits_shape [of "nat n"] show ?thesis
      by (auto simp: int_text_def matches_positive_def)
  qed
qed

lemma matches_nonnegative_int [simp]: "matches_nonnegative (Some (int_text n)) \<longleftrightarrow> 0 \<le> n"
proof -
  consider "n < 0" | "n = 0" | "0 < n" by linarith
  then show ?thesis
  proof cases
    case 1
    then have "int_text n \<noteq> ''0''" by (simp add: int_text_def)
    with 1 show ?thesis unfolding matches_nonnegative_def by simp
  next
    case 2
    then show ?thesis by (simp add: matches_nonnegative_def int_text_def nat_digits.simps)
  next
    case 3
    then show ?thesis unfolding matches_nonnegative_def by simp
  qed
qed

lemma jsonb_get_obj [simp]: "jsonb_get (Some (JObj d)) k = jget d k"
  by (simp add: jsonb_get_def)

lemma jget_Cons: "jget ((k, v) # d) k' = (if k = k' then Some v else jget d k')"
  by (simp add: jget_def)

lemma stored_row_capture:
  assumes "stored_row ct isof r" "sr_event_capture r \<noteq> None"
  obtains t e where "sr_event_capture r = Some (JObj e)"
    "sr_event_capture_observed_at r = Some t" "cap_observed_at (row_capture ct r) = Some t"
    "jget e ''complete'' = Some (JBool (cap_complete (row_capture ct r)))"
    "jget e ''truncated'' = Some (JBool (cap_truncated (row_capture ct r)))"
    "jget e ''reason'' = Some (JStr (cap_reason (row_capture ct r)))"
    "jget e ''coverage'' = Some (JObj (cap_coverage (row_capture ct r)))"
    "jsonb_get (jget e ''freshness'') ''observed_at'' = Some (JStr (isof t))"
    "jsonb_get (jget e ''freshness'') ''max_age_seconds'' =
       Some (case cap_max_age_seconds (row_capture ct r) of None \<Rightarrow> JNull | Some n \<Rightarrow> JInt n)"
    "py_strip (cap_reason (row_capture ct r)) = cap_reason (row_capture ct r)"
    "py_strip (isof t) \<noteq> []"
    "\<And>n. cap_max_age_seconds (row_capture ct r) = Some n \<Longrightarrow> 1 \<le> n"
proof -
  let ?c = "row_capture ct r"
  obtain t where t: "cap_observed_at ?c = Some t" and e: "sr_event_capture r = event_capture_projection isof ?c"
    and col: "sr_event_capture_observed_at r = Some t"
    using assms by (auto simp: stored_row_def Let_def event_capture_projection_def split: option.splits)
  define e' where "e' = [(''complete'', JBool (cap_complete ?c)),
           (''truncated'', JBool (cap_truncated ?c)),
           (''reason'', JStr (cap_reason ?c)),
           (''freshness'', JObj
             [(''observed_at'', JStr (isof t)),
              (''max_age_seconds'', case cap_max_age_seconds ?c of None \<Rightarrow> JNull | Some n \<Rightarrow> JInt n)]),
           (''coverage'', JObj (cap_coverage ?c))]"
  have e_eq: "sr_event_capture r = Some (JObj e')"
    using e t by (simp add: event_capture_projection_def e'_def)
  have get: "jget e' ''complete'' = Some (JBool (cap_complete ?c))"
    "jget e' ''truncated'' = Some (JBool (cap_truncated ?c))"
    "jget e' ''reason'' = Some (JStr (cap_reason ?c))"
    "jget e' ''coverage'' = Some (JObj (cap_coverage ?c))"
    "jget e' ''freshness'' = Some (JObj [(''observed_at'', JStr (isof t)),
       (''max_age_seconds'', case cap_max_age_seconds ?c of None \<Rightarrow> JNull | Some n \<Rightarrow> JInt n)])"
    by (simp_all add: jget_def e'_def)
  have again: "?c = \<lparr>cap_complete = cap_complete ?c, cap_truncated = cap_truncated ?c,
      cap_reason = normalized_text ct (jget e' ''reason''),
      cap_observed_at = parse_timestamp ct (Some (JStr (isof t))),
      cap_max_age_seconds = positive_int (Some (case cap_max_age_seconds ?c of None \<Rightarrow> JNull | Some n \<Rightarrow> JInt n)),
      cap_coverage = cap_coverage ?c\<rparr>"
  proof -
    have "?c = capture_from_snapshot_summary ct [(''kubernetes_event_capture'', JObj e')]"
      by (subst row_capture_def) (simp add: e_eq)
    also have "\<dots> = \<lparr>cap_complete = cap_complete ?c, cap_truncated = cap_truncated ?c,
      cap_reason = normalized_text ct (jget e' ''reason''),
      cap_observed_at = parse_timestamp ct (Some (JStr (isof t))),
      cap_max_age_seconds = positive_int (Some (case cap_max_age_seconds ?c of None \<Rightarrow> JNull | Some n \<Rightarrow> JInt n)),
      cap_coverage = cap_coverage ?c\<rparr>"
      by (simp add: capture_from_snapshot_summary_def get object_or_empty_def Let_def jget_Cons)
    finally show ?thesis .
  qed
  have reason: "cap_reason ?c = py_strip (cap_reason ?c)"
    by (subst again) (simp add: normalized_text_def get py_str_def)
  have "parse_timestamp ct (Some (JStr (isof t))) = Some t"
    using t by (subst (asm) again) simp
  then have blank: "py_strip (isof t) \<noteq> []"
    by (auto simp: parse_timestamp_def split: if_splits)
  have age: "1 \<le> n" if "cap_max_age_seconds ?c = Some n" for n
  proof -
    have "cap_max_age_seconds ?c =
        positive_int (Some (case cap_max_age_seconds ?c of None \<Rightarrow> JNull | Some n \<Rightarrow> JInt n))"
      by (subst again) simp
    with that show ?thesis by (simp add: positive_int_def split: if_splits)
  qed
  show thesis
    by (rule that [OF e_eq col t get(1-4) _ _ reason [symmetric] blank age])
      (simp_all add: get(5) jget_Cons)
qed

lemma astext_plain: "plain_text v \<Longrightarrow> astext pg v = Some s \<longleftrightarrow> v = Some (JStr s)"
  by (auto simp: plain_text_def astext_def split: option.splits json.splits)

lemma astext_str [simp]: "astext pg (Some (JStr s)) = Some s"
  by (simp add: astext_def)

lemma astext_bool [simp]: "astext pg (Some (JBool b)) = Some (if b then ''true'' else ''false'')"
  by (simp add: astext_def)

lemma astext_int [simp]: "astext pg (Some (JInt n)) = Some (int_text n)"
  by (simp add: astext_def)

lemma astext_null [simp]: "astext pg (Some JNull) = None" "astext pg None = None"
  by (simp_all add: astext_def)

lemma matches_positive_None [simp]: "\<not> matches_positive None"
  by (simp add: matches_positive_def)

lemma gap_clause_agrees:
  assumes "stored_row ct isof r" "sr_event_capture r \<noteq> None"
  shows "capture_gap_clause pg (sr_event_capture r) \<longleftrightarrow> is_explicit_gap ct (row_capture ct r)"
proof -
  from assms obtain t e where e: "sr_event_capture r = Some (JObj e)"
    and f: "jget e ''complete'' = Some (JBool (cap_complete (row_capture ct r)))"
    "jget e ''truncated'' = Some (JBool (cap_truncated (row_capture ct r)))"
    "jget e ''reason'' = Some (JStr (cap_reason (row_capture ct r)))"
    "jget e ''coverage'' = Some (JObj (cap_coverage (row_capture ct r)))"
    "jsonb_get (jget e ''freshness'') ''observed_at'' = Some (JStr (isof t))"
    and reason: "py_strip (cap_reason (row_capture ct r)) = cap_reason (row_capture ct r)"
    and blank: "py_strip (isof t) \<noteq> []"
    by (rule stored_row_capture) blast
  let ?d = "cap_coverage (row_capture ct r)"
  have plain: "plain_text (jget ?d ''scope'')" "plain_text (jget ?d ''pagination'')" "plain_text (jget ?d ''gap'')"
    using assms(1) by (simp_all add: stored_row_def Let_def)
  from plain(3) have gap: "(not_blank (btrim (astext pg (jget ?d ''gap''))) \<and>
      Some (cap_reason (row_capture ct r)) = btrim (astext pg (jget ?d ''gap''))) \<longleftrightarrow>
      (normalized_text ct (jget ?d ''gap'') \<noteq> [] \<and>
       cap_reason (row_capture ct r) = normalized_text ct (jget ?d ''gap''))"
    by (auto simp: plain_text_def normalized_text_def astext_def py_str_def not_blank_def btrim_stripped
        split: option.splits json.splits) (simp_all add: btrim_def)
  show ?thesis
    using gap by (auto simp: capture_gap_clause_def is_explicit_gap_def e f Let_def jsonb_is_boolean_def
        astext_plain [OF plain(1)] astext_plain [OF plain(2)] btrim_not_blank [OF blank] btrim_stripped [OF reason])
qed

lemma recovery_clause_agrees:
  assumes "stored_row ct isof r" "sr_event_capture r \<noteq> None"
  shows "capture_recovery_clause pg (sr_event_capture r) \<longleftrightarrow> is_proven_recovery ct (row_capture ct r)"
proof -
  from assms obtain t e where e: "sr_event_capture r = Some (JObj e)"
    and t: "cap_observed_at (row_capture ct r) = Some t"
    and f: "jget e ''complete'' = Some (JBool (cap_complete (row_capture ct r)))"
    "jget e ''truncated'' = Some (JBool (cap_truncated (row_capture ct r)))"
    "jget e ''reason'' = Some (JStr (cap_reason (row_capture ct r)))"
    "jget e ''coverage'' = Some (JObj (cap_coverage (row_capture ct r)))"
    "jsonb_get (jget e ''freshness'') ''observed_at'' = Some (JStr (isof t))"
    "jsonb_get (jget e ''freshness'') ''max_age_seconds'' =
       Some (case cap_max_age_seconds (row_capture ct r) of None \<Rightarrow> JNull | Some n \<Rightarrow> JInt n)"
    and reason: "py_strip (cap_reason (row_capture ct r)) = cap_reason (row_capture ct r)"
    and blank: "py_strip (isof t) \<noteq> []"
    by (rule stored_row_capture) blast
  let ?d = "cap_coverage (row_capture ct r)"
  have plain: "plain_text (jget ?d ''scope'')" "plain_text (jget ?d ''pagination'')"
    "plain_text (jget ?d ''gap'')" "plain_text (jget ?d ''resource_version'')"
    "plain_count (jget ?d ''page_count'')" "plain_count (jget ?d ''event_count'')"
    using assms(1) by (simp_all add: stored_row_def Let_def)
  have age: "matches_positive (astext pg (Some (case cap_max_age_seconds (row_capture ct r) of None \<Rightarrow> JNull | Some n \<Rightarrow> JInt n)))
      \<longleftrightarrow> (case cap_max_age_seconds (row_capture ct r) of None \<Rightarrow> False | Some n \<Rightarrow> 0 < n)"
    by (cases "cap_max_age_seconds (row_capture ct r)") auto
  have gap: "(astext pg (jget ?d ''gap'') = None \<or> astext pg (jget ?d ''gap'') = Some []) \<longleftrightarrow>
      (case jget ?d ''gap'' of None \<Rightarrow> True | Some g \<Rightarrow> \<not> py_truthy g)"
    using plain(3) by (auto simp: plain_text_def astext_def py_truthy_def split: option.splits json.splits)
  have version: "not_blank (btrim (astext pg (jget ?d ''resource_version''))) \<longleftrightarrow>
      normalized_text ct (jget ?d ''resource_version'') \<noteq> []"
    using plain(4) by (auto simp: plain_text_def normalized_text_def astext_def py_str_def not_blank_def btrim_stripped
        split: option.splits json.splits) (simp_all add: btrim_def)
  have pages: "matches_positive (astext pg (jget ?d ''page_count'')) \<longleftrightarrow> positive_int (jget ?d ''page_count'') \<noteq> None"
    using plain(5) by (auto simp: plain_count_def positive_int_def split: option.splits json.splits)
  have events: "jsonb_is_number (jget ?d ''event_count'') \<and> matches_nonnegative (astext pg (jget ?d ''event_count''))
      \<longleftrightarrow> exact_nonnegative_int (jget ?d ''event_count'') \<noteq> None"
    using plain(6) by (auto simp: plain_count_def exact_nonnegative_int_def jsonb_is_number_def
        split: option.splits json.splits)
  show ?thesis
    using gap version pages events age
    by (auto simp: capture_recovery_clause_def is_proven_recovery_def authoritative_def e f t Let_def jsonb_is_boolean_def
        astext_plain [OF plain(1)] astext_plain [OF plain(2)] btrim_not_blank [OF blank] btrim_stripped [OF reason])
qed

section \<open>Gaps of a history cut before the window\<close>

text \<open>What is still open after a list of observations: the first failure after the last recovery.\<close>

fun open_after :: "time option \<Rightarrow> capture_observation list \<Rightarrow> time option" where
  "open_after opened [] = opened"
| "open_after opened (ob # obs) =
     (if ob_state ob = Gap
      then open_after (Some (case opened of None \<Rightarrow> ob_observed_at ob | Some a \<Rightarrow> a)) obs
      else case opened of
        None \<Rightarrow> open_after None obs
      | Some a \<Rightarrow> if ob_observed_at ob \<le> a then open_after opened obs else open_after None obs)"

lemma gaps_closed_append:
  "gaps_closed opened (xs @ ys) = gaps_closed opened xs @ gaps_closed (open_after opened xs) ys"
  by (induction opened xs rule: open_after.induct) (auto split: option.splits)

lemma open_after_append: "open_after opened (xs @ ys) = open_after (open_after opened xs) ys"
  by (induction opened xs rule: open_after.induct) (auto split: option.splits)

definition since_recovery :: "capture_observation list \<Rightarrow> capture_observation list" where
  "since_recovery obs = rev (takeWhile (\<lambda>ob. ob_state ob = Gap) (rev obs))"

lemma since_recovery_snoc [simp]:
  "since_recovery (obs @ [ob]) = (if ob_state ob = Gap then since_recovery obs @ [ob] else [])"
  by (simp add: since_recovery_def)

lemma since_recovery_Nil [simp]: "since_recovery [] = []"
  by (simp add: since_recovery_def)

lemma since_recovery_gaps: "ob \<in> set (since_recovery obs) \<Longrightarrow> ob \<in> set obs \<and> ob_state ob = Gap"
  by (auto simp: since_recovery_def dest: set_takeWhileD)

lemma open_after_since_recovery:
  "sorted (map ob_observed_at obs) \<Longrightarrow> times Gap obs \<inter> times Recovery obs = {} \<Longrightarrow>
   open_after None obs = (case since_recovery obs of [] \<Rightarrow> None | ob # _ \<Rightarrow> Some (ob_observed_at ob))"
proof (induction obs rule: rev_induct)
  case (snoc ob obs)
  have IH: "open_after None obs = (case since_recovery obs of [] \<Rightarrow> None | ob # _ \<Rightarrow> Some (ob_observed_at ob))"
    using snoc by (auto simp: sorted_append times_def)
  show ?case
  proof (cases "since_recovery obs")
    case Nil
    with IH show ?thesis by (simp add: open_after_append)
  next
    case (Cons o' os)
    then have o': "o' \<in> set obs" "ob_state o' = Gap"
      using since_recovery_gaps [of o' obs] by auto
    then have "ob_observed_at o' \<le> ob_observed_at ob"
      using snoc.prems(1) by (auto simp: sorted_append)
    moreover have "ob_observed_at o' \<noteq> ob_observed_at ob" if "ob_state ob = Recovery"
      using snoc.prems(2) o' that by (auto simp: times_def)
    ultimately show ?thesis
      using IH Cons by (cases "ob_state ob") (auto simp: open_after_append)
  qed
qed simp

lemma gaps_closed_recoveries:
  "(a, b) \<in> set (gaps_closed opened obs) \<Longrightarrow> b \<in> times Recovery obs"
  by (induction opened obs rule: gaps_closed.induct) (auto split: if_splits option.splits capture_state.splits intro: capture_state.exhaust)

lemma cut_history:
  assumes sorted: "sorted (map ob_observed_at P)" and ties: "times Gap P \<inter> times Recovery P = {}"
    and old: "\<And>ob. ob \<in> set P \<Longrightarrow> ct_milliseconds ct (ob_observed_at ob) \<le> tw_from_ms w"
  shows "concat (map (gap_intervals ct rs w) (map (Pair c) (gaps_closed None (P @ Q)))) =
     concat (map (gap_intervals ct rs w) (map (Pair c) (gaps_closed None (take 1 (since_recovery P) @ Q))))"
proof -
  have none: "gap_intervals ct rs w (c, a, b) = []" if "(a, b) \<in> set (gaps_closed None P)" for a b
  proof -
    have "b \<in> times Recovery P" by (rule gaps_closed_recoveries [OF that])
    then have "ct_milliseconds ct b \<le> tw_from_ms w" using old by (auto simp: times_def)
    then show ?thesis by (simp add: gap_intervals_def intersects_window_def Let_def)
  qed
  then have "concat (map (gap_intervals ct rs w) (map (Pair c) (gaps_closed None P))) = []"
    by auto
  moreover have "gaps_closed None (take 1 (since_recovery P) @ Q) = gaps_closed (open_after None P) Q"
    using open_after_since_recovery [OF sorted ties] since_recovery_gaps [of "hd (since_recovery P)" P]
    by (cases "since_recovery P") auto
  ultimately show ?thesis
    by (simp add: gaps_closed_append)
qed

section \<open>The statement reads a cut history\<close>

definition row_observation ::
    "clock_text \<Rightarrow> read_scope \<Rightarrow> timeline_window \<Rightarrow> snapshot_row \<Rightarrow> capture_observation option" where
  "row_observation ct rs w r = snapshot_observation ct rs w (snapshot_of_row r)"

lemma row_observation_eq:
  assumes "stored_row ct isof r" "timeline_coverage_snapshot_clause r"
  shows "row_observation ct rs w r =
     (if authorized_scopes rs (sr_cluster_id r) = None \<or> ct_milliseconds ct (seen_at r) \<ge> tw_to_ms w then None
      else if is_explicit_gap ct (row_capture ct r)
      then Some \<lparr>ob_cluster_id = sr_cluster_id r, ob_observed_at = seen_at r, ob_state = Gap\<rparr>
      else if is_proven_recovery ct (row_capture ct r)
      then Some \<lparr>ob_cluster_id = sr_cluster_id r, ob_observed_at = seen_at r, ob_state = Recovery\<rparr>
      else None)"
proof -
  have strip: "py_strip (sr_cluster_id r) = sr_cluster_id r" "py_strip (sr_status r) = sr_status r"
    using assms(1) by (simp_all add: stored_row_def Let_def)
  have e: "sr_event_capture r \<noteq> None" "sr_status r \<noteq> ''ignored_stale''"
    using assms(2) by (simp_all add: timeline_coverage_snapshot_clause_def)
  obtain t where t: "sr_event_capture_observed_at r = Some t" "cap_observed_at (row_capture ct r) = Some t"
    using assms(1) e(1) by (rule stored_row_capture)
  then have "seen_at r = t" by (simp add: seen_at_def)
  with strip e t show ?thesis
    by (simp add: row_observation_def snapshot_observation_def snapshot_of_row_def jget_Cons normalized_text_def
        py_str_def row_capture_def Let_def)
qed

lemma map_filter_simps' [simp]:
  "List.map_filter f [] = []"
  "List.map_filter f (x # xs) = (case f x of None \<Rightarrow> List.map_filter f xs | Some y \<Rightarrow> y # List.map_filter f xs)"
  "List.map_filter f (xs @ ys) = List.map_filter f xs @ List.map_filter f ys"
  by (simp_all add: List.map_filter_def split: option.splits)

lemma observed_rows: "observed ct rs w (map snapshot_of_row rows) = List.map_filter (row_observation ct rs w) rows"
  unfolding observed_def by (induction rows) (auto simp: row_observation_def split: option.splits)

text \<open>The condition of the statement picks the failures after the latest recovery.\<close>

lemma opening_candidates:
  assumes "sorted_wrt (\<lambda>x y. (key x :: 'k :: linorder) < key y) P"
    and "\<And>x. x \<in> set P \<Longrightarrow> f x = (if g x then Some (gap x) else if r x then Some (recovery x) else None)"
    and "\<And>x. x \<in> set P \<Longrightarrow> \<not> (g x \<and> r x)"
    and "\<And>x. ob_state (gap x) = Gap \<and> ob_state (recovery x) = Recovery"
  shows "map gap (filter (\<lambda>x. g x \<and> (case rev (filter r P) of [] \<Rightarrow> True | l # _ \<Rightarrow> key l < key x)) P) =
     since_recovery (List.map_filter f P)"
  using assms(1-3)
proof (induction P rule: rev_induct)
  case (snoc x P)
  have below: "\<forall>y \<in> set P. key y < key x"
    using snoc.prems(1) by (simp add: sorted_wrt_append)
  have IH: "map gap (filter (\<lambda>x. g x \<and> (case rev (filter r P) of [] \<Rightarrow> True | l # _ \<Rightarrow> key l < key x)) P) =
      since_recovery (List.map_filter f P)"
    using snoc by (simp add: sorted_wrt_append)
  have fx: "f x = (if g x then Some (gap x) else if r x then Some (recovery x) else None)" and not_both: "\<not> (g x \<and> r x)"
    using snoc.prems(2,3) by auto
  consider "g x" "\<not> r x" | "r x" "\<not> g x" | "\<not> g x" "\<not> r x"
    using not_both by blast
  then show ?case
  proof cases
    case 1
    have "case rev (filter r P) of [] \<Rightarrow> True | l # _ \<Rightarrow> key l < key x"
    proof (cases "rev (filter r P)")
      case (Cons l ls)
      then have "l \<in> set (rev (filter r P))" by (simp only: list.set_intros)
      then have "l \<in> set P" by simp
      with below Cons show ?thesis by simp
    qed simp
    with 1 IH fx assms(4) show ?thesis by simp
  next
    case 2
    have "filter (\<lambda>y. g y \<and> key x < key y) P = []"
      using below by (auto simp: filter_empty_conv)
    with 2 fx assms(4) show ?thesis by simp
  next
    case 3
    with IH fx show ?thesis by simp
  qed
qed simp

lemma sort_key_same_class:
  assumes "\<And>x. x \<in> set xs \<Longrightarrow> c x = k" "inj_on key (set xs)"
  shows "sort_key (\<lambda>x. (c x :: 'c :: linorder, key x :: 'k :: linorder)) xs = sort_key key xs"
proof (rule sort_key_inj_key_eq)
  show "inj_on (\<lambda>x. (c x, key x)) (set xs)"
    using assms(2) by (auto simp: inj_on_def)
  have "sorted_wrt (\<lambda>x y. key x \<le> key y) (sort_key key xs)"
    using sorted_sort_key [of key xs] by (simp only: sorted_map)
  then have "sorted_wrt (\<lambda>x y. (c x, key x) \<le> (c y, key y)) (sort_key key xs)"
    by (rule sorted_wrt_mono_rel [rotated]) (simp add: assms(1))
  then show "sorted (map (\<lambda>x. (c x, key x)) (sort_key key xs))"
    by (simp only: sorted_map)
qed simp

lemma sort_key_split:
  assumes "inj_on key (set (xs @ ys))" "\<And>x y. x \<in> set xs \<Longrightarrow> y \<in> set ys \<Longrightarrow> key x < (key y :: 'k :: linorder)"
  shows "sort_key key (xs @ ys) = sort_key key xs @ sort_key key ys"
proof (rule sort_key_inj_key_eq [OF _ assms(1)])
  show "sorted (map key (sort_key key xs @ sort_key key ys))"
    using assms(2) by (auto simp: sorted_append intro: less_imp_le)
qed simp

lemma sort_key_strict:
  assumes "inj_on key (set xs)" "distinct xs"
  shows "sorted_wrt (\<lambda>x y. key x < (key y :: 'k :: linorder)) (sort_key key xs)"
proof -
  have "distinct (map key (sort_key key xs))"
    using assms by (simp add: distinct_map)
  then have "sorted_wrt (<) (map key (sort_key key xs))"
    by (simp add: strict_sorted_iff)
  then show ?thesis by (simp add: sorted_wrt_map)
qed

text \<open>The rows a read of the whole history would go through.\<close>

definition timeline_coverage_history ::
    "string \<Rightarrow> timeline_window \<Rightarrow> string list \<Rightarrow> snapshot_row list \<Rightarrow> snapshot_row list" where
  "timeline_coverage_history ws w clusters table =
     sort_key (\<lambda>r. (sr_cluster_id r, row_key r))
       (filter (\<lambda>r. sr_workspace_id r = ws \<and> sr_cluster_id r \<in> set clusters \<and>
                    timeline_coverage_snapshot_clause r \<and>
                    sql_less (sr_event_capture_observed_at r) (from_ms (tw_to_ms w))) table)"

lemma inj_row_key: "unique_key sr_snapshot_id table \<Longrightarrow> A \<subseteq> set table \<Longrightarrow> inj_on row_key A"
  by (auto simp: inj_on_def row_key_def dest: unique_keyD)

lemma distinct_table: "unique_key sr_snapshot_id table \<Longrightarrow> distinct table"
  by (simp add: unique_key_def distinct_map)

definition window_of :: "string \<Rightarrow> timeline_window \<Rightarrow> string list \<Rightarrow> string \<Rightarrow> snapshot_row list \<Rightarrow> snapshot_row list" where
  "window_of ws w clusters c table = filter (\<lambda>r. sr_cluster_id r = c) (window_rows ws w clusters table)"

lemma seen_before: "r \<in> set (rows_before ws w c table) \<Longrightarrow> seen_at r < from_ms (tw_from_ms w)"
  by (auto simp: rows_before_def sql_less_def seen_at_def split: option.splits)

lemma seen_in_window: "r \<in> set (window_of ws w clusters c table) \<Longrightarrow> from_ms (tw_from_ms w) \<le> seen_at r"
  by (auto simp: window_of_def window_rows_def sql_ge_def seen_at_def split: option.splits)

lemma history_of_cluster:
  assumes "unique_key sr_snapshot_id table" "c \<in> set clusters" "tw_from_ms w < tw_to_ms w"
  shows "filter (\<lambda>r. sr_cluster_id r = c) (timeline_coverage_history ws w clusters table) =
     sort_key row_key (rows_before ws w c table) @ sort_key row_key (window_of ws w clusters c table)"
proof -
  let ?X = "filter (\<lambda>r. sr_workspace_id r = ws \<and> sr_cluster_id r = c \<and> timeline_coverage_snapshot_clause r \<and>
                    sql_less (sr_event_capture_observed_at r) (from_ms (tw_to_ms w))) table"
  let ?old = "\<lambda>r. sql_less (sr_event_capture_observed_at r) (from_ms (tw_from_ms w))"
  have "filter (\<lambda>r. sr_cluster_id r = c) (timeline_coverage_history ws w clusters table) =
      sort_key (\<lambda>r. (sr_cluster_id r, row_key r)) ?X"
    using assms(2) by (auto simp: timeline_coverage_history_def filter_sort intro!: arg_cong [of _ _ "sort_key _"] filter_cong)
  also have "\<dots> = sort_key row_key ?X"
    by (rule sort_key_same_class) (auto intro: inj_row_key [OF assms(1)])
  also have "\<dots> = sort_key row_key (rows_before ws w c table) @ sort_key row_key (window_of ws w clusters c table)"
  proof (rule sort_key_inj_key_eq)
    have old: "filter ?old ?X = rows_before ws w c table"
      using assms(3) by (auto simp: rows_before_def from_ms_def sql_less_def split: option.splits intro!: filter_cong)
    have new: "filter (\<lambda>r. \<not> ?old r) ?X = window_of ws w clusters c table"
      using assms(2) by (auto simp: window_of_def window_rows_def sql_less_def sql_ge_def split: option.splits intro!: filter_cong)
    have "mset ?X = mset (filter ?old ?X) + mset (filter (\<lambda>r. \<not> ?old r) ?X)"
      by (metis mset_filter multiset_partition)
    then show "mset ?X = mset (sort_key row_key (rows_before ws w c table) @ sort_key row_key (window_of ws w clusters c table))"
      unfolding old new by simp
    show "inj_on row_key (set ?X)"
      by (rule inj_row_key [OF assms(1)]) auto
    have "row_key x \<le> row_key y" if "x \<in> set (rows_before ws w c table)" "y \<in> set (window_of ws w clusters c table)" for x y
      using seen_before [OF that(1)] seen_in_window [OF that(2)] by (simp add: row_key_def)
    then show "sorted (map row_key (sort_key row_key (rows_before ws w c table) @ sort_key row_key (window_of ws w clusters c table)))"
      by (auto simp: sorted_append)
  qed
  finally show ?thesis .
qed

lemma opening_gap_cluster: "r \<in> set (opening_gap pg ws w c table) \<Longrightarrow> r \<in> set (rows_before ws w c table)"
  by (auto simp: opening_gap_def dest: in_set_takeD)

lemma before_cluster: "r \<in> set (rows_before ws w c table) \<Longrightarrow> sr_cluster_id r = c \<and> r \<in> set table"
  by (auto simp: rows_before_def)

lemma opening_gaps_of_cluster:
  "distinct clusters \<Longrightarrow> filter (\<lambda>r. sr_cluster_id r = c) (concat (map (\<lambda>c. opening_gap pg ws w c table) clusters)) =
     (if c \<in> set clusters then opening_gap pg ws w c table else [])"
proof (induction clusters)
  case (Cons d ds)
  have "filter (\<lambda>r. sr_cluster_id r = c) (opening_gap pg ws w d table) = (if c = d then opening_gap pg ws w c table else [])"
    using opening_gap_cluster [of _ pg ws w d table] before_cluster [of _ ws w d table]
    by (auto simp: filter_id_conv filter_empty_conv)
  with Cons show ?case by auto
qed simp

lemma sort_key_short: "sort_key f (take 1 xs) = take 1 xs"
  by (cases xs) auto

lemma window_elsewhere: "c \<notin> set clusters \<Longrightarrow> window_of ws w clusters c table = []"
  by (auto simp: window_of_def window_rows_def filter_empty_conv)

lemma statement_of_cluster:
  assumes "unique_key sr_snapshot_id table" "distinct clusters"
  shows "filter (\<lambda>r. sr_cluster_id r = c) (timeline_coverage_statement pg ws w clusters table) =
     (if c \<in> set clusters then opening_gap pg ws w c table @ sort_key row_key (window_of ws w clusters c table) else [])"
proof -
  let ?O = "if c \<in> set clusters then opening_gap pg ws w c table else []"
  let ?W = "window_of ws w clusters c table"
  have inside: "set (?O @ ?W) \<subseteq> set table"
    using opening_gap_cluster [of _ pg ws w c table] before_cluster [of _ ws w c table]
    by (auto simp: window_of_def window_rows_def)
  have cluster: "sr_cluster_id r = c" if "r \<in> set (?O @ ?W)" for r
    using that opening_gap_cluster [of r pg ws w c table] before_cluster [of r ws w c table]
    by (auto simp: window_of_def split: if_splits)
  have "filter (\<lambda>r. sr_cluster_id r = c) (timeline_coverage_statement pg ws w clusters table) =
      sort_key (\<lambda>r. (sr_cluster_id r, row_key r)) (?O @ ?W)"
    by (simp add: timeline_coverage_statement_def filter_sort opening_gaps_of_cluster [OF assms(2)] window_of_def)
  also have "\<dots> = sort_key row_key (?O @ ?W)"
    by (rule sort_key_same_class [OF cluster inj_row_key [OF assms(1) inside]])
  also have "\<dots> = sort_key row_key ?O @ sort_key row_key ?W"
  proof (rule sort_key_split [OF inj_row_key [OF assms(1) inside]])
    fix x y
    assume "x \<in> set ?O" "y \<in> set ?W"
    then show "row_key x < row_key y"
      using seen_before [of x ws w c table] seen_in_window [of y ws w clusters c table] opening_gap_cluster [of x pg ws w c table]
      by (auto simp: row_key_def split: if_splits)
  qed
  also have "sort_key row_key ?O = ?O"
    unfolding opening_gap_def by (simp only: sort_key_short sort_key_simps(1) split: if_split) simp
  finally show ?thesis
    by (cases "c \<in> set clusters") (simp_all add: window_elsewhere)
qed

lemma row_observation_Some:
  assumes "stored_row ct isof r \<and> timeline_coverage_snapshot_clause r" "row_observation ct rs w r = Some ob"
  shows "ob_cluster_id ob = sr_cluster_id r" "ob_observed_at ob = seen_at r"
  using assms by (auto simp: row_observation_eq split: if_splits)

lemma in_map_filter: "y \<in> set (List.map_filter f xs) \<longleftrightarrow> (\<exists>x \<in> set xs. f x = Some y)"
  by (induction xs) (auto split: option.splits)

lemma map_filter_of_cluster:
  assumes "\<And>r. r \<in> set rows \<Longrightarrow> stored_row ct isof r \<and> timeline_coverage_snapshot_clause r"
  shows "filter (\<lambda>ob. ob_cluster_id ob = c) (List.map_filter (row_observation ct rs w) rows) =
     List.map_filter (row_observation ct rs w) (filter (\<lambda>r. sr_cluster_id r = c) rows)"
  using assms
proof (induction rows)
  case (Cons r rows)
  have "ob_cluster_id ob = sr_cluster_id r" if "row_observation ct rs w r = Some ob" for ob
    using row_observation_Some(1) [OF _ that] Cons.prems by auto
  with Cons show ?case by (auto split: option.splits)
qed simp

lemma sorted_observations:
  assumes "\<And>r. r \<in> set rows \<Longrightarrow> stored_row ct isof r \<and> timeline_coverage_snapshot_clause r"
    and "sorted (map seen_at rows)"
  shows "sorted (map ob_observed_at (List.map_filter (row_observation ct rs w) rows))"
  using assms
proof (induction rows)
  case (Cons r rows)
  have own: "ob_observed_at ob = seen_at r" if "row_observation ct rs w r = Some ob" for ob
    using row_observation_Some(2) [OF _ that] Cons.prems by auto
  have "seen_at r \<le> ob_observed_at ob" if "ob \<in> set (List.map_filter (row_observation ct rs w) rows)" for ob
  proof -
    obtain r' where r': "r' \<in> set rows" "row_observation ct rs w r' = Some ob"
      using \<open>ob \<in> _\<close> by (auto simp: in_map_filter)
    then have "stored_row ct isof r' \<and> timeline_coverage_snapshot_clause r'"
      using Cons.prems(1) by simp
    from row_observation_Some(2) [OF this r'(2)] show ?thesis
      using r'(1) Cons.prems(2) by simp
  qed
  with Cons own show ?case
    by (auto split: option.splits)
qed simp

lemma sorted_by_row_key: "sorted (map seen_at (sort_key row_key rows))"
proof -
  have "sorted_wrt (\<lambda>x y. row_key x \<le> row_key y) (sort_key row_key rows)"
    using sorted_sort_key [of row_key rows] by (simp only: sorted_map)
  then have "sorted_wrt (\<lambda>x y. seen_at x \<le> seen_at y) (sort_key row_key rows)"
    by (rule sorted_wrt_mono_rel [rotated]) (auto simp: row_key_def)
  then show ?thesis by (simp only: sorted_map)
qed

text \<open>The opening row is the first failure after the last recovery.\<close>

lemma opening_gap_observation:
  assumes "unique_key sr_snapshot_id table" "\<And>r. r \<in> set table \<Longrightarrow> stored_row ct isof r"
    and "tw_from_ms w < tw_to_ms w" "\<And>t. t < from_ms (tw_from_ms w) \<Longrightarrow> ct_milliseconds ct t \<le> tw_from_ms w"
  shows "List.map_filter (row_observation ct rs w) (opening_gap pg ws w c table) =
     take 1 (since_recovery (List.map_filter (row_observation ct rs w) (sort_key row_key (rows_before ws w c table))))"
proof -
  let ?B = "rows_before ws w c table"
  let ?P = "sort_key row_key ?B"
  let ?g = "\<lambda>r. capture_gap_clause pg (sr_event_capture r)"
  let ?r = "\<lambda>r. capture_recovery_clause pg (sr_event_capture r)"
  let ?f = "row_observation ct rs w"
  let ?ob = "\<lambda>st r. \<lparr>ob_cluster_id = sr_cluster_id r, ob_observed_at = seen_at r, ob_state = st\<rparr>"
  have row: "stored_row ct isof r" "timeline_coverage_snapshot_clause r" "sr_event_capture r \<noteq> None"
    "sr_cluster_id r = c" "ct_milliseconds ct (seen_at r) < tw_to_ms w" if "r \<in> set ?B" for r
    using that assms(2,3) assms(4) [OF seen_before [OF that]]
    by (auto simp: rows_before_def timeline_coverage_snapshot_clause_def)
  have og: "opening_gap pg ws w c table =
      take 1 (filter (\<lambda>x. ?g x \<and> (case rev (filter ?r ?P) of [] \<Rightarrow> True | l # _ \<Rightarrow> row_key l < row_key x)) ?P)"
    by (cases "rev (filter ?r ?P)")
      (simp_all add: opening_gap_def latest_recovery_def after_latest_recovery_def filter_sort [symmetric])
  show ?thesis
  proof (cases "authorized_scopes rs c")
    case None
    then have "?f r = None" if "r \<in> set ?B" for r
      using row [OF that] by (simp add: row_observation_eq)
    then have "List.map_filter ?f rows = []" if "set rows \<subseteq> set ?B" for rows
      using that by (induction rows) auto
    moreover have "set (opening_gap pg ws w c table) \<subseteq> set ?B"
      using opening_gap_cluster by blast
    ultimately show ?thesis by simp
  next
    case (Some scopes)
    have f: "?f r = (if ?g r then Some (?ob Gap r) else if ?r r then Some (?ob Recovery r) else None)"
      if "r \<in> set ?B" for r
      using row [OF that] Some by (simp add: row_observation_eq gap_clause_agrees recovery_clause_agrees)
    have excl: "\<not> (?g r \<and> ?r r)" for r
      by (auto simp: capture_gap_clause_def capture_recovery_clause_def Let_def)
    let ?C = "filter (\<lambda>x. ?g x \<and> (case rev (filter ?r ?P) of [] \<Rightarrow> True | l # _ \<Rightarrow> row_key l < row_key x)) ?P"
    have "map (?ob Gap) ?C = since_recovery (List.map_filter ?f ?P)"
    proof (rule opening_candidates [where recovery = "?ob Recovery"])
      show "sorted_wrt (\<lambda>x y. row_key x < row_key y) ?P"
        by (rule sort_key_strict) (auto simp: rows_before_def intro: inj_row_key [OF assms(1)] distinct_filter distinct_table [OF assms(1)])
    qed (use f excl in auto)
    moreover have "List.map_filter ?f rows = map (?ob Gap) rows" if "set rows \<subseteq> set ?C" for rows
      using that by (induction rows) (auto simp: f)
    ultimately show ?thesis
      unfolding og using set_take_subset [of 1 ?C] by (simp only: take_map [symmetric])
  qed
qed

section \<open>The bounded read\<close>

lemma statement_rows:
  "r \<in> set (timeline_coverage_statement pg ws w clusters table) \<Longrightarrow> r \<in> set table \<and> timeline_coverage_snapshot_clause r"
  by (auto simp: timeline_coverage_statement_def window_rows_def rows_before_def dest!: opening_gap_cluster)

lemma history_rows:
  "r \<in> set (timeline_coverage_history ws w clusters table) \<Longrightarrow>
     r \<in> set table \<and> timeline_coverage_snapshot_clause r \<and> sr_cluster_id r \<in> set clusters"
  by (auto simp: timeline_coverage_history_def)

lemma no_ties_times:
  assumes "no_ties obs" "\<And>ob. ob \<in> set xs \<Longrightarrow> ob \<in> set obs \<and> ob_cluster_id ob = c"
  shows "times Gap xs \<inter> times Recovery xs = {}"
proof (rule ccontr)
  assume "times Gap xs \<inter> times Recovery xs \<noteq> {}"
  then obtain g r where "g \<in> set xs" "r \<in> set xs" "ob_state g = Gap" "ob_state r = Recovery"
    "ob_observed_at g = ob_observed_at r"
    by (auto simp: times_def)
  moreover from this have "ob_state g = ob_state r"
    using assms unfolding no_ties_def by metis
  ultimately show False by simp
qed

lemma bounded_read_of_cluster:
  fixes c :: string and pg :: "json \<Rightarrow> string" and ct :: clock_text and rs :: read_scope and w :: timeline_window
    and table :: "snapshot_row list" and clusters :: "string list" and ws :: string
  assumes table: "unique_key sr_snapshot_id table" "\<And>r. r \<in> set table \<Longrightarrow> stored_row ct isof r"
    and w: "tw_from_ms w < tw_to_ms w" "\<And>t. t < from_ms (tw_from_ms w) \<Longrightarrow> ct_milliseconds ct t \<le> tw_from_ms w"
    and clusters: "distinct clusters"
    and ties: "no_ties (observed ct rs w (map snapshot_of_row (timeline_coverage_history ws w clusters table)))"
  defines "full \<equiv> filter (\<lambda>ob. ob_cluster_id ob = c) (observed ct rs w (map snapshot_of_row (timeline_coverage_history ws w clusters table)))"
    and "bounded \<equiv> filter (\<lambda>ob. ob_cluster_id ob = c) (observed ct rs w (map snapshot_of_row (timeline_coverage_statement pg ws w clusters table)))"
  shows "sorted (map ob_observed_at bounded)"
    and "concat (map (gap_intervals ct rs w) (map (Pair c) (gaps_closed None (sort_key ob_observed_at full)))) =
      concat (map (gap_intervals ct rs w) (map (Pair c) (gaps_closed None (sort_key ob_observed_at bounded))))"
proof -
  let ?f = "row_observation ct rs w"
  let ?B = "sort_key row_key (rows_before ws w c table)"
  let ?W = "sort_key row_key (window_of ws w clusters c table)"
  have stored: "stored_row ct isof r \<and> timeline_coverage_snapshot_clause r"
    if "r \<in> set (timeline_coverage_history ws w clusters table) \<union> set (timeline_coverage_statement pg ws w clusters table)" for r
    using that table(2) statement_rows history_rows by blast
  have full: "full = List.map_filter ?f (filter (\<lambda>r. sr_cluster_id r = c) (timeline_coverage_history ws w clusters table))"
    unfolding full_def observed_rows by (rule map_filter_of_cluster) (use stored in blast)
  have bounded: "bounded = List.map_filter ?f (filter (\<lambda>r. sr_cluster_id r = c) (timeline_coverage_statement pg ws w clusters table))"
    unfolding bounded_def observed_rows by (rule map_filter_of_cluster) (use stored in blast)
  have both: "sorted (map ob_observed_at bounded) \<and>
      concat (map (gap_intervals ct rs w) (map (Pair c) (gaps_closed None (sort_key ob_observed_at full)))) =
      concat (map (gap_intervals ct rs w) (map (Pair c) (gaps_closed None (sort_key ob_observed_at bounded))))"
  proof (cases "c \<in> set clusters")
    case False
    then have "filter (\<lambda>r. sr_cluster_id r = c) (timeline_coverage_history ws w clusters table) = []"
      by (auto simp: timeline_coverage_history_def filter_empty_conv)
    with False show ?thesis
      by (simp add: full bounded statement_of_cluster [OF table(1) clusters])
  next
    case True
    let ?OB = "List.map_filter ?f ?B" and ?OW = "List.map_filter ?f ?W"
    have full': "full = ?OB @ ?OW"
      by (simp add: full history_of_cluster [OF table(1) True w(1)])
    have bounded': "bounded = take 1 (since_recovery ?OB) @ ?OW"
      using True opening_gap_observation [OF table w, of rs pg ws c]
      by (simp add: bounded statement_of_cluster [OF table(1) clusters])
    have "sorted (map seen_at (?B @ ?W))"
      using sorted_by_row_key [of "rows_before ws w c table"] sorted_by_row_key [of "window_of ws w clusters c table"]
        seen_before [of _ ws w c table] seen_in_window [of _ ws w clusters c table]
      by (fastforce simp: sorted_append)
    then have sorted: "sorted (map ob_observed_at full)"
      unfolding full'
      using sorted_observations [of "?B @ ?W" ct isof rs w] table(2)
      by (auto simp: rows_before_def window_of_def window_rows_def)
    have inside: "set (take 1 (since_recovery ?OB)) \<subseteq> set ?OB"
      using since_recovery_gaps [of _ ?OB] by (auto dest: in_set_takeD)
    have "sorted (map ob_observed_at (take 1 (since_recovery ?OB)))"
      by (cases "since_recovery ?OB") auto
    with sorted inside have cut_sorted: "sorted (map ob_observed_at bounded)"
      unfolding full' bounded' by (auto simp: sorted_append)
    have "times Gap ?OB \<inter> times Recovery ?OB = {}"
    proof -
      have "ob \<in> set full" if "ob \<in> set ?OB" for ob
        using that by (simp add: full')
      then show ?thesis
        by (intro no_ties_times [OF ties, of _ c]) (simp add: full_def)
    qed
    moreover have "ct_milliseconds ct (ob_observed_at ob) \<le> tw_from_ms w" if "ob \<in> set ?OB" for ob
    proof -
      obtain r where r: "r \<in> set (rows_before ws w c table)" "?f r = Some ob"
        using \<open>ob \<in> set ?OB\<close> by (auto simp: in_map_filter)
      then have "stored_row ct isof r \<and> timeline_coverage_snapshot_clause r"
        using table(2) by (auto simp: rows_before_def)
      from row_observation_Some(2) [OF this r(2)] show ?thesis
        using w(2) [OF seen_before [OF r(1)]] by simp
    qed
    ultimately have "concat (map (gap_intervals ct rs w) (map (Pair c) (gaps_closed None full))) =
        concat (map (gap_intervals ct rs w) (map (Pair c) (gaps_closed None bounded)))"
      unfolding full' bounded' using sorted full' by (intro cut_history) (auto simp: sorted_append)
    with sorted cut_sorted show ?thesis
      by (simp add: sort_key_id_if_sorted)
  qed
  show "sorted (map ob_observed_at bounded)"
    and "concat (map (gap_intervals ct rs w) (map (Pair c) (gaps_closed None (sort_key ob_observed_at full)))) =
      concat (map (gap_intervals ct rs w) (map (Pair c) (gaps_closed None (sort_key ob_observed_at bounded))))"
    using both by blast+
qed

text \<open>
  Claim C19. The bounded read loses nothing: on rows as the writer leaves them, with unique
  snapshot ids and no capture of a cluster both failed and recovered at one instant, the coverage
  read from at most one row before the window and the rows inside it is the coverage of the whole
  history up to the end of the window, and the order of the statement is the one the streaming
  projection demands.
\<close>

theorem bounded_read_is_the_full_history:
  assumes "unique_key sr_snapshot_id table" "\<And>r. r \<in> set table \<Longrightarrow> stored_row ct isof r"
    and "tw_from_ms w < tw_to_ms w" "\<And>t. t < from_ms (tw_from_ms w) \<Longrightarrow> ct_milliseconds ct t \<le> tw_from_ms w"
    and "no_ties (observed ct rs w (map snapshot_of_row (timeline_coverage_history (py_strip ws) w (coverage_clusters rs) table)))"
    and "py_strip ws \<noteq> []"
  shows "snapshot_timeline_coverage ct pg rs ws w table = Inr cs \<longleftrightarrow>
     project_coverage ct rs w (Some TIMELINE_COVERAGE_RESPONSE_LIMIT) False
       (map snapshot_of_row (timeline_coverage_history (py_strip ws) w (coverage_clusters rs) table)) = Inr cs"
proof (cases "coverage_clusters rs = []")
  case True
  then show ?thesis
    by (auto simp: snapshot_timeline_coverage_def timeline_coverage_history_def project_coverage_batch
        observed_def all_gaps_def observations_by_cluster_def Let_def)
next
  case False
  let ?full = "observed ct rs w (map snapshot_of_row (timeline_coverage_history (py_strip ws) w (coverage_clusters rs) table))"
  let ?bounded = "observed ct rs w (map snapshot_of_row (timeline_coverage_statement pg (py_strip ws) w (coverage_clusters rs) table))"
  have clusters: "distinct (coverage_clusters rs)"
    by (simp add: coverage_clusters_def)
  note per_cluster = bounded_read_of_cluster [OF assms(1-4) clusters assms(5), of _ pg]
  have order: "in_order Map.empty ?bounded"
    using per_cluster(1) by (simp add: in_order_sorted sorted_since_def)
  have same: "filter (\<lambda>i. sc_cluster_id (tc_scope i) = c) (concat (map (gap_intervals ct rs w) (all_gaps ?bounded))) =
      filter (\<lambda>i. sc_cluster_id (tc_scope i) = c) (concat (map (gap_intervals ct rs w) (all_gaps ?full)))" for c
    unfolding filter_gap_intervals all_gaps_def grouped_gaps_of_cluster by (rule per_cluster(2) [symmetric])
  have fit: "fits limit 0 (concat (map (gap_intervals ct rs w) (all_gaps ?bounded))) \<longleftrightarrow>
      fits limit 0 (concat (map (gap_intervals ct rs w) (all_gaps ?full)))" for limit
    by (rule fits_mset) (rule mset_by_class [OF same])
  have sort: "sort_key coverage_sort_key (concat (map (gap_intervals ct rs w) (all_gaps ?bounded))) =
      sort_key coverage_sort_key (concat (map (gap_intervals ct rs w) (all_gaps ?full)))"
    by (rule sort_key_by_class [OF same]) (simp add: coverage_sort_key_def scope_key_def)
  show ?thesis
    using False assms(6) order fit sort
    by (simp add: snapshot_timeline_coverage_def streamed_coverage_is_batch project_coverage_batch Let_def)
qed

section \<open>A gap that opened before the window\<close>

definition demo_isof :: "time \<Rightarrow> string" where
  "demo_isof t = (if t = 1000000 then ''t1'' else if t = 1000400 then ''t2'' else ''t3'')"

definition demo_capture :: "bool \<Rightarrow> time \<Rightarrow> event_capture" where
  "demo_capture good t = \<lparr>cap_complete = good, cap_truncated = False,
     cap_reason = (if good then ''complete'' else ''denied''), cap_observed_at = Some t,
     cap_max_age_seconds = Some 60,
     cap_coverage = [(''scope'', JStr ''all_namespaces''), (''pagination'', JStr ''continue''),
       (''gap'', if good then JNull else JStr ''denied''),
       (''page_count'', JInt 1), (''event_count'', JInt 0), (''resource_version'', JStr ''7'')]\<rparr>"

definition demo_row :: "string \<Rightarrow> bool \<Rightarrow> time \<Rightarrow> snapshot_row" where
  "demo_row k good t = \<lparr>sr_snapshot_id = k, sr_workspace_id = ''w'', sr_cluster_id = ''c'', sr_status = ''ok'',
     sr_collected_at = t, sr_event_capture_observed_at = Some t,
     sr_event_capture = event_capture_projection demo_isof (demo_capture good t), sr_created_at = t\<rparr>"

definition demo_rows :: "snapshot_row list" where
  "demo_rows = [demo_row ''a'' False 1000000, demo_row ''b'' False 1000400, demo_row ''d'' True 4000000]"

definition late_window :: timeline_window where
  "late_window = \<lparr>tw_from_ms = 2000, tw_to_ms = 9000\<rparr>"

theorem bounded_read_is_the_full_history_witness:
  "snapshot_timeline_coverage demo_clock (\<lambda>_. []) demo_scopes ''w'' late_window demo_rows =
     Inr [interval \<lparr>sc_workspace_id = ''w'', sc_cluster_id = ''c'', sc_namespaces = [], sc_freshness = ''live''\<rparr> 1000 4000]"
proof -
  have "snapshot_timeline_coverage demo_clock (\<lambda>_. []) demo_scopes ''w'' late_window demo_rows = Inr cs \<longleftrightarrow>
      project_coverage demo_clock demo_scopes late_window (Some TIMELINE_COVERAGE_RESPONSE_LIMIT) False
        (map snapshot_of_row (timeline_coverage_history (py_strip ''w'') late_window (coverage_clusters demo_scopes) demo_rows)) = Inr cs"
    for cs
  proof (rule bounded_read_is_the_full_history)
    show "unique_key sr_snapshot_id demo_rows"
      by code_simp
    have "list_all (stored_row demo_clock demo_isof) demo_rows"
      by code_simp
    then show "stored_row demo_clock demo_isof r" if "r \<in> set demo_rows" for r
      using that by (simp add: list_all_iff)
    show "ct_milliseconds demo_clock t \<le> tw_from_ms late_window" if "t < from_ms (tw_from_ms late_window)" for t
      using that by (simp add: demo_clock_def late_window_def from_ms_def)
  qed code_simp+
  moreover have "project_coverage demo_clock demo_scopes late_window (Some TIMELINE_COVERAGE_RESPONSE_LIMIT) False
        (map snapshot_of_row (timeline_coverage_history (py_strip ''w'') late_window (coverage_clusters demo_scopes) demo_rows)) =
      Inr [interval \<lparr>sc_workspace_id = ''w'', sc_cluster_id = ''c'', sc_namespaces = [], sc_freshness = ''live''\<rparr> 1000 4000]"
    by code_simp
  ultimately show ?thesis by blast
qed

end
