(* ===== verification/Alert_Store.thy ===== *)
theory Alert_Store
  imports Event_Envelope "HOL-Library.List_Lexorder" "HOL-Library.Char_ord" "HOL-Library.Product_Lexorder"
begin

text \<open>
  The tables of the alert domain (\<^verbatim>\<open>src/src/domains/alert/models.py\<close>) and the operations on
  rules, target states and events (\<^verbatim>\<open>src/src/domains/alert/repository.py\<close>). A statement that
  violates a unique index, or a \<open>one()\<close> that finds no row, is an error. The operations that
  cross the commit boundary together with the delivery outbox take the staging function as an
  argument, as in the code.
\<close>

section \<open>Tables\<close>

record alert_rule =
  ar_rule_id :: string
  ar_workspace_id :: string
  ar_name :: string
  ar_scope :: jobj
  ar_metric :: string
  ar_comparator :: string
  ar_threshold :: rat
  ar_for_seconds :: int
  ar_severity :: string
  ar_channels :: "string list"
  ar_enabled :: bool
  ar_created_by :: string
  ar_last_fired_at :: "time option"
  ar_occurrence_count :: int
  ar_updated_at :: time

record target_state =
  ts_rule_id :: string
  ts_subject_key :: string
  ts_workspace_id :: string
  ts_subject :: jobj
  ts_condition_since :: "time option"
  ts_active_event_id :: "string option"
  ts_last_observed_value :: rat
  ts_last_evidence :: "jobj list"
  ts_last_evaluated_at :: time
  ts_created_at :: time
  ts_updated_at :: time

datatype alert_status = Firing | Acked | Resolved

record alert_event =
  ae_event_id :: string
  ae_workspace_id :: string
  ae_rule_id :: "string option"
  ae_rule_name :: "string option"
  ae_source :: string
  ae_severity :: string
  ae_subject_key :: string
  ae_subject :: jobj
  ae_fired_at :: time
  ae_resolved_at :: "time option"
  ae_status :: alert_status
  ae_observed_value :: "rat option"
  ae_threshold :: "rat option"
  ae_series_identity :: "jobj option"
  ae_evidence :: "jobj list"
  ae_incident_id :: "string option"
  ae_acknowledged_at :: "time option"
  ae_acknowledged_by :: "string option"
  ae_promoted_at :: "time option"
  ae_promoted_by :: "string option"
  ae_updated_at :: time

text \<open>The alert tables beside the event tables the staging writes to.\<close>

record alert_db =
  al_rules :: "alert_rule list"
  al_states :: "target_state list"
  al_events :: "alert_event list"
  al_db :: db

datatype alert_error =
    UniqueViolation
  | NoRowFound
  | ResolvedNotAcknowledged
  | ComparatorUnsupported
  | InvalidTimestamp

definition state_key :: "target_state \<Rightarrow> string \<times> string" where
  "state_key t = (ts_rule_id t, ts_subject_key t)"

definition is_active :: "alert_event \<Rightarrow> bool" where
  "is_active e \<longleftrightarrow> ae_status e = Firing \<or> ae_status e = Acked"

text \<open>\<^verbatim>\<open>uq_alert_events_active_subject\<close>: NULL rule identifiers never conflict.\<close>

definition active_conflict :: "alert_event \<Rightarrow> alert_event \<Rightarrow> bool" where
  "active_conflict e f \<longleftrightarrow>
     is_active e \<and> is_active f \<and> ae_rule_id e \<noteq> None \<and> ae_rule_id e = ae_rule_id f \<and>
     ae_subject_key e = ae_subject_key f"

section \<open>Rules and target states\<close>

definition list_enabled_alert_rules :: "alert_db \<Rightarrow> alert_rule list" where
  "list_enabled_alert_rules s =
     sort_key (\<lambda>r. (ar_workspace_id r, ar_rule_id r)) (filter ar_enabled (al_rules s))"

definition delete_alert_rule :: "string \<Rightarrow> string \<Rightarrow> alert_db \<Rightarrow> alert_db \<times> bool" where
  "delete_alert_rule ws rule s =
     (let hit = (\<lambda>r. ar_workspace_id r = ws \<and> ar_rule_id r = rule) in
      if list_ex hit (al_rules s)
      then (s\<lparr>al_rules := delete_where hit (al_rules s),
              al_states := delete_where (\<lambda>t. ts_rule_id t = rule) (al_states s)\<rparr>, True)
      else (s, False))"

definition get_alert_rule_target_state ::
    "string \<Rightarrow> string \<Rightarrow> string \<Rightarrow> alert_db \<Rightarrow> target_state option" where
  "get_alert_rule_target_state ws rule key s =
     find (\<lambda>t. ts_workspace_id t = ws \<and> ts_rule_id t = rule \<and> ts_subject_key t = key) (al_states s)"

text \<open>\<open>INSERT ... ON CONFLICT (rule_id, subject_key) DO UPDATE\<close>; the creation time stays.\<close>

definition put_state :: "time \<Rightarrow> target_state \<Rightarrow> target_state list \<Rightarrow> target_state list" where
  "put_state now t states =
     (if state_key t \<in> state_key ` set states
      then update_where (\<lambda>o'. state_key o' = state_key t)
             (\<lambda>o'. t\<lparr>ts_created_at := ts_created_at o', ts_updated_at := now\<rparr>) states
      else states @ [t\<lparr>ts_created_at := now, ts_updated_at := now\<rparr>])"

definition upsert_alert_rule_target_state :: "time \<Rightarrow> target_state \<Rightarrow> alert_db \<Rightarrow> alert_db" where
  "upsert_alert_rule_target_state now t s = s\<lparr>al_states := put_state now t (al_states s)\<rparr>"

section \<open>Events of rules\<close>

text \<open>
  \<open>stage\<close> is the transactional stager: it sees the saved event and writes in the same
  transaction. The result carries the saved event and whether it is new.
\<close>

definition activate_alert_rule_event ::
    "time \<Rightarrow> target_state \<Rightarrow> alert_event \<Rightarrow> (alert_event \<Rightarrow> db \<Rightarrow> db) option \<Rightarrow> alert_db
      \<Rightarrow> (alert_error + alert_event \<times> bool) \<times> alert_db" where
  "activate_alert_rule_event now t e stage s =
     (let fresh = \<not> list_ex (active_conflict e) (al_events s) in
      if fresh \<and> ae_event_id e \<in> ae_event_id ` set (al_events s) then (Inl UniqueViolation, s)
      else
        case (if fresh then Some e
              else find (\<lambda>f. ae_workspace_id f = ts_workspace_id t \<and> ae_rule_id f = Some (ts_rule_id t) \<and>
                             ae_subject_key f = ts_subject_key t \<and> is_active f) (al_events s)) of
          None \<Rightarrow> (Inl NoRowFound, s)
        | Some saved \<Rightarrow>
            (Inr (saved, fresh),
             s\<lparr>al_events := (if fresh then al_events s @ [e] else al_events s),
               al_states := put_state now (t\<lparr>ts_active_event_id := Some (ae_event_id saved)\<rparr>) (al_states s),
               al_rules := (if fresh
                 then update_where (\<lambda>r. ar_workspace_id r = ts_workspace_id t \<and> ar_rule_id r = ts_rule_id t)
                        (\<lambda>r. r\<lparr>ar_last_fired_at := Some (ae_fired_at e),
                               ar_occurrence_count := ar_occurrence_count r + 1, ar_updated_at := now\<rparr>) (al_rules s)
                 else al_rules s),
               al_db := (case stage of Some f \<Rightarrow> if fresh then f saved (al_db s) else al_db s | None \<Rightarrow> al_db s)\<rparr>))"

definition refresh_alert_rule_event ::
    "string \<Rightarrow> string \<Rightarrow> rat \<Rightarrow> jobj list \<Rightarrow> time \<Rightarrow> alert_db \<Rightarrow> alert_db" where
  "refresh_alert_rule_event ws event_id observed_value evidence evaluated_at s =
     s\<lparr>al_events := update_where (\<lambda>e. ae_workspace_id e = ws \<and> ae_event_id e = event_id \<and> is_active e)
        (\<lambda>e. e\<lparr>ae_observed_value := Some observed_value, ae_evidence := evidence, ae_updated_at := evaluated_at\<rparr>)
        (al_events s)\<rparr>"

definition resolve_alert_rule_event ::
    "time \<Rightarrow> target_state \<Rightarrow> rat \<Rightarrow> jobj list \<Rightarrow> time \<Rightarrow> (alert_event \<Rightarrow> db \<Rightarrow> db) option \<Rightarrow> alert_db
      \<Rightarrow> alert_event option \<times> alert_db" where
  "resolve_alert_rule_event now t observed_value evidence resolved_at stage s =
     (let hit = (\<lambda>e. ae_workspace_id e = ts_workspace_id t \<and> Some (ae_event_id e) = ts_active_event_id t \<and> is_active e);
          close = (\<lambda>e. e\<lparr>ae_status := Resolved, ae_observed_value := Some observed_value, ae_evidence := evidence,
                         ae_resolved_at := Some resolved_at, ae_updated_at := resolved_at\<rparr>) in
      case find hit (al_events s) of
        None \<Rightarrow> (None, s)
      | Some e \<Rightarrow>
          (Some (close e),
           s\<lparr>al_events := update_where hit close (al_events s),
             al_states := update_where
               (\<lambda>u. ts_workspace_id u = ts_workspace_id t \<and> ts_rule_id u = ts_rule_id t \<and> ts_subject_key u = ts_subject_key t)
               (\<lambda>u. u\<lparr>ts_condition_since := None, ts_active_event_id := None, ts_last_observed_value := observed_value,
                      ts_last_evidence := evidence, ts_last_evaluated_at := resolved_at, ts_updated_at := now\<rparr>)
               (al_states s),
             al_db := (case stage of Some f \<Rightarrow> f (close e) (al_db s) | None \<Rightarrow> al_db s)\<rparr>))"

section \<open>Events outside the engine\<close>

definition find_event :: "string \<Rightarrow> string \<Rightarrow> alert_db \<Rightarrow> alert_event option" where
  "find_event ws event_id s = find (\<lambda>e. ae_workspace_id e = ws \<and> ae_event_id e = event_id) (al_events s)"

definition acknowledge_alert_event ::
    "time \<Rightarrow> string \<Rightarrow> string \<Rightarrow> string \<Rightarrow> alert_db \<Rightarrow> (alert_error + alert_event option) \<times> alert_db" where
  "acknowledge_alert_event now ws event_id actor s =
     (case find_event ws event_id s of
        None \<Rightarrow> (Inr None, s)
      | Some e \<Rightarrow>
          (case ae_status e of
             Resolved \<Rightarrow> (Inl ResolvedNotAcknowledged, s)
           | Acked \<Rightarrow> (Inr (Some e), s)
           | Firing \<Rightarrow>
               (let ack = (\<lambda>e. e\<lparr>ae_status := Acked, ae_acknowledged_at := Some now,
                                 ae_acknowledged_by := Some actor, ae_updated_at := now\<rparr>) in
                (Inr (Some (ack e)),
                 s\<lparr>al_events := update_where (\<lambda>f. ae_workspace_id f = ws \<and> ae_event_id f = event_id) ack (al_events s)\<rparr>))))"

definition promote_alert_event ::
    "time \<Rightarrow> string \<Rightarrow> string \<Rightarrow> string \<Rightarrow> string \<Rightarrow> alert_db \<Rightarrow> (alert_event \<times> bool) option \<times> alert_db" where
  "promote_alert_event now ws event_id incident_id actor s =
     (case find_event ws event_id s of
        None \<Rightarrow> (None, s)
      | Some e \<Rightarrow>
          if (case ae_incident_id e of None \<Rightarrow> False | Some i \<Rightarrow> i \<noteq> []) then (Some (e, False), s)
          else
            (let promote = (\<lambda>e. e\<lparr>ae_incident_id := Some incident_id, ae_promoted_at := Some now,
                                  ae_promoted_by := Some actor, ae_updated_at := now\<rparr>) in
             (Some (promote e, True),
              s\<lparr>al_events := update_where (\<lambda>f. ae_workspace_id f = ws \<and> ae_event_id f = event_id) promote (al_events s)\<rparr>)))"

definition resolve_incident_alert_events :: "time \<Rightarrow> string \<Rightarrow> string \<Rightarrow> alert_db \<Rightarrow> alert_db \<times> nat" where
  "resolve_incident_alert_events now ws incident_id s =
     (let hit = (\<lambda>e. ae_workspace_id e = ws \<and> ae_incident_id e = Some incident_id \<and> is_active e) in
      (s\<lparr>al_events := update_where hit
           (\<lambda>e. e\<lparr>ae_status := Resolved, ae_resolved_at := Some now, ae_updated_at := now\<rparr>) (al_events s)\<rparr>,
       count_where hit (al_events s)))"

definition upsert_incident_alert_event ::
    "time \<Rightarrow> string \<Rightarrow> alert_event \<Rightarrow> alert_db \<Rightarrow> alert_event option \<times> alert_db" where
  "upsert_incident_alert_event now incident_id payload s =
     (case sort_key (\<lambda>e. (ae_fired_at e, ae_event_id e))
             (filter (\<lambda>e. ae_workspace_id e = ae_workspace_id payload \<and> ae_incident_id e = Some incident_id) (al_events s)) of
        e # _ \<Rightarrow> (Some e, s)
      | [] \<Rightarrow>
          if ae_event_id payload \<in> ae_event_id ` set (al_events s)
          then (find_event (ae_workspace_id payload) (ae_event_id payload) s, s)
          else (Some (payload\<lparr>ae_updated_at := now\<rparr>), s\<lparr>al_events := al_events s @ [payload\<lparr>ae_updated_at := now\<rparr>]\<rparr>))"

text \<open>
  \<^verbatim>\<open>upsert_external_alert_event\<close>: repeated notifications of one Alertmanager occurrence. A late
  \<open>firing\<close> does not reopen a resolved row unless the incident changed.
\<close>

definition external_update :: "time \<Rightarrow> alert_event \<Rightarrow> alert_event \<Rightarrow> alert_event" where
  "external_update now new old =
     (let incident_changed = ae_incident_id new \<noteq> None \<and> ae_incident_id old \<noteq> None \<and> ae_incident_id new \<noteq> ae_incident_id old;
          terminal = ae_status old = Resolved \<and> ae_status new \<noteq> Resolved \<and> \<not> incident_changed in
      old\<lparr>ae_workspace_id := ae_workspace_id new, ae_rule_name := ae_rule_name new, ae_source := ae_source new,
          ae_severity := ae_severity new, ae_subject_key := ae_subject_key new, ae_subject := ae_subject new,
          ae_resolved_at := (if terminal then ae_resolved_at old else ae_resolved_at new),
          ae_status := (if terminal then ae_status old else ae_status new),
          ae_observed_value := (if terminal then ae_observed_value old else ae_observed_value new),
          ae_threshold := (if terminal then ae_threshold old else ae_threshold new),
          ae_series_identity := (case ae_series_identity new of None \<Rightarrow> ae_series_identity old | Some i \<Rightarrow> Some i),
          ae_evidence := (if terminal then ae_evidence old else ae_evidence new),
          ae_incident_id := (case ae_incident_id new of None \<Rightarrow> ae_incident_id old | Some i \<Rightarrow> Some i),
          ae_acknowledged_at := (if incident_changed then None else ae_acknowledged_at old),
          ae_acknowledged_by := (if incident_changed then None else ae_acknowledged_by old),
          ae_promoted_at := (if incident_changed then None else ae_promoted_at old),
          ae_promoted_by := (if incident_changed then None else ae_promoted_by old),
          ae_updated_at := now\<rparr>)"

definition upsert_external_alert_event :: "time \<Rightarrow> alert_event \<Rightarrow> alert_db \<Rightarrow> (alert_error + alert_event) \<times> alert_db" where
  "upsert_external_alert_event now payload s =
     (case find (\<lambda>e. ae_event_id e = ae_event_id payload) (al_events s) of
        Some old \<Rightarrow>
          (let row = external_update now payload old in
           if list_ex (\<lambda>f. ae_event_id f \<noteq> ae_event_id old \<and> active_conflict row f) (al_events s)
           then (Inl UniqueViolation, s)
           else (Inr row, s\<lparr>al_events := update_where (\<lambda>e. ae_event_id e = ae_event_id payload)
                                (external_update now payload) (al_events s)\<rparr>))
      | None \<Rightarrow>
          if list_ex (active_conflict payload) (al_events s) then (Inl UniqueViolation, s)
          else (Inr (payload\<lparr>ae_updated_at := now\<rparr>), s\<lparr>al_events := al_events s @ [payload\<lparr>ae_updated_at := now\<rparr>]\<rparr>))"

end
