(* ===== verification/Builtin_Actions.thy ===== *)
theory Builtin_Actions
  imports Command_Catalog
begin

text \<open>
  The built-in declarations of \<^verbatim>\<open>src/src/domains/command/builtin_actions.py\<close>, in the order
  the module registers them. \<open>attempts\<close> and \<open>delay\<close> are the two settings
  \<^verbatim>\<open>COMMAND_RETRY_MAX_ATTEMPTS\<close> and \<^verbatim>\<open>COMMAND_RETRY_DELAY_SECONDS\<close> the process reads once at
  import.
\<close>

text \<open>The defaults of the decorator's keyword arguments.\<close>

definition declared :: "string \<Rightarrow> action_spec" where
  "declared action =
     \<lparr>sp_action = action, sp_recovery_aliases = [], sp_allowed_namespaces = [],
      sp_requires_approval = False, sp_requires_approval_outside_sandbox = False,
      sp_supports_cancel = True, sp_supports_manual_retry = False, sp_max_attempts = 1,
      sp_retry_delay_seconds = 0, sp_enforce_control_namespace = True, sp_read_only = False,
      sp_required_agent_capability = ''command_receiver''\<rparr>"

definition builtin_workload_actions :: "int \<Rightarrow> int \<Rightarrow> action_spec list" where
  "builtin_workload_actions attempts delay =
    [(declared ''rollout_restart'')
       \<lparr>sp_recovery_aliases := [''rollout_restart''], sp_allowed_namespaces := [''sandbox'',
        ''color-turf''], sp_requires_approval_outside_sandbox := True,
        sp_supports_manual_retry := True, sp_max_attempts := attempts,
        sp_retry_delay_seconds := delay\<rparr>,
     (declared ''apply_manifest'')
       \<lparr>sp_recovery_aliases := [''apply_manifest''], sp_requires_approval := True,
        sp_supports_manual_retry := True, sp_max_attempts := attempts,
        sp_retry_delay_seconds := delay\<rparr>,
     (declared ''catalog.helm.install'')
       \<lparr>sp_allowed_namespaces := [''sandbox''], sp_supports_manual_retry := True,
        sp_max_attempts := attempts, sp_retry_delay_seconds := delay,
        sp_required_agent_capability := ''catalog_helm_install''\<rparr>,
     (declared ''helm.release.operation'')
       \<lparr>sp_allowed_namespaces := [''sandbox''], sp_required_agent_capability :=
        ''helm_release_operation_cas.v1''\<rparr>,
     (declared ''k8s.apps.v1.deployments.scale'')
       \<lparr>sp_recovery_aliases := [''deployment_scale''], sp_allowed_namespaces :=
        [''sandbox''], sp_requires_approval := True, sp_supports_manual_retry := True,
        sp_max_attempts := attempts, sp_retry_delay_seconds := delay\<rparr>,
     (declared ''k8s.apps.v1.statefulsets.scale'')
       \<lparr>sp_requires_approval := True, sp_supports_manual_retry := True, sp_max_attempts :=
        attempts, sp_retry_delay_seconds := delay\<rparr>,
     (declared ''k8s.apps.v1.statefulsets.restart'')
       \<lparr>sp_requires_approval_outside_sandbox := True, sp_supports_manual_retry := True,
        sp_max_attempts := attempts, sp_retry_delay_seconds := delay\<rparr>,
     (declared ''k8s.apps.v1.daemonsets.restart'')
       \<lparr>sp_requires_approval_outside_sandbox := True, sp_supports_manual_retry := True,
        sp_max_attempts := attempts, sp_retry_delay_seconds := delay\<rparr>]"

definition builtin_node_actions :: "int \<Rightarrow> int \<Rightarrow> action_spec list" where
  "builtin_node_actions attempts delay =
    [(declared ''k8s.core.v1.nodes.cordon'')
       \<lparr>sp_requires_approval := True, sp_supports_manual_retry := True, sp_max_attempts :=
        attempts, sp_retry_delay_seconds := delay, sp_enforce_control_namespace := False,
        sp_required_agent_capability := ''node_control.v1''\<rparr>,
     (declared ''k8s.core.v1.nodes.uncordon'')
       \<lparr>sp_requires_approval := True, sp_supports_manual_retry := True, sp_max_attempts :=
        attempts, sp_retry_delay_seconds := delay, sp_enforce_control_namespace := False,
        sp_required_agent_capability := ''node_control.v1''\<rparr>,
     (declared ''k8s.core.v1.nodes.drain'')
       \<lparr>sp_enforce_control_namespace := False, sp_required_agent_capability :=
        ''node_control.v1''\<rparr>,
     (declared ''k8s.core.v1.pods.debug'')
       \<lparr>sp_required_agent_capability := ''resource_debug.v1''\<rparr>,
     (declared ''k8s.core.v1.nodes.debug'')
       \<lparr>sp_enforce_control_namespace := False, sp_required_agent_capability :=
        ''node_control.v1''\<rparr>,
     (declared ''k8s.core.v1.nodes.debug.cleanup'')
       \<lparr>sp_enforce_control_namespace := False, sp_required_agent_capability :=
        ''node_control.v1''\<rparr>]"

definition builtin_resource_actions :: "int \<Rightarrow> int \<Rightarrow> action_spec list" where
  "builtin_resource_actions attempts delay =
    [(declared ''k8s.batch.v1.cronjobs.trigger'')
       \<lparr>sp_supports_manual_retry := True, sp_max_attempts := attempts,
        sp_retry_delay_seconds := delay, sp_required_agent_capability :=
        ''cronjob_control.v1''\<rparr>,
     (declared ''k8s.batch.v1.cronjobs.suspend'')
       \<lparr>sp_supports_manual_retry := True, sp_max_attempts := attempts,
        sp_retry_delay_seconds := delay, sp_required_agent_capability :=
        ''cronjob_control.v1''\<rparr>,
     (declared ''k8s.batch.v1.cronjobs.resume'')
       \<lparr>sp_supports_manual_retry := True, sp_max_attempts := attempts,
        sp_retry_delay_seconds := delay, sp_required_agent_capability :=
        ''cronjob_control.v1''\<rparr>,
     (declared ''k8s.resource.delete'')
       \<lparr>sp_enforce_control_namespace := False, sp_required_agent_capability :=
        ''resource_delete.v1''\<rparr>,
     (declared ''gitops.resource.control'')
       \<lparr>sp_enforce_control_namespace := False, sp_required_agent_capability :=
        ''gitops_control.v1''\<rparr>,
     (declared ''k8s.apps.v1.deployments.rollback'')
       \<lparr>sp_required_agent_capability := ''workload_rollback.v1''\<rparr>,
     (declared ''k8s.apps.v1.statefulsets.rollback'')
       \<lparr>sp_required_agent_capability := ''workload_rollback.v1''\<rparr>,
     (declared ''k8s.apps.v1.daemonsets.rollback'')
       \<lparr>sp_required_agent_capability := ''workload_rollback.v1''\<rparr>]"

definition builtin_service_actions :: "action_spec list" where
  "builtin_service_actions =
    [(declared ''rca.test.inject'')
       \<lparr>sp_allowed_namespaces := [''sandbox'']\<rparr>,
     (declared ''rca.test.cleanup'')
       \<lparr>sp_allowed_namespaces := [''sandbox'']\<rparr>,
     (declared ''cluster.agent.uninstall'')
       \<lparr>sp_allowed_namespaces := [''target'']\<rparr>,
     (declared ''service.http.request'')
       \<lparr>sp_enforce_control_namespace := False, sp_read_only := True,
        sp_required_agent_capability := ''service_http_request_v1''\<rparr>,
     (declared ''resource.files.read'')
       \<lparr>sp_enforce_control_namespace := False, sp_read_only := True,
        sp_required_agent_capability := ''resource_files.v1''\<rparr>,
     (declared ''traffic.source.select'')
       \<lparr>sp_enforce_control_namespace := False, sp_required_agent_capability :=
        ''traffic_source_select.v1''\<rparr>,
     (declared ''traffic.source.connect'')
       \<lparr>sp_enforce_control_namespace := False, sp_required_agent_capability :=
        ''traffic_source_connect.v1''\<rparr>,
     (declared ''helm.release.artifact.read'')
       \<lparr>sp_enforce_control_namespace := False, sp_read_only := True,
        sp_required_agent_capability := ''helm_release_artifact_read_v1''\<rparr>,
     (declared ''helm.release.values.preview'')
       \<lparr>sp_allowed_namespaces := [''sandbox''], sp_read_only := True,
        sp_required_agent_capability := ''helm_release_values_preview.v1''\<rparr>]"

definition builtin_actions :: "int \<Rightarrow> int \<Rightarrow> action_spec list" where
  "builtin_actions attempts delay =
     builtin_workload_actions attempts delay @ builtin_node_actions attempts delay @
     builtin_resource_actions attempts delay @ builtin_service_actions"

lemmas builtin_defs = builtin_actions_def builtin_workload_actions_def builtin_node_actions_def
  builtin_resource_actions_def builtin_service_actions_def

lemma builtin_names: "map sp_action (builtin_actions attempts delay) = map sp_action (builtin_actions 0 0)"
  by (simp add: builtin_defs declared_def)

lemma builtin_names_distinct: "distinct (map sp_action (builtin_actions attempts delay))"
proof -
  have "distinct (map sp_action (builtin_actions 0 0))" by code_simp
  then show ?thesis by (simp only: builtin_names [of attempts delay])
qed

lemma builtin_specs_ok:
  assumes "2 \<le> attempts" and "0 \<le> delay"
  shows "list_all spec_ok (builtin_actions attempts delay)"
  using assms
  by (simp add: builtin_defs declared_def spec_ok_def py_strip_def is_space_def)

lemma catalog_action_new:
  assumes "spec_ok sp" and "sp_action sp \<notin> fst ` set cat"
  shows "catalog_action sp cat = Inr (cat @ [(sp_action sp, sp)])"
proof -
  have "map_of cat (sp_action sp) = None" using assms(2) by (simp add: map_of_eq_None_iff)
  with assms(1) show ?thesis by (auto simp: catalog_action_def spec_ok_def)
qed

lemma register_all_distinct:
  "list_all spec_ok sps \<Longrightarrow> distinct (map sp_action sps) \<Longrightarrow>
   (\<forall>sp \<in> set sps. sp_action sp \<notin> fst ` set cat) \<Longrightarrow>
   register_all sps cat = Inr (cat @ map (\<lambda>sp. (sp_action sp, sp)) sps)"
proof (induction sps arbitrary: cat)
  case (Cons sp sps)
  then have "catalog_action sp cat = Inr (cat @ [(sp_action sp, sp)])"
    by (intro catalog_action_new) auto
  moreover have "register_all sps (cat @ [(sp_action sp, sp)]) =
      Inr ((cat @ [(sp_action sp, sp)]) @ map (\<lambda>sp. (sp_action sp, sp)) sps)"
    using Cons.prems by (intro Cons.IH) (auto simp: image_iff)
  ultimately show ?case by simp
qed simp

lemma builtin_head:
  "\<exists>sp rest. builtin_actions attempts delay = sp # rest \<and> sp_max_attempts sp = attempts \<and>
     sp_retry_delay_seconds sp = delay \<and> sp_supports_manual_retry sp \<and>
     py_strip (sp_required_agent_capability sp) \<noteq> []"
  by (simp add: builtin_defs declared_def py_strip_def is_space_def)

lemma builtin_refused:
  assumes "\<not> (2 \<le> attempts \<and> 0 \<le> delay)"
  shows "register_all (builtin_actions attempts delay) [] =
    Inl (if attempts < 1 \<or> delay < 0 then RetryPolicyInvalid else RetryNeedsTwoAttempts)"
proof -
  obtain sp rest where "builtin_actions attempts delay = sp # rest" "sp_max_attempts sp = attempts"
      "sp_retry_delay_seconds sp = delay" "sp_supports_manual_retry sp"
      "py_strip (sp_required_agent_capability sp) \<noteq> []"
    using builtin_head by blast
  with assms show ?thesis by (auto simp: catalog_action_def)
qed

text \<open>
  The built-in catalogue loads exactly when the configured retry budget is
  at least two attempts and the configured delay is not negative; then it holds the
  declarations in their order and none has replaced another. With any other setting the very
  first declaration raises and the process does not start: an invalid policy when the budget
  is below one or the delay negative, the two-attempts guard when the budget is one.
\<close>

theorem builtin_catalog_loads:
  "register_all (builtin_actions attempts delay) [] =
     (if 2 \<le> attempts \<and> 0 \<le> delay
      then Inr (map (\<lambda>sp. (sp_action sp, sp)) (builtin_actions attempts delay))
      else Inl (if attempts < 1 \<or> delay < 0 then RetryPolicyInvalid else RetryNeedsTwoAttempts))"
proof (cases "2 \<le> attempts \<and> 0 \<le> delay")
  case True
  then show ?thesis
    using register_all_distinct [OF builtin_specs_ok builtin_names_distinct, of attempts delay "[]"] by simp
next
  case False
  show ?thesis unfolding builtin_refused [OF False] if_not_P [OF False] ..
qed

text \<open>The catalogue of a running process, for the components that consult it.\<close>

definition builtin_catalog :: catalog where
  "builtin_catalog = map (\<lambda>sp. (sp_action sp, sp)) (builtin_actions 3 5)"

end
