(* ===== verification/Command_Policy.thy ===== *)
theory Command_Policy
  imports Event_Catalog Builtin_Actions Command_Queue "HOL-Library.Sublist"
begin

text \<open>
  The gates a command passes before it may reach an agent: the rules of
  \<^verbatim>\<open>src/src/domains/command/policy.py\<close>, the control namespaces of
  \<^verbatim>\<open>src/src/packages/config/control.py\<close>, the environments of
  \<^verbatim>\<open>src/src/packages/config/environments.py\<close>, the management guard of
  \<^verbatim>\<open>src/src/domains/target/management_guard.py\<close> and the approval evidence of
  \<^verbatim>\<open>src/src/domains/command/handler.py\<close>. Strings are read as sequences of bytes, so that case
  folding is that of ASCII letters.
\<close>

section \<open>The request\<close>

text \<open>\<^verbatim>\<open>Diff\<close> and \<^verbatim>\<open>CommandRequestedBody\<close> as objects; the lists of values are their attributes.\<close>

record gitops_diff =
  df_resource :: string
  df_namespace :: string
  df_desired_image :: string
  df_actual_image :: string
  df_risk :: string
  df_workspace_id :: string
  df_repository_id :: string
  df_watch_target_id :: string
  df_binding_id :: string
  df_application_id :: string
  df_workflow_run_id :: string
  df_environment :: string
  df_cluster_id :: string
  df_manifest_path :: string
  df_resource_class :: string
  df_desired_manifest :: jobj
  df_status :: string
  df_has_changes :: bool
  df_changes :: "jobj list"
  df_basis :: jobj

definition diff_value :: "gitops_diff \<Rightarrow> pyval list" where
  "diff_value d =
     [PStr (df_resource d), PStr (df_namespace d), PStr (df_desired_image d), PStr (df_actual_image d),
      PStr (df_risk d), PStr (df_workspace_id d), PStr (df_repository_id d), PStr (df_watch_target_id d),
      PStr (df_binding_id d), PStr (df_application_id d), PStr (df_workflow_run_id d),
      PStr (df_environment d), PStr (df_cluster_id d), PStr (df_manifest_path d),
      PStr (df_resource_class d), of_json (JObj (df_desired_manifest d)), PStr (df_status d),
      PBool (df_has_changes d), PList (map (\<lambda>c. of_json (JObj c)) (df_changes d)),
      of_json (JObj (df_basis d))]"

text \<open>\<^verbatim>\<open>Diff.is_image_only_noop\<close>.\<close>

definition is_image_only_noop :: "gitops_diff \<Rightarrow> bool" where
  "is_image_only_noop d =
     (df_desired_image d \<noteq> [] \<and> df_desired_image d = df_actual_image d \<and> df_desired_manifest d = [])"

record command_requested =
  cq_cluster_id :: string
  cq_action :: string
  cq_namespace :: string
  cq_reason :: string
  cq_diff :: gitops_diff
  cq_command_id :: "string option"
  cq_workspace_id :: string
  cq_application_id :: string
  cq_workflow_run_id :: string
  cq_binding_id :: string
  cq_environment :: string
  cq_priority :: int
  cq_requested_by :: "string option"
  cq_actor :: "jobj option"
  cq_approval_ref :: "string option"
  cq_policy_decision_ref :: "string option"
  cq_approval_decided_by :: "string option"
  cq_approval_expires_at :: "string option"
  cq_direct_execution :: bool
  cq_direct_execution_confirmed :: bool
  cq_payload :: jobj

definition opt_value :: "('a \<Rightarrow> pyval) \<Rightarrow> 'a option \<Rightarrow> pyval" where
  "opt_value f v = (case v of None \<Rightarrow> PNull | Some x \<Rightarrow> f x)"

definition requested_value :: "command_requested \<Rightarrow> pyval list" where
  "requested_value c =
     [PStr (cq_cluster_id c), PStr (cq_action c), PStr (cq_namespace c), PStr (cq_reason c),
      PBody diff_class (diff_value (cq_diff c)), opt_value PStr (cq_command_id c),
      PStr (cq_workspace_id c), PStr (cq_application_id c), PStr (cq_workflow_run_id c),
      PStr (cq_binding_id c), PStr (cq_environment c), PInt (cq_priority c),
      opt_value PStr (cq_requested_by c), opt_value (\<lambda>a. of_json (JObj a)) (cq_actor c),
      opt_value PStr (cq_approval_ref c), opt_value PStr (cq_policy_decision_ref c),
      opt_value PStr (cq_approval_decided_by c), opt_value PStr (cq_approval_expires_at c),
      PBool (cq_direct_execution c), PBool (cq_direct_execution_confirmed c),
      of_json (JObj (cq_payload c))]"

lemma plain_str [simp]: "plain (PStr t)"
  by (simp add: plain_def)

lemma diff_typed: "has_type (TBody diff_class) (PBody diff_class (diff_value d))"
proof -
  have "has_items TDict (map (\<lambda>c. of_json (JObj c)) cs)" for cs by (induction cs) auto
  then show ?thesis by (simp add: diff_class_def diff_value_def)
qed

lemma requested_typed:
  "has_type (TBody command_requested_body) (PBody command_requested_body (requested_value c))"
  using diff_typed [of "cq_diff c"]
  by (simp add: command_requested_body_def requested_value_def opt_value_def split: option.split)

section \<open>Environment\<close>

text \<open>
  What the handlers read from outside: \<open>pv_getenv\<close> the process environment, \<open>pv_fromisoformat\<close>
  and \<open>pv_isoformat\<close> the standard library's ISO timestamps (instant and UTC offset; the text of
  an instant in UTC), \<open>pv_digest\<close> the SHA-256 of the canonical JSON text.
\<close>

record policy_env =
  pv_command :: command_env
  pv_getenv :: "string \<Rightarrow> string option"
  pv_fromisoformat :: "string \<Rightarrow> (time \<times> int option) option"
  pv_isoformat :: "time \<Rightarrow> string"
  pv_digest :: "json \<Rightarrow> string"
  pv_lease_seconds :: int
  pv_heartbeat_seconds :: int

definition getenv :: "policy_env \<Rightarrow> string \<Rightarrow> string \<Rightarrow> string" where
  "getenv pv key dflt = (case pv_getenv pv key of None \<Rightarrow> dflt | Some v \<Rightarrow> v)"

definition env_enabled :: "policy_env \<Rightarrow> string \<Rightarrow> bool" where
  "env_enabled pv key =
     (ascii_lower (py_strip (getenv pv key [])) \<in> {''1'', ''true'', ''yes'', ''on''})"

fun py_split :: "char \<Rightarrow> string \<Rightarrow> string list" where
  "py_split sep [] = [[]]"
| "py_split sep (c # cs) =
     (if c = sep then [] # py_split sep cs
      else case py_split sep cs of w # ws \<Rightarrow> (c # w) # ws | [] \<Rightarrow> [[c]])"

definition csv_values :: "string \<Rightarrow> string list" where
  "csv_values v = filter (\<lambda>t. t \<noteq> []) (map py_strip (py_split (CHR '','') v))"

text \<open>\<^verbatim>\<open>normalize_environment\<close> and \<^verbatim>\<open>is_sandbox_environment\<close> on a label that is a string.\<close>

definition normalize_environment :: "string \<Rightarrow> string" where
  "normalize_environment v = ascii_lower (py_strip v)"

datatype environment_class = EnvSandbox | EnvStaging | EnvProduction | EnvOther

definition classify_environment :: "string \<Rightarrow> environment_class" where
  "classify_environment v =
     (let n = normalize_environment v
      in if n = ''sandbox'' then EnvSandbox
         else if n = ''staging'' then EnvStaging
         else if n \<in> {''prod'', ''production''} then EnvProduction
         else EnvOther)"

definition is_sandbox_environment :: "string \<Rightarrow> bool" where
  "is_sandbox_environment v = (classify_environment v = EnvSandbox)"

section \<open>Control namespaces\<close>

definition control_namespace_protected :: "string \<Rightarrow> bool" where
  "control_namespace_protected ns = (ns \<in> {''management''})"

text \<open>\<^verbatim>\<open>dict.fromkeys\<close> keeps the first of equal values.\<close>

definition control_allowed_namespaces :: "policy_env \<Rightarrow> string list" where
  "control_allowed_namespaces pv =
     (let values = rev (remdups (rev (csv_values (getenv pv ''CONTROL_ALLOWED_NAMESPACES'' ''sandbox''))));
          values' = (if values = [] then [''sandbox''] else values)
      in filter (\<lambda>v. \<not> control_namespace_protected v) values')"

definition control_namespace_allowed :: "policy_env \<Rightarrow> string \<Rightarrow> bool" where
  "control_namespace_allowed pv ns = (ns \<in> set (control_allowed_namespaces pv))"

section \<open>Rules\<close>

datatype policy_result = Allow | Reject string "string option"

text \<open>\<^verbatim>\<open>PolicyRuleConfig\<close>; the empty tuple of allowed values means "not given".\<close>

record policy_rule_config =
  rc_name :: string
  rc_field :: string
  rc_reason :: string
  rc_expected :: "pyval option"
  rc_allowed_values :: "pyval list"
  rc_default :: pyval

text \<open>A rule: name, field, what it compares with, default of a missing attribute, reason.\<close>

datatype policy_rule =
    EqualsRule string string pyval string pyval
  | AllowedValuesRule string string "pyval list" string pyval
  | NamespaceAllowlistRule string string string string

fun rule_name :: "policy_rule \<Rightarrow> string" where
  "rule_name (EqualsRule n _ _ _ _) = n"
| "rule_name (AllowedValuesRule n _ _ _ _) = n"
| "rule_name (NamespaceAllowlistRule n _ _ _) = n"

fun rule_reason :: "policy_rule \<Rightarrow> string" where
  "rule_reason (EqualsRule _ _ _ r _) = r"
| "rule_reason (AllowedValuesRule _ _ _ r _) = r"
| "rule_reason (NamespaceAllowlistRule _ _ _ r) = r"

text \<open>\<^verbatim>\<open>ModelLookup.value\<close>: \<^verbatim>\<open>getattr\<close> with a default.\<close>

definition model_lookup :: "command_requested \<Rightarrow> string \<Rightarrow> pyval \<Rightarrow> pyval" where
  "model_lookup c field dflt =
     (case map_of (zip (map item_name (class_fields command_requested_body)) (requested_value c)) field of
        None \<Rightarrow> dflt
      | Some v \<Rightarrow> v)"

fun rule_allows :: "policy_env \<Rightarrow> (string \<Rightarrow> pyval \<Rightarrow> pyval) \<Rightarrow> policy_rule \<Rightarrow> bool" where
  "rule_allows pv target (EqualsRule n field expected reason dflt) = (target field dflt = expected)"
| "rule_allows pv target (AllowedValuesRule n field allowed reason dflt) =
     (target field dflt \<in> set allowed)"
| "rule_allows pv target (NamespaceAllowlistRule n field default_namespace reason) =
     control_namespace_allowed pv
       (py_str (ce_render (pv_command pv)) (to_body_value (target field (PStr default_namespace))))"

definition policy_build :: "policy_rule_config list \<Rightarrow> policy_rule list" where
  "policy_build configs =
     map (\<lambda>c. if rc_allowed_values c \<noteq> []
              then AllowedValuesRule (rc_name c) (rc_field c) (rc_allowed_values c) (rc_reason c) (rc_default c)
              else EqualsRule (rc_name c) (rc_field c)
                     (case rc_expected c of None \<Rightarrow> PNull | Some v \<Rightarrow> v) (rc_reason c) (rc_default c))
       configs"

fun policy_evaluate :: "policy_env \<Rightarrow> policy_rule list \<Rightarrow> (string \<Rightarrow> pyval \<Rightarrow> pyval) \<Rightarrow> policy_result" where
  "policy_evaluate pv [] target = Allow"
| "policy_evaluate pv (rule # rules) target =
     (if \<not> rule_allows pv target rule then Reject (rule_reason rule) (Some (rule_name rule))
      else policy_evaluate pv rules target)"

definition allowed_command_actions :: "policy_env \<Rightarrow> string list" where
  "allowed_command_actions pv = allowed_actions (ce_catalog (pv_command pv))"

definition command_action_spec :: "policy_env \<Rightarrow> string \<Rightarrow> action_spec option" where
  "command_action_spec pv action = spec_for (ce_catalog (pv_command pv)) action"

text \<open>\<^verbatim>\<open>COMMAND_CONFIG.policy_rules\<close> and \<^verbatim>\<open>POLICY\<close>.\<close>

definition command_policy_rules :: "policy_env \<Rightarrow> policy_rule_config list" where
  "command_policy_rules pv =
     [\<lparr>rc_name = ''command_action_allowlist'', rc_field = ''action'',
       rc_reason = ''unsupported command action'', rc_expected = None,
       rc_allowed_values = map PStr (allowed_command_actions pv),
       rc_default = PStr ''rollout_restart''\<rparr>]"

definition POLICY :: "policy_env \<Rightarrow> policy_rule list" where
  "POLICY pv =
     NamespaceAllowlistRule ''control_namespace_not_allowed'' ''namespace'' ''sandbox''
       ''namespace is not allowed by control policy''
     # policy_build (command_policy_rules pv)"

section \<open>The command policy\<close>

definition desired_manifest_namespace :: "(json \<Rightarrow> string) \<Rightarrow> command_requested \<Rightarrow> string option" where
  "desired_manifest_namespace render c =
     (case jget (df_desired_manifest (cq_diff c)) ''metadata'' of
        Some (JObj metadata) \<Rightarrow>
          (case jget metadata ''namespace'' of
             None \<Rightarrow> None
           | Some v \<Rightarrow> if v = JNull \<or> v = JStr [] then None else Some (py_str render v))
      | _ \<Rightarrow> None)"

definition approval_exempt_for_environment :: "policy_env \<Rightarrow> command_requested \<Rightarrow> bool" where
  "approval_exempt_for_environment pv c =
     (let actions = csv_values (getenv pv ''COMMAND_AUTO_APPROVE_ACTIONS'' ''k8s.apps.v1.deployments.scale'');
          environments = map normalize_environment
            (csv_values (getenv pv ''COMMAND_AUTO_APPROVE_ENVIRONMENTS'' ''sandbox''))
      in cq_action c \<in> set actions \<and> normalize_environment (cq_environment c) \<in> set environments)"

definition command_requires_recorded_approval :: "policy_env \<Rightarrow> command_requested \<Rightarrow> bool" where
  "command_requires_recorded_approval pv c =
     (if cq_direct_execution c then False
      else case command_action_spec pv (cq_action c) of
             None \<Rightarrow> False
           | Some sp \<Rightarrow>
               if \<not> requires_approval_for is_sandbox_environment sp (cq_namespace c) then False
               else \<not> approval_exempt_for_environment pv c)"

definition missing :: "string option \<Rightarrow> bool" where
  "missing v = (case v of None \<Rightarrow> True | Some t \<Rightarrow> t = [])"

definition evaluate_command_policy :: "policy_env \<Rightarrow> command_requested \<Rightarrow> policy_result" where
  "evaluate_command_policy pv c =
     (if is_image_only_noop (cq_diff c)
      then Reject ''desired and actual images already match'' None
      else if cq_namespace c \<noteq> df_namespace (cq_diff c)
      then Reject ''command namespace must match diff namespace'' None
      else if (case desired_manifest_namespace (ce_render (pv_command pv)) c of
                 None \<Rightarrow> False | Some ns \<Rightarrow> ns \<noteq> cq_namespace c)
      then Reject ''manifest namespace must match command namespace'' None
      else case command_action_spec pv (cq_action c) of
             None \<Rightarrow> Reject ''unsupported command action'' None
           | Some sp \<Rightarrow>
               (let tail =
                  (if \<not> allows_namespace sp (cq_namespace c)
                   then Reject ''namespace not allowed for this command action'' None
                   else if requires_approval_for is_sandbox_environment sp (cq_namespace c) \<and>
                           \<not> cq_direct_execution c \<and> \<not> approval_exempt_for_environment pv c
                   then (if missing (cq_approval_ref c)
                         then Reject ''write command requires approval_ref'' None
                         else if missing (cq_policy_decision_ref c)
                         then Reject ''write command requires policy_decision_ref'' None
                         else Allow)
                   else Allow)
                in if sp_enforce_control_namespace sp
                   then (case policy_evaluate pv (POLICY pv) (model_lookup c) of
                           Allow \<Rightarrow> tail
                         | Reject reason code \<Rightarrow> Reject reason code)
                   else if cq_action c \<notin> set (allowed_command_actions pv)
                   then Reject ''unsupported command action'' None
                   else tail))"

definition evaluate_direct_execution_confirmation :: "command_requested \<Rightarrow> policy_result" where
  "evaluate_direct_execution_confirmation c =
     (if cq_direct_execution c \<and> \<not> cq_direct_execution_confirmed c
      then Reject ''direct command requires explicit confirmation'' None
      else Allow)"

section \<open>What the gates read\<close>

text \<open>
  The columns \<^verbatim>\<open>get_workflow_approval\<close> selects, with the expiry as the driver returns it: an
  instant, or a text where a store keeps one. \<open>None\<close> is NULL.
\<close>

datatype stamp = Stamp time | StampText string

record approval_row =
  ap_approval_id :: string
  ap_workflow_run_id :: string
  ap_workspace_id :: string
  ap_application_id :: string
  ap_binding_id :: string
  ap_environment :: string
  ap_status :: string
  ap_reason :: string
  ap_requested_role :: string
  ap_requested_by :: "string option"
  ap_decided_by :: "string option"
  ap_decision :: "string option"
  ap_details :: json
  ap_expires_at :: "stamp option"

record registration_row =
  rg_workspace_id :: string
  rg_cluster_id :: string
  rg_name :: string
  rg_environment :: string
  rg_status :: string
  rg_settings :: json

record policy_row =
  py_workspace_id :: string
  py_cluster_id :: string
  py_policy :: jobj

record gate_store =
  gs_approvals :: "approval_row list"
  gs_registrations :: "registration_row list"
  gs_policies :: "policy_row list"

definition get_workflow_approval :: "string \<Rightarrow> string \<Rightarrow> gate_store \<Rightarrow> approval_row option" where
  "get_workflow_approval approval_id workspace_id g =
     find (\<lambda>r. ap_approval_id r = approval_id \<and> ap_workspace_id r = workspace_id) (gs_approvals g)"

definition get_cluster_registration :: "string \<Rightarrow> string \<Rightarrow> gate_store \<Rightarrow> registration_row option" where
  "get_cluster_registration workspace_id cluster_id g =
     find (\<lambda>r. rg_workspace_id r = workspace_id \<and> rg_cluster_id r = cluster_id) (gs_registrations g)"

definition get_cluster_policy :: "string \<Rightarrow> string \<Rightarrow> gate_store \<Rightarrow> jobj option" where
  "get_cluster_policy workspace_id cluster_id g =
     map_option py_policy
       (find (\<lambda>r. py_workspace_id r = workspace_id \<and> py_cluster_id r = cluster_id) (gs_policies g))"

section \<open>Management clusters\<close>

definition cluster_role_from_settings :: "json \<Rightarrow> string" where
  "cluster_role_from_settings settings =
     (case settings of
        JObj d \<Rightarrow> (case jget d ''cluster_role'' of
                    Some (JStr role) \<Rightarrow> if role \<noteq> [] then role else ''target''
                  | _ \<Rightarrow> ''target'')
      | _ \<Rightarrow> ''target'')"

definition cluster_role_from_registration :: "registration_row option \<Rightarrow> string" where
  "cluster_role_from_registration r =
     (case r of None \<Rightarrow> ''target'' | Some row \<Rightarrow> cluster_role_from_settings (rg_settings row))"

definition cluster_role_from_policy :: "(json \<Rightarrow> string) \<Rightarrow> jobj option \<Rightarrow> string" where
  "cluster_role_from_policy render p =
     (case p of
        None \<Rightarrow> ''target''
      | Some d \<Rightarrow> (case jget d ''cluster_role'' of
                    None \<Rightarrow> ''target''
                  | Some role \<Rightarrow> if py_truthy role then py_str render role else ''target''))"

definition is_management_role :: "string \<Rightarrow> bool" where
  "is_management_role role = (role = ''management'')"

definition is_management_registration :: "registration_row option \<Rightarrow> bool" where
  "is_management_registration r = is_management_role (cluster_role_from_registration r)"

definition evaluate_management_guard :: "policy_env \<Rightarrow> gate_store \<Rightarrow> command_requested \<Rightarrow> policy_result" where
  "evaluate_management_guard pv g c =
     (if cq_direct_execution c then Allow
      else if (case command_action_spec pv (cq_action c) of None \<Rightarrow> False | Some sp \<Rightarrow> sp_read_only sp)
      then Allow
      else if is_management_registration (get_cluster_registration (cq_workspace_id c) (cq_cluster_id c) g) \<or>
              is_management_role (cluster_role_from_policy (ce_render (pv_command pv))
                (get_cluster_policy (cq_workspace_id c) (cq_cluster_id c) g))
      then Reject ''management_readonly'' None
      else Allow)"

section \<open>Recorded approvals\<close>

definition approval_evidence_ttl_seconds :: "policy_env \<Rightarrow> int" where
  "approval_evidence_ttl_seconds pv =
     (case parse_int (getenv pv ''COMMAND_APPROVAL_EVIDENCE_TTL_SECONDS'' ''3600'') of
        None \<Rightarrow> 3600
      | Some n \<Rightarrow> max 1 n)"

text \<open>A timestamp without an offset is taken as UTC; an instant is one already.\<close>

definition parse_approval_timestamp :: "policy_env \<Rightarrow> stamp \<Rightarrow> time option" where
  "parse_approval_timestamp pv v =
     (case v of
        Stamp t \<Rightarrow> Some t
      | StampText s \<Rightarrow>
          if py_strip s = [] then None
          else case pv_fromisoformat pv (py_replace ''Z'' ''+00:00'' (py_strip s)) of
                 None \<Rightarrow> None
               | Some (wall, None) \<Rightarrow> Some wall
               | Some (wall, Some offset) \<Rightarrow> Some (wall - offset))"

definition approval_timestamp_body :: "policy_env \<Rightarrow> time \<Rightarrow> string" where
  "approval_timestamp_body pv t = py_replace ''+00:00'' ''Z'' (pv_isoformat pv t)"

definition approval_expires_at_from_record ::
    "policy_env \<Rightarrow> time \<Rightarrow> approval_row \<Rightarrow> policy_result \<times> string option" where
  "approval_expires_at_from_record pv now r =
     (let unset = (Allow, Some (approval_timestamp_body pv (now + seconds (approval_evidence_ttl_seconds pv))))
      in case ap_expires_at r of
           None \<Rightarrow> unset
         | Some (StampText []) \<Rightarrow> unset
         | Some raw \<Rightarrow>
             (case parse_approval_timestamp pv raw of
                None \<Rightarrow> (Reject ''write command approval_expires_at is invalid'' None, None)
              | Some t \<Rightarrow>
                  if t \<le> now then (Reject ''write command approval is expired'' None, None)
                  else (Allow, Some (approval_timestamp_body pv t))))"

definition approval_status_result :: "policy_env \<Rightarrow> command_requested \<Rightarrow> approval_row \<Rightarrow> policy_result" where
  "approval_status_result pv c r =
     (if ap_status r = ''granted'' then Allow
      else if ap_status r \<noteq> ''not_required'' then Reject ''write command approval_ref is not granted'' None
      else let policy_route = (case ap_details r of
                 JObj d \<Rightarrow> (case jget d ''policy_route'' of
                             None \<Rightarrow> [] | Some v \<Rightarrow> py_str (ce_render (pv_command pv)) v)
               | _ \<Rightarrow> [])
           in if is_sandbox_environment (cq_environment c) \<and> policy_route = ''safe_pr'' then Allow
              else Reject ''write command not-required approval is limited to sandbox safe_pr policy'' None)"

record approval_evidence =
  ae_approval_ref :: string
  ae_policy_decision_ref :: string
  ae_decided_by :: string
  ae_expires_at :: string

definition detail_mismatch :: "policy_env \<Rightarrow> approval_row \<Rightarrow> string \<Rightarrow> string \<Rightarrow> bool" where
  "detail_mismatch pv r key expected =
     (case ap_details r of
        JObj d \<Rightarrow> (case jget d key of
                    None \<Rightarrow> False
                  | Some v \<Rightarrow> py_truthy v \<and> py_str (ce_render (pv_command pv)) v \<noteq> expected)
      | _ \<Rightarrow> False)"

definition evaluate_recorded_approval ::
    "policy_env \<Rightarrow> time \<Rightarrow> gate_store \<Rightarrow> command_requested \<Rightarrow> policy_result \<times> approval_evidence option" where
  "evaluate_recorded_approval pv now g c =
     (if \<not> command_requires_recorded_approval pv c then (Allow, None)
      else if missing (cq_approval_ref c) then (Reject ''write command requires approval_ref'' None, None)
      else if missing (cq_policy_decision_ref c)
      then (Reject ''write command requires policy_decision_ref'' None, None)
      else let approval_ref = the (cq_approval_ref c); decision_ref = the (cq_policy_decision_ref c)
      in case get_workflow_approval approval_ref (cq_workspace_id c) g of
        None \<Rightarrow> (Reject ''write command approval_ref is not recorded'' None, None)
      | Some r \<Rightarrow>
          if ap_workflow_run_id r \<noteq> cq_workflow_run_id c
          then (Reject ''write command approval workflow mismatch'' None, None)
          else (case approval_status_result pv c r of
            Reject reason code \<Rightarrow> (Reject reason code, None)
          | Allow \<Rightarrow>
              if detail_mismatch pv r ''policy_decision_ref'' decision_ref \<or>
                 detail_mismatch pv r ''approval_ref'' approval_ref
              then (Reject ''write command policy_decision_ref mismatch'' None, None)
              else if missing (ap_decided_by r)
              then (Reject ''write command approval_decided_by is missing'' None, None)
              else if \<not> missing (cq_approval_decided_by c) \<and> cq_approval_decided_by c \<noteq> ap_decided_by r
              then (Reject ''write command approval_decided_by mismatch'' None, None)
              else (case approval_expires_at_from_record pv now r of
                (Reject reason code, _) \<Rightarrow> (Reject reason code, None)
              | (Allow, None) \<Rightarrow> (Reject ''write command approval_expires_at is invalid'' None, None)
              | (Allow, Some expires_at) \<Rightarrow>
                  if \<not> missing (cq_approval_expires_at c) \<and>
                     (case parse_approval_timestamp pv (StampText (the (cq_approval_expires_at c))) of
                        None \<Rightarrow> True
                      | Some t \<Rightarrow> approval_timestamp_body pv t \<noteq> expires_at)
                  then (Reject ''write command approval_expires_at is invalid'' None, None)
                  else (Allow, Some \<lparr>ae_approval_ref = approval_ref, ae_policy_decision_ref = decision_ref,
                                   ae_decided_by = the (ap_decided_by r), ae_expires_at = expires_at\<rparr>))))"

text \<open>The branch the source closes with an assertion is never taken.\<close>

lemma expires_at_present: "approval_expires_at_from_record pv now r \<noteq> (Allow, None)"
  by (auto simp: approval_expires_at_from_record_def Let_def split: option.splits stamp.splits list.splits if_splits)

end
