(* ===== verification/Alert_Evaluation.thy ===== *)
theory Alert_Evaluation
  imports Alert_Store Command_Policy
begin

text \<open>
  The evaluation engine of alert rules: \<^verbatim>\<open>src/src/domains/alert/evaluation.py\<close>, and the stager of
  \<^verbatim>\<open>src/src/services/alert/alert-worker/app.py\<close> that joins its transactions. An evaluation reads
  the state of the rule's target, decides from one measurement whether the condition holds and
  for how long, and opens, refreshes or resolves the event of that target.
\<close>

section \<open>Measurements and the environment\<close>

record alert_measurement =
  me_subject :: jobj
  me_observed_value :: rat
  me_observed_at :: time
  me_evidence :: "jobj list"

text \<open>
  \<open>av_digest\<close> is the SHA-256 of the canonical JSON text, \<open>av_str\<close> Python's text of floats and
  containers, \<open>av_fromisoformat\<close> the parser of ISO timestamps (the instant, and whether an offset
  was given).
\<close>

record alert_env =
  av_digest :: "jobj \<Rightarrow> string"
  av_str :: "json \<Rightarrow> string"
  av_fromisoformat :: "string \<Rightarrow> (time \<times> bool) option"

text \<open>What one evaluation reads from clocks and identifier sources.\<close>

record tick =
  tk_evaluated_at :: time
  tk_now :: time
  tk_event_id :: string
  tk_envelope_id :: string

definition new_measurement :: "alert_env \<Rightarrow> jobj \<Rightarrow> rat \<Rightarrow> time \<Rightarrow> jobj list \<Rightarrow> alert_measurement option" where
  "new_measurement av subject v t evidence =
     (if list_all (\<lambda>k. case jget subject k of None \<Rightarrow> False | Some j \<Rightarrow> py_str (av_str av) j \<noteq> [])
           [''cluster'', ''namespace'', ''kind'', ''name''] \<and> evidence \<noteq> []
      then Some \<lparr>me_subject = subject, me_observed_value = v, me_observed_at = t, me_evidence = evidence\<rparr>
      else None)"

definition subject_key :: "alert_env \<Rightarrow> alert_measurement \<Rightarrow> string" where
  "subject_key av m = av_digest av (me_subject m)"

definition compare_alert_value :: "rat \<Rightarrow> string \<Rightarrow> rat \<Rightarrow> bool option" where
  "compare_alert_value v comparator threshold =
     (if comparator = ''>'' then Some (v > threshold)
      else if comparator = ''>='' then Some (v \<ge> threshold)
      else if comparator = ''<'' then Some (v < threshold)
      else if comparator = ''<='' then Some (v \<le> threshold)
      else None)"

text \<open>
  \<^verbatim>\<open>_last_observed_at\<close>. A text that is no timestamp raises, and so does comparing an instant
  without offset with one that has it.
\<close>

fun observed_times :: "alert_env \<Rightarrow> jobj list \<Rightarrow> time list option" where
  "observed_times av [] = Some []"
| "observed_times av (item # items) =
     (case jget item ''observed_at'' of
        Some (JStr (c # cs)) \<Rightarrow>
          (case av_fromisoformat av (py_replace ''Z'' ''+00:00'' (c # cs)) of
             Some (t, True) \<Rightarrow> map_option ((#) t) (observed_times av items)
           | _ \<Rightarrow> None)
      | _ \<Rightarrow> observed_times av items)"

definition last_observed_at :: "alert_env \<Rightarrow> target_state option \<Rightarrow> time option option" where
  "last_observed_at av st =
     map_option (\<lambda>ts. if ts = [] then None else Some (Max (set ts)))
       (observed_times av (case st of None \<Rightarrow> [] | Some t \<Rightarrow> ts_last_evidence t))"

section \<open>Staging a transition\<close>

record alert_transition =
  tr_event :: alert_event
  tr_transition :: string
  tr_channel_ids :: "string list"

definition notification_transition :: "alert_event \<Rightarrow> alert_rule \<Rightarrow> string \<Rightarrow> alert_transition" where
  "notification_transition e rule name = \<lparr>tr_event = e, tr_transition = name, tr_channel_ids = ar_channels rule\<rparr>"

text \<open>Texts of the delivery, in UTF-8: the labels of a resolution and a firing, the dot, the default name.\<close>

definition state_label :: "string \<Rightarrow> string" where
  "state_label state =
     (if state = ''resolved'' then [CHR 0xED, CHR 0x95, CHR 0xB4, CHR 0xEC, CHR 0x86, CHR 0x8C]
      else [CHR 0xEB, CHR 0xB0, CHR 0x9C, CHR 0xEC, CHR 0x83, CHR 0x9D])"

definition default_rule_name :: string where
  "default_rule_name = [CHR 0xEC, CHR 0x95, CHR 0x8C, CHR 0xEB, CHR 0xA6, CHR 0xBC, CHR '' '',
     CHR 0xEA, CHR 0xB7, CHR 0x9C, CHR 0xEC, CHR 0xB9, CHR 0x99]"

definition rule_delivery_severity :: "string \<Rightarrow> string" where
  "rule_delivery_severity v =
     (if v \<in> {''critical'', ''high''} then ''critical''
      else if v \<in> {''medium'', ''warning''} then ''warning''
      else if v \<in> {''low'', ''info''} then ''info''
      else ''warning'')"

definition subject_text :: "alert_env \<Rightarrow> jobj \<Rightarrow> string \<Rightarrow> string \<Rightarrow> string" where
  "subject_text av subject k dflt =
     (case jget subject k of None \<Rightarrow> dflt | Some j \<Rightarrow> if py_truthy j then py_str (av_str av) j else dflt)"

text \<open>\<^verbatim>\<open>alert_request_for_rule_transition\<close>: the fields of the body, in the order of its class.\<close>

definition alert_request :: "alert_env \<Rightarrow> alert_transition \<Rightarrow> pyval list" where
  "alert_request av tr =
     (let e = tr_event tr; state = tr_transition tr;
          rule_name = or_default (or_default (case ae_rule_name e of None \<Rightarrow> [] | Some n \<Rightarrow> n) (case ae_rule_id e of None \<Rightarrow> [] | Some r \<Rightarrow> r)) default_rule_name in
      [PStr (subject_text av (ae_subject e) ''cluster'' ''unknown''),
       PStr (subject_text av (ae_subject e) ''namespace'' []),
       PStr (rule_delivery_severity (ascii_lower (py_strip (or_default (ae_severity e) ''warning'')))),
       PStr (rule_name @ [CHR '' '', CHR 0xC2, CHR 0xB7, CHR '' ''] @ state_label state),
       PStr (''alert rule '' @ or_default state ''firing''),
       PNull,
       PStr (or_default (ae_workspace_id e) ''default''),
       PStr [], PStr [], PStr [], PStr ''sandbox'',
       PList (map PStr (tr_channel_ids tr))])"

definition request_envelope :: "alert_env \<Rightarrow> tick \<Rightarrow> alert_transition \<Rightarrow> envelope" where
  "request_envelope av tk tr =
     make_event (tk_envelope_id tk) (tk_now tk) None ''alert.requested'' ''alert-worker''
       (to_body alert_requested_body (alert_request av tr))
       (Some (ae_event_id (tr_event tr))) None (Some (or_default (ae_workspace_id (tr_event tr)) ''default''))"

definition stage_rule_transition :: "alert_env \<Rightarrow> tick \<Rightarrow> alert_transition \<Rightarrow> db \<Rightarrow> db" where
  "stage_rule_transition av tk tr s =
     (if tr_channel_ids tr = [] then s
      else stage_events [request_envelope av tk tr] (record_event (tk_now tk) (request_envelope av tk tr) s))"

definition transactional_stager :: "alert_env \<Rightarrow> tick \<Rightarrow> alert_rule \<Rightarrow> string \<Rightarrow> (alert_event \<Rightarrow> db \<Rightarrow> db) option" where
  "transactional_stager av tk rule name =
     Some (\<lambda>saved. stage_rule_transition av tk (notification_transition saved rule name))"

section \<open>One evaluation\<close>

definition firing_event :: "alert_env \<Rightarrow> tick \<Rightarrow> alert_rule \<Rightarrow> alert_measurement \<Rightarrow> alert_event" where
  "firing_event av tk rule m =
     \<lparr>ae_event_id = ''ale-'' @ tk_event_id tk, ae_workspace_id = ar_workspace_id rule,
      ae_rule_id = Some (ar_rule_id rule), ae_rule_name = Some (ar_name rule), ae_source = ''opsia'',
      ae_severity = ar_severity rule, ae_subject_key = subject_key av m, ae_subject = me_subject m,
      ae_fired_at = tk_evaluated_at tk, ae_resolved_at = None, ae_status = Firing,
      ae_observed_value = Some (me_observed_value m), ae_threshold = Some (ar_threshold rule),
      ae_series_identity = None, ae_evidence = me_evidence m, ae_incident_id = None,
      ae_acknowledged_at = None, ae_acknowledged_by = None, ae_promoted_at = None, ae_promoted_by = None,
      ae_updated_at = tk_now tk\<rparr>"

definition state_payload ::
    "alert_env \<Rightarrow> tick \<Rightarrow> alert_rule \<Rightarrow> alert_measurement \<Rightarrow> time option \<Rightarrow> string option \<Rightarrow> target_state" where
  "state_payload av tk rule m since active =
     \<lparr>ts_rule_id = ar_rule_id rule, ts_subject_key = subject_key av m, ts_workspace_id = ar_workspace_id rule,
      ts_subject = me_subject m, ts_condition_since = since, ts_active_event_id = active,
      ts_last_observed_value = me_observed_value m, ts_last_evidence = me_evidence m,
      ts_last_evaluated_at = tk_evaluated_at tk, ts_created_at = tk_now tk, ts_updated_at = tk_now tk\<rparr>"

definition active_of :: "target_state option \<Rightarrow> string option" where
  "active_of st =
     (case st of None \<Rightarrow> None
      | Some t \<Rightarrow> (case ts_active_event_id t of Some (c # cs) \<Rightarrow> Some (c # cs) | _ \<Rightarrow> None))"

definition since_of :: "target_state option \<Rightarrow> time option" where
  "since_of st = (case st of None \<Rightarrow> None | Some t \<Rightarrow> ts_condition_since t)"

type_synonym evaluation = "(alert_error + alert_transition option) \<times> alert_db"

definition recover ::
    "alert_env \<Rightarrow> tick \<Rightarrow> alert_rule \<Rightarrow> alert_measurement \<Rightarrow> target_state option \<Rightarrow> alert_db \<Rightarrow> evaluation" where
  "recover av tk rule m st s =
     (case active_of st of
        None \<Rightarrow> (Inr None, upsert_alert_rule_target_state (tk_now tk) (state_payload av tk rule m None None) s)
      | Some a \<Rightarrow>
          (case resolve_alert_rule_event (tk_now tk) (state_payload av tk rule m (since_of st) (Some a))
                  (me_observed_value m) (me_evidence m) (tk_evaluated_at tk)
                  (transactional_stager av tk rule ''resolved'') s of
             (None, s') \<Rightarrow> (Inr None, s')
           | (Some resolved, s') \<Rightarrow> (Inr (Some (notification_transition resolved rule ''resolved'')), s')))"

definition evaluate_measurement ::
    "alert_env \<Rightarrow> tick \<Rightarrow> alert_rule \<Rightarrow> alert_measurement \<Rightarrow> alert_db \<Rightarrow> evaluation" where
  "evaluate_measurement av tk rule m s =
     (let st = get_alert_rule_target_state (ar_workspace_id rule) (ar_rule_id rule) (subject_key av m) s;
          since = since_of st in
      case last_observed_at av st of
        None \<Rightarrow> (Inl InvalidTimestamp, s)
      | Some last_seen \<Rightarrow>
          if (case last_seen of None \<Rightarrow> False | Some t \<Rightarrow> me_observed_at m \<le> t) then (Inr None, s)
          else
            case compare_alert_value (me_observed_value m) (ar_comparator rule) (ar_threshold rule) of
              None \<Rightarrow> (Inl ComparatorUnsupported, s)
            | Some False \<Rightarrow> recover av tk rule m st s
            | Some True \<Rightarrow>
                (case active_of st of
                   Some a \<Rightarrow>
                     (Inr None, upsert_alert_rule_target_state (tk_now tk) (state_payload av tk rule m since (Some a))
                        (refresh_alert_rule_event (ar_workspace_id rule) a (me_observed_value m) (me_evidence m)
                           (tk_evaluated_at tk) s))
                 | None \<Rightarrow>
                     (case since of
                        None \<Rightarrow>
                          (Inr None, upsert_alert_rule_target_state (tk_now tk)
                             (state_payload av tk rule m (Some (me_observed_at m)) None) s)
                      | Some c \<Rightarrow>
                          if me_observed_at m - c < seconds (ar_for_seconds rule)
                          then (Inr None, upsert_alert_rule_target_state (tk_now tk) (state_payload av tk rule m (Some c) None) s)
                          else
                            (case activate_alert_rule_event (tk_now tk) (state_payload av tk rule m (Some c) None)
                                    (firing_event av tk rule m) (transactional_stager av tk rule ''firing'') s of
                               (Inl e, s') \<Rightarrow> (Inl e, s')
                             | (Inr (saved, created), s') \<Rightarrow>
                                 (Inr (if created then Some (notification_transition saved rule ''firing'') else None), s')))))"

text \<open>
  A cycle: every measurement of every enabled rule, in order. An error ends the cycle; what the
  evaluations before it committed stays, and so do the transitions they staged.
\<close>

fun evaluate_all ::
    "alert_env \<Rightarrow> (nat \<Rightarrow> tick) \<Rightarrow> nat \<Rightarrow> (alert_rule \<times> alert_measurement) list \<Rightarrow> alert_db
      \<Rightarrow> alert_error option \<times> alert_transition list \<times> alert_db" where
  "evaluate_all av ticks n [] s = (None, [], s)"
| "evaluate_all av ticks n ((rule, m) # rest) s =
     (case evaluate_measurement av (ticks n) rule m s of
        (Inl e, s') \<Rightarrow> (Some e, [], s')
      | (Inr tr, s') \<Rightarrow>
          (case evaluate_all av ticks (Suc n) rest s' of
             (e, trs, s'') \<Rightarrow> (e, (case tr of None \<Rightarrow> trs | Some t \<Rightarrow> t # trs), s'')))"

definition evaluate_once ::
    "alert_env \<Rightarrow> (nat \<Rightarrow> tick) \<Rightarrow> (alert_rule \<Rightarrow> alert_measurement list) \<Rightarrow> alert_db
      \<Rightarrow> (alert_error + alert_transition list) \<times> alert_db" where
  "evaluate_once av ticks load s =
     (case evaluate_all av ticks 0
             (concat (map (\<lambda>r. map (Pair r) (load r)) (list_enabled_alert_rules s))) s of
        (Some e, _, s') \<Rightarrow> (Inl e, s')
      | (None, trs, s') \<Rightarrow> (Inr trs, s'))"

end
