(* ===== verification/Alert_Properties.thy ===== *)
theory Alert_Properties
  imports Alert_Evaluation
begin

text \<open>
  What the alert engine guarantees, and what it does not: how target states and events stay in
  step, when a rule fires, that every transition crosses the commit boundary with its delivery,
  and the target that never alerts again once an incident has closed its event.
\<close>

section \<open>States and events under one evaluation\<close>

lemma map_key_update_where:
  "(\<And>r. r \<in> set t \<Longrightarrow> p r \<Longrightarrow> key (f r) = key r) \<Longrightarrow> map key (update_where p f t) = map key t"
  by (simp add: update_where_def)

definition stamped :: "time \<Rightarrow> target_state \<Rightarrow> target_state option \<Rightarrow> target_state" where
  "stamped now t old =
     t\<lparr>ts_created_at := (case old of None \<Rightarrow> now | Some u \<Rightarrow> ts_created_at u), ts_updated_at := now\<rparr>"

lemma stamped_fields [simp]:
  "state_key (stamped now t old) = state_key t"
  "ts_workspace_id (stamped now t old) = ts_workspace_id t"
  "ts_condition_since (stamped now t old) = ts_condition_since t"
  "ts_active_event_id (stamped now t old) = ts_active_event_id t"
  "ts_last_evidence (stamped now t old) = ts_last_evidence t"
  by (simp_all add: stamped_def state_key_def)

lemma put_state_eq:
  "put_state now t states =
     (if state_key t \<in> state_key ` set states
      then update_where (\<lambda>u. state_key u = state_key t) (\<lambda>u. stamped now t (Some u)) states
      else states @ [stamped now t None])"
  by (simp add: put_state_def stamped_def)

lemma unique_put_state:
  assumes "unique_key state_key states"
  shows "unique_key state_key (put_state now t states)"
proof (cases "state_key t \<in> state_key ` set states")
  case True
  have "map state_key (update_where (\<lambda>u. state_key u = state_key t) (\<lambda>u. stamped now t (Some u)) states) = map state_key states"
    by (rule map_key_update_where) simp
  with True assms show ?thesis by (simp add: put_state_eq unique_key_def)
next
  case False
  with assms show ?thesis by (auto simp: put_state_eq unique_key_def)
qed

lemma lookup_put_state:
  "lookup state_key k (put_state now t states) =
     (if k = state_key t then Some (stamped now t (lookup state_key k states)) else lookup state_key k states)"
proof (cases "state_key t \<in> state_key ` set states")
  case True
  have "lookup state_key k (update_where (\<lambda>u. state_key u = state_key t) (\<lambda>u. stamped now t (Some u)) states) =
      (if k = state_key t then map_option (\<lambda>u. stamped now t (Some u)) (lookup state_key k states)
       else lookup state_key k states)"
    by (induction states) (auto simp: lookup_def update_where_def)
  moreover have "lookup state_key (state_key t) states \<noteq> None"
    using True by (simp add: lookup_None_iff)
  ultimately show ?thesis
    using True by (auto simp: put_state_eq)
next
  case False
  then have "lookup state_key (state_key t) states = None"
    by (simp add: lookup_None_iff)
  moreover have "lookup state_key k [stamped now t None] = (if k = state_key t then Some (stamped now t None) else None)"
    by (simp add: lookup_def)
  ultimately show ?thesis
    using False by (auto simp: put_state_eq lookup_append split: option.splits)
qed

lemma get_state_lookup:
  assumes "unique_key state_key (al_states s)"
  shows "get_alert_rule_target_state ws rule key s =
     (case lookup state_key (rule, key) (al_states s) of
        None \<Rightarrow> None | Some t \<Rightarrow> if ts_workspace_id t = ws then Some t else None)"
proof -
  have "(\<lambda>t. ts_workspace_id t = ws \<and> ts_rule_id t = rule \<and> ts_subject_key t = key) =
      (\<lambda>t. state_key t = (rule, key) \<and> ts_workspace_id t = ws)"
    by (auto simp: state_key_def)
  then show ?thesis
    using find_key_and [OF assms, of "(rule, key)" "\<lambda>t. ts_workspace_id t = ws"]
    by (simp add: get_alert_rule_target_state_def)
qed

section \<open>The effect of each branch\<close>

text \<open>The target of a rule and a measurement, and what the engine's operations do to the tables.\<close>

definition target_of :: "alert_env \<Rightarrow> alert_rule \<Rightarrow> alert_measurement \<Rightarrow> string \<times> string" where
  "target_of av rule m = (ar_rule_id rule, subject_key av m)"

lemma state_payload_fields [simp]:
  "state_key (state_payload av tk rule m since active) = target_of av rule m"
  "ts_rule_id (state_payload av tk rule m since active) = ar_rule_id rule"
  "ts_subject_key (state_payload av tk rule m since active) = subject_key av m"
  "ts_workspace_id (state_payload av tk rule m since active) = ar_workspace_id rule"
  "ts_condition_since (state_payload av tk rule m since active) = since"
  "ts_active_event_id (state_payload av tk rule m since active) = active"
  "ts_last_evidence (state_payload av tk rule m since active) = me_evidence m"
  by (simp_all add: state_payload_def state_key_def target_of_def)

lemma upsert_frame [simp]:
  "al_events (upsert_alert_rule_target_state now t s) = al_events s"
  "al_rules (upsert_alert_rule_target_state now t s) = al_rules s"
  "al_db (upsert_alert_rule_target_state now t s) = al_db s"
  "al_states (upsert_alert_rule_target_state now t s) = put_state now t (al_states s)"
  by (simp_all add: upsert_alert_rule_target_state_def)

lemma refresh_frame [simp]:
  "al_states (refresh_alert_rule_event ws i v ev at' s) = al_states s"
  "al_rules (refresh_alert_rule_event ws i v ev at' s) = al_rules s"
  "al_db (refresh_alert_rule_event ws i v ev at' s) = al_db s"
  by (simp_all add: refresh_alert_rule_event_def)

text \<open>The part of an event the indexes and the conditions look at.\<close>

definition event_core :: "alert_event \<Rightarrow> string \<times> string \<times> string option \<times> string \<times> alert_status" where
  "event_core e = (ae_event_id e, ae_workspace_id e, ae_rule_id e, ae_subject_key e, ae_status e)"

lemma refresh_core [simp]:
  "map event_core (al_events (refresh_alert_rule_event ws i v ev at' s)) = map event_core (al_events s)"
  unfolding refresh_alert_rule_event_def by (simp, rule map_key_update_where) (simp add: event_core_def)

text \<open>
  The outcomes of one evaluation. Six leave the events alone; the others open an event, find it
  already open, or resolve it.
\<close>

lemma evaluation_cases:
  assumes "evaluate_measurement av tk rule m s = (res, s')"
  defines "st \<equiv> get_alert_rule_target_state (ar_workspace_id rule) (ar_rule_id rule) (subject_key av m) s"
  obtains
    (failed) e where "res = Inl e" "s' = s"
  | (stale) "res = Inr None" "s' = s"
      "\<exists>t. last_observed_at av st = Some (Some t) \<and> me_observed_at m \<le> t"
  | (cleared) "res = Inr None" "active_of st = None"
      "compare_alert_value (me_observed_value m) (ar_comparator rule) (ar_threshold rule) = Some False"
      "s' = upsert_alert_rule_target_state (tk_now tk) (state_payload av tk rule m None None) s"
  | (lost) a where "res = Inr None" "s' = s" "active_of st = Some a"
      "compare_alert_value (me_observed_value m) (ar_comparator rule) (ar_threshold rule) = Some False"
      "resolve_alert_rule_event (tk_now tk) (state_payload av tk rule m (since_of st) (Some a))
         (me_observed_value m) (me_evidence m) (tk_evaluated_at tk) (transactional_stager av tk rule ''resolved'') s = (None, s')"
  | (resolved) a e where "res = Inr (Some (notification_transition e rule ''resolved''))" "active_of st = Some a"
      "compare_alert_value (me_observed_value m) (ar_comparator rule) (ar_threshold rule) = Some False"
      "resolve_alert_rule_event (tk_now tk) (state_payload av tk rule m (since_of st) (Some a))
         (me_observed_value m) (me_evidence m) (tk_evaluated_at tk) (transactional_stager av tk rule ''resolved'') s = (Some e, s')"
  | (refreshed) a where "res = Inr None" "active_of st = Some a"
      "compare_alert_value (me_observed_value m) (ar_comparator rule) (ar_threshold rule) = Some True"
      "s' = upsert_alert_rule_target_state (tk_now tk) (state_payload av tk rule m (since_of st) (Some a))
         (refresh_alert_rule_event (ar_workspace_id rule) a (me_observed_value m) (me_evidence m) (tk_evaluated_at tk) s)"
  | (started) "res = Inr None" "active_of st = None" "since_of st = None"
      "compare_alert_value (me_observed_value m) (ar_comparator rule) (ar_threshold rule) = Some True"
      "s' = upsert_alert_rule_target_state (tk_now tk) (state_payload av tk rule m (Some (me_observed_at m)) None) s"
  | (waiting) c where "res = Inr None" "active_of st = None" "since_of st = Some c"
      "compare_alert_value (me_observed_value m) (ar_comparator rule) (ar_threshold rule) = Some True"
      "me_observed_at m - c < seconds (ar_for_seconds rule)"
      "s' = upsert_alert_rule_target_state (tk_now tk) (state_payload av tk rule m (Some c) None) s"
  | (fired) c saved created where
      "res = Inr (if created then Some (notification_transition saved rule ''firing'') else None)"
      "active_of st = None" "since_of st = Some c"
      "compare_alert_value (me_observed_value m) (ar_comparator rule) (ar_threshold rule) = Some True"
      "seconds (ar_for_seconds rule) \<le> me_observed_at m - c"
      "activate_alert_rule_event (tk_now tk) (state_payload av tk rule m (Some c) None) (firing_event av tk rule m)
         (transactional_stager av tk rule ''firing'') s = (Inr (saved, created), s')"
proof -
  note ev = assms(1)[unfolded evaluate_measurement_def Let_def, folded assms(2)]
  show ?thesis
  proof (cases "last_observed_at av st")
    case None
    show ?thesis by (rule failed[of InvalidTimestamp]) (use ev None in auto)
  next
    case (Some seen)
    show ?thesis
    proof (cases "case seen of None \<Rightarrow> False | Some t \<Rightarrow> me_observed_at m \<le> t")
      case True
      show ?thesis by (rule stale) (use ev Some True in \<open>auto split: option.splits\<close>)
    next
      case fresh: False
      note ev = ev[unfolded Some option.case if_not_P[OF fresh]]
      show ?thesis
      proof (cases "compare_alert_value (me_observed_value m) (ar_comparator rule) (ar_threshold rule)")
        case None
        show ?thesis by (rule failed[of ComparatorUnsupported]) (use ev None in auto)
      next
        case holds: (Some b)
        show ?thesis
        proof (cases b)
          case False
          with ev holds have r: "recover av tk rule m st s = (res, s')" by simp
          show ?thesis
          proof (cases "active_of st")
            case None
            show ?thesis by (rule cleared) (use r holds False None in \<open>auto simp: recover_def\<close>)
          next
            case act: (Some a)
            obtain found s1 where step: "resolve_alert_rule_event (tk_now tk) (state_payload av tk rule m (since_of st) (Some a))
                (me_observed_value m) (me_evidence m) (tk_evaluated_at tk) (transactional_stager av tk rule ''resolved'') s = (found, s1)"
              by fastforce
            with r act have out: "(case found of None \<Rightarrow> (Inr None, s1)
                | Some e \<Rightarrow> (Inr (Some (notification_transition e rule ''resolved'')), s1)) = (res, s')"
              by (simp add: recover_def)
            show ?thesis
            proof (cases found)
              case None
              with step have "s1 = s" by (auto simp: resolve_alert_rule_event_def Let_def split: option.splits)
              with out step None show ?thesis by (intro lost) (use act holds False in auto)
            next
              case (Some e)
              with out step show ?thesis by (intro resolved) (use act holds False in auto)
            qed
          qed
        next
          case True
          show ?thesis
          proof (cases "active_of st")
            case act: (Some a)
            show ?thesis by (rule refreshed) (use ev holds True act in auto)
          next
            case none: None
            show ?thesis
            proof (cases "since_of st")
              case None
              show ?thesis by (rule started) (use ev holds True none None in auto)
            next
              case since: (Some c)
              show ?thesis
              proof (cases "me_observed_at m - c < seconds (ar_for_seconds rule)")
                case early: True
                show ?thesis by (rule waiting) (use ev holds True none since early in auto)
              next
                case late: False
                obtain r1 s1 where step: "activate_alert_rule_event (tk_now tk) (state_payload av tk rule m (Some c) None)
                    (firing_event av tk rule m) (transactional_stager av tk rule ''firing'') s = (r1, s1)"
                  by fastforce
                with ev holds True none since late
                have out: "(case r1 of Inl e \<Rightarrow> (Inl e, s1) | Inr (saved, created) \<Rightarrow>
                    (Inr (if created then Some (notification_transition saved rule ''firing'') else None), s1)) = (res, s')"
                  by simp
                show ?thesis
                proof (cases r1)
                  case (Inl e)
                  with step have "s1 = s" by (auto simp: activate_alert_rule_event_def Let_def split: option.splits if_splits)
                  with out Inl show ?thesis by (intro failed[of e]) auto
                next
                  case (Inr p)
                  obtain saved created where "p = (saved, created)" by (cases p)
                  with out Inr step show ?thesis by (intro fired[where saved = saved and created = created and c = c]) (use holds True none since late in auto)
                qed
              qed
            qed
          qed
        qed
      qed
    qed
  qed
qed

section \<open>A target whose event an incident closed\<close>

text \<open>An identifier of the table of events none of whose rows is active.\<close>

definition closed_in :: "string \<Rightarrow> alert_event list \<Rightarrow> bool" where
  "closed_in a es \<longleftrightarrow>
     list_ex (\<lambda>e. ae_event_id e = a) es \<and> list_all (\<lambda>e. ae_event_id e = a \<longrightarrow> \<not> is_active e) es"

text \<open>The state of the target names such an event.\<close>

definition names_closed_event :: "string \<Rightarrow> string \<Rightarrow> string \<Rightarrow> string \<Rightarrow> alert_db \<Rightarrow> bool" where
  "names_closed_event ws rule key a s \<longleftrightarrow>
     unique_key state_key (al_states s) \<and>
     active_of (get_alert_rule_target_state ws rule key s) = Some a \<and> closed_in a (al_events s)"

lemma closed_in_update:
  assumes "closed_in a es"
    and "\<And>e. ae_event_id (f e) = ae_event_id e" "\<And>e. p e \<Longrightarrow> is_active (f e) \<Longrightarrow> is_active e"
  shows "closed_in a (update_where p f es)"
proof -
  have "list_ex (\<lambda>e. ae_event_id e = a) (update_where p f es) = list_ex (\<lambda>e. ae_event_id e = a) es"
    by (induction es) (auto simp: update_where_def assms(2))
  moreover have "list_all (\<lambda>e. ae_event_id e = a \<longrightarrow> \<not> is_active e) es \<Longrightarrow>
      list_all (\<lambda>e. ae_event_id e = a \<longrightarrow> \<not> is_active e) (update_where p f es)"
    by (induction es) (auto simp: update_where_def assms(2) dest: assms(3))
  ultimately show ?thesis using assms(1) by (simp add: closed_in_def)
qed

lemma closed_in_append: "closed_in a es \<Longrightarrow> ae_event_id e \<noteq> a \<Longrightarrow> closed_in a (es @ [e])"
  by (simp add: closed_in_def)

lemma closed_in_known: "closed_in a es \<Longrightarrow> a \<in> ae_event_id ` set es"
  by (auto simp: closed_in_def list_ex_iff)

lemma closed_in_inactive: "closed_in a es \<Longrightarrow> e \<in> set es \<Longrightarrow> ae_event_id e = a \<Longrightarrow> \<not> is_active e"
  by (auto simp: closed_in_def list_all_iff)

lemma refresh_closed: "closed_in a (al_events s) \<Longrightarrow> closed_in a (al_events (refresh_alert_rule_event ws i v ev t s))"
  unfolding refresh_alert_rule_event_def by simp (rule closed_in_update; simp add: is_active_def)

lemma get_state_upsert:
  assumes "unique_key state_key (al_states s)"
  shows "get_alert_rule_target_state ws rule key (upsert_alert_rule_target_state now t s) =
    (if (rule, key) = state_key t
     then (if ts_workspace_id t = ws then Some (stamped now t (lookup state_key (rule, key) (al_states s))) else None)
     else get_alert_rule_target_state ws rule key s)"
  using get_state_lookup [OF assms] get_state_lookup [of "upsert_alert_rule_target_state now t s"]
    unique_put_state [OF assms]
  by (simp add: lookup_put_state)

lemma get_state_refresh [simp]:
  "get_alert_rule_target_state ws rule key (refresh_alert_rule_event ws' i v ev t s) =
   get_alert_rule_target_state ws rule key s"
  by (simp add: get_alert_rule_target_state_def)

lemma active_of_stamped [simp]: "active_of (Some (stamped now t o')) = active_of (Some t)"
  by (simp add: active_of_def)

lemma active_of_nonempty: "active_of st = Some a \<Longrightarrow> a \<noteq> []"
  by (auto simp: active_of_def split: option.splits list.splits)

lemma active_of_payload:
  "active_of (Some (state_payload av tk rule m since active)) = (if active = Some [] then None else active)"
  by (auto simp: active_of_def split: option.splits list.splits)


text \<open>
  Evaluating the silenced target itself writes at most its state, and its transition is none.
  Evaluating another one leaves it as it is: an event with its identifier cannot be opened, and
  one that is not active cannot be resolved.
\<close>

lemma lookup_update_other:
  "(\<And>u. key (f u) = key u) \<Longrightarrow> (\<And>u. p u \<Longrightarrow> key u \<noteq> k) \<Longrightarrow> lookup key k (update_where p f t) = lookup key k t"
  by (induction t) (auto simp: lookup_def update_where_def)

lemma evaluate_other_states:
  assumes "evaluate_measurement av tk rule m s = (res, s')" "target_of av rule m \<noteq> k" "unique_key state_key (al_states s)"
  shows "unique_key state_key (al_states s') \<and> lookup state_key k (al_states s') = lookup state_key k (al_states s)"
  using assms
proof (cases rule: evaluation_cases [OF assms(1)])
  case (5 a e)
  then show ?thesis using assms(2,3)
    by (auto simp: resolve_alert_rule_event_def Let_def state_key_def target_of_def unique_key_update_where
        split: option.splits intro!: lookup_update_other)
next
  case (9 c saved created)
  then show ?thesis using assms(2,3)
    by (auto simp: activate_alert_rule_event_def Let_def lookup_put_state unique_put_state state_key_def target_of_def
        split: option.splits if_splits)
qed (auto simp: lookup_put_state unique_put_state assms not_sym [OF assms(2)])

lemma evaluate_closed_events:
  assumes "evaluate_measurement av tk rule m s = (res, s')" "closed_in a (al_events s)"
  shows "closed_in a (al_events s')" and "res = Inr (Some tr) \<Longrightarrow> ae_event_id (tr_event tr) \<noteq> a"
proof -
  have "closed_in a (al_events s') \<and> (res = Inr (Some tr) \<longrightarrow> ae_event_id (tr_event tr) \<noteq> a)"
  proof (cases rule: evaluation_cases [OF assms(1)])
    case (5 b e)
    from 5(4) obtain e' where e': "e' \<in> set (al_events s)" "is_active e'" "ae_event_id e' = ae_event_id e"
      by (auto simp: resolve_alert_rule_event_def Let_def split: option.splits dest!: find_in_set)
    then have "ae_event_id e \<noteq> a" using closed_in_inactive [OF assms(2)] by metis
    moreover have "closed_in a (al_events s')"
      using 5(4) assms(2)
      by (auto simp: resolve_alert_rule_event_def Let_def split: option.splits intro!: closed_in_update)
    ultimately show ?thesis using 5(1) by (auto simp: notification_transition_def)
  next
    case (9 c saved created)
    from 9(6) have "created \<Longrightarrow> ae_event_id saved \<notin> ae_event_id ` set (al_events s)"
      by (auto simp: activate_alert_rule_event_def Let_def split: option.splits if_splits)
    moreover from 9(6) have "al_events s' = (if created then al_events s @ [saved] else al_events s)"
      by (auto simp: activate_alert_rule_event_def Let_def split: option.splits if_splits)
    ultimately show ?thesis
      using 9(1) assms(2) closed_in_known [OF assms(2)]
      by (auto simp: notification_transition_def intro!: closed_in_append split: if_splits)
  qed (use assms(2) in \<open>auto simp: refresh_closed\<close>)
  then show "closed_in a (al_events s')" and "res = Inr (Some tr) \<Longrightarrow> ae_event_id (tr_event tr) \<noteq> a" by auto
qed

lemma evaluate_silenced:
  assumes ev: "evaluate_measurement av tk rule m s = (res, s')"
    and sil: "names_closed_event (ar_workspace_id rule) (ar_rule_id rule) (subject_key av m) a s"
  shows "names_closed_event (ar_workspace_id rule) (ar_rule_id rule) (subject_key av m) a s'"
    and "res = Inr None \<or> (\<exists>e. res = Inl e)"
proof -
  define st where "st = get_alert_rule_target_state (ar_workspace_id rule) (ar_rule_id rule) (subject_key av m) s"
  have act: "active_of st = Some a" and u: "unique_key state_key (al_states s)" and cl: "closed_in a (al_events s)"
    using sil by (simp_all add: names_closed_event_def st_def)
  have upd: "names_closed_event (ar_workspace_id rule) (ar_rule_id rule) (subject_key av m) a
      (upsert_alert_rule_target_state now (state_payload av tk rule m since (Some a)) s1)"
    if "unique_key state_key (al_states s1)" "closed_in a (al_events s1)" for now since s1
    using that active_of_nonempty [OF act]
    by (simp add: names_closed_event_def get_state_upsert unique_put_state target_of_def active_of_payload)
  have "names_closed_event (ar_workspace_id rule) (ar_rule_id rule) (subject_key av m) a s' \<and>
      (res = Inr None \<or> (\<exists>e. res = Inl e))"
  proof (cases rule: evaluation_cases [OF ev])
    case (5 b e)
    with act have "b = a" by (simp add: st_def)
    with 5(4) obtain e' where "e' \<in> set (al_events s)" "is_active e'" "ae_event_id e' = a"
      by (auto simp: resolve_alert_rule_event_def Let_def state_payload_def split: option.splits dest!: find_in_set)
    with closed_in_inactive [OF cl] show ?thesis by blast
  next
    case (6 b)
    with act have "b = a" by (simp add: st_def)
    with 6 upd u cl show ?thesis by (simp add: refresh_closed)
  qed (use sil act in \<open>auto simp: st_def\<close>)
  then show "names_closed_event (ar_workspace_id rule) (ar_rule_id rule) (subject_key av m) a s'"
    and "res = Inr None \<or> (\<exists>e. res = Inl e)" by auto
qed

text \<open>A \<open>firing\<close> transition carries the target its evaluation was for.\<close>

lemma firing_target:
  assumes "evaluate_measurement av tk rule m s = (Inr (Some tr), s')" "tr_transition tr = ''firing''"
  shows "ae_rule_id (tr_event tr) = Some (ar_rule_id rule) \<and> ae_subject_key (tr_event tr) = subject_key av m"
proof (cases rule: evaluation_cases [OF assms(1)])
  case (9 c saved created)
  then show ?thesis
    by (auto simp: activate_alert_rule_event_def firing_event_def notification_transition_def Let_def
        split: if_splits option.splits)
qed (use assms(2) in \<open>auto simp: notification_transition_def\<close>)

lemma step_silenced:
  assumes ev: "evaluate_measurement av tk r m s = (res, s')" and sil: "names_closed_event ws rule key a s"
    and own: "ar_rule_id r = rule \<Longrightarrow> ar_workspace_id r = ws"
  shows "names_closed_event ws rule key a s'"
    and "res = Inr (Some tr) \<Longrightarrow> ae_event_id (tr_event tr) \<noteq> a \<and>
      \<not> (tr_transition tr = ''firing'' \<and> ae_rule_id (tr_event tr) = Some rule \<and> ae_subject_key (tr_event tr) = key)"
proof -
  have u: "unique_key state_key (al_states s)" and cl: "closed_in a (al_events s)"
    using sil by (simp_all add: names_closed_event_def)
  show "names_closed_event ws rule key a s'"
  proof (cases "target_of av r m = (rule, key)")
    case True
    with own evaluate_silenced(1) [OF ev] sil show ?thesis by (auto simp: target_of_def)
  next
    case False
    note other = evaluate_other_states [OF ev False u]
    with u have "get_alert_rule_target_state ws rule key s' = get_alert_rule_target_state ws rule key s"
      by (simp add: get_state_lookup)
    with other evaluate_closed_events(1) [OF ev cl] sil show ?thesis by (simp add: names_closed_event_def)
  qed
  assume res: "res = Inr (Some tr)"
  have "\<not> (tr_transition tr = ''firing'' \<and> ae_rule_id (tr_event tr) = Some rule \<and> ae_subject_key (tr_event tr) = key)"
  proof
    assume f: "tr_transition tr = ''firing'' \<and> ae_rule_id (tr_event tr) = Some rule \<and> ae_subject_key (tr_event tr) = key"
    then have "ar_rule_id r = rule" "subject_key av m = key" using firing_target ev res by auto
    with own evaluate_silenced(2) [OF ev] sil res show False by auto
  qed
  with evaluate_closed_events(2) [OF ev cl res] show "ae_event_id (tr_event tr) \<noteq> a \<and>
      \<not> (tr_transition tr = ''firing'' \<and> ae_rule_id (tr_event tr) = Some rule \<and> ae_subject_key (tr_event tr) = key)" by simp
qed

lemma run_silenced:
  assumes "names_closed_event ws rule key a s"
    and "list_all (\<lambda>(r, m). ar_rule_id r = rule \<longrightarrow> ar_workspace_id r = ws) pairs"
    and "evaluate_all av ticks n pairs s = (err, trs, s')"
  shows "names_closed_event ws rule key a s' \<and>
    (\<forall>tr \<in> set trs. ae_event_id (tr_event tr) \<noteq> a \<and>
      \<not> (tr_transition tr = ''firing'' \<and> ae_rule_id (tr_event tr) = Some rule \<and> ae_subject_key (tr_event tr) = key))"
  using assms
proof (induction av ticks n pairs s arbitrary: err trs s' rule: evaluate_all.induct)
  case (2 av ticks n r m rest s)
  obtain res s1 where ev: "evaluate_measurement av (ticks n) r m s = (res, s1)" by fastforce
  have own: "ar_rule_id r = rule \<Longrightarrow> ar_workspace_id r = ws" using "2.prems"(2) by simp
  note step = step_silenced [OF ev "2.prems"(1) own]
  show ?case
  proof (cases res)
    case (Inl e)
    with ev "2.prems"(3) step(1) show ?thesis by auto
  next
    case (Inr o')
    obtain e2 trs2 s2 where rest: "evaluate_all av ticks (Suc n) rest s1 = (e2, trs2, s2)" by (metis prod_cases3)
    have "names_closed_event ws rule key a s2 \<and>
      (\<forall>tr \<in> set trs2. ae_event_id (tr_event tr) \<noteq> a \<and>
        \<not> (tr_transition tr = ''firing'' \<and> ae_rule_id (tr_event tr) = Some rule \<and> ae_subject_key (tr_event tr) = key))"
      using "2.IH" [OF ev [symmetric] Inr, of e2 trs2 s2] step(1) "2.prems"(2) rest Inr by simp
    moreover have "trs = (case o' of None \<Rightarrow> trs2 | Some t \<Rightarrow> t # trs2)" "s' = s2"
      using "2.prems"(3) ev Inr rest by auto
    ultimately show ?thesis using step(2) Inr by (auto split: option.splits)
  qed
qed simp

text \<open>Promoting an active event and closing the incident leaves its state naming a closed event.\<close>

lemma incident_closes_event:
  assumes "unique_key ae_event_id (al_events s)" "e \<in> set (al_events s)" "ae_workspace_id e = ws"
    and "ae_incident_id e = None" "inc \<noteq> []"
    and "promote_alert_event t ws (ae_event_id e) inc actor s = (out, s1)"
    and "resolve_incident_alert_events t' ws inc s1 = (s2, n)"
  shows "closed_in (ae_event_id e) (al_events s2) \<and> al_states s2 = al_states s"
proof -
  have "find_event ws (ae_event_id e) s = Some e"
    using find_key_and [OF assms(1), of "ae_event_id e" "\<lambda>r. ae_workspace_id r = ws"]
      lookup_unique_in [OF assms(1,2)] assms(3)
    by (simp add: find_event_def conj_commute)
  with assms(4,5,6) have s1: "s1 = s\<lparr>al_events := update_where (\<lambda>f. ae_workspace_id f = ws \<and> ae_event_id f = ae_event_id e)
      (\<lambda>e. e\<lparr>ae_incident_id := Some inc, ae_promoted_at := Some t, ae_promoted_by := Some actor, ae_updated_at := t\<rparr>) (al_events s)\<rparr>"
    by (auto simp: promote_alert_event_def Let_def)
  define m where "m = (\<lambda>f :: alert_event. if ae_workspace_id f = ws \<and> ae_event_id f = ae_event_id e
      then f\<lparr>ae_incident_id := Some inc, ae_promoted_at := Some t, ae_promoted_by := Some actor, ae_updated_at := t\<rparr> else f)"
  define c where "c = (\<lambda>f :: alert_event. if ae_workspace_id f = ws \<and> ae_incident_id f = Some inc \<and> is_active f
      then f\<lparr>ae_status := Resolved, ae_resolved_at := Some t', ae_updated_at := t'\<rparr> else f)"
  have es: "al_events s2 = map (c \<circ> m) (al_events s)"
    using assms(7) by (auto simp: s1 resolve_incident_alert_events_def Let_def update_where_def c_def m_def)
  have ids: "ae_event_id (c (m f)) = ae_event_id f" for f by (simp add: c_def m_def)
  have "\<not> is_active (c (m e))" using assms(3) by (simp add: c_def m_def is_active_def)
  moreover have "f = e" if "f \<in> set (al_events s)" "ae_event_id f = ae_event_id e" for f
    using that assms(1,2) by (auto intro: unique_keyD)
  ultimately have "closed_in (ae_event_id e) (al_events s2)"
    using assms(2) by (auto simp: closed_in_def list_ex_iff list_all_iff es ids)
  moreover have "al_states s2 = al_states s"
    using assms(7) by (auto simp: s1 resolve_incident_alert_events_def Let_def)
  ultimately show ?thesis by simp
qed


end
