(* ===== verification/Alert_History.thy ===== *)
theory Alert_History
  imports Alert_Properties
begin

text \<open>
  The alert domain as a system of steps: evaluations of measurements, the actions of operators,
  the notifications of incidents and of Alertmanager, and changes of the rules. Next to the
  tables runs a history, the samples each target's evaluation accepted, so that what the state
  of a target says can be compared with what was observed.
\<close>

section \<open>Accepted samples\<close>

text \<open>
  The samples by target, newest first, with the time observed and whether the condition held. A
  measurement not newer than the evidence of the state is not accepted.
\<close>

type_synonym samples = "((string \<times> string) \<times> time \<times> bool) list"

definition accepted :: "alert_env \<Rightarrow> alert_rule \<Rightarrow> alert_measurement \<Rightarrow> alert_db \<Rightarrow> bool option" where
  "accepted av rule m s =
     (case last_observed_at av (get_alert_rule_target_state (ar_workspace_id rule) (ar_rule_id rule) (subject_key av m) s) of
        None \<Rightarrow> None
      | Some last_seen \<Rightarrow>
          if (case last_seen of None \<Rightarrow> False | Some t \<Rightarrow> me_observed_at m \<le> t) then None
          else compare_alert_value (me_observed_value m) (ar_comparator rule) (ar_threshold rule))"

definition logged :: "alert_env \<Rightarrow> alert_rule \<Rightarrow> alert_measurement \<Rightarrow> alert_db \<Rightarrow> samples \<Rightarrow> samples" where
  "logged av rule m s h =
     (case accepted av rule m s of None \<Rightarrow> h | Some b \<Rightarrow> (target_of av rule m, me_observed_at m, b) # h)"

definition samples_of :: "string \<times> string \<Rightarrow> samples \<Rightarrow> (time \<times> bool) list" where
  "samples_of k h = map snd (filter (\<lambda>x. fst x = k) h)"

text \<open>A sample observed at \<open>c\<close> satisfied the condition, and so did every sample since.\<close>

definition held_since :: "string \<times> string \<Rightarrow> time \<Rightarrow> samples \<Rightarrow> bool" where
  "held_since k c h \<longleftrightarrow> (c, True) \<in> set (takeWhile snd (samples_of k h))"

lemma samples_of_Cons [simp]:
  "samples_of k ((k', x) # h) = (if k' = k then x # samples_of k h else samples_of k h)"
  by (simp add: samples_of_def)

lemma held_since_Cons [simp]:
  "held_since k c ((k', t, b) # h) = (if k' = k then b \<and> (c = t \<or> held_since k c h) else held_since k c h)"
  by (auto simp: held_since_def)

lemma accepted_None:
  assumes "evaluate_measurement av tk rule m s = (res, s')" "accepted av rule m s = None"
  shows "s' = s \<and> (res = Inr None \<or> (\<exists>e. res = Inl e))"
  using assms by (auto simp: evaluate_measurement_def accepted_def Let_def split: option.splits if_splits)

lemma accepted_Some:
  assumes "accepted av rule m s = Some b"
  shows "compare_alert_value (me_observed_value m) (ar_comparator rule) (ar_threshold rule) = Some b"
  using assms by (auto simp: accepted_def split: option.splits if_splits)

lemma accepted_fresh:
  assumes "accepted av rule m s = Some b"
  shows "\<not> (\<exists>t. last_observed_at av (get_alert_rule_target_state (ar_workspace_id rule) (ar_rule_id rule) (subject_key av m) s)
      = Some (Some t) \<and> me_observed_at m \<le> t)"
  using assms by (auto simp: accepted_def split: option.splits if_splits)

lemma recovery_never_fails:
  assumes "evaluate_measurement av tk rule m s = (res, s')" "accepted av rule m s = Some False"
  shows "\<exists>o'. res = Inr o'"
  using assms by (auto simp: evaluate_measurement_def accepted_def recover_def Let_def split: option.splits if_splits prod.splits)

section \<open>The steps\<close>

text \<open>
  The events of incidents and of Alertmanager carry no rule, and their identifiers are not those
  of rule events, which are random.
\<close>

definition foreign_event :: "alert_event \<Rightarrow> alert_db \<Rightarrow> bool" where
  "foreign_event p s \<longleftrightarrow>
     ae_rule_id p = None \<and> list_all (\<lambda>e. ae_event_id e = ae_event_id p \<longrightarrow> ae_rule_id e = None) (al_events s)"

inductive alert_step :: "alert_env \<Rightarrow> alert_db \<times> samples \<Rightarrow> alert_db \<times> samples \<Rightarrow> bool" for av where
  evaluated: "evaluate_measurement av tk rule m s = (res, s') \<Longrightarrow> alert_step av (s, h) (s', logged av rule m s h)"
| acknowledged: "acknowledge_alert_event now ws i actor s = (res, s') \<Longrightarrow> alert_step av (s, h) (s', h)"
| promoted: "promote_alert_event now ws i inc actor s = (res, s') \<Longrightarrow> alert_step av (s, h) (s', h)"
| incident_closed: "resolve_incident_alert_events now ws inc s = (s', n) \<Longrightarrow> alert_step av (s, h) (s', h)"
| incident_notified: "foreign_event p s \<Longrightarrow> upsert_incident_alert_event now inc p s = (res, s') \<Longrightarrow> alert_step av (s, h) (s', h)"
| external_notified: "foreign_event p s \<Longrightarrow> upsert_external_alert_event now p s = (res, s') \<Longrightarrow> alert_step av (s, h) (s', h)"
| rule_deleted: "delete_alert_rule ws r s = (s', found) \<Longrightarrow> alert_step av (s, h) (s', h)"
| rules_edited: "alert_step av (s, h) (s\<lparr>al_rules := rules\<rparr>, h)"
| events_relayed: "alert_step av (s, h) (s\<lparr>al_db := d\<rparr>, h)"

inductive_cases alert_stepE: "alert_step av x y"

definition alerts_empty :: "alert_db \<times> samples \<Rightarrow> bool" where
  "alerts_empty x \<longleftrightarrow> al_states (fst x) = [] \<and> al_events (fst x) = [] \<and> snd x = []"

definition alerts_reachable :: "alert_env \<Rightarrow> alert_db \<times> samples \<Rightarrow> bool" where
  "alerts_reachable av x \<longleftrightarrow> reachable_from alerts_empty (alert_step av) x"

section \<open>Target states and their samples\<close>

definition sampled :: "alert_db \<times> samples \<Rightarrow> bool" where
  "sampled x \<longleftrightarrow> unique_key state_key (al_states (fst x)) \<and>
     (\<forall>k t c. lookup state_key k (al_states (fst x)) = Some t \<longrightarrow> active_of (Some t) = None \<longrightarrow>
        ts_condition_since t = Some c \<longrightarrow> held_since k c (snd x))"

lemma sampledD:
  "sampled (s, h) \<Longrightarrow> lookup state_key k (al_states s) = Some t \<Longrightarrow> active_of (Some t) = None \<Longrightarrow>
   ts_condition_since t = Some c \<Longrightarrow> held_since k c h"
  unfolding sampled_def fst_conv snd_conv by blast

lemma sampled_states:
  "sampled (s, h) \<Longrightarrow> al_states s' = al_states s \<Longrightarrow> sampled (s', h)"
  by (simp add: sampled_def)

lemma sampled_since:
  assumes "sampled (s, h)" "active_of (get_alert_rule_target_state ws r key s) = None"
    and "since_of (get_alert_rule_target_state ws r key s) = Some c"
  shows "held_since (r, key) c h"
proof -
  have u: "unique_key state_key (al_states s)" using assms(1) by (simp add: sampled_def)
  with assms(3) obtain t where "lookup state_key (r, key) (al_states s) = Some t" "ts_workspace_id t = ws"
      "ts_condition_since t = Some c"
    by (auto simp: get_state_lookup since_of_def split: option.splits if_splits)
  with assms(1,2) u show ?thesis by (auto simp: sampled_def get_state_lookup)
qed

text \<open>Writing the state of a target next to its sample.\<close>

lemma sampled_upsert:
  assumes "sampled (s, h)" "al_states s1 = al_states s"
    and "\<And>c. active = None \<or> active = Some [] \<Longrightarrow> since = Some c \<Longrightarrow> held_since (target_of av rule m) c ((target_of av rule m, x) # h)"
  shows "sampled (s1\<lparr>al_states := put_state now (state_payload av tk rule m since active) (al_states s1)\<rparr>,
      (target_of av rule m, x) # h)"
proof -
  obtain t b where x: "x = (t, b)" by (cases x)
  show ?thesis
    using assms unfolding x
    by (auto simp: sampled_def lookup_put_state unique_put_state active_of_payload split: if_splits)
qed

lemma sampled_logged_state:
  assumes "sampled (s, h)" "accepted av rule m s = Some b"
    and "al_states s' = put_state now (state_payload av tk rule m since active) (al_states s)"
    and "\<And>c. active = None \<or> active = Some [] \<Longrightarrow> since = Some c \<Longrightarrow> b \<and> (c = me_observed_at m \<or> held_since (target_of av rule m) c h)"
  shows "sampled (s', logged av rule m s h)"
proof -
  have "sampled (s\<lparr>al_states := put_state now (state_payload av tk rule m since active) (al_states s)\<rparr>,
      (target_of av rule m, me_observed_at m, b) # h)"
    using sampled_upsert [OF assms(1) refl, where active = active and since = since and m = m and x = "(me_observed_at m, b)"]
      assms(4) by auto
  with assms(2,3) show ?thesis by (simp add: logged_def sampled_def)
qed

lemma activate_states:
  assumes "activate_alert_rule_event now t e stage s = (Inr (saved, created), s')"
  shows "al_states s' = put_state now (t\<lparr>ts_active_event_id := Some (ae_event_id saved)\<rparr>) (al_states s)"
    and "created \<Longrightarrow> saved = e \<and> al_events s' = al_events s @ [e] \<and> ae_event_id e \<notin> ae_event_id ` set (al_events s) \<and>
      \<not> list_ex (active_conflict e) (al_events s)"
    and "\<not> created \<Longrightarrow> al_events s' = al_events s \<and> saved \<in> set (al_events s) \<and> ae_rule_id saved = Some (ts_rule_id t) \<and>
      ae_subject_key saved = ts_subject_key t"
  using assms
  by (auto simp: activate_alert_rule_event_def Let_def split: option.splits if_splits dest!: find_in_set)

lemma payload_active [simp]:
  "state_payload av tk rule m since a\<lparr>ts_active_event_id := b\<rparr> = state_payload av tk rule m since b"
  by (simp add: state_payload_def)

lemma resolve_rows:
  assumes "resolve_alert_rule_event now t v ev at' stage s = (Some e, s')"
  obtains f where "al_events s' = update_where (\<lambda>e. ae_workspace_id e = ts_workspace_id t \<and>
      Some (ae_event_id e) = ts_active_event_id t \<and> is_active e) f (al_events s)"
    "\<And>e. ae_event_id (f e) = ae_event_id e \<and> ae_rule_id (f e) = ae_rule_id e \<and> ae_subject_key (f e) = ae_subject_key e
       \<and> \<not> is_active (f e)"
    "al_states s' = update_where
       (\<lambda>u. ts_workspace_id u = ts_workspace_id t \<and> ts_rule_id u = ts_rule_id t \<and> ts_subject_key u = ts_subject_key t)
       (\<lambda>u. u\<lparr>ts_condition_since := None, ts_active_event_id := None, ts_last_observed_value := v,
              ts_last_evidence := ev, ts_last_evaluated_at := at', ts_updated_at := now\<rparr>) (al_states s)"
  using assms
  by (auto simp: resolve_alert_rule_event_def Let_def is_active_def split: option.splits)

lemma sampled_resolved:
  assumes "sampled (s, h)" "get_alert_rule_target_state ws r key s = Some u0"
    and "al_states s' = update_where (\<lambda>u. ts_workspace_id u = ws \<and> ts_rule_id u = r \<and> ts_subject_key u = key)
      (\<lambda>u. u\<lparr>ts_condition_since := None, ts_active_event_id := None, ts_last_observed_value := v,
             ts_last_evidence := ev, ts_last_evaluated_at := at', ts_updated_at := now\<rparr>) (al_states s)"
  shows "sampled (s', ((r, key), x) # h)"
proof -
  have u: "unique_key state_key (al_states s)" using assms(1) by (simp add: sampled_def)
  let ?p = "\<lambda>u. ts_workspace_id u = ws \<and> ts_rule_id u = r \<and> ts_subject_key u = key"
  have own: "?p u" if "lookup state_key (r, key) (al_states s) = Some u" for u
    using that assms(2) lookup_Some_in [OF that] get_state_lookup [OF u]
    by (auto simp: state_key_def split: if_splits)
  obtain t b where x: "x = (t, b)" by (cases x)
  define f where "f = (\<lambda>u :: target_state. u\<lparr>ts_condition_since := None, ts_active_event_id := None, ts_last_observed_value := v,
             ts_last_evidence := ev, ts_last_evaluated_at := at', ts_updated_at := now\<rparr>)"
  have k: "state_key (f u) = state_key u" and c: "ts_condition_since (f u) = None" for u
    by (simp_all add: state_key_def f_def)
  have st: "al_states s' = update_where ?p f (al_states s)" by (simp add: assms(3) f_def)
  have look: "lookup state_key k (al_states s') = map_option (\<lambda>u. if ?p u then f u else u) (lookup state_key k (al_states s))" for k
    unfolding st by (rule lookup_update_where) (rule k)
  have "unique_key state_key (al_states s')" unfolding st by (rule unique_key_update_where [OF u k])
  moreover have "held_since q c (((r, key), x) # h)"
    if "lookup state_key q (al_states s') = Some w" "active_of (Some w) = None" "ts_condition_since w = Some c" for q w c
  proof -
    from that(1) look obtain w0 where w0: "lookup state_key q (al_states s) = Some w0" "w = (if ?p w0 then f w0 else w0)" by auto
    with that(3) c have "\<not> ?p w0" "w = w0" by (auto split: if_splits)
    with own w0 have "q \<noteq> (r, key)" by auto
    with assms(1) w0(1) \<open>w = w0\<close> that(2,3) have "held_since q c h" by (auto intro: sampledD)
    with \<open>q \<noteq> (r, key)\<close> show ?thesis unfolding x by simp
  qed
  ultimately show ?thesis by (simp add: sampled_def)
qed

lemma sampled_evaluated:
  assumes "sampled (s, h)" "evaluate_measurement av tk rule m s = (res, s')"
  shows "sampled (s', logged av rule m s h)"
proof (cases "accepted av rule m s")
  case None
  with accepted_None [OF assms(2) None] assms(1) show ?thesis by (simp add: logged_def)
next
  case (Some b)
  note held = accepted_Some [OF Some]
  have keep: "sampled (s', logged av rule m s h)" if "s' = s" "b \<or> active_of (get_alert_rule_target_state
      (ar_workspace_id rule) (ar_rule_id rule) (subject_key av m) s) \<noteq> None"
  proof -
    have u: "unique_key state_key (al_states s)" using assms(1) by (simp add: sampled_def)
    have "b" if "lookup state_key (target_of av rule m) (al_states s) = Some t" "active_of (Some t) = None" for t
      using \<open>b \<or> _\<close> that by (auto simp: get_state_lookup [OF u] target_of_def active_of_def split: if_splits)
    with assms(1) Some \<open>s' = s\<close> show ?thesis by (auto simp: sampled_def logged_def)
  qed
  show ?thesis
  proof (cases rule: evaluation_cases [OF assms(2)])
    case (1 e)
    with recovery_never_fails [OF assms(2)] Some have b by (cases b) auto
    with 1 keep show ?thesis by simp
  next
    case 2
    with accepted_fresh [OF Some] show ?thesis by blast
  next
    case 3
    then show ?thesis by (intro sampled_logged_state [OF assms(1) Some]) auto
  next
    case (4 a)
    then show ?thesis using keep by simp
  next
    case (5 a e)
    obtain u0 where "get_alert_rule_target_state (ar_workspace_id rule) (ar_rule_id rule) (subject_key av m) s = Some u0"
      using 5(2) by (cases "get_alert_rule_target_state (ar_workspace_id rule) (ar_rule_id rule) (subject_key av m) s")
        (auto simp: active_of_def)
    then show ?thesis
      using sampled_resolved [OF assms(1)] 5(4) Some by (auto elim!: resolve_rows simp: logged_def target_of_def)
  next
    case (6 a)
    then show ?thesis using active_of_nonempty
      by (intro sampled_logged_state [OF assms(1) Some]) auto
  next
    case 7
    then show ?thesis using held by (intro sampled_logged_state [OF assms(1) Some]) auto
  next
    case (8 c)
    then show ?thesis using held sampled_since [OF assms(1) 8(2,3)]
      by (intro sampled_logged_state [OF assms(1) Some]) (auto simp: target_of_def)
  next
    case (9 c saved created)
    then show ?thesis using held sampled_since [OF assms(1) 9(2,3)] activate_states(1) [OF 9(6)]
      by (intro sampled_logged_state [OF assms(1) Some]) (auto simp: target_of_def)
  qed
qed

lemma lookup_delete_where_Some:
  assumes "unique_key key t" "lookup key k (delete_where p t) = Some r"
  shows "lookup key k t = Some r"
proof -
  have "r \<in> set t" "key r = k" using lookup_Some_in [OF assms(2)] by (auto simp: set_delete_where)
  with lookup_unique_in [OF assms(1)] show ?thesis by auto
qed

lemma sampled_deleted: "sampled (s, h) \<Longrightarrow> delete_alert_rule ws r s = (s', found) \<Longrightarrow> sampled (s', h)"
  by (auto simp: delete_alert_rule_def Let_def sampled_def unique_key_delete_where split: if_splits
      dest: lookup_delete_where_Some)

lemma other_states:
  "acknowledge_alert_event now ws i actor s = (r1, s') \<Longrightarrow> al_states s' = al_states s"
  "promote_alert_event now ws i inc actor s = (r2, s') \<Longrightarrow> al_states s' = al_states s"
  "resolve_incident_alert_events now ws inc s = (s', n) \<Longrightarrow> al_states s' = al_states s"
  "upsert_incident_alert_event now inc p s = (r3, s') \<Longrightarrow> al_states s' = al_states s"
  "upsert_external_alert_event now p s = (r4, s') \<Longrightarrow> al_states s' = al_states s"
  by (auto simp: acknowledge_alert_event_def promote_alert_event_def resolve_incident_alert_events_def
      upsert_incident_alert_event_def upsert_external_alert_event_def Let_def
      split: option.splits alert_status.splits if_splits list.splits)

lemma sampled_step:
  assumes "sampled x" "alert_step av x y"
  shows "sampled y"
  using assms(2,1)
proof (cases rule: alert_step.cases)
  case (evaluated tk rule m s res s' h)
  with assms(1) sampled_evaluated show ?thesis by simp
next
  case (rule_deleted ws r s s' found h)
  with assms(1) sampled_deleted show ?thesis by simp
qed (use assms(1) in \<open>auto intro: sampled_states other_states\<close>)

lemma sampled_init: "alerts_empty x \<Longrightarrow> sampled x"
  by (simp add: alerts_empty_def sampled_def unique_key_def)

interpretation alert_samples: invariant_system alerts_empty "alert_step av" sampled for av
  by unfold_locales (erule sampled_init, rule sampled_step)

text \<open>
  Claim C16. However evaluations, operators, incidents, notifications and rule changes
  interleave, a rule fires for a target only when the sample at hand satisfies the condition and
  there is an earlier sample of that target, at least \<open>for_seconds\<close> older, since which every
  accepted sample satisfied it.
\<close>

theorem firing_needs_a_held_condition:
  assumes "alerts_reachable av (s, h)"
    and "evaluate_measurement av tk rule m s = (Inr (Some tr), s')" "tr_transition tr = ''firing''"
  shows "compare_alert_value (me_observed_value m) (ar_comparator rule) (ar_threshold rule) = Some True \<and>
    (\<exists>c. (c, True) \<in> set (takeWhile snd (samples_of (target_of av rule m) h)) \<and>
         seconds (ar_for_seconds rule) \<le> me_observed_at m - c)"
proof (cases rule: evaluation_cases [OF assms(2)])
  case (9 c saved created)
  have "sampled (s, h)"
    using assms(1) alert_samples.reachable_inv by (auto simp: alerts_reachable_def)
  from sampled_since [OF this 9(2,3)] 9(4,5) show ?thesis by (auto simp: target_of_def held_since_def)
qed (use assms(3) in \<open>auto simp: notification_transition_def\<close>)

section \<open>One active event per target\<close>

definition one_active :: "alert_event list \<Rightarrow> bool" where
  "one_active es \<longleftrightarrow> unique_key ae_event_id es \<and>
     (\<forall>e \<in> set es. \<forall>f \<in> set es. active_conflict e f \<longrightarrow> ae_event_id e = ae_event_id f)"

text \<open>The event a state names is one of the rule and subject of the state.\<close>

definition named_in :: "alert_event list \<Rightarrow> target_state \<Rightarrow> bool" where
  "named_in es t \<longleftrightarrow> (\<forall>a. active_of (Some t) = Some a \<longrightarrow>
     (\<exists>e \<in> set es. ae_event_id e = a \<and> ae_rule_id e = Some (ts_rule_id t) \<and> ae_subject_key e = ts_subject_key t))"

definition owned :: "alert_db \<Rightarrow> bool" where
  "owned s \<longleftrightarrow> (\<forall>t \<in> set (al_states s). named_in (al_events s) t)"

definition alerts_sound :: "alert_db \<times> samples \<Rightarrow> bool" where
  "alerts_sound x \<longleftrightarrow> one_active (al_events (fst x)) \<and> owned (fst x)"

lemma one_active_update:
  assumes "one_active es"
    and "\<And>e. e \<in> set es \<Longrightarrow> ae_event_id (f e) = ae_event_id e"
    and "\<And>e. e \<in> set es \<Longrightarrow> p e \<Longrightarrow> ae_rule_id (f e) \<noteq> None \<Longrightarrow> is_active (f e) \<Longrightarrow>
      is_active e \<and> ae_rule_id (f e) = ae_rule_id e \<and> ae_subject_key (f e) = ae_subject_key e"
  shows "one_active (update_where p f es)"
proof -
  have "map ae_event_id (update_where p f es) = map ae_event_id es"
    using assms(2) by (simp add: update_where_def)
  moreover have "ae_event_id e' = ae_event_id g'"
    if mem: "e' \<in> set (update_where p f es)" "g' \<in> set (update_where p f es)" and con: "active_conflict e' g'" for e' g'
  proof -
    obtain e where e: "e \<in> set es" "e' = (if p e then f e else e)" using in_update_where [OF mem(1)] by blast
    obtain g where g: "g \<in> set es" "g' = (if p g then f g else g)" using in_update_where [OF mem(2)] by blast
    have "is_active e \<and> ae_rule_id e' = ae_rule_id e \<and> ae_subject_key e' = ae_subject_key e"
      using con e assms(3) [of e] by (cases "p e") (auto simp: active_conflict_def)
    moreover have "is_active g \<and> ae_rule_id g' = ae_rule_id g \<and> ae_subject_key g' = ae_subject_key g"
      using con g assms(3) [of g] by (cases "p g") (auto simp: active_conflict_def)
    ultimately have "active_conflict e g" using con by (auto simp: active_conflict_def)
    with assms(1) e(1) g(1) have "ae_event_id e = ae_event_id g" by (simp add: one_active_def)
    with e g assms(2) show ?thesis by auto
  qed
  ultimately show ?thesis using assms(1) by (simp add: one_active_def unique_key_def)
qed

lemma active_conflict_sym: "active_conflict e f \<Longrightarrow> active_conflict f e"
  by (auto simp: active_conflict_def)

lemma one_active_append:
  assumes "one_active es" "ae_event_id e \<notin> ae_event_id ` set es" "\<not> list_ex (active_conflict e) es"
  shows "one_active (es @ [e])"
proof -
  have "\<not> active_conflict f e" if "f \<in> set es" for f
    using assms(3) that active_conflict_sym [of f e] by (auto simp: list_ex_iff)
  then show ?thesis using assms by (auto simp: one_active_def unique_key_def list_ex_iff)
qed

text \<open>The rows a statement leaves: those of rules keep their identity, and a state is an old one or named.\<close>

definition events_kept :: "alert_event list \<Rightarrow> alert_event list \<Rightarrow> bool" where
  "events_kept es es' \<longleftrightarrow> (\<forall>e \<in> set es. ae_rule_id e \<noteq> None \<longrightarrow>
     (\<exists>e' \<in> set es'. ae_event_id e' = ae_event_id e \<and> ae_rule_id e' = ae_rule_id e \<and> ae_subject_key e' = ae_subject_key e))"

lemma named_in_kept:
  assumes "named_in es u" "events_kept es es'" "active_of (Some u) = active_of (Some t)" "state_key u = state_key t"
  shows "named_in es' t"
  unfolding named_in_def
proof (intro allI impI)
  fix a assume "active_of (Some t) = Some a"
  with assms(1,3,4) obtain e where "e \<in> set es" "ae_event_id e = a" "ae_rule_id e = Some (ts_rule_id t)"
      "ae_subject_key e = ts_subject_key t"
    unfolding named_in_def state_key_def by auto
  with assms(2) show "\<exists>e \<in> set es'. ae_event_id e = a \<and> ae_rule_id e = Some (ts_rule_id t) \<and>
      ae_subject_key e = ts_subject_key t"
    unfolding events_kept_def by force
qed

lemma owned_events:
  assumes "owned s" "events_kept (al_events s) (al_events s')"
    and "\<And>t. t \<in> set (al_states s') \<Longrightarrow>
      (\<exists>u \<in> set (al_states s). active_of (Some u) = active_of (Some t) \<and> state_key u = state_key t) \<or>
      named_in (al_events s') t"
  shows "owned s'"
  unfolding owned_def
proof
  fix t assume "t \<in> set (al_states s')"
  from assms(3) [OF this] assms(1) show "named_in (al_events s') t"
    unfolding owned_def using named_in_kept [OF _ assms(2)] by blast
qed

lemma events_kept_refl [simp]: "events_kept es es"
  by (auto simp: events_kept_def)

lemma events_kept_append [simp]: "events_kept es (es @ [e])"
  by (auto simp: events_kept_def)

lemma events_kept_update:
  assumes "\<And>e. e \<in> set es \<Longrightarrow> p e \<Longrightarrow> ae_rule_id e \<noteq> None \<Longrightarrow>
      ae_event_id (f e) = ae_event_id e \<and> ae_rule_id (f e) = ae_rule_id e \<and> ae_subject_key (f e) = ae_subject_key e"
  shows "events_kept es (update_where p f es)"
  unfolding events_kept_def
proof (intro ballI impI)
  fix e assume "e \<in> set es" "ae_rule_id e \<noteq> None"
  with assms [of e] show "\<exists>e' \<in> set (update_where p f es). ae_event_id e' = ae_event_id e \<and> ae_rule_id e' = ae_rule_id e \<and>
      ae_subject_key e' = ae_subject_key e"
    by (intro bexI [of _ "if p e then f e else e"]) (auto simp: set_update_where)
qed

text \<open>Statements that keep identity, rule and subject of the rows they write, and open no event.\<close>

lemma sound_update:
  assumes "alerts_sound (s, h)" "al_events s' = update_where p f (al_events s)"
    and "\<And>e. p e \<Longrightarrow> ae_event_id (f e) = ae_event_id e \<and> ae_rule_id (f e) = ae_rule_id e \<and>
      ae_subject_key (f e) = ae_subject_key e \<and> (is_active (f e) \<longrightarrow> is_active e)"
    and "\<And>t. t \<in> set (al_states s') \<Longrightarrow>
      (\<exists>u \<in> set (al_states s). active_of (Some u) = active_of (Some t) \<and> state_key u = state_key t) \<or>
      named_in (al_events s') t"
  shows "alerts_sound (s', h')"
proof -
  have eq: "update_where p f (al_events s) = update_where p (\<lambda>e. if p e then f e else e) (al_events s)"
    by (simp add: update_where_def)
  have "one_active (al_events s')" unfolding assms(2) eq
    using assms(1,3) by (intro one_active_update) (auto simp: alerts_sound_def)
  moreover have "owned s'"
    using assms(1) by (intro owned_events [OF _ _ assms(4)])
      (auto simp: alerts_sound_def assms(2) intro!: events_kept_update dest: assms(3))
  ultimately show ?thesis by (simp add: alerts_sound_def)
qed

lemma sound_append:
  assumes "alerts_sound (s, h)" "al_events s' = al_events s @ [e]"
    and "ae_event_id e \<notin> ae_event_id ` set (al_events s)" "\<not> list_ex (active_conflict e) (al_events s)"
    and "\<And>t. t \<in> set (al_states s') \<Longrightarrow>
      (\<exists>u \<in> set (al_states s). active_of (Some u) = active_of (Some t) \<and> state_key u = state_key t) \<or>
      named_in (al_events s') t"
  shows "alerts_sound (s', h')"
proof -
  have "one_active (al_events s')"
    unfolding assms(2) using assms(1,3,4) by (intro one_active_append) (simp_all add: alerts_sound_def)
  moreover have "owned s'"
    using assms(1) by (intro owned_events [OF _ _ assms(5)]) (auto simp: alerts_sound_def assms(2))
  ultimately show ?thesis by (simp add: alerts_sound_def)
qed

lemma sound_states:
  assumes "alerts_sound (s, h)" "al_events s' = al_events s"
    and "\<And>t. t \<in> set (al_states s') \<Longrightarrow>
      (\<exists>u \<in> set (al_states s). active_of (Some u) = active_of (Some t) \<and> state_key u = state_key t) \<or>
      named_in (al_events s') t"
  shows "alerts_sound (s', h')"
  using sound_update [OF assms(1) _ _ assms(3), where p = "\<lambda>_. False" and f = id] assms(2)
  by (simp add: update_where_none)

lemma in_put_state:
  "t' \<in> set (put_state now t states) \<Longrightarrow> t' \<in> set states \<or> (\<exists>o'. t' = stamped now t o')"
  by (auto simp: put_state_eq update_where_def split: if_splits)

lemma named_in_stamped [simp]: "named_in es (stamped now t o') = named_in es t"
  by (simp add: named_in_def stamped_def active_of_def)

lemma named_in_payload:
  assumes "active \<noteq> None \<Longrightarrow> \<exists>e \<in> set es. Some (ae_event_id e) = active \<and> ae_rule_id e = Some (ar_rule_id rule) \<and>
      ae_subject_key e = subject_key av m"
  shows "named_in es (state_payload av tk rule m since active)"
  using assms by (auto simp: named_in_def active_of_payload split: if_splits)

lemma put_state_named:
  assumes "al_states s' = put_state now t (al_states s)" "named_in (al_events s') t" "t' \<in> set (al_states s')"
  shows "(\<exists>u \<in> set (al_states s). active_of (Some u) = active_of (Some t') \<and> state_key u = state_key t') \<or>
    named_in (al_events s') t'"
  using in_put_state [of t' now t "al_states s"] assms by auto


lemma refresh_events:
  "al_events (refresh_alert_rule_event ws i v ev t s) =
     update_where (\<lambda>e. ae_workspace_id e = ws \<and> ae_event_id e = i \<and> is_active e)
       (\<lambda>e. e\<lparr>ae_observed_value := Some v, ae_evidence := ev, ae_updated_at := t\<rparr>) (al_events s)"
  by (simp add: refresh_alert_rule_event_def)

lemma sound_evaluated:
  assumes "alerts_sound (s, h)" "evaluate_measurement av tk rule m s = (res, s')"
  shows "alerts_sound (s', h')"
proof -
  have state_only: "alerts_sound (s1, h')"
    if "al_events s1 = al_events s" "al_states s1 = put_state now (state_payload av tk rule m since None) (al_states s)" for s1 now since
    by (rule sound_states [OF assms(1) that(1)]) (rule put_state_named [OF that(2)], rule named_in_payload, simp)
  show ?thesis
  proof (cases rule: evaluation_cases [OF assms(2)])
    case 1
    with assms(1) show ?thesis by (simp add: alerts_sound_def)
  next
    case 2
    with assms(1) show ?thesis by (simp add: alerts_sound_def)
  next
    case 3
    show ?thesis by (rule state_only) (simp_all add: 3)
  next
    case (4 a)
    with assms(1) show ?thesis by (simp add: alerts_sound_def)
  next
    case (5 a e)
    then obtain f where f: "al_events s' = update_where (\<lambda>e. ae_workspace_id e = ar_workspace_id rule \<and>
          Some (ae_event_id e) = Some a \<and> is_active e) f (al_events s)"
        "\<And>e. ae_event_id (f e) = ae_event_id e \<and> ae_rule_id (f e) = ae_rule_id e \<and> ae_subject_key (f e) = ae_subject_key e
          \<and> \<not> is_active (f e)"
      and st: "al_states s' = update_where
         (\<lambda>u. ts_workspace_id u = ar_workspace_id rule \<and> ts_rule_id u = ar_rule_id rule \<and> ts_subject_key u = subject_key av m)
         (\<lambda>u. u\<lparr>ts_condition_since := None, ts_active_event_id := None, ts_last_observed_value := me_observed_value m,
                ts_last_evidence := me_evidence m, ts_last_evaluated_at := tk_evaluated_at tk, ts_updated_at := tk_now tk\<rparr>) (al_states s)"
      by (elim resolve_rows) (simp add: state_payload_def)
    show ?thesis
      by (rule sound_update [OF assms(1) f(1)])
        (use f(2) in \<open>auto simp: st update_where_def named_in_def active_of_def split: if_splits\<close>)
  next
    case (6 a)
    obtain t where t: "t \<in> set (al_states s)" "ts_rule_id t = ar_rule_id rule" "ts_subject_key t = subject_key av m"
        "active_of (Some t) = Some a"
      using 6(2) by (cases "get_alert_rule_target_state (ar_workspace_id rule) (ar_rule_id rule) (subject_key av m) s")
        (auto simp: get_alert_rule_target_state_def active_of_def dest!: find_in_set)
    let ?s1 = "refresh_alert_rule_event (ar_workspace_id rule) a (me_observed_value m) (me_evidence m) (tk_evaluated_at tk) s"
    have s1: "alerts_sound (?s1, h)"
      by (rule sound_update [OF assms(1) refresh_events]) (auto simp: is_active_def)
    then have "named_in (al_events ?s1) t" using t(1) by (simp add: alerts_sound_def owned_def)
    with t have named: "named_in (al_events ?s1) (state_payload av tk rule m since (Some a))" for since
      by (intro named_in_payload) (auto simp: named_in_def)
    show ?thesis
      unfolding 6(4) by (rule sound_states [OF s1]) (simp, rule put_state_named, auto simp: named)
  next
    case 7
    show ?thesis by (rule state_only) (simp_all add: 7)
  next
    case (8 c)
    show ?thesis by (rule state_only) (simp_all add: 8)
  next
    case (9 c saved created)
    note act = activate_states [OF 9(6)]
    have named: "named_in (al_events s') (state_payload av tk rule m (Some c) (Some (ae_event_id saved)))"
      using act(2,3) by (intro named_in_payload) (cases created; auto simp: firing_event_def)
    have st: "al_states s' = put_state (tk_now tk) (state_payload av tk rule m (Some c) (Some (ae_event_id saved))) (al_states s)"
      using act(1) by simp
    show ?thesis
    proof (cases created)
      case True
      then have new: "al_events s' = al_events s @ [firing_event av tk rule m]"
          "ae_event_id (firing_event av tk rule m) \<notin> ae_event_id ` set (al_events s)"
          "\<not> list_ex (active_conflict (firing_event av tk rule m)) (al_events s)"
        using act(2) by auto
      show ?thesis by (rule sound_append [OF assms(1) new]) (rule put_state_named [OF st named])
    next
      case False
      then have same: "al_events s' = al_events s" using act(3) by auto
      show ?thesis by (rule sound_states [OF assms(1) same]) (rule put_state_named [OF st named])
    qed
  qed
qed

text \<open>The steps of operators, incidents and Alertmanager.\<close>

lemma sound_kept:
  assumes "alerts_sound (s, h)" "al_events s' = update_where p f (al_events s)" "al_states s' = al_states s"
    and "\<And>e. p e \<Longrightarrow> ae_event_id (f e) = ae_event_id e \<and> ae_rule_id (f e) = ae_rule_id e \<and>
      ae_subject_key (f e) = ae_subject_key e \<and> (is_active (f e) \<longrightarrow> is_active e)"
  shows "alerts_sound (s', h')"
  by (rule sound_update [OF assms(1,2,4)]) (use assms(3) in auto)

lemma sound_same: "alerts_sound (s, h) \<Longrightarrow> al_events s' = al_events s \<Longrightarrow> al_states s' = al_states s \<Longrightarrow> alerts_sound (s', h')"
  by (rule sound_states) auto

lemma sound_foreign:
  assumes "alerts_sound (s, h)" "ae_rule_id e = None" "ae_event_id e \<notin> ae_event_id ` set (al_events s)"
    and "al_events s' = al_events s @ [e]" "al_states s' = al_states s"
  shows "alerts_sound (s', h')"
  by (rule sound_append [OF assms(1,4,3)]) (use assms(2,5) in \<open>auto simp: active_conflict_def list_ex_iff\<close>)

lemma sound_acknowledged:
  assumes "alerts_sound (s, h)" "acknowledge_alert_event now ws i actor s = (res, s')"
  shows "alerts_sound (s', h')"
proof (cases "find_event ws i s")
  case None
  with assms show ?thesis by (auto simp: acknowledge_alert_event_def intro: sound_same)
next
  case (Some e)
  show ?thesis
  proof (cases "ae_status e")
    case Firing
    have e: "e \<in> set (al_events s)" "ae_event_id e = i" using Some by (auto simp: find_event_def dest!: find_in_set)
    have only: "f = e" if "f \<in> set (al_events s)" "ae_event_id f = i" for f
      using that e assms(1) by (auto simp: alerts_sound_def one_active_def intro: unique_keyD)
    let ?ack = "\<lambda>e :: alert_event. e\<lparr>ae_status := Acked, ae_acknowledged_at := Some now, ae_acknowledged_by := Some actor, ae_updated_at := now\<rparr>"
    have "al_events s' = update_where (\<lambda>f. ae_workspace_id f = ws \<and> ae_event_id f = i) ?ack (al_events s)"
      using assms(2) Some Firing by (auto simp: acknowledge_alert_event_def Let_def)
    also have "\<dots> = update_where (\<lambda>f. ae_workspace_id f = ws \<and> ae_event_id f = i \<and> is_active f) ?ack (al_events s)"
      using only Firing by (auto simp: update_where_def is_active_def intro!: map_cong)
    finally have es: "al_events s' = \<dots>" .
    show ?thesis
      by (rule sound_kept [OF assms(1) es]) (use other_states(1) [OF assms(2)] in auto)
  qed (use assms Some in \<open>auto simp: acknowledge_alert_event_def intro: sound_same\<close>)
qed

lemma sound_promoted:
  assumes "alerts_sound (s, h)" "promote_alert_event now ws i inc actor s = (res, s')"
  shows "alerts_sound (s', h')"
proof -
  have "al_events s' = al_events s \<or> al_events s' = update_where (\<lambda>f. ae_workspace_id f = ws \<and> ae_event_id f = i)
      (\<lambda>e. e\<lparr>ae_incident_id := Some inc, ae_promoted_at := Some now, ae_promoted_by := Some actor, ae_updated_at := now\<rparr>) (al_events s)"
    using assms(2) by (auto simp: promote_alert_event_def Let_def split: option.splits if_splits)
  then show ?thesis
  proof
    assume es: "al_events s' = al_events s"
    show ?thesis by (rule sound_same [OF assms(1) es other_states(2) [OF assms(2)]])
  next
    assume es: "al_events s' = update_where (\<lambda>f. ae_workspace_id f = ws \<and> ae_event_id f = i)
      (\<lambda>e. e\<lparr>ae_incident_id := Some inc, ae_promoted_at := Some now, ae_promoted_by := Some actor, ae_updated_at := now\<rparr>) (al_events s)"
    show ?thesis by (rule sound_kept [OF assms(1) es other_states(2) [OF assms(2)]]) (simp add: is_active_def)
  qed
qed

lemma sound_incident_closed:
  assumes "alerts_sound (s, h)" "resolve_incident_alert_events now ws inc s = (s', n)"
  shows "alerts_sound (s', h')"
proof -
  have es: "al_events s' = update_where (\<lambda>e. ae_workspace_id e = ws \<and> ae_incident_id e = Some inc \<and> is_active e)
      (\<lambda>e. e\<lparr>ae_status := Resolved, ae_resolved_at := Some now, ae_updated_at := now\<rparr>) (al_events s)"
    using assms(2) by (auto simp: resolve_incident_alert_events_def Let_def)
  show ?thesis by (rule sound_kept [OF assms(1) es other_states(3) [OF assms(2)]]) (simp add: is_active_def)
qed

lemma sound_incident_notified:
  assumes "alerts_sound (s, h)" "foreign_event p s" "upsert_incident_alert_event now inc p s = (res, s')"
  shows "alerts_sound (s', h')"
proof -
  consider "al_events s' = al_events s" | "al_events s' = al_events s @ [p\<lparr>ae_updated_at := now\<rparr>]"
      "ae_event_id p \<notin> ae_event_id ` set (al_events s)"
    using assms(3) by (auto simp: upsert_incident_alert_event_def split: list.splits if_splits)
  then show ?thesis
  proof cases
    case 1
    show ?thesis by (rule sound_same [OF assms(1) 1 other_states(4) [OF assms(3)]])
  next
    case 2
    show ?thesis by (rule sound_foreign [OF assms(1) _ _ 2(1) other_states(4) [OF assms(3)]])
      (use assms(2) 2(2) in \<open>auto simp: foreign_event_def\<close>)
  qed
qed

lemma sound_external_notified:
  assumes "alerts_sound (s, h)" "foreign_event p s" "upsert_external_alert_event now p s = (res, s')"
  shows "alerts_sound (s', h')"
proof -
  have frame: "al_states s' = al_states s" by (rule other_states(5) [OF assms(3)])
  have foreign: "ae_rule_id e = None" if "e \<in> set (al_events s)" "ae_event_id e = ae_event_id p" for e
    using assms(2) that by (auto simp: foreign_event_def list_all_iff)
  have find_none: "ae_event_id p \<notin> ae_event_id ` set (al_events s)"
    if "find (\<lambda>e. ae_event_id e = ae_event_id p) (al_events s) = None"
    using that by (force simp: find_None_iff)
  consider "al_events s' = al_events s"
    | "al_events s' = al_events s @ [p\<lparr>ae_updated_at := now\<rparr>]" "ae_event_id p \<notin> ae_event_id ` set (al_events s)"
    | "al_events s' = update_where (\<lambda>e. ae_event_id e = ae_event_id p) (external_update now p) (al_events s)"
    using assms(3) find_none by (auto simp: upsert_external_alert_event_def Let_def split: option.splits if_splits)
  then show ?thesis
  proof cases
    case 1
    show ?thesis by (rule sound_same [OF assms(1) 1 frame])
  next
    case 2
    show ?thesis by (rule sound_foreign [OF assms(1) _ _ 2(1) frame])
      (use assms(2) 2(2) in \<open>auto simp: foreign_event_def\<close>)
  next
    case 3
    have fields: "ae_event_id (external_update now p e) = ae_event_id e" "ae_rule_id (external_update now p e) = ae_rule_id e" for e
      by (simp_all add: external_update_def Let_def)
    have eq: "al_events s' = update_where (\<lambda>e. ae_event_id e = ae_event_id p)
        (\<lambda>e. if ae_rule_id e = None then external_update now p e else e) (al_events s)"
      unfolding 3 update_where_def using foreign by (auto intro!: map_cong)
    have "one_active (al_events s')"
      unfolding eq
    proof (rule one_active_update)
      show "one_active (al_events s)" using assms(1) by (simp add: alerts_sound_def)
    qed (auto simp: fields split: if_splits)
    moreover have "owned s'"
    proof (rule owned_events)
      show "owned s" using assms(1) by (simp add: alerts_sound_def)
      show "events_kept (al_events s) (al_events s')"
        unfolding 3 by (rule events_kept_update) (simp add: foreign)
      show "(\<exists>u \<in> set (al_states s). active_of (Some u) = active_of (Some t) \<and> state_key u = state_key t) \<or>
          named_in (al_events s') t" if "t \<in> set (al_states s')" for t
        by (rule disjI1, rule bexI [of _ t]) (use that frame in simp_all)
    qed
    ultimately show ?thesis by (simp add: alerts_sound_def)
  qed
qed

lemma sound_step:
  assumes "alerts_sound x" "alert_step av x y"
  shows "alerts_sound y"
  using assms(2)
proof (cases rule: alert_step.cases)
  case (rule_deleted ws r s s' found h)
  then have "al_events s' = al_events s" "set (al_states s') \<subseteq> set (al_states s)"
    by (auto simp: delete_alert_rule_def Let_def delete_where_def split: if_splits)
  with assms(1) show ?thesis
    unfolding rule_deleted(1,2) by (intro sound_states [of s h s' h]) auto
next
  case (evaluated tk rule m s res s' h)
  with assms(1) show ?thesis using sound_evaluated by simp
next
  case (acknowledged now ws i actor s res s' h)
  with assms(1) show ?thesis using sound_acknowledged by simp
next
  case (promoted now ws i inc actor s res s' h)
  with assms(1) show ?thesis using sound_promoted by simp
next
  case (incident_closed now ws inc s s' n h)
  with assms(1) show ?thesis using sound_incident_closed by simp
next
  case (incident_notified p s now inc res s' h)
  with assms(1) show ?thesis using sound_incident_notified by simp
next
  case (external_notified p s now res s' h)
  with assms(1) show ?thesis using sound_external_notified by simp
next
  case (rules_edited s rules h)
  with assms(1) show ?thesis by (simp add: alerts_sound_def owned_def)
next
  case (events_relayed s d h)
  with assms(1) show ?thesis by (simp add: alerts_sound_def owned_def)
qed

lemma sound_init: "alerts_empty x \<Longrightarrow> alerts_sound x"
  by (simp add: alerts_empty_def alerts_sound_def one_active_def owned_def unique_key_def)

interpretation alert_rows: invariant_system alerts_empty "alert_step av" alerts_sound for av
  by unfold_locales (erule sound_init, rule sound_step)

text \<open>
  Claim C15. In every reachable state no two events of one rule and one subject are
  active, event identifiers are unique, and the event a target state names is an event of that
  very rule and subject.
\<close>

theorem one_active_event_per_target:
  assumes "alerts_reachable av (s, h)"
  shows "unique_key ae_event_id (al_events s) \<and> unique_key state_key (al_states s) \<and>
    (\<forall>e \<in> set (al_events s). \<forall>f \<in> set (al_events s).
       is_active e \<and> is_active f \<and> ae_rule_id e \<noteq> None \<and> ae_rule_id e = ae_rule_id f \<and> ae_subject_key e = ae_subject_key f
       \<longrightarrow> e = f) \<and>
    (\<forall>t \<in> set (al_states s). \<forall>a. active_of (Some t) = Some a \<longrightarrow>
       (\<exists>e \<in> set (al_events s). ae_event_id e = a \<and> ae_rule_id e = Some (ts_rule_id t) \<and> ae_subject_key e = ts_subject_key t))"
proof -
  have sound: "alerts_sound (s, h)" using assms alert_rows.reachable_inv by (auto simp: alerts_reachable_def)
  moreover have "sampled (s, h)" using assms alert_samples.reachable_inv by (auto simp: alerts_reachable_def)
  moreover have "e = f" if "e \<in> set (al_events s)" "f \<in> set (al_events s)" "active_conflict e f" for e f
    using that sound by (auto simp: alerts_sound_def one_active_def intro: unique_keyD)
  ultimately show ?thesis
    by (auto simp: alerts_sound_def one_active_def sampled_def owned_def named_in_def active_conflict_def)
qed

end
