(* ===== verification/Alert_Delivery.thy ===== *)
theory Alert_Delivery
  imports Alert_Evaluation
begin

text \<open>
  Delivery of alerts: the channels of a workspace (\<^verbatim>\<open>src/src/domains/alert/repository.py\<close>) and
  the handler of \<^verbatim>\<open>alert.requested\<close> (\<^verbatim>\<open>src/src/services/alert/alert-worker/app.py\<close>). The outcome
  of a POST to a webhook is an argument; everything the handler decides from it is modelled.
\<close>

section \<open>Channels\<close>

record alert_channel =
  ch_channel_id :: string
  ch_workspace_id :: string
  ch_name :: string
  ch_kind :: string
  ch_url :: string
  ch_min_severity :: string
  ch_enabled :: bool
  ch_last_tested_at :: "time option"
  ch_last_test_status :: "string option"
  ch_last_test_detail :: "string option"
  ch_last_test_status_code :: "int option"
  ch_updated_at :: time

definition severity_rank :: "string \<Rightarrow> nat" where
  "severity_rank v =
     (let n = ascii_lower (py_strip v) in
      if n = ''info'' then 0 else if n = ''warning'' then 1 else if n = ''critical'' then 2 else 1)"

definition severity_matches :: "string \<Rightarrow> string \<Rightarrow> bool" where
  "severity_matches min_severity severity \<longleftrightarrow> severity_rank min_severity \<le> severity_rank severity"

definition list_alert_channels :: "string \<Rightarrow> bool \<Rightarrow> alert_channel list \<Rightarrow> alert_channel list" where
  "list_alert_channels ws only_enabled table =
     sort_key (\<lambda>c. (ch_name c, ch_channel_id c))
       (filter (\<lambda>c. ch_workspace_id c = ws \<and> (\<not> only_enabled \<or> ch_enabled c)) table)"

text \<open>
  \<open>INSERT ... ON CONFLICT (channel_id) DO UPDATE ... WHERE\<close> the workspace is the same; a channel
  of another workspace is not found. The evidence of a test is kept only for the tested address.
\<close>

definition channel_values :: "time \<Rightarrow> alert_channel \<Rightarrow> alert_channel" where
  "channel_values now c =
     c\<lparr>ch_kind := or_default (ch_kind c) ''webhook'',
       ch_min_severity := ascii_lower (py_strip (or_default (ch_min_severity c) ''warning'')),
       ch_last_tested_at := None, ch_last_test_status := None, ch_last_test_detail := None,
       ch_last_test_status_code := None, ch_updated_at := now\<rparr>"

definition channel_update :: "alert_channel \<Rightarrow> alert_channel \<Rightarrow> alert_channel" where
  "channel_update new old =
     (let moved = ch_url old \<noteq> ch_url new in
      old\<lparr>ch_name := ch_name new, ch_kind := ch_kind new, ch_url := ch_url new,
          ch_min_severity := ch_min_severity new, ch_enabled := ch_enabled new,
          ch_last_tested_at := (if moved then None else ch_last_tested_at old),
          ch_last_test_status := (if moved then None else ch_last_test_status old),
          ch_last_test_detail := (if moved then None else ch_last_test_detail old),
          ch_last_test_status_code := (if moved then None else ch_last_test_status_code old),
          ch_updated_at := ch_updated_at new\<rparr>)"

definition upsert_alert_channel ::
    "time \<Rightarrow> string \<Rightarrow> alert_channel \<Rightarrow> alert_channel list \<Rightarrow> alert_channel option \<times> alert_channel list" where
  "upsert_alert_channel now generated payload table =
     (let new = channel_values now (payload\<lparr>ch_channel_id := or_default (ch_channel_id payload) (''chan-'' @ take 16 generated)\<rparr>) in
      case find (\<lambda>c. ch_channel_id c = ch_channel_id new) table of
        None \<Rightarrow> (Some new, table @ [new])
      | Some old \<Rightarrow>
          if ch_workspace_id old = ch_workspace_id new
          then (Some (channel_update new old),
                update_where (\<lambda>c. ch_channel_id c = ch_channel_id new) (channel_update new) table)
          else (None, table))"

definition delete_alert_channel :: "string \<Rightarrow> string \<Rightarrow> alert_channel list \<Rightarrow> bool \<times> alert_channel list" where
  "delete_alert_channel ws i table =
     (let hit = (\<lambda>c. ch_workspace_id c = ws \<and> ch_channel_id c = i) in (list_ex hit table, delete_where hit table))"

definition record_alert_channel_test ::
    "time \<Rightarrow> string \<Rightarrow> string \<Rightarrow> string \<Rightarrow> string \<Rightarrow> int option \<Rightarrow> alert_channel list
      \<Rightarrow> alert_channel option \<times> alert_channel list" where
  "record_alert_channel_test now ws i status detail code table =
     (let hit = (\<lambda>c. ch_workspace_id c = ws \<and> ch_channel_id c = i);
          tested = (\<lambda>c. c\<lparr>ch_last_tested_at := Some now, ch_last_test_status := Some status,
                         ch_last_test_detail := Some detail, ch_last_test_status_code := code, ch_updated_at := now\<rparr>) in
      (map_option tested (find hit table), update_where hit tested table))"

section \<open>Requests and what the handler emits\<close>

record alert_requested =
  rq_cluster_id :: string
  rq_namespace :: string
  rq_severity :: string
  rq_message :: string
  rq_reason :: string
  rq_next_command :: "pyval option"
  rq_workspace_id :: string
  rq_application_id :: string
  rq_workflow_run_id :: string
  rq_binding_id :: string
  rq_environment :: string
  rq_channel_ids :: "string list option"

definition requested_fields :: "alert_requested \<Rightarrow> pyval list" where
  "requested_fields r =
     [PStr (rq_cluster_id r), PStr (rq_namespace r), PStr (rq_severity r), PStr (rq_message r), PStr (rq_reason r),
      (case rq_next_command r of None \<Rightarrow> PNull | Some c \<Rightarrow> c),
      PStr (rq_workspace_id r), PStr (rq_application_id r), PStr (rq_workflow_run_id r), PStr (rq_binding_id r),
      PStr (rq_environment r),
      (case rq_channel_ids r of None \<Rightarrow> PNull | Some ids \<Rightarrow> PList (map PStr ids))]"

definition dispatched_body :: "alert_requested \<Rightarrow> string \<Rightarrow> string \<Rightarrow> pyval" where
  "dispatched_body r channel mode =
     PBody alert_dispatched_body
       [PStr (rq_cluster_id r), PStr (rq_namespace r), PStr (rq_severity r), PStr channel, PStr mode,
        PStr (rq_workspace_id r), PStr (rq_application_id r), PStr (rq_workflow_run_id r),
        PStr (rq_binding_id r), PStr (rq_environment r)]"

definition rejected_alert :: "string \<Rightarrow> alert_requested \<Rightarrow> pyval" where
  "rejected_alert reason r =
     PBody alert_rejected_body [PStr reason, of_json (JObj (to_body alert_requested_body (requested_fields r)))]"

section \<open>Policy and providers\<close>

definition alert_csv_values :: "string \<Rightarrow> string list" where
  "alert_csv_values v = map ascii_lower (csv_values v)"

text \<open>\<open>Some reason\<close> is a refusal.\<close>

definition check_alert_policy :: "policy_env \<Rightarrow> alert_requested \<Rightarrow> string option" where
  "check_alert_policy pv r =
     (if ascii_lower (py_strip (rq_severity r)) \<in> set (alert_csv_values (getenv pv ''ALERT_BLOCKED_SEVERITIES'' []))
      then Some ''alert severity blocked by policy''
      else if rq_next_command r \<noteq> None \<and>
              normalize_environment (rq_environment r) \<notin>
                set (alert_csv_values (getenv pv ''ALERT_AUTO_COMMAND_ENVIRONMENTS'' ''sandbox,staging''))
      then Some ''auto command not allowed for environment''
      else None)"

datatype alert_provider = LogAlertProvider | WebhookAlertProvider

definition build_alert_provider :: "policy_env \<Rightarrow> string option \<Rightarrow> alert_provider option" where
  "build_alert_provider pv name =
     (let provider = ascii_lower (py_strip (case name of Some (c # cs) \<Rightarrow> c # cs | _ \<Rightarrow> getenv pv ''ALERT_PROVIDER'' ''log'')) in
      if provider = ''log'' then Some LogAlertProvider
      else if provider = ''webhook'' then Some WebhookAlertProvider
      else None)"

text \<open>\<open>posted\<close> tells whether the POST to an address succeeded; \<open>None\<close> is an exception.\<close>

definition provider_dispatch ::
    "policy_env \<Rightarrow> (string \<Rightarrow> bool) \<Rightarrow> alert_provider \<Rightarrow> alert_requested \<Rightarrow> pyval option" where
  "provider_dispatch pv posted provider r =
     (case provider of
        LogAlertProvider \<Rightarrow> Some (dispatched_body r ''log'' ''log'')
      | WebhookAlertProvider \<Rightarrow>
          (let url = py_strip (getenv pv ''ALERT_WEBHOOK_URL'' []) in
           if url = [] then None
           else if posted url then Some (dispatched_body r ''webhook'' ''webhook'') else None))"

section \<open>The handler\<close>

definition matching_channels :: "alert_channel list \<Rightarrow> alert_requested \<Rightarrow> alert_channel list" where
  "matching_channels channels r =
     filter (\<lambda>c. ch_enabled c \<and> severity_matches (ch_min_severity c) (rq_severity r) \<and>
                 (case rq_channel_ids r of None \<Rightarrow> True | Some ids \<Rightarrow> ch_channel_id c \<in> set ids)) channels"

text \<open>
  \<^verbatim>\<open>on_alert_requested\<close>: the bodies it yields, in order. \<open>posted\<close> is the outcome of the POST to a
  channel, by identifier; \<open>provider_posted\<close> the one of the workspace-independent provider.
\<close>

definition on_alert_requested ::
    "policy_env \<Rightarrow> alert_channel list \<Rightarrow> (string \<Rightarrow> bool) \<Rightarrow> (string \<Rightarrow> bool) \<Rightarrow> alert_provider
      \<Rightarrow> alert_requested \<Rightarrow> pyval list" where
  "on_alert_requested pv table posted provider_posted provider r =
     (case check_alert_policy pv r of
        Some reason \<Rightarrow> [rejected_alert reason r]
      | None \<Rightarrow>
          (let channels = matching_channels (list_alert_channels (rq_workspace_id r) False table) r;
               follow_up = (case rq_next_command r of None \<Rightarrow> [] | Some cmd \<Rightarrow> [cmd]) in
           if channels \<noteq> [] then
             (let delivered = filter (\<lambda>c. posted (ch_channel_id c)) channels in
              if delivered = [] then [rejected_alert ''alert dispatch failed'' r]
              else map (\<lambda>c. dispatched_body r (ch_name c) ''webhook'') delivered @ follow_up)
           else if rq_channel_ids r \<noteq> None then [rejected_alert ''selected alert channels unavailable'' r]
           else
             case provider_dispatch pv provider_posted provider r of
               None \<Rightarrow> [rejected_alert ''alert dispatch failed'' r]
             | Some dispatched \<Rightarrow> dispatched # follow_up))"

end
