(* ===== verification/Alert_Routing.thy ===== *)
theory Alert_Routing
  imports Alert_History Alert_Delivery
begin

text \<open>
  From a transition to its delivery: what one evaluation stages, how the handler of
  \<^verbatim>\<open>alert.requested\<close> reads it back, and where it may go.
\<close>

section \<open>Staging\<close>

text \<open>What every evaluation leaves behind: no event opens or closes without a transition.\<close>

lemma transition_staged:
  assumes "evaluate_measurement av tk rule m s = (res, s')"
  shows "(case res of
      Inl e \<Rightarrow> s' = s
    | Inr None \<Rightarrow> al_db s' = al_db s \<and> map event_core (al_events s') = map event_core (al_events s)
    | Inr (Some tr) \<Rightarrow> al_db s' = stage_rule_transition av tk tr (al_db s) \<and> tr_event tr \<in> set (al_events s') \<and>
        tr_channel_ids tr = ar_channels rule \<and>
        (tr_transition tr, ae_status (tr_event tr)) \<in> {(''firing'', Firing), (''resolved'', Resolved)})"
proof (cases rule: evaluation_cases [OF assms])
  case (5 a e)
  then show ?thesis
    by (auto simp: resolve_alert_rule_event_def Let_def transactional_stager_def notification_transition_def
        update_where_def image_iff split: option.splits dest!: find_in_set)
next
  case (9 c saved created)
  note act = activate_states(2,3) [OF 9(6)]
  have "al_db s' = (if created then stage_rule_transition av tk (notification_transition saved rule ''firing'') (al_db s) else al_db s)"
    using 9(6) by (auto simp: activate_alert_rule_event_def Let_def transactional_stager_def split: option.splits if_splits)
  then show ?thesis
    using act 9(1) by (auto simp: notification_transition_def firing_event_def)
qed simp_all

lemma stage_one:
  assumes "env_event_id e \<notin> ob_event_id ` set (db_outbox d)"
  shows "db_outbox (stage_events [e] (record_event now e d)) = db_outbox d @ [outbox_row_of (Suc (db_outbox_seq d)) e]"
  using assms by (simp add: stage_outbox_event_def insert_new_def)

section \<open>Reading the request\<close>

lemma alert_requested_hint: "hint_ok (TBody alert_requested_body)"
  by code_simp

interpretation alerts: payload_codec to_body_value "from_body False alert_requested_body"
    "has_type (TBody alert_requested_body)"
  by unfold_locales (rule decode_object [OF _ alert_requested_hint])

text \<open>The request of a transition, as the object the handler receives.\<close>

definition rule_request :: "alert_env \<Rightarrow> alert_transition \<Rightarrow> alert_requested" where
  "rule_request av tr =
     (let e = tr_event tr; state = tr_transition tr;
          rule_name = or_default (or_default (case ae_rule_name e of None \<Rightarrow> [] | Some n \<Rightarrow> n) (case ae_rule_id e of None \<Rightarrow> [] | Some r \<Rightarrow> r)) default_rule_name in
      \<lparr>rq_cluster_id = subject_text av (ae_subject e) ''cluster'' ''unknown'',
       rq_namespace = subject_text av (ae_subject e) ''namespace'' [],
       rq_severity = rule_delivery_severity (ascii_lower (py_strip (or_default (ae_severity e) ''warning''))),
       rq_message = rule_name @ [CHR '' '', CHR 0xC2, CHR 0xB7, CHR '' ''] @ state_label state,
       rq_reason = ''alert rule '' @ or_default state ''firing'', rq_next_command = None,
       rq_workspace_id = or_default (ae_workspace_id e) ''default'', rq_application_id = [],
       rq_workflow_run_id = [], rq_binding_id = [], rq_environment = ''sandbox'',
       rq_channel_ids = Some (tr_channel_ids tr)\<rparr>)"

lemma rule_request_fields: "requested_fields (rule_request av tr) = alert_request av tr"
  by (simp add: rule_request_def alert_request_def requested_fields_def Let_def)

lemma has_items_strings [simp]: "has_items TStr (map PStr xs)"
  by (induction xs) simp_all

lemma rule_request_typed: "has_type (TBody alert_requested_body) (PBody alert_requested_body (requested_fields (rule_request av tr)))"
  by (simp add: alert_requested_body_def requested_fields_def rule_request_def Let_def)

lemma rule_request_received:
  "from_body False alert_requested_body (JObj (env_payload (request_envelope av tk tr))) =
   Inr (PBody alert_requested_body (requested_fields (rule_request av tr)))"
  using alerts.dec_enc [OF rule_request_typed [of av tr]]
  by (simp add: request_envelope_def make_event_def to_body_def rule_request_fields)

text \<open>
  An evaluation that announces nothing leaves the outbox and the activity of
  every event as they were, and one that fails changes nothing at all. One that announces a
  transition has stored its event, and in the same transaction it adds exactly one outbox row
  for it, unless the rule selects no channel; a worker reads from that row the request of this
  very transition.
\<close>

theorem transitions_are_staged_with_their_event:
  assumes "evaluate_measurement av tk rule m s = (res, s')"
    and "tk_envelope_id tk \<notin> ob_event_id ` set (db_outbox (al_db s))"
  shows "case res of
      Inl e \<Rightarrow> s' = s
    | Inr None \<Rightarrow> db_outbox (al_db s') = db_outbox (al_db s) \<and>
        map (\<lambda>e. (ae_event_id e, is_active e)) (al_events s') = map (\<lambda>e. (ae_event_id e, is_active e)) (al_events s)
    | Inr (Some tr) \<Rightarrow> tr_event tr \<in> set (al_events s') \<and>
        (if ar_channels rule = [] then db_outbox (al_db s') = db_outbox (al_db s)
         else \<exists>row. db_outbox (al_db s') = db_outbox (al_db s) @ [row] \<and> ob_subject row = ''alert.requested'' \<and>
           from_body False alert_requested_body (JObj (ob_payload row)) =
             Inr (PBody alert_requested_body (requested_fields (rule_request av tr))))"
proof (cases res)
  case (Inl e)
  with transition_staged [OF assms(1)] show ?thesis by simp
next
  case (Inr out)
  show ?thesis
  proof (cases out)
    case None
    have core: "map (\<lambda>e. (ae_event_id e, is_active e)) es = map (\<lambda>(i, w, r, k, st). (i, st = Firing \<or> st = Acked)) (map event_core es)" for es
      by (simp add: event_core_def is_active_def)
    then have "map (\<lambda>e. (ae_event_id e, is_active e)) (al_events s') = map (\<lambda>e. (ae_event_id e, is_active e)) (al_events s)"
      using transition_staged [OF assms(1)] Inr None unfolding core by (simp del: map_map)
    with transition_staged [OF assms(1)] Inr None show ?thesis by simp
  next
    case (Some tr)
    note st = transition_staged [OF assms(1), unfolded Inr Some, simplified]
    let ?env = "request_envelope av tk tr"
    have fresh: "env_event_id ?env \<notin> ob_event_id ` set (db_outbox (al_db s))"
      using assms(2) by (simp add: request_envelope_def make_event_def)
    have row: "ob_subject (outbox_row_of n ?env) = ''alert.requested''" "ob_payload (outbox_row_of n ?env) = env_payload ?env" for n
      by (simp_all add: outbox_row_of_def request_envelope_def make_event_def)
    show ?thesis
      using st stage_one [OF fresh, of "tk_now tk"] row rule_request_received [of av tk tr] Inr Some
      by (simp add: stage_rule_transition_def)
  qed
qed

section \<open>Where a request goes\<close>

lemma in_matching:
  "c \<in> set (matching_channels (list_alert_channels ws False table) r) \<longleftrightarrow>
     c \<in> set table \<and> ch_workspace_id c = ws \<and> ch_enabled c \<and> severity_matches (ch_min_severity c) (rq_severity r) \<and>
     (case rq_channel_ids r of None \<Rightarrow> True | Some ids \<Rightarrow> ch_channel_id c \<in> set ids)"
  by (auto simp: matching_channels_def list_alert_channels_def)

text \<open>
  The alert of a rule never leaves the channels the rule selects. Whatever the
  policy, the channels of the workspace and the outcomes of the POSTs, the worker that reads the
  staged request emits at least one body, and each is either a refusal or the confirmation of a
  delivery to an enabled channel of the rule's workspace, selected by the rule, at or below the
  alert's severity, whose POST succeeded; the fallback provider is never used.
\<close>

theorem rule_alerts_stay_on_their_channels:
  "\<exists>rq. from_body False alert_requested_body (JObj (env_payload (request_envelope av tk tr))) =
         Inr (PBody alert_requested_body (requested_fields rq)) \<and>
      on_alert_requested pv table posted provider_posted provider rq \<noteq> [] \<and>
      (\<forall>b \<in> set (on_alert_requested pv table posted provider_posted provider rq).
         (\<exists>reason. b = rejected_alert reason rq) \<or>
         (\<exists>c \<in> set table. ch_channel_id c \<in> set (tr_channel_ids tr) \<and>
            ch_workspace_id c = or_default (ae_workspace_id (tr_event tr)) ''default'' \<and> ch_enabled c \<and>
            severity_matches (ch_min_severity c) (rq_severity rq) \<and> posted (ch_channel_id c) \<and>
            b = dispatched_body rq (ch_name c) ''webhook''))"
proof (intro exI conjI)
  let ?rq = "rule_request av tr"
  show "from_body False alert_requested_body (JObj (env_payload (request_envelope av tk tr))) =
      Inr (PBody alert_requested_body (requested_fields ?rq))" by (rule rule_request_received)
  have rq: "rq_channel_ids ?rq = Some (tr_channel_ids tr)" "rq_next_command ?rq = None"
      "rq_workspace_id ?rq = or_default (ae_workspace_id (tr_event tr)) ''default''"
    by (simp_all add: rule_request_def Let_def)
  show "on_alert_requested pv table posted provider_posted provider ?rq \<noteq> []"
    by (simp add: on_alert_requested_def Let_def rq split: option.split)
  show "\<forall>b \<in> set (on_alert_requested pv table posted provider_posted provider ?rq).
      (\<exists>reason. b = rejected_alert reason ?rq) \<or>
      (\<exists>c \<in> set table. ch_channel_id c \<in> set (tr_channel_ids tr) \<and>
         ch_workspace_id c = or_default (ae_workspace_id (tr_event tr)) ''default'' \<and> ch_enabled c \<and>
         severity_matches (ch_min_severity c) (rq_severity ?rq) \<and> posted (ch_channel_id c) \<and>
         b = dispatched_body ?rq (ch_name c) ''webhook'')"
    by (auto simp: on_alert_requested_def Let_def rq in_matching split: option.splits)
qed

text \<open>
  A follow-up command is emitted exactly when the policy lets the alert pass,
  which includes that its environment is one where automatic commands are allowed, and at least
  one delivery was confirmed; it then comes after every confirmation. Without a confirmation the
  handler emits one refusal and nothing else.
\<close>

theorem command_follows_a_confirmed_alert:
  assumes "rq_next_command rq = Some (PBody command_requested_body vs)"
  shows "(PBody command_requested_body vs \<in> set (on_alert_requested pv table posted provider_posted provider rq) \<longleftrightarrow>
      check_alert_policy pv rq = None \<and>
      (if matching_channels (list_alert_channels (rq_workspace_id rq) False table) rq \<noteq> []
       then list_ex (\<lambda>c. posted (ch_channel_id c)) (matching_channels (list_alert_channels (rq_workspace_id rq) False table) rq)
       else rq_channel_ids rq = None \<and> provider_dispatch pv provider_posted provider rq \<noteq> None)) \<and>
    (\<exists>ds. (ds \<noteq> [] \<and> (\<forall>d \<in> set ds. \<exists>channel mode. d = dispatched_body rq channel mode) \<and>
           on_alert_requested pv table posted provider_posted provider rq = ds @ [PBody command_requested_body vs] \<and>
           normalize_environment (rq_environment rq) \<in>
             set (alert_csv_values (getenv pv ''ALERT_AUTO_COMMAND_ENVIRONMENTS'' ''sandbox,staging''))) \<or>
          (\<exists>reason. on_alert_requested pv table posted provider_posted provider rq = [rejected_alert reason rq]))"
proof -
  let ?cmd = "PBody command_requested_body vs"
  let ?m = "matching_channels (list_alert_channels (rq_workspace_id rq) False table) rq"
  let ?out = "on_alert_requested pv table posted provider_posted provider rq"
  have no_reject: "?cmd \<noteq> rejected_alert reason rq" for reason
    by (simp add: rejected_alert_def command_requested_body_def alert_rejected_body_def)
  have no_dispatch: "?cmd \<noteq> dispatched_body rq channel mode" for channel mode
    by (simp add: dispatched_body_def command_requested_body_def alert_dispatched_body_def)
  show ?thesis
  proof (cases "check_alert_policy pv rq")
    case (Some reason)
    then show ?thesis using no_reject by (auto simp: on_alert_requested_def)
  next
    case None
    then have env: "normalize_environment (rq_environment rq) \<in>
        set (alert_csv_values (getenv pv ''ALERT_AUTO_COMMAND_ENVIRONMENTS'' ''sandbox,staging''))"
      using assms by (auto simp: check_alert_policy_def split: if_splits)
    have confirmed: ?thesis if "ds \<noteq> []" "\<forall>d \<in> set ds. \<exists>channel mode. d = dispatched_body rq channel mode"
        "?out = ds @ [?cmd]" "if ?m \<noteq> [] then list_ex (\<lambda>c. posted (ch_channel_id c)) ?m
          else rq_channel_ids rq = None \<and> provider_dispatch pv provider_posted provider rq \<noteq> None" for ds
      using that None env by auto
    have refused: ?thesis if "?out = [rejected_alert reason rq]" "\<not> (if ?m \<noteq> [] then list_ex (\<lambda>c. posted (ch_channel_id c)) ?m
          else rq_channel_ids rq = None \<and> provider_dispatch pv provider_posted provider rq \<noteq> None)" for reason
      using that None no_reject by auto
    show ?thesis
    proof (cases "?m = []")
      case True
      show ?thesis
      proof (cases "provider_dispatch pv provider_posted provider rq")
        case None
        with True \<open>check_alert_policy pv rq = None\<close> show ?thesis
          by (intro refused [of "if rq_channel_ids rq = None then ''alert dispatch failed'' else ''selected alert channels unavailable''"])
            (auto simp: on_alert_requested_def)
      next
        case (Some d)
        then have "\<exists>channel mode. d = dispatched_body rq channel mode"
          by (auto simp: provider_dispatch_def Let_def split: alert_provider.splits if_splits)
        with True Some \<open>check_alert_policy pv rq = None\<close> assms env no_reject show ?thesis
          by (cases "rq_channel_ids rq") (auto simp: on_alert_requested_def)
      qed
    next
      case False
      show ?thesis
      proof (cases "filter (\<lambda>c. posted (ch_channel_id c)) ?m = []")
        case True
        with False None show ?thesis
          by (intro refused [of "''alert dispatch failed''"])
            (auto simp: on_alert_requested_def list_ex_iff filter_empty_conv)
      next
        case some: False
        with False None assms show ?thesis
          by (intro confirmed [of "map (\<lambda>c. dispatched_body rq (ch_name c) ''webhook'') (filter (\<lambda>c. posted (ch_channel_id c)) ?m)"])
            (auto simp: on_alert_requested_def Let_def list_ex_iff filter_empty_conv)
      qed
    qed
  qed
qed

section \<open>A concrete run\<close>

text \<open>
  A rule on restarts, \<open>for\<close> one minute. The samples at second 0 and 60 satisfy it, so the second
  fires; the event is promoted and its incident closed; the samples at 120 (recovered), 180 and
  300 (failing again, two minutes apart) are then evaluated in silence.
\<close>

definition alert_demo_av :: alert_env where
  "alert_demo_av = \<lparr>av_digest = (\<lambda>d. ''target''), av_str = (\<lambda>j. ''x''),
     av_fromisoformat = (\<lambda>t. map_option (\<lambda>n. (seconds n, True)) (parse_int t))\<rparr>"

definition alert_demo_rule :: alert_rule where
  "alert_demo_rule = \<lparr>ar_rule_id = ''r'', ar_workspace_id = ''w'', ar_name = ''restarts'', ar_scope = [],
     ar_metric = ''restart_count'', ar_comparator = ''>'', ar_threshold = 3, ar_for_seconds = 60,
     ar_severity = ''high'', ar_channels = [''c1''], ar_enabled = True, ar_created_by = ''u'',
     ar_last_fired_at = None, ar_occurrence_count = 0, ar_updated_at = 0\<rparr>"

definition alert_demo_sample :: "int \<Rightarrow> rat \<Rightarrow> alert_measurement" where
  "alert_demo_sample t v = \<lparr>me_subject = [(''cluster'', JStr ''k''), (''namespace'', JStr ''n''), (''kind'', JStr ''Pod''), (''name'', JStr ''p'')],
     me_observed_value = v, me_observed_at = seconds t, me_evidence = [[(''observed_at'', JStr (int_text t))]]\<rparr>"

definition alert_demo_tick :: "nat \<Rightarrow> tick" where
  "alert_demo_tick n = \<lparr>tk_evaluated_at = seconds (int n), tk_now = seconds (int n), tk_event_id = int_text (int n),
     tk_envelope_id = ''evt-'' @ int_text (int n)\<rparr>"

definition alert_demo_start :: alert_db where
  "alert_demo_start = \<lparr>al_rules = [alert_demo_rule], al_states = [], al_events = [], al_db = empty_db\<rparr>"

definition alert_demo_pending :: alert_db where
  "alert_demo_pending = snd (evaluate_measurement alert_demo_av (alert_demo_tick 0) alert_demo_rule (alert_demo_sample 0 5) alert_demo_start)"

definition alert_demo_fired :: alert_db where
  "alert_demo_fired = snd (evaluate_measurement alert_demo_av (alert_demo_tick 1) alert_demo_rule (alert_demo_sample 60 5) alert_demo_pending)"

definition alert_demo_event :: alert_event where
  "alert_demo_event = firing_event alert_demo_av (alert_demo_tick 1) alert_demo_rule (alert_demo_sample 60 5)"

definition alert_demo_promoted :: alert_db where
  "alert_demo_promoted = snd (promote_alert_event 0 ''w'' (ae_event_id alert_demo_event) ''inc'' ''u'' alert_demo_fired)"

definition alert_demo_closed :: alert_db where
  "alert_demo_closed = fst (resolve_incident_alert_events 0 ''w'' ''inc'' alert_demo_promoted)"

definition alert_demo_later :: "(alert_rule \<times> alert_measurement) list" where
  "alert_demo_later = [(alert_demo_rule, alert_demo_sample 120 0), (alert_demo_rule, alert_demo_sample 180 9), (alert_demo_rule, alert_demo_sample 300 9)]"

definition alert_demo_end :: "alert_error option \<times> alert_transition list \<times> alert_db" where
  "alert_demo_end = evaluate_all alert_demo_av alert_demo_tick 2 alert_demo_later alert_demo_closed"

lemma alert_demo_firing:
  "evaluate_measurement alert_demo_av (alert_demo_tick 1) alert_demo_rule (alert_demo_sample 60 5) alert_demo_pending =
     (Inr (Some (notification_transition alert_demo_event alert_demo_rule ''firing'')), alert_demo_fired)"
  by code_simp

lemma alert_demo_reachable: "alerts_reachable alert_demo_av (alert_demo_pending, [((''r'', ''target''), 0, True)])"
proof -
  have ev: "evaluate_measurement alert_demo_av (alert_demo_tick 0) alert_demo_rule (alert_demo_sample 0 5) alert_demo_start = (Inr None, alert_demo_pending)"
    by code_simp
  have lg: "logged alert_demo_av alert_demo_rule (alert_demo_sample 0 5) alert_demo_start [] = [((''r'', ''target''), 0, True)]"
    by code_simp
  have "alert_step alert_demo_av (alert_demo_start, []) (alert_demo_pending, [((''r'', ''target''), 0, True)])"
    using alert_step.evaluated [OF ev, of "[]"] lg by simp
  moreover have "alerts_empty (alert_demo_start, [])" by (simp add: alerts_empty_def alert_demo_start_def)
  ultimately show ?thesis unfolding alerts_reachable_def reachable_from_def by blast
qed

theorem firing_needs_a_held_condition_witness:
  "\<exists>c. (c, True) \<in> set (takeWhile snd (samples_of (''r'', ''target'') [((''r'', ''target''), 0, True)])) \<and>
     seconds 60 \<le> seconds 60 - c"
proof -
  have "target_of alert_demo_av alert_demo_rule (alert_demo_sample 60 5) = (''r'', ''target'')" "ar_for_seconds alert_demo_rule = 60"
      "me_observed_at (alert_demo_sample 60 5) = seconds 60"
    by (simp_all add: target_of_def subject_key_def alert_demo_av_def alert_demo_rule_def alert_demo_sample_def)
  with firing_needs_a_held_condition [OF alert_demo_reachable alert_demo_firing] show ?thesis
    by (simp add: notification_transition_def)
qed

theorem one_active_event_per_target_witness:
  "unique_key ae_event_id (al_events alert_demo_pending) \<and> al_states alert_demo_pending \<noteq> []"
proof -
  have "al_states alert_demo_pending \<noteq> []" by code_simp
  with one_active_event_per_target [OF alert_demo_reachable] show ?thesis by blast
qed


theorem transitions_are_staged_with_their_event_witness:
  "\<exists>row. db_outbox (al_db alert_demo_fired) = db_outbox (al_db alert_demo_pending) @ [row] \<and> ob_subject row = ''alert.requested'' \<and>
     from_body False alert_requested_body (JObj (ob_payload row)) = Inr (PBody alert_requested_body
       (requested_fields (rule_request alert_demo_av (notification_transition alert_demo_event alert_demo_rule ''firing''))))"
proof -
  have "tk_envelope_id (alert_demo_tick 1) \<notin> ob_event_id ` set (db_outbox (al_db alert_demo_pending))" by code_simp
  from transitions_are_staged_with_their_event [OF alert_demo_firing this] show ?thesis
    by (simp add: alert_demo_rule_def)
qed

definition alert_demo_pv :: policy_env where
  "alert_demo_pv = \<lparr>pv_command = \<lparr>ce_catalog = [], ce_render = (\<lambda>_. []), ce_sql_text = (\<lambda>_. []),
       ce_timestamp = (\<lambda>_. None), ce_impact = (\<lambda>_ _ _ _ _. [])\<rparr>, pv_getenv = (\<lambda>_. None), pv_fromisoformat = (\<lambda>_. None), pv_isoformat = (\<lambda>_. []),
     pv_digest = (\<lambda>_. []), pv_lease_seconds = 60, pv_heartbeat_seconds = 60\<rparr>"

definition alert_demo_channel :: alert_channel where
  "alert_demo_channel = \<lparr>ch_channel_id = ''c1'', ch_workspace_id = ''w'', ch_name = ''ops'', ch_kind = ''webhook'', ch_url = ''u'',
     ch_min_severity = ''warning'', ch_enabled = True, ch_last_tested_at = None, ch_last_test_status = None,
     ch_last_test_detail = None, ch_last_test_status_code = None, ch_updated_at = 0\<rparr>"

text \<open>The alert of the run above goes to the one channel of its rule.\<close>

lemma alert_demo_delivered:
  "on_alert_requested alert_demo_pv [alert_demo_channel] (\<lambda>_. True) (\<lambda>_. True) LogAlertProvider
     (rule_request alert_demo_av (notification_transition alert_demo_event alert_demo_rule ''firing'')) =
   [dispatched_body (rule_request alert_demo_av (notification_transition alert_demo_event alert_demo_rule ''firing'')) ''ops'' ''webhook'']"
  by code_simp

theorem rule_alerts_stay_on_their_channels_witness:
  "\<exists>rq. on_alert_requested alert_demo_pv [alert_demo_channel] (\<lambda>_. True) (\<lambda>_. True) LogAlertProvider rq \<noteq> [] \<and>
     (\<forall>b \<in> set (on_alert_requested alert_demo_pv [alert_demo_channel] (\<lambda>_. True) (\<lambda>_. True) LogAlertProvider rq).
        (\<exists>reason. b = rejected_alert reason rq) \<or> b = dispatched_body rq ''ops'' ''webhook'')"
  using rule_alerts_stay_on_their_channels [of alert_demo_av "alert_demo_tick 1" "notification_transition alert_demo_event alert_demo_rule ''firing''"
      alert_demo_pv "[alert_demo_channel]" "\<lambda>_. True" "\<lambda>_. True" LogAlertProvider]
  by (auto simp: alert_demo_channel_def)

definition alert_demo_command_alert :: alert_requested where
  "alert_demo_command_alert = (rule_request alert_demo_av (notification_transition alert_demo_event alert_demo_rule ''firing''))
     \<lparr>rq_next_command := Some (PBody command_requested_body []), rq_channel_ids := None\<rparr>"

theorem command_follows_a_confirmed_alert_witness:
  "PBody command_requested_body [] \<in> set (on_alert_requested alert_demo_pv [alert_demo_channel] (\<lambda>_. True) (\<lambda>_. True) LogAlertProvider alert_demo_command_alert)"
proof -
  have next_cmd: "rq_next_command alert_demo_command_alert = Some (PBody command_requested_body [])"
    by (simp add: alert_demo_command_alert_def)
  have "check_alert_policy alert_demo_pv alert_demo_command_alert = None" by code_simp
  moreover have "matching_channels (list_alert_channels (rq_workspace_id alert_demo_command_alert) False [alert_demo_channel]) alert_demo_command_alert
      = [alert_demo_channel]" by code_simp
  ultimately show ?thesis
    using command_follows_a_confirmed_alert [OF next_cmd, of alert_demo_pv "[alert_demo_channel]" "\<lambda>_. True" "\<lambda>_. True" LogAlertProvider]
    by simp
qed

end
