(* ===== verification/Alert_Sources.thy ===== *)
theory Alert_Sources
  imports Alert_History
begin

text \<open>
  Where alerts come from: the measurements of a rule (\<^verbatim>\<open>src/src/domains/alert/measurements.py\<close>)
  and the events of confirmed incidents (\<^verbatim>\<open>src/src/domains/alert/incidents.py\<close>).
\<close>

section \<open>Metric values\<close>

text \<open>
  \<open>mv_float\<close> reads a finite number from a text, \<open>mv_isoformat\<close> writes an instant, \<open>mv_fixed n\<close>
  formats with \<open>n\<close> decimals. Numbers are exact: rounding is not modelled.
\<close>

record measure_env =
  mv_alert :: alert_env
  mv_float :: "string \<Rightarrow> rat option"
  mv_isoformat :: "time \<Rightarrow> string"
  mv_fixed :: "nat \<Rightarrow> rat \<Rightarrow> string"

definition mapping_or_empty :: "json option \<Rightarrow> jobj" where
  "mapping_or_empty v = (case v of Some (JObj d) \<Rightarrow> d | _ \<Rightarrow> [])"

definition nonnegative :: "measure_env \<Rightarrow> json option \<Rightarrow> rat option" where
  "nonnegative mv v =
     (case (case v of Some (JInt n) \<Rightarrow> Some (of_int n) | Some (JFloat q) \<Rightarrow> Some q
                    | Some (JStr t) \<Rightarrow> mv_float mv t | _ \<Rightarrow> None) of
        None \<Rightarrow> None
      | Some q \<Rightarrow> if 0 \<le> q then Some q else None)"

definition positive :: "measure_env \<Rightarrow> json option \<Rightarrow> rat option" where
  "positive mv v = (case nonnegative mv v of None \<Rightarrow> None | Some q \<Rightarrow> if 0 < q then Some q else None)"

definition percentage :: "measure_env \<Rightarrow> jobj \<Rightarrow> string \<Rightarrow> string \<Rightarrow> string \<Rightarrow> rat option" where
  "percentage mv pod percentage_key value_key request_key =
     (case nonnegative mv (jget pod percentage_key) of
        Some q \<Rightarrow> Some q
      | None \<Rightarrow>
          (case (nonnegative mv (jget pod value_key), positive mv (jget pod request_key)) of
             (Some v, Some r) \<Rightarrow> Some (v / r * 100)
           | _ \<Rightarrow> None))"

text \<open>The part before and after the first separator; \<open>None\<close> when there is none.\<close>

fun py_partition :: "char \<Rightarrow> string \<Rightarrow> (string \<times> string) option" where
  "py_partition sep [] = None"
| "py_partition sep (c # cs) =
     (if c = sep then Some ([], cs)
      else case py_partition sep cs of None \<Rightarrow> None | Some (a, b) \<Rightarrow> Some (c # a, b))"

definition metric_value :: "measure_env \<Rightarrow> string \<Rightarrow> jobj \<Rightarrow> rat option" where
  "metric_value mv metric pod =
     (if metric = ''cpu_pct'' then percentage mv pod ''cpu_request_pct'' ''cpu_mcores'' ''cpu_request_mcores''
      else if metric = ''mem_pct'' then percentage mv pod ''mem_request_pct'' ''mem_mib'' ''mem_request_mib''
      else if metric = ''restart_count'' then nonnegative mv (jget pod ''restarts'')
      else if metric = ''pod_not_ready'' then
        (case jget pod ''ready'' of
           Some (JBool ready) \<Rightarrow> Some (if ready then 0 else 1)
         | Some (JStr ready) \<Rightarrow>
             (case py_partition (CHR ''/'') ready of
                None \<Rightarrow> None
              | Some (current, expected) \<Rightarrow>
                  (case (parse_int current, parse_int expected) of
                     (Some c, Some e) \<Rightarrow> Some (if e \<le> c \<and> 0 < e then 0 else 1)
                   | _ \<Rightarrow> None))
         | _ \<Rightarrow> None)
      else None)"

section \<open>Summaries\<close>

definition metric_labels :: "(string \<times> string) list" where
  "metric_labels =
    [(''cpu_pct'',
      [CHR 0x43, CHR 0x50, CHR 0x55, CHR 0x20, CHR 0xEC, CHR 0x9A, CHR 0x94, CHR 0xEC, CHR 0xB2,
       CHR 0xAD, CHR 0xEB, CHR 0x9F, CHR 0x89, CHR 0x20, CHR 0xEB, CHR 0x8C, CHR 0x80, CHR 0xEB,
       CHR 0xB9, CHR 0x84, CHR 0x20, CHR 0xEC, CHR 0x82, CHR 0xAC, CHR 0xEC, CHR 0x9A, CHR 0xA9,
       CHR 0xEB, CHR 0xA5, CHR 0xA0]),
     (''mem_pct'',
      [CHR 0xEB, CHR 0xA9, CHR 0x94, CHR 0xEB, CHR 0xAA, CHR 0xA8, CHR 0xEB, CHR 0xA6, CHR 0xAC,
       CHR 0x20, CHR 0xEC, CHR 0x9A, CHR 0x94, CHR 0xEC, CHR 0xB2, CHR 0xAD, CHR 0xEB, CHR 0x9F,
       CHR 0x89, CHR 0x20, CHR 0xEB, CHR 0x8C, CHR 0x80, CHR 0xEB, CHR 0xB9, CHR 0x84, CHR 0x20,
       CHR 0xEC, CHR 0x82, CHR 0xAC, CHR 0xEC, CHR 0x9A, CHR 0xA9, CHR 0xEB, CHR 0xA5, CHR 0xA0]),
     (''restart_count'',
      [CHR 0xEC, CHR 0xBB, CHR 0xA8, CHR 0xED, CHR 0x85, CHR 0x8C, CHR 0xEC, CHR 0x9D, CHR 0xB4,
       CHR 0xEB, CHR 0x84, CHR 0x88, CHR 0x20, CHR 0xEC, CHR 0x9E, CHR 0xAC, CHR 0xEC, CHR 0x8B,
       CHR 0x9C, CHR 0xEC, CHR 0x9E, CHR 0x91, CHR 0x20, CHR 0xED, CHR 0x9A, CHR 0x9F, CHR 0xEC,
       CHR 0x88, CHR 0x98]),
     (''pod_not_ready'',
      [CHR 0xED, CHR 0x8C, CHR 0x8C, CHR 0xEB, CHR 0x93, CHR 0x9C, CHR 0x20, CHR 0xEC, CHR 0xA4,
       CHR 0x80, CHR 0xEB, CHR 0xB9, CHR 0x84, CHR 0x20, CHR 0xEC, CHR 0x8B, CHR 0xA4, CHR 0xED,
       CHR 0x8C, CHR 0xA8, CHR 0x20, CHR 0xEC, CHR 0x83, CHR 0x81, CHR 0xED, CHR 0x83, CHR 0x9C])]"

definition ratio_detail :: "measure_env \<Rightarrow> jobj \<Rightarrow> string \<Rightarrow> string \<Rightarrow> string \<Rightarrow> string" where
  "ratio_detail mv pod value_key request_key unit =
     (case (nonnegative mv (jget pod value_key), positive mv (jget pod request_key)) of
        (Some v, Some r) \<Rightarrow> mv_fixed mv 2 v @ ''/'' @ mv_fixed mv 2 r @ '' '' @ unit
      | _ \<Rightarrow> [])"

definition evidence_summary :: "measure_env \<Rightarrow> string \<Rightarrow> rat \<Rightarrow> jobj \<Rightarrow> string" where
  "evidence_summary mv metric v pod =
     (let detail =
        (if metric = ''cpu_pct'' then ratio_detail mv pod ''cpu_mcores'' ''cpu_request_mcores'' ''mCPU''
         else if metric = ''mem_pct'' then ratio_detail mv pod ''mem_mib'' ''mem_request_mib'' ''MiB''
         else []) in
      (case map_of metric_labels metric of None \<Rightarrow> metric | Some l \<Rightarrow> l) @ '' '' @ mv_fixed mv 1 v @
      (if detail = [] then [] else '' ('' @ detail @ '')''))"

section \<open>Samples and measurements\<close>

text \<open>\<^verbatim>\<open>_timestamp\<close> on a text: an instant without offset is taken as UTC.\<close>

definition sample_time :: "measure_env \<Rightarrow> json option \<Rightarrow> time option" where
  "sample_time mv v =
     (case v of
        Some (JStr (c # cs)) \<Rightarrow> map_option fst (av_fromisoformat (mv_alert mv) (py_replace ''Z'' ''+00:00'' (c # cs)))
      | _ \<Rightarrow> None)"

text \<open>\<open>rows\<close> lists the usage samples of a cluster, newest last, at most one.\<close>

definition latest_sample :: "measure_env \<Rightarrow> time \<Rightarrow> time \<Rightarrow> jobj list \<Rightarrow> (time \<times> jobj) option" where
  "latest_sample mv now max_age rows =
     (if rows = [] then None
      else case sample_time mv (jget (last rows) ''sampled_at'') of
             None \<Rightarrow> None
           | Some t \<Rightarrow> if now - t < 0 \<or> max_age < now - t then None else Some (t, last rows))"

definition latest_samples ::
    "measure_env \<Rightarrow> time \<Rightarrow> time \<Rightarrow> (string \<Rightarrow> jobj list) \<Rightarrow> string list \<Rightarrow> string \<rightharpoonup> time \<times> jobj" where
  "latest_samples mv now max_age rows cluster_ids k =
     (if k \<in> set cluster_ids then latest_sample mv now max_age (rows k) else None)"

definition str_field :: "measure_env \<Rightarrow> jobj \<Rightarrow> string \<Rightarrow> string \<Rightarrow> string" where
  "str_field mv d k dflt = subject_text (mv_alert mv) d k dflt"

text \<open>
  The body of the loop over the resources of a rule's scope: \<open>None\<close> is \<open>continue\<close>, \<open>Some None\<close>
  a measurement whose construction raises.
\<close>

definition measure_resource ::
    "measure_env \<Rightarrow> string \<Rightarrow> (string \<rightharpoonup> time \<times> jobj) \<Rightarrow> jobj \<Rightarrow> alert_measurement option option" where
  "measure_resource mv metric samples item =
     (let resource = mapping_or_empty (jget item ''resource'');
          cluster_id = str_field mv resource ''cluster_id'' [];
          namespace = str_field mv resource ''namespace'' [];
          name = str_field mv resource ''name'' [] in
      if cluster_id = [] \<or> namespace = [] \<or> name = [] then None
      else
        case samples cluster_id of
          None \<Rightarrow> None
        | Some (observed_at, sample) \<Rightarrow>
            (let pod = mapping_or_empty (jget (mapping_or_empty (jget (mapping_or_empty (jget sample ''usage'')) ''pods''))
                                        (namespace @ ''/'' @ name)) in
             case metric_value mv metric pod of
               None \<Rightarrow> None
             | Some v \<Rightarrow>
                 (let subject = [(''cluster'', JStr cluster_id), (''namespace'', JStr namespace),
                                 (''kind'', JStr (str_field mv resource ''kind'' ''Pod'')), (''name'', JStr name)] in
                  Some (new_measurement (mv_alert mv) subject v observed_at
                    [[(''type'', JStr ''metric_sample''), (''metric'', JStr metric),
                      (''observed_at'', JStr (mv_isoformat mv observed_at)), (''subject'', JObj subject),
                      (''value'', JFloat v), (''summary'', JStr (evidence_summary mv metric v pod))]]))))"

fun measure_resources ::
    "measure_env \<Rightarrow> string \<Rightarrow> (string \<rightharpoonup> time \<times> jobj) \<Rightarrow> jobj list \<Rightarrow> alert_measurement list option" where
  "measure_resources mv metric samples [] = Some []"
| "measure_resources mv metric samples (item # items) =
     (case measure_resource mv metric samples item of
        None \<Rightarrow> measure_resources mv metric samples items
      | Some None \<Rightarrow> None
      | Some (Some m) \<Rightarrow> map_option ((#) m) (measure_resources mv metric samples items))"

section \<open>Events of incidents\<close>

record incident_record =
  ir_incident_id :: string
  ir_cluster_id :: string
  ir_resource_kind :: string
  ir_resource_name :: string
  ir_namespace :: "string option"
  ir_symptom :: string
  ir_severity :: string
  ir_first_seen_at :: "string option"
  ir_summary :: string
  ir_category :: "string option"
  ir_workspace_id :: string

record incident_detected =
  id_detected :: bool
  id_workspace_id :: string
  id_severity :: "string option"
  id_incident :: "incident_record option"

definition ALERT_EVENT_SEVERITIES :: "string list" where
  "ALERT_EVENT_SEVERITIES = [''critical'', ''high'', ''medium'', ''low'', ''warning'', ''info'']"

text \<open>\<open>sha_text\<close> is the SHA-256 of a text, in hexadecimal.\<close>

definition incident_alert_event_id :: "(string \<Rightarrow> string) \<Rightarrow> string \<Rightarrow> string \<Rightarrow> string" where
  "incident_alert_event_id sha_text ws incident_id =
     ''ale-inc-'' @ take 32 (sha_text (ws @ ''|'' @ incident_id @ ''|incident''))"

definition incident_subject :: "incident_record \<Rightarrow> jobj" where
  "incident_subject i =
     [(''cluster'', JStr (take 512 (or_default (py_strip (ir_cluster_id i)) ''unknown''))),
      (''namespace'', (case ir_namespace i of
                         None \<Rightarrow> JNull
                       | Some n \<Rightarrow> if py_strip n = [] then JNull else JStr (take 253 (py_strip n)))),
      (''kind'', JStr (take 253 (or_default (py_strip (ir_resource_kind i)) ''Workload''))),
      (''name'', JStr (take 253 (or_default (py_strip (ir_resource_name i)) ''unknown'')))]"

definition incident_severity :: "string \<Rightarrow> string" where
  "incident_severity v =
     (let n = ascii_lower (py_strip (or_default v ''warning'')) in
      if n \<in> set ALERT_EVENT_SEVERITIES then n else ''warning'')"

definition incident_timestamp :: "measure_env \<Rightarrow> string option \<Rightarrow> time option" where
  "incident_timestamp mv v = sample_time mv (map_option JStr v)"

definition subject_str :: "jobj \<Rightarrow> string \<Rightarrow> string" where
  "subject_str subject k = (case jget subject k of Some (JStr t) \<Rightarrow> t | _ \<Rightarrow> [])"

definition build_incident_alert_event ::
    "measure_env \<Rightarrow> (string \<Rightarrow> string) \<Rightarrow> time \<Rightarrow> incident_detected \<Rightarrow> alert_event option" where
  "build_incident_alert_event mv sha_text now evt =
     (case (if id_detected evt then id_incident evt else None) of
        None \<Rightarrow> None
      | Some i \<Rightarrow>
          (let ws = or_default (py_strip (or_default (id_workspace_id evt) (ir_workspace_id i))) ''default'';
               fired_at = (case incident_timestamp mv (ir_first_seen_at i) of None \<Rightarrow> now | Some t \<Rightarrow> t);
               subject = incident_subject i;
               summary = take 1000 (or_default (py_strip (ir_summary i))
                 (subject_str subject ''kind'' @ '' '' @ subject_str subject ''name'' @ '' has '' @ ir_symptom i));
               symptom = take 120 (or_default (py_strip (ir_symptom i))
                 (or_default (case ir_category i of None \<Rightarrow> [] | Some c \<Rightarrow> c) ''Incident'')) in
           Some \<lparr>ae_event_id = incident_alert_event_id sha_text ws (ir_incident_id i), ae_workspace_id = ws,
                 ae_rule_id = None, ae_rule_name = Some symptom, ae_source = ''incident'',
                 ae_severity = incident_severity (or_default (ir_severity i) (case id_severity evt of None \<Rightarrow> [] | Some v \<Rightarrow> v)),
                 ae_subject_key = av_digest (mv_alert mv) subject, ae_subject = subject, ae_fired_at = fired_at,
                 ae_resolved_at = None, ae_status = Firing, ae_observed_value = None, ae_threshold = None,
                 ae_series_identity = None,
                 ae_evidence = [[(''type'', JStr ''incident''), (''metric'', JStr symptom),
                    (''observed_at'', JStr (mv_isoformat mv fired_at)), (''subject'', JObj subject), (''value'', JNull),
                    (''summary'', JStr summary), (''link'', JNull)]],
                 ae_incident_id = Some (ir_incident_id i), ae_acknowledged_at = None, ae_acknowledged_by = None,
                 ae_promoted_at = None, ae_promoted_by = None, ae_updated_at = now\<rparr>))"

text \<open>\<^verbatim>\<open>persist_incident_alert_event\<close>: nothing is stored unless the incident is confirmed.\<close>

definition persist_incident_alert_event ::
    "measure_env \<Rightarrow> (string \<Rightarrow> string) \<Rightarrow> time \<Rightarrow> incident_detected \<Rightarrow> alert_db \<Rightarrow> alert_event option \<times> alert_db" where
  "persist_incident_alert_event mv sha_text now evt s =
     (case build_incident_alert_event mv sha_text now evt of
        None \<Rightarrow> (None, s)
      | Some payload \<Rightarrow> upsert_incident_alert_event now (case ae_incident_id payload of None \<Rightarrow> [] | Some i \<Rightarrow> i) payload s)"

definition resolve_incident_alert_event :: "time \<Rightarrow> string \<Rightarrow> string \<Rightarrow> alert_db \<Rightarrow> alert_db \<times> nat" where
  "resolve_incident_alert_event now ws incident_id s = resolve_incident_alert_events now ws incident_id s"

section \<open>What the sources guarantee\<close>

lemma nonnegative_ge0: "nonnegative mv v = Some q \<Longrightarrow> 0 \<le> q"
  by (auto simp: nonnegative_def split: option.splits if_splits)

lemma positive_gt0: "positive mv v = Some q \<Longrightarrow> 0 < q"
  by (auto simp: positive_def split: option.splits if_splits)

lemma metric_value_ge0: "metric_value mv metric pod = Some q \<Longrightarrow> 0 \<le> q"
  by (auto simp: metric_value_def percentage_def split: option.splits if_splits json.splits
      intro!: divide_nonneg_pos mult_nonneg_nonneg dest: nonnegative_ge0 positive_gt0)

lemma latest_sample_age:
  "latest_sample mv now max_age rows = Some (t, sample) \<Longrightarrow> t \<le> now \<and> now - t \<le> max_age"
  by (auto simp: latest_sample_def split: option.splits if_splits)

lemma py_str_nonempty: "v \<noteq> [] \<Longrightarrow> py_str f (JStr v) \<noteq> []"
  by (simp add: py_str_def)

lemma subject_text_nonempty: "dflt \<noteq> [] \<Longrightarrow> (\<And>j. py_truthy j \<Longrightarrow> py_str (av_str av) j \<noteq> []) \<Longrightarrow> subject_text av d k dflt \<noteq> []"
  by (auto simp: subject_text_def split: option.splits)

lemma measured:
  assumes "measure_resource mv metric (latest_samples mv now max_age rows ids) item = Some out"
    and shown: "\<And>j. py_truthy j \<Longrightarrow> py_str (av_str (mv_alert mv)) j \<noteq> []"
  shows "\<exists>m. out = Some m \<and> 0 \<le> me_observed_value m \<and> me_observed_at m \<le> now \<and> now - me_observed_at m \<le> max_age \<and>
    subject_str (me_subject m) ''cluster'' \<in> set ids"
proof -
  let ?r = "mapping_or_empty (jget item ''resource'')"
  let ?c = "str_field mv ?r ''cluster_id'' []" and ?n = "str_field mv ?r ''namespace'' []" and ?p = "str_field mv ?r ''name'' []"
  have kind: "str_field mv ?r ''kind'' ''Pod'' \<noteq> []"
    unfolding str_field_def by (rule subject_text_nonempty) (simp, rule shown)
  from assms(1) have ne: "?c \<noteq> []" "?n \<noteq> []" "?p \<noteq> []"
    by (auto simp: measure_resource_def Let_def split: if_splits)
  from assms(1) obtain t sample where s: "latest_samples mv now max_age rows ids ?c = Some (t, sample)"
    by (auto simp: measure_resource_def Let_def split: if_splits option.splits)
  define pod where "pod = mapping_or_empty (jget (mapping_or_empty (jget (mapping_or_empty (jget sample ''usage'')) ''pods'')) (?n @ ''/'' @ ?p))"
  from assms(1) ne s obtain v where v: "metric_value mv metric pod = Some v"
    unfolding pod_def by (auto simp: measure_resource_def Let_def split: if_splits option.splits)
  from s have "?c \<in> set ids" "t \<le> now" "now - t \<le> max_age"
    using latest_sample_age by (auto simp: latest_samples_def split: if_splits)
  with assms(1) ne s v metric_value_ge0 [OF v] kind show ?thesis
    unfolding pod_def
    by (auto simp: measure_resource_def Let_def new_measurement_def jget_def py_str_nonempty subject_str_def)
qed


section \<open>An incident is announced once\<close>

text \<open>Event identifiers never disappear, whatever steps follow.\<close>

lemma update_where_ids:
  "(\<And>e. p e \<Longrightarrow> ae_event_id (f e) = ae_event_id e) \<Longrightarrow> ae_event_id ` set (update_where p f es) = ae_event_id ` set es"
  using map_key_update_where [of es p ae_event_id f] by (metis list.set_map)

lemma evaluate_ids:
  assumes "evaluate_measurement av tk rule m s = (res, s')"
  shows "ae_event_id ` set (al_events s) \<subseteq> ae_event_id ` set (al_events s')"
proof (cases rule: evaluation_cases [OF assms])
  case (5 a e)
  then show ?thesis by (elim resolve_rows) (simp add: update_where_ids)
next
  case (6 a)
  then show ?thesis by (simp add: refresh_events update_where_ids)
next
  case (9 c saved created)
  from activate_states(2,3) [OF 9(6)] show ?thesis by (cases created) auto
qed auto

lemma step_ids:
  assumes "alert_step av (s, h) (s', h')"
  shows "ae_event_id ` set (al_events s) \<subseteq> ae_event_id ` set (al_events s')"
  using assms
proof (cases rule: alert_step.cases)
  case (evaluated tk rule m res)
  then show ?thesis by (auto dest: evaluate_ids)
qed (auto simp: acknowledge_alert_event_def promote_alert_event_def resolve_incident_alert_events_def
      upsert_incident_alert_event_def upsert_external_alert_event_def delete_alert_rule_def Let_def
      external_update_def update_where_ids
      split: option.splits alert_status.splits if_splits list.splits)

lemma steps_ids:
  "(alert_step av)\<^sup>*\<^sup>* x y \<Longrightarrow> ae_event_id ` set (al_events (fst x)) \<subseteq> ae_event_id ` set (al_events (fst y))"
proof (induction rule: rtranclp_induct)
  case (step y z)
  with step_ids [of av "fst y" "snd y" "fst z" "snd z"] show ?case by auto
qed simp

text \<open>
  Once the alert of a confirmed incident has been created, no redelivery of
  the incident creates it again or changes any row, at any later time and whatever evaluations,
  acknowledgements, closures and notifications happened in between: an acknowledged or resolved
  alert is never reopened this way.
\<close>

theorem incident_alert_is_created_once:
  assumes "persist_incident_alert_event mv sha_text now evt s = (out, s1)" "al_events s1 \<noteq> al_events s"
    and "(alert_step av)\<^sup>*\<^sup>* (s1, h) (s2, h2)"
  shows "snd (persist_incident_alert_event mv sha_text now' evt s2) = s2"
proof -
  from assms(1,2) obtain p i where p: "build_incident_alert_event mv sha_text now evt = Some p"
      and i: "upsert_incident_alert_event now i p s = (out, s1)"
    by (auto simp: persist_incident_alert_event_def split: option.splits)
  from i assms(2) have "ae_event_id p \<in> ae_event_id ` set (al_events s1)"
    by (auto simp: upsert_incident_alert_event_def split: list.splits if_splits)
  then have known: "ae_event_id p \<in> ae_event_id ` set (al_events s2)"
    using steps_ids [OF assms(3)] by auto
  from p obtain p' where p': "build_incident_alert_event mv sha_text now' evt = Some p'" "ae_event_id p' = ae_event_id p"
    by (auto simp: build_incident_alert_event_def Let_def split: if_splits option.splits)
  have "snd (upsert_incident_alert_event now' i' p' s2) = s2" for i'
    using known p'(2) by (auto simp: upsert_incident_alert_event_def split: list.splits)
  with p'(1) show ?thesis by (simp add: persist_incident_alert_event_def)
qed

section \<open>Acknowledged external alerts\<close>

lemma find_event_lookup:
  "unique_key ae_event_id (al_events s) \<Longrightarrow>
   find_event ws i s = (case lookup ae_event_id i (al_events s) of None \<Rightarrow> None | Some e \<Rightarrow> if ae_workspace_id e = ws then Some e else None)"
  using find_key_and [of ae_event_id "al_events s" i "\<lambda>e. ae_workspace_id e = ws"]
  by (simp add: find_event_def conj_commute)

lemma acknowledge_effect:
  assumes u: "unique_key ae_event_id (al_events s)"
    and e: "lookup ae_event_id i (al_events s) = Some e" "ae_workspace_id e = ws" "ae_status e = Firing"
    and step: "acknowledge_alert_event now ws i actor s = (res, s')"
  shows "res = Inr (Some (e\<lparr>ae_status := Acked, ae_acknowledged_at := Some now, ae_acknowledged_by := Some actor, ae_updated_at := now\<rparr>)) \<and>
    lookup ae_event_id i (al_events s') =
      Some (e\<lparr>ae_status := Acked, ae_acknowledged_at := Some now, ae_acknowledged_by := Some actor, ae_updated_at := now\<rparr>) \<and>
    unique_key ae_event_id (al_events s')"
proof -
  let ?ack = "\<lambda>e :: alert_event. e\<lparr>ae_status := Acked, ae_acknowledged_at := Some now, ae_acknowledged_by := Some actor, ae_updated_at := now\<rparr>"
  have k: "ae_event_id (?ack f) = ae_event_id f" for f by simp
  have id: "ae_event_id e = i" using lookup_Some_in [OF e(1)] by simp
  have found: "find_event ws i s = Some e" using e u by (simp add: find_event_lookup)
  then have res: "res = Inr (Some (?ack e))"
    and s': "al_events s' = update_where (\<lambda>f. ae_workspace_id f = ws \<and> ae_event_id f = i) ?ack (al_events s)"
    using step e(3) by (auto simp: acknowledge_alert_event_def Let_def)
  have "lookup ae_event_id i (al_events s') = Some (?ack e)"
    unfolding s' using e id
    by (subst lookup_update_where) simp_all
  moreover have "unique_key ae_event_id (al_events s')" unfolding s' by (rule unique_key_update_where [OF u k])
  ultimately show ?thesis using res by simp
qed

lemma external_repeat:
  assumes u: "unique_key ae_event_id (al_events s)"
    and e: "lookup ae_event_id (ae_event_id p) (al_events s) = Some e"
    and step: "upsert_external_alert_event now p s = (Inr row, s')"
  shows "lookup ae_event_id (ae_event_id p) (al_events s') = Some (external_update now p e) \<and>
    unique_key ae_event_id (al_events s')"
proof -
  have k: "ae_event_id (external_update now p f) = ae_event_id f" for f by (simp add: external_update_def Let_def)
  have id: "ae_event_id e = ae_event_id p" using lookup_Some_in [OF e] by simp
  have s': "al_events s' = update_where (\<lambda>f. ae_event_id f = ae_event_id p) (external_update now p) (al_events s)"
    using step e unfolding lookup_def
    by (auto simp: upsert_external_alert_event_def Let_def split: if_splits)
  show ?thesis
    unfolding s' using e id unique_key_update_where [OF u k]
    by (simp add: lookup_update_where [where key = ae_event_id and f = "external_update now p", OF k])
qed

text \<open>
  Alertmanager repeats a firing notification until the alert resolves. When an
  operator has acknowledged such an alert, the next repetition makes it firing again, with the
  acknowledgement of the operator still in the row; and a second operator who acknowledges it
  then replaces the first one, whom the ledger was to keep.
\<close>

theorem repeated_notification_undoes_acknowledgement:
  assumes "unique_key ae_event_id (al_events s)"
    and "lookup ae_event_id (ae_event_id p) (al_events s) = Some e" "ae_workspace_id e = ws" "ae_status e = Firing"
    and "ae_status p = Firing" "ae_workspace_id p = ws" "ae_incident_id p = None"
    and "acknowledge_alert_event t1 ws (ae_event_id p) operator1 s = (r1, s1)"
    and "upsert_external_alert_event t2 p s1 = (Inr row, s2)"
    and "acknowledge_alert_event t3 ws (ae_event_id p) operator2 s2 = (r3, s3)"
  shows "\<exists>e1 e2 e3. find_event ws (ae_event_id p) s1 = Some e1 \<and> ae_status e1 = Acked \<and>
      find_event ws (ae_event_id p) s2 = Some e2 \<and> ae_status e2 = Firing \<and> ae_acknowledged_by e2 = Some operator1 \<and>
      find_event ws (ae_event_id p) s3 = Some e3 \<and> ae_status e3 = Acked \<and> ae_acknowledged_by e3 = Some operator2"
proof -
  define e1 where "e1 = e\<lparr>ae_status := Acked, ae_acknowledged_at := Some t1, ae_acknowledged_by := Some operator1, ae_updated_at := t1\<rparr>"
  define e2 where "e2 = external_update t2 p e1"
  define e3 where "e3 = e2\<lparr>ae_status := Acked, ae_acknowledged_at := Some t3, ae_acknowledged_by := Some operator2, ae_updated_at := t3\<rparr>"
  have 1: "lookup ae_event_id (ae_event_id p) (al_events s1) = Some e1" "unique_key ae_event_id (al_events s1)"
    using acknowledge_effect [OF assms(1-4,8)] by (simp_all add: e1_def)
  then have 2: "lookup ae_event_id (ae_event_id p) (al_events s2) = Some e2" "unique_key ae_event_id (al_events s2)"
    using external_repeat [OF _ _ assms(9)] by (simp_all add: e2_def)
  have e2: "ae_workspace_id e2 = ws" "ae_status e2 = Firing" "ae_acknowledged_by e2 = Some operator1"
    using assms(5-7) by (simp_all add: e2_def e1_def external_update_def Let_def)
  have 3: "lookup ae_event_id (ae_event_id p) (al_events s3) = Some e3" "unique_key ae_event_id (al_events s3)"
    using acknowledge_effect [OF 2(2,1) e2(1,2) assms(10)] by (simp_all add: e3_def)
  have "find_event ws (ae_event_id p) s1 = Some e1" "find_event ws (ae_event_id p) s2 = Some e2"
      "find_event ws (ae_event_id p) s3 = Some e3"
    using 1 2 3 e2(1) assms(3) by (simp_all add: find_event_lookup e1_def e3_def)
  then show ?thesis using e2 by (intro exI [of _ e1] exI [of _ e2] exI [of _ e3]) (simp add: e1_def e3_def)
qed

section \<open>A concrete run\<close>

definition alert_demo_mv :: measure_env where
  "alert_demo_mv = \<lparr>mv_alert = \<lparr>av_digest = (\<lambda>d. ''target''), av_str = (\<lambda>j. ''x''),
       av_fromisoformat = (\<lambda>t. map_option (\<lambda>n. (seconds n, True)) (parse_int t))\<rparr>,
     mv_float = (\<lambda>t. map_option of_int (parse_int t)), mv_isoformat = (\<lambda>t. int_text (t div second_micros)),
     mv_fixed = (\<lambda>n q. int_text \<lfloor>q\<rfloor>)\<rparr>"


definition alert_demo_incident :: incident_detected where
  "alert_demo_incident = \<lparr>id_detected = True, id_workspace_id = ''w'', id_severity = None,
     id_incident = Some \<lparr>ir_incident_id = ''i'', ir_cluster_id = ''k'', ir_resource_kind = [], ir_resource_name = ''p'',
       ir_namespace = None, ir_symptom = ''crash'', ir_severity = ''high'', ir_first_seen_at = None, ir_summary = [],
       ir_category = None, ir_workspace_id = ''w''\<rparr>\<rparr>"

definition alert_demo_empty :: alert_db where
  "alert_demo_empty = \<lparr>al_rules = [], al_states = [], al_events = [], al_db = empty_db\<rparr>"

definition alert_demo_stored :: alert_db where
  "alert_demo_stored = snd (persist_incident_alert_event alert_demo_mv id 1 alert_demo_incident alert_demo_empty)"

theorem incident_alert_is_created_once_witness:
  "\<exists>s2. acknowledge_alert_event 2 ''w'' ''ale-inc-w|i|incident'' ''u'' alert_demo_stored = (Inr (find_event ''w'' ''ale-inc-w|i|incident'' s2), s2) \<and>
     snd (persist_incident_alert_event alert_demo_mv id 3 alert_demo_incident s2) = s2"
proof -
  define s2 where "s2 = snd (acknowledge_alert_event 2 ''w'' ''ale-inc-w|i|incident'' ''u'' alert_demo_stored)"
  have ack: "acknowledge_alert_event 2 ''w'' ''ale-inc-w|i|incident'' ''u'' alert_demo_stored =
      (Inr (find_event ''w'' ''ale-inc-w|i|incident'' s2), s2)"
    unfolding s2_def by code_simp
  have "persist_incident_alert_event alert_demo_mv id 1 alert_demo_incident alert_demo_empty =
      (fst (persist_incident_alert_event alert_demo_mv id 1 alert_demo_incident alert_demo_empty), alert_demo_stored)"
    by (simp add: alert_demo_stored_def)
  moreover have "al_events alert_demo_stored \<noteq> al_events alert_demo_empty" by code_simp
  moreover have "(alert_step (mv_alert alert_demo_mv))\<^sup>*\<^sup>* (alert_demo_stored, []) (s2, [])"
    using alert_step.acknowledged [OF ack] by blast
  ultimately have "snd (persist_incident_alert_event alert_demo_mv id 3 alert_demo_incident s2) = s2"
    by (rule incident_alert_is_created_once)
  with ack show ?thesis by blast
qed

definition alert_demo_external :: alert_event where
  "alert_demo_external =
     \<lparr>ae_event_id = ''x'', ae_workspace_id = ''w'', ae_rule_id = None, ae_rule_name = Some ''a'', ae_source = ''alertmanager'',
      ae_severity = ''high'', ae_subject_key = ''k'', ae_subject = [], ae_fired_at = 0, ae_resolved_at = None, ae_status = Firing,
      ae_observed_value = None, ae_threshold = None, ae_series_identity = None, ae_evidence = [], ae_incident_id = None,
      ae_acknowledged_at = None, ae_acknowledged_by = None, ae_promoted_at = None, ae_promoted_by = None, ae_updated_at = 0\<rparr>"

definition alert_demo_received :: alert_db where
  "alert_demo_received = snd (upsert_external_alert_event 0 alert_demo_external alert_demo_empty)"

definition alert_demo_acked :: alert_db where
  "alert_demo_acked = snd (acknowledge_alert_event 1 ''w'' ''x'' ''ann'' alert_demo_received)"

definition alert_demo_repeated :: alert_db where
  "alert_demo_repeated = snd (upsert_external_alert_event 2 alert_demo_external alert_demo_acked)"

theorem repeated_notification_undoes_acknowledgement_witness:
  "\<exists>e2. find_event ''w'' ''x'' alert_demo_repeated = Some e2 \<and> ae_status e2 = Firing \<and> ae_acknowledged_by e2 = Some ''ann''"
proof -
  have i: "ae_event_id alert_demo_external = ''x''" by (simp add: alert_demo_external_def)
  have "unique_key ae_event_id (al_events alert_demo_received)" by code_simp
  moreover have "lookup ae_event_id (ae_event_id alert_demo_external) (al_events alert_demo_received) = Some alert_demo_external"
    by code_simp
  moreover have "ae_workspace_id alert_demo_external = ''w''" "ae_status alert_demo_external = Firing"
      "ae_incident_id alert_demo_external = None" by (simp_all add: alert_demo_external_def)
  moreover have "acknowledge_alert_event 1 ''w'' (ae_event_id alert_demo_external) ''ann'' alert_demo_received =
      (fst (acknowledge_alert_event 1 ''w'' ''x'' ''ann'' alert_demo_received), alert_demo_acked)"
    by (simp add: alert_demo_acked_def i)
  moreover have "upsert_external_alert_event 2 alert_demo_external alert_demo_acked =
      (Inr (the (find_event ''w'' ''x'' alert_demo_repeated)), alert_demo_repeated)"
    unfolding alert_demo_repeated_def by code_simp
  moreover have "acknowledge_alert_event 3 ''w'' (ae_event_id alert_demo_external) ''bob'' alert_demo_repeated =
      (fst (acknowledge_alert_event 3 ''w'' ''x'' ''bob'' alert_demo_repeated), snd (acknowledge_alert_event 3 ''w'' ''x'' ''bob'' alert_demo_repeated))"
    by (simp add: i)
  ultimately show ?thesis
    using repeated_notification_undoes_acknowledgement [of alert_demo_received alert_demo_external alert_demo_external "''w''" 1 "''ann''"] i
    by metis
qed

end
