(* ===== verification/Agent_Control.thy ===== *)
theory Agent_Control
  imports Kyro_Prelude
begin

text \<open>
  How the agent of a cluster keeps its policy and its resources at the desired state: the local
  store (\<^verbatim>\<open>src/src/services/target/cluster-agent/control/store.py\<close>), the merge of policies
  (\<^verbatim>\<open>src/src/packages/contracts/gateway/policy_merge.py\<close>), the policy synchronisation
  (\<^verbatim>\<open>control/policy.py\<close>) and the reconciler (\<^verbatim>\<open>control/reconciler.py\<close>). The Kubernetes client, the
  management plane and the application of a policy to the running agent are arguments.
\<close>

section \<open>Policies\<close>

datatype resource_scope = TargetAgent | SystemScope | UserWorkload
datatype resource_kind = ConfigMap | Deployment
datatype resource_action = ObserveOnly | ApplyState

record desired_resource =
  dr_resource_id :: string
  dr_scope :: resource_scope
  dr_kind :: resource_kind
  dr_namespace :: string
  dr_name :: string
  dr_action :: resource_action
  dr_state :: jobj

datatype cluster_role = ManagementRole | TargetRole

record provider_policy =
  pp_enabled :: bool
  pp_interval_seconds :: int
  pp_min_workers :: int
  pp_max_workers :: int
  pp_queue_age_target_seconds :: int
  pp_queries :: "jobj list"
  pp_configuration_revision :: "string option"
  pp_configuration_operation_id :: "string option"

record evidence_runtime =
  ev_profile :: string
  ev_failure_policy :: string
  ev_max_attempts :: int
  ev_providers :: "(string \<times> provider_policy) list"

record agent_policy =
  ap_cluster_id :: string
  ap_generation :: int
  ap_cluster_role :: cluster_role
  ap_evidence :: evidence_runtime
  ap_bootstrap_mode :: cluster_role
  ap_bootstrap_resources :: "desired_resource list"
  ap_desired_resources :: "desired_resource list"
  ap_scheduling :: json

text \<open>An incoming policy with the fields it sets (\<^verbatim>\<open>model_fields_set\<close>); \<open>None\<close> is a field it leaves out.\<close>

record provider_patch =
  xp_enabled :: "bool option"
  xp_interval_seconds :: "int option"
  xp_min_workers :: "int option"
  xp_max_workers :: "int option"
  xp_queue_age_target_seconds :: "int option"
  xp_queries :: "jobj list option"
  xp_configuration_revision :: "string option option"
  xp_configuration_operation_id :: "string option option"

record evidence_patch =
  xe_failure_policy :: "string option"
  xe_max_attempts :: "int option"
  xe_providers :: "(string \<times> provider_patch) list option"

record policy_patch =
  xa_generation :: int
  xa_cluster_id :: "string option"
  xa_cluster_role :: "cluster_role option"
  xa_evidence :: "evidence_patch option"
  xa_bootstrap :: "(cluster_role \<times> desired_resource list) option"
  xa_desired_resources :: "desired_resource list option"
  xa_scheduling :: "json option"

section \<open>Merging\<close>

definition given :: "'a option \<Rightarrow> 'a \<Rightarrow> 'a" where
  "given new old = (case new of None \<Rightarrow> old | Some v \<Rightarrow> v)"

definition default_provider_policy :: provider_policy where
  "default_provider_policy =
     \<lparr>pp_enabled = True, pp_interval_seconds = 8, pp_min_workers = 1, pp_max_workers = 3,
      pp_queue_age_target_seconds = 15, pp_queries = [], pp_configuration_revision = None,
      pp_configuration_operation_id = None\<rparr>"

text \<open>\<^verbatim>\<open>require_complete_configuration_identity\<close>.\<close>

definition provider_policy_valid :: "provider_policy \<Rightarrow> bool" where
  "provider_policy_valid p \<longleftrightarrow> (pp_configuration_revision p = None) = (pp_configuration_operation_id p = None)"

definition merge_provider_policy :: "provider_policy \<Rightarrow> provider_patch \<Rightarrow> provider_policy option" where
  "merge_provider_policy base x =
     (let merged = \<lparr>pp_enabled = given (xp_enabled x) (pp_enabled base),
        pp_interval_seconds = given (xp_interval_seconds x) (pp_interval_seconds base),
        pp_min_workers = given (xp_min_workers x) (pp_min_workers base),
        pp_max_workers = given (xp_max_workers x) (pp_max_workers base),
        pp_queue_age_target_seconds = given (xp_queue_age_target_seconds x) (pp_queue_age_target_seconds base),
        pp_queries = given (xp_queries x) (pp_queries base),
        pp_configuration_revision = given (xp_configuration_revision x) (pp_configuration_revision base),
        pp_configuration_operation_id = given (xp_configuration_operation_id x) (pp_configuration_operation_id base)\<rparr>
      in if provider_policy_valid merged then Some merged else None)"

text \<open>\<open>providers[key] = value\<close>: the place of a known key is kept.\<close>

fun dict_set :: "string \<Rightarrow> 'v \<Rightarrow> (string \<times> 'v) list \<Rightarrow> (string \<times> 'v) list" where
  "dict_set k v [] = [(k, v)]"
| "dict_set k v ((k', v') # d) = (if k' = k then (k, v) # d else (k', v') # dict_set k v d)"

fun merge_providers ::
    "(string \<times> provider_policy) list \<Rightarrow> (string \<times> provider_patch) list \<Rightarrow> (string \<times> provider_policy) list
      \<Rightarrow> (string \<times> provider_policy) list option" where
  "merge_providers base [] acc = Some acc"
| "merge_providers base ((k, x) # xs) acc =
     (case merge_provider_policy (case map_of base k of None \<Rightarrow> default_provider_policy | Some p \<Rightarrow> p) x of
        None \<Rightarrow> None
      | Some p \<Rightarrow> merge_providers base xs (dict_set k p acc))"

definition merge_evidence_policy :: "evidence_runtime \<Rightarrow> evidence_patch \<Rightarrow> evidence_runtime option" where
  "merge_evidence_policy base x =
     (case (case xe_providers x of None \<Rightarrow> Some (ev_providers base)
                                 | Some xs \<Rightarrow> merge_providers (ev_providers base) xs (ev_providers base)) of
        None \<Rightarrow> None
      | Some providers \<Rightarrow>
          Some (base\<lparr>ev_failure_policy := given (xe_failure_policy x) (ev_failure_policy base),
                     ev_max_attempts := given (xe_max_attempts x) (ev_max_attempts base),
                     ev_providers := providers\<rparr>))"

definition merge_agent_policy :: "agent_policy \<Rightarrow> policy_patch \<Rightarrow> agent_policy option" where
  "merge_agent_policy base x =
     (case (case xa_evidence x of None \<Rightarrow> Some (ap_evidence base) | Some e \<Rightarrow> merge_evidence_policy (ap_evidence base) e) of
        None \<Rightarrow> None
      | Some evidence \<Rightarrow>
          Some \<lparr>ap_cluster_id = given (xa_cluster_id x) (ap_cluster_id base), ap_generation = xa_generation x,
                ap_cluster_role = given (xa_cluster_role x) (ap_cluster_role base), ap_evidence = evidence,
                ap_bootstrap_mode = (case xa_bootstrap x of None \<Rightarrow> ap_bootstrap_mode base | Some (m, _) \<Rightarrow> m),
                ap_bootstrap_resources = (case xa_bootstrap x of None \<Rightarrow> ap_bootstrap_resources base | Some (_, rs) \<Rightarrow> rs),
                ap_desired_resources = given (xa_desired_resources x) (ap_desired_resources base),
                ap_scheduling = given (xa_scheduling x) (ap_scheduling base)\<rparr>)"

section \<open>The local store\<close>

record agent_policy_row =
  pr_policy_id :: string
  pr_generation :: int
  pr_payload :: agent_policy
  pr_updated_at :: time

datatype reconcile_status = ReconcileApplied | ReconcileUnchanged | ReconcileFailed

record reconcile_result =
  rs_resource_id :: string
  rs_scope :: resource_scope
  rs_kind :: resource_kind
  rs_namespace :: string
  rs_name :: string
  rs_desired_hash :: string
  rs_status :: reconcile_status
  rs_message :: string

record control_store =
  cs_policies :: "agent_policy_row list"
  cs_resources :: "reconcile_result list"
  cs_settings :: "(string \<times> string) list"

definition ACTIVE_POLICY_ID :: string where "ACTIVE_POLICY_ID = ''active''"
definition PENDING_RECONCILE_POLICY_ID :: string where "PENDING_RECONCILE_POLICY_ID = ''pending-reconcile''"

text \<open>\<open>INSERT ... ON CONFLICT (policy_id) DO UPDATE\<close>.\<close>

definition put_policy :: "time \<Rightarrow> string \<Rightarrow> agent_policy \<Rightarrow> agent_policy_row list \<Rightarrow> agent_policy_row list" where
  "put_policy now i p rows =
     (let row = \<lparr>pr_policy_id = i, pr_generation = ap_generation p, pr_payload = p, pr_updated_at = now\<rparr> in
      if i \<in> pr_policy_id ` set rows then update_where (\<lambda>r. pr_policy_id r = i) (\<lambda>_. row) rows else rows @ [row])"

definition save_policy :: "time \<Rightarrow> agent_policy \<Rightarrow> control_store \<Rightarrow> control_store" where
  "save_policy now p s =
     s\<lparr>cs_policies := delete_where
         (\<lambda>r. pr_policy_id r = PENDING_RECONCILE_POLICY_ID \<and> pr_generation r \<le> ap_generation p)
         (put_policy now ACTIVE_POLICY_ID p (cs_policies s))\<rparr>"

definition save_pending_reconcile_policy :: "time \<Rightarrow> agent_policy \<Rightarrow> control_store \<Rightarrow> bool \<times> control_store" where
  "save_pending_reconcile_policy now p s =
     (case lookup pr_policy_id PENDING_RECONCILE_POLICY_ID (cs_policies s) of
        Some old \<Rightarrow>
          if pr_generation old \<le> ap_generation p
          then (True, s\<lparr>cs_policies := put_policy now PENDING_RECONCILE_POLICY_ID p (cs_policies s)\<rparr>)
          else (False, s)
      | None \<Rightarrow> (True, s\<lparr>cs_policies := put_policy now PENDING_RECONCILE_POLICY_ID p (cs_policies s)\<rparr>))"

definition stored_policy :: "string \<Rightarrow> control_store \<Rightarrow> agent_policy option" where
  "stored_policy i s = map_option pr_payload (lookup pr_policy_id i (cs_policies s))"

definition load_policy :: "control_store \<Rightarrow> agent_policy option" where
  "load_policy s = stored_policy ACTIVE_POLICY_ID s"

definition load_pending_reconcile_policy :: "control_store \<Rightarrow> agent_policy option" where
  "load_pending_reconcile_policy s = stored_policy PENDING_RECONCILE_POLICY_ID s"

definition load_reconcile_policy :: "control_store \<Rightarrow> agent_policy option" where
  "load_reconcile_policy s =
     (case load_pending_reconcile_policy s of
        Some p \<Rightarrow> (case load_policy s of
                     None \<Rightarrow> Some p
                   | Some a \<Rightarrow> if ap_generation a < ap_generation p then Some p else Some a)
      | None \<Rightarrow> load_policy s)"

definition active_generation :: "control_store \<Rightarrow> int" where
  "active_generation s =
     (case lookup pr_policy_id ACTIVE_POLICY_ID (cs_policies s) of None \<Rightarrow> 0 | Some r \<Rightarrow> pr_generation r)"

definition last_successful_resource_hash :: "string \<Rightarrow> control_store \<Rightarrow> string option" where
  "last_successful_resource_hash i s =
     (case lookup rs_resource_id i (cs_resources s) of
        None \<Rightarrow> None
      | Some r \<Rightarrow> if rs_status r \<in> {ReconcileApplied, ReconcileUnchanged} then Some (rs_desired_hash r) else None)"

definition save_reconcile_result :: "reconcile_result \<Rightarrow> control_store \<Rightarrow> control_store" where
  "save_reconcile_result r s =
     s\<lparr>cs_resources :=
         (if rs_resource_id r \<in> rs_resource_id ` set (cs_resources s)
          then update_where (\<lambda>o'. rs_resource_id o' = rs_resource_id r) (\<lambda>_. r) (cs_resources s)
          else cs_resources s @ [r])\<rparr>"

definition save_runtime_setting :: "string \<Rightarrow> string \<Rightarrow> control_store \<Rightarrow> control_store option" where
  "save_runtime_setting key v s =
     (if py_strip key = [] \<or> py_strip v = [] then None
      else Some (s\<lparr>cs_settings := dict_set (py_strip key) (py_strip v) (cs_settings s)\<rparr>))"

definition load_runtime_setting :: "string \<Rightarrow> control_store \<Rightarrow> string option" where
  "load_runtime_setting key s = map_of (cs_settings s) (py_strip key)"

section \<open>What the agent may reconcile\<close>

definition image_name_char :: "char \<Rightarrow> bool" where
  "image_name_char c = (let n = (of_char c :: nat) in
     (48 \<le> n \<and> n \<le> 57) \<or> (65 \<le> n \<and> n \<le> 90) \<or> (97 \<le> n \<and> n \<le> 122) \<or> c \<in> {CHR ''.'', CHR ''_'', CHR '':'', CHR ''/'', CHR ''-''})"

definition hex_char :: "char \<Rightarrow> bool" where
  "hex_char c = (let n = (of_char c :: nat) in (48 \<le> n \<and> n \<le> 57) \<or> (97 \<le> n \<and> n \<le> 102))"

text \<open>\<^verbatim>\<open>[A-Za-z0-9._:/-]+@sha256:[0-9a-f]{64}\<close>, in full: the name has no at sign, so the first one splits.\<close>

definition target_image_digest_pattern :: "string \<Rightarrow> bool" where
  "target_image_digest_pattern v =
     (let name = takeWhile image_name_char v; rest = drop (length name) v in
      name \<noteq> [] \<and> take 8 rest = ''@sha256:'' \<and> length rest = 72 \<and> list_all hex_char (drop 8 rest))"

definition require_target_image_digest :: "string \<Rightarrow> string option" where
  "require_target_image_digest img =
     (if target_image_digest_pattern (py_strip img) then Some (py_strip img) else None)"

definition TARGET_RUNTIME_CONFIG_NAME :: string where "TARGET_RUNTIME_CONFIG_NAME = ''target-runtime-config''"

definition runtime_metadata :: "json option \<Rightarrow> bool" where
  "runtime_metadata v =
     (case v of
        Some (JObj d) \<Rightarrow> set (map fst d) = {''name'', ''namespace''} \<and>
          jget d ''name'' = Some (JStr TARGET_RUNTIME_CONFIG_NAME) \<and> jget d ''namespace'' = Some (JStr ''target'')
      | _ \<Rightarrow> False)"

text \<open>The text of the exception, or nothing. \<open>render\<close> is the text Python gives containers and floats.\<close>

definition ensure_runtime_image_patch :: "(json \<Rightarrow> string) \<Rightarrow> desired_resource \<Rightarrow> string option" where
  "ensure_runtime_image_patch render r =
     (let state = dr_state r in
      if \<not> (jget state ''apiVersion'' = Some (JStr ''v1'') \<and> jget state ''kind'' = Some (JStr ''ConfigMap'') \<and>
             runtime_metadata (jget state ''metadata''))
      then Some ''target runtime config patch identity is invalid''
      else if set (map fst state) \<noteq> {''apiVersion'', ''kind'', ''metadata'', ''data''}
      then Some ''target runtime config patch fields are not allowed''
      else
        case jget state ''data'' of
          Some (JObj data) \<Rightarrow>
            (case (if set (map fst data) = {''TARGET_AGENT_IMAGE'', ''NODE_COLLECTOR_IMAGE''}
                   then (jget data ''TARGET_AGENT_IMAGE'', jget data ''NODE_COLLECTOR_IMAGE'') else (None, None)) of
               (Some a, Some b) \<Rightarrow>
                 (case (require_target_image_digest (py_str render a), require_target_image_digest (py_str render b)) of
                    (Some ia, Some ib) \<Rightarrow> if ia \<noteq> ib then Some ''target runtime images must use one exact digest'' else None
                  | _ \<Rightarrow> Some ''target image must use an immutable sha256 digest'')
             | _ \<Rightarrow> Some ''target runtime config patch is image-leaf scoped'')
        | _ \<Rightarrow> Some ''target runtime config patch is image-leaf scoped'')"

definition role_text :: "cluster_role \<Rightarrow> string" where
  "role_text role = (case role of ManagementRole \<Rightarrow> ''management'' | TargetRole \<Rightarrow> ''target'')"

definition ensure_allowed :: "(json \<Rightarrow> string) \<Rightarrow> cluster_role \<Rightarrow> desired_resource \<Rightarrow> string option" where
  "ensure_allowed render role r =
     (if dr_scope r = UserWorkload then Some ''user workload reconciliation is not enabled''
      else if dr_namespace r \<noteq> (case role of ManagementRole \<Rightarrow> ''management'' | TargetRole \<Rightarrow> ''target'')
      then Some (role_text role @ '' agent cannot reconcile namespace '' @ dr_namespace r)
      else
        case (if dr_kind r = ConfigMap then
                (if dr_name r \<notin> {''target-agent-policy'', TARGET_RUNTIME_CONFIG_NAME}
                 then Some ''target-agent configmap control is name-scoped''
                 else if dr_name r = TARGET_RUNTIME_CONFIG_NAME then ensure_runtime_image_patch render r
                 else None)
              else None) of
          Some e \<Rightarrow> Some e
        | None \<Rightarrow>
            if dr_scope r = TargetAgent \<and> dr_kind r = Deployment \<and> dr_name r \<noteq> ''cluster-agent''
            then Some ''target-agent deployment control is name-scoped''
            else if dr_scope r = SystemScope \<and> dr_kind r = Deployment
            then Some ''system deployment reconciliation is not enabled''
            else None)"

section \<open>The reconciler\<close>

datatype reconciler_mode = BuiltinMode | ArgocdMode

text \<open>
  The cluster as the reconciler drives it. \<open>k\<close> is whatever state the cluster has: \<open>kc_observe\<close>
  reads a resource and \<open>kc_apply\<close> writes it, possibly in part when it fails; \<open>Some e\<close> is an
  exception with the text \<open>e\<close>. \<open>kc_digest\<close> is the SHA-256 of the canonical text of a resource.
\<close>

record 'k cluster_client =
  kc_observe :: "desired_resource \<Rightarrow> 'k \<Rightarrow> string option"
  kc_apply :: "desired_resource \<Rightarrow> 'k \<Rightarrow> string option \<times> 'k"
  kc_digest :: "desired_resource \<Rightarrow> string"
  kc_render :: "json \<Rightarrow> string"

definition reconcile_result_of :: "desired_resource \<Rightarrow> string \<Rightarrow> reconcile_status \<Rightarrow> string \<Rightarrow> reconcile_result" where
  "reconcile_result_of r desired_hash status message =
     \<lparr>rs_resource_id = dr_resource_id r, rs_scope = dr_scope r, rs_kind = dr_kind r, rs_namespace = dr_namespace r,
      rs_name = dr_name r, rs_desired_hash = desired_hash, rs_status = status, rs_message = message\<rparr>"

definition reconcile_resource ::
    "'k cluster_client \<Rightarrow> cluster_role \<Rightarrow> reconciler_mode \<Rightarrow> desired_resource \<Rightarrow> control_store \<times> 'k
      \<Rightarrow> reconcile_result \<times> control_store \<times> 'k" where
  "reconcile_resource kc role mode r st =
     (case st of (s, k) \<Rightarrow>
       let h = kc_digest kc r;
           done = (\<lambda>status message k'. let res = reconcile_result_of r h status message in
                     (res, save_reconcile_result res s, k'));
           observed = (\<lambda>message. case kc_observe kc r k of
                         Some e \<Rightarrow> done ReconcileFailed e k
                       | None \<Rightarrow> done ReconcileUnchanged message k) in
       case ensure_allowed (kc_render kc) role r of
         Some e \<Rightarrow> done ReconcileFailed e k
       | None \<Rightarrow>
           if dr_action r = ApplyState \<and> mode = ArgocdMode then observed ''observed (argocd single-writer mode)''
           else if dr_action r = ApplyState \<and> last_successful_resource_hash (dr_resource_id r) s = Some h
           then done ReconcileUnchanged ''already applied'' k
           else if dr_action r = ApplyState then
             (case kc_apply kc r k of
                (Some e, k') \<Rightarrow> done ReconcileFailed e k'
              | (None, k') \<Rightarrow> done ReconcileApplied ''applied'' k')
           else observed ''observed'')"

text \<open>The loop stops at the first failure.\<close>

fun reconcile_resources ::
    "'k cluster_client \<Rightarrow> cluster_role \<Rightarrow> reconciler_mode \<Rightarrow> desired_resource list \<Rightarrow> reconcile_status
      \<Rightarrow> control_store \<times> 'k \<Rightarrow> reconcile_status \<times> reconcile_result list \<times> control_store \<times> 'k" where
  "reconcile_resources kc role mode [] status st = (status, [], st)"
| "reconcile_resources kc role mode (r # rs) status st =
     (case reconcile_resource kc role mode r st of
        (res, st') \<Rightarrow>
          if rs_status res = ReconcileFailed then (ReconcileFailed, [res], st')
          else
            case reconcile_resources kc role mode rs
                   (if rs_status res = ReconcileApplied then ReconcileApplied else status) st' of
              (final, results, st'') \<Rightarrow> (final, res # results, st''))"

definition policy_resources :: "agent_policy \<Rightarrow> desired_resource list" where
  "policy_resources p = ap_bootstrap_resources p @ ap_desired_resources p"

text \<open>
  \<open>argo\<close> is the observation of Argo CD: \<open>None\<close> when there is no observer, otherwise whether its
  applications were available.
\<close>

definition reconcile_once ::
    "'k cluster_client \<Rightarrow> cluster_role \<Rightarrow> reconciler_mode \<Rightarrow> bool option \<Rightarrow> agent_policy option \<Rightarrow> control_store \<times> 'k
      \<Rightarrow> (int \<times> reconcile_status \<times> reconcile_result list) \<times> control_store \<times> 'k" where
  "reconcile_once kc role mode argo policy st =
     (case (case policy of Some p \<Rightarrow> Some p | None \<Rightarrow> load_reconcile_policy (fst st)) of
        None \<Rightarrow> ((0, ReconcileUnchanged, []), st)
      | Some p \<Rightarrow>
          (case reconcile_resources kc role mode (policy_resources p) ReconcileUnchanged st of
             (status, results, st') \<Rightarrow>
               ((ap_generation p,
                 (if mode = ArgocdMode \<and> argo = Some False then ReconcileFailed else status), results), st')))"

section \<open>Synchronising the policy\<close>

definition target_agent_deployment :: "agent_policy \<Rightarrow> desired_resource option" where
  "target_agent_deployment p =
     find (\<lambda>r. dr_scope r = TargetAgent \<and> dr_kind r = Deployment \<and> dr_name r = ''cluster-agent'' \<and> dr_action r = ApplyState)
       (ap_bootstrap_resources p @ ap_desired_resources p)"

definition self_upgrade_handoff_policy :: "agent_policy \<Rightarrow> agent_policy \<Rightarrow> desired_resource \<Rightarrow> agent_policy" where
  "self_upgrade_handoff_policy active candidate deployment =
     active\<lparr>ap_generation := ap_generation candidate, ap_bootstrap_mode := ap_bootstrap_mode candidate,
            ap_bootstrap_resources := filter (\<lambda>r. dr_scope r = TargetAgent \<and> dr_kind r = ConfigMap \<and>
              dr_name r = TARGET_RUNTIME_CONFIG_NAME \<and> dr_action r = ApplyState) (ap_bootstrap_resources candidate),
            ap_desired_resources := [deployment]\<rparr>"

text \<open>
  What the synchronisation reads from outside: the digest of a resource, whether the runtime
  configuration and the policy could be applied to the running agent, and whether the two
  reports it may send arrive.
\<close>

record sync_env =
  se_cluster_id :: string
  se_digest :: "desired_resource \<Rightarrow> string"
  se_default_policy :: agent_policy
  se_runtime_ok :: "agent_policy \<Rightarrow> bool"
  se_apply_ok :: "agent_policy \<Rightarrow> bool"
  se_report_ok :: bool
  se_failure_report_ok :: bool

definition stage_desired_state_handoff ::
    "sync_env \<Rightarrow> time \<Rightarrow> agent_policy \<Rightarrow> agent_policy option \<Rightarrow> control_store \<Rightarrow> (int \<times> string) option \<times> control_store" where
  "stage_desired_state_handoff se now active candidate s =
     (case candidate of
        None \<Rightarrow> (None, s)
      | Some c \<Rightarrow>
          if ap_generation c \<le> active_generation s \<or> ap_cluster_id c \<noteq> se_cluster_id se \<or>
             ap_cluster_role c \<noteq> ap_cluster_role active then (None, s)
          else
            case target_agent_deployment c of
              None \<Rightarrow> (None, s)
            | Some d \<Rightarrow>
                if (case target_agent_deployment active of None \<Rightarrow> False | Some a \<Rightarrow> se_digest se a = se_digest se d)
                then (None, s)
                else
                  case save_pending_reconcile_policy now (self_upgrade_handoff_policy active c d) s of
                    (False, s') \<Rightarrow> (None, s')
                  | (True, s') \<Rightarrow> (Some (ap_generation c, dr_resource_id d), s'))"

datatype sync_outcome = SyncUnchanged | SyncApplied | SyncFailed | SyncRaised

definition active_or_default :: "sync_env \<Rightarrow> control_store \<Rightarrow> agent_policy" where
  "active_or_default se s = (case load_policy s of None \<Rightarrow> se_default_policy se | Some p \<Rightarrow> p)"

definition sync_failed ::
    "sync_env \<Rightarrow> time \<Rightarrow> agent_policy \<Rightarrow> agent_policy option \<Rightarrow> control_store \<Rightarrow> sync_outcome \<times> control_store" where
  "sync_failed se now active candidate s =
     ((if se_failure_report_ok se then SyncFailed else SyncRaised), snd (stage_desired_state_handoff se now active candidate s))"

text \<open>\<open>fetched\<close>: nothing new, or a payload; \<open>Some None\<close> is a payload that is no valid policy.\<close>

definition sync_once :: "sync_env \<Rightarrow> time \<Rightarrow> policy_patch option option \<Rightarrow> control_store \<Rightarrow> sync_outcome \<times> control_store" where
  "sync_once se now fetched s =
     (let active = active_or_default se s in
      case fetched of
        None \<Rightarrow>
          ((if se_runtime_ok se active \<and> se_report_ok se then SyncUnchanged
            else if se_failure_report_ok se then SyncFailed else SyncRaised), s)
      | Some payload \<Rightarrow>
          (case Option.bind payload (merge_agent_policy active) of
             None \<Rightarrow> sync_failed se now active None s
           | Some p \<Rightarrow>
               if se_runtime_ok se p \<and> se_apply_ok se p
               then (if se_report_ok se then (SyncApplied, save_policy now p s)
                     else sync_failed se now active (Some p) (save_policy now p s))
               else sync_failed se now active (Some p) s))"

text \<open>At start-up the stored policy, seen as setting every field, is merged over the default.\<close>

definition full_provider_patch :: "provider_policy \<Rightarrow> provider_patch" where
  "full_provider_patch p =
     \<lparr>xp_enabled = Some (pp_enabled p), xp_interval_seconds = Some (pp_interval_seconds p),
      xp_min_workers = Some (pp_min_workers p), xp_max_workers = Some (pp_max_workers p),
      xp_queue_age_target_seconds = Some (pp_queue_age_target_seconds p), xp_queries = Some (pp_queries p),
      xp_configuration_revision = Some (pp_configuration_revision p),
      xp_configuration_operation_id = Some (pp_configuration_operation_id p)\<rparr>"

definition full_patch :: "agent_policy \<Rightarrow> policy_patch" where
  "full_patch p =
     \<lparr>xa_generation = ap_generation p, xa_cluster_id = Some (ap_cluster_id p), xa_cluster_role = Some (ap_cluster_role p),
      xa_evidence = Some \<lparr>xe_failure_policy = Some (ev_failure_policy (ap_evidence p)),
         xe_max_attempts = Some (ev_max_attempts (ap_evidence p)),
         xe_providers = Some (map (map_prod id full_provider_patch) (ev_providers (ap_evidence p)))\<rparr>,
      xa_bootstrap = Some (ap_bootstrap_mode p, ap_bootstrap_resources p),
      xa_desired_resources = Some (ap_desired_resources p), xa_scheduling = Some (ap_scheduling p)\<rparr>"

definition apply_stored_or_default :: "sync_env \<Rightarrow> time \<Rightarrow> control_store \<Rightarrow> control_store option" where
  "apply_stored_or_default se now s =
     (case (case load_policy s of None \<Rightarrow> Some (se_default_policy se)
                                | Some p \<Rightarrow> merge_agent_policy (se_default_policy se) (full_patch p)) of
        None \<Rightarrow> None
      | Some p \<Rightarrow> if se_apply_ok se p then Some (save_policy now p s) else None)"

end
