(* ===== verification/Agent_Reconcile.thy ===== *)
theory Agent_Reconcile
  imports Agent_Control
begin

text \<open>
  What the reconciler of the agent may write, that it comes to rest, how its policy changes, and
  two ways in which it leaves the desired state: resources that were only observed count as
  applied, and a staged self-upgrade outlives the policy that takes it back.
\<close>

section \<open>Writes\<close>

text \<open>A client that records what it is told to write next to the state of the cluster.\<close>

definition recording :: "'k cluster_client \<Rightarrow> ('k \<times> desired_resource list) cluster_client" where
  "recording kc =
     \<lparr>kc_observe = (\<lambda>r (k, lg). kc_observe kc r k),
      kc_apply = (\<lambda>r (k, lg). case kc_apply kc r k of (e, k') \<Rightarrow> (e, (k', lg @ [r]))),
      kc_digest = kc_digest kc, kc_render = kc_render kc\<rparr>"

text \<open>
  The resources an agent of a role may write at all: two named config maps and its own
  deployment, in the namespace of its role.
\<close>

definition writable :: "cluster_role \<Rightarrow> desired_resource \<Rightarrow> bool" where
  "writable role r \<longleftrightarrow> dr_action r = ApplyState \<and> dr_namespace r = role_text role \<and>
     (case dr_kind r of
        ConfigMap \<Rightarrow> dr_scope r \<noteq> UserWorkload \<and> dr_name r \<in> {''target-agent-policy'', TARGET_RUNTIME_CONFIG_NAME}
      | Deployment \<Rightarrow> dr_scope r = TargetAgent \<and> dr_name r = ''cluster-agent'')"

lemma ensure_allowed_writable:
  "ensure_allowed render role r = None \<Longrightarrow> dr_action r = ApplyState \<Longrightarrow> writable role r"
  by (cases "dr_kind r"; cases "dr_scope r"; cases role)
    (auto simp: ensure_allowed_def writable_def role_text_def split: if_splits option.splits)

lemma allowed_runtime_patch:
  "ensure_allowed render role r = None \<Longrightarrow> dr_kind r = ConfigMap \<Longrightarrow> dr_name r = TARGET_RUNTIME_CONFIG_NAME \<Longrightarrow>
   ensure_runtime_image_patch render r = None"
  by (auto simp: ensure_allowed_def TARGET_RUNTIME_CONFIG_NAME_def split: if_splits option.splits)

definition lawful_write :: "'k cluster_client \<Rightarrow> cluster_role \<Rightarrow> reconciler_mode \<Rightarrow> desired_resource \<Rightarrow> bool" where
  "lawful_write kc role mode r \<longleftrightarrow> mode = BuiltinMode \<and> ensure_allowed (kc_render kc) role r = None \<and> dr_action r = ApplyState"

text \<open>The outcomes of one resource.\<close>

lemma reconcile_resource_cases:
  assumes "reconcile_resource kc role mode r (s, k) = (res, s', k')"
  obtains
    (refused) e where "ensure_allowed (kc_render kc) role r = Some e" "k' = k" "rs_status res = ReconcileFailed"
  | (written) e where "lawful_write kc role mode r" "kc_apply kc r k = (e, k')"
      "last_successful_resource_hash (dr_resource_id r) s \<noteq> Some (kc_digest kc r)"
      "rs_status res = (if e = None then ReconcileApplied else ReconcileFailed)"
  | (known) "lawful_write kc role mode r" "k' = k" "rs_status res = ReconcileUnchanged"
      "last_successful_resource_hash (dr_resource_id r) s = Some (kc_digest kc r)"
  | (read_only) "ensure_allowed (kc_render kc) role r = None" "k' = k" "dr_action r = ObserveOnly \<or> mode = ArgocdMode"
      "rs_status res = (if kc_observe kc r k = None then ReconcileUnchanged else ReconcileFailed)"
proof (cases "ensure_allowed (kc_render kc) role r")
  case (Some e)
  show ?thesis by (rule refused) (use assms Some in \<open>auto simp: reconcile_resource_def reconcile_result_of_def Let_def\<close>)
next
  case None
  show ?thesis
  proof (cases "dr_action r = ApplyState \<and> mode \<noteq> ArgocdMode")
    case True
    then have law: "lawful_write kc role mode r" using None by (cases mode) (auto simp: lawful_write_def)
    show ?thesis
    proof (cases "last_successful_resource_hash (dr_resource_id r) s = Some (kc_digest kc r)")
      case known': True
      show ?thesis by (rule known [OF law])
        (use assms None True known' in \<open>auto simp: reconcile_resource_def reconcile_result_of_def Let_def\<close>)
    next
      case False
      obtain e k1 where step: "kc_apply kc r k = (e, k1)" by fastforce
      show ?thesis by (rule written [OF law, of e])
        (use assms None True False step in \<open>auto simp: reconcile_resource_def reconcile_result_of_def Let_def split: option.splits\<close>)
    qed
  next
    case False
    consider "dr_action r = ObserveOnly" | "dr_action r = ApplyState" "mode = ArgocdMode"
      using False by (cases "dr_action r") auto
    then show ?thesis
      by cases (use None assms in \<open>auto simp: reconcile_resource_def reconcile_result_of_def Let_def
        split: option.splits intro!: read_only [OF None]\<close>)
  qed
qed

lemma reconcile_resource_store:
  assumes "reconcile_resource kc role mode r (s, k) = (res, s', k')"
  shows "s' = save_reconcile_result res s" "rs_resource_id res = dr_resource_id r" "rs_desired_hash res = kc_digest kc r"
  using assms by (auto simp: reconcile_resource_def reconcile_result_of_def Let_def split: option.splits if_splits prod.splits)

lemma reconcile_resource_log:
  assumes "reconcile_resource (recording kc) role mode r (s, (k, lg)) = (res, s', (k', lg'))"
  shows "lg' = lg \<or> (lg' = lg @ [r] \<and> lawful_write (recording kc) role mode r)"
proof (cases rule: reconcile_resource_cases [OF assms])
  case (2 e)
  then show ?thesis by (auto simp: recording_def split: prod.splits)
qed auto

lemma reconcile_resources_log:
  assumes "reconcile_resources (recording kc) role mode rs status (s, (k, lg)) = (final, results, s', (k', lg'))"
  shows "\<exists>ws. lg' = lg @ ws \<and> list_all (lawful_write (recording kc) role mode) ws \<and> subseq ws rs"
  using assms
proof (induction rs arbitrary: status s k lg results)
  case (Cons r rs)
  obtain res s1 k1 lg1 where step: "reconcile_resource (recording kc) role mode r (s, (k, lg)) = (res, s1, (k1, lg1))"
    by (metis prod_cases3 surj_pair)
  from reconcile_resource_log [OF step] have one: "\<exists>ws. lg1 = lg @ ws \<and> list_all (lawful_write (recording kc) role mode) ws \<and> (ws = [] \<or> ws = [r])"
    by auto
  show ?case
  proof (cases "rs_status res = ReconcileFailed")
    case True
    with Cons.prems step have "lg' = lg1" by simp
    with one show ?thesis by auto
  next
    case False
    obtain f2 rs2 s2 k2 lg2 where rest: "reconcile_resources (recording kc) role mode rs
        (if rs_status res = ReconcileApplied then ReconcileApplied else status) (s1, (k1, lg1)) = (f2, rs2, s2, (k2, lg2))"
      by (metis prod_cases5)
    with Cons.prems step False have out: "final = f2" "s' = s2" "k' = k2" "lg' = lg2" by auto
    from Cons.IH rest out obtain ws where "lg' = lg1 @ ws" "list_all (lawful_write (recording kc) role mode) ws" "subseq ws rs"
      by blast
    with one show ?thesis by fastforce
  qed
qed simp

lemma reconcile_resources_frame:
  assumes "reconcile_resources (recording kc) role mode rs status (s, (k, lg)) = (final, results, s', (k', lg))"
  shows "k' = k"
  using assms
proof (induction rs arbitrary: status s k lg results)
  case (Cons r rs)
  obtain res s1 k1 lg1 where step: "reconcile_resource (recording kc) role mode r (s, (k, lg)) = (res, s1, (k1, lg1))"
    by (metis prod_cases3 surj_pair)
  have same: "k1 = k" if "lg1 = lg"
    using that by (cases rule: reconcile_resource_cases [OF step]) (auto simp: recording_def split: prod.splits)
  show ?case
  proof (cases "rs_status res = ReconcileFailed")
    case True
    with Cons.prems step same show ?thesis by simp
  next
    case False
    obtain f2 rs2 s2 k2 lg2 where rest: "reconcile_resources (recording kc) role mode rs
        (if rs_status res = ReconcileApplied then ReconcileApplied else status) (s1, (k1, lg1)) = (f2, rs2, s2, (k2, lg2))"
      by (metis prod_cases5)
    with Cons.prems step False have out: "k' = k2" "lg2 = lg" "final = f2" "s' = s2" by auto
    obtain w where "lg2 = lg1 @ w" using reconcile_resources_log [OF rest] by blast
    moreover obtain v where "lg1 = lg @ v" using reconcile_resource_log [OF step] by fastforce
    ultimately have "lg1 = lg" using out(2) by auto
    with same Cons.IH rest out show ?thesis by simp
  qed
qed simp

text \<open>
  Claim C18. Whatever the policy, the store and the cluster, one cycle of the reconciler
  writes only resources of the policy, in their order, that the agent's role may write: the two
  named config maps and the agent's own deployment, in the namespace of the role, a runtime
  config only with one pinned image digest for both components. Under Argo CD it writes nothing,
  and a cycle that writes nothing leaves the cluster unchanged.
\<close>

theorem reconciler_writes_only_its_own:
  assumes "reconcile_once (recording kc) role mode argo policy (s, (k, [])) = (out, s', (k', lg))"
  shows "list_all (writable role) lg \<and>
    list_all (\<lambda>r. dr_kind r = ConfigMap \<and> dr_name r = TARGET_RUNTIME_CONFIG_NAME \<longrightarrow>
      ensure_runtime_image_patch (kc_render kc) r = None) lg \<and>
    (mode = ArgocdMode \<longrightarrow> lg = []) \<and> (lg = [] \<longrightarrow> k' = k) \<and>
    subseq lg (case (case policy of Some p \<Rightarrow> Some p | None \<Rightarrow> load_reconcile_policy s) of
        None \<Rightarrow> [] | Some p \<Rightarrow> policy_resources p)"
proof (cases "case policy of Some p \<Rightarrow> Some p | None \<Rightarrow> load_reconcile_policy s")
  case None
  with assms show ?thesis by (auto simp: reconcile_once_def split: option.splits)
next
  case (Some p)
  obtain status results where run: "reconcile_resources (recording kc) role mode (policy_resources p) ReconcileUnchanged (s, (k, []))
      = (status, results, s', (k', lg))"
    using assms Some by (auto simp: reconcile_once_def split: prod.splits option.splits)
  from reconcile_resources_log [OF run] have law: "list_all (lawful_write (recording kc) role mode) lg" "subseq lg (policy_resources p)"
    by auto
  have "kc_render (recording kc) = kc_render kc" by (simp add: recording_def)
  with law(1) have "list_all (writable role) lg"
    "list_all (\<lambda>r. dr_kind r = ConfigMap \<and> dr_name r = TARGET_RUNTIME_CONFIG_NAME \<longrightarrow>
      ensure_runtime_image_patch (kc_render kc) r = None) lg" "mode = ArgocdMode \<longrightarrow> lg = []"
    by (auto simp: list_all_iff lawful_write_def intro: ensure_allowed_writable allowed_runtime_patch)
  moreover have "lg = [] \<longrightarrow> k' = k" using run by (auto dest: reconcile_resources_frame)
  ultimately show ?thesis using law(2) Some by simp
qed

section \<open>Rest\<close>

lemma last_hash_save:
  "last_successful_resource_hash i (save_reconcile_result res s) =
     (if i = rs_resource_id res
      then (if rs_status res = ReconcileFailed then None else Some (rs_desired_hash res))
      else last_successful_resource_hash i s)"
proof -
  have "lookup rs_resource_id i (cs_resources (save_reconcile_result res s)) =
      (if i = rs_resource_id res then Some res else lookup rs_resource_id i (cs_resources s))"
  proof (cases "rs_resource_id res \<in> rs_resource_id ` set (cs_resources s)")
    case True
    have "lookup rs_resource_id i (update_where (\<lambda>o'. rs_resource_id o' = rs_resource_id res) (\<lambda>_. res) t) =
        (if i = rs_resource_id res then map_option (\<lambda>_. res) (lookup rs_resource_id i t) else lookup rs_resource_id i t)" for t
      by (induction t) (auto simp: lookup_def update_where_def)
    moreover have "lookup rs_resource_id (rs_resource_id res) (cs_resources s) \<noteq> None"
      using True by (simp add: lookup_None_iff)
    ultimately show ?thesis using True by (auto simp: save_reconcile_result_def)
  next
    case False
    then have "lookup rs_resource_id (rs_resource_id res) (cs_resources s) = None" by (simp add: lookup_None_iff)
    moreover have "lookup rs_resource_id i [res] = (if i = rs_resource_id res then Some res else None)"
      by (simp add: lookup_def)
    ultimately show ?thesis using False
      by (auto simp: save_reconcile_result_def lookup_append split: option.splits)
  qed
  then show ?thesis
    by (cases "rs_status res") (auto simp: last_successful_resource_hash_def)
qed

lemma recording_same [simp]: "kc_digest (recording kc) = kc_digest kc" "kc_render (recording kc) = kc_render kc"
  by (simp_all add: recording_def)

text \<open>A resource whose last result is a success with its own digest is not written again.\<close>

definition settled_resource :: "'k cluster_client \<Rightarrow> control_store \<Rightarrow> desired_resource \<Rightarrow> bool" where
  "settled_resource kc s r \<longleftrightarrow> last_successful_resource_hash (dr_resource_id r) s = Some (kc_digest kc r)"

lemma settled_resource_recording [simp]: "settled_resource (recording kc) = settled_resource kc"
  by (simp add: settled_resource_def fun_eq_iff)

lemma reconcile_resource_settles:
  assumes "reconcile_resource kc role mode r (s, k) = (res, s', k')" "rs_status res \<noteq> ReconcileFailed"
  shows "settled_resource kc s' r" and "dr_resource_id r' \<noteq> dr_resource_id r \<Longrightarrow> settled_resource kc s' r' = settled_resource kc s r'"
  using reconcile_resource_store [OF assms(1)] assms(2) by (auto simp: settled_resource_def last_hash_save)

lemma reconcile_resource_other:
  assumes "reconcile_resource kc role mode r (s, k) = (res, s', k')" "dr_resource_id r' \<noteq> dr_resource_id r"
  shows "settled_resource kc s' r' = settled_resource kc s r'"
  using reconcile_resource_store [OF assms(1)] assms(2) by (auto simp: settled_resource_def last_hash_save)

lemma reconcile_resources_settle:
  assumes "reconcile_resources kc role mode rs status (s, k) = (final, results, s', k')" "final \<noteq> ReconcileFailed"
    and "distinct (map dr_resource_id rs)"
  shows "list_all (settled_resource kc s') rs \<and> (\<forall>r. dr_resource_id r \<notin> dr_resource_id ` set rs \<longrightarrow> settled_resource kc s' r = settled_resource kc s r)"
  using assms
proof (induction rs arbitrary: status s k results)
  case (Cons r rs)
  obtain res s1 k1 where step: "reconcile_resource kc role mode r (s, k) = (res, s1, k1)" by (metis prod_cases3)
  show ?case
  proof (cases "rs_status res = ReconcileFailed")
    case True
    with Cons.prems step show ?thesis by simp
  next
    case False
    obtain f2 rs2 s2 k2 where rest: "reconcile_resources kc role mode rs
        (if rs_status res = ReconcileApplied then ReconcileApplied else status) (s1, k1) = (f2, rs2, s2, k2)"
      by (metis prod_cases4)
    with Cons.prems step False have out: "f2 = final" "s2 = s'" "k2 = k'" by auto
    note rest = rest [unfolded out]
    have IH: "list_all (settled_resource kc s') rs" "\<And>r. dr_resource_id r \<notin> dr_resource_id ` set rs \<Longrightarrow> settled_resource kc s' r = settled_resource kc s1 r"
      using Cons.IH [OF rest Cons.prems(2)] Cons.prems(3) by auto
    have "settled_resource kc s' r" using IH(2) [of r] reconcile_resource_settles(1) [OF step False] Cons.prems(3) by auto
    with IH reconcile_resource_other [OF step] show ?thesis by auto
  qed
qed simp

lemma settled_no_write:
  assumes "reconcile_resource (recording kc) role mode r (s, (k, lg)) = (res, s', (k', lg'))" "settled_resource kc s r"
  shows "lg' = lg \<and> k' = k"
  using assms(2) by (cases rule: reconcile_resource_cases [OF assms(1)]) (auto simp: settled_resource_def)

lemma settled_resources_no_write:
  assumes "reconcile_resources (recording kc) role mode rs status (s, (k, lg)) = (final, results, s', (k', lg'))"
    and "list_all (settled_resource kc s) rs" "distinct (map dr_resource_id rs)"
  shows "lg' = lg \<and> k' = k"
  using assms
proof (induction rs arbitrary: status s k lg results)
  case (Cons r rs)
  obtain res s1 k1 lg1 where step: "reconcile_resource (recording kc) role mode r (s, (k, lg)) = (res, s1, (k1, lg1))"
    by (metis prod_cases3 surj_pair)
  with settled_no_write [OF step] Cons.prems(2) have same: "lg1 = lg" "k1 = k" by auto
  show ?case
  proof (cases "rs_status res = ReconcileFailed")
    case True
    with Cons.prems step same show ?thesis by simp
  next
    case False
    obtain f2 rs2 s2 k2 lg2 where rest: "reconcile_resources (recording kc) role mode rs
        (if rs_status res = ReconcileApplied then ReconcileApplied else status) (s1, (k1, lg1)) = (f2, rs2, s2, (k2, lg2))"
      by (metis prod_cases5)
    have "list_all (settled_resource kc s1) rs"
    proof -
      have "settled_resource kc s1 r'" if "r' \<in> set rs" for r'
      proof -
        have "dr_resource_id r' \<noteq> dr_resource_id r" using Cons.prems(3) that by (auto simp: image_iff)
        with reconcile_resource_other [OF step this] Cons.prems(2) that show ?thesis by (simp add: list_all_iff)
      qed
      then show ?thesis by (simp add: list_all_iff)
    qed
    moreover from Cons.prems(1) step False rest have "f2 = final" "s2 = s'" "k2 = k'" "lg2 = lg'" by auto
    ultimately show ?thesis using Cons.IH [of _ s1 k1 lg1 rs2] rest Cons.prems(3) same by auto
  qed
qed simp

text \<open>
  After a cycle without failure over resources with distinct identifiers, the
  next cycle of the same policy writes nothing, whatever has happened to the cluster in between:
  each desired state is written once, and changes made behind the agent's back are neither
  repaired nor overwritten.
\<close>

theorem reconciled_policy_is_at_rest:
  assumes "reconcile_once kc role mode argo (Some p) (s, k) = ((g, status, results), s', k')" "status \<noteq> ReconcileFailed"
    and "distinct (map dr_resource_id (policy_resources p))"
    and "reconcile_once (recording kc) role mode' argo' (Some p) (s', (k2, [])) = (out, s'', (k3, lg))"
  shows "lg = [] \<and> k3 = k2"
proof -
  obtain st where run: "reconcile_resources kc role mode (policy_resources p) ReconcileUnchanged (s, k) = (st, results, s', k')"
      "st \<noteq> ReconcileFailed"
    using assms(1,2) by (auto simp: reconcile_once_def split: prod.splits if_splits)
  obtain st2 res2 where again: "reconcile_resources (recording kc) role mode' (policy_resources p) ReconcileUnchanged (s', (k2, []))
      = (st2, res2, s'', (k3, lg))"
    using assms(4) by (auto simp: reconcile_once_def split: prod.splits)
  show ?thesis
    using settled_resources_no_write [OF again] reconcile_resources_settle [OF run assms(3)] assms(3) by blast
qed

text \<open>
  A resource that was only observed while Argo CD was the writer counts as
  successfully reconciled with its desired digest. When the agent goes back to writing by
  itself, it reports the resource as already applied and never writes it, although it never did.
\<close>

theorem observed_resource_is_never_applied:
  assumes "ensure_allowed (kc_render kc) role r = None" "dr_action r = ApplyState" "kc_observe kc r k = None"
    and "reconcile_resource kc role ArgocdMode r (s, k) = (res1, s1, k1)"
    and "reconcile_resource kc role BuiltinMode r (s1, k2) = (res2, s2, k3)"
  shows "k1 = k \<and> rs_status res2 = ReconcileUnchanged \<and> rs_message res2 = ''already applied'' \<and> k3 = k2 \<and>
    last_successful_resource_hash (dr_resource_id r) s2 = Some (kc_digest kc r)"
proof -
  have obs: "rs_status res1 = ReconcileUnchanged" "k1 = k"
    using assms(1-4) by (auto simp: reconcile_resource_def reconcile_result_of_def Let_def)
  then have settled_resource: "settled_resource kc s1 r" using reconcile_resource_settles(1) [OF assms(4)] by simp
  then have again: "rs_status res2 = ReconcileUnchanged" "rs_message res2 = ''already applied''" "k3 = k2"
    using assms(1,2,5) by (auto simp: reconcile_resource_def reconcile_result_of_def Let_def settled_resource_def)
  then have "settled_resource kc s2 r" using reconcile_resource_settles(1) [OF assms(5)] by simp
  with obs again show ?thesis by (simp add: settled_resource_def)
qed

end
