(* ===== verification/Agent_Policy.thy ===== *)
theory Agent_Policy
  imports Agent_Reconcile
begin

text \<open>
  The policies an agent holds: which of them is active, which one the reconciler follows, and
  how a synchronisation changes either.
\<close>

section \<open>The rows of the store\<close>

definition policy_row_of :: "time \<Rightarrow> string \<Rightarrow> agent_policy \<Rightarrow> agent_policy_row" where
  "policy_row_of now i p = \<lparr>pr_policy_id = i, pr_generation = ap_generation p, pr_payload = p, pr_updated_at = now\<rparr>"

lemma policy_row_of_fields [simp]:
  "pr_policy_id (policy_row_of now i p) = i" "pr_generation (policy_row_of now i p) = ap_generation p"
  "pr_payload (policy_row_of now i p) = p"
  by (simp_all add: policy_row_of_def)

lemma put_policy_eq:
  "put_policy now i p rows = (if i \<in> pr_policy_id ` set rows
     then update_where (\<lambda>r. pr_policy_id r = i) (\<lambda>_. policy_row_of now i p) rows else rows @ [policy_row_of now i p])"
  by (simp add: put_policy_def policy_row_of_def)

lemma lookup_put_policy:
  "lookup pr_policy_id j (put_policy now i p rows) =
     (if j = i then Some (policy_row_of now i p) else lookup pr_policy_id j rows)"
proof (cases "i \<in> pr_policy_id ` set rows")
  case True
  have "lookup pr_policy_id j (update_where (\<lambda>r. pr_policy_id r = i) (\<lambda>_. policy_row_of now i p) rows) =
      (if j = i then map_option (\<lambda>_. policy_row_of now i p) (lookup pr_policy_id j rows) else lookup pr_policy_id j rows)"
    by (induction rows) (auto simp: lookup_def update_where_def)
  moreover have "lookup pr_policy_id i rows \<noteq> None" using True by (simp add: lookup_None_iff)
  ultimately show ?thesis using True by (auto simp: put_policy_eq)
next
  case False
  then have "lookup pr_policy_id i rows = None" by (simp add: lookup_None_iff)
  moreover have "lookup pr_policy_id j [policy_row_of now i p] = (if j = i then Some (policy_row_of now i p) else None)"
    by (simp add: lookup_def)
  ultimately show ?thesis using False by (auto simp: put_policy_eq lookup_append split: option.splits)
qed

lemma unique_put_policy:
  assumes "unique_key pr_policy_id rows"
  shows "unique_key pr_policy_id (put_policy now i p rows)"
proof (cases "i \<in> pr_policy_id ` set rows")
  case True
  have "map pr_policy_id (update_where (\<lambda>r. pr_policy_id r = i) (\<lambda>_. policy_row_of now i p) rows) = map pr_policy_id rows"
    by (simp add: update_where_def)
  with True assms show ?thesis by (simp add: put_policy_eq unique_key_def)
next
  case False
  with assms show ?thesis by (auto simp: put_policy_eq unique_key_def)
qed

lemma lookup_delete_where:
  assumes "unique_key key t"
  shows "lookup key k (delete_where p t) = (case lookup key k t of None \<Rightarrow> None | Some r \<Rightarrow> if p r then None else Some r)"
proof (cases "lookup key k t")
  case None
  then have "k \<notin> key ` set (delete_where p t)" by (auto simp: lookup_None_iff set_delete_where)
  then have "lookup key k (delete_where p t) = None" by (simp add: lookup_None_iff)
  with None show ?thesis by simp
next
  case (Some r)
  note r = lookup_Some_in [OF Some]
  show ?thesis
  proof (cases "p r")
    case False
    with r have "r \<in> set (delete_where p t)" by (simp add: set_delete_where)
    with lookup_unique_in [OF unique_key_delete_where [OF assms] this] r Some False show ?thesis by simp
  next
    case True
    have "k \<notin> key ` set (delete_where p t)"
      using r True assms by (auto simp: set_delete_where dest: unique_keyD)
    then have "lookup key k (delete_where p t) = None" by (simp add: lookup_None_iff)
    with Some True show ?thesis by simp
  qed
qed

text \<open>Rows agree with their payload, and a pending policy is newer than the active one.\<close>

definition control_ok :: "control_store \<Rightarrow> bool" where
  "control_ok s \<longleftrightarrow> unique_key pr_policy_id (cs_policies s) \<and>
     (\<forall>i r. lookup pr_policy_id i (cs_policies s) = Some r \<longrightarrow> pr_generation r = ap_generation (pr_payload r)) \<and>
     (\<forall>q. load_pending_reconcile_policy s = Some q \<longrightarrow>
        (\<forall>p. load_policy s = Some p \<longrightarrow> ap_generation p < ap_generation q))"

lemma ids_differ [simp]: "ACTIVE_POLICY_ID \<noteq> PENDING_RECONCILE_POLICY_ID" "PENDING_RECONCILE_POLICY_ID \<noteq> ACTIVE_POLICY_ID"
  by (simp_all add: ACTIVE_POLICY_ID_def PENDING_RECONCILE_POLICY_ID_def)

lemma active_generation_eq:
  "control_ok s \<Longrightarrow> active_generation s = (case load_policy s of None \<Rightarrow> 0 | Some p \<Rightarrow> ap_generation p)"
  by (auto simp: active_generation_def load_policy_def stored_policy_def control_ok_def split: option.splits)

lemma save_policy_loads:
  assumes "control_ok s"
  shows "load_policy (save_policy now p s) = Some p"
    and "load_pending_reconcile_policy (save_policy now p s) =
      (case load_pending_reconcile_policy s of None \<Rightarrow> None | Some q \<Rightarrow> if ap_generation q \<le> ap_generation p then None else Some q)"
proof -
  have u: "unique_key pr_policy_id (put_policy now ACTIVE_POLICY_ID p (cs_policies s))"
    using assms by (simp add: control_ok_def unique_put_policy)
  show "load_policy (save_policy now p s) = Some p"
    by (simp add: load_policy_def stored_policy_def save_policy_def lookup_delete_where [OF u] lookup_put_policy)
  show "load_pending_reconcile_policy (save_policy now p s) =
      (case load_pending_reconcile_policy s of None \<Rightarrow> None | Some q \<Rightarrow> if ap_generation q \<le> ap_generation p then None else Some q)"
    using assms
    by (auto simp: load_pending_reconcile_policy_def stored_policy_def save_policy_def lookup_delete_where [OF u]
        lookup_put_policy control_ok_def split: option.splits dest: lookup_Some_in)
qed

lemma save_policy_ok:
  assumes "control_ok s"
  shows "control_ok (save_policy now p s)"
proof -
  have u: "unique_key pr_policy_id (put_policy now ACTIVE_POLICY_ID p (cs_policies s))"
    using assms by (simp add: control_ok_def unique_put_policy)
  have "unique_key pr_policy_id (cs_policies (save_policy now p s))"
    using u by (simp add: save_policy_def unique_key_delete_where)
  moreover have "pr_generation r = ap_generation (pr_payload r)"
    if "lookup pr_policy_id i (cs_policies (save_policy now p s)) = Some r" for i r
    using that assms
    by (auto simp: save_policy_def lookup_delete_where [OF u] lookup_put_policy control_ok_def split: option.splits if_splits)
  ultimately show ?thesis
    using save_policy_loads [OF assms, of now p] by (auto simp: control_ok_def split: option.splits if_splits)
qed

lemma pending_loads:
  assumes "save_pending_reconcile_policy now q s = (True, s')"
  shows "load_policy s' = load_policy s" "load_pending_reconcile_policy s' = Some q"
  using assms
  by (auto simp: save_pending_reconcile_policy_def load_policy_def load_pending_reconcile_policy_def stored_policy_def
      lookup_put_policy split: option.splits if_splits)

lemma pending_ok:
  assumes "control_ok s" "save_pending_reconcile_policy now q s = (b, s')" "active_generation s < ap_generation q"
  shows "control_ok s'"
proof (cases b)
  case True
  then have "cs_policies s' = put_policy now PENDING_RECONCILE_POLICY_ID q (cs_policies s)"
    using assms(2) by (auto simp: save_pending_reconcile_policy_def split: option.splits if_splits)
  moreover have "load_policy s' = load_policy s" "load_pending_reconcile_policy s' = Some q"
    using pending_loads assms(2) True by auto
  ultimately show ?thesis
    using assms(1,3) active_generation_eq [OF assms(1)]
    by (auto simp: control_ok_def lookup_put_policy unique_put_policy split: if_splits option.splits)
next
  case False
  with assms show ?thesis by (auto simp: save_pending_reconcile_policy_def split: option.splits if_splits)
qed

section \<open>One synchronisation\<close>

lemma handoff_cases:
  assumes "stage_desired_state_handoff se now active candidate s = (out, s')"
  obtains "s' = s"
  | c d where "candidate = Some c" "target_agent_deployment c = Some d" "active_generation s < ap_generation c"
      "ap_cluster_id c = se_cluster_id se" "save_pending_reconcile_policy now (self_upgrade_handoff_policy active c d) s = (True, s')"
proof (cases "s' = s")
  case False
  then obtain c where c: "candidate = Some c" "active_generation s < ap_generation c" "ap_cluster_id c = se_cluster_id se"
    using assms by (auto simp: stage_desired_state_handoff_def split: option.splits if_splits)
  with assms False obtain d where d: "target_agent_deployment c = Some d"
    by (auto simp: stage_desired_state_handoff_def split: option.splits if_splits)
  obtain b s1 where save: "save_pending_reconcile_policy now (self_upgrade_handoff_policy active c d) s = (b, s1)"
    by fastforce
  have "\<not> b \<Longrightarrow> s1 = s"
    using save by (auto simp: save_pending_reconcile_policy_def split: option.splits if_splits)
  with assms False c d save have "b" "s1 = s'"
    by (auto simp: stage_desired_state_handoff_def split: option.splits if_splits bool.splits)
  with c d save that(2) show ?thesis by simp
qed (rule that(1))

lemma handoff_generation [simp]: "ap_generation (self_upgrade_handoff_policy active c d) = ap_generation c"
  by (simp add: self_upgrade_handoff_policy_def)

lemma handoff_ok:
  assumes "control_ok s" "stage_desired_state_handoff se now active candidate s = (out, s')"
  shows "control_ok s'"
  using assms(1) by (cases rule: handoff_cases [OF assms(2)]) (auto intro: pending_ok)

lemma handoff_active:
  assumes "stage_desired_state_handoff se now active candidate s = (out, s')"
  shows "load_policy s' = load_policy s"
  by (cases rule: handoff_cases [OF assms]) (auto dest: pending_loads)

text \<open>The candidate of a synchronisation: the fetched payload merged over the active policy.\<close>

definition sync_candidate :: "sync_env \<Rightarrow> policy_patch option option \<Rightarrow> control_store \<Rightarrow> agent_policy option" where
  "sync_candidate se fetched s =
     (case fetched of None \<Rightarrow> None | Some payload \<Rightarrow> Option.bind payload (merge_agent_policy (active_or_default se s)))"

lemma sync_cases:
  assumes "sync_once se now fetched s = (out, s')"
  obtains
    (nothing) "fetched = None" "s' = s" "out \<noteq> SyncApplied"
  | (installed) p where "sync_candidate se fetched s = Some p" "se_runtime_ok se p" "se_apply_ok se p"
      "out = SyncApplied" "s' = save_policy now p s"
  | (unreported) p h where "sync_candidate se fetched s = Some p" "se_runtime_ok se p" "se_apply_ok se p"
      "out \<noteq> SyncApplied"
      "stage_desired_state_handoff se now (active_or_default se s) (Some p) (save_policy now p s) = (h, s')"
  | (failed) h where "out \<noteq> SyncApplied" "fetched \<noteq> None"
      "\<And>p. sync_candidate se fetched s = Some p \<Longrightarrow> \<not> (se_runtime_ok se p \<and> se_apply_ok se p)"
      "stage_desired_state_handoff se now (active_or_default se s) (sync_candidate se fetched s) s = (h, s')"
proof (cases fetched)
  case None
  show ?thesis by (rule nothing [OF None]) (use assms None in \<open>auto simp: sync_once_def Let_def split: if_splits\<close>)
next
  case (Some payload)
  show ?thesis
  proof (cases "sync_candidate se fetched s")
    case None
    obtain h s1 where st: "stage_desired_state_handoff se now (active_or_default se s) None s = (h, s1)" by fastforce
    show ?thesis
      by (rule failed [of h]) (use assms Some None st in \<open>auto simp: sync_once_def sync_candidate_def sync_failed_def Let_def split: if_splits\<close>)
  next
    case (Some p)
    note cand = Some
    have bind: "Option.bind payload (merge_agent_policy (active_or_default se s)) = Some p"
      using cand \<open>fetched = Some payload\<close> by (simp add: sync_candidate_def)
    show ?thesis
    proof (cases "se_runtime_ok se p \<and> se_apply_ok se p")
      case True
      obtain h s1 where st: "stage_desired_state_handoff se now (active_or_default se s) (Some p) (save_policy now p s) = (h, s1)"
        by fastforce
      show ?thesis
      proof (cases "se_report_ok se")
        case rep: True
        show ?thesis by (rule installed [OF cand])
          (use assms \<open>fetched = Some payload\<close> bind True rep in \<open>auto simp: sync_once_def Let_def\<close>)
      next
        case False
        show ?thesis by (rule unreported [OF cand, of h])
          (use assms \<open>fetched = Some payload\<close> bind True False st in \<open>auto simp: sync_once_def sync_failed_def Let_def split: if_splits\<close>)
      qed
    next
      case False
      obtain h s1 where st: "stage_desired_state_handoff se now (active_or_default se s) (Some p) s = (h, s1)" by fastforce
      show ?thesis
        by (rule failed [of h])
          (use assms \<open>fetched = Some payload\<close> bind cand False st in \<open>auto simp: sync_once_def sync_failed_def Let_def split: if_splits\<close>)
    qed
  qed
qed

section \<open>The agent's steps\<close>

text \<open>The store of the agent next to its cluster, which others may change at any time.\<close>

inductive control_step :: "'k cluster_client \<Rightarrow> control_store \<times> 'k \<Rightarrow> control_store \<times> 'k \<Rightarrow> bool" for kc where
  synchronised: "sync_once se now fetched s = (out, s') \<Longrightarrow> control_step kc (s, k) (s', k)"
| started: "apply_stored_or_default se now s = Some s' \<Longrightarrow> control_step kc (s, k) (s', k)"
| reconciled: "reconcile_once kc role mode argo policy (s, k) = (out, s', k') \<Longrightarrow> control_step kc (s, k) (s', k')"
| configured: "save_runtime_setting key v s = Some s' \<Longrightarrow> control_step kc (s, k) (s', k)"
| drifted: "control_step kc (s, k) (s, k')"

definition control_empty :: "control_store \<times> 'k \<Rightarrow> bool" where
  "control_empty x \<longleftrightarrow> cs_policies (fst x) = []"

definition control_reachable :: "'k cluster_client \<Rightarrow> control_store \<times> 'k \<Rightarrow> bool" where
  "control_reachable kc x \<longleftrightarrow> reachable_from control_empty (control_step kc) x"

lemma control_ok_policies: "control_ok s \<Longrightarrow> cs_policies s' = cs_policies s \<Longrightarrow> control_ok s'"
  by (simp add: control_ok_def load_policy_def load_pending_reconcile_policy_def stored_policy_def)

lemma reconcile_policies:
  "reconcile_resources kc role mode rs status (s, k) = (final, results, s', k') \<Longrightarrow> cs_policies s' = cs_policies s"
proof (induction rs arbitrary: status s k results)
  case (Cons r rs)
  obtain res s1 k1 where step: "reconcile_resource kc role mode r (s, k) = (res, s1, k1)" by (metis prod_cases3)
  then have s1: "cs_policies s1 = cs_policies s"
    using reconcile_resource_store(1) [OF step] by (simp add: save_reconcile_result_def)
  obtain f2 rs2 s2 k2 where rest: "reconcile_resources kc role mode rs
      (if rs_status res = ReconcileApplied then ReconcileApplied else status) (s1, k1) = (f2, rs2, s2, k2)"
    by (metis prod_cases4)
  show ?case
  proof (cases "rs_status res = ReconcileFailed")
    case True
    with Cons.prems step s1 show ?thesis by simp
  next
    case False
    with Cons.prems step rest have "f2 = final" "s2 = s'" "k2 = k'" by auto
    with Cons.IH rest s1 show ?thesis by auto
  qed
qed simp

definition agent_control_inv :: "control_store \<times> 'k \<Rightarrow> bool" where
  "agent_control_inv x \<longleftrightarrow> control_ok (fst x)"

lemma control_step_ok:
  assumes "agent_control_inv x" "control_step kc x y"
  shows "agent_control_inv y"
  using assms(2)
proof (cases rule: control_step.cases)
  case (synchronised se now fetched s out s' k)
  have "control_ok s" using assms(1) synchronised by (simp add: agent_control_inv_def)
  then have "control_ok s'"
    by (cases rule: sync_cases [OF synchronised(3)]) (auto intro: save_policy_ok handoff_ok)
  with synchronised show ?thesis by (simp add: agent_control_inv_def)
next
  case (started se now s s' k)
  with assms(1) show ?thesis
    by (auto simp: apply_stored_or_default_def agent_control_inv_def intro: save_policy_ok split: option.splits if_splits)
next
  case (reconciled role mode argo policy s k out s' k')
  then have "cs_policies s' = cs_policies s"
    by (auto simp: reconcile_once_def split: option.splits prod.splits dest: reconcile_policies)
  with assms(1) reconciled show ?thesis by (auto simp: agent_control_inv_def intro: control_ok_policies)
next
  case (configured key v s s' k)
  then have "cs_policies s' = cs_policies s" by (auto simp: save_runtime_setting_def split: if_splits)
  with assms(1) configured show ?thesis by (auto simp: agent_control_inv_def intro: control_ok_policies)
next
  case (drifted s k k')
  with assms(1) show ?thesis by (simp add: agent_control_inv_def)
qed

lemma control_init: "control_empty x \<Longrightarrow> agent_control_inv x"
  by (simp add: control_empty_def agent_control_inv_def control_ok_def unique_key_def load_pending_reconcile_policy_def stored_policy_def)

interpretation control: invariant_system control_empty "control_step kc" agent_control_inv for kc
  by unfold_locales (erule control_init, rule control_step_ok)

lemma control_reachable_ok: "control_reachable kc (s, k) \<Longrightarrow> control_ok s"
  using control.reachable_inv unfolding control_reachable_def agent_control_inv_def by fastforce

text \<open>
  From every reachable store, a synchronisation either leaves the active policy
  as it is, or makes the merged policy active, and the latter only when its runtime
  configuration and the policy itself could be applied. A policy that could not be applied
  reaches the reconciler at most as a self-upgrade: the agent's new deployment and the runtime
  config, for this cluster and a newer generation, on top of the active policy.
\<close>

theorem failed_policy_never_becomes_active:
  assumes "control_reachable kc (s, k)" "sync_once se now fetched s = (out, s')"
  shows "(\<exists>p. sync_candidate se fetched s = Some p \<and> se_runtime_ok se p \<and> se_apply_ok se p \<and>
        load_policy s' = Some p \<and>
        (case load_pending_reconcile_policy s' of None \<Rightarrow> True | Some q \<Rightarrow>
           ap_generation p < ap_generation q \<and> load_pending_reconcile_policy s = Some q)) \<or>
    (out \<noteq> SyncApplied \<and> load_policy s' = load_policy s \<and>
       (load_pending_reconcile_policy s' = load_pending_reconcile_policy s \<or>
        (\<exists>p d. sync_candidate se fetched s = Some p \<and> target_agent_deployment p = Some d \<and>
           ap_cluster_id p = se_cluster_id se \<and> active_generation s < ap_generation p \<and>
           load_pending_reconcile_policy s' = Some (self_upgrade_handoff_policy (active_or_default se s) p d))))"
proof -
  have ok: "control_ok s" using assms(1) by (rule control_reachable_ok)
  have saved: "load_policy (save_policy now p s) = Some p"
    "case load_pending_reconcile_policy (save_policy now p s) of None \<Rightarrow> True | Some q \<Rightarrow>
       ap_generation p < ap_generation q \<and> load_pending_reconcile_policy s = Some q" for p
    using save_policy_loads [OF ok, of now p] by (auto split: option.splits if_splits)
  show ?thesis
  proof (cases rule: sync_cases [OF assms(2)])
    case 1
    then show ?thesis by simp
  next
    case (2 p)
    with saved [of p] show ?thesis by auto
  next
    case (3 p h)
    have "active_generation (save_policy now p s) = ap_generation p"
      using active_generation_eq [OF save_policy_ok [OF ok]] saved(1) by simp
    with 3(5) have "s' = save_policy now p s" by (simp add: stage_desired_state_handoff_def)
    with saved [of p] 3 show ?thesis by auto
  next
    case (4 h)
    show ?thesis
    proof (cases rule: handoff_cases [OF 4(4)])
      case 1
      with 4(1) show ?thesis by simp
    next
      case (2 c d)
      with pending_loads [OF 2(5)] 4(1) show ?thesis by blast
    qed
  qed
qed

text \<open>
  The agent fails to activate a policy that upgrades its own image and
  stages the upgrade for the reconciler. The management plane then publishes a newer policy that
  takes the upgrade back, which fails to activate as well. The staged upgrade stays: the
  reconciler still follows the withdrawn policy, and will write its deployment.
\<close>

theorem withdrawn_upgrade_is_still_reconciled:
  assumes "control_reachable kc (s, k)" "load_policy s = Some a" "load_pending_reconcile_policy s = None"
    and "sync_candidate se f1 s = Some p1" "\<not> (se_runtime_ok se p1 \<and> se_apply_ok se p1)"
    and "ap_generation a < ap_generation p1" "ap_cluster_id p1 = se_cluster_id se" "ap_cluster_role p1 = ap_cluster_role a"
    and "target_agent_deployment p1 = Some d1" "target_agent_deployment a = Some d0" "se_digest se d0 \<noteq> se_digest se d1"
    and "sync_once se t1 f1 s = (out1, s1)"
    and "sync_candidate se f2 s1 = Some p2" "\<not> (se_runtime_ok se p2 \<and> se_apply_ok se p2)"
    and "ap_generation p1 < ap_generation p2" "target_agent_deployment p2 = Some d0"
    and "sync_once se t2 f2 s1 = (out2, s2)"
  shows "\<exists>h. load_reconcile_policy s2 = Some h \<and> ap_generation h = ap_generation p1 \<and> d1 \<in> set (policy_resources h) \<and>
    load_policy s2 = Some a"
proof -
  have ok: "control_ok s" using assms(1) by (rule control_reachable_ok)
  have act: "active_or_default se s = a" using assms(2) by (simp add: active_or_default_def)
  have gen: "active_generation s = ap_generation a" using active_generation_eq [OF ok] assms(2) by simp
  let ?h = "self_upgrade_handoff_policy a p1 d1"
  have nopend: "lookup pr_policy_id PENDING_RECONCILE_POLICY_ID (cs_policies s) = None"
    using assms(3) by (simp add: load_pending_reconcile_policy_def stored_policy_def)
  have s1: "save_pending_reconcile_policy t1 ?h s = (True, s1)"
  proof -
    obtain st where st: "save_pending_reconcile_policy t1 ?h s = (True, st)"
      using nopend by (simp add: save_pending_reconcile_policy_def)
    have "stage_desired_state_handoff se t1 a (Some p1) s = (Some (ap_generation p1, dr_resource_id d1), st)"
      using assms(6-11) gen st by (simp add: stage_desired_state_handoff_def)
    with assms(4,5,12) act show ?thesis using st
      by (cases rule: sync_cases [OF assms(12)]) (auto simp: sync_candidate_def)
  qed
  have l1: "load_policy s1 = Some a" "load_pending_reconcile_policy s1 = Some ?h"
    using pending_loads [OF s1] assms(2) by auto
  have act1: "active_or_default se s1 = a" using l1(1) by (simp add: active_or_default_def)
  have "stage_desired_state_handoff se t2 a (Some p2) s1 = (None, s1)"
    using assms(10,16) by (auto simp: stage_desired_state_handoff_def)
  then have "s2 = s1"
    using assms(13,14) act1 by (cases rule: sync_cases [OF assms(17)]) (auto simp: sync_candidate_def)
  with l1 assms(6) show ?thesis
    by (auto simp: load_reconcile_policy_def policy_resources_def self_upgrade_handoff_policy_def)
qed

section \<open>A concrete run\<close>

definition agent_demo_digest :: "desired_resource \<Rightarrow> string" where
  "agent_demo_digest r = (case jget (dr_state r) ''v'' of Some (JStr t) \<Rightarrow> t | _ \<Rightarrow> [])"

definition agent_demo_client :: "nat cluster_client" where
  "agent_demo_client = \<lparr>kc_observe = (\<lambda>r k. None), kc_apply = (\<lambda>r k. (None, Suc k)), kc_digest = agent_demo_digest,
     kc_render = (\<lambda>_. [])\<rparr>"

definition agent_demo_deployment :: "string \<Rightarrow> desired_resource" where
  "agent_demo_deployment v = \<lparr>dr_resource_id = ''d'', dr_scope = TargetAgent, dr_kind = Deployment, dr_namespace = ''target'',
     dr_name = ''cluster-agent'', dr_action = ApplyState, dr_state = [(''v'', JStr v)]\<rparr>"

definition agent_demo_policy :: "int \<Rightarrow> string \<Rightarrow> agent_policy" where
  "agent_demo_policy g v = \<lparr>ap_cluster_id = ''k'', ap_generation = g, ap_cluster_role = TargetRole,
     ap_evidence = \<lparr>ev_profile = ''standard'', ev_failure_policy = ''strict'', ev_max_attempts = 3, ev_providers = []\<rparr>,
     ap_bootstrap_mode = TargetRole, ap_bootstrap_resources = [], ap_desired_resources = [agent_demo_deployment v],
     ap_scheduling = JNull\<rparr>"

text \<open>Only the first policy can be applied to the running agent.\<close>

definition agent_demo_env :: sync_env where
  "agent_demo_env = \<lparr>se_cluster_id = ''k'', se_digest = agent_demo_digest, se_default_policy = agent_demo_policy 1 ''old'',
     se_runtime_ok = (\<lambda>p. True), se_apply_ok = (\<lambda>p. ap_generation p = 1), se_report_ok = True, se_failure_report_ok = True\<rparr>"

definition agent_demo_start :: control_store where
  "agent_demo_start = \<lparr>cs_policies = [], cs_resources = [], cs_settings = []\<rparr>"

definition agent_demo_running :: control_store where
  "agent_demo_running = save_policy 0 (agent_demo_policy 1 ''old'') agent_demo_start"

definition agent_demo_fetch :: "int \<Rightarrow> string \<Rightarrow> policy_patch option option" where
  "agent_demo_fetch g v = Some (Some (full_patch (agent_demo_policy g v)))"

definition agent_demo_staged :: control_store where
  "agent_demo_staged = snd (sync_once agent_demo_env 1 (agent_demo_fetch 2 ''new'') agent_demo_running)"

definition agent_demo_withdrawn :: control_store where
  "agent_demo_withdrawn = snd (sync_once agent_demo_env 2 (agent_demo_fetch 3 ''old'') agent_demo_staged)"

lemma agent_demo_reachable: "control_reachable agent_demo_client (agent_demo_running, 0)"
proof -
  have "apply_stored_or_default agent_demo_env 0 agent_demo_start = Some agent_demo_running"
    by code_simp
  then have "control_step agent_demo_client (agent_demo_start, 0) (agent_demo_running, 0)"
    by (rule control_step.started)
  moreover have "control_empty (agent_demo_start, 0 :: nat)" by (simp add: control_empty_def agent_demo_start_def)
  ultimately show ?thesis unfolding control_reachable_def reachable_from_def by blast
qed

lemma agent_demo_first_sync:
  "sync_once agent_demo_env 1 (agent_demo_fetch 2 ''new'') agent_demo_running = (SyncFailed, agent_demo_staged)"
  by code_simp

theorem failed_policy_never_becomes_active_witness:
  "load_policy agent_demo_staged = Some (agent_demo_policy 1 ''old'')"
proof -
  have "load_policy agent_demo_running = Some (agent_demo_policy 1 ''old'')" by code_simp
  moreover have "sync_candidate agent_demo_env (agent_demo_fetch 2 ''new'') agent_demo_running = Some (agent_demo_policy 2 ''new'')"
    by code_simp
  moreover have "\<not> se_apply_ok agent_demo_env (agent_demo_policy 2 ''new'')" by code_simp
  ultimately show ?thesis
    using failed_policy_never_becomes_active [OF agent_demo_reachable agent_demo_first_sync] by auto
qed

theorem withdrawn_upgrade_is_still_reconciled_witness:
  "\<exists>h. load_reconcile_policy agent_demo_withdrawn = Some h \<and> agent_demo_deployment ''new'' \<in> set (policy_resources h)"
proof -
  have "load_policy agent_demo_running = Some (agent_demo_policy 1 ''old'')" by code_simp
  moreover have "load_pending_reconcile_policy agent_demo_running = None" by code_simp
  moreover have "sync_candidate agent_demo_env (agent_demo_fetch 2 ''new'') agent_demo_running = Some (agent_demo_policy 2 ''new'')"
    by code_simp
  moreover have "\<not> (se_runtime_ok agent_demo_env (agent_demo_policy 2 ''new'') \<and> se_apply_ok agent_demo_env (agent_demo_policy 2 ''new''))"
    by code_simp
  moreover have "ap_generation (agent_demo_policy 1 ''old'') < ap_generation (agent_demo_policy 2 ''new'')"
      "ap_cluster_id (agent_demo_policy 2 ''new'') = se_cluster_id agent_demo_env"
      "ap_cluster_role (agent_demo_policy 2 ''new'') = ap_cluster_role (agent_demo_policy 1 ''old'')"
    by (simp_all add: agent_demo_policy_def agent_demo_env_def)
  moreover have "target_agent_deployment (agent_demo_policy 2 ''new'') = Some (agent_demo_deployment ''new'')"
      "target_agent_deployment (agent_demo_policy 1 ''old'') = Some (agent_demo_deployment ''old'')"
    by code_simp+
  moreover have "se_digest agent_demo_env (agent_demo_deployment ''old'') \<noteq> se_digest agent_demo_env (agent_demo_deployment ''new'')"
    by code_simp
  moreover have "sync_candidate agent_demo_env (agent_demo_fetch 3 ''old'') agent_demo_staged = Some (agent_demo_policy 3 ''old'')"
    by code_simp
  moreover have "\<not> (se_runtime_ok agent_demo_env (agent_demo_policy 3 ''old'') \<and> se_apply_ok agent_demo_env (agent_demo_policy 3 ''old''))"
    by code_simp
  moreover have "ap_generation (agent_demo_policy 2 ''new'') < ap_generation (agent_demo_policy 3 ''old'')"
    by (simp add: agent_demo_policy_def)
  moreover have "target_agent_deployment (agent_demo_policy 3 ''old'') = Some (agent_demo_deployment ''old'')" by code_simp
  moreover have "sync_once agent_demo_env 2 (agent_demo_fetch 3 ''old'') agent_demo_staged = (SyncFailed, agent_demo_withdrawn)"
    by code_simp
  ultimately show ?thesis
    using withdrawn_upgrade_is_still_reconciled [OF agent_demo_reachable] agent_demo_first_sync by blast
qed

definition agent_demo_run :: "(int \<times> reconcile_status \<times> reconcile_result list) \<times> control_store \<times> nat \<times> desired_resource list" where
  "agent_demo_run = reconcile_once (recording agent_demo_client) TargetRole BuiltinMode None None (agent_demo_running, (0, []))"

theorem reconciler_writes_only_its_own_witness:
  "list_all (writable TargetRole) [agent_demo_deployment ''old'']"
proof -
  have "agent_demo_run = (fst agent_demo_run, fst (snd agent_demo_run), (1, [agent_demo_deployment ''old'']))"
    by code_simp
  then have "reconcile_once (recording agent_demo_client) TargetRole BuiltinMode None None (agent_demo_running, (0, [])) =
      (fst agent_demo_run, fst (snd agent_demo_run), (1, [agent_demo_deployment ''old'']))"
    by (simp add: agent_demo_run_def)
  from reconciler_writes_only_its_own [OF this] show ?thesis by blast
qed

definition agent_demo_settled :: "(int \<times> reconcile_status \<times> reconcile_result list) \<times> control_store \<times> nat" where
  "agent_demo_settled = reconcile_once agent_demo_client TargetRole BuiltinMode None (Some (agent_demo_policy 1 ''old'')) (agent_demo_running, 0)"

definition agent_demo_again :: "(int \<times> reconcile_status \<times> reconcile_result list) \<times> control_store \<times> nat \<times> desired_resource list" where
  "agent_demo_again = reconcile_once (recording agent_demo_client) TargetRole BuiltinMode None (Some (agent_demo_policy 1 ''old''))
     (fst (snd agent_demo_settled), (7, []))"

theorem reconciled_policy_is_at_rest_witness:
  "snd (snd agent_demo_again) = (7, [])"
proof -
  have run: "reconcile_once agent_demo_client TargetRole BuiltinMode None (Some (agent_demo_policy 1 ''old'')) (agent_demo_running, 0) =
      ((fst (fst agent_demo_settled), fst (snd (fst agent_demo_settled)), snd (snd (fst agent_demo_settled))),
       fst (snd agent_demo_settled), snd (snd agent_demo_settled))"
    by (simp add: agent_demo_settled_def)
  have ok: "fst (snd (fst agent_demo_settled)) \<noteq> ReconcileFailed" by code_simp
  have ids: "distinct (map dr_resource_id (policy_resources (agent_demo_policy 1 ''old'')))" by code_simp
  have again: "reconcile_once (recording agent_demo_client) TargetRole BuiltinMode None (Some (agent_demo_policy 1 ''old''))
      (fst (snd agent_demo_settled), (7, [])) =
      (fst agent_demo_again, fst (snd agent_demo_again), (fst (snd (snd agent_demo_again)), snd (snd (snd agent_demo_again))))"
    by (simp add: agent_demo_again_def)
  from reconciled_policy_is_at_rest [OF run ok ids again] show ?thesis by (simp add: prod_eq_iff)
qed

theorem observed_resource_is_never_applied_witness:
  "snd (snd (reconcile_resource agent_demo_client TargetRole BuiltinMode (agent_demo_deployment ''old'')
     (fst (snd (reconcile_resource agent_demo_client TargetRole ArgocdMode (agent_demo_deployment ''old'') (agent_demo_start, 0))), 0))) = 0"
proof -
  let ?one = "reconcile_resource agent_demo_client TargetRole ArgocdMode (agent_demo_deployment ''old'') (agent_demo_start, 0)"
  let ?two = "reconcile_resource agent_demo_client TargetRole BuiltinMode (agent_demo_deployment ''old'') (fst (snd ?one), 0)"
  have ok: "ensure_allowed (kc_render agent_demo_client) TargetRole (agent_demo_deployment ''old'') = None" by code_simp
  have app: "dr_action (agent_demo_deployment ''old'') = ApplyState" and obs: "kc_observe agent_demo_client (agent_demo_deployment ''old'') 0 = None"
    by (simp_all add: agent_demo_deployment_def agent_demo_client_def)
  have one: "?one = (fst ?one, fst (snd ?one), snd (snd ?one))" and two: "?two = (fst ?two, fst (snd ?two), snd (snd ?two))"
    by simp_all
  from observed_resource_is_never_applied [OF ok app obs one two] show ?thesis by simp
qed

end
