(* ===== verification/Command_Handler.thy ===== *)
theory Command_Handler
  imports Command_Policy Command_Properties
begin

text \<open>
  The handler of \<^verbatim>\<open>command.requested\<close> in \<^verbatim>\<open>src/src/domains/command/handler.py\<close>: the gates in the
  order of the source, the plan, the agent queue, and the closing of the operation stream on
  every rejection. The repository methods the handler looks up on the store are those of
  Command_Queue; the events it yields are a list, in order.
\<close>

section \<open>The plan\<close>

text \<open>
  \<^verbatim>\<open>Plan\<close>: the keys the repository reads (the parent record) and the others.
\<close>

record full_plan = plan +
  fp_idempotency_key :: string
  fp_steps :: "string list"
  fp_lease_seconds :: int
  fp_heartbeat_interval_seconds :: int
  fp_channel :: string
  fp_required_capability :: string
  fp_application_id :: string
  fp_workflow_run_id :: string
  fp_binding_id :: string
  fp_environment :: string
  fp_approval_ref :: "string option"
  fp_policy_decision_ref :: "string option"
  fp_approval_decided_by :: "string option"
  fp_approval_expires_at :: "string option"
  fp_direct_execution_confirmed :: bool

definition evidence_decided_by :: "command_requested \<Rightarrow> approval_evidence option \<Rightarrow> string option" where
  "evidence_decided_by c ev =
     (case ev of None \<Rightarrow> cq_approval_decided_by c | Some e \<Rightarrow> Some (ae_decided_by e))"

definition evidence_expires_at :: "command_requested \<Rightarrow> approval_evidence option \<Rightarrow> string option" where
  "evidence_expires_at c ev =
     (case ev of None \<Rightarrow> cq_approval_expires_at c | Some e \<Rightarrow> Some (ae_expires_at e))"

definition opt_json :: "string option \<Rightarrow> json" where
  "opt_json v = (case v of None \<Rightarrow> JNull | Some t \<Rightarrow> JStr t)"

definition idempotency_key ::
    "policy_env \<Rightarrow> command_requested \<Rightarrow> string \<Rightarrow> approval_evidence option \<Rightarrow> string" where
  "idempotency_key pv c correlation_id ev =
     pv_digest pv (JObj
       [(''correlation_id'', JStr correlation_id), (''workspace_id'', JStr (cq_workspace_id c)),
        (''application_id'', JStr (cq_application_id c)), (''workflow_run_id'', JStr (cq_workflow_run_id c)),
        (''binding_id'', JStr (cq_binding_id c)), (''environment'', JStr (cq_environment c)),
        (''cluster_id'', JStr (cq_cluster_id c)), (''action'', JStr (cq_action c)),
        (''namespace'', JStr (cq_namespace c)), (''direct_execution'', JBool (cq_direct_execution c)),
        (''direct_execution_confirmed'', JBool (cq_direct_execution_confirmed c)),
        (''approval_ref'', opt_json (cq_approval_ref c)),
        (''policy_decision_ref'', opt_json (cq_policy_decision_ref c)),
        (''approval_decided_by'', opt_json (evidence_decided_by c ev)),
        (''approval_expires_at'', opt_json (evidence_expires_at c ev)),
        (''diff'', JObj (to_body diff_class (diff_value (cq_diff c)))),
        (''payload'', JObj (cq_payload c))])"

definition build_plan ::
    "policy_env \<Rightarrow> command_requested \<Rightarrow> string \<Rightarrow> approval_evidence option \<Rightarrow> full_plan" where
  "build_plan pv c correlation_id ev =
     (let key = idempotency_key pv c correlation_id ev;
          cluster_id = or_default (cq_cluster_id c) ''default-target-cluster'';
          action = or_default (cq_action c) ''rollout_restart'';
          spec = command_action_spec pv action
      in \<lparr>pl_command_id = (if missing (cq_command_id c) then ''cmd-'' @ take 32 key else the (cq_command_id c)),
          pl_workspace_id = Some (cq_workspace_id c),
          pl_cluster_id = cluster_id,
          pl_action = action,
          pl_priority = Some (max COMMAND_PRIORITY_HIGH
             (if cq_priority c = 0 then COMMAND_PRIORITY_HIGH else cq_priority c)),
          pl_namespace = Some (or_default (cq_namespace c) ''sandbox''),
          pl_diff = Some (to_body diff_class (diff_value (cq_diff c))),
          pl_payload = Some (cq_payload c),
          pl_retry_policy = Some (JObj
            [(''max_attempts'', JInt (case spec of
                None \<Rightarrow> 1
              | Some sp \<Rightarrow> if sp_supports_manual_retry sp then sp_max_attempts sp else 1)),
             (''retry_delay_seconds'', JInt (case spec of None \<Rightarrow> 0 | Some sp \<Rightarrow> sp_retry_delay_seconds sp))]),
          pl_direct_execution = Some (cq_direct_execution c),
          fp_idempotency_key = key,
          fp_steps = [''validate policy'', ''route target cluster'', ''queue for agent''],
          fp_lease_seconds = pv_lease_seconds pv,
          fp_heartbeat_interval_seconds = pv_heartbeat_seconds pv,
          fp_channel = ''agent-poll'',
          fp_required_capability = (case spec of
              None \<Rightarrow> ''command_receiver'' | Some sp \<Rightarrow> sp_required_agent_capability sp),
          fp_application_id = cq_application_id c,
          fp_workflow_run_id = cq_workflow_run_id c,
          fp_binding_id = cq_binding_id c,
          fp_environment = cq_environment c,
          fp_approval_ref = cq_approval_ref c,
          fp_policy_decision_ref = cq_policy_decision_ref c,
          fp_approval_decided_by = evidence_decided_by c ev,
          fp_approval_expires_at = evidence_expires_at c ev,
          fp_direct_execution_confirmed = cq_direct_execution_confirmed c\<rparr>)"

section \<open>The handler\<close>

text \<open>\<^verbatim>\<open>Route\<close> and the three bodies the handler yields.\<close>

record command_route =
  rt_channel :: string
  rt_cluster_id :: string

datatype handler_event =
    CommandRejected string "string option" jobj
  | CommandDispatched full_plan command_route
  | CommandQueuedForAgent full_plan

definition route_for_plan :: "full_plan \<Rightarrow> command_route" where
  "route_for_plan p = \<lparr>rt_channel = fp_channel p, rt_cluster_id = pl_cluster_id p\<rparr>"

definition queue_plan_for_agent ::
    "policy_env \<Rightarrow> time \<Rightarrow> string \<Rightarrow> string \<Rightarrow> full_plan \<Rightarrow> db \<Rightarrow> db_error + db \<times> bool" where
  "queue_plan_for_agent pv now attempt_id correlation_id p s =
     queue_agent_command (pv_command pv) now attempt_id correlation_id (plan.truncate p) Queued s"

definition close_operation :: "time \<Rightarrow> full_plan \<Rightarrow> string \<Rightarrow> db \<Rightarrow> db_error + db" where
  "close_operation now p reason s =
     (case fail_logical_command_and_stage_event now (plan_workspace (plan.truncate p)) (pl_command_id p)
             (pl_cluster_id p) reason s of
        Inl e \<Rightarrow> Inl e
      | Inr (s', _) \<Rightarrow> Inr s')"

definition reject_operation ::
    "policy_env \<Rightarrow> time \<Rightarrow> string \<Rightarrow> command_requested \<Rightarrow> string \<Rightarrow> string option \<Rightarrow> db \<Rightarrow>
     db_error + db \<times> handler_event" where
  "reject_operation pv now correlation_id c reason reason_code s =
     (case close_operation now (build_plan pv c correlation_id None) reason s of
        Inl e \<Rightarrow> Inl e
      | Inr s' \<Rightarrow> Inr (s', CommandRejected reason reason_code
                          (to_body command_requested_body (requested_value c))))"

definition auto_selected :: "command_requested \<Rightarrow> bool" where
  "auto_selected c =
     (case cq_actor c of None \<Rightarrow> False | Some actor \<Rightarrow> jget actor ''auto_selected'' = Some (JBool True))"

text \<open>The verdict of the gates, in the order of the handler, with the evidence of the last one.\<close>

definition gates ::
    "policy_env \<Rightarrow> time \<Rightarrow> gate_store \<Rightarrow> command_requested \<Rightarrow> policy_result \<times> approval_evidence option" where
  "gates pv now g c =
     (if auto_selected c \<and> \<not> env_enabled pv ''AUTO_COMMANDS_ENABLED''
      then (Reject ''AI automatic commands require AUTO_COMMANDS_ENABLED=1'' None, None)
      else case evaluate_management_guard pv g c of
        Reject reason code \<Rightarrow> (Reject reason code, None)
      | Allow \<Rightarrow>
          (case evaluate_direct_execution_confirmation c of
             Reject reason code \<Rightarrow> (Reject reason code, None)
           | Allow \<Rightarrow>
               (case evaluate_command_policy pv c of
                  Reject reason code \<Rightarrow> (Reject reason code, None)
                | Allow \<Rightarrow> evaluate_recorded_approval pv now g c)))"

definition handle_command_requested ::
    "policy_env \<Rightarrow> time \<Rightarrow> string \<Rightarrow> gate_store \<Rightarrow> string \<Rightarrow> command_requested \<Rightarrow> db \<Rightarrow>
     db_error + db \<times> handler_event list" where
  "handle_command_requested pv now attempt_id g correlation_id c s =
     (case gates pv now g c of
        (Reject reason code, _) \<Rightarrow>
          (case reject_operation pv now correlation_id c reason code s of
             Inl e \<Rightarrow> Inl e
           | Inr (s', ev) \<Rightarrow> Inr (s', [ev]))
      | (Allow, evidence) \<Rightarrow>
          (let p = build_plan pv c correlation_id evidence;
               dispatched = CommandDispatched p (route_for_plan p)
           in case queue_plan_for_agent pv now attempt_id correlation_id p s of
                Inl e \<Rightarrow> Inl e
              | Inr (s', True) \<Rightarrow> Inr (s', [dispatched, CommandQueuedForAgent p])
              | Inr (s', False) \<Rightarrow>
                  (case close_operation now p ''agent command could not be queued'' s' of
                     Inl e \<Rightarrow> Inl e
                   | Inr s'' \<Rightarrow>
                       Inr (s'', [dispatched,
                         CommandRejected ''agent command could not be queued'' None
                           (to_body command_requested_body (requested_value c))]))))"

section \<open>What passes the gates\<close>

lemma model_lookup_attributes [simp]:
  "model_lookup c ''namespace'' d = PStr (cq_namespace c)" "model_lookup c ''action'' d = PStr (cq_action c)"
  by (simp_all add: model_lookup_def command_requested_body_def requested_value_def)

lemma control_namespaces_unprotected: "control_namespace_allowed pv ns \<Longrightarrow> ns \<noteq> ''management''"
  by (auto simp: control_namespace_allowed_def control_allowed_namespaces_def control_namespace_protected_def Let_def)

lemma policy_allows:
  assumes "policy_evaluate pv (POLICY pv) (model_lookup c) = Allow"
  shows "control_namespace_allowed pv (cq_namespace c)" "cq_namespace c \<noteq> ''management''"
proof -
  show a: "control_namespace_allowed pv (cq_namespace c)"
    using assms by (auto simp: POLICY_def py_str_def split: if_splits)
  show "cq_namespace c \<noteq> ''management''" by (rule control_namespaces_unprotected [OF a])
qed

text \<open>What a command that passed the policy declares.\<close>

definition policy_passed :: "policy_env \<Rightarrow> command_requested \<Rightarrow> action_spec \<Rightarrow> bool" where
  "policy_passed pv c sp \<longleftrightarrow>
     command_action_spec pv (cq_action c) = Some sp \<and> allows_namespace sp (cq_namespace c) \<and>
     cq_namespace c = df_namespace (cq_diff c) \<and> \<not> is_image_only_noop (cq_diff c) \<and>
     (sp_enforce_control_namespace sp \<longrightarrow>
        control_namespace_allowed pv (cq_namespace c) \<and> cq_namespace c \<noteq> ''management'')"

lemma command_policy_allows:
  "evaluate_command_policy pv c = Allow \<Longrightarrow> \<exists>sp. policy_passed pv c sp"
  by (auto simp: evaluate_command_policy_def policy_passed_def Let_def
      dest: policy_allows
      split: if_splits option.splits policy_result.splits)

text \<open>
  An approval that covers a command: recorded for its workflow, granted (or declared
  unnecessary for a safe change in a sandbox), not contradicting the references, signed by
  the person the command names, and not expired at \<open>now\<close>.
\<close>

definition unset_stamp :: "stamp option \<Rightarrow> bool" where
  "unset_stamp v = (v = None \<or> v = Some (StampText []))"

definition granting_approval :: "policy_env \<Rightarrow> time \<Rightarrow> command_requested \<Rightarrow> approval_row \<Rightarrow> bool" where
  "granting_approval pv now c r \<longleftrightarrow>
     ap_approval_id r = the (cq_approval_ref c) \<and> ap_workspace_id r = cq_workspace_id c \<and>
     ap_workflow_run_id r = cq_workflow_run_id c \<and>
     (ap_status r = ''granted'' \<or> ap_status r = ''not_required'' \<and> is_sandbox_environment (cq_environment c)) \<and>
     \<not> detail_mismatch pv r ''policy_decision_ref'' (the (cq_policy_decision_ref c)) \<and>
     \<not> missing (ap_decided_by r) \<and>
     (missing (cq_approval_decided_by c) \<or> cq_approval_decided_by c = ap_decided_by r) \<and>
     (unset_stamp (ap_expires_at r) \<or>
        (\<exists>t. parse_approval_timestamp pv (the (ap_expires_at r)) = Some t \<and> now < t))"

lemma expires_at_allows:
  "approval_expires_at_from_record pv now r = (Allow, e) \<Longrightarrow>
   unset_stamp (ap_expires_at r) \<or>
     (\<exists>t. parse_approval_timestamp pv (the (ap_expires_at r)) = Some t \<and> now < t)"
  by (auto simp: approval_expires_at_from_record_def unset_stamp_def Let_def
      split: option.splits stamp.splits list.splits if_splits)

lemma status_allows:
  "approval_status_result pv c r = Allow \<Longrightarrow>
   ap_status r = ''granted'' \<or> ap_status r = ''not_required'' \<and> is_sandbox_environment (cq_environment c)"
  by (auto simp: approval_status_result_def Let_def split: if_splits)

lemma get_workflow_approval_keys:
  "get_workflow_approval a w g = Some r \<Longrightarrow> r \<in> set (gs_approvals g) \<and> ap_approval_id r = a \<and> ap_workspace_id r = w"
  by (auto simp: get_workflow_approval_def find_Some_iff)

lemma recorded_approval_allows:
  assumes "evaluate_recorded_approval pv now g c = (Allow, ev)" and "command_requires_recorded_approval pv c"
  shows "\<exists>r e. r \<in> set (gs_approvals g) \<and> granting_approval pv now c r \<and> ev = Some e \<and>
    Some (ae_decided_by e) = ap_decided_by r"
proof -
  from assms obtain r where r: "get_workflow_approval (the (cq_approval_ref c)) (cq_workspace_id c) g = Some r"
    "ap_workflow_run_id r = cq_workflow_run_id c" "approval_status_result pv c r = Allow"
    "\<not> detail_mismatch pv r ''policy_decision_ref'' (the (cq_policy_decision_ref c))"
    "\<not> missing (ap_decided_by r)"
    "missing (cq_approval_decided_by c) \<or> cq_approval_decided_by c = ap_decided_by r"
    "\<exists>x. approval_expires_at_from_record pv now r = (Allow, x)"
    "\<exists>e. ev = Some e \<and> ae_decided_by e = the (ap_decided_by r)"
    by (auto simp: evaluate_recorded_approval_def Let_def
        split: if_splits option.splits policy_result.splits prod.splits)
  moreover have "\<exists>d. ap_decided_by r = Some d" using r(5) by (auto simp: missing_def split: option.splits)
  ultimately show ?thesis
    using get_workflow_approval_keys [OF r(1)] status_allows [OF r(3)] expires_at_allows
    by (fastforce simp: granting_approval_def)
qed

lemma gates_allow:
  assumes "gates pv now g c = (Allow, ev)"
  shows "auto_selected c \<longrightarrow> env_enabled pv ''AUTO_COMMANDS_ENABLED''"
    and "evaluate_management_guard pv g c = Allow" and "evaluate_direct_execution_confirmation c = Allow"
    and "evaluate_command_policy pv c = Allow" and "evaluate_recorded_approval pv now g c = (Allow, ev)"
  using assms by (auto simp: gates_def split: if_splits policy_result.splits)

lemma handler_cases:
  assumes "handle_command_requested pv now i g corr c s = Inr (s', evs)"
  obtains (rejected) reason code ev where "gates pv now g c = (Reject reason code, ev)"
      "close_operation now (build_plan pv c corr None) reason s = Inr s'"
      "evs = [CommandRejected reason code (to_body command_requested_body (requested_value c))]"
    | (queued) ev p where "gates pv now g c = (Allow, ev)" "p = build_plan pv c corr ev"
      "queue_plan_for_agent pv now i corr p s = Inr (s', True)"
      "evs = [CommandDispatched p (route_for_plan p), CommandQueuedForAgent p]"
    | (refused) ev p s1 where "gates pv now g c = (Allow, ev)" "p = build_plan pv c corr ev"
      "queue_plan_for_agent pv now i corr p s = Inr (s1, False)"
      "close_operation now p ''agent command could not be queued'' s1 = Inr s'"
      "evs = [CommandDispatched p (route_for_plan p), CommandRejected ''agent command could not be queued'' None
         (to_body command_requested_body (requested_value c))]"
  using assms
  by (auto simp: handle_command_requested_def reject_operation_def Let_def
      split: prod.splits policy_result.splits sum.splits bool.splits)

text \<open>
  Claim C7. A command is announced as queued for an agent only if it passed every gate:
  its action is registered and allowed in its namespace, which is the namespace of its change
  and, where the action is bound to the control policy, an allowed one and never the
  management namespace; an automatically selected command needs the automation switch; a
  direct command was confirmed; on a management cluster it only reads; and a write that needs
  an approval has one on record for this workflow, granted, signed and unexpired, unless the
  environment is exempt. The plan carries the person who decided that approval.
\<close>

theorem queued_command_passed_gates:
  assumes "handle_command_requested pv now i g corr c s = Inr (s', evs)" and "CommandQueuedForAgent p \<in> set evs"
  shows "\<exists>sp. policy_passed pv c sp \<and>
    (auto_selected c \<longrightarrow> env_enabled pv ''AUTO_COMMANDS_ENABLED'') \<and>
    (cq_direct_execution c \<longrightarrow> cq_direct_execution_confirmed c) \<and>
    (\<not> cq_direct_execution c \<and> \<not> sp_read_only sp \<longrightarrow>
       \<not> is_management_registration (get_cluster_registration (cq_workspace_id c) (cq_cluster_id c) g) \<and>
       \<not> is_management_role (cluster_role_from_policy (ce_render (pv_command pv))
           (get_cluster_policy (cq_workspace_id c) (cq_cluster_id c) g))) \<and>
    (\<not> cq_direct_execution c \<and> requires_approval_for is_sandbox_environment sp (cq_namespace c) \<and>
       \<not> approval_exempt_for_environment pv c \<longrightarrow>
       (\<exists>r \<in> set (gs_approvals g). granting_approval pv now c r \<and> fp_approval_decided_by p = ap_decided_by r))"
proof -
  from assms obtain ev where ok: "gates pv now g c = (Allow, ev)" and p: "p = build_plan pv c corr ev"
    by (cases rule: handler_cases [OF assms(1), case_names rejected queued refused]) auto
  note G = gates_allow [OF ok]
  obtain sp where sp: "policy_passed pv c sp" using command_policy_allows [OF G(4)] by blast
  then have spec: "command_action_spec pv (cq_action c) = Some sp" by (simp add: policy_passed_def)
  have "\<exists>r \<in> set (gs_approvals g). granting_approval pv now c r \<and> fp_approval_decided_by p = ap_decided_by r"
    if "\<not> cq_direct_execution c" "requires_approval_for is_sandbox_environment sp (cq_namespace c)"
      "\<not> approval_exempt_for_environment pv c"
  proof -
    from that spec have "command_requires_recorded_approval pv c"
      by (simp add: command_requires_recorded_approval_def)
    from recorded_approval_allows [OF G(5) this] obtain r e where "r \<in> set (gs_approvals g)"
      "granting_approval pv now c r" "ev = Some e" "Some (ae_decided_by e) = ap_decided_by r" by blast
    then show ?thesis by (auto simp: p build_plan_def Let_def evidence_decided_by_def)
  qed
  moreover have "\<not> is_management_registration (get_cluster_registration (cq_workspace_id c) (cq_cluster_id c) g) \<and>
      \<not> is_management_role (cluster_role_from_policy (ce_render (pv_command pv))
          (get_cluster_policy (cq_workspace_id c) (cq_cluster_id c) g))"
    if "\<not> cq_direct_execution c" "\<not> sp_read_only sp"
    using G(2) that spec by (auto simp: evaluate_management_guard_def split: if_splits)
  moreover have "cq_direct_execution c \<longrightarrow> cq_direct_execution_confirmed c"
    using G(3) by (auto simp: evaluate_direct_execution_confirmation_def split: if_splits)
  ultimately show ?thesis using sp G(1) by blast
qed

section \<open>Closing the operation\<close>

lemma plan_fields [simp]:
  "pl_command_id (plan.truncate p) = pl_command_id p" "pl_cluster_id (plan.truncate p) = pl_cluster_id p"
  "pl_action (plan.truncate p) = pl_action p" "pl_workspace_id (plan.truncate p) = pl_workspace_id p"
  by (simp_all add: plan.truncate_def)

lemma build_plan_keys [simp]:
  "pl_workspace_id (build_plan pv c corr ev) = Some (cq_workspace_id c)"
  "pl_cluster_id (build_plan pv c corr ev) = or_default (cq_cluster_id c) ''default-target-cluster''"
  "pl_command_id (build_plan pv c corr ev) =
     (if missing (cq_command_id c) then ''cmd-'' @ take 32 (idempotency_key pv c corr ev) else the (cq_command_id c))"
  by (simp_all add: build_plan_def Let_def)

text \<open>The row a request means: same workspace and cluster.\<close>

definition row_of_request :: "command_requested \<Rightarrow> command_row \<Rightarrow> bool" where
  "row_of_request c row \<longleftrightarrow>
     ac_workspace_id row = cq_workspace_id c \<and>
     ac_cluster_id row = or_default (cq_cluster_id c) ''default-target-cluster''"

lemma cmds_row: "cmds s k = Some c \<Longrightarrow> c \<in> set (db_commands s) \<and> ac_command_id c = k"
  unfolding cmds_def by (rule lookup_Some_in)

lemma fail_logical_outcome:
  assumes inv: "command_inv env s" and step: "fail_logical_command_and_stage_event now ws cmd cl reason s = Inr (s', r)"
  shows "db_attempts s' = db_attempts s \<and> (\<forall>j. j \<noteq> cmd \<longrightarrow> cmds s' j = cmds s j) \<and>
    (case cmds s cmd of
       None \<Rightarrow> s' = s
     | Some c \<Rightarrow> if ac_workspace_id c = ws \<and> ac_cluster_id c = cl \<and> ac_status c = Queued
                then (\<exists>c'. cmds s' cmd = Some c' \<and> ac_status c' = Failed) \<and> \<not> stream_open s' ws cmd
                else s' = s)"
proof -
  let ?p = "\<lambda>c. ac_workspace_id c = ws \<and> ac_command_id c = cmd \<and> ac_cluster_id c = cl \<and> ac_status c = Queued"
  have L: "linked s" using inv by (simp add: command_inv_def)
  note inv' = fail_logical_inv [OF inv step]
  show ?thesis
  proof (cases "find ?p (db_commands s)")
    case None
    then have "s' = s" using step by (simp add: fail_logical_command_and_stage_event_def Let_def)
    moreover have "\<not> ?p c" if "cmds s cmd = Some c" for c
      using None cmds_row [OF that] by (auto simp: find_None_iff)
    moreover have "ac_command_id c = cmd" if "cmds s cmd = Some c" for c
      using cmds_row [OF that] by simp
    ultimately show ?thesis by (auto split: option.splits)
  next
    case (Some c)
    from find_command [OF L Some] have c: "cmds s cmd = Some c" "?p c" by auto
    let ?f = "\<lambda>c. c\<lparr>ac_status := Failed, ac_result := result_object Failed reason @ [(''retryable'', JBool False)],
      ac_completed_at := Some now, ac_updated_at := now\<rparr>"
    from Some step obtain pl where app: "append_command_operation_event_in_transaction now ws cmd KFailed cl pl
         (s\<lparr>db_commands := update_where ?p ?f (db_commands s)\<rparr>) = Inr (s', r)"
      by (simp add: fail_logical_command_and_stage_event_def Let_def)
    have at: "db_attempts s' = db_attempts s" using append_tables(2) [OF app] by simp
    have cm: "cmds s' j = map_option (\<lambda>c. if ?p c then ?f c else c) (cmds s j)" for j
      using append_tables(1) [OF app] by (simp add: cmds_def lookup_update_where)
    have "cmds s' j = cmds s j" if "j \<noteq> cmd" for j
      using that cmds_row [of s j] by (cases "cmds s j") (auto simp: cm)
    moreover have here: "cmds s' cmd = Some (?f c)" using c by (simp add: cm)
    moreover have "\<not> stream_open s' ws cmd"
      using command_invD(4) [OF inv' here] c(2) retry_refusal_result [of "?f c" env]
      by (auto simp: consistent_def active_simps)
    ultimately show ?thesis using at c by auto
  qed
qed

lemma plan_workspace_build [simp]: "plan_workspace (plan.truncate (build_plan pv c corr ev)) = cq_workspace_id c"
  by (simp add: plan_workspace_def)

lemma queue_refused: "queue_plan_for_agent pv now i corr p s = Inr (s1, False) \<Longrightarrow> s1 = s"
  by (auto simp: queue_plan_for_agent_def queue_agent_command_def split: if_splits prod.splits sum.splits)

lemma close_outcome:
  assumes inv: "command_inv env s" and ok: "close_operation now (build_plan pv c corr ev) reason s = Inr s'"
    and id: "\<not> missing (cq_command_id c)"
  shows "db_attempts s' = db_attempts s \<and> (\<forall>j. j \<noteq> the (cq_command_id c) \<longrightarrow> cmds s' j = cmds s j) \<and>
    (case cmds s (the (cq_command_id c)) of
       None \<Rightarrow> s' = s
     | Some row \<Rightarrow>
         if row_of_request c row \<and> ac_status row = Queued
         then (\<exists>row'. cmds s' (the (cq_command_id c)) = Some row' \<and> ac_status row' = Failed) \<and>
              \<not> stream_open s' (cq_workspace_id c) (the (cq_command_id c))
         else s' = s)"
proof -
  from ok id obtain r where "fail_logical_command_and_stage_event now (cq_workspace_id c) (the (cq_command_id c))
      (or_default (cq_cluster_id c) ''default-target-cluster'') reason s = Inr (s', r)"
    by (auto simp: close_operation_def split: sum.splits)
  from fail_logical_outcome [OF inv this] show ?thesis
    by (auto simp: row_of_request_def split: option.splits if_splits)
qed

text \<open>
  A rejected request, whichever gate refused it, never leaves a waiting
  operation behind: if the command accepted with the request is still queued it is failed and
  its stream is closed, a command that has moved on, another command and every attempt stay
  as they are, and nothing is announced as queued.
\<close>

theorem rejection_closes_the_operation:
  assumes "commands_reachable (pv_command pv) s" and "\<not> missing (cq_command_id c)"
    and "handle_command_requested pv now i g corr c s = Inr (s', evs)" and "CommandRejected reason code req \<in> set evs"
  shows "db_attempts s' = db_attempts s \<and> (\<forall>j. j \<noteq> the (cq_command_id c) \<longrightarrow> cmds s' j = cmds s j) \<and>
    (case cmds s (the (cq_command_id c)) of
       None \<Rightarrow> s' = s
     | Some row \<Rightarrow>
         if row_of_request c row \<and> ac_status row = Queued
         then (\<exists>row'. cmds s' (the (cq_command_id c)) = Some row' \<and> ac_status row' = Failed) \<and>
              \<not> stream_open s' (cq_workspace_id c) (the (cq_command_id c))
         else s' = s) \<and>
    list_all (\<lambda>e. case e of CommandQueuedForAgent p \<Rightarrow> False | _ \<Rightarrow> True) evs"
proof -
  note inv = commands_reachable_inv [OF assms(1)]
  have "(\<exists>ev reason. close_operation now (build_plan pv c corr ev) reason s = Inr s') \<and>
      list_all (\<lambda>e. case e of CommandQueuedForAgent p \<Rightarrow> False | _ \<Rightarrow> True) evs"
    using assms(4)
    by (cases rule: handler_cases [OF assms(3), case_names rejected queued refused])
      (auto dest: queue_refused)
  with close_outcome [OF inv _ assms(2)] show ?thesis by blast
qed

text \<open>
  Claim C8. A request that is processed again while its command is still waiting for
  an agent destroys it: the queue refuses the second projection, the handler takes that for
  a failure, and the waiting command is failed and its stream closed, although its attempt is
  still there to be run. Whatever the gates say the second time, the outcome is the same, so
  the conflict clause that is meant to make queueing idempotent does not make the handler so.
\<close>

theorem repeated_request_fails_waiting_command:
  assumes "commands_reachable (pv_command pv) s" and "\<not> missing (cq_command_id c)"
    and "cmds s (the (cq_command_id c)) = Some row" and "row_of_request c row" and "ac_status row = Queued"
    and "ac_active_attempt_id row = Some a"
    and "handle_command_requested pv now i g corr c s = Inr (s', evs)"
  shows "(\<exists>row'. cmds s' (the (cq_command_id c)) = Some row' \<and> ac_status row' = Failed) \<and>
    \<not> stream_open s' (cq_workspace_id c) (the (cq_command_id c)) \<and> db_attempts s' = db_attempts s \<and>
    (\<exists>reason code. last evs = CommandRejected reason code (to_body command_requested_body (requested_value c)))"
proof -
  note inv = commands_reachable_inv [OF assms(1)]
  have blocked: "queue_plan_for_agent pv now i corr (build_plan pv c corr ev) s \<noteq> Inr (s2, True)" for ev s2
    using assms(2,3,6)
    by (auto simp: queue_plan_for_agent_def queue_agent_command_def agent_command_queue_upsert_def
        unprojected_def simp flip: cmds_def)
  have "(\<exists>ev reason. close_operation now (build_plan pv c corr ev) reason s = Inr s') \<and>
      (\<exists>reason code. last evs = CommandRejected reason code (to_body command_requested_body (requested_value c)))"
    by (cases rule: handler_cases [OF assms(7), case_names rejected queued refused])
      (auto simp: blocked dest: queue_refused)
  with close_outcome [OF inv _ assms(2)] assms(3-5) show ?thesis by force
qed

text \<open>
  The handler is a run of the command domain: from a reachable state, with a
  fresh attempt identifier and no foreign command under the request's identifier, it ends in
  a reachable state, so every property of the command domain holds of the commands it queues
  or rejects.
\<close>

theorem handler_stays_in_the_command_domain:
  assumes "commands_reachable (pv_command pv) s" and "\<not> missing (cq_command_id c)" and "fresh_attempt i s"
    and "case cmds s (the (cq_command_id c)) of None \<Rightarrow> True | Some row \<Rightarrow> row_of_request c row"
    and "handle_command_requested pv now i g corr c s = Inr (s', evs)"
  shows "commands_reachable (pv_command pv) s'"
proof -
  have close: "commands_reachable (pv_command pv) s2"
    if "close_operation now' (build_plan pv c corr ev) reason s = Inr s2" for now' ev reason s2
  proof -
    from that obtain r where "fail_logical_command_and_stage_event now' (cq_workspace_id c)
        (pl_command_id (build_plan pv c corr ev)) (pl_cluster_id (build_plan pv c corr ev)) reason s = Inr (s2, r)"
      by (auto simp: close_operation_def split: sum.splits)
    from commands_reachable_step [OF assms(1) command_step.reject [OF this]] show ?thesis .
  qed
  have queue: "commands_reachable (pv_command pv) s2"
    if q: "queue_plan_for_agent pv now i corr (build_plan pv c corr ev) s = Inr (s2, True)" for ev s2
  proof -
    have "plan_matches (plan.truncate (build_plan pv c corr ev)) s"
      using assms(2,4) by (auto simp: plan_matches_def row_of_request_def split: option.splits)
    from commands_reachable_step [OF assms(1) command_step.queue [OF assms(3) this
      q [unfolded queue_plan_for_agent_def]]] show ?thesis .
  qed
  show ?thesis
    by (cases rule: handler_cases [OF assms(5), case_names rejected queued refused])
      (auto intro: close queue dest: queue_refused)
qed

section \<open>Witnesses\<close>

definition demo_pv :: policy_env where
  "demo_pv = \<lparr>pv_command = demo_env, pv_getenv = (\<lambda>_. None), pv_fromisoformat = (\<lambda>_. None),
     pv_isoformat = (\<lambda>_. ''t''), pv_digest = (\<lambda>_. ''digest''), pv_lease_seconds = 60, pv_heartbeat_seconds = 20\<rparr>"

definition demo_diff :: gitops_diff where
  "demo_diff = \<lparr>df_resource = ''d'', df_namespace = ''sandbox'', df_desired_image = ''i'', df_actual_image = ''j'',
     df_risk = ''sandbox-only'', df_workspace_id = ''w'', df_repository_id = [], df_watch_target_id = [],
     df_binding_id = [], df_application_id = [], df_workflow_run_id = [], df_environment = ''sandbox'',
     df_cluster_id = ''k'', df_manifest_path = ''deploy.yaml'', df_resource_class = ''application'',
     df_desired_manifest = [], df_status = ''legacy_image_diff'', df_has_changes = True, df_changes = [],
     df_basis = []\<rparr>"

definition demo_scale_request :: command_requested where
  "demo_scale_request = \<lparr>cq_cluster_id = ''k'', cq_action = ''scale'', cq_namespace = ''sandbox'', cq_reason = ''r'',
     cq_diff = demo_diff, cq_command_id = Some ''c'', cq_workspace_id = ''w'', cq_application_id = [],
     cq_workflow_run_id = ''run'', cq_binding_id = [], cq_environment = ''prod'', cq_priority = 0,
     cq_requested_by = Some ''u'', cq_actor = None, cq_approval_ref = Some ''ap'',
     cq_policy_decision_ref = Some ''pd'', cq_approval_decided_by = None, cq_approval_expires_at = None,
     cq_direct_execution = False, cq_direct_execution_confirmed = False, cq_payload = []\<rparr>"

definition demo_approval :: approval_row where
  "demo_approval = \<lparr>ap_approval_id = ''ap'', ap_workflow_run_id = ''run'', ap_workspace_id = ''w'',
     ap_application_id = [], ap_binding_id = [], ap_environment = ''prod'', ap_status = ''granted'', ap_reason = [],
     ap_requested_role = [], ap_requested_by = None, ap_decided_by = Some ''boss'', ap_decision = None,
     ap_details = JObj [(''policy_decision_ref'', JStr ''pd'')], ap_expires_at = Some (Stamp 100)\<rparr>"

definition demo_gates :: "time \<Rightarrow> db \<Rightarrow> db_error + db \<times> handler_event list" where
  "demo_gates now = handle_command_requested demo_pv now ''a1''
     \<lparr>gs_approvals = [demo_approval], gs_registrations = [], gs_policies = []\<rparr> ''corr'' demo_scale_request"

lemma demo_pv_command [simp]: "pv_command demo_pv = demo_env"
  by (simp add: demo_pv_def)

lemma demo_scale_request_id [simp]: "cq_command_id demo_scale_request = Some ''c''" "\<not> missing (Some ''c'')"
  by (simp_all add: demo_scale_request_def missing_def)

text \<open>Granted and in time, the request is queued; after the approval ran out it is rejected.\<close>

lemma demo_gates_run:
  "\<not> isl (demo_gates 9 demo_accepted)" "\<not> isl (demo_gates 100 demo_accepted)" "\<not> isl (demo_gates 9 demo_queued)"
  "list_ex (\<lambda>e. case e of CommandQueuedForAgent p \<Rightarrow> True | _ \<Rightarrow> False) (snd (projr (demo_gates 9 demo_accepted)))"
  "map (\<lambda>e. case e of CommandRejected r _ _ \<Rightarrow> r | _ \<Rightarrow> []) (snd (projr (demo_gates 100 demo_accepted))) =
     [''write command approval is expired'']"
  by code_simp+

theorem queued_command_passed_gates_witness:
  "\<exists>sp. policy_passed demo_pv demo_scale_request sp \<and> sp_requires_approval sp \<and>
     granting_approval demo_pv 9 demo_scale_request demo_approval"
proof -
  obtain s' evs where h: "demo_gates 9 demo_accepted = Inr (s', evs)"
    using demo_gates_run(1) by (cases "demo_gates 9 demo_accepted") auto
  then obtain e where e: "e \<in> set evs" "case e of CommandQueuedForAgent p \<Rightarrow> True | _ \<Rightarrow> False"
    using demo_gates_run(4) by (auto simp: list_ex_iff)
  obtain p where "e = CommandQueuedForAgent p" using e(2) by (cases e) simp_all
  with e have "CommandQueuedForAgent p \<in> set evs" by simp
  from queued_command_passed_gates [OF h [unfolded demo_gates_def] this]
  obtain sp where sp: "policy_passed demo_pv demo_scale_request sp"
    "\<not> cq_direct_execution demo_scale_request \<and> requires_approval_for is_sandbox_environment sp (cq_namespace demo_scale_request) \<and>
       \<not> approval_exempt_for_environment demo_pv demo_scale_request \<longrightarrow> granting_approval demo_pv 9 demo_scale_request demo_approval"
    by auto
  have spec: "map_option sp_requires_approval (command_action_spec demo_pv (cq_action demo_scale_request)) = Some True"
    "\<not> approval_exempt_for_environment demo_pv demo_scale_request" "\<not> cq_direct_execution demo_scale_request"
    by code_simp+
  with sp(1) have "sp_requires_approval sp" by (auto simp: policy_passed_def)
  with sp spec show ?thesis by (auto simp: requires_approval_for_def)
qed

theorem rejection_closes_the_operation_witness:
  "\<exists>s' evs row'. demo_gates 100 demo_accepted = Inr (s', evs) \<and> cmds s' ''c'' = Some row' \<and> ac_status row' = Failed"
proof -
  obtain s' evs where h: "demo_gates 100 demo_accepted = Inr (s', evs)"
    using demo_gates_run(2) by (cases "demo_gates 100 demo_accepted") auto
  then obtain e code req where "evs = [e]" "e = CommandRejected ''write command approval is expired'' code req"
    using demo_gates_run(5) by (cases "hd evs") (auto simp: map_eq_Cons_conv)
  then have "CommandRejected ''write command approval is expired'' code req \<in> set evs" by simp
  from rejection_closes_the_operation [OF _ _ h [unfolded demo_gates_def] this] demo_reachable(1)
  have "(case cmds demo_accepted ''c'' of None \<Rightarrow> s' = demo_accepted
      | Some row \<Rightarrow> if row_of_request demo_scale_request row \<and> ac_status row = Queued
          then (\<exists>row'. cmds s' ''c'' = Some row' \<and> ac_status row' = Failed) \<and>
               \<not> stream_open s' (cq_workspace_id demo_scale_request) ''c''
          else s' = demo_accepted)" by (auto split: option.splits)
  moreover have "map_option (\<lambda>r. (row_of_request demo_scale_request r, ac_status r)) (cmds demo_accepted ''c'')
      = Some (True, Queued)" by code_simp
  ultimately show ?thesis using h by (auto split: option.splits)
qed

theorem repeated_request_fails_waiting_command_witness:
  "\<exists>s' evs row'. demo_gates 9 demo_queued = Inr (s', evs) \<and> cmds s' ''c'' = Some row' \<and> ac_status row' = Failed"
proof -
  obtain s' evs where h: "demo_gates 9 demo_queued = Inr (s', evs)"
    using demo_gates_run(3) by (cases "demo_gates 9 demo_queued") auto
  have "map_option (\<lambda>r. (row_of_request demo_scale_request r, ac_status r, ac_active_attempt_id r)) (cmds demo_queued ''c'')
      = Some (True, Queued, Some ''a1'')" by code_simp
  then obtain row where "cmds demo_queued ''c'' = Some row" "row_of_request demo_scale_request row"
    "ac_status row = Queued" "ac_active_attempt_id row = Some ''a1''" by auto
  with repeated_request_fails_waiting_command [OF _ _ _ _ _ _ h [unfolded demo_gates_def]] h demo_reachable(2)
  show ?thesis by auto
qed

theorem handler_stays_in_the_command_domain_witness:
  "\<exists>s' evs. demo_gates 9 demo_accepted = Inr (s', evs) \<and> commands_reachable demo_env s'"
proof -
  obtain s' evs where h: "demo_gates 9 demo_accepted = Inr (s', evs)"
    using demo_gates_run(1) by (cases "demo_gates 9 demo_accepted") auto
  have "case cmds demo_accepted ''c'' of None \<Rightarrow> True | Some row \<Rightarrow> row_of_request demo_scale_request row" by code_simp
  with handler_stays_in_the_command_domain [OF _ _ _ _ h [unfolded demo_gates_def]] h
    demo_reachable(1) demo_side_conditions(1) show ?thesis by simp
qed

end
