(* ===== verification/Gitops_Diff.thy ===== *)
theory Gitops_Diff
  imports Command_Policy
begin

text \<open>
  The three-way comparison of managed fields (\<^verbatim>\<open>src/src/domains/gitops/diffing.py\<close>), the part
  of the diff worker that runs it (\<^verbatim>\<open>src/src/services/gitops/diff-worker/app.py\<close>) and the route
  the analyser picks from its result (\<^verbatim>\<open>src/src/services/gitops/diff-analyze-worker/app.py\<close>).
  Kubernetes objects are JSON; \<open>render\<close> is Python's text of floats and containers.
\<close>

section \<open>Equality of values\<close>

text \<open>
  \<^verbatim>\<open>==\<close> on JSON values: booleans and floats equal the integer of the same value, dictionaries
  are equal up to the order of their keys.
\<close>

fun number_of :: "json \<Rightarrow> rat option" where
  "number_of (JBool b) = Some (if b then 1 else 0)"
| "number_of (JInt n) = Some (of_int n)"
| "number_of (JFloat q) = Some q"
| "number_of _ = None"

fun py_eq :: "json \<Rightarrow> json \<Rightarrow> bool"
  and py_eq_items :: "json list \<Rightarrow> json list \<Rightarrow> bool"
  and py_eq_fields :: "jobj \<Rightarrow> jobj \<Rightarrow> bool" where
  "py_eq JNull w = (w = JNull)"
| "py_eq (JStr s) w = (w = JStr s)"
| "py_eq (JArr xs) w = (case w of JArr ys \<Rightarrow> py_eq_items xs ys | _ \<Rightarrow> False)"
| "py_eq (JObj d) w = (case w of JObj e \<Rightarrow> length d = length e \<and> py_eq_fields d e | _ \<Rightarrow> False)"
| "py_eq v w = (case number_of w of None \<Rightarrow> False | Some q \<Rightarrow> number_of v = Some q)"
| "py_eq_items [] ys = (ys = [])"
| "py_eq_items (x # xs) ys = (case ys of [] \<Rightarrow> False | y # ys' \<Rightarrow> py_eq x y \<and> py_eq_items xs ys')"
| "py_eq_fields [] e = True"
| "py_eq_fields ((k, v) # d) e =
     ((case jget e k of None \<Rightarrow> False | Some w \<Rightarrow> py_eq v w) \<and> py_eq_fields d e)"

definition MISSING :: json where
  "MISSING = JStr ''<missing>''"

text \<open>\<^verbatim>\<open>_declared_value_matches_live\<close>.\<close>

fun declared_value_matches_live :: "json \<Rightarrow> json \<Rightarrow> bool"
  and declared_items_match :: "json list \<Rightarrow> json list \<Rightarrow> bool"
  and declared_fields_match :: "jobj \<Rightarrow> jobj \<Rightarrow> bool" where
  "declared_value_matches_live (JObj d) live =
     (case live of JObj l \<Rightarrow> declared_fields_match d l | _ \<Rightarrow> False)"
| "declared_value_matches_live (JArr xs) live =
     (case live of JArr ys \<Rightarrow> length xs = length ys \<and> declared_items_match xs ys | _ \<Rightarrow> False)"
| "declared_value_matches_live v live = py_eq v live"
| "declared_items_match [] ys = True"
| "declared_items_match (x # xs) ys =
     (case ys of [] \<Rightarrow> True | y # ys' \<Rightarrow> declared_value_matches_live x y \<and> declared_items_match xs ys')"
| "declared_fields_match [] l = True"
| "declared_fields_match ((k, v) # d) l =
     ((case jget l k of None \<Rightarrow> False | Some w \<Rightarrow> declared_value_matches_live v w) \<and>
      declared_fields_match d l)"

section \<open>Managed fields of an object\<close>

record field_snapshot =
  fs_resource :: string
  fs_namespace :: string
  fs_fields :: jobj
  fs_source :: string

definition resource_ref :: "string \<Rightarrow> string \<Rightarrow> string" where
  "resource_ref kind resource_name = ascii_lower kind @ ''/'' @ resource_name"

definition as_mapping :: "json option \<Rightarrow> jobj" where
  "as_mapping v = (case v of Some (JObj d) \<Rightarrow> d | _ \<Rightarrow> [])"

definition text_of :: "(json \<Rightarrow> string) \<Rightarrow> json option \<Rightarrow> string \<Rightarrow> string" where
  "text_of render v dflt = (case v of None \<Rightarrow> dflt | Some x \<Rightarrow> py_str render x)"

text \<open>\<^verbatim>\<open>if key in d: fields[path] = d[key]\<close>.\<close>

definition copy_field :: "jobj \<Rightarrow> string \<Rightarrow> string \<Rightarrow> jobj \<Rightarrow> jobj" where
  "copy_field d key path flds =
     (case jget d key of None \<Rightarrow> flds | Some v \<Rightarrow> AList.update path v flds)"

definition json_items :: "json option \<Rightarrow> json list" where
  "json_items v = (case v of Some (JArr xs) \<Rightarrow> xs | _ \<Rightarrow> [])"

definition container_fields :: "(json \<Rightarrow> string) \<Rightarrow> json \<Rightarrow> jobj \<Rightarrow> jobj" where
  "container_fields render item flds =
     (let container = as_mapping (Some item);
          path = ''spec.template.spec.containers[name='' @
                 text_of render (jget container ''name'') ''unnamed'' @ '']''
      in fold (\<lambda>key. copy_field container key (path @ ''.'' @ key))
           [''image'', ''env'', ''envFrom'', ''resources'', ''readinessProbe'', ''livenessProbe'',
            ''startupProbe''] flds)"

definition volume_fields :: "(json \<Rightarrow> string) \<Rightarrow> json \<Rightarrow> jobj \<Rightarrow> jobj" where
  "volume_fields render item flds =
     (let volume = as_mapping (Some item);
          path = ''spec.template.spec.volumes[name='' @
                 text_of render (jget volume ''name'') ''unnamed'' @ '']''
      in fold (\<lambda>key. copy_field volume key (path @ ''.'' @ key)) [''configMap'', ''secret''] flds)"

definition deployment_fields :: "(json \<Rightarrow> string) \<Rightarrow> jobj \<Rightarrow> jobj" where
  "deployment_fields render obj =
     (let spec = as_mapping (jget obj ''spec'');
          pod_spec = as_mapping (jget (as_mapping (jget spec ''template'')) ''spec'')
      in fold (volume_fields render) (json_items (jget pod_spec ''volumes''))
           (fold (container_fields render) (json_items (jget pod_spec ''containers''))
             (copy_field spec ''replicas'' ''spec.replicas'' [])))"

definition service_fields :: "jobj \<Rightarrow> jobj" where
  "service_fields obj =
     fold (\<lambda>key. copy_field (as_mapping (jget obj ''spec'')) key (''spec.'' @ key))
       [''type'', ''selector'', ''ports''] []"

definition configmap_fields :: "jobj \<Rightarrow> jobj" where
  "configmap_fields obj = fold (\<lambda>key. copy_field obj key key) [''data'', ''binaryData''] []"

definition extract_managed_fields :: "(json \<Rightarrow> string) \<Rightarrow> jobj \<Rightarrow> jobj" where
  "extract_managed_fields render obj =
     (let kind = text_of render (jget obj ''kind'') []
      in if kind = ''Deployment'' then deployment_fields render obj
         else if kind = ''Service'' then service_fields obj
         else if kind = ''ConfigMap'' then configmap_fields obj
         else [])"

definition extract_declared_field_paths :: "(json \<Rightarrow> string) \<Rightarrow> jobj \<Rightarrow> string list" where
  "extract_declared_field_paths render obj = sort (map fst (extract_managed_fields render obj))"

definition snapshot_from_kubernetes_object ::
    "(json \<Rightarrow> string) \<Rightarrow> jobj \<Rightarrow> string \<Rightarrow> field_snapshot" where
  "snapshot_from_kubernetes_object render obj source =
     (let metadata = as_mapping (jget obj ''metadata'')
      in \<lparr>fs_resource = resource_ref (text_of render (jget obj ''kind'') ''Unknown'')
                         (text_of render (jget metadata ''name'') ''unknown''),
          fs_namespace = text_of render (jget metadata ''namespace'') ''default'',
          fs_fields = extract_managed_fields render obj,
          fs_source = source\<rparr>)"

section \<open>The comparison\<close>

datatype field_class =
    NoChange
  | AlreadyConverged
  | IntendedChange
  | Drift
  | ConflictOrManualChange
  | AdoptionRequired

record field_change =
  fc_field_path :: string
  fc_classification :: field_class
  fc_old_desired :: json
  fc_live :: json
  fc_new_desired :: json
  fc_before :: json
  fc_after :: json

definition value_or_missing :: "jobj option \<Rightarrow> string \<Rightarrow> json" where
  "value_or_missing values path =
     (case values of
        None \<Rightarrow> MISSING
      | Some d \<Rightarrow> (case jget d path of None \<Rightarrow> MISSING | Some v \<Rightarrow> v))"

definition classify_field_change :: "json \<Rightarrow> json \<Rightarrow> json \<Rightarrow> field_class" where
  "classify_field_change old live new =
     (if py_eq old MISSING
      then (if declared_value_matches_live new live then AlreadyConverged else AdoptionRequired)
      else let old_matches_live = declared_value_matches_live old live;
               new_matches_live = declared_value_matches_live new live;
               desired_unchanged = py_eq old new
           in if old_matches_live \<and> new_matches_live \<and> desired_unchanged then NoChange
              else if new_matches_live then AlreadyConverged
              else if old_matches_live then IntendedChange
              else if desired_unchanged then Drift
              else ConflictOrManualChange)"

definition apply_field_policy :: "jobj \<Rightarrow> string list option \<Rightarrow> string list \<Rightarrow> jobj" where
  "apply_field_policy flds managed ignored =
     filter (\<lambda>(path, v). (case managed of None \<Rightarrow> True | Some m \<Rightarrow> path \<in> set m) \<and> path \<notin> set ignored) flds"

definition change_of :: "string \<Rightarrow> field_class \<Rightarrow> json \<Rightarrow> json \<Rightarrow> json \<Rightarrow> field_change" where
  "change_of path cls old live new =
     \<lparr>fc_field_path = path, fc_classification = cls, fc_old_desired = old, fc_live = live,
      fc_new_desired = new, fc_before = live, fc_after = new\<rparr>"

text \<open>The paths the loop runs over, in order, and its body.\<close>

definition compared_paths :: "jobj option \<Rightarrow> jobj \<Rightarrow> jobj \<Rightarrow> string list" where
  "compared_paths old live new =
     sort (remdups (map fst (case old of None \<Rightarrow> [] | Some d \<Rightarrow> d) @ map fst live @ map fst new))"

definition path_change :: "jobj option \<Rightarrow> jobj \<Rightarrow> jobj \<Rightarrow> string \<Rightarrow> field_change list" where
  "path_change old live new path =
     (let old_value = value_or_missing old path;
          live_value = value_or_missing (Some live) path;
          new_value = value_or_missing (Some new) path;
          cls = classify_field_change old_value live_value new_value
      in if cls = NoChange then [] else [change_of path cls old_value live_value new_value])"

definition compare_managed_fields ::
    "jobj option \<Rightarrow> jobj \<Rightarrow> jobj \<Rightarrow> string list option \<Rightarrow> string list \<Rightarrow> field_change list" where
  "compare_managed_fields old_desired live new_desired managed ignored =
     (let old' = map_option (\<lambda>d. apply_field_policy d managed ignored) old_desired;
          live' = apply_field_policy live managed ignored;
          new' = apply_field_policy new_desired managed ignored
      in concat (map (path_change old' live' new') (compared_paths old' live' new')))"

definition build_adoption_required_changes :: "jobj \<Rightarrow> jobj \<Rightarrow> string list \<Rightarrow> field_change list" where
  "build_adoption_required_changes live new_desired unknown_fields =
     concat (map (\<lambda>path.
       let live_value = value_or_missing (Some live) path;
           new_value = value_or_missing (Some new_desired) path
       in if py_eq live_value MISSING \<and> py_eq new_value MISSING then []
          else [change_of path AdoptionRequired MISSING live_value new_value])
       (sort (remdups unknown_fields)))"

definition summarize_status :: "field_change list \<Rightarrow> string" where
  "summarize_status changes =
     (let classes = map fc_classification changes
      in if ConflictOrManualChange \<in> set classes then ''review_required''
         else if AdoptionRequired \<in> set classes then ''adoption_required''
         else if IntendedChange \<in> set classes then ''intended_change''
         else if Drift \<in> set classes then ''drift''
         else if AlreadyConverged \<in> set classes then ''already_converged''
         else ''no_change'')"

section \<open>The diff worker\<close>

record rendered_manifest =
  rm_api_version :: string
  rm_kind :: string
  rm_name :: string
  rm_namespace :: string
  rm_image :: string
  rm_replicas :: int
  rm_resource_class :: string
  rm_manifest :: jobj
  rm_declared_fields :: "string list"
  rm_managed_fields :: "string list"
  rm_ignored_fields :: "string list"
  rm_last_approved_snapshot :: jobj
  rm_artifact_digest :: string

text \<open>\<^verbatim>\<open>RenderedManifest\<close> has no \<^verbatim>\<open>rendered_object\<close>, so that branch of the source is not taken.\<close>

definition rendered_manifest_to_object :: "rendered_manifest \<Rightarrow> jobj" where
  "rendered_manifest_to_object r =
     (if rm_manifest r \<noteq> [] then rm_manifest r
      else [(''apiVersion'', JStr (rm_api_version r)), (''kind'', JStr (rm_kind r)),
            (''metadata'', JObj [(''name'', JStr (rm_name r)), (''namespace'', JStr (rm_namespace r))]),
            (''spec'', JObj [(''replicas'', JInt (rm_replicas r)),
               (''template'', JObj [(''spec'', JObj [(''containers'',
                  JArr [JObj [(''name'', JStr (rm_name r)), (''image'', JStr (rm_image r))]])])])])])"

definition snapshot_from_rendered_manifest :: "(json \<Rightarrow> string) \<Rightarrow> rendered_manifest \<Rightarrow> field_snapshot" where
  "snapshot_from_rendered_manifest render r =
     snapshot_from_kubernetes_object render (rendered_manifest_to_object r) ''rendered_manifest''"

record field_policy =
  fy_declared_fields :: "string list"
  fy_managed_fields :: "string list"
  fy_ignored_fields :: "string list"
  fy_unknown_fields :: "string list"
  fy_last_approved_snapshot :: jobj
  fy_source :: string

definition sorted_set :: "string list \<Rightarrow> string list" where
  "sorted_set xs = sort (remdups xs)"

text \<open>\<open>required\<close> is the setting \<^verbatim>\<open>GITOPS_REQUIRE_APPROVED_SNAPSHOT\<close>.\<close>

definition load_field_policy :: "(json \<Rightarrow> string) \<Rightarrow> bool \<Rightarrow> rendered_manifest \<Rightarrow> field_policy" where
  "load_field_policy render required r =
     (let declared = sorted_set (if rm_declared_fields r \<noteq> [] then rm_declared_fields r
            else extract_declared_field_paths render (rendered_manifest_to_object r));
          ignored = sorted_set (rm_ignored_fields r);
          explicit_policy = (rm_managed_fields r \<noteq> [] \<or> rm_ignored_fields r \<noteq> [] \<or> rm_last_approved_snapshot r \<noteq> []);
          (managed, source) =
            (if explicit_policy
             then (if sorted_set (rm_managed_fields r) = [] \<and> rm_last_approved_snapshot r \<noteq> []
                   then sorted_set (map fst (rm_last_approved_snapshot r))
                   else sorted_set (rm_managed_fields r), ''rendered_policy'')
             else if required then ([], ''missing_approved_policy'')
             else (declared, ''dev_declared_fields_fallback''))
      in \<lparr>fy_declared_fields = declared, fy_managed_fields = managed, fy_ignored_fields = ignored,
          fy_unknown_fields = filter (\<lambda>f. f \<notin> set managed \<and> f \<notin> set ignored) declared,
          fy_last_approved_snapshot = rm_last_approved_snapshot r, fy_source = source\<rparr>)"

definition load_previous_desired_snapshot :: "bool \<Rightarrow> field_snapshot \<Rightarrow> field_policy \<Rightarrow> field_snapshot" where
  "load_previous_desired_snapshot required live policy =
     (if fy_last_approved_snapshot policy \<noteq> []
      then live\<lparr>fs_fields := fy_last_approved_snapshot policy, fs_source := ''last_approved_snapshot''\<rparr>
      else if required then live\<lparr>fs_fields := [], fs_source := ''missing_last_approved_snapshot''\<rparr>
      else live\<lparr>fs_source := ''dev_previous_live_fallback''\<rparr>)"

text \<open>The changes \<^verbatim>\<open>build_desired_diff\<close> computes, with the live snapshot it has loaded.\<close>

definition desired_changes ::
    "(json \<Rightarrow> string) \<Rightarrow> bool \<Rightarrow> rendered_manifest \<Rightarrow> field_snapshot \<Rightarrow> field_change list" where
  "desired_changes render required r live =
     (let policy = load_field_policy render required r;
          new_desired = snapshot_from_rendered_manifest render r;
          old_desired = load_previous_desired_snapshot required live policy;
          changes = compare_managed_fields (Some (fs_fields old_desired)) (fs_fields live) (fs_fields new_desired)
                      (Some (fy_managed_fields policy)) (fy_ignored_fields policy);
          changes' = (if fs_source live = ''inventory_resource_missing'' \<and>
                         fs_source old_desired = ''last_approved_snapshot''
                      then filter (\<lambda>c. \<not> py_eq (fc_old_desired c) (fc_new_desired c)) changes
                      else changes)
      in changes' @ build_adoption_required_changes (fs_fields live) (fs_fields new_desired)
                      (fy_unknown_fields policy))"

definition has_actionable_changes :: "field_change list \<Rightarrow> bool" where
  "has_actionable_changes changes = list_ex (\<lambda>c. fc_classification c \<noteq> AlreadyConverged) changes"

datatype risk_level = SandboxOnly | NonSandboxNamespace | ReviewRequired

fun risk_text :: "risk_level \<Rightarrow> string" where
  "risk_text SandboxOnly = ''sandbox-only''"
| "risk_text NonSandboxNamespace = ''non-sandbox-namespace''"
| "risk_text ReviewRequired = ''review-required''"

definition risk_for_diff :: "string \<Rightarrow> string \<Rightarrow> string \<Rightarrow> risk_level" where
  "risk_for_diff ns status environment =
     (if ns \<noteq> ''sandbox'' then NonSandboxNamespace
      else if classify_environment environment = EnvProduction \<and> status \<noteq> ''no_change'' then ReviewRequired
      else if status \<in> {''review_required'', ''adoption_required''} then ReviewRequired
      else SandboxOnly)"

section \<open>The analyser\<close>

datatype decision_reason = NoDiffReason | NoActionableChangeReason | SafeReason | UnsafeReason

record policy_decision =
  pd_route :: string
  pd_safe :: bool
  pd_reason :: decision_reason
  pd_approval_ref :: "string option"
  pd_policy_decision_ref :: "string option"

text \<open>\<^verbatim>\<open>a or b\<close> on strings.\<close>

definition or_else :: "string \<Rightarrow> string \<Rightarrow> string" where
  "or_else a b = (if a = [] then b else a)"

definition resource_approval_qualifier :: "string \<Rightarrow> string \<Rightarrow> string \<Rightarrow> string" where
  "resource_approval_qualifier ns resource digest =
     or_else (py_strip ns) ''cluster'' @ ''|'' @ or_else (ascii_lower (py_strip resource)) ''resource'' @ ''|'' @
     py_strip digest"

definition approval_qualifier :: "(json \<Rightarrow> string) \<Rightarrow> gitops_diff \<Rightarrow> string" where
  "approval_qualifier render d =
     resource_approval_qualifier (df_namespace d) (df_resource d)
       (case jget (df_basis d) ''artifact_digest'' of
          None \<Rightarrow> []
        | Some v \<Rightarrow> if py_truthy v then py_str render v else [])"

text \<open>\<open>sha256\<close> is the hexadecimal digest of a text.\<close>

definition derive_approval_id :: "(string \<Rightarrow> string) \<Rightarrow> string \<Rightarrow> string \<Rightarrow> string" where
  "derive_approval_id sha256 workflow_run_id qualifier =
     ''approval-'' @ take 32 (sha256 (workflow_run_id @ ''|'' @ or_else qualifier ''deploy-approval''))"

definition policy_decision_ref :: "string \<Rightarrow> string \<Rightarrow> string" where
  "policy_decision_ref approval_ref route = ''policy-decision:'' @ approval_ref @ '':'' @ route"

definition evaluate_safe_pr_policy ::
    "(string \<Rightarrow> string) \<Rightarrow> (json \<Rightarrow> string) \<Rightarrow> gitops_diff \<Rightarrow> policy_decision" where
  "evaluate_safe_pr_policy sha256 render d =
     (if is_image_only_noop d
      then \<lparr>pd_route = ''noop'', pd_safe = False, pd_reason = NoDiffReason, pd_approval_ref = None,
            pd_policy_decision_ref = None\<rparr>
      else if \<not> df_has_changes d
      then \<lparr>pd_route = ''noop'', pd_safe = False, pd_reason = NoActionableChangeReason, pd_approval_ref = None,
            pd_policy_decision_ref = None\<rparr>
      else let approval_ref = derive_approval_id sha256 (df_workflow_run_id d) (approval_qualifier render d)
           in if df_risk d = risk_text SandboxOnly
              then \<lparr>pd_route = ''safe_pr'', pd_safe = True, pd_reason = SafeReason,
                    pd_approval_ref = Some approval_ref,
                    pd_policy_decision_ref = Some (policy_decision_ref approval_ref ''safe_pr'')\<rparr>
              else \<lparr>pd_route = ''approval_required'', pd_safe = False, pd_reason = UnsafeReason,
                    pd_approval_ref = Some approval_ref,
                    pd_policy_decision_ref = Some (policy_decision_ref approval_ref ''approval_required'')\<rparr>)"

section \<open>What the comparison decides\<close>

lemma settled_iff:
  "classify_field_change old live new \<in> {NoChange, AlreadyConverged} \<longleftrightarrow> declared_value_matches_live new live"
  by (auto simp: classify_field_change_def Let_def)

lemma path_change_paths: "map fc_field_path (path_change old live new path) \<in> {[], [path]}"
  by (auto simp: path_change_def Let_def change_of_def)

lemma path_change_actionable:
  "has_actionable_changes (path_change old live new path) \<longleftrightarrow>
   \<not> declared_value_matches_live (value_or_missing (Some new) path) (value_or_missing (Some live) path)"
  using settled_iff [of "value_or_missing old path" "value_or_missing (Some live) path"]
  by (auto simp: path_change_def has_actionable_changes_def Let_def change_of_def)

lemma concat_paths:
  "(\<And>p. map fc_field_path (f p) \<in> {[], [p]}) \<Longrightarrow>
   map fc_field_path (concat (map f ps)) = filter (\<lambda>p. f p \<noteq> []) ps"
proof (induction ps)
  case (Cons p ps)
  have "map fc_field_path (f p) = (if f p \<noteq> [] then [p] else [])" using Cons.prems [of p] by auto
  with Cons show ?case by simp
qed simp

lemma actionable_concat:
  "has_actionable_changes (concat (map f ps)) \<longleftrightarrow> list_ex (\<lambda>p. has_actionable_changes (f p)) ps"
  by (induction ps) (auto simp: has_actionable_changes_def)

text \<open>
  Claim C21. The three-way comparison reports every field path at most once, in order, and
  it calls for an action exactly when the live object does not satisfy the new desired value
  of some compared path; the previously desired values only decide which paths are compared
  and how a change is labelled.
\<close>

theorem comparison_is_actionable_iff_unsatisfied:
  "(let changes = compare_managed_fields old live new managed ignored;
        live' = apply_field_policy live managed ignored;
        new' = apply_field_policy new managed ignored
    in sorted (map fc_field_path changes) \<and> distinct (map fc_field_path changes) \<and>
       has_actionable_changes changes =
         list_ex (\<lambda>path. \<not> declared_value_matches_live (value_or_missing (Some new') path)
                                                      (value_or_missing (Some live') path))
           (compared_paths (map_option (\<lambda>d. apply_field_policy d managed ignored) old) live' new'))"
proof -
  let ?old = "map_option (\<lambda>d. apply_field_policy d managed ignored) old"
  let ?live = "apply_field_policy live managed ignored" and ?new = "apply_field_policy new managed ignored"
  have c: "compare_managed_fields old live new managed ignored =
      concat (map (path_change ?old ?live ?new) (compared_paths ?old ?live ?new))"
    by (simp only: compare_managed_fields_def Let_def)
  have paths: "map fc_field_path (concat (map (path_change ?old ?live ?new) (compared_paths ?old ?live ?new))) =
      filter (\<lambda>p. path_change ?old ?live ?new p \<noteq> []) (compared_paths ?old ?live ?new)"
    by (rule concat_paths) (rule path_change_paths)
  have "sorted (compared_paths ?old ?live ?new)" "distinct (compared_paths ?old ?live ?new)"
    by (simp_all add: compared_paths_def)
  then show ?thesis
    by (simp add: c paths actionable_concat path_change_actionable sorted_wrt_filter Let_def)
qed

section \<open>A removed key\<close>

text \<open>A Service whose selector has the given labels, as a manifest declares it.\<close>

definition selector_labels :: "(string \<times> string) list \<Rightarrow> jobj" where
  "selector_labels kvs = map (\<lambda>(k, t). (k, JStr t)) kvs"

definition selector_object :: "json \<Rightarrow> (string \<times> string) list \<Rightarrow> jobj" where
  "selector_object metadata kvs =
     [(''kind'', JStr ''Service''), (''metadata'', metadata),
      (''spec'', JObj [(''selector'', JObj (selector_labels kvs))])]"

lemma selector_managed:
  "extract_managed_fields render (selector_object m kvs) = [(''spec.selector'', JObj (selector_labels kvs))]"
  by (simp add: extract_managed_fields_def selector_object_def service_fields_def as_mapping_def copy_field_def jget_def text_of_def py_str_def)

lemma kept_labels_match:
  "distinct (map fst kvs) \<Longrightarrow> set kept \<subseteq> set kvs \<Longrightarrow>
   declared_fields_match (selector_labels kept) (selector_labels kvs)"
proof (induction kept)
  case (Cons e kept)
  obtain k t where e: "e = (k, t)" by (cases e)
  have "map fst (selector_labels kvs) = map fst kvs"
    by (simp add: selector_labels_def comp_def case_prod_beta)
  moreover have "(k, JStr t) \<in> set (selector_labels kvs)"
    using Cons.prems(2) e by (force simp: selector_labels_def)
  ultimately have "jget (selector_labels kvs) k = Some (JStr t)"
    using Cons.prems(1) by (simp add: jget_def)
  with Cons e show ?case by (simp add: selector_labels_def)
qed (simp add: selector_labels_def)

text \<open>
  When a commit removes labels from the selector of a Service that was
  approved and applied as it was, the comparison finds nothing to do: the remaining labels
  are a subset of what is live, which the comparison takes for agreement, so the change
  counts as already converged, the diff has no actionable change and the analyser routes it
  to a no-op. The removed labels stay in force in the cluster, under every field policy.
\<close>

theorem removed_labels_are_never_applied:
  assumes "distinct (map fst kvs)"
  shows "(let old = extract_managed_fields render (selector_object m kvs);
              new = extract_managed_fields render (selector_object m (filter keep kvs));
              changes = compare_managed_fields (Some old) old new managed ignored
    in summarize_status changes \<in> {''no_change'', ''already_converged''} \<and> \<not> has_actionable_changes changes \<and>
       pd_route (evaluate_safe_pr_policy sha256 render (d\<lparr>df_has_changes := has_actionable_changes changes\<rparr>)) = ''noop'')"
proof -
  let ?old = "[(''spec.selector'', JObj (selector_labels kvs))]"
  let ?new = "[(''spec.selector'', JObj (selector_labels (filter keep kvs)))]"
  have m: "declared_value_matches_live (JObj (selector_labels (filter keep kvs))) (JObj (selector_labels kvs))"
    using kept_labels_match [OF assms, of "filter keep kvs"] by auto
  have idle: "\<not> has_actionable_changes (compare_managed_fields (Some ?old) ?old ?new managed ignored)"
  proof -
    have "(case managed of None \<Rightarrow> True | Some f \<Rightarrow> ''spec.selector'' \<in> set f) \<and> ''spec.selector'' \<notin> set ignored \<or>
        apply_field_policy ?old managed ignored = [] \<and> apply_field_policy ?new managed ignored = []"
      by (auto simp: apply_field_policy_def)
    then show ?thesis
      using m
      by (auto simp: compare_managed_fields_def Let_def compared_paths_def actionable_concat
          path_change_actionable value_or_missing_def jget_def apply_field_policy_def)
  qed
  then have "fc_classification ` set (compare_managed_fields (Some ?old) ?old ?new managed ignored) \<subseteq> {AlreadyConverged}"
    by (auto simp: has_actionable_changes_def list_ex_iff)
  then have "summarize_status (compare_managed_fields (Some ?old) ?old ?new managed ignored)
      \<in> {''no_change'', ''already_converged''}"
    by (auto simp: summarize_status_def Let_def)
  with idle show ?thesis
    by (simp add: selector_managed Let_def evaluate_safe_pr_policy_def)
qed

theorem removed_labels_are_never_applied_witness:
  "\<not> has_actionable_changes (compare_managed_fields
      (Some [(''spec.selector'', JObj [(''a'', JStr ''1''), (''b'', JStr ''2'')])])
      [(''spec.selector'', JObj [(''a'', JStr ''1''), (''b'', JStr ''2'')])]
      [(''spec.selector'', JObj [(''a'', JStr ''1'')])] None [])"
proof -
  have "distinct (map fst [(''a'', ''1''), (''b'', ''2'')])" by simp
  from removed_labels_are_never_applied [OF this, of "\<lambda>_. []" JNull "\<lambda>(k, t). k = ''a''" None "[]"]
  show ?thesis by (simp add: selector_managed selector_labels_def Let_def)
qed

end
