(* ===== verification/Release_Preview.thy ===== *)
theory Release_Preview
  imports Gitops_Diff Git_Webhook
begin

text \<open>
  The preview of a release plan (\<^verbatim>\<open>src/src/domains/release_flow/preview.py\<close>): its steps name the
  applications they depend on, the preview rejects a graph it cannot order and otherwise gives
  every step the wave it runs in. Steps and settings are JSON objects; \<open>render\<close> is Python's text
  of floats and containers.
\<close>

section \<open>Values of a plan\<close>

definition mapping_value :: "json option \<Rightarrow> jobj" where
  "mapping_value v = as_mapping v"

definition list_value :: "json option \<Rightarrow> json list" where
  "list_value v = json_items v"

text \<open>\<^verbatim>\<open>[x for x in xs if isinstance(x, Mapping)]\<close>.\<close>

definition objects :: "json list \<Rightarrow> jobj list" where
  "objects vs = concat (map (\<lambda>v. case v of JObj d \<Rightarrow> [d] | _ \<Rightarrow> []) vs)"

definition int_like :: "json option \<Rightarrow> int \<Rightarrow> int" where
  "int_like v dflt =
     (case v of None \<Rightarrow> dflt | Some x \<Rightarrow> (case py_int x of Some n \<Rightarrow> n | None \<Rightarrow> dflt))"

definition application_id :: "(json \<Rightarrow> string) \<Rightarrow> jobj \<Rightarrow> string" where
  "application_id render step = text_or render step ''application_id'' []"

definition deps_for :: "(json \<Rightarrow> string) \<Rightarrow> jobj \<Rightarrow> string list" where
  "deps_for render step = map (py_str render) (filter py_truthy (list_value (jget step ''depends_on'')))"

definition first_environment_or_empty :: "(json \<Rightarrow> string) \<Rightarrow> jobj \<Rightarrow> string" where
  "first_environment_or_empty render settings =
     (case list_value (jget settings ''environment_order'') of [] \<Rightarrow> [] | v # _ \<Rightarrow> py_str render v)"

section \<open>The dependency graph\<close>

type_synonym dep_graph = "(string \<times> string list) list"

text \<open>A dictionary built from pairs: a repeated key keeps its place and takes the later value.\<close>

definition dict_of :: "(string \<times> 'v) list \<Rightarrow> (string \<times> 'v) list" where
  "dict_of kvs = fold (\<lambda>(k, v) d. AList.update k v d) kvs []"

definition graph_keys :: "dep_graph \<Rightarrow> string set" where
  "graph_keys g = fst ` set g"

text \<open>\<^verbatim>\<open>graph.get(app_id, [])\<close>.\<close>

definition graph_deps :: "dep_graph \<Rightarrow> string \<Rightarrow> string list" where
  "graph_deps g a = (case map_of g a of None \<Rightarrow> [] | Some ds \<Rightarrow> ds)"

text \<open>
  The depth-first walk of \<^verbatim>\<open>has_cycle\<close>: \<open>visiting\<close> is the path from the start, innermost first,
  \<open>visited\<close> lists the finished applications in the order they finish.
\<close>

function walk :: "dep_graph \<Rightarrow> string list \<Rightarrow> string list \<Rightarrow> string \<Rightarrow> bool \<times> string list"
  and walk_deps :: "dep_graph \<Rightarrow> string list \<Rightarrow> string list \<Rightarrow> string list \<Rightarrow> bool \<times> string list" where
  "walk g visiting visited a =
     (if a \<in> set visiting then (True, visited)
      else if a \<in> set visited then (False, visited)
      else case walk_deps g (a # visiting) visited (graph_deps g a) of
        (found, seen) \<Rightarrow> if found then (True, seen) else (False, seen @ [a]))"
| "walk_deps g visiting visited [] = (False, visited)"
| "walk_deps g visiting visited (d # ds) =
     (if d \<in> fst ` set g
      then case walk g visiting visited d of
        (found, seen) \<Rightarrow> if found then (True, seen) else walk_deps g visiting seen ds
      else walk_deps g visiting visited ds)"
  by pat_completeness auto

termination
proof (relation "inv_image (less_than <*lex*> less_than)
    (case_sum (\<lambda>(g, visiting, visited, a). (card (insert a (fst ` set g) - set visiting), 0))
              (\<lambda>(g, visiting, visited, ds). (card (fst ` set g - set visiting), Suc (length ds))))",
    goal_cases)
  case (2 g visiting visited a)
  have "fst ` set g - set (a # visiting) \<subset> insert a (fst ` set g) - set visiting"
    using 2 by auto
  then have "card (fst ` set g - set (a # visiting)) < card (insert a (fst ` set g) - set visiting)"
    by (intro psubset_card_mono) simp_all
  then show ?case by simp
qed (auto simp: insert_absorb)

definition has_cycle :: "dep_graph \<Rightarrow> bool" where
  "has_cycle g = fst (walk_deps g [] [] (map fst g))"

text \<open>The waves: every round takes the applications whose dependencies are done.\<close>

definition ready_apps :: "string list \<Rightarrow> dep_graph \<Rightarrow> string list" where
  "ready_apps completed remaining =
     sort (map fst (filter (\<lambda>(a, ds). set ds \<subseteq> set completed) remaining))"

lemma set_ready_apps: "set (ready_apps completed remaining) = {a. \<exists>ds. (a, ds) \<in> set remaining \<and> set ds \<subseteq> set completed}"
  by (force simp: ready_apps_def)

function waves_from :: "int \<Rightarrow> string list \<Rightarrow> (string \<times> int) list \<Rightarrow> dep_graph \<Rightarrow> (string \<times> int) list" where
  "waves_from wave completed acc remaining =
     (if remaining = [] then acc
      else let ready = ready_apps completed remaining
           in if ready = [] then []
              else waves_from (wave + 1) (completed @ ready) (acc @ map (\<lambda>a. (a, wave)) ready)
                     (filter (\<lambda>(a, ds). a \<notin> set ready) remaining))"
  by pat_completeness auto

termination
proof (relation "measure (\<lambda>(_, _, _, remaining). length remaining)", goal_cases)
  case (2 wave completed acc remaining ready)
  then have "ready \<noteq> []" by simp
  then obtain a where "a \<in> set ready" using list.set_sel(1) by blast
  with 2 obtain ds where "(a, ds) \<in> set remaining" by (auto simp: set_ready_apps)
  with \<open>a \<in> set ready\<close> have "length (filter (\<lambda>(a, ds). a \<notin> set ready) remaining) < length remaining"
    by (intro length_filter_less) auto
  then show ?case by simp
qed simp

declare waves_from.simps [simp del] walk.simps [simp del]

definition step_graph :: "(json \<Rightarrow> string) \<Rightarrow> jobj list \<Rightarrow> dep_graph" where
  "step_graph render steps = dict_of (map (\<lambda>s. (application_id render s, deps_for render s)) steps)"

definition dependency_waves :: "(json \<Rightarrow> string) \<Rightarrow> jobj list \<Rightarrow> (string \<times> int) list" where
  "dependency_waves render steps = waves_from 1 [] [] (step_graph render steps)"

section \<open>The walk finds exactly the cycles\<close>

definition dep_edges :: "dep_graph \<Rightarrow> (string \<times> string) set" where
  "dep_edges g = {(a, d). a \<in> graph_keys g \<and> d \<in> graph_keys g \<and> d \<in> set (graph_deps g a)}"

text \<open>A list in which every dependency stands before what needs it.\<close>

fun deps_first :: "dep_graph \<Rightarrow> string set \<Rightarrow> string list \<Rightarrow> bool" where
  "deps_first g settled [] = True"
| "deps_first g settled (a # as) =
     (set (graph_deps g a) \<inter> graph_keys g \<subseteq> settled \<and> deps_first g (insert a settled) as)"

lemma deps_first_snoc:
  "deps_first g settled (as @ [a]) \<longleftrightarrow>
   deps_first g settled as \<and> set (graph_deps g a) \<inter> graph_keys g \<subseteq> settled \<union> set as"
  by (induction as arbitrary: settled) auto

lemma graph_deps_outside: "a \<notin> graph_keys g \<Longrightarrow> graph_deps g a = []"
  by (auto simp: graph_deps_def graph_keys_def split: option.split dest: map_of_SomeD intro: rev_image_eqI)

lemma walk_orders:
  "walk g visiting visited a = (False, seen) \<Longrightarrow> deps_first g {} visited \<Longrightarrow>
     deps_first g {} seen \<and> set visited \<subseteq> set seen \<and> a \<in> set seen"
  "walk_deps g visiting visited ds = (False, seen) \<Longrightarrow> deps_first g {} visited \<Longrightarrow>
     deps_first g {} seen \<and> set visited \<subseteq> set seen \<and> set ds \<inter> graph_keys g \<subseteq> set seen"
proof (induction g visiting visited a and g visiting visited ds arbitrary: seen and seen
    rule: walk_walk_deps.induct)
  case (1 g visiting visited a)
  show ?case
  proof (cases "a \<in> set visited")
    case True
    with 1 show ?thesis by (auto simp: walk.simps [of g visiting visited a] split: if_splits)
  next
    case False
    from 1(2) False obtain seen' where "a \<notin> set visiting"
      and w: "walk_deps g (a # visiting) visited (graph_deps g a) = (False, seen')"
      and s: "seen = seen' @ [a]"
      by (auto simp: walk.simps [of g visiting visited a] split: if_splits prod.splits)
    from 1(1) [OF \<open>a \<notin> set visiting\<close> False w 1(3)] show ?thesis
      unfolding s by (auto simp: deps_first_snoc)
  qed
next
  case (3 g visiting visited d ds)
  show ?case
  proof (cases "d \<in> fst ` set g")
    case True
    with 3(4) obtain seen' where w: "walk g visiting visited d = (False, seen')"
      and w': "walk_deps g visiting seen' ds = (False, seen)"
      by (auto split: if_splits prod.splits)
    from 3(1) [OF True w 3(5)] have "deps_first g {} seen'" "set visited \<subseteq> set seen'" "d \<in> set seen'"
      by simp_all
    moreover from 3(2) [OF True w [symmetric] _ w'] \<open>deps_first g {} seen'\<close>
    have "deps_first g {} seen" "set seen' \<subseteq> set seen" "set ds \<inter> graph_keys g \<subseteq> set seen" by simp_all
    ultimately show ?thesis by auto
  next
    case False
    with 3(4) have "walk_deps g visiting visited ds = (False, seen)" by simp
    from 3(3) [OF False this 3(5)] False show ?thesis by (auto simp: graph_keys_def)
  qed
qed simp

lemma walk_finds_cycle:
  "fst (walk g visiting visited a) \<Longrightarrow> \<forall>x \<in> set visiting. (x, a) \<in> (dep_edges g)\<^sup>+ \<Longrightarrow>
     \<exists>x. (x, x) \<in> (dep_edges g)\<^sup>+"
  "fst (walk_deps g visiting visited ds) \<Longrightarrow>
     \<forall>d \<in> set ds \<inter> graph_keys g. \<forall>x \<in> set visiting. (x, d) \<in> (dep_edges g)\<^sup>+ \<Longrightarrow>
     \<exists>x. (x, x) \<in> (dep_edges g)\<^sup>+"
proof (induction g visiting visited a and g visiting visited ds rule: walk_walk_deps.induct)
  case (1 g visiting visited a)
  show ?case
  proof (cases "a \<in> set visiting")
    case True
    with 1(3) show ?thesis by blast
  next
    case False
    with 1(2) have nv: "a \<notin> set visited"
      and w: "fst (walk_deps g (a # visiting) visited (graph_deps g a))"
      by (auto simp: walk.simps [of g visiting visited a] split: if_splits prod.splits)
    have reach: "(x, d) \<in> (dep_edges g)\<^sup>+"
      if "d \<in> set (graph_deps g a) \<inter> graph_keys g" and "x \<in> set (a # visiting)" for d x
    proof -
      from that(1) have "a \<in> graph_keys g" using graph_deps_outside by fastforce
      with that(1) have e: "(a, d) \<in> dep_edges g" by (simp add: dep_edges_def)
      show ?thesis
      proof (cases "x = a")
        case False
        with that(2) 1(3) have "(x, a) \<in> (dep_edges g)\<^sup>+" by simp
        then show ?thesis using e by (rule trancl_into_trancl)
      qed (use e in blast)
    qed
    show ?thesis by (rule 1(1) [OF False nv w]) (use reach in blast)
  qed
next
  case (3 g visiting visited d ds)
  show ?case
  proof (cases "d \<in> fst ` set g")
    case True
    obtain found seen where w: "walk g visiting visited d = (found, seen)" by fastforce
    show ?thesis
    proof (cases found)
      case True
      from 3(1) [OF \<open>d \<in> fst ` set g\<close>] w True 3(5) \<open>d \<in> fst ` set g\<close> show ?thesis
        by (simp add: graph_keys_def)
    next
      case False
      with 3(4) \<open>d \<in> fst ` set g\<close> w have "fst (walk_deps g visiting seen ds)" by simp
      from 3(2) [OF \<open>d \<in> fst ` set g\<close> w [symmetric] False this] 3(5) show ?thesis by simp
    qed
  next
    case False
    with 3(3-5) show ?thesis by simp
  qed
qed simp

definition place :: "string list \<Rightarrow> string \<Rightarrow> nat" where
  "place as a = length (takeWhile (\<lambda>x. x \<noteq> a) as)"

lemma deps_first_place:
  "deps_first g settled as \<Longrightarrow> a \<in> set as \<Longrightarrow> d \<in> set (graph_deps g a) \<inter> graph_keys g \<Longrightarrow>
   d \<in> settled \<or> place as d < place as a"
proof (induction as arbitrary: settled)
  case (Cons b as)
  show ?case
  proof (cases "a = b")
    case True
    with Cons.prems show ?thesis by auto
  next
    case False
    with Cons.prems Cons.IH [of "insert b settled"] have "d \<in> insert b settled \<or> place as d < place as a"
      by simp
    with False show ?thesis by (auto simp: place_def)
  qed
qed simp

lemma has_cycle_iff: "has_cycle g \<longleftrightarrow> \<not> acyclic (dep_edges g)"
proof
  assume "has_cycle g"
  then have "\<exists>x. (x, x) \<in> (dep_edges g)\<^sup>+"
    unfolding has_cycle_def by (rule walk_finds_cycle(2)) simp
  then show "\<not> acyclic (dep_edges g)" by (simp add: acyclic_def)
next
  assume cyc: "\<not> acyclic (dep_edges g)"
  show "has_cycle g"
  proof (rule ccontr)
    assume "\<not> has_cycle g"
    then obtain seen where w: "walk_deps g [] [] (map fst g) = (False, seen)"
      unfolding has_cycle_def by (metis prod.collapse)
    from walk_orders(2) [OF w] have ord: "deps_first g {} seen" and all: "graph_keys g \<subseteq> set seen"
      by (auto simp: graph_keys_def)
    have "acyclic (dep_edges g)"
    proof (rule acyclicI_order [where f = "place seen"])
      fix a d assume "(a, d) \<in> dep_edges g"
      with deps_first_place [OF ord, of a d] all show "place seen d < place seen a"
        by (auto simp: dep_edges_def)
    qed
    with cyc show False by simp
  qed
qed

section \<open>The waves respect the dependencies\<close>

text \<open>
  What a wave number promises: it comes after the waves of all dependencies, and no earlier
  wave would do, because a dependency sits in the one just before it.
\<close>

definition layered :: "dep_graph \<Rightarrow> (string \<times> int) list \<Rightarrow> string \<Rightarrow> bool" where
  "layered g w a \<longleftrightarrow>
     (\<exists>n \<ge> 1. map_of w a = Some n \<and>
        (\<forall>d \<in> set (graph_deps g a). \<exists>m < n. map_of w d = Some m) \<and>
        (1 < n \<longrightarrow> (\<exists>d \<in> set (graph_deps g a). map_of w d = Some (n - 1))))"

definition closed_graph :: "dep_graph \<Rightarrow> bool" where
  "closed_graph g \<longleftrightarrow> distinct (map fst g) \<and> (\<forall>a \<in> graph_keys g. set (graph_deps g a) \<subseteq> graph_keys g)"

definition wave_inv :: "dep_graph \<Rightarrow> int \<Rightarrow> string list \<Rightarrow> (string \<times> int) list \<Rightarrow> dep_graph \<Rightarrow> bool" where
  "wave_inv g wave completed acc remaining \<longleftrightarrow>
     map fst acc = completed \<and> set completed \<inter> graph_keys remaining = {} \<and>
     set completed \<union> graph_keys remaining = graph_keys g \<and>
     (\<forall>(a, ds) \<in> set remaining. ds = graph_deps g a) \<and>
     1 \<le> wave \<and> (wave = 1 \<longrightarrow> completed = []) \<and>
     (\<forall>(a, n) \<in> set acc. n < wave) \<and> (\<forall>a \<in> set completed. layered g acc a) \<and>
     (\<forall>(a, ds) \<in> set remaining. wave = 1 \<or>
        (\<exists>d \<in> set ds. d \<notin> set completed \<or> map_of acc d = Some (wave - 1)))"

lemma map_of_round:
  "map_of (acc @ map (\<lambda>a. (a, wave)) ready) d =
     (case map_of acc d of Some m \<Rightarrow> Some m | None \<Rightarrow> if d \<in> set ready then Some wave else None)"
proof -
  have "map_of (map (\<lambda>a. (a, wave)) ready) d = (if d \<in> set ready then Some wave else None)"
    by (induction ready) auto
  then show ?thesis by (auto simp: map_add_def split: option.split)
qed

lemma known_wave: "map fst acc = completed \<Longrightarrow> d \<in> set completed \<Longrightarrow> \<exists>m. map_of acc d = Some m \<and> (d, m) \<in> set acc"
  by (metis map_of_SomeD map_of_eq_None_iff not_Some_eq set_map)

lemma wave_inv_round:
  assumes inv: "wave_inv g wave completed acc remaining"
  defines "ready \<equiv> ready_apps completed remaining"
  shows "wave_inv g (wave + 1) (completed @ ready) (acc @ map (\<lambda>a. (a, wave)) ready)
           (filter (\<lambda>(a, ds). a \<notin> set ready) remaining) \<or> ready = []"
proof (cases "ready = []")
  case False
  define acc' where "acc' = acc @ map (\<lambda>a. (a, wave)) ready"
  have keys: "map fst acc = completed" and old: "\<forall>(a, n) \<in> set acc. n < wave" and w1: "1 \<le> wave"
    and disj: "set completed \<inter> graph_keys remaining = {}"
    and cover: "set completed \<union> graph_keys remaining = graph_keys g"
    and deps: "\<forall>(a, ds) \<in> set remaining. ds = graph_deps g a"
    and lay: "\<forall>a \<in> set completed. layered g acc a"
    and gap: "\<forall>(a, ds) \<in> set remaining. wave = 1 \<or>
        (\<exists>d \<in> set ds. d \<notin> set completed \<or> map_of acc d = Some (wave - 1))"
    using inv by (simp_all add: wave_inv_def)
  have in_ready: "a \<in> set ready \<longleftrightarrow> (\<exists>ds. (a, ds) \<in> set remaining \<and> set ds \<subseteq> set completed)" for a
    by (simp add: ready_def set_ready_apps)
  have rk: "set ready \<subseteq> graph_keys remaining" by (force simp: in_ready graph_keys_def)
  have new: "map_of acc' d = Some wave" if "d \<in> set ready" for d
  proof -
    from that rk disj have "d \<notin> set completed" by blast
    with keys have "map_of acc d = None" by (simp add: map_of_eq_None_iff flip: set_map)
    with that show ?thesis unfolding acc'_def map_of_round by simp
  qed
  have keep: "map_of acc d = Some m \<Longrightarrow> map_of acc' d = Some m" for d m
    unfolding acc'_def map_of_round by simp
  have lay_old: "layered g acc' a" if "a \<in> set completed" for a
    using lay that keep unfolding layered_def by blast
  have lay_new: "layered g acc' a" if "a \<in> set ready" for a
  proof -
    from that obtain ds where ds: "(a, ds) \<in> set remaining" "set ds \<subseteq> set completed"
      by (auto simp: in_ready)
    with deps have d: "graph_deps g a = ds" by auto
    have "\<exists>m < wave. map_of acc' x = Some m" if "x \<in> set ds" for x
      using known_wave [OF keys, of x] ds(2) that old keep by fastforce
    moreover have "\<exists>x \<in> set ds. map_of acc' x = Some (wave - 1)" if "1 < wave"
      using gap ds that keep by fastforce
    ultimately show ?thesis using new [OF that] w1 unfolding layered_def d by blast
  qed
  have "wave_inv g (wave + 1) (completed @ ready) acc' (filter (\<lambda>(a, ds). a \<notin> set ready) remaining)"
    unfolding wave_inv_def
  proof (intro conjI)
    show "map fst acc' = completed @ ready" using keys by (simp add: acc'_def o_def)
    show "set (completed @ ready) \<inter> graph_keys (filter (\<lambda>(a, ds). a \<notin> set ready) remaining) = {}"
      using disj by (auto simp: graph_keys_def)
    show "set (completed @ ready) \<union> graph_keys (filter (\<lambda>(a, ds). a \<notin> set ready) remaining) = graph_keys g"
    proof -
      have "graph_keys (filter (\<lambda>(a, ds). a \<notin> set ready) remaining) = graph_keys remaining - set ready"
        by (auto simp: graph_keys_def image_iff)
      with cover rk show ?thesis by auto
    qed
    show "\<forall>(a, n) \<in> set acc'. n < wave + 1" using old by (auto simp: acc'_def)
    show "\<forall>a \<in> set (completed @ ready). layered g acc' a" using lay_old lay_new by auto
    show "\<forall>(a, ds) \<in> set (filter (\<lambda>(a, ds). a \<notin> set ready) remaining). wave + 1 = 1 \<or>
        (\<exists>d \<in> set ds. d \<notin> set (completed @ ready) \<or> map_of acc' d = Some (wave + 1 - 1))"
    proof (clarsimp, goal_cases)
      case (1 a ds)
      then have "\<not> set ds \<subseteq> set completed" by (simp add: in_ready)
      then obtain d where "d \<in> set ds" "d \<notin> set completed" by blast
      with new [of d] 1 show ?case by auto
    qed
  qed (use deps w1 False in auto)
  then show ?thesis by (simp add: acc'_def)
qed simp

lemma some_app_is_ready:
  assumes "acyclic (dep_edges g)" and "closed_graph g" and "wave_inv g wave completed acc remaining"
    and "remaining \<noteq> []"
  shows "ready_apps completed remaining \<noteq> []"
proof -
  have "dep_edges g \<subseteq> graph_keys g \<times> graph_keys g" by (auto simp: dep_edges_def)
  then have "finite (dep_edges g)" by (rule finite_subset) (simp add: graph_keys_def)
  with assms(1) have wf: "wf ((dep_edges g)\<inverse>)" by (intro finite_acyclic_wf_converse)
  from assms(4) have "graph_keys remaining \<noteq> {}" by (simp add: graph_keys_def)
  with wf obtain a where a: "a \<in> graph_keys remaining"
    and low: "\<And>d. (a, d) \<in> dep_edges g \<Longrightarrow> d \<notin> graph_keys remaining"
    by (auto simp: wf_eq_minimal)
  then obtain ds where ds: "(a, ds) \<in> set remaining" by (auto simp: graph_keys_def)
  from assms(3) ds have "ds = graph_deps g a" by (auto simp: wave_inv_def)
  moreover have "a \<in> graph_keys g" using a assms(3) by (auto simp: wave_inv_def)
  moreover have "set (graph_deps g a) \<subseteq> graph_keys g"
    using calculation(2) assms(2) by (simp add: closed_graph_def)
  moreover have "graph_keys g \<subseteq> set completed \<union> graph_keys remaining"
    using assms(3) by (simp add: wave_inv_def)
  ultimately have "set ds \<subseteq> set completed" using low by (fastforce simp: dep_edges_def)
  with ds have "a \<in> set (ready_apps completed remaining)" by (auto simp: set_ready_apps)
  then show ?thesis by auto
qed

lemma waves_from_layers:
  "wave_inv g wave completed acc remaining \<Longrightarrow> acyclic (dep_edges g) \<Longrightarrow> closed_graph g \<Longrightarrow>
   a \<in> graph_keys g \<Longrightarrow> layered g (waves_from wave completed acc remaining) a"
proof (induction wave completed acc remaining rule: waves_from.induct)
  case (1 wave completed acc remaining)
  show ?case
  proof (cases "remaining = []")
    case True
    with 1(2,5) show ?thesis by (auto simp: waves_from.simps [of wave] wave_inv_def graph_keys_def)
  next
    case False
    with some_app_is_ready [OF 1(3,4,2)] have r: "ready_apps completed remaining \<noteq> []" by simp
    with wave_inv_round [OF 1(2)] have "wave_inv g (wave + 1) (completed @ ready_apps completed remaining)
       (acc @ map (\<lambda>a. (a, wave)) (ready_apps completed remaining))
       (filter (\<lambda>(a, ds). a \<notin> set (ready_apps completed remaining)) remaining)" by simp
    from 1(1) [OF False refl r this 1(3-5)] False r show ?thesis
      by (simp add: waves_from.simps [of wave completed acc remaining] Let_def)
  qed
qed

lemma wave_inv_start: "closed_graph g \<Longrightarrow> wave_inv g 1 [] [] g"
  by (auto simp: wave_inv_def closed_graph_def graph_deps_def graph_keys_def split: option.split)

lemma waves_layer_graph:
  "closed_graph g \<Longrightarrow> acyclic (dep_edges g) \<Longrightarrow> a \<in> graph_keys g \<Longrightarrow> layered g (waves_from 1 [] [] g) a"
  by (intro waves_from_layers wave_inv_start)

section \<open>The preview of a plan\<close>

text \<open>\<^verbatim>\<open>sorted(set(xs))\<close> of the applications that occur more than once.\<close>

definition duplicate_apps :: "string list \<Rightarrow> string list" where
  "duplicate_apps ids = sort (remdups (filter (\<lambda>a. a \<noteq> [] \<and> 1 < count_list ids a) ids))"

definition dep_blockers :: "string set \<Rightarrow> string \<Rightarrow> string \<Rightarrow> string list" where
  "dep_blockers known app dep =
     (if dep = app then [''Application '' @ app @ '' depends on itself.'']
      else if dep \<notin> known then [''Application '' @ app @ '' depends on unknown step '' @ dep @ ''.'']
      else [])"

definition step_blockers :: "(json \<Rightarrow> string) \<Rightarrow> string set \<Rightarrow> jobj \<Rightarrow> string list" where
  "step_blockers render known step =
     (let app = application_id render step
      in if app = [] then [''A release step is missing application_id.'']
         else concat (map (\<lambda>v. dep_blockers known app (py_str render v)) (list_value (jget step ''depends_on''))))"

definition graph_blockers :: "(json \<Rightarrow> string) \<Rightarrow> jobj list \<Rightarrow> string list" where
  "graph_blockers render steps =
     (let ids = map (application_id render) steps;
          known = {a \<in> set ids. a \<noteq> []};
          found = map (\<lambda>a. ''Application '' @ a @ '' appears more than once.'') (duplicate_apps ids) @
            concat (map (step_blockers render known) steps)
      in if found = [] \<and> has_cycle (step_graph render steps)
         then [''Release dependencies contain a cycle.''] else found)"

definition preview_step :: "(json \<Rightarrow> string) \<Rightarrow> jobj \<Rightarrow> nat \<Rightarrow> int option \<Rightarrow> jobj \<Rightarrow> jobj" where
  "preview_step render step index wave settings =
     (let config = mapping_value (jget step ''config'');
          app = application_id render step;
          environment = text_or render config ''environment''
            (or_default (first_environment_or_empty render settings) ''sandbox'');
          gate = text_or render config ''approval_gate'' ''inherit''
      in [(''step_id'', JStr (text_or render step ''step_id'' (''preview-step-'' @ int_text (int index)))),
          (''application_id'', JStr app),
          (''name'', JStr (text_or render step ''name'' app)),
          (''position'', JInt (int_like (jget step ''position'') (int index))),
          (''wave'', (case wave of None \<Rightarrow> JNull | Some n \<Rightarrow> JInt n)),
          (''blocked_by'', JArr (map JStr (deps_for render step))),
          (''gate'', JStr (if gate = ''inherit'' then text_or render settings ''approval_policy'' ''auto_safe'' else gate)),
          (''strategy'', JStr (text_or render config ''strategy'' (text_or render settings ''default_strategy'' ''rolling''))),
          (''environment'', JStr environment),
          (''action'', JStr (text_or render config ''execution_action'' ''render_diff_apply''))])"

definition step_wave :: "jobj \<Rightarrow> int option" where
  "step_wave step = (case jget step ''wave'' of Some (JInt n) \<Rightarrow> Some n | _ \<Rightarrow> None)"

definition grouped_waves :: "jobj list \<Rightarrow> (int \<times> jobj list) list" where
  "grouped_waves steps =
     map (\<lambda>n. (n, filter (\<lambda>s. step_wave s = Some n) steps))
       (sort (remdups (List.map_filter step_wave steps)))"

record release_preview =
  rp_plan_id :: "json option"
  rp_executable :: bool
  rp_waves :: "(int \<times> jobj list) list"
  rp_steps :: "jobj list"
  rp_blockers :: "string list"

definition build_release_plan_preview :: "(json \<Rightarrow> string) \<Rightarrow> jobj \<Rightarrow> release_preview" where
  "build_release_plan_preview render payload =
     (let steps = objects (list_value (jget payload ''steps''));
          settings = mapping_value (jget payload ''settings'');
          found = graph_blockers render steps;
          waves = (if found = [] then dependency_waves render steps else []);
          shown = map (\<lambda>(index, s). preview_step render s index (map_of waves (application_id render s)) settings)
            (enumerate 0 steps);
          blockers = found @ (if steps = [] then [''No release steps are configured.''] else [])
      in \<lparr>rp_plan_id = jget payload ''plan_id'', rp_executable = (blockers = []),
          rp_waves = grouped_waves shown, rp_steps = shown, rp_blockers = blockers\<rparr>)"

subsection \<open>A plan without blockers is ordered\<close>

lemma map_fst_update: "map fst (AList.update k v d) = (if k \<in> fst ` set d then map fst d else map fst d @ [k])"
  by (induction d) auto

lemma dict_of_distinct:
  assumes "distinct (map fst kvs)"
  shows "dict_of kvs = kvs"
proof -
  have "distinct (map fst d @ map fst kvs) \<Longrightarrow> fold (\<lambda>(k, v) d. AList.update k v d) kvs d = d @ kvs" for d
  proof (induction kvs arbitrary: d)
    case (Cons kv kvs)
    obtain k v where kv: "kv = (k, v)" by fastforce
    have "k \<notin> fst ` set d \<Longrightarrow> AList.update k v d = d @ [(k, v)]" by (induction d) auto
    with Cons kv show ?case by auto
  qed simp
  with assms show ?thesis by (simp add: dict_of_def)
qed

lemma distinct_by_counts: "(\<And>a. a \<in> set ids \<Longrightarrow> count_list ids a \<le> 1) \<Longrightarrow> distinct ids"
proof (induction ids)
  case (Cons a ids)
  from Cons.prems [of a] have "count_list ids a = 0" by simp
  then have "a \<notin> set ids" by (simp add: count_list_0_iff)
  moreover have "distinct ids"
  proof (rule Cons.IH)
    fix b assume "b \<in> set ids"
    then have "b \<in> set (a # ids)" by simp
    from Cons.prems [OF this] show "count_list ids b \<le> 1" by (cases "a = b") simp_all
  qed
  ultimately show ?case by simp
qed simp

lemma guarded_empty: "(if found = [] \<and> c then [x] else found) = [] \<longleftrightarrow> found = [] \<and> \<not> c"
  by auto

lemma no_blockers:
  assumes "graph_blockers render steps = []"
  shows "distinct (map (application_id render) steps)"
    and "step \<in> set steps \<Longrightarrow> application_id render step \<noteq> []"
    and "step \<in> set steps \<Longrightarrow> d \<in> set (deps_for render step) \<Longrightarrow> d \<in> application_id render ` set steps"
    and "\<not> has_cycle (step_graph render steps)"
proof -
  let ?ids = "map (application_id render) steps"
  let ?known = "{a \<in> set ?ids. a \<noteq> []}"
  let ?found = "map (\<lambda>a. ''Application '' @ a @ '' appears more than once.'') (duplicate_apps ?ids) @
    concat (map (step_blockers render ?known) steps)"
  from assms have "?found = [] \<and> \<not> has_cycle (step_graph render steps)"
    unfolding graph_blockers_def Let_def guarded_empty .
  then have found: "?found = []" and cyc: "\<not> has_cycle (step_graph render steps)"
    by (rule conjunct1, rule conjunct2)
  from found have dup: "duplicate_apps ?ids = []" by (simp only: append_is_Nil_conv map_is_Nil_conv)
  from found have "\<forall>blockers \<in> set (map (step_blockers render ?known) steps). blockers = []"
    unfolding append_is_Nil_conv concat_eq_Nil_conv by (rule conjunct2)
  then have sb: "step_blockers render ?known s = []" if "s \<in> set steps" for s
    using that by (simp only: set_map ball_simps)
  show "\<not> has_cycle (step_graph render steps)" by (rule cyc)
  show named: "application_id render step \<noteq> []" if "step \<in> set steps" for step
    using sb [OF that] by (auto simp: step_blockers_def Let_def split: if_splits)
  from dup have "set (duplicate_apps ?ids) = {}" by simp
  then have once: "\<not> (a \<noteq> [] \<and> 1 < count_list ?ids a)" if "a \<in> set ?ids" for a
    using that unfolding duplicate_apps_def set_sort set_remdups set_filter by blast
  show "distinct ?ids"
  proof (rule distinct_by_counts)
    fix a assume a: "a \<in> set ?ids"
    then have "a \<noteq> []" using named by auto
    with once [OF a] show "count_list ?ids a \<le> 1" by (meson not_le)
  qed
  show "d \<in> application_id render ` set steps" if "step \<in> set steps" "d \<in> set (deps_for render step)"
  proof -
    from that(2) obtain v where v: "v \<in> set (list_value (jget step ''depends_on''))" "d = py_str render v"
      by (auto simp: deps_for_def)
    from sb [OF that(1)] named [OF that(1)] v(1)
    have "dep_blockers ?known (application_id render step) d = []"
      unfolding v(2) by (auto simp: step_blockers_def Let_def)
    then show ?thesis by (auto simp: dep_blockers_def split: if_splits)
  qed
qed

lemma step_graph_no_blockers:
  assumes "graph_blockers render steps = []"
  shows "step_graph render steps = map (\<lambda>s. (application_id render s, deps_for render s)) steps"
    and "closed_graph (step_graph render steps)" and "acyclic (dep_edges (step_graph render steps))"
    and "step \<in> set steps \<Longrightarrow> graph_deps (step_graph render steps) (application_id render step) = deps_for render step"
proof -
  let ?g = "map (\<lambda>s. (application_id render s, deps_for render s)) steps"
  have "map fst ?g = map (application_id render) steps" by (simp add: o_def)
  then have d: "distinct (map fst ?g)" using no_blockers(1) [OF assms] by argo
  then show g: "step_graph render steps = ?g" by (simp add: step_graph_def dict_of_distinct del: map_map)
  show dep: "graph_deps (step_graph render steps) (application_id render step) = deps_for render step"
    if "step \<in> set steps" for step
    unfolding g graph_deps_def using map_of_is_SomeI [OF d, of "application_id render step" "deps_for render step"] that
    by (auto simp: rev_image_eqI)
  show "closed_graph (step_graph render steps)"
    unfolding closed_graph_def
  proof (intro conjI ballI)
    show "distinct (map fst (step_graph render steps))" using d g by simp
    fix a assume "a \<in> graph_keys (step_graph render steps)"
    then obtain s where s: "s \<in> set steps" "a = application_id render s" by (auto simp: g graph_keys_def)
    with dep [OF s(1)] no_blockers(3) [OF assms s(1)]
    show "set (graph_deps (step_graph render steps) a) \<subseteq> graph_keys (step_graph render steps)"
      by (auto simp: g graph_keys_def image_image)
  qed
  show "acyclic (dep_edges (step_graph render steps))"
    using no_blockers(4) [OF assms] by (simp add: has_cycle_iff)
qed

lemma no_steps_no_blockers: "graph_blockers render [] = []"
  by (simp add: graph_blockers_def duplicate_apps_def step_graph_def dict_of_def has_cycle_def)

lemma executable_preview:
  "rp_executable (build_release_plan_preview render payload) \<longleftrightarrow>
   objects (list_value (jget payload ''steps'')) \<noteq> [] \<and>
   graph_blockers render (objects (list_value (jget payload ''steps''))) = []"
  by (auto simp: build_release_plan_preview_def Let_def)

lemma step_wave_preview [simp]: "step_wave (preview_step render s i w st) = w"
  by (simp add: step_wave_def preview_step_def Let_def jget_def split: option.split)

lemma preview_application [simp]:
  "jget (preview_step render s i w st) ''application_id'' = Some (JStr (application_id render s))"
  by (simp add: preview_step_def Let_def jget_def)

lemma preview_shows:
  assumes "steps = objects (list_value (jget payload ''steps''))" and "graph_blockers render steps = []"
    and "i < length steps"
  shows "preview_step render (steps ! i) i (map_of (dependency_waves render steps) (application_id render (steps ! i)))
      (mapping_value (jget payload ''settings'')) \<in> set (rp_steps (build_release_plan_preview render payload))"
proof -
  have "(i, steps ! i) \<in> set (enumerate 0 steps)" using assms(3) by (simp add: in_set_enumerate_eq)
  then show ?thesis
    unfolding build_release_plan_preview_def Let_def assms(1) [symmetric] using assms(2) by force
qed

lemma count_distinct: "distinct ids \<Longrightarrow> count_list ids a \<le> 1"
  by (induction ids) auto

text \<open>
  Claim C22. Take a plan whose preview reports no blockers. Every step of the plan has a wave,
  starting from one, every application it depends on has an earlier wave, and one of them has the
  wave just before (a step never waits longer than its dependencies need). The waves shown are
  exactly those numbers, and the preview is executable as soon as the plan has a step.
\<close>

theorem executable_plan_is_layered:
  assumes "steps = objects (list_value (jget payload ''steps''))"
    and "graph_blockers render steps = []"
    and "step \<in> set steps"
  shows "rp_executable (build_release_plan_preview render payload) \<and>
    (\<exists>n \<ge> 1. map_of (dependency_waves render steps) (application_id render step) = Some n \<and>
       (\<exists>shown \<in> set (rp_steps (build_release_plan_preview render payload)).
          jget shown ''application_id'' = Some (JStr (application_id render step)) \<and> step_wave shown = Some n) \<and>
       (\<forall>d \<in> set (deps_for render step). \<exists>m < n. map_of (dependency_waves render steps) d = Some m) \<and>
       (1 < n \<longrightarrow> (\<exists>d \<in> set (deps_for render step). map_of (dependency_waves render steps) d = Some (n - 1))))"
proof -
  let ?g = "step_graph render steps" and ?a = "application_id render step"
  note graph = step_graph_no_blockers [OF assms(2)]
  have "?a \<in> graph_keys ?g" using assms(3) by (simp add: graph(1) graph_keys_def image_image)
  from waves_layer_graph [OF graph(2,3) this] graph(4) [OF assms(3)] obtain n where n: "1 \<le> n"
    "map_of (dependency_waves render steps) ?a = Some n"
    "\<forall>d \<in> set (deps_for render step). \<exists>m < n. map_of (dependency_waves render steps) d = Some m"
    "1 < n \<longrightarrow> (\<exists>d \<in> set (deps_for render step). map_of (dependency_waves render steps) d = Some (n - 1))"
    by (auto simp: layered_def dependency_waves_def)
  from assms(3) obtain i where i: "i < length steps" "steps ! i = step" by (auto simp: in_set_conv_nth)
  from preview_shows [OF assms(1,2) i(1)]
  have "preview_step render step i (Some n) (mapping_value (jget payload ''settings''))
      \<in> set (rp_steps (build_release_plan_preview render payload))"
    unfolding i(2) n(2) .
  with n assms show ?thesis
    by (intro conjI exI [of _ n] bexI [of _ "preview_step render step i (Some n) (mapping_value (jget payload ''settings''))"])
       (auto simp: executable_preview)
qed

text \<open>
  When nothing else is wrong with the steps, the preview reports a cycle exactly if
  the dependencies have one, and only then it gives no waves.
\<close>

theorem cycle_is_reported_exactly:
  assumes "distinct (map (application_id render) steps)"
    and "concat (map (step_blockers render {a \<in> application_id render ` set steps. a \<noteq> []}) steps) = []"
    and "[] \<notin> application_id render ` set steps"
  shows "graph_blockers render steps =
    (if acyclic {(application_id render s, d) | s d. s \<in> set steps \<and> d \<in> set (deps_for render s)}
     then [] else [''Release dependencies contain a cycle.''])"
proof -
  have dup: "duplicate_apps (map (application_id render) steps) = []"
    using count_distinct [OF assms(1)] by (simp add: duplicate_apps_def filter_empty_conv not_less)
  have "map fst (map (\<lambda>s. (application_id render s, deps_for render s)) steps) = map (application_id render) steps"
    by (simp add: o_def)
  with assms(1) have d: "distinct (map fst (map (\<lambda>s. (application_id render s, deps_for render s)) steps))"
    by argo
  then have g: "step_graph render steps = map (\<lambda>s. (application_id render s, deps_for render s)) steps"
    by (simp only: step_graph_def dict_of_distinct)
  have dep: "graph_deps (step_graph render steps) (application_id render s) = deps_for render s"
    if "s \<in> set steps" for s
    unfolding g graph_deps_def using map_of_is_SomeI [OF d, of "application_id render s" "deps_for render s"] that
    by (auto simp: rev_image_eqI)
  have known: "x \<in> application_id render ` set steps" if "s \<in> set steps" "x \<in> set (deps_for render s)" for s x
  proof -
    from that(2) obtain v where v: "v \<in> set (list_value (jget s ''depends_on''))" "x = py_str render v"
      by (auto simp: deps_for_def)
    have "step_blockers render {a \<in> application_id render ` set steps. a \<noteq> []} s = []"
      using assms(2) that(1) by simp
    moreover have "application_id render s \<noteq> []" using assms(3) that(1) by force
    ultimately have "dep_blockers {a \<in> application_id render ` set steps. a \<noteq> []} (application_id render s) x = []"
      using v by (simp add: step_blockers_def Let_def)
    then show ?thesis by (auto simp: dep_blockers_def split: if_splits)
  qed
  have "dep_edges (step_graph render steps) =
    {(application_id render s, d) | s d. s \<in> set steps \<and> d \<in> set (deps_for render s)}"
    using dep known by (auto simp: dep_edges_def graph_keys_def g image_image)
  with dup assms(2) show ?thesis
    by (simp add: graph_blockers_def Let_def has_cycle_iff)
qed

definition two_step_plan :: jobj where
  "two_step_plan =
     [(''steps'', JArr [JObj [(''application_id'', JStr ''api''), (''depends_on'', JArr [JStr ''db''])],
                        JObj [(''application_id'', JStr ''db'')]])]"

lemma two_step_plan_ok:
  "graph_blockers (\<lambda>_. []) (objects (list_value (jget two_step_plan ''steps''))) = []"
  by code_simp

lemma executable_plan_is_layered_witness:
  "\<exists>n \<ge> 1. map_of (dependency_waves (\<lambda>_. []) (objects (list_value (jget two_step_plan ''steps'')))) ''api'' = Some n"
  using executable_plan_is_layered [OF refl two_step_plan_ok,
      of "[(''application_id'', JStr ''api''), (''depends_on'', JArr [JStr ''db''])]"]
  by (auto simp: two_step_plan_def objects_def list_value_def json_items_def jget_def
      application_id_def text_or_def py_truthy_def py_str_def)

definition circular_steps :: "jobj list" where
  "circular_steps =
     [[(''application_id'', JStr ''a''), (''depends_on'', JArr [JStr ''b''])],
      [(''application_id'', JStr ''b''), (''depends_on'', JArr [JStr ''a''])]]"

lemma cycle_is_reported_exactly_witness:
  "graph_blockers (\<lambda>_. []) circular_steps = [''Release dependencies contain a cycle.'']"
proof -
  let ?r = "{(application_id (\<lambda>_. []) s, d) | s d. s \<in> set circular_steps \<and> d \<in> set (deps_for (\<lambda>_. []) s)}"
  have pair: "(application_id (\<lambda>_. []) s, d) \<in> ?r"
    if "s \<in> set circular_steps" "d \<in> set (deps_for (\<lambda>_. []) s)" for s d using that by blast
  have a: "application_id (\<lambda>_. []) (circular_steps ! 0) = ''a''" "circular_steps ! 0 \<in> set circular_steps"
    "''b'' \<in> set (deps_for (\<lambda>_. []) (circular_steps ! 0))" by code_simp+
  have b: "application_id (\<lambda>_. []) (circular_steps ! 1) = ''b''" "circular_steps ! 1 \<in> set circular_steps"
    "''a'' \<in> set (deps_for (\<lambda>_. []) (circular_steps ! 1))" by code_simp+
  from pair [OF a(2,3)] have "(''a'', ''b'') \<in> ?r" unfolding a(1) .
  moreover from pair [OF b(2,3)] have "(''b'', ''a'') \<in> ?r" unfolding b(1) .
  ultimately have "(''a'', ''a'') \<in> ?r\<^sup>+" by (rule trancl_into_trancl [OF r_into_trancl])
  then have cyc: "\<not> acyclic ?r" unfolding acyclic_def by blast
  have once: "distinct (map (application_id (\<lambda>_. [])) circular_steps)" by code_simp
  have known: "concat (map (step_blockers (\<lambda>_. []) {a \<in> application_id (\<lambda>_. []) ` set circular_steps. a \<noteq> []})
      circular_steps) = []" by code_simp
  have named: "[] \<notin> application_id (\<lambda>_. []) ` set circular_steps" by code_simp
  from cycle_is_reported_exactly [OF once known named] show ?thesis unfolding if_not_P [OF cyc] .
qed

end
