(* ===== verification/Release_Policy.thy ===== *)
theory Release_Policy
  imports Release_Preview Alert_Delivery
begin

text \<open>
  The gates in front of a release wave (\<^verbatim>\<open>src/src/domains/release_flow/policy.py\<close>,
  \<^verbatim>\<open>execution.py\<close>, \<^verbatim>\<open>verification.py\<close>, \<^verbatim>\<open>readiness.py\<close>, \<^verbatim>\<open>_support.py\<close>): each returns the
  reasons that block the wave, and a wave is dispatched only when no gate has one. What the gates
  read from the store, the standard library's URL and time parsing, the manifest renderer and the
  diagnostics of a plan are arguments.
\<close>

section \<open>Reading plans, steps and settings\<close>

text \<open>\<^verbatim>\<open>str(a.get(k) or b.get(l) or ... or default)\<close>.\<close>

fun first_truthy :: "(jobj \<times> string) list \<Rightarrow> json option" where
  "first_truthy [] = None"
| "first_truthy ((d, k) # rest) =
     (case jget d k of
        Some v \<Rightarrow> if py_truthy v then Some v else first_truthy rest
      | None \<Rightarrow> first_truthy rest)"

definition either_text :: "(json \<Rightarrow> string) \<Rightarrow> (jobj \<times> string) list \<Rightarrow> string \<Rightarrow> string" where
  "either_text render sources dflt =
     (case first_truthy sources of Some v \<Rightarrow> py_str render v | None \<Rightarrow> dflt)"

definition step_config :: "jobj \<Rightarrow> jobj" where
  "step_config step = as_mapping (jget step ''config'')"

definition plan_settings_value :: "jobj \<Rightarrow> jobj" where
  "plan_settings_value plan = as_mapping (jget plan ''settings'')"

definition plan_steps :: "jobj \<Rightarrow> jobj list" where
  "plan_steps plan = objects (json_items (jget plan ''steps''))"

definition int_field :: "jobj \<Rightarrow> string \<Rightarrow> int \<Rightarrow> int" where
  "int_field values_of field fallback =
     (case jget values_of field of
        Some (JInt n) \<Rightarrow> n
      | Some (JStr s) \<Rightarrow>
          if py_strip s \<noteq> [] \<and> list_all is_digit (py_strip s) then (case parse_int s of Some n \<Rightarrow> n | None \<Rightarrow> fallback) else fallback
      | _ \<Rightarrow> fallback)"

definition first_environment :: "(json \<Rightarrow> string) \<Rightarrow> jobj \<Rightarrow> string" where
  "first_environment render settings =
     (case json_items (jget settings ''environment_order'') of v # _ \<Rightarrow> py_str render v | [] \<Rightarrow> ''sandbox'')"

definition is_production_environment :: "string \<Rightarrow> bool" where
  "is_production_environment v = (classify_environment v = EnvProduction)"

text \<open>\<^verbatim>\<open>{str(step.get("application_id") or ""): step ...}.get(application_id, {})\<close>.\<close>

definition preview_for :: "(json \<Rightarrow> string) \<Rightarrow> jobj list \<Rightarrow> string \<Rightarrow> jobj" where
  "preview_for render shown app =
     (case find (\<lambda>s. application_id render s = app) (rev shown) of Some s \<Rightarrow> s | None \<Rightarrow> [])"

section \<open>What the gates read\<close>

record url_parts =
  ur_scheme :: string
  ur_netloc :: string
  ur_hostname :: string
  ur_path :: string

record plan_diagnostic =
  dg_severity :: string
  dg_code :: string
  dg_path :: string
  dg_message :: string

record rendered_files =
  rm_files :: "json list"
  rm_severities :: "string list"

text \<open>
  \<open>re_urlparse\<close>, \<open>re_unquote\<close>, \<open>re_float\<close> and \<open>re_fixed1\<close> are Python's \<^verbatim>\<open>urlparse\<close>, \<^verbatim>\<open>unquote\<close>,
  \<^verbatim>\<open>float\<close> of a finite number and \<^verbatim>\<open>f"{x:.1f}"\<close>; \<open>re_manifest\<close> is the manifest renderer of one step,
  \<open>re_workflow_run_id\<close> and \<open>re_patch_sha256\<close> the SHA-256 identifiers made of its results.
\<close>

record release_env =
  re_render :: "json \<Rightarrow> string"
  re_pv :: policy_env
  re_now :: time
  re_urlparse :: "string \<Rightarrow> url_parts"
  re_unquote :: "string \<Rightarrow> string"
  re_float :: "string \<Rightarrow> rat option"
  re_fixed1 :: "rat \<Rightarrow> string"
  re_diagnostics :: "jobj \<Rightarrow> plan_diagnostic list"
  re_manifest :: "jobj \<Rightarrow> nat \<Rightarrow> jobj \<Rightarrow> rendered_files"
  re_workflow_run_id :: "jobj \<Rightarrow> string"
  re_patch_sha256 :: "(string \<times> string \<times> string) list \<Rightarrow> string"

record release_reads =
  rr_application :: "string \<Rightarrow> string \<Rightarrow> jobj option"
  rr_safe_pr_evidence :: "string \<Rightarrow> string \<Rightarrow> string \<Rightarrow> nat \<Rightarrow> jobj list"
  rr_enabled_channels :: "string \<Rightarrow> jobj list"
  rr_plan :: "string \<Rightarrow> string \<Rightarrow> jobj option"

definition re_getenv :: "release_env \<Rightarrow> string \<Rightarrow> string \<Rightarrow> string" where
  "re_getenv env key dflt = getenv (re_pv env) key dflt"

section \<open>Times and URLs\<close>

definition ends_with :: "string \<Rightarrow> string \<Rightarrow> bool" where
  "ends_with s t \<longleftrightarrow> suffix t s"

definition parse_release_window_time :: "release_env \<Rightarrow> json option \<Rightarrow> time option" where
  "parse_release_window_time env v =
     (case v of
        Some (JStr s) \<Rightarrow>
          let raw = py_strip s;
              raw' = (if ends_with raw ''Z'' then take (length raw - 1) raw @ ''+00:00'' else raw)
          in if raw = [] then None
             else (case pv_fromisoformat (re_pv env) raw' of
                     None \<Rightarrow> None
                   | Some (wall, None) \<Rightarrow> Some wall
                   | Some (wall, Some offset) \<Rightarrow> Some (wall - offset))
      | _ \<Rightarrow> None)"

definition release_window_bound_label :: "release_env \<Rightarrow> time \<Rightarrow> string" where
  "release_window_bound_label env t =
     py_replace ''+00:00'' ''Z'' (pv_isoformat (re_pv env) (t - t mod second_micros))"

definition PLACEHOLDER_EVIDENCE_HOSTS :: "string list" where
  "PLACEHOLDER_EVIDENCE_HOSTS = [''127.0.0.1'', ''::1'', ''example.com'', ''example.test'', ''localhost'']"

definition live_https_url_is_valid :: "release_env \<Rightarrow> string \<Rightarrow> bool" where
  "live_https_url_is_valid env v =
     (let parsed = re_urlparse env (py_strip v); host = ascii_lower (ur_hostname parsed)
      in ascii_lower (ur_scheme parsed) = ''https'' \<and> ur_netloc parsed \<noteq> [] \<and>
         \<not> (host \<in> set PLACEHOLDER_EVIDENCE_HOSTS \<or> ends_with host ''.example.com'' \<or>
            ends_with host ''.example.test'' \<or> ends_with host ''.localhost''))"

text \<open>\<^verbatim>\<open>timedelta(hours=h)\<close> in microseconds, rounded half to even.\<close>

definition hours_micros :: "rat \<Rightarrow> time" where
  "hours_micros h =
     (let q = h * 3600000000; f = \<lfloor>q\<rfloor>; r = q - of_int f
      in if r < 1 / 2 then f else if 1 / 2 < r then f + 1 else if even f then f else f + 1)"

definition max_age_hours :: "release_env \<Rightarrow> string \<Rightarrow> rat \<Rightarrow> rat" where
  "max_age_hours env key dflt =
     (case pv_getenv (re_pv env) key of
        None \<Rightarrow> max 1 dflt
      | Some raw \<Rightarrow> (case re_float env (py_strip raw) of Some h \<Rightarrow> max 1 h | None \<Rightarrow> max 1 dflt))"

definition approval_max_age :: "release_env \<Rightarrow> time" where
  "approval_max_age env = hours_micros (max_age_hours env ''RELEASE_FLOW_APPROVAL_MAX_AGE_HOURS'' 24)"

definition safe_pr_evidence_max_age :: "release_env \<Rightarrow> time" where
  "safe_pr_evidence_max_age env =
     hours_micros (max_age_hours env ''RELEASE_FLOW_SAFE_PR_EVIDENCE_MAX_AGE_HOURS'' 24)"

definition alert_channel_validation_max_age :: "release_env \<Rightarrow> time" where
  "alert_channel_validation_max_age env =
     hours_micros (max_age_hours env ''RELEASE_FLOW_ALERT_TEST_MAX_AGE_HOURS'' 24)"

definition hours_label :: "release_env \<Rightarrow> time \<Rightarrow> string" where
  "hours_label env t =
     (let hours = of_int t / 3600000000
      in if t mod 3600000000 = 0 then int_text (t div 3600000000) @ '' hour(s)''
         else re_fixed1 env hours @ '' hour(s)'')"

definition APPROVAL_CLOCK_SKEW :: time where
  "APPROVAL_CLOCK_SKEW = 300 * second_micros"

section \<open>The execution profile and its gates\<close>

record release_profile =
  ep_runtime_mode :: string
  ep_provider_mode :: string
  ep_side_effects :: bool

definition execution_profile :: "(json \<Rightarrow> string) \<Rightarrow> jobj \<Rightarrow> release_profile" where
  "execution_profile render plan =
     (let settings = plan_settings_value plan;
          mode = either_text render [(settings, ''runtime_mode''), (settings, ''provider_mode'')] ''demo''
      in if mode = ''live''
         then \<lparr>ep_runtime_mode = ''live'', ep_provider_mode = ''live'', ep_side_effects = True\<rparr>
         else \<lparr>ep_runtime_mode = ''demo'', ep_provider_mode = ''dry_run'', ep_side_effects = False\<rparr>)"

definition live_plan :: "release_env \<Rightarrow> jobj \<Rightarrow> bool" where
  "live_plan env plan = ep_side_effects (execution_profile (re_render env) plan)"

definition live_mode_allowed :: "release_env \<Rightarrow> string \<Rightarrow> bool" where
  "live_mode_allowed env ws =
     (ascii_lower (py_strip (re_getenv env ''RELEASE_FLOW_LIVE_ENABLED'' [])) \<in>
        {''1'', ''true'', ''yes'', ''on'', ''enabled''} \<and>
      (let allowed = csv_values (re_getenv env ''RELEASE_FLOW_LIVE_WORKSPACES'' [])
       in allowed = [] \<or> ''*'' \<in> set allowed \<or> ws \<in> set allowed))"

definition requires_manual_approval :: "string \<Rightarrow> string \<Rightarrow> string \<Rightarrow> bool" where
  "requires_manual_approval policy gate environment \<longleftrightarrow>
     gate \<in> {''manual'', ''manual_each_step''} \<or> policy = ''manual_each_step'' \<or>
     policy = ''production_only'' \<and> is_production_environment environment"

definition requires_external_ticket :: "string \<Rightarrow> string \<Rightarrow> bool" where
  "requires_external_ticket policy gate \<longleftrightarrow> policy = ''external_change_ticket'' \<or> gate = ''external_change_ticket''"

definition requires_safe_pr :: "string \<Rightarrow> bool" where
  "requires_safe_pr gate \<longleftrightarrow> gate = ''safe_pr''"

definition approval_granted :: "jobj \<Rightarrow> jobj \<Rightarrow> bool" where
  "approval_granted settings config \<longleftrightarrow>
     first_truthy [(config, ''approval_granted''), (settings, ''approval_granted'')] \<noteq> None"

definition stripped_text :: "(json \<Rightarrow> string) \<Rightarrow> jobj \<Rightarrow> string \<Rightarrow> string" where
  "stripped_text render d k = py_strip (text_or render d k [])"

definition change_ticket_value :: "(json \<Rightarrow> string) \<Rightarrow> jobj \<Rightarrow> jobj \<Rightarrow> string" where
  "change_ticket_value render settings config =
     (case find (\<lambda>v. v \<noteq> [])
        (concat (map (\<lambda>d. map (stripped_text render d) [''change_ticket'', ''change_ticket_url'', ''external_change_ticket''])
          [config, settings])) of
        Some v \<Rightarrow> v | None \<Rightarrow> [])"

definition PLACEHOLDER_CHANGE_TICKETS :: "string list" where
  "PLACEHOLDER_CHANGE_TICKETS = [''CHG-PREFLIGHT'']"

definition placeholder_change_ticket :: "(json \<Rightarrow> string) \<Rightarrow> jobj \<Rightarrow> jobj \<Rightarrow> string" where
  "placeholder_change_ticket render settings config =
     (let v = change_ticket_value render settings config
      in if v \<in> set PLACEHOLDER_CHANGE_TICKETS then v else [])"

definition has_change_ticket :: "(json \<Rightarrow> string) \<Rightarrow> jobj \<Rightarrow> jobj \<Rightarrow> bool" where
  "has_change_ticket render settings config =
     (let v = change_ticket_value render settings config
      in v \<noteq> [] \<and> v \<notin> set PLACEHOLDER_CHANGE_TICKETS)"

definition safe_pr_evidence_ready :: "(json \<Rightarrow> string) \<Rightarrow> jobj \<Rightarrow> bool" where
  "safe_pr_evidence_ready render d =
     (case jget d ''safe_pr_ready'' of
        None \<Rightarrow> False
      | Some v \<Rightarrow> py_truthy v \<and>
          (let evidence = as_mapping (jget d ''safe_pr_evidence'');
               configured = stripped_text render d ''safe_pr_url'';
               url = stripped_text render evidence ''pr_url''
           in (\<forall>field \<in> set [''workflow_run_id'', ''pr_url'', ''created_at'']. stripped_text render evidence field \<noteq> []) \<and>
              (configured = [] \<or> configured = url)))"

definition has_safe_pr_ready :: "(json \<Rightarrow> string) \<Rightarrow> jobj \<Rightarrow> jobj \<Rightarrow> bool" where
  "has_safe_pr_ready render settings config \<longleftrightarrow>
     safe_pr_evidence_ready render config \<or> safe_pr_evidence_ready render settings"

text \<open>The gate of a step and the approval policy it inherits.\<close>

definition approval_policy :: "(json \<Rightarrow> string) \<Rightarrow> jobj \<Rightarrow> string" where
  "approval_policy render settings = text_or render settings ''approval_policy'' ''auto_safe''"

definition effective_gate :: "(json \<Rightarrow> string) \<Rightarrow> jobj \<Rightarrow> jobj \<Rightarrow> string" where
  "effective_gate render settings config =
     (let gate = text_or render config ''approval_gate'' ''inherit''
      in if gate = ''inherit'' then approval_policy render settings else gate)"

definition step_execution_blockers ::
    "release_env \<Rightarrow> jobj \<Rightarrow> jobj list \<Rightarrow> int \<Rightarrow> jobj \<Rightarrow> string list" where
  "step_execution_blockers env settings shown wave step =
     (let render = re_render env;
          app = application_id render step;
          shown_step = preview_for render shown app;
          config = step_config step;
          environment = either_text render [(shown_step, ''environment''), (config, ''environment'')] [];
          policy = approval_policy render settings;
          gate = effective_gate render settings config
      in if int_like (jget shown_step ''wave'') (- 1) \<noteq> wave then []
         else
           (if requires_external_ticket policy gate \<and> \<not> has_change_ticket render settings config
            then [''Application '' @ app @ '' requires an external change ticket before live dispatch.''] else []) @
           (if requires_safe_pr gate \<and> \<not> has_safe_pr_ready render settings config
            then [''Application '' @ app @ '' requires a ready Safe PR before live dispatch.''] else []) @
           (if requires_manual_approval policy gate environment \<and> \<not> approval_granted settings config
            then [''Application '' @ app @ '' requires approval before live dispatch ('' @ gate @ '').''] else []))"

definition live_disabled_blocker :: string where
  "live_disabled_blocker =
     ''Live release dispatch is disabled for this workspace. Set RELEASE_FLOW_LIVE_ENABLED=1 and include the workspace in RELEASE_FLOW_LIVE_WORKSPACES before dispatching real GitOps events.''"

definition base_release_execution_blockers ::
    "release_env \<Rightarrow> string \<Rightarrow> jobj \<Rightarrow> jobj list \<Rightarrow> int \<Rightarrow> string list" where
  "base_release_execution_blockers env ws plan shown wave =
     (if \<not> live_plan env plan then []
      else (if live_mode_allowed env ws then [] else [live_disabled_blocker]) @
           concat (map (step_execution_blockers env (plan_settings_value plan) shown wave) (plan_steps plan)))"

section \<open>Which steps a wave holds\<close>

text \<open>\<^verbatim>\<open>str(step.get("application_id"))\<close>: a missing identifier is the text None.\<close>

definition application_text :: "(json \<Rightarrow> string) \<Rightarrow> jobj \<Rightarrow> string" where
  "application_text render step =
     (case jget step ''application_id'' of None \<Rightarrow> ''None'' | Some v \<Rightarrow> py_str render v)"

definition steps_for_wave :: "(json \<Rightarrow> string) \<Rightarrow> jobj \<Rightarrow> jobj list \<Rightarrow> int \<Rightarrow> jobj list" where
  "steps_for_wave render plan shown wave =
     (let apps = map (application_text render)
            (filter (\<lambda>s. case jget s ''wave'' of Some v \<Rightarrow> py_eq v (JInt wave) | None \<Rightarrow> False) shown)
      in filter (\<lambda>s. application_text render s \<in> set apps) (plan_steps plan))"

definition release_step_targets_production :: "(json \<Rightarrow> string) \<Rightarrow> jobj \<Rightarrow> jobj \<Rightarrow> bool" where
  "release_step_targets_production render plan step =
     (let settings = plan_settings_value plan; config = step_config step
      in is_production_environment (either_text render [(config, ''environment''), (settings, ''environment'')] []) \<or>
         is_production_environment (either_text render [(config, ''namespace''), (settings, ''namespace'')] []))"

definition release_production_steps_for_wave :: "(json \<Rightarrow> string) \<Rightarrow> jobj \<Rightarrow> jobj list \<Rightarrow> int \<Rightarrow> jobj list" where
  "release_production_steps_for_wave render plan shown wave =
     filter (release_step_targets_production render plan) (steps_for_wave render plan shown wave)"

definition step_label :: "(json \<Rightarrow> string) \<Rightarrow> jobj \<Rightarrow> string" where
  "step_label render step = either_text render [(step, ''name''), (step, ''application_id'')] ''release step''"

section \<open>Safe PR evidence\<close>

definition set_key :: "string \<Rightarrow> json \<Rightarrow> jobj \<Rightarrow> jobj" where
  "set_key k v d = AList.update k v d"

definition safe_pr_gate_required :: "(json \<Rightarrow> string) \<Rightarrow> jobj \<Rightarrow> jobj \<Rightarrow> bool" where
  "safe_pr_gate_required render settings step \<longleftrightarrow> effective_gate render settings (step_config step) = ''safe_pr''"

definition release_application_context :: "release_reads \<Rightarrow> string \<Rightarrow> string \<Rightarrow> jobj" where
  "release_application_context reads ws app =
     (if app = [] then [] else (case rr_application reads ws app of Some d \<Rightarrow> d | None \<Rightarrow> []))"

definition release_step_index :: "jobj \<Rightarrow> jobj \<Rightarrow> nat option" where
  "release_step_index plan step =
     (let vs = json_items (jget plan ''steps''); n = length (takeWhile (\<lambda>v. \<not> py_eq v (JObj step)) vs)
      in if n < length vs then Some n else None)"

definition last_part :: "string \<Rightarrow> string" where
  "last_part path = last (py_split (CHR ''/'') path)"

definition generated_manifest_rollback_path :: "string \<Rightarrow> string \<Rightarrow> string" where
  "generated_manifest_rollback_path workflow_run_id manifest_path =
     (let filename = or_default (last_part manifest_path) ''manifest.yaml'';
          named = (if CHR ''.'' \<in> set filename then filename else filename @ ''.yaml'')
      in ''.gitops/rollback/'' @ workflow_run_id @ ''/'' @ named)"

definition rollback_manifest_image :: "release_env \<Rightarrow> jobj \<Rightarrow> jobj \<Rightarrow> jobj \<Rightarrow> string" where
  "rollback_manifest_image env plan step application =
     (let flds = [''rollback_image'', ''previous_image'', ''current_image'', ''deployed_image''];
          values_of = (\<lambda>d fs. map (stripped_text (re_render env) d) fs)
      in case find (\<lambda>v. v \<noteq> []) (values_of (step_config step) flds @
             values_of (plan_settings_value plan) flds @ values_of application (flds @ [''image''])) of
           Some v \<Rightarrow> v | None \<Rightarrow> [])"

text \<open>The step the rollback manifest is made for: found by application or position in the copied plan.\<close>

definition release_step_index_in_steps :: "(json \<Rightarrow> string) \<Rightarrow> json list \<Rightarrow> jobj \<Rightarrow> nat option" where
  "release_step_index_in_steps render vs selected =
     (let app = application_id render selected;
          hit = (\<lambda>v. case v of
             JObj d \<Rightarrow> app \<noteq> [] \<and> application_id render d = app \<or>
               (case jget selected ''position'' of
                  Some p \<Rightarrow> p \<noteq> JNull \<and> (case jget d ''position'' of Some q \<Rightarrow> py_eq q p | None \<Rightarrow> False)
                | None \<Rightarrow> False)
           | _ \<Rightarrow> False);
          n = length (takeWhile (\<lambda>v. \<not> hit v) vs)
      in if n < length vs then Some n else None)"

definition file_text :: "release_env \<Rightarrow> jobj \<Rightarrow> string \<Rightarrow> string" where
  "file_text env f k = text_or (re_render env) f k []"

definition files_with_content :: "rendered_files \<Rightarrow> jobj list" where
  "files_with_content rendered =
     filter (\<lambda>f. case jget f ''content'' of Some v \<Rightarrow> py_truthy v | None \<Rightarrow> False) (objects (rm_files rendered))"

definition generated_manifest_rollback_patches ::
    "release_env \<Rightarrow> jobj \<Rightarrow> jobj \<Rightarrow> jobj \<Rightarrow> string \<Rightarrow> string \<Rightarrow> (string \<times> string \<times> string) list" where
  "generated_manifest_rollback_patches env plan step application manifest_path workflow_run_id =
     (let rollback_image = rollback_manifest_image env plan step application;
          vs = json_items (jget plan ''steps'')
      in if rollback_image = [] then []
         else case release_step_index_in_steps (re_render env) vs step of
           None \<Rightarrow> []
         | Some index \<Rightarrow>
             let chosen = as_mapping (Some (vs ! index));
                 config = (case jget chosen ''config'' of None \<Rightarrow> Some [] | Some (JObj c) \<Rightarrow> Some c | _ \<Rightarrow> None)
             in case config of
                  None \<Rightarrow> []
                | Some c \<Rightarrow>
                    let c' = set_key ''generated_manifest_path'' (JStr manifest_path) (set_key ''image'' (JStr rollback_image) c);
                        plan' = set_key ''steps'' (JArr (vs[index := JObj (set_key ''config'' (JObj c') chosen)])) plan;
                        rendered = re_manifest env plan' index application
                    in if ''error'' \<in> set (rm_severities rendered) then []
                       else case files_with_content rendered of
                         [] \<Rightarrow> []
                       | f # _ \<Rightarrow> [(generated_manifest_rollback_path workflow_run_id manifest_path,
                                file_text env f ''content'', ''Generated rollback manifest from current application state'')])"

definition safe_pr_workflow_basis ::
    "release_env \<Rightarrow> jobj \<Rightarrow> jobj \<Rightarrow> jobj \<Rightarrow> string \<Rightarrow> string \<Rightarrow> jobj" where
  "safe_pr_workflow_basis env plan step application ws manifest_path =
     (let render = re_render env; config = step_config step; settings = plan_settings_value plan;
          app = application_id render step
      in [(''workspace_id'', JStr ws),
          (''repo_ref'', JStr (either_text render [(config, ''repo_ref''), (application, ''repo_ref'')] [])),
          (''branch'', JStr (either_text render [(config, ''branch''), (application, ''branch'')] ''main'')),
          (''manifest_path'', JStr manifest_path),
          (''cluster_id'', JStr (either_text render [(config, ''cluster_id''), (application, ''cluster_id'')] ''default-target-cluster'')),
          (''namespace'', JStr (either_text render [(config, ''namespace''), (application, ''namespace'')] ''sandbox'')),
          (''app_name'', JStr (either_text render [(application, ''name''), (step, ''name'')] app)),
          (''application_id'', JStr app),
          (''environment'', JStr (text_or render config ''environment''
             (or_default (first_environment render settings) ''sandbox''))),
          (''commit_sha'', JStr (either_text render [(config, ''commit_sha''), (settings, ''commit_sha'')] []))])"

definition generated_safe_pr_manifest_path :: "release_env \<Rightarrow> jobj \<Rightarrow> jobj \<Rightarrow> jobj \<Rightarrow> string" where
  "generated_safe_pr_manifest_path env plan step application =
     (case release_step_index plan step of
        None \<Rightarrow> []
      | Some index \<Rightarrow>
          (case rm_files (re_manifest env plan index application) of
             JObj f # _ \<Rightarrow> py_strip (file_text env f ''path'')
           | _ \<Rightarrow> []))"

definition generated_safe_pr_patch_sha256 :: "release_env \<Rightarrow> jobj \<Rightarrow> jobj \<Rightarrow> jobj \<Rightarrow> string \<Rightarrow> string" where
  "generated_safe_pr_patch_sha256 env plan step application ws =
     (case release_step_index plan step of
        None \<Rightarrow> []
      | Some index \<Rightarrow>
          let patches = map (\<lambda>f. (file_text env f ''path'', file_text env f ''content'',
                 text_or (re_render env) f ''description'' ''Generated release manifest''))
               (files_with_content (re_manifest env plan index application));
              manifest_path = (case patches of (path, _) # _ \<Rightarrow> path
                 | [] \<Rightarrow> generated_safe_pr_manifest_path env plan step application);
              workflow_run_id = re_workflow_run_id env (safe_pr_workflow_basis env plan step application ws manifest_path);
              found = patches @ generated_manifest_rollback_patches env plan step application manifest_path workflow_run_id
          in if found = [] then [] else re_patch_sha256 env found)"

definition generated_safe_pr_rollback_patch_available :: "release_env \<Rightarrow> jobj \<Rightarrow> jobj \<Rightarrow> jobj \<Rightarrow> string \<Rightarrow> bool" where
  "generated_safe_pr_rollback_patch_available env plan step application ws =
     (let manifest_path = generated_safe_pr_manifest_path env plan step application
      in manifest_path \<noteq> [] \<and>
         generated_manifest_rollback_patches env plan step application manifest_path
           (re_workflow_run_id env (safe_pr_workflow_basis env plan step application ws manifest_path)) \<noteq> [])"

record expected_evidence =
  ee_provider :: string
  ee_pr_url :: string
  ee_repo_ref :: string
  ee_base_branch :: string
  ee_manifest_paths :: "string list"
  ee_environment :: string
  ee_commit_sha :: string
  ee_patch_sha256 :: string
  ee_rollback_required :: bool
  ee_rollback_available :: bool

definition safe_pr_manifest_paths :: "release_env \<Rightarrow> jobj \<Rightarrow> jobj \<Rightarrow> jobj \<Rightarrow> string list" where
  "safe_pr_manifest_paths env plan step application =
     filter (\<lambda>p. p \<noteq> [])
       [py_strip (either_text (re_render env) [(step_config step, ''manifest_path''), (application, ''manifest_path'')] []),
        generated_safe_pr_manifest_path env plan step application]"

definition safe_pr_expected_evidence ::
    "release_env \<Rightarrow> release_reads \<Rightarrow> string \<Rightarrow> jobj \<Rightarrow> jobj \<Rightarrow> expected_evidence" where
  "safe_pr_expected_evidence env reads ws plan step =
     (let render = re_render env; config = step_config step; settings = plan_settings_value plan;
          application = release_application_context reads ws (application_id render step);
          rollback_required = release_step_targets_production render plan step
      in \<lparr>ee_provider = ascii_lower (either_text render [(config, ''scm_provider''), (settings, ''scm_provider'')] ''github''),
          ee_pr_url = py_strip (either_text render [(config, ''safe_pr_url''), (settings, ''safe_pr_url'')] []),
          ee_repo_ref = py_strip (either_text render [(config, ''repo_ref''), (application, ''repo_ref'')] []),
          ee_base_branch = py_strip (either_text render [(config, ''branch''), (application, ''branch'')] ''main''),
          ee_manifest_paths = safe_pr_manifest_paths env plan step application,
          ee_environment = py_strip (text_or render config ''environment'' (or_default (first_environment render settings) ''sandbox'')),
          ee_commit_sha = py_strip (either_text render [(config, ''commit_sha''), (settings, ''commit_sha'')] []),
          ee_patch_sha256 = generated_safe_pr_patch_sha256 env plan step application ws,
          ee_rollback_required = rollback_required,
          ee_rollback_available = (\<not> rollback_required \<or>
             generated_safe_pr_rollback_patch_available env plan step application ws)\<rparr>)"

subsection \<open>Matching evidence\<close>

definition safe_pr_evidence_is_current :: "release_env \<Rightarrow> jobj \<Rightarrow> bool" where
  "safe_pr_evidence_is_current env evidence =
     (case parse_release_window_time env (jget evidence ''created_at'') of
        None \<Rightarrow> False
      | Some created \<Rightarrow>
          created \<le> re_now env + APPROVAL_CLOCK_SKEW \<and> re_now env - created \<le> safe_pr_evidence_max_age env)"

definition safe_pr_evidence_field_matches :: "release_env \<Rightarrow> jobj \<Rightarrow> string \<Rightarrow> string \<Rightarrow> bool" where
  "safe_pr_evidence_field_matches env evidence field expected \<longleftrightarrow>
     expected = [] \<or> stripped_text (re_render env) evidence field = expected"

definition safe_pr_required_evidence_field_matches :: "release_env \<Rightarrow> jobj \<Rightarrow> string \<Rightarrow> string \<Rightarrow> bool" where
  "safe_pr_required_evidence_field_matches env evidence field expected \<longleftrightarrow>
     expected \<noteq> [] \<and> stripped_text (re_render env) evidence field = expected"

text \<open>\<^verbatim>\<open>owner, repo = repo_ref.split("/", 1)\<close>.\<close>

definition split_once :: "char \<Rightarrow> string \<Rightarrow> (string \<times> string)" where
  "split_once sep s =
     (let owner = takeWhile (\<lambda>c. c \<noteq> sep) s in (owner, drop (length owner + 1) s))"

definition safe_pr_evidence_pr_url_matches_provider :: "release_env \<Rightarrow> jobj \<Rightarrow> expected_evidence \<Rightarrow> bool" where
  "safe_pr_evidence_pr_url_matches_provider env evidence expected =
     (if ascii_lower (py_strip (ee_provider expected)) \<noteq> ''github'' then True
      else if CHR ''/'' \<notin> set (ee_repo_ref expected) then False
      else
        let parsed = re_urlparse env (stripped_text (re_render env) evidence ''pr_url'')
        in if ur_scheme parsed \<notin> {''http'', ''https''} \<or> ur_netloc parsed = [] then False
           else
             let parts = map (\<lambda>p. ascii_lower (re_unquote env p)) (filter (\<lambda>p. p \<noteq> []) (py_split (CHR ''/'') (ur_path parsed)));
                 (owner, repo) = split_once (CHR ''/'') (ee_repo_ref expected)
             in 4 \<le> length parts \<and> parts ! 0 = ascii_lower owner \<and> parts ! 1 = ascii_lower repo \<and>
                parts ! 2 = ''pull'' \<and> parts ! 3 \<noteq> [] \<and> list_all is_digit (parts ! 3))"

definition safe_pr_evidence_matches :: "release_env \<Rightarrow> jobj \<Rightarrow> expected_evidence \<Rightarrow> bool" where
  "safe_pr_evidence_matches env evidence expected \<longleftrightarrow>
     stripped_text (re_render env) evidence ''pr_url'' \<noteq> [] \<and>
     safe_pr_evidence_is_current env evidence \<and>
     safe_pr_required_evidence_field_matches env evidence ''provider'' (py_strip (ee_provider expected)) \<and>
     safe_pr_evidence_field_matches env evidence ''pr_url'' (ee_pr_url expected) \<and>
     safe_pr_required_evidence_field_matches env evidence ''repo_ref'' (ee_repo_ref expected) \<and>
     safe_pr_evidence_pr_url_matches_provider env evidence expected \<and>
     safe_pr_required_evidence_field_matches env evidence ''base_branch'' (ee_base_branch expected) \<and>
     safe_pr_required_evidence_field_matches env evidence ''commit_sha'' (ee_commit_sha expected) \<and>
     safe_pr_required_evidence_field_matches env evidence ''patch_sha256'' (py_strip (ee_patch_sha256 expected)) \<and>
     (ee_rollback_required expected \<longrightarrow> ee_rollback_available expected) \<and>
     stripped_text (re_render env) evidence ''manifest_path'' \<in> set (ee_manifest_paths expected) \<and>
     safe_pr_required_evidence_field_matches env evidence ''environment'' (ee_environment expected)"

definition SAFE_PR_EVIDENCE_LOOKUP_LIMIT :: nat where
  "SAFE_PR_EVIDENCE_LOOKUP_LIMIT = 20"

definition safe_pr_evidence_candidates :: "release_reads \<Rightarrow> string \<Rightarrow> string \<Rightarrow> string \<Rightarrow> jobj list" where
  "safe_pr_evidence_candidates reads ws workflow_run_id app =
     rr_safe_pr_evidence reads ws workflow_run_id app SAFE_PR_EVIDENCE_LOOKUP_LIMIT"

definition safe_pr_workflow_run_ids :: "release_env \<Rightarrow> release_reads \<Rightarrow> string \<Rightarrow> jobj \<Rightarrow> jobj \<Rightarrow> string list" where
  "safe_pr_workflow_run_ids env reads ws plan step =
     (let config = step_config step; settings = plan_settings_value plan;
          explicit = py_strip (either_text (re_render env)
            [(config, ''safe_pr_workflow_run_id''), (config, ''workflow_run_id''), (settings, ''safe_pr_workflow_run_id'')] []);
          application = release_application_context reads ws (application_id (re_render env) step)
      in if explicit \<noteq> [] then [explicit]
         else rev (remdups (rev (map (\<lambda>path. re_workflow_run_id env (safe_pr_workflow_basis env plan step application ws path))
           (safe_pr_manifest_paths env plan step application)))))"

definition safe_pr_created_evidence_for_step ::
    "release_env \<Rightarrow> release_reads \<Rightarrow> string \<Rightarrow> jobj \<Rightarrow> jobj \<Rightarrow> jobj option" where
  "safe_pr_created_evidence_for_step env reads ws plan step =
     (let app = application_id (re_render env) step; expected = safe_pr_expected_evidence env reads ws plan step
      in find (\<lambda>evidence. safe_pr_evidence_matches env evidence expected)
           (concat (map (\<lambda>i. safe_pr_evidence_candidates reads ws i app) (safe_pr_workflow_run_ids env reads ws plan step))))"

subsection \<open>The plan with the evidence of the server\<close>

definition safe_pr_ready_fields :: "string list" where
  "safe_pr_ready_fields = [''safe_pr_ready'', ''safe_pr_url'', ''safe_pr_evidence'']"

definition without_ready_fields :: "jobj \<Rightarrow> jobj" where
  "without_ready_fields d = filter (\<lambda>(k, v). k \<notin> set safe_pr_ready_fields) d"

definition step_in_gate :: "(json \<Rightarrow> string) \<Rightarrow> jobj \<Rightarrow> jobj list \<Rightarrow> int \<Rightarrow> jobj \<Rightarrow> bool" where
  "step_in_gate render settings shown wave step \<longleftrightarrow>
     int_field (preview_for render shown (application_id render step)) ''wave'' (- 1) = wave \<and>
     safe_pr_gate_required render settings step"

definition evidenced_config ::
    "release_env \<Rightarrow> release_reads \<Rightarrow> string \<Rightarrow> jobj \<Rightarrow> jobj \<Rightarrow> jobj" where
  "evidenced_config env reads ws plan step =
     (let config = without_ready_fields (step_config step)
      in case safe_pr_created_evidence_for_step env reads ws plan step of
           None \<Rightarrow> config
         | Some evidence \<Rightarrow>
             let pr_url = text_or (re_render env) evidence ''pr_url'' []
             in if pr_url = [] then config
                else set_key ''safe_pr_evidence'' (JObj evidence)
                  (set_key ''safe_pr_url'' (JStr pr_url) (set_key ''safe_pr_ready'' (JBool True) config)))"

definition evidenced_step ::
    "release_env \<Rightarrow> release_reads \<Rightarrow> string \<Rightarrow> jobj \<Rightarrow> jobj list \<Rightarrow> int \<Rightarrow> jobj \<Rightarrow> jobj" where
  "evidenced_step env reads ws plan shown wave step =
     (if step_in_gate (re_render env) (plan_settings_value plan) shown wave step \<and>
         \<not> py_eq (JObj (evidenced_config env reads ws plan step)) (JObj (step_config step))
      then set_key ''config'' (JObj (evidenced_config env reads ws plan step)) step else step)"

definition plan_with_safe_pr_evidence ::
    "release_env \<Rightarrow> release_reads \<Rightarrow> string \<Rightarrow> jobj \<Rightarrow> jobj list \<Rightarrow> int \<Rightarrow> jobj" where
  "plan_with_safe_pr_evidence env reads ws plan shown wave =
     (let settings = plan_settings_value plan;
          gated = (\<exists>step \<in> set (plan_steps plan). step_in_gate (re_render env) settings shown wave step);
          sanitized = (if gated then without_ready_fields settings else settings);
          steps = map (evidenced_step env reads ws plan shown wave) (plan_steps plan)
      in if length sanitized \<noteq> length settings \<or> steps \<noteq> plan_steps plan
         then set_key ''steps'' (JArr (map JObj steps)) (set_key ''settings'' (JObj sanitized) plan)
         else plan)"

definition release_execution_blockers ::
    "release_env \<Rightarrow> release_reads \<Rightarrow> string \<Rightarrow> jobj \<Rightarrow> jobj list \<Rightarrow> int \<Rightarrow> string list" where
  "release_execution_blockers env reads ws plan shown wave =
     base_release_execution_blockers env ws (plan_with_safe_pr_evidence env reads ws plan shown wave) shown wave"

section \<open>Gates of a production step\<close>

text \<open>\<^verbatim>\<open>str(settings.get(a) or settings.get(b) or "").strip()\<close>: the reason an operator gives.\<close>

definition settings_reason :: "(json \<Rightarrow> string) \<Rightarrow> jobj \<Rightarrow> string \<Rightarrow> string \<Rightarrow> string" where
  "settings_reason render plan a b =
     (let settings = plan_settings_value plan in py_strip (either_text render [(settings, a), (settings, b)] []))"

definition release_diagnostics_override_reason :: "(json \<Rightarrow> string) \<Rightarrow> jobj \<Rightarrow> string" where
  "release_diagnostics_override_reason render plan =
     settings_reason render plan ''diagnostics_override_reason'' ''diagnostics_bypass_reason''"

definition release_rollback_override_reason :: "(json \<Rightarrow> string) \<Rightarrow> jobj \<Rightarrow> string" where
  "release_rollback_override_reason render plan =
     settings_reason render plan ''rollback_override_reason'' ''rollback_disabled_reason''"

definition release_production_change_override_reason :: "(json \<Rightarrow> string) \<Rightarrow> jobj \<Rightarrow> string" where
  "release_production_change_override_reason render plan =
     settings_reason render plan ''production_change_override_reason'' ''change_ticket_override_reason''"

definition release_freeze_override_reason :: "(json \<Rightarrow> string) \<Rightarrow> jobj \<Rightarrow> string" where
  "release_freeze_override_reason render plan =
     settings_reason render plan ''change_freeze_override_reason'' ''freeze_window_override_reason''"

definition release_window_override_reason :: "(json \<Rightarrow> string) \<Rightarrow> jobj \<Rightarrow> string" where
  "release_window_override_reason render plan =
     settings_reason render plan ''release_window_override_reason'' ''change_window_override_reason''"

definition release_abort_criteria_override_reason :: "(json \<Rightarrow> string) \<Rightarrow> jobj \<Rightarrow> string" where
  "release_abort_criteria_override_reason render plan =
     settings_reason render plan ''abort_criteria_override_reason'' ''rollback_trigger_override_reason''"

definition release_diagnostics_blockers :: "release_env \<Rightarrow> jobj \<Rightarrow> string list" where
  "release_diagnostics_blockers env plan =
     (let settings = plan_settings_value plan
      in if \<not> live_plan env plan then []
         else if jget settings ''require_diagnostics_pass'' = Some (JBool False)
         then (if release_diagnostics_override_reason (re_render env) plan = []
               then [''Live release dispatch cannot bypass diagnostics without a diagnostics override reason.''] else [])
         else map (\<lambda>d. ''Release diagnostics must pass before live dispatch: '' @ dg_code d @
                (if dg_path d = [] then [] else '' at '' @ dg_path d) @ '' - '' @ dg_message d)
              (filter (\<lambda>d. dg_severity d \<in> {''error'', ''warning''}) (re_diagnostics env plan)))"

definition release_rollback_policy_blockers :: "release_env \<Rightarrow> jobj \<Rightarrow> string list" where
  "release_rollback_policy_blockers env plan =
     (if \<not> live_plan env plan then []
      else if text_or (re_render env) (plan_settings_value plan) ''rollback_policy'' ''manual'' \<noteq> ''disabled'' then []
      else if release_rollback_override_reason (re_render env) plan \<noteq> [] then []
      else [''Live release dispatch cannot disable rollback without a rollback override reason.''])"

definition release_approval_granted_by :: "(json \<Rightarrow> string) \<Rightarrow> jobj \<Rightarrow> jobj \<Rightarrow> string" where
  "release_approval_granted_by render settings config =
     py_strip (either_text render [(config, ''approval_granted_by''), (settings, ''approval_granted_by'')] [])"

definition release_approval_reason :: "(json \<Rightarrow> string) \<Rightarrow> jobj \<Rightarrow> jobj \<Rightarrow> string" where
  "release_approval_reason render settings config =
     py_strip (either_text render [(config, ''approval_reason''), (settings, ''approval_reason'')] [])"

text \<open>\<^verbatim>\<open>config.get(k) or settings.get(k)\<close>: a falsy value of the step gives the value of the plan, whatever that is.\<close>

definition release_approval_granted_at :: "release_env \<Rightarrow> jobj \<Rightarrow> jobj \<Rightarrow> time option" where
  "release_approval_granted_at env settings config =
     (case first_truthy [(config, ''approval_granted_at'')] of
        Some v \<Rightarrow> parse_release_window_time env (Some v)
      | None \<Rightarrow> parse_release_window_time env (jget settings ''approval_granted_at''))"

definition release_approval_is_expired :: "release_env \<Rightarrow> time \<Rightarrow> bool" where
  "release_approval_is_expired env granted_at \<longleftrightarrow> approval_max_age env < re_now env - granted_at"

definition release_approval_is_in_future :: "release_env \<Rightarrow> time \<Rightarrow> bool" where
  "release_approval_is_in_future env granted_at \<longleftrightarrow> re_now env + APPROVAL_CLOCK_SKEW < granted_at"

fun joined :: "string \<Rightarrow> string list \<Rightarrow> string" where
  "joined sep [] = []"
| "joined sep [x] = x"
| "joined sep (x # xs) = x @ sep @ joined sep xs"

definition approval_evidence_blockers :: "release_env \<Rightarrow> jobj \<Rightarrow> jobj \<Rightarrow> string list" where
  "approval_evidence_blockers env settings step =
     (let render = re_render env; config = step_config step; label = step_label render step;
          granted_at = release_approval_granted_at env settings config;
          lacking =
            (if release_approval_granted_by render settings config = [] then [''approval_granted_by''] else []) @
            (if release_approval_reason render settings config = [] then [''approval_reason''] else []) @
            (if granted_at = None then [''approval_granted_at''] else [])
      in if \<not> approval_granted settings config then []
         else if lacking \<noteq> []
         then [label @ '' targets production and requires approval evidence ('' @ joined '', '' lacking @ '') before live dispatch.'']
         else case granted_at of
           None \<Rightarrow> []
         | Some t \<Rightarrow>
             if release_approval_is_in_future env t
             then [label @ '' targets production but approval evidence is in the future.'']
             else if release_approval_is_expired env t
             then [label @ '' targets production but approval evidence is older than '' @ hours_label env (approval_max_age env) @ ''.'']
             else [])"

definition change_ticket_blockers :: "release_env \<Rightarrow> jobj \<Rightarrow> jobj \<Rightarrow> string list" where
  "change_ticket_blockers env plan step =
     (let render = re_render env; settings = plan_settings_value plan; config = step_config step;
          label = step_label render step; placeholder = placeholder_change_ticket render settings config
      in if placeholder \<noteq> []
         then [label @ '' targets production and must not use placeholder change ticket '' @ placeholder @ ''.'']
         else if has_change_ticket render settings config \<or> release_production_change_override_reason render plan \<noteq> [] then []
         else [label @ '' targets production and requires a change ticket before live dispatch.''])"

definition release_runbook_url :: "(json \<Rightarrow> string) \<Rightarrow> jobj \<Rightarrow> jobj \<Rightarrow> string" where
  "release_runbook_url render settings config =
     py_strip (either_text render [(config, ''runbook_url''), (settings, ''runbook_url'')] [])"

definition runbook_blockers :: "release_env \<Rightarrow> jobj \<Rightarrow> jobj \<Rightarrow> string list" where
  "runbook_blockers env settings step =
     (let url = release_runbook_url (re_render env) settings (step_config step)
      in if live_https_url_is_valid env url then []
         else [step_label (re_render env) step @
           (if url \<noteq> [] then '' targets production and requires a live https runbook_url before live dispatch.''
            else '' targets production and requires live https runbook_url before live dispatch.'')])"

definition release_owner_contact :: "(json \<Rightarrow> string) \<Rightarrow> jobj \<Rightarrow> jobj \<Rightarrow> string" where
  "release_owner_contact render settings config =
     py_strip (either_text render [(config, ''release_owner''), (config, ''oncall_contact''),
       (settings, ''release_owner''), (settings, ''oncall_contact'')] [])"

definition owner_blockers :: "release_env \<Rightarrow> jobj \<Rightarrow> jobj \<Rightarrow> string list" where
  "owner_blockers env settings step =
     (if release_owner_contact (re_render env) settings (step_config step) \<noteq> [] then []
      else [step_label (re_render env) step @
        '' targets production and requires release_owner or oncall_contact before live dispatch.''])"

definition release_verification_url :: "(json \<Rightarrow> string) \<Rightarrow> jobj \<Rightarrow> jobj \<Rightarrow> string" where
  "release_verification_url render settings config =
     py_strip (either_text render [(config, ''post_deploy_verification_url''), (config, ''verification_url''),
       (settings, ''post_deploy_verification_url''), (settings, ''verification_url'')] [])"

definition release_verification_evidence_present :: "release_env \<Rightarrow> jobj \<Rightarrow> jobj \<Rightarrow> bool" where
  "release_verification_evidence_present env settings config =
     live_https_url_is_valid env (release_verification_url (re_render env) settings config)"

definition verification_blockers :: "release_env \<Rightarrow> jobj \<Rightarrow> jobj \<Rightarrow> string list" where
  "verification_blockers env settings step =
     (if release_verification_evidence_present env settings (step_config step) then []
      else [step_label (re_render env) step @
        '' targets production and requires live https post_deploy_verification_url before live dispatch.''])"

definition release_abort_criteria :: "(json \<Rightarrow> string) \<Rightarrow> jobj \<Rightarrow> jobj \<Rightarrow> string" where
  "release_abort_criteria render settings config =
     py_strip (either_text render [(config, ''rollback_trigger''), (config, ''abort_criteria''),
       (settings, ''rollback_trigger''), (settings, ''abort_criteria'')] [])"

definition abort_criteria_blockers :: "release_env \<Rightarrow> jobj \<Rightarrow> jobj \<Rightarrow> string list" where
  "abort_criteria_blockers env plan step =
     (if release_abort_criteria (re_render env) (plan_settings_value plan) (step_config step) \<noteq> [] \<or>
         release_abort_criteria_override_reason (re_render env) plan \<noteq> [] then []
      else [step_label (re_render env) step @
        '' targets production and requires rollback_trigger, abort_criteria, or abort criteria override reason before live dispatch.''])"

section \<open>Gates of a wave\<close>

definition production_gate ::
    "(jobj \<Rightarrow> string list) \<Rightarrow> release_env \<Rightarrow> jobj \<Rightarrow> jobj list \<Rightarrow> int \<Rightarrow> string list" where
  "production_gate blockers env plan shown wave =
     (if live_plan env plan
      then concat (map blockers (release_production_steps_for_wave (re_render env) plan shown wave)) else [])"

definition release_production_approval_evidence_blockers :: "release_env \<Rightarrow> jobj \<Rightarrow> jobj list \<Rightarrow> int \<Rightarrow> string list" where
  "release_production_approval_evidence_blockers env plan shown wave =
     production_gate (approval_evidence_blockers env (plan_settings_value plan)) env plan shown wave"

definition release_production_change_ticket_blockers :: "release_env \<Rightarrow> jobj \<Rightarrow> jobj list \<Rightarrow> int \<Rightarrow> string list" where
  "release_production_change_ticket_blockers env plan shown wave =
     production_gate (change_ticket_blockers env plan) env plan shown wave"

definition release_production_runbook_blockers :: "release_env \<Rightarrow> jobj \<Rightarrow> jobj list \<Rightarrow> int \<Rightarrow> string list" where
  "release_production_runbook_blockers env plan shown wave =
     production_gate (runbook_blockers env (plan_settings_value plan)) env plan shown wave"

definition release_production_owner_blockers :: "release_env \<Rightarrow> jobj \<Rightarrow> jobj list \<Rightarrow> int \<Rightarrow> string list" where
  "release_production_owner_blockers env plan shown wave =
     production_gate (owner_blockers env (plan_settings_value plan)) env plan shown wave"

definition release_production_verification_blockers :: "release_env \<Rightarrow> jobj \<Rightarrow> jobj list \<Rightarrow> int \<Rightarrow> string list" where
  "release_production_verification_blockers env plan shown wave =
     production_gate (verification_blockers env (plan_settings_value plan)) env plan shown wave"

definition release_production_abort_criteria_blockers :: "release_env \<Rightarrow> jobj \<Rightarrow> jobj list \<Rightarrow> int \<Rightarrow> string list" where
  "release_production_abort_criteria_blockers env plan shown wave =
     production_gate (abort_criteria_blockers env plan) env plan shown wave"

definition release_window_bounds :: "release_env \<Rightarrow> jobj \<Rightarrow> time option \<times> time option" where
  "release_window_bounds env plan =
     (let settings = plan_settings_value plan
      in (parse_release_window_time env (jget settings ''release_window_start''),
          parse_release_window_time env (jget settings ''release_window_end'')))"

definition release_freeze_window_bounds :: "release_env \<Rightarrow> jobj \<Rightarrow> time option \<times> time option" where
  "release_freeze_window_bounds env plan =
     (let settings = plan_settings_value plan
      in (parse_release_window_time env (jget settings ''change_freeze_start''),
          parse_release_window_time env (jget settings ''change_freeze_end'')))"

definition window_label :: "release_env \<Rightarrow> time \<Rightarrow> time \<Rightarrow> string" where
  "window_label env start stop =
     ''('' @ release_window_bound_label env start @ '' to '' @ release_window_bound_label env stop @ '' UTC)''"

definition release_production_window_blockers :: "release_env \<Rightarrow> jobj \<Rightarrow> jobj list \<Rightarrow> int \<Rightarrow> string list" where
  "release_production_window_blockers env plan shown wave =
     (if \<not> live_plan env plan \<or> release_production_steps_for_wave (re_render env) plan shown wave = [] \<or>
         release_window_override_reason (re_render env) plan \<noteq> [] then []
      else case release_window_bounds env plan of
        (Some start, Some stop) \<Rightarrow>
          if stop \<le> start then [''Production live release window end must be after the start time.'']
          else if start \<le> re_now env \<and> re_now env \<le> stop then []
          else [''Production live release is outside the approved release window '' @ window_label env start stop @ ''.'']
      | _ \<Rightarrow> [''Production live release requires release_window_start and release_window_end or a release window override reason.''])"

definition release_production_freeze_blockers :: "release_env \<Rightarrow> jobj \<Rightarrow> jobj list \<Rightarrow> int \<Rightarrow> string list" where
  "release_production_freeze_blockers env plan shown wave =
     (if \<not> live_plan env plan \<or> release_production_steps_for_wave (re_render env) plan shown wave = [] \<or>
         release_freeze_override_reason (re_render env) plan \<noteq> [] then []
      else case release_freeze_window_bounds env plan of
        (None, None) \<Rightarrow> []
      | (Some start, Some stop) \<Rightarrow>
          if stop \<le> start then [''Production change freeze end must be after the start time.'']
          else if start \<le> re_now env \<and> re_now env \<le> stop
          then [''Production live release is inside a change freeze window '' @ window_label env start stop @
                '' and requires a change_freeze_override_reason.'']
          else []
      | _ \<Rightarrow> [''Production change freeze requires both change_freeze_start and change_freeze_end or a change freeze override reason.''])"

definition release_live_alert_channels :: "release_env \<Rightarrow> release_reads \<Rightarrow> string \<Rightarrow> jobj list" where
  "release_live_alert_channels env reads ws =
     filter (\<lambda>c. severity_matches (text_or (re_render env) c ''min_severity'' ''warning'') ''warning'')
       (rr_enabled_channels reads ws)"

definition alert_channel_validation_is_current :: "release_env \<Rightarrow> jobj \<Rightarrow> bool" where
  "alert_channel_validation_is_current env channel \<longleftrightarrow>
     ascii_lower (text_or (re_render env) channel ''last_test_status'' []) = ''passed'' \<and>
     (case parse_release_window_time env (jget channel ''last_tested_at'') of
        None \<Rightarrow> False | Some tested \<Rightarrow> re_now env - tested \<le> alert_channel_validation_max_age env)"

definition release_validated_live_alert_channels :: "release_env \<Rightarrow> release_reads \<Rightarrow> string \<Rightarrow> jobj list" where
  "release_validated_live_alert_channels env reads ws =
     filter (alert_channel_validation_is_current env) (release_live_alert_channels env reads ws)"

definition release_live_alert_channel_blockers :: "release_env \<Rightarrow> release_reads \<Rightarrow> string \<Rightarrow> jobj \<Rightarrow> string list" where
  "release_live_alert_channel_blockers env reads ws plan =
     (if \<not> live_plan env plan then []
      else if release_validated_live_alert_channels env reads ws \<noteq> [] then []
      else if release_live_alert_channels env reads ws \<noteq> []
      then [''Live release dispatch requires at least one warning-capable alert channel with a passing validation test within '' @
            hours_label env (alert_channel_validation_max_age env) @ ''.'']
      else [''Live release dispatch requires at least one enabled alert channel that receives warning-or-higher release events.''])"

text \<open>The gates a dispatch, an advance and a retry have in common, in their order.\<close>

definition wave_blockers ::
    "release_env \<Rightarrow> release_reads \<Rightarrow> string \<Rightarrow> jobj \<Rightarrow> jobj list \<Rightarrow> int \<Rightarrow> string list" where
  "wave_blockers env reads ws plan shown wave =
     release_execution_blockers env reads ws plan shown wave @
     release_production_approval_evidence_blockers env plan shown wave @
     release_production_change_ticket_blockers env plan shown wave @
     release_production_window_blockers env plan shown wave @
     release_production_freeze_blockers env plan shown wave @
     release_production_runbook_blockers env plan shown wave @
     release_production_owner_blockers env plan shown wave @
     release_production_verification_blockers env plan shown wave @
     release_production_abort_criteria_blockers env plan shown wave @
     release_diagnostics_blockers env plan @
     release_rollback_policy_blockers env plan @
     release_live_alert_channel_blockers env reads ws plan"

section \<open>Gates of a dispatch\<close>

definition release_plan_execution_status_blockers ::
    "(json \<Rightarrow> string) \<Rightarrow> release_reads \<Rightarrow> string \<Rightarrow> jobj \<Rightarrow> string list" where
  "release_plan_execution_status_blockers render reads ws plan =
     (let plan_id = stripped_text render plan ''plan_id''
      in if plan_id = [] then []
         else case rr_plan reads ws plan_id of
           None \<Rightarrow> []
         | Some persisted \<Rightarrow>
             let status = ascii_lower (text_or render persisted ''status'' [])
             in if status \<in> {[], ''active''} then []
                else if status = ''draft''
                then [''Release plan '' @ plan_id @ '' is draft and cannot be dispatched. Activate the plan after review.'']
                else if status = ''paused''
                then [''Release plan '' @ plan_id @ '' is paused and cannot be dispatched. Resume the plan when it is safe.'']
                else if status = ''archived''
                then [''Release plan '' @ plan_id @ '' is archived and cannot be dispatched.'']
                else [''Release plan '' @ plan_id @ '' is not active and cannot be dispatched.''])"

definition dispatch_context_value :: "(json \<Rightarrow> string) \<Rightarrow> jobj \<Rightarrow> jobj \<Rightarrow> string \<Rightarrow> string" where
  "dispatch_context_value render config application field =
     py_strip (either_text render
       (if field = ''branch''
        then [(config, ''branch''), (application, ''branch''), (application, ''default_branch'')]
        else [(config, field), (application, field)]) [])"

definition step_context_blockers :: "release_env \<Rightarrow> release_reads \<Rightarrow> string \<Rightarrow> nat \<Rightarrow> jobj \<Rightarrow> string list" where
  "step_context_blockers env reads ws index step =
     (let render = re_render env; app = stripped_text render step ''application_id'';
          label = text_or render step ''name'' (or_default app (''step '' @ int_text (int index)))
      in if app = [] then [label @ '' is missing application_id.'']
         else case rr_application reads ws app of
           None \<Rightarrow> [''Application '' @ app @ '' is not registered in this workspace.'']
         | Some application \<Rightarrow>
             if application = [] then [''Application '' @ app @ '' is not registered in this workspace.'']
             else concat (map (\<lambda>(field, display).
                    if dispatch_context_value render (step_config step) application field = []
                    then [label @ '' is missing '' @ display @ '' context.''] else [])
                  [(''repo_ref'', ''repository''), (''branch'', ''branch''),
                   (''manifest_path'', ''manifest path''), (''cluster_id'', ''cluster'')]))"

definition release_dispatch_context_blockers :: "release_env \<Rightarrow> release_reads \<Rightarrow> string \<Rightarrow> jobj list \<Rightarrow> string list" where
  "release_dispatch_context_blockers env reads ws steps =
     concat (map (\<lambda>(index, step). step_context_blockers env reads ws index step) (enumerate 1 steps))"

definition dispatch_blockers ::
    "release_env \<Rightarrow> release_reads \<Rightarrow> string \<Rightarrow> jobj \<Rightarrow> jobj list \<Rightarrow> int \<Rightarrow> string list" where
  "dispatch_blockers env reads ws plan shown wave =
     release_plan_execution_status_blockers (re_render env) reads ws plan @
     release_dispatch_context_blockers env reads ws (steps_for_wave (re_render env) plan shown wave) @
     wave_blockers env reads ws plan shown wave"

section \<open>What an open gate proves\<close>

lemma jget_set_key [simp]: "jget (set_key k v d) j = (if j = k then Some v else jget d j)"
  by (simp add: jget_def set_key_def update_conv')

lemma jget_without_ready [simp]:
  "jget (without_ready_fields d) k = (if k \<in> set safe_pr_ready_fields then None else jget d k)"
  unfolding jget_def without_ready_fields_def by (induction d) auto

lemma first_truthy_cong:
  "(\<And>k. k \<in> snd ` set sources \<Longrightarrow> jget (f d) k = jget d k) \<Longrightarrow>
   first_truthy (map (\<lambda>(_, k). (f d, k)) sources) = first_truthy (map (\<lambda>(_, k). (d, k)) sources)"
  by (induction sources) (auto split: option.split)

lemma production_gate_open:
  "production_gate blockers env plan shown wave = [] \<Longrightarrow> live_plan env plan \<Longrightarrow>
   step \<in> set (release_production_steps_for_wave (re_render env) plan shown wave) \<Longrightarrow> blockers step = []"
  by (simp add: production_gate_def)

lemma wave_blockers_open:
  assumes open_wave: "wave_blockers env reads ws plan shown wave = []"
  shows "release_execution_blockers env reads ws plan shown wave = []"
    and "release_production_approval_evidence_blockers env plan shown wave = []"
    and "release_production_change_ticket_blockers env plan shown wave = []"
    and "release_production_window_blockers env plan shown wave = []"
    and "release_production_freeze_blockers env plan shown wave = []"
    and "release_production_runbook_blockers env plan shown wave = []"
    and "release_production_owner_blockers env plan shown wave = []"
    and "release_production_verification_blockers env plan shown wave = []"
    and "release_production_abort_criteria_blockers env plan shown wave = []"
    and "release_diagnostics_blockers env plan = []"
    and "release_rollback_policy_blockers env plan = []"
    and "release_live_alert_channel_blockers env reads ws plan = []"
  using open_wave unfolding wave_blockers_def append_is_Nil_conv by blast+

lemma ticket_gate_open:
  "change_ticket_blockers env plan step = [] \<Longrightarrow>
   placeholder_change_ticket (re_render env) (plan_settings_value plan) (step_config step) = [] \<and>
   (has_change_ticket (re_render env) (plan_settings_value plan) (step_config step) \<or>
    release_production_change_override_reason (re_render env) plan \<noteq> [])"
  by (auto simp: change_ticket_blockers_def Let_def split: if_splits)

lemma approval_gate_open:
  assumes "approval_evidence_blockers env settings step = []"
    and "approval_granted settings (step_config step)"
  shows "release_approval_granted_by (re_render env) settings (step_config step) \<noteq> [] \<and>
    release_approval_reason (re_render env) settings (step_config step) \<noteq> [] \<and>
    (\<exists>t. release_approval_granted_at env settings (step_config step) = Some t \<and>
       t \<le> re_now env + APPROVAL_CLOCK_SKEW \<and> re_now env - t \<le> approval_max_age env)"
  using assms
  by (auto simp: approval_evidence_blockers_def Let_def release_approval_is_in_future_def
      release_approval_is_expired_def not_less split: if_splits option.splits)

lemma window_gate_open:
  assumes "release_production_window_blockers env plan shown wave = []" and "live_plan env plan"
    and "release_production_steps_for_wave (re_render env) plan shown wave \<noteq> []"
  shows "release_window_override_reason (re_render env) plan \<noteq> [] \<or>
    (\<exists>start stop. release_window_bounds env plan = (Some start, Some stop) \<and> start < stop \<and>
       start \<le> re_now env \<and> re_now env \<le> stop)"
  using assms
  by (auto simp: release_production_window_blockers_def not_le split: if_splits option.splits prod.splits)

lemma freeze_gate_open:
  assumes "release_production_freeze_blockers env plan shown wave = []" and "live_plan env plan"
    and "release_production_steps_for_wave (re_render env) plan shown wave \<noteq> []"
  shows "release_freeze_override_reason (re_render env) plan \<noteq> [] \<or>
    release_freeze_window_bounds env plan = (None, None) \<or>
    (\<exists>start stop. release_freeze_window_bounds env plan = (Some start, Some stop) \<and>
       (re_now env < start \<or> stop < re_now env))"
  using assms
  by (auto simp: release_production_freeze_blockers_def not_le split: if_splits option.splits prod.splits)

lemma alert_gate_open:
  assumes "release_live_alert_channel_blockers env reads ws plan = []" and "live_plan env plan"
  shows "\<exists>c \<in> set (rr_enabled_channels reads ws). alert_channel_validation_is_current env c \<and>
    severity_matches (text_or (re_render env) c ''min_severity'' ''warning'') ''warning''"
proof -
  from assms have "release_validated_live_alert_channels env reads ws \<noteq> []"
    by (auto simp: release_live_alert_channel_blockers_def split: if_splits)
  then obtain c where "c \<in> set (release_validated_live_alert_channels env reads ws)"
    using list.set_sel(1) by blast
  then show ?thesis by (auto simp: release_validated_live_alert_channels_def release_live_alert_channels_def)
qed

lemma text_or_cong: "jget d k = jget e k \<Longrightarrow> text_or render d k v = text_or render e k v"
  by (simp add: text_or_def)

lemma effective_gate_cong:
  assumes "jget s ''approval_policy'' = jget s' ''approval_policy''"
    and "jget c ''approval_gate'' = jget c' ''approval_gate''"
  shows "effective_gate render s c = effective_gate render s' c'"
  unfolding effective_gate_def approval_policy_def text_or_def assms by (rule refl)

lemma application_id_set_key [simp]:
  "k \<noteq> ''application_id'' \<Longrightarrow> application_id render (set_key k v step) = application_id render step"
  by (simp add: application_id_def text_or_def)

lemma objects_JObj [simp]: "objects (map JObj ds) = ds"
  by (induction ds) (auto simp: objects_def)

lemma objects_map_JObj [simp]: "objects (map (JObj \<circ> f) xs) = map f xs"
  by (induction xs) (auto simp: objects_def)

lemma filter_same_length: "length (filter p xs) = length xs \<Longrightarrow> filter p xs = xs"
  by (metis filter_id_conv length_filter_less nat_neq_iff)

lemma evidenced_application [simp]:
  "application_id render (evidenced_step env reads ws plan shown wave step) = application_id render step"
  by (simp add: evidenced_step_def)

lemma evidenced_step_config:
  "step_config (evidenced_step env reads ws plan shown wave step) =
     (if step_in_gate (re_render env) (plan_settings_value plan) shown wave step \<and>
         \<not> py_eq (JObj (evidenced_config env reads ws plan step)) (JObj (step_config step))
      then evidenced_config env reads ws plan step else step_config step)"
proof (cases "step_in_gate (re_render env) (plan_settings_value plan) shown wave step \<and>
    \<not> py_eq (JObj (evidenced_config env reads ws plan step)) (JObj (step_config step))")
  case True
  then have "evidenced_step env reads ws plan shown wave step =
      set_key ''config'' (JObj (evidenced_config env reads ws plan step)) step"
    unfolding evidenced_step_def by (rule if_P)
  then show ?thesis unfolding if_P [OF True] by (simp add: step_config_def as_mapping_def)
next
  case False
  then have "evidenced_step env reads ws plan shown wave step = step"
    unfolding evidenced_step_def by (rule if_not_P)
  then show ?thesis unfolding if_not_P [OF False] by simp
qed

lemma evidenced_plan:
  "plan_steps (plan_with_safe_pr_evidence env reads ws plan shown wave) = map (evidenced_step env reads ws plan shown wave) (plan_steps plan)"
  "plan_settings_value (plan_with_safe_pr_evidence env reads ws plan shown wave) =
      (if \<exists>step \<in> set (plan_steps plan). step_in_gate (re_render env) (plan_settings_value plan) shown wave step
       then without_ready_fields (plan_settings_value plan) else plan_settings_value plan)"
proof -
  let ?plan = "plan_with_safe_pr_evidence env reads ws plan shown wave"
  let ?s = "plan_settings_value plan"
  let ?gated = "\<exists>step \<in> set (plan_steps plan). step_in_gate (re_render env) ?s shown wave step"
  let ?t = "if ?gated then without_ready_fields ?s else ?s"
  let ?steps = "map (evidenced_step env reads ws plan shown wave) (plan_steps plan)"
  have "plan_steps ?plan = ?steps \<and> plan_settings_value ?plan = ?t"
  proof (cases "length ?t \<noteq> length ?s \<or> ?steps \<noteq> plan_steps plan")
    case True
    then have "?plan = set_key ''steps'' (JArr (map JObj ?steps)) (set_key ''settings'' (JObj ?t) plan)"
      unfolding plan_with_safe_pr_evidence_def Let_def by (rule if_P)
    then show ?thesis by (simp add: plan_steps_def plan_settings_value_def json_items_def as_mapping_def)
  next
    case False
    then have "?plan = plan" unfolding plan_with_safe_pr_evidence_def Let_def by (rule if_not_P)
    moreover have "?t = ?s"
    proof (cases ?gated)
      case True
      from False have "length ?t = length ?s" by blast
      with True have "length (without_ready_fields ?s) = length ?s" by (simp only: if_True)
      then have "without_ready_fields ?s = ?s" unfolding without_ready_fields_def by (rule filter_same_length)
      with True show ?thesis by (simp only: if_True)
    qed (simp only: if_False)
    ultimately show ?thesis using False by simp
  qed
  then show "plan_steps ?plan = ?steps" "plan_settings_value ?plan = ?t" by blast+
qed

lemma evidenced_settings_keep:
  "k \<notin> set safe_pr_ready_fields \<Longrightarrow>
   jget (plan_settings_value (plan_with_safe_pr_evidence env reads ws plan shown wave)) k = jget (plan_settings_value plan) k"
  by (simp add: evidenced_plan)

lemma evidenced_config_keep:
  "k \<notin> set safe_pr_ready_fields \<Longrightarrow>
   jget (step_config (evidenced_step env reads ws plan shown wave step)) k = jget (step_config step) k"
  by (auto simp: evidenced_step_config evidenced_config_def safe_pr_ready_fields_def Let_def split: option.split)

lemma live_plan_evidenced:
  "live_plan env (plan_with_safe_pr_evidence env reads ws plan shown wave) = live_plan env plan"
proof -
  have "jget (plan_settings_value (plan_with_safe_pr_evidence env reads ws plan shown wave)) k = jget (plan_settings_value plan) k"
    if "k \<in> {''runtime_mode'', ''provider_mode''}" for k
    using that by (intro evidenced_settings_keep) (auto simp: safe_pr_ready_fields_def)
  then show ?thesis
    by (simp add: live_plan_def execution_profile_def Let_def either_text_def split: option.split)
qed

lemma ready_config_has_evidence:
  assumes "step_in_gate (re_render env) (plan_settings_value plan) shown wave step"
    and "jget (step_config (evidenced_step env reads ws plan shown wave step)) ''safe_pr_ready'' \<noteq> None"
  shows "safe_pr_created_evidence_for_step env reads ws plan step \<noteq> None"
proof
  assume none: "safe_pr_created_evidence_for_step env reads ws plan step = None"
  let ?c = "without_ready_fields (step_config step)"
  have c: "evidenced_config env reads ws plan step = ?c" by (simp add: evidenced_config_def none)
  have gone: "jget ?c ''safe_pr_ready'' = None" by (simp add: safe_pr_ready_fields_def)
  show False
  proof (cases "py_eq (JObj ?c) (JObj (step_config step))")
    case True
    then have "length ?c = length (step_config step)" by simp
    then have "?c = step_config step" unfolding without_ready_fields_def by (rule filter_same_length)
    with gone have "jget (step_config step) ''safe_pr_ready'' = None" by (simp only:)
    moreover have "step_config (evidenced_step env reads ws plan shown wave step) = step_config step"
      using True by (simp only: evidenced_step_config c if_False simp_thms)
    ultimately show False using assms(2) by (simp only: simp_thms)
  next
    case False
    with assms(1) have "step_config (evidenced_step env reads ws plan shown wave step) = ?c"
      by (simp only: evidenced_step_config c if_True simp_thms)
    with assms(2) gone show False by (simp only: simp_thms)
  qed
qed

lemma evidence_ready_field: "safe_pr_evidence_ready render d \<Longrightarrow> jget d ''safe_pr_ready'' \<noteq> None"
  by (cases "jget d ''safe_pr_ready''") (simp_all add: safe_pr_evidence_ready_def)

text \<open>
  Claim C23. When the gates of a live wave are open, every step of the wave whose gate asks
  for a Safe PR has a stored pull request event that matches what the server itself expects of the
  step: provider, repository, base branch, commit and the digest of the patch, created recently,
  for the manifest and environment of the step, with a rollback patch when it targets production.
  Whatever readiness the plan or the step claims for itself does not count.
\<close>

theorem safe_pr_gate_needs_stored_evidence:
  assumes "release_execution_blockers env reads ws plan shown wave = []"
    and "live_plan env plan"
    and "step \<in> set (plan_steps plan)"
    and "jget (preview_for (re_render env) shown (application_id (re_render env) step)) ''wave'' = Some (JInt wave)"
    and "effective_gate (re_render env) (plan_settings_value plan) (step_config step) = ''safe_pr''"
  shows "\<exists>workflow_run_id \<in> set (safe_pr_workflow_run_ids env reads ws plan step).
    \<exists>evidence \<in> set (rr_safe_pr_evidence reads ws workflow_run_id (application_id (re_render env) step) 20).
      safe_pr_evidence_matches env evidence (safe_pr_expected_evidence env reads ws plan step)"
proof -
  let ?plan = "plan_with_safe_pr_evidence env reads ws plan shown wave"
  let ?step = "evidenced_step env reads ws plan shown wave step"
  have gate: "step_in_gate (re_render env) (plan_settings_value plan) shown wave step"
    using assms(4,5) by (simp add: step_in_gate_def safe_pr_gate_required_def int_field_def)
  have settings: "jget (plan_settings_value ?plan) ''safe_pr_ready'' = None"
    using gate assms(3) by (auto simp: evidenced_plan(2) safe_pr_ready_fields_def)
  have keep: "jget (plan_settings_value ?plan) ''approval_policy'' = jget (plan_settings_value plan) ''approval_policy''"
    "jget (step_config ?step) ''approval_gate'' = jget (step_config step) ''approval_gate''"
    by (auto simp: safe_pr_ready_fields_def intro!: evidenced_settings_keep evidenced_config_keep)
  have "?step \<in> set (plan_steps ?plan)" using assms(3) by (simp add: evidenced_plan(1))
  with assms(1,2) have "step_execution_blockers env (plan_settings_value ?plan) shown wave ?step = []"
    by (auto simp: release_execution_blockers_def base_release_execution_blockers_def live_plan_evidenced)
  moreover have "effective_gate (re_render env) (plan_settings_value ?plan) (step_config ?step) = ''safe_pr''"
    using effective_gate_cong [OF keep] assms(5) by simp
  ultimately have "has_safe_pr_ready (re_render env) (plan_settings_value ?plan) (step_config ?step)"
    using assms(4) by (auto simp: step_execution_blockers_def Let_def requires_safe_pr_def int_like_def py_int_def split: if_splits)
  then have "jget (step_config ?step) ''safe_pr_ready'' \<noteq> None"
    unfolding has_safe_pr_ready_def using evidence_ready_field settings by blast
  from ready_config_has_evidence [OF gate this]
  obtain evidence where "safe_pr_created_evidence_for_step env reads ws plan step = Some evidence" by blast
  from find_in_set [OF this [unfolded safe_pr_created_evidence_for_step_def Let_def]]
  show ?thesis
    unfolding safe_pr_evidence_candidates_def SAFE_PR_EVIDENCE_LOOKUP_LIMIT_def set_concat set_map by blast
qed

text \<open>
  Claim C24. When the gates of a live wave are open, every step of the wave that targets
  production has a change ticket that is no placeholder (or an operator's reason to go without),
  a live https runbook and verification URL, an owner to call, abort criteria (or a reason), and
  if it is approved, the name, reason and time of the approval, given neither in the future nor
  too long ago. The release runs inside its window and outside a freeze (or with a reason), rollback
  is not disabled without a reason, the diagnostics pass (or are waived with a reason), and some
  alert channel was tested recently.
\<close>

theorem production_wave_meets_its_policy:
  assumes "wave_blockers env reads ws plan shown wave = []"
    and "live_plan env plan"
    and "step \<in> set (release_production_steps_for_wave (re_render env) plan shown wave)"
  defines "render \<equiv> re_render env" and "settings \<equiv> plan_settings_value plan" and "config \<equiv> step_config step"
  shows "placeholder_change_ticket render settings config = [] \<and>
    (has_change_ticket render settings config \<or> release_production_change_override_reason render plan \<noteq> []) \<and>
    live_https_url_is_valid env (release_runbook_url render settings config) \<and>
    live_https_url_is_valid env (release_verification_url render settings config) \<and>
    release_owner_contact render settings config \<noteq> [] \<and>
    (release_abort_criteria render settings config \<noteq> [] \<or> release_abort_criteria_override_reason render plan \<noteq> []) \<and>
    (approval_granted settings config \<longrightarrow>
       release_approval_granted_by render settings config \<noteq> [] \<and> release_approval_reason render settings config \<noteq> [] \<and>
       (\<exists>t. release_approval_granted_at env settings config = Some t \<and>
          t \<le> re_now env + APPROVAL_CLOCK_SKEW \<and> re_now env - t \<le> approval_max_age env)) \<and>
    (release_window_override_reason render plan \<noteq> [] \<or>
       (\<exists>start stop. release_window_bounds env plan = (Some start, Some stop) \<and> start < stop \<and>
          start \<le> re_now env \<and> re_now env \<le> stop)) \<and>
    (release_freeze_override_reason render plan \<noteq> [] \<or>
       release_freeze_window_bounds env plan = (None, None) \<or>
       (\<exists>start stop. release_freeze_window_bounds env plan = (Some start, Some stop) \<and>
          (re_now env < start \<or> stop < re_now env))) \<and>
    (text_or render settings ''rollback_policy'' ''manual'' = ''disabled'' \<longrightarrow>
       release_rollback_override_reason render plan \<noteq> []) \<and>
    (release_diagnostics_override_reason render plan \<noteq> [] \<or>
       (\<forall>d \<in> set (re_diagnostics env plan). dg_severity d \<notin> {''error'', ''warning''})) \<and>
    (\<exists>c \<in> set (rr_enabled_channels reads ws). alert_channel_validation_is_current env c \<and>
       severity_matches (text_or render c ''min_severity'' ''warning'') ''warning'')"
proof -
  note gates = wave_blockers_open [OF assms(1)]
  note open_step = production_gate_open [OF _ assms(2,3)]
  have steps: "release_production_steps_for_wave (re_render env) plan shown wave \<noteq> []"
    using assms(3) by auto
  note parts = ticket_gate_open [OF open_step [OF gates(3) [unfolded release_production_change_ticket_blockers_def]]]
    approval_gate_open [OF open_step [OF gates(2) [unfolded release_production_approval_evidence_blockers_def]]]
    window_gate_open [OF gates(4) assms(2) steps] freeze_gate_open [OF gates(5) assms(2) steps]
    alert_gate_open [OF gates(12) assms(2)]
  have runbook: "live_https_url_is_valid env (release_runbook_url render settings config)"
    using open_step [OF gates(6) [unfolded release_production_runbook_blockers_def]]
    by (auto simp: runbook_blockers_def Let_def render_def settings_def config_def split: if_splits)
  have check: "live_https_url_is_valid env (release_verification_url render settings config)"
    using open_step [OF gates(8) [unfolded release_production_verification_blockers_def]]
    by (auto simp: verification_blockers_def release_verification_evidence_present_def render_def settings_def
        config_def split: if_splits)
  have owner: "release_owner_contact render settings config \<noteq> []"
    using open_step [OF gates(7) [unfolded release_production_owner_blockers_def]]
    by (auto simp: owner_blockers_def render_def settings_def config_def split: if_splits)
  have abort: "release_abort_criteria render settings config \<noteq> [] \<or> release_abort_criteria_override_reason render plan \<noteq> []"
    using open_step [OF gates(9) [unfolded release_production_abort_criteria_blockers_def]]
    by (auto simp: abort_criteria_blockers_def render_def settings_def config_def split: if_splits)
  have rollback: "text_or render settings ''rollback_policy'' ''manual'' = ''disabled'' \<longrightarrow>
      release_rollback_override_reason render plan \<noteq> []"
    using gates(11) assms(2) by (auto simp: release_rollback_policy_blockers_def render_def settings_def split: if_splits)
  have diagnostics: "release_diagnostics_override_reason render plan \<noteq> [] \<or>
      (\<forall>d \<in> set (re_diagnostics env plan). dg_severity d \<notin> {''error'', ''warning''})"
    using gates(10) assms(2)
    by (auto simp: release_diagnostics_blockers_def render_def filter_empty_conv Let_def split: if_splits)
  show ?thesis
    using parts runbook check owner abort rollback diagnostics
    unfolding render_def settings_def config_def by blast
qed

text \<open>
  The approval policy \<^verbatim>\<open>production_only\<close> looks at the environment label alone,
  while every other gate takes a step for production when its namespace is: such a step, in a live
  wave, runs without an approval, and neither gate on approvals blocks it.
\<close>

theorem production_namespace_needs_no_approval:
  assumes "release_step_targets_production (re_render env) plan step"
    and "effective_gate (re_render env) (plan_settings_value plan) (step_config step) = ''production_only''"
    and "approval_policy (re_render env) (plan_settings_value plan) = ''production_only''"
    and "\<not> is_production_environment (either_text (re_render env)
      [(preview_for (re_render env) shown (application_id (re_render env) step), ''environment''),
       (step_config step, ''environment'')] [])"
    and "\<not> approval_granted (plan_settings_value plan) (step_config step)"
  shows "step_execution_blockers env (plan_settings_value plan) shown wave step = [] \<and>
    approval_evidence_blockers env (plan_settings_value plan) step = []"
  using assms(2-5)
  by (simp add: step_execution_blockers_def approval_evidence_blockers_def Let_def
      requires_external_ticket_def requires_safe_pr_def requires_manual_approval_def)

section \<open>Concrete waves\<close>

definition release_demo_pv :: policy_env where
  "release_demo_pv =
     \<lparr>pv_command = \<lparr>ce_catalog = [], ce_render = (\<lambda>_. []), ce_sql_text = (\<lambda>_. []), ce_timestamp = (\<lambda>_. None), ce_impact = (\<lambda>_ _ _ _ _. [])\<rparr>,
      pv_getenv = (\<lambda>k. if k = ''RELEASE_FLOW_LIVE_ENABLED'' then Some ''1'' else None),
      pv_fromisoformat = (\<lambda>_. Some (0, None)), pv_isoformat = (\<lambda>_. ''1970-01-01T00:00:00+00:00''),
      pv_digest = (\<lambda>_. []), pv_lease_seconds = 60, pv_heartbeat_seconds = 10\<rparr>"

definition release_demo_env :: release_env where
  "release_demo_env =
     \<lparr>re_render = (\<lambda>_. []), re_pv = release_demo_pv, re_now = 1000000,
      re_urlparse = (\<lambda>u. \<lparr>ur_scheme = ''https'', ur_netloc = ''github.com'', ur_hostname = ''github.com'',
        ur_path = ''/acme/shop/pull/7''\<rparr>),
      re_unquote = (\<lambda>s. s), re_float = (\<lambda>_. None), re_fixed1 = (\<lambda>_. []), re_diagnostics = (\<lambda>_. []),
      re_manifest = (\<lambda>plan i application. \<lparr>rm_files = [JObj [(''path'', JStr ''deploy.yaml''), (''content'', JStr ''kind: Deployment'')]],
        rm_severities = []\<rparr>),
      re_workflow_run_id = (\<lambda>_. ''workflow-1''), re_patch_sha256 = (\<lambda>_. ''sha'')\<rparr>"

definition release_demo_step :: jobj where
  "release_demo_step =
     [(''application_id'', JStr ''shop''),
      (''config'', JObj [(''namespace'', JStr ''production''), (''approval_gate'', JStr ''safe_pr''),
         (''change_ticket'', JStr ''CHG-1''), (''runbook_url'', JStr ''https://wiki''), (''verification_url'', JStr ''https://shop''),
         (''release_owner'', JStr ''ops''), (''abort_criteria'', JStr ''errors''), (''repo_ref'', JStr ''acme/shop''),
         (''commit_sha'', JStr ''abc''), (''rollback_image'', JStr ''shop:1'')])]"

definition release_demo_plan :: jobj where
  "release_demo_plan =
     [(''settings'', JObj [(''runtime_mode'', JStr ''live''), (''approval_policy'', JStr ''production_only''),
         (''release_window_override_reason'', JStr ''hotfix'')]),
      (''steps'', JArr [JObj release_demo_step])]"

definition release_demo_shown :: "jobj list" where
  "release_demo_shown = rp_steps (build_release_plan_preview (\<lambda>_. []) release_demo_plan)"

definition release_demo_evidence :: jobj where
  "release_demo_evidence =
     [(''workflow_run_id'', JStr ''workflow-1''), (''pr_url'', JStr ''https://github.com/acme/shop/pull/7''),
      (''provider'', JStr ''github''), (''repo_ref'', JStr ''acme/shop''), (''base_branch'', JStr ''main''),
      (''environment'', JStr ''sandbox''), (''manifest_path'', JStr ''deploy.yaml''), (''commit_sha'', JStr ''abc''),
      (''patch_sha256'', JStr ''sha''), (''created_at'', JStr ''1970-01-01'')]"

definition release_demo_reads :: release_reads where
  "release_demo_reads =
     \<lparr>rr_application = (\<lambda>_ _. Some [(''cluster_id'', JStr ''c''), (''branch'', JStr ''main''), (''manifest_path'', JStr ''deploy.yaml'')]),
      rr_safe_pr_evidence = (\<lambda>_ i _ _. if i = ''workflow-1'' then [release_demo_evidence] else []),
      rr_enabled_channels = (\<lambda>_. [[(''last_test_status'', JStr ''passed''), (''last_tested_at'', JStr ''1970-01-01'')]]),
      rr_plan = (\<lambda>_ _. None)\<rparr>"

lemma release_demo_open: "wave_blockers release_demo_env release_demo_reads ''w'' release_demo_plan release_demo_shown 1 = []"
  by code_simp

lemma safe_pr_gate_needs_stored_evidence_witness:
  "\<exists>workflow_run_id \<in> set (safe_pr_workflow_run_ids release_demo_env release_demo_reads ''w'' release_demo_plan release_demo_step).
    \<exists>evidence \<in> set (rr_safe_pr_evidence release_demo_reads ''w'' workflow_run_id (application_id (re_render release_demo_env) release_demo_step) 20).
      safe_pr_evidence_matches release_demo_env evidence
        (safe_pr_expected_evidence release_demo_env release_demo_reads ''w'' release_demo_plan release_demo_step)"
proof (rule safe_pr_gate_needs_stored_evidence [OF wave_blockers_open(1) [OF release_demo_open]])
  show "live_plan release_demo_env release_demo_plan" by code_simp
  show "release_demo_step \<in> set (plan_steps release_demo_plan)" by code_simp
  show "jget (preview_for (re_render release_demo_env) release_demo_shown
      (application_id (re_render release_demo_env) release_demo_step)) ''wave'' = Some (JInt 1)" by code_simp
  show "effective_gate (re_render release_demo_env) (plan_settings_value release_demo_plan) (step_config release_demo_step) = ''safe_pr''"
    by code_simp
qed

lemma production_wave_meets_its_policy_witness:
  "live_https_url_is_valid release_demo_env
     (release_runbook_url (re_render release_demo_env) (plan_settings_value release_demo_plan) (step_config release_demo_step)) \<and>
   release_owner_contact (re_render release_demo_env) (plan_settings_value release_demo_plan) (step_config release_demo_step) \<noteq> []"
proof -
  have "live_plan release_demo_env release_demo_plan" by code_simp
  moreover have "release_demo_step \<in> set (release_production_steps_for_wave (re_render release_demo_env) release_demo_plan release_demo_shown 1)"
    by code_simp
  ultimately show ?thesis using production_wave_meets_its_policy [OF release_demo_open] by blast
qed

definition release_unapproved_step :: jobj where
  "release_unapproved_step =
     [(''application_id'', JStr ''shop''), (''config'', JObj [(''namespace'', JStr ''production'')])]"

definition release_unapproved_plan :: jobj where
  "release_unapproved_plan =
     [(''settings'', JObj [(''runtime_mode'', JStr ''live''), (''approval_policy'', JStr ''production_only'')]),
      (''steps'', JArr [JObj release_unapproved_step])]"

lemma production_namespace_needs_no_approval_witness:
  "step_execution_blockers release_demo_env (plan_settings_value release_unapproved_plan)
      (rp_steps (build_release_plan_preview (\<lambda>_. []) release_unapproved_plan)) 1 release_unapproved_step = [] \<and>
    approval_evidence_blockers release_demo_env (plan_settings_value release_unapproved_plan) release_unapproved_step = []"
  by (rule production_namespace_needs_no_approval) code_simp+

end
