(* ===== verification/Release_Run.thy ===== *)
theory Release_Run
  imports Release_Policy
begin

text \<open>
  Release runs (\<^verbatim>\<open>src/src/domains/release_flow/models.py\<close>, \<^verbatim>\<open>repository.py\<close>): the tables of plans,
  runs, steps and audit events, every operation that changes a run, and the view of a run the
  routes and workers decide on. Every operation is one transaction.
\<close>

section \<open>Tables\<close>

record release_run_row =
  rn_run_id :: string
  rn_workspace_id :: string
  rn_plan_id :: string
  rn_plan_name :: string
  rn_status :: string
  rn_current_wave :: int
  rn_total_waves :: int
  rn_started_by :: "string option"
  rn_settings :: jobj
  rn_github :: jobj
  rn_rollback :: jobj
  rn_health :: jobj
  rn_updated_at :: time

record run_step_row =
  rs_run_step_id :: string
  rs_workspace_id :: string
  rs_run_id :: string
  rs_step_id :: string
  rs_application_id :: string
  rs_name :: string
  rs_wave :: int
  rs_status :: string
  rs_workflow_run_id :: "string option"
  rs_approval_id :: "string option"
  rs_event_id :: "string option"
  rs_correlation_id :: "string option"
  rs_health :: jobj
  rs_rollback :: jobj
  rs_details :: jobj
  rs_created_at :: time

record run_event_row =
  rv_workspace_id :: string
  rv_run_id :: string
  rv_event_type :: string
  rv_message :: string
  rv_actor :: "string option"
  rv_details :: jobj
  rv_created_at :: time

record release_plan_row =
  rp_row_id :: string
  rp_workspace_id :: string
  rp_name :: string
  rp_status :: string
  rp_settings :: jobj

text \<open>\<open>rd_workflows\<close>: identifier and status of the workflow runs the GitOps side keeps.\<close>

record release_db =
  rd_plans :: "release_plan_row list"
  rd_runs :: "release_run_row list"
  rd_steps :: "run_step_row list"
  rd_events :: "run_event_row list"
  rd_workflows :: "(string \<times> string) list"

definition TERMINAL_RUN_STATUSES :: "string list" where
  "TERMINAL_RUN_STATUSES = [''succeeded'', ''failed'', ''cancelled'', ''rollback_requested'']"

definition RELEASE_RUN_ALLOWED_SOURCES :: "string \<Rightarrow> string list" where
  "RELEASE_RUN_ALLOWED_SOURCES status =
     (if status = ''running'' then [''pending'', ''paused'', ''waiting_for_approval'', ''failed'']
      else if status = ''paused'' then [''running'', ''waiting_for_approval'']
      else if status = ''waiting_for_approval'' then [''running'', ''paused'']
      else if status = ''succeeded'' then [''running'', ''waiting_for_approval'']
      else if status = ''failed'' then [''running'', ''paused'', ''waiting_for_approval'']
      else if status = ''cancelled'' then [''pending'', ''running'', ''paused'', ''waiting_for_approval'']
      else if status = ''rollback_requested'' then [''running'', ''paused'', ''waiting_for_approval'']
      else [])"

definition release_run_transition_sources :: "string \<Rightarrow> string list" where
  "release_run_transition_sources status = status # RELEASE_RUN_ALLOWED_SOURCES status"

section \<open>Status and health of a run\<close>

definition health_status :: "jobj \<Rightarrow> json option" where
  "health_status health = jget health ''status''"

definition release_health_summary :: "jobj list \<Rightarrow> jobj" where
  "release_health_summary healths =
     (let healthy = length (filter (\<lambda>h. health_status h = Some (JStr ''healthy'')) healths);
          unhealthy = length (filter (\<lambda>h. health_status h = Some (JStr ''unhealthy'')) healths);
          pending = length healths - healthy - unhealthy
      in if healths = []
         then [(''status'', JStr ''pending''), (''healthy'', JInt 0), (''unhealthy'', JInt 0), (''pending'', JInt 0)]
         else [(''status'', JStr (if 0 < unhealthy then ''unhealthy'' else if pending = 0 then ''healthy'' else ''progressing'')),
               (''healthy'', JInt (int healthy)), (''unhealthy'', JInt (int unhealthy)), (''pending'', JInt (int pending))])"

text \<open>The status steps give a run that is not stopped, shared by the two functions below.\<close>

definition status_of_steps :: "string \<Rightarrow> string list \<Rightarrow> string" where
  "status_of_steps stored statuses =
     (if ''failed'' \<in> set statuses then ''failed''
      else if statuses \<noteq> [] \<and> set statuses \<subseteq> {''succeeded''} then ''succeeded''
      else if ''waiting_for_approval'' \<in> set statuses then ''waiting_for_approval''
      else if ''running'' \<in> set statuses \<or> ''dispatched'' \<in> set statuses then ''running''
      else or_default stored ''pending'')"

definition derived_release_status :: "string \<Rightarrow> string list \<Rightarrow> string" where
  "derived_release_status stored statuses =
     (if stored \<in> set TERMINAL_RUN_STATUSES \<or> stored = ''paused'' then stored
      else status_of_steps stored statuses)"

definition projected_release_status :: "string \<Rightarrow> string list \<Rightarrow> string" where
  "projected_release_status stored statuses =
     (if stored \<in> {''paused'', ''cancelled'', ''rollback_requested''} then stored
      else status_of_steps stored statuses)"

section \<open>The view of a run\<close>

definition ascii_upper :: "string \<Rightarrow> string" where
  "ascii_upper s = map (\<lambda>c. let n = (of_char c :: nat) in
     if 97 \<le> n \<and> n \<le> 122 then char_of (n - 32) else c) s"

text \<open>The status of the workflow, when there is one, replaces that of the step.\<close>

definition serialize_release_run_step :: "(string \<times> string) list \<Rightarrow> run_step_row \<Rightarrow> run_step_row" where
  "serialize_release_run_step workflows row =
     (case rs_workflow_run_id row of
        None \<Rightarrow> row
      | Some i \<Rightarrow>
          if i = [] then row
          else case map_of workflows i of
            None \<Rightarrow> row
          | Some status \<Rightarrow>
              let upper = ascii_upper status;
                  seen = (\<lambda>st health. row\<lparr>rs_status := st, rs_health := set_key ''status'' (JStr health) (rs_health row)\<rparr>)
              in if upper \<in> {''SUCCEEDED'', ''COMPLETED''} then seen ''succeeded'' ''healthy''
                 else if upper \<in> {''FAILED'', ''REJECTED''} then seen ''failed'' ''unhealthy''
                 else if status \<noteq> [] then seen ''running'' ''progressing'' else row)"

record run_view =
  vw_run :: release_run_row
  vw_steps :: "run_step_row list"
  vw_events :: "run_event_row list"
  vw_derived_status :: string

definition find_run :: "string \<Rightarrow> string \<Rightarrow> release_db \<Rightarrow> release_run_row option" where
  "find_run ws i rd = find (\<lambda>r. rn_workspace_id r = ws \<and> rn_run_id r = i) (rd_runs rd)"

definition steps_of_run :: "string \<Rightarrow> string \<Rightarrow> release_db \<Rightarrow> run_step_row list" where
  "steps_of_run ws i rd = filter (\<lambda>s. rs_workspace_id s = ws \<and> rs_run_id s = i) (rd_steps rd)"

text \<open>Steps come by wave and creation; events in the order they were written.\<close>

definition get_release_run :: "string \<Rightarrow> string \<Rightarrow> release_db \<Rightarrow> run_view option" where
  "get_release_run ws i rd =
     (case find_run ws i rd of
        None \<Rightarrow> None
      | Some r \<Rightarrow>
          let steps = map (serialize_release_run_step (rd_workflows rd))
                (sort_key (\<lambda>s. (rs_wave s, rs_created_at s)) (steps_of_run ws i rd))
          in Some \<lparr>vw_run = r\<lparr>rn_health := release_health_summary (map rs_health steps)\<rparr>, vw_steps = steps,
               vw_events = filter (\<lambda>e. rv_workspace_id e = ws \<and> rv_run_id e = i) (rd_events rd),
               vw_derived_status = derived_release_status (rn_status r) (map rs_status steps)\<rparr>)"

section \<open>Creating a run\<close>

definition github_repo_ref_ok :: "string \<Rightarrow> bool" where
  "github_repo_ref_ok repo_ref \<longleftrightarrow>
     length (filter (\<lambda>c. c = CHR ''/'') repo_ref) = 1 \<and>
     (\<forall>part \<in> set (py_split (CHR ''/'') repo_ref). py_strip part \<noteq> [])"

definition github_step_metadata :: "(json \<Rightarrow> string) \<Rightarrow> jobj \<Rightarrow> jobj" where
  "github_step_metadata render config =
     (let repo_ref = text_or render config ''repo_ref'' []; commit_sha = text_or render config ''commit_sha'' [];
          branch = text_or render config ''branch'' []
      in [(''repo_ref'', JStr repo_ref), (''branch'', JStr branch), (''commit_sha'', JStr commit_sha)] @
         (if github_repo_ref_ok repo_ref \<and> commit_sha \<noteq> []
          then [(''commit_url'', JStr (''https://github.com/'' @ repo_ref @ ''/commit/'' @ commit_sha))] else []))"

definition github_release_metadata :: "(json \<Rightarrow> string) \<Rightarrow> jobj \<Rightarrow> jobj" where
  "github_release_metadata render plan =
     (let settings = plan_settings_value plan;
          tag = py_strip (either_text render [(settings, ''release_tag''), (settings, ''git_tag'')] []);
          configs = map (\<lambda>s. (step_config s, application_id render s)) (plan_steps plan);
          repos = filter (\<lambda>t. t \<noteq> []) (map (\<lambda>(c, _). text_or render c ''repo_ref'' []) configs);
          first_repo = (case repos of t # _ \<Rightarrow> t | [] \<Rightarrow> []);
          given = text_or render settings ''release_url'' [];
          release_url = (if given = [] \<and> tag \<noteq> [] \<and> github_repo_ref_ok first_repo
            then ''https://github.com/'' @ first_repo @ ''/releases/tag/'' @ tag else given)
      in [(''tag'', JStr tag), (''release_url'', JStr release_url),
          (''notes_url'', JStr (text_or render settings ''release_notes_url'' [])),
          (''commits'', JArr (map (\<lambda>(c, app). JObj (github_step_metadata render c @ [(''application_id'', JStr app)])) configs))])"

definition rollback_metadata :: "(json \<Rightarrow> string) \<Rightarrow> jobj \<Rightarrow> jobj" where
  "rollback_metadata render plan =
     (let policy = text_or render (plan_settings_value plan) ''rollback_policy'' ''manual''
      in [(''policy'', JStr policy), (''requested'', JBool False), (''safe_pr_enabled'', JBool (policy = ''safe_pr'')),
          (''restart_last_successful_enabled'', JBool (policy = ''restart_last_successful''))])"

definition run_step_from_plan ::
    "release_env \<Rightarrow> (string \<Rightarrow> string \<Rightarrow> string) \<Rightarrow> time \<Rightarrow> string \<Rightarrow> string \<Rightarrow> jobj \<Rightarrow> jobj list \<Rightarrow> nat \<Rightarrow> jobj \<Rightarrow> run_step_row list" where
  "run_step_from_plan env step_key now ws run_id plan shown index step =
     (let render = re_render env; app = application_id render step;
          shown_step = preview_for render shown app;
          config = step_config step; settings = plan_settings_value plan; profile = execution_profile render plan;
          policy = text_or render settings ''rollback_policy'' []
      in if app = [] then []
         else [\<lparr>rs_run_step_id = step_key run_id app, rs_workspace_id = ws, rs_run_id = run_id,
                rs_step_id = either_text render [(step, ''step_id''), (shown_step, ''step_id'')] (''step-'' @ int_text (int index)),
                rs_application_id = app, rs_name = either_text render [(step, ''name''), (shown_step, ''name'')] app,
                rs_wave = int_like (jget shown_step ''wave'') 1, rs_status = ''pending'', rs_workflow_run_id = None,
                rs_approval_id = None, rs_event_id = None, rs_correlation_id = None,
                rs_health = [(''status'', JStr ''pending''), (''path'', JStr (text_or render config ''health_check_path'' ''/readyz'')),
                  (''timeout_seconds'', JInt (int_like (jget config ''timeout_seconds'') 600))],
                rs_rollback = [(''policy'', JStr (or_default policy ''manual'')), (''safe_pr_ready'', JBool (policy = ''safe_pr''))],
                rs_details = [(''runtime_mode'', JStr (ep_runtime_mode profile)), (''provider_mode'', JStr (ep_provider_mode profile)),
                  (''side_effects'', JBool (ep_side_effects profile)),
                  (''gate'', JStr (either_text render [(shown_step, ''gate''), (config, ''approval_gate'')] ''inherit'')),
                  (''strategy'', JStr (either_text render [(shown_step, ''strategy''), (config, ''strategy'')] ''rolling'')),
                  (''environment'', JStr (either_text render [(shown_step, ''environment''), (config, ''environment'')] [])),
                  (''config'', JObj config), (''github'', JObj (github_step_metadata render config))],
                rs_created_at = now\<rparr>])"

definition release_run_steps_from_plan ::
    "release_env \<Rightarrow> (string \<Rightarrow> string \<Rightarrow> string) \<Rightarrow> time \<Rightarrow> string \<Rightarrow> string \<Rightarrow> jobj \<Rightarrow> jobj list \<Rightarrow> run_step_row list" where
  "release_run_steps_from_plan env step_key now ws run_id plan shown =
     concat (map (\<lambda>(index, v). case v of JObj step \<Rightarrow> run_step_from_plan env step_key now ws run_id plan shown index step | _ \<Rightarrow> [])
       (enumerate 0 (json_items (jget plan ''steps''))))"

definition run_event ::
    "time \<Rightarrow> string \<Rightarrow> string \<Rightarrow> string \<Rightarrow> string \<Rightarrow> string option \<Rightarrow> jobj \<Rightarrow> run_event_row" where
  "run_event now ws run_id event_type message actor details =
     \<lparr>rv_workspace_id = ws, rv_run_id = run_id, rv_event_type = event_type, rv_message = message,
      rv_actor = actor, rv_details = details, rv_created_at = now\<rparr>"

definition add_event :: "run_event_row \<Rightarrow> release_db \<Rightarrow> release_db" where
  "add_event e rd = rd\<lparr>rd_events := rd_events rd @ [e]\<rparr>"

text \<open>\<^verbatim>\<open>d.get(k)\<close> as a value: a missing key is null.\<close>

definition value_of :: "jobj \<Rightarrow> string \<Rightarrow> json" where
  "value_of d k = (case jget d k of Some v \<Rightarrow> v | None \<Rightarrow> JNull)"

definition profile_body :: "release_profile \<Rightarrow> jobj" where
  "profile_body profile =
     [(''runtime_mode'', JStr (ep_runtime_mode profile)), (''provider_mode'', JStr (ep_provider_mode profile)),
      (''side_effects'', JBool (ep_side_effects profile)),
      (''label'', JStr (if ep_side_effects profile then ''Live mode'' else ''Demo mode'')),
      (''description'', JStr (if ep_side_effects profile
        then ''Dispatches real GitOps events and records the resulting workflow IDs.''
        else ''Runs the same release-run path but records dry-run events without external side effects.''))]"

text \<open>
  \<open>run_id\<close> is the fresh identifier of the run, \<open>plan_key\<close> the SHA-256 of workspace and plan name,
  \<open>step_key\<close> that of run and application. A repeated application makes the insert fail (two rows of one statement with the same key).
\<close>

definition create_release_run ::
    "release_env \<Rightarrow> (string \<Rightarrow> string \<Rightarrow> string) \<Rightarrow> (string \<Rightarrow> string \<Rightarrow> string) \<Rightarrow> time \<Rightarrow> string \<Rightarrow> string \<Rightarrow> jobj \<Rightarrow>
     release_preview \<Rightarrow> string option \<Rightarrow> release_db \<Rightarrow> release_db option" where
  "create_release_run env plan_key step_key now ws run_id plan preview started_by rd =
     (let render = re_render env; profile = execution_profile render plan; given = plan_settings_value plan;
          with_mode = (if jget given ''runtime_mode'' = None then given @ [(''runtime_mode'', JStr (ep_runtime_mode profile))] else given);
          settings = (if jget with_mode ''provider_mode'' = None
            then with_mode @ [(''provider_mode'', JStr (ep_provider_mode profile))] else with_mode);
          steps = release_run_steps_from_plan env step_key now ws run_id plan (rp_steps preview);
          plan_id = text_or render plan ''plan_id'' (plan_key ws (text_of render (jget plan ''name'') []));
          started = [(''plan_id'', JStr plan_id), (''plan_name'', value_of plan ''name''),
            (''total_waves'', JInt (int (length (rp_waves preview)))), (''approval_policy'', value_of settings ''approval_policy''),
            (''rollback_policy'', value_of settings ''rollback_policy''), (''execution_profile'', JObj (profile_body profile))];
          row = \<lparr>rn_run_id = run_id, rn_workspace_id = ws, rn_plan_id = plan_id,
            rn_plan_name = text_or render plan ''name'' ''Release plan'', rn_status = ''running'', rn_current_wave = 1,
            rn_total_waves = int (length (rp_waves preview)), rn_started_by = started_by, rn_settings = settings,
            rn_github = github_release_metadata render plan, rn_rollback = rollback_metadata render plan,
            rn_health = release_health_summary [], rn_updated_at = now\<rparr>
      in if run_id \<in> rn_run_id ` set (rd_runs rd) \<or>
            \<not> distinct (map rs_run_step_id (rd_steps rd @ steps)) then None
         else Some (add_event (run_event now ws run_id ''release.started'' ''Release run created.'' started_by started)
           (rd\<lparr>rd_runs := rd_runs rd @ [row], rd_steps := rd_steps rd @ steps\<rparr>)))"

section \<open>Steps of a run\<close>

text \<open>\<^verbatim>\<open>{**a, **b}\<close>.\<close>

definition merge_dicts :: "jobj \<Rightarrow> jobj \<Rightarrow> jobj" where
  "merge_dicts a b = fold (\<lambda>(k, v) d. set_key k v d) b a"

definition step_at :: "string \<Rightarrow> string \<Rightarrow> string \<Rightarrow> run_step_row \<Rightarrow> bool" where
  "step_at ws run_id app s \<longleftrightarrow> rs_workspace_id s = ws \<and> rs_run_id s = run_id \<and> rs_application_id s = app"

record dispatch_ids =
  di_workflow_run_id :: string
  di_event_id :: string
  di_correlation_id :: string

definition set_dispatched :: "dispatch_ids \<Rightarrow> jobj \<Rightarrow> run_step_row \<Rightarrow> run_step_row" where
  "set_dispatched ids details s =
     s\<lparr>rs_status := ''dispatched'', rs_workflow_run_id := Some (di_workflow_run_id ids),
       rs_event_id := Some (di_event_id ids), rs_correlation_id := Some (di_correlation_id ids), rs_details := details\<rparr>"

definition mark_release_run_step_dispatched ::
    "time \<Rightarrow> string \<Rightarrow> string \<Rightarrow> string \<Rightarrow> dispatch_ids \<Rightarrow> string option \<Rightarrow> jobj \<Rightarrow> release_db \<Rightarrow> release_db" where
  "mark_release_run_step_dispatched now ws run_id app ids actor details rd =
     (let merged = (case find (step_at ws run_id app) (rd_steps rd) of
            None \<Rightarrow> details | Some s \<Rightarrow> merge_dicts (rs_details s) details);
          shown = merge_dicts [(''application_id'', JStr app), (''workflow_run_id'', JStr (di_workflow_run_id ids)),
            (''event_id'', JStr (di_event_id ids)), (''correlation_id'', JStr (di_correlation_id ids))] details
      in add_event (run_event now ws run_id ''wave.dispatched''
             (''Application '' @ app @ '' dispatched to GitOps.'') actor shown)
           (rd\<lparr>rd_steps := update_where (step_at ws run_id app) (set_dispatched ids merged) (rd_steps rd)\<rparr>))"

subsection \<open>Merging what a workflow reports\<close>

definition verification_job_match_key :: "(json \<Rightarrow> string) \<Rightarrow> jobj \<Rightarrow> string" where
  "verification_job_match_key render job =
     or_default (text_or render job ''job_id'' [])
       (or_default (text_or render job ''evidence_key'' [])
         (text_or render job ''application_id'' [] @ '':'' @ text_or render job ''kind'' []))"

definition merge_verification_job_update :: "(json \<Rightarrow> string) \<Rightarrow> jobj list \<Rightarrow> jobj \<Rightarrow> jobj" where
  "merge_verification_job_update render updates job =
     (case find (\<lambda>u. verification_job_match_key render u = verification_job_match_key render job) updates of
        None \<Rightarrow> job | Some u \<Rightarrow> merge_dicts job u)"

definition merge_verification_jobs_projection :: "(json \<Rightarrow> string) \<Rightarrow> jobj \<Rightarrow> jobj \<Rightarrow> jobj" where
  "merge_verification_jobs_projection render current incoming =
     (let updates = objects (json_items (jget incoming ''jobs''));
          jobs = objects (json_items (jget current ''jobs''));
          known = map (verification_job_match_key render) jobs;
          next_jobs = map (merge_verification_job_update render updates) jobs @
            filter (\<lambda>u. verification_job_match_key render u \<notin> set known) updates
      in if updates = [] then merge_dicts current incoming
         else set_key ''scheduled'' (JBool (next_jobs \<noteq> []))
           (set_key ''job_count'' (JInt (int (length next_jobs)))
             (set_key ''jobs'' (JArr (map JObj next_jobs)) (merge_dicts current incoming))))"

text \<open>
  One key of an incoming object: the named key is merged by its own function, other objects are
  overlaid, anything else is replaced.
\<close>

definition merge_key :: "string \<Rightarrow> (jobj \<Rightarrow> jobj \<Rightarrow> jobj) \<Rightarrow> string \<times> json \<Rightarrow> jobj \<Rightarrow> jobj" where
  "merge_key special deeper = (\<lambda>(k, v) d.
     case (v, jget d k) of
       (JObj new, Some (JObj old)) \<Rightarrow>
         set_key k (JObj (if k = special then deeper old new else merge_dicts old new)) d
     | _ \<Rightarrow> set_key k v d)"

definition merge_release_guard_projection :: "(json \<Rightarrow> string) \<Rightarrow> jobj \<Rightarrow> jobj \<Rightarrow> jobj" where
  "merge_release_guard_projection render current incoming =
     fold (merge_key ''verification_jobs'' (merge_verification_jobs_projection render)) incoming current"

definition merge_projection_details :: "(json \<Rightarrow> string) \<Rightarrow> jobj \<Rightarrow> jobj \<Rightarrow> jobj" where
  "merge_projection_details render current incoming =
     fold (merge_key ''release_guard'' (merge_release_guard_projection render)) incoming current"

subsection \<open>What a workflow reports\<close>

record workflow_update =
  wu_workspace_id :: string
  wu_workflow_run_id :: string
  wu_step_status :: string
  wu_health_status :: string
  wu_approval_id :: string
  wu_event_type :: string
  wu_message :: string
  wu_actor :: "string option"
  wu_application_id :: string
  wu_details :: jobj

definition workflow_step :: "string \<Rightarrow> string \<Rightarrow> run_step_row \<Rightarrow> bool" where
  "workflow_step ws i s \<longleftrightarrow> rs_workspace_id s = ws \<and> rs_workflow_run_id s = Some i"

text \<open>The values are those merged for the first step found; the statement sets them on every step of the workflow.\<close>

definition project_step :: "(json \<Rightarrow> string) \<Rightarrow> workflow_update \<Rightarrow> run_step_row \<Rightarrow> run_step_row \<Rightarrow> run_step_row" where
  "project_step render u chosen s =
     s\<lparr>rs_details := merge_projection_details render (rs_details chosen) (wu_details u),
       rs_status := (if wu_step_status u = [] then rs_status s else wu_step_status u),
       rs_health := (if wu_health_status u = [] then rs_health s
         else set_key ''status'' (JStr (wu_health_status u)) (rs_health chosen)),
       rs_approval_id := (if wu_approval_id u = [] then rs_approval_id s else Some (wu_approval_id u))\<rparr>"

definition run_at :: "string \<Rightarrow> string \<Rightarrow> release_run_row \<Rightarrow> bool" where
  "run_at ws i r \<longleftrightarrow> rn_workspace_id r = ws \<and> rn_run_id r = i"

definition project_release_workflow_event :: "(json \<Rightarrow> string) \<Rightarrow> time \<Rightarrow> workflow_update \<Rightarrow> release_db \<Rightarrow> release_db" where
  "project_release_workflow_event render now u rd =
     (let ws = wu_workspace_id u; i = wu_workflow_run_id u
      in if i = [] then rd
         else case find (workflow_step ws i) (rd_steps rd) of
           None \<Rightarrow> rd
         | Some chosen \<Rightarrow>
             let run_id = rs_run_id chosen;
                 steps = update_where (workflow_step ws i) (project_step render u chosen) (rd_steps rd);
                 of_run = filter (\<lambda>s. rs_workspace_id s = ws \<and> rs_run_id s = run_id) steps;
                 details = merge_dicts [(''workflow_run_id'', JStr i),
                   (''application_id'', JStr (or_default (wu_application_id u) (rs_application_id chosen)))] (wu_details u);
                 rd' = add_event (run_event now ws run_id (or_default (wu_event_type u) ''workflow.projected'')
                   (or_default (wu_message u) (or_default (wu_event_type u) ''workflow.projected'')) (wu_actor u) details)
                   (rd\<lparr>rd_steps := steps\<rparr>)
             in case find (run_at ws run_id) (rd_runs rd) of
                  None \<Rightarrow> rd'
                | Some r \<Rightarrow> rd'\<lparr>rd_runs := update_where
                    (\<lambda>x. run_at ws run_id x \<and> rn_status x \<notin> set TERMINAL_RUN_STATUSES)
                    (\<lambda>x. x\<lparr>rn_status := projected_release_status (rn_status r) (map rs_status of_run),
                       rn_health := release_health_summary (map rs_health of_run), rn_updated_at := now\<rparr>) (rd_runs rd')\<rparr>)"

section \<open>Status changes of a run\<close>

definition may_become :: "string \<Rightarrow> string \<Rightarrow> string \<Rightarrow> release_run_row \<Rightarrow> bool" where
  "may_become status ws i r \<longleftrightarrow> run_at ws i r \<and> rn_status r \<in> set (release_run_transition_sources status)"

definition set_status :: "time \<Rightarrow> string \<Rightarrow> int option \<Rightarrow> release_run_row \<Rightarrow> release_run_row" where
  "set_status now status wave r =
     r\<lparr>rn_status := status, rn_current_wave := (case wave of None \<Rightarrow> rn_current_wave r | Some n \<Rightarrow> n), rn_updated_at := now\<rparr>"

definition compare_and_set ::
    "time \<Rightarrow> string \<Rightarrow> string \<Rightarrow> string \<Rightarrow> int option \<Rightarrow> run_event_row \<Rightarrow> release_db \<Rightarrow> release_db" where
  "compare_and_set now ws i status wave event rd =
     (if find (may_become status ws i) (rd_runs rd) = None then rd
      else add_event event (rd\<lparr>rd_runs := update_where (may_become status ws i) (set_status now status wave) (rd_runs rd)\<rparr>))"

definition update_release_run_status ::
    "time \<Rightarrow> string \<Rightarrow> string \<Rightarrow> string \<Rightarrow> int option \<Rightarrow> string option \<Rightarrow> string \<Rightarrow> jobj \<Rightarrow> release_db \<Rightarrow> release_db" where
  "update_release_run_status now ws i status wave actor message details rd =
     compare_and_set now ws i status wave
       (run_event now ws i (''release.'' @ status) (or_default message (''Release run marked '' @ status @ ''.'')) actor details) rd"

definition retry_event_type :: "int \<Rightarrow> int \<Rightarrow> string \<Rightarrow> string" where
  "retry_event_type wave attempt status =
     ''release.retry.wave.'' @ int_text wave @ ''.attempt.'' @ int_text attempt @ ''.'' @ status"

definition mark_release_run_retry ::
    "time \<Rightarrow> string \<Rightarrow> string \<Rightarrow> int \<Rightarrow> int \<Rightarrow> string \<Rightarrow> string option \<Rightarrow> string \<Rightarrow> release_db \<Rightarrow> release_db" where
  "mark_release_run_retry now ws i wave attempt status actor reason rd =
     compare_and_set now ws i status (Some wave)
       (run_event now ws i (retry_event_type wave attempt status)
         (''Retry attempt '' @ int_text attempt @ '' for release wave '' @ int_text wave @ '' '' @ status @ ''.'') actor
         [(''wave'', JInt wave), (''attempt'', JInt attempt), (''status'', JStr status), (''reason'', JStr reason)]) rd"

text \<open>The rollback request reads the run in one transaction and writes it in the next, whatever its status is then.\<close>

definition rollback_request :: "jobj \<Rightarrow> string option \<Rightarrow> string \<Rightarrow> jobj" where
  "rollback_request rollback actor reason =
     set_key ''reason'' (JStr reason) (set_key ''requested_by'' (case actor of None \<Rightarrow> JNull | Some a \<Rightarrow> JStr a)
       (set_key ''requested'' (JBool True) rollback))"

definition write_rollback_request ::
    "time \<Rightarrow> string \<Rightarrow> string \<Rightarrow> string option \<Rightarrow> jobj \<Rightarrow> release_db \<Rightarrow> release_db" where
  "write_rollback_request now ws i actor rollback rd =
     add_event (run_event now ws i ''rollback.requested'' ''Rollback requested for release run.'' actor rollback)
       (rd\<lparr>rd_runs := update_where (run_at ws i)
          (\<lambda>r. r\<lparr>rn_status := ''rollback_requested'', rn_rollback := rollback, rn_updated_at := now\<rparr>) (rd_runs rd)\<rparr>)"

definition request_release_run_rollback ::
    "time \<Rightarrow> string \<Rightarrow> string \<Rightarrow> string option \<Rightarrow> string \<Rightarrow> release_db \<Rightarrow> release_db option" where
  "request_release_run_rollback now ws i actor reason rd =
     (case get_release_run ws i rd of
        None \<Rightarrow> None
      | Some v \<Rightarrow> Some (write_rollback_request now ws i actor (rollback_request (rn_rollback (vw_run v)) actor reason) rd))"

definition record_release_run_event ::
    "time \<Rightarrow> string \<Rightarrow> string \<Rightarrow> string \<Rightarrow> string \<Rightarrow> string option \<Rightarrow> jobj \<Rightarrow> release_db \<Rightarrow> release_db" where
  "record_release_run_event now ws i event_type message actor details rd =
     add_event (run_event now ws i event_type message actor details) rd"

section \<open>Deleting, and the plans\<close>

definition delete_release_run :: "string \<Rightarrow> string \<Rightarrow> release_db \<Rightarrow> bool \<times> release_db" where
  "delete_release_run ws i rd =
     (if find (run_at ws i) (rd_runs rd) = None then (False, rd)
      else (True, rd\<lparr>rd_events := delete_where (\<lambda>e. rv_run_id e = i) (rd_events rd),
              rd_steps := delete_where (\<lambda>s. rs_run_id s = i) (rd_steps rd),
              rd_runs := delete_where (\<lambda>r. rn_run_id r = i) (rd_runs rd)\<rparr>))"

definition has_active_release_runs :: "string \<Rightarrow> string \<Rightarrow> release_db \<Rightarrow> bool" where
  "has_active_release_runs ws plan_id rd \<longleftrightarrow>
     0 < count_where (\<lambda>r. rn_workspace_id r = ws \<and> rn_plan_id r = plan_id \<and> rn_status r \<notin> set TERMINAL_RUN_STATUSES) (rd_runs rd)"

definition plan_at :: "string \<Rightarrow> string \<Rightarrow> release_plan_row \<Rightarrow> bool" where
  "plan_at ws i p \<longleftrightarrow> rp_workspace_id p = ws \<and> rp_row_id p = i"

definition delete_release_plan :: "string \<Rightarrow> string \<Rightarrow> release_db \<Rightarrow> bool \<times> release_db" where
  "delete_release_plan ws plan_id rd =
     (let ids = map rn_run_id (filter (\<lambda>r. rn_workspace_id r = ws \<and> rn_plan_id r = plan_id) (rd_runs rd))
      in if find (plan_at ws plan_id) (rd_plans rd) = None then (False, rd)
         else (True, rd\<lparr>rd_events := delete_where (\<lambda>e. rv_run_id e \<in> set ids) (rd_events rd),
                rd_steps := delete_where (\<lambda>s. rs_run_id s \<in> set ids) (rd_steps rd),
                rd_runs := delete_where (\<lambda>r. rn_run_id r \<in> set ids) (rd_runs rd),
                rd_plans := delete_where (\<lambda>p. rp_row_id p = plan_id) (rd_plans rd)\<rparr>))"

definition archive_release_plan ::
    "string \<Rightarrow> string \<Rightarrow> string \<Rightarrow> string \<Rightarrow> string \<Rightarrow> release_db \<Rightarrow> release_db option" where
  "archive_release_plan stamp ws plan_id reason actor rd =
     (case find (plan_at ws plan_id) (rd_plans rd) of
        None \<Rightarrow> None
      | Some p \<Rightarrow>
          let archive = [(''reason'', JStr reason), (''archived_by'', JStr actor), (''archived_at'', JStr stamp),
                (''previous_status'', JStr (or_default (rp_status p) ''draft''))]
          in Some (rd\<lparr>rd_plans := update_where (plan_at ws plan_id)
               (\<lambda>q. q\<lparr>rp_status := ''archived'', rp_settings := set_key ''archive'' (JObj archive) (rp_settings q)\<rparr>) (rd_plans rd)\<rparr>))"

definition restore_release_plan ::
    "(json \<Rightarrow> string) \<Rightarrow> string \<Rightarrow> string \<Rightarrow> string \<Rightarrow> string \<Rightarrow> string \<Rightarrow> release_db \<Rightarrow> release_db option" where
  "restore_release_plan render stamp ws plan_id reason actor rd =
     (case find (plan_at ws plan_id) (rd_plans rd) of
        None \<Rightarrow> None
      | Some p \<Rightarrow>
          let archive = as_mapping (jget (rp_settings p) ''archive'');
              previous = text_or render archive ''previous_status'' ''draft'';
              status = (if previous \<in> {''draft'', ''active'', ''paused''} then previous else ''draft'');
              archive' = set_key ''restored_at'' (JStr stamp) (set_key ''restored_by'' (JStr actor)
                (set_key ''restore_reason'' (JStr reason) archive))
          in Some (rd\<lparr>rd_plans := update_where (plan_at ws plan_id)
               (\<lambda>q. q\<lparr>rp_status := status, rp_settings := set_key ''archive'' (JObj archive') (rp_settings q)\<rparr>) (rd_plans rd)\<rparr>))"

section \<open>Runs of the repository\<close>

text \<open>
  Every operation on the runs of a workspace but the deletions, with any arguments. A rollback
  request is the write alone: other operations may run between its read and its write.
\<close>

inductive release_step :: "release_db \<Rightarrow> release_db \<Rightarrow> bool" where
  created: "create_release_run env plan_key step_key now ws i plan preview actor rd = Some rd' \<Longrightarrow> release_step rd rd'"
| dispatched: "release_step rd (mark_release_run_step_dispatched now ws i app ids actor details rd)"
| projected: "release_step rd (project_release_workflow_event render now u rd)"
| status_set: "release_step rd (update_release_run_status now ws i status wave actor message details rd)"
| retried: "release_step rd (mark_release_run_retry now ws i n attempt status actor reason rd)"
| rollback_written: "release_step rd (write_rollback_request now ws i actor rollback rd)"
| recorded: "release_step rd (record_release_run_event now ws i event_type message actor details rd)"

lemma find_update_where:
  "(\<And>r. q (f r) = q r) \<Longrightarrow> find q (update_where p f t) = map_option (\<lambda>r. if p r then f r else r) (find q t)"
  by (induction t) (auto simp: update_where_def)

lemma find_run_add_event [simp]: "find_run ws i (add_event e rd) = find_run ws i rd"
  by (simp add: find_run_def add_event_def)

lemma find_run_steps [simp]: "find_run ws i (rd\<lparr>rd_steps := ss\<rparr>) = find_run ws i rd"
  by (simp add: find_run_def)

lemma find_run_update:
  "(\<And>r. rn_workspace_id (f r) = rn_workspace_id r \<and> rn_run_id (f r) = rn_run_id r) \<Longrightarrow>
   find_run ws i (rd\<lparr>rd_runs := update_where p f (rd_runs rd)\<rparr>) = map_option (\<lambda>r. if p r then f r else r) (find_run ws i rd)"
  by (simp add: find_run_def find_update_where)

lemma find_appended: "find p xs = Some x \<Longrightarrow> find p (xs @ ys) = Some x"
  by (induction xs) auto

text \<open>The moves of a run's status that one operation can make.\<close>

definition run_move :: "string \<Rightarrow> string \<Rightarrow> bool" where
  "run_move s s' \<longleftrightarrow> s' = s \<or> s \<in> set (RELEASE_RUN_ALLOWED_SOURCES s') \<or> s \<notin> set TERMINAL_RUN_STATUSES \<or>
     s' = ''rollback_requested''"

lemma release_step_moves:
  assumes "release_step rd rd'" and "find_run ws i rd = Some r"
  shows "\<exists>r'. find_run ws i rd' = Some r' \<and> run_move (rn_status r) (rn_status r')"
  using assms
proof (cases rule: release_step.cases)
  case (created env plan_key step_key now w j plan preview actor)
  then have "find_run ws i rd' = Some r"
    using assms(2) by (auto simp: create_release_run_def Let_def find_run_def add_event_def split: if_splits
        intro: find_appended)
  then show ?thesis by (simp add: run_move_def)
next
  case (dispatched now w j app ids actor details)
  with assms(2) show ?thesis by (simp add: mark_release_run_step_dispatched_def Let_def run_move_def)
next
  case (projected render now u)
  show ?thesis
    unfolding projected(1) project_release_workflow_event_def Let_def
    using assms(2)
    by (auto simp: find_run_update run_move_def split: option.split)
next
  case (status_set now w j status wave actor message details)
  with assms(2) show ?thesis
    by (auto simp: update_release_run_status_def compare_and_set_def find_run_update run_move_def set_status_def
        may_become_def release_run_transition_sources_def)
next
  case (retried now w j n attempt status actor reason)
  with assms(2) show ?thesis
    by (auto simp: mark_release_run_retry_def compare_and_set_def find_run_update run_move_def set_status_def
        may_become_def release_run_transition_sources_def)
next
  case (rollback_written now w j actor rollback)
  with assms(2) show ?thesis by (simp add: write_rollback_request_def find_run_update run_move_def)
next
  case (recorded now w j event_type message actor details)
  with assms(2) show ?thesis by (simp add: record_release_run_event_def run_move_def)
qed

lemma ended_move: "run_move s s' \<Longrightarrow> s \<in> {''succeeded'', ''cancelled'', ''rollback_requested''} \<Longrightarrow> s' = s \<or> s' = ''rollback_requested''"
  by (auto simp: run_move_def RELEASE_RUN_ALLOWED_SOURCES_def TERMINAL_RUN_STATUSES_def split: if_splits)


text \<open>
  Claim (ROLLRACE). The rollback request does not check the status it overwrites: a run that ended
  between the route's look at it and the write becomes \<^verbatim>\<open>rollback_requested\<close>, although the table of
  transitions allows that from no ended status, and every compare-and-set would have refused it.
\<close>

theorem rollback_request_overwrites_the_end:
  assumes "find_run ws i rd = Some r"
    and "rn_status r \<in> {''succeeded'', ''failed'', ''cancelled''}"
  shows "rn_status r \<notin> set (release_run_transition_sources ''rollback_requested'') \<and>
    (\<exists>r'. find_run ws i (write_rollback_request now ws i actor rollback rd) = Some r' \<and>
       rn_status r' = ''rollback_requested'' \<and> rn_rollback r' = rollback)"
proof -
  have "run_at ws i r" using find_in_set [OF assms(1) [unfolded find_run_def]] by (simp add: run_at_def)
  with assms(1) have "find_run ws i (write_rollback_request now ws i actor rollback rd) =
      Some (r\<lparr>rn_status := ''rollback_requested'', rn_rollback := rollback, rn_updated_at := now\<rparr>)"
    by (simp add: write_rollback_request_def find_run_update)
  with assms(2) show ?thesis
    by (auto simp: release_run_transition_sources_def RELEASE_RUN_ALLOWED_SOURCES_def)
qed

section \<open>A concrete run\<close>

definition release_demo_row :: release_run_row where
  "release_demo_row =
     \<lparr>rn_run_id = ''run-1'', rn_workspace_id = ''w'', rn_plan_id = ''plan-1'', rn_plan_name = ''Shop'',
      rn_status = ''cancelled'', rn_current_wave = 1, rn_total_waves = 2, rn_started_by = Some ''ann'',
      rn_settings = [(''runtime_mode'', JStr ''live'')], rn_github = [], rn_rollback = [], rn_health = [], rn_updated_at = 0\<rparr>"

definition release_demo_run_step :: "string \<Rightarrow> int \<Rightarrow> run_step_row" where
  "release_demo_run_step app wave =
     \<lparr>rs_run_step_id = app, rs_workspace_id = ''w'', rs_run_id = ''run-1'', rs_step_id = app, rs_application_id = app,
      rs_name = app, rs_wave = wave, rs_status = (if wave = 1 then ''succeeded'' else ''pending''),
      rs_workflow_run_id = (if wave = 1 then Some ''workflow-0'' else None), rs_approval_id = None, rs_event_id = None,
      rs_correlation_id = None, rs_health = [(''status'', JStr ''healthy'')], rs_rollback = [],
      rs_details = [(''config'', JObj [(''commit_sha'', JStr ''abc''), (''image'', JStr ''shop:1''), (''repo_ref'', JStr ''acme/shop'')])], rs_created_at = 0\<rparr>"

definition release_demo_db :: release_db where
  "release_demo_db =
     \<lparr>rd_plans = [], rd_runs = [release_demo_row],
      rd_steps = [release_demo_run_step ''shop'' 1, release_demo_run_step ''cart'' 2], rd_events = [], rd_workflows = []\<rparr>"

definition release_late_update :: workflow_update where
  "release_late_update =
     \<lparr>wu_workspace_id = ''w'', wu_workflow_run_id = ''workflow-0'', wu_step_status = ''failed'', wu_health_status = ''unhealthy'',
      wu_approval_id = [], wu_event_type = ''workflow.failed'', wu_message = [], wu_actor = None, wu_application_id = [],
      wu_details = []\<rparr>"

lemma release_demo_find: "find_run ''w'' ''run-1'' release_demo_db = Some release_demo_row"
  by code_simp


lemma rollback_request_overwrites_the_end_witness:
  "''cancelled'' \<notin> set (release_run_transition_sources ''rollback_requested'') \<and>
   (\<exists>r'. find_run ''w'' ''run-1'' (write_rollback_request 9 ''w'' ''run-1'' None [] release_demo_db) = Some r' \<and>
      rn_status r' = ''rollback_requested'' \<and> rn_rollback r' = [])"
proof -
  have "rn_status release_demo_row = ''cancelled''" by (simp add: release_demo_row_def)
  then show ?thesis using rollback_request_overwrites_the_end [OF release_demo_find, of 9 None "[]"] by simp
qed

end
