(* ===== verification/Release_Dispatch.thy ===== *)
theory Release_Dispatch
  imports Release_Run
begin

text \<open>
  The routes that move a release run (\<^verbatim>\<open>src/src/domains/release_flow/router.py\<close>) and the
  post-deploy verification they wait for (\<^verbatim>\<open>verification.py\<close>): starting a plan, advancing to the
  next wave, retrying a wave, pausing, resuming, cancelling and rolling back. A route is no
  transaction: what it did before it fails stays done, so its result carries the state it left.
\<close>

section \<open>The request\<close>

record git_request =
  gq_commit_sha :: string
  gq_image :: string
  gq_replicas :: int
  gq_workspace_id :: string
  gq_repo_ref :: string
  gq_branch :: string
  gq_application_id :: string
  gq_environment :: string
  gq_cluster_id :: string
  gq_manifest_path :: string
  gq_workflow_run_id :: string

text \<open>
  \<open>rw_access\<close> and \<open>rw_cluster_access\<close> are the permission checks of the session, \<open>rw_accept\<close> stages an
  event and gives its identifiers (None when it raises), \<open>rw_guard\<close> is the rest of the audit
  snapshot of the gates, the others are SHA-256 or random identifiers.
\<close>

record release_world =
  rw_env :: release_env
  rw_reads :: release_reads
  rw_user :: string
  rw_access :: "string \<Rightarrow> string \<Rightarrow> bool"
  rw_cluster_access :: "string \<Rightarrow> bool"
  rw_accept :: "git_request \<Rightarrow> (string \<times> string) option"
  rw_guard :: "jobj \<Rightarrow> int \<Rightarrow> jobj"
  rw_dry_run :: "string \<Rightarrow> string \<Rightarrow> int \<Rightarrow> string \<times> string"
  rw_job_digest :: "string \<Rightarrow> string"
  rw_run_id :: string
  rw_plan_key :: "string \<Rightarrow> string \<Rightarrow> string"
  rw_step_key :: "string \<Rightarrow> string \<Rightarrow> string"

datatype release_error =
    ReleaseNotFound
  | ReleaseBlocked "string list"
  | ReleaseForbidden
  | ReleaseFailed

record release_state =
  st_db :: release_db
  st_published :: "git_request list"

section \<open>Post-deploy verification\<close>

definition release_verification_timeout_minutes :: "jobj \<Rightarrow> jobj \<Rightarrow> int" where
  "release_verification_timeout_minutes settings config =
     (let default_timeout = int_field settings ''post_deploy_verification_timeout_minutes''
            (int_field settings ''verification_timeout_minutes'' 15);
          step_timeout = int_field config ''verification_timeout_minutes'' default_timeout
      in max 1 (int_field config ''post_deploy_verification_timeout_minutes'' step_timeout))"

definition release_health_check_path :: "(json \<Rightarrow> string) \<Rightarrow> jobj \<Rightarrow> jobj \<Rightarrow> string" where
  "release_health_check_path render settings config =
     (let v = py_strip (either_text render [(config, ''health_check_path''), (settings, ''health_check_path'')] [])
      in if prefix ''/'' v then v else [])"

definition plan_label :: "(json \<Rightarrow> string) \<Rightarrow> jobj \<Rightarrow> string" where
  "plan_label render plan = either_text render [(plan, ''plan_id''), (plan, ''name'')] ''release-plan''"

definition release_verification_job_id :: "release_world \<Rightarrow> jobj \<Rightarrow> int \<Rightarrow> string \<Rightarrow> string \<Rightarrow> string \<Rightarrow> string" where
  "release_verification_job_id rw plan wave app kind target =
     ''release-verification-'' @ take 20 (rw_job_digest rw
       (joined '':'' [plan_label (re_render (rw_env rw)) plan, int_text wave, app, kind, target]))"

definition release_verification_evidence_key :: "(json \<Rightarrow> string) \<Rightarrow> jobj \<Rightarrow> int \<Rightarrow> string \<Rightarrow> string" where
  "release_verification_evidence_key render plan wave app =
     joined '':'' [plan_label render plan, ''wave-'' @ int_text wave, app, ''post-deploy-verification'']"

definition verification_jobs_of_step :: "release_world \<Rightarrow> jobj \<Rightarrow> int \<Rightarrow> jobj \<Rightarrow> jobj list" where
  "verification_jobs_of_step rw plan wave step =
     (let env = rw_env rw; render = re_render env; settings = plan_settings_value plan; config = step_config step;
          app = stripped_text render step ''application_id'';
          job_name = text_or render step ''name'' (or_default app ''release step'');
          health_path = release_health_check_path render settings config;
          url = release_verification_url render settings config;
          job = (\<lambda>kind short target place.
            [(''job_id'', JStr (release_verification_job_id rw plan wave app short target)), (''application_id'', JStr app),
             (''name'', JStr job_name), (''kind'', JStr kind), (''status'', JStr ''pending''),
             (''queued_at'', JStr (release_window_bound_label env (re_now env))),
             (''timeout_minutes'', JInt (release_verification_timeout_minutes settings config)),
             (''evidence_key'', JStr (release_verification_evidence_key render plan wave app)), (''target'', JObj place)])
      in (if health_path = [] then []
          else [job ''kubernetes_health_check'' ''health'' health_path
            [(''cluster_id'', JStr (either_text render [(config, ''cluster_id''), (settings, ''cluster_id'')] [])),
             (''namespace'', JStr (either_text render [(config, ''namespace''), (settings, ''namespace'')] [])),
             (''service_name'', JStr (either_text render [(config, ''service_name''), (config, ''service'')] app)),
             (''path'', JStr health_path)]]) @
         (if url = [] then [] else [job ''http_probe'' ''http'' url [(''url'', JStr url)]]))"

definition release_verification_job_specs :: "release_world \<Rightarrow> jobj \<Rightarrow> jobj list \<Rightarrow> int \<Rightarrow> jobj list" where
  "release_verification_job_specs rw plan production_steps wave =
     concat (map (verification_jobs_of_step rw plan wave) production_steps)"

text \<open>The snapshot every dispatched step of the wave carries: it lists the jobs of all production steps of the wave.\<close>

definition release_dispatch_guard_snapshot :: "release_world \<Rightarrow> jobj \<Rightarrow> jobj list \<Rightarrow> int \<Rightarrow> jobj" where
  "release_dispatch_guard_snapshot rw plan shown wave =
     (let env = rw_env rw; live = live_plan env plan;
          jobs = release_verification_job_specs rw plan (release_production_steps_for_wave (re_render env) plan shown wave) wave
      in set_key ''verification_jobs'' (JObj
           [(''scheduled'', JBool (live \<and> jobs \<noteq> [])), (''job_count'', JInt (if live then int (length jobs) else 0)),
            (''jobs'', JArr (if live then map JObj jobs else []))]) (rw_guard rw plan wave))"

definition VERIFICATION_JOB_FAILED_STATUSES :: "string list" where
  "VERIFICATION_JOB_FAILED_STATUSES = [''failed'', ''error'', ''timeout'', ''unhealthy'']"

definition VERIFICATION_JOB_PENDING_STATUSES :: "string list" where
  "VERIFICATION_JOB_PENDING_STATUSES = [[], ''pending'', ''queued'', ''running'']"

definition step_verification_jobs :: "run_step_row \<Rightarrow> jobj list" where
  "step_verification_jobs s =
     objects (json_items (jget (as_mapping (jget (as_mapping (jget (rs_details s) ''release_guard'')) ''verification_jobs'')) ''jobs''))"

definition job_advance_blockers :: "(json \<Rightarrow> string) \<Rightarrow> string \<Rightarrow> int \<Rightarrow> jobj \<Rightarrow> string list" where
  "job_advance_blockers render label wave job =
     (let status = ascii_lower (text_or render job ''status'' []); kind = text_or render job ''kind'' ''verification''
      in if status \<in> set VERIFICATION_JOB_FAILED_STATUSES
         then [label @ '' post-deploy verification '' @ kind @ '' failed; resolve it before advancing wave '' @ int_text wave @ ''.'']
         else if status \<in> set VERIFICATION_JOB_PENDING_STATUSES
         then [label @ '' post-deploy verification '' @ kind @ '' is '' @ or_default status ''pending'' @
               ''; wait before advancing wave '' @ int_text wave @ ''.'']
         else [])"

definition step_advance_blockers :: "(json \<Rightarrow> string) \<Rightarrow> int \<Rightarrow> run_step_row \<Rightarrow> string list" where
  "step_advance_blockers render wave s =
     (let label = or_default (rs_name s) (or_default (rs_application_id s) ''release step'')
      in if rs_status s \<noteq> ''succeeded'' then [label @ '' in wave '' @ int_text wave @ '' has not succeeded yet.'']
         else (if text_or render (rs_health s) ''status'' [] = ''unhealthy''
               then [label @ '' health is unhealthy; resolve it before advancing wave '' @ int_text wave @ ''.''] else []) @
              concat (map (job_advance_blockers render label wave) (step_verification_jobs s)))"

definition release_current_wave_health_blockers :: "(json \<Rightarrow> string) \<Rightarrow> run_step_row list \<Rightarrow> int \<Rightarrow> string list" where
  "release_current_wave_health_blockers render steps wave = concat (map (step_advance_blockers render wave) steps)"

section \<open>Dispatching the steps of a wave\<close>

definition required_str :: "(json \<Rightarrow> string) \<Rightarrow> jobj \<Rightarrow> jobj \<Rightarrow> string \<Rightarrow> release_error + string" where
  "required_str render config settings field =
     (let v = py_strip (either_text render [(config, field), (settings, field)] [])
      in if v = [] then Inl (ReleaseBlocked [field @ '' is required before dispatch'']) else Inr v)"

definition request_payload :: "git_request \<Rightarrow> jobj" where
  "request_payload q =
     [(''commit_sha'', JStr (gq_commit_sha q)), (''image'', JStr (gq_image q)), (''replicas'', JInt (gq_replicas q)),
      (''workspace_id'', JStr (gq_workspace_id q)), (''repo_ref'', JStr (gq_repo_ref q)), (''branch'', JStr (gq_branch q)),
      (''application_id'', JStr (gq_application_id q)), (''environment'', JStr (gq_environment q)),
      (''cluster_id'', JStr (gq_cluster_id q)), (''manifest_path'', JStr (gq_manifest_path q)), (''force'', JBool True)]"

definition dispatch_request_for_step ::
    "release_env \<Rightarrow> string \<Rightarrow> jobj \<Rightarrow> jobj \<Rightarrow> jobj \<Rightarrow> release_error + git_request" where
  "dispatch_request_for_step env ws plan step application =
     (let render = re_render env; config = step_config step; settings = plan_settings_value plan
      in case required_str render config settings ''commit_sha'' of
           Inl e \<Rightarrow> Inl e
         | Inr commit_sha \<Rightarrow>
         case required_str render config settings ''image'' of
           Inl e \<Rightarrow> Inl e
         | Inr img \<Rightarrow>
             let q = \<lparr>gq_commit_sha = commit_sha, gq_image = img,
                   gq_replicas = int_field config ''replicas'' (int_field application ''replicas'' 2), gq_workspace_id = ws,
                   gq_repo_ref = either_text render [(config, ''repo_ref''), (application, ''repo_ref'')] [],
                   gq_branch = either_text render [(config, ''branch''), (application, ''branch'')] ''main'',
                   gq_application_id = application_text render step,
                   gq_environment = text_or render config ''environment'' (or_default (first_environment render settings) ''sandbox''),
                   gq_cluster_id = either_text render [(config, ''cluster_id''), (application, ''cluster_id'')] ''default-target-cluster'',
                   gq_manifest_path = either_text render [(config, ''manifest_path''), (application, ''manifest_path'')] ''deploy.yaml'',
                   gq_workflow_run_id = []\<rparr>
             in Inr (q\<lparr>gq_workflow_run_id := re_workflow_run_id env (request_payload q)\<rparr>))"

definition dispatch_details :: "release_world \<Rightarrow> jobj \<Rightarrow> jobj \<Rightarrow> int \<Rightarrow> git_request \<Rightarrow> jobj" where
  "dispatch_details rw plan guard wave q =
     (let profile = execution_profile (re_render (rw_env rw)) plan
      in [(''runtime_mode'', JStr (ep_runtime_mode profile)), (''provider_mode'', JStr (ep_provider_mode profile)),
          (''side_effects'', JBool (ep_side_effects profile)), (''wave'', JInt wave), (''cluster_id'', JStr (gq_cluster_id q)),
          (''environment'', JStr (gq_environment q)), (''manifest_path'', JStr (gq_manifest_path q)),
          (''repo_ref'', JStr (gq_repo_ref q)), (''branch'', JStr (gq_branch q)), (''commit_sha'', JStr (gq_commit_sha q)),
          (''release_guard'', JObj guard)])"

text \<open>One step: the event is staged and the step marked in separate transactions.\<close>

definition dispatch_step ::
    "release_world \<Rightarrow> string \<Rightarrow> jobj \<Rightarrow> jobj \<Rightarrow> int \<Rightarrow> string \<Rightarrow> jobj \<Rightarrow> release_state \<Rightarrow> (release_error + string) \<times> release_state" where
  "dispatch_step rw ws plan guard wave run_id step st =
     (let env = rw_env rw; app = application_text (re_render env) step;
          application = (case rr_application (rw_reads rw) ws app of Some d \<Rightarrow> d | None \<Rightarrow> [])
      in case dispatch_request_for_step env ws plan step application of
           Inl e \<Rightarrow> (Inl e, st)
         | Inr q \<Rightarrow>
             if \<not> rw_cluster_access rw (gq_cluster_id q) then (Inl ReleaseForbidden, st)
             else
               let live = live_plan env plan;
                   sent = (if live then rw_accept rw q else Some (rw_dry_run rw run_id app wave))
               in case sent of
                    None \<Rightarrow> (Inl ReleaseFailed, st)
                  | Some (event_id, correlation_id) \<Rightarrow>
                      (Inr event_id, \<lparr>st_db = mark_release_run_step_dispatched (re_now env) ws run_id app
                           \<lparr>di_workflow_run_id = gq_workflow_run_id q, di_event_id = event_id, di_correlation_id = correlation_id\<rparr>
                           (Some (rw_user rw)) (dispatch_details rw plan guard wave q) (st_db st),
                         st_published = (if live then st_published st @ [q] else st_published st)\<rparr>))"

fun dispatch_steps ::
    "release_world \<Rightarrow> string \<Rightarrow> jobj \<Rightarrow> jobj \<Rightarrow> int \<Rightarrow> string \<Rightarrow> jobj list \<Rightarrow> release_state \<Rightarrow>
     (release_error + string list) \<times> release_state" where
  "dispatch_steps rw ws plan guard wave run_id [] st = (Inr [], st)"
| "dispatch_steps rw ws plan guard wave run_id (step # steps) st =
     (case dispatch_step rw ws plan guard wave run_id step st of
        (Inl e, st') \<Rightarrow> (Inl e, st')
      | (Inr event_id, st') \<Rightarrow>
          (case dispatch_steps rw ws plan guard wave run_id steps st' of
             (Inl e, st'') \<Rightarrow> (Inl e, st'')
           | (Inr ids, st'') \<Rightarrow> (Inr (event_id # ids), st'')))"

definition dispatch_wave_steps ::
    "release_world \<Rightarrow> string \<Rightarrow> jobj \<Rightarrow> jobj list \<Rightarrow> int \<Rightarrow> string \<Rightarrow> release_state \<Rightarrow>
     (release_error + string list) \<times> release_state" where
  "dispatch_wave_steps rw ws plan shown wave run_id st =
     (let env = rw_env rw; dispatch_plan = plan_with_safe_pr_evidence env (rw_reads rw) ws plan shown wave;
          selected = steps_for_wave (re_render env) dispatch_plan shown wave;
          blockers = dispatch_blockers env (rw_reads rw) ws dispatch_plan shown wave
      in if selected = [] then (Inl (ReleaseBlocked [''wave '' @ int_text wave @ '' has no steps'']), st)
         else if blockers \<noteq> [] then (Inl (ReleaseBlocked blockers), st)
         else dispatch_steps rw ws dispatch_plan (release_dispatch_guard_snapshot rw dispatch_plan shown wave) wave run_id selected st)"

section \<open>Routes\<close>

definition require_permission :: "release_world \<Rightarrow> string \<Rightarrow> string list \<Rightarrow> bool" where
  "require_permission rw permission apps \<longleftrightarrow> list_all (\<lambda>a. a = [] \<or> rw_access rw permission a) apps"

definition view_apps :: "run_view \<Rightarrow> string list" where
  "view_apps v = map rs_application_id (vw_steps v)"

definition release_plan_from_run :: "run_view \<Rightarrow> run_step_row list \<Rightarrow> jobj" where
  "release_plan_from_run v steps =
     [(''plan_id'', JStr (rn_plan_id (vw_run v))), (''name'', JStr (or_default (rn_plan_name (vw_run v)) ''Release run'')),
      (''settings'', JObj (rn_settings (vw_run v))),
      (''steps'', JArr (map (\<lambda>(index, s). JObj
         [(''application_id'', JStr (rs_application_id s)), (''name'', JStr (or_default (rs_name s) (rs_application_id s))),
          (''position'', JInt (int index)), (''depends_on'', JArr []),
          (''config'', JObj (as_mapping (jget (rs_details s) ''config'')))]) (enumerate 0 steps)))]"

definition wave_shown :: "int \<Rightarrow> run_step_row list \<Rightarrow> jobj list" where
  "wave_shown wave steps = map (\<lambda>s. [(''application_id'', JStr (rs_application_id s)), (''wave'', JInt wave)]) steps"

definition first_preview_wave :: "release_preview \<Rightarrow> int" where
  "first_preview_wave preview = (case rp_waves preview of (n, _) # _ \<Rightarrow> n | [] \<Rightarrow> 1)"

text \<open>
  Creating a run and dispatching its first wave. \<^verbatim>\<open>accepted_events\<close> is assigned only when the
  dispatch returns, so every failure takes the branch of an empty list and deletes the run.
\<close>

definition create_and_dispatch_release_run ::
    "release_world \<Rightarrow> string \<Rightarrow> jobj \<Rightarrow> release_preview \<Rightarrow> int \<Rightarrow> release_state \<Rightarrow>
     (release_error + string list) \<times> release_state" where
  "create_and_dispatch_release_run rw ws plan preview wave st =
     (let env = rw_env rw; run_id = rw_run_id rw
      in case create_release_run env (rw_plan_key rw) (rw_step_key rw) (re_now env) ws run_id plan preview (Some (rw_user rw)) (st_db st) of
           None \<Rightarrow> (Inl ReleaseFailed, st)
         | Some rd \<Rightarrow>
             (case dispatch_wave_steps rw ws plan (rp_steps preview) wave run_id (st\<lparr>st_db := rd\<rparr>) of
                (Inr ids, st') \<Rightarrow> (Inr ids, st')
              | (Inl e, st') \<Rightarrow> (Inl e, st'\<lparr>st_db := snd (delete_release_run ws run_id (st_db st'))\<rparr>)))"

definition start_release_plan ::
    "release_world \<Rightarrow> string \<Rightarrow> string \<Rightarrow> release_state \<Rightarrow> (release_error + string list) \<times> release_state" where
  "start_release_plan rw ws plan_id st =
     (let env = rw_env rw; render = re_render env
      in if py_strip plan_id = []
         then (Inl (ReleaseBlocked [''Save the release plan before starting or dispatching it.'']), st)
         else case rr_plan (rw_reads rw) ws (py_strip plan_id) of
           None \<Rightarrow> (Inl ReleaseNotFound, st)
         | Some plan \<Rightarrow>
             let body = set_key ''workspace_id'' (JStr ws) plan;
                 body_id = stripped_text render body ''plan_id'';
                 preview = build_release_plan_preview render body;
                 wave = first_preview_wave preview;
                 dispatch_plan = plan_with_safe_pr_evidence env (rw_reads rw) ws body (rp_steps preview) wave;
                 blockers = rp_blockers preview @ dispatch_blockers env (rw_reads rw) ws dispatch_plan (rp_steps preview) wave
             in if \<not> require_permission rw ''deploy.run'' (map (application_id render) (plan_steps body)) then (Inl ReleaseForbidden, st)
                else if body_id \<noteq> [] \<and> has_active_release_runs ws body_id (st_db st)
                then (Inl (ReleaseBlocked [''Release plan '' @ body_id @ '' already has an active run.'']), st)
                else if blockers \<noteq> [] then (Inl (ReleaseBlocked blockers), st)
                else create_and_dispatch_release_run rw ws dispatch_plan preview wave st)"

definition advance_release_run ::
    "release_world \<Rightarrow> string \<Rightarrow> string \<Rightarrow> release_state \<Rightarrow> release_error option \<times> release_state" where
  "advance_release_run rw ws i st =
     (let env = rw_env rw; render = re_render env; now = re_now env; user = Some (rw_user rw)
      in case get_release_run ws i (st_db st) of
           None \<Rightarrow> (Some ReleaseNotFound, st)
         | Some v \<Rightarrow>
             let wave = rn_current_wave (vw_run v); next_wave = wave + 1;
                 waiting = release_current_wave_health_blockers render (filter (\<lambda>s. rs_wave s = wave) (vw_steps v)) wave;
                 pending = filter (\<lambda>s. rs_wave s = next_wave) (vw_steps v);
                 plan = release_plan_from_run v pending; shown = wave_shown next_wave pending;
                 blockers = wave_blockers env (rw_reads rw) ws plan shown next_wave
             in if \<not> require_permission rw ''deploy.run'' (view_apps v) then (Some ReleaseForbidden, st)
                else if rn_status (vw_run v) = ''paused'' then (Some (ReleaseBlocked [''release run is paused'']), st)
                else if waiting \<noteq> [] then (Some (ReleaseBlocked waiting), st)
                else if pending = []
                then (None, st\<lparr>st_db := update_release_run_status now ws i ''succeeded'' None user ''All release waves completed.'' [] (st_db st)\<rparr>)
                else if blockers \<noteq> [] then (Some (ReleaseBlocked blockers), st)
                else case dispatch_wave_steps rw ws plan shown next_wave i st of
                  (Inl e, st') \<Rightarrow> (Some e, st')
                | (Inr ids, st') \<Rightarrow>
                    (None, st'\<lparr>st_db := update_release_run_status now ws i ''running'' (Some next_wave) user
                       (''Release run advanced to wave '' @ int_text next_wave @ ''.'') [] (st_db st')\<rparr>))"

subsection \<open>Retrying a wave\<close>

definition retryable_steps_for_wave :: "run_view \<Rightarrow> int \<Rightarrow> run_step_row list" where
  "retryable_steps_for_wave v wave =
     filter (\<lambda>s. rs_wave s = wave \<and>
       (rs_status s \<in> {''failed'', ''cancelled'', ''timeout''} \<or> health_status (rs_health s) = Some (JStr ''unhealthy''))) (vw_steps v)"

definition retry_limit_for_steps :: "run_view \<Rightarrow> run_step_row list \<Rightarrow> int" where
  "retry_limit_for_steps v steps =
     (let default_limit = max 0 (int_field (rn_settings (vw_run v)) ''retry_attempts'' 1);
          limits = map (\<lambda>s. max 0 (int_field (as_mapping (jget (rs_details s) ''config'')) ''retry_attempts'' default_limit)) steps
      in if limits = [] then default_limit else Min (set limits))"

definition retry_prefix :: "int \<Rightarrow> string" where
  "retry_prefix wave = ''release.retry.wave.'' @ int_text wave @ ''.attempt.''"

definition retry_attempt_of :: "int \<Rightarrow> string \<Rightarrow> int option" where
  "retry_attempt_of wave event_type =
     (if prefix (retry_prefix wave) event_type
      then let suffix = takeWhile (\<lambda>c. c \<noteq> CHR ''.'') (drop (length (retry_prefix wave)) event_type)
           in if suffix \<noteq> [] \<and> list_all is_digit suffix then digits_value suffix 0 False else None
      else None)"

definition retry_attempts_for_wave :: "run_view \<Rightarrow> int \<Rightarrow> int" where
  "retry_attempts_for_wave v wave =
     int (length (remdups (List.map_filter (\<lambda>e. retry_attempt_of wave (rv_event_type e)) (vw_events v))))"

definition retry_release_run ::
    "release_world \<Rightarrow> string \<Rightarrow> string \<Rightarrow> string \<Rightarrow> release_state \<Rightarrow> release_error option \<times> release_state" where
  "retry_release_run rw ws i reason st =
     (let env = rw_env rw; now = re_now env; user = Some (rw_user rw)
      in case get_release_run ws i (st_db st) of
           None \<Rightarrow> (Some ReleaseNotFound, st)
         | Some v \<Rightarrow>
             let status = or_default (vw_derived_status v) (rn_status (vw_run v));
                 wave = rn_current_wave (vw_run v); steps = retryable_steps_for_wave v wave;
                 limit = retry_limit_for_steps v steps; previous = retry_attempts_for_wave v wave; attempt = previous + 1;
                 plan = release_plan_from_run v steps; shown = wave_shown wave steps;
                 blockers = wave_blockers env (rw_reads rw) ws plan shown wave
             in if \<not> require_permission rw ''deploy.run'' (view_apps v) then (Some ReleaseForbidden, st)
                else if status \<in> {''succeeded'', ''cancelled'', ''rollback_requested''}
                then (Some (ReleaseBlocked [''release run cannot be retried'']), st)
                else if steps = []
                then (Some (ReleaseBlocked [''wave '' @ int_text wave @ '' has no failed or unhealthy steps to retry'']), st)
                else if limit \<le> previous
                then (Some (ReleaseBlocked [''wave '' @ int_text wave @ '' retry budget exhausted ('' @ int_text limit @ '')'']), st)
                else if blockers \<noteq> [] then (Some (ReleaseBlocked blockers), st)
                else
                  let st1 = st\<lparr>st_db := mark_release_run_retry now ws i wave attempt ''running'' user
                        (or_default reason ''operator requested retry'') (st_db st)\<rparr>
                  in case dispatch_wave_steps rw ws plan shown wave i st1 of
                       (Inr ids, st2) \<Rightarrow> (None, st2)
                     | (Inl e, st2) \<Rightarrow> (Some e, st2\<lparr>st_db := mark_release_run_retry now ws i wave attempt ''failed'' user
                          ''retry dispatch failed'' (st_db st2)\<rparr>))"

subsection \<open>Operator actions\<close>

definition operator_action_reason :: "string \<Rightarrow> string \<Rightarrow> string" where
  "operator_action_reason reason fallback = or_default (py_strip reason) fallback"

definition release_run_status_action ::
    "release_world \<Rightarrow> string \<Rightarrow> string \<Rightarrow> string \<Rightarrow> string \<Rightarrow> string \<Rightarrow> string \<Rightarrow> release_state \<Rightarrow>
     release_error option \<times> release_state" where
  "release_run_status_action rw ws i status message permission reason st =
     (case get_release_run ws i (st_db st) of
        None \<Rightarrow> (Some ReleaseNotFound, st)
      | Some v \<Rightarrow>
          if rn_status (vw_run v) \<in> set TERMINAL_RUN_STATUSES
          then (Some (ReleaseBlocked [''release run is already terminal'']), st)
          else if \<not> require_permission rw permission (view_apps v) then (Some ReleaseForbidden, st)
          else (None, st\<lparr>st_db := update_release_run_status (re_now (rw_env rw)) ws i status None (Some (rw_user rw)) message
                 [(''reason'', JStr (operator_action_reason reason message)), (''operator_action'', JStr status)] (st_db st)\<rparr>))"

definition pause_release_run :: "release_world \<Rightarrow> string \<Rightarrow> string \<Rightarrow> string \<Rightarrow> release_state \<Rightarrow> release_error option \<times> release_state" where
  "pause_release_run rw ws i reason st =
     release_run_status_action rw ws i ''paused'' ''Release run paused.'' ''deploy.run'' reason st"

definition resume_release_run :: "release_world \<Rightarrow> string \<Rightarrow> string \<Rightarrow> string \<Rightarrow> release_state \<Rightarrow> release_error option \<times> release_state" where
  "resume_release_run rw ws i reason st =
     release_run_status_action rw ws i ''running'' ''Release run resumed.'' ''deploy.run'' reason st"

definition cancel_release_run :: "release_world \<Rightarrow> string \<Rightarrow> string \<Rightarrow> string \<Rightarrow> release_state \<Rightarrow> release_error option \<times> release_state" where
  "cancel_release_run rw ws i reason st =
     release_run_status_action rw ws i ''cancelled'' ''Release run cancelled.'' ''runner_job.cancel'' reason st"

definition release_run_rollback_policy :: "(json \<Rightarrow> string) \<Rightarrow> run_view \<Rightarrow> string" where
  "release_run_rollback_policy render v =
     or_default (stripped_text render (rn_rollback (vw_run v)) ''policy'')
       (or_default (stripped_text render (rn_settings (vw_run v)) ''rollback_policy'') ''manual'')"

definition rollback_release_run ::
    "release_world \<Rightarrow> string \<Rightarrow> string \<Rightarrow> string \<Rightarrow> release_state \<Rightarrow> release_error option \<times> release_state" where
  "rollback_release_run rw ws i reason st =
     (case get_release_run ws i (st_db st) of
        None \<Rightarrow> (Some ReleaseNotFound, st)
      | Some v \<Rightarrow>
          if rn_status (vw_run v) \<in> set TERMINAL_RUN_STATUSES
          then (Some (ReleaseBlocked [''release run is already terminal'']), st)
          else if \<not> require_permission rw ''rollback.run'' (view_apps v) then (Some ReleaseForbidden, st)
          else if release_run_rollback_policy (re_render (rw_env rw)) v = ''disabled''
          then (Some (ReleaseBlocked [''rollback is disabled for this release run'']), st)
          else case request_release_run_rollback (re_now (rw_env rw)) ws i (Some (rw_user rw))
                 (operator_action_reason reason ''operator requested rollback'') (st_db st) of
            None \<Rightarrow> (Some ReleaseNotFound, st)
          | Some rd \<Rightarrow> (None, st\<lparr>st_db := rd\<rparr>))"

section \<open>Effects of a dispatch\<close>

lemma dispatched_find_run [simp]:
  "find_run ws i (mark_release_run_step_dispatched now ws' j app ids actor details rd) = find_run ws i rd"
  by (simp add: mark_release_run_step_dispatched_def Let_def)

lemma dispatch_step_frame:
  assumes "dispatch_step rw ws plan guard wave j step st = (result, st')"
  shows "find_run ws' i (st_db st') = find_run ws' i (st_db st)"
    and "\<exists>qs. st_published st' = st_published st @ qs"
    and "result = Inr e \<Longrightarrow> live_plan (rw_env rw) plan \<Longrightarrow> \<exists>q. st_published st' = st_published st @ [q]"
  using assms by (auto simp: dispatch_step_def Let_def split: sum.splits option.splits if_splits)

lemma dispatch_steps_frame:
  "dispatch_steps rw ws plan guard wave j steps st = (result, st') \<Longrightarrow>
   find_run ws' i (st_db st') = find_run ws' i (st_db st) \<and> (\<exists>qs. st_published st' = st_published st @ qs) \<and>
   (result = Inr ids \<longrightarrow> live_plan (rw_env rw) plan \<longrightarrow> steps \<noteq> [] \<longrightarrow> (\<exists>q qs. st_published st' = st_published st @ q # qs))"
proof (induction rw ws plan guard wave j steps st arbitrary: result st' ids rule: dispatch_steps.induct)
  case (2 rw ws plan guard wave j step steps st)
  obtain r1 st1 where s1: "dispatch_step rw ws plan guard wave j step st = (r1, st1)" by fastforce
  note f1 = dispatch_step_frame [OF s1]
  show ?case
  proof (cases r1)
    case (Inl e)
    with 2(2) s1 f1(1,2) show ?thesis by auto
  next
    case (Inr e)
    obtain r2 st2 where s2: "dispatch_steps rw ws plan guard wave j steps st1 = (r2, st2)" by fastforce
    from 2(1) [OF s1 [symmetric] Inr s2] obtain qs where
      f2: "find_run ws' i (st_db st2) = find_run ws' i (st_db st1)" "st_published st2 = st_published st1 @ qs" by blast
    have st': "st' = st2" using 2(2) s1 Inr s2 by (auto split: sum.splits)
    have "\<exists>q qs. st_published st' = st_published st @ q # qs" if "live_plan (rw_env rw) plan"
      using f1(3) [OF Inr that] f2(2) st' by auto
    with f1(1,2) f2 st' show ?thesis by auto
  qed
qed auto

lemma dispatch_wave_frame:
  assumes "dispatch_wave_steps rw ws plan shown wave j st = (result, st')"
  shows "find_run ws' i (st_db st') = find_run ws' i (st_db st)"
    and "\<exists>qs. st_published st' = st_published st @ qs"
    and "result = Inr ids \<Longrightarrow> live_plan (rw_env rw) plan \<Longrightarrow> \<exists>q qs. st_published st' = st_published st @ q # qs"
proof -
  let ?plan = "plan_with_safe_pr_evidence (rw_env rw) (rw_reads rw) ws plan shown wave"
  let ?steps = "steps_for_wave (re_render (rw_env rw)) ?plan shown wave"
  let ?guard = "release_dispatch_guard_snapshot rw ?plan shown wave"
  have "(\<exists>e. result = Inl e) \<and> st' = st \<or>
      ?steps \<noteq> [] \<and> dispatch_steps rw ws ?plan ?guard wave j ?steps st = (result, st')"
    using assms by (auto simp: dispatch_wave_steps_def Let_def split: if_splits)
  then have "find_run ws' i (st_db st') = find_run ws' i (st_db st) \<and> (\<exists>qs. st_published st' = st_published st @ qs) \<and>
    (result = Inr ids \<longrightarrow> live_plan (rw_env rw) plan \<longrightarrow> (\<exists>q qs. st_published st' = st_published st @ q # qs))"
    using dispatch_steps_frame [of rw ws ?plan ?guard wave j ?steps st result st' ws' i ids] live_plan_evidenced
    by fastforce
  then show "find_run ws' i (st_db st') = find_run ws' i (st_db st)" "\<exists>qs. st_published st' = st_published st @ qs"
    "result = Inr ids \<Longrightarrow> live_plan (rw_env rw) plan \<Longrightarrow> \<exists>q qs. st_published st' = st_published st @ q # qs"
    by blast+
qed

section \<open>Advancing\<close>

lemma get_release_run_run:
  "get_release_run ws i rd = Some v \<Longrightarrow> \<exists>r. find_run ws i rd = Some r \<and> rn_status (vw_run v) = rn_status r \<and>
     rn_current_wave (vw_run v) = rn_current_wave r \<and> rn_settings (vw_run v) = rn_settings r"
  by (auto simp: get_release_run_def Let_def split: option.splits)

lemma job_open:
  "job_advance_blockers render label wave job = [] \<Longrightarrow>
   ascii_lower (text_or render job ''status'' []) \<notin> set (VERIFICATION_JOB_FAILED_STATUSES @ VERIFICATION_JOB_PENDING_STATUSES)"
  unfolding job_advance_blockers_def Let_def set_append by (metis Un_iff list.distinct(1))

lemma step_open:
  assumes "step_advance_blockers render wave s = []"
  shows "rs_status s = ''succeeded'' \<and> text_or render (rs_health s) ''status'' [] \<noteq> ''unhealthy'' \<and>
    (\<forall>job \<in> set (step_verification_jobs s). ascii_lower (text_or render job ''status'' []) \<notin>
       set (VERIFICATION_JOB_FAILED_STATUSES @ VERIFICATION_JOB_PENDING_STATUSES))"
proof (intro conjI ballI)
  let ?label = "or_default (rs_name s) (or_default (rs_application_id s) ''release step'')"
  show fin: "rs_status s = ''succeeded''"
    using assms by (auto simp: step_advance_blockers_def Let_def split: if_splits)
  have rest: "(if text_or render (rs_health s) ''status'' [] = ''unhealthy''
      then [?label @ '' health is unhealthy; resolve it before advancing wave '' @ int_text wave @ ''.''] else []) @
      concat (map (job_advance_blockers render ?label wave) (step_verification_jobs s)) = []"
    using assms unfolding step_advance_blockers_def Let_def fin by simp
  show "text_or render (rs_health s) ''status'' [] \<noteq> ''unhealthy''"
    using rest unfolding append_is_Nil_conv by (metis list.distinct(1))
  fix job assume "job \<in> set (step_verification_jobs s)"
  with rest have "job_advance_blockers render ?label wave job = []"
    unfolding append_is_Nil_conv by (simp only: concat_eq_Nil_conv set_map ball_simps)
  then show "ascii_lower (text_or render job ''status'' []) \<notin>
      set (VERIFICATION_JOB_FAILED_STATUSES @ VERIFICATION_JOB_PENDING_STATUSES)" by (rule job_open)
qed


text \<open>
  Claim C27. The advance checks only for a paused run. A cancelled run, or one whose
  rollback is requested, that stands at a finished wave still publishes the next wave of a live
  plan; only the status change that follows is refused, so the run is left as it was.
\<close>

theorem cancelled_run_still_advances:
  assumes "get_release_run ws i (st_db st) = Some v"
    and "rn_status (vw_run v) \<in> {''cancelled'', ''rollback_requested'', ''succeeded''}"
    and "advance_release_run rw ws i st = (None, st')"
    and "\<exists>s \<in> set (vw_steps v). rs_wave s = rn_current_wave (vw_run v) + 1"
    and "execution_profile (re_render (rw_env rw)) [(''settings'', JObj (rn_settings (vw_run v)))] =
      \<lparr>ep_runtime_mode = ''live'', ep_provider_mode = ''live'', ep_side_effects = True\<rparr>"
  shows "(\<exists>q qs. st_published st' = st_published st @ q # qs) \<and>
    (\<exists>r. find_run ws i (st_db st') = Some r \<and> rn_status r = rn_status (vw_run v))"
proof -
  let ?wave = "rn_current_wave (vw_run v)"
  let ?next = "filter (\<lambda>s. rs_wave s = ?wave + 1) (vw_steps v)"
  let ?plan = "release_plan_from_run v ?next"
  from assms(4) have pending: "?next \<noteq> []" by (auto simp: filter_empty_conv)
  have live: "live_plan (rw_env rw) ?plan"
    using assms(5) by (simp add: live_plan_def execution_profile_def release_plan_from_run_def plan_settings_value_def
        as_mapping_def jget_def Let_def split: if_splits)
  from assms(1,3) pending obtain ids st1 where
    run: "dispatch_wave_steps rw ws ?plan (wave_shown (?wave + 1) ?next) (?wave + 1) i st = (Inr ids, st1)"
    and st': "st' = st1\<lparr>st_db := update_release_run_status (re_now (rw_env rw)) ws i ''running'' (Some (?wave + 1))
      (Some (rw_user rw)) (''Release run advanced to wave '' @ int_text (?wave + 1) @ ''.'') [] (st_db st1)\<rparr>"
    by (auto simp: advance_release_run_def Let_def split: if_splits sum.splits prod.splits)
  from dispatch_wave_frame(3) [OF run refl live] st' have pub: "\<exists>q qs. st_published st' = st_published st @ q # qs" by simp
  from get_release_run_run [OF assms(1)] obtain r where
    r: "find_run ws i (st_db st) = Some r" "rn_status (vw_run v) = rn_status r" by blast
  have "find_run ws i (st_db st1) = Some r" using dispatch_wave_frame(1) [OF run] r(1) by simp
  have "\<exists>r'. find_run ws i (st_db st') = Some r' \<and> run_move (rn_status r) (rn_status r') \<and>
      (rn_status r' = rn_status r \<or> rn_status r' = ''running'')"
    using \<open>find_run ws i (st_db st1) = Some r\<close>
    by (auto simp: st' update_release_run_status_def compare_and_set_def find_run_update run_move_def set_status_def
        may_become_def release_run_transition_sources_def)
  then obtain r' where r': "find_run ws i (st_db st') = Some r'" "run_move (rn_status r) (rn_status r')"
    "rn_status r' = rn_status r \<or> rn_status r' = ''running''" by blast
  with ended_move [OF r'(2)] assms(2) r(2) have "rn_status r' = rn_status r" by auto
  with pub r'(1) r(2) show ?thesis by auto
qed

section \<open>A start that fails half way\<close>

definition other_steps :: "string \<Rightarrow> release_db \<Rightarrow> run_step_row list" where
  "other_steps i rd = delete_where (\<lambda>s. rs_run_id s = i) (rd_steps rd)"

lemma other_steps_add_event [simp]: "other_steps i (add_event e rd) = other_steps i rd"
  by (simp add: other_steps_def add_event_def)

lemma delete_where_update:
  "(\<And>r. p r \<Longrightarrow> q r \<and> q (f r)) \<Longrightarrow> delete_where q (update_where p f t) = delete_where q t"
  by (induction t) (auto simp: delete_where_def update_where_def)

lemma dispatched_other_steps [simp]:
  "other_steps i (mark_release_run_step_dispatched now ws i app ids actor details rd) = other_steps i rd"
proof -
  have "delete_where (\<lambda>s. rs_run_id s = i) (update_where (step_at ws i app) (set_dispatched ids d) (rd_steps rd)) =
      delete_where (\<lambda>s. rs_run_id s = i) (rd_steps rd)" for d
    by (rule delete_where_update) (auto simp: step_at_def set_dispatched_def)
  then show ?thesis by (simp add: mark_release_run_step_dispatched_def Let_def other_steps_def add_event_def)
qed

lemma dispatch_step_others:
  "dispatch_step rw ws plan guard wave i step st = (result, st') \<Longrightarrow> other_steps i (st_db st') = other_steps i (st_db st)"
  by (auto simp: dispatch_step_def Let_def split: sum.splits option.splits if_splits)

lemma dispatch_steps_others:
  "dispatch_steps rw ws plan guard wave i steps st = (result, st') \<Longrightarrow> other_steps i (st_db st') = other_steps i (st_db st)"
proof (induction rw ws plan guard wave i steps st arbitrary: result st' rule: dispatch_steps.induct)
  case (2 rw ws plan guard wave i step steps st)
  obtain r1 st1 where s1: "dispatch_step rw ws plan guard wave i step st = (r1, st1)" by fastforce
  obtain r2 st2 where s2: "dispatch_steps rw ws plan guard wave i steps st1 = (r2, st2)" by fastforce
  from 2(1) [OF s1 [symmetric] _ s2] 2(2) s1 s2 dispatch_step_others [OF s1] show ?case
    by (auto split: sum.splits)
qed simp

lemma dispatch_wave_others:
  "dispatch_wave_steps rw ws plan shown wave i st = (result, st') \<Longrightarrow> other_steps i (st_db st') = other_steps i (st_db st)"
  using dispatch_steps_others by (auto simp: dispatch_wave_steps_def Let_def split: if_splits)

lemma created_rows:
  assumes "create_release_run env plan_key step_key now ws i plan preview actor rd = Some rd'"
  shows "find (run_at ws i) (rd_runs rd') \<noteq> None" and "other_steps i rd' = other_steps i rd"
    and "find_run ws i rd' \<noteq> None"
proof -
  have new: "\<forall>s \<in> set (release_run_steps_from_plan env step_key now ws i plan shown). rs_run_id s = i" for shown
    by (auto simp: release_run_steps_from_plan_def run_step_from_plan_def Let_def split: json.splits if_splits)
  then have "delete_where (\<lambda>s. rs_run_id s = i) (release_run_steps_from_plan env step_key now ws i plan shown) = []" for shown
    by (simp add: delete_where_def filter_empty_conv)
  then show "other_steps i rd' = other_steps i rd"
    using assms by (auto simp: create_release_run_def Let_def other_steps_def add_event_def delete_where_def split: if_splits)
  have "\<exists>r \<in> set (rd_runs rd'). rn_workspace_id r = ws \<and> rn_run_id r = i"
    using assms by (auto simp: create_release_run_def Let_def add_event_def split: if_splits)
  then show "find (run_at ws i) (rd_runs rd') \<noteq> None" "find_run ws i rd' \<noteq> None"
    by (auto simp: find_None_iff run_at_def find_run_def)
qed

text \<open>
  Claim C28. When the dispatch of the first wave fails after some of its steps were published,
  the route deletes the run and its steps: the published requests run on, and the events of their
  workflows change nothing any more, unless another run has a step for the same workflow.
\<close>

theorem failed_start_forgets_published_steps:
  assumes "create_release_run (rw_env rw) (rw_plan_key rw) (rw_step_key rw) (re_now (rw_env rw)) ws (rw_run_id rw) plan
      preview (Some (rw_user rw)) (st_db st) = Some rd"
    and "dispatch_wave_steps rw ws plan (rp_steps preview) wave (rw_run_id rw) (st\<lparr>st_db := rd\<rparr>) = (Inl e, st1)"
    and "st_published st1 = st_published st @ q # qs"
    and "create_and_dispatch_release_run rw ws plan preview wave st = (outcome, st')"
  shows "outcome = Inl e \<and> st_published st' = st_published st @ q # qs \<and>
    find_run ws (rw_run_id rw) (st_db st') = None \<and>
    (\<forall>u. wu_workspace_id u = ws \<and> wu_workflow_run_id u = gq_workflow_run_id q \<and>
       (\<forall>s \<in> set (rd_steps (st_db st)). rs_run_id s \<noteq> rw_run_id rw \<longrightarrow> rs_workflow_run_id s \<noteq> Some (gq_workflow_run_id q)) \<longrightarrow>
       project_release_workflow_event (re_render (rw_env rw)) now u (st_db st') = st_db st')"
proof -
  let ?i = "rw_run_id rw"
  note made = created_rows [OF assms(1)]
  have st': "outcome = Inl e" "st' = st1\<lparr>st_db := snd (delete_release_run ws ?i (st_db st1))\<rparr>"
    using assms(1,2,4) by (simp_all add: create_and_dispatch_release_run_def Let_def)
  have at: "find (run_at ws ?i) (rd_runs x) = find_run ws ?i x" for x
    by (simp add: find_run_def run_at_def [abs_def])
  have "find_run ws ?i (st_db st1) = find_run ws ?i rd" using dispatch_wave_frame(1) [OF assms(2)] by simp
  with made(3) have "find (run_at ws ?i) (rd_runs (st_db st1)) \<noteq> None" by (simp add: at)
  then obtain found where "find (run_at ws ?i) (rd_runs (st_db st1)) = Some found" by blast
  then have db: "st_db st' = (st_db st1)\<lparr>rd_events := delete_where (\<lambda>e. rv_run_id e = ?i) (rd_events (st_db st1)),
      rd_steps := other_steps ?i (st_db st1), rd_runs := delete_where (\<lambda>r. rn_run_id r = ?i) (rd_runs (st_db st1))\<rparr>"
    by (simp add: st' delete_release_run_def other_steps_def)
  then have steps: "rd_steps (st_db st') = other_steps ?i (st_db st)"
    using dispatch_wave_others [OF assms(2)] made(2) by simp
  have "find_run ws ?i (st_db st') = None"
    by (auto simp: db find_run_def find_None_iff delete_where_def)
  moreover have "project_release_workflow_event (re_render (rw_env rw)) now u (st_db st') = st_db st'"
    if "wu_workspace_id u = ws" "wu_workflow_run_id u = gq_workflow_run_id q"
      "\<forall>s \<in> set (rd_steps (st_db st)). rs_run_id s \<noteq> ?i \<longrightarrow> rs_workflow_run_id s \<noteq> Some (gq_workflow_run_id q)" for u
  proof -
    have "find (workflow_step ws (gq_workflow_run_id q)) (rd_steps (st_db st')) = None"
      using that(3) by (auto simp: steps other_steps_def find_None_iff workflow_step_def delete_where_def)
    with that(1,2) show ?thesis by (simp add: project_release_workflow_event_def Let_def)
  qed
  ultimately show ?thesis using st' assms(3) by auto
qed

section \<open>Jobs of another step\<close>

text \<open>Every dispatched step of a live wave carries the verification jobs of all its production steps.\<close>

lemma jget_merge_last: "jget (merge_dicts a (b @ [(k, v)])) k = Some v"
  by (simp add: merge_dicts_def)

lemma dispatched_guard:
  "jget (merge_dicts d (dispatch_details rw plan guard wave q)) ''release_guard'' = Some (JObj guard)"
proof -
  obtain b where "dispatch_details rw plan guard wave q = b @ [(''release_guard'', JObj guard)]"
    unfolding dispatch_details_def Let_def by (metis append_Cons append_Nil)
  then show ?thesis by (simp only: jget_merge_last)
qed

lemma dispatched_step_jobs:
  assumes "live_plan (rw_env rw) plan"
  shows "step_verification_jobs (set_dispatched ids (merge_dicts d
      (dispatch_details rw plan (release_dispatch_guard_snapshot rw plan shown wave) wave q)) s) =
    release_verification_job_specs rw plan (release_production_steps_for_wave (re_render (rw_env rw)) plan shown wave) wave"
proof -
  have "rs_details (set_dispatched ids x s) = x" for x by (simp add: set_dispatched_def)
  moreover obtain b1 b2 where "jget (release_dispatch_guard_snapshot rw plan shown wave) ''verification_jobs'' = Some (JObj
      [(''scheduled'', b1), (''job_count'', b2), (''jobs'', JArr (map JObj (release_verification_job_specs rw plan
          (release_production_steps_for_wave (re_render (rw_env rw)) plan shown wave) wave)))])"
    using assms by (simp add: release_dispatch_guard_snapshot_def Let_def)
  moreover have "objects (map JObj js) = js" for js by (induction js) (simp_all add: objects_def)
  moreover have "jget [(''scheduled'', b1), (''job_count'', b2), (''jobs'', v)] ''jobs'' = Some v" for b1 b2 and v :: json
    by (simp add: jget_def)
  ultimately show ?thesis
    unfolding step_verification_jobs_def by (simp add: dispatched_guard as_mapping_def json_items_def)
qed

lemma job_specs_pending:
  assumes "job \<in> set (release_verification_job_specs rw plan production wave)"
  shows "text_or render job ''status'' [] = ''pending''"
proof -
  from assms obtain step where "job \<in> set (verification_jobs_of_step rw plan wave step)"
    by (auto simp: release_verification_job_specs_def)
  then have "jget job ''status'' = Some (JStr ''pending'')"
    unfolding verification_jobs_of_step_def Let_def by (auto simp: jget_def split: if_splits)
  then show ?thesis unfolding text_or_def by (simp add: py_truthy_def py_str_def)
qed

lemma project_keeps_step:
  assumes "s \<in> set (steps_of_run ws i rd)" "rs_workflow_run_id s \<noteq> Some (wu_workflow_run_id u)"
  shows "s \<in> set (steps_of_run ws i (project_release_workflow_event render now u rd))"
proof -
  have "\<not> workflow_step (wu_workspace_id u) (wu_workflow_run_id u) s" using assms(2) by (simp add: workflow_step_def)
  then have "s \<in> set (update_where (workflow_step (wu_workspace_id u) (wu_workflow_run_id u)) f (rd_steps rd))" for f
    using assms(1) by (auto simp: update_where_def steps_of_run_def image_iff intro!: bexI [of _ s])
  with assms(1) show ?thesis
    by (simp add: project_release_workflow_event_def Let_def add_event_def steps_of_run_def split: option.splits)
qed

lemma project_keeps_wave:
  "map_option rn_current_wave (find_run ws i (project_release_workflow_event render now u rd)) =
   map_option rn_current_wave (find_run ws i rd)"
proof -
  have upd: "find (\<lambda>r. rn_workspace_id r = ws \<and> rn_run_id r = i) (update_where p f t) =
      map_option (\<lambda>r. if p r then f r else r) (find (\<lambda>r. rn_workspace_id r = ws \<and> rn_run_id r = i) t)"
    if "\<And>r. rn_workspace_id (f r) = rn_workspace_id r" "\<And>r. rn_run_id (f r) = rn_run_id r" for p f t
    using that by (induction t) (auto simp: update_where_def)
  show ?thesis
    by (auto simp: project_release_workflow_event_def Let_def add_event_def find_run_def upd option.map_comp o_def
        split: option.splits intro!: option.map_cong)
qed

lemma projections_keep:
  assumes "s \<in> set (steps_of_run ws i rd)" "\<forall>(now, u) \<in> set us. rs_workflow_run_id s \<noteq> Some (wu_workflow_run_id u)"
  shows "s \<in> set (steps_of_run ws i (fold (\<lambda>(now, u). project_release_workflow_event render now u) us rd))"
    and "map_option rn_current_wave (find_run ws i (fold (\<lambda>(now, u). project_release_workflow_event render now u) us rd)) =
      map_option rn_current_wave (find_run ws i rd)"
  using assms by (induction us arbitrary: rd) (auto simp: project_keeps_step project_keeps_wave)

lemma pending_job_waits:
  assumes "find_run ws i (st_db st) = Some r" "s \<in> set (steps_of_run ws i (st_db st))" "rs_wave s = rn_current_wave r"
    and "job \<in> set (step_verification_jobs s)" "\<And>render. text_or render job ''status'' [] = ''pending''"
  shows "\<exists>e. advance_release_run rw ws i st = (Some e, st)"
proof -
  let ?r = "re_render (rw_env rw)"
  obtain v where v: "get_release_run ws i (st_db st) = Some v"
    using assms(1) by (simp add: get_release_run_def Let_def)
  with assms(1) have wave: "rn_current_wave (vw_run v) = rn_current_wave r"
    and steps: "set (vw_steps v) = serialize_release_run_step (rd_workflows (st_db st)) ` set (steps_of_run ws i (st_db st))"
    by (auto simp: get_release_run_def Let_def)
  let ?s = "serialize_release_run_step (rd_workflows (st_db st)) s"
  have keeps: "rs_wave ?s = rs_wave s" "rs_details ?s = rs_details s"
    by (simp_all add: serialize_release_run_step_def Let_def split: option.splits)
  have here: "?s \<in> set (filter (\<lambda>x. rs_wave x = rn_current_wave (vw_run v)) (vw_steps v))"
    using assms(2,3) by (simp add: steps wave keeps)
  have "job \<in> set (step_verification_jobs ?s)" using assms(4) by (simp add: step_verification_jobs_def keeps)
  moreover have "ascii_lower (text_or ?r job ''status'' []) \<in> set VERIFICATION_JOB_PENDING_STATUSES"
    unfolding assms(5) by code_simp
  ultimately have "step_advance_blockers ?r w ?s \<noteq> []" for w
    using step_open [of ?r w ?s] unfolding set_append by blast
  with here have "release_current_wave_health_blockers ?r
      (filter (\<lambda>x. rs_wave x = rn_current_wave (vw_run v)) (vw_steps v)) (rn_current_wave (vw_run v)) \<noteq> []"
    unfolding release_current_wave_health_blockers_def concat_eq_Nil_conv set_map by blast
  then show ?thesis by (simp add: advance_release_run_def v Let_def)
qed

text \<open>
  Every dispatched step of a live wave carries the verification jobs of all
  production steps of the wave, but what a workflow reports is projected only onto its own step.
  Whatever the other workflows of the wave report, the copies on this step stay pending, and the
  advance of the run is refused and changes nothing.
\<close>

theorem jobs_of_other_steps_hold_the_wave:
  assumes "live_plan (rw_env rw) plan"
    and "s = set_dispatched ids (merge_dicts d
      (dispatch_details rw plan (release_dispatch_guard_snapshot rw plan shown wave) wave q)) s0"
    and "job \<in> set (release_verification_job_specs rw plan
      (release_production_steps_for_wave (re_render (rw_env rw)) plan shown wave) wave)"
    and "s \<in> set (steps_of_run ws i (st_db st))"
    and "find_run ws i (st_db st) = Some r" "rn_current_wave r = rs_wave s"
    and "\<forall>(now, u) \<in> set us. wu_workflow_run_id u \<noteq> di_workflow_run_id ids"
    and "st' = st\<lparr>st_db := fold (\<lambda>(now, u). project_release_workflow_event render now u) us (st_db st)\<rparr>"
  shows "\<exists>e. advance_release_run rw ws i st' = (Some e, st')"
proof -
  have own: "\<forall>(now, u) \<in> set us. rs_workflow_run_id s \<noteq> Some (wu_workflow_run_id u)"
    using assms(7) by (auto simp: assms(2) set_dispatched_def)
  note keep = projections_keep [OF assms(4) own, where render = render]
  from keep(2) assms(5) obtain r' where "find_run ws i (st_db st') = Some r'" "rn_current_wave r' = rn_current_wave r"
    by (auto simp: assms(8))
  moreover have "job \<in> set (step_verification_jobs s)" using assms(3) by (simp only: assms(2) dispatched_step_jobs [OF assms(1)])
  ultimately show ?thesis
    using pending_job_waits [of ws i st' r' s job rw] keep(1) assms(6) job_specs_pending [OF assms(3)] by (simp add: assms(8))
qed

section \<open>Concrete releases\<close>

definition release_demo_world :: release_world where
  "release_demo_world =
     \<lparr>rw_env = release_demo_env, rw_reads = release_demo_reads, rw_user = ''ann'', rw_access = (\<lambda>_ _. True),
      rw_cluster_access = (\<lambda>_. True),
      rw_accept = (\<lambda>q. if gq_application_id q = ''crm'' then None else Some (''event-1'', ''corr-1'')),
      rw_guard = (\<lambda>_ _. []), rw_dry_run = (\<lambda>_ _ _. ([], [])), rw_job_digest = (\<lambda>s. s), rw_run_id = ''run-2'',
      rw_plan_key = (\<lambda>_ n. n), rw_step_key = (\<lambda>i app. i @ '':'' @ app)\<rparr>"

definition release_demo_state :: release_state where
  "release_demo_state = \<lparr>st_db = release_demo_db, st_published = []\<rparr>"

definition release_pair_plan :: jobj where
  "release_pair_plan =
     [(''name'', JStr ''Pair''), (''settings'', JObj [(''runtime_mode'', JStr ''live'')]),
      (''steps'', JArr [JObj [(''application_id'', JStr ''shop''), (''config'', JObj [(''commit_sha'', JStr ''abc''), (''image'', JStr ''shop:1''), (''repo_ref'', JStr ''acme/shop'')])],
         JObj [(''application_id'', JStr ''crm''), (''config'', JObj [(''commit_sha'', JStr ''abc''), (''image'', JStr ''crm:1''), (''repo_ref'', JStr ''acme/crm'')])]])]"

definition release_pair_preview :: release_preview where
  "release_pair_preview = build_release_plan_preview (\<lambda>_. []) release_pair_plan"

definition release_demo_view :: run_view where
  "release_demo_view = the (get_release_run ''w'' ''run-1'' release_demo_db)"

lemma release_demo_view_read:
  "get_release_run ''w'' ''run-1'' (st_db release_demo_state) = Some release_demo_view"
  by code_simp

lemma release_demo_sent:
  "map gq_application_id (st_published (snd (advance_release_run release_demo_world ''w'' ''run-1'' release_demo_state))) = [''cart'']"
  "fst (advance_release_run release_demo_world ''w'' ''run-1'' release_demo_state) = None"
  by code_simp+


lemma cancelled_run_still_advances_witness:
  "(\<exists>q qs. st_published (snd (advance_release_run release_demo_world ''w'' ''run-1'' release_demo_state)) = q # qs) \<and>
   (\<exists>r. find_run ''w'' ''run-1'' (st_db (snd (advance_release_run release_demo_world ''w'' ''run-1'' release_demo_state))) = Some r \<and>
      rn_status r = ''cancelled'')"
proof -
  let ?st' = "snd (advance_release_run release_demo_world ''w'' ''run-1'' release_demo_state)"
  have view: "rn_status (vw_run release_demo_view) = ''cancelled''"
    "\<exists>s \<in> set (vw_steps release_demo_view). rs_wave s = rn_current_wave (vw_run release_demo_view) + 1"
    "execution_profile (re_render (rw_env release_demo_world)) [(''settings'', JObj (rn_settings (vw_run release_demo_view)))] =
      \<lparr>ep_runtime_mode = ''live'', ep_provider_mode = ''live'', ep_side_effects = True\<rparr>"
    by code_simp+
  have "advance_release_run release_demo_world ''w'' ''run-1'' release_demo_state = (None, ?st')"
    by (rule prod_eqI) (simp_all add: release_demo_sent(2))
  from cancelled_run_still_advances [OF release_demo_view_read _ this view(2,3)] view(1) show ?thesis
    by (simp add: release_demo_state_def)
qed

lemma failed_start_forgets_published_steps_witness:
  "find_run ''w'' ''run-2'' (st_db (snd (create_and_dispatch_release_run release_demo_world ''w'' release_pair_plan
      release_pair_preview 1 release_demo_state))) = None \<and>
   map gq_application_id (st_published (snd (create_and_dispatch_release_run release_demo_world ''w'' release_pair_plan
      release_pair_preview 1 release_demo_state))) = [''shop'']"
proof -
  let ?rd = "the (create_release_run (rw_env release_demo_world) (rw_plan_key release_demo_world) (rw_step_key release_demo_world)
    (re_now (rw_env release_demo_world)) ''w'' (rw_run_id release_demo_world) release_pair_plan release_pair_preview
    (Some (rw_user release_demo_world)) (st_db release_demo_state))"
  let ?run = "dispatch_wave_steps release_demo_world ''w'' release_pair_plan (rp_steps release_pair_preview) 1
    (rw_run_id release_demo_world) (release_demo_state\<lparr>st_db := ?rd\<rparr>)"
  have made: "create_release_run (rw_env release_demo_world) (rw_plan_key release_demo_world) (rw_step_key release_demo_world)
      (re_now (rw_env release_demo_world)) ''w'' (rw_run_id release_demo_world) release_pair_plan release_pair_preview
      (Some (rw_user release_demo_world)) (st_db release_demo_state) = Some ?rd"
    by code_simp
  have "case fst ?run of Inl e \<Rightarrow> True | Inr ids \<Rightarrow> False" "map gq_application_id (st_published (snd ?run)) = [''shop'']"
    by code_simp+
  moreover have "st_published release_demo_state = []" by (simp add: release_demo_state_def)
  ultimately obtain e st1 q where run: "?run = (Inl e, st1)" "st_published st1 = st_published release_demo_state @ q # []"
    "gq_application_id q = ''shop''"
    by (cases ?run) (auto split: sum.splits)
  from failed_start_forgets_published_steps [OF made run(1,2) surjective_pairing] run(3) show ?thesis
    by (simp add: release_demo_state_def release_demo_world_def)
qed

definition release_waiting_step :: run_step_row where
  "release_waiting_step =
     set_dispatched \<lparr>di_workflow_run_id = ''workflow-9'', di_event_id = [], di_correlation_id = []\<rparr>
       (merge_dicts [] (dispatch_details release_demo_world release_demo_plan
         (release_dispatch_guard_snapshot release_demo_world release_demo_plan release_demo_shown 1) 1
         \<lparr>gq_commit_sha = [], gq_image = [], gq_replicas = 1, gq_workspace_id = ''w'', gq_repo_ref = [], gq_branch = [],
          gq_application_id = ''shop'', gq_environment = [], gq_cluster_id = [], gq_manifest_path = [],
          gq_workflow_run_id = ''workflow-9''\<rparr>))
       (release_demo_run_step ''shop'' 1)"

lemma jobs_of_other_steps_hold_the_wave_witness:
  "\<exists>e. advance_release_run release_demo_world ''w'' ''run-1''
      (release_demo_state\<lparr>st_db := fold (\<lambda>(now, u). project_release_workflow_event (\<lambda>_. []) now u) [(5, release_late_update)]
        (release_demo_db\<lparr>rd_steps := [release_waiting_step]\<rparr>)\<rparr>) =
    (Some e, release_demo_state\<lparr>st_db := fold (\<lambda>(now, u). project_release_workflow_event (\<lambda>_. []) now u) [(5, release_late_update)]
        (release_demo_db\<lparr>rd_steps := [release_waiting_step]\<rparr>)\<rparr>)"
proof (rule jobs_of_other_steps_hold_the_wave [OF _ release_waiting_step_def])
  show "live_plan (rw_env release_demo_world) release_demo_plan" by code_simp
  show "hd (release_verification_job_specs release_demo_world release_demo_plan
      (release_production_steps_for_wave (re_render (rw_env release_demo_world)) release_demo_plan release_demo_shown 1) 1) \<in>
    set (release_verification_job_specs release_demo_world release_demo_plan
      (release_production_steps_for_wave (re_render (rw_env release_demo_world)) release_demo_plan release_demo_shown 1) 1)"
    by code_simp
  show "release_waiting_step \<in> set (steps_of_run ''w'' ''run-1'' (st_db (release_demo_state\<lparr>st_db := release_demo_db\<lparr>rd_steps := [release_waiting_step]\<rparr>\<rparr>)))"
    by (simp add: steps_of_run_def release_waiting_step_def set_dispatched_def release_demo_run_step_def)
  show "find_run ''w'' ''run-1'' (st_db (release_demo_state\<lparr>st_db := release_demo_db\<lparr>rd_steps := [release_waiting_step]\<rparr>\<rparr>)) = Some release_demo_row"
    by (simp add: release_demo_find)
  show "rn_current_wave release_demo_row = rs_wave release_waiting_step"
    by (simp add: release_waiting_step_def set_dispatched_def release_demo_run_step_def release_demo_row_def)
  show "\<forall>(now, u) \<in> set [(5, release_late_update)]. wu_workflow_run_id u \<noteq>
      di_workflow_run_id \<lparr>di_workflow_run_id = ''workflow-9'', di_event_id = [], di_correlation_id = []\<rparr>"
    by (simp add: release_late_update_def)
qed simp

end
