(* ===== verification/Recovery_Evidence.thy ===== *)
theory Recovery_Evidence
  imports Release_Preview "HOL-Library.List_Lexorder" "HOL-Library.Product_Lexorder"
begin

text \<open>
  What the verification of a recovery reads from one evidence window and from the alerts of the
  workspace (\<^verbatim>\<open>src/src/domains/rca/recovery_verification.py\<close>): the two service level metrics, the
  replicas of the recovered deployment, the protected workloads with their sessions, and the
  conditions on them. A condition that cannot be decided is None, as in the code.
\<close>

section \<open>Values\<close>

text \<open>
  \<open>rv_float\<close> reads a finite number from a text, \<open>rv_fromisoformat\<close> an instant with its offset,
  \<open>rv_fromtimestamp\<close> an instant from seconds since the epoch, \<open>rv_isoformat\<close> writes a UTC instant.
  Numbers are exact: rounding is not modelled.
\<close>

record recovery_env =
  rv_float :: "string \<Rightarrow> rat option"
  rv_fromisoformat :: "string \<Rightarrow> (time \<times> time option) option"
  rv_fromtimestamp :: "rat \<Rightarrow> time option"
  rv_isoformat :: "time \<Rightarrow> string"

definition text_value :: "json option \<Rightarrow> string" where
  "text_value v = (case v of Some (JStr s) \<Rightarrow> py_strip s | _ \<Rightarrow> [])"

text \<open>\<^verbatim>\<open>text(v).casefold()\<close>, on ASCII.\<close>

definition folded :: "json option \<Rightarrow> string" where
  "folded v = ascii_lower (text_value v)"

definition finite_float :: "recovery_env \<Rightarrow> json option \<Rightarrow> rat option" where
  "finite_float rv v =
     (case v of Some (JInt n) \<Rightarrow> Some (of_int n) | Some (JFloat q) \<Rightarrow> Some q | Some (JStr s) \<Rightarrow> rv_float rv s | _ \<Rightarrow> None)"

definition nonnegative_int :: "json option \<Rightarrow> int option" where
  "nonnegative_int v =
     (case v of
        None \<Rightarrow> None
      | Some (JBool b) \<Rightarrow> None
      | Some x \<Rightarrow> (case py_int x of Some n \<Rightarrow> if 0 \<le> n then Some n else None | None \<Rightarrow> None))"

definition bounded_seconds :: "json option \<Rightarrow> int \<Rightarrow> int \<Rightarrow> int \<Rightarrow> int" where
  "bounded_seconds v dflt lo hi = (case nonnegative_int v of None \<Rightarrow> dflt | Some n \<Rightarrow> max lo (min n hi))"

definition normalized_utc :: "time \<times> time option \<Rightarrow> time" where
  "normalized_utc v = (case v of (wall, None) \<Rightarrow> wall | (wall, Some offset) \<Rightarrow> wall - offset)"

definition parse_datetime :: "recovery_env \<Rightarrow> json option \<Rightarrow> time option" where
  "parse_datetime rv v =
     (case v of
        Some (JStr s) \<Rightarrow>
          if py_strip s = [] then None
          else map_option normalized_utc (rv_fromisoformat rv (py_replace ''Z'' ''+00:00'' s))
      | _ \<Rightarrow> None)"

definition int_or_null :: "int option \<Rightarrow> json" where
  "int_or_null v = (case v of None \<Rightarrow> JNull | Some n \<Rightarrow> JInt n)"

definition float_or_null :: "rat option \<Rightarrow> json" where
  "float_or_null v = (case v of None \<Rightarrow> JNull | Some q \<Rightarrow> JFloat q)"

definition list_or_null :: "jobj list option \<Rightarrow> json" where
  "list_or_null v = (case v of None \<Rightarrow> JNull | Some ds \<Rightarrow> JArr (map JObj ds))"

text \<open>\<^verbatim>\<open>d.get(k)\<close> stored as a value.\<close>

definition field_value :: "jobj \<Rightarrow> string \<Rightarrow> json" where
  "field_value d k = (case jget d k of None \<Rightarrow> JNull | Some v \<Rightarrow> v)"

definition present :: "json option \<Rightarrow> bool" where
  "present v \<longleftrightarrow> (case v of None \<Rightarrow> False | Some x \<Rightarrow> py_truthy x)"

text \<open>\<^verbatim>\<open>target.get(k, "")\<close>: targets are dictionaries of texts, as their annotation says.\<close>

definition target_text :: "jobj \<Rightarrow> string \<Rightarrow> string" where
  "target_text target k = (case jget target k of Some (JStr s) \<Rightarrow> s | _ \<Rightarrow> [])"

definition recovery_target :: "jobj \<Rightarrow> jobj" where
  "recovery_target plan =
     (let target = as_mapping (jget plan ''target'');
          selected_id = text_value (jget plan ''recommended_action_id'');
          selected = (case find (\<lambda>c. text_value (jget c ''action_id'') = selected_id)
            (objects (json_items (jget plan ''candidates''))) of Some c \<Rightarrow> c | None \<Rightarrow> []);
          draft = as_mapping (jget selected ''draft'');
          either_field = (\<lambda>k. JStr (or_default (text_value (jget target k)) (text_value (jget draft k))))
      in [(''cluster_id'', JStr (text_value (jget target ''cluster_id''))), (''namespace'', either_field ''namespace''),
          (''resource_kind'', either_field ''resource_kind''), (''resource_name'', either_field ''resource_name'')])"

section \<open>Service level metrics\<close>

definition STANDARD_SLI_IDENTITY_LABELS :: "string list" where
  "STANDARD_SLI_IDENTITY_LABELS = [''namespace'', ''resource_kind'', ''resource_name'', ''service'', ''sli'', ''symptom'']"

definition STANDARD_FAILURE_RATIO_METRIC :: string where
  "STANDARD_FAILURE_RATIO_METRIC = ''opsia_sli_failure_ratio''"

definition STANDARD_REQUEST_RATE_METRIC :: string where
  "STANDARD_REQUEST_RATE_METRIC = ''opsia_sli_request_rate''"

definition STANDARD_SLI_ALERT_NAME :: string where
  "STANDARD_SLI_ALERT_NAME = ''OpsiaSliFailureRatioHigh''"

definition CONTINUITY_ACTIVE_SESSIONS_METRIC :: string where
  "CONTINUITY_ACTIVE_SESSIONS_METRIC = ''opsia_continuity_active_sessions''"

definition exact_standard_sli_label_set :: "jobj \<Rightarrow> string \<Rightarrow> bool" where
  "exact_standard_sli_label_set labels metric \<longleftrightarrow>
     set (map fst labels) = set STANDARD_SLI_IDENTITY_LABELS \<or>
     set (map fst labels) = set (''__name__'' # STANDARD_SLI_IDENTITY_LABELS) \<and>
       text_value (jget labels ''__name__'') = metric"

text \<open>The six labels with their texts; None when one is missing.\<close>

definition metric_identity :: "jobj \<Rightarrow> jobj option" where
  "metric_identity labels =
     (let identity = map (\<lambda>k. (k, JStr (text_value (jget labels k)))) STANDARD_SLI_IDENTITY_LABELS
      in if list_all (\<lambda>k. text_value (jget labels k) \<noteq> []) STANDARD_SLI_IDENTITY_LABELS then Some identity else None)"

definition standard_sli_series_identity :: "json option \<Rightarrow> jobj option" where
  "standard_sli_series_identity v = metric_identity (as_mapping v)"

definition metric_labels_match_target :: "jobj \<Rightarrow> jobj \<Rightarrow> bool" where
  "metric_labels_match_target labels target \<longleftrightarrow>
     text_value (jget labels ''namespace'') = target_text target ''namespace'' \<and>
     folded (jget labels ''resource_kind'') = ascii_lower (target_text target ''resource_kind'') \<and>
     text_value (jget labels ''resource_name'') = target_text target ''resource_name''"

text \<open>The samples of a metric in a window; None when there is no list of them.\<close>

definition metric_samples :: "jobj \<Rightarrow> string \<Rightarrow> jobj list option" where
  "metric_samples evidence metric =
     (let results = as_mapping (jget (as_mapping (jget evidence ''metrics'')) ''results'')
      in case jget (as_mapping (jget results metric)) ''samples'' of
           Some (JArr xs) \<Rightarrow> Some (objects xs)
         | _ \<Rightarrow> None)"

definition sample_match :: "recovery_env \<Rightarrow> string \<Rightarrow> jobj \<Rightarrow> jobj \<Rightarrow> jobj \<Rightarrow> (rat \<times> jobj) list" where
  "sample_match rv metric target expected_identity sample =
     (let labels = as_mapping (jget sample ''metric'')
      in if \<not> exact_standard_sli_label_set labels metric \<or> \<not> metric_labels_match_target labels target then []
         else case metric_identity labels of
           None \<Rightarrow> []
         | Some identity \<Rightarrow>
             if list_ex (\<lambda>(k, v). text_value (jget identity k) \<noteq> text_value (Some v)) expected_identity then []
             else case finite_float rv (jget sample ''value'') of None \<Rightarrow> [] | Some q \<Rightarrow> [(q, identity)])"

definition metric_sample_with_identity ::
    "recovery_env \<Rightarrow> jobj \<Rightarrow> string \<Rightarrow> jobj \<Rightarrow> jobj \<Rightarrow> (rat \<times> jobj) option" where
  "metric_sample_with_identity rv evidence metric target expected_identity =
     (case metric_samples evidence metric of
        None \<Rightarrow> None
      | Some samples \<Rightarrow>
          (case concat (map (sample_match rv metric target expected_identity) samples) of
             [found] \<Rightarrow> Some found
           | _ \<Rightarrow> None))"

definition metric_sample :: "recovery_env \<Rightarrow> jobj \<Rightarrow> string \<Rightarrow> jobj \<Rightarrow> jobj \<Rightarrow> rat option" where
  "metric_sample rv evidence metric target expected_identity =
     map_option fst (metric_sample_with_identity rv evidence metric target expected_identity)"

section \<open>Workloads\<close>

definition workload_snapshots :: "jobj \<Rightarrow> jobj list option" where
  "workload_snapshots evidence =
     (let metadata = as_mapping (jget evidence ''metadata'');
          context_snapshots = jget (as_mapping (jget metadata ''change_context'')) ''current_workload_snapshots''
      in case jget metadata ''current_workload_snapshots'' of
           Some (JArr xs) \<Rightarrow> Some (objects xs)
         | _ \<Rightarrow> (case context_snapshots of Some (JArr xs) \<Rightarrow> Some (objects xs) | _ \<Rightarrow> None))"

definition replica_counts :: "jobj \<Rightarrow> jobj" where
  "replica_counts snapshot =
     (let status = as_mapping (jget snapshot ''deployment_status'');
          count = (\<lambda>k. (k, int_or_null (nonnegative_int (jget status k))))
      in [(''generation'', int_or_null (nonnegative_int (jget (as_mapping (jget snapshot ''workload'')) ''generation''))),
          count ''observed_generation'', count ''desired_replicas'', count ''ready_replicas'', count ''updated_replicas'',
          count ''available_replicas'', count ''unavailable_replicas'',
          (''unavailable_replicas_omitted'', JBool (jget status ''unavailable_replicas'' = None))])"

definition snapshot_of_target :: "jobj \<Rightarrow> jobj \<Rightarrow> bool" where
  "snapshot_of_target target snapshot \<longleftrightarrow>
     (let workload = as_mapping (jget snapshot ''workload'')
      in folded (jget workload ''kind'') = ascii_lower (target_text target ''resource_kind'') \<and>
         text_value (jget workload ''namespace'') = target_text target ''namespace'' \<and>
         text_value (jget workload ''name'') = target_text target ''resource_name'')"

definition deployment_replicas :: "jobj \<Rightarrow> jobj \<Rightarrow> jobj option" where
  "deployment_replicas evidence target =
     (case workload_snapshots evidence of
        None \<Rightarrow> None
      | Some snapshots \<Rightarrow>
          (case filter (snapshot_of_target target) snapshots of [s] \<Rightarrow> Some (replica_counts s) | _ \<Rightarrow> None))"

subsection \<open>Protected workloads\<close>

type_synonym workload_identity = "string \<times> string \<times> string"

definition baseline_identities :: "json option \<Rightarrow> workload_identity list option" where
  "baseline_identities baseline =
     (case baseline of
        Some (JArr xs) \<Rightarrow> Some (map (\<lambda>d. (folded (jget d ''kind''), text_value (jget d ''namespace''), text_value (jget d ''name'')))
          (objects xs))
      | _ \<Rightarrow> None)"

definition opted_in :: "jobj \<Rightarrow> bool" where
  "opted_in snapshot \<longleftrightarrow>
     folded (jget (as_mapping (jget snapshot ''deployment_labels'')) ''opsia.dev/recovery-continuity'') = ''protected'' \<and>
     folded (jget (as_mapping (jget snapshot ''pod_template_labels'')) ''opsia.dev/recovery-continuity'') = ''protected''"

definition serving_pods :: "jobj \<Rightarrow> jobj list" where
  "serving_pods snapshot =
     filter (\<lambda>pod. jget pod ''ready'' = Some (JBool True) \<and> text_value (jget pod ''deletion_timestamp'') = [])
       (objects (json_items (jget snapshot ''pod_statuses'')))"

definition pod_texts :: "string \<Rightarrow> jobj list \<Rightarrow> json" where
  "pod_texts k pods = JArr (map JStr (sort (filter (\<lambda>t. t \<noteq> []) (map (\<lambda>pod. text_value (jget pod k)) pods))))"

definition or_zero :: "int option \<Rightarrow> int" where
  "or_zero v = (case v of None \<Rightarrow> 0 | Some n \<Rightarrow> n)"

definition workload_healthy :: "jobj \<Rightarrow> bool" where
  "workload_healthy snapshot \<longleftrightarrow>
     (let status = as_mapping (jget snapshot ''deployment_status'')
      in case (nonnegative_int (jget status ''desired_replicas''), nonnegative_int (jget status ''ready_replicas''),
               nonnegative_int (jget status ''available_replicas'')) of
           (Some desired, Some ready, Some available) \<Rightarrow>
             0 < desired \<and> desired \<le> ready \<and> desired \<le> available \<and> desired \<le> int (length (serving_pods snapshot)) \<and>
             jget snapshot ''pod_statuses_truncated'' \<noteq> Some (JBool True)
         | _ \<Rightarrow> False)"

definition protected_workload :: "jobj \<Rightarrow> jobj" where
  "protected_workload snapshot =
     (let workload = as_mapping (jget snapshot ''workload''); pods = serving_pods snapshot
      in [(''kind'', JStr (text_value (jget workload ''kind''))), (''namespace'', JStr (text_value (jget workload ''namespace''))),
          (''name'', JStr (text_value (jget workload ''name''))), (''uid'', field_value workload ''uid''),
          (''pod_uids'', pod_texts ''uid'' pods), (''pod_start_times'', pod_texts ''start_time'' pods),
          (''restart_count'', JInt (sum_list (map (\<lambda>pod. or_zero (nonnegative_int (jget pod ''restart_count''))) pods))),
          (''healthy'', JBool (workload_healthy snapshot))])"

text \<open>The recovered workload itself is left out: its rollout is checked by its replicas.\<close>

definition protected_snapshot :: "jobj \<Rightarrow> workload_identity list option \<Rightarrow> jobj \<Rightarrow> bool" where
  "protected_snapshot target expected snapshot \<longleftrightarrow>
     (let workload = as_mapping (jget snapshot ''workload'');
          kind = folded (jget workload ''kind''); namespace = text_value (jget workload ''namespace'');
          name = text_value (jget workload ''name'')
      in namespace = target_text target ''namespace'' \<and> kind = ''deployment'' \<and>
         \<not> (kind = ascii_lower (target_text target ''resource_kind'') \<and> name = target_text target ''resource_name'') \<and>
         (case expected of None \<Rightarrow> opted_in snapshot | Some ids \<Rightarrow> (kind, namespace, name) \<in> set ids))"

definition protected_workloads :: "jobj \<Rightarrow> jobj \<Rightarrow> json option \<Rightarrow> jobj list option" where
  "protected_workloads evidence target baseline =
     map_option (\<lambda>snapshots. sort_key (\<lambda>d. (text_value (jget d ''namespace''), text_value (jget d ''kind''), text_value (jget d ''name'')))
       (map protected_workload (filter (protected_snapshot target (baseline_identities baseline)) snapshots)))
       (workload_snapshots evidence)"

definition compared_fields :: "jobj \<Rightarrow> json" where
  "compared_fields d = JObj (map (\<lambda>k. (k, field_value d k))
     [''name'', ''kind'', ''namespace'', ''uid'', ''pod_uids'', ''pod_start_times'', ''restart_count''])"

text \<open>Without a baseline from before the recovery nothing can be said.\<close>

definition protected_workloads_unchanged :: "json option \<Rightarrow> json option \<Rightarrow> bool option" where
  "protected_workloads_unchanged baseline current =
     (case (baseline, current) of
        (Some (JArr before), Some (JArr now)) \<Rightarrow>
          if before = [] then None
          else Some (py_eq (JArr (map compared_fields (objects before))) (JArr (map compared_fields (objects now))))
      | _ \<Rightarrow> None)"

definition stable_workload :: "jobj \<Rightarrow> bool" where
  "stable_workload d \<longleftrightarrow>
     (case (jget d ''pod_uids'', jget d ''pod_start_times'') of
        (Some (JArr uids), Some (JArr starts)) \<Rightarrow>
          uids \<noteq> [] \<and> length starts = length uids \<and> list_all (\<lambda>v. text_value (Some v) \<noteq> []) starts \<and>
          nonnegative_int (jget d ''restart_count'') \<noteq> None
      | _ \<Rightarrow> False)"

definition protected_workload_baseline :: "jobj list \<Rightarrow> jobj list" where
  "protected_workload_baseline workloads =
     (let baseline = map (\<lambda>d. map (\<lambda>k. (k, field_value d k))
            [''kind'', ''namespace'', ''name'', ''uid'', ''pod_uids'', ''pod_start_times'', ''restart_count''])
            (filter (\<lambda>d. jget d ''healthy'' = Some (JBool True)) workloads);
          identities = map (\<lambda>d. (folded (jget d ''kind''), text_value (jget d ''namespace''), text_value (jget d ''name''))) baseline;
          uids = map (\<lambda>d. text_value (jget d ''uid'')) baseline;
          pods = concat (map (\<lambda>d. map (\<lambda>v. text_value (Some v)) (json_items (jget d ''pod_uids''))) baseline)
      in if baseline = [] \<or> list_ex (\<lambda>(k, ns, n). k = [] \<or> ns = [] \<or> n = []) identities \<or> \<not> distinct identities \<or>
            [] \<in> set uids \<or> \<not> distinct uids \<or> [] \<in> set pods \<or> \<not> distinct pods \<or> \<not> list_all stable_workload baseline
         then [] else baseline)"

subsection \<open>Active sessions\<close>

type_synonym session_identity = "string \<times> string \<times> string \<times> string \<times> string"

definition session_identity_of :: "jobj \<Rightarrow> session_identity" where
  "session_identity_of d =
     (text_value (jget d ''namespace''), folded (jget d ''kind''), text_value (jget d ''name''),
      text_value (jget d ''continuity_id''), text_value (jget d ''pod_uid''))"

text \<open>A dictionary from sessions to the number a field of the item holds; items without one are left out.\<close>

definition session_numbers :: "recovery_env \<Rightarrow> string \<Rightarrow> json option \<Rightarrow> (session_identity \<times> rat) list option" where
  "session_numbers rv k v =
     (case v of
        Some (JArr xs) \<Rightarrow> Some (fold (\<lambda>(i, q) d. AList.update i q d)
          (concat (map (\<lambda>d. case finite_float rv (jget d k) of None \<Rightarrow> [] | Some q \<Rightarrow> [(session_identity_of d, q)]) (objects xs))) [])
      | _ \<Rightarrow> None)"

text \<open>Two dictionaries keyed by session have pairwise different continuity and pod identifiers.\<close>

definition sessions_distinct :: "session_identity list \<Rightarrow> bool" where
  "sessions_distinct ids \<longleftrightarrow> distinct (map (\<lambda>(_, _, _, c, _). c) ids) \<and> distinct (map (\<lambda>(_, _, _, _, p). p) ids)"

definition workload_of_session :: "session_identity \<Rightarrow> workload_identity" where
  "workload_of_session i = (case i of (ns, kind, name, _, _) \<Rightarrow> (ns, kind, name))"

text \<open>The first samples of the sessions that count, with their value and time.\<close>

definition session_sample ::
    "recovery_env \<Rightarrow> (workload_identity \<times> jobj) list \<Rightarrow> (session_identity \<times> rat) list option \<Rightarrow>
     (session_identity \<times> rat) list option \<Rightarrow> time \<Rightarrow> jobj \<Rightarrow> (session_identity \<times> rat \<times> rat) list" where
  "session_sample rv protected expected previous observed_at sample =
     (let labels = as_mapping (jget sample ''metric'');
          w = (text_value (jget labels ''namespace''), folded (jget labels ''resource_kind''), text_value (jget labels ''resource_name''));
          continuity_id = text_value (jget labels ''continuity_id''); pod_uid = text_value (jget labels ''pod_uid'');
          identity = (case w of (ns, kind, name) \<Rightarrow> (ns, kind, name, continuity_id, pod_uid))
      in case map_of protected w of
           None \<Rightarrow> []
         | Some d \<Rightarrow>
             if continuity_id = [] \<or> pod_uid = [] \<or> pod_uid \<notin> (\<lambda>v. text_value (Some v)) ` set (json_items (jget d ''pod_uids'')) \<or>
                (case expected of None \<Rightarrow> False | Some e \<Rightarrow> identity \<notin> fst ` set e) then []
             else case (finite_float rv (jget sample ''value''), finite_float rv (jget sample ''timestamp'')) of
               (Some q, Some stamp) \<Rightarrow>
                 if q \<le> 0 \<or> q \<noteq> of_int \<lfloor>q\<rfloor> then []
                 else (case rv_fromtimestamp rv stamp of
                   None \<Rightarrow> []
                 | Some t \<Rightarrow>
                     if seconds 30 < \<bar>observed_at - t\<bar> \<or>
                        (case previous of None \<Rightarrow> False | Some p \<Rightarrow> (case map_of p identity of None \<Rightarrow> False | Some old \<Rightarrow> stamp < old))
                     then [] else [(identity, q, stamp)])
             | _ \<Rightarrow> [])"

definition session_row :: "(workload_identity \<times> jobj) list \<Rightarrow> session_identity \<times> rat \<times> rat \<Rightarrow> jobj" where
  "session_row protected m =
     (case m of ((ns, kind, name, continuity_id, pod_uid), q, stamp) \<Rightarrow>
        [(''namespace'', JStr ns),
         (''kind'', JStr (case map_of protected (ns, kind, name) of None \<Rightarrow> [] | Some d \<Rightarrow> text_value (jget d ''kind''))),
         (''name'', JStr name), (''continuity_id'', JStr continuity_id), (''pod_uid'', JStr pod_uid),
         (''value'', JFloat q), (''sample_timestamp'', JFloat stamp)])"

text \<open>\<open>max_sample_age_seconds\<close> is always the thirty seconds of \<^verbatim>\<open>CONTINUITY_SAMPLE_MAX_AGE_SECONDS\<close>.\<close>

definition protected_active_session_series ::
    "recovery_env \<Rightarrow> jobj \<Rightarrow> json option \<Rightarrow> json option \<Rightarrow> json option \<Rightarrow> time option \<Rightarrow> jobj list option" where
  "protected_active_session_series rv evidence protected_baseline expected_baseline previous_samples observed_at =
     (let items = json_items protected_baseline;
          protected = fold (\<lambda>d. AList.update (text_value (jget d ''namespace''), folded (jget d ''kind''), text_value (jget d ''name'')) d)
            (objects items) [];
          expected = session_numbers rv ''value'' expected_baseline;
          previous = session_numbers rv ''sample_timestamp'' previous_samples
      in if items = [] \<or> length protected \<noteq> length items then None
         else case observed_at of
           None \<Rightarrow> None
         | Some observed \<Rightarrow>
             if (case expected of
                   None \<Rightarrow> False
                 | Some e \<Rightarrow> length e \<noteq> length (json_items expected_baseline) \<or> \<not> sessions_distinct (map fst e) \<or>
                     (case previous of None \<Rightarrow> True | Some p \<Rightarrow> fst ` set p \<noteq> fst ` set e))
             then None
             else case metric_samples evidence CONTINUITY_ACTIVE_SESSIONS_METRIC of
               None \<Rightarrow> None
             | Some samples \<Rightarrow>
                 let matches = concat (map (session_sample rv protected expected previous observed) samples); ids = map fst matches
                 in if \<not> distinct ids then None
                    else if (case expected of
                       Some e \<Rightarrow> set ids \<noteq> fst ` set e
                     | None \<Rightarrow> workload_of_session ` set ids \<noteq> fst ` set protected \<or> length ids \<noteq> length protected) then None
                    else if \<not> sessions_distinct ids then None
                    else Some (map (session_row protected) (sort_key fst matches)))"

definition session_values :: "recovery_env \<Rightarrow> json list \<Rightarrow> (session_identity \<times> rat) list option" where
  "session_values rv items =
     (let parsed = concat (map (\<lambda>v. case v of
            JObj d \<Rightarrow> (case finite_float rv (jget d ''value'') of None \<Rightarrow> [] | Some q \<Rightarrow> [(session_identity_of d, q)])
          | _ \<Rightarrow> []) items)
      in if length parsed \<noteq> length items \<or> \<not> distinct (map fst parsed) \<or>
            list_ex (\<lambda>((ns, kind, name, c, p), _). ns = [] \<or> kind = [] \<or> name = [] \<or> c = [] \<or> p = []) parsed
         then None else Some parsed)"

text \<open>Sessions may be added to a protected pod; none may be lost.\<close>

definition protected_active_sessions_maintained :: "recovery_env \<Rightarrow> json option \<Rightarrow> json option \<Rightarrow> bool option" where
  "protected_active_sessions_maintained rv baseline current =
     (case (baseline, current) of
        (Some (JArr before), Some (JArr now)) \<Rightarrow>
          if before = [] then None
          else (case (session_values rv before, session_values rv now) of
             (Some b, Some n) \<Rightarrow>
               if fst ` set b \<noteq> fst ` set n then None
               else Some (list_all (\<lambda>(i, q). case map_of n i of None \<Rightarrow> False | Some q' \<Rightarrow> q \<le> q') b)
           | _ \<Rightarrow> None)
      | _ \<Rightarrow> None)"

section \<open>Alerts\<close>

definition alert_matches_target :: "jobj \<Rightarrow> jobj \<Rightarrow> bool" where
  "alert_matches_target alert target \<longleftrightarrow>
     (let subject = as_mapping (jget alert ''subject'')
      in text_value (jget subject ''cluster'') = target_text target ''cluster_id'' \<and>
         text_value (jget subject ''namespace'') = target_text target ''namespace'' \<and>
         folded (jget subject ''kind'') = ascii_lower (target_text target ''resource_kind'') \<and>
         text_value (jget subject ''name'') = target_text target ''resource_name'')"

definition alert_matches_original_series :: "jobj \<Rightarrow> jobj \<Rightarrow> jobj \<Rightarrow> bool" where
  "alert_matches_original_series alert before target \<longleftrightarrow>
     (let expected = standard_sli_series_identity (jget before ''series_identity'')
      in alert_matches_target alert target \<and>
         (text_value (jget before ''rule_name'') = STANDARD_SLI_ALERT_NAME \<longrightarrow>
            expected \<noteq> None \<and> standard_sli_series_identity (jget alert ''series_identity'') = expected) \<and>
         list_all (\<lambda>k. text_value (jget before k) = [] \<or> text_value (jget alert k) = text_value (jget before k))
           [''rule_id'', ''rule_name'', ''source'', ''subject_key''])"

definition is_original :: "jobj \<Rightarrow> jobj \<Rightarrow> bool" where
  "is_original before alert \<longleftrightarrow>
     text_value (jget before ''alert_event_id'') \<noteq> [] \<and>
     text_value (jget alert ''event_id'') = text_value (jget before ''alert_event_id'')"

definition fired_since :: "recovery_env \<Rightarrow> time option \<Rightarrow> jobj \<Rightarrow> bool" where
  "fired_since rv started alert \<longleftrightarrow>
     (case (started, parse_datetime rv (jget alert ''fired_at'')) of (Some s, Some t) \<Rightarrow> s \<le> t | _ \<Rightarrow> False)"

text \<open>The last listed original counts; any other occurrence of the series that fired since the start is a relapse.\<close>

definition alert_checks ::
    "recovery_env \<Rightarrow> jobj list \<Rightarrow> jobj \<Rightarrow> jobj \<Rightarrow> time option \<Rightarrow> bool option \<times> bool option" where
  "alert_checks rv alerts before target started =
     (let series = filter (\<lambda>a. alert_matches_original_series a before target) alerts;
          refired = list_ex (\<lambda>a. \<not> is_original before a \<and> fired_since rv started a) series
      in case rev (filter (is_original before) series) of
           [] \<Rightarrow> (None, if refired then Some False else None)
         | original # _ \<Rightarrow>
             (Some (folded (jget original ''status'') = ''resolved'' \<and> parse_datetime rv (jget original ''resolved_at'') \<noteq> None),
              Some (\<not> refired)))"

text \<open>The one occurrence of the series an operator recovers from.\<close>

definition recoverable_alert ::
    "recovery_env \<Rightarrow> jobj \<Rightarrow> string \<Rightarrow> string \<Rightarrow> jobj option \<Rightarrow> jobj \<Rightarrow> bool" where
  "recoverable_alert rv target correlation_id incident_id expected_identity alert \<longleftrightarrow>
     (let status = folded (jget alert ''status''); fired = parse_datetime rv (jget alert ''fired_at'');
          series = standard_sli_series_identity (jget alert ''series_identity'')
      in alert_matches_target alert target \<and>
         text_value (jget alert ''incident_id'') \<in> {correlation_id, incident_id} \<and>
         folded (jget alert ''source'') = ''alertmanager'' \<and> text_value (jget alert ''rule_name'') = STANDARD_SLI_ALERT_NAME \<and>
         status \<in> {''firing'', ''acked'', ''resolved''} \<and>
         (case fired of
            None \<Rightarrow> False
          | Some f \<Rightarrow> status = ''resolved'' \<longrightarrow>
              (case parse_datetime rv (jget alert ''resolved_at'') of None \<Rightarrow> False | Some t \<Rightarrow> f \<le> t)) \<and>
         (case (finite_float rv (jget alert ''observed_value''), finite_float rv (jget alert ''threshold'')) of
            (Some observed, Some threshold) \<Rightarrow> threshold < observed
          | _ \<Rightarrow> False) \<and>
         (case series of
            None \<Rightarrow> False
          | Some identity \<Rightarrow> metric_labels_match_target identity target \<and>
              (case expected_identity of None \<Rightarrow> True | Some e \<Rightarrow> identity = e)))"

definition unavailable_alert :: "string \<Rightarrow> jobj" where
  "unavailable_alert reason_code = [(''available'', JBool False), (''reason_code'', JStr reason_code)]"

definition before_alert_snapshot ::
    "recovery_env \<Rightarrow> jobj list \<Rightarrow> jobj \<Rightarrow> string \<Rightarrow> string \<Rightarrow> json option \<Rightarrow> jobj" where
  "before_alert_snapshot rv alerts target correlation_id incident_id expected_series_identity =
     (let expected = (case expected_series_identity of None \<Rightarrow> None | Some v \<Rightarrow> standard_sli_series_identity (Some v))
      in if expected_series_identity \<noteq> None \<and> expected = None then unavailable_alert ''pre_recovery_alert_missing''
         else case filter (recoverable_alert rv target correlation_id incident_id expected) alerts of
           [alert] \<Rightarrow> (''available'', JBool True) # (''alert_event_id'', field_value alert ''event_id'') #
             map (\<lambda>k. (k, field_value alert k)) [''rule_id'', ''rule_name'', ''source'', ''subject_key'', ''series_identity'',
               ''observed_value'', ''threshold'', ''fired_at'', ''subject'']
         | [] \<Rightarrow> unavailable_alert ''pre_recovery_alert_missing''
         | _ \<Rightarrow> unavailable_alert ''pre_recovery_alert_ambiguous'')"

section \<open>What a window shows, and the conditions on it\<close>

text \<open>The fields of a verification the checks read, with the samples of the last window.\<close>

definition observed_after :: "recovery_env \<Rightarrow> jobj \<Rightarrow> jobj \<Rightarrow> jobj \<Rightarrow> jobj" where
  "observed_after rv verification evidence target =
     (let expected = as_mapping (jget verification ''expected''); baseline = jget verification ''protected_baseline'';
          sessions = jget verification ''protected_session_baseline''; last = jget verification ''last_session_samples'';
          metric = (\<lambda>name k. float_or_null (metric_sample rv evidence name target (as_mapping (jget expected k))))
      in [(''failure_ratio'', metric STANDARD_FAILURE_RATIO_METRIC ''failure_ratio_metric_identity''),
          (''request_rate'', metric STANDARD_REQUEST_RATE_METRIC ''request_rate_metric_identity''),
          (''deployment'', case deployment_replicas evidence target of None \<Rightarrow> JNull | Some d \<Rightarrow> JObj d),
          (''protected_workloads'', list_or_null (protected_workloads evidence target baseline)),
          (''protected_active_sessions'', list_or_null (protected_active_session_series rv evidence baseline sessions
             (if present last then last else sessions) (parse_datetime rv (jget evidence ''window_start''))))])"

definition compare_with :: "('a \<Rightarrow> 'a \<Rightarrow> bool) \<Rightarrow> 'a option \<Rightarrow> 'a option \<Rightarrow> bool option" where
  "compare_with r a b = (case (a, b) of (Some x, Some y) \<Rightarrow> Some (r x y) | _ \<Rightarrow> None)"

definition rate_near_baseline :: "rat option \<Rightarrow> rat option \<Rightarrow> rat option \<Rightarrow> bool option" where
  "rate_near_baseline rate baseline tolerance =
     (case (rate, baseline, tolerance) of
        (Some q, Some b, Some tol) \<Rightarrow> if 0 < b \<and> 0 \<le> tol \<and> tol < 1 then Some (\<bar>q - b\<bar> \<le> b * tol) else None
      | _ \<Rightarrow> None)"

definition replica_checks :: "jobj \<Rightarrow> int option \<Rightarrow> (string \<times> bool option) list" where
  "replica_checks deployment replicas =
     (let count = (\<lambda>k. nonnegative_int (jget deployment k)); restored = (\<lambda>k. compare_with (=) (count k) replicas);
          desired = count ''desired_replicas''; ready = count ''ready_replicas''; updated = count ''updated_replicas'';
          available = count ''available_replicas''; unavailable = count ''unavailable_replicas'';
          generation = count ''generation''; observed = count ''observed_generation'';
          omitted = (jget deployment ''unavailable_replicas_omitted'' = Some (JBool True) \<and> unavailable = None \<and>
            replicas \<noteq> None \<and> desired = replicas \<and> ready = replicas \<and> updated = replicas \<and> available = replicas \<and>
            compare_with (\<le>) generation observed = Some True)
      in [(''desired_replicas_restored'', restored ''desired_replicas''), (''ready_replicas_restored'', restored ''ready_replicas''),
          (''updated_replicas_restored'', restored ''updated_replicas''), (''available_replicas_restored'', restored ''available_replicas''),
          (''unavailable_replicas_zero'',
             case unavailable of Some n \<Rightarrow> Some (n = 0) | None \<Rightarrow> if omitted then Some True else None),
          (''deployment_generation_observed'', compare_with (=) observed generation)])"

definition list_length :: "json option \<Rightarrow> int option" where
  "list_length v = (case v of Some (JArr xs) \<Rightarrow> Some (int (length xs)) | _ \<Rightarrow> None)"

definition protected_checks :: "recovery_env \<Rightarrow> jobj \<Rightarrow> jobj \<Rightarrow> (string \<times> bool option) list" where
  "protected_checks rv verification after =
     (let n = or_zero (nonnegative_int (jget (as_mapping (jget verification ''expected'')) ''protected_workloads''));
          workloads = jget after ''protected_workloads''; sessions = jget after ''protected_active_sessions'';
          baseline = jget verification ''protected_baseline''; session_baseline = jget verification ''protected_session_baseline'';
          healthy = (case workloads of Some (JArr xs) \<Rightarrow> Some (list_all (\<lambda>d. jget d ''healthy'' = Some (JBool True)) (objects xs)) | _ \<Rightarrow> None);
          guarded = (\<lambda>check. if 0 < n then check else Some True)
      in [(''protected_workloads_present'', guarded (compare_with (\<le>) (Some n) (list_length workloads))),
          (''protected_workloads_healthy'', guarded healthy),
          (''protected_workloads_uninterrupted'', guarded (protected_workloads_unchanged baseline workloads)),
          (''protected_active_session_series_present'', guarded (compare_with (=) (list_length sessions) (list_length session_baseline))),
          (''protected_active_sessions_maintained'', guarded (protected_active_sessions_maintained rv session_baseline sessions))])"

definition verification_checks ::
    "recovery_env \<Rightarrow> jobj \<Rightarrow> jobj \<Rightarrow> jobj \<Rightarrow> jobj list \<Rightarrow> time option \<Rightarrow> (string \<times> bool option) list" where
  "verification_checks rv verification target after alerts started =
     (let expected = as_mapping (jget verification ''expected'');
          (resolved, no_refire) = alert_checks rv alerts (as_mapping (jget verification ''before'')) target started
      in [(''failure_ratio_below_threshold'', compare_with (\<le>) (finite_float rv (jget after ''failure_ratio''))
             (finite_float rv (jget expected ''failure_ratio_max''))),
          (''request_rate_near_baseline'', rate_near_baseline (finite_float rv (jget after ''request_rate''))
             (finite_float rv (jget expected ''request_rate_baseline'')) (finite_float rv (jget expected ''request_rate_tolerance_ratio'')))] @
         replica_checks (as_mapping (jget after ''deployment'')) (nonnegative_int (jget expected ''replicas'')) @
         protected_checks rv verification after @
         [(''alertmanager_resolved'', resolved), (''alertmanager_no_refire'', no_refire)])"

definition check_values :: "(string \<times> bool option) list \<Rightarrow> jobj" where
  "check_values checks = map (\<lambda>(k, v). (k, case v of None \<Rightarrow> JNull | Some b \<Rightarrow> JBool b)) checks"

definition all_pass :: "(string \<times> bool option) list \<Rightarrow> bool" where
  "all_pass checks \<longleftrightarrow> list_all (\<lambda>(k, v). v = Some True) checks"

section \<open>The window of persisted evidence\<close>

definition evidence_source_lineages :: "jobj \<Rightarrow> jobj list" where
  "evidence_source_lineages evidence =
     (let lineage = (\<lambda>v. case v of Some (JObj d) \<Rightarrow> (case jget d ''_lineage'' of Some (JObj l) \<Rightarrow> [l] | _ \<Rightarrow> []) | _ \<Rightarrow> [])
      in concat (map (\<lambda>k. lineage (jget evidence k)) [''kubernetes'', ''metrics'', ''traces'', ''metadata'']) @
         concat (map (\<lambda>v. lineage (Some v)) (json_items (jget evidence ''logs''))))"

definition lineage_window :: "recovery_env \<Rightarrow> jobj \<Rightarrow> (string \<times> string \<times> string \<times> time) option" where
  "lineage_window rv l =
     (let ws = text_value (jget l ''workspace_id''); c = text_value (jget l ''cluster_id''); k = text_value (jget l ''evidence_key'')
      in case parse_datetime rv (jget l ''window_start'') of
           None \<Rightarrow> None
         | Some t \<Rightarrow> if ws = [] \<or> c = [] \<or> k = [] then None else Some (ws, c, k, t))"

definition trusted_evidence_window_start :: "recovery_env \<Rightarrow> jobj \<Rightarrow> string \<Rightarrow> string \<Rightarrow> time option" where
  "trusted_evidence_window_start rv evidence expected_ws expected_cluster =
     (let top_start = parse_datetime rv (jget evidence ''window_start''); top_ws = text_value (jget evidence ''workspace_id'');
          top_cluster = text_value (jget evidence ''cluster_id''); top_key = text_value (jget evidence ''evidence_key'');
          differs = (\<lambda>want have. want \<noteq> [] \<and> have \<noteq> want); lineages = evidence_source_lineages evidence
      in if top_ws \<noteq> [] \<and> differs expected_ws top_ws \<or> top_cluster \<noteq> [] \<and> differs expected_cluster top_cluster then None
         else if lineages = []
         then (if differs expected_ws top_ws \<or> differs expected_cluster top_cluster then None else top_start)
         else if as_mapping (jget (as_mapping (jget evidence ''metrics'')) ''_lineage'') = [] then None
         else
           let windows = map (lineage_window rv) lineages
           in if None \<in> set windows \<or> (\<exists>w \<in> set windows. w \<noteq> hd windows) then None
              else case hd windows of
                None \<Rightarrow> None
              | Some (ws, c, k, t) \<Rightarrow>
                  if differs expected_ws ws \<or> differs expected_cluster c \<or> differs top_ws ws \<or> differs top_cluster c \<or>
                     differs top_key k \<or> (case top_start of None \<Rightarrow> False | Some s \<Rightarrow> t \<noteq> s)
                  then None else Some t)"

end
