(* ===== verification/Recovery_Verification.thy ===== *)
theory Recovery_Verification
  imports Recovery_Evidence Event_Outbox
begin

text \<open>
  The verdict on a recovery after its deployment
  (\<^verbatim>\<open>src/src/domains/rca/recovery_verification.py\<close>), the worker that stores it
  (\<^verbatim>\<open>src/src/services/ai/rca-feedback-worker/app.py\<close>) and the sweep that fails overdue
  verifications (\<^verbatim>\<open>src/src/domains/rca/repository.py\<close>). A verification is the JSON object inside
  the lifecycle of its plan. The texts of the reasons are not modelled, their codes are.
\<close>

section \<open>The verdict on one window\<close>

record verification_decision =
  vd_status :: string
  vd_reason_code :: string
  vd_after :: jobj
  vd_healthy_since :: "string option"
  vd_last_healthy_observed_at :: "string option"
  vd_distinct_evidence_count :: int
  vd_last_evidence_key :: "string option"

definition DEFAULT_MINIMUM_SECONDS :: int where
  "DEFAULT_MINIMUM_SECONDS = 300"

definition DEFAULT_MAXIMUM_SECONDS :: int where
  "DEFAULT_MAXIMUM_SECONDS = 600"

definition verification_deadline :: "time \<Rightarrow> int \<Rightarrow> time" where
  "verification_deadline started maximum_seconds = started + seconds maximum_seconds"

definition text_or_none :: "string \<Rightarrow> string option" where
  "text_or_none s = (if s = [] then None else Some s)"

definition verification_target :: "jobj \<Rightarrow> jobj \<Rightarrow> jobj" where
  "verification_target verification plan =
     (let target = as_mapping (jget verification ''target'') in if target = [] then recovery_target plan else target)"

definition required_seconds :: "jobj \<Rightarrow> int" where
  "required_seconds verification =
     bounded_seconds (jget verification ''minimum_seconds'') DEFAULT_MINIMUM_SECONDS DEFAULT_MINIMUM_SECONDS DEFAULT_MAXIMUM_SECONDS"

definition evidence_cadence :: "jobj \<Rightarrow> int" where
  "evidence_cadence verification =
     or_zero (nonnegative_int (jget (as_mapping (jget verification ''expected'')) ''evidence_cadence_seconds''))"

definition minimum_distinct :: "int \<Rightarrow> int \<Rightarrow> int" where
  "minimum_distinct minimum_seconds cadence = max 2 (\<lceil>(of_int minimum_seconds :: rat) / of_int cadence\<rceil> + 1)"

text \<open>A window follows the last healthy one: later, by one and a half cadences at most.\<close>

definition follows :: "int \<Rightarrow> time \<Rightarrow> time \<Rightarrow> bool" where
  "follows cadence previous observed \<longleftrightarrow> previous < observed \<and> 2 * (observed - previous) \<le> 3 * seconds cadence"

definition window_checks ::
    "recovery_env \<Rightarrow> jobj \<Rightarrow> jobj \<Rightarrow> jobj \<Rightarrow> jobj list \<Rightarrow> (string \<times> bool option) list" where
  "window_checks rv plan verification evidence alerts =
     (let target = verification_target verification plan
      in verification_checks rv verification target (observed_after rv verification evidence target) alerts
           (parse_datetime rv (jget verification ''started_at'')))"

definition usable_window :: "recovery_env \<Rightarrow> jobj \<Rightarrow> jobj \<Rightarrow> time \<Rightarrow> time option" where
  "usable_window rv verification evidence now =
     (case (parse_datetime rv (jget evidence ''window_start''), parse_datetime rv (jget verification ''started_at'')) of
        (Some observed, Some started) \<Rightarrow> if started \<le> observed \<and> observed \<le> now then Some observed else None
      | _ \<Rightarrow> None)"

definition overdue :: "recovery_env \<Rightarrow> jobj \<Rightarrow> time \<Rightarrow> bool" where
  "overdue rv verification now \<longleftrightarrow>
     (case parse_datetime rv (jget verification ''deadline_at'') of None \<Rightarrow> False | Some deadline \<Rightarrow> deadline \<le> now)"

definition window_after :: "recovery_env \<Rightarrow> jobj \<Rightarrow> jobj \<Rightarrow> jobj \<Rightarrow> jobj list \<Rightarrow> time \<Rightarrow> jobj" where
  "window_after rv plan verification evidence alerts now =
     observed_after rv verification evidence (verification_target verification plan) @
     [(''checks'', JObj (check_values (window_checks rv plan verification evidence alerts))), (''observed_at'', JStr (rv_isoformat rv now))] @
     (case parse_datetime rv (jget evidence ''window_start'') of
        None \<Rightarrow> [] | Some t \<Rightarrow> [(''evidence_observed_at'', JStr (rv_isoformat rv t))]) @
     (if text_value (jget evidence ''evidence_key'') = [] then []
      else [(''evidence_ref'', JStr (text_value (jget evidence ''evidence_key'')))])"

text \<open>A duplicate or stale window keeps what the verification has.\<close>

definition unchanged_decision :: "recovery_env \<Rightarrow> jobj \<Rightarrow> string \<Rightarrow> jobj \<Rightarrow> verification_decision" where
  "unchanged_decision rv verification code after =
     \<lparr>vd_status = ''pending'', vd_reason_code = code, vd_after = after,
      vd_healthy_since = text_or_none (text_value (jget verification ''healthy_since'')),
      vd_last_healthy_observed_at = map_option (rv_isoformat rv) (parse_datetime rv (jget verification ''last_healthy_observed_at'')),
      vd_distinct_evidence_count = or_zero (nonnegative_int (jget verification ''distinct_evidence_count'')),
      vd_last_evidence_key = text_or_none (text_value (jget verification ''last_evidence_key''))\<rparr>"

text \<open>A window that is not healthy, or whose cadence is unknown, starts the count afresh.\<close>

definition reset_decision :: "string \<Rightarrow> string \<Rightarrow> jobj \<Rightarrow> string option \<Rightarrow> verification_decision" where
  "reset_decision status code after last_key =
     \<lparr>vd_status = status, vd_reason_code = code, vd_after = after, vd_healthy_since = None, vd_last_healthy_observed_at = None,
      vd_distinct_evidence_count = 0, vd_last_evidence_key = last_key\<rparr>"

text \<open>Where the healthy time starts and how many windows it has, with this one.\<close>

definition stable_run :: "recovery_env \<Rightarrow> jobj \<Rightarrow> time \<Rightarrow> time \<times> int" where
  "stable_run rv verification observed =
     (let since = parse_datetime rv (jget verification ''healthy_since'');
          count = or_zero (nonnegative_int (jget verification ''distinct_evidence_count''));
          broken = (case parse_datetime rv (jget verification ''last_healthy_observed_at'') of
             None \<Rightarrow> False | Some previous \<Rightarrow> \<not> follows (evidence_cadence verification) previous observed)
      in if broken then (observed, 1)
         else (case since of None \<Rightarrow> observed | Some t \<Rightarrow> t, count + 1))"

definition regressed_decision ::
    "recovery_env \<Rightarrow> jobj \<Rightarrow> (string \<times> bool option) list \<Rightarrow> time \<Rightarrow> jobj \<Rightarrow> string option \<Rightarrow> verification_decision" where
  "regressed_decision rv verification checks now after last_key =
     (if overdue rv verification now then reset_decision ''failed'' ''verification_window_expired'' after last_key
      else reset_decision ''pending''
        (if list_ex (\<lambda>(k, v). v = Some False) checks then ''verification_regressed'' else ''verification_evidence_missing'')
        after last_key)"

definition stabilization_decision ::
    "recovery_env \<Rightarrow> jobj \<Rightarrow> time \<Rightarrow> time \<Rightarrow> jobj \<Rightarrow> string option \<Rightarrow> verification_decision" where
  "stabilization_decision rv verification observed now after last_key =
     (let (stable_from, count) = stable_run rv verification observed;
          stable = max 0 (observed - stable_from); minimum_seconds = required_seconds verification;
          short = (stable < seconds minimum_seconds \<or> count < minimum_distinct minimum_seconds (evidence_cadence verification));
          shown = after @ [(''healthy_since'', JStr (rv_isoformat rv stable_from)),
            (''stable_seconds'', JFloat (of_int stable / of_int second_micros)), (''distinct_evidence_count'', JInt count)]
      in \<lparr>vd_status = (if \<not> short then ''completed'' else if overdue rv verification now then ''failed'' else ''pending''),
          vd_reason_code = (if \<not> short then ''recovery_verified''
             else if overdue rv verification now then ''verification_window_expired'' else ''stabilization_window_in_progress''),
          vd_after = shown, vd_healthy_since = Some (rv_isoformat rv stable_from),
          vd_last_healthy_observed_at = Some (rv_isoformat rv observed),
          vd_distinct_evidence_count = count, vd_last_evidence_key = last_key\<rparr>)"

definition evaluate_recovery_evidence ::
    "recovery_env \<Rightarrow> jobj \<Rightarrow> jobj \<Rightarrow> jobj \<Rightarrow> jobj list \<Rightarrow> time \<Rightarrow> verification_decision" where
  "evaluate_recovery_evidence rv plan verification evidence alerts now =
     (let key = text_value (jget evidence ''evidence_key''); previous_key = text_value (jget verification ''last_evidence_key'');
          last_key = text_or_none (or_default key previous_key);
          checks = window_checks rv plan verification evidence alerts;
          after = window_after rv plan verification evidence alerts now
      in if key \<noteq> [] \<and> key = previous_key then unchanged_decision rv verification ''duplicate_evidence_window'' after
         else case usable_window rv verification evidence now of
           None \<Rightarrow> unchanged_decision rv verification ''stale_evidence_window'' after
         | Some observed \<Rightarrow>
             if \<not> all_pass checks then regressed_decision rv verification checks now after last_key
             else if evidence_cadence verification = 0
             then reset_decision ''pending'' ''verification_evidence_missing'' after last_key
             else stabilization_decision rv verification observed now after last_key)"

section \<open>Storing the verdict\<close>

definition text_or_null :: "string option \<Rightarrow> json" where
  "text_or_null v = (case v of None \<Rightarrow> JNull | Some s \<Rightarrow> JStr s)"

text \<open>\<^verbatim>\<open>d.update(...)\<close>.\<close>

definition update_fields :: "(string \<times> json) list \<Rightarrow> jobj \<Rightarrow> jobj" where
  "update_fields kvs d = fold (\<lambda>(k, v). AList.update k v) kvs d"

definition record_decision :: "verification_decision \<Rightarrow> jobj \<Rightarrow> jobj" where
  "record_decision d verification =
     update_fields (case jget (vd_after d) ''protected_active_sessions'' of
         Some (JArr xs) \<Rightarrow> [(''last_session_samples'', JArr (map JObj (objects xs)))] | _ \<Rightarrow> [])
       (update_fields [(''status'', JStr (vd_status d)), (''healthy_since'', text_or_null (vd_healthy_since d)),
          (''last_healthy_observed_at'', text_or_null (vd_last_healthy_observed_at d)),
          (''distinct_evidence_count'', JInt (vd_distinct_evidence_count d)),
          (''last_evidence_key'', text_or_null (vd_last_evidence_key d)), (''last_reason_code'', JStr (vd_reason_code d)),
          (''after'', JObj (vd_after d))] verification)"

definition plan_status :: "verification_decision \<Rightarrow> string" where
  "plan_status d =
     (if vd_status d = ''completed'' then ''completed'' else if vd_status d = ''failed'' then ''failed'' else ''verification_pending'')"

definition apply_verification_terminal_state :: "verification_decision \<Rightarrow> string \<Rightarrow> jobj \<Rightarrow> jobj" where
  "apply_verification_terminal_state d evidence_ref lifecycle =
     (if vd_status d = ''failed''
      then AList.update ''failure'' (JObj [(''reason_code'', JStr (vd_reason_code d)), (''evidence_ref'', JStr evidence_ref)]) lifecycle
      else if vd_status d = ''completed'' then AList.delete ''failure'' lifecycle else lifecycle)"

definition lifecycle_after :: "verification_decision \<Rightarrow> string \<Rightarrow> jobj \<Rightarrow> jobj" where
  "lifecycle_after d evidence_ref lifecycle =
     apply_verification_terminal_state d evidence_ref
       (AList.update ''phase'' (JStr (plan_status d))
         (AList.update ''verification'' (JObj (record_decision d (as_mapping (jget lifecycle ''verification'')))) lifecycle))"

section \<open>Fields of a stored verification\<close>

lemma jget_update_fields:
  "jget (update_fields kvs d) k = (case map_of (rev kvs) k of Some v \<Rightarrow> Some v | None \<Rightarrow> jget d k)"
proof (induction kvs arbitrary: d)
  case (Cons kv kvs)
  then show ?case
    by (cases kv) (auto simp: update_fields_def jget_def map_add_def update_conv' split: option.splits)
qed (simp add: update_fields_def)

lemma recorded_outside_samples:
  assumes "k \<noteq> ''last_session_samples''"
  shows "jget (record_decision d v) k =
    (case map_of [(''after'', JObj (vd_after d)), (''last_reason_code'', JStr (vd_reason_code d)),
        (''last_evidence_key'', text_or_null (vd_last_evidence_key d)), (''distinct_evidence_count'', JInt (vd_distinct_evidence_count d)),
        (''last_healthy_observed_at'', text_or_null (vd_last_healthy_observed_at d)),
        (''healthy_since'', text_or_null (vd_healthy_since d)), (''status'', JStr (vd_status d))] k of
       Some x \<Rightarrow> Some x | None \<Rightarrow> jget v k)"
proof -
  have "map_of (rev (case jget (vd_after d) ''protected_active_sessions'' of
      Some (JArr xs) \<Rightarrow> [(''last_session_samples'', JArr (map JObj (objects xs)))] | _ \<Rightarrow> [])) k = None"
    using assms by (cases "jget (vd_after d) ''protected_active_sessions''") (simp, case_tac a, simp_all)
  then show ?thesis unfolding record_decision_def jget_update_fields rev.simps append.simps by simp
qed

lemma recorded_fields:
  "jget (record_decision d v) ''healthy_since'' = Some (text_or_null (vd_healthy_since d))"
  "jget (record_decision d v) ''last_healthy_observed_at'' = Some (text_or_null (vd_last_healthy_observed_at d))"
  "jget (record_decision d v) ''distinct_evidence_count'' = Some (JInt (vd_distinct_evidence_count d))"
  by (simp_all add: recorded_outside_samples)

lemma recorded_static:
  assumes "k \<in> {''expected'', ''before'', ''target'', ''started_at'', ''deadline_at'', ''minimum_seconds'',
    ''protected_baseline'', ''protected_session_baseline''}"
  shows "jget (record_decision d v) k = jget v k"
  using assms by (elim insertE emptyE; simp only:) (simp_all add: recorded_outside_samples)

section \<open>A run of windows\<close>

type_synonym window = "jobj \<times> jobj list \<times> time"
type_synonym judgement = "jobj \<times> window \<times> verification_decision"

definition judge :: "recovery_env \<Rightarrow> jobj \<Rightarrow> jobj \<Rightarrow> window \<Rightarrow> judgement" where
  "judge rv plan v w = (case w of (evidence, alerts, now) \<Rightarrow> (v, w, evaluate_recovery_evidence rv plan v evidence alerts now))"

definition verification_after :: "recovery_env \<Rightarrow> jobj \<Rightarrow> jobj \<Rightarrow> window list \<Rightarrow> jobj" where
  "verification_after rv plan v ws = fold (\<lambda>w v. record_decision (snd (snd (judge rv plan v w))) v) ws v"

fun judgements :: "recovery_env \<Rightarrow> jobj \<Rightarrow> jobj \<Rightarrow> window list \<Rightarrow> judgement list" where
  "judgements rv plan v [] = []"
| "judgements rv plan v (w # ws) =
     judge rv plan v w # judgements rv plan (verification_after rv plan v [w]) ws"

definition judged :: "judgement \<Rightarrow> bool" where
  "judged j \<longleftrightarrow> vd_reason_code (snd (snd j)) \<notin> {''duplicate_evidence_window'', ''stale_evidence_window''}"

definition healthy_window :: "recovery_env \<Rightarrow> jobj \<Rightarrow> judgement \<Rightarrow> bool" where
  "healthy_window rv plan j \<longleftrightarrow> (case j of (v, (evidence, alerts, now), d) \<Rightarrow> all_pass (window_checks rv plan v evidence alerts))"

definition window_time :: "recovery_env \<Rightarrow> judgement \<Rightarrow> time" where
  "window_time rv j = (case j of (v, (evidence, alerts, now), d) \<Rightarrow>
     (case parse_datetime rv (jget evidence ''window_start'') of Some t \<Rightarrow> t | None \<Rightarrow> 0))"

lemma judgements_snoc:
  "judgements rv plan v (ws @ [w]) = judgements rv plan v ws @ [judge rv plan (verification_after rv plan v ws) w]"
  by (induction ws arbitrary: v) (simp_all add: verification_after_def)

lemma verification_after_snoc:
  "verification_after rv plan v (ws @ [w]) =
   record_decision (snd (snd (judge rv plan (verification_after rv plan v ws) w))) (verification_after rv plan v ws)"
  by (simp add: verification_after_def)

lemma after_static:
  "k \<in> {''expected'', ''before'', ''target'', ''started_at'', ''deadline_at'', ''minimum_seconds'',
    ''protected_baseline'', ''protected_session_baseline''} \<Longrightarrow> jget (verification_after rv plan v ws) k = jget v k"
proof (induction ws rule: rev_induct)
  case (snoc w ws)
  then show ?case by (simp only: verification_after_snoc recorded_static)
qed (simp add: verification_after_def)

lemma after_cadence: "evidence_cadence (verification_after rv plan v ws) = evidence_cadence v"
  by (simp add: evidence_cadence_def after_static)

lemma after_required: "required_seconds (verification_after rv plan v ws) = required_seconds v"
  by (simp add: required_seconds_def after_static)

text \<open>What the code relies on: the text of an instant has no blanks around it and reads back.\<close>

definition iso_reads_back :: "recovery_env \<Rightarrow> bool" where
  "iso_reads_back rv \<longleftrightarrow>
     (\<forall>t. parse_datetime rv (Some (JStr (rv_isoformat rv t))) = Some t \<and> py_strip (rv_isoformat rv t) = rv_isoformat rv t)"

text \<open>The verification carries the run of healthy windows observed at \<open>ts\<close>.\<close>

definition carries :: "recovery_env \<Rightarrow> jobj \<Rightarrow> time list \<Rightarrow> bool" where
  "carries rv v ts \<longleftrightarrow>
     (if ts = [] then
        jget v ''healthy_since'' \<in> {None, Some JNull} \<and> jget v ''last_healthy_observed_at'' \<in> {None, Some JNull} \<and>
        jget v ''distinct_evidence_count'' \<in> {None, Some JNull, Some (JInt 0)}
      else
        jget v ''healthy_since'' = Some (JStr (rv_isoformat rv (hd ts))) \<and>
        jget v ''last_healthy_observed_at'' = Some (JStr (rv_isoformat rv (last ts))) \<and>
        jget v ''distinct_evidence_count'' = Some (JInt (int (length ts))))"

lemma carried_values:
  assumes "iso_reads_back rv" "carries rv v ts"
  shows "parse_datetime rv (jget v ''healthy_since'') = (if ts = [] then None else Some (hd ts))"
    and "parse_datetime rv (jget v ''last_healthy_observed_at'') = (if ts = [] then None else Some (last ts))"
    and "or_zero (nonnegative_int (jget v ''distinct_evidence_count'')) = int (length ts)"
    and "text_or_none (text_value (jget v ''healthy_since'')) = (if ts = [] then None else Some (rv_isoformat rv (hd ts)))"
proof -
  have strip: "py_strip (rv_isoformat rv t) = rv_isoformat rv t" and parse: "parse_datetime rv (Some (JStr (rv_isoformat rv t))) = Some t" for t
    using assms(1) by (simp_all add: iso_reads_back_def)
  have "rv_isoformat rv t \<noteq> []" for t using parse [of t] by (auto simp: parse_datetime_def py_strip_def)
  then show "parse_datetime rv (jget v ''healthy_since'') = (if ts = [] then None else Some (hd ts))"
    "parse_datetime rv (jget v ''last_healthy_observed_at'') = (if ts = [] then None else Some (last ts))"
    "or_zero (nonnegative_int (jget v ''distinct_evidence_count'')) = int (length ts)"
    "text_or_none (text_value (jget v ''healthy_since'')) = (if ts = [] then None else Some (rv_isoformat rv (hd ts)))"
    using assms(2) strip parse
    by (auto simp: carries_def text_value_def text_or_none_def nonnegative_int_def or_zero_def py_int_def parse_datetime_def
        split: if_splits)
qed

lemma carries_recorded:
  assumes "vd_healthy_since d = (if ts = [] then None else Some (rv_isoformat rv (hd ts)))"
    and "vd_last_healthy_observed_at d = (if ts = [] then None else Some (rv_isoformat rv (last ts)))"
    and "vd_distinct_evidence_count d = int (length ts)"
  shows "carries rv (record_decision d v) ts"
  using assms by (simp add: carries_def recorded_fields text_or_null_def)

lemma carries_unchanged:
  assumes "iso_reads_back rv" "carries rv v ts"
  shows "carries rv (record_decision (unchanged_decision rv v code after) v) ts"
  using carried_values [OF assms] by (intro carries_recorded) (simp_all add: unchanged_decision_def)

text \<open>A healthy, usable window prolongs the run or starts a new one.\<close>

lemma stable_run_carried:
  assumes "iso_reads_back rv" "carries rv v ts"
  shows "stable_run rv v observed =
    (if ts \<noteq> [] \<and> follows (evidence_cadence v) (last ts) observed then (hd ts, int (length ts) + 1) else (observed, 1))"
  using carried_values [OF assms] by (simp add: stable_run_def Let_def)

definition prolonged :: "jobj \<Rightarrow> time list \<Rightarrow> time \<Rightarrow> time list" where
  "prolonged v ts observed = (if ts \<noteq> [] \<and> follows (evidence_cadence v) (last ts) observed then ts @ [observed] else [observed])"

lemma stable_run_prolonged:
  assumes "iso_reads_back rv" "carries rv v ts"
  shows "stable_run rv v observed = (hd (prolonged v ts observed), int (length (prolonged v ts observed)))"
  by (simp add: stable_run_carried [OF assms] prolonged_def)

lemma regressed_cases:
  "\<exists>status code. regressed_decision rv v checks now after key = reset_decision status code after key \<and>
     status \<in> {''pending'', ''failed''} \<and>
     code \<in> {''verification_window_expired'', ''verification_regressed'', ''verification_evidence_missing''}"
  unfolding regressed_decision_def by (auto split: if_splits)

definition stable_verdict :: "recovery_env \<Rightarrow> jobj \<Rightarrow> time list \<Rightarrow> time \<Rightarrow> verification_decision \<Rightarrow> bool" where
  "stable_verdict rv v ts observed d \<longleftrightarrow>
     vd_healthy_since d = Some (rv_isoformat rv (hd ts)) \<and> vd_last_healthy_observed_at d = Some (rv_isoformat rv observed) \<and>
     vd_distinct_evidence_count d = int (length ts) \<and>
     vd_reason_code d \<in> {''verification_window_expired'', ''stabilization_window_in_progress'', ''recovery_verified''} \<and>
     (vd_status d = ''completed'' \<longrightarrow> seconds (required_seconds v) \<le> max 0 (observed - hd ts) \<and>
        minimum_distinct (required_seconds v) (evidence_cadence v) \<le> int (length ts))"

lemma stabilization_verdict:
  assumes "iso_reads_back rv" "carries rv v ts"
  shows "stable_verdict rv v (prolonged v ts observed) observed (stabilization_decision rv v observed now after key)"
  by (auto simp: stabilization_decision_def stable_run_prolonged [OF assms] stable_verdict_def Let_def split: if_splits)

lemma verdict_cases:
  assumes "iso_reads_back rv" "carries rv v ts" "evaluate_recovery_evidence rv plan v evidence alerts now = d"
  obtains (skipped) code after where "d = unchanged_decision rv v code after"
      "code \<in> {''duplicate_evidence_window'', ''stale_evidence_window''}"
  | (unhealthy) status code after key where "d = reset_decision status code after key" "status \<in> {''pending'', ''failed''}"
      "code \<in> {''verification_window_expired'', ''verification_regressed'', ''verification_evidence_missing''}"
  | (healthy) observed where "usable_window rv v evidence now = Some observed"
      "all_pass (window_checks rv plan v evidence alerts)" "stable_verdict rv v (prolonged v ts observed) observed d"
proof -
  let ?key = "text_value (jget evidence ''evidence_key'')" and ?old = "text_value (jget v ''last_evidence_key'')"
  note d = assms(3) [symmetric, unfolded evaluate_recovery_evidence_def Let_def]
  show thesis
  proof (cases "?key \<noteq> [] \<and> ?key = ?old")
    case True
    show thesis by (rule skipped, unfold d if_P [OF True], rule refl) simp
  next
    case fresh: False
    show thesis
    proof (cases "usable_window rv v evidence now")
      case None
      show thesis by (rule skipped, unfold d if_not_P [OF fresh] None option.case, rule refl) simp
    next
      case (Some observed)
      note d = d [unfolded if_not_P [OF fresh] Some option.case]
      show thesis
      proof (cases "all_pass (window_checks rv plan v evidence alerts)")
        case False
        from regressed_cases show thesis using unhealthy d [unfolded if_P [OF False]] by metis
      next
        case True
        then have "\<not> \<not> all_pass (window_checks rv plan v evidence alerts)" by simp
        note d = d [unfolded if_not_P [OF this]]
        show thesis
        proof (cases "evidence_cadence v = 0")
          case zero: True
          show thesis by (rule unhealthy, unfold d if_P [OF zero], rule refl) simp_all
        next
          case False
          show thesis
            by (rule healthy [OF Some True], unfold d if_not_P [OF False], rule stabilization_verdict [OF assms(1,2)])
        qed
      qed
    qed
  qed
qed

text \<open>A run of windows whose observations follow each other.\<close>

fun spaced :: "int \<Rightarrow> time list \<Rightarrow> bool" where
  "spaced cadence (t # u # ts) \<longleftrightarrow> follows cadence t u \<and> spaced cadence (u # ts)"
| "spaced cadence _ \<longleftrightarrow> True"

lemma spaced_snoc: "spaced c ts \<Longrightarrow> (ts \<noteq> [] \<Longrightarrow> follows c (last ts) u) \<Longrightarrow> spaced c (ts @ [u])"
  by (induction c ts rule: spaced.induct) auto

lemma spaced_prolonged: "spaced (evidence_cadence v) ts \<Longrightarrow> spaced (evidence_cadence v) (prolonged v ts t)"
  by (simp add: prolonged_def spaced_snoc)

lemma spaced_le_last: "spaced c ts \<Longrightarrow> ts \<noteq> [] \<Longrightarrow> hd ts \<le> last ts"
  by (induction c ts rule: spaced.induct) (auto simp: follows_def)

lemma usable_window_time:
  "usable_window rv v evidence now = Some observed \<Longrightarrow> window_time rv (v, (evidence, alerts, now), d) = observed"
  by (auto simp: usable_window_def window_time_def split: option.splits if_splits)

text \<open>The judged windows end in a run of healthy ones, and the verification carries it.\<close>

definition ends_in :: "recovery_env \<Rightarrow> jobj \<Rightarrow> jobj \<Rightarrow> judgement list \<Rightarrow> judgement list \<Rightarrow> bool" where
  "ends_in rv plan v js run \<longleftrightarrow>
     suffix run (filter judged js) \<and> (\<forall>j \<in> set run. healthy_window rv plan j) \<and>
     spaced (evidence_cadence v) (map (window_time rv) run) \<and> carries rv v (map (window_time rv) run)"

lemma spaced_cong: "evidence_cadence v = evidence_cadence v' \<Longrightarrow> spaced (evidence_cadence v) ts = spaced (evidence_cadence v') ts"
  by simp

lemma judge_ends_in:
  assumes "iso_reads_back rv" "ends_in rv plan v js run" "judge rv plan v (evidence, alerts, now) = j" "snd (snd j) = d"
  shows "\<exists>run'. ends_in rv plan (record_decision d v) (js @ [j]) run' \<and>
    (vd_status d = ''completed'' \<longrightarrow>
       (let ts = map (window_time rv) run'
        in ts \<noteq> [] \<and> seconds (required_seconds v) \<le> max 0 (last ts - hd ts) \<and>
           minimum_distinct (required_seconds v) (evidence_cadence v) \<le> int (length ts)))"
proof -
  let ?ts = "map (window_time rv) run"
  have carried: "carries rv v ?ts" and run: "suffix run (filter judged js)" "\<forall>j \<in> set run. healthy_window rv plan j"
      "spaced (evidence_cadence v) ?ts"
    using assms(2) by (auto simp: ends_in_def)
  have j: "j = (v, (evidence, alerts, now), d)" and d: "evaluate_recovery_evidence rv plan v evidence alerts now = d"
    using assms(3,4) by (auto simp: judge_def)
  have cadence: "evidence_cadence (record_decision d v) = evidence_cadence v"
    by (simp add: evidence_cadence_def recorded_static)
  from assms(1) carried d show ?thesis
  proof (cases rule: verdict_cases)
    case (skipped code after)
    then have "\<not> judged j" by (auto simp: judged_def j unchanged_decision_def)
    moreover have "vd_status d \<noteq> ''completed''" using skipped(1) by (simp add: unchanged_decision_def)
    moreover have "carries rv (record_decision d v) ?ts" unfolding skipped(1) by (rule carries_unchanged [OF assms(1) carried])
    ultimately show ?thesis using run by (intro exI [of _ run]) (simp add: ends_in_def cadence)
  next
    case (unhealthy status code after key)
    have "carries rv (record_decision d v) []" unfolding unhealthy(1) by (intro carries_recorded) (simp_all add: reset_decision_def)
    moreover have "vd_status d \<noteq> ''completed''" using unhealthy(2) by (auto simp: unhealthy(1) reset_decision_def)
    ultimately show ?thesis by (intro exI [of _ "[]"]) (simp add: ends_in_def)
  next
    case (healthy observed)
    let ?run = "if run \<noteq> [] \<and> follows (evidence_cadence v) (last ?ts) observed then run @ [j] else [j]"
    have time: "window_time rv j = observed" unfolding j by (rule usable_window_time [OF healthy(1)])
    have ts: "map (window_time rv) ?run = prolonged v ?ts observed" by (simp add: prolonged_def time)
    have "judged j" using healthy(3) by (auto simp: judged_def j stable_verdict_def)
    then have "suffix ?run (filter judged (js @ [j]))" using run(1) by (auto simp: suffix_def)
    moreover have "healthy_window rv plan j" using healthy(2) by (simp add: healthy_window_def j)
    moreover have "carries rv (record_decision d v) (prolonged v ?ts observed)"
      using healthy(3) by (intro carries_recorded) (auto simp: stable_verdict_def prolonged_def)
    ultimately have "ends_in rv plan (record_decision d v) (js @ [j]) ?run"
      using run(2) spaced_prolonged [OF run(3), of observed] unfolding ends_in_def ts cadence by auto
    moreover have "last (prolonged v ?ts observed) = observed" "prolonged v ?ts observed \<noteq> []" by (simp_all add: prolonged_def)
    ultimately show ?thesis
      using healthy(3) unfolding stable_verdict_def Let_def by (intro exI [of _ ?run]) (simp only: ts, simp)
  qed
qed

lemma judged_run_ends_in:
  assumes "iso_reads_back rv" "carries rv v []"
  shows "\<exists>run. ends_in rv plan (verification_after rv plan v ws) (judgements rv plan v ws) run"
proof (induction ws rule: rev_induct)
  case Nil
  from assms(2) show ?case by (intro exI [of _ "[]"]) (simp add: ends_in_def verification_after_def)
next
  case (snoc w ws)
  then obtain run where run: "ends_in rv plan (verification_after rv plan v ws) (judgements rv plan v ws) run" by blast
  obtain evidence alerts now where w: "w = (evidence, alerts, now)" by (cases w)
  from judge_ends_in [OF assms(1) run, of evidence alerts now] show ?case
    unfolding judgements_snoc verification_after_snoc w by blast
qed

text \<open>
  When the verdict on a recovery is \<^verbatim>\<open>completed\<close>, the windows judged last form an
  unbroken run in which every window passed every check, each was observed after the one before
  by at most one and a half cadences, the run spans the required time (five minutes or more), and
  it has as many windows as that time holds.
\<close>

theorem verified_recovery_was_continuously_healthy:
  assumes "iso_reads_back rv" and "carries rv v []"
    and "vd_status (snd (snd (last (judgements rv plan v (ws @ [w]))))) = ''completed''"
  shows "\<exists>run. suffix run (filter judged (judgements rv plan v (ws @ [w]))) \<and> run \<noteq> [] \<and>
    (\<forall>j \<in> set run. healthy_window rv plan j) \<and> spaced (evidence_cadence v) (map (window_time rv) run) \<and>
    300 \<le> required_seconds v \<and>
    seconds (required_seconds v) \<le> window_time rv (last run) - window_time rv (hd run) \<and>
    minimum_distinct (required_seconds v) (evidence_cadence v) \<le> int (length run)"
proof -
  let ?v = "verification_after rv plan v ws"
  obtain evidence alerts now where w: "w = (evidence, alerts, now)" by (cases w)
  obtain run where run: "ends_in rv plan ?v (judgements rv plan v ws) run" using judged_run_ends_in [OF assms(1,2)] by blast
  from judge_ends_in [OF assms(1) run refl refl, of evidence alerts now] assms(3) obtain run' where
    run': "ends_in rv plan (verification_after rv plan v (ws @ [w])) (judgements rv plan v (ws @ [w])) run'"
    and ts: "map (window_time rv) run' \<noteq> []"
      "seconds (required_seconds ?v) \<le> max 0 (last (map (window_time rv) run') - hd (map (window_time rv) run'))"
      "minimum_distinct (required_seconds ?v) (evidence_cadence ?v) \<le> int (length (map (window_time rv) run'))"
    unfolding judgements_snoc verification_after_snoc w last_snoc Let_def by blast
  have spaced: "spaced (evidence_cadence v) (map (window_time rv) run')" using run' by (simp add: ends_in_def after_cadence)
  from spaced_le_last [OF spaced ts(1)] ts(2)
  have "seconds (required_seconds v) \<le> last (map (window_time rv) run') - hd (map (window_time rv) run')"
    by (simp add: after_required)
  moreover have "300 \<le> required_seconds v"
    by (simp add: required_seconds_def bounded_seconds_def DEFAULT_MINIMUM_SECONDS_def split: option.split)
  ultimately show ?thesis
    using run' ts spaced by (intro exI [of _ run']) (auto simp: ends_in_def after_cadence after_required last_map hd_map)
qed

subsection \<open>Windows that arrive late\<close>

lemma unhealthy_forgets:
  assumes "judge rv plan v w = j" "judged j" "\<not> healthy_window rv plan j"
  shows "carries rv (record_decision (snd (snd j)) v) []"
proof -
  obtain evidence alerts now where w: "w = (evidence, alerts, now)" by (cases w)
  let ?d = "evaluate_recovery_evidence rv plan v evidence alerts now"
  have j: "j = (v, w, ?d)" using assms(1) by (simp add: judge_def w)
  have sick: "\<not> all_pass (window_checks rv plan v evidence alerts)" using assms(3) by (simp add: j w healthy_window_def)
  have "\<exists>status code after key. ?d = reset_decision status code after key"
  proof (cases "text_value (jget evidence ''evidence_key'') \<noteq> [] \<and>
      text_value (jget evidence ''evidence_key'') = text_value (jget v ''last_evidence_key'')")
    case True
    have "vd_reason_code ?d = ''duplicate_evidence_window''"
      unfolding evaluate_recovery_evidence_def Let_def if_P [OF True] by (simp add: unchanged_decision_def)
    with assms(2) show ?thesis by (simp add: judged_def j)
  next
    case fresh: False
    show ?thesis
    proof (cases "usable_window rv v evidence now")
      case None
      have "vd_reason_code ?d = ''stale_evidence_window''"
        unfolding evaluate_recovery_evidence_def Let_def if_not_P [OF fresh] None by (simp add: unchanged_decision_def)
      with assms(2) show ?thesis by (simp add: judged_def j)
    next
      case (Some t)
      from regressed_cases show ?thesis
        unfolding evaluate_recovery_evidence_def Let_def if_not_P [OF fresh] Some option.case if_P [OF sick] by blast
    qed
  qed
  then show ?thesis by (auto simp: j reset_decision_def intro!: carries_recorded)
qed

lemma healthy_is_stabilization:
  assumes "judge rv plan v w = j" "judged j" "healthy_window rv plan j" "evidence_cadence v \<noteq> 0"
  obtains now after key where "snd (snd j) = stabilization_decision rv v (window_time rv j) now after key"
proof -
  obtain evidence alerts now where w: "w = (evidence, alerts, now)" by (cases w)
  let ?d = "evaluate_recovery_evidence rv plan v evidence alerts now"
  have j: "j = (v, w, ?d)" using assms(1) by (simp add: judge_def w)
  have "all_pass (window_checks rv plan v evidence alerts)" using assms(3) by (simp add: j w healthy_window_def)
  then have well: "\<not> \<not> all_pass (window_checks rv plan v evidence alerts)" by simp
  show thesis
  proof (cases "text_value (jget evidence ''evidence_key'') \<noteq> [] \<and>
      text_value (jget evidence ''evidence_key'') = text_value (jget v ''last_evidence_key'')")
    case True
    have "vd_reason_code ?d = ''duplicate_evidence_window''"
      unfolding evaluate_recovery_evidence_def Let_def if_P [OF True] by (simp add: unchanged_decision_def)
    with assms(2) show thesis by (simp add: judged_def j)
  next
    case fresh: False
    show thesis
    proof (cases "usable_window rv v evidence now")
      case None
      have "vd_reason_code ?d = ''stale_evidence_window''"
        unfolding evaluate_recovery_evidence_def Let_def if_not_P [OF fresh] None by (simp add: unchanged_decision_def)
      with assms(2) show thesis by (simp add: judged_def j)
    next
      case (Some t)
      have "window_time rv j = t" unfolding j w by (rule usable_window_time [OF Some])
      moreover obtain after key where "?d = stabilization_decision rv v t now after key"
        unfolding evaluate_recovery_evidence_def Let_def if_not_P [OF fresh] Some option.case
          if_not_P [OF well] if_not_P [OF assms(4)] by blast
      ultimately show thesis using that [of now after key] by (simp only: j snd_conv)
    qed
  qed
qed

lemma healthy_step:
  assumes "iso_reads_back rv" "carries rv v ts" "judge rv plan v w = j" "judged j" "healthy_window rv plan j"
    and "evidence_cadence v \<noteq> 0" "ts \<noteq> [] \<Longrightarrow> follows (evidence_cadence v) (last ts) (window_time rv j)"
  shows "carries rv (record_decision (snd (snd j)) v) (ts @ [window_time rv j])"
    and "seconds (required_seconds v) \<le> window_time rv j - hd (ts @ [window_time rv j]) \<Longrightarrow>
      minimum_distinct (required_seconds v) (evidence_cadence v) \<le> int (length ts) + 1 \<Longrightarrow> vd_status (snd (snd j)) = ''completed''"
proof -
  obtain now after key where d: "snd (snd j) = stabilization_decision rv v (window_time rv j) now after key"
    using healthy_is_stabilization [OF assms(3-6)] by blast
  have grown: "prolonged v ts (window_time rv j) = ts @ [window_time rv j]" using assms(7) by (auto simp: prolonged_def)
  show "carries rv (record_decision (snd (snd j)) v) (ts @ [window_time rv j])"
    using stabilization_verdict [OF assms(1,2), of "window_time rv j" now after key]
    unfolding d grown stable_verdict_def by (intro carries_recorded) simp_all
  show "vd_status (snd (snd j)) = ''completed''"
    if "seconds (required_seconds v) \<le> window_time rv j - hd (ts @ [window_time rv j])"
      "minimum_distinct (required_seconds v) (evidence_cadence v) \<le> int (length ts) + 1"
    using that by (simp add: d stabilization_decision_def stable_run_prolonged [OF assms(1,2)] grown Let_def)
qed

lemma spaced_Cons: "spaced c (t # ts) \<longleftrightarrow> (ts = [] \<or> follows c t (hd ts)) \<and> spaced c ts"
  by (cases ts) simp_all

lemma spaced_append:
  "spaced c (ts @ us) \<longleftrightarrow> spaced c ts \<and> spaced c us \<and> (ts \<noteq> [] \<and> us \<noteq> [] \<longrightarrow> follows c (last ts) (hd us))"
  by (induction ts) (auto simp: spaced_Cons)

lemma healthy_windows_carried:
  assumes "iso_reads_back rv" "evidence_cadence v \<noteq> 0" "carries rv v []"
    and "\<forall>j \<in> set (judgements rv plan v ws). judged j \<and> healthy_window rv plan j"
    and "spaced (evidence_cadence v) (map (window_time rv) (judgements rv plan v ws))"
  shows "carries rv (verification_after rv plan v ws) (map (window_time rv) (judgements rv plan v ws))"
  using assms(4,5)
proof (induction ws rule: rev_induct)
  case Nil
  from assms(3) show ?case by (simp add: verification_after_def)
next
  case (snoc w ws)
  let ?v = "verification_after rv plan v ws" and ?ts = "map (window_time rv) (judgements rv plan v ws)"
  let ?j = "judge rv plan ?v w"
  from snoc have carried: "carries rv ?v ?ts" by (simp add: judgements_snoc spaced_append)
  have "carries rv (record_decision (snd (snd ?j)) ?v) (?ts @ [window_time rv ?j])"
    using snoc.prems assms(2)
    by (intro healthy_step(1) [OF assms(1) carried refl]) (simp_all add: judgements_snoc spaced_append after_cadence)
  then show ?case by (simp add: judgements_snoc verification_after_snoc)
qed

text \<open>
  Claim C38. Windows are compared with the last one judged, not by the time they observe. A
  window that shows the service failing is forgotten when earlier windows arrive after it: if those
  that follow are healthy and closely spaced, the verdict is \<^verbatim>\<open>completed\<close> although the failing
  window was judged and lies inside the time counted as healthy.
\<close>

theorem late_windows_hide_a_regression:
  assumes "iso_reads_back rv" and "evidence_cadence v \<noteq> 0"
    and "judge rv plan v w = j" and "judged j" and "\<not> healthy_window rv plan j"
    and "js = judgements rv plan (verification_after rv plan v [w]) (ws @ [u])"
    and "\<forall>i \<in> set js. judged i \<and> healthy_window rv plan i"
    and "spaced (evidence_cadence v) (map (window_time rv) js)"
    and "seconds (required_seconds v) \<le> window_time rv (last js) - window_time rv (hd js)"
    and "minimum_distinct (required_seconds v) (evidence_cadence v) \<le> int (length js)"
    and "window_time rv (hd js) < window_time rv j" "window_time rv j < window_time rv (last js)"
  shows "judgements rv plan v (w # ws @ [u]) = j # js \<and> vd_status (snd (snd (last js))) = ''completed'' \<and>
    (\<exists>i \<in> set (j # js). judged i \<and> \<not> healthy_window rv plan i \<and>
       window_time rv (hd js) < window_time rv i \<and> window_time rv i < window_time rv (last js))"
proof -
  let ?v = "verification_after rv plan v [w]"
  let ?u = "verification_after rv plan ?v ws" and ?ts = "map (window_time rv) (judgements rv plan ?v ws)"
  let ?i = "judge rv plan ?u u"
  have "carries rv ?v []" using unhealthy_forgets [OF assms(3-5)] by (simp add: verification_after_def assms(3))
  then have carried: "carries rv ?u ?ts"
    using assms(1,2,7,8) by (intro healthy_windows_carried) (simp_all add: after_cadence assms(6) judgements_snoc spaced_append)
  have js: "js = judgements rv plan ?v ws @ [?i]" by (simp add: assms(6) judgements_snoc)
  have same: "evidence_cadence ?u = evidence_cadence v" "required_seconds ?u = required_seconds v"
    by (simp_all add: after_cadence after_required)
  have first: "hd (?ts @ [window_time rv ?i]) = window_time rv (hd js)"
    by (cases "judgements rv plan ?v ws") (simp_all add: js)
  have "vd_status (snd (snd ?i)) = ''completed''"
    using assms(2,7-10) unfolding same [symmetric] first [symmetric]
    by (intro healthy_step(2) [OF assms(1) carried refl]) (simp_all add: js spaced_append same)
  with assms(3-5,11,12) show ?thesis by (auto simp: js judgements_snoc)
qed

section \<open>A concrete recovery\<close>

text \<open>Instants are written with a sign and their bits, the lowest first.\<close>

function int_bits :: "int \<Rightarrow> string" where
  "int_bits n = (if n \<le> 0 then [] else (if odd n then CHR ''1'' else CHR ''0'') # int_bits (n div 2))"
  by auto
termination by (relation "measure nat") auto

declare int_bits.simps [simp del]

fun bits_value :: "string \<Rightarrow> int" where
  "bits_value [] = 0"
| "bits_value (c # cs) = (if c = CHR ''1'' then 1 else 0) + 2 * bits_value cs"

fun signed_value :: "string \<Rightarrow> int option" where
  "signed_value [] = None"
| "signed_value (c # cs) = Some (if c = CHR ''-'' then - bits_value cs else bits_value cs)"

definition signed_bits :: "int \<Rightarrow> string" where
  "signed_bits t = (if t < 0 then CHR ''-'' else CHR ''+'') # int_bits \<bar>t\<bar>"

definition recovery_demo_env :: recovery_env where
  "recovery_demo_env = \<lparr>rv_float = (\<lambda>s. None), rv_fromisoformat = (\<lambda>s. map_option (\<lambda>t. (t, None)) (signed_value s)),
     rv_fromtimestamp = (\<lambda>q. None), rv_isoformat = signed_bits\<rparr>"

lemma bits_value_int_bits: "0 \<le> n \<Longrightarrow> bits_value (int_bits n) = n"
proof (induction n rule: int_bits.induct)
  case (1 n)
  show ?case
  proof (cases "n = 0")
    case True
    show ?thesis unfolding int_bits.simps [of n] using True by simp
  next
    case False
    with 1 have pos: "\<not> n \<le> 0" and half: "bits_value (int_bits (n div 2)) = n div 2" by simp_all
    from half show ?thesis unfolding int_bits.simps [of n] if_not_P [OF pos] by (cases "odd n") (simp_all, presburger)
  qed
qed

lemma int_bits_chars: "set (int_bits n) \<subseteq> {CHR ''0'', CHR ''1''}"
proof (induction n rule: int_bits.induct)
  case (1 n)
  then show ?case by (cases "n \<le> 0") (auto simp: int_bits.simps [of n])
qed

lemma strip_unspaced: "\<forall>c \<in> set s. \<not> is_space c \<Longrightarrow> py_strip s = s"
proof -
  have keep: "\<forall>c \<in> set xs. \<not> is_space c \<Longrightarrow> dropWhile is_space xs = xs" for xs by (cases xs) auto
  assume "\<forall>c \<in> set s. \<not> is_space c"
  then show "py_strip s = s" using keep [of s] keep [of "rev s"] by (simp add: py_strip_def)
qed

lemma replace_absent: "c \<notin> set s \<Longrightarrow> py_replace [c] new s = s"
  by (induction s) auto

lemma recovery_demo_reads_back: "iso_reads_back recovery_demo_env"
proof -
  have chars: "c \<in> {CHR ''+'', CHR ''-'', CHR ''0'', CHR ''1''}" if "c \<in> set (signed_bits t)" for c t
    using that int_bits_chars by (auto simp: signed_bits_def split: if_splits)
  have "\<not> is_space c" if "c \<in> {CHR ''+'', CHR ''-'', CHR ''0'', CHR ''1''}" for c
    using that by (auto simp: is_space_def)
  then have strip: "py_strip (signed_bits t) = signed_bits t" for t
    by (intro strip_unspaced ballI) (drule chars)
  have replace: "py_replace ''Z'' ''+00:00'' (signed_bits t) = signed_bits t" for t
    using chars [of "CHR ''Z''" t] by (intro replace_absent) auto
  have "signed_value (signed_bits t) = Some t" "signed_bits t \<noteq> []" for t
    by (simp_all add: signed_bits_def bits_value_int_bits)
  then show ?thesis
    by (simp add: iso_reads_back_def parse_datetime_def recovery_demo_env_def strip replace normalized_utc_def)
qed

text \<open>Faster to evaluate than the definitions.\<close>

lemma is_space_chars [code]:
  "is_space c \<longleftrightarrow> list_ex ((=) c) [CHR '' '', CHR 0x09, CHR 0x0A, CHR 0x0B, CHR 0x0C, CHR 0x0D, CHR 0x1C, CHR 0x1D, CHR 0x1E, CHR 0x1F]"
proof -
  have range: "9 \<le> n \<and> n \<le> 13 \<or> 28 \<le> n \<and> n \<le> 32 \<longleftrightarrow>
      n = 32 \<or> n = 9 \<or> n = 10 \<or> n = 11 \<or> n = 12 \<or> n = 13 \<or> n = 28 \<or> n = 29 \<or> n = 30 \<or> n = 31" for n :: nat
    by presburger
  have of_char: "(of_char c :: nat) = of_char d \<longleftrightarrow> c = d" for d by simp
  show ?thesis
    using of_char [of "CHR '' ''"] of_char [of "CHR 0x09"] of_char [of "CHR 0x0A"] of_char [of "CHR 0x0B"] of_char [of "CHR 0x0C"]
      of_char [of "CHR 0x0D"] of_char [of "CHR 0x1C"] of_char [of "CHR 0x1D"] of_char [of "CHR 0x1E"] of_char [of "CHR 0x1F"]
    unfolding is_space_def Let_def range by simp
qed

definition upper_letters :: string where
  "upper_letters = ''ABCDEFGHIJKLMNOPQRSTUVWXYZ''"

lemma upper_codes: "map of_char upper_letters = [65 ..< 91 :: nat]"
  by (simp add: upper_letters_def)

lemma lowered_letters: "map (\<lambda>c. char_of (of_char c + 32 :: nat)) upper_letters = ''abcdefghijklmnopqrstuvwxyz''"
proof -
  have "map (\<lambda>c. of_char c + 32 :: nat) upper_letters = map of_char ''abcdefghijklmnopqrstuvwxyz''"
    by (simp add: upper_letters_def)
  from arg_cong [OF this, of "map char_of"] show ?thesis by (simp only: map_map o_def char_of_char list.map_ident)
qed

lemma ascii_lower_chars [code]:
  "ascii_lower s = map (\<lambda>c. case map_of (zip upper_letters ''abcdefghijklmnopqrstuvwxyz'') c of Some d \<Rightarrow> d | None \<Rightarrow> c) s"
proof -
  have codes: "of_char ` set upper_letters = {65 ..< 91 :: nat}"
    using arg_cong [OF upper_codes, of set] unfolding set_map set_upt .
  have "c \<in> set upper_letters \<longleftrightarrow> 65 \<le> (of_char c :: nat) \<and> of_char c \<le> (90 :: nat)" for c
  proof -
    have "c \<in> set upper_letters \<longleftrightarrow> (of_char c :: nat) \<in> of_char ` set upper_letters" by (auto simp: image_iff)
    then show ?thesis unfolding codes by auto
  qed
  then show ?thesis
    unfolding lowered_letters [symmetric] map_of_zip_map ascii_lower_def by (auto simp: Let_def)
qed

definition recovery_demo_labels :: json where
  "recovery_demo_labels = JObj [(''namespace'', JStr ''shop''), (''resource_kind'', JStr ''Deployment''), (''resource_name'', JStr ''web''),
     (''service'', JStr ''web''), (''sli'', JStr ''errors''), (''symptom'', JStr ''slow'')]"

definition recovery_demo_target :: jobj where
  "recovery_demo_target = [(''cluster_id'', JStr ''k''), (''namespace'', JStr ''shop''), (''resource_kind'', JStr ''Deployment''),
     (''resource_name'', JStr ''web'')]"

definition recovery_demo_verification :: jobj where
  "recovery_demo_verification =
     [(''target'', JObj recovery_demo_target), (''started_at'', JStr (signed_bits 0)), (''deadline_at'', JStr (signed_bits (seconds 600))),
      (''before'', JObj [(''alert_event_id'', JStr ''a'')]),
      (''expected'', JObj [(''evidence_cadence_seconds'', JInt 300), (''failure_ratio_max'', JInt 0), (''request_rate_baseline'', JInt 10),
         (''request_rate_tolerance_ratio'', JFloat (1 / 5)), (''replicas'', JInt 2)])]"

definition recovery_demo_alerts :: "jobj list" where
  "recovery_demo_alerts =
     [[(''event_id'', JStr ''a''), (''status'', JStr ''resolved''), (''resolved_at'', JStr ''+1''),
       (''subject'', JObj [(''cluster'', JStr ''k''), (''namespace'', JStr ''shop''), (''kind'', JStr ''Deployment''), (''name'', JStr ''web'')])]]"

text \<open>The window observed at a second, with a failure ratio, judged at five hundred seconds.\<close>

definition recovery_demo_evidence :: "int \<Rightarrow> int \<Rightarrow> jobj" where
  "recovery_demo_evidence t ratio =
     (let samples = (\<lambda>q. JObj [(''samples'', JArr [JObj [(''metric'', recovery_demo_labels), (''value'', JInt q)]])])
      in [(''window_start'', JStr (signed_bits (seconds t))),
          (''metrics'', JObj [(''results'', JObj [(STANDARD_FAILURE_RATIO_METRIC, samples ratio), (STANDARD_REQUEST_RATE_METRIC, samples 10)])]),
          (''metadata'', JObj [(''current_workload_snapshots'', JArr [JObj
             [(''workload'', JObj [(''kind'', JStr ''Deployment''), (''namespace'', JStr ''shop''), (''name'', JStr ''web''), (''generation'', JInt 1)]),
              (''deployment_status'', JObj [(''observed_generation'', JInt 1), (''desired_replicas'', JInt 2), (''ready_replicas'', JInt 2),
                 (''updated_replicas'', JInt 2), (''available_replicas'', JInt 2)])]])])])"

definition recovery_demo_window :: "int \<Rightarrow> int \<Rightarrow> window" where
  "recovery_demo_window t ratio = (recovery_demo_evidence t ratio, recovery_demo_alerts, seconds 500)"

text \<open>Without protected workloads the conditions on a window do not depend on the windows before it.\<close>

lemma no_sessions:
  "json_items b = [] \<Longrightarrow> protected_active_session_series rv evidence b sessions previous observed = None"
  by (simp add: protected_active_session_series_def Let_def)

lemma window_checks_after:
  assumes "json_items (jget v ''protected_baseline'') = []"
  shows "window_checks rv plan (verification_after rv plan v ws) evidence alerts = window_checks rv plan v evidence alerts"
proof -
  have "jget (verification_after rv plan v ws) ''expected'' = jget v ''expected''"
    "jget (verification_after rv plan v ws) ''before'' = jget v ''before''"
    "jget (verification_after rv plan v ws) ''target'' = jget v ''target''"
    "jget (verification_after rv plan v ws) ''started_at'' = jget v ''started_at''"
    "jget (verification_after rv plan v ws) ''protected_baseline'' = jget v ''protected_baseline''"
    "jget (verification_after rv plan v ws) ''protected_session_baseline'' = jget v ''protected_session_baseline''"
    by (simp_all add: after_static)
  note static = this
  have "observed_after rv (verification_after rv plan v ws) evidence target = observed_after rv v evidence target" for target
    unfolding observed_after_def Let_def static no_sessions [OF assms] ..
  then show ?thesis
    unfolding window_checks_def verification_target_def Let_def static verification_checks_def protected_checks_def by simp
qed

lemma judged_without_key:
  assumes "text_value (jget evidence ''evidence_key'') = []" "usable_window rv v evidence now \<noteq> None"
  shows "judged (judge rv plan v (evidence, alerts, now))"
proof -
  have fresh: "\<not> (text_value (jget evidence ''evidence_key'') \<noteq> [] \<and>
      text_value (jget evidence ''evidence_key'') = text_value (jget v ''last_evidence_key''))"
    using assms(1) by simp
  obtain t where t: "usable_window rv v evidence now = Some t" using assms(2) by blast
  have "vd_reason_code (evaluate_recovery_evidence rv plan v evidence alerts now) \<in>
      {''verification_window_expired'', ''verification_regressed'', ''verification_evidence_missing'',
       ''stabilization_window_in_progress'', ''recovery_verified''}"
    unfolding evaluate_recovery_evidence_def Let_def if_not_P [OF fresh] t option.case
    by (simp add: regressed_decision_def reset_decision_def stabilization_decision_def Let_def split: prod.split)
  then show ?thesis unfolding judged_def judge_def prod.case snd_conv by (elim insertE emptyE) simp_all
qed

lemma usable_window_after:
  "usable_window rv (verification_after rv plan v ws) evidence now = usable_window rv v evidence now"
  by (simp add: usable_window_def after_static)

lemma window_time_judge:
  "window_time rv (judge rv plan v (evidence, alerts, now)) =
   (case parse_datetime rv (jget evidence ''window_start'') of Some t \<Rightarrow> t | None \<Rightarrow> 0)"
  by (simp add: judge_def window_time_def)

lemma recovery_demo_static:
  "json_items (jget recovery_demo_verification ''protected_baseline'') = []"
  "carries recovery_demo_env recovery_demo_verification []"
  "evidence_cadence recovery_demo_verification = 300" "required_seconds recovery_demo_verification = 300"
  "minimum_distinct 300 300 = 2"
  by code_simp+

lemma recovery_demo_healthy:
  "all_pass (window_checks recovery_demo_env [] recovery_demo_verification (recovery_demo_evidence 100 0) recovery_demo_alerts)"
  "all_pass (window_checks recovery_demo_env [] recovery_demo_verification (recovery_demo_evidence 400 0) recovery_demo_alerts)"
  by code_simp+

lemma recovery_demo_unhealthy:
  "\<not> all_pass (window_checks recovery_demo_env [] recovery_demo_verification (recovery_demo_evidence 200 1) recovery_demo_alerts)"
  by code_simp

lemma recovery_demo_usable:
  "text_value (jget (recovery_demo_evidence t q) ''evidence_key'') = []"
  "usable_window recovery_demo_env recovery_demo_verification (recovery_demo_evidence 100 0) (seconds 500) = Some (seconds 100)"
  "usable_window recovery_demo_env recovery_demo_verification (recovery_demo_evidence 400 0) (seconds 500) = Some (seconds 400)"
  "usable_window recovery_demo_env recovery_demo_verification (recovery_demo_evidence 200 1) (seconds 500) = Some (seconds 200)"
  by (simp add: recovery_demo_evidence_def Let_def jget_def text_value_def) code_simp+

lemma recovery_demo_judged:
  fixes ws
  defines "v \<equiv> verification_after recovery_demo_env [] recovery_demo_verification ws"
  shows "judged (judge recovery_demo_env [] v (recovery_demo_window 100 0))"
    "judged (judge recovery_demo_env [] v (recovery_demo_window 400 0))"
    "judged (judge recovery_demo_env [] v (recovery_demo_window 200 1))"
  unfolding v_def recovery_demo_window_def
  by (rule judged_without_key; simp add: recovery_demo_usable usable_window_after)+

lemma recovery_demo_health:
  fixes ws
  defines "v \<equiv> verification_after recovery_demo_env [] recovery_demo_verification ws"
  shows "healthy_window recovery_demo_env [] (judge recovery_demo_env [] v (recovery_demo_window 100 0))"
    "healthy_window recovery_demo_env [] (judge recovery_demo_env [] v (recovery_demo_window 400 0))"
    "\<not> healthy_window recovery_demo_env [] (judge recovery_demo_env [] v (recovery_demo_window 200 1))"
  unfolding v_def recovery_demo_window_def judge_def healthy_window_def
  by (simp_all add: window_checks_after recovery_demo_static(1) recovery_demo_healthy recovery_demo_unhealthy)

lemma recovery_demo_times:
  fixes ws
  defines "v \<equiv> verification_after recovery_demo_env [] recovery_demo_verification ws"
  shows "window_time recovery_demo_env (judge recovery_demo_env [] v (recovery_demo_window 100 0)) = seconds 100"
    "window_time recovery_demo_env (judge recovery_demo_env [] v (recovery_demo_window 400 0)) = seconds 400"
    "window_time recovery_demo_env (judge recovery_demo_env [] v (recovery_demo_window 200 1)) = seconds 200"
proof -
  have "window_time recovery_demo_env (judge recovery_demo_env [] v (recovery_demo_evidence t q, alerts, now)) = t'"
    if "usable_window recovery_demo_env recovery_demo_verification (recovery_demo_evidence t q) now = Some t'" for t q t' alerts now
    using that unfolding window_time_judge by (auto simp: usable_window_def split: option.splits if_splits)
  note time = this
  show "window_time recovery_demo_env (judge recovery_demo_env [] v (recovery_demo_window 100 0)) = seconds 100"
    "window_time recovery_demo_env (judge recovery_demo_env [] v (recovery_demo_window 400 0)) = seconds 400"
    "window_time recovery_demo_env (judge recovery_demo_env [] v (recovery_demo_window 200 1)) = seconds 200"
    unfolding recovery_demo_window_def by (rule time, rule recovery_demo_usable)+
qed

lemma after_nothing: "verification_after rv plan v [] = v"
  by (simp add: verification_after_def)

lemmas recovery_demo_first =
  recovery_demo_judged [of "[]", unfolded after_nothing] recovery_demo_health [of "[]", unfolded after_nothing]
  recovery_demo_times [of "[]", unfolded after_nothing]

lemma recovery_demo_completes:
  "vd_status (snd (snd (last (judgements recovery_demo_env [] recovery_demo_verification
     ([recovery_demo_window 100 0] @ [recovery_demo_window 400 0]))))) = ''completed''"
proof -
  let ?v = "verification_after recovery_demo_env [] recovery_demo_verification [recovery_demo_window 100 0]"
  have "carries recovery_demo_env ?v [seconds 100]"
    using healthy_windows_carried [OF recovery_demo_reads_back _ recovery_demo_static(2), of "[]" "[recovery_demo_window 100 0]"]
    by (simp add: recovery_demo_static recovery_demo_first)
  from healthy_step(2) [OF recovery_demo_reads_back this refl recovery_demo_judged(2) recovery_demo_health(2)]
  have "vd_status (snd (snd (judge recovery_demo_env [] ?v (recovery_demo_window 400 0)))) = ''completed''"
    by (simp add: after_cadence after_required recovery_demo_static recovery_demo_times follows_def seconds_def second_micros_def)
  then show ?thesis by (simp add: judgements_snoc)
qed

theorem verified_recovery_was_continuously_healthy_witness:
  "\<exists>run. suffix run (filter judged (judgements recovery_demo_env [] recovery_demo_verification
       ([recovery_demo_window 100 0] @ [recovery_demo_window 400 0]))) \<and> run \<noteq> [] \<and>
     seconds 300 \<le> window_time recovery_demo_env (last run) - window_time recovery_demo_env (hd run) \<and> 2 \<le> int (length run)"
  using verified_recovery_was_continuously_healthy [OF recovery_demo_reads_back recovery_demo_static(2) recovery_demo_completes]
  unfolding recovery_demo_static by blast

theorem late_windows_hide_a_regression_witness:
  "vd_status (snd (snd (last (judgements recovery_demo_env []
     (verification_after recovery_demo_env [] recovery_demo_verification [recovery_demo_window 200 1])
     ([recovery_demo_window 100 0] @ [recovery_demo_window 400 0]))))) = ''completed'' \<and>
   \<not> healthy_window recovery_demo_env [] (judge recovery_demo_env [] recovery_demo_verification (recovery_demo_window 200 1))"
proof -
  let ?v = "verification_after recovery_demo_env [] recovery_demo_verification [recovery_demo_window 200 1]"
  let ?js = "judgements recovery_demo_env [] ?v ([recovery_demo_window 100 0] @ [recovery_demo_window 400 0])"
  have after: "verification_after recovery_demo_env [] ?v [recovery_demo_window 100 0] =
      verification_after recovery_demo_env [] recovery_demo_verification [recovery_demo_window 200 1, recovery_demo_window 100 0]"
    by (simp add: verification_after_def)
  have js: "?js = [judge recovery_demo_env [] ?v (recovery_demo_window 100 0),
      judge recovery_demo_env [] (verification_after recovery_demo_env [] recovery_demo_verification
        [recovery_demo_window 200 1, recovery_demo_window 100 0]) (recovery_demo_window 400 0)]"
    by (simp add: after)
  show ?thesis
    using late_windows_hide_a_regression [OF recovery_demo_reads_back _ refl recovery_demo_first(3,6) refl,
        of "[recovery_demo_window 100 0]" "recovery_demo_window 400 0"] recovery_demo_first(6)
    unfolding js
    by (simp add: recovery_demo_static recovery_demo_judged recovery_demo_health recovery_demo_times recovery_demo_first
        follows_def seconds_def second_micros_def)
qed

end
