(* ===== verification/Recovery_Store.thy ===== *)
theory Recovery_Store
  imports Recovery_Verification Coverage_Query "HOL-Library.Multiset"
begin

text \<open>
  The recovery plans as rows and what changes their verification: the start after the deployment
  and the handler of an evidence window (\<^verbatim>\<open>src/src/services/ai/rca-feedback-worker/app.py\<close>), the
  compare-and-set both write with, and the sweep of overdue verifications
  (\<^verbatim>\<open>src/src/domains/rca/repository.py\<close>).
\<close>

section \<open>Rows\<close>

record recovery_plan_row =
  rc_id :: nat
  rc_plan_id :: string
  rc_workspace_id :: string
  rc_correlation_id :: string
  rc_incident_id :: string
  rc_evidence_ref :: string
  rc_status :: string
  rc_selected_action_id :: "string option"
  rc_selected_by :: "string option"
  rc_payload :: jobj
  rc_updated_at :: time

definition row_lifecycle :: "recovery_plan_row \<Rightarrow> jobj" where
  "row_lifecycle r = as_mapping (jget (rc_payload r) ''lifecycle'')"

definition row_verification :: "recovery_plan_row \<Rightarrow> jobj" where
  "row_verification r = as_mapping (jget (row_lifecycle r) ''verification'')"

text \<open>The status predicate of the update is the only condition on what the row holds.\<close>

definition plan_in_status :: "string \<Rightarrow> string \<Rightarrow> string list \<Rightarrow> recovery_plan_row \<Rightarrow> bool" where
  "plan_in_status plan_id ws expected r \<longleftrightarrow> rc_plan_id r = plan_id \<and> rc_workspace_id r = ws \<and> rc_status r \<in> set expected"

definition set_lifecycle :: "time \<Rightarrow> string \<Rightarrow> jobj \<Rightarrow> bool \<Rightarrow> recovery_plan_row \<Rightarrow> recovery_plan_row" where
  "set_lifecycle now status lifecycle clear_selection r =
     (let r' = r\<lparr>rc_status := status, rc_payload := AList.update ''lifecycle'' (JObj lifecycle) (rc_payload r), rc_updated_at := now\<rparr>
      in if clear_selection then r'\<lparr>rc_selected_action_id := None, rc_selected_by := None\<rparr> else r')"

definition update_recovery_plan_lifecycle_if_status ::
    "time \<Rightarrow> string \<Rightarrow> string \<Rightarrow> string list \<Rightarrow> string \<Rightarrow> jobj \<Rightarrow> bool \<Rightarrow> recovery_plan_row list \<Rightarrow>
     recovery_plan_row option \<times> recovery_plan_row list" where
  "update_recovery_plan_lifecycle_if_status now plan_id ws expected status lifecycle clear_selection rows =
     (case find (plan_in_status plan_id ws expected) rows of
        None \<Rightarrow> (None, rows)
      | Some r \<Rightarrow> (Some (set_lifecycle now status lifecycle clear_selection r),
          update_where (\<lambda>x. rc_id x = rc_id r \<and> rc_status x \<in> set expected) (set_lifecycle now status lifecycle clear_selection) rows))"

text \<open>\<open>pg\<close> is the text PostgreSQL gives numbers with a fraction, lists and objects.\<close>

definition list_recovery_verification_plans ::
    "(json \<Rightarrow> string) \<Rightarrow> string \<Rightarrow> string \<Rightarrow> int \<Rightarrow> recovery_plan_row list \<Rightarrow> recovery_plan_row list" where
  "list_recovery_verification_plans pg ws cluster_id limit rows =
     take (nat (max 1 (min limit 500))) (sort_key (\<lambda>r. (rc_updated_at r, rc_id r))
       (filter (\<lambda>r. rc_workspace_id r = ws \<and> rc_status r = ''verification_pending'' \<and>
          astext pg (jsonb_get (jget (rc_payload r) ''target'') ''cluster_id'') = Some cluster_id) rows))"

section \<open>The handler of an evidence window\<close>

datatype recovery_body =
    RecoveryVerificationUpdated string string string string string jobj jobj
  | RecoveryVerificationFailed string string string string jobj jobj
  | IncidentResolved string string string string jobj jobj
  | RecoveryVerificationStarted string string string string string jobj jobj

text \<open>What the handler decides for a record it has read, with the alerts it has read for it.\<close>

definition verdict_for ::
    "recovery_env \<Rightarrow> jobj \<Rightarrow> (recovery_plan_row \<Rightarrow> jobj list) \<Rightarrow> time \<Rightarrow> recovery_plan_row \<Rightarrow> verification_decision" where
  "verdict_for rv evidence alerts_of now r =
     evaluate_recovery_evidence rv (rc_payload r) (row_verification r) evidence (alerts_of r) now"

definition verdict_bodies :: "string \<Rightarrow> recovery_plan_row \<Rightarrow> verification_decision \<Rightarrow> recovery_body list" where
  "verdict_bodies key r d =
     (let before = as_mapping (jget (row_verification r) ''before'')
      in RecoveryVerificationUpdated (rc_plan_id r) (rc_incident_id r) (vd_status d) (vd_reason_code d) key before (vd_after d) #
         (if vd_status d = ''failed''
          then [RecoveryVerificationFailed (rc_plan_id r) (rc_incident_id r) (vd_reason_code d) key before (vd_after d)]
          else if vd_status d = ''completed''
          then [IncidentResolved (rc_incident_id r) (target_text (verification_target (row_verification r) (rc_payload r)) ''cluster_id'')
                  key (rc_plan_id r) before (vd_after d)]
          else []))"

text \<open>Storing it: the lifecycle written is the one that was read, with the verdict.\<close>

definition store_verdict ::
    "time \<Rightarrow> string \<Rightarrow> string \<Rightarrow> recovery_plan_row \<Rightarrow> verification_decision \<Rightarrow> recovery_plan_row list \<Rightarrow>
     recovery_body list \<times> recovery_plan_row list" where
  "store_verdict now ws key r d rows =
     (case update_recovery_plan_lifecycle_if_status now (rc_plan_id r) ws [''verification_pending''] (plan_status d)
        (lifecycle_after d key (row_lifecycle r)) False rows of
        (None, rows') \<Rightarrow> ([], rows')
      | (Some _, rows') \<Rightarrow> (verdict_bodies key r d, rows'))"

fun store_verdicts ::
    "recovery_env \<Rightarrow> string \<Rightarrow> string \<Rightarrow> jobj \<Rightarrow> (recovery_plan_row \<Rightarrow> jobj list) \<Rightarrow> time \<Rightarrow> recovery_plan_row list \<Rightarrow>
     recovery_plan_row list \<Rightarrow> recovery_body list \<times> recovery_plan_row list" where
  "store_verdicts rv ws key evidence alerts_of now [] rows = ([], rows)"
| "store_verdicts rv ws key evidence alerts_of now (r # rs) rows =
     (let (bodies, rows') = store_verdict now ws key r (verdict_for rv evidence alerts_of now r) rows;
          (more, rows'') = store_verdicts rv ws key evidence alerts_of now rs rows'
      in (bodies @ more, rows''))"

definition on_recovery_verification_evidence ::
    "(json \<Rightarrow> string) \<Rightarrow> recovery_env \<Rightarrow> string \<Rightarrow> string \<Rightarrow> string \<Rightarrow> jobj option \<Rightarrow> (recovery_plan_row \<Rightarrow> jobj list) \<Rightarrow> time \<Rightarrow>
     recovery_plan_row list \<Rightarrow> recovery_body list \<times> recovery_plan_row list" where
  "on_recovery_verification_evidence pg rv ws cluster_id key evidence alerts_of now rows =
     (case evidence of
        None \<Rightarrow> ([], rows)
      | Some window \<Rightarrow>
          if key = [] then ([], rows)
          else store_verdicts rv ws key window alerts_of now (list_recovery_verification_plans pg ws cluster_id 100 rows) rows)"

section \<open>Starting the verification\<close>

definition merged_as :: "(json \<Rightarrow> string) \<Rightarrow> string \<Rightarrow> string \<Rightarrow> string \<Rightarrow> recovery_plan_row \<Rightarrow> bool" where
  "merged_as pg workflow_run_id binding_id app_id r \<longleftrightarrow>
     (let merge = jsonb_get (jget (rc_payload r) ''lifecycle'') ''merge''
      in astext pg (jsonb_get merge ''workflow_run_id'') = Some workflow_run_id \<and>
         astext pg (jsonb_get merge ''binding_id'') = Some binding_id \<and> astext pg (jsonb_get merge ''application_id'') = Some app_id)"

definition get_recovery_plan_for_workflow ::
    "(json \<Rightarrow> string) \<Rightarrow> string \<Rightarrow> string \<Rightarrow> string \<Rightarrow> string \<Rightarrow> recovery_plan_row list \<Rightarrow> recovery_plan_row option" where
  "get_recovery_plan_for_workflow pg ws workflow_run_id binding_id app_id rows =
     (case filter (\<lambda>r. rc_workspace_id r = ws \<and>
          rc_status r \<in> {''deploy_pending'', ''verification_pending'', ''completed'', ''failed''} \<and>
          merged_as pg workflow_run_id binding_id app_id r) rows of
        [r] \<Rightarrow> Some r
      | _ \<Rightarrow> None)"

definition deployed_as_merged :: "string \<Rightarrow> string \<Rightarrow> string \<Rightarrow> string \<Rightarrow> jobj \<Rightarrow> jobj \<Rightarrow> bool" where
  "deployed_as_merged ws workflow_run_id binding_id app_id merge workflow \<longleftrightarrow>
     text_value (jget merge ''workflow_run_id'') = workflow_run_id \<and> text_value (jget merge ''binding_id'') = binding_id \<and>
     text_value (jget merge ''application_id'') = app_id \<and>
     text_value (jget merge ''merge_commit_sha'') = text_value (jget workflow ''commit_sha'') \<and>
     text_value (jget merge ''cluster_id'') = text_value (jget workflow ''cluster_id'') \<and>
     text_value (jget workflow ''workspace_id'') = ws \<and> text_value (jget workflow ''binding_id'') = binding_id \<and>
     text_value (jget workflow ''application_id'') = app_id \<and> text_value (jget workflow ''status'') = ''succeeded''"

text \<open>\<^verbatim>\<open>int(maximum_seconds or DEFAULT_MAXIMUM_SECONDS)\<close>; None is the error it raises.\<close>

definition maximum_verification_seconds :: "jobj \<Rightarrow> int option" where
  "maximum_verification_seconds verification =
     (case jget verification ''maximum_seconds'' of
        None \<Rightarrow> Some DEFAULT_MAXIMUM_SECONDS
      | Some v \<Rightarrow> if py_truthy v then py_int v else Some DEFAULT_MAXIMUM_SECONDS)"

definition started_verification :: "recovery_env \<Rightarrow> time \<Rightarrow> int \<Rightarrow> jobj \<Rightarrow> jobj" where
  "started_verification rv now maximum_seconds verification =
     update_fields [(''status'', JStr ''verification_pending''), (''started_at'', JStr (rv_isoformat rv now)),
       (''deadline_at'', JStr (rv_isoformat rv (verification_deadline now maximum_seconds))), (''healthy_since'', JNull),
       (''last_reason_code'', JStr ''waiting_for_post_deploy_evidence'')] verification"

definition started_lifecycle :: "recovery_env \<Rightarrow> time \<Rightarrow> int \<Rightarrow> recovery_plan_row \<Rightarrow> jobj" where
  "started_lifecycle rv now maximum_seconds r =
     update_fields [(''phase'', JStr ''verification_pending''),
       (''verification'', JObj (started_verification rv now maximum_seconds (row_verification r)))] (row_lifecycle r)"

definition started_body :: "recovery_env \<Rightarrow> time \<Rightarrow> int \<Rightarrow> string \<Rightarrow> recovery_plan_row \<Rightarrow> recovery_body" where
  "started_body rv now maximum_seconds workflow_run_id r =
     RecoveryVerificationStarted (rc_plan_id r) (rc_incident_id r) workflow_run_id (rv_isoformat rv now)
       (rv_isoformat rv (verification_deadline now maximum_seconds))
       (as_mapping (jget (row_verification r) ''expected'')) (as_mapping (jget (row_verification r) ''before''))"

definition start_recovery_verification ::
    "(json \<Rightarrow> string) \<Rightarrow> recovery_env \<Rightarrow> string \<Rightarrow> string \<Rightarrow> string \<Rightarrow> string \<Rightarrow> jobj option \<Rightarrow> time \<Rightarrow> recovery_plan_row list \<Rightarrow>
     (recovery_body option \<times> recovery_plan_row list) option" where
  "start_recovery_verification pg rv ws workflow_run_id binding_id app_id workflow now rows =
     (case get_recovery_plan_for_workflow pg ws workflow_run_id binding_id app_id rows of
        None \<Rightarrow> Some (None, rows)
      | Some r \<Rightarrow>
          if rc_status r \<noteq> ''deploy_pending'' then Some (None, rows)
          else case workflow of
            None \<Rightarrow> Some (None, rows)
          | Some run \<Rightarrow>
              if \<not> deployed_as_merged ws workflow_run_id binding_id app_id (as_mapping (jget (row_lifecycle r) ''merge'')) run
              then Some (None, rows)
              else case maximum_verification_seconds (row_verification r) of
                None \<Rightarrow> None
              | Some maximum_seconds \<Rightarrow>
                  (case update_recovery_plan_lifecycle_if_status now (rc_plan_id r) ws [''deploy_pending''] ''verification_pending''
                     (started_lifecycle rv now maximum_seconds r) False rows of
                     (None, rows') \<Rightarrow> Some (None, rows')
                   | (Some _, rows') \<Rightarrow> Some (Some (started_body rv now maximum_seconds workflow_run_id r), rows')))"

section \<open>The sweep of overdue verifications\<close>

text \<open>The deadline of a row; a text that is no timestamp makes the statement raise.\<close>

definition row_deadline :: "recovery_env \<Rightarrow> recovery_plan_row \<Rightarrow> time option" where
  "row_deadline rv r = parse_datetime rv (jget (row_verification r) ''deadline_at'')"

definition unreadable_deadline :: "recovery_env \<Rightarrow> recovery_plan_row \<Rightarrow> bool" where
  "unreadable_deadline rv r \<longleftrightarrow>
     rc_status r = ''verification_pending'' \<and> row_deadline rv r = None \<and>
     jget (row_verification r) ''deadline_at'' \<notin> {None, Some JNull}"

definition due_verification :: "recovery_env \<Rightarrow> time \<Rightarrow> recovery_plan_row \<Rightarrow> bool" where
  "due_verification rv now r \<longleftrightarrow>
     rc_status r = ''verification_pending'' \<and> (case row_deadline rv r of None \<Rightarrow> False | Some t \<Rightarrow> t \<le> now)"

definition expired_lifecycle :: "recovery_env \<Rightarrow> time \<Rightarrow> recovery_plan_row \<Rightarrow> jobj" where
  "expired_lifecycle rv now r =
     update_fields [(''phase'', JStr ''failed''),
       (''verification'', JObj (update_fields [(''status'', JStr ''failed''), (''last_reason_code'', JStr ''verification_window_expired''),
          (''expired_at'', JStr (rv_isoformat rv now))] (row_verification r))),
       (''failure'', JObj [(''reason_code'', JStr ''verification_window_expired'')])] (row_lifecycle r)"

definition expired_row :: "recovery_env \<Rightarrow> time \<Rightarrow> recovery_plan_row \<Rightarrow> recovery_plan_row" where
  "expired_row rv now r = set_lifecycle now ''failed'' (expired_lifecycle rv now r) False r"

definition expired_body :: "recovery_plan_row \<Rightarrow> recovery_body" where
  "expired_body r = RecoveryVerificationFailed (rc_plan_id r) (rc_incident_id r) ''verification_window_expired'' (rc_evidence_ref r)
     (as_mapping (jget (row_verification r) ''before'')) (as_mapping (jget (row_verification r) ''after''))"

text \<open>\<open>locked\<close> are the rows another transaction holds; they are skipped.\<close>

definition expire_recovery_verifications ::
    "recovery_env \<Rightarrow> time \<Rightarrow> int \<Rightarrow> (recovery_plan_row \<Rightarrow> bool) \<Rightarrow> recovery_plan_row list \<Rightarrow>
     (recovery_body list \<times> recovery_plan_row list) option" where
  "expire_recovery_verifications rv now limit locked rows =
     (if list_ex (unreadable_deadline rv) rows then None
      else
        let chosen = take (nat (max 1 (min limit 500)))
              (sort_key (\<lambda>r. (case row_deadline rv r of Some t \<Rightarrow> t | None \<Rightarrow> 0, rc_id r))
                (filter (\<lambda>r. due_verification rv now r \<and> \<not> locked r) rows))
        in Some (map expired_body chosen, update_where (\<lambda>r. rc_id r \<in> rc_id ` set chosen) (expired_row rv now) rows))"

section \<open>Two windows at once\<close>

definition plan_key :: "recovery_plan_row \<Rightarrow> string \<times> string" where
  "plan_key r = (rc_workspace_id r, rc_plan_id r)"

text \<open>Plans are unique in their workspace and have different identifiers.\<close>

definition plans_ok :: "recovery_plan_row list \<Rightarrow> bool" where
  "plans_ok rows \<longleftrightarrow> unique_key plan_key rows \<and> unique_key rc_id rows"

lemma set_lifecycle_fields [simp]:
  "rc_id (set_lifecycle now status lifecycle c r) = rc_id r" "plan_key (set_lifecycle now status lifecycle c r) = plan_key r"
  "rc_plan_id (set_lifecycle now status lifecycle c r) = rc_plan_id r"
  "rc_workspace_id (set_lifecycle now status lifecycle c r) = rc_workspace_id r"
  "rc_status (set_lifecycle now status lifecycle c r) = status"
  by (simp_all add: set_lifecycle_def plan_key_def Let_def)

lemma set_lifecycle_twice [simp]:
  "set_lifecycle now' status' lifecycle' False (set_lifecycle now status lifecycle False r) = set_lifecycle now' status' lifecycle' False r"
  by (simp add: set_lifecycle_def Let_def)

lemma plans_ok_update:
  "plans_ok rows \<Longrightarrow> plans_ok (update_where p (set_lifecycle now status lifecycle c) rows)"
  by (simp add: plans_ok_def unique_key_update_where)

lemma find_plan:
  assumes "plans_ok rows" "r \<in> set rows" "rc_status r \<in> set expected"
  shows "find (plan_in_status (rc_plan_id r) (rc_workspace_id r) expected) rows = Some r"
proof (cases "find (plan_in_status (rc_plan_id r) (rc_workspace_id r) expected) rows")
  case None
  with assms(2,3) show ?thesis by (auto simp: find_None_iff plan_in_status_def)
next
  case (Some x)
  from find_in_set [OF this] have "x \<in> set rows" "plan_key x = plan_key r"
    by (auto simp: plan_in_status_def plan_key_def)
  with assms(1,2) Some show ?thesis by (auto simp: plans_ok_def dest: unique_keyD)
qed

lemma find_plan_elsewhere:
  assumes "plans_ok rows" "r \<in> set rows" "rc_status r \<notin> set expected"
  shows "find (plan_in_status (rc_plan_id r) (rc_workspace_id r) expected) rows = None"
proof -
  have "x = r" if "x \<in> set rows" "rc_plan_id x = rc_plan_id r" "rc_workspace_id x = rc_workspace_id r" for x
    using assms(1,2) that by (auto simp: plans_ok_def plan_key_def dest: unique_keyD [of plan_key])
  with assms(3) show ?thesis by (auto simp: find_None_iff plan_in_status_def)
qed

lemma store_verdict_at:
  assumes "plans_ok rows" "x \<in> set rows" "rc_status x = ''verification_pending''" "plan_key x = (ws, rc_plan_id r)"
  shows "store_verdict now ws key r d rows = (verdict_bodies key r d,
    update_where (\<lambda>y. rc_id y = rc_id x \<and> rc_status y = ''verification_pending'')
      (set_lifecycle now (plan_status d) (lifecycle_after d key (row_lifecycle r)) False) rows)"
proof -
  have "find (plan_in_status (rc_plan_id r) ws [''verification_pending'']) rows = Some x"
    using find_plan [OF assms(1,2), of "[''verification_pending'']"] assms(3,4) by (simp add: plan_key_def)
  then show ?thesis by (simp add: store_verdict_def update_recovery_plan_lifecycle_if_status_def)
qed

text \<open>
  Two windows handled at the same time read the same lifecycle. The predicate of
  the compare-and-set is the status alone, which a pending verdict does not change: the second
  verdict is stored over the first as if the first window had never been judged, although its
  verdict was announced. A failing window can be lost this way.
\<close>

theorem concurrent_window_is_forgotten:
  assumes "plans_ok rows" and "r \<in> set rows" and "rc_status r = ''verification_pending''" and "rc_workspace_id r = ws"
    and "vd_status d = ''pending''"
  shows "fst (store_verdict now ws key r d rows) = verdict_bodies key r d \<and>
    snd (store_verdict now' ws key' r d' (snd (store_verdict now ws key r d rows))) = snd (store_verdict now' ws key' r d' rows)"
proof -
  let ?p = "\<lambda>y. rc_id y = rc_id r \<and> rc_status y = ''verification_pending''"
  let ?f = "set_lifecycle now (plan_status d) (lifecycle_after d key (row_lifecycle r)) False"
  let ?g = "set_lifecycle now' (plan_status d') (lifecycle_after d' key' (row_lifecycle r)) False"
  have own: "plan_key r = (ws, rc_plan_id r)" using assms(4) by (simp add: plan_key_def)
  note first = store_verdict_at [OF assms(1-3) own, of now key d]
  have pending: "plan_status d = ''verification_pending''" using assms(5) by (simp add: plan_status_def)
  have "?f r \<in> set (update_where ?p ?f rows)" using assms(2,3) by (auto simp: update_where_def image_iff intro!: bexI [of _ r])
  from store_verdict_at [OF plans_ok_update [OF assms(1)] this, of ws r now' key' d'] own
  have "snd (store_verdict now' ws key' r d' (update_where ?p ?f rows)) = update_where ?p ?g (update_where ?p ?f rows)"
    by (simp add: pending)
  also have "\<dots> = update_where ?p ?g rows" by (simp add: update_where_def pending)
  finally show ?thesis using store_verdict_at [OF assms(1-3) own, of now' key' d'] by (simp add: first)
qed

section \<open>What the sweep leaves\<close>

text \<open>
  A sweep with room for all of them fails exactly the verifications whose deadline
  has passed and announces each once; no other plan changes, and no verdict on a window handled
  later changes a plan it failed.
\<close>

theorem sweep_fails_exactly_the_overdue:
  assumes "plans_ok rows"
    and "expire_recovery_verifications rv now limit (\<lambda>_. False) rows = Some (bodies, rows')"
    and "int (length (filter (due_verification rv now) rows)) \<le> max 1 (min limit 500)"
  shows "rows' = map (\<lambda>r. if due_verification rv now r then expired_row rv now r else r) rows \<and>
    mset bodies = mset (map expired_body (filter (due_verification rv now) rows)) \<and>
    (\<forall>r \<in> set rows'. \<not> due_verification rv now r) \<and>
    (\<forall>r \<in> set rows. due_verification rv now r \<longrightarrow>
       store_verdict now' (rc_workspace_id r) key (r\<lparr>rc_payload := stale\<rparr>) d rows' = ([], rows'))"
proof -
  let ?due = "filter (due_verification rv now) rows"
  let ?chosen = "sort_key (\<lambda>r. (case row_deadline rv r of Some t \<Rightarrow> t | None \<Rightarrow> 0, rc_id r)) ?due"
  have all: "take (nat (max 1 (min limit 500))) ?chosen = ?chosen" using assms(3) by simp
  have run: "bodies = map expired_body ?chosen" "rows' = update_where (\<lambda>r. rc_id r \<in> rc_id ` set ?due) (expired_row rv now) rows"
    using assms(2) all by (auto simp: expire_recovery_verifications_def Let_def split: if_splits)
  have ids: "rc_id r \<in> rc_id ` set ?due \<longleftrightarrow> due_verification rv now r" if "r \<in> set rows" for r
    using assms(1) that by (auto simp: plans_ok_def dest: unique_keyD [of rc_id])
  then have rows': "rows' = map (\<lambda>r. if due_verification rv now r then expired_row rv now r else r) rows"
    by (simp add: run(2) update_where_def)
  have ended: "rc_status (expired_row rv now r) = ''failed''" "plan_key (expired_row rv now r) = plan_key r"
    "rc_id (expired_row rv now r) = rc_id r" "\<not> due_verification rv now (expired_row rv now r)" for r
    by (simp_all add: expired_row_def due_verification_def)
  have "plans_ok rows'"
    using assms(1) by (simp add: run(2) plans_ok_def unique_key_update_where ended)
  moreover have "expired_row rv now r \<in> set rows'" if "r \<in> set rows" "due_verification rv now r" for r
    using that by (auto simp: rows' image_iff intro!: bexI [of _ r])
  ultimately have "find (plan_in_status (rc_plan_id r) (rc_workspace_id r) [''verification_pending'']) rows' = None"
    if "r \<in> set rows" "due_verification rv now r" for r
    using find_plan_elsewhere [of rows' "expired_row rv now r" "[''verification_pending'']"] that
    by (simp add: ended(1)) (simp add: expired_row_def)
  moreover have "mset bodies = mset (map expired_body ?due)" unfolding run(1) mset_map mset_sort ..
  ultimately show ?thesis
    using ended(4) rows' by (auto simp: store_verdict_def update_recovery_plan_lifecycle_if_status_def)
qed

section \<open>A concrete plan\<close>

definition recovery_demo_row :: recovery_plan_row where
  "recovery_demo_row = \<lparr>rc_id = 1, rc_plan_id = ''p'', rc_workspace_id = ''w'', rc_correlation_id = ''c'', rc_incident_id = ''i'',
     rc_evidence_ref = ''e'', rc_status = ''verification_pending'', rc_selected_action_id = None, rc_selected_by = None,
     rc_payload = [(''lifecycle'', JObj [(''verification'', JObj recovery_demo_verification)])], rc_updated_at = 0\<rparr>"

lemma recovery_demo_row_fields:
  "plans_ok [recovery_demo_row]" "rc_status recovery_demo_row = ''verification_pending''" "rc_workspace_id recovery_demo_row = ''w''"
  "rc_plan_id recovery_demo_row = ''p''"
  by (simp_all add: plans_ok_def unique_key_def recovery_demo_row_def)

lemma recovery_demo_deadline: "row_deadline recovery_demo_env recovery_demo_row = Some (seconds 600)"
proof -
  have "row_verification recovery_demo_row = recovery_demo_verification"
    by (simp add: row_verification_def row_lifecycle_def recovery_demo_row_def jget_def as_mapping_def)
  moreover have "jget recovery_demo_verification ''deadline_at'' = Some (JStr (signed_bits (seconds 600)))"
    by (simp add: recovery_demo_verification_def jget_def)
  moreover have "rv_isoformat recovery_demo_env = signed_bits" by (simp add: recovery_demo_env_def)
  ultimately show ?thesis
    using recovery_demo_reads_back unfolding row_deadline_def iso_reads_back_def by metis
qed

theorem concurrent_window_is_forgotten_witness:
  "snd (store_verdict 2 ''w'' ''late'' recovery_demo_row (unchanged_decision recovery_demo_env [] ''stale_evidence_window'' [])
     (snd (store_verdict 1 ''w'' ''bad'' recovery_demo_row (reset_decision ''pending'' ''verification_regressed'' [] None) [recovery_demo_row])))
   = snd (store_verdict 2 ''w'' ''late'' recovery_demo_row (unchanged_decision recovery_demo_env [] ''stale_evidence_window'' []) [recovery_demo_row])"
proof -
  have "vd_status (reset_decision ''pending'' ''verification_regressed'' [] None) = ''pending''" by (simp add: reset_decision_def)
  from concurrent_window_is_forgotten [OF recovery_demo_row_fields(1) _ recovery_demo_row_fields(2,3) this]
  show ?thesis by simp
qed

theorem sweep_fails_exactly_the_overdue_witness:
  "snd (the (expire_recovery_verifications recovery_demo_env (seconds 700) 10 (\<lambda>_. False) [recovery_demo_row])) =
     [expired_row recovery_demo_env (seconds 700) recovery_demo_row]"
proof -
  have due: "due_verification recovery_demo_env (seconds 700) recovery_demo_row"
    by (simp add: due_verification_def recovery_demo_row_fields recovery_demo_deadline)
  have "\<not> unreadable_deadline recovery_demo_env recovery_demo_row" by (simp add: unreadable_deadline_def recovery_demo_deadline)
  then obtain bodies rows' where run:
    "expire_recovery_verifications recovery_demo_env (seconds 700) 10 (\<lambda>_. False) [recovery_demo_row] = Some (bodies, rows')"
    unfolding expire_recovery_verifications_def Let_def by simp
  from sweep_fails_exactly_the_overdue [OF recovery_demo_row_fields(1) this] due
  show ?thesis by (simp add: run)
qed

end
