(* ===== verification/Recovery_Merge.thy ===== *)
theory Recovery_Merge
  imports Recovery_Store Git_Webhook
begin

text \<open>
  From a recovery plan to the deployment of its merged pull request: how the planner fills a plan
  (\<^verbatim>\<open>src/src/services/ai/agent/recovery/engine.py\<close>), the paths into manifests
  (\<^verbatim>\<open>src/src/domains/gitops/source_patch.py\<close>) and the authorization of the diff of a merged
  recovery (\<^verbatim>\<open>src/src/domains/gitops/recovery_merge.py\<close>). Candidates and plans are the JSON objects
  of their bodies.
\<close>

section \<open>Routes and the planner\<close>

text \<open>\<^verbatim>\<open>ActionRoutes\<close>: the values of its fields.\<close>

definition ROUTE_SAFE_PR :: string where "ROUTE_SAFE_PR = ''draft_pr''"
definition ROUTE_APPROVAL_REQUIRED :: string where "ROUTE_APPROVAL_REQUIRED = ''approval_required''"
definition ROUTE_FORBIDDEN :: string where "ROUTE_FORBIDDEN = ''forbidden''"
definition ROUTE_AUTO :: string where "ROUTE_AUTO = ''auto''"

definition action_routes :: "string list" where
  "action_routes = [ROUTE_SAFE_PR, ROUTE_APPROVAL_REQUIRED, ROUTE_FORBIDDEN, ROUTE_AUTO]"

definition candidate_text :: "jobj \<Rightarrow> string \<Rightarrow> string" where
  "candidate_text c k = (case jget c k of Some (JStr s) \<Rightarrow> s | _ \<Rightarrow> [])"

definition candidate_draft :: "jobj \<Rightarrow> jobj" where
  "candidate_draft c = as_mapping (jget c ''draft'')"

definition candidate_params :: "jobj \<Rightarrow> jobj" where
  "candidate_params c = as_mapping (jget (candidate_draft c) ''params'')"

definition candidate_executable :: "jobj \<Rightarrow> bool" where
  "candidate_executable c \<longleftrightarrow> jget c ''executable'' \<noteq> Some (JBool False)"

definition blocked_candidate :: "string \<Rightarrow> jobj \<Rightarrow> jobj" where
  "blocked_candidate code c = update_fields [(''executable'', JBool False), (''blocked_reason_code'', JStr code)] c"

definition with_execution_eligibility :: "(json \<Rightarrow> string) \<Rightarrow> policy_env \<Rightarrow> jobj \<Rightarrow> jobj" where
  "with_execution_eligibility render pv c =
     (if candidate_text c ''route'' \<noteq> ROUTE_AUTO then c
      else
        let requested = text_or render (candidate_params c) ''command'' (candidate_text (candidate_draft c) ''action_type'');
            namespace = py_strip (candidate_text (candidate_draft c) ''namespace'')
        in case action_for_recovery (ce_catalog (pv_command pv)) requested of
             None \<Rightarrow> blocked_candidate ''unsupported_auto_action'' c
           | Some action \<Rightarrow>
               (case command_action_spec pv action of
                  None \<Rightarrow> blocked_candidate ''unsupported_auto_action'' c
                | Some sp \<Rightarrow>
                    if namespace = [] then blocked_candidate ''recovery_target_identity_invalid'' c
                    else if sp_enforce_control_namespace sp \<and> \<not> control_namespace_allowed pv namespace
                    then blocked_candidate ''control_namespace_not_allowed'' c
                    else if \<not> allows_namespace sp namespace
                    then blocked_candidate ''command_action_namespace_not_allowed'' c
                    else c))"

text \<open>Ranks are integers and scores numbers, as the class declares them.\<close>

definition candidate_number :: "jobj \<Rightarrow> string \<Rightarrow> rat" where
  "candidate_number c k = (case jget c k of None \<Rightarrow> 0 | Some v \<Rightarrow> (case number_of v of None \<Rightarrow> 0 | Some q \<Rightarrow> q))"

definition recovery_candidate_sort_key :: "jobj \<Rightarrow> bool \<times> bool \<times> rat \<times> rat" where
  "recovery_candidate_sort_key c =
     (\<not> candidate_executable c, present (jget (candidate_params c) ''manual''), candidate_number c ''rank'',
      - candidate_number c ''score'')"

text \<open>The plan the planner publishes for the candidates of its rules; None when an operator must act first.\<close>

definition planned_recovery ::
    "(json \<Rightarrow> string) \<Rightarrow> policy_env \<Rightarrow> string \<Rightarrow> string \<Rightarrow> string \<Rightarrow> jobj \<Rightarrow> jobj list \<Rightarrow> jobj option" where
  "planned_recovery render pv evidence_ref incident_id summary target offered =
     (let ranked = sort_key recovery_candidate_sort_key offered;
          candidates = sort_key recovery_candidate_sort_key (map (with_execution_eligibility render pv) ranked)
      in case filter candidate_executable candidates of
           [] \<Rightarrow> None
         | recommended # _ \<Rightarrow> Some
             [(''plan_id'', JStr (''recovery:'' @ evidence_ref)), (''incident_id'', JStr incident_id), (''evidence_ref'', JStr evidence_ref),
              (''summary'', JStr summary), (''target'', JObj target), (''recommended_action_id'', JStr (candidate_text recommended ''action_id'')),
              (''execution_route'', JStr (candidate_text recommended ''route'')),
              (''selection_required'', field_value recommended ''approval_required''),
              (''candidates'', JArr (map JObj candidates)), (''lifecycle'', JObj [])])"

section \<open>Paths into manifests\<close>

text \<open>Parts are separated by dots outside brackets; None when the brackets do not match.\<close>

fun field_path_parts_from :: "string \<Rightarrow> nat \<Rightarrow> string \<Rightarrow> string list option" where
  "field_path_parts_from part depth [] = (if depth \<noteq> 0 then None else Some [part])"
| "field_path_parts_from part depth (c # cs) =
     (if c = CHR ''['' then field_path_parts_from (part @ [c]) (Suc depth) cs
      else if c = CHR '']''
      then (case depth of 0 \<Rightarrow> None | Suc n \<Rightarrow> field_path_parts_from (part @ [c]) n cs)
      else if c = CHR ''.'' \<and> depth = 0 then map_option ((#) part) (field_path_parts_from [] 0 cs)
      else field_path_parts_from (part @ [c]) depth cs)"

definition field_path_parts :: "string \<Rightarrow> string list" where
  "field_path_parts v = (case field_path_parts_from [] 0 v of None \<Rightarrow> [] | Some ps \<Rightarrow> ps)"

type_synonym path_segment = "string \<times> string option"

definition segment_char :: "char \<Rightarrow> bool" where
  "segment_char c = (let n = (of_char c :: nat) in
     (48 \<le> n \<and> n \<le> 57) \<or> (65 \<le> n \<and> n \<le> 90) \<or> (97 \<le> n \<and> n \<le> 122) \<or> c = CHR ''_'' \<or> c = CHR ''-'')"

text \<open>\<^verbatim>\<open>^([A-Za-z0-9_-]+)(?:\[name=([^\]]+)\])?$\<close>.\<close>

definition path_segment_of :: "string \<Rightarrow> path_segment option" where
  "path_segment_of raw =
     (let key = takeWhile segment_char raw; rest = dropWhile segment_char raw
      in if key = [] then None
         else if rest = [] then Some (key, None)
         else if prefix ''[name='' rest \<and> last rest = CHR '']''
         then (let chosen = butlast (drop 6 rest)
               in if chosen = [] \<or> CHR '']'' \<in> set chosen \<or> py_strip chosen = [] then None else Some (key, Some chosen))
         else None)"

definition field_path_segments :: "string \<Rightarrow> path_segment list" where
  "field_path_segments v =
     (let found = map path_segment_of (field_path_parts v) in if None \<in> set found then [] else map the found)"

definition named :: "string \<Rightarrow> json \<Rightarrow> bool" where
  "named chosen item \<longleftrightarrow> (case item of JObj d \<Rightarrow> jget d ''name'' = Some (JStr chosen) | _ \<Rightarrow> False)"

text \<open>None is the error the path raises.\<close>

fun object_value_at :: "json \<Rightarrow> path_segment list \<Rightarrow> json option" where
  "object_value_at doc [] = Some doc"
| "object_value_at doc ((key, chosen) # segs) =
     (case doc of
        JObj d \<Rightarrow>
          (case jget d key of
             None \<Rightarrow> None
           | Some v \<Rightarrow>
               (case chosen of
                  None \<Rightarrow> object_value_at v segs
                | Some n \<Rightarrow>
                    (case v of
                       JArr xs \<Rightarrow> (case filter (named n) xs of [x] \<Rightarrow> object_value_at x segs | _ \<Rightarrow> None)
                     | _ \<Rightarrow> None)))
      | _ \<Rightarrow> None)"

fun set_object_value :: "json \<Rightarrow> path_segment list \<Rightarrow> json \<Rightarrow> json option" where
  "set_object_value doc [] v = None"
| "set_object_value doc [(key, chosen)] v =
     (case (doc, chosen) of (JObj d, None) \<Rightarrow> Some (JObj (AList.update key v d)) | _ \<Rightarrow> None)"
| "set_object_value doc ((key, chosen) # seg # segs) v =
     (case doc of
        JObj d \<Rightarrow>
          (case jget d key of
             None \<Rightarrow> None
           | Some inner \<Rightarrow>
               (case chosen of
                  None \<Rightarrow> map_option (\<lambda>w. JObj (AList.update key w d)) (set_object_value inner (seg # segs) v)
                | Some n \<Rightarrow>
                    (case inner of
                       JArr xs \<Rightarrow>
                         (case filter (named n) xs of
                            [x] \<Rightarrow> map_option (\<lambda>w. JObj (AList.update key (JArr (map (\<lambda>y. if named n y then w else y) xs)) d))
                              (set_object_value x (seg # segs) v)
                          | _ \<Rightarrow> None)
                     | _ \<Rightarrow> None)))
      | _ \<Rightarrow> None)"

definition scalar_value :: "json \<Rightarrow> bool" where
  "scalar_value v \<longleftrightarrow> (case v of JArr _ \<Rightarrow> False | JObj _ \<Rightarrow> False | _ \<Rightarrow> True)"

definition same_scalar :: "json \<Rightarrow> json \<Rightarrow> bool" where
  "same_scalar a b \<longleftrightarrow>
     (case (a, b) of
        (JNull, JNull) \<Rightarrow> True
      | (JBool x, JBool y) \<Rightarrow> x = y
      | (JInt x, JInt y) \<Rightarrow> x = y
      | (JFloat x, JFloat y) \<Rightarrow> x = y
      | (JStr x, JStr y) \<Rightarrow> x = y
      | (JArr _, JArr _) \<Rightarrow> py_eq a b
      | (JObj _, JObj _) \<Rightarrow> py_eq a b
      | _ \<Rightarrow> False)"

section \<open>The approved changes\<close>

text \<open>\<^verbatim>\<open>str(value or "").strip()\<close>.\<close>

definition stripped :: "(json \<Rightarrow> string) \<Rightarrow> json option \<Rightarrow> string" where
  "stripped render v = (case v of None \<Rightarrow> [] | Some x \<Rightarrow> if py_truthy x then py_strip (py_str render x) else [])"

type_synonym approved_changes = "(string \<times> json \<times> json) list"

fun approved_items :: "(json \<Rightarrow> string) \<Rightarrow> json list \<Rightarrow> approved_changes \<Rightarrow> approved_changes option" where
  "approved_items render [] approved = Some approved"
| "approved_items render (item # items) approved =
     (case item of
        JObj d \<Rightarrow>
          let path = stripped render (jget d ''field_path''); current = field_value d ''current_value''; desired = field_value d ''desired_value''
          in if path = [] \<or> path \<in> fst ` set approved \<or> field_path_segments path = [] \<or> \<not> scalar_value current \<or>
                \<not> scalar_value desired \<or> same_scalar current desired
             then None else approved_items render items (approved @ [(path, current, desired)])
      | _ \<Rightarrow> None)"

definition payload_authorization :: "jobj \<Rightarrow> jobj" where
  "payload_authorization payload = as_mapping (jget (as_mapping (jget payload ''lifecycle'')) ''authorization'')"

definition merged_change_contract :: "(json \<Rightarrow> string) \<Rightarrow> jobj \<Rightarrow> approved_changes option" where
  "merged_change_contract render payload =
     (case jget (payload_authorization payload) ''changes'' of
        Some (JArr items) \<Rightarrow> if 1 \<le> length items \<and> length items \<le> 4 then approved_items render items [] else None
      | _ \<Rightarrow> None)"

definition approved_replica_count :: "(json \<Rightarrow> string) \<Rightarrow> jobj \<Rightarrow> int option" where
  "approved_replica_count render payload =
     (case merged_change_contract render payload of
        None \<Rightarrow> None
      | Some approved \<Rightarrow>
          (case map_of approved ''spec.replicas'' of
             Some (_, JInt n) \<Rightarrow> if 0 < n then Some n else None
           | _ \<Rightarrow> None))"

section \<open>A diff within the approved scope\<close>

definition below :: "string \<Rightarrow> string \<Rightarrow> bool" where
  "below parent path \<longleftrightarrow> prefix (parent @ ''.'') path"

fun projected_changes :: "string \<Rightarrow> approved_changes \<Rightarrow> json \<Rightarrow> json option" where
  "projected_changes parent [] projected = Some projected"
| "projected_changes parent ((path, current, desired) # approved) projected =
     (if \<not> below parent path then projected_changes parent approved projected
      else
        let segs = field_path_segments (drop (length parent + 1) path)
        in if segs = [] then None
           else case object_value_at projected segs of
             None \<Rightarrow> None
           | Some v \<Rightarrow>
               if \<not> same_scalar v current then None
               else case set_object_value projected segs desired of
                 None \<Rightarrow> None
               | Some projected' \<Rightarrow> projected_changes parent approved projected')"

text \<open>None is the error for a source that is no object or does not hold the current values.\<close>

definition projected_parent_value :: "json \<Rightarrow> string \<Rightarrow> approved_changes \<Rightarrow> json option" where
  "projected_parent_value source parent approved =
     (case source of JObj d \<Rightarrow> projected_changes parent approved source | _ \<Rightarrow> None)"

definition equals_projection :: "json option \<Rightarrow> json \<Rightarrow> bool" where
  "equals_projection projected v \<longleftrightarrow> (case projected of None \<Rightarrow> False | Some p \<Rightarrow> py_eq p v)"

text \<open>The approved paths a change covers; None when the change is not approved.\<close>

definition approved_change_matches_diff :: "(json \<Rightarrow> string) \<Rightarrow> jobj \<Rightarrow> approved_changes \<Rightarrow> string list option" where
  "approved_change_matches_diff render change approved =
     (let path = stripped render (jget change ''field_path''); classification = stripped render (jget change ''classification'');
          scoped = filter (\<lambda>(p, _). p = path \<or> below path p) approved; matched = map fst scoped;
          old = field_value change ''old_desired''; before = field_value change ''before''; after = field_value change ''after'';
          intended = (classification = ''intended_change'')
      in if scoped = [] then (if classification = ''already_converged'' then Some [] else None)
         else if classification \<notin> {''intended_change'', ''already_converged''} then None
         else if set matched = {path}
         then (case map_of approved path of
             None \<Rightarrow> None
           | Some (current, desired) \<Rightarrow>
               if same_scalar old current \<and> same_scalar before (if intended then current else desired) \<and> same_scalar after desired
               then Some matched else None)
         else if (if intended then py_eq old before \<and> equals_projection (projected_parent_value before path scoped) after
                  else equals_projection (projected_parent_value old path scoped) before \<and> py_eq before after)
         then Some matched else None)"

definition split_resource :: "string \<Rightarrow> (string \<times> string) option" where
  "split_resource v =
     (let kind = takeWhile (\<lambda>c. c \<noteq> CHR ''/'') v; rest = dropWhile (\<lambda>c. c \<noteq> CHR ''/'') v
      in if rest = [] then None else Some (kind, tl rest))"

definition scope_target_matches :: "(json \<Rightarrow> string) \<Rightarrow> jobj \<Rightarrow> gitops_diff \<Rightarrow> bool" where
  "scope_target_matches render payload diff \<longleftrightarrow>
     (let target = as_mapping (jget (payload_authorization payload) ''target'');
          namespace = stripped render (jget target ''namespace''); kind = stripped render (jget target ''resource_kind'');
          resource_name = stripped render (jget target ''resource_name'');
          metadata = as_mapping (jget (df_desired_manifest diff) ''metadata'')
      in namespace \<noteq> [] \<and> kind \<noteq> [] \<and> resource_name \<noteq> [] \<and> df_namespace diff = namespace \<and>
         (case split_resource (py_strip (df_resource diff)) of
            None \<Rightarrow> False
          | Some (diff_kind, diff_name) \<Rightarrow> ascii_lower diff_kind = ascii_lower kind \<and> diff_name = resource_name) \<and>
         ascii_lower (stripped render (jget (df_desired_manifest diff) ''kind'')) = ascii_lower kind \<and>
         stripped render (jget metadata ''name'') = resource_name \<and>
         stripped render (jget metadata ''namespace'') \<in> {[], namespace})"

text \<open>The manifest to apply holds every approved value.\<close>

definition manifest_holds :: "json \<Rightarrow> approved_changes \<Rightarrow> bool" where
  "manifest_holds manifest approved \<longleftrightarrow>
     list_all (\<lambda>(path, _, desired). case object_value_at manifest (field_path_segments path) of
        None \<Rightarrow> False | Some v \<Rightarrow> same_scalar v desired) approved"

definition recovery_diff_matches_approved_scope :: "(json \<Rightarrow> string) \<Rightarrow> jobj \<Rightarrow> gitops_diff \<Rightarrow> bool" where
  "recovery_diff_matches_approved_scope render payload diff \<longleftrightarrow>
     (case merged_change_contract render payload of
        None \<Rightarrow> False
      | Some approved \<Rightarrow>
          scope_target_matches render payload diff \<and> manifest_holds (JObj (df_desired_manifest diff)) approved \<and>
          (if \<not> df_has_changes diff
           then df_status diff \<in> {''already_converged'', ''no_change''} \<and>
             list_all (\<lambda>c. stripped render (jget c ''classification'') = ''already_converged'') (df_changes diff)
           else
             let covered = map (\<lambda>c. approved_change_matches_diff render c approved) (df_changes diff)
             in None \<notin> set covered \<and>
                list_ex (\<lambda>c. approved_change_matches_diff render c approved \<notin> {None, Some []} \<and>
                  stripped render (jget c ''classification'') = ''intended_change'') (df_changes diff) \<and>
                set (concat (map the covered)) = fst ` set approved))"

section \<open>The authorization of a merged recovery\<close>

text \<open>An attribute of a decoded body.\<close>

definition attribute :: "pyval \<Rightarrow> string \<Rightarrow> pyval" where
  "attribute v k =
     (case v of PBody c vs \<Rightarrow> (case map_of (zip (map item_name (class_fields c)) vs) k of Some x \<Rightarrow> x | None \<Rightarrow> PNull) | _ \<Rightarrow> PNull)"

definition attribute_text :: "pyval \<Rightarrow> string \<Rightarrow> string" where
  "attribute_text v k = (case attribute v k of PStr s \<Rightarrow> s | _ \<Rightarrow> [])"

definition positive_attribute :: "pyval \<Rightarrow> string \<Rightarrow> int option" where
  "positive_attribute v k = (case attribute v k of PInt n \<Rightarrow> if 0 < n then Some n else None | _ \<Rightarrow> None)"

definition open_workflow_statuses :: "string list" where
  "open_workflow_statuses = [''started'', ''rendering'', ''diffing'', ''policy_checking'', ''waiting_for_approval'']"

text \<open>What must be there and equal: the plan, its pull request, the merge, the diff and the workflow.\<close>

definition merge_identities ::
    "(json \<Rightarrow> string) \<Rightarrow> recovery_plan_row \<Rightarrow> pyval \<Rightarrow> gitops_diff \<Rightarrow> jobj \<Rightarrow> (string \<times> string) list" where
  "merge_identities render r request diff workflow =
     (let lifecycle = row_lifecycle r; pr = as_mapping (jget lifecycle ''pr''); merge = as_mapping (jget lifecycle ''merge'');
          of_pr = (\<lambda>k. stripped render (jget pr k)); of_merge = (\<lambda>k. stripped render (jget merge k));
          of_run = (\<lambda>k. stripped render (jget workflow k)); want = attribute_text request
      in [(py_strip (rc_workspace_id r), df_workspace_id diff), (py_strip (rc_correlation_id r), want ''correlation_id''),
          (of_merge ''pr_url'', of_pr ''url''), (of_merge ''head_sha'', of_pr ''head_sha''),
          (of_merge ''merge_commit_sha'', want ''commit_sha''), (of_merge ''workflow_run_id'', want ''workflow_run_id''),
          (of_merge ''repository_id'', want ''repository_id''), (of_merge ''binding_id'', want ''binding_id''),
          (of_merge ''application_id'', want ''application_id''), (of_merge ''cluster_id'', want ''cluster_id''),
          (of_pr ''repository_id'', want ''repository_id''), (ascii_lower (of_pr ''repo_ref''), ascii_lower (want ''repo_ref'')),
          (of_pr ''base_branch'', want ''branch''), (of_pr ''binding_id'', want ''binding_id''),
          (of_pr ''application_id'', want ''application_id''), (of_pr ''environment'', want ''environment''),
          (of_pr ''cluster_id'', want ''cluster_id''), (of_pr ''manifest_path'', want ''manifest_path''),
          (want ''workspace_id'', df_workspace_id diff), (want ''repository_id'', df_repository_id diff),
          (want ''binding_id'', df_binding_id diff), (want ''application_id'', df_application_id diff),
          (want ''workflow_run_id'', df_workflow_run_id diff), (want ''environment'', df_environment diff),
          (want ''cluster_id'', df_cluster_id diff), (want ''manifest_path'', df_manifest_path diff),
          (of_run ''workflow_run_id'', want ''workflow_run_id''), (of_run ''workspace_id'', want ''workspace_id''),
          (of_run ''binding_id'', want ''binding_id''), (of_run ''application_id'', want ''application_id''),
          (of_run ''environment'', want ''environment''), (of_run ''cluster_id'', want ''cluster_id''),
          (of_run ''commit_sha'', want ''commit_sha'')])"

definition request_deployable :: "(json \<Rightarrow> string) \<Rightarrow> recovery_plan_row \<Rightarrow> pyval \<Rightarrow> bool" where
  "request_deployable render r request \<longleftrightarrow>
     attribute request ''force'' = PBool True \<and> py_strip (attribute_text request ''image'') \<noteq> [] \<and>
     (case positive_attribute request ''replicas'' of
        None \<Rightarrow> False
      | Some n \<Rightarrow> (case approved_replica_count render (rc_payload r) of None \<Rightarrow> True | Some m \<Rightarrow> n = m))"

definition exact_merged_recovery_request ::
    "(json \<Rightarrow> string) \<Rightarrow> recovery_plan_row option \<Rightarrow> jobj option \<Rightarrow> gitops_diff \<Rightarrow> pyval option" where
  "exact_merged_recovery_request render found workflow diff =
     (case found of
        None \<Rightarrow> None
      | Some r \<Rightarrow>
          let payload = rc_payload r; lifecycle = row_lifecycle r; merge = as_mapping (jget lifecycle ''merge'');
              pr = as_mapping (jget lifecycle ''pr'')
          in if py_strip (rc_status r) \<noteq> ''deploy_pending'' \<or>
                (case rc_selected_action_id r of None \<Rightarrow> True | Some a \<Rightarrow> py_strip a = []) \<or>
                stripped render (jget payload ''execution_route'') \<noteq> ''safe_pr'' \<or>
                stripped render (jget lifecycle ''phase'') \<noteq> ''deploy_pending'' \<or>
                \<not> recovery_diff_matches_approved_scope render payload diff
             then None
             else case from_body False git_webhook_received_body (JObj (as_mapping (jget merge ''deployment_request''))) of
               Inl _ \<Rightarrow> None
             | Inr request \<Rightarrow>
                 (case workflow of
                    None \<Rightarrow> None
                  | Some run \<Rightarrow>
                      if request_deployable render r request \<and> stripped render (jget pr ''url'') \<noteq> [] \<and>
                         stripped render (jget pr ''head_sha'') \<noteq> [] \<and> stripped render (jget merge ''merge_commit_sha'') \<noteq> [] \<and>
                         stripped render (jget run ''status'') \<in> set open_workflow_statuses \<and>
                         list_all (\<lambda>(actual, wanted). actual \<noteq> [] \<and> actual = wanted) (merge_identities render r request diff run)
                      then Some request else None))"

text \<open>Whether the workflow of the diff is that of a recovery, and the request its merge authorizes.\<close>

definition recovery_merge_authorization ::
    "(json \<Rightarrow> string) \<Rightarrow> (json \<Rightarrow> string) \<Rightarrow> recovery_plan_row list \<Rightarrow> (string \<Rightarrow> jobj option) \<Rightarrow> gitops_diff \<Rightarrow> bool \<times> pyval option" where
  "recovery_merge_authorization pg render rows workflow_run diff =
     (let found = get_recovery_plan_for_workflow pg (df_workspace_id diff) (df_workflow_run_id diff) (df_binding_id diff)
            (df_application_id diff) rows
      in (found \<noteq> None, exact_merged_recovery_request render found (workflow_run (df_workflow_run_id diff)) diff))"

section \<open>What the analyser does with the diff\<close>

datatype merge_route = OrdinaryDiff | ScopeRejected | MergedRecovery pyval

definition merge_route_of :: "bool \<times> pyval option \<Rightarrow> merge_route" where
  "merge_route_of authorization =
     (case authorization of
        (False, _) \<Rightarrow> OrdinaryDiff
      | (True, None) \<Rightarrow> ScopeRejected
      | (True, Some request) \<Rightarrow> MergedRecovery request)"

section \<open>The route of a plan\<close>

lemma update_fields_other: "k \<notin> fst ` set kvs \<Longrightarrow> jget (update_fields kvs d) k = jget d k"
  by (simp add: jget_update_fields map_of_eq_None_iff [THEN iffD2])

lemma eligibility_keeps_route: "candidate_text (with_execution_eligibility render pv c) ''route'' = candidate_text c ''route''"
proof -
  have "candidate_text (blocked_candidate code c) ''route'' = candidate_text c ''route''" for code
    by (simp add: blocked_candidate_def candidate_text_def update_fields_other)
  then show ?thesis unfolding with_execution_eligibility_def Let_def by (auto split: option.split)
qed

lemma planned_route:
  assumes "planned_recovery render pv evidence_ref incident_id summary target offered = Some plan"
  shows "\<exists>c \<in> set offered. jget plan ''execution_route'' = Some (JStr (candidate_text c ''route''))"
proof -
  let ?offered = "sort_key recovery_candidate_sort_key (map (with_execution_eligibility render pv)
    (sort_key recovery_candidate_sort_key offered))"
  from assms obtain recommended rest where chosen: "filter candidate_executable ?offered = recommended # rest"
    and plan: "jget plan ''execution_route'' = Some (JStr (candidate_text recommended ''route''))"
    unfolding planned_recovery_def Let_def by (auto split: list.splits simp: jget_def)
  from chosen have "recommended \<in> set (filter candidate_executable ?offered)" by simp
  then obtain c where "c \<in> set offered" "recommended = with_execution_eligibility render pv c" by auto
  with plan show ?thesis by (auto simp: eligibility_keeps_route)
qed

lemma stripped_json_text [simp]: "stripped render (Some (JStr s)) = (if s = [] then [] else py_strip s)"
  by (simp add: stripped_def py_truthy_def py_str_def)

lemma route_not_authorized:
  assumes "stripped render (jget (rc_payload r) ''execution_route'') \<noteq> ''safe_pr''"
  shows "exact_merged_recovery_request render (Some r) workflow diff = None"
  using assms unfolding exact_merged_recovery_request_def Let_def option.case by simp

lemma planner_routes_differ: "route \<in> set action_routes \<Longrightarrow> py_strip route \<noteq> ''safe_pr''"
  unfolding action_routes_def ROUTE_SAFE_PR_def ROUTE_APPROVAL_REQUIRED_def ROUTE_FORBIDDEN_def ROUTE_AUTO_def
  by (auto simp: py_strip_def is_space_def)

end
