(* ===== verification/Recovery_Plans.thy ===== *)
theory Recovery_Plans
  imports Recovery_Merge
begin

text \<open>
  The life of a recovery plan before and around its verification: the operations of the repository
  (\<^verbatim>\<open>src/src/domains/rca/repository.py\<close>), the selection and the retry of an operator
  (\<^verbatim>\<open>src/src/domains/rca/router.py\<close>), the handlers of the worker
  (\<^verbatim>\<open>src/src/services/ai/rca-feedback-worker/app.py\<close>) and the pull request events of GitHub
  (\<^verbatim>\<open>src/src/domains/gitops/router.py\<close>). The checks of access and the tables read only (alerts,
  evidence, registrations, workflow runs) are arguments.
\<close>

section \<open>Parameters\<close>

text \<open>
  \<open>fl_sha\<close> is the hexadecimal SHA-256 of a text, \<open>fl_render\<close> and \<open>fl_pg\<close> the texts Python and
  PostgreSQL give values, \<open>fl_derived_run\<close> the workflow run the repository derives for an approval in a
  workspace whose candidate names none, the others the values of the environment variables.
\<close>

record recovery_flow =
  fl_sha :: "string \<Rightarrow> string"
  fl_render :: "json \<Rightarrow> string"
  fl_pg :: "json \<Rightarrow> string"
  fl_rv :: recovery_env
  fl_min_seconds :: string
  fl_max_seconds :: string
  fl_load_tolerance :: string
  fl_webhook_image :: string
  fl_derived_run :: "string \<Rightarrow> jobj \<Rightarrow> string"

definition digest32 :: "recovery_flow \<Rightarrow> string \<Rightarrow> string" where
  "digest32 fl raw = take 32 (fl_sha fl raw)"

text \<open>The columns of an approval the recovery reads.\<close>

record recovery_approval =
  ra_approval_id :: string
  ra_workspace_id :: string
  ra_status :: string
  ra_details :: jobj

record recovery_state =
  rs_plans :: "recovery_plan_row list"
  rs_approvals :: "recovery_approval list"

datatype flow_body =
    VerificationBody recovery_body
  | RecoveryPrTracked string string string
  | RecoveryPrMerged string string string string string
  | GitWebhookReceived "pyval list"
  | RcaFollowupRequired string string
  | RecoveryRetryRequested string string string string int "string option"
  | RecoveryActionSelected jobj jobj string

section \<open>The repository\<close>

definition RECOVERY_PLAN_MONOTONIC_STATUSES :: "string list" where
  "RECOVERY_PLAN_MONOTONIC_STATUSES =
     [''selected'', ''pr_open'', ''deploy_pending'', ''verification_pending'', ''completed'', ''failed'']"

definition OPEN_RECOVERY_PLAN_STATUSES :: "string list" where
  "OPEN_RECOVERY_PLAN_STATUSES = [''selection_requested'']"

text \<open>\<^verbatim>\<open>str(plan[key])\<close>; None when the key is missing.\<close>

definition required_text :: "recovery_flow \<Rightarrow> jobj \<Rightarrow> string \<Rightarrow> string option" where
  "required_text fl plan k = map_option (py_str (fl_render fl)) (jget plan k)"

text \<open>A plan that was selected keeps its status, its selection and its payload.\<close>

definition plan_upserted ::
    "time \<Rightarrow> string \<Rightarrow> string \<Rightarrow> string \<Rightarrow> string \<Rightarrow> string option \<Rightarrow> string option \<Rightarrow> jobj \<Rightarrow> recovery_plan_row \<Rightarrow> recovery_plan_row" where
  "plan_upserted now correlation_id incident_id evidence_ref status selected_action_id selected_by plan r =
     (let r' = r\<lparr>rc_correlation_id := correlation_id, rc_incident_id := incident_id, rc_evidence_ref := evidence_ref, rc_updated_at := now\<rparr>
      in if rc_status r \<in> set RECOVERY_PLAN_MONOTONIC_STATUSES then r'
         else r'\<lparr>rc_status := status, rc_selected_action_id := selected_action_id, rc_selected_by := selected_by, rc_payload := plan\<rparr>)"

text \<open>None is the error for another status or a missing key.\<close>

definition upsert_recovery_plan ::
    "recovery_flow \<Rightarrow> time \<Rightarrow> nat \<Rightarrow> string \<Rightarrow> string \<Rightarrow> jobj \<Rightarrow> string \<Rightarrow> string option \<Rightarrow> string option \<Rightarrow>
     recovery_plan_row list \<Rightarrow> recovery_plan_row list option" where
  "upsert_recovery_plan fl now row_id correlation_id ws plan status selected_action_id selected_by rows =
     (case (required_text fl plan ''plan_id'', required_text fl plan ''incident_id'', required_text fl plan ''evidence_ref'') of
        (Some plan_id, Some incident_id, Some evidence_ref) \<Rightarrow>
          if status \<notin> {''selection_requested'', ''selected''} then None
          else if (ws, plan_id) \<in> plan_key ` set rows
          then Some (update_where (\<lambda>r. plan_key r = (ws, plan_id))
            (plan_upserted now correlation_id incident_id evidence_ref status selected_action_id selected_by plan) rows)
          else Some (rows @ [\<lparr>rc_id = row_id, rc_plan_id = plan_id, rc_workspace_id = ws, rc_correlation_id = correlation_id,
            rc_incident_id = incident_id, rc_evidence_ref = evidence_ref, rc_status = status, rc_selected_action_id = selected_action_id,
            rc_selected_by = selected_by, rc_payload = plan, rc_updated_at = now\<rparr>])
      | _ \<Rightarrow> None)"

definition upsert_recovery_selection_request ::
    "recovery_flow \<Rightarrow> time \<Rightarrow> nat \<Rightarrow> string \<Rightarrow> string \<Rightarrow> jobj \<Rightarrow> recovery_plan_row list \<Rightarrow> recovery_plan_row list option" where
  "upsert_recovery_selection_request fl now row_id correlation_id ws plan rows =
     upsert_recovery_plan fl now row_id correlation_id ws plan ''selection_requested'' None None rows"

definition get_recovery_plan :: "string \<Rightarrow> string \<Rightarrow> recovery_plan_row list \<Rightarrow> recovery_plan_row option" where
  "get_recovery_plan plan_id ws rows = find (\<lambda>r. plan_key r = (ws, plan_id)) rows"

text \<open>The plan of the correlation written last.\<close>

definition get_recovery_plan_by_correlation :: "string \<Rightarrow> string \<Rightarrow> recovery_plan_row list \<Rightarrow> recovery_plan_row option" where
  "get_recovery_plan_by_correlation correlation_id ws rows =
     (case rev (sort_key (\<lambda>r. (rc_updated_at r, rc_id r))
        (filter (\<lambda>r. rc_correlation_id r = correlation_id \<and> rc_workspace_id r = ws) rows)) of
        [] \<Rightarrow> None | r # _ \<Rightarrow> Some r)"

text \<open>\<^verbatim>\<open>max(0, int(attempt.get("number") or 0)) + 1\<close>, and 1 when that raises.\<close>

definition next_attempt_number :: "jobj \<Rightarrow> int" where
  "next_attempt_number attempt =
     (case jget attempt ''number'' of
        None \<Rightarrow> 1
      | Some v \<Rightarrow> if py_truthy v then (case py_int v of None \<Rightarrow> 1 | Some n \<Rightarrow> max 0 n + 1) else 1)"

definition attempt_object :: "string \<Rightarrow> int \<Rightarrow> string \<Rightarrow> string \<Rightarrow> string \<Rightarrow> json" where
  "attempt_object attempt_id number action_id selected_by selected_at =
     JObj [(''id'', JStr (''recovery-attempt-'' @ attempt_id)), (''number'', JInt number), (''action_id'', JStr action_id),
       (''selected_by'', JStr selected_by), (''selected_at'', JStr selected_at)]"

definition selected_lifecycle :: "string \<Rightarrow> string \<Rightarrow> string \<Rightarrow> string \<Rightarrow> recovery_plan_row \<Rightarrow> jobj" where
  "selected_lifecycle attempt_id selected_at action_id selected_by r =
     [(''phase'', JStr ''selected''),
      (''attempt'', attempt_object attempt_id (next_attempt_number (as_mapping (jget (row_lifecycle r) ''attempt''))) action_id selected_by selected_at)]"

definition set_selected :: "time \<Rightarrow> string \<Rightarrow> string \<Rightarrow> jobj \<Rightarrow> recovery_plan_row \<Rightarrow> recovery_plan_row" where
  "set_selected now action_id selected_by lifecycle r =
     r\<lparr>rc_status := ''selected'', rc_selected_action_id := Some action_id, rc_selected_by := Some selected_by,
       rc_payload := AList.update ''lifecycle'' (JObj lifecycle) (rc_payload r), rc_updated_at := now\<rparr>"

definition select_recovery_plan_action_if_open ::
    "time \<Rightarrow> string \<Rightarrow> string \<Rightarrow> string \<Rightarrow> string \<Rightarrow> string \<Rightarrow> string \<Rightarrow> recovery_plan_row list \<Rightarrow>
     recovery_plan_row option \<times> recovery_plan_row list" where
  "select_recovery_plan_action_if_open now attempt_id selected_at plan_id ws action_id selected_by rows =
     (case find (plan_in_status plan_id ws OPEN_RECOVERY_PLAN_STATUSES) rows of
        None \<Rightarrow> (None, rows)
      | Some r \<Rightarrow>
          let chosen = set_selected now action_id selected_by (selected_lifecycle attempt_id selected_at action_id selected_by r)
          in (Some (chosen r), update_where (\<lambda>x. rc_id x = rc_id r \<and> rc_status x \<in> set OPEN_RECOVERY_PLAN_STATUSES) chosen rows))"

definition reopenable :: "string \<Rightarrow> string \<Rightarrow> string \<Rightarrow> recovery_plan_row \<Rightarrow> bool" where
  "reopenable plan_id ws action_id r \<longleftrightarrow>
     plan_key r = (ws, plan_id) \<and> rc_status r = ''selected'' \<and> rc_selected_action_id r = Some action_id"

definition set_reopened :: "time \<Rightarrow> recovery_plan_row \<Rightarrow> recovery_plan_row" where
  "set_reopened now r =
     r\<lparr>rc_status := ''selection_requested'', rc_selected_action_id := None, rc_selected_by := None, rc_updated_at := now\<rparr>"

definition reopen_recovery_plan_action ::
    "time \<Rightarrow> string \<Rightarrow> string \<Rightarrow> string \<Rightarrow> recovery_plan_row list \<Rightarrow> bool \<times> recovery_plan_row list" where
  "reopen_recovery_plan_action now plan_id ws action_id rows =
     (list_ex (reopenable plan_id ws action_id) rows, update_where (reopenable plan_id ws action_id) (set_reopened now) rows)"

record pull_identity =
  pi_action :: string
  pi_merged :: bool
  pi_url :: string
  pi_number :: int
  pi_node_id :: string
  pi_repo_ref :: string
  pi_base_branch :: string
  pi_head_ref :: string
  pi_head_sha :: string
  pi_merge_commit_sha :: string

definition tracks_pull_request :: "recovery_flow \<Rightarrow> pull_identity \<Rightarrow> recovery_plan_row \<Rightarrow> bool" where
  "tracks_pull_request fl p r \<longleftrightarrow>
     (let pr = jsonb_get (jget (rc_payload r) ''lifecycle'') ''pr''; column = (\<lambda>k. astext (fl_pg fl) (jsonb_get pr k))
      in rc_status r = ''pr_open'' \<and> column ''url'' = Some (pi_url p) \<and>
         map_option ascii_lower (column ''repo_ref'') = Some (ascii_lower (pi_repo_ref p)) \<and>
         column ''base_branch'' = Some (pi_base_branch p) \<and> column ''number'' = Some (int_text (pi_number p)) \<and>
         column ''node_id'' = Some (pi_node_id p) \<and> column ''head_ref'' = Some (pi_head_ref p))"

definition the_only :: "'a list \<Rightarrow> 'a option" where
  "the_only xs = (case xs of [x] \<Rightarrow> Some x | _ \<Rightarrow> None)"

definition find_open_recovery_plan_for_pull_request_base_identity ::
    "recovery_flow \<Rightarrow> pull_identity \<Rightarrow> recovery_plan_row list \<Rightarrow> recovery_plan_row option" where
  "find_open_recovery_plan_for_pull_request_base_identity fl p rows = the_only (filter (tracks_pull_request fl p) rows)"

definition find_open_recovery_plan_for_pull_request ::
    "recovery_flow \<Rightarrow> pull_identity \<Rightarrow> recovery_plan_row list \<Rightarrow> recovery_plan_row option" where
  "find_open_recovery_plan_for_pull_request fl p rows =
     the_only (filter (\<lambda>r. tracks_pull_request fl p r \<and>
       astext (fl_pg fl) (jsonb_get (jsonb_get (jget (rc_payload r) ''lifecycle'') ''pr'') ''head_sha'') = Some (pi_head_sha p)) rows)"

section \<open>Approvals\<close>

definition OPEN_APPROVAL_STATUSES :: "string list" where
  "OPEN_APPROVAL_STATUSES = [''requested'', ''not_required'']"

text \<open>An approval that was decided is not changed by asking for it again.\<close>

definition request_workflow_approval :: "recovery_approval \<Rightarrow> recovery_approval list \<Rightarrow> recovery_approval list" where
  "request_workflow_approval a approvals =
     (if ra_approval_id a \<in> ra_approval_id ` set approvals
      then update_where (\<lambda>b. ra_approval_id b = ra_approval_id a \<and> ra_status b \<in> set OPEN_APPROVAL_STATUSES)
        (\<lambda>b. b\<lparr>ra_status := ra_status a, ra_details := ra_details a\<rparr>) approvals
      else approvals @ [a])"

definition get_recovery_approval :: "string \<Rightarrow> string \<Rightarrow> recovery_approval list \<Rightarrow> recovery_approval option" where
  "get_recovery_approval approval_id ws approvals = find (\<lambda>a. ra_approval_id a = approval_id \<and> ra_workspace_id a = ws) approvals"

text \<open>\<^verbatim>\<open>recovery_approval_id\<close> of the router and \<^verbatim>\<open>recovery_approval_identity\<close> of the worker.\<close>

definition recovery_approval_id :: "recovery_flow \<Rightarrow> string \<Rightarrow> string \<Rightarrow> string" where
  "recovery_approval_id fl plan_id action_id =
     ''approval-'' @ digest32 fl (plan_id @ ''|'' @ action_id @ ''|recovery-action'')"

definition recovery_retry_approval_id :: "recovery_flow \<Rightarrow> string \<Rightarrow> string \<Rightarrow> int \<Rightarrow> string" where
  "recovery_retry_approval_id fl plan_id action_id attempt =
     ''approval-'' @ digest32 fl (plan_id @ ''|'' @ action_id @ ''|safe-pr-retry|'' @ int_text attempt)"

definition recovery_policy_decision_ref :: "string \<Rightarrow> string" where
  "recovery_policy_decision_ref approval_ref = ''recovery:'' @ approval_ref @ '':selected''"

definition candidate_with_approval :: "string \<Rightarrow> jobj \<Rightarrow> jobj" where
  "candidate_with_approval approval_ref c =
     AList.update ''draft'' (JObj (AList.update ''params''
       (JObj (update_fields [(''approval_ref'', JStr approval_ref), (''policy_decision_ref'', JStr (recovery_policy_decision_ref approval_ref))]
         (candidate_params c))) (candidate_draft c))) c"

text \<open>The candidate gets the workflow run of its stored approval.\<close>

definition candidate_with_approval_identity :: "recovery_flow \<Rightarrow> recovery_approval \<Rightarrow> jobj \<Rightarrow> jobj" where
  "candidate_with_approval_identity fl a c =
     (let named_run = (case jget (candidate_params c) ''workflow_run_id'' of None \<Rightarrow> [] | Some v \<Rightarrow> py_str (fl_render fl) v);
          run = (if named_run = [] then fl_derived_run fl (ra_workspace_id a) (candidate_params c) else named_run)
      in if run = [] then c
         else AList.update ''draft'' (JObj (AList.update ''params''
           (JObj (AList.update ''workflow_run_id'' (JStr run) (candidate_params c))) (candidate_draft c))) c)"

text \<open>The approval an operator gives by selecting a candidate.\<close>

definition recovery_approval_payload :: "recovery_flow \<Rightarrow> jobj \<Rightarrow> jobj \<Rightarrow> string \<Rightarrow> string \<Rightarrow> recovery_approval" where
  "recovery_approval_payload fl plan chosen ws approval_ref =
     \<lparr>ra_approval_id = approval_ref,
      ra_workspace_id = (let own = field_value (as_mapping (jget plan ''target'')) ''workspace_id'';
          param = field_value (candidate_params chosen) ''workspace_id''
        in if py_truthy own then py_str (fl_render fl) own else if py_truthy param then py_str (fl_render fl) param else ws),
      ra_status = ''granted'',
      ra_details = [(''approval_ref'', JStr approval_ref), (''policy_decision_ref'', JStr (recovery_policy_decision_ref approval_ref)),
        (''recovery_plan_id'', JStr (candidate_text plan ''plan_id'')), (''recovery_action_id'', JStr (candidate_text chosen ''action_id'')),
        (''selected_candidate'', JObj chosen)]\<rparr>"

section \<open>A pull request was created\<close>

record safe_pr_created =
  sc_pr_url :: string
  sc_mode :: string
  sc_workspace_id :: string
  sc_repository_id :: string
  sc_binding_id :: string
  sc_application_id :: string
  sc_environment :: string
  sc_manifest_path :: string
  sc_repo_ref :: string
  sc_base_branch :: string
  sc_commit_sha :: string
  sc_patch_sha256 :: string
  sc_pr_number :: "int option"
  sc_pr_node_id :: string
  sc_head_ref :: string
  sc_head_sha :: string

definition selected_recovery_candidate :: "recovery_plan_row \<Rightarrow> jobj option" where
  "selected_recovery_candidate r =
     (case rc_selected_action_id r of
        None \<Rightarrow> None
      | Some a \<Rightarrow>
          if py_strip a = [] then None
          else the_only (filter (\<lambda>c. text_value (jget c ''action_id'') = py_strip a)
            (objects (json_items (jget (rc_payload r) ''candidates'')))))"

definition recovery_approval_record ::
    "recovery_flow \<Rightarrow> recovery_plan_row \<Rightarrow> string \<Rightarrow> recovery_approval list \<Rightarrow> recovery_approval option" where
  "recovery_approval_record fl r ws approvals =
     (case rc_selected_action_id r of
        None \<Rightarrow> None
      | Some a \<Rightarrow>
          if py_strip (rc_plan_id r) = [] \<or> py_strip a = [] then None
          else get_recovery_approval (recovery_approval_id fl (py_strip (rc_plan_id r)) (py_strip a)) ws approvals)"

definition selected_candidate_params :: "recovery_approval option \<Rightarrow> jobj" where
  "selected_candidate_params approval =
     (case approval of None \<Rightarrow> [] | Some a \<Rightarrow> candidate_params (as_mapping (jget (ra_details a) ''selected_candidate'')))"

fun change_contract_items :: "json list \<Rightarrow> string list \<Rightarrow> jobj list option" where
  "change_contract_items [] paths = Some []"
| "change_contract_items (item # items) paths =
     (case item of
        JObj d \<Rightarrow>
          let path = text_value (jget d ''field_path'')
          in if path = [] \<or> path \<in> set paths \<or> jget d ''current_value'' = None \<or> jget d ''desired_value'' = None then None
             else map_option ((#) [(''field_path'', JStr path), (''current_value'', field_value d ''current_value''),
               (''desired_value'', field_value d ''desired_value'')]) (change_contract_items items (path # paths))
      | _ \<Rightarrow> None)"

definition approved_change_contract :: "json option \<Rightarrow> jobj list" where
  "approved_change_contract v =
     (case v of Some (JArr items) \<Rightarrow> (case change_contract_items items [] of None \<Rightarrow> [] | Some cs \<Rightarrow> cs) | _ \<Rightarrow> [])"

definition first_text :: "jobj list \<Rightarrow> string \<Rightarrow> json" where
  "first_text ds k = (case find (\<lambda>d. present (jget d k)) ds of None \<Rightarrow> field_value (last ds) k | Some d \<Rightarrow> field_value d k)"

definition selected_recovery_target :: "jobj \<Rightarrow> jobj \<Rightarrow> jobj" where
  "selected_recovery_target payload chosen =
     (let sources = [candidate_params chosen, candidate_draft chosen, as_mapping (jget payload ''target'')]
      in map (\<lambda>k. (k, JStr (text_value (Some (first_text sources k))))) [''cluster_id'', ''namespace'', ''resource_kind'', ''resource_name''])"

text \<open>\<^verbatim>\<open>^[0-9a-f]{40,64}$\<close>.\<close>

definition github_sha :: "string \<Rightarrow> bool" where
  "github_sha v \<longleftrightarrow> 40 \<le> length v \<and> length v \<le> 64 \<and>
     list_all (\<lambda>c. let n = (of_char c :: nat) in (48 \<le> n \<and> n \<le> 57) \<or> (97 \<le> n \<and> n \<le> 102)) v"

definition safe_pr_trackable :: "safe_pr_created \<Rightarrow> bool" where
  "safe_pr_trackable evt \<longleftrightarrow>
     sc_mode evt = ''github_rest'' \<and> prefix ''https://'' (sc_pr_url evt) \<and>
     (case sc_pr_number evt of None \<Rightarrow> False | Some n \<Rightarrow> 0 < n) \<and> sc_pr_node_id evt \<noteq> [] \<and> sc_head_ref evt \<noteq> [] \<and>
     github_sha (sc_head_sha evt)"

definition safe_pr_identity :: "safe_pr_created \<Rightarrow> (string \<times> string) list" where
  "safe_pr_identity evt =
     [(''repository_id'', sc_repository_id evt), (''binding_id'', sc_binding_id evt), (''application_id'', sc_application_id evt),
      (''repo_ref'', sc_repo_ref evt), (''base_branch'', sc_base_branch evt), (''commit_sha'', sc_commit_sha evt)]"

definition safe_pr_identity_error :: "safe_pr_created \<Rightarrow> jobj \<Rightarrow> bool" where
  "safe_pr_identity_error evt params \<longleftrightarrow>
     \<not> safe_pr_trackable evt \<or> list_ex (\<lambda>(k, v). text_value (jget params k) \<noteq> v) (safe_pr_identity evt)"

definition bounded_env_seconds :: "string \<Rightarrow> int \<Rightarrow> int \<Rightarrow> int \<Rightarrow> int" where
  "bounded_env_seconds v dflt lower upper = max lower (min (case parse_int v of None \<Rightarrow> dflt | Some n \<Rightarrow> n) upper)"

definition verification_window_seconds :: "recovery_flow \<Rightarrow> int \<times> int" where
  "verification_window_seconds fl =
     (let shortest = bounded_env_seconds (fl_min_seconds fl) DEFAULT_MINIMUM_SECONDS DEFAULT_MINIMUM_SECONDS DEFAULT_MAXIMUM_SECONDS
      in (shortest, bounded_env_seconds (fl_max_seconds fl) DEFAULT_MAXIMUM_SECONDS shortest DEFAULT_MAXIMUM_SECONDS))"

definition bounded_ratio :: "rat option \<Rightarrow> rat \<Rightarrow> rat" where
  "bounded_ratio parsed dflt = (case parsed of None \<Rightarrow> dflt | Some q \<Rightarrow> max 0 (min q (1 / 2)))"

text \<open>What the verification starts from, read when the request is created.\<close>

record recovery_baseline =
  rb_failure_ratio :: "rat option"
  rb_failure_identity :: "jobj option"
  rb_request_rate :: "rat option"
  rb_request_identity :: "jobj option"
  rb_before :: jobj
  rb_replicas :: "int option"
  rb_cadence :: "int option"
  rb_protected :: "jobj list"
  rb_sessions :: "jobj list"
  rb_continuity :: bool
  rb_changes :: "jobj list"

definition approved_identity :: "jobj \<Rightarrow> string \<Rightarrow> (rat \<times> jobj) option \<Rightarrow> jobj option" where
  "approved_identity params k collected =
     (let approved = as_mapping (jget params k) in if approved \<noteq> [] then metric_identity approved else map_option snd collected)"

definition approved_number :: "recovery_env \<Rightarrow> jobj \<Rightarrow> string \<Rightarrow> (rat \<times> jobj) option \<Rightarrow> rat option" where
  "approved_number rv params k collected =
     (case finite_float rv (jget params k) of None \<Rightarrow> map_option fst collected | Some q \<Rightarrow> Some q)"

definition recovery_baseline_of ::
    "recovery_env \<Rightarrow> jobj \<Rightarrow> jobj \<Rightarrow> jobj \<Rightarrow> jobj list \<Rightarrow> jobj option \<Rightarrow> string \<Rightarrow> string \<Rightarrow> time \<Rightarrow> recovery_baseline" where
  "recovery_baseline_of rv params target evidence alerts registration correlation_id incident_id now =
     (let ratio = metric_sample_with_identity rv evidence STANDARD_FAILURE_RATIO_METRIC target [];
          rate = metric_sample_with_identity rv evidence STANDARD_REQUEST_RATE_METRIC target [];
          failure_ratio = approved_number rv params ''verification_failure_ratio_before'' ratio;
          failure_identity = approved_identity params ''verification_failure_ratio_metric_identity'' ratio;
          request_rate = approved_number rv params ''verification_request_rate_baseline'' rate;
          sessions = objects (json_items (jget params ''protected_session_baseline''));
          approved_before = as_mapping (jget params ''verification_alert_before'');
          before = (if approved_before \<noteq> [] then approved_before
            else before_alert_snapshot rv alerts target correlation_id incident_id (map_option JObj failure_identity))
      in \<lparr>rb_failure_ratio = failure_ratio, rb_failure_identity = failure_identity, rb_request_rate = request_rate,
          rb_request_identity = approved_identity params ''verification_request_rate_metric_identity'' rate,
          rb_before = update_fields [(''captured_at'', JStr (rv_isoformat rv now)), (''failure_ratio'', float_or_null failure_ratio),
             (''request_rate'', float_or_null request_rate), (''metrics_evidence_ref'', field_value evidence ''object_ref''),
             (''protected_workloads'', JArr (map JObj (case protected_workloads evidence target None of None \<Rightarrow> [] | Some ws \<Rightarrow> ws))),
             (''protected_active_sessions'', JArr (map JObj sessions))] before,
          rb_replicas = nonnegative_int (jget params ''expected_replicas''),
          rb_cadence = (case nonnegative_int (jget params ''verification_evidence_cadence_seconds'') of
             Some n \<Rightarrow> Some n
           | None \<Rightarrow> (case registration of None \<Rightarrow> None
               | Some g \<Rightarrow> nonnegative_int (jget (as_mapping (jget g ''settings'')) ''evidence_interval_seconds''))),
          rb_protected = objects (json_items (jget params ''protected_baseline'')), rb_sessions = sessions,
          rb_continuity = (text_value (jget params ''verification_contract'') = ''protected_workload_continuity''),
          rb_changes = approved_change_contract (jget params ''authorized_changes'')\<rparr>)"

definition not_positive :: "('a :: linordered_idom) option \<Rightarrow> bool" where
  "not_positive v \<longleftrightarrow> (case v of None \<Rightarrow> True | Some x \<Rightarrow> x \<le> 0)"

text \<open>Why the pull request may not be merged yet.\<close>

definition missing_prerequisites :: "recovery_env \<Rightarrow> recovery_baseline \<Rightarrow> string list" where
  "missing_prerequisites rv b =
     sort (remdups
       ((if rb_continuity b \<and> (rb_protected b = [] \<or> rb_sessions b = [])
         then [''metadata:current_workload_snapshots'', ''metrics:opsia_continuity_active_sessions''] else []) @
        (if rb_failure_ratio b = None then [''metrics:opsia_sli_failure_ratio''] else []) @
        (if rb_failure_identity b = None then [''metrics:opsia_sli_failure_ratio_identity''] else []) @
        (if not_positive (rb_request_rate b) then [''metrics:opsia_sli_request_rate''] else []) @
        (if rb_request_identity b = None then [''metrics:opsia_sli_request_rate_identity''] else []) @
        (if jget (rb_before b) ''available'' \<noteq> Some (JBool True) \<or> finite_float rv (jget (rb_before b) ''threshold'') = None
         then [''alertmanager:original_exact_alert''] else []) @
        (if rb_replicas b = None then [''gitops:approved_replica_baseline''] else []) @
        (if rb_changes b = [] then [''gitops:approved_change_contract''] else []) @
        (if not_positive (rb_cadence b) then [''cluster:evidence_cadence''] else [])))"

definition object_or_null :: "jobj option \<Rightarrow> json" where
  "object_or_null v = (case v of None \<Rightarrow> JNull | Some d \<Rightarrow> JObj d)"

definition waiting_verification :: "recovery_flow \<Rightarrow> jobj \<Rightarrow> recovery_baseline \<Rightarrow> jobj" where
  "waiting_verification fl target b =
     (let rv = fl_rv fl; (shortest, longest) = verification_window_seconds fl; missing = missing_prerequisites rv b
      in [(''minimum_seconds'', JInt shortest), (''maximum_seconds'', JInt longest),
          (''expected'', JObj
             [(''failure_ratio_max'', float_or_null (finite_float rv (jget (rb_before b) ''threshold''))),
              (''request_rate_baseline'', float_or_null (rb_request_rate b)),
              (''request_rate_tolerance_ratio'', JFloat (bounded_ratio (finite_float rv (Some (JStr (fl_load_tolerance fl)))) (1 / 5))),
              (''replicas'', int_or_null (rb_replicas b)), (''failure_ratio_metric_identity'', object_or_null (rb_failure_identity b)),
              (''request_rate_metric_identity'', object_or_null (rb_request_identity b)),
              (''evidence_cadence_seconds'', int_or_null (rb_cadence b)),
              (''protected_workloads'', JInt (if rb_continuity b then int (length (rb_protected b)) else 0))]),
          (''before'', JObj (rb_before b)), (''protected_baseline'', JArr (map JObj (rb_protected b))),
          (''protected_session_baseline'', JArr (map JObj (rb_sessions b))), (''target'', JObj target),
          (''status'', JStr (if missing \<noteq> [] then ''merge_blocked'' else ''waiting_for_merge'')),
          (''blockers'', JArr (map JStr missing))])"

definition pr_object :: "recovery_flow \<Rightarrow> safe_pr_created \<Rightarrow> jobj \<Rightarrow> jobj \<Rightarrow> time \<Rightarrow> jobj" where
  "pr_object fl evt target attempt now =
     [(''url'', JStr (sc_pr_url evt)), (''number'', int_or_null (sc_pr_number evt)), (''node_id'', JStr (sc_pr_node_id evt)),
      (''head_ref'', JStr (sc_head_ref evt)), (''head_sha'', JStr (sc_head_sha evt)), (''repo_ref'', JStr (sc_repo_ref evt)),
      (''repository_id'', JStr (sc_repository_id evt)), (''binding_id'', JStr (sc_binding_id evt)),
      (''application_id'', JStr (sc_application_id evt)), (''base_branch'', JStr (sc_base_branch evt)),
      (''manifest_path'', JStr (sc_manifest_path evt)), (''environment'', JStr (sc_environment evt)),
      (''cluster_id'', field_value target ''cluster_id''), (''patch_sha256'', JStr (sc_patch_sha256 evt)),
      (''tracked_at'', JStr (rv_isoformat (fl_rv fl) now))] @
     (if text_value (jget attempt ''id'') = [] then [] else [(''attempt_id'', JStr (text_value (jget attempt ''id'')))])"

definition pr_open_lifecycle :: "recovery_flow \<Rightarrow> safe_pr_created \<Rightarrow> recovery_plan_row \<Rightarrow> jobj \<Rightarrow> recovery_baseline \<Rightarrow> time \<Rightarrow> jobj" where
  "pr_open_lifecycle fl evt r target b now =
     (let attempt = as_mapping (jget (row_lifecycle r) ''attempt'')
      in [(''phase'', JStr ''pr_open''), (''attempt'', JObj attempt), (''pr'', JObj (pr_object fl evt target attempt now)),
          (''verification'', JObj (waiting_verification fl target b)),
          (''authorization'', JObj [(''target'', JObj target), (''changes'', JArr (map JObj (rb_changes b)))])])"

text \<open>The tables the handler only reads are its arguments, alerts as the query returns them.\<close>

definition on_recovery_safe_pr_created ::
    "recovery_flow \<Rightarrow> string \<Rightarrow> safe_pr_created \<Rightarrow> jobj \<Rightarrow> jobj list \<Rightarrow> jobj option \<Rightarrow> time \<Rightarrow> recovery_state \<Rightarrow> flow_body list \<times> recovery_state" where
  "on_recovery_safe_pr_created fl correlation_id evt evidence alerts registration now st =
     (let ws = sc_workspace_id evt in
      case get_recovery_plan_by_correlation correlation_id ws (rs_plans st) of
        None \<Rightarrow> ([], st)
      | Some r \<Rightarrow>
          if rc_status r \<noteq> ''selected'' then ([], st)
          else case selected_recovery_candidate r of
            None \<Rightarrow> ([], st)
          | Some chosen \<Rightarrow>
              if chosen = [] \<or> text_value (jget chosen ''route'') \<noteq> ROUTE_SAFE_PR then ([], st)
              else
                let params = selected_candidate_params (recovery_approval_record fl r ws (rs_approvals st))
                in if safe_pr_identity_error evt params
                   then (let (reopened, rows) = reopen_recovery_plan_action now (rc_plan_id r) ws
                           (case rc_selected_action_id r of None \<Rightarrow> [] | Some a \<Rightarrow> a) (rs_plans st)
                         in (if reopened then [RcaFollowupRequired ''safe_pr_identity_incomplete'' (or_default (rc_evidence_ref r) ''unknown'')] else [],
                             st\<lparr>rs_plans := rows\<rparr>))
                   else
                     let target = selected_recovery_target (rc_payload r) chosen;
                         b = recovery_baseline_of (fl_rv fl) params target evidence alerts registration correlation_id (rc_incident_id r) now
                     in case update_recovery_plan_lifecycle_if_status now (rc_plan_id r) ws [''selected''] ''pr_open''
                          (pr_open_lifecycle fl evt r target b now) False (rs_plans st) of
                          (None, rows) \<Rightarrow> ([], st\<lparr>rs_plans := rows\<rparr>)
                        | (Some _, rows) \<Rightarrow> ([RecoveryPrTracked (rc_plan_id r) (rc_incident_id r) (sc_pr_url evt)], st\<lparr>rs_plans := rows\<rparr>))"

section \<open>The pull request on GitHub\<close>

definition github_pull_request_identity :: "(json \<Rightarrow> string) \<Rightarrow> jobj \<Rightarrow> pull_identity option" where
  "github_pull_request_identity render payload =
     (case (jget payload ''pull_request'', jget payload ''repository'') of
        (Some (JObj pull), Some (JObj repository)) \<Rightarrow>
          (case (jget pull ''head'', jget pull ''base'') of
             (Some (JObj head), Some (JObj base)) \<Rightarrow>
               (case (if present (jget pull ''number'') then jget pull ''number'' else jget payload ''number'') of
                  Some (JInt number) \<Rightarrow>
                    let p = \<lparr>pi_action = text_or render payload ''action'' [], pi_merged = (jget pull ''merged'' = Some (JBool True)),
                          pi_url = text_or render pull ''html_url'' [], pi_number = number, pi_node_id = text_or render pull ''node_id'' [],
                          pi_repo_ref = text_or render repository ''full_name'' [], pi_base_branch = text_or render base ''ref'' [],
                          pi_head_ref = text_or render head ''ref'' [], pi_head_sha = text_or render head ''sha'' [],
                          pi_merge_commit_sha = text_or render pull ''merge_commit_sha'' []\<rparr>
                    in if 0 < number \<and> [] \<notin> {pi_url p, pi_node_id p, pi_repo_ref p, pi_base_branch p, pi_head_ref p, pi_head_sha p}
                       then Some p else None
                | _ \<Rightarrow> None)
           | _ \<Rightarrow> None)
      | _ \<Rightarrow> None)"

definition poll_target_keys :: "string list" where
  "poll_target_keys = [''workspace_id'', ''repository_id'', ''repo_ref'', ''branch'', ''binding_id'', ''application_id'', ''environment'',
     ''cluster_id'', ''manifest_path'']"

text \<open>The one active poll target that is the binding of the pull request.\<close>

definition exact_recovery_poll_target :: "(json \<Rightarrow> string) \<Rightarrow> jobj list \<Rightarrow> recovery_plan_row \<Rightarrow> jobj option" where
  "exact_recovery_poll_target render targets r =
     (case (jget (rc_payload r) ''lifecycle'', jget (rc_payload r) ''target'') of
        (Some (JObj lifecycle), Some (JObj target)) \<Rightarrow>
          (case jget lifecycle ''pr'' of
             Some (JObj pr) \<Rightarrow>
               let expected = (\<lambda>k. if k = ''workspace_id'' then rc_workspace_id r
                     else if k = ''branch'' then text_or render pr ''base_branch'' []
                     else if k = ''cluster_id'' then text_or render pr k (text_or render target k [])
                     else text_or render pr k []);
                   same = (\<lambda>k a b. if k = ''repo_ref'' then ascii_lower a = ascii_lower b else a = b)
               in if [] \<in> expected ` set poll_target_keys then None
                  else the_only (filter (\<lambda>t. list_all (\<lambda>k. same k (text_or render t k []) (expected k)) poll_target_keys)
                    (active_github_poll_targets render targets))
           | _ \<Rightarrow> None)
      | _ \<Rightarrow> None)"

datatype pull_reply =
    PullNotTracked
  | PullIgnored
  | PullBlocked "string list"
  | PullAccepted "flow_body list"

definition failed_pull_lifecycle :: "string \<Rightarrow> recovery_plan_row \<Rightarrow> jobj" where
  "failed_pull_lifecycle reason_code r =
     update_fields [(''phase'', JStr ''failed''), (''failure'', JObj [(''reason_code'', JStr reason_code)])] (row_lifecycle r)"

text \<open>A pull request that can no longer be merged opens the selection again.\<close>

definition reject_tracked_recovery_pull_request ::
    "time \<Rightarrow> recovery_plan_row \<Rightarrow> string \<Rightarrow> recovery_plan_row list \<Rightarrow> pull_reply \<times> recovery_plan_row list" where
  "reject_tracked_recovery_pull_request now r reason_code rows =
     (case update_recovery_plan_lifecycle_if_status now (rc_plan_id r) (rc_workspace_id r) [''pr_open''] ''selection_requested''
        (failed_pull_lifecycle reason_code r) True rows of
        (None, rows') \<Rightarrow> (PullIgnored, rows')
      | (Some _, rows') \<Rightarrow>
          (PullAccepted [VerificationBody (RecoveryVerificationFailed (rc_plan_id r) (rc_incident_id r) reason_code
             (or_default (rc_evidence_ref r) ''unknown'') (as_mapping (jget (row_verification r) ''before'')) [])], rows'))"

definition recovery_merge_workflow_run_id :: "recovery_flow \<Rightarrow> string \<Rightarrow> string \<Rightarrow> string" where
  "recovery_merge_workflow_run_id fl plan_id merge_commit_sha =
     ''workflow-'' @ digest32 fl (plan_id @ ''|'' @ merge_commit_sha @ ''|recovery-merge'')"

definition merge_blockers :: "(json \<Rightarrow> string) \<Rightarrow> recovery_plan_row \<Rightarrow> string list" where
  "merge_blockers render r =
     filter (\<lambda>t. t \<noteq> []) (map (py_str render) (json_items (jget (row_verification r) ''blockers'')))"

text \<open>The request that deploys the merge: attribute 11 is the workflow run.\<close>

definition merged_deployment ::
    "recovery_flow \<Rightarrow> recovery_plan_row \<Rightarrow> pull_identity \<Rightarrow> jobj \<Rightarrow> pyval list" where
  "merged_deployment fl r p target =
     (body_for_poll_target (fl_render fl) target (pi_merge_commit_sha p) (fl_webhook_image fl) (Some (rc_correlation_id r))
        (case approved_replica_count (fl_render fl) (rc_payload r) of None \<Rightarrow> DEFAULT_WEBHOOK_REPLICAS | Some n \<Rightarrow> n) True)
     [11 := PStr (recovery_merge_workflow_run_id fl (rc_plan_id r) (pi_merge_commit_sha p))]"

definition merged_lifecycle :: "recovery_flow \<Rightarrow> recovery_plan_row \<Rightarrow> pull_identity \<Rightarrow> jobj \<Rightarrow> time \<Rightarrow> jobj" where
  "merged_lifecycle fl r p target now =
     (let lifecycle = row_lifecycle r; pr = as_mapping (jget lifecycle ''pr'')
      in update_fields [(''phase'', JStr ''deploy_pending''),
          (''merge'', JObj [(''pr_url'', JStr (pi_url p)), (''head_sha'', JStr (pi_head_sha p)),
             (''merge_commit_sha'', JStr (pi_merge_commit_sha p)), (''merged_at'', JStr (rv_isoformat (fl_rv fl) now)),
             (''workflow_run_id'', JStr (recovery_merge_workflow_run_id fl (rc_plan_id r) (pi_merge_commit_sha p))),
             (''repository_id'', field_value pr ''repository_id''), (''binding_id'', field_value pr ''binding_id''),
             (''application_id'', field_value pr ''application_id''), (''cluster_id'', field_value pr ''cluster_id''),
             (''attempt_id'', field_value (as_mapping (jget lifecycle ''attempt'')) ''id''), (''retry_attempt'', JInt 0),
             (''deployment_request'', JObj (to_body git_webhook_received_body (merged_deployment fl r p target)))])] lifecycle)"

definition handle_tracked_recovery_pull_request ::
    "recovery_flow \<Rightarrow> jobj \<Rightarrow> jobj list \<Rightarrow> time \<Rightarrow> recovery_plan_row list \<Rightarrow> pull_reply \<times> recovery_plan_row list" where
  "handle_tracked_recovery_pull_request fl payload targets now rows =
     (case github_pull_request_identity (fl_render fl) payload of
        None \<Rightarrow> (PullNotTracked, rows)
      | Some p \<Rightarrow>
          (case find_open_recovery_plan_for_pull_request_base_identity fl p rows of
             None \<Rightarrow> (PullNotTracked, rows)
           | Some base \<Rightarrow>
               if pi_action p = ''synchronize'' then reject_tracked_recovery_pull_request now base ''safe_pr_head_changed'' rows
               else if pi_action p \<noteq> ''closed'' then (PullIgnored, rows)
               else if \<not> pi_merged p then reject_tracked_recovery_pull_request now base ''safe_pr_closed_without_merge'' rows
               else case find_open_recovery_plan_for_pull_request fl p rows of
                 None \<Rightarrow> reject_tracked_recovery_pull_request now base ''safe_pr_head_mismatch'' rows
               | Some r \<Rightarrow>
                   (case exact_recovery_poll_target (fl_render fl) targets r of
                      None \<Rightarrow> reject_tracked_recovery_pull_request now r ''recovery_binding_unavailable'' rows
                    | Some target \<Rightarrow>
                        let blockers = merge_blockers (fl_render fl) r
                        in if blockers \<noteq> [] then (PullBlocked blockers, rows)
                           else if fl_webhook_image fl = [] \<or> pi_merge_commit_sha p = [] \<or>
                             merged_change_contract (fl_render fl) (rc_payload r) = None
                           then reject_tracked_recovery_pull_request now r ''recovery_deploy_context_incomplete'' rows
                           else case update_recovery_plan_lifecycle_if_status now (rc_plan_id r) (rc_workspace_id r) [''pr_open'']
                               ''deploy_pending'' (merged_lifecycle fl r p target now) False rows of
                               (None, rows') \<Rightarrow> (PullIgnored, rows')
                             | (Some _, rows') \<Rightarrow>
                                 (PullAccepted [RecoveryPrMerged (rc_plan_id r) (rc_incident_id r) (pi_url p) (pi_merge_commit_sha p)
                                      (recovery_merge_workflow_run_id fl (rc_plan_id r) (pi_merge_commit_sha p)),
                                    GitWebhookReceived (merged_deployment fl r p target)], rows'))))"

section \<open>Failures\<close>

definition deploy_failed_lifecycle :: "string \<Rightarrow> recovery_plan_row \<Rightarrow> jobj" where
  "deploy_failed_lifecycle workflow_run_id r =
     update_fields [(''phase'', JStr ''failed''), (''failure'', JObj [(''reason_code'', JStr ''recovery_deploy_failed''),
       (''workflow_run_id'', JStr workflow_run_id)])] (row_lifecycle r)"

definition on_recovery_deploy_failed ::
    "recovery_flow \<Rightarrow> string \<Rightarrow> string \<Rightarrow> string \<Rightarrow> string \<Rightarrow> time \<Rightarrow> recovery_plan_row list \<Rightarrow> flow_body list \<times> recovery_plan_row list" where
  "on_recovery_deploy_failed fl ws workflow_run_id binding_id app_id now rows =
     (case get_recovery_plan_for_workflow (fl_pg fl) ws workflow_run_id binding_id app_id rows of
        None \<Rightarrow> ([], rows)
      | Some r \<Rightarrow>
          if rc_status r \<noteq> ''deploy_pending'' then ([], rows)
          else case update_recovery_plan_lifecycle_if_status now (rc_plan_id r) ws [''deploy_pending''] ''failed''
              (deploy_failed_lifecycle workflow_run_id r) False rows of
              (None, rows') \<Rightarrow> ([], rows')
            | (Some _, rows') \<Rightarrow>
                ([VerificationBody (RecoveryVerificationFailed (rc_plan_id r) (rc_incident_id r) ''recovery_deploy_failed''
                   (or_default (rc_evidence_ref r) ''unknown'') (as_mapping (jget (row_verification r) ''before'')) [])], rows'))"

definition RETRYABLE_RECOVERY_REASON_CODES :: "string list" where
  "RETRYABLE_RECOVERY_REASON_CODES =
     [''gitops_authority_unavailable'', ''gitops_authority_mismatch'', ''safe_pr_patch_missing'', ''safe_pr_patch_unsupported'',
      ''safe_pr_preflight_failed'', ''safe_pr_preflight_unavailable'', ''pre_recovery_continuity_baseline_missing'',
      ''pre_recovery_sli_baseline_missing'', ''recovery_verification_prerequisites_missing'']"

definition reopen_recovery_selection ::
    "string \<Rightarrow> string \<Rightarrow> jobj \<Rightarrow> time \<Rightarrow> recovery_plan_row list \<Rightarrow> bool \<times> recovery_plan_row list" where
  "reopen_recovery_selection correlation_id ws diagnostics now rows =
     (let plan_id = text_value (jget diagnostics ''plan_id''); action_id = text_value (jget diagnostics ''action_id'')
      in if plan_id = [] \<or> action_id = [] then (True, rows)
         else case reopen_recovery_plan_action now plan_id ws action_id rows of
           (True, rows') \<Rightarrow> (True, rows')
         | (False, rows') \<Rightarrow>
             (case get_recovery_plan_by_correlation correlation_id ws rows' of
                None \<Rightarrow> False
              | Some r \<Rightarrow> py_strip (rc_plan_id r) = plan_id \<and> rc_status r = ''selection_requested'' \<and> rc_selected_action_id r = None, rows'))"

definition on_rca_action_required ::
    "string \<Rightarrow> string \<Rightarrow> string \<Rightarrow> string \<Rightarrow> jobj \<Rightarrow> time \<Rightarrow> recovery_plan_row list \<Rightarrow> flow_body list \<times> recovery_plan_row list" where
  "on_rca_action_required correlation_id ws reason_code evidence_ref diagnostics now rows =
     (if reason_code \<in> set RETRYABLE_RECOVERY_REASON_CODES
      then (let (allowed, rows') = reopen_recovery_selection correlation_id ws diagnostics now rows
        in (if allowed then [RcaFollowupRequired reason_code evidence_ref] else [], rows'))
      else ([RcaFollowupRequired reason_code evidence_ref], rows))"

record safe_pr_failed =
  sf_workspace_id :: string
  sf_reason_code :: string
  sf_stage :: string
  sf_workflow_run_id :: string
  sf_commit_sha :: string
  sf_details :: jobj

definition failed_safe_pr_recovery_identity ::
    "string \<Rightarrow> safe_pr_failed \<Rightarrow> recovery_state \<Rightarrow> (string \<times> string) option" where
  "failed_safe_pr_recovery_identity correlation_id evt st =
     (let approval_ref = text_value (jget (sf_details evt) ''approval_ref'');
          details = (case (if approval_ref = [] then None else get_recovery_approval approval_ref (sf_workspace_id evt) (rs_approvals st)) of
            None \<Rightarrow> [] | Some a \<Rightarrow> ra_details a);
          plan_id = text_value (jget details ''recovery_plan_id''); action_id = text_value (jget details ''recovery_action_id'')
      in if plan_id \<noteq> [] \<and> action_id \<noteq> [] then Some (plan_id, action_id)
         else case get_recovery_plan_by_correlation correlation_id (sf_workspace_id evt) (rs_plans st) of
           None \<Rightarrow> None
         | Some r \<Rightarrow>
             (case rc_selected_action_id r of
                None \<Rightarrow> None
              | Some a \<Rightarrow>
                  if rc_status r \<noteq> ''selected'' \<or> py_strip (rc_plan_id r) = [] \<or> py_strip a = [] then None
                  else Some (py_strip (rc_plan_id r), py_strip a)))"

definition safe_pr_failed_lifecycle :: "safe_pr_failed \<Rightarrow> recovery_plan_row \<Rightarrow> jobj" where
  "safe_pr_failed_lifecycle evt r =
     update_fields [(''phase'', JStr ''failed''), (''failure'', JObj [(''stage'', JStr ''safe_pr''),
       (''reason_code'', JStr (sf_reason_code evt)), (''provider_stage'', JStr (sf_stage evt)),
       (''approval_ref'', JStr (text_value (jget (sf_details evt) ''approval_ref''))), (''workflow_run_id'', JStr (sf_workflow_run_id evt)),
       (''commit_sha'', JStr (sf_commit_sha evt))])] (row_lifecycle r)"

definition on_recovery_safe_pr_failed ::
    "recovery_flow \<Rightarrow> string \<Rightarrow> safe_pr_failed \<Rightarrow> time \<Rightarrow> recovery_state \<Rightarrow> flow_body list \<times> recovery_state" where
  "on_recovery_safe_pr_failed fl correlation_id evt now st =
     (case failed_safe_pr_recovery_identity correlation_id evt st of
        None \<Rightarrow> ([], st)
      | Some (plan_id, action_id) \<Rightarrow>
          (case get_recovery_plan_by_correlation correlation_id (sf_workspace_id evt) (rs_plans st) of
             None \<Rightarrow> ([], st)
           | Some r \<Rightarrow>
               if py_strip (rc_plan_id r) \<noteq> plan_id \<or> rc_status r \<noteq> ''selected'' \<or>
                  (case rc_selected_action_id r of None \<Rightarrow> [] | Some a \<Rightarrow> py_strip a) \<noteq> action_id then ([], st)
               else case update_recovery_plan_lifecycle_if_status now plan_id (sf_workspace_id evt) [''selected''] ''failed''
                   (safe_pr_failed_lifecycle evt r) False (rs_plans st) of
                   (None, rows) \<Rightarrow> ([], st\<lparr>rs_plans := rows\<rparr>)
                 | (Some _, rows) \<Rightarrow>
                     ([RcaFollowupRequired (sf_reason_code evt) (text_or (fl_render fl) (sf_details evt) ''evidence_ref'' ''unknown'')],
                      st\<lparr>rs_plans := rows\<rparr>)))"

definition on_recovery_command_rejected ::
    "string \<Rightarrow> jobj \<Rightarrow> string \<Rightarrow> time \<Rightarrow> recovery_plan_row list \<Rightarrow> flow_body list \<times> recovery_plan_row list" where
  "on_recovery_command_rejected correlation_id requested reason_code now rows =
     (let ws = text_value (jget requested ''workspace_id'')
      in if ws = [] then ([], rows)
         else case get_recovery_plan_by_correlation correlation_id ws rows of
           None \<Rightarrow> ([], rows)
         | Some r \<Rightarrow>
             let plan_id = py_strip (rc_plan_id r); action_id = (case rc_selected_action_id r of None \<Rightarrow> [] | Some a \<Rightarrow> py_strip a)
             in if rc_status r \<noteq> ''selected'' \<or> plan_id = [] \<or> action_id = [] then ([], rows)
                else case reopen_recovery_plan_action now plan_id ws action_id rows of
                  (False, rows') \<Rightarrow> ([], rows')
                | (True, rows') \<Rightarrow>
                    ([RcaFollowupRequired (or_default (py_strip reason_code) ''command_rejected'')
                        (or_default (py_strip (rc_evidence_ref r)) ''unknown'')], rows'))"

section \<open>The operator\<close>

text \<open>\<open>PreflightBlocked\<close> is also published, as what the operator must do first.\<close>

datatype flow_error =
    PlanNotFound
  | PlanUnreadable
  | AccessDenied
  | PlanChanged
  | ActionNotFound
  | PreflightBlocked string
  | AlreadyResolved
  | RetryUnavailable
  | RetryIdentityInvalid

definition SAFE_PR_ROUTES :: "string list" where "SAFE_PR_ROUTES = [''draft_pr'', ''safe_pr'']"

definition readable_plan :: "jobj \<Rightarrow> bool" where
  "readable_plan payload \<longleftrightarrow> (case from_body False recovery_plan_class (JObj payload) of Inl _ \<Rightarrow> False | Inr _ \<Rightarrow> True)"

definition candidate_by_action_id :: "jobj \<Rightarrow> string \<Rightarrow> jobj option" where
  "candidate_by_action_id plan action_id =
     find (\<lambda>c. candidate_text c ''action_id'' = action_id) (objects (json_items (jget plan ''candidates'')))"

text \<open>
  \<open>prepare\<close> is the preflight: a candidate with refreshed parameters, or the code of what the
  operator must do first. None is a service without preflight.
\<close>

type_synonym preflight = "(jobj \<Rightarrow> string + jobj) option"

definition prepared_candidate :: "preflight \<Rightarrow> jobj \<Rightarrow> string + jobj" where
  "prepared_candidate prepare c =
     (if candidate_text c ''route'' \<in> set SAFE_PR_ROUTES \<union> {ROUTE_AUTO}
      then (case prepare of
          Some p \<Rightarrow> p c
        | None \<Rightarrow> Inl (if candidate_text c ''route'' \<in> set SAFE_PR_ROUTES then ''safe_pr_preflight_unavailable''
            else ''recovery_action_preflight_unavailable''))
      else Inr c)"

definition select_recovery_action ::
    "recovery_flow \<Rightarrow> bool \<Rightarrow> preflight \<Rightarrow> time \<Rightarrow> string \<Rightarrow> string \<Rightarrow> string \<Rightarrow> string option \<Rightarrow> string option \<Rightarrow> string \<Rightarrow>
     recovery_plan_row option \<Rightarrow> recovery_state \<Rightarrow> (flow_error + flow_body list) \<times> recovery_state" where
  "select_recovery_action fl allowed prepare now attempt_id selected_at ws action_id expected_plan_id user found st =
     (case found of
        None \<Rightarrow> (Inl PlanNotFound, st)
      | Some r \<Rightarrow>
          let plan = rc_payload r; plan_id = candidate_text plan ''plan_id'' in
          if \<not> readable_plan plan then (Inl PlanUnreadable, st)
          else if \<not> allowed then (Inl AccessDenied, st)
          else if expected_plan_id \<notin> {None, Some plan_id} then (Inl PlanChanged, st)
          else case candidate_by_action_id plan (case action_id of Some a \<Rightarrow> or_default a (candidate_text plan ''recommended_action_id'')
                 | None \<Rightarrow> candidate_text plan ''recommended_action_id'') of
            None \<Rightarrow> (Inl ActionNotFound, st)
          | Some c \<Rightarrow>
              (case prepared_candidate prepare c of
                 Inl code \<Rightarrow> (Inl (PreflightBlocked code), st)
               | Inr prepared \<Rightarrow>
                   let chosen_id = candidate_text prepared ''action_id''; approval_ref = recovery_approval_id fl plan_id chosen_id;
                       chosen = candidate_with_approval approval_ref prepared
                   in case select_recovery_plan_action_if_open now attempt_id selected_at plan_id ws chosen_id user (rs_plans st) of
                        (None, _) \<Rightarrow> (Inl AlreadyResolved, st)
                      | (Some _, rows) \<Rightarrow>
                          let approval = recovery_approval_payload fl plan chosen ws approval_ref
                          in (Inr [RecoveryActionSelected plan (candidate_with_approval_identity fl approval chosen) user],
                              st\<lparr>rs_plans := rows, rs_approvals := request_workflow_approval approval (rs_approvals st)\<rparr>)))"

text \<open>\<^verbatim>\<open>recovery_retry_number\<close> and \<^verbatim>\<open>recovery_selection_attempt_number\<close>.\<close>

definition next_number :: "json option \<Rightarrow> int" where
  "next_number v = (case v of Some (JInt n) \<Rightarrow> if 0 \<le> n then n + 1 else 1 | _ \<Rightarrow> 1)"

definition recovery_workflow_matches :: "jobj option \<Rightarrow> string \<Rightarrow> jobj \<Rightarrow> string \<Rightarrow> bool" where
  "recovery_workflow_matches workflow ws merge status \<longleftrightarrow>
     (let run = (case workflow of None \<Rightarrow> [] | Some d \<Rightarrow> d); of_merge = (\<lambda>k. text_value (jget merge k)); of_run = (\<lambda>k. text_value (jget run k))
      in list_all (\<lambda>(k, m). of_merge m \<noteq> [] \<and> of_run k = of_merge m)
           [(''workflow_run_id'', ''workflow_run_id''), (''binding_id'', ''binding_id''), (''application_id'', ''application_id''),
            (''cluster_id'', ''cluster_id''), (''commit_sha'', ''merge_commit_sha'')] \<and>
         of_run ''workspace_id'' = ws \<and> of_run ''status'' = status)"

text \<open>The deployment request of the merge with a new workflow run; attributes 11 and 16 are replaced.\<close>

definition deploy_retry_body :: "recovery_flow \<Rightarrow> recovery_plan_row \<Rightarrow> jobj option \<Rightarrow> (pyval list \<times> string \<times> int) option" where
  "deploy_retry_body fl r workflow =
     (let merge = as_mapping (jget (row_lifecycle r) ''merge''); pr = as_mapping (jget (row_lifecycle r) ''pr'');
          ws = py_strip (rc_workspace_id r); of_merge = (\<lambda>k. text_value (jget merge k)); of_pr = (\<lambda>k. text_value (jget pr k))
      in if \<not> recovery_workflow_matches workflow ws merge ''failed'' then None
         else case from_body False git_webhook_received_body (JObj (as_mapping (jget merge ''deployment_request''))) of
           Inr (PBody c vs) \<Rightarrow>
             let request = PBody c vs; attempt = next_number (jget merge ''retry_attempt'');
                 run = ''workflow-'' @ digest32 fl (rc_plan_id r @ ''|'' @ of_merge ''merge_commit_sha'' @ ''|deploy-retry|'' @ int_text attempt)
             in if list_all (\<lambda>(k, v). attribute_text request k = v)
                     [(''workspace_id'', ws), (''correlation_id'', py_strip (rc_correlation_id r)),
                      (''workflow_run_id'', of_merge ''workflow_run_id''), (''commit_sha'', of_merge ''merge_commit_sha''),
                      (''repository_id'', of_pr ''repository_id''), (''repo_ref'', of_pr ''repo_ref''), (''branch'', of_pr ''base_branch''),
                      (''binding_id'', of_merge ''binding_id''), (''application_id'', of_merge ''application_id''),
                      (''cluster_id'', of_merge ''cluster_id''), (''manifest_path'', of_pr ''manifest_path'')] \<and>
                   py_strip (attribute_text request ''image'') \<noteq> [] \<and> positive_attribute request ''replicas'' \<noteq> None
                then Some (vs[11 := PStr run, 16 := PBool True], run, attempt) else None
         | _ \<Rightarrow> None)"

definition retry_object :: "string \<Rightarrow> int \<Rightarrow> string \<Rightarrow> string \<Rightarrow> string \<Rightarrow> (string \<times> json) \<Rightarrow> json" where
  "retry_object stage attempt user requested_at reason detail =
     JObj [(''stage'', JStr stage), (''attempt'', JInt attempt), (''requested_by'', JStr user), (''requested_at'', JStr requested_at),
       (''reason'', JStr reason), detail]"

definition retry_deadline_seconds :: "jobj \<Rightarrow> int" where
  "retry_deadline_seconds verification =
     (case jget verification ''maximum_seconds'' of
        Some (JInt n) \<Rightarrow> if 0 < n \<and> n \<le> DEFAULT_MAXIMUM_SECONDS then n else DEFAULT_MAXIMUM_SECONDS
      | _ \<Rightarrow> DEFAULT_MAXIMUM_SECONDS)"

definition retried_verification :: "recovery_env \<Rightarrow> time \<Rightarrow> int \<Rightarrow> jobj \<Rightarrow> jobj" where
  "retried_verification rv now attempt verification =
     update_fields [(''status'', JStr ''verification_pending''), (''started_at'', JStr (rv_isoformat rv now)),
       (''deadline_at'', JStr (rv_isoformat rv (verification_deadline now (retry_deadline_seconds verification)))),
       (''healthy_since'', JNull), (''last_healthy_observed_at'', JNull), (''distinct_evidence_count'', JInt 0), (''last_evidence_key'', JNull),
       (''last_session_samples'', field_value verification ''protected_session_baseline''), (''after'', JObj []),
       (''last_reason_code'', JStr ''waiting_for_post_deploy_evidence''), (''retry_attempt'', JInt attempt)] verification"

definition verification_retry_lifecycle ::
    "recovery_env \<Rightarrow> recovery_plan_row \<Rightarrow> jobj option \<Rightarrow> time \<Rightarrow> string \<Rightarrow> string \<Rightarrow> (jobj \<times> int) option" where
  "verification_retry_lifecycle rv r workflow now user reason =
     (let merge = as_mapping (jget (row_lifecycle r) ''merge''); attempt = next_number (jget (row_verification r) ''retry_attempt'')
      in if \<not> recovery_workflow_matches workflow (py_strip (rc_workspace_id r)) merge ''succeeded'' then None
         else Some (update_fields [(''phase'', JStr ''verification_pending''),
             (''verification'', JObj (retried_verification rv now attempt (row_verification r))),
             (''retry'', retry_object ''verification'' attempt user (rv_isoformat rv now) reason
                (''workflow_run_id'', JStr (text_value (jget merge ''workflow_run_id''))))]
           (AList.delete ''failure'' (row_lifecycle r)), attempt))"

definition deploy_retry_lifecycle ::
    "recovery_env \<Rightarrow> recovery_plan_row \<Rightarrow> pyval list \<Rightarrow> string \<Rightarrow> int \<Rightarrow> time \<Rightarrow> string \<Rightarrow> string \<Rightarrow> jobj" where
  "deploy_retry_lifecycle rv r body run attempt now user reason =
     (let merge = as_mapping (jget (row_lifecycle r) ''merge'')
      in update_fields [(''phase'', JStr ''deploy_pending''),
          (''merge'', JObj (update_fields [(''previous_workflow_run_id'', JStr (text_value (jget merge ''workflow_run_id''))),
             (''workflow_run_id'', JStr run), (''deployment_request'', JObj (to_body git_webhook_received_body body)),
             (''retry_attempt'', JInt attempt)] merge)),
          (''verification'', JObj (update_fields [(''status'', JStr ''waiting_for_deploy''), (''started_at'', JNull), (''deadline_at'', JNull),
             (''healthy_since'', JNull), (''last_healthy_observed_at'', JNull), (''distinct_evidence_count'', JInt 0),
             (''last_evidence_key'', JNull), (''after'', JObj [])] (row_verification r))),
          (''retry'', retry_object ''deploy'' attempt user (rv_isoformat rv now) reason (''workflow_run_id'', JStr run))]
        (AList.delete ''failure'' (row_lifecycle r)))"

definition safe_pr_retry_lifecycle ::
    "recovery_env \<Rightarrow> recovery_plan_row \<Rightarrow> string \<Rightarrow> int \<Rightarrow> string \<Rightarrow> time \<Rightarrow> string \<Rightarrow> string \<Rightarrow> jobj" where
  "safe_pr_retry_lifecycle rv r attempt_id attempt action_id now user reason =
     [(''phase'', JStr ''selected''), (''attempt'', attempt_object attempt_id attempt action_id user (rv_isoformat rv now)),
      (''retry'', retry_object ''safe_pr'' attempt user (rv_isoformat rv now) reason
         (''previous_failure'', JObj (as_mapping (jget (row_lifecycle r) ''failure''))))]"

text \<open>The three stages that can be tried again; each writes with the compare-and-set on \<^verbatim>\<open>failed\<close>.\<close>

definition retry_safe_pr ::
    "recovery_flow \<Rightarrow> preflight \<Rightarrow> time \<Rightarrow> string \<Rightarrow> string \<Rightarrow> string \<Rightarrow> string \<Rightarrow> string \<Rightarrow> string \<Rightarrow> recovery_plan_row \<Rightarrow> recovery_state \<Rightarrow>
     (flow_error + flow_body list) \<times> recovery_state" where
  "retry_safe_pr fl prepare now attempt_id ws expected_plan_id action_id user reason r st =
     (case prepare of
        None \<Rightarrow> (Inl RetryUnavailable, st)
      | Some p \<Rightarrow>
          (case candidate_by_action_id (rc_payload r) action_id of
             None \<Rightarrow> (Inl ActionNotFound, st)
           | Some c \<Rightarrow>
               if candidate_text c ''route'' \<notin> set SAFE_PR_ROUTES then (Inl RetryIdentityInvalid, st)
               else case p c of
                 Inl code \<Rightarrow> (Inl (PreflightBlocked code), st)
               | Inr prepared \<Rightarrow>
                   let attempt = next_number (jget (as_mapping (jget (row_lifecycle r) ''attempt'')) ''number'');
                       approval_ref = recovery_retry_approval_id fl (candidate_text (rc_payload r) ''plan_id'') action_id attempt;
                       approval = recovery_approval_payload fl (rc_payload r) (candidate_with_approval approval_ref prepared) ws approval_ref;
                       chosen = candidate_with_approval_identity fl approval (candidate_with_approval approval_ref prepared);
                       asked = st\<lparr>rs_approvals := request_workflow_approval approval (rs_approvals st)\<rparr>
                   in case update_recovery_plan_lifecycle_if_status now expected_plan_id ws [''failed''] ''selected''
                        (safe_pr_retry_lifecycle (fl_rv fl) r attempt_id attempt action_id now user reason) False (rs_plans st) of
                        (None, _) \<Rightarrow> (Inl RetryUnavailable, asked)
                      | (Some _, rows) \<Rightarrow>
                          (Inr [RecoveryRetryRequested expected_plan_id (rc_incident_id r) action_id ''safe_pr'' attempt
                               (text_or_none (text_value (jget (candidate_params chosen) ''workflow_run_id''))),
                             RecoveryActionSelected (rc_payload r) chosen user], asked\<lparr>rs_plans := rows\<rparr>)))"

definition retry_write ::
    "time \<Rightarrow> string \<Rightarrow> string \<Rightarrow> string \<Rightarrow> jobj \<Rightarrow> flow_body list \<Rightarrow> recovery_state \<Rightarrow> (flow_error + flow_body list) \<times> recovery_state" where
  "retry_write now ws plan_id next_status lifecycle bodies st =
     (case update_recovery_plan_lifecycle_if_status now plan_id ws [''failed''] next_status lifecycle False (rs_plans st) of
        (None, _) \<Rightarrow> (Inl RetryUnavailable, st)
      | (Some _, rows) \<Rightarrow> (Inr bodies, st\<lparr>rs_plans := rows\<rparr>))"

definition retry_recovery_by_correlation ::
    "recovery_flow \<Rightarrow> bool \<Rightarrow> preflight \<Rightarrow> (string \<Rightarrow> jobj option) \<Rightarrow> time \<Rightarrow> string \<Rightarrow> string \<Rightarrow> string \<Rightarrow> string \<Rightarrow> string \<Rightarrow> string \<Rightarrow>
     recovery_state \<Rightarrow> (flow_error + flow_body list) \<times> recovery_state" where
  "retry_recovery_by_correlation fl allowed prepare workflow_run now attempt_id ws correlation_id expected_plan_id user asked_reason st =
     (case get_recovery_plan_by_correlation correlation_id ws (rs_plans st) of
        None \<Rightarrow> (Inl PlanNotFound, st)
      | Some r \<Rightarrow>
          let lifecycle = row_lifecycle r; failure = as_mapping (jget lifecycle ''failure'');
              reason_code = or_default (text_value (jget failure ''reason_code'')) (text_value (jget (row_verification r) ''last_reason_code''));
              reason = or_default asked_reason (''operator retried '' @ reason_code);
              merge = as_mapping (jget lifecycle ''merge''); run = text_value (jget merge ''workflow_run_id'');
              action_id = (case rc_selected_action_id r of None \<Rightarrow> [] | Some a \<Rightarrow> py_strip a);
              asked = (\<lambda>stage attempt run. RecoveryRetryRequested expected_plan_id (rc_incident_id r) action_id stage attempt (Some run))
          in if py_strip (rc_plan_id r) \<noteq> expected_plan_id then (Inl PlanChanged, st)
             else if \<not> readable_plan (rc_payload r) then (Inl PlanUnreadable, st)
             else if \<not> allowed then (Inl AccessDenied, st)
             else if py_strip (rc_status r) \<noteq> ''failed'' then (Inl RetryUnavailable, st)
             else if action_id = [] then (Inl RetryIdentityInvalid, st)
             else if text_value (jget failure ''stage'') = ''safe_pr''
             then retry_safe_pr fl prepare now attempt_id ws expected_plan_id action_id user reason r st
             else if run = [] then (Inl RetryIdentityInvalid, st)
             else if reason_code = ''recovery_deploy_failed''
             then (case deploy_retry_body fl r (workflow_run run) of
                 None \<Rightarrow> (Inl RetryIdentityInvalid, st)
               | Some (body, new_run, attempt) \<Rightarrow>
                   retry_write now ws expected_plan_id ''deploy_pending''
                     (deploy_retry_lifecycle (fl_rv fl) r body new_run attempt now user reason)
                     [asked ''deploy'' attempt new_run, GitWebhookReceived body] st)
             else if reason_code = ''verification_window_expired''
             then (case verification_retry_lifecycle (fl_rv fl) r (workflow_run run) now user reason of
                 None \<Rightarrow> (Inl RetryIdentityInvalid, st)
               | Some (next, attempt) \<Rightarrow>
                   retry_write now ws expected_plan_id ''verification_pending'' next [asked ''verification'' attempt run] st)
             else (Inl RetryUnavailable, st))"

end
