(* ===== verification/Recovery_Flow.thy ===== *)
theory Recovery_Flow
  imports Recovery_Plans
begin

text \<open>
  Recovery plans over time: the selection of a published plan
  (\<^verbatim>\<open>src/src/services/ai/select-worker/app.py\<close>, \<^verbatim>\<open>src/src/services/ai/agent/recovery/select.py\<close>), and every
  operation that writes a plan as a step of one relation. A ghost log holds, for each row, the
  evidence windows judged since its verification last began.
\<close>

section \<open>Publishing and selecting\<close>

text \<open>The plan published when the analysis was blocked: every candidate needs an approval.\<close>

definition blocked_fallback_candidate :: "string \<Rightarrow> json \<Rightarrow> jobj \<Rightarrow> jobj" where
  "blocked_fallback_candidate reason_code gaps c =
     update_fields [(''approval_required'', JBool True),
       (''draft'', JObj (AList.update ''params'' (JObj (update_fields
          [(''analysis_blocked_fallback'', JBool True), (''analysis_blocked_reason'', JStr reason_code), (''missing_evidence'', gaps)]
          (candidate_params c))) (candidate_draft c)))] c"

definition plan_candidates :: "jobj \<Rightarrow> jobj list" where
  "plan_candidates plan = objects (json_items (jget plan ''candidates''))"

definition blocked_recovery_plan :: "string \<Rightarrow> json \<Rightarrow> jobj \<Rightarrow> jobj option" where
  "blocked_recovery_plan reason_code gaps plan =
     (case map (blocked_fallback_candidate reason_code gaps) (plan_candidates plan) of
        [] \<Rightarrow> None
      | first # others \<Rightarrow> Some (update_fields
          [(''selection_required'', JBool True), (''candidates'', JArr (map JObj (first # others))),
           (''recommended_action_id'', JStr (candidate_text first ''action_id'')),
           (''execution_route'', JStr (candidate_text first ''route''))] plan))"

definition candidate_requires_approval :: "(json \<Rightarrow> string) \<Rightarrow> policy_env \<Rightarrow> jobj \<Rightarrow> bool" where
  "candidate_requires_approval render pv c \<longleftrightarrow>
     (let requested = text_or render (candidate_params c) ''command'' (candidate_text (candidate_draft c) ''action_type'')
      in case action_for_recovery (ce_catalog (pv_command pv)) requested of
           None \<Rightarrow> False
         | Some action \<Rightarrow>
             (case command_action_spec pv action of
                None \<Rightarrow> False
              | Some sp \<Rightarrow> requires_approval_for is_sandbox_environment sp (candidate_text (candidate_draft c) ''namespace'')))"

text \<open>The candidate the agent selects itself; None asks an operator.\<close>

definition select_body :: "(json \<Rightarrow> string) \<Rightarrow> policy_env \<Rightarrow> jobj \<Rightarrow> jobj option" where
  "select_body render pv plan =
     (case sort_key recovery_candidate_sort_key (plan_candidates plan) of
        [] \<Rightarrow> None
      | c # _ \<Rightarrow>
          if candidate_text c ''route'' = ROUTE_AUTO \<and> jget c ''approval_required'' \<noteq> Some (JBool True) \<and>
             \<not> candidate_requires_approval render pv c
          then Some c else None)"

definition on_recovery_planned ::
    "recovery_flow \<Rightarrow> policy_env \<Rightarrow> time \<Rightarrow> nat \<Rightarrow> string \<Rightarrow> string \<Rightarrow> jobj \<Rightarrow> recovery_plan_row list \<Rightarrow>
     (flow_body option \<times> recovery_plan_row list) option" where
  "on_recovery_planned fl pv now row_id correlation_id ws plan rows =
     (case select_body (fl_render fl) pv plan of
        None \<Rightarrow> map_option (Pair None) (upsert_recovery_plan fl now row_id correlation_id ws plan ''selection_requested'' None None rows)
      | Some c \<Rightarrow> map_option (Pair (Some (RecoveryActionSelected plan c ''agent-select'')))
          (upsert_recovery_plan fl now row_id correlation_id ws plan ''selected'' (Some (candidate_text c ''action_id''))
             (Some ''agent-select'') rows))"

text \<open>The plans that reach the worker: those of the planner, whose rules give the routes of \<^verbatim>\<open>ActionRoutes\<close>.\<close>

inductive published_plan :: "recovery_flow \<Rightarrow> policy_env \<Rightarrow> jobj \<Rightarrow> bool" for fl pv where
  planned: "planned_recovery (fl_render fl) pv evidence_ref incident_id summary target offered = Some plan \<Longrightarrow>
    \<forall>c \<in> set offered. candidate_text c ''route'' \<in> set action_routes \<Longrightarrow> published_plan fl pv plan"
| blocked: "planned_recovery (fl_render fl) pv evidence_ref incident_id summary target offered = Some plan \<Longrightarrow>
    \<forall>c \<in> set offered. candidate_text c ''route'' \<in> set action_routes \<Longrightarrow>
    blocked_recovery_plan reason_code gaps plan = Some plan' \<Longrightarrow> published_plan fl pv plan'"

definition names_route :: "jobj \<Rightarrow> bool" where
  "names_route payload \<longleftrightarrow> (\<exists>route \<in> set action_routes. jget payload ''execution_route'' = Some (JStr route))"

lemma objects_of_objects [simp]: "objects (map JObj ds) = ds"
  by (induction ds) (simp_all add: objects_def)

lemma planned_candidates:
  assumes "planned_recovery render pv evidence_ref incident_id summary target offered = Some plan" "c \<in> set (plan_candidates plan)"
  shows "\<exists>x \<in> set offered. candidate_text c ''route'' = candidate_text x ''route''"
proof -
  let ?offered = "sort_key recovery_candidate_sort_key (map (with_execution_eligibility render pv)
    (sort_key recovery_candidate_sort_key offered))"
  from assms(1) have "jget plan ''candidates'' = Some (JArr (map JObj ?offered))"
    unfolding planned_recovery_def Let_def by (auto split: list.splits simp: jget_def)
  then have "plan_candidates plan = ?offered" by (simp add: plan_candidates_def json_items_def)
  with assms(2) obtain x where "x \<in> set offered" "c = with_execution_eligibility render pv x" by auto
  then show ?thesis by (auto simp: eligibility_keeps_route)
qed

lemma published_names_route: "published_plan fl pv plan \<Longrightarrow> names_route plan"
proof (induction rule: published_plan.induct)
  case (planned evidence_ref incident_id summary target offered plan)
  from planned_route [OF planned(1)] planned(2) show ?case by (auto simp: names_route_def)
next
  case (blocked evidence_ref incident_id summary target offered plan reason_code gaps plan')
  from blocked(3) obtain c cs where candidates: "plan_candidates plan = c # cs"
    and plan': "jget plan' ''execution_route'' = Some (JStr (candidate_text (blocked_fallback_candidate reason_code gaps c) ''route''))"
    unfolding blocked_recovery_plan_def by (auto simp: jget_update_fields split: list.splits)
  have "candidate_text (blocked_fallback_candidate reason_code gaps c) ''route'' = candidate_text c ''route''"
    by (simp add: blocked_fallback_candidate_def candidate_text_def update_fields_other)
  with planned_candidates [OF blocked(1), of c] candidates plan' blocked(2) show ?case
    by (auto simp: names_route_def)
qed

section \<open>Steps\<close>

type_synonym recovery_log = "nat \<Rightarrow> judgement list"
type_synonym recovery_world = "recovery_state \<times> recovery_log"

text \<open>The log of a verification that begins, or begins again, is empty.\<close>

definition log_after :: "recovery_plan_row list \<Rightarrow> recovery_plan_row list \<Rightarrow> recovery_log \<Rightarrow> recovery_log" where
  "log_after rows rows' seen i =
     (if list_ex (\<lambda>r'. rc_id r' = i \<and> rc_status r' = ''verification_pending'' \<and>
           \<not> list_ex (\<lambda>r. rc_id r = i \<and> rc_status r = ''verification_pending'') rows) rows'
      then [] else seen i)"

definition advance_world :: "recovery_state \<Rightarrow> recovery_log \<Rightarrow> recovery_plan_row list \<Rightarrow> recovery_world" where
  "advance_world st seen rows' = (st\<lparr>rs_plans := rows'\<rparr>, log_after (rs_plans st) rows' seen)"

text \<open>
  One rule per operation. The window rule judges a plan the handler lists, as it is stored, and
  stores the verdict: the windows of one plan are handled one after the other.
\<close>

inductive recovery_step :: "recovery_flow \<Rightarrow> policy_env \<Rightarrow> recovery_world \<Rightarrow> recovery_world \<Rightarrow> bool" for fl pv where
  published: "published_plan fl pv plan \<Longrightarrow> row_id \<notin> rc_id ` set (rs_plans st) \<Longrightarrow>
    on_recovery_planned fl pv now row_id correlation_id ws plan (rs_plans st) = Some (body, rows') \<Longrightarrow>
    recovery_step fl pv (st, seen) (advance_world st seen rows')"
| asked: "published_plan fl pv plan \<Longrightarrow> row_id \<notin> rc_id ` set (rs_plans st) \<Longrightarrow>
    upsert_recovery_selection_request fl now row_id correlation_id ws plan (rs_plans st) = Some rows' \<Longrightarrow>
    recovery_step fl pv (st, seen) (advance_world st seen rows')"
| selected: "select_recovery_action fl allowed prepare now attempt_id selected_at ws action_id expected user found st = (answer, st') \<Longrightarrow>
    recovery_step fl pv (st, seen) (st', log_after (rs_plans st) (rs_plans st') seen)"
| pr_created: "on_recovery_safe_pr_created fl correlation_id evt evidence alerts registration now st = (bodies, st') \<Longrightarrow>
    recovery_step fl pv (st, seen) (st', log_after (rs_plans st) (rs_plans st') seen)"
| pull_request: "handle_tracked_recovery_pull_request fl payload targets now (rs_plans st) = (reply, rows') \<Longrightarrow>
    recovery_step fl pv (st, seen) (advance_world st seen rows')"
| started: "start_recovery_verification (fl_pg fl) (fl_rv fl) ws workflow_run_id binding_id app_id workflow now (rs_plans st) =
      Some (sent, rows') \<Longrightarrow>
    recovery_step fl pv (st, seen) (advance_world st seen rows')"
| deploy_failed: "on_recovery_deploy_failed fl ws workflow_run_id binding_id app_id now (rs_plans st) = (failures, rows') \<Longrightarrow>
    recovery_step fl pv (st, seen) (advance_world st seen rows')"
| window: "r \<in> set (list_recovery_verification_plans (fl_pg fl) ws cluster_id limit (rs_plans st)) \<Longrightarrow>
    judge (fl_rv fl) (rc_payload r) (row_verification r) (evidence, alerts, now) = j \<Longrightarrow>
    store_verdict stored_at ws key r (snd (snd j)) (rs_plans st) = (verdicts, rows') \<Longrightarrow>
    recovery_step fl pv (st, seen) (st\<lparr>rs_plans := rows'\<rparr>, seen(rc_id r := seen (rc_id r) @ [j]))"
| swept: "expire_recovery_verifications (fl_rv fl) now limit locked (rs_plans st) = Some (expiries, rows') \<Longrightarrow>
    recovery_step fl pv (st, seen) (advance_world st seen rows')"
| retried: "retry_recovery_by_correlation fl allowed prepare workflow_run now attempt_id ws correlation_id expected_plan_id user reason st =
      (answer, st') \<Longrightarrow>
    recovery_step fl pv (st, seen) (st', log_after (rs_plans st) (rs_plans st') seen)"
| pr_failed: "on_recovery_safe_pr_failed fl correlation_id failure now st = (bodies, st') \<Longrightarrow>
    recovery_step fl pv (st, seen) (st', log_after (rs_plans st) (rs_plans st') seen)"
| rejected: "on_recovery_command_rejected correlation_id requested reason_code now (rs_plans st) = (bodies, rows') \<Longrightarrow>
    recovery_step fl pv (st, seen) (advance_world st seen rows')"
| action_required: "on_rca_action_required correlation_id ws reason_code evidence_ref diagnostics now (rs_plans st) = (bodies, rows') \<Longrightarrow>
    recovery_step fl pv (st, seen) (advance_world st seen rows')"

section \<open>What one operation may do to a row\<close>

definition recovery_moves :: "(string \<times> string) list" where
  "recovery_moves =
     [(''selection_requested'', ''selected''), (''selected'', ''pr_open''), (''selected'', ''failed''),
      (''selected'', ''selection_requested''), (''pr_open'', ''deploy_pending''), (''pr_open'', ''selection_requested''),
      (''deploy_pending'', ''verification_pending''), (''deploy_pending'', ''failed''),
      (''verification_pending'', ''completed''), (''verification_pending'', ''failed''),
      (''failed'', ''selected''), (''failed'', ''deploy_pending''), (''failed'', ''verification_pending'')]"

definition may_move :: "recovery_plan_row \<Rightarrow> recovery_plan_row \<Rightarrow> bool" where
  "may_move r r' \<longleftrightarrow> rc_id r' = rc_id r \<and> plan_key r' = plan_key r \<and>
     (rc_status r' = rc_status r \<or> (rc_status r, rc_status r') \<in> set recovery_moves)"

text \<open>Without a verdict: the verification that starts or waits carries no healthy window.\<close>

definition moved :: "recovery_env \<Rightarrow> recovery_plan_row \<Rightarrow> recovery_plan_row \<Rightarrow> bool" where
  "moved rv r r' \<longleftrightarrow> may_move r r' \<and> (names_route (rc_payload r) \<longrightarrow> names_route (rc_payload r')) \<and>
     (if rc_status r' = rc_status r then rc_payload r' = rc_payload r \<or> rc_status r = ''selection_requested''
      else rc_status r' \<noteq> ''completed'' \<and>
        (rc_status r' \<in> {''pr_open'', ''deploy_pending'', ''verification_pending''} \<longrightarrow> carries rv (row_verification r') []))"

definition row_moves :: "recovery_env \<Rightarrow> recovery_plan_row list \<Rightarrow> recovery_plan_row list \<Rightarrow> bool" where
  "row_moves rv = list_all2 (moved rv)"

lemma moved_refl [simp]: "moved rv r r"
  by (simp add: moved_def may_move_def)

lemma row_moves_refl [simp]: "row_moves rv rows rows"
  by (simp add: row_moves_def list_all2_refl)

lemma row_moves_update:
  "(\<And>r. r \<in> set rows \<Longrightarrow> p r \<Longrightarrow> moved rv r (f r)) \<Longrightarrow> row_moves rv rows (update_where p f rows)"
  by (simp add: row_moves_def update_where_def list_all2_map2 list.rel_refl_strong)

lemma names_route_lifecycle [simp]: "names_route (AList.update ''lifecycle'' v payload) = names_route payload"
  by (simp add: names_route_def jget_def update_conv')

lemma set_lifecycle_payload [simp]:
  "rc_payload (set_lifecycle now status lifecycle c r) = AList.update ''lifecycle'' (JObj lifecycle) (rc_payload r)"
  "row_lifecycle (set_lifecycle now status lifecycle c r) = lifecycle"
  "row_verification (set_lifecycle now status lifecycle c r) = as_mapping (jget lifecycle ''verification'')"
  by (simp_all add: set_lifecycle_def row_lifecycle_def row_verification_def Let_def jget_def update_conv' as_mapping_def)

lemma moved_lifecycle:
  assumes "(rc_status r, status) \<in> set recovery_moves" "status \<noteq> ''completed''"
    and "status \<in> {''pr_open'', ''deploy_pending'', ''verification_pending''} \<Longrightarrow> carries rv (as_mapping (jget lifecycle ''verification'')) []"
  shows "moved rv r (set_lifecycle now status lifecycle c r)"
proof -
  have "fst m \<noteq> snd m" if "m \<in> set recovery_moves" for m
    using that unfolding recovery_moves_def by (elim set_ConsD [elim_format]) auto
  from this [OF assms(1)] show ?thesis using assms by (simp add: moved_def may_move_def)
qed

text \<open>The compare-and-set, for every row it may find.\<close>

lemma cas_moves:
  assumes "update_recovery_plan_lifecycle_if_status now plan_id ws expected status lifecycle c rows = (found, rows')"
    and "\<And>x. x \<in> set rows \<Longrightarrow> rc_status x \<in> set expected \<Longrightarrow> plan_in_status plan_id ws expected x \<Longrightarrow> moved rv x (set_lifecycle now status lifecycle c x)"
    and "plans_ok rows"
  shows "row_moves rv rows rows'"
proof (cases "find (plan_in_status plan_id ws expected) rows")
  case None
  with assms(1) show ?thesis by (simp add: update_recovery_plan_lifecycle_if_status_def)
next
  case (Some r)
  note r = find_in_set [OF this]
  from Some assms(1) have "rows' = update_where (\<lambda>x. rc_id x = rc_id r \<and> rc_status x \<in> set expected) (set_lifecycle now status lifecycle c) rows"
    by (simp add: update_recovery_plan_lifecycle_if_status_def)
  moreover have "x = r" if "x \<in> set rows" "rc_id x = rc_id r" for x
    using assms(3) that r by (auto simp: plans_ok_def dest: unique_keyD)
  ultimately show ?thesis using r assms(2) by (auto intro!: row_moves_update)
qed

lemma cas_moves_status:
  assumes "update_recovery_plan_lifecycle_if_status now plan_id ws [source] status lifecycle c rows = (found, rows')" "plans_ok rows"
    and "(source, status) \<in> set recovery_moves" "status \<noteq> ''completed''"
    and "status \<in> {''pr_open'', ''deploy_pending'', ''verification_pending''} \<Longrightarrow> carries rv (as_mapping (jget lifecycle ''verification'')) []"
  shows "row_moves rv rows rows'"
  by (rule cas_moves [OF assms(1) _ assms(2)]) (use assms(3-5) in \<open>auto intro: moved_lifecycle\<close>)

section \<open>The operations move rows as they may\<close>

lemma carries_none:
  assumes "jget v ''healthy_since'' \<in> {None, Some JNull}" "jget v ''last_healthy_observed_at'' \<in> {None, Some JNull}"
    "jget v ''distinct_evidence_count'' \<in> {None, Some JNull, Some (JInt 0)}"
  shows "carries rv v []"
  using assms by (simp add: carries_def)

lemma reopen_moves:
  assumes "reopen_recovery_plan_action now plan_id ws action_id rows = (reopened, rows')"
  shows "row_moves rv rows rows'"
proof -
  have "moved rv r (set_reopened now r)" if "reopenable plan_id ws action_id r" for r
    using that by (simp add: moved_def may_move_def set_reopened_def reopenable_def plan_key_def recovery_moves_def)
  then show ?thesis using assms by (auto simp: reopen_recovery_plan_action_def intro: row_moves_update)
qed

lemma select_moves:
  assumes "select_recovery_plan_action_if_open now attempt_id selected_at plan_id ws action_id selected_by rows = (found, rows')"
  shows "row_moves rv rows rows'"
proof -
  have "moved rv x (set_selected now action_id selected_by lifecycle x)" if "rc_status x = ''selection_requested''" for x lifecycle
    using that by (simp add: moved_def may_move_def set_selected_def plan_key_def recovery_moves_def)
  then show ?thesis
    using assms unfolding select_recovery_plan_action_if_open_def
    by (auto simp: Let_def OPEN_RECOVERY_PLAN_STATUSES_def split: option.splits intro!: row_moves_update)
qed

lemma operator_selection_moves:
  assumes "select_recovery_action fl allowed prepare now attempt_id selected_at ws action_id expected user found st = (answer, st')"
  shows "row_moves rv (rs_plans st) (rs_plans st')"
  using assms unfolding select_recovery_action_def
  by (auto simp: Let_def split: option.splits sum.splits if_splits prod.splits intro: select_moves)

lemma waiting_carries_nothing: "carries rv (waiting_verification fl target b) []"
  by (cases "verification_window_seconds fl") (intro carries_none; simp add: waiting_verification_def Let_def jget_def)

lemma pr_created_moves:
  assumes "on_recovery_safe_pr_created fl correlation_id evt evidence alerts registration now st = (bodies, st')" "plans_ok (rs_plans st)"
  shows "row_moves rv (rs_plans st) (rs_plans st')"
proof -
  have opened: "row_moves rv rows rows'"
    if "update_recovery_plan_lifecycle_if_status now plan_id ws [''selected''] ''pr_open'' (pr_open_lifecycle fl evt r target b now) c rows =
      (found, rows')" "plans_ok rows" for plan_id ws r target b c rows found rows'
    by (rule cas_moves_status [OF that])
      (simp_all add: recovery_moves_def pr_open_lifecycle_def Let_def jget_def as_mapping_def waiting_carries_nothing)
  show ?thesis
    using assms unfolding on_recovery_safe_pr_created_def Let_def
    by (auto split: option.splits if_splits prod.splits intro: opened reopen_moves)
qed

lemma the_only_in: "the_only (filter p xs) = Some x \<Longrightarrow> x \<in> set xs \<and> p x"
proof (cases "filter p xs")
  case (Cons y ys)
  moreover assume "the_only (filter p xs) = Some x"
  ultimately have "set (filter p xs) = {x}" by (auto simp: the_only_def split: list.splits)
  then have "x \<in> set (filter p xs)" by simp
  then show ?thesis by simp
qed (simp add: the_only_def)

lemma reject_pull_moves:
  assumes "reject_tracked_recovery_pull_request now r reason_code rows = (reply, rows')" "plans_ok rows"
  shows "row_moves rv rows rows'"
proof -
  have "row_moves rv rows rows''"
    if "update_recovery_plan_lifecycle_if_status now plan_id ws [''pr_open''] ''selection_requested'' lifecycle c rows = (found, rows'')"
    for plan_id ws lifecycle c found rows''
    by (rule cas_moves_status [OF that assms(2)]) (simp_all add: recovery_moves_def)
  then show ?thesis
    using assms(1) unfolding reject_tracked_recovery_pull_request_def by (auto split: option.splits prod.splits)
qed

text \<open>A lifecycle that keeps the verification, written to the row it was read from.\<close>

lemma cas_moves_keeping:
  assumes "update_recovery_plan_lifecycle_if_status now (rc_plan_id r) (rc_workspace_id r) [source] status lifecycle c rows = (found, rows')"
    and "plans_ok rows" "r \<in> set rows"
    and "(source, status) \<in> set recovery_moves" "status \<noteq> ''completed''"
    and "rc_status r = source \<Longrightarrow> carries rv (as_mapping (jget lifecycle ''verification'')) []"
  shows "row_moves rv rows rows'"
proof (rule cas_moves [OF assms(1) _ assms(2)])
  fix x assume x: "x \<in> set rows" "plan_in_status (rc_plan_id r) (rc_workspace_id r) [source] x"
  then have "plan_key x = plan_key r" by (simp add: plan_in_status_def plan_key_def)
  with assms(2,3) x(1) have "x = r" by (auto simp: plans_ok_def dest: unique_keyD)
  with x(2) assms(4-6) show "moved rv x (set_lifecycle now status lifecycle c x)"
    by (auto simp: plan_in_status_def intro: moved_lifecycle)
qed

definition known_status :: "recovery_plan_row \<Rightarrow> bool" where
  "known_status r \<longleftrightarrow> rc_status r \<in> insert ''selection_requested'' (set RECOVERY_PLAN_MONOTONIC_STATUSES)"

text \<open>What a row that waits for its merge or its deployment holds.\<close>

definition waits_clean :: "recovery_env \<Rightarrow> recovery_plan_row \<Rightarrow> bool" where
  "waits_clean rv r \<longleftrightarrow> (rc_status r \<in> {''pr_open'', ''deploy_pending''} \<longrightarrow> carries rv (row_verification r) [])"

lemma merged_keeps_verification: "jget (merged_lifecycle fl r p target now) ''verification'' = jget (row_lifecycle r) ''verification''"
  by (simp add: merged_lifecycle_def Let_def update_fields_other)

lemma pull_request_moves:
  assumes "handle_tracked_recovery_pull_request fl payload targets now rows = (reply, rows')" "plans_ok rows"
    and "\<forall>r \<in> set rows. waits_clean rv r"
  shows "row_moves rv rows rows'"
proof -
  have merged: "row_moves rv rows rows''"
    if "update_recovery_plan_lifecycle_if_status now (rc_plan_id r) (rc_workspace_id r) [''pr_open''] ''deploy_pending''
        (merged_lifecycle fl r p target now) c rows = (found, rows'')" "find_open_recovery_plan_for_pull_request fl p rows = Some r"
    for r p target c found rows''
  proof (rule cas_moves_keeping [OF that(1) assms(2)])
    show r: "r \<in> set rows" using that(2) by (auto simp: find_open_recovery_plan_for_pull_request_def dest: the_only_in)
    show "carries rv (as_mapping (jget (merged_lifecycle fl r p target now) ''verification'')) []" if "rc_status r = ''pr_open''"
      using assms(3) r that by (auto simp: waits_clean_def merged_keeps_verification row_verification_def)
  qed (simp_all add: recovery_moves_def)
  show ?thesis
    using assms(1) unfolding handle_tracked_recovery_pull_request_def
    by (auto simp: Let_def split: option.splits if_splits prod.splits intro: merged reject_pull_moves [OF _ assms(2)])
qed

lemma workflow_plan_in:
  "get_recovery_plan_for_workflow pg ws workflow_run_id binding_id app_id rows = Some r \<Longrightarrow> r \<in> set rows \<and> rc_workspace_id r = ws"
proof -
  assume found: "get_recovery_plan_for_workflow pg ws workflow_run_id binding_id app_id rows = Some r"
  let ?p = "\<lambda>r. rc_workspace_id r = ws \<and> rc_status r \<in> {''deploy_pending'', ''verification_pending'', ''completed'', ''failed''} \<and>
    merged_as pg workflow_run_id binding_id app_id r"
  from found have "filter ?p rows = [r]" unfolding get_recovery_plan_for_workflow_def by (auto split: list.splits)
  then have "r \<in> set (filter ?p rows)" by simp
  then show ?thesis by simp
qed

lemma started_carries:
  assumes "carries rv v []" shows "carries rv (started_verification rv now maximum_seconds v) []"
  using assms by (simp add: carries_def started_verification_def jget_update_fields)

lemma started_moves:
  assumes "start_recovery_verification pg rv ws workflow_run_id binding_id app_id workflow now rows = Some (sent, rows')" "plans_ok rows"
    and "\<forall>r \<in> set rows. waits_clean rv r"
  shows "row_moves rv rows rows'"
proof -
  have saved: "row_moves rv rows rows''"
    if "update_recovery_plan_lifecycle_if_status now (rc_plan_id r) ws [''deploy_pending''] ''verification_pending''
        (started_lifecycle rv now maximum_seconds r) c rows = (found, rows'')"
      "get_recovery_plan_for_workflow pg ws workflow_run_id binding_id app_id rows = Some r"
    for r maximum_seconds c found rows''
  proof -
    from workflow_plan_in [OF that(2)] have r: "r \<in> set rows" and "rc_workspace_id r = ws" by simp_all
    with that(1) have "update_recovery_plan_lifecycle_if_status now (rc_plan_id r) (rc_workspace_id r) [''deploy_pending'']
      ''verification_pending'' (started_lifecycle rv now maximum_seconds r) c rows = (found, rows'')" by simp
    then show ?thesis
    proof (rule cas_moves_keeping [OF _ assms(2) r])
      show "carries rv (as_mapping (jget (started_lifecycle rv now maximum_seconds r) ''verification'')) []"
        if "rc_status r = ''deploy_pending''"
        using assms(3) r that by (auto simp: waits_clean_def started_lifecycle_def jget_update_fields as_mapping_def started_carries)
    qed (simp_all add: recovery_moves_def)
  qed
  show ?thesis
    using assms(1) unfolding start_recovery_verification_def
    by (auto simp: Let_def split: option.splits if_splits prod.splits intro: saved)
qed

lemma failed_moves:
  assumes "update_recovery_plan_lifecycle_if_status now plan_id ws [source] ''failed'' lifecycle c rows = (found, rows')" "plans_ok rows"
    and "source \<in> {''selected'', ''deploy_pending'', ''verification_pending''}"
  shows "row_moves rv rows rows'"
  by (rule cas_moves_status [OF assms(1,2)]) (use assms(3) in \<open>auto simp: recovery_moves_def\<close>)

lemma deploy_failed_moves:
  assumes "on_recovery_deploy_failed fl ws workflow_run_id binding_id app_id now rows = (bodies, rows')" "plans_ok rows"
  shows "row_moves rv rows rows'"
  using assms unfolding on_recovery_deploy_failed_def
  by (auto split: option.splits if_splits prod.splits intro: failed_moves)

lemma pr_failed_moves:
  assumes "on_recovery_safe_pr_failed fl correlation_id evt now st = (bodies, st')" "plans_ok (rs_plans st)"
  shows "row_moves rv (rs_plans st) (rs_plans st')"
  using assms unfolding on_recovery_safe_pr_failed_def
  by (auto split: option.splits if_splits prod.splits intro: failed_moves)

lemma rejected_moves:
  assumes "on_recovery_command_rejected correlation_id requested reason_code now rows = (bodies, rows')"
  shows "row_moves rv rows rows'"
  using assms unfolding on_recovery_command_rejected_def
  by (auto simp: Let_def split: option.splits if_splits prod.splits bool.splits intro: reopen_moves)

lemma action_required_moves:
  assumes "on_rca_action_required correlation_id ws reason_code evidence_ref diagnostics now rows = (bodies, rows')"
  shows "row_moves rv rows rows'"
proof -
  have "row_moves rv rows rows''" if "reopen_recovery_selection correlation_id ws diagnostics now rows = (allowed, rows'')" for allowed rows''
    using that unfolding reopen_recovery_selection_def
    by (auto simp: Let_def split: option.splits if_splits prod.splits bool.splits intro: reopen_moves)
  then show ?thesis using assms unfolding on_rca_action_required_def by (auto split: if_splits prod.splits)
qed

lemma swept_moves:
  assumes "expire_recovery_verifications rv now limit locked rows = Some (bodies, rows')" "plans_ok rows"
  shows "row_moves rv rows rows'"
proof -
  let ?chosen = "take (nat (max 1 (min limit 500)))
    (sort_key (\<lambda>r. (case row_deadline rv r of Some t \<Rightarrow> t | None \<Rightarrow> 0, rc_id r))
      (filter (\<lambda>r. due_verification rv now r \<and> \<not> locked r) rows))"
  have chosen: "set ?chosen \<subseteq> {r \<in> set rows. due_verification rv now r}"
    by (auto dest: in_set_takeD)
  have rows': "rows' = update_where (\<lambda>r. rc_id r \<in> rc_id ` set ?chosen) (expired_row rv now) rows"
    using assms(1) unfolding expire_recovery_verifications_def Let_def by (simp split: if_splits)
  show ?thesis unfolding rows'
  proof (rule row_moves_update)
    fix r assume r: "r \<in> set rows" "rc_id r \<in> rc_id ` set ?chosen"
    from r(2) obtain x where x: "x \<in> set ?chosen" "rc_id r = rc_id x" by (rule imageE)
    from subsetD [OF chosen x(1)] have due: "x \<in> set rows" "due_verification rv now x" by simp_all
    with assms(2) r(1) x(2) have "r = x" unfolding plans_ok_def by (blast dest: unique_keyD)
    with due have "rc_status r = ''verification_pending''" by (simp add: due_verification_def)
    then show "moved rv r (expired_row rv now r)"
      unfolding expired_row_def by (intro moved_lifecycle) (simp_all add: recovery_moves_def)
  qed
qed

text \<open>A retry writes what it carries: the verification of the row is reset or gone.\<close>

lemma deploy_retry_carries:
  "carries rv (as_mapping (jget (deploy_retry_lifecycle rv' r body run attempt now user reason) ''verification'')) []"
proof -
  let ?reset = "update_fields [(''status'', JStr ''waiting_for_deploy''), (''started_at'', JNull), (''deadline_at'', JNull),
    (''healthy_since'', JNull), (''last_healthy_observed_at'', JNull), (''distinct_evidence_count'', JInt 0),
    (''last_evidence_key'', JNull), (''after'', JObj [])] (row_verification r)"
  have "jget (deploy_retry_lifecycle rv' r body run attempt now user reason) ''verification'' = Some (JObj ?reset)"
    unfolding deploy_retry_lifecycle_def Let_def jget_update_fields by simp
  moreover have "carries rv ?reset []" by (rule carries_none; simp add: jget_update_fields)
  ultimately show ?thesis by (simp add: as_mapping_def)
qed

lemma verification_retry_carries:
  assumes "verification_retry_lifecycle rv' r workflow now user reason = Some (lifecycle, n)"
  shows "carries rv (as_mapping (jget lifecycle ''verification'')) []"
proof -
  obtain attempt where "jget lifecycle ''verification'' = Some (JObj (retried_verification rv' now attempt (row_verification r)))"
    using assms unfolding verification_retry_lifecycle_def Let_def by (simp add: jget_update_fields split: if_splits) (auto simp: jget_update_fields)
  moreover have "carries rv (retried_verification rv' now attempt v) []" for v
    unfolding retried_verification_def by (rule carries_none; simp add: jget_update_fields)
  ultimately show ?thesis by (simp add: as_mapping_def)
qed

lemma retry_write_moves:
  assumes "retry_write now ws plan_id status lifecycle bodies st = (answer, st')" "plans_ok (rs_plans st)"
    and "status \<in> {''deploy_pending'', ''verification_pending''}" "carries rv (as_mapping (jget lifecycle ''verification'')) []"
  shows "row_moves rv (rs_plans st) (rs_plans st')"
proof -
  have "row_moves rv (rs_plans st) rows"
    if "update_recovery_plan_lifecycle_if_status now plan_id ws [''failed''] status lifecycle c (rs_plans st) = (found, rows)" for c found rows
    by (rule cas_moves_status [OF that assms(2)]) (use assms(3,4) in \<open>auto simp: recovery_moves_def\<close>)
  then show ?thesis using assms(1) unfolding retry_write_def by (auto split: option.splits prod.splits)
qed

lemma retry_safe_pr_moves:
  assumes "retry_safe_pr fl prepare now attempt_id ws expected_plan_id action_id user reason r st = (answer, st')" "plans_ok (rs_plans st)"
  shows "row_moves rv (rs_plans st) (rs_plans st')"
proof -
  have "row_moves rv (rs_plans st) rows"
    if "update_recovery_plan_lifecycle_if_status now plan_id ws [''failed''] ''selected'' lifecycle c (rs_plans st) = (found, rows)"
    for plan_id lifecycle c found rows
    by (rule cas_moves_status [OF that assms(2)]) (simp_all add: recovery_moves_def)
  then show ?thesis
    using assms(1) unfolding retry_safe_pr_def by (auto simp: Let_def split: option.splits sum.splits if_splits prod.splits)
qed

lemma retried_moves:
  assumes "retry_recovery_by_correlation fl allowed prepare workflow_run now attempt_id ws correlation_id plan_id user reason st = (answer, st')"
    and "plans_ok (rs_plans st)"
  shows "row_moves rv (rs_plans st) (rs_plans st')"
  using assms(1) unfolding retry_recovery_by_correlation_def
  by (auto simp: Let_def split: option.splits if_splits
      intro: retry_safe_pr_moves [OF _ assms(2)] retry_write_moves [OF _ assms(2)] deploy_retry_carries verification_retry_carries)

text \<open>A published plan: a new row, or an update of the row of the plan.\<close>

definition new_plan :: "nat \<Rightarrow> recovery_plan_row list \<Rightarrow> recovery_plan_row \<Rightarrow> bool" where
  "new_plan row_id rows r \<longleftrightarrow> rc_id r = row_id \<and> plan_key r \<notin> plan_key ` set rows \<and>
     rc_status r \<in> {''selection_requested'', ''selected''} \<and> names_route (rc_payload r)"

lemma upsert_moves:
  assumes "upsert_recovery_plan fl now row_id correlation_id ws plan status selected_action_id selected_by rows = Some rows'"
    and "names_route plan" "\<forall>r \<in> set rows. known_status r"
  shows "row_moves rv rows rows' \<or> (\<exists>r. rows' = rows @ [r] \<and> new_plan row_id rows r)"
proof -
  obtain plan_id incident_id evidence_ref where texts: "required_text fl plan ''plan_id'' = Some plan_id"
    "required_text fl plan ''incident_id'' = Some incident_id" "required_text fl plan ''evidence_ref'' = Some evidence_ref"
    using assms(1) unfolding upsert_recovery_plan_def by (auto split: option.splits)
  note run = assms(1) [unfolded upsert_recovery_plan_def texts prod.case option.case]
  then have status: "status \<in> {''selection_requested'', ''selected''}" by (metis option.distinct(1))
  then have "\<not> status \<notin> {''selection_requested'', ''selected''}" by blast
  note rows' = run [unfolded if_not_P [OF this]]
  show ?thesis
  proof (cases "(ws, plan_id) \<in> plan_key ` set rows")
    case True
    have "moved rv r (plan_upserted now correlation_id incident_id evidence_ref status selected_action_id selected_by plan r)"
      if "known_status r" for r
    proof (cases "rc_status r \<in> set RECOVERY_PLAN_MONOTONIC_STATUSES")
      case True
      then show ?thesis by (simp add: plan_upserted_def Let_def moved_def may_move_def plan_key_def)
    next
      case False
      with that have "rc_status r = ''selection_requested''" by (simp add: known_status_def)
      with False status assms(2) show ?thesis
        by (auto simp: plan_upserted_def Let_def moved_def may_move_def plan_key_def recovery_moves_def)
    qed
    then have "row_moves rv rows (update_where (\<lambda>r. plan_key r = (ws, plan_id))
        (plan_upserted now correlation_id incident_id evidence_ref status selected_action_id selected_by plan) rows)"
      using assms(3) by (intro row_moves_update) blast
    moreover from rows' [unfolded if_P [OF True]] have "rows' = update_where (\<lambda>r. plan_key r = (ws, plan_id))
        (plan_upserted now correlation_id incident_id evidence_ref status selected_action_id selected_by plan) rows" by simp
    ultimately show ?thesis by simp
  next
    case False
    let ?new = "\<lparr>rc_id = row_id, rc_plan_id = plan_id, rc_workspace_id = ws, rc_correlation_id = correlation_id,
      rc_incident_id = incident_id, rc_evidence_ref = evidence_ref, rc_status = status, rc_selected_action_id = selected_action_id,
      rc_selected_by = selected_by, rc_payload = plan, rc_updated_at = now\<rparr>"
    from rows' [unfolded if_not_P [OF False]] have "rows' = rows @ [?new]" by simp
    moreover have "new_plan row_id rows ?new" using False status assms(2) by (simp add: new_plan_def plan_key_def)
    ultimately show ?thesis by blast
  qed
qed

lemma planned_moves:
  assumes "on_recovery_planned fl pv now row_id correlation_id ws plan rows = Some (body, rows')"
    and "names_route plan" "\<forall>r \<in> set rows. known_status r"
  shows "row_moves rv rows rows' \<or> (\<exists>r. rows' = rows @ [r] \<and> new_plan row_id rows r)"
  using assms(1) unfolding on_recovery_planned_def
  by (auto split: option.splits dest!: upsert_moves [OF _ assms(2,3), where rv = rv])

section \<open>What every plan is\<close>

text \<open>The windows judged last are an unbroken healthy run over the required time.\<close>

definition verified_by :: "recovery_env \<Rightarrow> recovery_plan_row \<Rightarrow> judgement list \<Rightarrow> judgement list \<Rightarrow> bool" where
  "verified_by rv r js run \<longleftrightarrow> suffix run (filter judged js) \<and> run \<noteq> [] \<and>
     (\<forall>j \<in> set run. healthy_window rv (rc_payload r) j) \<and>
     spaced (evidence_cadence (row_verification r)) (map (window_time rv) run) \<and> 300 \<le> required_seconds (row_verification r) \<and>
     seconds (required_seconds (row_verification r)) \<le> window_time rv (last run) - window_time rv (hd run) \<and>
     minimum_distinct (required_seconds (row_verification r)) (evidence_cadence (row_verification r)) \<le> int (length run)"

definition row_sound :: "recovery_env \<Rightarrow> judgement list \<Rightarrow> recovery_plan_row \<Rightarrow> bool" where
  "row_sound rv js r \<longleftrightarrow> known_status r \<and> names_route (rc_payload r) \<and> waits_clean rv r \<and>
     (rc_status r = ''verification_pending'' \<longrightarrow> (\<exists>run. ends_in rv (rc_payload r) (row_verification r) js run)) \<and>
     (rc_status r = ''completed'' \<longrightarrow> (\<exists>run. verified_by rv r js run))"

definition world_inv :: "recovery_env \<Rightarrow> recovery_world \<Rightarrow> bool" where
  "world_inv rv w \<longleftrightarrow> plans_ok (rs_plans (fst w)) \<and> (\<forall>r \<in> set (rs_plans (fst w)). row_sound rv (snd w (rc_id r)) r)"

lemma moves_known: "(a, b) \<in> set recovery_moves \<Longrightarrow> b \<in> insert ''selection_requested'' (set RECOVERY_PLAN_MONOTONIC_STATUSES)"
  unfolding recovery_moves_def RECOVERY_PLAN_MONOTONIC_STATUSES_def by (elim set_ConsD [elim_format]) auto

lemma nothing_judged: "carries rv v [] \<Longrightarrow> ends_in rv plan v [] []"
  by (simp add: ends_in_def)

lemma moved_sound:
  assumes "row_sound rv js r" "moved rv r r'"
  shows "row_sound rv (if rc_status r' = ''verification_pending'' \<and> rc_status r \<noteq> ''verification_pending'' then [] else js) r'"
proof (cases "rc_status r' = rc_status r")
  case True
  with assms(2) consider "rc_payload r' = rc_payload r" | "rc_status r = ''selection_requested''"
    by (auto simp: moved_def)
  then show ?thesis
  proof cases
    case 1
    then have "row_verification r' = row_verification r" by (simp add: row_verification_def row_lifecycle_def)
    with 1 True assms(1) show ?thesis by (simp add: row_sound_def known_status_def waits_clean_def verified_by_def)
  next
    case 2
    with True assms show ?thesis by (simp add: row_sound_def known_status_def waits_clean_def moved_def)
  qed
next
  case False
  then have "(rc_status r, rc_status r') \<in> set recovery_moves" "rc_status r' \<noteq> ''completed''" "names_route (rc_payload r')"
    and clean: "rc_status r' \<in> {''pr_open'', ''deploy_pending'', ''verification_pending''} \<longrightarrow> carries rv (row_verification r') []"
    using assms by (auto simp: moved_def may_move_def row_sound_def)
  from moves_known [OF this(1)] this(2,3) False show ?thesis
    unfolding row_sound_def known_status_def waits_clean_def using clean nothing_judged by auto
qed

lemma row_moves_keys:
  assumes "row_moves rv rows rows'"
  shows "map rc_id rows' = map rc_id rows" "map plan_key rows' = map plan_key rows"
  using assms unfolding row_moves_def by (induction rule: list_all2_induct) (auto simp: moved_def may_move_def)

lemma row_moves_from:
  "row_moves rv rows rows' \<Longrightarrow> r' \<in> set rows' \<Longrightarrow> \<exists>r \<in> set rows. moved rv r r'"
  unfolding row_moves_def by (induction rule: list_all2_induct) auto

lemma pointwise_to: "list_all2 p xs ys \<Longrightarrow> x \<in> set xs \<Longrightarrow> \<exists>y \<in> set ys. p x y"
  by (induction rule: list_all2_induct) auto

lemma row_moves_to:
  "row_moves rv rows rows' \<Longrightarrow> r \<in> set rows \<Longrightarrow> \<exists>r' \<in> set rows'. moved rv r r'"
  unfolding row_moves_def by (rule pointwise_to)

lemma the_row: "list_ex (\<lambda>x. rc_id x = i \<and> p x) rows \<longleftrightarrow> p r"
  if "\<And>x. x \<in> set rows \<Longrightarrow> rc_id x = i \<Longrightarrow> x = r" "r \<in> set rows" "rc_id r = i"
  using that unfolding list_ex_iff by blast

lemma row_moves_inv:
  assumes "world_inv rv (st, seen)" "row_moves rv (rs_plans st) (rs_plans st')"
  shows "world_inv rv (st', log_after (rs_plans st) (rs_plans st') seen)"
proof -
  let ?rows = "rs_plans st" and ?rows' = "rs_plans st'"
  have ok: "plans_ok ?rows" using assms(1) by (simp add: world_inv_def)
  then have ok': "plans_ok ?rows'" using row_moves_keys [OF assms(2)] by (simp add: plans_ok_def unique_key_def)
  have "row_sound rv (log_after ?rows ?rows' seen (rc_id r')) r'" if r': "r' \<in> set ?rows'" for r'
  proof -
    from row_moves_from [OF assms(2) r'] obtain r where r: "r \<in> set ?rows" "moved rv r r'" by blast
    then have same: "rc_id r' = rc_id r" by (simp add: moved_def may_move_def)
    have one: "x = r" if "x \<in> set ?rows" "rc_id x = rc_id r" for x
      using ok that r(1) by (auto simp: plans_ok_def dest: unique_keyD)
    have one': "x = r'" if "x \<in> set ?rows'" "rc_id x = rc_id r" for x
      using ok' that r' same by (auto simp: plans_ok_def dest: unique_keyD)
    let ?pending = "\<lambda>x. rc_status x = ''verification_pending''"
    have "list_ex (\<lambda>x. rc_id x = rc_id r \<and> ?pending x) ?rows = ?pending r" by (rule the_row [OF one r(1) refl])
    moreover have "list_ex (\<lambda>x. rc_id x = rc_id r \<and> ?pending x \<and> \<not> ?pending r) ?rows' = (?pending r' \<and> \<not> ?pending r)"
      by (rule the_row [OF one' r' same])
    ultimately have "log_after ?rows ?rows' seen (rc_id r') = (if ?pending r' \<and> \<not> ?pending r then [] else seen (rc_id r))"
      by (simp only: log_after_def same)
    moreover have "row_sound rv (seen (rc_id r)) r" using assms(1) r(1) by (simp add: world_inv_def)
    ultimately show ?thesis using moved_sound r(2) by simp
  qed
  with ok' show ?thesis by (simp add: world_inv_def)
qed

lemma new_plan_inv:
  assumes "world_inv rv (st, seen)" "new_plan row_id (rs_plans st) r" "row_id \<notin> rc_id ` set (rs_plans st)"
  shows "world_inv rv (advance_world st seen (rs_plans st @ [r]))"
proof -
  have "log_after (rs_plans st) (rs_plans st @ [r]) seen = seen"
    using assms(2) by (auto simp: log_after_def list_ex_iff new_plan_def fun_eq_iff)
  moreover have "row_sound rv (seen (rc_id r)) r"
    using assms(2) by (auto simp: new_plan_def row_sound_def known_status_def waits_clean_def RECOVERY_PLAN_MONOTONIC_STATUSES_def)
  moreover have "plans_ok (rs_plans st @ [r])"
    using assms by (auto simp: world_inv_def plans_ok_def unique_key_def new_plan_def)
  ultimately show ?thesis using assms(1) by (simp add: world_inv_def advance_world_def)
qed

lemma published_inv:
  assumes "world_inv rv (st, seen)" "row_id \<notin> rc_id ` set (rs_plans st)"
    and "row_moves rv (rs_plans st) rows' \<or> (\<exists>r. rows' = rs_plans st @ [r] \<and> new_plan row_id (rs_plans st) r)"
  shows "world_inv rv (advance_world st seen rows')"
  using assms(3) new_plan_inv [OF assms(1) _ assms(2)] row_moves_inv [OF assms(1), of "st\<lparr>rs_plans := rows'\<rparr>"]
  by (auto simp: advance_world_def)

section \<open>A window is judged\<close>

lemma checked_target: "recovery_target (AList.update ''lifecycle'' v plan) = recovery_target plan"
  by (simp add: recovery_target_def jget_def update_conv')

lemma healthy_window_lifecycle: "healthy_window rv (AList.update ''lifecycle'' v plan) j = healthy_window rv plan j"
  by (simp add: healthy_window_def window_checks_def verification_target_def checked_target Let_def split: prod.splits)

lemma ends_in_lifecycle: "ends_in rv (AList.update ''lifecycle'' x plan) v js run = ends_in rv plan v js run"
  by (simp add: ends_in_def healthy_window_lifecycle)

lemma verdict_stored:
  "jget (lifecycle_after d key lifecycle) ''verification'' = Some (JObj (record_decision d (as_mapping (jget lifecycle ''verification''))))"
  by (simp add: lifecycle_after_def apply_verification_terminal_state_def jget_def update_conv' delete_conv')

lemma judged_row_sound:
  assumes "iso_reads_back rv" "row_sound rv js r" "rc_status r = ''verification_pending''"
    and "judge rv (rc_payload r) (row_verification r) (evidence, alerts, now) = j" "snd (snd j) = d"
    and "r' = set_lifecycle stored_at (plan_status d) (lifecycle_after d key (row_lifecycle r)) False r"
  shows "row_sound rv (js @ [j]) r' \<and> may_move r r'"
proof -
  obtain run where "ends_in rv (rc_payload r) (row_verification r) js run" using assms(2,3) by (auto simp: row_sound_def)
  from judge_ends_in [OF assms(1) this assms(4,5)] obtain run'
    where run': "ends_in rv (rc_payload r) (record_decision d (row_verification r)) (js @ [j]) run'"
      and long: "vd_status d = ''completed'' \<Longrightarrow> map (window_time rv) run' \<noteq> [] \<and>
        seconds (required_seconds (row_verification r)) \<le> max 0 (last (map (window_time rv) run') - hd (map (window_time rv) run')) \<and>
        minimum_distinct (required_seconds (row_verification r)) (evidence_cadence (row_verification r)) \<le> int (length (map (window_time rv) run'))"
    unfolding Let_def by blast
  have v': "row_verification r' = record_decision d (row_verification r)"
    by (simp add: assms(6) verdict_stored as_mapping_def row_verification_def)
  have payload': "\<exists>x. rc_payload r' = AList.update ''lifecycle'' x (rc_payload r)" and status': "rc_status r' = plan_status d"
    by (auto simp: assms(6))
  have static: "evidence_cadence (row_verification r') = evidence_cadence (row_verification r)"
    "required_seconds (row_verification r') = required_seconds (row_verification r)"
    by (simp_all add: v' evidence_cadence_def required_seconds_def recorded_static)
  have "verified_by rv r' (js @ [j]) run'" if "rc_status r' = ''completed''"
  proof -
    from that status' have "vd_status d = ''completed''" by (auto simp: plan_status_def split: if_splits)
    note ts = long [OF this]
    have spaced: "spaced (evidence_cadence (row_verification r')) (map (window_time rv) run')" using run' by (simp add: ends_in_def v')
    from spaced_le_last [OF this] ts have "seconds (required_seconds (row_verification r)) \<le>
        last (map (window_time rv) run') - hd (map (window_time rv) run')" by simp
    moreover have "300 \<le> required_seconds (row_verification r)"
      by (simp add: required_seconds_def bounded_seconds_def DEFAULT_MINIMUM_SECONDS_def split: option.split)
    ultimately show ?thesis
      using run' ts spaced payload' by (auto simp: verified_by_def ends_in_def static healthy_window_lifecycle last_map hd_map)
  qed
  moreover have "names_route (rc_payload r')" using assms(2) payload' by (auto simp: row_sound_def)
  moreover have "\<exists>run. ends_in rv (rc_payload r') (row_verification r') (js @ [j]) run"
    using run' payload' by (auto simp: v' ends_in_lifecycle)
  moreover have "known_status r'" "waits_clean rv r'" "may_move r r'"
    by (simp_all add: known_status_def waits_clean_def may_move_def status' assms(3) plan_status_def RECOVERY_PLAN_MONOTONIC_STATUSES_def
        recovery_moves_def) (simp_all add: assms(6))
  ultimately show ?thesis by (auto simp: row_sound_def)
qed

lemma verdict_rows:
  assumes "plans_ok rows" "r \<in> set (list_recovery_verification_plans pg ws cluster_id limit rows)"
    and "store_verdict stored_at ws key r d rows = (verdicts, rows')"
  shows "r \<in> set rows" "rc_status r = ''verification_pending''"
    and "rows' = update_where (\<lambda>x. x = r) (set_lifecycle stored_at (plan_status d) (lifecycle_after d key (row_lifecycle r)) False) rows"
proof -
  from in_set_takeD [OF assms(2) [unfolded list_recovery_verification_plans_def]]
  show r: "r \<in> set rows" "rc_status r = ''verification_pending''" by simp_all
  from in_set_takeD [OF assms(2) [unfolded list_recovery_verification_plans_def]]
  have "plan_key r = (ws, rc_plan_id r)" by (simp add: plan_key_def)
  from store_verdict_at [OF assms(1) r this] assms(3)
  have "rows' = update_where (\<lambda>y. rc_id y = rc_id r \<and> rc_status y = ''verification_pending'')
      (set_lifecycle stored_at (plan_status d) (lifecycle_after d key (row_lifecycle r)) False) rows" by simp
  also have "\<dots> = update_where (\<lambda>x. x = r) (set_lifecycle stored_at (plan_status d) (lifecycle_after d key (row_lifecycle r)) False) rows"
    using assms(1) r by (auto simp: update_where_def plans_ok_def dest: unique_keyD)
  finally show "rows' = update_where (\<lambda>x. x = r)
    (set_lifecycle stored_at (plan_status d) (lifecycle_after d key (row_lifecycle r)) False) rows" .
qed

lemma window_inv:
  assumes "iso_reads_back rv" "world_inv rv (st, seen)"
    and "r \<in> set (list_recovery_verification_plans pg ws cluster_id limit (rs_plans st))"
    and "judge rv (rc_payload r) (row_verification r) (evidence, alerts, now) = j"
    and "store_verdict stored_at ws key r (snd (snd j)) (rs_plans st) = (verdicts, rows')"
  shows "world_inv rv (st\<lparr>rs_plans := rows'\<rparr>, seen(rc_id r := seen (rc_id r) @ [j])) \<and> list_all2 may_move (rs_plans st) rows'"
proof -
  let ?f = "set_lifecycle stored_at (plan_status (snd (snd j))) (lifecycle_after (snd (snd j)) key (row_lifecycle r)) False"
  have ok: "plans_ok (rs_plans st)" using assms(2) by (simp add: world_inv_def)
  note rows = verdict_rows [OF ok assms(3,5)]
  have "row_sound rv (seen (rc_id r)) r" using assms(2) rows(1) by (simp add: world_inv_def)
  note judged = judged_row_sound [OF assms(1) this rows(2) assms(4) refl refl, where stored_at = stored_at and key = key]
  have other: "rc_id x \<noteq> rc_id r" if "x \<in> set (rs_plans st)" "x \<noteq> r" for x
    using ok that rows(1) by (auto simp: plans_ok_def dest: unique_keyD)
  have "row_sound rv ((seen(rc_id r := seen (rc_id r) @ [j])) (rc_id x')) x'" if "x' \<in> set rows'" for x'
  proof -
    from in_update_where [OF that [unfolded rows(3)]] obtain x
      where x: "x \<in> set (rs_plans st)" "x' = (if x = r then ?f x else x)" by blast
    show ?thesis
    proof (cases "x = r")
      case True
      with x(2) judged show ?thesis by simp
    next
      case False
      with x other assms(2) show ?thesis by (simp add: world_inv_def)
    qed
  qed
  moreover have "plans_ok rows'" unfolding rows(3) by (rule plans_ok_update [OF ok])
  moreover have "list_all2 may_move (rs_plans st) rows'"
    unfolding rows(3) update_where_def list_all2_map2 using judged by (auto intro!: list.rel_refl_strong simp: may_move_def)
  ultimately show ?thesis by (simp add: world_inv_def)
qed

section \<open>Every step\<close>

lemma moves_keep:
  assumes "row_moves rv rows rows'" "r \<in> set rows"
  shows "\<exists>r' \<in> set rows'. may_move r r'"
  using row_moves_to [OF assms] by (auto simp: moved_def)

lemma step_sound:
  assumes "iso_reads_back (fl_rv fl)" "world_inv (fl_rv fl) w" "recovery_step fl pv w w'"
  shows "world_inv (fl_rv fl) w' \<and> (\<forall>r \<in> set (rs_plans (fst w)). \<exists>r' \<in> set (rs_plans (fst w')). may_move r r')"
proof -
  have known: "\<forall>r \<in> set (rs_plans st). known_status r" and clean: "\<forall>r \<in> set (rs_plans st). waits_clean (fl_rv fl) r"
    and ok: "plans_ok (rs_plans st)" if "world_inv (fl_rv fl) (st, seen)" for st seen
    using that by (auto simp: world_inv_def row_sound_def)
  have quiet: "world_inv (fl_rv fl) (st', log_after (rs_plans st) (rs_plans st') seen) \<and>
      (\<forall>r \<in> set (rs_plans st). \<exists>r' \<in> set (rs_plans st'). may_move r r')"
    if "world_inv (fl_rv fl) (st, seen)" "row_moves (fl_rv fl) (rs_plans st) (rs_plans st')" for st st' seen
    using row_moves_inv [OF that] moves_keep [OF that(2)] by simp
  have rows: "world_inv (fl_rv fl) (advance_world st seen rows') \<and>
      (\<forall>r \<in> set (rs_plans st). \<exists>r' \<in> set (rs_plans (fst (advance_world st seen rows'))). may_move r r')"
    if "world_inv (fl_rv fl) (st, seen)" "row_moves (fl_rv fl) (rs_plans st) rows'" for st seen rows'
    using quiet [OF that(1), of "st\<lparr>rs_plans := rows'\<rparr>"] that(2) by (simp add: advance_world_def)
  have plan: "world_inv (fl_rv fl) (advance_world st seen rows') \<and>
      (\<forall>r \<in> set (rs_plans st). \<exists>r' \<in> set (rs_plans (fst (advance_world st seen rows'))). may_move r r')"
    if "world_inv (fl_rv fl) (st, seen)" "row_id \<notin> rc_id ` set (rs_plans st)"
      "row_moves (fl_rv fl) (rs_plans st) rows' \<or> (\<exists>r. rows' = rs_plans st @ [r] \<and> new_plan row_id (rs_plans st) r)"
    for st seen row_id rows'
    using published_inv [OF that] that(3) moves_keep by (auto simp: advance_world_def may_move_def)
  from assms(3) show ?thesis
  proof cases
    case (published plan row_id st now correlation_id ws body rows' seen)
    have inv: "world_inv (fl_rv fl) (st, seen)" using assms(2) published(1) by simp
    from plan [OF inv published(4) planned_moves [OF published(5) published_names_route [OF published(3)] known [OF inv]]]
    show ?thesis using published(1,2) by simp
  next
    case (asked plan row_id st now correlation_id ws rows' seen)
    have inv: "world_inv (fl_rv fl) (st, seen)" using assms(2) asked(1) by simp
    from plan [OF inv asked(4) upsert_moves [OF asked(5) [unfolded upsert_recovery_selection_request_def]
        published_names_route [OF asked(3)] known [OF inv]]]
    show ?thesis using asked(1,2) by simp
  next
    case (window r ws cluster_id limit st evidence alerts now j stored_at key verdicts rows' seen)
    have inv: "world_inv (fl_rv fl) (st, seen)" using assms(2) window(1) by simp
    from window_inv [OF assms(1) inv window(3-5)] show ?thesis using window(1,2) by (auto dest: pointwise_to)
  qed (use assms(2) in \<open>auto intro!: quiet rows intro: operator_selection_moves pr_created_moves pull_request_moves started_moves
      deploy_failed_moves swept_moves retried_moves pr_failed_moves rejected_moves action_required_moves dest: ok clean\<close>)
qed

section \<open>From any plans that carry no verdict\<close>

text \<open>
  A database to start from: no plan is completed, and what a plan that waits or is being verified
  carries is no healthy window. The empty one is the first.
\<close>

definition unverified_world :: "recovery_env \<Rightarrow> recovery_world \<Rightarrow> bool" where
  "unverified_world rv w \<longleftrightarrow> plans_ok (rs_plans (fst w)) \<and> snd w = (\<lambda>_. []) \<and>
     (\<forall>r \<in> set (rs_plans (fst w)). known_status r \<and> names_route (rc_payload r) \<and> rc_status r \<noteq> ''completed'' \<and>
        (rc_status r \<in> {''pr_open'', ''deploy_pending'', ''verification_pending''} \<longrightarrow> carries rv (row_verification r) []))"

definition recovery_reachable :: "recovery_flow \<Rightarrow> policy_env \<Rightarrow> recovery_world \<Rightarrow> bool" where
  "recovery_reachable fl pv = reachable_from (unverified_world (fl_rv fl)) (recovery_step fl pv)"

lemma unverified_sound: "unverified_world rv w \<Longrightarrow> world_inv rv w"
proof -
  assume w: "unverified_world rv w"
  have "row_sound rv [] r" if "r \<in> set (rs_plans (fst w))" for r
  proof -
    have row: "known_status r" "names_route (rc_payload r)" "rc_status r \<noteq> ''completed''"
      and clean: "rc_status r \<in> {''pr_open'', ''deploy_pending'', ''verification_pending''} \<Longrightarrow> carries rv (row_verification r) []"
      using w that unfolding unverified_world_def by blast+
    from clean have "waits_clean rv r" unfolding waits_clean_def by blast
    moreover have "\<exists>run. ends_in rv (rc_payload r) (row_verification r) [] run" if "rc_status r = ''verification_pending''"
      by (rule exI, rule nothing_judged, rule clean) (simp add: that)
    ultimately show ?thesis using row by (simp add: row_sound_def)
  qed
  with w show ?thesis by (simp add: unverified_world_def world_inv_def)
qed

interpretation recoveries: invariant_system "unverified_world (fl_rv fl)" "recovery_step fl pv"
    "\<lambda>w. iso_reads_back (fl_rv fl) \<longrightarrow> world_inv (fl_rv fl) w" for fl pv
proof unfold_locales
  show "iso_reads_back (fl_rv fl) \<longrightarrow> world_inv (fl_rv fl) w" if "unverified_world (fl_rv fl) w" for w
    using unverified_sound [OF that] by blast
  show "iso_reads_back (fl_rv fl) \<longrightarrow> world_inv (fl_rv fl) w'"
    if "iso_reads_back (fl_rv fl) \<longrightarrow> world_inv (fl_rv fl) w" "recovery_step fl pv w w'" for w w'
    using that step_sound by blast
qed

lemma reachable_world:
  "recovery_reachable fl pv w \<Longrightarrow> iso_reads_back (fl_rv fl) \<Longrightarrow> world_inv (fl_rv fl) w"
  using recoveries.reachable_inv by (simp add: recovery_reachable_def)



text \<open>
  Claim C36. A merged recovery is never deployed. The authorization of its diff asks for the
  route \<^verbatim>\<open>safe_pr\<close>, but the planner only writes the routes of \<^verbatim>\<open>ActionRoutes\<close>, where the Safe PR is
  \<^verbatim>\<open>draft_pr\<close>: whatever plans the system holds, the diff of a workflow that belongs to a recovery
  is rejected as out of scope, also when it holds exactly the approved values.
\<close>

theorem merged_recovery_is_always_rejected:
  assumes "recovery_reachable fl pv (st, seen)" and "iso_reads_back (fl_rv fl)"
    and "get_recovery_plan_for_workflow (fl_pg fl) (df_workspace_id diff) (df_workflow_run_id diff) (df_binding_id diff)
      (df_application_id diff) (rs_plans st) = Some r"
  shows "merge_route_of (recovery_merge_authorization (fl_pg fl) (fl_render fl) (rs_plans st) workflow_run diff) = ScopeRejected"
proof -
  have "names_route (rc_payload r)"
    using reachable_world [OF assms(1,2)] workflow_plan_in [OF assms(3)] by (auto simp: world_inv_def row_sound_def)
  then obtain route where route: "route \<in> set action_routes" "jget (rc_payload r) ''execution_route'' = Some (JStr route)"
    by (auto simp: names_route_def)
  then have "route \<noteq> []"
    by (auto simp: action_routes_def ROUTE_SAFE_PR_def ROUTE_APPROVAL_REQUIRED_def ROUTE_FORBIDDEN_def ROUTE_AUTO_def)
  with route planner_routes_differ [OF route(1)] have "stripped (fl_render fl) (jget (rc_payload r) ''execution_route'') \<noteq> ''safe_pr''"
    by simp
  from route_not_authorized [OF this] show ?thesis
    by (simp add: recovery_merge_authorization_def assms(3) merge_route_of_def)
qed

section \<open>A retried pull request\<close>

lemma set_lifecycle_keeps [simp]:
  "rc_correlation_id (set_lifecycle now status lifecycle c r) = rc_correlation_id r"
  "rc_evidence_ref (set_lifecycle now status lifecycle c r) = rc_evidence_ref r"
  "rc_selected_action_id (set_lifecycle now status lifecycle False r) = rc_selected_action_id r"
  by (simp_all add: set_lifecycle_def Let_def)

lemma jget_other_lifecycle: "k \<noteq> ''lifecycle'' \<Longrightarrow> jget (AList.update ''lifecycle'' v payload) k = jget payload k"
  by (simp add: jget_def update_conv')

lemma the_correlated_row:
  "filter (\<lambda>r. rc_correlation_id r = cid \<and> rc_workspace_id r = ws) rows = [r] \<Longrightarrow>
   get_recovery_plan_by_correlation cid ws rows = Some r \<and> r \<in> set rows \<and> rc_workspace_id r = ws"
proof -
  assume one: "filter (\<lambda>r. rc_correlation_id r = cid \<and> rc_workspace_id r = ws) rows = [r]"
  then have "r \<in> set (filter (\<lambda>r. rc_correlation_id r = cid \<and> rc_workspace_id r = ws) rows)" by simp
  then have "r \<in> set rows \<and> rc_workspace_id r = ws" by simp
  moreover have "get_recovery_plan_by_correlation cid ws rows = Some r" by (simp add: get_recovery_plan_by_correlation_def one)
  ultimately show ?thesis by simp
qed

lemma correlated_after_update:
  assumes "filter (\<lambda>r. rc_correlation_id r = cid \<and> rc_workspace_id r = ws) rows = [r]" "p r"
    and "\<And>x. rc_correlation_id (f x) = rc_correlation_id x" "\<And>x. rc_workspace_id (f x) = rc_workspace_id x"
  shows "filter (\<lambda>r. rc_correlation_id r = cid \<and> rc_workspace_id r = ws) (update_where p f rows) = [f r]"
proof -
  have "filter (\<lambda>r. rc_correlation_id r = cid \<and> rc_workspace_id r = ws) (update_where p f rows) =
      update_where p f (filter (\<lambda>r. rc_correlation_id r = cid \<and> rc_workspace_id r = ws) rows)"
    unfolding update_where_def filter_map by (rule arg_cong [where f = "map _"], rule filter_cong) (simp_all add: assms(3,4))
  then show ?thesis by (simp add: assms(1,2) update_where_def)
qed

lemma find_not_updated:
  assumes "find p xs = Some a" "\<not> q a" and keeps: "\<And>x. p (f x) = p x"
  shows "find p (update_where q f xs) = Some a"
  using assms(1)
proof (induction xs)
  case (Cons x xs)
  have "p (if q x then f x else x) = p x" by (cases "q x") (simp_all only: if_True if_False keeps)
  with Cons assms(2) show ?case by (cases "p x") (simp_all add: update_where_def)
qed simp

lemma find_append_some: "find p xs = Some a \<Longrightarrow> find p (xs @ ys) = Some a"
  by (induction xs) auto

lemma decided_approval_kept:
  assumes "get_recovery_approval approval_id ws approvals = Some a" "ra_status a = ''granted''"
  shows "get_recovery_approval approval_id ws (request_workflow_approval b approvals) = Some a"
proof -
  have decided: "ra_status a \<notin> set OPEN_APPROVAL_STATUSES" by (simp add: assms(2) OPEN_APPROVAL_STATUSES_def)
  note found = assms(1) [unfolded get_recovery_approval_def]
  have "find (\<lambda>a. ra_approval_id a = approval_id \<and> ra_workspace_id a = ws)
      (update_where (\<lambda>x. ra_approval_id x = ra_approval_id b \<and> ra_status x \<in> set OPEN_APPROVAL_STATUSES)
        (\<lambda>x. x\<lparr>ra_status := ra_status b, ra_details := ra_details b\<rparr>) approvals) = Some a"
    by (rule find_not_updated [OF found]) (simp_all add: decided)
  with find_append_some [OF found] show ?thesis by (simp add: get_recovery_approval_def request_workflow_approval_def)
qed

lemma cas_at:
  assumes "plans_ok rows" "r \<in> set rows"
    and "update_recovery_plan_lifecycle_if_status now (rc_plan_id r) (rc_workspace_id r) [source] status lifecycle c rows = (Some x, rows')"
  shows "rc_status r = source"
    and "rows' = update_where (\<lambda>x. rc_id x = rc_id r \<and> rc_status x = source) (set_lifecycle now status lifecycle c) rows"
proof -
  obtain y where y: "find (plan_in_status (rc_plan_id r) (rc_workspace_id r) [source]) rows = Some y"
    and rows': "rows' = update_where (\<lambda>x. rc_id x = rc_id y \<and> rc_status x \<in> set [source]) (set_lifecycle now status lifecycle c) rows"
    using assms(3) unfolding update_recovery_plan_lifecycle_if_status_def by (auto split: option.splits)
  from find_in_set [OF y] assms(1,2) have same: "y = r" "rc_status y = source"
    by (auto simp: plan_in_status_def plan_key_def plans_ok_def dest: unique_keyD [of plan_key])
  then show "rc_status r = source" by simp
  show "rows' = update_where (\<lambda>x. rc_id x = rc_id r \<and> rc_status x = source) (set_lifecycle now status lifecycle c) rows"
    unfolding rows' same(1) by simp
qed

lemma retried_safe_pr_state:
  assumes "retry_safe_pr fl prepare now attempt_id ws expected_plan_id action_id user reason r st = (Inr bodies, st')"
    and "plans_ok (rs_plans st)" "r \<in> set (rs_plans st)" "rc_workspace_id r = ws" "expected_plan_id = rc_plan_id r"
  shows "\<exists>a lifecycle. rs_approvals st' = request_workflow_approval a (rs_approvals st) \<and> rc_status r = ''failed'' \<and>
    rs_plans st' = update_where (\<lambda>x. rc_id x = rc_id r \<and> rc_status x = ''failed'') (set_lifecycle now ''selected'' lifecycle False) (rs_plans st)"
proof -
  obtain a lifecycle x rows where
    cas: "update_recovery_plan_lifecycle_if_status now (rc_plan_id r) (rc_workspace_id r) [''failed''] ''selected'' lifecycle False (rs_plans st) =
      (Some x, rows)"
    and st': "rs_approvals st' = request_workflow_approval a (rs_approvals st)" "rs_plans st' = rows"
    using assms(1,4,5) unfolding retry_safe_pr_def
    by (auto simp: Let_def split: option.splits sum.splits if_splits prod.splits)
  from cas_at [OF assms(2,3) cas] st' show ?thesis by blast
qed

text \<open>
  Claim C37. After a failed Safe PR an operator retries, and the preflight refreshes the
  candidate, its commit included. The retry stores the refreshed candidate under an approval of
  its own, but the handler of the created pull request reads the approval of the first selection,
  which is granted and never written again: a pull request from any other commit than that of the
  first selection is refused as not identified, and the plan is opened for selection again.
\<close>

theorem refreshed_safe_pr_is_refused:
  assumes "plans_ok (rs_plans st)" and "filter (\<lambda>r. rc_correlation_id r = cid \<and> rc_workspace_id r = ws) (rs_plans st) = [r]"
    and "rc_selected_action_id r = Some action" and "selected_recovery_candidate r = Some chosen"
    and "text_value (jget chosen ''route'') = ROUTE_SAFE_PR"
    and "py_strip (rc_plan_id r) = rc_plan_id r" and "rc_plan_id r \<noteq> []"
    and "text_value (jget (as_mapping (jget (row_lifecycle r) ''failure'')) ''stage'') = ''safe_pr''"
    and "get_recovery_approval (recovery_approval_id fl (rc_plan_id r) (py_strip action)) ws (rs_approvals st) = Some approval"
    and "ra_status approval = ''granted''"
    and "retry_recovery_by_correlation fl allowed prepare workflow_run now attempt_id ws cid plan_id user reason st = (Inr bodies, st')"
    and "sc_workspace_id evt = ws" and "sc_commit_sha evt \<noteq> text_value (jget (selected_candidate_params (Some approval)) ''commit_sha'')"
  shows "\<exists>rows r'. on_recovery_safe_pr_created fl cid evt evidence alerts registration later st' =
      ([RcaFollowupRequired ''safe_pr_identity_incomplete'' (or_default (rc_evidence_ref r) ''unknown'')], st'\<lparr>rs_plans := rows\<rparr>) \<and>
    get_recovery_plan_by_correlation cid ws rows = Some r' \<and> rc_id r' = rc_id r \<and> rc_status r' = ''selection_requested''"
proof -
  note r = the_correlated_row [OF assms(2)]
  have action: "py_strip action \<noteq> []" using assms(3,4) by (auto simp: selected_recovery_candidate_def split: if_splits)
  have planned: "plan_id = rc_plan_id r"
    using assms(11) r assms(6) unfolding retry_recovery_by_correlation_def by (simp add: Let_def split: if_splits)
  have "retry_safe_pr fl prepare now attempt_id ws plan_id (py_strip action) user (or_default reason (''operator retried '' @ or_default
      (text_value (jget (as_mapping (jget (row_lifecycle r) ''failure'')) ''reason_code''))
      (text_value (jget (row_verification r) ''last_reason_code'')))) r st = (Inr bodies, st')"
    using assms(11) r unfolding retry_recovery_by_correlation_def
    by (simp add: Let_def assms(3,8) action split: if_splits)
  from retried_safe_pr_state [OF this assms(1)] r planned obtain a lifecycle where
    approvals: "rs_approvals st' = request_workflow_approval a (rs_approvals st)" and failed: "rc_status r = ''failed''"
    and rows: "rs_plans st' = update_where (\<lambda>x. rc_id x = rc_id r \<and> rc_status x = ''failed'')
      (set_lifecycle now ''selected'' lifecycle False) (rs_plans st)" by blast
  let ?r = "set_lifecycle now ''selected'' lifecycle False r"
  have one: "filter (\<lambda>r. rc_correlation_id r = cid \<and> rc_workspace_id r = ws) (rs_plans st') = [?r]"
    unfolding rows by (rule correlated_after_update [OF assms(2)]) (simp_all add: failed)
  note found = the_correlated_row [OF one]
  have chosen: "selected_recovery_candidate ?r = Some chosen"
    using assms(4) unfolding selected_recovery_candidate_def
    by (simp add: jget_other_lifecycle assms(3) action)
  have "recovery_approval_record fl ?r ws (rs_approvals st') = Some approval"
    using decided_approval_kept [OF assms(9,10)] by (simp add: recovery_approval_record_def assms(3,6,7) action approvals)
  then have refused: "safe_pr_identity_error evt (selected_candidate_params (recovery_approval_record fl ?r ws (rs_approvals st')))"
    using assms(13) by (simp add: safe_pr_identity_error_def safe_pr_identity_def)
  have "chosen \<noteq> []" using assms(5) by (auto simp: jget_def text_value_def ROUTE_SAFE_PR_def)
  let ?p = "reopenable (rc_plan_id r) ws action"
  have reopened: "?p ?r" using r by (simp add: reopenable_def plan_key_def assms(3))
  then have some: "list_ex ?p (rs_plans st')" using found by (auto simp: list_ex_iff)
  have "on_recovery_safe_pr_created fl cid evt evidence alerts registration later st' =
      ([RcaFollowupRequired ''safe_pr_identity_incomplete'' (or_default (rc_evidence_ref r) ''unknown'')],
       st'\<lparr>rs_plans := update_where ?p (set_reopened later) (rs_plans st')\<rparr>)"
    unfolding on_recovery_safe_pr_created_def Let_def assms(12)
    using found chosen \<open>chosen \<noteq> []\<close> refused assms(3,5) some by (simp add: reopen_recovery_plan_action_def)
  moreover have "get_recovery_plan_by_correlation cid ws (update_where ?p (set_reopened later) (rs_plans st')) = Some (set_reopened later ?r)"
    by (rule the_correlated_row [OF correlated_after_update [where p = ?p, OF one reopened], THEN conjunct1]) (simp_all add: set_reopened_def)
  ultimately show ?thesis by (intro exI conjI) (assumption+, simp_all add: set_reopened_def)
qed

section \<open>A concrete recovery\<close>

definition recovery_demo_flow :: recovery_flow where
  "recovery_demo_flow = \<lparr>fl_sha = (\<lambda>s. s), fl_render = (\<lambda>_. []), fl_pg = (\<lambda>_. []), fl_rv = recovery_demo_env, fl_min_seconds = ''300'',
     fl_max_seconds = ''600'', fl_load_tolerance = ''0.2'', fl_webhook_image = ''shop/web:1'',
     fl_derived_run = (\<lambda>_ _. ''run'')\<rparr>"

definition recovery_demo_plan :: "string \<Rightarrow> recovery_plan_row" where
  "recovery_demo_plan status = recovery_demo_row\<lparr>rc_status := status, rc_payload :=
     [(''execution_route'', JStr ROUTE_SAFE_PR), (''target'', JObj recovery_demo_target),
      (''lifecycle'', JObj
         [(''merge'', JObj [(''workflow_run_id'', JStr ''run''), (''binding_id'', JStr ''b''), (''application_id'', JStr ''app'')]),
          (''verification'', JObj recovery_demo_verification)])]\<rparr>"

definition recovery_demo_state :: "recovery_plan_row \<Rightarrow> recovery_state" where
  "recovery_demo_state r = \<lparr>rs_plans = [r], rs_approvals = []\<rparr>"

definition recovery_demo_verdict :: "recovery_plan_row \<Rightarrow> int \<Rightarrow> judgement" where
  "recovery_demo_verdict r t = judge recovery_demo_env (rc_payload r) (row_verification r) (recovery_demo_window t 0)"

definition recovery_demo_stored :: "recovery_plan_row \<Rightarrow> int \<Rightarrow> recovery_plan_row" where
  "recovery_demo_stored r t = (let d = snd (snd (recovery_demo_verdict r t))
     in set_lifecycle 0 (plan_status d) (lifecycle_after d ''e'' (row_lifecycle r)) False r)"

lemma recovery_demo_fields:
  "rc_status (recovery_demo_plan status) = status" "rc_id (recovery_demo_plan status) = 1" "plan_key (recovery_demo_plan status) = (''w'', ''p'')"
  "row_verification (recovery_demo_plan status) = recovery_demo_verification"
  "jget (rc_payload (recovery_demo_plan status)) ''target'' = Some (JObj recovery_demo_target)"
  "names_route (rc_payload (recovery_demo_plan status))"
  by (simp_all add: recovery_demo_plan_def recovery_demo_row_def plan_key_def row_verification_def row_lifecycle_def jget_def as_mapping_def
      names_route_def action_routes_def)

lemma recovery_demo_start:
  assumes "status \<in> {''deploy_pending'', ''verification_pending''}"
  shows "recovery_reachable recovery_demo_flow pv (recovery_demo_state (recovery_demo_plan status), \<lambda>_. [])"
proof -
  have "known_status (recovery_demo_plan status)"
    using assms by (auto simp: known_status_def recovery_demo_fields RECOVERY_PLAN_MONOTONIC_STATUSES_def)
  then have "unverified_world (fl_rv recovery_demo_flow) (recovery_demo_state (recovery_demo_plan status), \<lambda>_. [])"
    using assms by (auto simp: unverified_world_def recovery_demo_state_def recovery_demo_fields recovery_demo_flow_def
      plans_ok_def unique_key_def recovery_demo_static(2))
  then show ?thesis by (auto simp: recovery_reachable_def reachable_from_def)
qed

lemma recovery_demo_iso: "iso_reads_back (fl_rv recovery_demo_flow)"
  by (simp add: recovery_demo_flow_def recovery_demo_reads_back)

text \<open>The verification names its target, so the plan does not matter for the verdict.\<close>

lemma judge_named_target:
  "as_mapping (jget v ''target'') \<noteq> [] \<Longrightarrow> judge rv plan v w = judge rv [] v w"
  by (simp add: judge_def evaluate_recovery_evidence_def window_checks_def window_after_def verification_target_def Let_def split: prod.splits)

lemma recovery_demo_step:
  assumes "rc_status r = ''verification_pending''" "plan_key r = (''w'', ''p'')" "rc_id r = 1"
    and "jget (rc_payload r) ''target'' = Some (JObj recovery_demo_target)"
  shows "recovery_step recovery_demo_flow pv (recovery_demo_state r, seen)
    (recovery_demo_state (recovery_demo_stored r t), seen(1 := seen 1 @ [recovery_demo_verdict r t]))"
proof -
  let ?j = "recovery_demo_verdict r t"
  have ok: "plans_ok [r]" by (simp add: plans_ok_def unique_key_def)
  have "r \<in> set (list_recovery_verification_plans (fl_pg recovery_demo_flow) ''w'' ''k'' 100 (rs_plans (recovery_demo_state r)))"
    using assms by (simp add: list_recovery_verification_plans_def recovery_demo_state_def plan_key_def recovery_demo_target_def
      jsonb_get_def astext_def jget_def)
  moreover have "judge (fl_rv recovery_demo_flow) (rc_payload r) (row_verification r)
      (recovery_demo_evidence t 0, recovery_demo_alerts, seconds 500) = ?j"
    by (simp add: recovery_demo_verdict_def recovery_demo_window_def recovery_demo_flow_def)
  moreover have "store_verdict 0 ''w'' ''e'' r (snd (snd ?j)) (rs_plans (recovery_demo_state r)) =
      (verdict_bodies ''e'' r (snd (snd ?j)), [recovery_demo_stored r t])"
    using store_verdict_at [OF ok _ assms(1), of "''w''" r 0 "''e''" "snd (snd ?j)"] assms
    by (simp add: recovery_demo_state_def update_where_def recovery_demo_stored_def Let_def plan_key_def)
  ultimately have "recovery_step recovery_demo_flow pv (recovery_demo_state r, seen)
      ((recovery_demo_state r)\<lparr>rs_plans := [recovery_demo_stored r t]\<rparr>, seen(rc_id r := seen (rc_id r) @ [?j]))"
    by (rule recovery_step.window)
  then show ?thesis by (simp add: recovery_demo_state_def assms(3))
qed

lemma recovery_demo_first_verdict:
  "vd_status (snd (snd (judge recovery_demo_env [] recovery_demo_verification (recovery_demo_window 100 0)))) = ''pending''"
  unfolding recovery_demo_window_def judge_def by code_simp

lemma recovery_demo_stored_fields:
  "rc_id (recovery_demo_stored r t) = rc_id r" "plan_key (recovery_demo_stored r t) = plan_key r"
  "jget (rc_payload (recovery_demo_stored r t)) ''target'' = jget (rc_payload r) ''target''"
  "rc_status (recovery_demo_stored r t) = plan_status (snd (snd (recovery_demo_verdict r t)))"
  "row_verification (recovery_demo_stored r t) = record_decision (snd (snd (recovery_demo_verdict r t))) (row_verification r)"
  by (simp_all add: recovery_demo_stored_def Let_def jget_other_lifecycle verdict_stored as_mapping_def row_verification_def)

lemma recovery_demo_run:
  defines "r \<equiv> recovery_demo_plan ''verification_pending''"
  defines "r' \<equiv> recovery_demo_stored r 100"
  shows "rc_status (recovery_demo_stored r' 400) = ''completed''"
    and "recovery_reachable recovery_demo_flow pv (recovery_demo_state (recovery_demo_stored r' 400),
      (\<lambda>_. [])(1 := [recovery_demo_verdict r 100, recovery_demo_verdict r' 400]))"
proof -
  let ?v = "verification_after recovery_demo_env [] recovery_demo_verification [recovery_demo_window 100 0]"
  have target: "as_mapping (jget recovery_demo_verification ''target'') \<noteq> []"
    by (simp add: recovery_demo_verification_def recovery_demo_target_def jget_def as_mapping_def)
  have first: "recovery_demo_verdict r 100 = judge recovery_demo_env [] recovery_demo_verification (recovery_demo_window 100 0)"
    unfolding recovery_demo_verdict_def r_def recovery_demo_fields by (rule judge_named_target [OF target])
  have status: "rc_status r' = ''verification_pending''"
    by (simp add: r'_def recovery_demo_stored_fields first plan_status_def recovery_demo_first_verdict)
  have v': "row_verification r' = ?v"
    by (simp add: r'_def recovery_demo_stored_fields r_def recovery_demo_fields first [unfolded r_def] verification_after_def)
  have "as_mapping (jget ?v ''target'') \<noteq> []" using target by (simp add: after_static)
  then have "recovery_demo_verdict r' 400 = judge recovery_demo_env [] ?v (recovery_demo_window 400 0)"
    unfolding recovery_demo_verdict_def v' by (rule judge_named_target)
  then show completed: "rc_status (recovery_demo_stored r' 400) = ''completed''"
    using recovery_demo_completes by (simp add: recovery_demo_stored_fields judgements_snoc plan_status_def)
  have own: "plan_key r' = (''w'', ''p'')" "rc_id r' = 1" "jget (rc_payload r') ''target'' = Some (JObj recovery_demo_target)"
    by (simp_all add: r'_def r_def recovery_demo_stored_fields recovery_demo_fields)
  obtain w where w: "unverified_world (fl_rv recovery_demo_flow) w" "(recovery_step recovery_demo_flow pv)\<^sup>*\<^sup>* w (recovery_demo_state r, \<lambda>_. [])"
    using recovery_demo_start [of "''verification_pending''" pv] by (auto simp: recovery_reachable_def reachable_from_def r_def)
  have step: "recovery_step recovery_demo_flow pv (recovery_demo_state r, \<lambda>_. [])
      (recovery_demo_state r', (\<lambda>_. [])(1 := [recovery_demo_verdict r 100]))"
    using recovery_demo_step [of r pv "\<lambda>_. []" 100] by (simp add: r_def recovery_demo_fields r'_def)
  have step': "recovery_step recovery_demo_flow pv (recovery_demo_state r', (\<lambda>_. [])(1 := [recovery_demo_verdict r 100]))
      (recovery_demo_state (recovery_demo_stored r' 400), (\<lambda>_. [])(1 := [recovery_demo_verdict r 100, recovery_demo_verdict r' 400]))"
    using recovery_demo_step [OF status own(1,2,3), of pv "(\<lambda>_. [])(1 := [recovery_demo_verdict r 100])" 400] by simp
  from rtranclp.rtrancl_into_rtrancl [OF rtranclp.rtrancl_into_rtrancl [OF w(2) step] step'] w(1)
  show "recovery_reachable recovery_demo_flow pv (recovery_demo_state (recovery_demo_stored r' 400),
      (\<lambda>_. [])(1 := [recovery_demo_verdict r 100, recovery_demo_verdict r' 400]))"
    unfolding recovery_reachable_def reachable_from_def by blast
qed



definition recovery_demo_diff :: gitops_diff where
  "recovery_demo_diff =
     \<lparr>df_resource = ''Deployment/web'', df_namespace = ''shop'', df_desired_image = ''shop/web:1'', df_actual_image = ''shop/web:1'',
      df_risk = ''low'', df_workspace_id = ''w'', df_repository_id = ''repo'', df_watch_target_id = [], df_binding_id = ''b'',
      df_application_id = ''app'', df_workflow_run_id = ''run'', df_environment = ''prod'', df_cluster_id = ''k'',
      df_manifest_path = ''web.yaml'', df_resource_class = [], df_desired_manifest = [], df_status = ''changed'', df_has_changes = True,
      df_changes = [], df_basis = []\<rparr>"

theorem merged_recovery_is_always_rejected_witness:
  "merge_route_of (recovery_merge_authorization (fl_pg recovery_demo_flow) (fl_render recovery_demo_flow)
     (rs_plans (recovery_demo_state (recovery_demo_plan ''deploy_pending''))) (\<lambda>_. None) recovery_demo_diff) = ScopeRejected"
proof -
  have "get_recovery_plan_for_workflow (fl_pg recovery_demo_flow) (df_workspace_id recovery_demo_diff) (df_workflow_run_id recovery_demo_diff)
      (df_binding_id recovery_demo_diff) (df_application_id recovery_demo_diff)
      (rs_plans (recovery_demo_state (recovery_demo_plan ''deploy_pending''))) = Some (recovery_demo_plan ''deploy_pending'')"
    by (simp add: get_recovery_plan_for_workflow_def recovery_demo_state_def recovery_demo_diff_def recovery_demo_plan_def
        recovery_demo_row_def merged_as_def Let_def jsonb_get_def astext_def jget_def)
  note tracked = this
  have "recovery_reachable recovery_demo_flow pv (recovery_demo_state (recovery_demo_plan ''deploy_pending''), \<lambda>_. [])" for pv
    by (rule recovery_demo_start) simp
  from merged_recovery_is_always_rejected [OF this recovery_demo_iso tracked] show ?thesis .
qed

text \<open>A failed Safe PR of the candidate at commit \<^verbatim>\<open>old\<close>, which a retry refreshes to \<^verbatim>\<open>new\<close>.\<close>

definition refreshed_demo_candidate :: "string \<Rightarrow> jobj" where
  "refreshed_demo_candidate commit_sha =
     [(''action_id'', JStr ''act''), (''title'', JStr ''t''), (''description'', JStr ''d''),
      (''draft'', JObj [(''action_type'', JStr ''scale''), (''namespace'', JStr ''shop''), (''resource_kind'', JStr ''Deployment''),
         (''resource_name'', JStr ''web''), (''reason'', JStr ''r''), (''risk_level'', JStr ''low''), (''dry_run'', JBool False),
         (''source_evidence'', JArr []), (''params'', JObj [(''commit_sha'', JStr commit_sha)])]),
      (''route'', JStr ''draft_pr''), (''rank'', JInt 1), (''score'', JInt 1), (''risk_level'', JStr ''low''), (''blast_radius'', JStr ''pod''),
      (''approval_required'', JBool True), (''prerequisites'', JArr []), (''validation_checks'', JArr []), (''rollback_plan'', JStr ''rb''),
      (''evidence_refs'', JArr [])]"

definition refreshed_demo_plan :: recovery_plan_row where
  "refreshed_demo_plan = recovery_demo_row\<lparr>rc_status := ''failed'', rc_selected_action_id := Some ''act'', rc_payload :=
     [(''plan_id'', JStr ''p''), (''incident_id'', JStr ''i''), (''evidence_ref'', JStr ''e''), (''summary'', JStr ''s''),
      (''target'', JObj []), (''recommended_action_id'', JStr ''act''), (''execution_route'', JStr ''draft_pr''),
      (''selection_required'', JBool True), (''candidates'', JArr [JObj (refreshed_demo_candidate ''old'')]),
      (''lifecycle'', JObj [(''failure'', JObj [(''stage'', JStr ''safe_pr'')])])]\<rparr>"

definition refreshed_demo_state :: recovery_state where
  "refreshed_demo_state = \<lparr>rs_plans = [refreshed_demo_plan],
     rs_approvals = [\<lparr>ra_approval_id = recovery_approval_id recovery_demo_flow ''p'' ''act'', ra_workspace_id = ''w'', ra_status = ''granted'',
       ra_details = [(''selected_candidate'', JObj (refreshed_demo_candidate ''old''))]\<rparr>]\<rparr>"

definition refreshed_demo_retry :: "(flow_error + flow_body list) \<times> recovery_state" where
  "refreshed_demo_retry = retry_recovery_by_correlation recovery_demo_flow True (Some (\<lambda>_. Inr (refreshed_demo_candidate ''new'')))
     (\<lambda>_. None) 5 ''2'' ''w'' ''c'' ''p'' ''u'' ''again'' refreshed_demo_state"

definition refreshed_demo_pr :: safe_pr_created where
  "refreshed_demo_pr = \<lparr>sc_pr_url = ''https://g/1'', sc_mode = ''github_rest'', sc_workspace_id = ''w'', sc_repository_id = ''repo'',
     sc_binding_id = ''b'', sc_application_id = ''app'', sc_environment = ''prod'', sc_manifest_path = ''web.yaml'', sc_repo_ref = ''o/r'',
     sc_base_branch = ''main'', sc_commit_sha = ''new'', sc_patch_sha256 = ''x'', sc_pr_number = Some 1, sc_pr_node_id = ''n'',
     sc_head_ref = ''fix'', sc_head_sha = ''abc''\<rparr>"

lemma refreshed_demo_accepted: "case fst refreshed_demo_retry of Inl _ \<Rightarrow> False | Inr _ \<Rightarrow> True"
  by code_simp

theorem refreshed_safe_pr_is_refused_witness:
  "\<exists>rows r'. on_recovery_safe_pr_created recovery_demo_flow ''c'' refreshed_demo_pr [] [] None 9 (snd refreshed_demo_retry) =
      ([RcaFollowupRequired ''safe_pr_identity_incomplete'' ''e''], snd refreshed_demo_retry\<lparr>rs_plans := rows\<rparr>) \<and>
     get_recovery_plan_by_correlation ''c'' ''w'' rows = Some r' \<and> rc_id r' = 1 \<and> rc_status r' = ''selection_requested''"
proof -
  let ?r = refreshed_demo_plan
  have st: "rs_plans refreshed_demo_state = [?r]" by (simp add: refreshed_demo_state_def)
  have ok: "plans_ok (rs_plans refreshed_demo_state)" by (simp add: st plans_ok_def unique_key_def)
  have one: "filter (\<lambda>r. rc_correlation_id r = ''c'' \<and> rc_workspace_id r = ''w'') (rs_plans refreshed_demo_state) = [?r]"
    by (simp add: st refreshed_demo_plan_def recovery_demo_row_def)
  have row: "rc_selected_action_id ?r = Some ''act''" "rc_plan_id ?r = ''p''" "rc_evidence_ref ?r = ''e''" "rc_id ?r = 1"
    by (simp_all add: refreshed_demo_plan_def recovery_demo_row_def)
  have chosen: "selected_recovery_candidate ?r = Some (refreshed_demo_candidate ''old'')" by code_simp
  have route: "text_value (jget (refreshed_demo_candidate ''old'') ''route'') = ROUTE_SAFE_PR" by code_simp
  have names: "py_strip (rc_plan_id ?r) = rc_plan_id ?r" "rc_plan_id ?r \<noteq> []"
    by code_simp+
  have failure: "text_value (jget (as_mapping (jget (row_lifecycle ?r) ''failure'')) ''stage'') = ''safe_pr''" by code_simp
  let ?first = "hd (rs_approvals refreshed_demo_state)"
  have first: "get_recovery_approval (recovery_approval_id recovery_demo_flow (rc_plan_id ?r) (py_strip ''act'')) ''w''
      (rs_approvals refreshed_demo_state) = Some ?first" "ra_status ?first = ''granted''"
    by code_simp+
  have evt: "sc_workspace_id refreshed_demo_pr = ''w''"
    "sc_commit_sha refreshed_demo_pr \<noteq> text_value (jget (selected_candidate_params (Some ?first)) ''commit_sha'')"
    by code_simp+
  obtain bodies where retry: "refreshed_demo_retry = (Inr bodies, snd refreshed_demo_retry)"
    using refreshed_demo_accepted by (cases "fst refreshed_demo_retry") (auto simp: prod_eq_iff)
  from refreshed_safe_pr_is_refused [OF ok one row(1) chosen route names failure first retry [unfolded refreshed_demo_retry_def] evt]
  show ?thesis unfolding row or_default_def refreshed_demo_retry_def by simp
qed

end
