(* ===== verification/Workflow_Store.thy ===== *)
theory Workflow_Store
  imports Recovery_Merge
begin

text \<open>
  The tables of a GitOps deployment and the operations on them
  (\<^verbatim>\<open>src/src/domains/gitops/repository.py\<close>, \<^verbatim>\<open>models.py\<close>, \<^verbatim>\<open>timeline.py\<close> and
  \<^verbatim>\<open>src/src/packages/contracts/gitops/__init__.py\<close>): the identifiers derived from an event, the
  applications, the workflow runs with their guarded transitions, the steps, the approvals, the
  commands a run owns, the snapshots of what was approved and the facts of the timeline. Columns no
  modelled operation reads (\<^verbatim>\<open>created_at\<close>, \<^verbatim>\<open>updated_at\<close>) are left out.
\<close>

section \<open>Identifiers\<close>

text \<open>
  \<open>wv_sha\<close> is the hexadecimal SHA-256 of a text, \<open>wv_render\<close> and \<open>wv_pg\<close> the texts Python and
  PostgreSQL give values that are no strings, \<open>wv_yaml\<close> the YAML library's text of a manifest, \<open>wv_say\<close> the
  (Korean) texts of the analyser's reasons. \<open>wv_refuses\<close> says for which repository references
  \<^verbatim>\<open>normalize_github_repo_ref\<close> raises; its URL parsing is not modelled.
\<close>

record workflow_env =
  wv_sha :: "string \<Rightarrow> string"
  wv_render :: "json \<Rightarrow> string"
  wv_pg :: "json \<Rightarrow> string"
  wv_yaml :: "jobj \<Rightarrow> string"
  wv_say :: "decision_reason \<Rightarrow> string"
  wv_refuses :: "string \<Rightarrow> bool"

text \<open>\<^verbatim>\<open>str(payload.get(key, default))\<close>.\<close>

definition payload_str :: "workflow_env \<Rightarrow> jobj \<Rightarrow> string \<Rightarrow> string \<Rightarrow> string" where
  "payload_str wv p key dflt = text_of (wv_render wv) (jget p key) dflt"

text \<open>\<^verbatim>\<open>str(payload.get(key) or "")\<close>.\<close>

definition payload_or_empty :: "workflow_env \<Rightarrow> jobj \<Rightarrow> string \<Rightarrow> string" where
  "payload_or_empty wv p key =
     (case jget p key of None \<Rightarrow> [] | Some v \<Rightarrow> if py_truthy v then py_str (wv_render wv) v else [])"

text \<open>\<^verbatim>\<open>explicit and explicit != DEFAULT\<close>; every default identifier is the empty string.\<close>

definition explicit_id :: "workflow_env \<Rightarrow> jobj \<Rightarrow> string \<Rightarrow> string option" where
  "explicit_id wv p key =
     (case jget p key of Some v \<Rightarrow> if py_truthy v then Some (py_str (wv_render wv) v) else None | None \<Rightarrow> None)"

fun joined_parts :: "string list \<Rightarrow> string" where
  "joined_parts [] = []"
| "joined_parts [t] = t"
| "joined_parts (t # ts) = t @ ''|'' @ joined_parts ts"

definition hashed_id :: "workflow_env \<Rightarrow> string \<Rightarrow> string list \<Rightarrow> string" where
  "hashed_id wv kind parts = kind @ ''-'' @ take 32 (wv_sha wv (joined_parts parts))"

definition id_or :: "string option \<Rightarrow> string \<Rightarrow> string" where
  "id_or explicit derived = (case explicit of Some t \<Rightarrow> t | None \<Rightarrow> derived)"

definition derive_repository_id :: "workflow_env \<Rightarrow> jobj \<Rightarrow> string" where
  "derive_repository_id wv p =
     id_or (explicit_id wv p ''repository_id'')
       (hashed_id wv ''repo'' [payload_str wv p ''workspace_id'' ''default'', payload_str wv p ''repo_ref'' []])"

definition derive_watch_target_id :: "workflow_env \<Rightarrow> jobj \<Rightarrow> string" where
  "derive_watch_target_id wv p =
     id_or (explicit_id wv p ''watch_target_id'')
       (hashed_id wv ''watch'' [payload_str wv p ''workspace_id'' ''default'', derive_repository_id wv p,
          payload_str wv p ''branch'' ''main'', payload_str wv p ''manifest_path'' ''deploy.yaml''])"

definition derive_deployment_binding_id :: "workflow_env \<Rightarrow> jobj \<Rightarrow> string" where
  "derive_deployment_binding_id wv p =
     id_or (explicit_id wv p ''binding_id'')
       (hashed_id wv ''binding'' [payload_str wv p ''workspace_id'' ''default'', derive_repository_id wv p,
          payload_str wv p ''cluster_id'' ''default-target-cluster'', payload_str wv p ''namespace'' ''sandbox'',
          payload_str wv p ''app_name'' []])"

text \<open>\<^verbatim>\<open>text.split("/", 1)[1]\<close> and \<^verbatim>\<open>text.rsplit("/", 1)[1]\<close> of a text with a slash.\<close>

definition after_first_slash :: "string \<Rightarrow> string" where
  "after_first_slash t = tl (dropWhile (\<lambda>c. c \<noteq> CHR ''/'') t)"

definition after_last_slash :: "string \<Rightarrow> string" where
  "after_last_slash t = rev (takeWhile (\<lambda>c. c \<noteq> CHR ''/'') (rev t))"

text \<open>\<^verbatim>\<open>derive_application_name\<close>, and \<^verbatim>\<open>application_name_hint\<close> of the controller.\<close>

definition derive_application_name :: "workflow_env \<Rightarrow> jobj \<Rightarrow> string" where
  "derive_application_name wv p =
     (let explicit = or_else (payload_or_empty wv p ''name'') (payload_or_empty wv p ''app_name'');
          resource = payload_str wv p ''resource'' []; repo_ref = payload_str wv p ''repo_ref'' []
      in if explicit \<noteq> [] then explicit
         else if CHR ''/'' \<in> set resource then after_first_slash resource
         else if CHR ''/'' \<in> set repo_ref then after_last_slash repo_ref
         else [])"

definition derive_application_id :: "workflow_env \<Rightarrow> jobj \<Rightarrow> string" where
  "derive_application_id wv p =
     id_or (explicit_id wv p ''application_id'')
       (hashed_id wv ''app'' [payload_str wv p ''workspace_id'' ''default'', derive_repository_id wv p,
          payload_str wv p ''manifest_path'' ''deploy.yaml'', derive_application_name wv p])"

definition derive_workflow_run_id :: "workflow_env \<Rightarrow> jobj \<Rightarrow> string" where
  "derive_workflow_run_id wv p =
     id_or (explicit_id wv p ''workflow_run_id'')
       (hashed_id wv ''workflow'' [payload_str wv p ''workspace_id'' ''default'', derive_application_id wv p,
          derive_deployment_binding_id wv p, payload_str wv p ''environment'' ''sandbox'', payload_str wv p ''commit_sha'' []])"

definition derive_workflow_step_id :: "workflow_env \<Rightarrow> string \<Rightarrow> string \<Rightarrow> string" where
  "derive_workflow_step_id wv run step_name = hashed_id wv ''step'' [run, step_name]"

section \<open>Statuses\<close>

definition WORKFLOW_STATUS_RANKS :: "(string \<times> nat) list" where
  "WORKFLOW_STATUS_RANKS =
     [(''started'', 1), (''rendering'', 2), (''diffing'', 3), (''policy_checking'', 4), (''waiting_for_approval'', 5),
      (''applying'', 6), (''rollout_waiting'', 7), (''succeeded'', 8), (''failed'', 8)]"

definition TERMINAL_WORKFLOW_STATUSES :: "string list" where
  "TERMINAL_WORKFLOW_STATUSES = [''succeeded'', ''failed'']"

definition WORKFLOW_STEP_STATUS_RANKS :: "(string \<times> nat) list" where
  "WORKFLOW_STEP_STATUS_RANKS =
     [(''pending'', 1), (''running'', 2), (''succeeded'', 3), (''failed'', 3), (''skipped'', 3)]"

definition TERMINAL_WORKFLOW_STEP_STATUSES :: "string list" where
  "TERMINAL_WORKFLOW_STEP_STATUSES = [''succeeded'', ''failed'', ''skipped'']"

text \<open>The CASE expression: an unknown status has rank 0.\<close>

definition status_rank :: "(string \<times> nat) list \<Rightarrow> string \<Rightarrow> nat" where
  "status_rank ranks status = (case map_of ranks status of Some n \<Rightarrow> n | None \<Rightarrow> 0)"

definition workflow_transition_guard :: "string \<Rightarrow> string \<Rightarrow> bool" where
  "workflow_transition_guard current new \<longleftrightarrow>
     current \<notin> set TERMINAL_WORKFLOW_STATUSES \<and>
     status_rank WORKFLOW_STATUS_RANKS current \<le> status_rank WORKFLOW_STATUS_RANKS new"

definition workflow_step_transition_guard :: "string \<Rightarrow> string \<Rightarrow> bool" where
  "workflow_step_transition_guard current new \<longleftrightarrow>
     current \<notin> set TERMINAL_WORKFLOW_STEP_STATUSES \<and>
     status_rank WORKFLOW_STEP_STATUS_RANKS current \<le> status_rank WORKFLOW_STEP_STATUS_RANKS new"

text \<open>A change of status is written only when it goes forward and is a change.\<close>

definition run_may_become :: "string \<Rightarrow> string \<Rightarrow> bool" where
  "run_may_become current new \<longleftrightarrow> workflow_transition_guard current new \<and> current \<noteq> new"

definition step_may_become :: "string \<Rightarrow> string \<Rightarrow> bool" where
  "step_may_become current new \<longleftrightarrow> workflow_step_transition_guard current new \<and> current \<noteq> new"

section \<open>Tables\<close>

record application_row =
  ar_application_id :: string
  ar_workspace_id :: string
  ar_repository_id :: string
  ar_name :: string
  ar_manifest_path :: string
  ar_status :: string
  ar_metadata :: jobj

record workflow_row =
  wr_workflow_run_id :: string
  wr_workspace_id :: string
  wr_application_id :: string
  wr_binding_id :: string
  wr_environment :: string
  wr_cluster_id :: string
  wr_commit_sha :: string
  wr_status :: string
  wr_current_step :: string
  wr_summary :: "string option"
  wr_command_id :: "string option"
  wr_metadata :: jobj

record step_row =
  sw_step_id :: string
  sw_workflow_run_id :: string
  sw_workspace_id :: string
  sw_application_id :: string
  sw_binding_id :: string
  sw_environment :: string
  sw_name :: string
  sw_status :: string
  sw_message :: "string option"
  sw_details :: jobj

text \<open>The columns of an agent command the workflow reads; the payload is the plan as JSON.\<close>

record agent_command =
  gc_command_id :: string
  gc_status :: command_status
  gc_payload :: jobj
  gc_result :: jobj
  gc_completed_at :: "time option"

record resource_snapshot =
  sn_key :: "string \<times> string \<times> string \<times> string \<times> string \<times> string"
  sn_workflow_run_id :: string
  sn_command_id :: string
  sn_commit_sha :: string
  sn_artifact_digest :: string
  sn_managed_fields :: "string list"
  sn_snapshot :: jobj
  sn_completed_at :: time

text \<open>
  A fact of the timeline; its subject is the application, the binding and the run, its time the text
  the envelope of the source event gives.
\<close>

record timeline_fact =
  tl_workspace_id :: string
  tl_cluster_id :: string
  tl_source :: string
  tl_source_key :: string
  tl_native_id :: string
  tl_activity :: string
  tl_occurred_at :: string
  tl_subject :: "string \<times> string \<times> string"
  tl_event_type :: string
  tl_severity :: string
  tl_title :: string
  tl_metadata :: jobj

record workflow_db =
  wd_applications :: "application_row list"
  wd_repositories :: "jobj list"
  wd_bindings :: "jobj list"
  wd_registrations :: "registration_row list"
  wd_runs :: "workflow_row list"
  wd_steps :: "step_row list"
  wd_approvals :: "approval_row list"
  wd_commands :: "agent_command list"
  wd_snapshots :: "resource_snapshot list"
  wd_facts :: "timeline_fact list"
  wd_plans :: "recovery_plan_row list"

text \<open>A nullable text column given from a payload.\<close>

definition text_column :: "jobj \<Rightarrow> string \<Rightarrow> string option" where
  "text_column p key = (case jget p key of Some (JStr t) \<Rightarrow> Some t | _ \<Rightarrow> None)"

section \<open>Applications\<close>

definition same_application :: "string \<Rightarrow> string \<Rightarrow> string \<Rightarrow> application_row \<Rightarrow> bool" where
  "same_application ws repository name a \<longleftrightarrow>
     ar_workspace_id a = ws \<and> ar_repository_id a = repository \<and> ar_name a = name"

text \<open>
  \<^verbatim>\<open>upsert_application\<close> for a payload that names no user, as the controller gives: the application of
  that name is updated, otherwise created; None is the error of the lock on a repository reference
  that cannot be normalised, or the LookupError when the identifier belongs to another application.
  The advisory locks have no effect within one transaction.
\<close>

definition upsert_application :: "workflow_env \<Rightarrow> jobj \<Rightarrow> application_row list \<Rightarrow> (string \<times> application_row list) option" where
  "upsert_application wv p apps =
     (let ws = payload_str wv p ''workspace_id'' ''default''; repository = derive_repository_id wv p;
          app_id = derive_application_id wv p; name = derive_application_name wv p;
          path = payload_str wv p ''manifest_path'' ''deploy.yaml''; status = payload_str wv p ''status'' ''active'';
          metadata = as_mapping (jget p ''metadata''); ref = py_strip (payload_or_empty wv p ''repo_ref'')
      in if ref \<noteq> [] \<and> wv_refuses wv ref then None
         else case find (same_application ws repository name) apps of
           Some a \<Rightarrow> Some (ar_application_id a,
             update_where (\<lambda>b. same_application ws repository name b \<and> ar_application_id b = ar_application_id a)
               (\<lambda>b. b\<lparr>ar_manifest_path := path, ar_status := status, ar_metadata := metadata\<rparr>) apps)
         | None \<Rightarrow>
             if app_id \<in> ar_application_id ` set apps then None
             else Some (app_id, apps @ [\<lparr>ar_application_id = app_id, ar_workspace_id = ws, ar_repository_id = repository,
               ar_name = name, ar_manifest_path = path, ar_status = status, ar_metadata = metadata\<rparr>]))"

section \<open>Workflow runs\<close>

definition new_run :: "workflow_env \<Rightarrow> jobj \<Rightarrow> workflow_row" where
  "new_run wv p =
     \<lparr>wr_workflow_run_id = derive_workflow_run_id wv p, wr_workspace_id = payload_str wv p ''workspace_id'' ''default'',
      wr_application_id = derive_application_id wv p, wr_binding_id = derive_deployment_binding_id wv p,
      wr_environment = payload_str wv p ''environment'' ''sandbox'', wr_cluster_id = payload_str wv p ''cluster_id'' [],
      wr_commit_sha = payload_str wv p ''commit_sha'' [], wr_status = payload_str wv p ''status'' ''started'',
      wr_current_step = payload_str wv p ''current_step'' ''git'', wr_summary = text_column p ''summary'',
      wr_command_id = text_column p ''command_id'', wr_metadata = as_mapping (jget p ''metadata'')\<rparr>"

text \<open>
  \<^verbatim>\<open>start_workflow_run\<close>: insert, or a guarded update of the row of the same identifier; the answer is
  whether a row was written.
\<close>

definition start_workflow_run :: "workflow_env \<Rightarrow> jobj \<Rightarrow> workflow_row list \<Rightarrow> bool \<times> workflow_row list" where
  "start_workflow_run wv p runs =
     (let new = new_run wv p;
          hit = (\<lambda>r. wr_workflow_run_id r = wr_workflow_run_id new \<and> run_may_become (wr_status r) (wr_status new))
      in if wr_workflow_run_id new \<in> wr_workflow_run_id ` set runs
         then (list_ex hit runs, update_where hit
           (\<lambda>r. r\<lparr>wr_status := wr_status new, wr_current_step := wr_current_step new, wr_summary := wr_summary new,
              wr_command_id := wr_command_id new, wr_metadata := wr_metadata new\<rparr>) runs)
         else (True, runs @ [new]))"

text \<open>\<^verbatim>\<open>update_workflow_run\<close>: only the columns whose key the payload has.\<close>

definition set_run :: "workflow_env \<Rightarrow> jobj \<Rightarrow> workflow_row \<Rightarrow> workflow_row" where
  "set_run wv p r =
     r\<lparr>wr_status := payload_str wv p ''status'' (wr_status r),
       wr_current_step := payload_str wv p ''current_step'' (wr_current_step r),
       wr_summary := (if jget p ''summary'' = None then wr_summary r else text_column p ''summary''),
       wr_command_id := (if jget p ''command_id'' = None then wr_command_id r else text_column p ''command_id''),
       wr_metadata := (case jget p ''metadata'' of None \<Rightarrow> wr_metadata r | Some v \<Rightarrow> as_mapping (Some v))\<rparr>"

definition update_workflow_run :: "workflow_env \<Rightarrow> jobj \<Rightarrow> workflow_row list \<Rightarrow> bool \<times> workflow_row list" where
  "update_workflow_run wv p runs =
     (let hit = (\<lambda>r. wr_workflow_run_id r = derive_workflow_run_id wv p \<and>
            (jget p ''status'' = None \<or> run_may_become (wr_status r) (payload_str wv p ''status'' [])))
      in (list_ex hit runs, update_where hit (set_run wv p) runs))"

definition attach_workflow_command :: "string \<Rightarrow> string \<Rightarrow> workflow_row list \<Rightarrow> workflow_row list" where
  "attach_workflow_command run command_id runs =
     update_where (\<lambda>r. wr_workflow_run_id r = run) (\<lambda>r. r\<lparr>wr_command_id := Some command_id\<rparr>) runs"

definition get_workflow_run :: "string \<Rightarrow> workflow_row list \<Rightarrow> workflow_row option" where
  "get_workflow_run run runs = lookup wr_workflow_run_id run runs"

text \<open>The row as the JSON object its readers see.\<close>

definition null_or_text :: "string option \<Rightarrow> json" where
  "null_or_text v = (case v of None \<Rightarrow> JNull | Some t \<Rightarrow> JStr t)"

definition run_object :: "workflow_row \<Rightarrow> jobj" where
  "run_object r =
     [(''workflow_run_id'', JStr (wr_workflow_run_id r)), (''workspace_id'', JStr (wr_workspace_id r)),
      (''application_id'', JStr (wr_application_id r)), (''binding_id'', JStr (wr_binding_id r)),
      (''environment'', JStr (wr_environment r)), (''cluster_id'', JStr (wr_cluster_id r)),
      (''commit_sha'', JStr (wr_commit_sha r)), (''status'', JStr (wr_status r)),
      (''current_step'', JStr (wr_current_step r)), (''summary'', null_or_text (wr_summary r)),
      (''command_id'', null_or_text (wr_command_id r)), (''metadata'', JObj (wr_metadata r))]"

section \<open>Steps\<close>

definition new_step :: "workflow_env \<Rightarrow> jobj \<Rightarrow> step_row" where
  "new_step wv p =
     (let run = derive_workflow_run_id wv p;
          step_name = or_else (payload_or_empty wv p ''name'') (or_else (payload_or_empty wv p ''step'') ''git'')
      in \<lparr>sw_step_id = or_else (payload_or_empty wv p ''step_id'') (derive_workflow_step_id wv run step_name),
          sw_workflow_run_id = run, sw_workspace_id = payload_str wv p ''workspace_id'' ''default'',
          sw_application_id = derive_application_id wv p, sw_binding_id = derive_deployment_binding_id wv p,
          sw_environment = payload_str wv p ''environment'' ''sandbox'', sw_name = step_name,
          sw_status = payload_str wv p ''status'' ''succeeded'', sw_message = text_column p ''message'',
          sw_details = as_mapping (jget p ''details'')\<rparr>)"

definition step_key :: "step_row \<Rightarrow> string \<times> string" where
  "step_key s = (sw_workflow_run_id s, sw_name s)"

definition record_workflow_step :: "workflow_env \<Rightarrow> jobj \<Rightarrow> step_row list \<Rightarrow> bool \<times> step_row list" where
  "record_workflow_step wv p steps =
     (let new = new_step wv p; hit = (\<lambda>s. step_key s = step_key new \<and> step_may_become (sw_status s) (sw_status new))
      in if step_key new \<in> step_key ` set steps
         then (list_ex hit steps, update_where hit
           (\<lambda>s. s\<lparr>sw_status := sw_status new, sw_message := sw_message new, sw_details := sw_details new\<rparr>) steps)
         else (True, steps @ [new]))"

section \<open>Approvals\<close>

definition open_approval :: "approval_row \<Rightarrow> bool" where
  "open_approval a \<longleftrightarrow> ap_status a \<in> {''requested'', ''not_required''}"

definition payload_approval_id :: "workflow_env \<Rightarrow> jobj \<Rightarrow> string" where
  "payload_approval_id wv p =
     or_else (payload_or_empty wv p ''approval_id'') (derive_approval_id (wv_sha wv) (derive_workflow_run_id wv p) [])"

text \<open>The callers in scope give no expiry; one given elsewhere is a column of the row already.\<close>

definition new_approval :: "workflow_env \<Rightarrow> jobj \<Rightarrow> approval_row" where
  "new_approval wv p =
     \<lparr>ap_approval_id = payload_approval_id wv p, ap_workflow_run_id = derive_workflow_run_id wv p,
      ap_workspace_id = payload_str wv p ''workspace_id'' ''default'', ap_application_id = derive_application_id wv p,
      ap_binding_id = derive_deployment_binding_id wv p, ap_environment = payload_str wv p ''environment'' ''sandbox'',
      ap_status = payload_str wv p ''status'' ''requested'', ap_reason = payload_str wv p ''reason'' [],
      ap_requested_role = payload_str wv p ''requested_role'' ''release_operator'',
      ap_requested_by = text_column p ''requested_by'', ap_decided_by = text_column p ''decided_by'',
      ap_decision = text_column p ''decision'', ap_details = JObj (as_mapping (jget p ''details'')), ap_expires_at = None\<rparr>"

text \<open>\<^verbatim>\<open>request_workflow_approval\<close>: an approval that was decided is not changed by asking for it again.\<close>

definition request_approval :: "workflow_env \<Rightarrow> jobj \<Rightarrow> approval_row list \<Rightarrow> approval_row list" where
  "request_approval wv p approvals =
     (let new = new_approval wv p
      in if ap_approval_id new \<in> ap_approval_id ` set approvals
         then update_where (\<lambda>a. ap_approval_id a = ap_approval_id new \<and> open_approval a)
           (\<lambda>a. a\<lparr>ap_status := ap_status new, ap_reason := ap_reason new, ap_requested_role := ap_requested_role new,
              ap_requested_by := ap_requested_by new, ap_decided_by := ap_decided_by new, ap_decision := ap_decision new,
              ap_details := ap_details new, ap_expires_at := ap_expires_at new\<rparr>) approvals
         else approvals @ [new])"

definition decided :: "string \<Rightarrow> string option \<Rightarrow> string option \<Rightarrow> jobj \<Rightarrow> approval_row \<Rightarrow> approval_row" where
  "decided status decided_by decision details a =
     a\<lparr>ap_status := status, ap_decided_by := decided_by, ap_decision := decision, ap_details := JObj details\<rparr>"

text \<open>The expiry column is a timestamp, so a text never stands in it.\<close>

definition unexpired :: "time \<Rightarrow> approval_row \<Rightarrow> bool" where
  "unexpired now a \<longleftrightarrow> (case ap_expires_at a of None \<Rightarrow> True | Some (Stamp t) \<Rightarrow> now < t | Some (StampText _) \<Rightarrow> False)"

definition resolvable :: "time \<Rightarrow> string \<Rightarrow> string \<Rightarrow> approval_row \<Rightarrow> bool" where
  "resolvable now approval_id ws a \<longleftrightarrow>
     ap_approval_id a = approval_id \<and> ap_workspace_id a = ws \<and> open_approval a \<and> unexpired now a"

definition resolve_workflow_approval_if_open ::
    "time \<Rightarrow> string \<Rightarrow> string \<Rightarrow> string \<Rightarrow> string option \<Rightarrow> string option \<Rightarrow> jobj \<Rightarrow> approval_row list \<Rightarrow> bool \<times> approval_row list" where
  "resolve_workflow_approval_if_open now approval_id ws status decided_by decision details approvals =
     (list_ex (resolvable now approval_id ws) approvals,
      update_where (resolvable now approval_id ws) (decided status decided_by decision details) approvals)"

definition resolve_workflow_approval :: "workflow_env \<Rightarrow> jobj \<Rightarrow> approval_row list \<Rightarrow> approval_row list" where
  "resolve_workflow_approval wv p approvals =
     update_where (\<lambda>a. ap_approval_id a = payload_approval_id wv p)
       (decided (payload_str wv p ''status'' ''granted'') (text_column p ''decided_by'') (text_column p ''decision'')
          (as_mapping (jget p ''details''))) approvals"

definition find_approval :: "string \<Rightarrow> string \<Rightarrow> approval_row list \<Rightarrow> approval_row option" where
  "find_approval approval_id ws approvals =
     find (\<lambda>a. ap_approval_id a = approval_id \<and> ap_workspace_id a = ws) approvals"

section \<open>The commands of a run\<close>

text \<open>\<^verbatim>\<open>promotion_gate_from_command_result(result)["eligible"]\<close>.\<close>

definition failed_resource :: "workflow_env \<Rightarrow> json \<Rightarrow> bool" where
  "failed_resource wv v \<longleftrightarrow>
     (case v of
        JObj d \<Rightarrow> jget d ''applied'' = Some (JBool False) \<or> ascii_lower (payload_str wv d ''status'' []) = ''failed''
      | _ \<Rightarrow> False)"

definition promotion_eligible :: "workflow_env \<Rightarrow> jobj \<Rightarrow> bool" where
  "promotion_eligible wv result \<longleftrightarrow>
     jget result ''status'' = Some (JStr ''completed'') \<and> jget result ''applied'' \<noteq> Some (JBool False) \<and>
     \<not> list_ex (failed_resource wv) (json_items (jget result ''resources'')) \<and>
     jget (as_mapping (jget result ''rollout'')) ''ready'' \<noteq> Some (JBool False)"

definition owned_by :: "workflow_env \<Rightarrow> string \<Rightarrow> agent_command \<Rightarrow> bool" where
  "owned_by wv run c \<longleftrightarrow> astext (wv_pg wv) (jget (gc_payload c) ''workflow_run_id'') = Some run"

definition approval_ref_of :: "workflow_env \<Rightarrow> agent_command \<Rightarrow> string" where
  "approval_ref_of wv c = payload_or_empty wv (gc_payload c) ''approval_ref''"

definition approvals_of :: "string \<Rightarrow> workflow_db \<Rightarrow> approval_row list" where
  "approvals_of run db = sort_key ap_approval_id (filter (\<lambda>a. ap_workflow_run_id a = run) (wd_approvals db))"

definition commands_of :: "workflow_env \<Rightarrow> string \<Rightarrow> workflow_db \<Rightarrow> agent_command list" where
  "commands_of wv run db = sort_key gc_command_id (filter (owned_by wv run) (wd_commands db))"

text \<open>\<^verbatim>\<open>get_workflow_command_progress\<close>: every approval and every command of the run.\<close>

definition get_workflow_command_progress :: "workflow_env \<Rightarrow> string \<Rightarrow> workflow_db \<Rightarrow> approval_row list \<times> agent_command list" where
  "get_workflow_command_progress wv run db = (approvals_of run db, commands_of wv run db)"

definition identity_object :: "string \<Rightarrow> string \<Rightarrow> string \<Rightarrow> string \<Rightarrow> string \<Rightarrow> string \<Rightarrow> string \<Rightarrow> jobj" where
  "identity_object run ws app_id binding environment cluster commit =
     [(''workflow_run_id'', JStr run), (''workspace_id'', JStr ws), (''application_id'', JStr app_id),
      (''binding_id'', JStr binding), (''environment'', JStr environment), (''cluster_id'', JStr cluster),
      (''commit_sha'', JStr commit)]"

definition workflow_identity_from_queued_command :: "workflow_env \<Rightarrow> agent_command \<Rightarrow> jobj option" where
  "workflow_identity_from_queued_command wv c =
     (let p = gc_payload c; run = payload_or_empty wv p ''workflow_run_id''; app_id = payload_or_empty wv p ''application_id''
      in if run = [] \<or> app_id = [] then None
         else Some (identity_object run (payload_str wv p ''workspace_id'' ''default'') app_id (payload_str wv p ''binding_id'' [])
           (payload_str wv p ''environment'' ''sandbox'') (payload_str wv p ''cluster_id'' ''default-target-cluster'')
           (payload_str wv p ''commit_sha'' [])))"

definition get_workflow_identity_for_command :: "workflow_env \<Rightarrow> string \<Rightarrow> workflow_db \<Rightarrow> jobj option" where
  "get_workflow_identity_for_command wv command_id db =
     (case find (\<lambda>r. wr_command_id r = Some command_id) (wd_runs db) of
        Some r \<Rightarrow> Some (identity_object (wr_workflow_run_id r) (wr_workspace_id r) (wr_application_id r) (wr_binding_id r)
          (wr_environment r) (wr_cluster_id r) (wr_commit_sha r))
      | None \<Rightarrow> Option.bind (lookup gc_command_id command_id (wd_commands db)) (workflow_identity_from_queued_command wv))"

section \<open>What was approved and applied\<close>

definition diff_names_run :: "workflow_env \<Rightarrow> workflow_row \<Rightarrow> jobj \<Rightarrow> bool" where
  "diff_names_run wv r diff \<longleftrightarrow>
     payload_or_empty wv diff ''workflow_run_id'' = wr_workflow_run_id r \<and>
     payload_or_empty wv diff ''workspace_id'' = wr_workspace_id r \<and>
     payload_or_empty wv diff ''binding_id'' = wr_binding_id r \<and>
     payload_or_empty wv diff ''cluster_id'' = wr_cluster_id r"

text \<open>
  One command of \<^verbatim>\<open>prepare_approved_resource_snapshots\<close>: None refuses the run, no row for a kind
  without managed fields.
\<close>

definition prepared_snapshot :: "workflow_env \<Rightarrow> time \<Rightarrow> workflow_row \<Rightarrow> agent_command \<Rightarrow> resource_snapshot list option" where
  "prepared_snapshot wv now r c =
     (case jget (gc_payload c) ''diff'' of
        Some (JObj diff) \<Rightarrow>
          (let manifest = as_mapping (jget diff ''desired_manifest'');
               desired = snapshot_from_kubernetes_object (wv_render wv) manifest ''approved_command''
           in if manifest = [] \<or> ascii_lower (fs_resource desired) \<noteq> ascii_lower (payload_or_empty wv diff ''resource'') \<or>
                 fs_namespace desired \<noteq> payload_or_empty wv diff ''namespace'' \<or> \<not> diff_names_run wv r diff
              then None
              else if fs_fields desired = [] then Some []
              else Some [\<lparr>sn_key = (wr_workspace_id r, wr_binding_id r, wr_cluster_id r, fs_namespace desired,
                    takeWhile (\<lambda>ch. ch \<noteq> CHR ''/'') (fs_resource desired), after_first_slash (fs_resource desired)),
                  sn_workflow_run_id = wr_workflow_run_id r, sn_command_id = gc_command_id c, sn_commit_sha = wr_commit_sha r,
                  sn_artifact_digest = payload_or_empty wv (as_mapping (jget diff ''basis'')) ''artifact_digest'',
                  sn_managed_fields = sort (map fst (fs_fields desired)),
                  sn_snapshot = [(''resource'', JStr (fs_resource desired)), (''namespace'', JStr (fs_namespace desired)),
                    (''fields'', JObj (fs_fields desired))],
                  sn_completed_at = (case gc_completed_at c of Some t \<Rightarrow> t | None \<Rightarrow> now)\<rparr>])
      | _ \<Rightarrow> None)"

fun prepare_approved_resource_snapshots ::
    "workflow_env \<Rightarrow> time \<Rightarrow> workflow_row \<Rightarrow> agent_command list \<Rightarrow> resource_snapshot list option" where
  "prepare_approved_resource_snapshots wv now r [] = Some []"
| "prepare_approved_resource_snapshots wv now r (c # cs) =
     (case prepared_snapshot wv now r c of
        None \<Rightarrow> None
      | Some rows \<Rightarrow> map_option (\<lambda>rest. rows @ rest) (prepare_approved_resource_snapshots wv now r cs))"

text \<open>An older completion does not overwrite a newer one.\<close>

definition upsert_snapshot :: "resource_snapshot \<Rightarrow> resource_snapshot list \<Rightarrow> resource_snapshot list" where
  "upsert_snapshot new rows =
     (if sn_key new \<in> sn_key ` set rows
      then update_where (\<lambda>s. sn_key s = sn_key new \<and> sn_completed_at s \<le> sn_completed_at new) (\<lambda>_. new) rows
      else rows @ [new])"

definition run_completed_ok :: "workflow_env \<Rightarrow> approval_row list \<Rightarrow> agent_command list \<Rightarrow> bool" where
  "run_completed_ok wv approvals commands \<longleftrightarrow>
     list_all (\<lambda>a. ap_status a = ''granted'' \<and> ap_approval_id a \<in> approval_ref_of wv ` set commands) approvals \<and>
     commands \<noteq> [] \<and> list_all (\<lambda>c. gc_status c = Completed \<and> promotion_eligible wv (gc_result c)) commands"

definition record_approved_workflow_snapshots :: "workflow_env \<Rightarrow> time \<Rightarrow> string \<Rightarrow> workflow_db \<Rightarrow> nat \<times> workflow_db" where
  "record_approved_workflow_snapshots wv now run db =
     (case get_workflow_run run (wd_runs db) of
        None \<Rightarrow> (0, db)
      | Some r \<Rightarrow>
          let approvals = filter (\<lambda>a. ap_workflow_run_id a = run) (wd_approvals db);
              commands = filter (owned_by wv run) (wd_commands db)
          in if \<not> run_completed_ok wv approvals commands then (0, db)
             else case prepare_approved_resource_snapshots wv now r commands of
                    None \<Rightarrow> (0, db)
                  | Some rows \<Rightarrow> (length commands, db\<lparr>wd_snapshots := fold upsert_snapshot rows (wd_snapshots db)\<rparr>))"

section \<open>The timeline\<close>

definition occurrence :: "string \<Rightarrow> string \<Rightarrow> string" where
  "occurrence status good = (if status = ''failed'' then ''warning'' else good)"

definition severity_of :: "string \<Rightarrow> string" where
  "severity_of status = (if status = ''failed'' then ''critical'' else ''info'')"

text \<open>\<^verbatim>\<open>append_timeline_event\<close>: whether the fact is new under its key. The sequence numbers are not modelled.\<close>

definition append_timeline_event :: "timeline_fact \<Rightarrow> timeline_fact list \<Rightarrow> bool \<times> timeline_fact list" where
  "append_timeline_event e facts =
     (if (tl_workspace_id e, tl_source_key e) \<in> (\<lambda>f. (tl_workspace_id f, tl_source_key f)) ` set facts
      then (False, facts) else (True, facts @ [e]))"

end
