(* ===== verification/Workflow_Controller.thy ===== *)
theory Workflow_Controller
  imports Workflow_Store
begin

text \<open>
  The workflow controller (\<^verbatim>\<open>src/src/services/gitops/workflow-controller/app.py\<close>): the handlers that
  project the events of a deployment onto its run, its steps, its approvals and the timeline, and
  that publish what follows. An event is given by its body (\<^verbatim>\<open>to_body\<close>), a diff by its record. A
  handler that raises is \<open>Inl\<close>; the worker then rolls its transaction back.
\<close>

section \<open>Payloads\<close>

record event_context =
  ec_event_id :: string
  ec_created_at :: string
  ec_now :: time

text \<open>
  Published bodies; the object of a body holds its fields. A command and a webhook are given by the
  attributes of their classes.
\<close>

datatype workflow_body =
    WorkflowCreated jobj
  | WorkflowRunStarted jobj
  | WorkflowStepRecorded jobj
  | WorkflowRunCompleted jobj
  | WorkflowRunFailed jobj
  | ApprovalRequested jobj
  | CommandRequested pyval
  | EntryWebhook jobj

datatype workflow_error = ApplicationRefused | RecoveryNotAdvanced | BadCommand body_error

definition normalize_payload :: "workflow_env \<Rightarrow> jobj \<Rightarrow> jobj" where
  "normalize_payload wv p =
     (let repository = JStr (derive_repository_id wv p);
          watch = JStr (derive_watch_target_id wv (update_fields [(''repository_id'', repository)] p));
          binding = JStr (derive_deployment_binding_id wv (update_fields [(''repository_id'', repository), (''watch_target_id'', watch)] p));
          scoped = update_fields [(''repository_id'', repository), (''watch_target_id'', watch), (''binding_id'', binding)] p;
          app_id = JStr (derive_application_id wv scoped)
      in update_fields
           [(''application_id'', app_id),
            (''workflow_run_id'', JStr (derive_workflow_run_id wv (update_fields [(''application_id'', app_id)] scoped))),
            (''workspace_id'', JStr (payload_str wv p ''workspace_id'' ''default'')),
            (''environment'', JStr (payload_str wv p ''environment'' ''sandbox'')),
            (''cluster_id'', JStr (payload_str wv p ''cluster_id'' ''default-target-cluster''))] scoped)"

definition gitops_payload :: "workflow_env \<Rightarrow> jobj \<Rightarrow> jobj" where
  "gitops_payload wv p =
     (let name = derive_application_name wv p
      in normalize_payload wv (if name = [] then p else update_fields [(''name'', JStr name)] p))"

definition diff_object :: "gitops_diff \<Rightarrow> jobj" where
  "diff_object d = to_body diff_class (diff_value d)"

definition diff_payload :: "workflow_env \<Rightarrow> gitops_diff \<Rightarrow> jobj" where
  "diff_payload wv d =
     (let resource = df_resource d; name = (if CHR ''/'' \<in> set resource then after_first_slash resource else resource)
      in normalize_payload wv (if name = [] then diff_object d else update_fields [(''name'', JStr name)] (diff_object d)))"

text \<open>The fields of a normalized payload.\<close>

definition run_text :: "jobj \<Rightarrow> string \<Rightarrow> string" where
  "run_text run key = (case jget run key of Some (JStr t) \<Rightarrow> t | _ \<Rightarrow> [])"

definition run_identity :: "jobj \<Rightarrow> jobj" where
  "run_identity run =
     map (\<lambda>key. (key, JStr (run_text run key))) [''workflow_run_id'', ''application_id'', ''workspace_id'', ''binding_id'', ''environment'']"

definition workflow_created_fields :: "workflow_env \<Rightarrow> jobj \<Rightarrow> jobj" where
  "workflow_created_fields wv run =
     map (\<lambda>key. (key, JStr (payload_str wv run key [])))
       [''workspace_id'', ''application_id'', ''workflow_run_id'', ''repository_id'', ''watch_target_id'', ''binding_id'',
        ''environment'', ''cluster_id'', ''commit_sha'', ''manifest_path'']"

section \<open>Timeline facts\<close>

definition run_subject :: "jobj \<Rightarrow> string \<times> string \<times> string" where
  "run_subject run = (run_text run ''application_id'', run_text run ''binding_id'', run_text run ''workflow_run_id'')"

definition git_changed_timeline_event :: "event_context \<Rightarrow> jobj \<Rightarrow> timeline_fact" where
  "git_changed_timeline_event cx run =
     (let id = run_text run ''workflow_run_id''; key = ''gitops:'' @ ec_event_id cx @ '':git.changed:'' @ id
      in \<lparr>tl_workspace_id = run_text run ''workspace_id'', tl_cluster_id = run_text run ''cluster_id'', tl_source = ''gitops'',
          tl_source_key = key, tl_native_id = id, tl_activity = ''change'', tl_occurred_at = ec_created_at cx,
          tl_subject = run_subject run, tl_event_type = ''gitops_change'', tl_severity = ''info'',
          tl_title = ''Git change confirmed'', tl_metadata = [(''state'', JStr ''changed'')]\<rparr>)"

definition workflow_run_timeline_event :: "event_context \<Rightarrow> jobj \<Rightarrow> string \<Rightarrow> string \<Rightarrow> timeline_fact" where
  "workflow_run_timeline_event cx run status current_step =
     (let id = run_text run ''workflow_run_id'';
          key = ''application_workflow:'' @ ec_event_id cx @ '':run:'' @ id @ '':'' @ status @ '':'' @ current_step
      in \<lparr>tl_workspace_id = run_text run ''workspace_id'', tl_cluster_id = run_text run ''cluster_id'',
          tl_source = ''application_workflow'', tl_source_key = key, tl_native_id = id,
          tl_activity = occurrence status ''change'', tl_occurred_at = ec_created_at cx, tl_subject = run_subject run,
          tl_event_type = ''deployment'', tl_severity = severity_of status,
          tl_title = ''Workflow '' @ id @ '' '' @ status,
          tl_metadata = [(''status'', JStr status), (''step'', JStr current_step)]\<rparr>)"

definition workflow_step_timeline_event :: "event_context \<Rightarrow> jobj \<Rightarrow> string \<Rightarrow> string \<Rightarrow> timeline_fact" where
  "workflow_step_timeline_event cx run step status =
     (let id = run_text run ''workflow_run_id'';
          key = ''application_workflow:'' @ ec_event_id cx @ '':step:'' @ id @ '':'' @ step @ '':'' @ status
      in \<lparr>tl_workspace_id = run_text run ''workspace_id'', tl_cluster_id = run_text run ''cluster_id'',
          tl_source = ''application_workflow'', tl_source_key = key, tl_native_id = id @ '':'' @ step,
          tl_activity = occurrence status ''change'', tl_occurred_at = ec_created_at cx, tl_subject = run_subject run,
          tl_event_type = ''deployment'', tl_severity = severity_of status,
          tl_title = ''Workflow '' @ id @ '' '' @ step @ '' '' @ status,
          tl_metadata = [(''step'', JStr step), (''status'', JStr status)]\<rparr>)"

definition append_fact :: "timeline_fact \<Rightarrow> workflow_db \<Rightarrow> bool \<times> workflow_db" where
  "append_fact e db = (case append_timeline_event e (wd_facts db) of (inserted, facts) \<Rightarrow> (inserted, db\<lparr>wd_facts := facts\<rparr>))"

section \<open>Runs and steps\<close>

text \<open>The run as far as a guarded write was applied and its fact is new; otherwise None.\<close>

definition announced_run :: "event_context \<Rightarrow> jobj \<Rightarrow> string \<Rightarrow> string \<Rightarrow> bool \<Rightarrow> workflow_db \<Rightarrow> jobj option \<times> workflow_db" where
  "announced_run cx run status current_step applied db =
     (if \<not> applied then (None, db)
      else case append_fact (workflow_run_timeline_event cx run status current_step) db of
             (inserted, db') \<Rightarrow> (if inserted then Some run else None, db'))"

definition run_change :: "jobj \<Rightarrow> string \<Rightarrow> string \<Rightarrow> string \<Rightarrow> jobj \<Rightarrow> jobj" where
  "run_change run status current_step summary metadata =
     update_fields [(''status'', JStr status), (''current_step'', JStr current_step), (''summary'', JStr summary),
       (''metadata'', JObj metadata)] run"

definition transition_run ::
    "workflow_env \<Rightarrow> event_context \<Rightarrow> jobj \<Rightarrow> string \<Rightarrow> string \<Rightarrow> string \<Rightarrow> jobj \<Rightarrow> workflow_db \<Rightarrow> jobj option \<times> workflow_db" where
  "transition_run wv cx p status current_step summary metadata db =
     (let run = normalize_payload wv p
      in case update_workflow_run wv (run_change run status current_step summary metadata) (wd_runs db) of
           (applied, runs) \<Rightarrow> announced_run cx run status current_step applied (db\<lparr>wd_runs := runs\<rparr>))"

text \<open>\<^verbatim>\<open>ensure_run\<close>: the application first; a run is keyed by the application that was found.\<close>

definition canonical_run :: "workflow_env \<Rightarrow> string \<Rightarrow> jobj \<Rightarrow> jobj" where
  "canonical_run wv app_id run =
     (if app_id = run_text run ''application_id'' then run
      else let seed = AList.delete ''workflow_run_id'' (update_fields [(''application_id'', JStr app_id)] run)
           in update_fields [(''application_id'', JStr app_id), (''workflow_run_id'', JStr (derive_workflow_run_id wv seed))] run)"

definition application_payload :: "workflow_env \<Rightarrow> jobj \<Rightarrow> jobj" where
  "application_payload wv run =
     update_fields
       [(''name'', JStr (or_else (payload_or_empty wv run ''name'') (payload_str wv run ''application_id'' ''None''))),
        (''metadata'', JObj [(''repository_id'', field_value run ''repository_id''), (''manifest_path'', field_value run ''manifest_path'')])]
       run"

definition ensure_run ::
    "workflow_env \<Rightarrow> event_context \<Rightarrow> jobj \<Rightarrow> string \<Rightarrow> string \<Rightarrow> string \<Rightarrow> jobj \<Rightarrow> workflow_db \<Rightarrow> workflow_error + jobj option \<times> workflow_db" where
  "ensure_run wv cx p status current_step summary metadata db =
     (let run = normalize_payload wv p
      in case upsert_application wv (application_payload wv run) (wd_applications db) of
           None \<Rightarrow> Inl ApplicationRefused
         | Some (app_id, apps) \<Rightarrow>
             let run' = canonical_run wv (or_else app_id (run_text run ''application_id'')) run
             in case start_workflow_run wv (run_change run' status current_step summary metadata) (wd_runs db) of
                  (applied, runs) \<Rightarrow>
                    Inr (announced_run cx run' status current_step applied (db\<lparr>wd_applications := apps, wd_runs := runs\<rparr>)))"

definition step_change :: "jobj \<Rightarrow> string \<Rightarrow> string \<Rightarrow> string \<Rightarrow> jobj \<Rightarrow> jobj" where
  "step_change run step status message details =
     update_fields [(''name'', JStr step), (''status'', JStr status), (''message'', JStr message), (''details'', JObj details)] run"

definition step_body :: "jobj \<Rightarrow> string \<Rightarrow> string \<Rightarrow> string \<Rightarrow> jobj \<Rightarrow> workflow_body" where
  "step_body run step status message details =
     WorkflowStepRecorded (run_identity run @
       [(''step'', JStr step), (''status'', JStr status), (''message'', JStr message), (''details'', JObj details)])"

definition record_step ::
    "workflow_env \<Rightarrow> event_context \<Rightarrow> jobj \<Rightarrow> string \<Rightarrow> string \<Rightarrow> string \<Rightarrow> jobj \<Rightarrow> workflow_db \<Rightarrow> workflow_body list \<times> workflow_db" where
  "record_step wv cx p step status message details db =
     (let run = normalize_payload wv p
      in case record_workflow_step wv (step_change run step status message details) (wd_steps db) of
           (applied, steps) \<Rightarrow>
             let db' = db\<lparr>wd_steps := steps\<rparr>
             in if \<not> applied then ([], db')
                else case append_fact (workflow_step_timeline_event cx run step status) db' of
                       (inserted, db'') \<Rightarrow> (if inserted then [step_body run step status message details] else [], db''))"

definition failed_body :: "jobj \<Rightarrow> string \<Rightarrow> jobj \<Rightarrow> workflow_body" where
  "failed_body run reason details =
     WorkflowRunFailed (run_identity run @ [(''reason'', JStr reason), (''details'', JObj details)])"

definition completed_body :: "jobj \<Rightarrow> string \<Rightarrow> jobj \<Rightarrow> workflow_body" where
  "completed_body run summary details =
     WorkflowRunCompleted (run_identity run @ [(''summary'', JStr summary), (''details'', JObj details)])"

definition for_run :: "jobj \<Rightarrow> jobj option \<times> workflow_db \<Rightarrow> jobj option \<times> workflow_db" where
  "for_run run outcome = (map_option (\<lambda>_. run) (fst outcome), snd outcome)"

text \<open>
  The shape of most handlers: move the run, and only if that was news record a step and publish
  \<open>after\<close>.
\<close>

definition moved_then ::
    "workflow_env \<Rightarrow> event_context \<Rightarrow> jobj option \<times> workflow_db \<Rightarrow> string \<Rightarrow> string \<Rightarrow> string \<Rightarrow> jobj \<Rightarrow>
     (jobj \<Rightarrow> workflow_body list) \<Rightarrow> workflow_body list \<times> workflow_db" where
  "moved_then wv cx outcome step status message details after =
     (case outcome of
        (None, db) \<Rightarrow> ([], db)
      | (Some run, db) \<Rightarrow>
          (case record_step wv cx run step status message details db of (bodies, db') \<Rightarrow> (bodies @ after run, db')))"

section \<open>Stored identities\<close>

definition stored_identity_matches :: "workflow_env \<Rightarrow> jobj \<Rightarrow> (string \<times> string) list \<Rightarrow> bool" where
  "stored_identity_matches wv stored expected \<longleftrightarrow> list_all (\<lambda>(key, value). payload_str wv stored key [] = value) expected"

definition of_run :: "jobj \<Rightarrow> string list \<Rightarrow> (string \<times> string) list" where
  "of_run run keys = map (\<lambda>key. (key, run_text run key)) keys"

text \<open>Rows of the bindings are the objects \<^verbatim>\<open>serialize_deployment_binding\<close> gives.\<close>

definition get_deployment_binding :: "string \<Rightarrow> string \<Rightarrow> workflow_db \<Rightarrow> jobj option" where
  "get_deployment_binding ws binding_id db =
     find (\<lambda>b. run_text b ''workspace_id'' = ws \<and> run_text b ''binding_id'' = binding_id) (wd_bindings db)"

text \<open>The application joined with its repository.\<close>

definition get_application :: "string \<Rightarrow> string \<Rightarrow> workflow_db \<Rightarrow> jobj option" where
  "get_application ws app_id db =
     (case find (\<lambda>a. ar_workspace_id a = ws \<and> ar_application_id a = app_id) (wd_applications db) of
        None \<Rightarrow> None
      | Some a \<Rightarrow> map_option (\<lambda>repository.
          [(''application_id'', JStr (ar_application_id a)), (''workspace_id'', JStr (ar_workspace_id a)),
           (''repository_id'', JStr (ar_repository_id a)), (''name'', JStr (ar_name a)),
           (''manifest_path'', JStr (ar_manifest_path a)), (''status'', JStr (ar_status a)), (''metadata'', JObj (ar_metadata a)),
           (''repo_ref'', field_value repository ''repo_ref''), (''default_branch'', field_value repository ''default_branch'')])
          (find (\<lambda>q. run_text q ''workspace_id'' = ws \<and> run_text q ''repository_id'' = ar_repository_id a) (wd_repositories db)))"

definition registered_git_changed_binding :: "workflow_env \<Rightarrow> jobj \<Rightarrow> workflow_db \<Rightarrow> jobj option" where
  "registered_git_changed_binding wv p db =
     (case get_deployment_binding (run_text p ''workspace_id'') (run_text p ''binding_id'') db of
        None \<Rightarrow> None
      | Some binding \<Rightarrow>
          if stored_identity_matches wv binding
               (of_run p [''workspace_id'', ''binding_id'', ''repository_id'', ''cluster_id'', ''environment''] @
                [(''manifest_path'', payload_str wv p ''manifest_path'' [])]) \<and>
             payload_str wv binding ''status'' [] = ''active''
          then Some binding else None)"

definition git_changed_target_is_persisted :: "workflow_env \<Rightarrow> jobj \<Rightarrow> jobj \<Rightarrow> workflow_db \<Rightarrow> bool" where
  "git_changed_target_is_persisted wv run binding db =
     (case (get_application (run_text run ''workspace_id'') (run_text run ''application_id'') db,
            get_workflow_run (run_text run ''workflow_run_id'') (wd_runs db)) of
        (Some app, Some r) \<Rightarrow>
          stored_identity_matches wv app (of_run run [''workspace_id'', ''application_id'', ''repository_id'']) \<and>
          stored_identity_matches wv (run_object r)
            (of_run run [''workspace_id'', ''workflow_run_id'', ''application_id'', ''binding_id'', ''cluster_id'', ''environment''] @
             [(''commit_sha'', payload_str wv run ''commit_sha'' [])]) \<and>
          payload_str wv binding ''repository_id'' [] = payload_str wv app ''repository_id'' [] \<and>
          (payload_str wv binding ''app_name'' [] = payload_str wv app ''name'' [] \<or>
           payload_str wv binding ''manifest_path'' [] = payload_str wv app ''manifest_path'' [])
      | _ \<Rightarrow> False)"

definition workflow_run_identity_is_persisted :: "workflow_env \<Rightarrow> jobj \<Rightarrow> workflow_db \<Rightarrow> bool" where
  "workflow_run_identity_is_persisted wv run db =
     (case get_workflow_run (run_text run ''workflow_run_id'') (wd_runs db) of
        None \<Rightarrow> False
      | Some r \<Rightarrow>
          let commit = payload_str wv run ''commit_sha'' []
          in stored_identity_matches wv (run_object r)
               (of_run run [''workspace_id'', ''workflow_run_id'', ''application_id'', ''binding_id'', ''environment''] @
                (if commit = [] then [] else [(''commit_sha'', commit)])))"

section \<open>Global bindings and promotion\<close>

definition binding_policy :: "jobj \<Rightarrow> jobj" where
  "binding_policy binding = as_mapping (jget binding ''deploy_policy'')"

definition binding_source_type :: "workflow_env \<Rightarrow> jobj \<Rightarrow> string" where
  "binding_source_type wv binding =
     py_strip (or_else (payload_or_empty wv (binding_policy binding) ''manifest_source'')
       (payload_or_empty wv (binding_policy binding) ''source_type''))"

definition policy_flag :: "jobj \<Rightarrow> string \<Rightarrow> bool" where
  "policy_flag binding key = (case jget (binding_policy binding) key of None \<Rightarrow> False | Some v \<Rightarrow> py_truthy v)"

definition entry_webhook_for_binding ::
    "workflow_env \<Rightarrow> string \<Rightarrow> string \<Rightarrow> jobj \<Rightarrow> string \<Rightarrow> string \<Rightarrow> json \<Rightarrow> string \<Rightarrow> string \<Rightarrow> workflow_body" where
  "entry_webhook_for_binding wv ws app_id binding commit picture replicas repo_ref branch =
     EntryWebhook
       [(''commit_sha'', JStr commit), (''image'', JStr picture), (''replicas'', replicas), (''workspace_id'', JStr ws),
        (''repository_id'', JStr (payload_str wv binding ''repository_id'' [])), (''repo_ref'', JStr repo_ref),
        (''branch'', JStr branch), (''watch_target_id'', JStr (payload_or_empty wv binding ''watch_target_id'')),
        (''binding_id'', JStr (payload_str wv binding ''binding_id'' [])), (''application_id'', JStr app_id),
        (''environment'', JStr (payload_str wv binding ''environment'' [])),
        (''cluster_id'', JStr (payload_str wv binding ''cluster_id'' [])),
        (''manifest_path'', JStr (payload_str wv binding ''manifest_path'' [])),
        (''source_type'', JStr (binding_source_type wv binding))]"

definition run_exists_for :: "workflow_env \<Rightarrow> string \<Rightarrow> string \<Rightarrow> jobj \<Rightarrow> string \<Rightarrow> workflow_db \<Rightarrow> bool" where
  "run_exists_for wv ws app_id binding commit db \<longleftrightarrow>
     get_workflow_run
       (derive_workflow_run_id wv [(''workspace_id'', JStr ws), (''application_id'', JStr app_id),
          (''binding_id'', field_value binding ''binding_id''), (''environment'', field_value binding ''environment''),
          (''commit_sha'', JStr commit)]) (wd_runs db) \<noteq> None"

definition list_repository_deployment_bindings :: "string \<Rightarrow> string \<Rightarrow> workflow_db \<Rightarrow> jobj list" where
  "list_repository_deployment_bindings ws repository db =
     sort_key (\<lambda>b. (run_text b ''cluster_id'', run_text b ''binding_id''))
       (filter (\<lambda>b. run_text b ''workspace_id'' = ws \<and> run_text b ''repository_id'' = repository \<and>
          run_text b ''status'' = ''active'') (wd_bindings db))"

definition find_registration :: "string \<Rightarrow> string \<Rightarrow> workflow_db \<Rightarrow> registration_row option" where
  "find_registration ws cluster db = find (\<lambda>g. rg_workspace_id g = ws \<and> rg_cluster_id g = cluster) (wd_registrations db)"

definition fanned_out :: "workflow_env \<Rightarrow> jobj \<Rightarrow> workflow_db \<Rightarrow> jobj \<Rightarrow> bool" where
  "fanned_out wv evt db binding \<longleftrightarrow>
     payload_str wv binding ''binding_id'' [] \<noteq> run_text evt ''binding_id'' \<and> policy_flag binding ''global'' \<and>
     \<not> is_management_registration (find_registration (run_text evt ''workspace_id'') (payload_str wv binding ''cluster_id'' []) db) \<and>
     \<not> run_exists_for wv (run_text evt ''workspace_id'') (run_text evt ''application_id'') binding (run_text evt ''commit_sha'') db"

definition fanout_global_bindings :: "workflow_env \<Rightarrow> jobj \<Rightarrow> workflow_db \<Rightarrow> workflow_body list" where
  "fanout_global_bindings wv evt db =
     (let ws = run_text evt ''workspace_id''; source = get_deployment_binding ws (run_text evt ''binding_id'') db;
          repository = or_else (case source of None \<Rightarrow> [] | Some b \<Rightarrow> payload_or_empty wv b ''repository_id'') (run_text evt ''repository_id'')
      in if (case source of None \<Rightarrow> False | Some b \<Rightarrow> policy_flag b ''global'') \<or> repository = [] then []
         else map (\<lambda>binding. entry_webhook_for_binding wv ws (run_text evt ''application_id'') binding (run_text evt ''commit_sha'')
                (run_text evt ''image'') (field_value evt ''replicas'') (run_text evt ''repo_ref'') (run_text evt ''branch''))
              (filter (fanned_out wv evt db) (list_repository_deployment_bindings ws repository db)))"

text \<open>What the diff step of a run says was applied.\<close>

definition promoted_image_and_replicas :: "workflow_env \<Rightarrow> string \<Rightarrow> workflow_db \<Rightarrow> string \<times> int" where
  "promoted_image_and_replicas wv run db =
     (let details = (case find (\<lambda>s. sw_workflow_run_id s = run \<and> sw_name s = ''diff'') (wd_steps db) of
            None \<Rightarrow> [] | Some s \<Rightarrow> sw_details s)
      in (payload_or_empty wv details ''desired_image'',
          case jget (as_mapping (jget details ''basis'')) ''replicas'' of
            None \<Rightarrow> 2
          | Some v \<Rightarrow> (case py_int v of None \<Rightarrow> 2 | Some n \<Rightarrow> n)))"

text \<open>
  \<^verbatim>\<open>on_run_completed_promote\<close>: a completed run opens the pipeline of the binding its own promotes to,
  for the same commit, unless that binding has a run of it.
\<close>

definition on_run_completed_promote :: "workflow_env \<Rightarrow> jobj \<Rightarrow> workflow_db \<Rightarrow> workflow_body list" where
  "on_run_completed_promote wv evt db =
     (let ws = run_text evt ''workspace_id''; binding_id = run_text evt ''binding_id''; app_id = run_text evt ''application_id''
      in case get_deployment_binding ws binding_id db of
           None \<Rightarrow> []
         | Some source \<Rightarrow>
             let target_id = payload_or_empty wv (binding_policy source) ''promotes_to_binding_id''
             in if target_id = [] \<or> target_id = binding_id then []
                else case get_deployment_binding ws target_id db of
                  None \<Rightarrow> []
                | Some target \<Rightarrow>
                    let commit = (case get_workflow_run (run_text evt ''workflow_run_id'') (wd_runs db) of
                          None \<Rightarrow> [] | Some r \<Rightarrow> wr_commit_sha r)
                    in if commit = [] \<or> run_exists_for wv ws app_id target commit db then []
                       else case get_application ws app_id db of
                         None \<Rightarrow> []
                       | Some app \<Rightarrow>
                           (case promoted_image_and_replicas wv (run_text evt ''workflow_run_id'') db of
                              (picture, replicas) \<Rightarrow>
                                if picture = [] then []
                                else [entry_webhook_for_binding wv ws app_id target commit picture (JInt replicas)
                                  (payload_or_empty wv app ''repo_ref'') (payload_or_empty wv app ''default_branch'')]))"

section \<open>Rendering and comparing\<close>

definition workflow_started_body :: "workflow_env \<Rightarrow> jobj \<Rightarrow> workflow_body" where
  "workflow_started_body wv run =
     WorkflowRunStarted (run_identity run @
       map (\<lambda>key. (key, JStr (payload_str wv run key [])))
         [''repository_id'', ''watch_target_id'', ''cluster_id'', ''commit_sha'', ''manifest_path''] @
       [(''status'', JStr ''started''), (''current_step'', JStr ''git'')])"

definition on_git_webhook :: "workflow_env \<Rightarrow> event_context \<Rightarrow> jobj \<Rightarrow> workflow_db \<Rightarrow> workflow_error + workflow_body list \<times> workflow_db" where
  "on_git_webhook wv cx evt db =
     (case ensure_run wv cx (gitops_payload wv evt) ''started'' ''git'' ''git webhook received''
          [(''commit_sha'', field_value evt ''commit_sha''), (''repo_ref'', field_value evt ''repo_ref'')] db of
        Inl e \<Rightarrow> Inl e
      | Inr (None, db') \<Rightarrow> Inr ([], db')
      | Inr (Some run, db') \<Rightarrow>
          (case record_step wv cx run ''git'' ''running'' ''webhook accepted''
              [(''commit_sha'', field_value evt ''commit_sha''), (''branch'', field_value evt ''branch'')] db' of
             (bodies, db'') \<Rightarrow>
               Inr ([WorkflowCreated (workflow_created_fields wv run), workflow_started_body wv run] @ bodies @
                    fanout_global_bindings wv evt db'', db'')))"

definition on_git_changed :: "workflow_env \<Rightarrow> event_context \<Rightarrow> jobj \<Rightarrow> workflow_db \<Rightarrow> workflow_error + workflow_body list \<times> workflow_db" where
  "on_git_changed wv cx evt db =
     (let p = gitops_payload wv evt
      in case registered_git_changed_binding wv p db of
           None \<Rightarrow> Inr ([], db)
         | Some binding \<Rightarrow>
             (case ensure_run wv cx p ''rendering'' ''render'' ''git change confirmed; rendering manifest''
                 [(''commit_sha'', field_value evt ''commit_sha''), (''branch'', field_value evt ''branch'')] db of
                Inl e \<Rightarrow> Inl e
              | Inr (None, db') \<Rightarrow> Inr ([], db')
              | Inr (Some run, db') \<Rightarrow>
                  if \<not> git_changed_target_is_persisted wv run binding db' then Inr ([], db')
                  else case append_fact (git_changed_timeline_event cx run) db' of
                    (inserted, db'') \<Rightarrow>
                      if \<not> inserted then Inr ([], db'')
                      else Inr (record_step wv cx run ''git'' ''succeeded'' ''git change confirmed''
                             [(''commit_sha'', field_value evt ''commit_sha'')] db'')))"

definition on_manifest_rendered :: "workflow_env \<Rightarrow> event_context \<Rightarrow> jobj \<Rightarrow> workflow_db \<Rightarrow> workflow_body list \<times> workflow_db" where
  "on_manifest_rendered wv cx evt db =
     (let rendered = as_mapping (jget evt ''rendered_manifest'')
      in moved_then wv cx
           (transition_run wv cx (gitops_payload wv evt) ''diffing'' ''diff'' ''manifest rendered; calculating desired diff''
              [(''kind'', field_value rendered ''kind''), (''resource'', field_value (as_mapping (jget rendered ''metadata'')) ''name'')] db)
           ''render'' ''succeeded'' ''manifest rendered'' rendered (\<lambda>_. []))"

definition on_manifest_invalid :: "workflow_env \<Rightarrow> event_context \<Rightarrow> jobj \<Rightarrow> workflow_db \<Rightarrow> workflow_error + workflow_body list \<times> workflow_db" where
  "on_manifest_invalid wv cx evt db =
     (let reason = run_text evt ''reason''; details = [(''manifest_path'', field_value evt ''manifest_path'')]
      in case ensure_run wv cx (gitops_payload wv evt) ''failed'' ''render'' ''manifest render failed''
             [(''reason'', JStr reason)] db of
           Inl e \<Rightarrow> Inl e
         | Inr outcome \<Rightarrow> Inr (moved_then wv cx outcome ''render'' ''failed'' reason details (\<lambda>run. [failed_body run reason details])))"

definition on_diff_detected :: "workflow_env \<Rightarrow> event_context \<Rightarrow> gitops_diff \<Rightarrow> workflow_db \<Rightarrow> workflow_body list \<times> workflow_db" where
  "on_diff_detected wv cx d db =
     moved_then wv cx
       (transition_run wv cx (diff_payload wv d) ''policy_checking'' ''policy'' ''desired diff detected; checking policy''
          [(''resource'', JStr (df_resource d))] db)
       ''diff'' ''succeeded'' ''desired diff detected'' (diff_object d) (\<lambda>_. [])"

section \<open>Policy and approval\<close>

definition NO_DIFF_REASON :: string where
  "NO_DIFF_REASON = ''desired and actual images already match''"

text \<open>\<^verbatim>\<open>approval_payload\<close>, as far as it is used: the identifier of the approval of one resource.\<close>

definition resource_approval_id :: "workflow_env \<Rightarrow> jobj \<Rightarrow> string" where
  "resource_approval_id wv p =
     (let run = normalize_payload wv p; resource = py_strip (payload_or_empty wv run ''resource'');
          ns = py_strip (payload_or_empty wv run ''namespace'');
          digest = py_strip (payload_or_empty wv (as_mapping (jget run ''basis'')) ''artifact_digest'')
      in derive_approval_id (wv_sha wv) (run_text run ''workflow_run_id'')
           (if resource = [] then [] else resource_approval_qualifier ns resource digest))"

definition merged_recovery_command :: "gitops_diff \<Rightarrow> string \<Rightarrow> string \<Rightarrow> command_requested" where
  "merged_recovery_command d approval_ref decision_ref =
     \<lparr>cq_cluster_id = df_cluster_id d, cq_action = ''apply_manifest'', cq_namespace = df_namespace d,
      cq_reason = ''operator-reviewed recovery PR merged'', cq_diff = d, cq_command_id = None,
      cq_workspace_id = df_workspace_id d, cq_application_id = df_application_id d,
      cq_workflow_run_id = df_workflow_run_id d, cq_binding_id = df_binding_id d, cq_environment = df_environment d,
      cq_priority = 100, cq_requested_by = Some ''recovery-pr-merge'', cq_actor = None, cq_approval_ref = Some approval_ref,
      cq_policy_decision_ref = Some decision_ref, cq_approval_decided_by = None, cq_approval_expires_at = None,
      cq_direct_execution = False, cq_direct_execution_confirmed = False, cq_payload = []\<rparr>"

definition command_value :: "command_requested \<Rightarrow> pyval" where
  "command_value c = PBody command_requested_body (requested_value c)"

definition route_details :: "bool \<Rightarrow> string \<Rightarrow> string \<Rightarrow> string \<Rightarrow> gitops_diff \<Rightarrow> jobj" where
  "route_details safe risk route approval_ref d =
     [(''safe'', JBool safe), (''risk'', JStr risk), (''policy_route'', JStr route),
      (''policy_decision_ref'', JStr (policy_decision_ref approval_ref route)), (''approval_ref'', JStr approval_ref),
      (''diff'', JObj (diff_object d))]"

text \<open>Nothing to apply for an image: the run of the commit ends.\<close>

definition finish_noop :: "workflow_env \<Rightarrow> event_context \<Rightarrow> gitops_diff \<Rightarrow> jobj \<Rightarrow> workflow_db \<Rightarrow> workflow_body list \<times> workflow_db" where
  "finish_noop wv cx d run db =
     moved_then wv cx
       (for_run run (transition_run wv cx run ''succeeded'' ''health'' NO_DIFF_REASON [(''resource'', JStr (df_resource d))] db))
       ''apply'' ''skipped'' NO_DIFF_REASON (diff_object d) (\<lambda>r. [completed_body r NO_DIFF_REASON (diff_object d)])"

definition dispatch_merged_recovery ::
    "workflow_env \<Rightarrow> event_context \<Rightarrow> gitops_diff \<Rightarrow> string \<Rightarrow> pyval \<Rightarrow> jobj \<Rightarrow> workflow_db \<Rightarrow> workflow_error + workflow_body list \<times> workflow_db" where
  "dispatch_merged_recovery wv cx d risk request run db =
     (let approval_ref = resource_approval_id wv run; decision_ref = policy_decision_ref approval_ref ''recovery_pr_merged'';
          command = command_value (merged_recovery_command d approval_ref decision_ref); commit = attribute_text request ''commit_sha'';
          details = route_details False risk ''recovery_pr_merged'' approval_ref d @
            [(''command_requested'', to_body_value command), (''merge_commit_sha'', JStr commit)]
      in case resolve_workflow_approval_if_open (ec_now cx) approval_ref (run_text run ''workspace_id'') ''granted''
             (Some ''recovery-pr-merge'') (Some ''approved-by-merged-recovery-pr'') details (wd_approvals db) of
           (False, _) \<Rightarrow> Inr ([], db)
         | (True, approvals) \<Rightarrow>
             (case transition_run wv cx run ''applying'' ''apply'' ''merged recovery PR approved; dispatching exact deployment''
                 [(''merge_commit_sha'', JStr commit)] (db\<lparr>wd_approvals := approvals\<rparr>) of
                (None, _) \<Rightarrow> Inl RecoveryNotAdvanced
              | (Some _, db') \<Rightarrow>
                  (case record_step wv cx run ''approval'' ''succeeded'' ''operator approval reused from exact merged recovery PR'' details db' of
                     (bodies, db'') \<Rightarrow> Inr (bodies @ [CommandRequested command], db''))))"

definition approve_by_policy :: "workflow_env \<Rightarrow> event_context \<Rightarrow> gitops_diff \<Rightarrow> string \<Rightarrow> jobj \<Rightarrow> workflow_db \<Rightarrow> workflow_body list \<times> workflow_db" where
  "approve_by_policy wv cx d risk run db =
     moved_then wv cx
       (for_run run (transition_run wv cx run ''applying'' ''safe_pr'' ''policy auto-approved; creating safe PR'' [(''risk'', JStr risk)] db))
       ''approval'' ''skipped'' ''approval not required by sandbox policy''
       (route_details True risk ''safe_pr'' (resource_approval_id wv run) d) (\<lambda>_. [])"

definition requested_body :: "jobj \<Rightarrow> string \<Rightarrow> string \<Rightarrow> jobj \<Rightarrow> workflow_body" where
  "requested_body run approval_ref reason details =
     ApprovalRequested (run_identity run @
       [(''approval_id'', JStr approval_ref), (''reason'', JStr reason), (''requested_role'', JStr ''release_operator''),
        (''details'', JObj details)])"

definition wait_for_approval :: "workflow_env \<Rightarrow> event_context \<Rightarrow> gitops_diff \<Rightarrow> string \<Rightarrow> string \<Rightarrow> jobj \<Rightarrow> workflow_db \<Rightarrow> workflow_body list \<times> workflow_db" where
  "wait_for_approval wv cx d risk reason run db =
     (let approval_ref = resource_approval_id wv run; details = route_details False risk ''approval_required'' approval_ref d
      in moved_then wv cx
           (for_run run (transition_run wv cx run ''waiting_for_approval'' ''approval'' ''approval required before write'' details db))
           ''approval'' ''pending'' reason details (\<lambda>r. [requested_body r approval_ref reason details]))"

definition authorization_of :: "workflow_env \<Rightarrow> gitops_diff \<Rightarrow> workflow_db \<Rightarrow> merge_route" where
  "authorization_of wv d db =
     merge_route_of (recovery_merge_authorization (wv_pg wv) (wv_render wv) (wd_plans db)
       (\<lambda>run. map_option run_object (get_workflow_run run (wd_runs db))) d)"

text \<open>The part of \<^verbatim>\<open>on_diff_analyzed\<close> after the policy step.\<close>

definition route_analyzed ::
    "workflow_env \<Rightarrow> event_context \<Rightarrow> gitops_diff \<Rightarrow> bool \<Rightarrow> string \<Rightarrow> string \<Rightarrow> jobj \<Rightarrow> workflow_db \<Rightarrow> workflow_error + workflow_body list \<times> workflow_db" where
  "route_analyzed wv cx d safe risk reason run db =
     (if is_image_only_noop d then Inr (finish_noop wv cx d run db)
      else case authorization_of wv d db of
        ScopeRejected \<Rightarrow> Inr ([], db)
      | MergedRecovery request \<Rightarrow> dispatch_merged_recovery wv cx d risk request run db
      | OrdinaryDiff \<Rightarrow>
          Inr (if safe then approve_by_policy wv cx d risk run db else wait_for_approval wv cx d risk reason run db))"

definition on_diff_analyzed ::
    "workflow_env \<Rightarrow> event_context \<Rightarrow> gitops_diff \<Rightarrow> bool \<Rightarrow> string \<Rightarrow> string \<Rightarrow> workflow_db \<Rightarrow> workflow_error + workflow_body list \<times> workflow_db" where
  "on_diff_analyzed wv cx d safe risk reason db =
     (let run = diff_payload wv d
      in case record_step wv cx run ''policy'' ''succeeded'' reason [(''safe'', JBool safe), (''risk'', JStr risk)] db of
           (bodies, db') \<Rightarrow>
             (case route_analyzed wv cx d safe risk reason run db' of
                Inl e \<Rightarrow> Inl e
              | Inr (routed, db'') \<Rightarrow> Inr (bodies @ routed, db'')))"

section \<open>Safe pull requests\<close>

definition on_safe_pr_created :: "workflow_env \<Rightarrow> event_context \<Rightarrow> jobj \<Rightarrow> workflow_db \<Rightarrow> workflow_body list \<times> workflow_db" where
  "on_safe_pr_created wv cx evt db =
     (let run = gitops_payload wv evt
      in if \<not> workflow_run_identity_is_persisted wv run db then ([], db)
         else record_step wv cx run ''safe_pr'' ''succeeded'' ''safe PR created''
           (map (\<lambda>key. (key, field_value evt key)) [''pr_url'', ''provider'', ''mode'']) db)"

definition on_safe_pr_failed :: "workflow_env \<Rightarrow> event_context \<Rightarrow> jobj \<Rightarrow> workflow_db \<Rightarrow> workflow_body list \<times> workflow_db" where
  "on_safe_pr_failed wv cx evt db =
     (let reason = run_text evt ''reason''; details = map (\<lambda>key. (key, field_value evt key)) [''provider'', ''title'']
      in moved_then wv cx (transition_run wv cx (gitops_payload wv evt) ''failed'' ''safe_pr'' reason details db)
           ''safe_pr'' ''failed'' reason details (\<lambda>run. [failed_body run reason details]))"

section \<open>Decisions\<close>

text \<open>\<^verbatim>\<open>evt.details.get("command_requested")\<close>, decoded as the command it is.\<close>

definition granted_command :: "jobj \<Rightarrow> workflow_error + workflow_body list" where
  "granted_command details =
     (case jget details ''command_requested'' of
        Some (JObj d) \<Rightarrow> (case from_body False command_requested_body (JObj d) of Inl e \<Rightarrow> Inl (BadCommand e) | Inr v \<Rightarrow> Inr [CommandRequested v])
      | _ \<Rightarrow> Inr [])"

definition decision_payload :: "jobj \<Rightarrow> jobj \<Rightarrow> string \<Rightarrow> string \<Rightarrow> jobj" where
  "decision_payload run evt status decision =
     update_fields
       [(''approval_id'', JStr (run_text evt ''approval_id'')), (''status'', JStr status), (''decided_by'', field_value evt ''decided_by''),
        (''decision'', JStr decision), (''details'', JObj (as_mapping (jget evt ''details'')))] run"

text \<open>
  A grant advances the run only once, but dispatches its own command whatever the run has become.
\<close>

definition on_approval_granted :: "workflow_env \<Rightarrow> event_context \<Rightarrow> jobj \<Rightarrow> workflow_db \<Rightarrow> workflow_error + workflow_body list \<times> workflow_db" where
  "on_approval_granted wv cx evt db =
     (let run = normalize_payload wv evt; details = as_mapping (jget evt ''details''); decision = run_text evt ''decision'';
          db' = db\<lparr>wd_approvals := resolve_workflow_approval wv (decision_payload run evt ''granted'' decision) (wd_approvals db)\<rparr>
      in case moved_then wv cx
             (for_run run (transition_run wv cx run ''applying'' ''apply'' ''approval granted; waiting for command execution'' details db'))
             ''approval'' ''succeeded'' decision details (\<lambda>_. []) of
           (bodies, db'') \<Rightarrow>
             (case granted_command details of
                Inl e \<Rightarrow> Inl e
              | Inr commands \<Rightarrow> Inr (bodies @ commands, db'')))"

definition on_approval_rejected :: "workflow_env \<Rightarrow> event_context \<Rightarrow> jobj \<Rightarrow> workflow_db \<Rightarrow> workflow_body list \<times> workflow_db" where
  "on_approval_rejected wv cx evt db =
     (let run = normalize_payload wv evt; details = as_mapping (jget evt ''details''); reason = run_text evt ''reason'';
          db' = db\<lparr>wd_approvals := resolve_workflow_approval wv (decision_payload run evt ''rejected'' ''rejected'') (wd_approvals db)\<rparr>
      in moved_then wv cx (for_run run (transition_run wv cx run ''failed'' ''approval'' reason details db'))
           ''approval'' ''failed'' reason details (\<lambda>r. [failed_body r reason details]))"

section \<open>Commands\<close>

definition on_command_queued :: "workflow_env \<Rightarrow> event_context \<Rightarrow> jobj \<Rightarrow> workflow_db \<Rightarrow> workflow_body list \<times> workflow_db" where
  "on_command_queued wv cx evt db =
     (let p = gitops_payload wv evt; command_id = run_text evt ''command_id''
      in if \<not> workflow_run_identity_is_persisted wv p db then ([], db)
         else let db' = db\<lparr>wd_runs := attach_workflow_command (run_text p ''workflow_run_id'') command_id (wd_runs db)\<rparr>
           in moved_then wv cx
                (transition_run wv cx p ''rollout_waiting'' ''apply'' ''command queued for outbound agent'' [(''command_id'', JStr command_id)] db')
                ''apply'' ''running'' ''command queued for agent''
                [(''command_id'', JStr command_id), (''cluster_id'', field_value evt ''cluster_id'')] (\<lambda>_. []))"

definition on_command_rejected :: "workflow_env \<Rightarrow> event_context \<Rightarrow> jobj \<Rightarrow> workflow_db \<Rightarrow> workflow_body list \<times> workflow_db" where
  "on_command_rejected wv cx evt db =
     (let requested = as_mapping (jget evt ''requested''); run = normalize_payload wv requested; reason = run_text evt ''reason'';
          details = [(''requested'', JObj requested)]
      in moved_then wv cx (for_run run (transition_run wv cx run ''failed'' ''apply'' reason details db))
           ''apply'' ''failed'' reason details (\<lambda>r. [failed_body r reason details]))"

datatype progress = Waiting | ProgressFailed | ProgressSucceeded

definition workflow_command_progress_status :: "workflow_env \<Rightarrow> approval_row list \<times> agent_command list \<Rightarrow> progress" where
  "workflow_command_progress_status wv found =
     (let approvals = fst found; commands = snd found
      in if list_ex (\<lambda>a. ap_status a = ''rejected'') approvals then ProgressFailed
         else if list_ex (\<lambda>a. ap_status a \<noteq> ''granted'') approvals then Waiting
         else if \<not> list_all (\<lambda>a. ap_approval_id a \<in> approval_ref_of wv ` set commands) approvals then Waiting
         else if commands = [] then Waiting
         else if list_ex (\<lambda>c. gc_status c \<in> {Failed, Cancelled}) commands then ProgressFailed
         else if list_ex (\<lambda>c. gc_status c \<noteq> Completed) commands then Waiting
         else if list_ex (\<lambda>c. \<not> promotion_eligible wv (gc_result c)) commands then ProgressFailed
         else ProgressSucceeded)"

definition result_message :: "workflow_env \<Rightarrow> jobj \<Rightarrow> string" where
  "result_message wv result =
     or_else (payload_or_empty wv result ''message'') (or_else (payload_or_empty wv result ''status'') ''command failed'')"

definition workflow_command_failure_message :: "workflow_env \<Rightarrow> agent_command list \<Rightarrow> jobj \<Rightarrow> string" where
  "workflow_command_failure_message wv commands fallback =
     result_message wv (case find (\<lambda>c. \<not> promotion_eligible wv (gc_result c)) commands of Some c \<Rightarrow> gc_result c | None \<Rightarrow> fallback)"

text \<open>\<^verbatim>\<open>aggregate_workflow_rollout_details\<close>.\<close>

definition command_object :: "workflow_env \<Rightarrow> agent_command \<Rightarrow> json" where
  "command_object wv c =
     JObj [(''command_id'', JStr (gc_command_id c)), (''approval_ref'', JStr (approval_ref_of wv c)),
       (''status'', JStr (status_name (gc_status c))), (''result'', JObj (gc_result c))]"

definition aggregate_workflow_rollout_details :: "workflow_env \<Rightarrow> agent_command list \<Rightarrow> string \<Rightarrow> jobj" where
  "aggregate_workflow_rollout_details wv commands terminal_command_id =
     (let resources = concat (map (\<lambda>c. json_items (jget (gc_result c) ''resources'')) commands);
          rollouts = map (\<lambda>c. as_mapping (jget (gc_result c) ''rollout'')) commands;
          eligible = (commands \<noteq> [] \<and> list_all (\<lambda>c. gc_status c = Completed \<and> promotion_eligible wv (gc_result c)) commands);
          ready = (eligible \<and> list_all (\<lambda>r. jget r ''ready'' \<noteq> Some (JBool False)) rollouts);
          rollout = JObj [(''ready'', JBool ready), (''resources'', JArr (map JObj rollouts))];
          results = JArr (map (command_object wv) commands)
      in [(''command_id'', JStr terminal_command_id), (''command_ids'', JArr (map (\<lambda>c. JStr (gc_command_id c)) commands)),
          (''result'', JObj [(''status'', JStr (status_name (if eligible then Completed else Failed))), (''applied'', JBool eligible),
             (''resources'', JArr resources), (''rollout'', rollout), (''commands'', results)]),
          (''resources'', JArr resources), (''failed_resources'', JArr (filter (failed_resource wv) resources)),
          (''rollout'', rollout), (''commands'', results)])"

text \<open>What the completion of a command makes of its run: the status, the message, the details and the store.\<close>

definition completion_outcome ::
    "workflow_env \<Rightarrow> event_context \<Rightarrow> string \<Rightarrow> jobj \<Rightarrow> string \<Rightarrow> bool \<Rightarrow> approval_row list \<times> agent_command list \<Rightarrow> workflow_db \<Rightarrow>
     bool \<times> string \<times> jobj \<times> workflow_db" where
  "completion_outcome wv cx command_id result run succeeded found db =
     (let commands = snd found; details = aggregate_workflow_rollout_details wv commands command_id
      in if \<not> succeeded then (False, workflow_command_failure_message wv commands result, details, db)
         else case record_approved_workflow_snapshots wv (ec_now cx) run db of
           (recorded, db') \<Rightarrow>
             if recorded < length commands
             then (False, ''approved resource snapshot persistence failed'',
               update_fields [(''snapshot_error'', JObj [(''expected'', JInt (int (length commands))), (''recorded'', JInt (int recorded))])] details, db')
             else (True, ''all approved resource commands completed'', details, db'))"

definition close_run ::
    "workflow_env \<Rightarrow> event_context \<Rightarrow> string \<Rightarrow> jobj \<Rightarrow> bool \<Rightarrow> string \<Rightarrow> jobj \<Rightarrow> workflow_db \<Rightarrow> workflow_body list \<times> workflow_db" where
  "close_run wv cx command_id run succeeded message details db =
     (let status = (if succeeded then ''succeeded'' else ''failed'');
          attached = attach_workflow_command (run_text run ''workflow_run_id'') command_id (wd_runs db)
      in case update_workflow_run wv (update_fields [(''command_id'', JStr command_id)] (run_change run status ''health'' message details)) attached of
           (applied, runs) \<Rightarrow>
             (case announced_run cx run status ''health'' applied (db\<lparr>wd_runs := runs\<rparr>) of
                (None, db') \<Rightarrow> ([], db')
              | (Some _, db') \<Rightarrow>
                  (case record_step wv cx run ''apply'' status message details db' of
                     (applied_step, db'') \<Rightarrow>
                       if succeeded
                       then (case record_step wv cx run ''health'' ''succeeded'' ''rollout health completed'' details db'' of
                               (health_step, db3) \<Rightarrow> (applied_step @ health_step @ [completed_body run message details], db3))
                       else (applied_step @ [failed_body run message details], db''))))"

definition on_command_completed :: "workflow_env \<Rightarrow> event_context \<Rightarrow> string \<Rightarrow> jobj \<Rightarrow> workflow_db \<Rightarrow> workflow_body list \<times> workflow_db" where
  "on_command_completed wv cx command_id result db =
     (case get_workflow_identity_for_command wv command_id db of
        None \<Rightarrow> ([], db)
      | Some identity \<Rightarrow>
          let run = normalize_payload wv identity; id = run_text run ''workflow_run_id'';
              found = get_workflow_command_progress wv id db; status = workflow_command_progress_status wv found
          in if status = Waiting then ([], db)
             else case completion_outcome wv cx command_id result id (status = ProgressSucceeded) found db of
                    (succeeded, message, details, db') \<Rightarrow> close_run wv cx command_id run succeeded message details db')"

section \<open>The controller\<close>

datatype workflow_event =
    GitWebhookSeen jobj
  | GitChangeSeen jobj
  | ManifestRenderedSeen jobj
  | ManifestInvalidSeen jobj
  | DiffSeen gitops_diff
  | AnalysisSeen gitops_diff bool string string
  | SafePrCreatedSeen jobj
  | SafePrFailedSeen jobj
  | GrantSeen jobj
  | RejectionSeen jobj
  | CommandQueuedSeen jobj
  | CommandRejectedSeen jobj
  | CommandCompletedSeen string jobj
  | RunCompletedSeen jobj

fun control :: "workflow_env \<Rightarrow> event_context \<Rightarrow> workflow_event \<Rightarrow> workflow_db \<Rightarrow> workflow_error + workflow_body list \<times> workflow_db" where
  "control wv cx (GitWebhookSeen evt) db = on_git_webhook wv cx evt db"
| "control wv cx (GitChangeSeen evt) db = on_git_changed wv cx evt db"
| "control wv cx (ManifestRenderedSeen evt) db = Inr (on_manifest_rendered wv cx evt db)"
| "control wv cx (ManifestInvalidSeen evt) db = on_manifest_invalid wv cx evt db"
| "control wv cx (DiffSeen d) db = Inr (on_diff_detected wv cx d db)"
| "control wv cx (AnalysisSeen d safe risk reason) db = on_diff_analyzed wv cx d safe risk reason db"
| "control wv cx (SafePrCreatedSeen evt) db = Inr (on_safe_pr_created wv cx evt db)"
| "control wv cx (SafePrFailedSeen evt) db = Inr (on_safe_pr_failed wv cx evt db)"
| "control wv cx (GrantSeen evt) db = on_approval_granted wv cx evt db"
| "control wv cx (RejectionSeen evt) db = Inr (on_approval_rejected wv cx evt db)"
| "control wv cx (CommandQueuedSeen evt) db = Inr (on_command_queued wv cx evt db)"
| "control wv cx (CommandRejectedSeen evt) db = Inr (on_command_rejected wv cx evt db)"
| "control wv cx (CommandCompletedSeen command_id result) db = Inr (on_command_completed wv cx command_id result db)"
| "control wv cx (RunCompletedSeen evt) db = Inr (on_run_completed_promote wv evt db, db)"

end
