(* ===== verification/Workflow_Flow.thy ===== *)
theory Workflow_Flow
  imports Workflow_Controller
begin

text \<open>
  A deployment as a whole: the analyser that decides how the diff of a resource is treated and stores
  the decision (\<^verbatim>\<open>src/src/services/gitops/diff-analyze-worker/app.py\<close>), the two routes by which an
  operator decides (\<^verbatim>\<open>src/src/domains/gitops/router.py\<close>), the controller and the agents as one system
  of steps, and what holds of it.
\<close>

section \<open>Rollback patches\<close>

fun split_field_path_from :: "string \<Rightarrow> nat \<Rightarrow> string \<Rightarrow> string list" where
  "split_field_path_from current depth [] = (if current = [] then [] else [current])"
| "split_field_path_from current depth (c # cs) =
     (let depth' = (if c = CHR ''['' then depth + 1 else if c = CHR '']'' then depth - 1 else depth)
      in if c = CHR ''.'' \<and> depth' = 0 then current # split_field_path_from [] depth' cs
         else split_field_path_from (current @ [c]) depth' cs)"

text \<open>\<^verbatim>\<open>name[key=value]\<close>: the list, the key and the value.\<close>

definition parse_list_selector :: "string \<Rightarrow> (string \<times> string \<times> string) option" where
  "parse_list_selector part =
     (if CHR ''['' \<notin> set part \<or> last part \<noteq> CHR '']'' then None
      else let items = takeWhile (\<lambda>c. c \<noteq> CHR ''['') part; inner = butlast (tl (dropWhile (\<lambda>c. c \<noteq> CHR ''['') part));
               key = takeWhile (\<lambda>c. c \<noteq> CHR ''='') inner
           in if items = [] \<or> CHR ''='' \<notin> set inner \<or> key = [] then None
              else Some (items, key, tl (dropWhile (\<lambda>c. c \<noteq> CHR ''='') inner)))"

definition selected_item :: "workflow_env \<Rightarrow> string \<Rightarrow> string \<Rightarrow> json \<Rightarrow> bool" where
  "selected_item wv key value v = (case v of JObj d \<Rightarrow> payload_str wv d key [] = value | _ \<Rightarrow> False)"

text \<open>The first item that satisfies \<open>p\<close>, changed by \<open>f\<close>; None when there is none or \<open>f\<close> fails.\<close>

fun change_first :: "('a \<Rightarrow> bool) \<Rightarrow> ('a \<Rightarrow> 'a option) \<Rightarrow> 'a list \<Rightarrow> 'a list option" where
  "change_first p f [] = None"
| "change_first p f (x # xs) =
     (if p x then map_option (\<lambda>y. y # xs) (f x) else map_option (\<lambda>ys. x # ys) (change_first p f xs))"

definition put_or_pop :: "string \<Rightarrow> json \<Rightarrow> json \<Rightarrow> json option" where
  "put_or_pop key value v =
     (case v of
        JObj d \<Rightarrow> Some (JObj (if value = MISSING then AList.delete key d else AList.update key value d))
      | _ \<Rightarrow> None)"

text \<open>
  The child \<^verbatim>\<open>descend_manifest_path\<close> gives for one part, changed in place by \<open>f\<close>; None is the None of
  the walk or the False of the assignment.
\<close>

definition change_child :: "workflow_env \<Rightarrow> string \<Rightarrow> (json \<Rightarrow> json option) \<Rightarrow> json \<Rightarrow> json option" where
  "change_child wv part f parent =
     (case parent of
        JObj d \<Rightarrow>
          (case parse_list_selector part of
             None \<Rightarrow>
               (case jget d part of
                  Some (JObj e) \<Rightarrow> map_option (\<lambda>v. JObj (AList.update part v d)) (f (JObj e))
                | Some (JArr xs) \<Rightarrow> map_option (\<lambda>v. JObj (AList.update part v d)) (f (JArr xs))
                | _ \<Rightarrow> None)
           | Some (items, key, value) \<Rightarrow>
               (case jget d items of
                  Some (JArr xs) \<Rightarrow> map_option (\<lambda>ys. JObj (AList.update items (JArr ys) d)) (change_first (selected_item wv key value) f xs)
                | _ \<Rightarrow> None))
      | _ \<Rightarrow> None)"

text \<open>\<^verbatim>\<open>set_manifest_value\<close>; with a selector the key of the selector is set.\<close>

definition set_manifest_value :: "workflow_env \<Rightarrow> string \<Rightarrow> json \<Rightarrow> json \<Rightarrow> json option" where
  "set_manifest_value wv part value parent =
     (case parse_list_selector part of
        None \<Rightarrow> put_or_pop part value parent
      | Some (_, key, _) \<Rightarrow> change_child wv part (put_or_pop key value) parent)"

fun apply_rollback_value :: "workflow_env \<Rightarrow> string list \<Rightarrow> json \<Rightarrow> json \<Rightarrow> json option" where
  "apply_rollback_value wv [] value manifest = None"
| "apply_rollback_value wv [part] value manifest = set_manifest_value wv part value manifest"
| "apply_rollback_value wv (part # parts) value manifest = change_child wv part (apply_rollback_value wv parts value) manifest"

definition rollback_change :: "workflow_env \<Rightarrow> jobj \<Rightarrow> bool \<times> json \<Rightarrow> bool \<times> json" where
  "rollback_change wv change state =
     (let path = payload_str wv change ''field_path'' [];
          before = (case jget change ''before'' of Some v \<Rightarrow> v
            | None \<Rightarrow> (case jget change ''live'' of Some v \<Rightarrow> v | None \<Rightarrow> MISSING))
      in if payload_str wv change ''classification'' [] = ''already_converged'' \<or> path = [] then state
         else case apply_rollback_value wv (split_field_path_from [] 0 path) before (snd state) of
                None \<Rightarrow> state
              | Some manifest \<Rightarrow> (True, manifest))"

text \<open>\<^verbatim>\<open>build_rollback_manifest\<close>: the desired manifest with the values before the change; empty when none applies.\<close>

definition build_rollback_manifest :: "workflow_env \<Rightarrow> gitops_diff \<Rightarrow> jobj" where
  "build_rollback_manifest wv d =
     (if df_desired_manifest d = [] \<or> df_changes d = [] then []
      else case fold (rollback_change wv) (df_changes d) (False, JObj (df_desired_manifest d)) of
             (True, JObj manifest) \<Rightarrow> manifest
           | _ \<Rightarrow> [])"

text \<open>\<^verbatim>\<open>PurePosixPath(path).name\<close> of a path without dot segments.\<close>

definition path_name :: "string \<Rightarrow> string" where
  "path_name p = after_last_slash (rev (dropWhile (\<lambda>c. c = CHR ''/'') (rev p)))"

definition rollback_patch_path :: "gitops_diff \<Rightarrow> string" where
  "rollback_patch_path d =
     (let file = or_else (path_name (df_manifest_path d)) ''manifest.yaml'';
          file' = (if CHR ''.'' \<in> set file then file else file @ ''.yaml'');
          resource = or_else (map (\<lambda>c. if c = CHR ''/'' then CHR ''-'' else c) (df_resource d)) ''resource''
      in ''.gitops/rollback/'' @ df_workflow_run_id d @ ''/'' @ resource @ ''-'' @ file')"

definition build_rollback_patches :: "workflow_env \<Rightarrow> gitops_diff \<Rightarrow> json list" where
  "build_rollback_patches wv d =
     (let manifest = build_rollback_manifest wv d
      in if manifest = [] then []
         else [JObj [(''path'', JStr (rollback_patch_path d)), (''content'', JStr (wv_yaml wv manifest)),
                 (''description'', JStr ''rollback manifest generated from live/previous values'')]])"

section \<open>The analyser\<close>

definition decision_details :: "workflow_env \<Rightarrow> gitops_diff \<Rightarrow> policy_decision \<Rightarrow> jobj" where
  "decision_details wv d p =
     [(''policy_route'', JStr (pd_route p)), (''policy_decision_ref'', null_or_text (pd_policy_decision_ref p)),
      (''approval_ref'', null_or_text (pd_approval_ref p)), (''safe'', JBool (pd_safe p)), (''risk'', JStr (df_risk d)),
      (''diff'', JObj (diff_object d)), (''rollback_patches'', JArr (build_rollback_patches wv d))]"

definition decision_object :: "workflow_env \<Rightarrow> gitops_diff \<Rightarrow> policy_decision \<Rightarrow> string \<Rightarrow> string \<Rightarrow> jobj" where
  "decision_object wv d p approval_ref reason =
     [(''approval_id'', JStr approval_ref), (''workflow_run_id'', JStr (df_workflow_run_id d)),
      (''workspace_id'', JStr (df_workspace_id d)), (''application_id'', JStr (df_application_id d)),
      (''binding_id'', JStr (df_binding_id d)), (''environment'', JStr (df_environment d)),
      (''status'', JStr (if pd_route p = ''safe_pr'' then ''not_required'' else ''requested'')), (''reason'', JStr reason),
      (''requested_role'', JStr ''release_operator''), (''details'', JObj (decision_details wv d p))]"

text \<open>A route without an approval is not stored; one that is safe is granted at once.\<close>

definition persist_policy_decision :: "workflow_env \<Rightarrow> gitops_diff \<Rightarrow> policy_decision \<Rightarrow> string \<Rightarrow> approval_row list \<Rightarrow> approval_row list" where
  "persist_policy_decision wv d p reason approvals =
     (case pd_approval_ref p of
        None \<Rightarrow> approvals
      | Some approval_ref \<Rightarrow>
          if approval_ref = [] then approvals
          else let body = decision_object wv d p approval_ref reason; asked = request_approval wv body approvals
            in if pd_route p \<noteq> ''safe_pr'' then asked
               else resolve_workflow_approval wv (update_fields [(''status'', JStr ''granted''), (''decided_by'', JStr ''system-policy''),
                 (''decision'', JStr ''auto-approved'')] body) asked)"

definition recovery_decision :: "workflow_env \<Rightarrow> gitops_diff \<Rightarrow> policy_decision" where
  "recovery_decision wv d =
     (let approval_ref = derive_approval_id (wv_sha wv) (df_workflow_run_id d) (approval_qualifier (wv_render wv) d)
      in \<lparr>pd_route = ''recovery_pr_merged'', pd_safe = False, pd_reason = UnsafeReason, pd_approval_ref = Some approval_ref,
          pd_policy_decision_ref = Some (policy_decision_ref approval_ref ''recovery_pr_merged'')\<rparr>)"

text \<open>
  What the analyser publishes: the analysis (safe, risk, reason), and for the safe route a request for
  a pull request, which is a function of the diff and the decision.
\<close>

record analysis =
  an_diff :: gitops_diff
  an_safe :: bool
  an_risk :: string
  an_reason :: string
  an_safe_pr :: "policy_decision option"

definition on_desired_diff :: "workflow_env \<Rightarrow> gitops_diff \<Rightarrow> workflow_db \<Rightarrow> analysis \<times> workflow_db" where
  "on_desired_diff wv d db =
     (case authorization_of wv d db of
        ScopeRejected \<Rightarrow>
          (\<lparr>an_diff = d, an_safe = False, an_risk = df_risk d,
             an_reason = ''resource is outside the exact operator-reviewed recovery change'', an_safe_pr = None\<rparr>, db)
      | MergedRecovery _ \<Rightarrow>
          (let reason = ''operator-reviewed recovery PR merged''
           in (\<lparr>an_diff = d, an_safe = False, an_risk = df_risk d, an_reason = reason, an_safe_pr = None\<rparr>,
               db\<lparr>wd_approvals := persist_policy_decision wv d (recovery_decision wv d) reason (wd_approvals db)\<rparr>))
      | OrdinaryDiff \<Rightarrow>
          (let p = evaluate_safe_pr_policy (wv_sha wv) (wv_render wv) d; reason = wv_say wv (pd_reason p)
           in (\<lparr>an_diff = d, an_safe = pd_safe p, an_risk = df_risk d, an_reason = reason,
                an_safe_pr = (if pd_route p = ''safe_pr'' then Some p else None)\<rparr>,
               db\<lparr>wd_approvals := persist_policy_decision wv d p reason (wd_approvals db)\<rparr>)))"

text \<open>The analysis as the controller receives it.\<close>

definition analysis_event :: "analysis \<Rightarrow> workflow_event" where
  "analysis_event a = AnalysisSeen (an_diff a) (an_safe a) (an_risk a) (an_reason a)"

section \<open>The decision of an operator\<close>

datatype approval_error = ApprovalNotFound | ApprovalConflict | ApprovalDiffMissing | ApprovalDiffUnreadable body_error | ApprovalDenied

definition row_details :: "approval_row \<Rightarrow> jobj" where
  "row_details a = as_mapping (Some (ap_details a))"

definition approval_diff :: "approval_row \<Rightarrow> approval_error + pyval" where
  "approval_diff a =
     (case jget (row_details a) ''diff'' of
        Some (JObj d) \<Rightarrow> (case from_body False diff_class (JObj d) of Inl e \<Rightarrow> Inl (ApprovalDiffUnreadable e) | Inr v \<Rightarrow> Inr v)
      | _ \<Rightarrow> Inl ApprovalDiffMissing)"

definition approval_command_request :: "workflow_env \<Rightarrow> approval_row \<Rightarrow> pyval \<Rightarrow> string option \<Rightarrow> string \<Rightarrow> pyval" where
  "approval_command_request wv a diff reason user =
     (let stored = payload_or_empty wv (row_details a) ''policy_decision_ref'';
          ref = or_else stored (''approval:'' @ ap_approval_id a @ '':granted'')
      in PBody command_requested_body
           [PStr (or_else (attribute_text diff ''cluster_id'') ''default-target-cluster''), PStr ''apply_manifest'',
            PStr (or_else (attribute_text diff ''namespace'') ''sandbox''),
            PStr (or_else (case reason of None \<Rightarrow> [] | Some t \<Rightarrow> t) ''approval granted''), diff, PNull,
            PStr (ap_workspace_id a), PStr (ap_application_id a), PStr (ap_workflow_run_id a), PStr (ap_binding_id a),
            PStr (ap_environment a), PInt 100, PStr user, PNull, PStr (ap_approval_id a), PStr ref, PNull, PNull,
            PBool False, PBool False, PDict []])"

text \<open>The checks both routes make before they write; \<open>allowed\<close> is the permission on a cluster.\<close>

definition approval_to_decide ::
    "string \<Rightarrow> string \<Rightarrow> (string \<Rightarrow> bool) \<Rightarrow> workflow_db \<Rightarrow> approval_error + approval_row \<times> pyval" where
  "approval_to_decide approval_id ws allowed db =
     (case find_approval approval_id ws (wd_approvals db) of
        None \<Rightarrow> Inl ApprovalNotFound
      | Some a \<Rightarrow>
          if \<not> open_approval a then Inl ApprovalConflict
          else case approval_diff a of
                 Inl e \<Rightarrow> Inl e
               | Inr diff \<Rightarrow>
                   if allowed (or_else (attribute_text diff ''cluster_id'') ''default-target-cluster'') then Inr (a, diff)
                   else Inl ApprovalDenied)"

definition decision_event :: "approval_row \<Rightarrow> string \<Rightarrow> string \<Rightarrow> (string \<times> json) list \<Rightarrow> jobj \<Rightarrow> jobj" where
  "decision_event a ws user extra details =
     [(''approval_id'', JStr (ap_approval_id a)), (''workflow_run_id'', JStr (ap_workflow_run_id a)),
      (''application_id'', JStr (ap_application_id a)), (''workspace_id'', JStr ws), (''binding_id'', JStr (ap_binding_id a)),
      (''environment'', JStr (ap_environment a)), (''decided_by'', JStr user)] @ extra @ [(''details'', JObj details)]"

definition grant_approval ::
    "workflow_env \<Rightarrow> time \<Rightarrow> string \<Rightarrow> string \<Rightarrow> (string \<Rightarrow> bool) \<Rightarrow> string option \<Rightarrow> string \<Rightarrow> workflow_db \<Rightarrow> approval_error + workflow_event \<times> workflow_db" where
  "grant_approval wv now ws user allowed reason approval_id db =
     (case approval_to_decide approval_id ws allowed db of
        Inl e \<Rightarrow> Inl e
      | Inr (a, diff) \<Rightarrow>
          let details = update_fields [(''decision_reason'', null_or_text reason),
                (''command_requested'', to_body_value (approval_command_request wv a diff reason user))] (row_details a)
          in case resolve_workflow_approval_if_open now approval_id ws ''granted'' (Some user) (Some ''granted'') details (wd_approvals db) of
               (False, _) \<Rightarrow> Inl ApprovalConflict
             | (True, approvals) \<Rightarrow>
                 Inr (GrantSeen (decision_event a ws user [(''decision'', JStr ''granted'')] details), db\<lparr>wd_approvals := approvals\<rparr>))"

definition reject_approval ::
    "workflow_env \<Rightarrow> time \<Rightarrow> string \<Rightarrow> string \<Rightarrow> (string \<Rightarrow> bool) \<Rightarrow> string option \<Rightarrow> string \<Rightarrow> workflow_db \<Rightarrow> approval_error + workflow_event \<times> workflow_db" where
  "reject_approval wv now ws user allowed reason approval_id db =
     (case approval_to_decide approval_id ws allowed db of
        Inl e \<Rightarrow> Inl e
      | Inr (a, diff) \<Rightarrow>
          let why = or_else (case reason of None \<Rightarrow> [] | Some t \<Rightarrow> t) ''approval rejected'';
              details = update_fields [(''decision_reason'', JStr why)] (row_details a)
          in case resolve_workflow_approval_if_open now approval_id ws ''rejected'' (Some user) (Some ''rejected'') details (wd_approvals db) of
               (False, _) \<Rightarrow> Inl ApprovalConflict
             | (True, approvals) \<Rightarrow>
                 Inr (RejectionSeen (decision_event a ws user [(''reason'', JStr why)] details), db\<lparr>wd_approvals := approvals\<rparr>))"

section \<open>Payload keys\<close>

lemma jget_normalized [simp]:
  "jget (normalize_payload wv p) ''workspace_id'' = Some (JStr (payload_str wv p ''workspace_id'' ''default''))"
  "jget (normalize_payload wv p) ''environment'' = Some (JStr (payload_str wv p ''environment'' ''sandbox''))"
  "jget (normalize_payload wv p) ''cluster_id'' = Some (JStr (payload_str wv p ''cluster_id'' ''default-target-cluster''))"
  by (simp_all add: normalize_payload_def Let_def jget_update_fields)

lemma normalized_other:
  "k \<notin> {''repository_id'', ''watch_target_id'', ''binding_id'', ''application_id'', ''workflow_run_id'', ''workspace_id'', ''environment'', ''cluster_id''} \<Longrightarrow>
   jget (normalize_payload wv p) k = jget p k"
  by (simp add: normalize_payload_def Let_def jget_update_fields)

lemma explicit_run_id: "jget p ''workflow_run_id'' = Some (JStr t) \<Longrightarrow> t \<noteq> [] \<Longrightarrow> derive_workflow_run_id wv p = t"
  by (simp add: derive_workflow_run_id_def explicit_id_def id_or_def py_truthy_def py_str_def)

lemma normalized_run_id:
  "jget p ''workflow_run_id'' = Some (JStr t) \<Longrightarrow> t \<noteq> [] \<Longrightarrow>
   jget (normalize_payload wv p) ''workflow_run_id'' = Some (JStr t)"
  by (simp add: normalize_payload_def Let_def jget_update_fields explicit_run_id)

lemma run_text_jget: "jget p k = Some (JStr t) \<Longrightarrow> run_text p k = t"
  by (simp add: run_text_def)

lemma run_change_keys [simp]:
  "jget (run_change run status step summary metadata) ''status'' = Some (JStr status)"
  "jget (run_change run status step summary metadata) ''workflow_run_id'' = jget run ''workflow_run_id''"
  by (simp_all add: run_change_def jget_update_fields)

lemma payload_text_status [simp]: "jget p k = Some (JStr t) \<Longrightarrow> payload_str wv p k dflt = t"
  by (simp add: payload_str_def text_of_def py_str_def)

section \<open>What an operation may do to the runs\<close>

definition run_key :: "workflow_row \<Rightarrow> string list" where
  "run_key r =
     [wr_workflow_run_id r, wr_workspace_id r, wr_application_id r, wr_binding_id r, wr_environment r, wr_cluster_id r, wr_commit_sha r]"

definition run_rank :: "workflow_row \<Rightarrow> nat" where
  "run_rank r = status_rank WORKFLOW_STATUS_RANKS (wr_status r)"

definition forward :: "workflow_row \<Rightarrow> workflow_row \<Rightarrow> bool" where
  "forward r r' \<longleftrightarrow> run_key r' = run_key r \<and>
     (wr_status r' = wr_status r \<or> (wr_status r \<notin> set TERMINAL_WORKFLOW_STATUSES \<and> run_rank r \<le> run_rank r'))"

lemma forward_refl [simp]: "forward r r"
  by (simp add: forward_def)

lemma forward_trans: "forward r s \<Longrightarrow> forward s t \<Longrightarrow> forward r t"
  by (auto simp: forward_def run_rank_def)

definition workflow_statuses :: "string set" where
  "workflow_statuses = fst ` set WORKFLOW_STATUS_RANKS"

definition runs_ok :: "workflow_row list \<Rightarrow> bool" where
  "runs_ok runs \<longleftrightarrow> unique_key wr_workflow_run_id runs \<and> (\<forall>r \<in> set runs. wr_status r \<in> workflow_statuses)"

text \<open>
  \<open>run_effect i s\<close>: every run goes forward, and a run whose status is new is the run \<open>i\<close> in status \<open>s\<close>.
\<close>

definition run_effect :: "string \<Rightarrow> string \<Rightarrow> workflow_row list \<Rightarrow> workflow_row list \<Rightarrow> bool" where
  "run_effect i s runs runs' \<longleftrightarrow>
     (\<forall>r \<in> set runs. \<exists>r' \<in> set runs'. forward r r') \<and> (runs_ok runs \<longrightarrow> runs_ok runs') \<and>
     (\<forall>r' \<in> set runs'. (wr_workflow_run_id r' = i \<and> wr_status r' = s) \<or>
        (\<exists>r \<in> set runs. wr_workflow_run_id r = wr_workflow_run_id r' \<and> wr_status r = wr_status r'))"

lemma run_effect_refl [simp]: "run_effect i s runs runs"
  by (auto simp: run_effect_def intro: forward_refl)

lemma run_effect_map:
  assumes "\<And>r. forward r (g r)" "\<And>r. wr_status (g r) = wr_status r \<or> (wr_workflow_run_id (g r) = i \<and> wr_status (g r) = s)"
    and "s \<in> workflow_statuses"
  shows "run_effect i s runs (map g runs)"
proof -
  have id: "wr_workflow_run_id (g r) = wr_workflow_run_id r" for r using assms(1) [of r] by (simp add: forward_def run_key_def)
  then have ids: "map wr_workflow_run_id (map g runs) = map wr_workflow_run_id runs" by simp
  have ok: "wr_status (g r) \<in> workflow_statuses" if "wr_status r \<in> workflow_statuses" for r
    using assms(2) [of r] assms(3) that by auto
  have "(wr_workflow_run_id (g r) = i \<and> wr_status (g r) = s) \<or>
      (\<exists>q \<in> set runs. wr_workflow_run_id q = wr_workflow_run_id (g r) \<and> wr_status q = wr_status (g r))" if "r \<in> set runs" for r
    using assms(2) [of r] id [of r] that by auto
  then show ?thesis
    unfolding run_effect_def runs_ok_def unique_key_def ids using assms(1) ok by auto
qed

lemma run_effect_update:
  assumes "\<And>r. p r \<Longrightarrow> wr_workflow_run_id r = i \<and> wr_status (f r) = s \<and> run_key (f r) = run_key r \<and> run_may_become (wr_status r) s"
    and "s \<in> workflow_statuses"
  shows "run_effect i s runs (update_where p f runs)"
  unfolding update_where_def
proof (rule run_effect_map [OF _ _ assms(2)])
  fix r
  show "forward r (if p r then f r else r)"
    using assms(1) [of r] by (auto simp: forward_def run_rank_def run_may_become_def workflow_transition_guard_def)
  show "wr_status (if p r then f r else r) = wr_status r \<or>
      (wr_workflow_run_id (if p r then f r else r) = i \<and> wr_status (if p r then f r else r) = s)"
    using assms(1) [of r] by (auto simp: run_key_def)
qed

lemma run_effect_insert:
  assumes "wr_workflow_run_id new \<notin> wr_workflow_run_id ` set runs" "wr_status new \<in> workflow_statuses"
  shows "run_effect (wr_workflow_run_id new) (wr_status new) runs (runs @ [new])"
  using assms by (auto simp: run_effect_def runs_ok_def unique_key_def intro: forward_refl)

lemma attached_map:
  "attach_workflow_command run command_id runs =
   map (\<lambda>r. if wr_workflow_run_id r = run then r\<lparr>wr_command_id := Some command_id\<rparr> else r) runs"
  by (simp add: attach_workflow_command_def update_where_def)

lemma run_effect_before_map:
  assumes "run_effect i s (map f runs) runs'"
    and "\<And>r. wr_workflow_run_id (f r) = wr_workflow_run_id r" "\<And>r. wr_status (f r) = wr_status r" "\<And>r. forward r (f r)"
  shows "run_effect i s runs runs'"
proof -
  have "runs_ok (map f runs) = runs_ok runs" by (simp add: runs_ok_def unique_key_def comp_def assms(2,3))
  moreover have "\<exists>r' \<in> set runs'. forward r r'" if "r \<in> set runs" for r
    using assms(1) that forward_trans [OF assms(4) [of r]] unfolding run_effect_def by fastforce
  ultimately show ?thesis using assms(1) unfolding run_effect_def by (simp add: assms(2,3))
qed

lemma run_effect_attach:
  "run_effect i s (attach_workflow_command run command_id runs) runs' \<Longrightarrow> run_effect i s runs runs'"
  unfolding attached_map by (erule run_effect_before_map) (simp_all add: forward_def run_key_def run_rank_def)

lemma run_effect_attached: "s \<in> workflow_statuses \<Longrightarrow> run_effect i s runs (attach_workflow_command run command_id runs)"
  unfolding attached_map by (rule run_effect_map) (simp_all add: forward_def run_key_def run_rank_def)

lemma update_run_effect:
  assumes "jget p ''status'' = Some (JStr s)" "s \<in> workflow_statuses"
  shows "run_effect (derive_workflow_run_id wv p) s runs (snd (update_workflow_run wv p runs))"
  using assms unfolding update_workflow_run_def Let_def snd_conv
  by (intro run_effect_update) (auto simp: set_run_def run_key_def)

lemma start_run_effect:
  assumes "jget p ''status'' = Some (JStr s)" "s \<in> workflow_statuses"
  shows "run_effect (derive_workflow_run_id wv p) s runs (snd (start_workflow_run wv p runs))"
proof -
  have new: "wr_workflow_run_id (new_run wv p) = derive_workflow_run_id wv p" "wr_status (new_run wv p) = s"
    using assms(1) by (simp_all add: new_run_def)
  show ?thesis
    using run_effect_insert [of "new_run wv p" runs] assms(2) new unfolding start_workflow_run_def Let_def
    by (auto intro!: run_effect_update simp: run_key_def)
qed

section \<open>What the handlers do to the runs\<close>

definition some_effect :: "string \<Rightarrow> workflow_row list \<Rightarrow> workflow_row list \<Rightarrow> bool" where
  "some_effect s runs runs' \<longleftrightarrow> (\<exists>i. run_effect i s runs runs')"

lemma some_effect_refl [simp]: "some_effect s runs runs"
  by (simp add: some_effect_def)

lemma append_fact_runs [simp]: "wd_runs (snd (append_fact e db)) = wd_runs db" "wd_approvals (snd (append_fact e db)) = wd_approvals db"
  "wd_commands (snd (append_fact e db)) = wd_commands db" "wd_plans (snd (append_fact e db)) = wd_plans db"
  by (simp_all add: append_fact_def split_beta)

lemma announced_run_runs [simp]: "wd_runs (snd (announced_run cx run s k applied db)) = wd_runs db"
  "wd_approvals (snd (announced_run cx run s k applied db)) = wd_approvals db"
  by (simp_all add: announced_run_def split_beta)

lemma record_step_runs [simp]: "wd_runs (snd (record_step wv cx p step s m d db)) = wd_runs db"
  "wd_approvals (snd (record_step wv cx p step s m d db)) = wd_approvals db"
  "wd_commands (snd (record_step wv cx p step s m d db)) = wd_commands db"
  "wd_plans (snd (record_step wv cx p step s m d db)) = wd_plans db"
  by (simp_all add: record_step_def Let_def split_beta)

lemma moved_then_runs [simp]: "wd_runs (snd (moved_then wv cx outcome step s m d after)) = wd_runs (snd outcome)"
  "wd_approvals (snd (moved_then wv cx outcome step s m d after)) = wd_approvals (snd outcome)"
  by (cases outcome; cases "fst outcome"; simp add: moved_then_def split_beta)+

lemma for_run_runs [simp]: "snd (for_run run outcome) = snd outcome"
  by (simp add: for_run_def)

lemma transition_runs: "wd_runs (snd (transition_run wv cx p s k summary m db)) =
    snd (update_workflow_run wv (run_change (normalize_payload wv p) s k summary m) (wd_runs db))"
  by (simp add: transition_run_def Let_def split_beta)

lemma transition_approvals [simp]: "wd_approvals (snd (transition_run wv cx p s k summary m db)) = wd_approvals db"
  by (simp add: transition_run_def Let_def split_beta)

lemma transition_effect: "s \<in> workflow_statuses \<Longrightarrow> some_effect s (wd_runs db) (wd_runs (snd (transition_run wv cx p s k summary m db)))"
  unfolding some_effect_def transition_runs using update_run_effect by (metis run_change_keys(1))

lemma ensure_effect:
  assumes "ensure_run wv cx p s k summary m db = Inr outcome" "s \<in> workflow_statuses"
  shows "some_effect s (wd_runs db) (wd_runs (snd outcome))"
proof -
  have "\<exists>run. wd_runs (snd outcome) = snd (start_workflow_run wv (run_change run s k summary m) (wd_runs db))"
    using assms(1) unfolding ensure_run_def Let_def split_beta by (auto split: option.splits)
  then show ?thesis unfolding some_effect_def using start_run_effect [OF _ assms(2)] by (metis run_change_keys(1))
qed

lemma statuses [simp]:
  "''started'' \<in> workflow_statuses" "''rendering'' \<in> workflow_statuses" "''diffing'' \<in> workflow_statuses"
  "''policy_checking'' \<in> workflow_statuses" "''waiting_for_approval'' \<in> workflow_statuses" "''applying'' \<in> workflow_statuses"
  "''rollout_waiting'' \<in> workflow_statuses" "''succeeded'' \<in> workflow_statuses" "''failed'' \<in> workflow_statuses"
  by (simp_all add: workflow_statuses_def WORKFLOW_STATUS_RANKS_def)

lemma webhook_effect: "on_git_webhook wv cx evt db = Inr answer \<Longrightarrow> some_effect ''started'' (wd_runs db) (wd_runs (snd answer))"
  unfolding on_git_webhook_def split_beta
  by (auto split: sum.splits option.splits prod.splits dest!: ensure_effect)

lemma changed_effect: "on_git_changed wv cx evt db = Inr answer \<Longrightarrow> some_effect ''rendering'' (wd_runs db) (wd_runs (snd answer))"
  unfolding on_git_changed_def Let_def split_beta
  by (auto split: sum.splits option.splits prod.splits if_splits dest!: ensure_effect simp: split_beta)

lemma rendered_effect: "some_effect ''diffing'' (wd_runs db) (wd_runs (snd (on_manifest_rendered wv cx evt db)))"
  by (simp add: on_manifest_rendered_def Let_def transition_effect)

lemma invalid_effect: "on_manifest_invalid wv cx evt db = Inr answer \<Longrightarrow> some_effect ''failed'' (wd_runs db) (wd_runs (snd answer))"
  unfolding on_manifest_invalid_def Let_def by (auto split: sum.splits dest!: ensure_effect)

lemma diff_effect: "some_effect ''policy_checking'' (wd_runs db) (wd_runs (snd (on_diff_detected wv cx d db)))"
  by (simp add: on_diff_detected_def transition_effect)

lemma decided_effect: "s \<in> workflow_statuses \<Longrightarrow>
    some_effect s (wd_runs db) (wd_runs (snd (transition_run wv cx p s k summary m (db\<lparr>wd_approvals := approvals\<rparr>))))"
  using transition_effect [where db = "db\<lparr>wd_approvals := approvals\<rparr>"] by simp

lemma dispatch_effect:
  assumes "dispatch_merged_recovery wv cx d risk request run db = Inr answer"
  shows "some_effect ''applying'' (wd_runs db) (wd_runs (snd answer))"
proof -
  have "wd_runs (snd answer) = wd_runs db \<or>
      (\<exists>p k summary m approvals. wd_runs (snd answer) =
        wd_runs (snd (transition_run wv cx p ''applying'' k summary m (db\<lparr>wd_approvals := approvals\<rparr>))))"
    using assms unfolding dispatch_merged_recovery_def Let_def
    by (auto simp: split_beta split: bool.splits option.splits prod.splits) (metis snd_conv)
  then show ?thesis using decided_effect [of "''applying''" db] by auto
qed

lemma diff_object_keys [simp]:
  "jget (diff_object d) ''workflow_run_id'' = Some (JStr (df_workflow_run_id d))"
  "jget (diff_object d) ''workspace_id'' = Some (JStr (df_workspace_id d))"
  "jget (diff_object d) ''namespace'' = Some (JStr (df_namespace d))"
  "jget (diff_object d) ''resource'' = Some (JStr (df_resource d))"
  "jget (diff_object d) ''basis'' = Some (to_body_value (of_json (JObj (df_basis d))))"
  by (simp_all add: diff_object_def to_body_def diff_class_def diff_value_def wire_key_def jget_def)

lemma diff_payload_run_id:
  "df_workflow_run_id d \<noteq> [] \<Longrightarrow> jget (diff_payload wv d) ''workflow_run_id'' = Some (JStr (df_workflow_run_id d))"
  by (simp add: diff_payload_def Let_def normalized_run_id jget_update_fields)

lemma transition_named:
  assumes "jget p ''workflow_run_id'' = Some (JStr i)" "i \<noteq> []" "s \<in> workflow_statuses"
  shows "run_effect i s (wd_runs db) (wd_runs (snd (transition_run wv cx p s k summary m db)))"
proof -
  let ?q = "run_change (normalize_payload wv p) s k summary m"
  have "derive_workflow_run_id wv ?q = i" by (rule explicit_run_id) (simp_all add: normalized_run_id assms)
  with update_run_effect [of ?q s wv "wd_runs db"] assms(3) show ?thesis by (simp add: transition_runs)
qed

lemma noop_effect:
  "\<exists>i. run_effect i ''succeeded'' (wd_runs db) (wd_runs (snd (finish_noop wv cx d (diff_payload wv d) db))) \<and>
     (df_workflow_run_id d \<noteq> [] \<longrightarrow> i = df_workflow_run_id d)"
proof (cases "df_workflow_run_id d = []")
  case True
  have "some_effect ''succeeded'' (wd_runs db) (wd_runs (snd (finish_noop wv cx d (diff_payload wv d) db)))"
    by (simp add: finish_noop_def transition_effect)
  with True show ?thesis by (simp add: some_effect_def)
qed (auto simp: finish_noop_def transition_named diff_payload_run_id)

lemma policy_effect: "some_effect ''applying'' (wd_runs db) (wd_runs (snd (approve_by_policy wv cx d risk run db)))"
  by (simp add: approve_by_policy_def transition_effect)

lemma wait_effect: "some_effect ''waiting_for_approval'' (wd_runs db) (wd_runs (snd (wait_for_approval wv cx d risk reason run db)))"
  by (simp add: wait_for_approval_def Let_def transition_effect)

lemma analyzed_effect:
  assumes "on_diff_analyzed wv cx d safe risk reason db = Inr answer"
  shows "\<exists>i s. run_effect i s (wd_runs db) (wd_runs (snd answer)) \<and>
    (s = ''succeeded'' \<longrightarrow> is_image_only_noop d \<and> (df_workflow_run_id d \<noteq> [] \<longrightarrow> i = df_workflow_run_id d))"
proof -
  have routed: "\<exists>i s. run_effect i s (wd_runs db') (wd_runs (snd routed)) \<and>
      (s = ''succeeded'' \<longrightarrow> is_image_only_noop d \<and> (df_workflow_run_id d \<noteq> [] \<longrightarrow> i = df_workflow_run_id d))"
    if r: "route_analyzed wv cx d safe risk reason (diff_payload wv d) db' = Inr routed" for db' routed
  proof (cases "is_image_only_noop d")
    case True
    with r noop_effect [of db' wv cx d] show ?thesis by (auto simp: route_analyzed_def)
  next
    case False
    have other: ?thesis if "some_effect s (wd_runs db') (wd_runs (snd routed))" "s \<in> {''applying'', ''waiting_for_approval''}" for s
      using that by (auto simp: some_effect_def)
    show ?thesis
    proof (cases "authorization_of wv d db'")
      case OrdinaryDiff
      with r False have "routed = (if safe then approve_by_policy wv cx d risk (diff_payload wv d) db'
          else wait_for_approval wv cx d risk reason (diff_payload wv d) db')"
        by (simp add: route_analyzed_def)
      then show ?thesis
        using other [of "''applying''"] other [of "''waiting_for_approval''"]
          policy_effect [of db' wv cx d risk "diff_payload wv d"] wait_effect [of db' wv cx d risk reason "diff_payload wv d"]
        by (cases safe) simp_all
    next
      case ScopeRejected
      with r False have "routed = ([], db')" by (simp add: route_analyzed_def)
      then show ?thesis using other [of "''applying''"] by simp
    next
      case (MergedRecovery request)
      with r False have "dispatch_merged_recovery wv cx d risk request (diff_payload wv d) db' = Inr routed"
        by (simp add: route_analyzed_def)
      from other [OF dispatch_effect [OF this]] show ?thesis by simp
    qed
  qed
  let ?recorded = "record_step wv cx (diff_payload wv d) ''policy'' ''succeeded'' reason [(''safe'', JBool safe), (''risk'', JStr risk)] db"
  obtain routed where "route_analyzed wv cx d safe risk reason (diff_payload wv d) (snd ?recorded) = Inr routed" "snd answer = snd routed"
    using assms unfolding on_diff_analyzed_def Let_def by (auto simp: split_beta split: sum.splits)
  from routed [OF this(1)] this(2) show ?thesis by simp
qed

lemma pr_created_effect [simp]: "wd_runs (snd (on_safe_pr_created wv cx evt db)) = wd_runs db"
  by (simp add: on_safe_pr_created_def Let_def)

lemma pr_failed_effect: "some_effect ''failed'' (wd_runs db) (wd_runs (snd (on_safe_pr_failed wv cx evt db)))"
  by (simp add: on_safe_pr_failed_def Let_def transition_effect)

lemma grant_effect: "on_approval_granted wv cx evt db = Inr answer \<Longrightarrow> some_effect ''applying'' (wd_runs db) (wd_runs (snd answer))"
  unfolding on_approval_granted_def Let_def
  by (auto simp: split_beta decided_effect split: sum.splits)

lemma rejection_effect: "some_effect ''failed'' (wd_runs db) (wd_runs (snd (on_approval_rejected wv cx evt db)))"
  by (simp add: on_approval_rejected_def Let_def decided_effect)

lemma attached_effect:
  "s \<in> workflow_statuses \<Longrightarrow> wd_runs db' = attach_workflow_command run command_id (wd_runs db) \<Longrightarrow>
   some_effect s (wd_runs db) (wd_runs (snd (transition_run wv cx p s k summary m db')))"
  using transition_effect [of s db' wv cx p k summary m] by (auto simp: some_effect_def dest: run_effect_attach)

lemma queued_effect: "some_effect ''rollout_waiting'' (wd_runs db) (wd_runs (snd (on_command_queued wv cx evt db)))"
  by (auto simp: on_command_queued_def Let_def intro: attached_effect)

lemma command_rejected_effect: "some_effect ''failed'' (wd_runs db) (wd_runs (snd (on_command_rejected wv cx evt db)))"
  by (simp add: on_command_rejected_def Let_def transition_effect)

lemma derived_nonempty: "jget p ''workflow_run_id'' = Some (JStr t) \<Longrightarrow> derive_workflow_run_id wv p \<noteq> []"
  by (simp add: derive_workflow_run_id_def explicit_id_def id_or_def py_truthy_def py_str_def hashed_id_def)

lemma normalized_named:
  assumes "jget p ''workflow_run_id'' = Some (JStr t)"
  shows "\<exists>i. i \<noteq> [] \<and> jget (normalize_payload wv p) ''workflow_run_id'' = Some (JStr i)"
  using assms derived_nonempty [of _ t wv] by (simp add: normalize_payload_def Let_def jget_update_fields)

lemma identity_named:
  assumes "get_workflow_identity_for_command wv command_id db = Some identity"
  shows "\<exists>t. jget identity ''workflow_run_id'' = Some (JStr t)"
proof -
  have "\<exists>t. jget (identity_object run ws app_id binding environment cluster commit) ''workflow_run_id'' = Some (JStr t)"
    for run ws app_id binding environment cluster commit
    by (simp add: identity_object_def jget_def)
  with assms show ?thesis
    unfolding get_workflow_identity_for_command_def workflow_identity_from_queued_command_def Let_def
    by (auto split: option.splits if_splits bind_splits)
qed

lemma progress_succeeded:
  "workflow_command_progress_status wv found = ProgressSucceeded \<Longrightarrow> run_completed_ok wv (fst found) (snd found)"
  by (auto simp: workflow_command_progress_status_def run_completed_ok_def Let_def list_ex_iff list_all_iff split: if_splits)

lemma snapshots_runs [simp]: "wd_runs (snd (record_approved_workflow_snapshots wv now i db)) = wd_runs db"
  by (simp add: record_approved_workflow_snapshots_def Let_def split: option.splits)

lemma outcome_runs [simp]: "wd_runs (snd (snd (snd (completion_outcome wv cx command_id result i succeeded found db)))) = wd_runs db"
  by (simp add: completion_outcome_def Let_def split_beta)

lemma outcome_succeeds: "fst (completion_outcome wv cx command_id result i succeeded found db) \<Longrightarrow> succeeded"
  by (simp add: completion_outcome_def Let_def split_beta split: if_splits)

lemma close_effect:
  assumes "jget run ''workflow_run_id'' = Some (JStr i)" "i \<noteq> []"
  shows "run_effect i (if succeeded then ''succeeded'' else ''failed'') (wd_runs db)
    (wd_runs (snd (close_run wv cx command_id run succeeded message details db)))"
proof -
  let ?s = "if succeeded then ''succeeded'' else ''failed''"
  let ?p = "update_fields [(''command_id'', JStr command_id)] (run_change run ?s ''health'' message details)"
  let ?attached = "attach_workflow_command (run_text run ''workflow_run_id'') command_id (wd_runs db)"
  have p: "jget ?p ''status'' = Some (JStr ?s)" "jget ?p ''workflow_run_id'' = Some (JStr i)"
    using assms(1) by (simp_all add: jget_update_fields)
  have "wd_runs (snd (close_run wv cx command_id run succeeded message details db)) = snd (update_workflow_run wv ?p ?attached)"
    unfolding close_run_def Let_def
    by (cases "fst (announced_run cx run ?s ''health'' (fst (update_workflow_run wv ?p ?attached))
        (db\<lparr>wd_runs := snd (update_workflow_run wv ?p ?attached)\<rparr>))") (simp_all add: split_beta split: option.splits prod.splits)
  moreover have "run_effect (derive_workflow_run_id wv ?p) ?s ?attached (snd (update_workflow_run wv ?p ?attached))"
    by (rule update_run_effect [OF p(1)]) simp
  ultimately show ?thesis using explicit_run_id [OF p(2) assms(2)] run_effect_attach by simp
qed

lemma completed_effect:
  "\<exists>i s. run_effect i s (wd_runs db) (wd_runs (snd (on_command_completed wv cx command_id result db))) \<and>
     (s = ''succeeded'' \<longrightarrow> run_completed_ok wv (approvals_of i db) (commands_of wv i db))"
proof (cases "get_workflow_identity_for_command wv command_id db")
  case None
  then show ?thesis by (intro exI [of _ "[]"]) (simp add: on_command_completed_def)
next
  case (Some identity)
  then obtain t where "jget identity ''workflow_run_id'' = Some (JStr t)" using identity_named by blast
  then obtain i where i: "i \<noteq> []" "jget (normalize_payload wv identity) ''workflow_run_id'' = Some (JStr i)"
    using normalized_named by blast
  let ?run = "normalize_payload wv identity" and ?found = "(approvals_of i db, commands_of wv i db)"
  let ?status = "workflow_command_progress_status wv ?found"
  let ?o = "completion_outcome wv cx command_id result i (?status = ProgressSucceeded) ?found db"
  have answer: "on_command_completed wv cx command_id result db =
      (if ?status = Waiting then ([], db)
       else close_run wv cx command_id ?run (fst ?o) (fst (snd ?o)) (fst (snd (snd ?o))) (snd (snd (snd ?o))))"
    using Some i(2) by (simp add: on_command_completed_def get_workflow_command_progress_def run_text_def split_beta Let_def)
  show ?thesis
  proof (cases "?status = Waiting")
    case True
    then show ?thesis by (intro exI [of _ i] exI [of _ "''failed''"]) (simp add: answer)
  next
    case False
    have "run_completed_ok wv (approvals_of i db) (commands_of wv i db)" if "fst ?o"
      using progress_succeeded [of wv ?found] outcome_succeeds [OF that] by simp
    with False close_effect [OF i(2,1), of "fst ?o" "snd (snd (snd ?o))" wv cx command_id "fst (snd ?o)" "fst (snd (snd ?o))"]
    show ?thesis by (intro exI [of _ i] exI [of _ "if fst ?o then ''succeeded'' else ''failed''"]) (auto simp: answer)
  qed
qed

section \<open>The system\<close>

text \<open>
  One committed transaction: a handler of the controller, the analyser, a route of an operator, another
  service that asks for an approval, or one that writes the tables the workflow only reads.
\<close>

inductive deploy_step :: "workflow_env \<Rightarrow> workflow_db \<Rightarrow> workflow_db \<Rightarrow> bool" for wv where
  controlled: "control wv cx e db = Inr (bodies, db') \<Longrightarrow> deploy_step wv db db'"
| analysed: "on_desired_diff wv d db = (a, db') \<Longrightarrow> deploy_step wv db db'"
| granted: "grant_approval wv now ws user allowed reason approval_id db = Inr (e, db') \<Longrightarrow> deploy_step wv db db'"
| rejected: "reject_approval wv now ws user allowed reason approval_id db = Inr (e, db') \<Longrightarrow> deploy_step wv db db'"
| asked: "deploy_step wv db (db\<lparr>wd_approvals := request_approval wv p (wd_approvals db)\<rparr>)"
| outside: "deploy_step wv db (db\<lparr>wd_repositories := repositories, wd_bindings := bindings, wd_registrations := registrations,
    wd_commands := commands, wd_plans := plans\<rparr>)"

lemma desired_diff_runs [simp]: "wd_runs (snd (on_desired_diff wv d db)) = wd_runs db"
  by (simp add: on_desired_diff_def Let_def split: merge_route.split)

lemma decision_runs:
  "grant_approval wv now ws user allowed reason approval_id db = Inr (e, db') \<Longrightarrow> wd_runs db' = wd_runs db"
  "reject_approval wv now ws user allowed reason approval_id db = Inr (e, db') \<Longrightarrow> wd_runs db' = wd_runs db"
  by (auto simp: grant_approval_def reject_approval_def Let_def split: sum.splits prod.splits bool.splits)

text \<open>Why a step may end a run as succeeded.\<close>

definition applied_or_noop :: "workflow_env \<Rightarrow> workflow_db \<Rightarrow> workflow_db \<Rightarrow> string \<Rightarrow> bool" where
  "applied_or_noop wv db db' i \<longleftrightarrow>
     run_completed_ok wv (approvals_of i db) (commands_of wv i db) \<or>
     (\<exists>cx d safe risk reason bodies. control wv cx (AnalysisSeen d safe risk reason) db = Inr (bodies, db') \<and>
        is_image_only_noop d \<and> (df_workflow_run_id d \<noteq> [] \<longrightarrow> i = df_workflow_run_id d))"

lemma step_effect_of:
  "some_effect s (wd_runs db) (wd_runs db') \<Longrightarrow> s \<noteq> ''succeeded'' \<Longrightarrow>
   \<exists>i s. run_effect i s (wd_runs db) (wd_runs db') \<and> (s = ''succeeded'' \<longrightarrow> applied_or_noop wv db db' i)"
  by (auto simp: some_effect_def)

lemma control_run_effect:
  assumes "control wv cx e db = Inr (bodies, db')"
  shows "\<exists>i s. run_effect i s (wd_runs db) (wd_runs db') \<and> (s = ''succeeded'' \<longrightarrow> applied_or_noop wv db db' i)"
proof (cases e)
  case (GitWebhookSeen evt)
  with assms webhook_effect [of wv cx evt db "(bodies, db')"] show ?thesis by (intro step_effect_of) auto
next
  case (GitChangeSeen evt)
  with assms changed_effect [of wv cx evt db "(bodies, db')"] show ?thesis by (intro step_effect_of) auto
next
  case (ManifestRenderedSeen evt)
  with assms rendered_effect [of db wv cx evt] show ?thesis by (intro step_effect_of) auto
next
  case (ManifestInvalidSeen evt)
  with assms invalid_effect [of wv cx evt db "(bodies, db')"] show ?thesis by (intro step_effect_of) auto
next
  case (DiffSeen d)
  with assms diff_effect [of db wv cx d] show ?thesis by (intro step_effect_of) auto
next
  case (AnalysisSeen d safe risk reason)
  with assms obtain i s where "run_effect i s (wd_runs db) (wd_runs db')"
    "s = ''succeeded'' \<longrightarrow> is_image_only_noop d \<and> (df_workflow_run_id d \<noteq> [] \<longrightarrow> i = df_workflow_run_id d)"
    using analyzed_effect [of wv cx d safe risk reason db "(bodies, db')"] by auto
  with assms AnalysisSeen show ?thesis unfolding applied_or_noop_def by blast
next
  case (SafePrCreatedSeen evt)
  with assms pr_created_effect [of wv cx evt db] show ?thesis by (intro step_effect_of [of "''failed''"]) auto
next
  case (SafePrFailedSeen evt)
  with assms pr_failed_effect [of db wv cx evt] show ?thesis by (intro step_effect_of) auto
next
  case (GrantSeen evt)
  with assms grant_effect [of wv cx evt db "(bodies, db')"] show ?thesis by (intro step_effect_of) auto
next
  case (RejectionSeen evt)
  with assms rejection_effect [of db wv cx evt] show ?thesis by (intro step_effect_of) auto
next
  case (CommandQueuedSeen evt)
  with assms queued_effect [of db wv cx evt] show ?thesis by (intro step_effect_of) auto
next
  case (CommandRejectedSeen evt)
  with assms command_rejected_effect [of db wv cx evt] show ?thesis by (intro step_effect_of) auto
next
  case (CommandCompletedSeen command_id result)
  with assms completed_effect [of db wv cx command_id result] show ?thesis by (auto simp: applied_or_noop_def)
next
  case (RunCompletedSeen evt)
  with assms show ?thesis by (intro step_effect_of [of "''failed''"]) auto
qed

lemma deploy_effect:
  assumes "deploy_step wv db db'"
  shows "\<exists>i s. run_effect i s (wd_runs db) (wd_runs db') \<and> (s = ''succeeded'' \<longrightarrow> applied_or_noop wv db db' i)"
proof -
  have same: ?thesis if "wd_runs db' = wd_runs db"
    using that step_effect_of [of "''failed''" db db' wv] by simp
  from assms show ?thesis
  proof cases
    case (controlled cx e bodies)
    then show ?thesis by (rule control_run_effect)
  next
    case (analysed d a)
    then show ?thesis using desired_diff_runs [of wv d db] by (intro same) simp
  qed (auto intro: same decision_runs)
qed

definition runs_forward :: "workflow_row list \<Rightarrow> workflow_row list \<Rightarrow> bool" where
  "runs_forward runs runs' \<longleftrightarrow> (\<forall>r \<in> set runs. \<exists>r' \<in> set runs'. forward r r')"

lemma deploy_forward: "deploy_step wv db db' \<Longrightarrow> runs_forward (wd_runs db) (wd_runs db')"
  using deploy_effect [of wv db db'] by (auto simp: run_effect_def runs_forward_def)

lemma deploys_forward: "(deploy_step wv)\<^sup>*\<^sup>* db db' \<Longrightarrow> runs_forward (wd_runs db) (wd_runs db')"
proof (induction rule: rtranclp_induct)
  case base
  show ?case by (auto simp: runs_forward_def intro: forward_refl)
next
  case (step y z)
  with deploy_forward [OF step(2)] show ?case unfolding runs_forward_def by (meson forward_trans)
qed

interpretation deploys: invariant_system "\<lambda>db. wd_runs db = []" "deploy_step wv" "\<lambda>db. runs_ok (wd_runs db)"
proof unfold_locales
  show "runs_ok (wd_runs db)" if "wd_runs db = []" for db :: workflow_db
    using that by (simp add: runs_ok_def unique_key_def)
  show "runs_ok (wd_runs db')" if "runs_ok (wd_runs db)" "deploy_step wv db db'" for db db'
    using deploy_effect [OF that(2)] that(1) by (auto simp: run_effect_def)
qed

text \<open>Known statuses that are not the last are told apart by their rank.\<close>

lemma rank_strict:
  assumes "a \<in> workflow_statuses" "b \<in> workflow_statuses" "a \<noteq> b" "a \<notin> set TERMINAL_WORKFLOW_STATUSES"
    and "status_rank WORKFLOW_STATUS_RANKS a \<le> status_rank WORKFLOW_STATUS_RANKS b"
  shows "status_rank WORKFLOW_STATUS_RANKS a < status_rank WORKFLOW_STATUS_RANKS b"
proof -
  have "list_all (\<lambda>a. list_all (\<lambda>b. a \<noteq> b \<and> a \<notin> set TERMINAL_WORKFLOW_STATUSES \<longrightarrow>
      status_rank WORKFLOW_STATUS_RANKS a \<noteq> status_rank WORKFLOW_STATUS_RANKS b) (map fst WORKFLOW_STATUS_RANKS))
      (map fst WORKFLOW_STATUS_RANKS)"
    by code_simp
  with assms show ?thesis unfolding workflow_statuses_def list_all_iff by fastforce
qed

text \<open>
  Claim C29. No transaction loses a workflow run or changes what it deploys, and its status only moves
  to one of a higher rank; a run that succeeded or failed keeps its status.
\<close>

theorem workflow_runs_only_move_forward:
  assumes "reachable_from (\<lambda>db. wd_runs db = []) (deploy_step wv) db" "(deploy_step wv)\<^sup>*\<^sup>* db db'"
    and "r \<in> set (wd_runs db)"
  shows "\<exists>r' \<in> set (wd_runs db'). run_key r' = run_key r \<and>
    (wr_status r' = wr_status r \<or>
     (wr_status r \<notin> set TERMINAL_WORKFLOW_STATUSES \<and> run_rank r < run_rank r'))"
proof -
  have ok: "runs_ok (wd_runs db)" by (rule deploys.reachable_inv [OF assms(1)])
  then have ok': "runs_ok (wd_runs db')" by (rule deploys.steps_inv [OF assms(2)])
  obtain r' where r': "r' \<in> set (wd_runs db')" "forward r r'"
    using deploys_forward [OF assms(2)] assms(3) by (auto simp: runs_forward_def)
  then show ?thesis
    using rank_strict [of "wr_status r" "wr_status r'"] ok ok' assms(3)
    by (intro bexI [OF _ r'(1)]) (auto simp: forward_def runs_ok_def run_rank_def)
qed


end
