(* ===== verification/Workflow_Approvals.thy ===== *)
theory Workflow_Approvals
  imports Workflow_Flow
begin

text \<open>
  The approvals of a deployment: what the analyser stores, what the controller announces and what an
  operator can decide, for one resource and for several of the same commit.
\<close>

section \<open>A transition that is applied\<close>

text \<open>No fact of the timeline comes from this event yet: it was not handled before.\<close>

definition fresh_event :: "event_context \<Rightarrow> workflow_db \<Rightarrow> bool" where
  "fresh_event cx db \<longleftrightarrow>
     list_all (\<lambda>f. \<not> prefix (''application_workflow:'' @ ec_event_id cx @ '':'') (tl_source_key f)) (wd_facts db)"

lemma fresh_key: "fresh_event cx db \<Longrightarrow> f \<in> set (wd_facts db) \<Longrightarrow> tl_source_key f \<noteq> ''application_workflow:'' @ ec_event_id cx @ CHR '':'' # t"
  by (auto simp: fresh_event_def list_all_iff prefix_def)

lemma step_facts:
  "set (wd_facts (snd (record_step wv cx p step s m d db))) \<subseteq>
   insert (workflow_step_timeline_event cx (normalize_payload wv p) step s) (set (wd_facts db))"
  by (auto simp: record_step_def Let_def split_beta append_fact_def append_timeline_event_def)

lemma run_key_apart:
  assumes "fresh_event cx db" "f \<in> set (wd_facts (snd (record_step wv cx p step s m d db)))"
  shows "tl_source_key f \<noteq> tl_source_key (workflow_run_timeline_event cx run status k)"
proof -
  have "f = workflow_step_timeline_event cx (normalize_payload wv p) step s \<or> f \<in> set (wd_facts db)"
    using assms(2) step_facts [of wv cx p step s m d db] by blast
  then show ?thesis
    using fresh_key [OF assms(1)] by (auto simp: workflow_run_timeline_event_def workflow_step_timeline_event_def Let_def)
qed

lemma transition_applied:
  assumes "jget p ''workflow_run_id'' = Some (JStr i)" "i \<noteq> []"
    and "r \<in> set (wd_runs db)" "wr_workflow_run_id r = i" "run_may_become (wr_status r) s"
    and "\<And>f. f \<in> set (wd_facts db) \<Longrightarrow> tl_source_key f \<noteq> tl_source_key (workflow_run_timeline_event cx (normalize_payload wv p) s k)"
  shows "fst (transition_run wv cx p s k summary m db) = Some (normalize_payload wv p)"
    and "\<exists>r' \<in> set (wd_runs (snd (transition_run wv cx p s k summary m db))). wr_workflow_run_id r' = i \<and> wr_status r' = s"
proof -
  let ?run = "normalize_payload wv p"
  let ?q = "run_change ?run s k summary m"
  have q: "jget ?q ''status'' = Some (JStr s)" "derive_workflow_run_id wv ?q = i"
    using assms(1,2) by (auto intro: explicit_run_id simp: normalized_run_id)
  have hit: "wr_workflow_run_id r = derive_workflow_run_id wv ?q \<and>
      (jget ?q ''status'' = None \<or> run_may_become (wr_status r) (payload_str wv ?q ''status'' []))"
    using assms(4,5) q by simp
  have applied: "fst (update_workflow_run wv ?q (wd_runs db))"
    using assms(3) hit by (auto simp: update_workflow_run_def Let_def list_ex_iff)
  have "(tl_workspace_id (workflow_run_timeline_event cx ?run s k), tl_source_key (workflow_run_timeline_event cx ?run s k))
      \<notin> (\<lambda>f. (tl_workspace_id f, tl_source_key f)) ` set (wd_facts db)"
  proof (rule notI, elim imageE)
    fix f
    assume "(tl_workspace_id (workflow_run_timeline_event cx ?run s k), tl_source_key (workflow_run_timeline_event cx ?run s k)) =
        (tl_workspace_id f, tl_source_key f)" "f \<in> set (wd_facts db)"
    with assms(6) [of f] show False by simp
  qed
  with applied show "fst (transition_run wv cx p s k summary m db) = Some ?run"
    by (simp add: transition_run_def Let_def split_beta announced_run_def append_fact_def append_timeline_event_def)
  have "set_run wv ?q r \<in> set (wd_runs (snd (transition_run wv cx p s k summary m db)))"
    using assms(3) hit by (force simp: transition_runs update_workflow_run_def Let_def set_update_where)
  then show "\<exists>r' \<in> set (wd_runs (snd (transition_run wv cx p s k summary m db))). wr_workflow_run_id r' = i \<and> wr_status r' = s"
    using assms(4) q(1) by (intro bexI) (auto simp: set_run_def)
qed

lemma transition_refused:
  assumes "jget p ''workflow_run_id'' = Some (JStr i)" "i \<noteq> []"
    and "\<And>r. r \<in> set (wd_runs db) \<Longrightarrow> wr_workflow_run_id r = i \<Longrightarrow> \<not> run_may_become (wr_status r) s"
  shows "transition_run wv cx p s k summary m db = (None, db)"
proof -
  let ?q = "run_change (normalize_payload wv p) s k summary m"
  have q: "jget ?q ''status'' = Some (JStr s)" "derive_workflow_run_id wv ?q = i"
    using assms(1,2) by (auto intro: explicit_run_id simp: normalized_run_id)
  have "update_workflow_run wv ?q (wd_runs db) = (False, wd_runs db)"
    using assms(3) q by (auto simp: update_workflow_run_def Let_def list_ex_iff intro!: update_where_none)
  then show ?thesis by (simp add: transition_run_def announced_run_def)
qed

section \<open>The approval of one resource\<close>

lemma authorization_cong:
  "wd_plans db' = wd_plans db \<Longrightarrow> wd_runs db' = wd_runs db \<Longrightarrow> authorization_of wv d db' = authorization_of wv d db"
  by (simp add: authorization_of_def)

definition diff_approval :: "workflow_env \<Rightarrow> gitops_diff \<Rightarrow> string" where
  "diff_approval wv d = resource_approval_id wv (diff_payload wv d)"

text \<open>Handling an analysis of an ordinary diff is the policy step and what the route does.\<close>

lemma analysed_ordinary:
  assumes "authorization_of wv d db = OrdinaryDiff" "\<not> is_image_only_noop d"
  shows "\<exists>bodies db'. control wv cx (AnalysisSeen d False risk reason) db =
      Inr (bodies @ fst (wait_for_approval wv cx d risk reason (diff_payload wv d) db'),
           snd (wait_for_approval wv cx d risk reason (diff_payload wv d) db')) \<and>
    list_all (\<lambda>b. \<exists>x. b = WorkflowStepRecorded x) bodies \<and>
    db' = snd (record_step wv cx (diff_payload wv d) ''policy'' ''succeeded'' reason [(''safe'', JBool False), (''risk'', JStr risk)] db)"
proof -
  let ?recorded = "record_step wv cx (diff_payload wv d) ''policy'' ''succeeded'' reason [(''safe'', JBool False), (''risk'', JStr risk)] db"
  have "list_all (\<lambda>b. \<exists>x. b = WorkflowStepRecorded x) (fst ?recorded)"
    by (simp add: record_step_def Let_def split_beta step_body_def)
  moreover have "authorization_of wv d (snd ?recorded) = OrdinaryDiff"
    using assms(1) authorization_cong [of "snd ?recorded" db] by simp
  ultimately show ?thesis
    using assms(2) by (intro exI [of _ "fst ?recorded"] exI [of _ "snd ?recorded"])
      (simp add: on_diff_analyzed_def Let_def split_beta route_analyzed_def)
qed

lemma wait_announces:
  assumes "fst (transition_run wv cx run ''waiting_for_approval'' ''approval'' ''approval required before write''
      (route_details False risk ''approval_required'' (resource_approval_id wv run) d) db) \<noteq> None"
  shows "\<exists>b \<in> set (fst (wait_for_approval wv cx d risk reason run db)).
    \<exists>x. b = ApprovalRequested x \<and> jget x ''approval_id'' = Some (JStr (resource_approval_id wv run))"
  using assms
  by (auto simp: wait_for_approval_def Let_def moved_then_def for_run_def split_beta requested_body_def run_identity_def jget_def
      split: option.splits)

text \<open>
  Claim C32. A resource of which nothing is left to apply sends its run to wait for an approval nobody
  can give: the analyser stores no approval for it, the controller publishes the request for one all
  the same, and both routes of the operator answer that it does not exist.
\<close>

theorem unchanged_resource_waits_for_no_approval:
  assumes "\<not> df_has_changes d" "\<not> is_image_only_noop d" "authorization_of wv d db = OrdinaryDiff" "df_workflow_run_id d \<noteq> []"
    and "r \<in> set (wd_runs db)" "wr_workflow_run_id r = df_workflow_run_id d" "run_may_become (wr_status r) ''waiting_for_approval''"
    and "fresh_event cx db" "diff_approval wv d \<notin> ap_approval_id ` set (wd_approvals db)"
    and "on_desired_diff wv d db = (a, db1)"
  shows "\<exists>bodies db2. control wv cx (analysis_event a) db1 = Inr (bodies, db2) \<and>
    (\<exists>x. ApprovalRequested x \<in> set bodies \<and> jget x ''approval_id'' = Some (JStr (diff_approval wv d))) \<and>
    (\<exists>r' \<in> set (wd_runs db2). wr_workflow_run_id r' = df_workflow_run_id d \<and> wr_status r' = ''waiting_for_approval'') \<and>
    (\<forall>now ws user allowed why. grant_approval wv now ws user allowed why (diff_approval wv d) db2 = Inl ApprovalNotFound \<and>
       reject_approval wv now ws user allowed why (diff_approval wv d) db2 = Inl ApprovalNotFound)"
proof -
  let ?run = "diff_payload wv d"
  have a: "analysis_event a = AnalysisSeen d False (df_risk d) (an_reason a)" "db1 = db"
    using assms(1-3,10) by (auto simp: on_desired_diff_def Let_def evaluate_safe_pr_policy_def persist_policy_decision_def analysis_event_def)
  obtain bodies db' where step: "control wv cx (AnalysisSeen d False (df_risk d) (an_reason a)) db =
      Inr (bodies @ fst (wait_for_approval wv cx d (df_risk d) (an_reason a) ?run db'), snd (wait_for_approval wv cx d (df_risk d) (an_reason a) ?run db'))"
    and db': "db' = snd (record_step wv cx ?run ''policy'' ''succeeded'' (an_reason a) [(''safe'', JBool False), (''risk'', JStr (df_risk d))] db)"
    using analysed_ordinary [OF assms(3,2), of cx "df_risk d" "an_reason a"] by blast
  have runs: "wd_runs db' = wd_runs db" "wd_approvals db' = wd_approvals db" by (simp_all add: db')
  note moved = transition_applied [OF diff_payload_run_id [OF assms(4)] assms(4),
      where db = db' and s = "''waiting_for_approval''" and k = "''approval''" and cx = cx and wv = wv and r = r]
  have "fst (transition_run wv cx ?run ''waiting_for_approval'' ''approval'' summary m db') = Some (normalize_payload wv ?run)"
    "\<exists>r' \<in> set (wd_runs (snd (transition_run wv cx ?run ''waiting_for_approval'' ''approval'' summary m db'))).
       wr_workflow_run_id r' = df_workflow_run_id d \<and> wr_status r' = ''waiting_for_approval''" for summary m
    using moved assms(5-7) runs run_key_apart [OF assms(8)] db' by simp_all
  with wait_announces [of wv cx ?run "df_risk d" d db' "an_reason a"]
  have "\<exists>x. ApprovalRequested x \<in> set (fst (wait_for_approval wv cx d (df_risk d) (an_reason a) ?run db')) \<and>
      jget x ''approval_id'' = Some (JStr (diff_approval wv d))"
    "\<exists>r' \<in> set (wd_runs (snd (wait_for_approval wv cx d (df_risk d) (an_reason a) ?run db'))).
       wr_workflow_run_id r' = df_workflow_run_id d \<and> wr_status r' = ''waiting_for_approval''"
    by (auto simp: diff_approval_def wait_for_approval_def Let_def)
  moreover have "find_approval (diff_approval wv d) ws (wd_approvals (snd (wait_for_approval wv cx d (df_risk d) (an_reason a) ?run db'))) = None" for ws
    using assms(9) runs(2) by (auto simp: find_approval_def find_None_iff wait_for_approval_def Let_def image_iff)
  ultimately show ?thesis
    unfolding a step by (auto simp: grant_approval_def reject_approval_def approval_to_decide_def)
qed

section \<open>Several resources of one commit\<close>

lemma derived_approval_nonempty [simp]: "derive_approval_id sha i qualifier \<noteq> []"
  by (simp add: derive_approval_id_def)

definition stored_approval_id :: "workflow_env \<Rightarrow> gitops_diff \<Rightarrow> string" where
  "stored_approval_id wv d = derive_approval_id (wv_sha wv) (df_workflow_run_id d) (approval_qualifier (wv_render wv) d)"

lemma decision_object_keys [simp]:
  "jget (decision_object wv d p a reason) ''approval_id'' = Some (JStr a)"
  "jget (decision_object wv d p a reason) ''workflow_run_id'' = Some (JStr (df_workflow_run_id d))"
  "jget (decision_object wv d p a reason) ''status'' = Some (JStr (if pd_route p = ''safe_pr'' then ''not_required'' else ''requested''))"
  by (simp_all add: decision_object_def jget_def)

lemma stored_decision:
  assumes "a \<noteq> []" "df_workflow_run_id d \<noteq> []" "pd_route p \<noteq> ''safe_pr''"
  shows "ap_approval_id (new_approval wv (decision_object wv d p a reason)) = a"
    "ap_workflow_run_id (new_approval wv (decision_object wv d p a reason)) = df_workflow_run_id d"
    "ap_status (new_approval wv (decision_object wv d p a reason)) = ''requested''"
proof -
  show "ap_approval_id (new_approval wv (decision_object wv d p a reason)) = a"
    using assms(1) by (simp add: new_approval_def payload_approval_id_def payload_or_empty_def py_truthy_def py_str_def or_else_def)
  show "ap_workflow_run_id (new_approval wv (decision_object wv d p a reason)) = df_workflow_run_id d"
    using assms(2) explicit_run_id [of "decision_object wv d p a reason"] by (simp add: new_approval_def)
  show "ap_status (new_approval wv (decision_object wv d p a reason)) = ''requested''"
    using assms(3) by (simp add: new_approval_def)
qed

lemma persist_new:
  assumes "pd_approval_ref p = Some i" "i \<noteq> []" "pd_route p \<noteq> ''safe_pr''" "df_workflow_run_id d \<noteq> []"
    and "i \<notin> ap_approval_id ` set approvals"
  shows "persist_policy_decision wv d p reason approvals = approvals @ [new_approval wv (decision_object wv d p i reason)]"
  using assms stored_decision(1) [OF assms(2,4,3), of wv reason]
  by (simp add: persist_policy_decision_def Let_def request_approval_def)

lemma pending_not_succeeded:
  assumes "x \<in> set (fst found)" "ap_status x = ''requested''"
  shows "workflow_command_progress_status wv found \<noteq> ProgressSucceeded"
  using progress_succeeded [of wv found] assms by (auto simp: run_completed_ok_def list_all_iff)


section \<open>Deciding an approval\<close>

lemma to_decide:
  assumes "approval_to_decide i ws allowed db = Inr (a, diff)"
  shows "find_approval i ws (wd_approvals db) = Some a" "open_approval a" "approval_diff a = Inr diff"
  using assms by (auto simp: approval_to_decide_def split: option.splits if_splits sum.splits)

lemma found_approval:
  assumes "find_approval i ws approvals = Some a"
  shows "a \<in> set approvals" "ap_approval_id a = i" "ap_workspace_id a = ws"
  using find_in_set [OF assms [unfolded find_approval_def]] by simp_all

lemma find_decided:
  assumes "unique_key ap_approval_id approvals" "find_approval i ws approvals = Some a"
    and "p a" "\<And>x. p x \<Longrightarrow> ap_approval_id x = i"
  shows "find_approval i ws (update_where p (decided status who decision details) approvals) =
    Some (decided status who decision details a)"
proof -
  have "find_approval i ws (map g xs) = Some (g a)"
    if "find_approval i ws xs = Some a" "\<And>x. ap_approval_id (g x) = ap_approval_id x \<and> ap_workspace_id (g x) = ap_workspace_id x"
    for g and xs :: "approval_row list"
    using that by (induction xs) (auto simp: find_approval_def split: if_splits)
  from this [OF assms(2), of "\<lambda>x. if p x then decided status who decision details x else x"] assms(3)
  show ?thesis by (simp add: update_where_def decided_def)
qed

lemma resolved_approval:
  assumes "unique_key ap_approval_id approvals" "find_approval i ws approvals = Some a"
    and "resolve_workflow_approval_if_open now i ws status who decision details approvals = (True, approvals')"
  shows "find_approval i ws approvals' = Some (decided status who decision details a)" "unique_key ap_approval_id approvals'"
proof -
  obtain x where x: "x \<in> set approvals" "resolvable now i ws x"
    using assms(3) by (auto simp: resolve_workflow_approval_if_open_def list_ex_iff)
  have "x = a"
    using unique_keyD [OF assms(1) x(1) found_approval(1) [OF assms(2)]] x(2) found_approval(2) [OF assms(2)]
    by (simp add: resolvable_def)
  with x(2) find_decided [OF assms(1,2), of "resolvable now i ws"] assms(3)
  show "find_approval i ws approvals' = Some (decided status who decision details a)"
    by (auto simp: resolve_workflow_approval_if_open_def resolvable_def)
  show "unique_key ap_approval_id approvals'"
    using assms(1,3) unique_key_update_where by (fastforce simp: resolve_workflow_approval_if_open_def decided_def)
qed

lemma decided_is_closed:
  assumes "find_approval i ws (wd_approvals db) = Some b" "\<not> open_approval b"
  shows "grant_approval wv now ws user allowed why i db = Inl ApprovalConflict"
    "reject_approval wv now ws user allowed why i db = Inl ApprovalConflict"
  using assms by (simp_all add: grant_approval_def reject_approval_def approval_to_decide_def)

lemma read_typed: "from_body strict c raw = Inr v \<Longrightarrow> hint_ok (TBody c) \<Longrightarrow> has_type (TBody c) v"
  by (auto simp: from_body_def intro: decode_typed split: json.splits)

lemma diff_hint: "hint_ok (TBody diff_class)"
  by code_simp

lemma command_read_back:
  assumes "approval_diff a = Inr diff"
  shows "from_body False command_requested_body (to_body_value (approval_command_request wv a diff why user)) =
    Inr (approval_command_request wv a diff why user)"
proof (rule decode_object [OF _ command_requested_hint])
  have "\<exists>raw. from_body False diff_class raw = Inr diff"
    using assms by (auto simp: approval_diff_def split: option.splits json.splits sum.splits)
  then have "has_type (TBody diff_class) diff" using read_typed diff_hint by blast
  moreover have "plain (PDict [])" unfolding plain_def by simp
  ultimately show "has_type (TBody command_requested_body) (approval_command_request wv a diff why user)"
    by (simp add: approval_command_request_def command_requested_body_def Let_def)
qed

text \<open>What a grant does to the store, and the bodies of its steps.\<close>

definition granted_store :: "workflow_env \<Rightarrow> event_context \<Rightarrow> jobj \<Rightarrow> jobj \<Rightarrow> string \<Rightarrow> workflow_db \<Rightarrow> workflow_body list \<times> workflow_db" where
  "granted_store wv cx evt details decision db =
     (let run = normalize_payload wv evt
      in moved_then wv cx
           (for_run run (transition_run wv cx run ''applying'' ''apply'' ''approval granted; waiting for command execution'' details
             (db\<lparr>wd_approvals := resolve_workflow_approval wv (decision_payload run evt ''granted'' decision) (wd_approvals db)\<rparr>)))
           ''approval'' ''succeeded'' decision details (\<lambda>_. []))"

lemma granted_step:
  assumes "jget evt ''details'' = Some (JObj details)" "run_text evt ''decision'' = decision" "granted_command details = Inr commands"
  shows "on_approval_granted wv cx evt db =
    Inr (fst (granted_store wv cx evt details decision db) @ commands, snd (granted_store wv cx evt details decision db))"
proof -
  have details: "as_mapping (jget evt ''details'') = details" by (simp add: assms(1) as_mapping_def)
  show ?thesis unfolding on_approval_granted_def granted_store_def Let_def details assms(2,3) split_beta sum.case by (rule refl)
qed

lemma granted_store_parts:
  "list_all (\<lambda>s. \<exists>x. s = WorkflowStepRecorded x) (fst (granted_store wv cx evt details decision db))"
  "wd_approvals (snd (granted_store wv cx evt details decision db)) =
   resolve_workflow_approval wv (decision_payload (normalize_payload wv evt) evt ''granted'' decision) (wd_approvals db)"
  by (simp_all add: granted_store_def Let_def)
    (simp add: moved_then_def record_step_def step_body_def Let_def split_beta split: option.split)


end
