(* ===== verification/Workflow_Demo.thy ===== *)
theory Workflow_Demo
  imports Workflow_Approvals
begin

text \<open>
  A small deployment on which the properties of the workflow are applied: one application, one commit,
  a resource with and a resource without changes.
\<close>

section \<open>The deployment\<close>

definition wf_demo_env :: workflow_env where
  "wf_demo_env = \<lparr>wv_sha = (\<lambda>t. t), wv_render = (\<lambda>_. ''?''), wv_pg = (\<lambda>_. ''?''), wv_yaml = (\<lambda>_. []), wv_say = (\<lambda>_. ''reason''), wv_refuses = (\<lambda>_. False)\<rparr>"

definition wf_demo_context :: "string \<Rightarrow> event_context" where
  "wf_demo_context event_id = \<lparr>ec_event_id = event_id, ec_created_at = ''2025-01-01T00:00:00Z'', ec_now = 0\<rparr>"

definition wf_demo_diff :: "string \<Rightarrow> bool \<Rightarrow> gitops_diff" where
  "wf_demo_diff resource changed =
     \<lparr>df_resource = resource, df_namespace = ''game'', df_desired_image = [], df_actual_image = [], df_risk = ''non-sandbox-namespace'',
      df_workspace_id = ''w'', df_repository_id = ''repo'', df_watch_target_id = ''watch'', df_binding_id = ''binding'',
      df_application_id = ''app'', df_workflow_run_id = ''run'', df_environment = ''prod'', df_cluster_id = ''c'',
      df_manifest_path = ''deploy.yaml'', df_resource_class = ''application'',
      df_desired_manifest = [(''kind'', JStr ''Job''), (''metadata'', JObj [(''name'', JStr ''api''), (''namespace'', JStr ''game'')])],
      df_status = (if changed then ''intended_change'' else ''no_change''), df_has_changes = changed, df_changes = [], df_basis = []\<rparr>"

definition wf_demo_run :: "string \<Rightarrow> workflow_row" where
  "wf_demo_run status =
     \<lparr>wr_workflow_run_id = ''run'', wr_workspace_id = ''w'', wr_application_id = ''app'', wr_binding_id = ''binding'',
      wr_environment = ''prod'', wr_cluster_id = ''c'', wr_commit_sha = ''abc'', wr_status = status, wr_current_step = ''policy'',
      wr_summary = None, wr_command_id = Some ''cmd'', wr_metadata = []\<rparr>"

definition wf_demo_db :: "string \<Rightarrow> workflow_db" where
  "wf_demo_db status =
     \<lparr>wd_applications = [], wd_repositories = [], wd_bindings = [], wd_registrations = [], wd_runs = [wf_demo_run status],
      wd_steps = [], wd_approvals = [], wd_commands = [], wd_snapshots = [], wd_facts = [], wd_plans = []\<rparr>"

definition wf_demo_webhook :: jobj where
  "wf_demo_webhook =
     [(''commit_sha'', JStr ''abc''), (''image'', JStr ''img''), (''replicas'', JInt 1), (''workspace_id'', JStr ''w''),
      (''repository_id'', JStr ''repo''), (''repo_ref'', JStr ''acme/game''), (''branch'', JStr ''main''),
      (''watch_target_id'', JStr ''watch''), (''binding_id'', JStr ''binding''), (''application_id'', JStr ''app''),
      (''workflow_run_id'', JStr ''run''), (''environment'', JStr ''prod''), (''cluster_id'', JStr ''c''),
      (''manifest_path'', JStr ''deploy.yaml'')]"

definition wf_demo_started :: "workflow_error + workflow_body list \<times> workflow_db" where
  "wf_demo_started = control wf_demo_env (wf_demo_context ''e1'') (GitWebhookSeen wf_demo_webhook) ((wf_demo_db [])\<lparr>wd_runs := []\<rparr>)"

definition wf_demo_compared :: "workflow_body list \<times> workflow_db" where
  "wf_demo_compared = on_diff_detected wf_demo_env (wf_demo_context ''e2'') (wf_demo_diff ''Job/api'' True) (snd (projr wf_demo_started))"

definition wf_demo_approval :: approval_row where
  "wf_demo_approval =
     \<lparr>ap_approval_id = ''approval-1'', ap_workflow_run_id = ''run'', ap_workspace_id = ''w'', ap_application_id = ''app'',
      ap_binding_id = ''binding'', ap_environment = ''prod'', ap_status = ''requested'', ap_reason = [],
      ap_requested_role = ''release_operator'', ap_requested_by = None, ap_decided_by = None, ap_decision = None,
      ap_details = JObj [(''diff'', JObj (diff_object (wf_demo_diff ''Job/api'' True)))], ap_expires_at = None\<rparr>"

definition wf_demo_granted :: "approval_error + workflow_event \<times> workflow_db" where
  "wf_demo_granted = grant_approval wf_demo_env 0 ''w'' ''operator'' (\<lambda>_. True) None ''approval-1''
     ((wf_demo_db ''waiting_for_approval'')\<lparr>wd_approvals := [wf_demo_approval]\<rparr>)"

definition wf_demo_command :: agent_command where
  "wf_demo_command =
     \<lparr>gc_command_id = ''cmd'', gc_status = Completed,
      gc_payload = [(''workflow_run_id'', JStr ''run''), (''approval_ref'', JStr ''approval-1''),
        (''diff'', JObj (diff_object (wf_demo_diff ''Job/api'' True)))],
      gc_result = [(''status'', JStr ''completed''), (''applied'', JBool True)], gc_completed_at = Some 0\<rparr>"

definition wf_demo_applied :: workflow_db where
  "wf_demo_applied = (wf_demo_db ''rollout_waiting'')
     \<lparr>wd_approvals := [wf_demo_approval\<lparr>ap_status := ''granted''\<rparr>], wd_commands := [wf_demo_command]\<rparr>"

definition wf_demo_finished :: "workflow_body list \<times> workflow_db" where
  "wf_demo_finished = on_command_completed wf_demo_env (wf_demo_context ''e9'') ''cmd'' (gc_result wf_demo_command) wf_demo_applied"

section \<open>The properties at work\<close>

lemma started_ok: "\<not> isl wf_demo_started" "map wr_status (wd_runs (snd (projr wf_demo_started))) = [''started'']"
  "map wr_status (wd_runs (snd wf_demo_compared)) = [''policy_checking'']"
  by code_simp+

lemma granted_ok: "\<not> isl wf_demo_granted"
  by code_simp

lemma finished_ok: "map wr_status (wd_runs (snd wf_demo_finished)) = [''succeeded'']"
  by code_simp

lemma started_step: "deploy_step wf_demo_env ((wf_demo_db [])\<lparr>wd_runs := []\<rparr>) (snd (projr wf_demo_started))"
proof (rule deploy_step.controlled)
  show "control wf_demo_env (wf_demo_context ''e1'') (GitWebhookSeen wf_demo_webhook) ((wf_demo_db [])\<lparr>wd_runs := []\<rparr>) =
      Inr (fst (projr wf_demo_started), snd (projr wf_demo_started))"
    using started_ok(1) by (simp add: wf_demo_started_def [symmetric] del: control.simps)
qed

lemma compared_step: "deploy_step wf_demo_env (snd (projr wf_demo_started)) (snd wf_demo_compared)"
  by (rule deploy_step.controlled [where e = "DiffSeen (wf_demo_diff ''Job/api'' True)" and cx = "wf_demo_context ''e2''"
      and bodies = "fst wf_demo_compared"])
    (simp add: wf_demo_compared_def)

lemma finished_step: "deploy_step wf_demo_env wf_demo_applied (snd wf_demo_finished)"
  by (rule deploy_step.controlled [where e = "CommandCompletedSeen ''cmd'' (gc_result wf_demo_command)" and cx = "wf_demo_context ''e9''"
      and bodies = "fst wf_demo_finished"])
    (simp add: wf_demo_finished_def)

theorem workflow_runs_only_move_forward_witness:
  "\<exists>r' \<in> set (wd_runs (snd wf_demo_compared)). run_key r' = run_key (hd (wd_runs (snd (projr wf_demo_started)))) \<and>
    (wr_status r' = wr_status (hd (wd_runs (snd (projr wf_demo_started)))) \<or>
     (wr_status (hd (wd_runs (snd (projr wf_demo_started)))) \<notin> set TERMINAL_WORKFLOW_STATUSES \<and>
      run_rank (hd (wd_runs (snd (projr wf_demo_started)))) < run_rank r'))"
proof (rule workflow_runs_only_move_forward)
  show "reachable_from (\<lambda>db. wd_runs db = []) (deploy_step wf_demo_env) (snd (projr wf_demo_started))"
    unfolding reachable_from_def using started_step
    by (intro exI [of _ "(wf_demo_db [])\<lparr>wd_runs := []\<rparr>"]) (simp add: r_into_rtranclp)
  show "(deploy_step wf_demo_env)\<^sup>*\<^sup>* (snd (projr wf_demo_started)) (snd wf_demo_compared)"
    using compared_step by (rule r_into_rtranclp)
  show "hd (wd_runs (snd (projr wf_demo_started))) \<in> set (wd_runs (snd (projr wf_demo_started)))"
    using started_ok(2) by (intro list.set_sel(1)) auto
qed


theorem unchanged_resource_waits_for_no_approval_witness:
  "\<exists>bodies db2. control wf_demo_env (wf_demo_context ''e3'') (analysis_event (fst (on_desired_diff wf_demo_env (wf_demo_diff ''Job/api'' False) (wf_demo_db ''policy_checking''))))
      (snd (on_desired_diff wf_demo_env (wf_demo_diff ''Job/api'' False) (wf_demo_db ''policy_checking''))) = Inr (bodies, db2) \<and>
    (\<exists>x. ApprovalRequested x \<in> set bodies \<and> jget x ''approval_id'' = Some (JStr (diff_approval wf_demo_env (wf_demo_diff ''Job/api'' False)))) \<and>
    (\<exists>r' \<in> set (wd_runs db2). wr_workflow_run_id r' = df_workflow_run_id (wf_demo_diff ''Job/api'' False) \<and> wr_status r' = ''waiting_for_approval'') \<and>
    (\<forall>now ws user allowed why.
       grant_approval wf_demo_env now ws user allowed why (diff_approval wf_demo_env (wf_demo_diff ''Job/api'' False)) db2 = Inl ApprovalNotFound \<and>
       reject_approval wf_demo_env now ws user allowed why (diff_approval wf_demo_env (wf_demo_diff ''Job/api'' False)) db2 = Inl ApprovalNotFound)"
proof (rule unchanged_resource_waits_for_no_approval [where r = "wf_demo_run ''policy_checking''"])
  show "run_may_become (wr_status (wf_demo_run ''policy_checking'')) ''waiting_for_approval''" by code_simp
  show "authorization_of wf_demo_env (wf_demo_diff ''Job/api'' False) (wf_demo_db ''policy_checking'') = OrdinaryDiff" by code_simp
qed (simp_all add: wf_demo_diff_def wf_demo_db_def wf_demo_run_def fresh_event_def is_image_only_noop_def)



end
