(* ===== verification/Spec2Isabelle.thy ===== *)
theory Spec2Isabelle
  imports Command_Admission Command_Sweep Event_Worker Browser_Stream Agent_Outbox Git_Webhook Coverage_Query Alert_Routing Alert_Sources Agent_Policy
    Command_Handler Gitops_Diff Release_Dispatch Recovery_Flow Workflow_Demo
begin

text \<open>
  Verification library of the Kyro control plane.

  \<^bold>\<open>The program.\<close> Kyro operates Kubernetes clusters from a management plane. Requests enter
  through an HTTP gateway or a Git webhook and become events; events are stored together with
  the state change that caused them (ledger and transactional outbox), a relay publishes them,
  and workers consume them with at-least-once delivery. A command for a cluster passes policy
  gates, waits in a queue, is leased by the agent of that cluster, runs, and reports back
  through the agent's own durable outbox; the browser watches it on an ordered event stream.
  Git changes are compared with the live cluster, field by field, before a command is made of
  them. Everything below is under \<^verbatim>\<open>src/src/\<close>.

  \<^bold>\<open>Vocabulary.\<close> Kyro_Prelude has JSON values, the Python conversions the code applies to them,
  tables as lists of rows with the SQL statements on them, and three locales: keyed tables,
  systems with an invariant, and their reachable states. Storage_Schema has one record per
  table (\<^verbatim>\<open>domains/command/models.py\<close>, \<^verbatim>\<open>packages/storage/schema.py\<close>) and the database as the record
  of all tables. Every operation of a repository is a function from the database to an error
  or a new database with its result; time, fresh identifiers and locks held by others are
  arguments, so that theorems hold for every choice of them.

  \<^bold>\<open>Commands\<close> (\<^verbatim>\<open>domains/command\<close>). Command_Lifecycle: statuses and transitions. Operation_Stream:
  the numbered, closable event stream of a command and its replay; the append refines "entries
  up to the first terminal one". Command_Catalog and Builtin_Actions: the registry of actions
  and the declarations it is loaded with. Command_Queue, Command_Control, Command_Lease and
  Command_Expiry: every operation of \<^verbatim>\<open>repository.py\<close> that changes state. Command_Invariant proves
  one invariant of all of them (keys, attempts agree with commands, streams are open exactly
  while a command can still change), Command_Properties makes them a step relation,
  Command_Evolution follows one command through a run, Command_Contracts, Command_Admission and
  Command_Sweep state what each operation promises its caller. Command_Policy is the policy,
  the control namespaces, the management guard and the approval evidence (\<^verbatim>\<open>policy.py\<close>,
  \<^verbatim>\<open>handler.py\<close>, \<^verbatim>\<open>packages/config\<close>, \<^verbatim>\<open>domains/target/management_guard.py\<close>); Command_Handler is the
  handler of \<^verbatim>\<open>command.requested\<close> on top of both, shown to be a run of the step relation.

  \<^bold>\<open>Events\<close> (\<^verbatim>\<open>packages/events\<close>, \<^verbatim>\<open>packages/runtime\<close>, \<^verbatim>\<open>packages/contracts/event_bus\<close>). Event_Envelope,
  Event_Ledger, Dead_Letters, Event_Outbox and Event_Relay: the stores and the relay.
  Event_Worker: the processor as written, and the interleaving of any number of instances with
  crashes and redeliveries as a step relation, with the exactly-once and no-loss properties
  proved by rule induction. Event_Body: how a body is written to and read from the wire,
  following its type hints. Command_Bodies and Event_Catalog: every body class of the system
  with its fields, hints and defaults, the subjects and the registry.

  \<^bold>\<open>Streams to the browser and the agent.\<close> Operation_Broker (\<^verbatim>\<open>operation_events.py\<close>): bounded
  subscriptions. Browser_Stream: the server-sent events of a command
  (\<^verbatim>\<open>domains/command/router.py\<close>), with lost notifications and reconnects. Agent_Outbox: the result
  table of the cluster agent and its flush.

  \<^bold>\<open>GitOps\<close> (\<^verbatim>\<open>domains/gitops\<close>, \<^verbatim>\<open>services/gitops\<close>). Git_Webhook: from a GitHub payload to the published
  bodies. Gitops_Diff: the managed fields of an object, their three-way comparison, the field
  policy of the diff worker and the route of the analyser.

  \<^bold>\<open>Timeline coverage\<close> (\<^verbatim>\<open>domains/timeline/coverage.py\<close>, \<^verbatim>\<open>domains/inventory\<close>). Timeline_Coverage: the
  proof that a capture of Kubernetes events missed nothing, and the two projections of the stored
  captures on a window, at once and one capture at a time. Coverage_Query: the statement that
  bounds the read of the captures, with the conditions it puts on JSON columns.

  \<^bold>\<open>Alerts\<close> (\<^verbatim>\<open>domains/alert\<close>, \<^verbatim>\<open>services/alert/alert-worker\<close>). Alert_Store: the tables of rules, target
  states, events and channels with the statements on them. Alert_Evaluation: one sample of a rule,
  with its hold time and cooldown. Alert_Properties: runs of evaluations. Alert_History: one active
  event per target. Alert_Delivery and Alert_Routing: the deliveries of an event, its channels, and
  the commands a confirmed alert may start. Alert_Sources: alerts of incidents and of external
  systems, and the measurements a rule may use.

  \<^bold>\<open>Agent policy and reconciler\<close> (\<^verbatim>\<open>services/target/cluster-agent/control\<close>,
  \<^verbatim>\<open>packages/contracts/gateway/policy_merge.py\<close>). Agent_Control: the local store of the cluster agent
  (policy, staged hand-off, results per resource). Agent_Reconcile: which resources may be written,
  and the pass over the desired ones, with the cluster as a parameter. Agent_Policy: the merge of
  policies and the synchronisation with the management plane, with the self-upgrade that is staged
  before the policy becomes active.

  \<^bold>\<open>Release flow\<close> (\<^verbatim>\<open>domains/release_flow\<close>). Release_Preview: the dependency graph of a plan, its cycle
  search and its waves. Release_Policy: the gates of a wave (execution profile, approvals, change
  tickets, Safe PR evidence, windows and freezes, runbooks, owners, verification, diagnostics,
  alert channels). Release_Run: the tables of runs, steps and audit events with every operation on
  them, and the step relation of a run. Release_Dispatch: the verification jobs and the routes that
  start, advance, retry, pause, resume, cancel and roll back a run; a route is no transaction, so
  what it did before it failed is part of its result.

  \<^bold>\<open>Recovery\<close> (\<^verbatim>\<open>domains/rca\<close>, \<^verbatim>\<open>services/ai\<close>, \<^verbatim>\<open>domains/gitops/recovery_merge.py\<close>). Recovery_Evidence: the
  conditions on a window of evidence (metrics, replicas, alerts, protected workloads).
  Recovery_Verification: the verdict on a window, with the run of healthy windows a verification
  carries. Recovery_Store: the rows of plans, the compare-and-set of their lifecycle, the start of a
  verification, its evidence handler and its deadline sweep. Recovery_Merge: the plan the planner
  publishes, the paths into manifests, and the authorization of the diff of a merged pull request.
  Recovery_Plans: selection, approvals, the pull request events, failures and retries.
  Recovery_Flow: all of these as steps of one relation, with a ghost log of the judged windows, and
  the invariant of every plan.

  \<^bold>\<open>GitOps workflows\<close> (\<^verbatim>\<open>services/gitops/workflow-controller\<close>, \<^verbatim>\<open>services/gitops/diff-analyze-worker\<close>,
  \<^verbatim>\<open>domains/gitops/repository.py\<close>, \<^verbatim>\<open>domains/gitops/router.py\<close>). Workflow_Store: the derived identifiers,
  the tables of applications, runs, steps, approvals, commands and snapshots, and the guards on the
  statuses. Workflow_Controller: one definition per handler, from the webhook to the completed
  command, and \<open>control\<close>, which gives each event to its handler. Workflow_Flow: the analyser with its
  rollback patches, the routes that grant and reject an approval, what each operation may do to the
  runs, and all of them as transactions of one relation, with the invariant of the runs.
  Workflow_Approvals: what becomes of an approval through analyser, controller and routes.
  Workflow_Demo: concrete stores at which those theorems apply.

  \<^bold>\<open>What the lemmas show.\<close> Each component theory proves its invariant or its functional
  behaviour, errors included. Where one component relies on another, the laws are a locale that
  the provider's theory interprets on its own definitions (keyed tables, invariant systems, the
  payload codec, the rows and samples of alerts, the control store, the transactions of a workflow). A number of theorems are about
  behaviour the code should not have, each proved of the definitions translated from the code: the
  timer check that admits a double commit, the browser stream that stays open after the end, the
  Git events nobody can read, the repeated request that fails a waiting command, the removed label
  that is never applied, the short capture gap that fails every read of its window, the closed
  incident that silences the target of its rule, the repeated notification that undoes an
  acknowledgement, the observed resource that is never applied, the withdrawn upgrade that is still
  reconciled; of releases, the production namespace without an approval, the rollback over an ended
  run, the cancelled run that advances, the start that forgets published steps and the verification
  jobs that hold their wave; of recoveries, the failing window that earlier ones hide, the window
  overwritten by one judged at the same time, the merge that is never authorized and the refreshed
  pull request that is refused; of GitOps workflows, the unchanged resource that waits for an approval
  nobody stored and the later approvals that are never announced.

  \<^bold>\<open>Bounds.\<close> No definition uses fuel: loops are structural recursion, recursion on a smaller
  type hint, or on a shorter string, with the measure given. The flush loop of the agent outbox
  is bounded by the attempts that are left, which is proved. Integers of the source are
  unbounded Python integers; numbering in the database is a natural number. Measured values and
  thresholds of alert rules and of recoveries are rationals where Python has floats.

  \<^bold>\<open>Not modelled, and why.\<close> SQL is modelled by its effect on rows, not by its text; connection
  handling, migrations, logging and metrics are input and output. The HTTP routes beyond the
  stages named above only translate payloads. Strings are byte strings, so case folding is that
  of ASCII and a cut to a column's length counts bytes. Cryptographic digests, ISO timestamp
  parsing, the URL parsing of repository references, the text of YAML, of floats and of containers are
  parameters. The Kubernetes, Helm, GitHub and
  language-model clients drive services that are not in this repository. The rules
  that propose recovery candidates, the preflight and the AI pipelines are behind parameters or
  left out. Of the workflow controller the handler that attaches a new cluster to global bindings is
  left out, and of the timeline its sequence numbers. The rendering of release manifests, the release report and plan editing, the evidence
  policy, the pages of the timeline, sessions and rate limits, and the inventory are separate
  subsystems of read models and input and output, and are not part of this library.
\<close>

end
